(* ===== verification/SGW_Prelude.thy ===== *)
theory SGW_Prelude
  imports Main "HOL-Library.Word" "HOL-Library.AList"
begin

text \<open>
  Shared vocabulary of the development: the Go types the sources use (fixed-width
  integers, byte slices, maps, \<^verbatim>\<open>netip.Addr\<close>, \<^verbatim>\<open>time.Time\<close>), results of
  fallible code, the big-endian readers and writers of \<^verbatim>\<open>encoding/binary\<close>, and the
  interfaces (locales) that several components instantiate:
  \<^item> \<open>dict\<close>: what a Go map promises (interpreted on \<open>gomap\<close>);
  \<^item> \<open>tlv_stream\<close>: a parser of a concatenation of encoded elements;
  \<^item> \<open>event_system\<close>: an invariant kept by every operation of a component.
\<close>

unbundle bit_operations_syntax

named_theorems res_simps \<open>bind and case rules of the result type\<close>
named_theorems byte_simps \<open>big-endian readers and writers\<close>
named_theorems map_simps \<open>lookup after update of a Go map\<close>

section \<open>Integers and bytes\<close>

type_synonym u8 = "8 word"
type_synonym u16 = "16 word"
type_synonym u32 = "32 word"
type_synonym u64 = "64 word"
type_synonym bytes = "8 word list"

section \<open>Results of fallible code\<close>

text \<open>
  \<open>Ok\<close> is a normal return, \<open>Fail\<close> a returned Go \<^verbatim>\<open>error\<close>, \<open>Panic\<close> a run-time panic
  (index or slice bounds out of range, \<^verbatim>\<open>As4\<close> on an address without an IPv4 form).
\<close>

datatype ('e, 'a) outcome = Ok 'a | Fail 'e | Panic

primrec obind :: "('e, 'a) outcome \<Rightarrow> ('a \<Rightarrow> ('e, 'b) outcome) \<Rightarrow> ('e, 'b) outcome" where
  "obind (Ok x) f = f x"
| "obind (Fail e) f = Fail e"
| "obind Panic f = Panic"

declare obind.simps [res_simps]

primrec omap :: "('a \<Rightarrow> 'b) \<Rightarrow> ('e, 'a) outcome \<Rightarrow> ('e, 'b) outcome" where
  "omap f (Ok x) = Ok (f x)"
| "omap f (Fail e) = Fail e"
| "omap f Panic = Panic"

lemma obind_cong [fundef_cong]:
  "m = m' \<Longrightarrow> (\<And>x. m' = Ok x \<Longrightarrow> f x = g x) \<Longrightarrow> obind m f = obind m' g"
  by (cases m') auto

lemma obind_Ok_iff: "obind m f = Ok y \<longleftrightarrow> (\<exists>x. m = Ok x \<and> f x = Ok y)"
  by (cases m) auto

lemma obind_Fail_iff: "obind m f = Fail e \<longleftrightarrow> m = Fail e \<or> (\<exists>x. m = Ok x \<and> f x = Fail e)"
  by (cases m) simp_all

lemma obind_Panic_iff: "obind m f = Panic \<longleftrightarrow> m = Panic \<or> (\<exists>x. m = Ok x \<and> f x = Panic)"
  by (cases m) auto

lemma obind_assoc: "obind (obind m f) g = obind m (\<lambda>x. obind (f x) g)"
  by (cases m) auto

lemma omap_omap: "omap f (omap g m) = omap (f \<circ> g) m"
  by (cases m) auto

lemma omap_Ok_iff: "omap f m = Ok y \<longleftrightarrow> (\<exists>x. m = Ok x \<and> y = f x)"
  by (cases m) auto

lemma omap_Panic_iff: "omap f m = Panic \<longleftrightarrow> m = Panic"
  by (cases m) auto

text \<open>Wrapping an error: \<^verbatim>\<open>fmt.Errorf("...: %w", err)\<close>.\<close>

definition wrap_err :: "('e \<Rightarrow> 'f) \<Rightarrow> ('e, 'a) outcome \<Rightarrow> ('f, 'a) outcome" where
  "wrap_err f m = (case m of Ok x \<Rightarrow> Ok x | Fail e \<Rightarrow> Fail (f e) | Panic \<Rightarrow> Panic)"

lemma wrap_err_Ok_iff: "wrap_err f m = Ok x \<longleftrightarrow> m = Ok x"
  by (cases m) (simp_all add: wrap_err_def)

lemma wrap_err_Fail_iff: "wrap_err f m = Fail e \<longleftrightarrow> (\<exists>x. m = Fail x \<and> e = f x)"
  by (cases m) (auto simp: wrap_err_def)

text \<open>Indexing and slicing a Go slice; out of range they panic.\<close>

definition idx :: "'a list \<Rightarrow> nat \<Rightarrow> ('e, 'a) outcome" where
  "idx b i = (if i < length b then Ok (b ! i) else Panic)"

definition slc :: "'a list \<Rightarrow> nat \<Rightarrow> nat \<Rightarrow> ('e, 'a list) outcome" where
  "slc b i j = (if i \<le> j \<and> j \<le> length b then Ok (take (j - i) (drop i b)) else Panic)"

lemma idx_Ok [simp]: "i < length b \<Longrightarrow> idx b i = Ok (b ! i)"
  by (simp add: idx_def)

lemma slc_Ok [simp]: "i \<le> j \<Longrightarrow> j \<le> length b \<Longrightarrow> slc b i j = Ok (take (j - i) (drop i b))"
  by (simp add: slc_def)

section \<open>Big-endian integers (encoding/binary)\<close>

definition be16 :: "u16 \<Rightarrow> bytes" where
  "be16 w = [ucast (drop_bit 8 w), ucast w]"

definition be32 :: "u32 \<Rightarrow> bytes" where
  "be32 w = [ucast (drop_bit 24 w), ucast (drop_bit 16 w), ucast (drop_bit 8 w), ucast w]"

definition rd16 :: "u8 \<Rightarrow> u8 \<Rightarrow> u16" where
  "rd16 a b = push_bit 8 (ucast a) OR ucast b"

definition rd32 :: "u8 \<Rightarrow> u8 \<Rightarrow> u8 \<Rightarrow> u8 \<Rightarrow> u32" where
  "rd32 a b c d = push_bit 24 (ucast a) OR push_bit 16 (ucast b) OR push_bit 8 (ucast c) OR ucast d"

text \<open>\<^verbatim>\<open>binary.BigEndian.Uint16/Uint32\<close> at an offset of a slice.\<close>

definition get16 :: "bytes \<Rightarrow> nat \<Rightarrow> ('e, u16) outcome" where
  "get16 b i = (if i + 2 \<le> length b then Ok (rd16 (b ! i) (b ! (i + 1))) else Panic)"

definition get32 :: "bytes \<Rightarrow> nat \<Rightarrow> ('e, u32) outcome" where
  "get32 b i = (if i + 4 \<le> length b
     then Ok (rd32 (b ! i) (b ! (i + 1)) (b ! (i + 2)) (b ! (i + 3))) else Panic)"

lemma get16_Ok [simp]: "i + 2 \<le> length b \<Longrightarrow> get16 b i = Ok (rd16 (b ! i) (b ! (i + 1)))"
  by (simp add: get16_def)

lemma get32_Ok [simp]:
  "i + 4 \<le> length b \<Longrightarrow> get32 b i = Ok (rd32 (b ! i) (b ! (i + 1)) (b ! (i + 2)) (b ! (i + 3)))"
  by (simp add: get32_def)

lemma length_be16 [simp]: "length (be16 w) = 2"
  by (simp add: be16_def)

lemma length_be32 [simp]: "length (be32 w) = 4"
  by (simp add: be32_def)

text \<open>Reading behind a prefix, and reading what was written.\<close>

lemma idx_Cons [byte_simps]:
  "idx (x # b) 0 = Ok x" "idx (x # b) (Suc i) = idx b i" "idx (x # b) 1 = idx b 0"
  "idx (x # b) (numeral k) = idx b (pred_numeral k)"
  by (auto simp: idx_def numeral_eq_Suc)

lemma get16_Cons [byte_simps]:
  "get16 (x # b) (Suc i) = get16 b i" "get16 (x # b) 1 = get16 b 0"
  "get16 (x # b) (numeral k) = get16 b (pred_numeral k)"
  by (auto simp: get16_def numeral_eq_Suc)

lemma get32_Cons [byte_simps]:
  "get32 (x # b) (Suc i) = get32 b i" "get32 (x # b) 1 = get32 b 0"
  "get32 (x # b) (numeral k) = get32 b (pred_numeral k)"
  by (auto simp: get32_def numeral_eq_Suc)

lemma read_behind [byte_simps]:
  "length p \<le> i \<Longrightarrow> idx (p @ b) i = idx b (i - length p)"
  "length p \<le> i \<Longrightarrow> get16 (p @ b) i = get16 b (i - length p)"
  "length p \<le> i \<Longrightarrow> get32 (p @ b) i = get32 b (i - length p)"
  by (auto simp: idx_def get16_def get32_def nth_append Suc_diff_le)

lemma rd16_be16 [simp, byte_simps]: "rd16 (ucast (drop_bit 8 w)) (ucast w) = w"
  unfolding rd16_def by (intro bit_word_eqI) (auto simp: bit_simps)

lemma rd32_be32 [simp, byte_simps]:
  "rd32 (ucast (drop_bit 24 w)) (ucast (drop_bit 16 w)) (ucast (drop_bit 8 w)) (ucast w) = w"
proof (rule bit_word_eqI)
  fix n assume "n < LENGTH(32)"
  then consider "n < 8" | "8 \<le> n" "n < 16" | "16 \<le> n" "n < 24" | "24 \<le> n" "n < 32"
    by fastforce
  then show "bit (rd32 (ucast (drop_bit 24 w)) (ucast (drop_bit 16 w)) (ucast (drop_bit 8 w))
      (ucast w)) n = bit w n"
    unfolding rd32_def by cases (auto simp: bit_simps)
qed

lemma get_be [byte_simps]:
  "get16 (be16 v @ b) 0 = Ok v" "get16 (be16 v) 0 = Ok v"
  "get32 (be32 w @ b) 0 = Ok w" "get32 (be32 w) 0 = Ok w"
  by (simp_all add: get16_def get32_def be16_def be32_def)

lemma bit_u8_beyond: "\<not> bit (b :: u8) (8 + n)" "\<not> bit (b :: u8) (16 + n)" "\<not> bit (b :: u8) (24 + n)"
  by (auto dest: bit_imp_le_length)

lemma be16_rd16 [simp, byte_simps]: "be16 (rd16 a b) = [a, b]"
  unfolding rd16_def be16_def by (auto intro!: bit_word_eqI simp: bit_simps bit_u8_beyond)

lemma be32_rd32 [simp, byte_simps]: "be32 (rd32 a b c d) = [a, b, c, d]"
  unfolding rd32_def be32_def by (auto intro!: bit_word_eqI simp: bit_simps bit_u8_beyond)

lemma be32_inject [simp]: "be32 v = be32 w \<longleftrightarrow> v = w"
proof
  assume "be32 v = be32 w"
  then have "rd32 (be32 v ! 0) (be32 v ! 1) (be32 v ! 2) (be32 v ! 3) =
             rd32 (be32 w ! 0) (be32 w ! 1) (be32 w ! 2) (be32 w ! 3)"
    by simp
  then show "v = w" by (simp add: be32_def)
qed simp

lemma u8_eq_iff:
  "(x :: u8) = y \<longleftrightarrow> (bit x 0 \<longleftrightarrow> bit y 0) \<and> (bit x 1 \<longleftrightarrow> bit y 1) \<and> (bit x 2 \<longleftrightarrow> bit y 2) \<and>
     (bit x 3 \<longleftrightarrow> bit y 3) \<and> (bit x 4 \<longleftrightarrow> bit y 4) \<and> (bit x 5 \<longleftrightarrow> bit y 5) \<and>
     (bit x 6 \<longleftrightarrow> bit y 6) \<and> (bit x 7 \<longleftrightarrow> bit y 7)" (is "_ \<longleftrightarrow> ?R")
proof
  assume R: ?R
  show "x = y"
  proof (rule bit_word_eqI)
    fix n assume "n < LENGTH(8)"
    then have "n \<in> {0,1,2,3,4,5,6,7}" by auto
    with R show "bit x n = bit y n" by auto
  qed
qed simp

lemma unat_of_nat_u16 [simp]: "n < 65536 \<Longrightarrow> unat (of_nat n :: u16) = n"
  by (simp add: unat_of_nat take_bit_nat_eq_self)

text \<open>The 24-bit sequence number of a GTPv2-C or PFCP header.\<close>

definition seq24 :: "u8 \<Rightarrow> u8 \<Rightarrow> u8 \<Rightarrow> u32" where
  "seq24 a b c = push_bit 16 (ucast a) OR push_bit 8 (ucast b) OR ucast c"

lemma seq24_bytes:
  assumes "(s :: u32) < 0x1000000"
  shows "seq24 (ucast (drop_bit 16 s)) (ucast (drop_bit 8 s)) (ucast s) = s"
proof -
  have "unat (take_bit 24 s) = unat s"
    using assms by (simp add: unsigned_take_bit_eq word_less_nat_alt take_bit_nat_eq_self)
  then have t: "take_bit 24 s = s" by (rule word_unat_eq_iff [THEN iffD2])
  have hi: "\<not> bit s n" if "24 \<le> n" for n
    using that by (subst t [symmetric]) (simp add: bit_take_bit_iff)
  show ?thesis
  proof (rule bit_word_eqI)
    fix n assume "n < LENGTH(32)"
    then consider "n < 8" | "8 \<le> n" "n < 16" | "16 \<le> n" "n < 24" | "24 \<le> n" "n < 32"
      by fastforce
    then show "bit (seq24 (ucast (drop_bit 16 s)) (ucast (drop_bit 8 s)) (ucast s)) n = bit s n"
      unfolding seq24_def by cases (auto simp: bit_simps hi)
  qed
qed

section \<open>Addresses (net/netip)\<close>

text \<open>
  The zero \<^verbatim>\<open>netip.Addr\<close> is \<open>NoAddr\<close>; \<open>IP4\<close> holds the four octets as one word,
  \<open>IP6\<close> the sixteen (zones do not occur in the modelled code).
\<close>

datatype ip_addr = NoAddr | IP4 u32 | IP6 "128 word"

definition isValid :: "ip_addr \<Rightarrow> bool" where
  "isValid a \<longleftrightarrow> a \<noteq> NoAddr"

fun is4 :: "ip_addr \<Rightarrow> bool" where
  "is4 (IP4 _) = True"
| "is4 _ = False"

text \<open>\<^verbatim>\<open>As4\<close>: the IPv4 form, also of an IPv4-mapped IPv6 address; otherwise it panics.\<close>

fun as4 :: "ip_addr \<Rightarrow> ('e, bytes) outcome" where
  "as4 (IP4 w) = Ok (be32 w)"
| "as4 (IP6 w) = (if drop_bit 32 w = 0xFFFF then Ok (be32 (ucast w)) else Panic)"
| "as4 NoAddr = Panic"

definition addrFrom4 :: "u8 \<Rightarrow> u8 \<Rightarrow> u8 \<Rightarrow> u8 \<Rightarrow> ip_addr" where
  "addrFrom4 a b c d = IP4 (rd32 a b c d)"

section \<open>Time\<close>

text \<open>
  An instant is a number of nanoseconds after the zero \<^verbatim>\<open>time.Time\<close>, so \<^verbatim>\<open>IsZero\<close>
  is \<open>t = 0\<close>. A duration is an \<^verbatim>\<open>int64\<close> number of nanoseconds and \<^verbatim>\<open>Sub\<close>
  saturates at its bounds. Every operation that reads the clock takes its reading.
\<close>

type_synonym gtime = int
type_synonym duration = int

definition maxDuration :: duration where "maxDuration = 2 ^ 63 - 1"
definition minDuration :: duration where "minDuration = - (2 ^ 63)"

definition time_sub :: "gtime \<Rightarrow> gtime \<Rightarrow> duration" where
  "time_sub t u = max minDuration (min maxDuration (t - u))"

definition time_second :: duration where "time_second = 1000000000"

definition or_now :: "gtime \<Rightarrow> gtime \<Rightarrow> gtime" where
  "or_now now at = (if at = 0 then now else at)"

section \<open>Go maps\<close>

text \<open>
  A Go map is an association list without repeated keys. \<^verbatim>\<open>range\<close> visits the
  entries in list order; the language leaves that order open, so theorems about code that
  ranges over a map quantify over every list.
\<close>

type_synonym ('k, 'v) gomap = "('k \<times> 'v) list"

definition mget :: "('k, 'v) gomap \<Rightarrow> 'k \<Rightarrow> 'v option" where
  "mget m k = map_of m k"

definition mput :: "'k \<Rightarrow> 'v \<Rightarrow> ('k, 'v) gomap \<Rightarrow> ('k, 'v) gomap" where
  "mput k v m = AList.update k v m"

definition mdel :: "'k \<Rightarrow> ('k, 'v) gomap \<Rightarrow> ('k, 'v) gomap" where
  "mdel k m = AList.delete k m"

definition mkeys :: "('k, 'v) gomap \<Rightarrow> 'k set" where
  "mkeys m = fst ` set m"

definition mok :: "('k, 'v) gomap \<Rightarrow> bool" where
  "mok m \<longleftrightarrow> distinct (map fst m)"

text \<open>The interface the components rely on.\<close>

locale dict =
  fixes get :: "'m \<Rightarrow> 'k \<Rightarrow> 'v option"
    and put :: "'k \<Rightarrow> 'v \<Rightarrow> 'm \<Rightarrow> 'm"
    and del :: "'k \<Rightarrow> 'm \<Rightarrow> 'm"
    and ok :: "'m \<Rightarrow> bool"
  assumes get_put: "get (put k v m) k' = (if k' = k then Some v else get m k')"
    and get_del: "get (del k m) k' = (if k' = k then None else get m k')"
    and ok_put: "ok m \<Longrightarrow> ok (put k v m)"
    and ok_del: "ok m \<Longrightarrow> ok (del k m)"
begin

lemma get_put_same [simp]: "get (put k v m) k = Some v"
  by (simp add: get_put)

lemma get_put_other [simp]: "k' \<noteq> k \<Longrightarrow> get (put k v m) k' = get m k'"
  by (simp add: get_put)

lemma get_del_same [simp]: "get (del k m) k = None"
  by (simp add: get_del)

lemma get_del_other [simp]: "k' \<noteq> k \<Longrightarrow> get (del k m) k' = get m k'"
  by (simp add: get_del)

lemma get_put_twice: "get (put k v (put k w m)) = get (put k v m)"
  by (rule ext) (simp add: get_put)

lemma get_del_put: "get (del k (put k v m)) = get (del k m)"
  by (rule ext) (simp add: get_put get_del)

lemma get_fold_put:
  "get (fold (\<lambda>(k, v). put k v) kvs m) x =
     (case map_of (rev kvs) x of Some v \<Rightarrow> Some v | None \<Rightarrow> get m x)"
proof (induction kvs arbitrary: m)
  case Nil
  then show ?case by simp
next
  case (Cons kv kvs)
  obtain k v where kv: "kv = (k, v)" by (cases kv)
  show ?case
    by (simp add: kv Cons.IH get_put map_add_def split: option.splits)
qed

end

interpretation gm: dict mget mput mdel mok
proof
  fix k k' :: 'a and v :: 'b and m :: "('a, 'b) gomap"
  show "mget (mput k v m) k' = (if k' = k then Some v else mget m k')"
    by (simp add: mget_def mput_def update_conv')
  show "mget (mdel k m) k' = (if k' = k then None else mget m k')"
    by (simp add: mget_def mdel_def delete_conv')
  show "mok m \<Longrightarrow> mok (mput k v m)"
    by (simp add: mok_def mput_def distinct_update)
  show "mok m \<Longrightarrow> mok (mdel k m)"
    by (simp add: mok_def mdel_def distinct_delete)
qed

lemmas mget_mput [map_simps] = gm.get_put
lemmas mget_mdel [map_simps] = gm.get_del
lemmas mok_keeps [simp, intro] = gm.ok_put gm.ok_del

lemma mok_Nil [simp]: "mok []"
  by (simp add: mok_def)

lemma mget_Nil [simp]: "mget [] k = None"
  by (simp add: mget_def)

lemma mkeys_iff: "k \<in> mkeys m \<longleftrightarrow> mget m k \<noteq> None"
  by (simp add: mkeys_def mget_def map_of_eq_None_iff)

lemma mget_mem: "mget m k = Some v \<Longrightarrow> (k, v) \<in> set m"
  by (simp add: mget_def map_of_SomeD)

lemma mem_mget: "mok m \<Longrightarrow> (k, v) \<in> set m \<longleftrightarrow> mget m k = Some v"
  by (simp add: mok_def mget_def)

lemma mok_filter [simp]: "mok m \<Longrightarrow> mok (filter P m)"
  by (induction m) (auto simp: mok_def)

lemma mget_filter:
  "mok m \<Longrightarrow> mget (filter (\<lambda>(k, v). P k v) m) k =
     (case mget m k of Some v \<Rightarrow> (if P k v then Some v else None) | None \<Rightarrow> None)"
proof (induction m)
  case (Cons a m)
  obtain k' v' where a: "a = (k', v')" by (cases a)
  have "k' \<notin> fst ` set m" using Cons.prems by (simp add: mok_def a)
  then have "mget m k' = None" by (simp add: mget_def map_of_eq_None_iff)
  with Cons show ?case by (auto simp: a mok_def mget_def split: option.splits)
qed simp

lemma length_mdel: "mok m \<Longrightarrow> k \<in> mkeys m \<Longrightarrow> length (mdel k m) + 1 = length m"
  unfolding mdel_def mok_def mkeys_def
proof (induction m)
  case (Cons a m)
  show ?case
  proof (cases "fst a = k")
    case True
    then have "k \<notin> fst ` set m" using Cons.prems by auto
    then have "AList.delete k m = m" by (simp add: delete_id)
    with True show ?thesis by (cases a) simp
  next
    case False
    with Cons show ?thesis by (cases a) auto
  qed
qed simp

lemma mput_fresh: "k \<notin> mkeys m \<Longrightarrow> mput k v m = m @ [(k, v)]"
  by (induction m) (auto simp: mput_def mkeys_def)

lemma mdel_filter: "mdel k m = filter (\<lambda>e. fst e \<noteq> k) m"
  by (induction m) (auto simp: mdel_def)

lemma length_mput_fresh: "k \<notin> mkeys m \<Longrightarrow> length (mput k v m) = length m + 1"
  by (induction m) (auto simp: mput_def mkeys_def)

lemma length_mput_present: "k \<in> mkeys m \<Longrightarrow> length (mput k v m) = length m"
  by (induction m) (auto simp: mput_def mkeys_def)

section \<open>Interfaces shared by the components\<close>

text \<open>
  A parser of a stream of encoded elements: the empty input is the empty list, and an
  encoded element in front of the rest is parsed first.
\<close>

locale tlv_stream =
  fixes enc :: "'a \<Rightarrow> bytes"
    and parse :: "bytes \<Rightarrow> ('e, 'a list) outcome"
    and wf :: "'a \<Rightarrow> bool"
  assumes parse_Nil: "parse [] = Ok []"
    and parse_step: "wf x \<Longrightarrow> parse (enc x @ r) = obind (parse r) (\<lambda>xs. Ok (x # xs))"
begin

lemma parse_concat_append:
  "\<forall>x \<in> set xs. wf x \<Longrightarrow>
     parse (concat (map enc xs) @ r) = obind (parse r) (\<lambda>ys. Ok (xs @ ys))"
proof (induction xs)
  case Nil
  show ?case by (cases "parse r") simp_all
next
  case (Cons x xs)
  then show ?case
    by (cases "parse r") (simp_all add: parse_step)
qed

lemma parse_concat: "\<forall>x \<in> set xs. wf x \<Longrightarrow> parse (concat (map enc xs)) = Ok xs"
  using parse_concat_append [of xs "[]"] by (simp add: parse_Nil)

lemma enc_stream_inject:
  assumes "\<forall>x \<in> set xs. wf x" and "\<forall>y \<in> set ys. wf y"
    and "concat (map enc xs) = concat (map enc ys)"
  shows "xs = ys"
proof -
  have "Ok xs = parse (concat (map enc xs))" using assms(1) by (simp add: parse_concat)
  also have "\<dots> = parse (concat (map enc ys))" by (simp add: assms(3))
  also have "\<dots> = Ok ys" using assms(2) by (simp add: parse_concat)
  finally show ?thesis by simp
qed

end

text \<open>A component whose operations are events: an invariant every event keeps.\<close>

locale event_system =
  fixes step :: "'ev \<Rightarrow> 's \<Rightarrow> 's"
    and inv :: "'s \<Rightarrow> bool"
  assumes step_inv: "inv s \<Longrightarrow> inv (step e s)"
begin

lemma run_inv: "inv s \<Longrightarrow> inv (fold step es s)"
  by (induction es arbitrary: s) (auto intro: step_inv)

lemma every_prefix_inv: "inv s \<Longrightarrow> inv (fold step (take n es) s)"
  by (rule run_inv)

end

text \<open>
  A component whose operations are only called where a guard holds: the states it can be
  brought to, and the invariants of those states.
\<close>

inductive reaches :: "('ev \<Rightarrow> 's \<Rightarrow> 's) \<Rightarrow> ('ev \<Rightarrow> 's \<Rightarrow> bool) \<Rightarrow> 's \<Rightarrow> 's \<Rightarrow> bool"
  for step :: "'ev \<Rightarrow> 's \<Rightarrow> 's" and guard :: "'ev \<Rightarrow> 's \<Rightarrow> bool" and s :: 's where
  reaches_refl: "reaches step guard s s"
| reaches_step: "reaches step guard s t \<Longrightarrow> guard e t \<Longrightarrow> reaches step guard s (step e t)"

locale guarded_system =
  fixes step :: "'ev \<Rightarrow> 's \<Rightarrow> 's"
    and guard :: "'ev \<Rightarrow> 's \<Rightarrow> bool"
    and inv :: "'s \<Rightarrow> bool"
  assumes guarded_inv: "inv s \<Longrightarrow> guard e s \<Longrightarrow> inv (step e s)"
begin

lemma reaches_inv: "reaches step guard s t \<Longrightarrow> inv s \<Longrightarrow> inv t"
  by (induction rule: reaches.induct) (auto intro: guarded_inv)

lemma reaches_trans: "reaches step guard t u \<Longrightarrow> reaches step guard s t \<Longrightarrow> reaches step guard s u"
  by (induction rule: reaches.induct) (auto intro: reaches_step)

end

sublocale event_system \<subseteq> guarded_system step "\<lambda>e s. True" inv
  by unfold_locales (rule step_inv)

end
