(* ===== verification/TEID_Allocator.thy ===== *)
theory TEID_Allocator
  imports SGW_Prelude
begin

text \<open>
  The SGW-C control-plane TEID allocator (\<^verbatim>\<open>internal/sgwc/teid/allocator.go\<close>). The
  state is the \<^verbatim>\<open>used\<close> set; random numbers are an argument: \<open>rnd i\<close> is the outcome
  of the \<open>i\<close>-th read of \<^verbatim>\<open>crypto/rand\<close> in one call (\<open>None\<close>: the read failed).
  The lemmas show that \<open>Alloc\<close> hands out non-zero TEIDs that are not in use, that it
  fails only when 1024 attempts found none, and that along every history of calls no
  TEID is handed out twice without a release in between.
\<close>

type_synonym rand4 = "(u8 \<times> u8 \<times> u8 \<times> u8) option"

datatype teid_error = RandRead | AllocatorExhausted

record allocator =
  used :: "(u32, unit) gomap"

definition newAllocator :: allocator where
  "newAllocator = \<lparr>used = []\<rparr>"

definition randomU32 :: "rand4 \<Rightarrow> (teid_error, u32) outcome" where
  "randomU32 r = (case r of None \<Rightarrow> Fail RandRead | Some (a, b, c, d) \<Rightarrow> Ok (rd32 a b c d))"

text \<open>The loop of \<^verbatim>\<open>Alloc\<close>, with \<open>k\<close> attempts left: attempt number \<open>1024 - k\<close> reads.\<close>

fun alloc_loop :: "nat \<Rightarrow> (nat \<Rightarrow> rand4) \<Rightarrow> allocator \<Rightarrow> (teid_error, u32) outcome \<times> allocator" where
  "alloc_loop 0 rnd a = (Fail AllocatorExhausted, a)"
| "alloc_loop (Suc k) rnd a =
     (case randomU32 (rnd (1024 - Suc k)) of
        Ok t \<Rightarrow>
          if t = 0 then alloc_loop k rnd a
          else if mget (used a) t = None then (Ok t, a\<lparr>used := mput t () (used a)\<rparr>)
          else alloc_loop k rnd a
      | Fail e \<Rightarrow> (Fail e, a)
      | Panic \<Rightarrow> (Panic, a))"

definition alloc :: "(nat \<Rightarrow> rand4) \<Rightarrow> allocator \<Rightarrow> (teid_error, u32) outcome \<times> allocator" where
  "alloc rnd a = alloc_loop 1024 rnd a"

definition free :: "u32 \<Rightarrow> allocator \<Rightarrow> allocator" where
  "free t a = (if t = 0 then a else a\<lparr>used := mdel t (used a)\<rparr>)"

definition reserve :: "u32 \<Rightarrow> allocator \<Rightarrow> bool \<times> allocator" where
  "reserve t a =
     (if t = 0 then (False, a)
      else if mget (used a) t \<noteq> None then (False, a)
      else (True, a\<lparr>used := mput t () (used a)\<rparr>))"

definition teid_len :: "allocator \<Rightarrow> nat" where
  "teid_len a = length (used a)"

definition in_use :: "allocator \<Rightarrow> u32 set" where
  "in_use a = mkeys (used a)"

section \<open>One call\<close>

lemma in_use_new [simp]: "in_use newAllocator = {}"
  by (simp add: in_use_def newAllocator_def mkeys_def)

lemma in_use_put: "in_use (a\<lparr>used := mput t () (used a)\<rparr>) = insert t (in_use a)"
  by (auto simp: in_use_def mkeys_iff map_simps split: if_splits)

lemma in_use_del: "in_use (a\<lparr>used := mdel t (used a)\<rparr>) = in_use a - {t}"
  by (auto simp: in_use_def mkeys_iff map_simps split: if_splits)

lemma mget_used_None: "mget (used a) t = None \<longleftrightarrow> t \<notin> in_use a"
  by (cases "mget (used a) t") (simp_all add: in_use_def mkeys_iff)

lemma randomU32_not_Panic: "randomU32 r \<noteq> Panic"
  by (simp add: randomU32_def split: option.splits)

lemma alloc_loop_cases:
  "alloc_loop k rnd a = (r, a') \<Longrightarrow>
     (\<exists>t. r = Ok t \<and> t \<noteq> 0 \<and> t \<notin> in_use a \<and> a' = a\<lparr>used := mput t () (used a)\<rparr>) \<or>
     (r = Fail RandRead \<or> r = Fail AllocatorExhausted) \<and> a' = a"
proof (induction k arbitrary: r a')
  case (Suc k)
  show ?case
  proof (cases "randomU32 (rnd (1024 - Suc k))")
    case (Ok t)
    show ?thesis
    proof (cases "t = 0 \<or> t \<in> in_use a")
      case True
      then have "alloc_loop k rnd a = (r, a')"
        using Suc.prems Ok mget_used_None [of a t] by (auto split: if_splits)
      then show ?thesis by (rule Suc.IH)
    next
      case False
      then have "r = Ok t" "a' = a\<lparr>used := mput t () (used a)\<rparr>"
        using Suc.prems Ok mget_used_None [of a t] by simp_all
      with False show ?thesis by blast
    qed
  next
    case (Fail e)
    then have "e = RandRead" by (auto simp: randomU32_def split: option.splits)
    with Fail Suc show ?thesis by simp
  next
    case Panic
    then show ?thesis by (simp add: randomU32_not_Panic)
  qed
qed auto

lemma alloc_cases:
  assumes "alloc rnd a = (r, a')"
  obtains (ok) t where "r = Ok t" "t \<noteq> 0" "t \<notin> in_use a" "a' = a\<lparr>used := mput t () (used a)\<rparr>"
  | (failed) e where "r = Fail e" "a' = a"
  using alloc_loop_cases [of 1024 rnd a r a'] assms by (auto simp: alloc_def)

lemma alloc_Ok_in_use: "alloc rnd a = (Ok t, a') \<Longrightarrow> in_use a' = insert t (in_use a)"
  by (erule alloc_cases) (auto simp: in_use_put)

text \<open>Which TEID comes out: the first acceptable reading.\<close>

definition acceptable :: "allocator \<Rightarrow> rand4 \<Rightarrow> bool" where
  "acceptable a r \<longleftrightarrow> (\<exists>t. randomU32 r = Ok t \<and> t \<noteq> 0 \<and> t \<notin> in_use a)"

lemma alloc_loop_first:
  assumes "k \<le> 1024" and "i < k"
    and "\<forall>j < i. rnd (1024 - k + j) \<noteq> None"
    and "\<forall>j < i. \<not> acceptable a (rnd (1024 - k + j))"
    and "randomU32 (rnd (1024 - k + i)) = Ok t" and "t \<noteq> 0" and "t \<notin> in_use a"
  shows "fst (alloc_loop k rnd a) = Ok t"
  using assms
proof (induction k arbitrary: i)
  case 0
  then show ?case by simp
next
  case (Suc k)
  show ?case
  proof (cases i)
    case 0
    with Suc.prems show ?thesis by (simp add: mget_used_None)
  next
    case (Suc i')
    let ?r = "rnd (1024 - Suc k)"
    have "?r \<noteq> None" "\<not> acceptable a ?r"
      using Suc.prems(3,4) Suc by (auto dest: spec [of _ 0])
    then obtain u where u: "randomU32 ?r = Ok u" and bad: "u = 0 \<or> u \<in> in_use a"
      by (auto simp: randomU32_def acceptable_def split: option.splits)
    have shift: "1024 - k + j = 1024 - Suc k + Suc j" for j
      using Suc.prems(1) by simp
    have "fst (alloc_loop k rnd a) = Ok t"
    proof (rule Suc.IH [of i'])
      show "k \<le> 1024" "i' < k" "t \<noteq> 0" "t \<notin> in_use a" using Suc.prems Suc by auto
      show "\<forall>j<i'. rnd (1024 - k + j) \<noteq> None" "\<forall>j<i'. \<not> acceptable a (rnd (1024 - k + j))"
        using Suc.prems(3,4) unfolding shift Suc by auto
      show "randomU32 (rnd (1024 - k + i')) = Ok t"
        using Suc.prems(5) unfolding shift Suc .
    qed
    with u bad mget_used_None [of a u] show ?thesis by auto
  qed
qed

section \<open>Histories of calls\<close>

datatype teid_op = OpAlloc "nat \<Rightarrow> rand4" | OpFree u32 | OpReserve u32

text \<open>The TEID a call hands out, if any.\<close>

fun teid_step :: "teid_op \<Rightarrow> allocator \<Rightarrow> allocator" where
  "teid_step (OpAlloc rnd) a = snd (alloc rnd a)"
| "teid_step (OpFree t) a = free t a"
| "teid_step (OpReserve t) a = snd (reserve t a)"

fun teid_out :: "teid_op \<Rightarrow> allocator \<Rightarrow> u32 option" where
  "teid_out (OpAlloc rnd) a = (case fst (alloc rnd a) of Ok t \<Rightarrow> Some t | _ \<Rightarrow> None)"
| "teid_out (OpFree t) a = None"
| "teid_out (OpReserve t) a = (if fst (reserve t a) then Some t else None)"

definition teid_inv :: "allocator \<Rightarrow> bool" where
  "teid_inv a \<longleftrightarrow> mok (used a) \<and> 0 \<notin> in_use a"

lemma teid_inv_new [simp]: "teid_inv newAllocator"
  by (simp add: teid_inv_def newAllocator_def in_use_def mkeys_def)

lemma teid_step_in_use:
  "in_use (teid_step op a) =
     (case teid_out op a of Some t \<Rightarrow> insert t (in_use a)
      | None \<Rightarrow> (case op of OpFree t \<Rightarrow> in_use a - (if t = 0 then {} else {t}) | _ \<Rightarrow> in_use a))"
proof (cases op)
  case (OpAlloc rnd)
  then show ?thesis
    by (cases "alloc rnd a") (auto elim!: alloc_cases simp: in_use_put)
next
  case (OpFree t)
  then show ?thesis by (simp add: free_def in_use_del)
next
  case (OpReserve t)
  then show ?thesis by (auto simp: reserve_def in_use_put)
qed

lemma teid_out_fresh: "teid_out op a = Some t \<Longrightarrow> t \<noteq> 0 \<and> t \<notin> in_use a"
  by (cases op; cases "alloc (case op of OpAlloc r \<Rightarrow> r) a")
     (auto elim!: alloc_cases simp: reserve_def mget_used_None split: if_splits)

lemma teid_step_inv: "teid_inv a \<Longrightarrow> teid_inv (teid_step op a)"
proof -
  assume inv: "teid_inv a"
  have "mok (used (teid_step op a))"
    using inv
    by (cases op; cases "alloc (case op of OpAlloc r \<Rightarrow> r) a")
       (auto elim!: alloc_cases simp: teid_inv_def free_def reserve_def)
  moreover have "0 \<notin> in_use (teid_step op a)"
    using inv teid_out_fresh [of op a]
    by (auto simp: teid_step_in_use teid_inv_def split: option.splits teid_op.splits if_splits)
  ultimately show ?thesis by (simp add: teid_inv_def)
qed

interpretation teid_sys: event_system teid_step teid_inv
  by unfold_locales (rule teid_step_inv)

lemma in_use_until_freed:
  "t \<in> in_use a \<Longrightarrow> OpFree t \<notin> set ops \<Longrightarrow> t \<in> in_use (fold teid_step ops a)"
proof (induction ops arbitrary: a)
  case (Cons op ops)
  then have "t \<in> in_use (teid_step op a)"
    unfolding teid_step_in_use by (cases op) (auto split: option.splits)
  with Cons show ?case by simp
qed simp

text \<open>
  \<open>Alloc\<close> either hands out a TEID that is not zero and was not in use, records exactly
  that TEID as used and changes nothing else, or returns an error and leaves the allocator
  as it was.
\<close>

theorem alloc_fresh_or_unchanged:
  "case alloc rnd a of
     (Ok t, a') \<Rightarrow> t \<noteq> 0 \<and> t \<notin> in_use a \<and> in_use a' = insert t (in_use a)
   | (Fail e, a') \<Rightarrow> a' = a
   | (Panic, a') \<Rightarrow> False"
proof -
  obtain r a' where r: "alloc rnd a = (r, a')" by force
  from r show ?thesis
    by (cases rule: alloc_cases) (simp_all add: r in_use_put)
qed

text \<open>
  along every history of \<open>Alloc\<close>, \<open>Free\<close> and \<open>Reserve\<close> calls from a new allocator,
  a TEID that a call handed out is not handed out again by a later call unless it was
  released in between.
\<close>

theorem teid_unique_until_freed:
  assumes out: "teid_out op (fold teid_step before newAllocator) = Some t"
    and kept: "OpFree t \<notin> set between"
  shows "teid_out op' (fold teid_step (before @ op # between) newAllocator) \<noteq> Some t"
proof -
  let ?a = "fold teid_step before newAllocator"
  have "t \<in> in_use (teid_step op ?a)" by (simp add: teid_step_in_use out)
  then have "t \<in> in_use (fold teid_step between (teid_step op ?a))"
    using kept by (rule in_use_until_freed)
  then have "t \<in> in_use (fold teid_step (before @ op # between) newAllocator)" by simp
  then show ?thesis using teid_out_fresh by blast
qed

theorem teid_unique_until_freed_witness:
  "teid_out (OpReserve 7) (fold teid_step [OpReserve 7, OpReserve 9] newAllocator) \<noteq> Some 7"
proof -
  have out: "teid_out (OpReserve 7) (fold teid_step [] newAllocator) = Some 7"
    by (simp add: reserve_def newAllocator_def)
  show ?thesis
    using teid_unique_until_freed [OF out, of "[OpReserve 9]" "OpReserve 7"] by simp
qed

text \<open>
  \<open>Alloc\<close> is complete: if one of its 1024 readings is usable (a successful read of a
  non-zero TEID that is not in use) and no read before it failed, then \<open>Alloc\<close> returns
  the first usable one.
\<close>

theorem alloc_returns_first_usable:
  assumes "i < 1024" and "\<forall>j < i. rnd j \<noteq> None" and "\<forall>j < i. \<not> acceptable a (rnd j)"
    and "randomU32 (rnd i) = Ok t" and "t \<noteq> 0" and "t \<notin> in_use a"
  shows "fst (alloc rnd a) = Ok t"
  using alloc_loop_first [of 1024 i rnd a t] assms by (simp add: alloc_def)

theorem alloc_returns_first_usable_witness:
  "fst (alloc (\<lambda>i. if i = 0 then Some (0, 0, 0, 0) else Some (0, 0, 0, 5)) newAllocator) = Ok 5"
proof -
  have zero: "\<not> acceptable newAllocator (Some (0, 0, 0, 0))"
    by (simp add: acceptable_def randomU32_def rd32_def)
  have five: "randomU32 (Some (0, 0, 0, 5)) = Ok 5"
    by (simp add: randomU32_def rd32_def)
  show ?thesis
    by (rule alloc_returns_first_usable [of 1]) (use zero five in simp_all)
qed

end
