(* ===== verification/GTPU_Header.thy ===== *)
theory GTPU_Header
  imports SGW_Prelude
begin

text \<open>
  GTP-U headers and information elements (\<^verbatim>\<open>internal/sgwu/gtpu/header.go\<close> and
  \<^verbatim>\<open>ie.go\<close>). \<open>gtpu_parse\<close> and \<open>gtpu_marshal\<close> are \<^verbatim>\<open>Parse\<close> and \<^verbatim>\<open>Marshal\<close>; index and
  slice expressions are the panicking ones of the prelude, so that a bounds error of the
  source would be a \<open>Panic\<close> of the model. The lemmas show that parsing never panics, that
  the extension-header walk stays inside the declared length, that marshalling is parsed
  back, and that a parsed header is marshalled to the bytes it came from.
\<close>

section \<open>Header\<close>

definition MsgTypeEchoRequest :: u8 where "MsgTypeEchoRequest = 1"
definition MsgTypeEchoResponse :: u8 where "MsgTypeEchoResponse = 2"
definition MsgTypeErrorIndication :: u8 where "MsgTypeErrorIndication = 26"
definition MsgTypeEndMarker :: u8 where "MsgTypeEndMarker = 254"
definition MsgTypeGPDU :: u8 where "MsgTypeGPDU = 255"

definition hdrVersionMask :: u8 where "hdrVersionMask = 0xE0"
definition hdrVersionGTP :: u8 where "hdrVersionGTP = 0x20"
definition hdrPTFlag :: u8 where "hdrPTFlag = 0x10"
definition hdrEFlag :: u8 where "hdrEFlag = 0x04"
definition hdrSFlag :: u8 where "hdrSFlag = 0x02"
definition hdrPNFlag :: u8 where "hdrPNFlag = 0x01"

abbreviation (input) MinLen :: nat where "MinLen \<equiv> 8"
abbreviation (input) OptFieldsLen :: nat where "OptFieldsLen \<equiv> 4"

record gtpu_header =
  gVersion :: u8
  gPT :: bool
  gE :: bool
  gS :: bool
  gPN :: bool
  gMsgType :: u8
  gLength :: u16
  gTEID :: u32
  gSeqNum :: u16
  gNPDUNum :: u8
  gNextExtHdr :: u8
  gExtHeaders :: bytes

datatype gtpu_error =
    PacketTooShort | UnsupportedVersion u8 | PTIsZero | LengthExceedsPacket
  | TooShortForOptFields | LengthTooShortForOptFields
  | ExtChainPastLength | ExtLengthZero | ExtPastLength | NotIPv4

definition hasOptFields :: "gtpu_header \<Rightarrow> bool" where
  "hasOptFields h \<longleftrightarrow> gE h \<or> gS h \<or> gPN h"

definition wireLen :: "gtpu_header \<Rightarrow> nat" where
  "wireLen h = MinLen + (if hasOptFields h then OptFieldsLen + length (gExtHeaders h) else 0)"

text \<open>
  The extension-header loop of \<^verbatim>\<open>Parse\<close>: \<open>lim\<close> is the end of the declared packet,
  \<open>n\<close> the variable \<^verbatim>\<open>consumed\<close>, \<open>ty\<close> the variable \<^verbatim>\<open>nextType\<close>.
\<close>

function walk_ext :: "bytes \<Rightarrow> nat \<Rightarrow> nat \<Rightarrow> u8 \<Rightarrow> (gtpu_error, nat) outcome" where
  "walk_ext b lim n ty =
     (if ty = 0 then Ok n
      else if n \<ge> lim then Fail ExtChainPastLength
      else obind (idx b n) (\<lambda>l.
        if unat l * 4 < 4 then Fail ExtLengthZero
        else if n + unat l * 4 > lim then Fail ExtPastLength
        else obind (idx b (n + unat l * 4 - 1)) (\<lambda>nt. walk_ext b lim (n + unat l * 4) nt)))"
  by pat_completeness auto
termination
  by (relation "measure (\<lambda>(b, lim, n, ty). lim - n)") auto

declare walk_ext.simps [simp del]

text \<open>The optional fields and the extension headers, for a header with E, S or PN set.\<close>

definition parse_opt :: "bytes \<Rightarrow> gtpu_header \<Rightarrow> nat \<Rightarrow> (gtpu_error, gtpu_header \<times> nat) outcome" where
  "parse_opt b h tot =
     (if length b < MinLen + OptFieldsLen then Fail TooShortForOptFields
      else if tot < MinLen + OptFieldsLen then Fail LengthTooShortForOptFields
      else
        obind (get16 b 8) (\<lambda>seq.
        obind (idx b 10) (\<lambda>npdu.
        obind (idx b 11) (\<lambda>nxt.
        let h1 = h\<lparr>gSeqNum := seq, gNPDUNum := npdu, gNextExtHdr := nxt\<rparr>;
            n = MinLen + OptFieldsLen in
        if gE h1 \<and> nxt \<noteq> 0 then
          obind (walk_ext b tot n nxt) (\<lambda>n'.
            if n' > n then
              obind (slc b n n') (\<lambda>ext. Ok (h1\<lparr>gExtHeaders := ext\<rparr>, n'))
            else Ok (h1, n'))
        else Ok (h1, n)))))"

definition gtpu_parse :: "bytes \<Rightarrow> (gtpu_error, gtpu_header \<times> nat) outcome" where
  "gtpu_parse b =
     (if length b < MinLen then Fail PacketTooShort
      else
        obind (idx b 0) (\<lambda>octet1.
        let version = drop_bit 5 (octet1 AND hdrVersionMask) in
        if version \<noteq> 1 then Fail (UnsupportedVersion version)
        else if octet1 AND hdrPTFlag = 0 then Fail PTIsZero
        else
          obind (idx b 1) (\<lambda>mt.
          obind (get16 b 2) (\<lambda>len.
          obind (get32 b 4) (\<lambda>teid.
          let h = \<lparr>gVersion = version, gPT = True,
                   gE = (octet1 AND hdrEFlag \<noteq> 0), gS = (octet1 AND hdrSFlag \<noteq> 0),
                   gPN = (octet1 AND hdrPNFlag \<noteq> 0), gMsgType = mt, gLength = len, gTEID = teid,
                   gSeqNum = 0, gNPDUNum = 0, gNextExtHdr = 0, gExtHeaders = []\<rparr>;
              tot = MinLen + unat len in
          if tot > length b then Fail LengthExceedsPacket
          else if hasOptFields h then parse_opt b h tot
          else Ok (h, MinLen))))))"

definition marshal_octet1 :: "gtpu_header \<Rightarrow> u8" where
  "marshal_octet1 h = hdrVersionGTP OR hdrPTFlag OR (if gE h then hdrEFlag else 0)
     OR (if gS h then hdrSFlag else 0) OR (if gPN h then hdrPNFlag else 0)"

definition gtpu_marshal :: "gtpu_header \<Rightarrow> nat \<Rightarrow> bytes" where
  "gtpu_marshal h payloadLen =
     (let len = payloadLen + (if hasOptFields h then OptFieldsLen + length (gExtHeaders h) else 0) in
      [marshal_octet1 h, gMsgType h] @ be16 (of_nat len) @ be32 (gTEID h) @
      (if hasOptFields h then be16 (gSeqNum h) @ [gNPDUNum h, gNextExtHdr h] @ gExtHeaders h else []))"

section \<open>Information elements\<close>

definition IETypeRecovery :: u8 where "IETypeRecovery = 14"
definition IETypeTEIDDataI :: u8 where "IETypeTEIDDataI = 16"
definition IETypeGTPUPeerAddress :: u8 where "IETypeGTPUPeerAddress = 133"

definition buildRecovery :: bytes where
  "buildRecovery = [IETypeRecovery, 0]"

definition buildTEIDDataI :: "u32 \<Rightarrow> bytes" where
  "buildTEIDDataI teid = IETypeTEIDDataI # be32 teid"

definition buildGTPUPeerAddressIPv4 :: "ip_addr \<Rightarrow> (gtpu_error, bytes) outcome" where
  "buildGTPUPeerAddressIPv4 ip =
     (if \<not> is4 ip then Fail NotIPv4
      else obind (as4 ip) (\<lambda>a4. Ok (IETypeGTPUPeerAddress # be16 4 @ a4)))"

text \<open>The value length of a TV element; 0 is the \<^verbatim>\<open>default\<close> branch, which stops the loop.\<close>

definition tv_len :: "u8 \<Rightarrow> nat" where
  "tv_len t = (if t = IETypeRecovery then 1 else if t = IETypeTEIDDataI then 4 else 0)"

function gtpu_ies_loop :: "bytes \<Rightarrow> nat \<Rightarrow> (u8, bytes) gomap \<Rightarrow> (gtpu_error, (u8, bytes) gomap) outcome" where
  "gtpu_ies_loop b i result =
     (if i < length b then
        obind (idx b i) (\<lambda>t.
          if t \<ge> 128 then
            if i + 1 + 2 > length b then Ok result
            else obind (get16 b (i + 1)) (\<lambda>l.
              if i + 3 + unat l > length b then Ok result
              else obind (slc b (i + 3) (i + 3 + unat l)) (\<lambda>v.
                gtpu_ies_loop b (i + 3 + unat l) (mput t v result)))
          else if tv_len t = 0 then Ok result
          else if i + 1 + tv_len t > length b then Ok result
          else obind (slc b (i + 1) (i + 1 + tv_len t)) (\<lambda>v.
            gtpu_ies_loop b (i + 1 + tv_len t) (mput t v result)))
      else Ok result)"
  by pat_completeness auto
termination
  by (relation "measure (\<lambda>(b, i, r). length b - i)") auto

declare gtpu_ies_loop.simps [simp del]

definition gtpu_parseIEs :: "bytes \<Rightarrow> (gtpu_error, (u8, bytes) gomap) outcome" where
  "gtpu_parseIEs b = gtpu_ies_loop b 0 []"

section \<open>The extension-header walk\<close>

lemmas hdr_consts = hdrVersionMask_def hdrVersionGTP_def hdrPTFlag_def hdrEFlag_def hdrSFlag_def
  hdrPNFlag_def

lemma walk_ext_not_Panic:
  "lim \<le> length b \<Longrightarrow> walk_ext b lim n ty \<noteq> Panic"
proof (induction b lim n ty rule: walk_ext.induct)
  case (1 b lim n ty)
  show ?case
  proof (cases "ty = 0 \<or> n \<ge> lim")
    case True
    then show ?thesis by (subst walk_ext.simps) auto
  next
    case False
    then have n: "n < length b" using "1.prems" by simp
    let ?l = "b ! n"
    show ?thesis
    proof (cases "unat ?l * 4 < 4 \<or> n + unat ?l * 4 > lim")
      case True
      with False n show ?thesis by (subst walk_ext.simps) auto
    next
      case inside: False
      then have "0 < unat ?l" "n + unat ?l * 4 \<le> lim" by simp_all
      then have m: "n + unat ?l * 4 - 1 < length b" using "1.prems" by linarith
      have "walk_ext b lim (n + unat ?l * 4) (b ! (n + unat ?l * 4 - 1)) \<noteq> Panic"
        using "1.IH" [of ?l "b ! (n + unat ?l * 4 - 1)"] False inside n m "1.prems" by simp
      with False inside n m show ?thesis by (subst walk_ext.simps) simp
    qed
  qed
qed

text \<open>What a chain of extension headers is, independently of the loop.\<close>

inductive ext_chain :: "u8 \<Rightarrow> bytes \<Rightarrow> bool" where
  chain_end: "ext_chain 0 []"
| chain_more: "\<lbrakk>ty \<noteq> 0; hd c \<noteq> 0; length c = 4 * unat (hd c); ext_chain (last c) r\<rbrakk>
    \<Longrightarrow> ext_chain ty (c @ r)"

inductive_cases ext_chain_0E: "ext_chain 0 bs"

lemma ext_chain_0 [simp]: "ext_chain 0 bs \<longleftrightarrow> bs = []"
  by (auto intro: chain_end elim: ext_chain_0E)

lemma ext_chain_Nil: "ext_chain ty [] \<Longrightarrow> ty = 0"
  by (erule ext_chain.cases) (auto simp: unat_eq_zero)

text \<open>The loop accepts exactly the chains that fit, and consumes the whole chain.\<close>

lemma walk_ext_complete:
  "ext_chain ty c \<Longrightarrow> drop n b = c @ r \<Longrightarrow> n + length c \<le> lim \<Longrightarrow> lim \<le> length b \<Longrightarrow> n \<le> length b \<Longrightarrow>
     walk_ext b lim n ty = Ok (n + length c)"
proof (induction ty c arbitrary: n rule: ext_chain.induct)
  case chain_end
  then show ?case by (simp add: walk_ext.simps)
next
  case (chain_more ty c cs)
  let ?l = "unat (hd c)"
  have pos: "0 < ?l" using chain_more.hyps(2) by (simp add: unat_gt_0)
  then have c: "c \<noteq> []" using chain_more.hyps(3) by auto
  have hd: "b ! n = hd c"
    using chain_more.prems(1) c by (metis append_is_Nil_conv drop_eq_Nil hd_append2 hd_drop_conv_nth not_le)
  have lst: "b ! (n + length c - 1) = last c"
  proof -
    have "drop n b ! (length c - 1) = last c"
      using chain_more.prems(1) c by (simp add: nth_append last_conv_nth)
    moreover have "b ! (n + (length c - 1)) = drop n b ! (length c - 1)"
      using chain_more.prems by (intro nth_drop [symmetric]) simp
    moreover have "n + (length c - 1) = n + length c - 1" using c by (cases c) auto
    ultimately show ?thesis by simp
  qed
  have rest: "drop (n + length c) b = cs @ r"
    using chain_more.prems(1) by (metis add.commute append.assoc append_eq_conv_conj drop_drop)
  have lenb: "n + length c \<le> length b" using chain_more.prems by simp
  have IH: "walk_ext b lim (n + length c) (last c) = Ok (n + length c + length cs)"
    using chain_more.IH [OF rest] chain_more.prems lenb by simp
  have "n < lim" "n < length b" "n + length c - 1 < length b" "n + length c \<le> lim"
    using chain_more.prems pos chain_more.hyps(3) by auto
  then show ?case
    using chain_more.hyps pos hd lst IH
    by (subst walk_ext.simps) (simp add: mult.commute)
qed

lemma walk_ext_sound:
  "walk_ext b lim n ty = Ok n' \<Longrightarrow> lim \<le> length b \<Longrightarrow> n \<le> lim \<Longrightarrow>
     n \<le> n' \<and> n' \<le> lim \<and> ext_chain ty (take (n' - n) (drop n b))"
proof (induction b lim n ty arbitrary: n' rule: walk_ext.induct)
  case (1 b lim n ty)
  show ?case
  proof (cases "ty = 0")
    case True
    then show ?thesis using "1.prems" by (simp add: walk_ext.simps)
  next
    case nz: False
    have nlim: "n < lim" using "1.prems"(1) nz by (subst (asm) walk_ext.simps) (auto split: if_splits)
    then have nb: "n < length b" using "1.prems"(2) by simp
    define l where "l = unat (b ! n)"
    have l: "1 \<le> l" "n + l * 4 \<le> lim"
      using "1.prems"(1) nz nlim nb unfolding l_def
      by (subst (asm) walk_ext.simps, auto split: if_splits)+
    have mb: "n + l * 4 - 1 < length b" using l "1.prems"(2) by simp
    have step: "walk_ext b lim (n + l * 4) (b ! (n + l * 4 - 1)) = Ok n'"
      using "1.prems"(1) nz nlim nb l mb unfolding l_def
      by (subst (asm) walk_ext.simps) simp
    have IH: "n + l * 4 \<le> n' \<and> n' \<le> lim \<and>
        ext_chain (b ! (n + l * 4 - 1)) (take (n' - (n + l * 4)) (drop (n + l * 4) b))"
      using "1.IH" [of "b ! n" "b ! (n + l * 4 - 1)" n'] nz nlim nb l mb step "1.prems"(2)
      unfolding l_def by simp
    let ?c = "take (l * 4) (drop n b)"
    have c: "length ?c = l * 4" using mb l by simp
    have hd: "hd ?c = b ! n" using nb l by (simp add: hd_drop_conv_nth)
    have "last ?c = ?c ! (length ?c - 1)" using c l by (intro last_conv_nth) auto
    then have "last ?c = ?c ! (l * 4 - 1)" unfolding c .
    then have last: "last ?c = b ! (n + l * 4 - 1)" using mb l by simp
    have "ext_chain ty (?c @ take (n' - (n + l * 4)) (drop (n + l * 4) b))"
    proof (rule chain_more [OF nz])
      show "hd ?c \<noteq> 0" using l hd unfolding l_def by (metis not_one_le_zero unat_0)
      show "length ?c = 4 * unat (hd ?c)" using c hd l_def by simp
      show "ext_chain (last ?c) (take (n' - (n + l * 4)) (drop (n + l * 4) b))"
        using IH last by simp
    qed
    moreover have "?c @ take (n' - (n + l * 4)) (drop (n + l * 4) b) = take (n' - n) (drop n b)"
    proof -
      have "take (n' - n) (drop n b) = take (l * 4 + (n' - (n + l * 4))) (drop n b)"
        using IH by simp
      also have "\<dots> = ?c @ take (n' - (n + l * 4)) (drop (l * 4) (drop n b))"
        by (rule take_add)
      finally show ?thesis by (simp add: add.commute)
    qed
    ultimately show ?thesis using IH by simp
  qed
qed

section \<open>Parsing and marshalling\<close>

definition gtpu_wf :: "gtpu_header \<Rightarrow> bool" where
  "gtpu_wf h \<longleftrightarrow> gVersion h = 1 \<and> gPT h \<and>
     (if hasOptFields h then
        (if gE h \<and> gNextExtHdr h \<noteq> 0 then ext_chain (gNextExtHdr h) (gExtHeaders h)
         else gExtHeaders h = [])
      else gSeqNum h = 0 \<and> gNPDUNum h = 0 \<and> gNextExtHdr h = 0 \<and> gExtHeaders h = [])"

lemma marshal_octet1_flags:
  "drop_bit 5 (marshal_octet1 h AND hdrVersionMask) = 1"
  "marshal_octet1 h AND hdrPTFlag \<noteq> 0"
  "marshal_octet1 h AND hdrEFlag \<noteq> 0 \<longleftrightarrow> gE h"
  "marshal_octet1 h AND hdrSFlag \<noteq> 0 \<longleftrightarrow> gS h"
  "marshal_octet1 h AND hdrPNFlag \<noteq> 0 \<longleftrightarrow> gPN h"
  by (simp_all add: marshal_octet1_def hdr_consts)

lemma octet1_back:
  fixes oct :: u8
  assumes "drop_bit 5 (oct AND hdrVersionMask) = 1" and "oct AND hdrPTFlag \<noteq> 0"
    and "gE h \<longleftrightarrow> oct AND hdrEFlag \<noteq> 0" and "gS h \<longleftrightarrow> oct AND hdrSFlag \<noteq> 0"
    and "gPN h \<longleftrightarrow> oct AND hdrPNFlag \<noteq> 0"
  shows "marshal_octet1 h = oct AND 0xF7"
  using assms by (simp add: marshal_octet1_def hdr_consts u8_eq_iff bit_simps)

lemma length_gtpu_marshal: "length (gtpu_marshal h n) = wireLen h"
  by (simp add: gtpu_marshal_def wireLen_def Let_def)

lemma parse_opt_not_Panic: "tot \<le> length b \<Longrightarrow> parse_opt b h tot \<noteq> Panic"
proof
  assume tot: "tot \<le> length b" and panic: "parse_opt b h tot = Panic"
  then have len: "12 \<le> length b" "12 \<le> tot"
    by (auto simp: parse_opt_def split: if_splits)
  then have "walk_ext b tot 12 (b ! 11) = Panic"
    using panic tot walk_ext_sound [of b tot 12 "b ! 11"]
    by (auto simp: parse_opt_def obind_Panic_iff Let_def split: if_splits)
  then show False using walk_ext_not_Panic [OF tot] by simp
qed

text \<open>What a successful parse of the optional part has read.\<close>

lemma parse_opt_Ok:
  assumes ok: "parse_opt b h tot = Ok (h', n)" and tot: "tot \<le> length b"
    and ext: "gExtHeaders h = []"
  shows "12 \<le> n \<and> n \<le> tot \<and>
    h' = h\<lparr>gSeqNum := rd16 (b ! 8) (b ! 9), gNPDUNum := b ! 10, gNextExtHdr := b ! 11,
           gExtHeaders := take (n - 12) (drop 12 b)\<rparr> \<and>
    (if gE h \<and> b ! 11 \<noteq> 0 then ext_chain (b ! 11) (take (n - 12) (drop 12 b)) else n = 12)"
proof -
  have len: "12 \<le> length b" "12 \<le> tot"
    using ok by (auto simp: parse_opt_def split: if_splits)
  let ?h1 = "h\<lparr>gSeqNum := rd16 (b ! 8) (b ! 9), gNPDUNum := b ! 10, gNextExtHdr := b ! 11\<rparr>"
  show ?thesis
  proof (cases "gE h \<and> b ! 11 \<noteq> 0")
    case False
    then show ?thesis using ok len ext by (auto simp: parse_opt_def Let_def)
  next
    case True
    then obtain n' where w: "walk_ext b tot 12 (b ! 11) = Ok n'"
      using ok len by (auto simp: parse_opt_def Let_def obind_Ok_iff)
    note s = walk_ext_sound [OF w tot len(2)]
    have "n' \<le> length b" using s tot by simp
    then have eq: "parse_opt b h tot =
        (if 12 < n' then Ok (?h1\<lparr>gExtHeaders := take (n' - 12) (drop 12 b)\<rparr>, n') else Ok (?h1, n'))"
      using len w True by (simp add: parse_opt_def Let_def)
    show ?thesis
    proof (cases "12 < n'")
      case big: True
      then show ?thesis using ok True s unfolding eq by auto
    next
      case False
      then have "n' = 12" using s by simp
      then show ?thesis using ok True s ext unfolding eq by auto
    qed
  qed
qed

lemma parse_opt_complete:
  assumes len: "12 \<le> length b" "12 \<le> tot" "12 + length ext \<le> tot" "tot \<le> length b"
    and d: "drop 12 b = ext @ r" and h: "gExtHeaders h = []"
    and ext: "if gE h \<and> b ! 11 \<noteq> 0 then ext_chain (b ! 11) ext else ext = []"
  shows "parse_opt b h tot = Ok (h\<lparr>gSeqNum := rd16 (b ! 8) (b ! 9), gNPDUNum := b ! 10,
    gNextExtHdr := b ! 11, gExtHeaders := ext\<rparr>, 12 + length ext)"
proof (cases "gE h \<and> b ! 11 \<noteq> 0")
  case True
  then have chain: "ext_chain (b ! 11) ext" using ext by simp
  then have w: "walk_ext b tot 12 (b ! 11) = Ok (12 + length ext)"
    using d len by (intro walk_ext_complete) auto
  have "ext \<noteq> []" using chain True ext_chain_Nil by auto
  then show ?thesis using len True w d by (simp add: parse_opt_def Let_def)
next
  case False
  then show ?thesis using len ext h by (auto simp: parse_opt_def Let_def)
qed

text \<open>The header as read from the mandatory eight octets.\<close>

definition base_header :: "bytes \<Rightarrow> gtpu_header" where
  "base_header b = \<lparr>gVersion = 1, gPT = True, gE = (b ! 0 AND hdrEFlag \<noteq> 0),
     gS = (b ! 0 AND hdrSFlag \<noteq> 0), gPN = (b ! 0 AND hdrPNFlag \<noteq> 0), gMsgType = b ! 1,
     gLength = rd16 (b ! 2) (b ! 3), gTEID = rd32 (b ! 4) (b ! 5) (b ! 6) (b ! 7),
     gSeqNum = 0, gNPDUNum = 0, gNextExtHdr = 0, gExtHeaders = []\<rparr>"

lemma gtpu_parse_unfold:
  assumes "8 \<le> length b"
  shows "gtpu_parse b =
    (if drop_bit 5 (b ! 0 AND hdrVersionMask) \<noteq> 1
     then Fail (UnsupportedVersion (drop_bit 5 (b ! 0 AND hdrVersionMask)))
     else if b ! 0 AND hdrPTFlag = 0 then Fail PTIsZero
     else if 8 + unat (gLength (base_header b)) > length b then Fail LengthExceedsPacket
     else if hasOptFields (base_header b)
       then parse_opt b (base_header b) (8 + unat (gLength (base_header b)))
     else Ok (base_header b, 8))"
proof -
  have "b \<noteq> []" "1 < length b" using assms by auto
  then show ?thesis
    using assms by (simp add: gtpu_parse_def Let_def base_header_def)
qed

lemma take_nths:
  "8 \<le> length b \<Longrightarrow> take 8 b = [b ! 0, b ! 1, b ! 2, b ! 3, b ! 4, b ! 5, b ! 6, b ! 7]"
  "12 \<le> length b \<Longrightarrow> take 4 (drop 8 b) = [b ! 8, b ! 9, b ! 10, b ! 11]"
  by (rule nth_equalityI; force simp: less_Suc_eq numeral_eq_Suc)+

lemma gtpu_parse_Ok_len: "gtpu_parse b = Ok (h, n) \<Longrightarrow> 8 \<le> length b"
  by (auto simp: gtpu_parse_def split: if_splits)

lemma gtpu_parse_Ok_octet1:
  assumes ok: "gtpu_parse b = Ok (h, n)"
  shows "drop_bit 5 (b ! 0 AND hdrVersionMask) = 1" and "b ! 0 AND hdrPTFlag \<noteq> 0"
    and "8 + unat (gLength (base_header b)) \<le> length b"
  using ok unfolding gtpu_parse_unfold [OF gtpu_parse_Ok_len [OF ok]]
  by (auto simp del: drop_bit_and split: if_splits)

lemma gtpu_parse_Ok_shape:
  assumes ok: "gtpu_parse b = Ok (h, n)"
  shows "\<not> hasOptFields (base_header b) \<and> h = base_header b \<and> n = 8 \<or>
    hasOptFields (base_header b) \<and> 12 \<le> n \<and> n \<le> 8 + unat (gLength (base_header b)) \<and>
    h = (base_header b)\<lparr>gSeqNum := rd16 (b ! 8) (b ! 9), gNPDUNum := b ! 10, gNextExtHdr := b ! 11,
           gExtHeaders := take (n - 12) (drop 12 b)\<rparr> \<and>
    (if gE (base_header b) \<and> b ! 11 \<noteq> 0 then ext_chain (b ! 11) (take (n - 12) (drop 12 b)) else n = 12)"
proof (cases "hasOptFields (base_header b)")
  case True
  then have "parse_opt b (base_header b) (8 + unat (gLength (base_header b))) = Ok (h, n)"
    using ok unfolding gtpu_parse_unfold [OF gtpu_parse_Ok_len [OF ok]] by (simp split: if_splits)
  from parse_opt_Ok [OF this gtpu_parse_Ok_octet1(3) [OF ok]] True show ?thesis
    by (simp add: base_header_def)
next
  case False
  then show ?thesis
    using ok unfolding gtpu_parse_unfold [OF gtpu_parse_Ok_len [OF ok]] by (simp split: if_splits)
qed

lemma marshal_octet1_parsed:
  assumes "gtpu_parse b = Ok (h, n)"
  shows "marshal_octet1 h = b ! 0 AND 0xF7"
proof (rule octet1_back)
  show "drop_bit 5 (b ! 0 AND hdrVersionMask) = 1" "b ! 0 AND hdrPTFlag \<noteq> 0"
    using gtpu_parse_Ok_octet1 [OF assms] by simp_all
qed (use gtpu_parse_Ok_shape [OF assms] in \<open>auto simp: base_header_def\<close>)

lemma gtpu_parse_Ok_wf:
  assumes ok: "gtpu_parse b = Ok (h, n)"
  shows "gtpu_wf h" and "n = wireLen h" and "n \<le> 8 + unat (gLength h)" and "8 + unat (gLength h) \<le> length b"
proof -
  note s = gtpu_parse_Ok_shape [OF ok] and l = gtpu_parse_Ok_octet1(3) [OF ok]
  show "8 + unat (gLength h) \<le> length b" using s l by (auto simp: base_header_def)
  show "n \<le> 8 + unat (gLength h)" using s by (auto simp: base_header_def)
  show "gtpu_wf h" "n = wireLen h"
    using s l by (auto simp: gtpu_wf_def wireLen_def hasOptFields_def base_header_def split: if_splits)
qed

section \<open>Properties\<close>

lemma parse_not_Panic: "gtpu_parse b \<noteq> Panic"
proof (cases "8 \<le> length b")
  case True
  then show ?thesis
    using parse_opt_not_Panic [of "8 + unat (gLength (base_header b))" b "base_header b"]
    by (simp add: gtpu_parse_unfold)
qed (simp add: gtpu_parse_def)

text \<open>
  parsing a GTP-U packet never panics, whatever the bytes: every index and slice
  expression of \<open>Parse\<close>, the extension-header walk included, is in bounds.
\<close>

theorem gtpu_parse_no_panic: "gtpu_parse b \<noteq> Panic"
  by (rule parse_not_Panic)

text \<open>
  a successful parse consumes exactly the header's wire length, which lies within the
  declared length and the packet, the header is well formed (its extension bytes are one
  complete chain), and marshalling it for the remaining payload gives back the consumed
  octets, with only the spare bit of the first octet cleared.
\<close>

theorem gtpu_parse_sound:
  assumes ok: "gtpu_parse b = Ok (h, n)"
  shows "gtpu_wf h \<and> n = wireLen h \<and> n \<le> 8 + unat (gLength h) \<and> 8 + unat (gLength h) \<le> length b \<and>
    gtpu_marshal h (8 + unat (gLength h) - n) = (take n b)[0 := b ! 0 AND 0xF7]"
proof -
  note wf = gtpu_parse_Ok_wf [OF ok] and o1 = marshal_octet1_parsed [OF ok]
  have t8: "take 8 b = [b ! 0, b ! 1, b ! 2, b ! 3, b ! 4, b ! 5, b ! 6, b ! 7]"
    using gtpu_parse_Ok_len [OF ok] by (rule take_nths)
  have "gtpu_marshal h (8 + unat (gLength h) - n) = (take n b)[0 := b ! 0 AND 0xF7]"
    using gtpu_parse_Ok_shape [OF ok]
  proof (elim disjE conjE)
    assume "\<not> hasOptFields (base_header b)" "h = base_header b" "n = 8"
    then show ?thesis using t8 o1 by (simp add: gtpu_marshal_def base_header_def)
  next
    assume opt: "hasOptFields (base_header b)" and n: "12 \<le> n" "n \<le> 8 + unat (gLength (base_header b))"
      and h: "h = (base_header b)\<lparr>gSeqNum := rd16 (b ! 8) (b ! 9), gNPDUNum := b ! 10,
        gNextExtHdr := b ! 11, gExtHeaders := take (n - 12) (drop 12 b)\<rparr>"
    have len: "12 \<le> length b" "length (take (n - 12) (drop 12 b)) = n - 12"
      using n gtpu_parse_Ok_octet1(3) [OF ok] by auto
    have "take n b = take (8 + (4 + (n - 12))) b" using n by simp
    also have "\<dots> = take 8 b @ take 4 (drop 8 b) @ take (n - 12) (drop 12 b)"
      by (simp only: take_add drop_drop append.assoc) simp
    finally have tn: "take n b = take 8 b @ take 4 (drop 8 b) @ take (n - 12) (drop 12 b)" .
    have opt': "hasOptFields h" using opt h by (simp add: hasOptFields_def)
    have pay: "8 + unat (gLength h) - n + (4 + (n - 12)) = unat (gLength h)"
      using n h by (simp add: base_header_def)
    have "gtpu_marshal h (8 + unat (gLength h) - n) =
        [marshal_octet1 h, gMsgType h] @ be16 (gLength h) @ be32 (gTEID h) @
        be16 (gSeqNum h) @ [gNPDUNum h, gNextExtHdr h] @ gExtHeaders h"
      using opt' len(2) h by (simp add: gtpu_marshal_def Let_def pay [unfolded h, simplified])
    also have "\<dots> = (take n b)[0 := b ! 0 AND 0xF7]"
      unfolding tn t8 take_nths(2) [OF len(1)] o1 by (simp add: h base_header_def)
    finally show ?thesis .
  qed
  with wf show ?thesis by simp
qed

theorem gtpu_parse_sound_witness:
  "gtpu_wf (fst (case gtpu_parse [0x32, 255, 0, 5, 0, 0, 0, 9, 0, 7, 0, 0, 42] of Ok r \<Rightarrow> r))"
proof -
  let ?h = "\<lparr>gVersion = 1, gPT = True, gE = False, gS = True, gPN = False, gMsgType = 255, gLength = 5,
    gTEID = 9, gSeqNum = 7, gNPDUNum = 0, gNextExtHdr = 0, gExtHeaders = []\<rparr>"
  have "gtpu_parse [0x32, 255, 0, 5, 0, 0, 0, 9, 0, 7, 0, 0, 42] = Ok (?h, 12)"
    by code_simp
  from gtpu_parse_sound [OF this] this show ?thesis by simp
qed

lemma gtpu_roundtrip:
  assumes wf: "gtpu_wf h" and len: "wireLen h - 8 + length payload < 65536"
  shows "gtpu_parse (gtpu_marshal h (length payload) @ payload @ trailing) =
    Ok (h\<lparr>gLength := of_nat (wireLen h - 8 + length payload)\<rparr>, wireLen h)"
proof -
  let ?b = "gtpu_marshal h (length payload) @ payload @ trailing"
  let ?len = "wireLen h - 8 + length payload"
  let ?ext = "gExtHeaders h"
  have lb: "8 \<le> length ?b" by (simp add: length_gtpu_marshal wireLen_def)
  have b: "?b = [marshal_octet1 h, gMsgType h] @ be16 (of_nat ?len) @ be32 (gTEID h) @
      (if hasOptFields h then be16 (gSeqNum h) @ [gNPDUNum h, gNextExtHdr h] @ ?ext else []) @
      payload @ trailing"
    by (simp add: gtpu_marshal_def wireLen_def Let_def add.commute)
  have nths: "?b ! 0 = marshal_octet1 h" "?b ! 1 = gMsgType h"
      "rd16 (?b ! 2) (?b ! 3) = of_nat ?len" "rd32 (?b ! 4) (?b ! 5) (?b ! 6) (?b ! 7) = gTEID h"
    unfolding b by (simp_all add: be16_def be32_def)
  have base: "base_header ?b = h\<lparr>gLength := of_nat ?len, gSeqNum := 0, gNPDUNum := 0,
      gNextExtHdr := 0, gExtHeaders := []\<rparr>"
    using wf unfolding base_header_def nths by (simp add: marshal_octet1_flags gtpu_wf_def)
  have opt: "hasOptFields (base_header ?b) = hasOptFields h"
    unfolding base by (simp add: hasOptFields_def)
  have "unat (gLength (base_header ?b)) = ?len"
    unfolding base using unat_of_nat_u16 [OF len] by simp
  then have tot: "8 + unat (gLength (base_header ?b)) = wireLen h + length payload"
      "wireLen h + length payload \<le> length ?b"
    by (simp_all add: wireLen_def length_gtpu_marshal)
  show ?thesis
  proof (cases "hasOptFields h")
    case False
    then have "gtpu_parse ?b = Ok (base_header ?b, 8)"
      unfolding gtpu_parse_unfold [OF lb] tot(1) using tot(2)
      by (simp add: opt nths marshal_octet1_flags del: drop_bit_and)
    moreover have "base_header ?b = h\<lparr>gLength := of_nat ?len\<rparr>"
      using wf False unfolding base by (simp add: gtpu_wf_def)
    ultimately show ?thesis using False by (simp add: wireLen_def)
  next
    case True
    then have wl: "wireLen h = 12 + length ?ext" by (simp add: wireLen_def)
    have b12: "?b = [marshal_octet1 h, gMsgType h] @ be16 (of_nat ?len) @ be32 (gTEID h) @
        be16 (gSeqNum h) @ [gNPDUNum h, gNextExtHdr h] @ ?ext @ payload @ trailing"
      using b True by simp
    have fields: "rd16 (?b ! 8) (?b ! 9) = gSeqNum h" "?b ! 10 = gNPDUNum h" "?b ! 11 = gNextExtHdr h"
        "drop 12 ?b = ?ext @ payload @ trailing"
      unfolding b12 by (simp_all add: be16_def be32_def)
    have parse: "gtpu_parse ?b = parse_opt ?b (base_header ?b) (wireLen h + length payload)"
      unfolding gtpu_parse_unfold [OF lb] tot(1) using tot(2) True
      by (simp add: opt nths marshal_octet1_flags del: drop_bit_and)
    have lens: "12 \<le> length ?b" "12 \<le> wireLen h + length payload"
        "12 + length ?ext \<le> wireLen h + length payload"
      using tot(2) wl by simp_all
    have ext: "if gE (base_header ?b) \<and> ?b ! 11 \<noteq> 0 then ext_chain (?b ! 11) ?ext else ?ext = []"
      unfolding base fields(3) using wf True by (simp add: gtpu_wf_def)
    have "gExtHeaders (base_header ?b) = []" unfolding base by simp
    from parse_opt_complete [OF lens tot(2) fields(4) this ext] show ?thesis
      unfolding parse fields(1,2,3) unfolding base wl by simp
  qed
qed

text \<open>
  C28: round trip. A well-formed header marshalled in front of a payload (and any trailing
  bytes) is parsed back to the same header, its Length field set to the octets that follow
  the mandatory part, and the payload starts where the parser stopped. The length must fit
  the 16-bit field, which \<open>Marshal\<close> truncates silently.
\<close>

theorem gtpu_marshal_parse:
  assumes wf: "gtpu_wf h" and len: "wireLen h - 8 + length payload < 65536"
  shows "gtpu_parse (gtpu_marshal h (length payload) @ payload @ trailing) =
    Ok (h\<lparr>gLength := of_nat (wireLen h - 8 + length payload)\<rparr>, wireLen h)"
  using assms by (rule gtpu_roundtrip)

theorem gtpu_marshal_parse_witness:
  "gtpu_parse (gtpu_marshal \<lparr>gVersion = 1, gPT = True, gE = True, gS = True, gPN = False, gMsgType = 255,
      gLength = 0, gTEID = 9, gSeqNum = 7, gNPDUNum = 0, gNextExtHdr = 0x85,
      gExtHeaders = [1, 2, 3, 0]\<rparr> 2 @ [42, 43] @ [99]) =
   Ok (\<lparr>gVersion = 1, gPT = True, gE = True, gS = True, gPN = False, gMsgType = 255,
      gLength = 10, gTEID = 9, gSeqNum = 7, gNPDUNum = 0, gNextExtHdr = 0x85,
      gExtHeaders = [1, 2, 3, 0]\<rparr>, 16)"
proof -
  let ?h = "\<lparr>gVersion = 1, gPT = True, gE = True, gS = True, gPN = False, gMsgType = 255,
      gLength = 0, gTEID = 9, gSeqNum = 7, gNPDUNum = 0, gNextExtHdr = 0x85,
      gExtHeaders = [1, 2, 3, 0]\<rparr>"
  have "ext_chain 0x85 ([1, 2, 3, 0] @ [])"
    by (rule chain_more) (auto intro: chain_end)
  then have wf: "gtpu_wf ?h" by (simp add: gtpu_wf_def hasOptFields_def)
  have len: "wireLen ?h - 8 + length [42, 43 :: u8] < 65536"
    by (simp add: wireLen_def hasOptFields_def)
  from gtpu_marshal_parse [OF wf len, of "[99]"] show ?thesis
    by (simp add: wireLen_def hasOptFields_def numeral_2_eq_2)
qed

lemma gtpu_ies_loop_not_Panic: "gtpu_ies_loop b i r \<noteq> Panic"
proof (induction b i r rule: gtpu_ies_loop.induct)
  case (1 b i r)
  show ?case
  proof (cases "i < length b")
    case True
    let ?t = "b ! i"
    show ?thesis
    proof (cases "?t \<ge> 128")
      case tlv: True
      show ?thesis
        by (subst gtpu_ies_loop.simps)
           (use True tlv "1.IH"(1) [OF True, of ?t] in \<open>auto simp: Let_def\<close>)
    next
      case tv: False
      show ?thesis
        by (subst gtpu_ies_loop.simps)
           (use True tv "1.IH"(2) [OF True, of ?t] in \<open>auto\<close>)
    qed
  next
    case False
    then show ?thesis by (simp add: gtpu_ies_loop.simps)
  qed
qed

lemma error_ies:
  "gtpu_parseIEs b \<noteq> Panic \<and>
   obind (buildGTPUPeerAddressIPv4 (IP4 w)) (\<lambda>peer. gtpu_parseIEs (buildTEIDDataI teid @ peer)) =
     Ok [(IETypeTEIDDataI, be32 teid), (IETypeGTPUPeerAddress, be32 w)]"
proof -
  let ?b = "buildTEIDDataI teid @ IETypeGTPUPeerAddress # be16 4 @ be32 w"
  have "gtpu_parseIEs ?b = Ok [(IETypeTEIDDataI, be32 teid), (IETypeGTPUPeerAddress, be32 w)]"
    by (simp add: gtpu_parseIEs_def gtpu_ies_loop.simps buildTEIDDataI_def be32_def be16_def
      IETypeTEIDDataI_def IETypeGTPUPeerAddress_def IETypeRecovery_def tv_len_def mput_def
      rd16_def)
  then show ?thesis
    by (simp add: buildGTPUPeerAddressIPv4_def gtpu_parseIEs_def gtpu_ies_loop_not_Panic)
qed

text \<open>
  the elements of an Error Indication are read back. \<open>ParseIEs\<close> never panics, and on
  the payload built for an unknown TEID and an IPv4 address it finds exactly that TEID
  under the TEID Data I type and that address under the peer-address type.
\<close>

theorem error_indication_ies:
  "gtpu_parseIEs b \<noteq> Panic \<and>
   obind (buildGTPUPeerAddressIPv4 (IP4 w)) (\<lambda>peer. gtpu_parseIEs (buildTEIDDataI teid @ peer)) =
     Ok [(IETypeTEIDDataI, be32 teid), (IETypeGTPUPeerAddress, be32 w)]"
  by (rule error_ies)

end
