(* ===== verification/Collision.thy ===== *)
theory Collision
  imports SGW_Prelude
begin

text \<open>
  GTPv2-C transaction collision tracking (\<^verbatim>\<open>internal/sgwc/collision/collision.go\<close>). Every
  PDN session has a tracker of active procedures; \<open>Begin\<close> admits a new procedure or rejects
  it by comparing it with every active one. Methods on a nil \<^verbatim>\<open>*Tracker\<close> take \<open>None\<close>. The
  lemmas give the exact admission rule, the invariant that active procedures are pairwise
  compatible, the expiry of stale procedures, and the precedence of Delete Session.
\<close>

section \<open>Types\<close>

definition DefaultActiveProcedureTimeout :: duration where
  "DefaultActiveProcedureTimeout = 2 * 60 * time_second"

text \<open>The string types of the source; \<open>Other\<close> stands for a string that is no declared constant.\<close>

datatype collision_mode = ModeEmpty | ModeStrict | ModePermissive | ModeOther string

datatype procedure =
    ProcedureCreateSession | ProcedureModifyBearer | ProcedureDeleteSession
  | ProcedureReleaseAccessBearers | ProcedureCreateBearer | ProcedureCreateBearerResponse
  | ProcedureUpdateBearer | ProcedureDeleteBearer | ProcedureOther string

datatype owner = OwnerMME | OwnerPGW | OwnerSGW | OwnerOther string

datatype action = ActionAllow | ActionRejectNew

datatype policy =
    PolicyNone | PolicyAllowResponse | PolicySessionOverlap | PolicyBearerOverlap
  | PolicyBearerDisjoint | PolicyBearerUnknown

record request =
  rProcedure :: procedure
  rOwner :: owner
  rPeer :: string
  rTEID :: u32
  rSeq :: u32
  rEBIs :: "u8 list"
  rReason :: string

record active_procedure =
  apID :: u64
  apProcedure :: procedure
  apOwner :: owner
  apPeer :: string
  apTEID :: u32
  apSeq :: u32
  apEBIs :: "u8 list"
  apStartedAt :: gtime
  apUpdatedAt :: gtime

record decision =
  dAction :: action
  dCurrent :: active_procedure
  dReason :: string
  dPolicy :: policy

record tracker =
  tNextID :: u64
  tTimeout :: duration
  tMode :: collision_mode
  tActive :: "(u64, active_procedure) gomap"

fun procedure_string :: "procedure \<Rightarrow> string" where
  "procedure_string ProcedureCreateSession = ''CREATE_SESSION''"
| "procedure_string ProcedureModifyBearer = ''MODIFY_BEARER''"
| "procedure_string ProcedureDeleteSession = ''DELETE_SESSION''"
| "procedure_string ProcedureReleaseAccessBearers = ''RELEASE_ACCESS_BEARERS''"
| "procedure_string ProcedureCreateBearer = ''CREATE_BEARER''"
| "procedure_string ProcedureCreateBearerResponse = ''CREATE_BEARER_RESPONSE''"
| "procedure_string ProcedureUpdateBearer = ''UPDATE_BEARER''"
| "procedure_string ProcedureDeleteBearer = ''DELETE_BEARER''"
| "procedure_string (ProcedureOther s) = s"

definition zeroProcedure :: active_procedure where
  "zeroProcedure = \<lparr>apID = 0, apProcedure = ProcedureOther '''', apOwner = OwnerOther '''',
     apPeer = '''', apTEID = 0, apSeq = 0, apEBIs = [], apStartedAt = 0, apUpdatedAt = 0\<rparr>"

abbreviation mkDecision :: "action \<Rightarrow> policy \<Rightarrow> string \<Rightarrow> decision" where
  "mkDecision a p r \<equiv> \<lparr>dAction = a, dCurrent = zeroProcedure, dReason = r, dPolicy = p\<rparr>"

section \<open>The admission rule\<close>

definition procedurePairRules :: "(procedure \<times> procedure, policy) gomap" where
  "procedurePairRules =
    [((ProcedureCreateBearer, ProcedureCreateBearerResponse), PolicyAllowResponse),
     ((ProcedureCreateBearerResponse, ProcedureCreateBearer), PolicyAllowResponse),
     ((ProcedureModifyBearer, ProcedureDeleteSession), PolicyNone),
     ((ProcedureCreateBearer, ProcedureDeleteSession), PolicyNone),
     ((ProcedureCreateBearerResponse, ProcedureDeleteSession), PolicyNone),
     ((ProcedureUpdateBearer, ProcedureDeleteSession), PolicyNone),
     ((ProcedureDeleteBearer, ProcedureDeleteSession), PolicyNone),
     ((ProcedureDeleteBearer, ProcedureReleaseAccessBearers), PolicyNone),
     ((ProcedureReleaseAccessBearers, ProcedureDeleteBearer), PolicyNone),
     ((ProcedureUpdateBearer, ProcedureReleaseAccessBearers), PolicyNone),
     ((ProcedureReleaseAccessBearers, ProcedureUpdateBearer), PolicyNone)]"

fun isBearerScoped :: "procedure \<Rightarrow> bool" where
  "isBearerScoped ProcedureModifyBearer = True"
| "isBearerScoped ProcedureCreateBearer = True"
| "isBearerScoped ProcedureCreateBearerResponse = True"
| "isBearerScoped ProcedureUpdateBearer = True"
| "isBearerScoped ProcedureDeleteBearer = True"
| "isBearerScoped _ = False"

fun isSessionWide :: "procedure \<Rightarrow> bool" where
  "isSessionWide ProcedureCreateSession = True"
| "isSessionWide ProcedureDeleteSession = True"
| "isSessionWide ProcedureReleaseAccessBearers = True"
| "isSessionWide _ = False"

fun overlapsEBI :: "u8 list \<Rightarrow> u8 list \<Rightarrow> bool" where
  "overlapsEBI [] b = False"
| "overlapsEBI (x # a) b = (if x \<in> set b then True else overlapsEBI a b)"

definition pairPolicy :: "procedure \<Rightarrow> procedure \<Rightarrow> policy" where
  "pairPolicy act nxt =
     (case mget procedurePairRules (act, nxt) of
        Some p \<Rightarrow> p
      | None \<Rightarrow>
          if isSessionWide act \<or> isSessionWide nxt then PolicySessionOverlap
          else if isBearerScoped act \<and> isBearerScoped nxt then PolicyBearerOverlap
          else PolicySessionOverlap)"

definition decide :: "collision_mode \<Rightarrow> active_procedure \<Rightarrow> request \<Rightarrow> decision" where
  "decide mode0 cur req =
     (let mode = (if mode0 = ModeEmpty then ModeStrict else mode0);
          policy = pairPolicy (apProcedure cur) (rProcedure req);
          pair = ''active='' @ procedure_string (apProcedure cur) @ '' new='' @ procedure_string (rProcedure req)
      in case policy of
        PolicyAllowResponse \<Rightarrow>
          mkDecision ActionAllow policy ''matching bearer response is allowed while request is active''
      | PolicySessionOverlap \<Rightarrow>
          mkDecision ActionRejectNew policy (''session-wide procedure overlap: '' @ pair)
      | PolicyBearerOverlap \<Rightarrow>
          if apEBIs cur = [] \<or> rEBIs req = [] then
            if mode = ModePermissive then
              mkDecision ActionAllow PolicyBearerUnknown
                ''bearer procedure unknown EBI scope allowed by permissive mode''
            else
              mkDecision ActionRejectNew policy
                (''bearer procedure overlap with unknown EBI scope: '' @ pair)
          else if overlapsEBI (apEBIs cur) (rEBIs req) then
            mkDecision ActionRejectNew policy (''bearer procedure overlap: '' @ pair)
          else mkDecision ActionAllow PolicyBearerDisjoint ''bearer procedure EBIs are disjoint''
      | _ \<Rightarrow> mkDecision ActionAllow PolicyNone '''')"

section \<open>The tracker\<close>

definition newTrackerWithTimeout :: "duration \<Rightarrow> tracker" where
  "newTrackerWithTimeout timeout =
     \<lparr>tNextID = 0, tTimeout = (if timeout \<le> 0 then DefaultActiveProcedureTimeout else timeout),
      tMode = ModeStrict, tActive = []\<rparr>"

definition newTracker :: tracker where
  "newTracker = newTrackerWithTimeout DefaultActiveProcedureTimeout"

definition configure :: "collision_mode \<Rightarrow> duration \<Rightarrow> tracker option \<Rightarrow> tracker option" where
  "configure mode timeout t0 =
     map_option (\<lambda>t. t\<lparr>tMode := (if mode = ModeEmpty then ModeStrict else mode),
        tTimeout := (if timeout \<le> 0 then DefaultActiveProcedureTimeout else timeout)\<rparr>) t0"

definition sweepExpiredLocked :: "gtime \<Rightarrow> tracker \<Rightarrow> nat \<times> tracker" where
  "sweepExpiredLocked now t =
     (let expired = (\<lambda>(k, p). time_sub now (apUpdatedAt p) > tTimeout t) in
      (length (filter expired (tActive t)), t\<lparr>tActive := filter (\<lambda>e. \<not> expired e) (tActive t)\<rparr>))"

definition default_timeout :: "tracker \<Rightarrow> tracker" where
  "default_timeout t = (if tTimeout t \<le> 0 then t\<lparr>tTimeout := DefaultActiveProcedureTimeout\<rparr> else t)"

definition default_mode :: "tracker \<Rightarrow> tracker" where
  "default_mode t = (if tMode t = ModeEmpty then t\<lparr>tMode := ModeStrict\<rparr> else t)"

definition sweepExpired :: "gtime \<Rightarrow> tracker option \<Rightarrow> nat \<times> tracker option" where
  "sweepExpired now t0 =
     (case t0 of None \<Rightarrow> (0, None)
      | Some t \<Rightarrow> map_prod id Some (sweepExpiredLocked now (default_timeout t)))"

text \<open>The range loop of \<^verbatim>\<open>Begin\<close>: the first active procedure that does not allow the request.\<close>

fun first_conflict :: "collision_mode \<Rightarrow> request \<Rightarrow> (u64, active_procedure) gomap \<Rightarrow> decision option" where
  "first_conflict mode req [] = None"
| "first_conflict mode req ((k, cur) # rest) =
     (let d = decide mode cur req in
      if dAction d \<noteq> ActionAllow then Some (d\<lparr>dCurrent := cur\<rparr>)
      else first_conflict mode req rest)"

definition mk_active :: "u64 \<Rightarrow> request \<Rightarrow> gtime \<Rightarrow> active_procedure" where
  "mk_active i req now =
     \<lparr>apID = i, apProcedure = rProcedure req, apOwner = rOwner req, apPeer = rPeer req,
      apTEID = rTEID req, apSeq = rSeq req, apEBIs = rEBIs req, apStartedAt = now, apUpdatedAt = now\<rparr>"

definition begin_proc :: "gtime \<Rightarrow> tracker option \<Rightarrow> request \<Rightarrow> tracker option \<times> active_procedure \<times> decision" where
  "begin_proc now t0 req =
     (case t0 of
        None \<Rightarrow> (None, zeroProcedure, mkDecision ActionAllow PolicyNone '''')
      | Some t \<Rightarrow>
          let t1 = snd (sweepExpiredLocked now (default_mode (default_timeout t))) in
          case first_conflict (tMode t1) req (tActive t1) of
            Some d \<Rightarrow> (Some t1, zeroProcedure, d)
          | None \<Rightarrow>
              let i = tNextID t1 + 1; proc = mk_active i req now in
              (Some (t1\<lparr>tNextID := i, tActive := mput i proc (tActive t1)\<rparr>), proc,
               mkDecision ActionAllow PolicyNone ''''))"

definition finish :: "active_procedure \<Rightarrow> tracker option \<Rightarrow> tracker option" where
  "finish proc t0 =
     (if apID proc = 0 then t0
      else map_option (\<lambda>t. t\<lparr>tActive := mdel (apID proc) (tActive t)\<rparr>) t0)"

definition active_list :: "tracker option \<Rightarrow> active_procedure list" where
  "active_list t0 = (case t0 of None \<Rightarrow> [] | Some t \<Rightarrow> map snd (tActive t))"

section \<open>The rule, tabulated\<close>

lemma overlapsEBI_iff: "overlapsEBI a b \<longleftrightarrow> set a \<inter> set b \<noteq> {}"
  by (induction a) auto

lemma pairPolicy_cases:
  "pairPolicy a n =
     (if (a, n) \<in> {(ProcedureCreateBearer, ProcedureCreateBearerResponse),
                   (ProcedureCreateBearerResponse, ProcedureCreateBearer)} then PolicyAllowResponse
      else if isBearerScoped a \<and> n = ProcedureDeleteSession \<or>
              {a, n} = {ProcedureReleaseAccessBearers, ProcedureDeleteBearer} \<or>
              {a, n} = {ProcedureReleaseAccessBearers, ProcedureUpdateBearer} then PolicyNone
      else if isBearerScoped a \<and> isBearerScoped n then PolicyBearerOverlap
      else PolicySessionOverlap)"
  by (cases a; cases n) (simp_all add: pairPolicy_def procedurePairRules_def mget_def doubleton_eq_iff)

text \<open>Two procedures are compatible when the second may start while the first is active.\<close>

definition compatible :: "bool \<Rightarrow> procedure \<Rightarrow> u8 list \<Rightarrow> procedure \<Rightarrow> u8 list \<Rightarrow> bool" where
  "compatible permissive a as n ns \<longleftrightarrow>
     pairPolicy a n \<in> {PolicyAllowResponse, PolicyNone} \<or>
     pairPolicy a n = PolicyBearerOverlap \<and>
       (if as = [] \<or> ns = [] then permissive else set as \<inter> set ns = {})"

lemma decide_allow_iff:
  "dAction (decide mode cur req) = ActionAllow \<longleftrightarrow>
     compatible (mode = ModePermissive) (apProcedure cur) (apEBIs cur) (rProcedure req) (rEBIs req)"
  by (cases "pairPolicy (apProcedure cur) (rProcedure req)")
     (auto simp: decide_def compatible_def overlapsEBI_iff Let_def pairPolicy_cases split: if_splits)

lemma first_conflict_None_iff:
  "first_conflict mode req ps = None \<longleftrightarrow>
     (\<forall>(k, p) \<in> set ps. dAction (decide mode p req) = ActionAllow)"
  by (induction ps) (auto simp: Let_def split: if_splits)

lemma first_conflict_Some:
  "first_conflict mode req ps = Some d \<Longrightarrow>
     dAction d = ActionRejectNew \<and> (\<exists>k. (k, dCurrent d) \<in> set ps \<and>
       dAction (decide mode (dCurrent d) req) \<noteq> ActionAllow)"
proof (induction ps)
  case (Cons e ps)
  obtain k p where e: "e = (k, p)" by (cases e)
  show ?case
  proof (cases "dAction (decide mode p req) = ActionAllow")
    case True
    with Cons e show ?thesis by (auto simp: Let_def)
  next
    case False
    then have "dAction (decide mode p req) = ActionRejectNew" by (cases "dAction (decide mode p req)") auto
    with Cons.prems False e show ?thesis by (auto simp: Let_def)
  qed
qed simp

section \<open>Expiry\<close>

definition expired :: "gtime \<Rightarrow> duration \<Rightarrow> active_procedure \<Rightarrow> bool" where
  "expired now timeout p \<longleftrightarrow> time_sub now (apUpdatedAt p) > timeout"

definition timeout_of :: "tracker \<Rightarrow> duration" where
  "timeout_of t = (if tTimeout t \<le> 0 then DefaultActiveProcedureTimeout else tTimeout t)"

definition mode_of :: "tracker \<Rightarrow> collision_mode" where
  "mode_of t = (if tMode t = ModeEmpty then ModeStrict else tMode t)"

definition live :: "gtime \<Rightarrow> tracker \<Rightarrow> (u64, active_procedure) gomap" where
  "live now t = filter (\<lambda>(k, p). \<not> expired now (timeout_of t) p) (tActive t)"

lemma sweep_live:
  "snd (sweepExpiredLocked now (default_mode (default_timeout t))) =
     t\<lparr>tTimeout := timeout_of t, tMode := mode_of t, tActive := live now t\<rparr>"
  by (simp add: sweepExpiredLocked_def default_mode_def default_timeout_def live_def expired_def
    timeout_of_def mode_of_def Let_def case_prod_beta')

lemma begin_proc_Some:
  "begin_proc now (Some t) req =
     (let t1 = t\<lparr>tTimeout := timeout_of t, tMode := mode_of t, tActive := live now t\<rparr>;
          i = tNextID t + 1; proc = mk_active i req now in
      case first_conflict (mode_of t) req (live now t) of
        Some d \<Rightarrow> (Some t1, zeroProcedure, d)
      | None \<Rightarrow> (Some (t1\<lparr>tNextID := i, tActive := mput i proc (live now t)\<rparr>), proc,
                mkDecision ActionAllow PolicyNone ''''))"
  unfolding begin_proc_def by (simp add: sweep_live Let_def split: option.splits)

lemma decide_mode_of: "decide (mode_of t) = decide (tMode t)"
  by (rule ext)+ (simp add: mode_of_def decide_def)

lemma begin_admits:
  "dAction (snd (snd (begin_proc now (Some t) req))) = ActionAllow \<longleftrightarrow>
     (\<forall>(k, p) \<in> set (tActive t). \<not> expired now (timeout_of t) p \<longrightarrow>
        compatible (tMode t = ModePermissive) (apProcedure p) (apEBIs p) (rProcedure req) (rEBIs req))"
proof -
  have "dAction (snd (snd (begin_proc now (Some t) req))) = ActionAllow \<longleftrightarrow>
      first_conflict (mode_of t) req (live now t) = None"
    by (auto simp: begin_proc_Some Let_def dest: first_conflict_Some split: option.splits)
  also have "\<dots> \<longleftrightarrow> (\<forall>(k, p) \<in> set (live now t). dAction (decide (tMode t) p req) = ActionAllow)"
    by (simp add: first_conflict_None_iff decide_mode_of)
  finally show ?thesis
    by (auto simp: decide_allow_iff live_def)
qed

text \<open>
  C29: the admission rule. \<open>Begin\<close> admits a request exactly when every active procedure that
  has not expired is compatible with it; the answer does not depend on the order in which
  the map of active procedures is visited. A rejected request is not recorded: only the
  expired procedures are gone from the tracker.
\<close>

theorem begin_admits_iff_compatible:
  "(dAction (snd (snd (begin_proc now (Some t) req))) = ActionAllow \<longleftrightarrow>
     (\<forall>(k, p) \<in> set (tActive t). \<not> expired now (timeout_of t) p \<longrightarrow>
        compatible (tMode t = ModePermissive) (apProcedure p) (apEBIs p) (rProcedure req) (rEBIs req))) \<and>
   (dAction (snd (snd (begin_proc now (Some t) req))) = ActionRejectNew \<longrightarrow>
     active_list (fst (begin_proc now (Some t) req)) =
       filter (\<lambda>p. \<not> expired now (timeout_of t) p) (active_list (Some t)))"
proof
  show "dAction (snd (snd (begin_proc now (Some t) req))) = ActionRejectNew \<longrightarrow>
      active_list (fst (begin_proc now (Some t) req)) =
        filter (\<lambda>p. \<not> expired now (timeout_of t) p) (active_list (Some t))"
    by (simp add: begin_proc_Some active_list_def live_def Let_def filter_map o_def case_prod_beta'
        split: option.splits)
qed (rule begin_admits)

theorem begin_admits_iff_compatible_witness:
  "dAction (snd (snd (begin_proc 10 (Some (newTracker\<lparr>tActive :=
      [(1, mk_active 1 \<lparr>rProcedure = ProcedureUpdateBearer, rOwner = OwnerPGW, rPeer = '''', rTEID = 1,
          rSeq = 1, rEBIs = [6], rReason = ''''\<rparr> 5)]\<rparr>))
      \<lparr>rProcedure = ProcedureModifyBearer, rOwner = OwnerMME, rPeer = '''', rTEID = 1, rSeq = 2,
       rEBIs = [5], rReason = ''''\<rparr>))) = ActionAllow"
  unfolding begin_admits_iff_compatible [THEN conjunct1]
  by (simp add: compatible_def pairPolicy_cases mk_active_def)

section \<open>Histories of a tracker\<close>

datatype tracker_event =
    EvBegin gtime request | EvFinish active_procedure | EvSweep gtime
  | EvConfigure collision_mode duration

fun tracker_step :: "tracker_event \<Rightarrow> tracker option \<Rightarrow> tracker option" where
  "tracker_step (EvBegin now req) t = fst (begin_proc now t req)"
| "tracker_step (EvFinish p) t = finish p t"
| "tracker_step (EvSweep now) t = snd (sweepExpired now t)"
| "tracker_step (EvConfigure m d) t = configure m d t"

text \<open>Entry \<open>e\<close> started before entry \<open>e'\<close> and let it in.\<close>

definition started_before :: "bool \<Rightarrow> u64 \<times> active_procedure \<Rightarrow> u64 \<times> active_procedure \<Rightarrow> bool" where
  "started_before perm e e' \<longleftrightarrow> fst e < fst e' \<and>
     compatible perm (apProcedure (snd e)) (apEBIs (snd e)) (apProcedure (snd e')) (apEBIs (snd e'))"

definition tracker_ok :: "bool \<Rightarrow> nat \<Rightarrow> tracker \<Rightarrow> bool" where
  "tracker_ok perm n t \<longleftrightarrow> unat (tNextID t) \<le> n \<and> (tMode t = ModePermissive \<longrightarrow> perm) \<and>
     (\<forall>e \<in> set (tActive t). fst e \<le> tNextID t) \<and> sorted_wrt (started_before perm) (tActive t)"

lemma compatible_mono: "compatible p a as n ns \<Longrightarrow> (p \<longrightarrow> p') \<Longrightarrow> compatible p' a as n ns"
  by (auto simp: compatible_def split: if_splits)

lemma tracker_ok_filter:
  "tracker_ok perm n t \<Longrightarrow> tracker_ok perm n (t\<lparr>tActive := filter P (tActive t)\<rparr>)"
  by (auto simp: tracker_ok_def intro: sorted_wrt_filter)

lemma tracker_ok_mono: "tracker_ok perm n t \<Longrightarrow> tracker_ok perm (Suc n) t"
  by (simp add: tracker_ok_def)

lemma tracker_ok_new: "tracker_ok perm 0 newTracker"
  by (simp add: tracker_ok_def newTracker_def newTrackerWithTimeout_def)

lemma u64_succ: "unat (i :: u64) + 1 < 2 ^ 64 \<Longrightarrow> unat (i + 1) = unat i + 1 \<and> i < i + 1"
  by (simp add: unat_word_ariths word_less_nat_alt)

lemma tracker_ok_begin:
  assumes ok: "tracker_ok perm n t" and n: "Suc n < 2 ^ 64"
    and b: "begin_proc now (Some t) req = (Some t', pd)"
  shows "tracker_ok perm (Suc n) t'"
proof -
  let ?t1 = "t\<lparr>tTimeout := timeout_of t, tMode := mode_of t, tActive := live now t\<rparr>"
  have ok1: "tracker_ok perm n ?t1"
    using tracker_ok_filter [OF ok] ok by (auto simp: live_def tracker_ok_def mode_of_def)
  show ?thesis
  proof (cases "first_conflict (mode_of t) req (live now t)")
    case (Some d)
    then show ?thesis using b ok1 by (auto simp: begin_proc_Some tracker_ok_def Let_def)
  next
    case None
    let ?i = "tNextID t + 1"
    let ?e = "(?i, mk_active ?i req now)"
    have i: "unat ?i = unat (tNextID t) + 1" "tNextID t < ?i"
      using u64_succ [of "tNextID t"] ok n by (auto simp: tracker_ok_def)
    have keys: "\<forall>e \<in> set (live now t). fst e \<le> tNextID t" using ok1 by (simp add: tracker_ok_def)
    then have fresh: "?i \<notin> mkeys (live now t)" using i(2) by (auto simp: mkeys_def)
    have t': "t' = ?t1\<lparr>tNextID := ?i, tActive := live now t @ [?e]\<rparr>"
      using b None by (auto simp: begin_proc_Some Let_def mput_fresh [OF fresh])
    have "started_before perm e ?e" if "e \<in> set (live now t)" for e
    proof -
      have "compatible (mode_of t = ModePermissive) (apProcedure (snd e)) (apEBIs (snd e))
          (rProcedure req) (rEBIs req)"
        using None that by (cases e) (auto simp: first_conflict_None_iff decide_allow_iff)
      moreover have "mode_of t = ModePermissive \<longrightarrow> perm" using ok1 by (simp add: tracker_ok_def)
      moreover have "fst e < ?i" using keys that i(2) by (meson order_le_less_trans)
      ultimately show ?thesis
        by (auto simp: started_before_def mk_active_def intro: compatible_mono)
    qed
    then show ?thesis
      using ok1 i keys by (auto simp: t' tracker_ok_def sorted_wrt_append)
  qed
qed

text \<open>The history with the number of its steps, below which the 64-bit IDs cannot wrap.\<close>

definition counted_step :: "bool \<Rightarrow> tracker_event \<Rightarrow> nat \<times> tracker option \<Rightarrow> nat \<times> tracker option" where
  "counted_step perm e s =
     (case e of EvConfigure ModePermissive d \<Rightarrow> if perm then (Suc (fst s), tracker_step e (snd s)) else s
      | _ \<Rightarrow> (Suc (fst s), tracker_step e (snd s)))"

definition counted_ok :: "bool \<Rightarrow> nat \<times> tracker option \<Rightarrow> bool" where
  "counted_ok perm s \<longleftrightarrow> (fst s < 2 ^ 64 \<longrightarrow> (\<forall>t. snd s = Some t \<longrightarrow> tracker_ok perm (fst s) t))"

lemma tracker_ok_step:
  assumes ok: "tracker_ok perm n t" and n: "Suc n < 2 ^ 64"
    and perm: "\<And>d. e = EvConfigure ModePermissive d \<Longrightarrow> perm"
    and t': "tracker_step e (Some t) = Some t'"
  shows "tracker_ok perm (Suc n) t'"
proof (cases e)
  case (EvBegin now req)
  then have "begin_proc now (Some t) req = (Some t', snd (begin_proc now (Some t) req))"
    using t' by (simp add: prod_eq_iff)
  with ok n show ?thesis by (rule tracker_ok_begin)
next
  case (EvFinish p)
  then have "t' = t \<or> t' = t\<lparr>tActive := filter (\<lambda>e. fst e \<noteq> apID p) (tActive t)\<rparr>"
    using t' by (auto simp: finish_def mdel_filter split: if_splits)
  then show ?thesis
    using tracker_ok_mono [OF ok] tracker_ok_mono [OF tracker_ok_filter [OF ok]] by auto
next
  case (EvSweep now)
  have ok1: "tracker_ok perm n (default_timeout t)"
    using ok by (auto simp: tracker_ok_def default_timeout_def)
  have "\<exists>P. t' = (default_timeout t)\<lparr>tActive := filter P (tActive (default_timeout t))\<rparr>"
    using EvSweep t' by (auto simp: sweepExpired_def sweepExpiredLocked_def Let_def)
  then show ?thesis using tracker_ok_mono [OF tracker_ok_filter [OF ok1]] by auto
next
  case (EvConfigure m d)
  then have "t' = t\<lparr>tMode := (if m = ModeEmpty then ModeStrict else m),
      tTimeout := (if d \<le> 0 then DefaultActiveProcedureTimeout else d)\<rparr>"
    using t' by (simp add: configure_def)
  moreover have "m = ModePermissive \<longrightarrow> perm" using perm EvConfigure by simp
  ultimately show ?thesis using ok unfolding tracker_ok_def by simp
qed

lemma counted_ok_step: "counted_ok perm s \<Longrightarrow> counted_ok perm (counted_step perm e s)"
proof -
  assume ok: "counted_ok perm s"
  obtain n t0 where s: "s = (n, t0)" by (cases s)
  show ?thesis
  proof (cases "t0")
    case None
    then have "tracker_step e t0 = None"
      by (cases e) (auto simp: begin_proc_def finish_def sweepExpired_def configure_def)
    with s ok show ?thesis
      by (auto simp: counted_ok_def counted_step_def split: tracker_event.splits collision_mode.splits)
  next
    case (Some t)
    show ?thesis
    proof (cases "\<not> perm \<and> (\<exists>d. e = EvConfigure ModePermissive d)")
      case True
      with ok show ?thesis by (auto simp: counted_step_def)
    next
      case False
      then have "counted_step perm e s = (Suc n, tracker_step e (Some t))"
        using s Some by (auto simp: counted_step_def split: tracker_event.splits collision_mode.splits)
      with False ok s Some tracker_ok_step [of perm n t e] show ?thesis
        by (auto simp: counted_ok_def)
    qed
  qed
qed

interpretation tracker_sys: event_system "counted_step perm" "counted_ok perm"
  by unfold_locales (rule counted_ok_step)

lemma fold_counted:
  "\<forall>d. EvConfigure ModePermissive d \<in> set evs \<longrightarrow> perm \<Longrightarrow>
     fold (counted_step perm) evs (n, t) = (n + length evs, fold tracker_step evs t)"
proof (induction evs arbitrary: n t)
  case (Cons e evs)
  have "counted_step perm e (n, t) = (Suc n, tracker_step e t)"
    using Cons.prems by (auto simp: counted_step_def split: tracker_event.splits collision_mode.splits)
  moreover have "\<forall>d. EvConfigure ModePermissive d \<in> set evs \<longrightarrow> perm"
    using Cons.prems by simp
  ultimately show ?case using Cons.IH [of "Suc n" "tracker_step e t"] by simp
qed simp

lemma compatible_bearers:
  assumes "compatible False a as n ns" "isBearerScoped a" "isBearerScoped n"
    "{a, n} \<noteq> {ProcedureCreateBearer, ProcedureCreateBearerResponse}"
  shows "as \<noteq> [] \<and> ns \<noteq> [] \<and> set as \<inter> set ns = {}"
proof -
  have "n \<noteq> ProcedureDeleteSession" "a \<noteq> ProcedureReleaseAccessBearers" "n \<noteq> ProcedureReleaseAccessBearers"
    using assms(2,3) by auto
  then have "pairPolicy a n = PolicyBearerOverlap"
    using assms(2-4) unfolding pairPolicy_cases by (auto simp: doubleton_eq_iff)
  with assms(1) show ?thesis by (auto simp: compatible_def split: if_splits)
qed

text \<open>
  while the tracker is never configured permissive, any two procedures active at the
  same time are compatible: the one that started later was admissible beside the earlier
  one. In particular two bearer procedures that are not a Create Bearer request and its
  response work on disjoint, known sets of bearers.
\<close>

theorem active_procedures_compatible:
  assumes run: "fold tracker_step evs (Some newTracker) = Some t" and short: "length evs < 2 ^ 64"
    and strict: "\<forall>m d. EvConfigure m d \<in> set evs \<longrightarrow> m \<noteq> ModePermissive"
    and p: "(k, p) \<in> set (tActive t)" and q: "(l, q) \<in> set (tActive t)" and "k < l"
  shows "compatible False (apProcedure p) (apEBIs p) (apProcedure q) (apEBIs q) \<and>
    (isBearerScoped (apProcedure p) \<and> isBearerScoped (apProcedure q) \<and>
     {apProcedure p, apProcedure q} \<noteq> {ProcedureCreateBearer, ProcedureCreateBearerResponse} \<longrightarrow>
       apEBIs p \<noteq> [] \<and> apEBIs q \<noteq> [] \<and> set (apEBIs p) \<inter> set (apEBIs q) = {})"
proof -
  have "counted_ok False (fold (counted_step False) evs (0, Some newTracker))"
    by (rule tracker_sys.run_inv) (simp add: counted_ok_def tracker_ok_new)
  moreover have "fold (counted_step False) evs (0, Some newTracker) = (length evs, Some t)"
    using strict run by (subst fold_counted) auto
  ultimately have "sorted_wrt (started_before False) (tActive t)"
    using short by (auto simp: counted_ok_def tracker_ok_def)
  then have "started_before False (k, p) (l, q)"
    using p q \<open>k < l\<close> unfolding sorted_wrt_iff_nth_less in_set_conv_nth
    by (metis fst_conv less_asym linorder_neqE_nat order_less_irrefl started_before_def)
  then have c: "compatible False (apProcedure p) (apEBIs p) (apProcedure q) (apEBIs q)"
    by (simp add: started_before_def)
  then show ?thesis using compatible_bearers by blast
qed


abbreviation sample_request :: "procedure \<Rightarrow> u8 list \<Rightarrow> request" where
  "sample_request p ebis \<equiv> \<lparr>rProcedure = p, rOwner = OwnerPGW, rPeer = '''', rTEID = 1, rSeq = 1,
     rEBIs = ebis, rReason = ''''\<rparr>"

lemma sample_run:
  "fold tracker_step [EvBegin 5 (sample_request ProcedureUpdateBearer [6]),
      EvBegin 6 (sample_request ProcedureModifyBearer [5])] (Some newTracker) =
   Some (newTracker\<lparr>tNextID := 2, tActive :=
      [(1, mk_active 1 (sample_request ProcedureUpdateBearer [6]) 5),
       (2, mk_active 2 (sample_request ProcedureModifyBearer [5]) 6)]\<rparr>)"
  by code_simp

theorem active_procedures_compatible_witness:
  "set [6 :: u8] \<inter> set [5] = {} \<and> compatible False ProcedureUpdateBearer [6] ProcedureModifyBearer [5]"
  using active_procedures_compatible [OF sample_run, of 1 "mk_active 1 (sample_request ProcedureUpdateBearer [6]) 5"
      2 "mk_active 2 (sample_request ProcedureModifyBearer [5]) 6"]
  by (simp add: mk_active_def)

section \<open>Precedence of Delete Session\<close>

lemma compatible_delete_session:
  "isBearerScoped a \<Longrightarrow> compatible perm a as ProcedureDeleteSession ns"
  by (cases a) (simp_all add: compatible_def pairPolicy_cases doubleton_eq_iff)

lemma incompatible_after_delete_session: "\<not> compatible perm ProcedureDeleteSession as n ns"
  by (simp add: compatible_def pairPolicy_cases doubleton_eq_iff)

text \<open>
  Delete Session takes precedence over bearer procedures, in every mode: it is admitted
  while only bearer procedures are active, and once it is recorded no procedure of any kind
  is admitted until it finishes or expires.
\<close>

theorem delete_session_precedence:
  assumes bearers: "\<forall>(k, p) \<in> set (tActive t). isBearerScoped (apProcedure p)"
    and req: "rProcedure req = ProcedureDeleteSession"
    and run: "begin_proc now (Some t) req = (Some t', proc, d)"
    and later: "time_sub now' now \<le> timeout_of t'"
  shows "dAction d = ActionAllow \<and> mget (tActive t') (apID proc) = Some proc \<and>
    dAction (snd (snd (begin_proc now' (Some t') req'))) = ActionRejectNew \<and>
    fst (snd (begin_proc now' (Some t') req')) = zeroProcedure"
proof -
  have "\<forall>(k, p) \<in> set (live now t). dAction (decide (mode_of t) p req) = ActionAllow"
    using bearers req by (auto simp: decide_allow_iff compatible_delete_session live_def)
  then have n: "first_conflict (mode_of t) req (live now t) = None"
    by (simp add: first_conflict_None_iff)
  then have d: "dAction d = ActionAllow" and p: "proc = mk_active (tNextID t + 1) req now"
    and t': "tActive t' = mput (tNextID t + 1) proc (live now t)"
    using run by (auto simp: begin_proc_Some Let_def)
  then have m: "mget (tActive t') (apID proc) = Some proc"
    by (simp add: mk_active_def map_simps)
  then have mem: "(apID proc, proc) \<in> set (tActive t')" by (auto simp: mget_def dest: map_of_SomeD)
  have "\<not> expired now' (timeout_of t') proc"
    using later by (simp add: expired_def p mk_active_def)
  with mem have "dAction (snd (snd (begin_proc now' (Some t') req'))) \<noteq> ActionAllow"
    unfolding begin_admits
    using incompatible_after_delete_session req p by (force simp: mk_active_def)
  moreover from this have "fst (snd (begin_proc now' (Some t') req')) = zeroProcedure"
    by (auto simp: begin_proc_Some Let_def split: option.splits)
  ultimately show ?thesis
    using d m by (cases "dAction (snd (snd (begin_proc now' (Some t') req')))") auto
qed

theorem delete_session_precedence_witness:
  "dAction (snd (snd (begin_proc 7
      (Some (newTracker\<lparr>tNextID := 1, tActive := [(1, mk_active 1 (sample_request ProcedureDeleteSession []) 5)]\<rparr>))
      (sample_request ProcedureModifyBearer [5])))) = ActionRejectNew"
proof -
  have run: "begin_proc 5 (Some newTracker) (sample_request ProcedureDeleteSession []) =
      (Some (newTracker\<lparr>tNextID := 1, tActive := [(1, mk_active 1 (sample_request ProcedureDeleteSession []) 5)]\<rparr>),
       mk_active 1 (sample_request ProcedureDeleteSession []) 5, mkDecision ActionAllow PolicyNone '''')"
    by code_simp
  show ?thesis
    by (rule delete_session_precedence [OF _ _ run, THEN conjunct2, THEN conjunct2, THEN conjunct1])
       (simp_all add: newTracker_def newTrackerWithTimeout_def timeout_of_def time_sub_def
          DefaultActiveProcedureTimeout_def time_second_def minDuration_def maxDuration_def)
qed

end
