(* ===== verification/GTPv2_IE.thy ===== *)
theory GTPv2_IE
  imports SGW_Prelude
begin

text \<open>
  GTPv2-C information elements (\<^verbatim>\<open>internal/gtpv2/ie/ie.go\<close>): the TLIV wire format, the
  constructors and decoders of the single IEs, and the digit-string, APN and PLMN codecs.
  A Go string is the list of its bytes. The parser instantiates \<open>tlv_stream\<close>, which gives
  the round trip of IE lists and of grouped IEs.
\<close>

section \<open>Constants\<close>

abbreviation (input) TypeIMSI :: u8 where "TypeIMSI \<equiv> 1"
abbreviation (input) TypeCause :: u8 where "TypeCause \<equiv> 2"
abbreviation (input) TypeRecovery :: u8 where "TypeRecovery \<equiv> 3"
abbreviation (input) TypeAPN :: u8 where "TypeAPN \<equiv> 71"
abbreviation (input) TypeAMBR :: u8 where "TypeAMBR \<equiv> 72"
abbreviation (input) TypeEBI :: u8 where "TypeEBI \<equiv> 73"
abbreviation (input) TypeMEI :: u8 where "TypeMEI \<equiv> 75"
abbreviation (input) TypeMSISDN :: u8 where "TypeMSISDN \<equiv> 76"
abbreviation (input) TypeIndication :: u8 where "TypeIndication \<equiv> 77"
abbreviation (input) TypePAA :: u8 where "TypePAA \<equiv> 79"
abbreviation (input) TypeBearerQoS :: u8 where "TypeBearerQoS \<equiv> 80"
abbreviation (input) TypeRATType :: u8 where "TypeRATType \<equiv> 82"
abbreviation (input) TypeServingNetwork :: u8 where "TypeServingNetwork \<equiv> 83"
abbreviation (input) TypeBearerTFT :: u8 where "TypeBearerTFT \<equiv> 84"
abbreviation (input) TypeFTEID :: u8 where "TypeFTEID \<equiv> 87"
abbreviation (input) TypeBearerContext :: u8 where "TypeBearerContext \<equiv> 93"
abbreviation (input) TypePDNType :: u8 where "TypePDNType \<equiv> 99"
abbreviation (input) TypeSelectionMode :: u8 where "TypeSelectionMode \<equiv> 128"
abbreviation (input) TypeSecondaryRATUsageDataReport :: u8 where "TypeSecondaryRATUsageDataReport \<equiv> 201"
abbreviation (input) PDNTypeIPv4 :: u8 where "PDNTypeIPv4 \<equiv> 1"

section \<open>The element and its wire format\<close>

type_synonym gostring = bytes

record ie =
  ieType :: u8
  ieInstance :: u8
  ieValue :: bytes

datatype ie_error =
    IEHeaderTruncated nat
  | IEValueTruncated u8 u16 nat
  | IEWrongType u8
  | IETooShort nat
  | PLMNTooShort

type_synonym 'a ie_result = "(ie_error, 'a) outcome"

definition IE_Marshal :: "ie \<Rightarrow> bytes" where
  "IE_Marshal i = [ieType i] @ be16 (of_nat (length (ieValue i))) @ [ieInstance i AND 0x0F] @ ieValue i"

function ParseIEs :: "bytes \<Rightarrow> ie list ie_result" where
  "ParseIEs b =
     (if b = [] then Ok []
      else if length b < 4 then Fail (IEHeaderTruncated (length b))
      else
        obind (idx b 0) (\<lambda>typ.
        obind (get16 b 1) (\<lambda>len.
        obind (idx b 3) (\<lambda>o4.
          let b' = drop 4 b in
          if unat len > length b' then Fail (IEValueTruncated typ len (length b'))
          else
            obind (slc b' 0 (unat len)) (\<lambda>val.
            obind (ParseIEs (drop (unat len) b')) (\<lambda>ies.
              Ok (\<lparr>ieType = typ, ieInstance = o4 AND 0x0F, ieValue = val\<rparr> # ies)))))))"
  by pat_completeness auto
termination by (relation "measure length") auto

declare ParseIEs.simps [simp del]

fun FindInstance :: "ie list \<Rightarrow> u8 \<Rightarrow> u8 \<Rightarrow> ie option" where
  "FindInstance [] typ inst = None"
| "FindInstance (i # ies) typ inst =
     (if ieType i = typ \<and> ieInstance i = inst then Some i else FindInstance ies typ inst)"

definition FindFirst :: "ie list \<Rightarrow> u8 \<Rightarrow> ie option" where
  "FindFirst ies typ = FindInstance ies typ 0"

definition FindAll :: "ie list \<Rightarrow> u8 \<Rightarrow> ie list" where
  "FindAll ies typ = filter (\<lambda>i. ieType i = typ) ies"

section \<open>Strings as runes\<close>

text \<open>
  \<^verbatim>\<open>for i, c := range s\<close> decodes UTF-8: it visits the byte offset and the code point of
  every rune; an invalid byte counts as one rune U+FFFD.
\<close>

definition cont_byte :: "u8 \<Rightarrow> u8 \<Rightarrow> u8 \<Rightarrow> bool" where
  "cont_byte lo hi b \<longleftrightarrow> lo \<le> b \<and> b \<le> hi"

fun decode_rune :: "bytes \<Rightarrow> u32 \<times> nat" where
  "decode_rune (b0 # r) =
     (if b0 < 0x80 then (ucast b0, 1)
      else case r of
        b1 # r1 \<Rightarrow>
          if 0xC2 \<le> b0 \<and> b0 \<le> 0xDF \<and> cont_byte 0x80 0xBF b1
          then (push_bit 6 (ucast (b0 AND 0x1F)) OR ucast (b1 AND 0x3F), 2)
          else (case r1 of
            b2 # r2 \<Rightarrow>
              if 0xE0 \<le> b0 \<and> b0 \<le> 0xEF \<and> cont_byte 0x80 0xBF b2 \<and>
                 cont_byte (if b0 = 0xE0 then 0xA0 else 0x80) (if b0 = 0xED then 0x9F else 0xBF) b1
              then (push_bit 12 (ucast (b0 AND 0x0F)) OR push_bit 6 (ucast (b1 AND 0x3F)) OR
                    ucast (b2 AND 0x3F), 3)
              else (case r2 of
                b3 # _ \<Rightarrow>
                  if 0xF0 \<le> b0 \<and> b0 \<le> 0xF4 \<and> cont_byte 0x80 0xBF b2 \<and> cont_byte 0x80 0xBF b3 \<and>
                     cont_byte (if b0 = 0xF0 then 0x90 else 0x80) (if b0 = 0xF4 then 0x8F else 0xBF) b1
                  then (push_bit 18 (ucast (b0 AND 0x07)) OR push_bit 12 (ucast (b1 AND 0x3F)) OR
                        push_bit 6 (ucast (b2 AND 0x3F)) OR ucast (b3 AND 0x3F), 4)
                  else (0xFFFD, 1)
              | [] \<Rightarrow> (0xFFFD, 1))
          | [] \<Rightarrow> (0xFFFD, 1))
      | [] \<Rightarrow> (0xFFFD, 1))"
| "decode_rune [] = (0xFFFD, 1)"

function runes :: "nat \<Rightarrow> gostring \<Rightarrow> (nat \<times> u32) list" where
  "runes i s =
     (if s = [] then []
      else let (c, w) = decode_rune s in (i, c) # runes (i + max w 1) (drop (max w 1) s))"
  by pat_completeness auto
termination by (relation "measure (\<lambda>(i, s). length s)") auto

declare runes.simps [simp del]

section \<open>Digit strings, APN and PLMN\<close>

definition encodeTBCD_step :: "nat \<times> u32 \<Rightarrow> bytes \<Rightarrow> bytes" where
  "encodeTBCD_step e out =
     (let i = fst e; d = ucast (snd e - 0x30) :: u8 in
      if i mod 2 = 0 then out[i div 2 := d]
      else out[i div 2 := (out ! (i div 2)) OR push_bit 4 d])"

definition encodeTBCD :: "gostring \<Rightarrow> bytes" where
  "encodeTBCD digits =
     (let out = fold encodeTBCD_step (runes 0 digits) (replicate ((length digits + 1) div 2) 0) in
      if length digits mod 2 \<noteq> 0
      then out[length out - 1 := (out ! (length out - 1)) OR 0xF0] else out)"

fun decodeTBCD :: "bytes \<Rightarrow> gostring" where
  "decodeTBCD [] = []"
| "decodeTBCD (v # b) =
     (let lo = v AND 0x0F; hi = drop_bit 4 v AND 0x0F in
      [0x30 + lo] @ (if hi \<noteq> 0x0F then [0x30 + hi] else []) @ decodeTBCD b)"

definition encodeE164 :: "gostring \<Rightarrow> bytes" where
  "encodeE164 num = encodeTBCD (if num \<noteq> [] \<and> hd num = 0x2B then tl num else num)"

definition decodeE164 :: "bytes \<Rightarrow> gostring" where
  "decodeE164 b = decodeTBCD b"

definition encodeAPN_step :: "gostring \<Rightarrow> nat \<Rightarrow> bytes \<times> nat \<Rightarrow> bytes \<times> nat" where
  "encodeAPN_step apn i st =
     (let (out, start) = st in
      if i = length apn \<or> apn ! i = 0x2E
      then (let label = take (i - start) (drop start apn) in
            (out @ [of_nat (length label)] @ label, i + 1))
      else (out, start))"

definition encodeAPN :: "gostring \<Rightarrow> bytes" where
  "encodeAPN apn =
     (if apn = [] then [0] else fst (fold (encodeAPN_step apn) [0..<length apn + 1] ([], 0)))"

function decodeAPN_loop :: "bytes \<Rightarrow> gostring \<Rightarrow> gostring" where
  "decodeAPN_loop b out =
     (if b = [] then out
      else let n = unat (hd b); b' = tl b in
        if n > length b' then out
        else decodeAPN_loop (drop n b') (out @ (if out \<noteq> [] then [0x2E] else []) @ take n b'))"
  by pat_completeness auto
termination by (relation "measure (length \<circ> fst)") (auto simp: neq_Nil_conv)

declare decodeAPN_loop.simps [simp del]

definition decodeAPN :: "bytes \<Rightarrow> gostring" where
  "decodeAPN b = (if b = [] then [] else decodeAPN_loop b [])"

definition digit :: "u8 \<Rightarrow> u8" where
  "digit c = (if 0x30 \<le> c \<and> c \<le> 0x39 then c - 0x30 else 0)"

definition encodePLMN :: "gostring \<Rightarrow> gostring \<Rightarrow> bytes" where
  "encodePLMN mcc0 mnc0 =
     (let mcc = mcc0 @ replicate (3 - length mcc0) 0x30;
          mnc = replicate (2 - length mnc0) 0x30 @ mnc0 in
      [digit (mcc ! 0) OR push_bit 4 (digit (mcc ! 1)),
       (if length mnc = 2 then digit (mcc ! 2) OR 0xF0
        else digit (mcc ! 2) OR push_bit 4 (digit (mnc ! 2))),
       digit (mnc ! 0) OR push_bit 4 (digit (mnc ! 1))])"

text \<open>\<^verbatim>\<open>%d\<close> of a nibble: one or two decimal digits.\<close>

definition dec_nibble :: "u8 \<Rightarrow> gostring" where
  "dec_nibble d = (if d < 10 then [0x30 + d] else [0x31, 0x30 + (d - 10)])"

definition decodePLMN :: "bytes \<Rightarrow> (gostring \<times> gostring) ie_result" where
  "decodePLMN b =
     (if length b < 3 then Fail PLMNTooShort
      else
        obind (idx b 0) (\<lambda>b0. obind (idx b 1) (\<lambda>b1. obind (idx b 2) (\<lambda>b2.
          let d0 = b0 AND 0x0F; d1 = drop_bit 4 b0 AND 0x0F;
              d2 = b1 AND 0x0F; d3 = drop_bit 4 b1 AND 0x0F;
              d4 = b2 AND 0x0F; d5 = drop_bit 4 b2 AND 0x0F in
          Ok (dec_nibble d0 @ dec_nibble d1 @ dec_nibble d2,
              if d3 = 0x0F then dec_nibble d4 @ dec_nibble d5
              else dec_nibble d4 @ dec_nibble d5 @ dec_nibble d3)))))"

definition putUint40 :: "u64 \<Rightarrow> bytes" where
  "putUint40 v = [ucast (drop_bit 32 v), ucast (drop_bit 24 v), ucast (drop_bit 16 v),
     ucast (drop_bit 8 v), ucast v]"


section \<open>Constructors\<close>

abbreviation mkIE :: "u8 \<Rightarrow> u8 \<Rightarrow> bytes \<Rightarrow> ie" where
  "mkIE t i v \<equiv> \<lparr>ieType = t, ieInstance = i, ieValue = v\<rparr>"

definition NewIMSI :: "gostring \<Rightarrow> ie" where
  "NewIMSI imsi = mkIE TypeIMSI 0 (encodeTBCD imsi)"

definition NewMSISDN :: "gostring \<Rightarrow> ie" where
  "NewMSISDN msisdn = mkIE TypeMSISDN 0 (encodeE164 msisdn)"

definition NewMEI :: "gostring \<Rightarrow> ie" where
  "NewMEI mei = mkIE TypeMEI 0 (encodeTBCD mei)"

definition NewCause :: "u8 \<Rightarrow> u8 \<Rightarrow> u8 \<Rightarrow> u8 \<Rightarrow> ie option \<Rightarrow> ie" where
  "NewCause cause pce bce cs offendingIE =
     (let flags = (cs AND 1) OR push_bit 1 (bce AND 1) OR push_bit 2 (pce AND 1);
          v = [cause, flags] in
      mkIE TypeCause 0
        (case offendingIE of
           None \<Rightarrow> v
         | Some off \<Rightarrow> v @ [ieType off, 0, 0, ieInstance off AND 0x0F]))"

definition NewRecovery :: "u8 \<Rightarrow> ie" where
  "NewRecovery restartCounter = mkIE TypeRecovery 0 [restartCounter]"

definition NewRATType :: "u8 \<Rightarrow> ie" where
  "NewRATType ratType = mkIE TypeRATType 0 [ratType]"

definition NewSelectionMode :: "u8 \<Rightarrow> ie" where
  "NewSelectionMode mode = mkIE TypeSelectionMode 0 [mode AND 0x03]"

definition NewAPN :: "gostring \<Rightarrow> ie" where
  "NewAPN apn = mkIE TypeAPN 0 (encodeAPN apn)"

definition NewPDNType :: "u8 \<Rightarrow> ie" where
  "NewPDNType pdnType = mkIE TypePDNType 0 [pdnType AND 0x07]"

definition NewServingNetwork :: "gostring \<Rightarrow> gostring \<Rightarrow> ie" where
  "NewServingNetwork mcc mnc = mkIE TypeServingNetwork 0 (encodePLMN mcc mnc)"

definition NewEBI :: "u8 \<Rightarrow> ie" where
  "NewEBI ebi = mkIE TypeEBI 0 [ebi AND 0x0F]"

definition NewEBIInstance :: "u8 \<Rightarrow> u8 \<Rightarrow> ie" where
  "NewEBIInstance inst ebi = mkIE TypeEBI inst [ebi AND 0x0F]"

definition NewFTEID :: "u8 \<Rightarrow> u8 \<Rightarrow> u32 \<Rightarrow> ip_addr \<Rightarrow> ie ie_result" where
  "NewFTEID inst ifType teid v4 =
     (let flags = (ifType AND 0x3F) OR (if isValid v4 then 0x80 else 0);
          v = [flags] @ be32 teid in
      if isValid v4 then obind (as4 v4) (\<lambda>ip4. Ok (mkIE TypeFTEID inst (v @ ip4)))
      else Ok (mkIE TypeFTEID inst v))"

definition NewPAA :: "u8 \<Rightarrow> ip_addr \<Rightarrow> ie ie_result" where
  "NewPAA pdnType v4 =
     (let v = [pdnType AND 0x07] in
      if pdnType = PDNTypeIPv4 \<and> isValid v4 then obind (as4 v4) (\<lambda>ip4. Ok (mkIE TypePAA 0 (v @ ip4)))
      else Ok (mkIE TypePAA 0 v))"

definition NewAMBR :: "u32 \<Rightarrow> u32 \<Rightarrow> ie" where
  "NewAMBR uplinkKbps downlinkKbps = mkIE TypeAMBR 0 (be32 uplinkKbps @ be32 downlinkKbps)"

definition NewBearerQoS :: "u8 \<Rightarrow> u8 \<Rightarrow> u8 \<Rightarrow> u8 \<Rightarrow> u64 \<Rightarrow> u64 \<Rightarrow> u64 \<Rightarrow> u64 \<Rightarrow> ie" where
  "NewBearerQoS pci pl pvi qci mbrUL mbrDL gbrUL gbrDL =
     mkIE TypeBearerQoS 0
       ([push_bit 6 (pci AND 1) OR push_bit 2 (pl AND 0x0F) OR (pvi AND 1), qci] @
        putUint40 mbrUL @ putUint40 mbrDL @ putUint40 gbrUL @ putUint40 gbrDL)"

definition NewBearerTFT :: "bytes \<Rightarrow> ie" where
  "NewBearerTFT raw = mkIE TypeBearerTFT 0 raw"

definition NewSecondaryRATUsageDataReport :: "bytes \<Rightarrow> ie" where
  "NewSecondaryRATUsageDataReport raw = mkIE TypeSecondaryRATUsageDataReport 0 raw"

definition NewBearerContext :: "u8 \<Rightarrow> ie list \<Rightarrow> ie" where
  "NewBearerContext inst children =
     mkIE TypeBearerContext inst (concat (map IE_Marshal children))"

definition NewIndication :: "bytes \<Rightarrow> ie" where
  "NewIndication flags = mkIE TypeIndication 0 flags"

section \<open>Decoders\<close>

definition IE_IMSI :: "ie \<Rightarrow> gostring ie_result" where
  "IE_IMSI i = (if ieType i \<noteq> TypeIMSI then Fail (IEWrongType (ieType i)) else Ok (decodeTBCD (ieValue i)))"

definition MEIValue :: "ie \<Rightarrow> gostring ie_result" where
  "MEIValue i = (if ieType i \<noteq> TypeMEI then Fail (IEWrongType (ieType i)) else Ok (decodeTBCD (ieValue i)))"

definition IE_MSISDN :: "ie \<Rightarrow> gostring ie_result" where
  "IE_MSISDN i = (if ieType i \<noteq> TypeMSISDN then Fail (IEWrongType (ieType i)) else Ok (decodeE164 (ieValue i)))"

text \<open>The one-octet decoders: wrong type, too short, or the (masked) first octet.\<close>

definition octet_value :: "u8 \<Rightarrow> (u8 \<Rightarrow> u8) \<Rightarrow> ie \<Rightarrow> u8 ie_result" where
  "octet_value typ f i =
     (if ieType i \<noteq> typ then Fail (IEWrongType (ieType i))
      else if length (ieValue i) < 1 then Fail (IETooShort 0)
      else obind (idx (ieValue i) 0) (\<lambda>v. Ok (f v)))"

definition CauseValue :: "ie \<Rightarrow> u8 ie_result" where "CauseValue = octet_value TypeCause (\<lambda>v. v)"
definition SelectionModeValue :: "ie \<Rightarrow> u8 ie_result" where "SelectionModeValue = octet_value TypeSelectionMode (\<lambda>v. v AND 0x03)"
definition RATTypeValue :: "ie \<Rightarrow> u8 ie_result" where "RATTypeValue = octet_value TypeRATType (\<lambda>v. v)"
definition PDNTypeValue :: "ie \<Rightarrow> u8 ie_result" where "PDNTypeValue = octet_value TypePDNType (\<lambda>v. v AND 0x07)"
definition EBIValue :: "ie \<Rightarrow> u8 ie_result" where "EBIValue = octet_value TypeEBI (\<lambda>v. v AND 0x0F)"
definition RecoveryValue :: "ie \<Rightarrow> u8 ie_result" where "RecoveryValue = octet_value TypeRecovery (\<lambda>v. v)"

definition SecondaryRATUsageDataReportValue :: "ie \<Rightarrow> bytes ie_result" where
  "SecondaryRATUsageDataReportValue i =
     (if ieType i \<noteq> TypeSecondaryRATUsageDataReport then Fail (IEWrongType (ieType i)) else Ok (ieValue i))"

definition APNValue :: "ie \<Rightarrow> gostring ie_result" where
  "APNValue i = (if ieType i \<noteq> TypeAPN then Fail (IEWrongType (ieType i)) else Ok (decodeAPN (ieValue i)))"

record fteid =
  fIntfType :: u8
  fTEID :: u32
  fIPv4 :: ip_addr

definition FTEIDValue :: "ie \<Rightarrow> fteid ie_result" where
  "FTEIDValue i =
     (if ieType i \<noteq> TypeFTEID then Fail (IEWrongType (ieType i))
      else if length (ieValue i) < 5 then Fail (IETooShort (length (ieValue i)))
      else
        obind (idx (ieValue i) 0) (\<lambda>flags.
        obind (get32 (ieValue i) 1) (\<lambda>teid.
          let f = \<lparr>fIntfType = flags AND 0x3F, fTEID = teid, fIPv4 = NoAddr\<rparr> in
          if flags AND 0x80 \<noteq> 0 then
            if length (ieValue i) < 9 then Fail (IETooShort (length (ieValue i)))
            else obind (get32 (ieValue i) 5) (\<lambda>a. Ok (f\<lparr>fIPv4 := IP4 a\<rparr>))
          else Ok f)))"

record paa =
  paaPDNType :: u8
  paaIPv4 :: ip_addr

definition PAAValue :: "ie \<Rightarrow> paa ie_result" where
  "PAAValue i =
     (if ieType i \<noteq> TypePAA then Fail (IEWrongType (ieType i))
      else if length (ieValue i) < 1 then Fail (IETooShort 0)
      else
        obind (idx (ieValue i) 0) (\<lambda>o1.
          let p = \<lparr>paaPDNType = o1 AND 0x07, paaIPv4 = NoAddr\<rparr> in
          if paaPDNType p = PDNTypeIPv4 then
            if length (ieValue i) < 5 then Fail (IETooShort (length (ieValue i)))
            else obind (get32 (ieValue i) 1) (\<lambda>a. Ok (p\<lparr>paaIPv4 := IP4 a\<rparr>))
          else Ok p))"

definition ServingNetworkValue :: "ie \<Rightarrow> (gostring \<times> gostring) ie_result" where
  "ServingNetworkValue i =
     (if ieType i \<noteq> TypeServingNetwork then Fail (IEWrongType (ieType i))
      else if length (ieValue i) < 3 then Fail (IETooShort (length (ieValue i)))
      else decodePLMN (ieValue i))"

definition ChildIEs :: "ie \<Rightarrow> ie list ie_result" where
  "ChildIEs i = ParseIEs (ieValue i)"

definition BearerTFTValue :: "ie \<Rightarrow> bytes ie_result" where
  "BearerTFTValue i =
     (if ieType i \<noteq> TypeBearerTFT then Fail (IEWrongType (ieType i)) else Ok (ieValue i))"

section \<open>The TLIV stream\<close>

text \<open>An element that fits the wire format: a 4-bit instance and a 16-bit length.\<close>

definition wf_ie :: "ie \<Rightarrow> bool" where
  "wf_ie i \<longleftrightarrow> length (ieValue i) < 65536 \<and> ieInstance i < 16"

lemma and_0F_id: "(x :: u8) < 16 \<Longrightarrow> x AND 0x0F = x"
proof -
  assume "x < 16"
  then have "unat (take_bit 4 x) = unat x"
    by (simp add: unsigned_take_bit_eq word_less_nat_alt take_bit_nat_eq_self)
  then have "take_bit 4 x = x" by (rule word_unat_eq_iff [THEN iffD2])
  then show ?thesis by (simp add: take_bit_eq_mask mask_numeral)
qed

lemma parse_marshal_step:
  assumes "wf_ie i"
  shows "ParseIEs (IE_Marshal i @ r) = obind (ParseIEs r) (\<lambda>ies. Ok (i # ies))"
proof -
  have "ieInstance i AND 0x0F AND 0x0F = ieInstance i" "unat (of_nat (length (ieValue i)) :: u16) = length (ieValue i)"
    using assms by (auto simp: wf_ie_def and_0F_id and.assoc)
  then show ?thesis
    by (cases i, subst ParseIEs.simps) (simp add: IE_Marshal_def be16_def)
qed

interpretation ie_stream: tlv_stream IE_Marshal ParseIEs wf_ie
  by unfold_locales (simp add: ParseIEs.simps, rule parse_marshal_step)


text \<open>
  C30: encoding any list of elements with 4-bit instances and 16-bit lengths and parsing the
  bytes gives the list back, at the top level of a message and inside a grouped Bearer Context.
\<close>

theorem ies_marshal_parse:
  assumes "\<forall>i \<in> set ies. wf_ie i"
  shows "ParseIEs (concat (map IE_Marshal ies)) = Ok ies \<and>
    ChildIEs (NewBearerContext inst ies) = Ok ies"
  using assms by (simp add: ChildIEs_def NewBearerContext_def ie_stream.parse_concat)

theorem ies_marshal_parse_witness:
  "ParseIEs [73, 0, 1, 0, 5, 2, 0, 2, 1, 16, 0] = Ok [mkIE 73 0 [5], mkIE 2 1 [16, 0]]"
proof -
  have "ParseIEs (concat (map IE_Marshal [mkIE 73 0 [5], mkIE 2 1 [16, 0]])) =
      Ok [mkIE 73 0 [5], mkIE 2 1 [16, 0]]"
    by (rule ies_marshal_parse [THEN conjunct1]) (simp add: wf_ie_def)
  then show ?thesis by (simp add: IE_Marshal_def be16_def)
qed

lemma parse_no_panic: "ParseIEs b \<noteq> Panic"
  by (induction b rule: ParseIEs.induct) (subst ParseIEs.simps, auto simp: Let_def obind_Panic_iff idx_def)

lemma and_0F_less: "(x :: u8) AND 0x0F < 16"
proof -
  have "x AND 0x0F = take_bit 4 x" by (simp add: take_bit_eq_mask mask_numeral)
  then show ?thesis using take_bit_nat_less_exp [of 4 "unat x"]
    by (simp add: word_less_nat_alt unsigned_take_bit_eq)
qed

lemma length_IE_Marshal: "length (IE_Marshal i) = 4 + length (ieValue i)"
  by (simp add: IE_Marshal_def)

lemma parse_wf_length:
  "ParseIEs b = Ok ies \<Longrightarrow> (\<forall>i \<in> set ies. wf_ie i) \<and> length (concat (map IE_Marshal ies)) = length b"
proof (induction b arbitrary: ies rule: ParseIEs.induct)
  case (1 b)
  show ?case
  proof (cases "b = []")
    case True
    with 1(2) show ?thesis by (simp add: ParseIEs.simps)
  next
    case False
    define len where "len = rd16 (b ! 1) (b ! 2)"
    from 1(2) False have len4: "\<not> length b < 4" by (auto simp: ParseIEs.simps)
    then have f: "b ! Suc (Suc 0) = b ! 2" "0 < length b" by (auto simp: numeral_2_eq_2)
    from 1(2) False len4 f obtain rest where
      n: "unat len \<le> length b - 4" and
      r: "ParseIEs (drop (unat len) (drop 4 b)) = Ok rest" and
      ies: "ies = mkIE (b ! 0) (b ! 3 AND 0x0F) (take (unat len) (drop 4 b)) # rest"
      by (subst (asm) ParseIEs.simps) (auto simp: Let_def len_def obind_Ok_iff split: if_splits)
    have "(\<forall>i \<in> set rest. wf_ie i) \<and>
        length (concat (map IE_Marshal rest)) = length (drop (unat len) (drop 4 b))"
      using 1(1) [OF False len4, of "b ! 0" len "b ! 3" "drop 4 b" "take (unat len) (drop 4 b)"] n r f len4
      by (simp add: len_def)
    moreover have "unat len < 65536" using unsigned_less [of len] by simp
    ultimately show ?thesis
      using n len4 by (auto simp: ies wf_ie_def and_0F_less length_IE_Marshal)
  qed
qed

text \<open>
  the parser of information elements never panics, whatever the input bytes; every
  element it returns has a 4-bit instance and a value shorter than 64 KiB, and the elements
  account for every input byte: encoding them again gives as many bytes, which parse to the
  same elements.
\<close>

theorem parse_ies_total:
  "ParseIEs b \<noteq> Panic \<and>
   (\<forall>ies. ParseIEs b = Ok ies \<longrightarrow> (\<forall>i \<in> set ies. wf_ie i) \<and>
      length (concat (map IE_Marshal ies)) = length b \<and>
      ParseIEs (concat (map IE_Marshal ies)) = Ok ies)"
  using parse_no_panic parse_wf_length ie_stream.parse_concat by blast

theorem parse_ies_total_witness:
  "length (concat (map IE_Marshal [mkIE 73 5 [7]])) = length [73 :: u8, 0, 1, 0x35, 7]"
proof -
  have "ParseIEs [73, 0, 1, 0x35, 7] = Ok [mkIE 73 5 [7]]"
    by code_simp
  then show ?thesis
    using parse_ies_total [of "[73, 0, 1, 0x35, 7]"] by blast
qed

section \<open>Round trips of the single elements\<close>

lemma flags_v4: "((x :: u8) AND 0x3F OR 0x80) AND 0x3F = x AND 0x3F" "(x AND 0x3F OR 0x80) AND 0x80 \<noteq> 0"
    "(x AND 0x3F) AND 0x80 = 0"
  by (auto simp: u8_eq_iff bit_simps)

lemma and_idem_masks: "((x :: u8) AND m) AND m = x AND m"
  by (simp add: and.assoc)

text \<open>
  every address-carrying element decodes to what it was built from: an F-TEID to the low
  six bits of its interface type, its TEID and its IPv4 address (or none), a PAA to its PDN
  type and its IPv4 address. An IPv6 address that is not IPv4-mapped makes the F-TEID
  constructor panic.
\<close>

theorem fteid_paa_roundtrip:
  "obind (NewFTEID inst ifType teid (IP4 w)) FTEIDValue =
     Ok \<lparr>fIntfType = ifType AND 0x3F, fTEID = teid, fIPv4 = IP4 w\<rparr> \<and>
   obind (NewFTEID inst ifType teid NoAddr) FTEIDValue =
     Ok \<lparr>fIntfType = ifType AND 0x3F, fTEID = teid, fIPv4 = NoAddr\<rparr> \<and>
   obind (NewPAA 1 (IP4 w)) PAAValue = Ok \<lparr>paaPDNType = 1, paaIPv4 = IP4 w\<rparr> \<and>
   (drop_bit 32 w6 = 0xFFFF \<or> NewFTEID inst ifType teid (IP6 w6) = Panic)"
proof -
  have "obind (NewFTEID inst ifType teid (IP4 w)) FTEIDValue =
      Ok \<lparr>fIntfType = ifType AND 0x3F, fTEID = teid, fIPv4 = IP4 w\<rparr>"
    using flags_v4 [of ifType]
    by (simp add: NewFTEID_def FTEIDValue_def isValid_def byte_simps Let_def del: get32_Ok)
  moreover have "obind (NewFTEID inst ifType teid NoAddr) FTEIDValue =
      Ok \<lparr>fIntfType = ifType AND 0x3F, fTEID = teid, fIPv4 = NoAddr\<rparr>"
    using flags_v4 [of ifType]
    by (simp add: NewFTEID_def FTEIDValue_def isValid_def byte_simps Let_def and_idem_masks del: get32_Ok)
  moreover have "obind (NewPAA 1 (IP4 w)) PAAValue = Ok \<lparr>paaPDNType = 1, paaIPv4 = IP4 w\<rparr>"
    by (simp add: NewPAA_def PAAValue_def isValid_def byte_simps Let_def del: get32_Ok)
  moreover have "drop_bit 32 w6 = 0xFFFF \<or> NewFTEID inst ifType teid (IP6 w6) = Panic"
    by (simp add: NewFTEID_def isValid_def)
  ultimately show ?thesis by blast
qed


section \<open>Round trips of the string codecs\<close>

lemma runes_ascii: "\<forall>c \<in> set s. c < 0x80 \<Longrightarrow> runes i s = enumerate i (map ucast s)"
proof (induction s arbitrary: i)
  case Nil
  then show ?case by (simp add: runes.simps)
next
  case (Cons c s)
  then show ?case by (subst runes.simps) simp
qed

text \<open>The nibbles of a string of digits, and the packed form \<^verbatim>\<open>encodeTBCD\<close> builds by index.\<close>

definition nib :: "u8 \<Rightarrow> u8" where
  "nib c = c - 0x30"

fun pack :: "gostring \<Rightarrow> bytes" where
  "pack (c # d # s) = (nib c OR push_bit 4 (nib d)) # pack s"
| "pack [c] = [nib c]"
| "pack [] = []"

definition is_digit :: "u8 \<Rightarrow> bool" where
  "is_digit c \<longleftrightarrow> 0x30 \<le> c \<and> c \<le> 0x39"

lemma nib_ucast: "ucast (ucast c - 0x30 :: u32) = nib c"
proof -
  have "take_bit 8 (take_bit 8 k - 48) = take_bit 8 (k - 48 :: int)" for k
    by (metis take_bit_diff take_bit_take_bit min.idem)
  then show ?thesis unfolding nib_def by transfer (simp add: take_bit_take_bit)
qed

lemma pack_fold:
  "length pre = k \<Longrightarrow>
   fold encodeTBCD_step (enumerate (2 * k) (map ucast s)) (pre @ replicate ((length s + 1) div 2) 0) =
     pre @ pack s"
proof (induction s arbitrary: k pre rule: pack.induct)
  case (1 c d s)
  have "fold encodeTBCD_step (enumerate (2 * Suc k) (map ucast s))
      ((pre @ [nib c OR push_bit 4 (nib d)]) @ replicate ((length s + 1) div 2) 0) =
     (pre @ [nib c OR push_bit 4 (nib d)]) @ pack s"
    using 1 by (intro 1) simp
  moreover have "encodeTBCD_step (Suc (2 * k), ucast d) (encodeTBCD_step (2 * k, ucast c)
      (pre @ 0 # replicate ((length s + 1) div 2) 0)) =
     pre @ (nib c OR push_bit 4 (nib d)) # replicate ((length s + 1) div 2) 0"
    using 1(2) by (auto simp: encodeTBCD_step_def nib_ucast list_update_append nth_append)
  ultimately show ?case by simp
next
  case (2 c)
  then show ?case by (simp add: encodeTBCD_step_def nib_ucast list_update_append)
qed simp


lemma length_pack: "length (pack s) = (length s + 1) div 2"
  by (induction s rule: pack.induct) auto

lemma encodeTBCD_pack:
  assumes "\<forall>c \<in> set s. is_digit c"
  shows "encodeTBCD s =
    (if odd (length s) then (pack s)[length (pack s) - 1 := last (pack s) OR 0xF0] else pack s)"
proof -
  have "\<forall>c \<in> set s. c < 0x80" using assms by (auto simp: is_digit_def intro: order_le_less_trans)
  then have "fold encodeTBCD_step (runes 0 s) (replicate ((length s + 1) div 2) 0) = pack s"
    using pack_fold [of "[]" 0 s] by (simp add: runes_ascii)
  moreover have "odd (length s) \<Longrightarrow> pack s \<noteq> []" using length_pack [of s] by auto
  ultimately show ?thesis
    by (auto simp: encodeTBCD_def Let_def last_conv_nth odd_iff_mod_2_eq_one)
qed

lemma digit_cases: "is_digit c \<Longrightarrow> c \<in> {0x30, 0x31, 0x32, 0x33, 0x34, 0x35, 0x36, 0x37, 0x38, 0x39}"
proof -
  assume "is_digit c"
  then have "48 \<le> unat c" "unat c \<le> 57" by (auto simp: is_digit_def word_le_nat_alt)
  then have "unat c \<in> set [48..<58]" unfolding set_upt atLeastLessThan_iff by linarith
  then have "unat c \<in> {48,49,50,51,52,53,54,55,56,57}" by (simp add: upt_rec_numeral)
  then have "of_nat (unat c) \<in> (of_nat ` {48,49,50,51,52,53,54,55,56,57} :: u8 set)" by blast
  then show ?thesis by simp
qed

lemma nib_decode:
  assumes "is_digit c"
  shows "is_digit d \<Longrightarrow> decodeTBCD ((nib c OR push_bit 4 (nib d)) # b) = c # d # decodeTBCD b"
    and "decodeTBCD ((nib c OR 0xF0) # b) = c # decodeTBCD b"
  using digit_cases [OF assms] by (auto simp: nib_def dest: digit_cases)

lemma decode_pack:
  "\<forall>c \<in> set s. is_digit c \<Longrightarrow> decodeTBCD
    (if odd (length s) then (pack s)[length (pack s) - 1 := last (pack s) OR 0xF0] else pack s) = s"
proof (induction s rule: pack.induct)
  case (1 c d s)
  have "pack s \<noteq> []" if "odd (length s)" using that length_pack [of s] by auto
  with 1 show ?case by (auto simp: nib_decode neq_Nil_conv simp del: decodeTBCD.simps)
next
  case (2 c)
  then show ?case by (simp add: nib_decode del: decodeTBCD.simps(2))
qed simp

text \<open>
  a string of decimal digits (an IMSI, an IMEI, an MSISDN with or without its leading
  plus sign) survives encoding and decoding.
\<close>

theorem digit_string_roundtrip:
  assumes "\<forall>c \<in> set s. is_digit c"
  shows "IE_IMSI (NewIMSI s) = Ok s \<and> MEIValue (NewMEI s) = Ok s \<and>
    IE_MSISDN (NewMSISDN s) = Ok s \<and> IE_MSISDN (NewMSISDN (0x2B # s)) = Ok s"
proof -
  have "decodeTBCD (encodeTBCD s) = s" using assms by (simp add: encodeTBCD_pack decode_pack)
  moreover have "s \<noteq> [] \<Longrightarrow> hd s \<noteq> 0x2B" using assms by (cases s) (auto simp: is_digit_def)
  ultimately show ?thesis
    by (auto simp: IE_IMSI_def NewIMSI_def MEIValue_def NewMEI_def IE_MSISDN_def NewMSISDN_def
      encodeE164_def decodeE164_def)
qed

theorem digit_string_roundtrip_witness:
  "NewIMSI [0x30, 0x30, 0x31, 0x30, 0x31] = mkIE 1 0 [0x00, 0x01, 0xF1] \<and>
   IE_IMSI (NewIMSI [0x30, 0x30, 0x31, 0x30, 0x31]) = Ok [0x30, 0x30, 0x31, 0x30, 0x31]"
proof
  show "NewIMSI [0x30, 0x30, 0x31, 0x30, 0x31] = mkIE 1 0 [0x00, 0x01, 0xF1]" by code_simp
  show "IE_IMSI (NewIMSI [0x30, 0x30, 0x31, 0x30, 0x31]) = Ok [0x30, 0x30, 0x31, 0x30, 0x31]"
    by (rule digit_string_roundtrip [THEN conjunct1]) (simp add: is_digit_def)
qed


text \<open>The labels of an APN, and its wire form as a concatenation of counted labels.\<close>

fun apn_labels :: "gostring \<Rightarrow> gostring list" where
  "apn_labels [] = [[]]"
| "apn_labels (c # s) =
     (if c = 0x2E then [] # apn_labels s
      else (c # hd (apn_labels s)) # tl (apn_labels s))"

definition counted :: "gostring \<Rightarrow> bytes" where
  "counted l = of_nat (length l) # l"

lemma apn_labels_not_Nil [simp]: "apn_labels s \<noteq> []"
  by (cases s) auto

lemma encodeAPN_fold:
  assumes "start \<le> length p"
  shows "fst (fold (encodeAPN_step (p @ s)) [length p..<length (p @ s) + 1] (out, start)) =
    out @ concat (map counted ((drop start p @ hd (apn_labels s)) # tl (apn_labels s)))"
  using assms
proof (induction s arbitrary: p start out)
  case Nil
  then show ?case by (simp add: encodeAPN_step_def counted_def)
next
  case (Cons c s)
  have up: "[length p..<length (p @ c # s) + 1] = length p # [length (p @ [c])..<length ((p @ [c]) @ s) + 1]"
    by (subst upt_conv_Cons) auto
  show ?case
  proof (cases "c = 0x2E")
    case True
    have "encodeAPN_step (p @ c # s) (length p) (out, start) = (out @ counted (drop start p), Suc (length p))"
      using True Cons.prems by (simp add: encodeAPN_step_def counted_def)
    then show ?thesis
      unfolding up using True Cons.IH [of "Suc (length p)" "p @ [c]" "out @ counted (drop start p)"]
      by (cases "apn_labels s") auto
  next
    case False
    have "encodeAPN_step (p @ c # s) (length p) (out, start) = (out, start)"
      using False by (simp add: encodeAPN_step_def nth_append)
    then show ?thesis
      unfolding up using False Cons.prems Cons.IH [of start "p @ [c]" out] by simp
  qed
qed

lemma encodeAPN_labels: "apn \<noteq> [] \<Longrightarrow> encodeAPN apn = concat (map counted (apn_labels apn))"
  using encodeAPN_fold [of 0 "[]" apn "[]"] by (simp add: encodeAPN_def)

fun join_labels :: "gostring \<Rightarrow> gostring list \<Rightarrow> gostring" where
  "join_labels out [] = out"
| "join_labels out (l # ls) = join_labels (out @ (if out \<noteq> [] then [0x2E] else []) @ l) ls"

lemma decodeAPN_label:
  assumes "length l < 256"
  shows "decodeAPN_loop (counted l @ r) out = decodeAPN_loop r (out @ (if out \<noteq> [] then [0x2E] else []) @ l)"
proof -
  have "unat (of_nat (length l) :: u8) = length l"
    using assms by (simp add: unat_of_nat take_bit_nat_eq_self)
  then show ?thesis by (subst decodeAPN_loop.simps) (simp add: counted_def)
qed

lemma decodeAPN_counted:
  "\<forall>l \<in> set ls. length l < 256 \<Longrightarrow> decodeAPN_loop (concat (map counted ls)) out = join_labels out ls"
  by (induction ls arbitrary: out) (simp_all add: decodeAPN_label, simp add: decodeAPN_loop.simps)

lemma join_apn_labels: "out \<noteq> [] \<Longrightarrow> join_labels (out @ hd (apn_labels s)) (tl (apn_labels s)) = out @ s"
proof (induction s arbitrary: out)
  case (Cons c s)
  show ?case
  proof (cases "c = 0x2E")
    case True
    then show ?thesis using Cons.prems Cons.IH [of "out @ [0x2E]"] by (cases "apn_labels s") auto
  next
    case False
    then show ?thesis using Cons.prems Cons.IH [of "out @ [c]"] by simp
  qed
qed simp

text \<open>
  an access point name whose labels are at most 255 octets long and that does not start
  with a dot survives encoding and decoding; the wire form is its labels, each with its length
  in front.
\<close>

theorem apn_roundtrip:
  assumes labels: "\<forall>l \<in> set (apn_labels apn). length l < 256" and dot: "apn \<noteq> [] \<longrightarrow> hd apn \<noteq> 0x2E"
  shows "APNValue (NewAPN apn) = Ok apn \<and> encodeAPN apn = concat (map counted (apn_labels apn))"
proof (cases apn)
  case Nil
  then show ?thesis
    by (simp add: APNValue_def NewAPN_def encodeAPN_def decodeAPN_def decodeAPN_loop.simps counted_def)
next
  case (Cons c s)
  then have "c \<noteq> 0x2E" using dot by simp
  then have "join_labels [] (apn_labels apn) = apn"
    using join_apn_labels [of "[c]" s] Cons by simp
  moreover have "encodeAPN apn = concat (map counted (apn_labels apn))"
    using Cons by (simp add: encodeAPN_labels)
  moreover have "encodeAPN apn \<noteq> []"
    using Cons by (simp add: encodeAPN_labels counted_def)
  then have "decodeAPN (encodeAPN apn) = decodeAPN_loop (encodeAPN apn) []"
    by (simp add: decodeAPN_def)
  ultimately show ?thesis
    using decodeAPN_counted [OF labels, of "[]"] by (simp add: APNValue_def NewAPN_def)
qed

theorem apn_roundtrip_witness:
  "NewAPN [0x69, 0x6D, 0x73, 0x2E, 0x61] = mkIE 71 0 [3, 0x69, 0x6D, 0x73, 1, 0x61] \<and>
   APNValue (NewAPN [0x69, 0x6D, 0x73, 0x2E, 0x61]) = Ok [0x69, 0x6D, 0x73, 0x2E, 0x61]"
proof
  show "NewAPN [0x69, 0x6D, 0x73, 0x2E, 0x61] = mkIE 71 0 [3, 0x69, 0x6D, 0x73, 1, 0x61]"
    by code_simp
  show "APNValue (NewAPN [0x69, 0x6D, 0x73, 0x2E, 0x61]) = Ok [0x69, 0x6D, 0x73, 0x2E, 0x61]"
    by (rule apn_roundtrip [THEN conjunct1]) simp_all
qed

lemma pack_nibbles:
  assumes "x AND 0x0F = (x :: u8)" "y AND 0x0F = (y :: u8)"
  shows "(x OR push_bit 4 y) AND 0x0F = x" "drop_bit 4 (x OR push_bit 4 y) AND 0x0F = y"
  using assms by (auto simp: u8_eq_iff bit_simps)

lemma pack_filler:
  assumes "x AND 0x0F = (x :: u8)"
  shows "(x OR 0xF0) AND 0x0F = x" "drop_bit 4 (x OR 0xF0) AND 0x0F = 0x0F"
  using assms by (auto simp: u8_eq_iff bit_simps)

lemma digit_nibble:
  assumes "is_digit c"
  shows "digit c AND 0x0F = digit c" "dec_nibble (digit c) = [c]" "digit c \<noteq> 0x0F"
  using digit_cases [OF assms] by (auto simp: digit_def dec_nibble_def)

text \<open>
  a PLMN identity of a three-digit MCC and a two- or three-digit MNC survives encoding
  and decoding in a Serving Network element.
\<close>

theorem plmn_roundtrip:
  assumes "\<forall>c \<in> set mcc \<union> set mnc. is_digit c" "length mcc = 3" "length mnc = 2 \<or> length mnc = 3"
  shows "ServingNetworkValue (NewServingNetwork mcc mnc) = Ok (mcc, mnc)"
proof -
  obtain a b c where mcc: "mcc = [a, b, c]"
    using assms(2) by (auto simp: numeral_3_eq_3 length_Suc_conv)
  note unf = ServingNetworkValue_def NewServingNetwork_def encodePLMN_def decodePLMN_def mcc Let_def byte_simps
  from assms(3) show ?thesis
  proof
    assume "length mnc = 2"
    then obtain d e where "mnc = [d, e]" by (auto simp: numeral_2_eq_2 length_Suc_conv)
    with assms(1) mcc show ?thesis by (simp add: unf pack_nibbles pack_filler digit_nibble del: drop_bit_or)
  next
    assume "length mnc = 3"
    then obtain d e f where "mnc = [d, e, f]" by (auto simp: numeral_3_eq_3 length_Suc_conv)
    with assms(1) mcc show ?thesis by (simp add: unf pack_nibbles digit_nibble del: drop_bit_or)
  qed
qed

theorem plmn_roundtrip_witness:
  "ServingNetworkValue (NewServingNetwork [0x33, 0x31, 0x30] [0x32, 0x36, 0x30]) =
     Ok ([0x33, 0x31, 0x30], [0x32, 0x36, 0x30])"
  by (rule plmn_roundtrip) (auto simp: is_digit_def)


section \<open>Robustness of the decoders\<close>

lemma octet_value_no_panic: "octet_value typ f i \<noteq> Panic"
  by (auto simp: octet_value_def)

lemma FTEIDValue_no_panic: "FTEIDValue i \<noteq> Panic"
  by (auto simp: FTEIDValue_def Let_def obind_Panic_iff idx_def get32_def)

lemma PAAValue_no_panic: "PAAValue i \<noteq> Panic"
  by (auto simp: PAAValue_def Let_def obind_Panic_iff idx_def get32_def)

lemma ServingNetworkValue_no_panic: "ServingNetworkValue i \<noteq> Panic"
  by (auto simp: ServingNetworkValue_def decodePLMN_def Let_def obind_Panic_iff idx_def)

text \<open>
  no decoder of an information element panics, whatever the element's type and value
  bytes: a wrong type or a short value is an error.
\<close>

theorem ie_decoders_no_panic:
  "Panic \<notin> {CauseValue i, SelectionModeValue i, RATTypeValue i, PDNTypeValue i, EBIValue i, RecoveryValue i} \<and>
   FTEIDValue i \<noteq> Panic \<and> PAAValue i \<noteq> Panic \<and> ServingNetworkValue i \<noteq> Panic \<and>
   Panic \<notin> {IE_IMSI i, MEIValue i, IE_MSISDN i, APNValue i} \<and> ChildIEs i \<noteq> Panic"
proof -
  have "Panic \<notin> {CauseValue i, SelectionModeValue i, RATTypeValue i, PDNTypeValue i, EBIValue i, RecoveryValue i}"
    using octet_value_no_panic unfolding CauseValue_def SelectionModeValue_def RATTypeValue_def
      PDNTypeValue_def EBIValue_def RecoveryValue_def by (metis insertE empty_iff)
  moreover have "Panic \<notin> {IE_IMSI i, MEIValue i, IE_MSISDN i, APNValue i}"
    by (simp add: IE_IMSI_def MEIValue_def IE_MSISDN_def APNValue_def)
  ultimately show ?thesis
    by (simp add: FTEIDValue_no_panic PAAValue_no_panic ServingNetworkValue_no_panic ChildIEs_def parse_no_panic)
qed

end
