(* ===== verification/GTPv2_Message.thy ===== *)
theory GTPv2_Message
  imports GTPv2_IE
begin

text \<open>
  The GTPv2-C message header, whole messages and UDP payloads of piggybacked messages
  (\<^verbatim>\<open>internal/gtpv2/message/message.go\<close>): the header codec for both variants (with and
  without a TEID), the length guards of \<^verbatim>\<open>Marshal\<close>, the splitting of a UDP payload into
  frames and the pairing of request and response types.
\<close>

section \<open>Message types\<close>

abbreviation (input) MsgTypeEchoRequest :: u8 where "MsgTypeEchoRequest \<equiv> 1"
abbreviation (input) MsgTypeEchoResponse :: u8 where "MsgTypeEchoResponse \<equiv> 2"
abbreviation (input) MsgTypeVersionNotSupported :: u8 where "MsgTypeVersionNotSupported \<equiv> 3"
abbreviation (input) MsgTypeCreateSessionRequest :: u8 where "MsgTypeCreateSessionRequest \<equiv> 32"
abbreviation (input) MsgTypeCreateSessionResponse :: u8 where "MsgTypeCreateSessionResponse \<equiv> 33"
abbreviation (input) MsgTypeModifyBearerRequest :: u8 where "MsgTypeModifyBearerRequest \<equiv> 34"
abbreviation (input) MsgTypeModifyBearerResponse :: u8 where "MsgTypeModifyBearerResponse \<equiv> 35"
abbreviation (input) MsgTypeDeleteSessionRequest :: u8 where "MsgTypeDeleteSessionRequest \<equiv> 36"
abbreviation (input) MsgTypeDeleteSessionResponse :: u8 where "MsgTypeDeleteSessionResponse \<equiv> 37"
abbreviation (input) MsgTypeDeleteBearerCommand :: u8 where "MsgTypeDeleteBearerCommand \<equiv> 66"
abbreviation (input) MsgTypeDeleteBearerFailureIndication :: u8 where "MsgTypeDeleteBearerFailureIndication \<equiv> 67"
abbreviation (input) MsgTypeDownlinkDataNotificationFailureIndication :: u8 where
  "MsgTypeDownlinkDataNotificationFailureIndication \<equiv> 70"
abbreviation (input) MsgTypeStopPagingIndication :: u8 where "MsgTypeStopPagingIndication \<equiv> 73"
abbreviation (input) MsgTypeCreateBearerRequest :: u8 where "MsgTypeCreateBearerRequest \<equiv> 95"
abbreviation (input) MsgTypeCreateBearerResponse :: u8 where "MsgTypeCreateBearerResponse \<equiv> 96"
abbreviation (input) MsgTypeUpdateBearerRequest :: u8 where "MsgTypeUpdateBearerRequest \<equiv> 97"
abbreviation (input) MsgTypeUpdateBearerResponse :: u8 where "MsgTypeUpdateBearerResponse \<equiv> 98"
abbreviation (input) MsgTypeDeleteBearerRequest :: u8 where "MsgTypeDeleteBearerRequest \<equiv> 99"
abbreviation (input) MsgTypeDeleteBearerResponse :: u8 where "MsgTypeDeleteBearerResponse \<equiv> 100"
abbreviation (input) MsgTypeReleaseAccessBearersRequest :: u8 where "MsgTypeReleaseAccessBearersRequest \<equiv> 170"
abbreviation (input) MsgTypeReleaseAccessBearersResponse :: u8 where "MsgTypeReleaseAccessBearersResponse \<equiv> 171"
abbreviation (input) MsgTypeDownlinkDataNotification :: u8 where "MsgTypeDownlinkDataNotification \<equiv> 176"
abbreviation (input) MsgTypeDownlinkDataNotificationAck :: u8 where "MsgTypeDownlinkDataNotificationAck \<equiv> 177"

text \<open>A \<^verbatim>\<open>(0, false)\<close> result is \<open>None\<close>.\<close>

definition ResponseTypeFor :: "u8 \<Rightarrow> u8 option" where
  "ResponseTypeFor reqType =
     (if reqType = MsgTypeEchoRequest then Some MsgTypeEchoResponse
      else if reqType = MsgTypeCreateSessionRequest then Some MsgTypeCreateSessionResponse
      else if reqType = MsgTypeModifyBearerRequest then Some MsgTypeModifyBearerResponse
      else if reqType = MsgTypeDeleteSessionRequest then Some MsgTypeDeleteSessionResponse
      else if reqType = MsgTypeCreateBearerRequest then Some MsgTypeCreateBearerResponse
      else if reqType = MsgTypeUpdateBearerRequest then Some MsgTypeUpdateBearerResponse
      else if reqType = MsgTypeDeleteBearerRequest then Some MsgTypeDeleteBearerResponse
      else if reqType = MsgTypeReleaseAccessBearersRequest then Some MsgTypeReleaseAccessBearersResponse
      else if reqType = MsgTypeDownlinkDataNotification then Some MsgTypeDownlinkDataNotificationAck
      else None)"

definition RequestTypeForResponse :: "u8 \<Rightarrow> u8 option" where
  "RequestTypeForResponse respType =
     (if respType = MsgTypeEchoResponse then Some MsgTypeEchoRequest
      else if respType = MsgTypeCreateSessionResponse then Some MsgTypeCreateSessionRequest
      else if respType = MsgTypeModifyBearerResponse then Some MsgTypeModifyBearerRequest
      else if respType = MsgTypeDeleteSessionResponse then Some MsgTypeDeleteSessionRequest
      else if respType = MsgTypeCreateBearerResponse then Some MsgTypeCreateBearerRequest
      else if respType = MsgTypeUpdateBearerResponse then Some MsgTypeUpdateBearerRequest
      else if respType = MsgTypeDeleteBearerResponse then Some MsgTypeDeleteBearerRequest
      else if respType = MsgTypeReleaseAccessBearersResponse then Some MsgTypeReleaseAccessBearersRequest
      else if respType = MsgTypeDownlinkDataNotificationAck then Some MsgTypeDownlinkDataNotification
      else None)"

section \<open>Header\<close>

record header =
  hVersion :: u8
  hPiggyBacked :: bool
  hHasTEID :: bool
  hMP :: bool
  hMessagePriority :: u8
  hMessageType :: u8
  hLength :: u16
  hTEID :: u32
  hSequenceNumber :: u32

definition zeroHeader :: header where
  "zeroHeader = \<lparr>hVersion = 0, hPiggyBacked = False, hHasTEID = False, hMP = False,
     hMessagePriority = 0, hMessageType = 0, hLength = 0, hTEID = 0, hSequenceNumber = 0\<rparr>"

datatype msg_error =
    HeaderTooShort nat
  | ErrVersionNotSupported u8
  | HeaderWithTEIDTooShort nat
  | DeclaredLengthTooSmall u16
  | ErrInvalidLength header
  | IELengthExceeds u8 u8 nat
  | MessageLengthExceeds u8 nat
  | PiggybackEmpty
  | PrimaryParseError msg_error
  | PrimaryAlreadyPiggybacked
  | PiggybackParseError msg_error
  | PiggybackNotFinal
  | NoResponseType u8
  | IEParseError ie_error
  | TrailingBytes nat
  | PiggybackMissing
  | EmptyPayload
  | TEIDForbidden u8
  | TEIDRequired u8
  | WrongMessageType u8 u8
  | MissingIE u8 u8
  | MalformedBearerContext nat ie_error

type_synonym 'a msg_result = "(msg_error, 'a) outcome"

definition headerLenWithTEID :: nat where "headerLenWithTEID = 12"
definition headerLenWithoutTEID :: nat where "headerLenWithoutTEID = 8"

definition ValidateTFlag :: "header \<Rightarrow> unit msg_result" where
  "ValidateTFlag h =
     (if hMessageType h \<in> {MsgTypeEchoRequest, MsgTypeEchoResponse, MsgTypeVersionNotSupported}
      then if hHasTEID h then Fail (TEIDForbidden (hMessageType h)) else Ok ()
      else if \<not> hHasTEID h then Fail (TEIDRequired (hMessageType h)) else Ok ())"

text \<open>The part of \<^verbatim>\<open>ParseHeader\<close> that reads the TEID, the sequence number and the priority.\<close>

definition ParseHeader_fields :: "bytes \<Rightarrow> header \<Rightarrow> header msg_result" where
  "ParseHeader_fields b h =
     (if hHasTEID h then
        obind (get32 b 4) (\<lambda>teid.
        obind (idx b 8) (\<lambda>s0. obind (idx b 9) (\<lambda>s1. obind (idx b 10) (\<lambda>s2.
          let h1 = h\<lparr>hTEID := teid, hSequenceNumber := seq24 s0 s1 s2\<rparr> in
          if hMP h then obind (idx b 11) (\<lambda>o12. Ok (h1\<lparr>hMessagePriority := drop_bit 4 o12\<rparr>))
          else Ok h1))))
      else
        obind (idx b 4) (\<lambda>s0. obind (idx b 5) (\<lambda>s1. obind (idx b 6) (\<lambda>s2.
          Ok (h\<lparr>hSequenceNumber := seq24 s0 s1 s2\<rparr>)))))"

definition ParseHeader :: "bytes \<Rightarrow> (header \<times> bytes) msg_result" where
  "ParseHeader b =
     (if length b < headerLenWithoutTEID then Fail (HeaderTooShort (length b))
      else
        obind (idx b 0) (\<lambda>o1.
        let version = drop_bit 5 o1 AND 0x07 in
        if version \<noteq> 2 then Fail (ErrVersionNotSupported version)
        else
          obind (idx b 1) (\<lambda>o2.
          obind (get16 b 2) (\<lambda>len.
            let hasTEID = (o1 AND 0x08 \<noteq> 0);
                h = zeroHeader\<lparr>hVersion := version, hPiggyBacked := (o1 AND 0x10 \<noteq> 0),
                      hHasTEID := hasTEID, hMessageType := o2, hLength := len,
                      hMP := (hasTEID \<and> o1 AND 0x04 \<noteq> 0)\<rparr>;
                minHeaderSize = (if hasTEID then headerLenWithTEID else headerLenWithoutTEID) in
            if length b < minHeaderSize then Fail (HeaderWithTEIDTooShort (length b))
            else
              obind (ParseHeader_fields b h) (\<lambda>h.
                let declaredTotal = 4 + unat (hLength h) in
                if declaredTotal < minHeaderSize then Fail (DeclaredLengthTooSmall (hLength h))
                else if declaredTotal > length b then Fail (ErrInvalidLength h)
                else obind (slc b minHeaderSize declaredTotal) (\<lambda>body. Ok (h, body)))))))"

definition MarshalHeader :: "header \<Rightarrow> nat \<Rightarrow> bytes" where
  "MarshalHeader h bodyLen =
     (let flags = 0x40 OR (if hPiggyBacked h then 0x10 else 0) OR (if hHasTEID h then 0x08 else 0) OR
            (if hMP h \<and> hHasTEID h then 0x04 else 0);
          seq = [ucast (drop_bit 16 (hSequenceNumber h)), ucast (drop_bit 8 (hSequenceNumber h)),
                 ucast (hSequenceNumber h)] in
      if hHasTEID h then
        [flags, hMessageType h] @ be16 (of_nat (headerLenWithTEID - 4 + bodyLen)) @ be32 (hTEID h) @ seq @
        [if hMP h then push_bit 4 (hMessagePriority h AND 0x0F) else 0]
      else
        [flags, hMessageType h] @ be16 (of_nat (headerLenWithoutTEID - 4 + bodyLen)) @ seq @ [0])"

section \<open>Messages\<close>

fun marshal_body :: "ie list \<Rightarrow> bytes msg_result" where
  "marshal_body [] = Ok []"
| "marshal_body (i # ies) =
     (if length (ieValue i) > 65535
      then Fail (IELengthExceeds (ieType i) (ieInstance i) (length (ieValue i)))
      else omap (\<lambda>body. IE_Marshal i @ body) (marshal_body ies))"

definition Marshal :: "header \<Rightarrow> ie list \<Rightarrow> bytes msg_result" where
  "Marshal h ies =
     obind (marshal_body ies) (\<lambda>body.
       let headerBodyLen =
             (if hHasTEID h then length body + headerLenWithTEID - 4
              else length body + headerLenWithoutTEID - 4) in
       if headerBodyLen > 65535 then Fail (MessageLengthExceeds (hMessageType h) headerBodyLen)
       else Ok (MarshalHeader h (length body) @ body))"

definition MarshalVersionNotSupportedIndication :: "u32 \<Rightarrow> bytes" where
  "MarshalVersionNotSupportedIndication seq =
     (case Marshal (zeroHeader\<lparr>hVersion := 2, hHasTEID := False,
         hMessageType := MsgTypeVersionNotSupported, hSequenceNumber := seq\<rparr>) [] of
        Ok buf \<Rightarrow> buf
      | _ \<Rightarrow> [])"

definition MarshalPiggybacked :: "bytes \<Rightarrow> bytes \<Rightarrow> bytes msg_result" where
  "MarshalPiggybacked primary piggyback =
     (if primary = [] \<or> piggyback = [] then Fail PiggybackEmpty
      else
        obind (wrap_err PrimaryParseError (ParseHeader primary)) (\<lambda>(primaryHdr, _).
        if hPiggyBacked primaryHdr then Fail PrimaryAlreadyPiggybacked
        else
          obind (wrap_err PiggybackParseError (ParseHeader piggyback)) (\<lambda>(piggyHdr, _).
          if hPiggyBacked piggyHdr then Fail PiggybackNotFinal
          else
            obind (idx primary 0) (\<lambda>o1. Ok (primary[0 := o1 OR 0x10] @ piggyback)))))"

definition MarshalInvalidLengthResponse :: "header \<Rightarrow> u32 \<Rightarrow> bytes msg_result" where
  "MarshalInvalidLengthResponse reqHdr peerTEID =
     (case ResponseTypeFor (hMessageType reqHdr) of
        None \<Rightarrow> Fail (NoResponseType (hMessageType reqHdr))
      | Some respType \<Rightarrow>
          Marshal (zeroHeader\<lparr>hVersion := 2, hHasTEID := (respType \<noteq> MsgTypeEchoResponse),
             hMessageType := respType, hTEID := peerTEID,
             hSequenceNumber := hSequenceNumber reqHdr\<rparr>)
            [NewCause 67 0 0 0 None])"

definition Parse :: "bytes \<Rightarrow> (header \<times> ie list) msg_result" where
  "Parse b =
     obind (ParseHeader b) (\<lambda>(h, body).
     obind (wrap_err IEParseError (ParseIEs body)) (\<lambda>ies. Ok (h, ies)))"

section \<open>Frames of a UDP payload\<close>

record frame =
  frHeader :: header
  frRaw :: bytes
  frStart :: nat
  frEnd :: nat

function SplitFrames_loop :: "bytes \<Rightarrow> nat \<Rightarrow> frame list \<Rightarrow> frame list msg_result" where
  "SplitFrames_loop b offset frames =
     (if offset < length b then
        obind (slc b offset (length b)) (\<lambda>rest.
        obind (ParseHeader rest) (\<lambda>(h, _).
          let fin = offset + 4 + unat (hLength h) in
          if fin > length b then Fail (ErrInvalidLength h)
          else
            obind (slc b offset fin) (\<lambda>raw.
              let frames' = frames @ [\<lparr>frHeader = h, frRaw = raw, frStart = offset, frEnd = fin\<rparr>] in
              if \<not> hPiggyBacked h then
                if fin \<noteq> length b then Fail (TrailingBytes (length b - fin)) else Ok frames'
              else if fin = length b then Fail PiggybackMissing
              else SplitFrames_loop b fin frames')))
      else Ok frames)"
  by pat_completeness auto
termination by (relation "measure (\<lambda>(b, offset, frames). length b - offset)") auto

declare SplitFrames_loop.simps [simp del]

definition SplitFrames :: "bytes \<Rightarrow> frame list msg_result" where
  "SplitFrames b =
     obind (SplitFrames_loop b 0 []) (\<lambda>frames. if frames = [] then Fail EmptyPayload else Ok frames)"


section \<open>The header codec\<close>

text \<open>
  A header that fits the wire format: version 2, a 24-bit sequence number, a 4-bit priority
  that is zero without the MP flag, and neither TEID nor MP in the variant without a TEID.
\<close>

definition wf_header :: "header \<Rightarrow> bool" where
  "wf_header h \<longleftrightarrow> hVersion h = 2 \<and> hSequenceNumber h < 0x1000000 \<and> hMessagePriority h < 16 \<and>
     (\<not> hMP h \<longrightarrow> hMessagePriority h = 0) \<and> (\<not> hHasTEID h \<longrightarrow> hTEID h = 0 \<and> \<not> hMP h)"

definition hdr_len :: "header \<Rightarrow> nat" where
  "hdr_len h = (if hHasTEID h then headerLenWithTEID else headerLenWithoutTEID)"

lemmas hdr_len_defs = hdr_len_def headerLenWithTEID_def headerLenWithoutTEID_def

lemma priority_nibble: "(p :: u8) < 16 \<Longrightarrow> drop_bit 4 (push_bit 4 p) AND 0x0F = p"
proof -
  assume "p < 16"
  then have "p AND 0x0F = p" by (rule and_0F_id)
  then show ?thesis by (auto simp: u8_eq_iff bit_simps)
qed

lemma length_MarshalHeader: "length (MarshalHeader h n) = hdr_len h"
  by (simp add: MarshalHeader_def hdr_len_defs Let_def)

lemma header_roundtrip:
  assumes wf: "wf_header h" and len: "hdr_len h - 4 + length body \<le> 65535"
  shows "ParseHeader (MarshalHeader h (length body) @ body @ rest) =
    Ok (h\<lparr>hLength := of_nat (hdr_len h - 4 + length body)\<rparr>, body)"
proof -
  obtain v pb ht mp pr ty l te sq where h: "h = \<lparr>hVersion = v, hPiggyBacked = pb, hHasTEID = ht, hMP = mp,
      hMessagePriority = pr, hMessageType = ty, hLength = l, hTEID = te, hSequenceNumber = sq\<rparr>"
    by (cases h)
  have sq: "seq24 (ucast (drop_bit 16 sq)) (ucast (drop_bit 8 sq)) (ucast sq) = sq"
    using wf by (intro seq24_bytes) (simp add: wf_header_def h)
  have n: "unat (of_nat (hdr_len h - 4 + length body) :: u16) = hdr_len h - 4 + length body"
    using len by (intro unat_of_nat_u16) simp
  show ?thesis
  proof (cases ht)
    case True
    then have [simp]: "unat (8 + of_nat (length body) :: u16) = 8 + length body"
      using n by (simp add: h hdr_len_defs)
    show ?thesis using wf True sq
      by (cases pb; cases mp)
         (simp_all add: h ParseHeader_def MarshalHeader_def ParseHeader_fields_def hdr_len_defs Let_def
            byte_simps zeroHeader_def wf_header_def priority_nibble del: get32_Ok get16_Ok idx_Ok)
  next
    case False
    then have [simp]: "unat (4 + of_nat (length body) :: u16) = 4 + length body"
      using n by (simp add: h hdr_len_defs)
    show ?thesis using wf False sq
      by (cases pb; cases mp)
         (simp_all add: h ParseHeader_def MarshalHeader_def ParseHeader_fields_def hdr_len_defs Let_def
            byte_simps zeroHeader_def wf_header_def del: get32_Ok get16_Ok idx_Ok)
  qed
qed


lemma ParseHeader_no_panic: "ParseHeader b \<noteq> Panic"
  by (auto simp: ParseHeader_def ParseHeader_fields_def Let_def obind_Panic_iff idx_def get16_def get32_def
      headerLenWithTEID_def headerLenWithoutTEID_def zeroHeader_def slc_def split: if_splits)

lemma ParseHeader_bounds:
  assumes "ParseHeader b = Ok (h, body)"
  shows "hdr_len h \<le> 4 + unat (hLength h)" "4 + unat (hLength h) \<le> length b"
    "body = take (4 + unat (hLength h) - hdr_len h) (drop (hdr_len h) b)"
  using assms
  by (auto simp: ParseHeader_def ParseHeader_fields_def Let_def obind_Ok_iff slc_def
      hdr_len_defs zeroHeader_def split: if_splits)

lemma ParseHeader_take:
  assumes "ParseHeader b = Ok (h, body)" "4 + unat (hLength h) \<le> n" "n \<le> length b"
  shows "ParseHeader (take n b) = Ok (h, body)"
  using assms
  by (auto simp: ParseHeader_def ParseHeader_fields_def Let_def obind_Ok_iff slc_def drop_take min_def
      idx_def get16_def get32_def headerLenWithTEID_def headerLenWithoutTEID_def zeroHeader_def split: if_splits)

text \<open>Parsing reads the first eight or twelve octets and the length of the input only.\<close>

definition raw_hdr :: "bytes \<Rightarrow> header" where
  "raw_hdr b = zeroHeader\<lparr>hVersion := 2, hPiggyBacked := (b ! 0 AND 0x10 \<noteq> 0),
     hHasTEID := (b ! 0 AND 0x08 \<noteq> 0), hMessageType := b ! 1, hLength := rd16 (b ! 2) (b ! 3),
     hMP := (b ! 0 AND 0x08 \<noteq> 0 \<and> b ! 0 AND 0x04 \<noteq> 0)\<rparr>"

lemma ParseHeader_Ok_iff:
  "ParseHeader b = Ok (h, body) \<longleftrightarrow>
     8 \<le> length b \<and> drop_bit 5 (b ! 0) AND 0x07 = 2 \<and> hdr_len (raw_hdr b) \<le> length b \<and>
     ParseHeader_fields b (raw_hdr b) = Ok h \<and>
     hdr_len (raw_hdr b) \<le> 4 + unat (hLength h) \<and> 4 + unat (hLength h) \<le> length b \<and>
     body = take (4 + unat (hLength h) - hdr_len (raw_hdr b)) (drop (hdr_len (raw_hdr b)) b)"
proof (cases "8 \<le> length b \<and> drop_bit 5 (b ! 0) AND 0x07 = 2")
  case True
  moreover from this have "b \<noteq> []" by auto
  ultimately have "ParseHeader b =
      (if length b < hdr_len (raw_hdr b) then Fail (HeaderWithTEIDTooShort (length b))
       else obind (ParseHeader_fields b (raw_hdr b)) (\<lambda>h.
         if 4 + unat (hLength h) < hdr_len (raw_hdr b) then Fail (DeclaredLengthTooSmall (hLength h))
         else if 4 + unat (hLength h) > length b then Fail (ErrInvalidLength h)
         else obind (slc b (hdr_len (raw_hdr b)) (4 + unat (hLength h))) (\<lambda>body. Ok (h, body))))"
    unfolding ParseHeader_def raw_hdr_def hdr_len_defs Let_def
    by (cases "b ! 0 AND 0x08 = 0") simp_all
  with True show ?thesis
    by (cases "ParseHeader_fields b (raw_hdr b)") (auto simp: slc_def split: if_splits)
next
  case False
  then show ?thesis by (auto simp: ParseHeader_def headerLenWithoutTEID_def Let_def idx_def)
qed

lemma ParseHeader_append:
  assumes "ParseHeader b = Ok (h, body)"
  shows "ParseHeader (b @ r) = Ok (h, body)"
proof -
  have len: "8 \<le> length b" "hdr_len (raw_hdr b) \<le> length b"
    using assms by (auto simp: ParseHeader_Ok_iff)
  then have ne: "b \<noteq> []" by auto
  with len have "raw_hdr (b @ r) = raw_hdr b" by (simp add: raw_hdr_def nth_append)
  moreover have "ParseHeader_fields (b @ r) (raw_hdr b) = ParseHeader_fields b (raw_hdr b)"
    using len by (simp add: ParseHeader_fields_def hdr_len_defs nth_append Let_def split: if_splits)
  moreover have "(b @ r) ! 0 = b ! 0" using ne by (simp add: nth_append)
  ultimately show ?thesis using assms len by (auto simp: ParseHeader_Ok_iff)
qed

lemma set_piggyback_flag:
  assumes "ParseHeader b = Ok (h, body)"
  shows "ParseHeader (b[0 := b ! 0 OR 0x10]) = Ok (h\<lparr>hPiggyBacked := True\<rparr>, body)"
proof -
  have bits: "drop_bit 5 (x OR 0x10) AND 0x07 = drop_bit 5 x AND 0x07" "(x OR 0x10) AND 0x08 = x AND 0x08"
    "(x OR 0x10) AND 0x10 \<noteq> 0" "(x OR 0x10) AND 0x04 = x AND 0x04" for x :: u8
    by (auto simp: u8_eq_iff bit_simps)
  have "8 \<le> length b" using assms by (auto simp: ParseHeader_def headerLenWithoutTEID_def split: if_splits)
  then obtain o1 r where b: "b = o1 # r" by (cases b) auto
  show ?thesis using assms
    by (auto simp: b ParseHeader_def ParseHeader_fields_def Let_def obind_Ok_iff slc_def bits byte_simps
      headerLenWithTEID_def headerLenWithoutTEID_def zeroHeader_def split: if_splits simp del: drop_bit_or)
qed


section \<open>Whole messages\<close>

lemma marshal_body_Ok_iff:
  "marshal_body ies = Ok body \<longleftrightarrow>
     (\<forall>i \<in> set ies. length (ieValue i) < 65536) \<and> body = concat (map IE_Marshal ies)"
  by (induction ies arbitrary: body) (auto simp: omap_Ok_iff split: if_splits)

lemma Marshal_Ok_iff:
  "Marshal h ies = Ok b \<longleftrightarrow>
     (\<forall>i \<in> set ies. length (ieValue i) < 65536) \<and>
     hdr_len h - 4 + length (concat (map IE_Marshal ies)) \<le> 65535 \<and>
     b = MarshalHeader h (length (concat (map IE_Marshal ies))) @ concat (map IE_Marshal ies)"
  by (auto simp: Marshal_def obind_Ok_iff marshal_body_Ok_iff hdr_len_defs Let_def split: if_splits)

lemmas marshal_eval = Marshal_def MarshalHeader_def IE_Marshal_def be16_def be32_def zeroHeader_def
  headerLenWithTEID_def headerLenWithoutTEID_def Let_def

lemma marshal_parse:
  assumes "Marshal h ies = Ok b" "wf_header h" "\<forall>i \<in> set ies. ieInstance i < 16"
  shows "Parse (b @ rest) = Ok (h\<lparr>hLength := of_nat (length b - 4)\<rparr>, ies)"
proof -
  define body where "body = concat (map IE_Marshal ies)"
  have b: "b = MarshalHeader h (length body) @ body" and len: "hdr_len h - 4 + length body \<le> 65535"
    and small: "\<forall>i \<in> set ies. length (ieValue i) < 65536"
    using assms(1) by (auto simp: Marshal_Ok_iff body_def)
  have "hdr_len h - 4 + length body = length b - 4"
    by (simp add: b length_MarshalHeader hdr_len_defs)
  moreover have "ParseIEs body = Ok ies"
    unfolding body_def using small assms(3) by (intro ie_stream.parse_concat) (auto simp: wf_ie_def)
  ultimately show ?thesis
    using header_roundtrip [OF assms(2) len, of rest] by (simp add: Parse_def b wrap_err_def)
qed

text \<open>
  C31: a message survives encoding and decoding. For every header that fits the wire format
  and every list of elements with 4-bit instances, whenever \<^verbatim>\<open>Marshal\<close> accepts the message,
  parsing its bytes, also with other bytes behind them, gives the same header, with the length
  field filled in, and the same elements.
\<close>

theorem message_marshal_parse:
  assumes "Marshal h ies = Ok b" "wf_header h" "\<forall>i \<in> set ies. ieInstance i < 16"
  shows "Parse (b @ rest) = Ok (h\<lparr>hLength := of_nat (length b - 4)\<rparr>, ies)"
  using assms by (rule marshal_parse)

theorem message_marshal_parse_witness:
  "Parse [0x48, 36, 0, 13, 0, 0, 0, 7, 0, 1, 2, 0, 73, 0, 1, 0, 5] =
     Ok (zeroHeader\<lparr>hVersion := 2, hHasTEID := True, hMessageType := 36, hLength := 13,
           hTEID := 7, hSequenceNumber := 0x102\<rparr>, [mkIE 73 0 [5]])"
proof -
  have m: "Marshal (zeroHeader\<lparr>hVersion := 2, hHasTEID := True, hMessageType := 36, hTEID := 7,
      hSequenceNumber := 0x102\<rparr>) [mkIE 73 0 [5]] =
      Ok [0x48, 36, 0, 13, 0, 0, 0, 7, 0, 1, 2, 0, 73, 0, 1, 0, 5]"
    by (simp add: marshal_eval)
  show ?thesis
    using message_marshal_parse [OF m, of "[]"] by (simp add: wf_header_def zeroHeader_def)
qed

text \<open>
  \<^verbatim>\<open>Marshal\<close> succeeds exactly when every element value and the whole message fit their
  16-bit length fields; the length it writes is the length of the message less four, so
  nothing is truncated on the wire.
\<close>

theorem marshal_length_guards:
  "((\<exists>b. Marshal h ies = Ok b) \<longleftrightarrow>
      (\<forall>i \<in> set ies. length (ieValue i) \<le> 65535) \<and>
      (if hHasTEID h then 8 else 4) + (\<Sum>i\<leftarrow>ies. 4 + length (ieValue i)) \<le> 65535) \<and>
   (\<forall>b. Marshal h ies = Ok b \<longrightarrow>
      rd16 (b ! 2) (b ! 3) = of_nat (length b - 4) \<and> length b - 4 \<le> 65535 \<and> 8 \<le> length b)"
proof
  have "length (concat (map IE_Marshal ies)) = (\<Sum>i\<leftarrow>ies. 4 + length (ieValue i))"
    by (simp add: length_concat o_def length_IE_Marshal)
  then show "(\<exists>b. Marshal h ies = Ok b) \<longleftrightarrow>
      (\<forall>i \<in> set ies. length (ieValue i) \<le> 65535) \<and>
      (if hHasTEID h then 8 else 4) + (\<Sum>i\<leftarrow>ies. 4 + length (ieValue i)) \<le> 65535"
    by (auto simp: Marshal_Ok_iff hdr_len_defs)
  show "\<forall>b. Marshal h ies = Ok b \<longrightarrow>
      rd16 (b ! 2) (b ! 3) = of_nat (length b - 4) \<and> length b - 4 \<le> 65535 \<and> 8 \<le> length b"
    by (auto simp: Marshal_Ok_iff MarshalHeader_def hdr_len_defs Let_def be16_def be32_def split: if_splits)
qed

theorem marshal_length_guards_witness:
  "Marshal zeroHeader [mkIE 73 0 [5]] = Ok [0x40, 0, 0, 9, 0, 0, 0, 0, 73, 0, 1, 0, 5] \<and>
   rd16 0 9 = of_nat (13 - 4)"
proof -
  have m: "Marshal zeroHeader [mkIE 73 0 [5]] = Ok [0x40, 0, 0, 9, 0, 0, 0, 0, 73, 0, 1, 0, 5]"
    by (simp add: marshal_eval)
  moreover from this have "rd16 0 9 = of_nat (13 - 4)"
    using marshal_length_guards [of zeroHeader "[mkIE 73 0 [5]]"] by simp
  ultimately show ?thesis by simp
qed

text \<open>
  requests and responses are paired one to one: a type has the response type \<open>r\<close> exactly
  when \<open>r\<close> is a response to it, and no type is both a request and a response.
\<close>

theorem response_request_pairing:
  "(ResponseTypeFor q = Some r \<longleftrightarrow> RequestTypeForResponse r = Some q) \<and>
   (ResponseTypeFor q = None \<or> RequestTypeForResponse q = None)"
proof -
  have "ResponseTypeFor q = Some r \<Longrightarrow> RequestTypeForResponse r = Some q"
    by (auto simp: ResponseTypeFor_def RequestTypeForResponse_def split: if_splits)
  moreover have "RequestTypeForResponse r = Some q \<Longrightarrow> ResponseTypeFor q = Some r"
    by (auto simp: ResponseTypeFor_def RequestTypeForResponse_def split: if_splits)
  moreover have "ResponseTypeFor q = None \<or> RequestTypeForResponse q = None"
    by (simp add: ResponseTypeFor_def RequestTypeForResponse_def)
  ultimately show ?thesis by blast
qed


section \<open>Frames\<close>

text \<open>A complete message: its bytes are exactly its declared length, and its P flag.\<close>

definition complete :: "bool \<Rightarrow> bytes \<Rightarrow> bool" where
  "complete p m \<longleftrightarrow> (case ParseHeader m of
     Ok (h, _) \<Rightarrow> length m = 4 + unat (hLength h) \<and> hPiggyBacked h = p | _ \<Rightarrow> False)"

definition well_chained :: "bytes list \<Rightarrow> bool" where
  "well_chained ms \<longleftrightarrow> ms \<noteq> [] \<and> (\<forall>m \<in> set (butlast ms). complete True m) \<and> complete False (last ms)"

lemma completeI:
  "ParseHeader m = Ok (h, body) \<Longrightarrow> length m = 4 + unat (hLength h) \<Longrightarrow> hPiggyBacked h = p \<Longrightarrow> complete p m"
  by (simp add: complete_def)

lemma completeE:
  assumes "complete p m"
  obtains h body where "ParseHeader m = Ok (h, body)" "length m = 4 + unat (hLength h)" "hPiggyBacked h = p"
  using assms unfolding complete_def by (auto split: outcome.splits prod.splits)

lemma complete_not_Nil: "complete p m \<Longrightarrow> m \<noteq> []"
  by (auto elim: completeE)

lemma frame_complete:
  assumes "ParseHeader (drop off b) = Ok (h, body)" "off < length b"
  shows "complete (hPiggyBacked h) (take (4 + unat (hLength h)) (drop off b))"
  using ParseHeader_take [OF assms(1) order_refl] ParseHeader_bounds [OF assms(1)]
  by (intro completeI) auto

lemma split_loop_sound:
  assumes "SplitFrames_loop b off frames = Ok fs" "off < length b"
    "concat (map frRaw frames) = take off b" "\<forall>m \<in> set (map frRaw frames). complete True m"
  shows "well_chained (map frRaw fs) \<and> concat (map frRaw fs) = b"
  using assms
proof (induction b off frames arbitrary: fs rule: SplitFrames_loop.induct)
  case (1 b off frames)
  obtain h body where h: "ParseHeader (drop off b) = Ok (h, body)"
    using 1(2,3) by (subst (asm) SplitFrames_loop.simps) (auto simp: obind_Ok_iff)
  define fin where "fin = off + 4 + unat (hLength h)"
  define raw where "raw = take (4 + unat (hLength h)) (drop off b)"
  define frames' where "frames' = frames @ [\<lparr>frHeader = h, frRaw = raw, frStart = off, frEnd = fin\<rparr>]"
  have fin: "fin \<le> length b" using ParseHeader_bounds [OF h] 1(3) by (simp add: fin_def)
  have comp: "complete (hPiggyBacked h) raw"
    unfolding raw_def using frame_complete [OF h 1(3)] .
  have cat: "concat (map frRaw frames') = take fin b"
    using 1(4) by (simp add: frames'_def raw_def fin_def take_add add.assoc)
  have step: "SplitFrames_loop b off frames =
      (if \<not> hPiggyBacked h then
         if fin \<noteq> length b then Fail (TrailingBytes (length b - fin)) else Ok frames'
       else if fin = length b then Fail PiggybackMissing else SplitFrames_loop b fin frames')"
    using 1(3) h fin by (subst SplitFrames_loop.simps) (simp add: Let_def fin_def frames'_def raw_def)
  show ?case
  proof (cases "hPiggyBacked h")
    case False
    then have "fs = frames'" "fin = length b" using 1(2) step by (auto split: if_splits)
    then show ?thesis using cat comp False 1(5)
      by (auto simp: well_chained_def frames'_def butlast_append)
  next
    case True
    then have "SplitFrames_loop b fin frames' = Ok fs" "fin < length b"
      using 1(2) step fin by (auto split: if_splits)
    then show ?thesis
      using 1(1) [of "drop off b" "(h, body)" h body fin raw frames'] True h fin comp cat 1(3,5)
      by (simp add: fin_def frames'_def raw_def)
  qed
qed

lemma split_loop_complete:
  "well_chained ms \<Longrightarrow>
     \<exists>gs. SplitFrames_loop (p @ concat ms) (length p) frames = Ok (frames @ gs) \<and> map frRaw gs = ms"
proof (induction ms arbitrary: p frames)
  case Nil
  then show ?case by (simp add: well_chained_def)
next
  case (Cons m ms)
  define pb where "pb = (ms \<noteq> [])"
  have "complete pb m" using Cons.prems by (auto simp: well_chained_def pb_def split: if_splits)
  then obtain h body where h: "ParseHeader m = Ok (h, body)" and len: "length m = 4 + unat (hLength h)"
    and p: "hPiggyBacked h = pb"
    by (rule completeE)
  have h': "ParseHeader (m @ concat ms) = Ok (h, body)" using h by (rule ParseHeader_append)
  have m0: "m \<noteq> []" using len by auto
  define frames' where
    "frames' = frames @ [\<lparr>frHeader = h, frRaw = m, frStart = length p, frEnd = length p + length m\<rparr>]"
  have step: "SplitFrames_loop (p @ m @ concat ms) (length p) frames =
      (if \<not> pb then Ok frames' else SplitFrames_loop ((p @ m) @ concat ms) (length (p @ m)) frames')"
  proof (cases "ms = []")
    case True
    then show ?thesis using h len p m0
      by (subst SplitFrames_loop.simps) (simp add: pb_def frames'_def Let_def add.assoc)
  next
    case False
    then have "concat ms \<noteq> []" using Cons.prems
      by (cases ms) (auto simp: well_chained_def dest: complete_not_Nil split: if_splits)
    then obtain x xs where "concat ms = x # xs" by (cases "concat ms") auto
    with False show ?thesis using h' len p m0
      by (subst SplitFrames_loop.simps) (simp add: pb_def frames'_def Let_def add.assoc)
  qed
  show ?case
  proof (cases "ms = []")
    case True
    then show ?thesis using step by (auto simp: pb_def frames'_def)
  next
    case False
    then have "well_chained ms" using Cons.prems by (simp add: well_chained_def)
    from Cons.IH [OF this, of "p @ m" frames'] obtain gs where
      "SplitFrames_loop ((p @ m) @ concat ms) (length (p @ m)) frames' = Ok (frames' @ gs)" "map frRaw gs = ms"
      by blast
    then show ?thesis using step False
      by (intro exI [of _ "\<lparr>frHeader = h, frRaw = m, frStart = length p, frEnd = length p + length m\<rparr> # gs"])
         (simp add: pb_def frames'_def)
  qed
qed

lemma split_frames_Ok_iff:
  "(\<exists>fs. SplitFrames b = Ok fs \<and> map frRaw fs = ms) \<longleftrightarrow> well_chained ms \<and> b = concat ms"
proof
  assume "\<exists>fs. SplitFrames b = Ok fs \<and> map frRaw fs = ms"
  then obtain fs where fs: "SplitFrames b = Ok fs" "map frRaw fs = ms" by blast
  then have l: "SplitFrames_loop b 0 [] = Ok fs" "fs \<noteq> []"
    by (auto simp: SplitFrames_def obind_Ok_iff split: if_splits)
  then have "0 < length b" by (subst (asm) SplitFrames_loop.simps) (auto split: if_splits)
  with split_loop_sound [OF l(1)] fs(2) show "well_chained ms \<and> b = concat ms" by simp
next
  assume "well_chained ms \<and> b = concat ms"
  then obtain gs where "SplitFrames_loop b 0 [] = Ok gs" "map frRaw gs = ms" "gs \<noteq> []"
    using split_loop_complete [of ms "[]" "[]"] by (auto simp: well_chained_def)
  then show "\<exists>fs. SplitFrames b = Ok fs \<and> map frRaw fs = ms" by (simp add: SplitFrames_def)
qed

text \<open>
  splitting a UDP payload. \<^verbatim>\<open>SplitFrames\<close> succeeds exactly on the concatenations of
  complete messages in which every message but the last has its P flag set and the last has
  not; it returns those messages, in order and without losing a byte.
\<close>

theorem split_frames_iff:
  "(\<exists>fs. SplitFrames b = Ok fs \<and> map frRaw fs = ms) \<longleftrightarrow> well_chained ms \<and> b = concat ms"
  by (rule split_frames_Ok_iff)

text \<open>
  piggybacking. Two complete messages without the P flag are combined into one payload
  that splits into the first message, with its P flag set and otherwise unchanged, and the
  second message.
\<close>

theorem piggyback_split:
  assumes p: "complete False p" and q: "complete False q"
  shows "\<exists>out fs. MarshalPiggybacked p q = Ok out \<and> SplitFrames out = Ok fs \<and>
    map frRaw fs = [p[0 := p ! 0 OR 0x10], q]"
proof -
  obtain hp bp where hp: "ParseHeader p = Ok (hp, bp)" "length p = 4 + unat (hLength hp)" "\<not> hPiggyBacked hp"
    using p by (auto elim: completeE)
  obtain hq bq where hq: "ParseHeader q = Ok (hq, bq)" "\<not> hPiggyBacked hq"
    using q by (auto elim: completeE)
  let ?p = "p[0 := p ! 0 OR 0x10]"
  have ne: "p \<noteq> []" "q \<noteq> []" using p q complete_not_Nil by auto
  then have out: "MarshalPiggybacked p q = Ok (?p @ q)"
    using hp hq by (simp add: MarshalPiggybacked_def wrap_err_def)
  have "complete True ?p"
    by (rule completeI [OF set_piggyback_flag [OF hp(1)]]) (use hp(2) in simp_all)
  then have "well_chained [?p, q]" using q by (simp add: well_chained_def)
  then show ?thesis using out split_frames_Ok_iff [of "?p @ q" "[?p, q]"] by auto
qed


abbreviation echo_bytes :: "u8 \<Rightarrow> bytes" where
  "echo_bytes t \<equiv> [0x40, t, 0, 4, 0, 0, 1, 0]"

lemma echo_complete: "complete False (echo_bytes t)"
  by (rule completeI [of _ "zeroHeader\<lparr>hVersion := 2, hMessageType := t, hLength := 4, hSequenceNumber := 1\<rparr>" "[]"])
     (simp_all add: ParseHeader_def ParseHeader_fields_def headerLenWithoutTEID_def zeroHeader_def Let_def
        byte_simps get16_def seq24_def rd16_def)

theorem piggyback_split_witness:
  "\<exists>out fs. MarshalPiggybacked (echo_bytes 1) (echo_bytes 2) = Ok out \<and> SplitFrames out = Ok fs \<and>
     map frRaw fs = [[0x50, 1, 0, 4, 0, 0, 1, 0], echo_bytes 2]"
  using piggyback_split [OF echo_complete [of 1] echo_complete [of 2]] by simp

lemma SplitFrames_loop_no_panic: "SplitFrames_loop b off frames \<noteq> Panic"
proof (induction b off frames rule: SplitFrames_loop.induct)
  case (1 b off frames)
  then show ?case
    using ParseHeader_no_panic [of "drop off b"]
    by (subst SplitFrames_loop.simps) (auto simp: Let_def obind_Panic_iff split: prod.splits)
qed



end
