(* ===== verification/GTPv2_Procedures.thy ===== *)
theory GTPv2_Procedures
  imports GTPv2_Message
begin

text \<open>
  The GTPv2-C procedure messages (\<^verbatim>\<open>internal/gtpv2/message/\<close>: \<^verbatim>\<open>echo.go\<close>,
  \<^verbatim>\<open>create_session.go\<close>, \<^verbatim>\<open>modify_bearer.go\<close>, \<^verbatim>\<open>delete_session.go\<close>,
  \<^verbatim>\<open>release_access_bearers.go\<close>, \<^verbatim>\<open>downlink_data_notification.go\<close>, \<^verbatim>\<open>bearer.go\<close>). A loop
  with a type switch that assigns fields is, field by field, the last matching element
  (\<open>last_ie\<close>) or the list of all of them (\<open>filter\<close>). The lemmas show the exact acceptance
  conditions, the round trips, and how a response is correlated with its request.
\<close>

section \<open>Selecting elements\<close>

abbreviation (input) TypePCO :: u8 where "TypePCO \<equiv> 78"
abbreviation (input) TypeULI :: u8 where "TypeULI \<equiv> 86"
abbreviation (input) TypeDelayValue :: u8 where "TypeDelayValue \<equiv> 92"
abbreviation (input) TypeChargingID :: u8 where "TypeChargingID \<equiv> 94"
abbreviation (input) TypeChargingChars :: u8 where "TypeChargingChars \<equiv> 95"
abbreviation (input) TypePTI :: u8 where "TypePTI \<equiv> 100"
abbreviation (input) TypeUETimeZone :: u8 where "TypeUETimeZone \<equiv> 114"
abbreviation (input) TypeAPNRestriction :: u8 where "TypeAPNRestriction \<equiv> 127"
abbreviation (input) TypeNodeType :: u8 where "TypeNodeType \<equiv> 135"
abbreviation (input) TypeThrottling :: u8 where "TypeThrottling \<equiv> 154"
abbreviation (input) TypeARP :: u8 where "TypeARP \<equiv> 155"
abbreviation (input) TypeEPCTimer :: u8 where "TypeEPCTimer \<equiv> 156"
abbreviation (input) TypePagingAndServiceInformation :: u8 where "TypePagingAndServiceInformation \<equiv> 186"
abbreviation (input) TypeIntegerNumber :: u8 where "TypeIntegerNumber \<equiv> 187"

definition of_type :: "u8 \<Rightarrow> ie \<Rightarrow> bool" where
  "of_type t i \<longleftrightarrow> ieType i = t"

definition of_inst :: "u8 \<Rightarrow> u8 \<Rightarrow> ie \<Rightarrow> bool" where
  "of_inst t n i \<longleftrightarrow> ieType i = t \<and> ieInstance i = n"

definition last_ie :: "(ie \<Rightarrow> bool) \<Rightarrow> ie list \<Rightarrow> ie option" where
  "last_ie P ies = fold (\<lambda>i acc. if P i then Some i else acc) ies None"

text \<open>The header every \<^verbatim>\<open>Marshal...\<close> function builds.\<close>

definition mk_header :: "bool \<Rightarrow> u8 \<Rightarrow> u32 \<Rightarrow> u32 \<Rightarrow> header" where
  "mk_header hasTEID msgType teid seq = zeroHeader\<lparr>hVersion := 2, hHasTEID := hasTEID,
     hMessageType := msgType, hTEID := teid, hSequenceNumber := seq\<rparr>"

text \<open>The opening of the parsers that take raw bytes.\<close>

definition parse_typed :: "u8 \<Rightarrow> bytes \<Rightarrow> (header \<times> ie list) msg_result" where
  "parse_typed want b =
     obind (Parse b) (\<lambda>(h, ies).
       if hMessageType h \<noteq> want then Fail (WrongMessageType (hMessageType h) want) else Ok (h, ies))"

section \<open>Echo\<close>

record echo_request =
  erqHeader :: header
  erqRecovery :: "ie option"

record echo_response =
  erpHeader :: header
  erpRecovery :: "ie option"

definition ParseEchoRequest :: "header \<Rightarrow> ie list \<Rightarrow> echo_request" where
  "ParseEchoRequest h ies = \<lparr>erqHeader = h, erqRecovery = FindFirst ies TypeRecovery\<rparr>"

definition ParseEchoResponse :: "header \<Rightarrow> ie list \<Rightarrow> echo_response" where
  "ParseEchoResponse h ies = \<lparr>erpHeader = h, erpRecovery = FindFirst ies TypeRecovery\<rparr>"

definition MarshalEchoRequest :: "u32 \<Rightarrow> u8 option \<Rightarrow> bytes msg_result" where
  "MarshalEchoRequest seq restartCounter =
     Marshal (mk_header False MsgTypeEchoRequest 0 seq)
       (case restartCounter of None \<Rightarrow> [] | Some c \<Rightarrow> [NewRecovery c])"

definition MarshalEchoResponse :: "echo_request \<Rightarrow> u8 \<Rightarrow> bytes msg_result" where
  "MarshalEchoResponse req restartCounter =
     Marshal (mk_header False MsgTypeEchoResponse 0 (hSequenceNumber (erqHeader req))) [NewRecovery restartCounter]"

section \<open>Create Session\<close>

record create_session_request =
  csqHeader :: header
  csqIMSI :: "ie option"
  csqMSISDN :: "ie option"
  csqMEI :: "ie option"
  csqRATType :: "ie option"
  csqServingNetwork :: "ie option"
  csqULI :: "ie option"
  csqFTEID :: "ie option"
  csqPGWFTEID :: "ie option"
  csqAPN :: "ie option"
  csqPDNType :: "ie option"
  csqPAA :: "ie option"
  csqAMBR :: "ie option"
  csqPCO :: "ie option"
  csqAPNRestriction :: "ie option"
  csqUETimeZone :: "ie option"
  csqChargingChars :: "ie option"
  csqSelectionMode :: "ie option"
  csqBearerContexts :: "ie list"
  csqIndication :: "ie option"
  csqRecovery :: "ie option"
  csqPTI :: "ie option"

definition create_session_fields :: "header \<Rightarrow> ie list \<Rightarrow> create_session_request" where
  "create_session_fields h ies =
    \<lparr>csqHeader = h,
     csqIMSI = last_ie (of_type TypeIMSI) ies,
     csqMSISDN = last_ie (of_type TypeMSISDN) ies,
     csqMEI = last_ie (of_type TypeMEI) ies,
     csqRATType = last_ie (of_type TypeRATType) ies,
     csqServingNetwork = last_ie (of_type TypeServingNetwork) ies,
     csqULI = last_ie (of_type TypeULI) ies,
     csqFTEID = last_ie (of_inst TypeFTEID 0) ies,
     csqPGWFTEID = last_ie (of_inst TypeFTEID 1) ies,
     csqAPN = last_ie (of_type TypeAPN) ies,
     csqPDNType = last_ie (of_type TypePDNType) ies,
     csqPAA = last_ie (of_type TypePAA) ies,
     csqAMBR = last_ie (of_type TypeAMBR) ies,
     csqPCO = last_ie (of_type TypePCO) ies,
     csqAPNRestriction = last_ie (of_type TypeAPNRestriction) ies,
     csqUETimeZone = last_ie (of_type TypeUETimeZone) ies,
     csqChargingChars = last_ie (of_type TypeChargingChars) ies,
     csqSelectionMode = last_ie (of_type TypeSelectionMode) ies,
     csqBearerContexts = filter (of_type TypeBearerContext) ies,
     csqIndication = last_ie (of_type TypeIndication) ies,
     csqRecovery = last_ie (of_type TypeRecovery) ies,
     csqPTI = last_ie (of_type TypePTI) ies\<rparr>"

definition missing_csq :: "u8 \<Rightarrow> unit msg_result" where
  "missing_csq t = Fail (MissingIE t MsgTypeCreateSessionRequest)"

definition create_session_validate :: "create_session_request \<Rightarrow> unit msg_result" where
  "create_session_validate req =
     (if csqIMSI req = None \<and> csqMEI req = None then missing_csq TypeIMSI
      else if csqRATType req = None then missing_csq TypeRATType
      else if csqFTEID req = None then missing_csq TypeFTEID
      else if csqAPN req = None then missing_csq TypeAPN
      else if csqPDNType req = None then missing_csq TypePDNType
      else if csqBearerContexts req = [] then missing_csq TypeBearerContext
      else
        obind (idx (csqBearerContexts req) 0) (\<lambda>bc.
        case ChildIEs bc of
          Panic \<Rightarrow> Panic
        | Fail e \<Rightarrow> missing_csq TypeEBI
        | Ok children \<Rightarrow>
            if FindFirst children TypeEBI = None then missing_csq TypeEBI
            else if FindFirst children TypeBearerQoS = None then missing_csq TypeBearerQoS
            else Ok ()))"

definition ParseCreateSessionRequest :: "header \<Rightarrow> ie list \<Rightarrow> create_session_request msg_result" where
  "ParseCreateSessionRequest h ies =
     (let req = create_session_fields h ies in obind (create_session_validate req) (\<lambda>_. Ok req))"

record create_session_response =
  cspHeader :: header
  cspCause :: "ie option"
  cspFTEID :: "ie option"
  cspPGWFTEID :: "ie option"
  cspPAA :: "ie option"
  cspAMBR :: "ie option"
  cspPCO :: "ie option"
  cspAPNRestriction :: "ie option"
  cspChargingID :: "ie option"
  cspBearerContexts :: "ie list"
  cspRecovery :: "ie option"

definition ParseCreateSessionResponse :: "header \<Rightarrow> ie list \<Rightarrow> create_session_response msg_result" where
  "ParseCreateSessionResponse h ies =
     (let resp = \<lparr>cspHeader = h,
        cspCause = last_ie (of_type TypeCause) ies,
        cspFTEID = last_ie (of_inst TypeFTEID 0) ies,
        cspPGWFTEID = last_ie (of_inst TypeFTEID 1) ies,
        cspPAA = last_ie (of_type TypePAA) ies,
        cspAMBR = last_ie (of_type TypeAMBR) ies,
        cspPCO = last_ie (of_type TypePCO) ies,
        cspAPNRestriction = last_ie (of_type TypeAPNRestriction) ies,
        cspChargingID = last_ie (of_type TypeChargingID) ies,
        cspBearerContexts = filter (of_type TypeBearerContext) ies,
        cspRecovery = last_ie (of_type TypeRecovery) ies\<rparr> in
      if cspCause resp = None then Fail (MissingIE TypeCause MsgTypeCreateSessionResponse) else Ok resp)"

definition MarshalCreateSessionResponse :: "create_session_request \<Rightarrow> u8 \<Rightarrow> ie list \<Rightarrow> bytes msg_result" where
  "MarshalCreateSessionResponse req cause ies =
     (let mmeTEID = (case csqFTEID req of
          None \<Rightarrow> Ok 0
        | Some f \<Rightarrow> (case FTEIDValue f of Ok v \<Rightarrow> Ok (fTEID v) | Fail e \<Rightarrow> Ok 0 | Panic \<Rightarrow> Panic)) in
      obind mmeTEID (\<lambda>teid.
        Marshal (mk_header True MsgTypeCreateSessionResponse teid (hSequenceNumber (csqHeader req)))
          (NewCause cause 0 0 0 None # ies)))"

section \<open>Modify Bearer\<close>

record modify_bearer_request =
  mbqHeader :: header
  mbqFTEID :: "ie option"
  mbqBearerContexts :: "ie list"
  mbqSecondaryRATUsageDataReports :: "ie list"
  mbqIndication :: "ie option"
  mbqRecovery :: "ie option"

definition ParseModifyBearerRequest :: "header \<Rightarrow> ie list \<Rightarrow> modify_bearer_request msg_result" where
  "ParseModifyBearerRequest h ies = Ok
     \<lparr>mbqHeader = h,
      mbqFTEID = last_ie (of_inst TypeFTEID 0) ies,
      mbqBearerContexts = filter (of_type TypeBearerContext) ies,
      mbqSecondaryRATUsageDataReports = filter (of_type TypeSecondaryRATUsageDataReport) ies,
      mbqIndication = last_ie (of_type TypeIndication) ies,
      mbqRecovery = last_ie (of_type TypeRecovery) ies\<rparr>"

record modify_bearer_response =
  mbpHeader :: header
  mbpCause :: "ie option"
  mbpFTEID :: "ie option"
  mbpBearerContexts :: "ie list"
  mbpRecovery :: "ie option"

definition ParseModifyBearerResponse :: "header \<Rightarrow> ie list \<Rightarrow> modify_bearer_response msg_result" where
  "ParseModifyBearerResponse h ies =
     (let resp = \<lparr>mbpHeader = h,
        mbpCause = last_ie (of_type TypeCause) ies,
        mbpFTEID = last_ie (of_inst TypeFTEID 0) ies,
        mbpBearerContexts = filter (of_type TypeBearerContext) ies,
        mbpRecovery = last_ie (of_type TypeRecovery) ies\<rparr> in
      if mbpCause resp = None then Fail (MissingIE TypeCause MsgTypeModifyBearerResponse) else Ok resp)"

definition MarshalModifyBearerResponse :: "modify_bearer_request \<Rightarrow> u32 \<Rightarrow> u8 \<Rightarrow> ie list \<Rightarrow> bytes msg_result" where
  "MarshalModifyBearerResponse req peerTEID cause ies =
     Marshal (mk_header (hHasTEID (mbqHeader req)) MsgTypeModifyBearerResponse peerTEID
         (hSequenceNumber (mbqHeader req)))
       (NewCause cause 0 0 0 None # ies)"

section \<open>Delete Session and Release Access Bearers\<close>

record delete_session_request =
  dsqHeader :: header
  dsqCause :: "ie option"
  dsqEBI :: "ie option"
  dsqIndication :: "ie option"
  dsqRecovery :: "ie option"

definition ParseDeleteSessionRequest :: "header \<Rightarrow> ie list \<Rightarrow> delete_session_request msg_result" where
  "ParseDeleteSessionRequest h ies = Ok
     \<lparr>dsqHeader = h,
      dsqCause = last_ie (of_type TypeCause) ies,
      dsqEBI = last_ie (of_type TypeEBI) ies,
      dsqIndication = last_ie (of_type TypeIndication) ies,
      dsqRecovery = last_ie (of_type TypeRecovery) ies\<rparr>"

record delete_session_response =
  dspHeader :: header
  dspCause :: "ie option"
  dspRecovery :: "ie option"

definition ParseDeleteSessionResponse :: "header \<Rightarrow> ie list \<Rightarrow> delete_session_response msg_result" where
  "ParseDeleteSessionResponse h ies =
     (let resp = \<lparr>dspHeader = h,
        dspCause = last_ie (of_type TypeCause) ies,
        dspRecovery = last_ie (of_type TypeRecovery) ies\<rparr> in
      if dspCause resp = None then Fail (MissingIE TypeCause MsgTypeDeleteSessionResponse) else Ok resp)"

definition MarshalDeleteSessionResponse :: "delete_session_request \<Rightarrow> u32 \<Rightarrow> u8 \<Rightarrow> bytes msg_result" where
  "MarshalDeleteSessionResponse req peerTEID cause =
     Marshal (mk_header (hHasTEID (dsqHeader req)) MsgTypeDeleteSessionResponse peerTEID
         (hSequenceNumber (dsqHeader req)))
       [NewCause cause 0 0 0 None]"

record release_access_bearers_request =
  rabHeader :: header
  rabIndication :: "ie option"
  rabRecovery :: "ie option"

definition ParseReleaseAccessBearersRequest :: "header \<Rightarrow> ie list \<Rightarrow> release_access_bearers_request" where
  "ParseReleaseAccessBearersRequest h ies =
     \<lparr>rabHeader = h,
      rabIndication = last_ie (of_type TypeIndication) ies,
      rabRecovery = last_ie (of_type TypeRecovery) ies\<rparr>"

definition MarshalReleaseAccessBearersResponse ::
    "release_access_bearers_request \<Rightarrow> u32 \<Rightarrow> u8 \<Rightarrow> bytes msg_result" where
  "MarshalReleaseAccessBearersResponse req peerTEID cause =
     Marshal (mk_header (hHasTEID (rabHeader req)) MsgTypeReleaseAccessBearersResponse peerTEID
         (hSequenceNumber (rabHeader req)))
       [NewCause cause 0 0 0 None]"

section \<open>Downlink Data Notification and Stop Paging\<close>

record downlink_data_notification =
  ddnHeader :: header
  ddnCause :: "ie option"
  ddnEBIs :: "ie list"
  ddnARP :: "ie option"
  ddnIMSI :: "ie option"
  ddnSenderFTEID :: "ie option"
  ddnIndication :: "ie option"
  ddnPagingInfo :: "ie list"

definition ParseDownlinkDataNotification :: "bytes \<Rightarrow> downlink_data_notification msg_result" where
  "ParseDownlinkDataNotification b =
     obind (parse_typed MsgTypeDownlinkDataNotification b) (\<lambda>(h, ies).
       Ok \<lparr>ddnHeader = h,
         ddnCause = last_ie (of_inst TypeCause 0) ies,
         ddnEBIs = filter (of_inst TypeEBI 0) ies,
         ddnARP = last_ie (of_inst TypeARP 0) ies,
         ddnIMSI = last_ie (of_inst TypeIMSI 0) ies,
         ddnSenderFTEID = last_ie (of_inst TypeFTEID 0) ies,
         ddnIndication = last_ie (of_inst TypeIndication 0) ies,
         ddnPagingInfo = filter (of_inst TypePagingAndServiceInformation 0) ies\<rparr>)"

definition MarshalDownlinkDataNotification :: "u32 \<Rightarrow> u32 \<Rightarrow> ie list \<Rightarrow> bytes msg_result" where
  "MarshalDownlinkDataNotification peerTEID seq ies =
     Marshal (mk_header True MsgTypeDownlinkDataNotification peerTEID seq) ies"

record ddn_ack =
  daHeader :: header
  daCause :: "ie option"
  daDataNotificationDelay :: "ie option"
  daRecovery :: "ie option"
  daLowPriorityTrafficThrottling :: "ie option"
  daIMSI :: "ie option"
  daDLBufferingDuration :: "ie option"
  daDLBufferingSuggestedPktCount :: "ie option"

definition ParseDownlinkDataNotificationAck :: "bytes \<Rightarrow> ddn_ack msg_result" where
  "ParseDownlinkDataNotificationAck b =
     obind (parse_typed MsgTypeDownlinkDataNotificationAck b) (\<lambda>(h, ies).
       let resp = \<lparr>daHeader = h,
         daCause = last_ie (of_inst TypeCause 0) ies,
         daDataNotificationDelay = last_ie (of_inst TypeDelayValue 0) ies,
         daRecovery = last_ie (of_inst TypeRecovery 0) ies,
         daLowPriorityTrafficThrottling = last_ie (of_inst TypeThrottling 0) ies,
         daIMSI = last_ie (of_inst TypeIMSI 0) ies,
         daDLBufferingDuration = last_ie (of_inst TypeEPCTimer 0) ies,
         daDLBufferingSuggestedPktCount = last_ie (of_inst TypeIntegerNumber 0) ies\<rparr> in
       if daCause resp = None then Fail (MissingIE TypeCause MsgTypeDownlinkDataNotificationAck) else Ok resp)"

definition MarshalDownlinkDataNotificationAck ::
    "downlink_data_notification \<Rightarrow> u32 \<Rightarrow> u8 \<Rightarrow> ie list \<Rightarrow> bytes msg_result" where
  "MarshalDownlinkDataNotificationAck req peerTEID cause ies =
     Marshal (mk_header True MsgTypeDownlinkDataNotificationAck peerTEID (hSequenceNumber (ddnHeader req)))
       (NewCause cause 0 0 0 None # ies)"

record ddn_failure_indication =
  dfHeader :: header
  dfCause :: "ie option"
  dfOriginatingNode :: "ie option"
  dfIMSI :: "ie option"

definition ParseDownlinkDataNotificationFailureIndication :: "bytes \<Rightarrow> ddn_failure_indication msg_result" where
  "ParseDownlinkDataNotificationFailureIndication b =
     obind (parse_typed MsgTypeDownlinkDataNotificationFailureIndication b) (\<lambda>(h, ies).
       let ind = \<lparr>dfHeader = h,
         dfCause = last_ie (of_inst TypeCause 0) ies,
         dfOriginatingNode = last_ie (of_inst TypeNodeType 0) ies,
         dfIMSI = last_ie (of_inst TypeIMSI 0) ies\<rparr> in
       if dfCause ind = None then Fail (MissingIE TypeCause MsgTypeDownlinkDataNotificationFailureIndication)
       else Ok ind)"

definition MarshalDownlinkDataNotificationFailureIndication ::
    "u32 \<Rightarrow> u32 \<Rightarrow> u8 \<Rightarrow> ie list \<Rightarrow> bytes msg_result" where
  "MarshalDownlinkDataNotificationFailureIndication peerTEID seq cause ies =
     Marshal (mk_header True MsgTypeDownlinkDataNotificationFailureIndication peerTEID seq)
       (NewCause cause 0 0 0 None # ies)"

record stop_paging_indication =
  spHeader :: header
  spIMSI :: "ie option"

definition ParseStopPagingIndication :: "bytes \<Rightarrow> stop_paging_indication msg_result" where
  "ParseStopPagingIndication b =
     obind (parse_typed MsgTypeStopPagingIndication b) (\<lambda>(h, ies).
       Ok \<lparr>spHeader = h, spIMSI = FindFirst ies TypeIMSI\<rparr>)"

definition MarshalStopPagingIndication :: "u32 \<Rightarrow> u32 \<Rightarrow> ie list \<Rightarrow> bytes msg_result" where
  "MarshalStopPagingIndication peerTEID seq ies =
     Marshal (mk_header True MsgTypeStopPagingIndication peerTEID seq) ies"

section \<open>Dedicated bearer procedures\<close>

record create_bearer_request =
  cbqHeader :: header
  cbqLBI :: "ie option"
  cbqBearerContexts :: "ie list"

definition ParseCreateBearerRequest :: "bytes \<Rightarrow> create_bearer_request msg_result" where
  "ParseCreateBearerRequest b =
     obind (parse_typed MsgTypeCreateBearerRequest b) (\<lambda>(h, ies).
       let req = \<lparr>cbqHeader = h,
         cbqLBI = last_ie (of_inst TypeEBI 0) ies,
         cbqBearerContexts = filter (of_inst TypeBearerContext 0) ies\<rparr> in
       if cbqLBI req = None then Fail (MissingIE TypeEBI MsgTypeCreateBearerRequest)
       else if cbqBearerContexts req = [] then Fail (MissingIE TypeBearerContext MsgTypeCreateBearerRequest)
       else Ok req)"

definition MarshalCreateBearerRequest :: "u32 \<Rightarrow> u32 \<Rightarrow> ie list \<Rightarrow> bytes msg_result" where
  "MarshalCreateBearerRequest peerTEID seq ies =
     Marshal (mk_header True MsgTypeCreateBearerRequest peerTEID seq) ies"

text \<open>
  The answers to bearer requests and the Delete Bearer Failure Indication; only the Delete
  Bearer Response reads a linked bearer ID.
\<close>

record bearer_response =
  brHeader :: header
  brCause :: "ie option"
  brLBI :: "ie option"
  brBearerContexts :: "ie list"

definition ParseCreateBearerResponse :: "bytes \<Rightarrow> bearer_response msg_result" where
  "ParseCreateBearerResponse b =
     obind (parse_typed MsgTypeCreateBearerResponse b) (\<lambda>(h, ies).
       let resp = \<lparr>brHeader = h,
         brCause = last_ie (of_inst TypeCause 0) ies,
         brLBI = None,
         brBearerContexts = filter (of_inst TypeBearerContext 0) ies\<rparr> in
       if brCause resp = None then Fail (MissingIE TypeCause MsgTypeCreateBearerResponse)
       else if brBearerContexts resp = [] then Fail (MissingIE TypeBearerContext MsgTypeCreateBearerResponse)
       else Ok resp)"

definition MarshalCreateBearerResponse :: "u32 \<Rightarrow> u32 \<Rightarrow> ie list \<Rightarrow> bytes msg_result" where
  "MarshalCreateBearerResponse peerTEID seq ies =
     Marshal (mk_header True MsgTypeCreateBearerResponse peerTEID seq) ies"

record update_bearer_request =
  ubqHeader :: header
  ubqBearerContexts :: "ie list"
  ubqAMBR :: "ie option"

definition ParseUpdateBearerRequest :: "bytes \<Rightarrow> update_bearer_request msg_result" where
  "ParseUpdateBearerRequest b =
     obind (parse_typed MsgTypeUpdateBearerRequest b) (\<lambda>(h, ies).
       let req = \<lparr>ubqHeader = h,
         ubqBearerContexts = filter (of_inst TypeBearerContext 0) ies,
         ubqAMBR = last_ie (of_inst TypeAMBR 0) ies\<rparr> in
       if ubqBearerContexts req = [] then Fail (MissingIE TypeBearerContext MsgTypeUpdateBearerRequest)
       else if ubqAMBR req = None then Fail (MissingIE TypeAMBR MsgTypeUpdateBearerRequest)
       else Ok req)"

definition MarshalUpdateBearerRequest :: "u32 \<Rightarrow> u32 \<Rightarrow> ie list \<Rightarrow> bytes msg_result" where
  "MarshalUpdateBearerRequest peerTEID seq ies =
     Marshal (mk_header True MsgTypeUpdateBearerRequest peerTEID seq) ies"

definition ParseUpdateBearerResponse :: "bytes \<Rightarrow> bearer_response msg_result" where
  "ParseUpdateBearerResponse b =
     obind (parse_typed MsgTypeUpdateBearerResponse b) (\<lambda>(h, ies).
       let resp = \<lparr>brHeader = h,
         brCause = last_ie (of_inst TypeCause 0) ies,
         brLBI = None,
         brBearerContexts = filter (of_inst TypeBearerContext 0) ies\<rparr> in
       if brCause resp = None then Fail (MissingIE TypeCause MsgTypeUpdateBearerResponse) else Ok resp)"

definition MarshalUpdateBearerResponse :: "u32 \<Rightarrow> u32 \<Rightarrow> ie list \<Rightarrow> bytes msg_result" where
  "MarshalUpdateBearerResponse peerTEID seq ies =
     Marshal (mk_header True MsgTypeUpdateBearerResponse peerTEID seq) ies"

record delete_bearer_request =
  dbqHeader :: header
  dbqLBI :: "ie option"
  dbqEBIs :: "ie list"

definition ParseDeleteBearerRequest :: "bytes \<Rightarrow> delete_bearer_request msg_result" where
  "ParseDeleteBearerRequest b =
     obind (parse_typed MsgTypeDeleteBearerRequest b) (\<lambda>(h, ies).
       let req = \<lparr>dbqHeader = h,
         dbqLBI = last_ie (of_inst TypeEBI 0) ies,
         dbqEBIs = filter (of_inst TypeEBI 1) ies\<rparr> in
       if dbqLBI req = None \<and> dbqEBIs req = [] then Fail (MissingIE TypeEBI MsgTypeDeleteBearerRequest)
       else Ok req)"

definition MarshalDeleteBearerRequest :: "u32 \<Rightarrow> u32 \<Rightarrow> ie list \<Rightarrow> bytes msg_result" where
  "MarshalDeleteBearerRequest peerTEID seq ies =
     Marshal (mk_header True MsgTypeDeleteBearerRequest peerTEID seq) ies"

definition ParseDeleteBearerResponse :: "bytes \<Rightarrow> bearer_response msg_result" where
  "ParseDeleteBearerResponse b =
     obind (parse_typed MsgTypeDeleteBearerResponse b) (\<lambda>(h, ies).
       let resp = \<lparr>brHeader = h,
         brCause = last_ie (of_inst TypeCause 0) ies,
         brLBI = last_ie (of_inst TypeEBI 0) ies,
         brBearerContexts = filter (of_inst TypeBearerContext 0) ies\<rparr> in
       if brCause resp = None then Fail (MissingIE TypeCause MsgTypeDeleteBearerResponse) else Ok resp)"

definition MarshalDeleteBearerResponse :: "u32 \<Rightarrow> u32 \<Rightarrow> ie list \<Rightarrow> bytes msg_result" where
  "MarshalDeleteBearerResponse peerTEID seq ies =
     Marshal (mk_header True MsgTypeDeleteBearerResponse peerTEID seq) ies"

record delete_bearer_command =
  dbcHeader :: header
  dbcBearerContexts :: "ie list"
  dbcIEs :: "ie list"

text \<open>The loop over the bearer contexts: each must parse and hold an EBI.\<close>

fun check_contexts :: "nat \<Rightarrow> ie list \<Rightarrow> unit msg_result" where
  "check_contexts n [] = Ok ()"
| "check_contexts n (bc # bcs) =
     (case ChildIEs bc of
        Panic \<Rightarrow> Panic
      | Fail e \<Rightarrow> Fail (MalformedBearerContext n e)
      | Ok children \<Rightarrow>
          if FindFirst children TypeEBI = None then Fail (MissingIE TypeEBI MsgTypeDeleteBearerCommand)
          else check_contexts (n + 1) bcs)"

definition ParseDeleteBearerCommand :: "bytes \<Rightarrow> delete_bearer_command msg_result" where
  "ParseDeleteBearerCommand b =
     obind (parse_typed MsgTypeDeleteBearerCommand b) (\<lambda>(h, ies).
       let cmd = \<lparr>dbcHeader = h,
         dbcBearerContexts = filter (of_inst TypeBearerContext 0) ies,
         dbcIEs = ies\<rparr> in
       if dbcBearerContexts cmd = [] then Fail (MissingIE TypeBearerContext MsgTypeDeleteBearerCommand)
       else obind (check_contexts 0 (dbcBearerContexts cmd)) (\<lambda>_. Ok cmd))"

definition MarshalDeleteBearerCommand :: "u32 \<Rightarrow> u32 \<Rightarrow> ie list \<Rightarrow> bytes msg_result" where
  "MarshalDeleteBearerCommand peerTEID seq ies =
     Marshal (mk_header True MsgTypeDeleteBearerCommand peerTEID seq) ies"

definition ParseDeleteBearerFailureIndication :: "bytes \<Rightarrow> bearer_response msg_result" where
  "ParseDeleteBearerFailureIndication b =
     obind (parse_typed MsgTypeDeleteBearerFailureIndication b) (\<lambda>(h, ies).
       let ind = \<lparr>brHeader = h,
         brCause = last_ie (of_inst TypeCause 0) ies,
         brLBI = None,
         brBearerContexts = filter (of_inst TypeBearerContext 0) ies\<rparr> in
       if brCause ind = None then Fail (MissingIE TypeCause MsgTypeDeleteBearerFailureIndication)
       else if brBearerContexts ind = [] then
         Fail (MissingIE TypeBearerContext MsgTypeDeleteBearerFailureIndication)
       else Ok ind)"

definition MarshalDeleteBearerFailureIndication :: "u32 \<Rightarrow> u32 \<Rightarrow> ie list \<Rightarrow> bytes msg_result" where
  "MarshalDeleteBearerFailureIndication peerTEID seq ies =
     Marshal (mk_header True MsgTypeDeleteBearerFailureIndication peerTEID seq) ies"


section \<open>Selection\<close>

lemma last_ie_fold: "fold (\<lambda>i acc. if P i then Some i else acc) ies a =
    (case filter P (rev ies) of [] \<Rightarrow> a | i # _ \<Rightarrow> Some i)"
  by (induction ies arbitrary: a) (auto split: list.splits)

lemma last_ie_None_iff: "last_ie P ies = None \<longleftrightarrow> (\<forall>i \<in> set ies. \<not> P i)"
proof -
  have "last_ie P ies = None \<longleftrightarrow> filter P (rev ies) = []"
    by (cases "filter P (rev ies)") (simp_all add: last_ie_def last_ie_fold)
  then show ?thesis by (simp add: filter_empty_conv)
qed

lemma last_ie_SomeD: "last_ie P ies = Some i \<Longrightarrow> i \<in> set ies \<and> P i"
  by (auto simp: last_ie_def last_ie_fold split: list.splits dest!: filter_eq_ConsD) (metis in_set_conv_decomp set_rev)

lemma FindInstance_None_iff: "FindInstance ies t n = None \<longleftrightarrow> (\<forall>i \<in> set ies. \<not> of_inst t n i)"
  by (induction ies) (auto simp: of_inst_def)

section \<open>Messages built by the procedures\<close>

lemma mk_header_simps [simp]:
  "hVersion (mk_header ht ty te sq) = 2" "hHasTEID (mk_header ht ty te sq) = ht"
  "hMessageType (mk_header ht ty te sq) = ty" "hTEID (mk_header ht ty te sq) = te"
  "hSequenceNumber (mk_header ht ty te sq) = sq" "\<not> hMP (mk_header ht ty te sq)"
  "hMessagePriority (mk_header ht ty te sq) = 0"
  by (simp_all add: mk_header_def zeroHeader_def)

lemma wf_mk_header: "sq < 0x1000000 \<Longrightarrow> (\<not> ht \<Longrightarrow> te = 0) \<Longrightarrow> wf_header (mk_header ht ty te sq)"
  by (auto simp: wf_header_def)

lemma parse_built:
  assumes "Marshal (mk_header ht ty te sq) ies = Ok b" "sq < 0x1000000" "\<not> ht \<Longrightarrow> te = 0"
    "\<forall>i \<in> set ies. ieInstance i < 16"
  shows "Parse b = Ok ((mk_header ht ty te sq)\<lparr>hLength := of_nat (length b - 4)\<rparr>, ies)"
  using marshal_parse [OF assms(1) wf_mk_header [OF assms(2,3)] assms(4), of "[]"] by simp

lemma Marshal_no_panic: "Marshal h ies \<noteq> Panic"
proof -
  have "marshal_body ies \<noteq> Panic" by (induction ies) (auto simp: omap_Panic_iff)
  then show ?thesis by (auto simp: Marshal_def obind_Panic_iff Let_def)
qed

lemma NewCause_facts [simp]:
  "ieInstance (NewCause c 0 0 0 None) = 0" "CauseValue (NewCause c 0 0 0 None) = Ok c"
  by (simp_all add: NewCause_def CauseValue_def octet_value_def byte_simps)

text \<open>
  A response answers a request: it has the paired message type, the sequence number of the
  request, the given TEID and the given cause; the only errors are length overflows.
\<close>

definition answers :: "u8 \<Rightarrow> u32 \<Rightarrow> u32 \<Rightarrow> u8 \<Rightarrow> bytes msg_result \<Rightarrow> bool" where
  "answers reqType seq teid cause r \<longleftrightarrow> (case r of
     Ok b \<Rightarrow> (case Parse b of
         Ok (h, i # ies) \<Rightarrow> ResponseTypeFor reqType = Some (hMessageType h) \<and> hSequenceNumber h = seq \<and>
           hTEID h = teid \<and> CauseValue i = Ok cause
       | _ \<Rightarrow> False)
   | Fail e \<Rightarrow> (\<exists>t n. e = MessageLengthExceeds t n) \<or> (\<exists>t i n. e = IELengthExceeds t i n)
   | Panic \<Rightarrow> False)"

lemma Marshal_Fail:
  assumes "Marshal h ies = Fail e"
  shows "(\<exists>t n. e = MessageLengthExceeds t n) \<or> (\<exists>t i n. e = IELengthExceeds t i n)"
proof -
  have b: "marshal_body ies = Fail e \<Longrightarrow> \<exists>t i n. e = IELengthExceeds t i n" for e
  proof (induction ies)
    case (Cons i ies)
    then show ?case by (cases "marshal_body ies") (auto split: if_splits)
  qed simp
  show ?thesis using assms b by (cases "marshal_body ies") (auto simp: Marshal_def Let_def split: if_splits)
qed

lemma answers_built:
  assumes "sq < 0x1000000" "\<forall>i \<in> set ies. ieInstance i < 16" "ResponseTypeFor ty = Some ty'"
  shows "answers ty sq te c (Marshal (mk_header True ty' te sq) (NewCause c 0 0 0 None # ies))"
proof (cases "Marshal (mk_header True ty' te sq) (NewCause c 0 0 0 None # ies)")
  case (Ok b)
  have "Parse b = Ok ((mk_header True ty' te sq)\<lparr>hLength := of_nat (length b - 4)\<rparr>, NewCause c 0 0 0 None # ies)"
    using parse_built [OF Ok assms(1)] assms(2) by simp
  with Ok assms(3) show ?thesis by (simp add: answers_def)
next
  case (Fail e)
  then show ?thesis using Marshal_Fail by (auto simp: answers_def)
next
  case Panic
  then show ?thesis using Marshal_no_panic by blast
qed

text \<open>
  every response the gateway builds answers its request: it has the paired message type,
  carries the sequence number of the request and the TEID of the peer, and starts with the
  chosen cause. The TEID of a Create Session Response is the one in the Sender F-TEID of the
  request, not the TEID of the request header.
\<close>

theorem responses_answer_requests:
  assumes sq: "hSequenceNumber h < 0x1000000" and te: "hHasTEID h" and inst: "\<forall>i \<in> set ies. ieInstance i < 16"
    and f: "csqFTEID req = Some i" "FTEIDValue i = Ok f"
  shows
    "(csqHeader req = h \<longrightarrow> answers 32 (hSequenceNumber h) (fTEID f) c (MarshalCreateSessionResponse req c ies)) \<and>
     (mbqHeader mb = h \<longrightarrow> answers 34 (hSequenceNumber h) peer c (MarshalModifyBearerResponse mb peer c ies)) \<and>
     (dsqHeader ds = h \<longrightarrow> answers 36 (hSequenceNumber h) peer c (MarshalDeleteSessionResponse ds peer c)) \<and>
     (rabHeader rb = h \<longrightarrow> answers 170 (hSequenceNumber h) peer c (MarshalReleaseAccessBearersResponse rb peer c)) \<and>
     (ddnHeader dd = h \<longrightarrow> answers 176 (hSequenceNumber h) peer c (MarshalDownlinkDataNotificationAck dd peer c ies))"
  using assms
  by (auto simp: MarshalCreateSessionResponse_def MarshalModifyBearerResponse_def MarshalDeleteSessionResponse_def
      MarshalReleaseAccessBearersResponse_def MarshalDownlinkDataNotificationAck_def ResponseTypeFor_def
      intro!: answers_built)

theorem responses_answer_requests_witness:
  "answers 36 5 9 16 (MarshalDeleteSessionResponse
      \<lparr>dsqHeader = mk_header True 36 1 5, dsqCause = None, dsqEBI = None, dsqIndication = None, dsqRecovery = None\<rparr> 9 16)"
  using responses_answer_requests [of "mk_header True 36 1 5" "[]"
      "(create_session_fields zeroHeader [])\<lparr>csqFTEID := Some (mkIE 87 0 [10, 0, 0, 0, 7])\<rparr>"
      "mkIE 87 0 [10, 0, 0, 0, 7]" "\<lparr>fIntfType = 10, fTEID = 7, fIPv4 = NoAddr\<rparr>"]
  by (simp add: FTEIDValue_def byte_simps get32_def rd32_def)


section \<open>Acceptance\<close>

lemma ChildIEs_no_panic: "ChildIEs i \<noteq> Panic"
  by (simp add: ChildIEs_def parse_no_panic)


abbreviation sample_context :: ie where
  "sample_context \<equiv> NewBearerContext 0 [NewEBI 5, mkIE 80 0 [0, 9]]"


section \<open>Bearer procedures\<close>

lemma parse_typed_built:
  assumes "Marshal (mk_header True ty te sq) ies = Ok b" "sq < 0x1000000" "\<forall>i \<in> set ies. ieInstance i < 16"
  shows "parse_typed ty b = Ok ((mk_header True ty te sq)\<lparr>hLength := of_nat (length b - 4)\<rparr>, ies)"
  using parse_built [OF assms(1,2) _ assms(3)] by (simp add: parse_typed_def)

lemma Parse_no_panic: "Parse b \<noteq> Panic"
  using ParseHeader_no_panic [of b] parse_no_panic
  by (auto simp: Parse_def obind_Panic_iff wrap_err_def split: outcome.splits)

lemma parse_typed_no_panic: "parse_typed ty b \<noteq> Panic"
  using Parse_no_panic [of b] by (auto simp: parse_typed_def obind_Panic_iff split: if_splits)

text \<open>
  C34: bearer requests are relayed without loss. A Create, Update or Delete Bearer Request that
  was built from elements with 4-bit instances is parsed back to its linked bearer ID, its
  Bearer Contexts or bearer IDs and its aggregate bit rate, with its TEID and sequence number;
  it is refused only when a mandatory element is missing.
\<close>

theorem bearer_requests_roundtrip:
  assumes "sq < 0x1000000" "\<forall>i \<in> set ies. ieInstance i < 16"
  shows
    "(MarshalCreateBearerRequest te sq ies = Ok b \<and> (\<exists>i \<in> set ies. of_inst 73 0 i) \<and> (\<exists>i \<in> set ies. of_inst 93 0 i) \<longrightarrow>
       ParseCreateBearerRequest b = Ok \<lparr>cbqHeader = (mk_header True 95 te sq)\<lparr>hLength := of_nat (length b - 4)\<rparr>,
         cbqLBI = last_ie (of_inst 73 0) ies, cbqBearerContexts = filter (of_inst 93 0) ies\<rparr>) \<and>
     (MarshalUpdateBearerRequest te sq ies = Ok b \<and> (\<exists>i \<in> set ies. of_inst 72 0 i) \<and> (\<exists>i \<in> set ies. of_inst 93 0 i) \<longrightarrow>
       ParseUpdateBearerRequest b = Ok \<lparr>ubqHeader = (mk_header True 97 te sq)\<lparr>hLength := of_nat (length b - 4)\<rparr>,
         ubqBearerContexts = filter (of_inst 93 0) ies, ubqAMBR = last_ie (of_inst 72 0) ies\<rparr>) \<and>
     (MarshalDeleteBearerRequest te sq ies = Ok b \<and> (\<exists>i \<in> set ies. of_inst 73 0 i \<or> of_inst 73 1 i) \<longrightarrow>
       ParseDeleteBearerRequest b = Ok \<lparr>dbqHeader = (mk_header True 99 te sq)\<lparr>hLength := of_nat (length b - 4)\<rparr>,
         dbqLBI = last_ie (of_inst 73 0) ies, dbqEBIs = filter (of_inst 73 1) ies\<rparr>)"
  using parse_typed_built [OF _ assms]
  by (auto simp: MarshalCreateBearerRequest_def ParseCreateBearerRequest_def MarshalUpdateBearerRequest_def
      ParseUpdateBearerRequest_def MarshalDeleteBearerRequest_def ParseDeleteBearerRequest_def
      last_ie_None_iff filter_empty_conv Let_def)

theorem bearer_requests_roundtrip_witness:
  "ParseDeleteBearerRequest [0x48, 99, 0, 13, 0, 0, 0, 9, 0, 0, 4, 0, 73, 0, 1, 1, 6] =
     Ok \<lparr>dbqHeader = (mk_header True 99 9 4)\<lparr>hLength := 13\<rparr>, dbqLBI = None, dbqEBIs = [mkIE 73 1 [6]]\<rparr>"
proof -
  have m: "MarshalDeleteBearerRequest 9 4 [mkIE 73 1 [6]] =
      Ok [0x48, 99, 0, 13, 0, 0, 0, 9, 0, 0, 4, 0, 73, 0, 1, 1, 6]"
    by (simp add: MarshalDeleteBearerRequest_def mk_header_def marshal_eval)
  then show ?thesis
    using bearer_requests_roundtrip [of 4 "[mkIE 73 1 [6]]" 9 "[0x48, 99, 0, 13, 0, 0, 0, 9, 0, 0, 4, 0, 73, 0, 1, 1, 6]"]
    by (simp add: of_inst_def last_ie_def)
qed

lemma check_contexts_no_panic: "check_contexts n bcs \<noteq> Panic"
proof (induction bcs arbitrary: n)
  case (Cons bc bcs)
  then show ?case using ChildIEs_no_panic [of bc] by (cases "ChildIEs bc") auto
qed simp

text \<open>
  no received bytes make a parser of a procedure message panic, and a Delete Bearer
  Command is accepted only when it names at least one bearer and every Bearer Context has a
  bearer ID.
\<close>

theorem procedure_parsers_no_panic:
  "ParseCreateBearerRequest b \<noteq> Panic \<and> ParseCreateBearerResponse b \<noteq> Panic \<and>
   ParseUpdateBearerRequest b \<noteq> Panic \<and> ParseUpdateBearerResponse b \<noteq> Panic \<and>
   ParseDeleteBearerRequest b \<noteq> Panic \<and> ParseDeleteBearerResponse b \<noteq> Panic \<and>
   ParseDeleteBearerCommand b \<noteq> Panic \<and> ParseDeleteBearerFailureIndication b \<noteq> Panic \<and>
   ParseDownlinkDataNotification b \<noteq> Panic \<and> ParseDownlinkDataNotificationAck b \<noteq> Panic \<and>
   ParseDownlinkDataNotificationFailureIndication b \<noteq> Panic \<and> ParseStopPagingIndication b \<noteq> Panic \<and>
   (\<forall>cmd. ParseDeleteBearerCommand b = Ok cmd \<longrightarrow> dbcBearerContexts cmd \<noteq> [] \<and>
      (\<forall>bc \<in> set (dbcBearerContexts cmd). \<exists>children i. ChildIEs bc = Ok children \<and> FindFirst children 73 = Some i))"
proof -
  have c: "check_contexts n bcs = Ok u \<Longrightarrow> \<forall>bc \<in> set bcs. \<exists>children i. ChildIEs bc = Ok children \<and> FindFirst children 73 = Some i"
    for n u bcs
  proof (induction bcs arbitrary: n)
    case (Cons bc bcs)
    then show ?case by (cases "ChildIEs bc") (auto split: if_splits)
  qed simp
  have np: "obind (parse_typed ty b) f \<noteq> Panic" if "\<And>h ies. f (h, ies) \<noteq> Panic" for ty and f :: "_ \<Rightarrow> 'x msg_result"
    using that parse_typed_no_panic [of ty b] by (auto simp: obind_Panic_iff)
  show ?thesis
    unfolding ParseCreateBearerRequest_def ParseCreateBearerResponse_def ParseUpdateBearerRequest_def
      ParseUpdateBearerResponse_def ParseDeleteBearerRequest_def ParseDeleteBearerResponse_def
      ParseDeleteBearerCommand_def ParseDeleteBearerFailureIndication_def ParseDownlinkDataNotification_def
      ParseDownlinkDataNotificationAck_def ParseDownlinkDataNotificationFailureIndication_def
      ParseStopPagingIndication_def
    by (intro conjI np allI impI)
       (auto simp: Let_def obind_Panic_iff obind_Ok_iff check_contexts_no_panic split: if_splits dest!: c)
qed


abbreviation sample_command :: bytes where
  "sample_command \<equiv> [0x48, 66, 0, 17, 0, 0, 0, 9, 0, 0, 4, 0, 93, 0, 5, 0, 73, 0, 1, 0, 6]"

theorem procedure_parsers_no_panic_witness:
  "\<exists>cmd. ParseDeleteBearerCommand sample_command = Ok cmd \<and> dbcBearerContexts cmd \<noteq> []"
proof -
  have m: "Marshal (mk_header True 66 9 4) [mkIE 93 0 [73, 0, 1, 0, 6]] = Ok sample_command"
    by (simp add: mk_header_def marshal_eval)
  have "ParseIEs [73, 0, 1, 0, 6] = Ok [mkIE 73 0 [6]]"
    using ie_stream.parse_concat [of "[mkIE 73 0 [6]]"] by (simp add: wf_ie_def IE_Marshal_def be16_def)
  moreover have "parse_typed 66 sample_command = Ok ((mk_header True 66 9 4)\<lparr>hLength := of_nat (length sample_command - 4)\<rparr>,
      [mkIE 93 0 [73, 0, 1, 0, 6]])"
    by (rule parse_typed_built [OF m]) simp_all
  ultimately have "\<exists>cmd. ParseDeleteBearerCommand sample_command = Ok cmd"
    by (simp add: ParseDeleteBearerCommand_def Let_def of_inst_def ChildIEs_def FindFirst_def)
  then show ?thesis using procedure_parsers_no_panic [of sample_command] by blast
qed

end
