(* ===== verification/SGWU_Store.thy ===== *)
theory SGWU_Store
  imports SGW_Prelude
begin

text \<open>
  The SGW-U session store (\<^verbatim>\<open>internal/sgwu/session/store.go\<close>): PFCP sessions with their
  packet detection and forwarding rules, indexed by CP-SEID and by UP-SEID. Both maps hold
  pointers to the same session objects, so a session is a reference into a heap; the PFCP
  server changes rules through the reference. The lemmas show that the two indexes agree along
  every history of the store, what each deletion removes, and what the TEID lookup returns
  whatever the order in which a map is visited.
\<close>

section \<open>Rules and sessions\<close>

datatype drop_reason =
    DropReasonNone | DropReasonReleaseAccessBearers | DropReasonBearerDeleted
  | DropReasonSessionDeleted | DropReasonPolicy | DropReasonInactivity | DropReasonOther string

record pdr =
  pdrID :: u16
  pdrPrecedence :: u32
  pdrSourceInterface :: u8
  pdrLocalTEID :: u32
  pdrLocalIP :: ip_addr
  pdrFARID :: u32
  pdrEBI :: u8
  pdrQCI :: u8
  pdrQoSValid :: bool

record far =
  farID :: u32
  farApplyAction :: u8
  farDestInterface :: u8
  farOuterTEID :: u32
  farOuterIP :: ip_addr
  farDropReason :: drop_reason

record idle_downlink_event =
  idCPSEID :: u64
  idUPSEID :: u64
  idPDRID :: u16
  idFARID :: u32
  idLocalTEID :: u32
  idEBI :: u8
  idQCI :: u8
  idSourceInterface :: u8
  idQoSValid :: bool
  idDropReason :: drop_reason

record usession =
  uCPSEID :: u64
  uUPSEID :: u64
  uCPNodeKey :: string
  uPDRs :: "pdr list"
  uFARs :: "far list"

type_synonym sref = nat
type_synonym uheap = "sref \<Rightarrow> usession"

record ustore =
  byCPSEID :: "(u64, sref) gomap"
  byUPSEID :: "(u64, sref) gomap"
  seidCounter :: u64

datatype store_error = SessionExists u64 | SessionNotFound u64

section \<open>Operations\<close>

definition newStore :: ustore where
  "newStore = \<lparr>byCPSEID = [], byUPSEID = [], seidCounter = 0\<rparr>"

definition allocSEID :: "ustore \<Rightarrow> u64 \<times> ustore" where
  "allocSEID s = (let c = seidCounter s + 1 in (c, s\<lparr>seidCounter := c\<rparr>))"

fun pdrs_use :: "u32 \<Rightarrow> pdr list \<Rightarrow> bool" where
  "pdrs_use teid [] = False"
| "pdrs_use teid (p # ps) = (if pdrLocalTEID p = teid then True else pdrs_use teid ps)"

fun sessions_use :: "uheap \<Rightarrow> u32 \<Rightarrow> (u64, sref) gomap \<Rightarrow> bool" where
  "sessions_use h teid [] = False"
| "sessions_use h teid ((k, r) # m) = (if pdrs_use teid (uPDRs (h r)) then True else sessions_use h teid m)"

definition localTEIDInUse :: "uheap \<Rightarrow> ustore \<Rightarrow> u32 \<Rightarrow> bool" where
  "localTEIDInUse h s teid = sessions_use h teid (byCPSEID s)"

text \<open>
  \<^verbatim>\<open>AllocTEID\<close> loops until a reading is usable; the list holds the readings of
  \<^verbatim>\<open>crypto/rand\<close> (\<open>None\<close>: the read failed). No result after all of them means that it is
  still looping.
\<close>

fun allocTEID :: "uheap \<Rightarrow> ustore \<Rightarrow> u32 option list \<Rightarrow> (store_error, u32) outcome option" where
  "allocTEID h s [] = None"
| "allocTEID h s (None # rs) = Some Panic"
| "allocTEID h s (Some v # rs) =
     (if v \<noteq> 0 \<and> \<not> localTEIDInUse h s v then Some (Ok v) else allocTEID h s rs)"

definition store_create :: "uheap \<Rightarrow> sref \<Rightarrow> ustore \<Rightarrow> (store_error, unit) outcome \<times> ustore" where
  "store_create h r s =
     (case mget (byCPSEID s) (uCPSEID (h r)) of
        Some _ \<Rightarrow> (Fail (SessionExists (uCPSEID (h r))), s)
      | None \<Rightarrow> (Ok (), s\<lparr>byCPSEID := mput (uCPSEID (h r)) r (byCPSEID s),
                         byUPSEID := mput (uUPSEID (h r)) r (byUPSEID s)\<rparr>))"

definition findByCPSEID :: "ustore \<Rightarrow> u64 \<Rightarrow> sref option" where
  "findByCPSEID s cpSEID = mget (byCPSEID s) cpSEID"

definition findByUPSEID :: "ustore \<Rightarrow> u64 \<Rightarrow> sref option" where
  "findByUPSEID s upSEID = mget (byUPSEID s) upSEID"

definition store_all :: "ustore \<Rightarrow> sref list" where
  "store_all s = map snd (byCPSEID s)"

definition store_update :: "uheap \<Rightarrow> sref \<Rightarrow> ustore \<Rightarrow> (store_error, unit) outcome \<times> ustore" where
  "store_update h r s =
     (case mget (byCPSEID s) (uCPSEID (h r)) of
        None \<Rightarrow> (Fail (SessionNotFound (uCPSEID (h r))), s)
      | Some old \<Rightarrow>
          let s1 = (if uUPSEID (h old) \<noteq> uUPSEID (h r)
                    then s\<lparr>byUPSEID := mdel (uUPSEID (h old)) (byUPSEID s)\<rparr> else s) in
          (Ok (), s1\<lparr>byCPSEID := mput (uCPSEID (h r)) r (byCPSEID s1),
                     byUPSEID := mput (uUPSEID (h r)) r (byUPSEID s1)\<rparr>))"

definition deleteByCPSEID :: "uheap \<Rightarrow> u64 \<Rightarrow> ustore \<Rightarrow> ustore" where
  "deleteByCPSEID h cpSEID s =
     (case mget (byCPSEID s) cpSEID of
        Some r \<Rightarrow> s\<lparr>byUPSEID := mdel (uUPSEID (h r)) (byUPSEID s), byCPSEID := mdel cpSEID (byCPSEID s)\<rparr>
      | None \<Rightarrow> s)"

definition deleteByUPSEID :: "uheap \<Rightarrow> u64 \<Rightarrow> ustore \<Rightarrow> ustore" where
  "deleteByUPSEID h upSEID s =
     (case mget (byUPSEID s) upSEID of
        Some r \<Rightarrow> s\<lparr>byCPSEID := mdel (uCPSEID (h r)) (byCPSEID s), byUPSEID := mdel upSEID (byUPSEID s)\<rparr>
      | None \<Rightarrow> s)"

fun delete_keys :: "uheap \<Rightarrow> u64 list \<Rightarrow> ustore \<times> sref list \<Rightarrow> ustore \<times> sref list" where
  "delete_keys h [] st = st"
| "delete_keys h (k # ks) (s, deleted) =
     delete_keys h ks
       (case mget (byCPSEID s) k of
          Some r \<Rightarrow> (s\<lparr>byUPSEID := mdel (uUPSEID (h r)) (byUPSEID s), byCPSEID := mdel k (byCPSEID s)\<rparr>,
                    deleted @ [r])
        | None \<Rightarrow> (s, deleted))"

definition deleteByCPNodeKey :: "uheap \<Rightarrow> string \<Rightarrow> ustore \<Rightarrow> ustore \<times> sref list" where
  "deleteByCPNodeKey h nodeKey s =
     (let toDelete = map fst (filter (\<lambda>(k, r). uCPNodeKey (h r) = nodeKey) (byCPSEID s)) in
      delete_keys h toDelete (s, []))"

text \<open>The nested loops of \<^verbatim>\<open>FindByLocalTEID\<close>: the first PDR that matches.\<close>

fun find_pdr :: "u32 \<Rightarrow> pdr list \<Rightarrow> pdr option" where
  "find_pdr teid [] = None"
| "find_pdr teid (p # ps) = (if pdrLocalTEID p = teid then Some p else find_pdr teid ps)"

fun find_session :: "uheap \<Rightarrow> u32 \<Rightarrow> (u64, sref) gomap \<Rightarrow> (sref \<times> pdr) option" where
  "find_session h teid [] = None"
| "find_session h teid ((k, r) # m) =
     (case find_pdr teid (uPDRs (h r)) of Some p \<Rightarrow> Some (r, p) | None \<Rightarrow> find_session h teid m)"

definition findByLocalTEID :: "uheap \<Rightarrow> ustore \<Rightarrow> u32 \<Rightarrow> (sref \<times> pdr) option" where
  "findByLocalTEID h s teid = (if teid = 0 then None else find_session h teid (byCPSEID s))"

definition store_count :: "ustore \<Rightarrow> nat" where
  "store_count s = length (byCPSEID s)"

definition countByCPNodeKey :: "uheap \<Rightarrow> string \<Rightarrow> ustore \<Rightarrow> nat" where
  "countByCPNodeKey h nodeKey s = length (filter (\<lambda>(k, r). uCPNodeKey (h r) = nodeKey) (byCPSEID s))"

section \<open>The two indexes agree\<close>

definition store_ok :: "uheap \<Rightarrow> ustore \<Rightarrow> bool" where
  "store_ok h s \<longleftrightarrow> mok (byCPSEID s) \<and> mok (byUPSEID s) \<and>
     (\<forall>k r. mget (byCPSEID s) k = Some r \<longrightarrow> uCPSEID (h r) = k \<and> mget (byUPSEID s) (uUPSEID (h r)) = Some r) \<and>
     (\<forall>k r. mget (byUPSEID s) k = Some r \<longrightarrow> uUPSEID (h r) = k \<and> mget (byCPSEID s) (uCPSEID (h r)) = Some r)"

lemma store_ok_new: "store_ok h newStore"
  by (simp add: store_ok_def newStore_def)

lemma store_okI:
  assumes "mok (byCPSEID s)" "mok (byUPSEID s)"
    and "\<And>k r. mget (byCPSEID s) k = Some r \<Longrightarrow> uCPSEID (h r) = k \<and> mget (byUPSEID s) (uUPSEID (h r)) = Some r"
    and "\<And>k r. mget (byUPSEID s) k = Some r \<Longrightarrow> uUPSEID (h r) = k \<and> mget (byCPSEID s) (uCPSEID (h r)) = Some r"
  shows "store_ok h s"
  using assms unfolding store_ok_def by blast

lemma store_ok_cp: "store_ok h s \<Longrightarrow> mget (byCPSEID s) k = Some r \<Longrightarrow> uCPSEID (h r) = k"
  and store_ok_cp_up: "store_ok h s \<Longrightarrow> mget (byCPSEID s) k = Some r \<Longrightarrow> mget (byUPSEID s) (uUPSEID (h r)) = Some r"
  and store_ok_up: "store_ok h s \<Longrightarrow> mget (byUPSEID s) k = Some r \<Longrightarrow> uUPSEID (h r) = k"
  and store_ok_up_cp: "store_ok h s \<Longrightarrow> mget (byUPSEID s) k = Some r \<Longrightarrow> mget (byCPSEID s) (uCPSEID (h r)) = Some r"
  and store_ok_mok: "store_ok h s \<Longrightarrow> mok (byCPSEID s) \<and> mok (byUPSEID s)"
  unfolding store_ok_def by blast+

lemmas store_ok_dests = store_ok_cp store_ok_cp_up store_ok_up store_ok_up_cp

definition unindex :: "uheap \<Rightarrow> sref \<Rightarrow> ustore \<Rightarrow> ustore" where
  "unindex h r s = s\<lparr>byUPSEID := mdel (uUPSEID (h r)) (byUPSEID s), byCPSEID := mdel (uCPSEID (h r)) (byCPSEID s)\<rparr>"

lemma store_ok_unindex:
  assumes ok: "store_ok h s" and r: "mget (byCPSEID s) (uCPSEID (h r)) = Some r"
  shows "store_ok h (unindex h r s)"
proof (rule store_okI)
  show "mok (byCPSEID (unindex h r s))" "mok (byUPSEID (unindex h r s))"
    using store_ok_mok [OF ok] by (simp_all add: unindex_def)
  have u: "mget (byUPSEID s) (uUPSEID (h r)) = Some r" using store_ok_cp_up [OF ok r] .
  fix k r'
  show "uCPSEID (h r') = k \<and> mget (byUPSEID (unindex h r s)) (uUPSEID (h r')) = Some r'"
    if "mget (byCPSEID (unindex h r s)) k = Some r'"
  proof -
    have k: "k \<noteq> uCPSEID (h r)" "mget (byCPSEID s) k = Some r'"
      using that by (auto simp: unindex_def map_simps split: if_splits)
    then have "uCPSEID (h r') = k" "mget (byUPSEID s) (uUPSEID (h r')) = Some r'"
      using store_ok_dests [OF ok] by blast+
    moreover from this have "uUPSEID (h r') \<noteq> uUPSEID (h r)" using u k(1) by (metis option.inject)
    ultimately show ?thesis by (simp add: unindex_def map_simps)
  qed
  show "uUPSEID (h r') = k \<and> mget (byCPSEID (unindex h r s)) (uCPSEID (h r')) = Some r'"
    if "mget (byUPSEID (unindex h r s)) k = Some r'"
  proof -
    have k: "k \<noteq> uUPSEID (h r)" "mget (byUPSEID s) k = Some r'"
      using that by (auto simp: unindex_def map_simps split: if_splits)
    then have "uUPSEID (h r') = k" "mget (byCPSEID s) (uCPSEID (h r')) = Some r'"
      using store_ok_dests [OF ok] by blast+
    moreover from this have "uCPSEID (h r') \<noteq> uCPSEID (h r)" using r k(1) by (metis option.inject)
    ultimately show ?thesis by (simp add: unindex_def map_simps)
  qed
qed

lemma delete_unindex:
  assumes ok: "store_ok h s"
  shows "deleteByCPSEID h k s = (case mget (byCPSEID s) k of Some r \<Rightarrow> unindex h r s | None \<Rightarrow> s)"
    and "deleteByUPSEID h k s = (case mget (byUPSEID s) k of Some r \<Rightarrow> unindex h r s | None \<Rightarrow> s)"
proof -
  show "deleteByCPSEID h k s = (case mget (byCPSEID s) k of Some r \<Rightarrow> unindex h r s | None \<Rightarrow> s)"
    by (cases "mget (byCPSEID s) k") (simp_all add: deleteByCPSEID_def unindex_def store_ok_cp [OF ok])
  show "deleteByUPSEID h k s = (case mget (byUPSEID s) k of Some r \<Rightarrow> unindex h r s | None \<Rightarrow> s)"
    by (cases "mget (byUPSEID s) k") (simp_all add: deleteByUPSEID_def unindex_def store_ok_up [OF ok])
qed

lemma store_ok_delete:
  assumes ok: "store_ok h s"
  shows "store_ok h (deleteByCPSEID h k s)" and "store_ok h (deleteByUPSEID h k s)"
  unfolding delete_unindex [OF ok]
  using ok store_ok_unindex [OF ok] store_ok_cp [OF ok] store_ok_up_cp [OF ok]
  by (auto split: option.splits)

lemma store_ok_create:
  assumes ok: "store_ok h s" and fresh: "mget (byUPSEID s) (uUPSEID (h r)) = None"
  shows "store_ok h (snd (store_create h r s))"
proof (cases "mget (byCPSEID s) (uCPSEID (h r))")
  case None
  define s' where "s' = snd (store_create h r s)"
  have m: "mget (byCPSEID s') k = (if k = uCPSEID (h r) then Some r else mget (byCPSEID s) k)"
    "mget (byUPSEID s') k = (if k = uUPSEID (h r) then Some r else mget (byUPSEID s) k)" for k
    using None by (simp_all add: s'_def store_create_def map_simps)
  have "mok (byCPSEID s')" "mok (byUPSEID s')"
    using None store_ok_mok [OF ok] by (simp_all add: s'_def store_create_def)
  then have "store_ok h s'"
  proof (rule store_okI)
    show "uCPSEID (h r') = k \<and> mget (byUPSEID s') (uUPSEID (h r')) = Some r'"
      if "mget (byCPSEID s') k = Some r'" for k r'
      using that fresh store_ok_dests(1,2) [OF ok, of k r'] by (auto simp: m split: if_splits)
    show "uUPSEID (h r') = k \<and> mget (byCPSEID s') (uCPSEID (h r')) = Some r'"
      if "mget (byUPSEID s') k = Some r'" for k r'
      using that None store_ok_dests(3,4) [OF ok, of k r'] by (auto simp: m split: if_splits)
  qed
  then show ?thesis by (simp add: s'_def)
qed (use ok in \<open>simp add: store_create_def\<close>)


section \<open>Histories\<close>

text \<open>
  The operations of the PFCP server on the store. An establishment allocates a new session
  object whose UP-SEID is the next \<^verbatim>\<open>AllocSEID\<close>; a modification replaces the rules of an
  object in place. The reference of the new object is the number of establishments so far.
\<close>

datatype store_op =
    OpEstablish u64 string "pdr list" "far list"
  | OpModify sref "pdr list" "far list"
  | OpDeleteCP u64
  | OpDeleteUP u64
  | OpDeleteNode string

record ustate =
  stHeap :: uheap
  stStore :: ustore
  stNext :: nat

definition establish :: "u64 \<Rightarrow> string \<Rightarrow> pdr list \<Rightarrow> far list \<Rightarrow> ustate \<Rightarrow> ustate" where
  "establish cp key ps fs st =
     (let (up, s1) = allocSEID (stStore st);
          r = stNext st;
          h = (stHeap st)(r := \<lparr>uCPSEID = cp, uUPSEID = up, uCPNodeKey = key, uPDRs = ps, uFARs = fs\<rparr>) in
      \<lparr>stHeap = h, stStore = snd (store_create h r s1), stNext = r + 1\<rparr>)"

fun store_step :: "store_op \<Rightarrow> ustate \<Rightarrow> ustate" where
  "store_step (OpEstablish cp key ps fs) st = establish cp key ps fs st"
| "store_step (OpModify r ps fs) st =
     st\<lparr>stHeap := (stHeap st)(r := (stHeap st r)\<lparr>uPDRs := ps, uFARs := fs\<rparr>)\<rparr>"
| "store_step (OpDeleteCP k) st = st\<lparr>stStore := deleteByCPSEID (stHeap st) k (stStore st)\<rparr>"
| "store_step (OpDeleteUP k) st = st\<lparr>stStore := deleteByUPSEID (stHeap st) k (stStore st)\<rparr>"
| "store_step (OpDeleteNode key) st = st\<lparr>stStore := fst (deleteByCPNodeKey (stHeap st) key (stStore st))\<rparr>"

definition init_state :: "uheap \<Rightarrow> ustate" where
  "init_state h = \<lparr>stHeap = h, stStore = newStore, stNext = 0\<rparr>"

text \<open>
  The invariant: the indexes agree, every indexed object was created earlier, and no indexed
  UP-SEID is beyond the counter, which counts the establishments.
\<close>

definition state_ok :: "ustate \<Rightarrow> bool" where
  "state_ok st \<longleftrightarrow> stNext st < 2 ^ 64 \<longrightarrow>
     store_ok (stHeap st) (stStore st) \<and> unat (seidCounter (stStore st)) = stNext st \<and>
     (\<forall>k r. mget (byUPSEID (stStore st)) k = Some r \<longrightarrow> r < stNext st \<and> 0 < unat k \<and> unat k \<le> stNext st)"

lemma unindex_facts:
  "mget (byUPSEID (unindex h r s)) k = Some r' \<Longrightarrow> mget (byUPSEID s) k = Some r'"
  "seidCounter (unindex h r s) = seidCounter s"
  by (auto simp: unindex_def map_simps split: if_splits)

lemma delete_keys_ok:
  assumes "store_ok h s"
  shows "store_ok h (fst (delete_keys h ks (s, ds))) \<and>
    seidCounter (fst (delete_keys h ks (s, ds))) = seidCounter s \<and>
    (\<forall>k r. mget (byUPSEID (fst (delete_keys h ks (s, ds)))) k = Some r \<longrightarrow> mget (byUPSEID s) k = Some r)"
  using assms
proof (induction ks arbitrary: s ds)
  case (Cons k ks)
  show ?case
  proof (cases "mget (byCPSEID s) k")
    case None
    then have u: "delete_keys h (k # ks) (s, ds) = delete_keys h ks (s, ds)" by simp
    show ?thesis unfolding u by (rule Cons.IH [OF Cons.prems])
  next
    case (Some r)
    then have u: "delete_keys h (k # ks) (s, ds) = delete_keys h ks (unindex h r s, ds @ [r])"
      by (simp add: unindex_def store_ok_cp [OF Cons.prems])
    have "store_ok h (unindex h r s)"
      using store_ok_unindex [OF Cons.prems] Some store_ok_cp [OF Cons.prems Some] by simp
    from Cons.IH [OF this, of "ds @ [r]"] show ?thesis unfolding u using unindex_facts by metis
  qed
qed simp

lemma delete_facts:
  assumes ok: "store_ok h s"
  shows "store_ok h (deleteByCPSEID h k s) \<and> seidCounter (deleteByCPSEID h k s) = seidCounter s \<and>
      (\<forall>l r. mget (byUPSEID (deleteByCPSEID h k s)) l = Some r \<longrightarrow> mget (byUPSEID s) l = Some r)"
    and "store_ok h (deleteByUPSEID h k s) \<and> seidCounter (deleteByUPSEID h k s) = seidCounter s \<and>
      (\<forall>l r. mget (byUPSEID (deleteByUPSEID h k s)) l = Some r \<longrightarrow> mget (byUPSEID s) l = Some r)"
proof -
  have "deleteByCPSEID h k s = s \<or> (\<exists>r. deleteByCPSEID h k s = unindex h r s)"
    "deleteByUPSEID h k s = s \<or> (\<exists>r. deleteByUPSEID h k s = unindex h r s)"
    unfolding delete_unindex [OF ok] by (auto split: option.splits)
  then show "store_ok h (deleteByCPSEID h k s) \<and> seidCounter (deleteByCPSEID h k s) = seidCounter s \<and>
      (\<forall>l r. mget (byUPSEID (deleteByCPSEID h k s)) l = Some r \<longrightarrow> mget (byUPSEID s) l = Some r)"
    "store_ok h (deleteByUPSEID h k s) \<and> seidCounter (deleteByUPSEID h k s) = seidCounter s \<and>
      (\<forall>l r. mget (byUPSEID (deleteByUPSEID h k s)) l = Some r \<longrightarrow> mget (byUPSEID s) l = Some r)"
    using store_ok_delete [OF ok] unindex_facts by metis+
qed

lemma state_ok_delete:
  assumes "state_ok st"
    and "\<And>ok. store_ok (stHeap st) (stStore st) \<Longrightarrow> store_ok (stHeap st) s' \<and>
      seidCounter s' = seidCounter (stStore st) \<and>
      (\<forall>k r. mget (byUPSEID s') k = Some r \<longrightarrow> mget (byUPSEID (stStore st)) k = Some r)"
  shows "state_ok (st\<lparr>stStore := s'\<rparr>)"
  using assms unfolding state_ok_def by auto

lemma store_ok_heap_cong:
  assumes "store_ok h s" "\<And>k r. mget (byUPSEID s) k = Some r \<Longrightarrow> uCPSEID (h' r) = uCPSEID (h r) \<and> uUPSEID (h' r) = uUPSEID (h r)"
  shows "store_ok h' s"
proof (rule store_okI)
  show "mok (byCPSEID s)" "mok (byUPSEID s)" using store_ok_mok [OF assms(1)] by simp_all
  show "uCPSEID (h' r) = k \<and> mget (byUPSEID s) (uUPSEID (h' r)) = Some r" if "mget (byCPSEID s) k = Some r" for k r
    using store_ok_dests [OF assms(1)] that assms(2) by metis
  show "uUPSEID (h' r) = k \<and> mget (byCPSEID s) (uCPSEID (h' r)) = Some r" if "mget (byUPSEID s) k = Some r" for k r
    using store_ok_dests [OF assms(1)] that assms(2) by metis
qed

lemma state_ok_establish:
  assumes ok: "state_ok st"
  shows "state_ok (establish cp key ps fs st)"
proof (cases "stNext st + 1 < 2 ^ 64")
  case True
  let ?s = "(stStore st)\<lparr>seidCounter := seidCounter (stStore st) + 1\<rparr>"
  let ?r = "stNext st"
  define h' where "h' = (stHeap st)(?r := \<lparr>uCPSEID = cp, uUPSEID = seidCounter ?s, uCPNodeKey = key, uPDRs = ps, uFARs = fs\<rparr>)"
  have st: "establish cp key ps fs st = \<lparr>stHeap = h', stStore = snd (store_create h' ?r ?s), stNext = ?r + 1\<rparr>"
    by (simp add: establish_def allocSEID_def h'_def Let_def)
  have i: "store_ok (stHeap st) (stStore st)" "unat (seidCounter (stStore st)) = ?r"
    "\<And>k r. mget (byUPSEID (stStore st)) k = Some r \<Longrightarrow> r < ?r \<and> 0 < unat k \<and> unat k \<le> ?r"
    using ok True by (auto simp: state_ok_def)
  have c: "unat (seidCounter ?s) = ?r + 1"
    using i(2) True by (simp add: unat_word_ariths(1))
  have "store_ok h' (stStore st)"
    by (rule store_ok_heap_cong [OF i(1)]) (use i(3) in \<open>auto simp: h'_def\<close>)
  then have "store_ok h' ?s" by (simp add: store_ok_def)
  moreover have fresh: "mget (byUPSEID ?s) (uUPSEID (h' ?r)) = None"
  proof (rule ccontr)
    assume "mget (byUPSEID ?s) (uUPSEID (h' ?r)) \<noteq> None"
    then have "unat (seidCounter ?s) \<le> ?r" using i(3) by (auto simp: h'_def)
    then show False using c by simp
  qed
  ultimately have "store_ok h' (snd (store_create h' ?r ?s))" by (rule store_ok_create)
  moreover have "seidCounter (snd (store_create h' ?r ?s)) = seidCounter ?s"
    by (simp add: store_create_def split: option.splits)
  moreover have "r < ?r + 1 \<and> 0 < unat k \<and> unat k \<le> ?r + 1"
    if "mget (byUPSEID (snd (store_create h' ?r ?s))) k = Some r" for k r
    using that i(3) [of k r] c
    by (auto simp: store_create_def map_simps h'_def split: option.splits if_splits)
  ultimately show ?thesis unfolding st state_ok_def using c by auto
next
  case False
  then show ?thesis by (simp add: state_ok_def establish_def Let_def split: prod.splits)
qed

lemma state_ok_step: "state_ok st \<Longrightarrow> state_ok (store_step op st)"
proof (cases op)
  case (OpModify r ps fs)
  assume ok: "state_ok st"
  show ?thesis
    using ok OpModify store_ok_heap_cong [of "stHeap st" "stStore st" "(stHeap st)(r := (stHeap st r)\<lparr>uPDRs := ps, uFARs := fs\<rparr>)"]
    by (simp add: state_ok_def)
next
  case (OpDeleteCP k)
  assume "state_ok st"
  then show ?thesis unfolding OpDeleteCP store_step.simps
    by (rule state_ok_delete) (rule delete_facts)
next
  case (OpDeleteUP k)
  assume "state_ok st"
  then show ?thesis unfolding OpDeleteUP store_step.simps
    by (rule state_ok_delete) (rule delete_facts)
next
  case (OpDeleteNode key)
  assume "state_ok st"
  then show ?thesis unfolding OpDeleteNode store_step.simps
    by (rule state_ok_delete) (simp add: deleteByCPNodeKey_def Let_def delete_keys_ok)
qed (simp add: state_ok_establish)

interpretation store_sys: event_system store_step state_ok
  by unfold_locales (rule state_ok_step)


lemma init_ok: "state_ok (init_state h)"
  by (simp add: state_ok_def init_state_def store_ok_new) (simp add: newStore_def)

definition establishments :: "store_op list \<Rightarrow> nat" where
  "establishments ops = length (filter (\<lambda>op. case op of OpEstablish _ _ _ _ \<Rightarrow> True | _ \<Rightarrow> False) ops)"

lemma stNext_fold: "stNext (fold store_step ops st) = stNext st + establishments ops"
proof (induction ops arbitrary: st)
  case (Cons op ops)
  then show ?case
    by (cases op) (simp_all add: establishments_def establish_def Let_def split: prod.splits)
qed (simp add: establishments_def)

text \<open>
  C35: along every history with fewer than \<open>2 ^ 64\<close> establishments, the index by CP-SEID and the
  index by UP-SEID describe the same sessions: a session is found under one of its SEIDs exactly
  when it is found under the other, no two sessions share a SEID, and every UP-SEID in use is
  non-zero.
\<close>

theorem store_indexes_agree:
  assumes run: "st = fold store_step ops (init_state h)" and short: "establishments ops < 2 ^ 64"
  shows "(findByCPSEID (stStore st) cp = Some r \<longrightarrow>
       uCPSEID (stHeap st r) = cp \<and> findByUPSEID (stStore st) (uUPSEID (stHeap st r)) = Some r) \<and>
     (findByUPSEID (stStore st) up = Some r \<longrightarrow>
       uUPSEID (stHeap st r) = up \<and> up \<noteq> 0 \<and> findByCPSEID (stStore st) (uCPSEID (stHeap st r)) = Some r)"
proof -
  have "state_ok st" unfolding run by (rule store_sys.run_inv) (rule init_ok)
  moreover have "stNext st < 2 ^ 64"
    unfolding run stNext_fold using short by (simp add: init_state_def)
  ultimately have ok: "store_ok (stHeap st) (stStore st)"
    "\<And>k r. mget (byUPSEID (stStore st)) k = Some r \<Longrightarrow> 0 < unat k"
    by (auto simp: state_ok_def)
  show ?thesis
  proof (intro conjI impI)
    assume "findByCPSEID (stStore st) cp = Some r"
    then show "uCPSEID (stHeap st r) = cp" "findByUPSEID (stStore st) (uUPSEID (stHeap st r)) = Some r"
      unfolding findByCPSEID_def findByUPSEID_def by (rule store_ok_dests [OF ok(1)])+
  next
    assume f: "findByUPSEID (stStore st) up = Some r"
    then show "uUPSEID (stHeap st r) = up" "findByCPSEID (stStore st) (uCPSEID (stHeap st r)) = Some r"
      unfolding findByCPSEID_def findByUPSEID_def by (rule store_ok_dests [OF ok(1)])+
    from f ok(2) [of up r] show "up \<noteq> 0" unfolding findByUPSEID_def by auto
  qed
qed

abbreviation blank_heap :: uheap where
  "blank_heap \<equiv> \<lambda>_. \<lparr>uCPSEID = 0, uUPSEID = 0, uCPNodeKey = [], uPDRs = [], uFARs = []\<rparr>"

theorem store_indexes_agree_witness:
  "findByUPSEID (stStore (fold store_step [OpEstablish 9 ''a'' [] [], OpEstablish 8 ''b'' [] [], OpDeleteCP 9]
       (init_state blank_heap))) 2 = Some 1"
proof -
  let ?ops = "[OpEstablish 9 ''a'' [] [], OpEstablish 8 ''b'' [] [], OpDeleteCP 9]"
  let ?st = "fold store_step ?ops (init_state blank_heap)"
  have f: "findByCPSEID (stStore ?st) 8 = Some 1" "uUPSEID (stHeap ?st 1) = 2"
    by (simp_all add: init_state_def newStore_def establish_def allocSEID_def store_create_def
        deleteByCPSEID_def findByCPSEID_def mput_def mget_def mdel_def)
  then show ?thesis
    using store_indexes_agree [of ?st ?ops blank_heap 8 1] by (simp add: establishments_def)
qed

section \<open>Deleting the sessions of a control-plane node\<close>

lemma delete_keys_map:
  assumes "store_ok h s" "\<forall>k \<in> set ks. mget (byCPSEID s) k \<noteq> None" "distinct ks"
  shows "mget (byCPSEID (fst (delete_keys h ks (s, ds)))) k =
      (if k \<in> set ks then None else mget (byCPSEID s) k) \<and>
    snd (delete_keys h ks (s, ds)) = ds @ map (\<lambda>k. the (mget (byCPSEID s) k)) ks"
  using assms
proof (induction ks arbitrary: s ds)
  case (Cons l ks)
  then obtain r where r: "mget (byCPSEID s) l = Some r" by auto
  then have u: "delete_keys h (l # ks) (s, ds) = delete_keys h ks (unindex h r s, ds @ [r])"
    by (simp add: unindex_def store_ok_cp [OF Cons.prems(1)])
  have m: "mget (byCPSEID (unindex h r s)) k = (if k = l then None else mget (byCPSEID s) k)" for k
    using store_ok_cp [OF Cons.prems(1) r] by (simp add: unindex_def map_simps)
  have "store_ok h (unindex h r s)"
    using store_ok_unindex [OF Cons.prems(1)] r store_ok_cp [OF Cons.prems(1) r] by simp
  moreover have "\<forall>k \<in> set ks. mget (byCPSEID (unindex h r s)) k \<noteq> None"
    using Cons.prems by (auto simp: m)
  moreover have "map (\<lambda>k. the (mget (byCPSEID (unindex h r s)) k)) ks = map (\<lambda>k. the (mget (byCPSEID s) k)) ks"
    using Cons.prems(3) by (auto simp: m)
  ultimately show ?case
    unfolding u using Cons.IH [of "unindex h r s" "ds @ [r]"] Cons.prems(3) r by (auto simp: m)
qed simp

text \<open>
  when a control-plane node has restarted, deleting by its node key removes exactly the
  sessions it established, from both indexes, returns each of them, and keeps every other
  session.
\<close>

theorem delete_by_node_key:
  assumes ok: "store_ok h s" and del: "deleteByCPNodeKey h key s = (s', deleted)"
  shows "findByCPSEID s' cp = (case findByCPSEID s cp of
        Some r \<Rightarrow> if uCPNodeKey (h r) = key then None else Some r | None \<Rightarrow> None) \<and>
    set deleted = {r. \<exists>k. findByCPSEID s k = Some r \<and> uCPNodeKey (h r) = key} \<and>
    store_ok h s' \<and> countByCPNodeKey h key s' = 0"
proof -
  define ks where "ks = map fst (filter (\<lambda>(k, r). uCPNodeKey (h r) = key) (byCPSEID s))"
  have mk: "mok (byCPSEID s)" using store_ok_mok [OF ok] by simp
  have mem: "k \<in> set ks \<longleftrightarrow> (\<exists>r. mget (byCPSEID s) k = Some r \<and> uCPNodeKey (h r) = key)" for k
    unfolding ks_def using mem_mget [OF mk] by force
  have dist: "distinct ks"
    using mok_filter [OF mk, of "\<lambda>(k, r). uCPNodeKey (h r) = key"] by (simp add: ks_def mok_def)
  have d: "deleteByCPNodeKey h key s = delete_keys h ks (s, [])"
    by (simp add: deleteByCPNodeKey_def ks_def)
  have m: "mget (byCPSEID s') k = (if k \<in> set ks then None else mget (byCPSEID s) k)" for k
    using delete_keys_map [OF ok _ dist, of "[]" k] mem del d by force
  have "deleted = map (\<lambda>k. the (mget (byCPSEID s) k)) ks"
    using delete_keys_map [OF ok _ dist, of "[]" 0] mem del d by force
  then have "set deleted = {r. \<exists>k. findByCPSEID s k = Some r \<and> uCPNodeKey (h r) = key}"
    using mem by (force simp: findByCPSEID_def)
  moreover have ok': "store_ok h s'" using delete_keys_ok [OF ok, of ks "[]"] del d by simp
  moreover have "countByCPNodeKey h key s' = 0"
  proof -
    have "uCPNodeKey (h r) \<noteq> key" if "(k, r) \<in> set (byCPSEID s')" for k r
      using that m [of k] mem [of k] mem_mget [of "byCPSEID s'"] store_ok_mok [OF ok']
      by (auto split: if_splits)
    then show ?thesis by (auto simp: countByCPNodeKey_def filter_empty_conv)
  qed
  moreover have "findByCPSEID s' cp = (case findByCPSEID s cp of
      Some r \<Rightarrow> if uCPNodeKey (h r) = key then None else Some r | None \<Rightarrow> None)"
    using mem [of cp] by (auto simp: findByCPSEID_def m split: option.splits)
  ultimately show ?thesis by blast
qed

theorem delete_by_node_key_witness:
  "findByCPSEID (fst (deleteByCPNodeKey (\<lambda>r. \<lparr>uCPSEID = of_nat r, uUPSEID = of_nat r + 10,
       uCPNodeKey = (if r = 1 then ''a'' else ''b''), uPDRs = [], uFARs = []\<rparr>) ''a''
     \<lparr>byCPSEID = [(1, 1), (2, 2)], byUPSEID = [(11, 1), (12, 2)], seidCounter = 12\<rparr>)) 2 = Some 2"
proof -
  let ?h = "\<lambda>r. \<lparr>uCPSEID = of_nat r, uUPSEID = of_nat r + 10,
       uCPNodeKey = (if r = 1 then ''a'' else ''b''), uPDRs = [], uFARs = []\<rparr>"
  let ?s = "\<lparr>byCPSEID = [(1, 1), (2, 2)], byUPSEID = [(11, 1), (12, 2)], seidCounter = 12\<rparr>"
  have ok: "store_ok ?h ?s"
    by (rule store_okI) (auto simp: mok_def mget_def split: if_splits)
  obtain s' deleted where "deleteByCPNodeKey ?h ''a'' ?s = (s', deleted)" by (cases "deleteByCPNodeKey ?h ''a'' ?s")
  from this delete_by_node_key [OF ok this, of 2] show ?thesis by (simp add: findByCPSEID_def mget_def)
qed

section \<open>Local TEIDs\<close>

lemma pdrs_use_iff: "pdrs_use teid ps \<longleftrightarrow> (\<exists>p \<in> set ps. pdrLocalTEID p = teid)"
  by (induction ps) auto

lemma sessions_use_iff:
  "sessions_use h teid m \<longleftrightarrow> (\<exists>r \<in> snd ` set m. \<exists>p \<in> set (uPDRs (h r)). pdrLocalTEID p = teid)"
  by (induction h teid m rule: sessions_use.induct) (auto simp: pdrs_use_iff)

lemma find_pdr_None: "find_pdr teid ps = None \<longleftrightarrow> (\<forall>p \<in> set ps. pdrLocalTEID p \<noteq> teid)"
  by (induction ps) auto

lemma find_pdr_Some: "find_pdr teid ps = Some p \<Longrightarrow> p \<in> set ps \<and> pdrLocalTEID p = teid"
  by (induction ps) (auto split: if_splits)

lemma find_session_None:
  "find_session h teid m = None \<longleftrightarrow> (\<forall>r \<in> snd ` set m. \<forall>p \<in> set (uPDRs (h r)). pdrLocalTEID p \<noteq> teid)"
  by (induction h teid m rule: find_session.induct) (auto simp: find_pdr_None split: option.splits dest: find_pdr_Some)

lemma find_session_Some:
  "find_session h teid m = Some (r, p) \<Longrightarrow> r \<in> snd ` set m \<and> p \<in> set (uPDRs (h r)) \<and> pdrLocalTEID p = teid"
  by (induction h teid m rule: find_session.induct) (auto split: option.splits dest: find_pdr_Some)

text \<open>
  resolving the TEID of a received packet. The lookup of a non-zero TEID succeeds exactly
  when a PDR of a stored session has it, and then returns such a session and PDR; a zero TEID
  is never resolved. When no two PDRs of the store share a TEID the answer does not depend on
  the order in which the session map is visited.
\<close>

theorem find_by_local_teid:
  "(findByLocalTEID h s teid = None \<longleftrightarrow>
      teid = 0 \<or> (\<forall>r \<in> set (store_all s). \<forall>p \<in> set (uPDRs (h r)). pdrLocalTEID p \<noteq> teid)) \<and>
   (\<forall>r p. findByLocalTEID h s teid = Some (r, p) \<longrightarrow>
      r \<in> set (store_all s) \<and> p \<in> set (uPDRs (h r)) \<and> pdrLocalTEID p = teid) \<and>
   (\<forall>r p. teid \<noteq> 0 \<and> r \<in> set (store_all s) \<and> p \<in> set (uPDRs (h r)) \<and> pdrLocalTEID p = teid \<and>
      (\<forall>r' \<in> set (store_all s). \<forall>p' \<in> set (uPDRs (h r')). pdrLocalTEID p' = teid \<longrightarrow> r' = r \<and> p' = p) \<longrightarrow>
      findByLocalTEID h s teid = Some (r, p))"
proof -
  have n: "findByLocalTEID h s teid = None \<longleftrightarrow>
      teid = 0 \<or> (\<forall>r \<in> set (store_all s). \<forall>p \<in> set (uPDRs (h r)). pdrLocalTEID p \<noteq> teid)"
    by (simp add: findByLocalTEID_def find_session_None store_all_def)
  have f: "r \<in> set (store_all s) \<and> p \<in> set (uPDRs (h r)) \<and> pdrLocalTEID p = teid"
    if "findByLocalTEID h s teid = Some (r, p)" for r p
    using that find_session_Some [of h teid "byCPSEID s" r p]
    by (simp add: findByLocalTEID_def store_all_def split: if_splits)
  have "findByLocalTEID h s teid = Some (r, p)"
    if u: "teid \<noteq> 0" "r \<in> set (store_all s)" "p \<in> set (uPDRs (h r))" "pdrLocalTEID p = teid"
      "\<forall>r' \<in> set (store_all s). \<forall>p' \<in> set (uPDRs (h r')). pdrLocalTEID p' = teid \<longrightarrow> r' = r \<and> p' = p" for r p
  proof -
    have "findByLocalTEID h s teid \<noteq> None" using n u by blast
    then obtain r' p' where f': "findByLocalTEID h s teid = Some (r', p')" by auto
    from f [OF f'] have "r' = r \<and> p' = p" by (elim conjE) (rule u(5) [rule_format])
    with f' show ?thesis by simp
  qed
  with n f show ?thesis by blast
qed

theorem find_by_local_teid_witness:
  "findByLocalTEID (\<lambda>r. \<lparr>uCPSEID = 1, uUPSEID = 1, uCPNodeKey = [], uPDRs =
       [\<lparr>pdrID = 1, pdrPrecedence = 0, pdrSourceInterface = 0, pdrLocalTEID = 7, pdrLocalIP = NoAddr,
         pdrFARID = 1, pdrEBI = 5, pdrQCI = 9, pdrQoSValid = True\<rparr>], uFARs = []\<rparr>)
     \<lparr>byCPSEID = [(1, 0)], byUPSEID = [(1, 0)], seidCounter = 1\<rparr> 7 \<noteq> None"
  by (subst find_by_local_teid [THEN conjunct1]) (simp add: store_all_def)

lemma allocTEID_fresh:
  "allocTEID h s rs = Some (Ok v) \<Longrightarrow> v \<noteq> 0 \<and> \<not> localTEIDInUse h s v"
  by (induction h s rs rule: allocTEID.induct) (auto split: if_splits)

end
