(* ===== verification/GTPU_Forwarder.thy ===== *)
theory GTPU_Forwarder
  imports GTPU_Header SGWU_Store
begin

text \<open>
  The userspace GTP-U forwarder (\<^verbatim>\<open>internal/sgwu/gtpu/forwarder.go\<close>): one received datagram
  is parsed, resolved to a PDR and its FAR, and forwarded, dropped, reported as idle downlink
  traffic, or answered. A step takes the forwarder (counters and settings), the store and its
  heap, and returns the forwarder with the effects it had: datagrams written, idle downlink
  events reported and echo responses handed to the path prober. The UDP socket is an
  argument: \<open>wr\<close> says whether writing a datagram succeeds. The lemmas show that forwarding
  changes nothing of a G-PDU but its TEID, when an Error Indication is sent, which packets are
  reported, and that the receive path does not panic on IPv4 forwarding rules.
\<close>

section \<open>State and effects\<close>

definition applyActionFORW :: u8 where "applyActionFORW = 0x02"

abbreviation (input) gtpuPort :: nat where "gtpuPort \<equiv> 2152"

record udp_addr =
  uaIP :: ip_addr
  uaPort :: nat

datatype gtpu_effect =
    SendUDP bytes udp_addr
  | ReportIdleDownlink idle_downlink_event
  | RecordEchoResponse ip_addr u16

record forwarder =
  fLocalIP :: ip_addr
  fHasProber :: bool
  fHasReporter :: bool
  fRxPackets :: u64
  fTxPackets :: u64
  fRxBytes :: u64
  fTxBytes :: u64
  fUnknownTEID :: u64
  fDropped :: u64
  fIdleDownlink :: u64

type_synonym fw_result = "(gtpu_error, forwarder \<times> gtpu_effect list) outcome"
type_synonym socket = "bytes \<Rightarrow> udp_addr \<Rightarrow> bool"

record gtpu_counters =
  cRxPackets :: u64
  cTxPackets :: u64
  cRxBytes :: u64
  cTxBytes :: u64
  cUnknownTEID :: u64
  cDropped :: u64
  cIdleDownlink :: u64

definition fw_counters :: "forwarder \<Rightarrow> gtpu_counters" where
  "fw_counters f = \<lparr>cRxPackets = fRxPackets f, cTxPackets = fTxPackets f, cRxBytes = fRxBytes f,
     cTxBytes = fTxBytes f, cUnknownTEID = fUnknownTEID f, cDropped = fDropped f,
     cIdleDownlink = fIdleDownlink f\<rparr>"

definition drop1 :: "forwarder \<Rightarrow> forwarder" where
  "drop1 f = f\<lparr>fDropped := fDropped f + 1\<rparr>"

text \<open>Writing a datagram: the transmit counters move only when the write succeeds.\<close>

definition write_udp :: "socket \<Rightarrow> bytes \<Rightarrow> udp_addr \<Rightarrow> forwarder \<Rightarrow> forwarder \<times> gtpu_effect list" where
  "write_udp wr pkt dst f =
     (if wr pkt dst
      then (f\<lparr>fTxPackets := fTxPackets f + 1, fTxBytes := fTxBytes f + of_nat (length pkt)\<rparr>, [SendUDP pkt dst])
      else (f, []))"

definition zero_gtpu_header :: gtpu_header where
  "zero_gtpu_header = \<lparr>gVersion = 0, gPT = False, gE = False, gS = False, gPN = False, gMsgType = 0,
     gLength = 0, gTEID = 0, gSeqNum = 0, gNPDUNum = 0, gNextExtHdr = 0, gExtHeaders = []\<rparr>"

definition peer_udp :: "bytes \<Rightarrow> udp_addr" where
  "peer_udp a4 = \<lparr>uaIP = IP4 (rd32 (a4 ! 0) (a4 ! 1) (a4 ! 2) (a4 ! 3)), uaPort = gtpuPort\<rparr>"

section \<open>Handlers\<close>

text \<open>The header \<^verbatim>\<open>forwardGPDU\<close> builds from the received one.\<close>

definition relay_header :: "u32 \<Rightarrow> gtpu_header \<Rightarrow> gtpu_header" where
  "relay_header teid inHdr = zero_gtpu_header\<lparr>gVersion := 1, gPT := True, gMsgType := MsgTypeGPDU,
     gTEID := teid, gS := gS inHdr, gSeqNum := gSeqNum inHdr, gPN := gPN inHdr,
     gNPDUNum := gNPDUNum inHdr, gE := gE inHdr, gNextExtHdr := gNextExtHdr inHdr,
     gExtHeaders := gExtHeaders inHdr\<rparr>"

definition forwardGPDU :: "socket \<Rightarrow> gtpu_header \<Rightarrow> far \<Rightarrow> bytes \<Rightarrow> forwarder \<Rightarrow> fw_result" where
  "forwardGPDU wr inHdr far tpdu f =
     (if \<not> isValid (farOuterIP far) \<or> farOuterTEID far = 0 then Ok (drop1 f, [])
      else
        let outHdr = relay_header (farOuterTEID far) inHdr;
            out = gtpu_marshal outHdr (length tpdu) @ tpdu in
        obind (as4 (farOuterIP far)) (\<lambda>a4. Ok (write_udp wr out (peer_udp a4) f)))"

definition sendErrorIndication :: "socket \<Rightarrow> u32 \<Rightarrow> udp_addr \<Rightarrow> ip_addr \<Rightarrow> forwarder \<Rightarrow> fw_result" where
  "sendErrorIndication wr unknownTEID dst peerAddr f =
     (let hdr = zero_gtpu_header\<lparr>gVersion := 1, gPT := True, gS := True,
            gMsgType := MsgTypeErrorIndication, gTEID := 0\<rparr> in
      case buildGTPUPeerAddressIPv4 peerAddr of
        Panic \<Rightarrow> Panic
      | Fail e \<Rightarrow> Ok (f, [])
      | Ok peerIE \<Rightarrow>
          let payload = buildTEIDDataI unknownTEID @ peerIE in
          Ok (write_udp wr (gtpu_marshal hdr (length payload) @ payload) dst f))"

fun find_far :: "u32 \<Rightarrow> far list \<Rightarrow> far option" where
  "find_far i [] = None"
| "find_far i (x # xs) = (if farID x = i then Some x else find_far i xs)"

definition handleGPDU ::
    "socket \<Rightarrow> uheap \<Rightarrow> ustore \<Rightarrow> gtpu_header \<Rightarrow> bytes \<Rightarrow> udp_addr \<Rightarrow> ip_addr \<Rightarrow> forwarder \<Rightarrow> fw_result" where
  "handleGPDU wr h s hdr tpdu src localIP f =
     (case findByLocalTEID h s (gTEID hdr) of
        None \<Rightarrow>
          let f1 = f\<lparr>fUnknownTEID := fUnknownTEID f + 1\<rparr> in
          if gTEID hdr \<noteq> 0 then
            sendErrorIndication wr (gTEID hdr) src (if isValid localIP then localIP else fLocalIP f1) f1
          else Ok (f1, [])
      | Some (r, p) \<Rightarrow>
          (case find_far (pdrFARID p) (uFARs (h r)) of
             None \<Rightarrow> Ok (drop1 f, [])
           | Some far \<Rightarrow>
               if farApplyAction far AND applyActionFORW \<noteq> 0 then forwardGPDU wr hdr far tpdu f
               else if pdrSourceInterface p = 1 \<and> farDropReason far = DropReasonReleaseAccessBearers then
                 let f1 = f\<lparr>fIdleDownlink := fIdleDownlink f + 1\<rparr>;
                     event = \<lparr>idCPSEID = uCPSEID (h r), idUPSEID = uUPSEID (h r), idPDRID = pdrID p,
                        idFARID = pdrFARID p, idLocalTEID = gTEID hdr, idEBI = pdrEBI p, idQCI = pdrQCI p,
                        idSourceInterface = pdrSourceInterface p, idQoSValid = pdrQoSValid p,
                        idDropReason = farDropReason far\<rparr> in
                 Ok (drop1 f1, if fHasReporter f1 then [ReportIdleDownlink event] else [])
               else Ok (drop1 f, [])))"

definition handleEchoRequest :: "socket \<Rightarrow> gtpu_header \<Rightarrow> udp_addr \<Rightarrow> forwarder \<Rightarrow> fw_result" where
  "handleEchoRequest wr req src f =
     (let respHdr = zero_gtpu_header\<lparr>gVersion := 1, gPT := True, gS := True,
            gMsgType := MsgTypeEchoResponse, gTEID := 0, gSeqNum := gSeqNum req\<rparr>;
          recovery = buildRecovery in
      Ok (write_udp wr (gtpu_marshal respHdr (length recovery) @ recovery) src f))"

text \<open>\<^verbatim>\<open>Unmap\<close>: an IPv4-mapped IPv6 address as IPv4.\<close>

fun unmap_ip :: "ip_addr \<Rightarrow> ip_addr" where
  "unmap_ip (IP6 w) = (if drop_bit 32 w = 0xFFFF then IP4 (ucast w) else IP6 w)"
| "unmap_ip a = a"

definition handleEchoResponse :: "gtpu_header \<Rightarrow> udp_addr \<Rightarrow> forwarder \<Rightarrow> fw_result" where
  "handleEchoResponse hdr src f =
     Ok (f, if fHasProber f \<and> isValid (uaIP src)
            then [RecordEchoResponse (unmap_ip (uaIP src)) (gSeqNum hdr)] else [])"

definition sendEndMarker :: "socket \<Rightarrow> u32 \<Rightarrow> ip_addr \<Rightarrow> forwarder \<Rightarrow> fw_result" where
  "sendEndMarker wr teid dstIP f =
     (let outHdr = zero_gtpu_header\<lparr>gVersion := 1, gPT := True, gMsgType := MsgTypeEndMarker, gTEID := teid\<rparr> in
      obind (as4 dstIP) (\<lambda>a4. Ok (write_udp wr (gtpu_marshal outHdr 0) (peer_udp a4) f)))"

definition zero_far :: far where
  "zero_far = \<lparr>farID = 0, farApplyAction = 0, farDestInterface = 0, farOuterTEID = 0,
     farOuterIP = NoAddr, farDropReason = DropReasonNone\<rparr>"

definition handleEndMarker ::
    "socket \<Rightarrow> uheap \<Rightarrow> ustore \<Rightarrow> gtpu_header \<Rightarrow> udp_addr \<Rightarrow> forwarder \<Rightarrow> fw_result" where
  "handleEndMarker wr h s hdr src f =
     (case findByLocalTEID h s (gTEID hdr) of
        None \<Rightarrow> Ok (f, [])
      | Some (r, p) \<Rightarrow>
          let far = (case find_far (pdrFARID p) (uFARs (h r)) of Some x \<Rightarrow> x | None \<Rightarrow> zero_far) in
          if farApplyAction far AND applyActionFORW = 0 \<or> \<not> isValid (farOuterIP far) \<or> farOuterTEID far = 0
          then Ok (f, [])
          else sendEndMarker wr (farOuterTEID far) (farOuterIP far) f)"

definition handleWithLocalIP ::
    "socket \<Rightarrow> uheap \<Rightarrow> ustore \<Rightarrow> bytes \<Rightarrow> udp_addr \<Rightarrow> ip_addr \<Rightarrow> forwarder \<Rightarrow> fw_result" where
  "handleWithLocalIP wr h s pkt src localIP f =
     (case gtpu_parse pkt of
        Panic \<Rightarrow> Panic
      | Fail e \<Rightarrow> Ok (drop1 f, [])
      | Ok (hdr, hdrLen) \<Rightarrow>
          let fin = MinLen + unat (gLength hdr) in
          if gMsgType hdr = MsgTypeGPDU then
            obind (slc pkt hdrLen fin) (\<lambda>tpdu. handleGPDU wr h s hdr tpdu src localIP f)
          else if gMsgType hdr = MsgTypeEchoRequest then handleEchoRequest wr hdr src f
          else if gMsgType hdr = MsgTypeEchoResponse then handleEchoResponse hdr src f
          else if gMsgType hdr = MsgTypeEndMarker then handleEndMarker wr h s hdr src f
          else Ok (f, []))"

definition handle :: "socket \<Rightarrow> uheap \<Rightarrow> ustore \<Rightarrow> bytes \<Rightarrow> udp_addr \<Rightarrow> forwarder \<Rightarrow> fw_result" where
  "handle wr h s pkt src f = handleWithLocalIP wr h s pkt src NoAddr f"

text \<open>
  The destination address of a datagram from its control messages: level, type and data of
  each, or \<open>None\<close> when they do not parse. \<^verbatim>\<open>IPPROTO_IP\<close> is 0 and \<^verbatim>\<open>IP_PKTINFO\<close> is 8.
\<close>

fun dst_from_msgs :: "(nat \<times> nat \<times> bytes) list \<Rightarrow> ip_addr" where
  "dst_from_msgs [] = NoAddr"
| "dst_from_msgs ((level, typ, dat) # msgs) =
     (if level \<noteq> 0 \<or> typ \<noteq> 8 then dst_from_msgs msgs
      else if length dat < 8 then dst_from_msgs msgs
      else addrFrom4 (dat ! 4) (dat ! 5) (dat ! 6) (dat ! 7))"

definition packetDstAddr :: "(nat \<times> nat \<times> bytes) list option \<Rightarrow> ip_addr" where
  "packetDstAddr msgs = (case msgs of None \<Rightarrow> NoAddr | Some ms \<Rightarrow> dst_from_msgs ms)"

text \<open>One turn of the receive loop of \<^verbatim>\<open>Serve\<close>.\<close>

definition serve_packet ::
    "socket \<Rightarrow> uheap \<Rightarrow> ustore \<Rightarrow> bytes \<Rightarrow> udp_addr \<Rightarrow> (nat \<times> nat \<times> bytes) list option \<Rightarrow> forwarder \<Rightarrow> fw_result" where
  "serve_packet wr h s pkt src msgs f =
     handleWithLocalIP wr h s pkt src (packetDstAddr msgs)
       (f\<lparr>fRxPackets := fRxPackets f + 1, fRxBytes := fRxBytes f + of_nat (length pkt)\<rparr>)"

section \<open>Forwarding\<close>

lemma peer_udp_be32: "peer_udp (be32 w) = \<lparr>uaIP = IP4 w, uaPort = 2152\<rparr>"
  by (simp add: peer_udp_def be32_def)

lemma relayed_header:
  fixes teid :: u32
  assumes ok: "gtpu_parse pkt = Ok (hdr, n)" and ty: "gMsgType hdr = MsgTypeGPDU"
  defines "out \<equiv> relay_header teid hdr"
    and "payload \<equiv> take (8 + unat (gLength hdr) - n) (drop n pkt)"
  shows "gtpu_parse (gtpu_marshal out (length payload) @ payload) = Ok (hdr\<lparr>gTEID := teid\<rparr>, n)"
    and "drop n (gtpu_marshal out (length payload) @ payload) = payload"
proof -
  note wf = gtpu_parse_Ok_wf [OF ok]
  have out: "out = hdr\<lparr>gTEID := teid, gLength := 0\<rparr>"
    using wf(1) ty by (cases hdr) (simp add: out_def relay_header_def zero_gtpu_header_def gtpu_wf_def)
  have w: "gtpu_wf out" using wf(1) by (simp add: out gtpu_wf_def hasOptFields_def)
  have l: "wireLen out = n" using wf(2) by (simp add: out wireLen_def hasOptFields_def)
  have n8: "8 \<le> n" unfolding wf(2) wireLen_def by simp
  have len: "length payload = 8 + unat (gLength hdr) - n" using wf(3,4) by (simp add: payload_def)
  then have tot: "wireLen out - 8 + length payload = unat (gLength hdr)" using l n8 wf(3) by simp
  moreover have "unat (gLength hdr) < 65536" using unsigned_less [of "gLength hdr"] by simp
  ultimately have "gtpu_parse (gtpu_marshal out (length payload) @ payload @ []) =
      Ok (out\<lparr>gLength := of_nat (unat (gLength hdr))\<rparr>, n)"
    using gtpu_roundtrip [OF w, of payload "[]"] l by simp
  then show "gtpu_parse (gtpu_marshal out (length payload) @ payload) = Ok (hdr\<lparr>gTEID := teid\<rparr>, n)"
    by (simp add: out)
  show "drop n (gtpu_marshal out (length payload) @ payload) = payload"
    using l by (simp add: length_gtpu_marshal)
qed

text \<open>
  C36: forwarding is transparent. A G-PDU whose TEID resolves to a forwarding rule with an IPv4
  peer and a non-zero TEID is written once, to that peer at port 2152; the datagram parses to
  the header of the received one with only the TEID replaced (sequence number, N-PDU number
  and extension headers are relayed, the length is the same), followed by the same user packet.
\<close>

theorem forward_relays_gpdu:
  assumes ok: "gtpu_parse pkt = Ok (hdr, n)" and ty: "gMsgType hdr = MsgTypeGPDU"
    and look: "findByLocalTEID h s (gTEID hdr) = Some (r, p)"
    and far: "find_far (pdrFARID p) (uFARs (h r)) = Some far" "farApplyAction far AND applyActionFORW \<noteq> 0"
    and peer: "farOuterIP far = IP4 w" "farOuterTEID far \<noteq> 0"
    and wr: "\<And>b d. wr b d"
  shows "\<exists>out. handleWithLocalIP wr h s pkt src localIP f =
      Ok (f\<lparr>fTxPackets := fTxPackets f + 1, fTxBytes := fTxBytes f + of_nat (length out)\<rparr>,
          [SendUDP out \<lparr>uaIP = IP4 w, uaPort = 2152\<rparr>]) \<and>
    gtpu_parse out = Ok (hdr\<lparr>gTEID := farOuterTEID far\<rparr>, n) \<and>
    drop n out = take (8 + unat (gLength hdr) - n) (drop n pkt)"
proof -
  note wf = gtpu_parse_Ok_wf [OF ok]
  define payload where "payload = take (8 + unat (gLength hdr) - n) (drop n pkt)"
  define oh where "oh = relay_header (farOuterTEID far) hdr"
  have "slc pkt n (MinLen + unat (gLength hdr)) = (Ok payload :: (gtpu_error, bytes) outcome)"
    using wf(3,4) by (simp add: payload_def)
  then have "handleWithLocalIP wr h s pkt src localIP f = handleGPDU wr h s hdr payload src localIP f"
    using ok ty by (simp add: handleWithLocalIP_def)
  also have "\<dots> = forwardGPDU wr hdr far payload f"
    using look far by (simp add: handleGPDU_def)
  also have "\<dots> = Ok (write_udp wr (gtpu_marshal oh (length payload) @ payload) \<lparr>uaIP = IP4 w, uaPort = 2152\<rparr> f)"
    using peer by (simp add: forwardGPDU_def oh_def isValid_def peer_udp_be32)
  finally show ?thesis
    using relayed_header [OF ok ty, of "farOuterTEID far"] wr
    by (auto simp: write_udp_def oh_def payload_def)
qed


abbreviation sample_far :: "u8 \<Rightarrow> drop_reason \<Rightarrow> far" where
  "sample_far act why \<equiv> \<lparr>farID = 1, farApplyAction = act, farDestInterface = 0, farOuterTEID = 0x21,
     farOuterIP = IP4 0x0A000001, farDropReason = why\<rparr>"

abbreviation sample_pdr :: pdr where
  "sample_pdr \<equiv> \<lparr>pdrID = 1, pdrPrecedence = 0, pdrSourceInterface = 1, pdrLocalTEID = 9,
     pdrLocalIP = NoAddr, pdrFARID = 1, pdrEBI = 5, pdrQCI = 9, pdrQoSValid = True\<rparr>"

abbreviation sample_uheap :: "u8 \<Rightarrow> drop_reason \<Rightarrow> uheap" where
  "sample_uheap act why \<equiv> \<lambda>_. \<lparr>uCPSEID = 1, uUPSEID = 1, uCPNodeKey = [], uPDRs = [sample_pdr],
     uFARs = [sample_far act why]\<rparr>"

abbreviation sample_ustore :: ustore where
  "sample_ustore \<equiv> \<lparr>byCPSEID = [(1, 0)], byUPSEID = [(1, 0)], seidCounter = 1\<rparr>"

abbreviation sample_forwarder :: forwarder where
  "sample_forwarder \<equiv> \<lparr>fLocalIP = IP4 0x0A000002, fHasProber = False, fHasReporter = True, fRxPackets = 0,
     fTxPackets = 0, fRxBytes = 0, fTxBytes = 0, fUnknownTEID = 0, fDropped = 0, fIdleDownlink = 0\<rparr>"

abbreviation sample_src :: udp_addr where
  "sample_src \<equiv> \<lparr>uaIP = IP4 0x0A000003, uaPort = 2152\<rparr>"

lemma sample_parse:
  "gtpu_parse [0x32, 255, 0, 5, 0, 0, 0, 9, 0, 7, 0, 0, 42] =
     Ok (\<lparr>gVersion = 1, gPT = True, gE = False, gS = True, gPN = False, gMsgType = 255, gLength = 5,
          gTEID = 9, gSeqNum = 7, gNPDUNum = 0, gNextExtHdr = 0, gExtHeaders = []\<rparr>, 12)"
  by code_simp

theorem forward_relays_gpdu_witness:
  "\<exists>out f'. handleWithLocalIP (\<lambda>_ _. True) (sample_uheap 2 DropReasonNone) sample_ustore
      [0x32, 255, 0, 5, 0, 0, 0, 9, 0, 7, 0, 0, 42] sample_src NoAddr sample_forwarder =
    Ok (f', [SendUDP out \<lparr>uaIP = IP4 0x0A000001, uaPort = 2152\<rparr>]) \<and> drop 12 out = [42]"
  using forward_relays_gpdu [OF sample_parse, where h = "sample_uheap 2 DropReasonNone" and s = sample_ustore
      and r = 0 and p = sample_pdr and far = "sample_far 2 DropReasonNone" and w = "0x0A000001"
      and wr = "\<lambda>_ _. True" and src = sample_src and localIP = NoAddr and f = sample_forwarder]
  by (auto simp: MsgTypeGPDU_def findByLocalTEID_def applyActionFORW_def)

section \<open>Unknown TEIDs\<close>

lemma error_indication_packet:
  "\<exists>hdr n. gtpu_parse (gtpu_marshal (zero_gtpu_header\<lparr>gVersion := 1, gPT := True, gS := True,
        gMsgType := MsgTypeErrorIndication, gTEID := 0\<rparr>) (length payload) @ payload) = Ok (hdr, n) \<and>
     gMsgType hdr = MsgTypeErrorIndication \<and> gTEID hdr = 0 \<and> gS hdr \<and> n = 12"
  if "length payload < 1000"
proof -
  let ?h = "zero_gtpu_header\<lparr>gVersion := 1, gPT := True, gS := True, gMsgType := MsgTypeErrorIndication, gTEID := 0\<rparr>"
  have "gtpu_wf ?h" "wireLen ?h = 12"
    by (simp_all add: gtpu_wf_def zero_gtpu_header_def hasOptFields_def wireLen_def)
  then show ?thesis
    using gtpu_roundtrip [of ?h payload "[]"] that by (simp add: zero_gtpu_header_def)
qed

text \<open>
  a G-PDU with an unknown TEID is discarded and counted. If the TEID is not zero, one Error
  Indication goes back to the sender: a header with TEID zero and the S flag, the offending
  TEID, and the local address the packet was sent to (the configured one when unknown). A zero
  TEID is discarded silently.
\<close>

theorem unknown_teid_error_indication:
  assumes ok: "gtpu_parse pkt = Ok (hdr, n)" and ty: "gMsgType hdr = MsgTypeGPDU"
    and look: "findByLocalTEID h s (gTEID hdr) = None"
    and ip: "(if isValid localIP then localIP else fLocalIP f) = IP4 a" and wr: "\<And>b d. wr b d"
  shows "if gTEID hdr = 0
    then handleWithLocalIP wr h s pkt src localIP f = Ok (f\<lparr>fUnknownTEID := fUnknownTEID f + 1\<rparr>, [])
    else \<exists>out f' eh. handleWithLocalIP wr h s pkt src localIP f = Ok (f', [SendUDP out src]) \<and>
      fUnknownTEID f' = fUnknownTEID f + 1 \<and> fDropped f' = fDropped f \<and>
      gtpu_parse out = Ok (eh, 12) \<and> gMsgType eh = MsgTypeErrorIndication \<and> gTEID eh = 0 \<and> gS eh \<and>
      gtpu_parseIEs (drop 12 out) = Ok [(IETypeTEIDDataI, be32 (gTEID hdr)), (IETypeGTPUPeerAddress, be32 a)]"
proof -
  note wf = gtpu_parse_Ok_wf [OF ok]
  define tpdu where "tpdu = take (8 + unat (gLength hdr) - n) (drop n pkt)"
  have g: "handleWithLocalIP wr h s pkt src localIP f = handleGPDU wr h s hdr tpdu src localIP f"
    using ok ty wf(3,4) by (simp add: handleWithLocalIP_def tpdu_def)
  show ?thesis
  proof (cases "gTEID hdr = 0")
    case True
    then show ?thesis using look by (simp add: g handleGPDU_def)
  next
    case False
    define payload where "payload = buildTEIDDataI (gTEID hdr) @ IETypeGTPUPeerAddress # be16 4 @ be32 a"
    define out where "out = gtpu_marshal (zero_gtpu_header\<lparr>gVersion := 1, gPT := True, gS := True,
        gMsgType := MsgTypeErrorIndication, gTEID := 0\<rparr>) (length payload) @ payload"
    have ei: "sendErrorIndication wr (gTEID hdr) src (IP4 a) g = Ok (write_udp wr out src g)" for g
      by (simp add: sendErrorIndication_def buildGTPUPeerAddressIPv4_def out_def payload_def)
    have p: "gtpu_parseIEs payload =
        Ok [(IETypeTEIDDataI, be32 (gTEID hdr)), (IETypeGTPUPeerAddress, be32 a)]"
      using error_ies [of b a "gTEID hdr"] by (simp add: buildGTPUPeerAddressIPv4_def payload_def)
    have l: "length payload < 1000" by (simp add: payload_def buildTEIDDataI_def)
    then obtain eh where eh: "gtpu_parse out = Ok (eh, 12)" "gMsgType eh = MsgTypeErrorIndication" "gTEID eh = 0" "gS eh"
      using error_indication_packet unfolding out_def by blast
    have "drop 12 out = payload"
      by (simp add: out_def length_gtpu_marshal wireLen_def zero_gtpu_header_def hasOptFields_def)
    moreover have "handleGPDU wr h s hdr tpdu src localIP f = Ok (write_udp wr out src (f\<lparr>fUnknownTEID := fUnknownTEID f + 1\<rparr>))"
      using look False ip by (cases "isValid localIP") (simp_all add: handleGPDU_def ei out_def payload_def)
    ultimately show ?thesis using False eh p wr by (simp add: g write_udp_def)
  qed
qed

theorem unknown_teid_error_indication_witness:
  "\<exists>out f'. handleWithLocalIP (\<lambda>_ _. True) (sample_uheap 2 DropReasonNone) newStore
      [0x32, 255, 0, 5, 0, 0, 0, 9, 0, 7, 0, 0, 42] sample_src NoAddr sample_forwarder = Ok (f', [SendUDP out sample_src]) \<and>
     gtpu_parseIEs (drop 12 out) = Ok [(IETypeTEIDDataI, be32 9), (IETypeGTPUPeerAddress, be32 0x0A000002)]"
  using unknown_teid_error_indication [OF sample_parse, where h = "sample_uheap 2 DropReasonNone" and s = newStore
      and localIP = NoAddr and f = sample_forwarder and a = "0x0A000002" and wr = "\<lambda>_ _. True" and src = sample_src]
  by (auto simp: MsgTypeGPDU_def findByLocalTEID_def newStore_def isValid_def)

section \<open>Idle downlink traffic and robustness\<close>

definition ipv4_rules :: "uheap \<Rightarrow> ustore \<Rightarrow> bool" where
  "ipv4_rules h s \<longleftrightarrow> (\<forall>r \<in> set (store_all s). \<forall>x \<in> set (uFARs (h r)). farOuterIP x = NoAddr \<or> is4 (farOuterIP x))"

lemma find_far_mem: "find_far i xs = Some x \<Longrightarrow> x \<in> set xs \<and> farID x = i"
  by (induction xs) (auto split: if_splits)

lemma ipv4_rules_as4:
  assumes "ipv4_rules h s" "findByLocalTEID h s t = Some (r, p)" "find_far i (uFARs (h r)) = Some x" "isValid (farOuterIP x)"
  shows "\<exists>w. farOuterIP x = IP4 w"
proof -
  have "r \<in> set (store_all s)"
    using assms(2) find_session_Some [of h t "byCPSEID s" r p]
    by (auto simp: findByLocalTEID_def store_all_def split: if_splits)
  then have "farOuterIP x = NoAddr \<or> is4 (farOuterIP x)"
    using assms(1,3) find_far_mem by (auto simp: ipv4_rules_def)
  then show ?thesis using assms(4) by (cases "farOuterIP x") (auto simp: isValid_def)
qed

lemma handleGPDU_no_panic:
  assumes "ipv4_rules h s"
  shows "handleGPDU wr h s hdr tpdu src localIP f \<noteq> Panic"
proof (cases "findByLocalTEID h s (gTEID hdr)")
  case None
  have "buildGTPUPeerAddressIPv4 ip \<noteq> Panic" for ip
    by (cases ip) (simp_all add: buildGTPUPeerAddressIPv4_def)
  with None show ?thesis
    by (simp add: handleGPDU_def sendErrorIndication_def Let_def split: outcome.splits)
next
  case (Some rp)
  obtain r p where rp: "rp = (r, p)" by (cases rp)
  show ?thesis
  proof (cases "find_far (pdrFARID p) (uFARs (h r))")
    case None
    then show ?thesis using Some rp by (simp add: handleGPDU_def)
  next
    case (Some x)
    then have "isValid (farOuterIP x) \<longrightarrow> (\<exists>w. farOuterIP x = IP4 w)"
      using ipv4_rules_as4 [OF assms] \<open>findByLocalTEID h s (gTEID hdr) = Some rp\<close> rp by blast
    then show ?thesis
      using \<open>findByLocalTEID h s (gTEID hdr) = Some rp\<close> rp Some
      by (auto simp: handleGPDU_def forwardGPDU_def Let_def)
  qed
qed

lemma handleEndMarker_no_panic:
  assumes "ipv4_rules h s"
  shows "handleEndMarker wr h s hdr src f \<noteq> Panic"
proof (cases "findByLocalTEID h s (gTEID hdr)")
  case (Some rp)
  obtain r p where rp: "rp = (r, p)" by (cases rp)
  show ?thesis
  proof (cases "find_far (pdrFARID p) (uFARs (h r))")
    case None
    then show ?thesis using Some rp by (simp add: handleEndMarker_def zero_far_def)
  next
    case (Some x)
    then have "isValid (farOuterIP x) \<longrightarrow> (\<exists>w. farOuterIP x = IP4 w)"
      using ipv4_rules_as4 [OF assms] \<open>findByLocalTEID h s (gTEID hdr) = Some rp\<close> rp by blast
    then show ?thesis
      using \<open>findByLocalTEID h s (gTEID hdr) = Some rp\<close> rp Some
      by (auto simp: handleEndMarker_def sendEndMarker_def Let_def)
  qed
qed (simp add: handleEndMarker_def)

text \<open>
  C37: the receive path does not panic on any datagram from any sender as long as the outer
  addresses of the stored forwarding rules are IPv4 (an IPv6 outer address would make it panic
  when a packet hits the rule).
\<close>

theorem receive_path_no_panic:
  assumes "ipv4_rules h s"
  shows "serve_packet wr h s pkt src msgs f \<noteq> Panic"
proof (cases "gtpu_parse pkt")
  case (Ok x)
  obtain hdr n where x: "x = (hdr, n)" by (cases x)
  note wf = gtpu_parse_Ok_wf [OF Ok [unfolded x]]
  show ?thesis
    using Ok x wf(3,4) handleGPDU_no_panic [OF assms] handleEndMarker_no_panic [OF assms]
    by (auto simp: serve_packet_def handleWithLocalIP_def handleEchoRequest_def handleEchoResponse_def Let_def)
next
  case Panic
  then show ?thesis using parse_not_Panic by blast
qed (simp add: serve_packet_def handleWithLocalIP_def)

theorem receive_path_no_panic_witness:
  "serve_packet (\<lambda>_ _. True) (sample_uheap 2 DropReasonNone) sample_ustore [0x32] sample_src None sample_forwarder \<noteq> Panic"
  by (rule receive_path_no_panic) (simp add: ipv4_rules_def store_all_def)

text \<open>
  idle downlink reporting. A G-PDU from the core side that hits a rule that does not
  forward because of Release Access Bearers is dropped and, when a reporter is set, reported
  once with the SEIDs, the rule IDs and the bearer of its session; no other G-PDU is reported.
\<close>

theorem idle_downlink_reported_iff:
  assumes "handleGPDU wr h s hdr tpdu src localIP f = Ok (f', effs)"
  shows "(ReportIdleDownlink e \<in> set effs \<longleftrightarrow>
     (\<exists>r p x. findByLocalTEID h s (gTEID hdr) = Some (r, p) \<and> find_far (pdrFARID p) (uFARs (h r)) = Some x \<and>
        farApplyAction x AND applyActionFORW = 0 \<and> pdrSourceInterface p = 1 \<and>
        farDropReason x = DropReasonReleaseAccessBearers \<and> fHasReporter f \<and>
        e = \<lparr>idCPSEID = uCPSEID (h r), idUPSEID = uUPSEID (h r), idPDRID = pdrID p, idFARID = pdrFARID p,
             idLocalTEID = gTEID hdr, idEBI = pdrEBI p, idQCI = pdrQCI p, idSourceInterface = 1,
             idQoSValid = pdrQoSValid p, idDropReason = DropReasonReleaseAccessBearers\<rparr>)) \<and>
    (ReportIdleDownlink e \<in> set effs \<longrightarrow> effs = [ReportIdleDownlink e] \<and> fDropped f' = fDropped f + 1 \<and>
       fIdleDownlink f' = fIdleDownlink f + 1)"
proof -
  have w: "ReportIdleDownlink e \<notin> set (snd (write_udp wr b d g))" for b d g
    by (simp add: write_udp_def)
  have ei: "sendErrorIndication wr t d a g = Ok (f', effs) \<Longrightarrow> ReportIdleDownlink e \<notin> set effs" for t d a g
    using w by (auto simp: sendErrorIndication_def Let_def split: outcome.splits)
      (metis snd_conv)
  have fw: "forwardGPDU wr hdr x tpdu g = Ok (f', effs) \<Longrightarrow> ReportIdleDownlink e \<notin> set effs" for x g
    using w by (auto simp: forwardGPDU_def Let_def obind_Ok_iff split: if_splits) (metis snd_conv)
  show ?thesis
  proof (cases "findByLocalTEID h s (gTEID hdr)")
    case None
    then show ?thesis using assms ei by (auto simp: handleGPDU_def Let_def split: if_splits)
  next
    case (Some rp)
    obtain r p where rp: "rp = (r, p)" by (cases rp)
    show ?thesis
    proof (cases "find_far (pdrFARID p) (uFARs (h r))")
      case None
      then show ?thesis using assms Some rp by (auto simp: handleGPDU_def)
    next
      case (Some x)
      then show ?thesis
        using assms \<open>findByLocalTEID h s (gTEID hdr) = Some rp\<close> rp fw
        by (auto simp: handleGPDU_def Let_def drop1_def split: if_splits)
    qed
  qed
qed

theorem idle_downlink_reported_iff_witness:
  "\<exists>f' e. handleGPDU (\<lambda>_ _. True) (sample_uheap 1 DropReasonReleaseAccessBearers) sample_ustore
      (zero_gtpu_header\<lparr>gTEID := 9\<rparr>) [] sample_src NoAddr sample_forwarder = Ok (f', [ReportIdleDownlink e]) \<and>
    fDropped f' = 1 \<and> idEBI e = 5"
proof -
  obtain f' e where r: "handleGPDU (\<lambda>_ _. True) (sample_uheap 1 DropReasonReleaseAccessBearers) sample_ustore
      (zero_gtpu_header\<lparr>gTEID := 9\<rparr>) [] sample_src NoAddr sample_forwarder = Ok (f', [ReportIdleDownlink e])"
      "idEBI e = 5"
    by (simp add: handleGPDU_def findByLocalTEID_def zero_gtpu_header_def applyActionFORW_def Let_def)
  then show ?thesis using idle_downlink_reported_iff [OF r(1), of e] by auto
qed

end
