(* ===== verification/BPF_Compiler.thy ===== *)
theory BPF_Compiler
  imports GTPU_Forwarder
begin

text \<open>
  The compiler of PFCP rules into XDP forwarding rules (\<^verbatim>\<open>internal/dataplane/bpf/compiler.go\<close>
  over the map operations of \<^verbatim>\<open>loader.go\<close>). The kernel maps are Go maps with a fault
  argument that says which map operations fail. The lemmas show what the rule map holds
  after a session was installed or removed, and that the kernel action of a rule agrees with
  what the userspace forwarder does with the same packet.
\<close>

section \<open>Rules, maps and faults\<close>

record rule_key =
  rkTeid :: u32
  rkIfindex :: u32

record rule_value =
  rvAction :: u8
  rvEbi :: u8
  rvQci :: u8
  rvQosValid :: u8
  rvEgressIfindex :: u32
  rvOuterSrcIp :: bytes
  rvOuterDstIp :: bytes
  rvNewTeid :: u32
  rvCounterId :: u32
  rvOuterDscp :: u8

record dataplane =
  dpS1uIfindex :: u32
  dpS5uIfindex :: u32
  dpRules :: "(rule_key, rule_value) gomap"
  dpStats :: "(u32, unit) gomap"

record map_faults =
  mfLookup :: "rule_key \<Rightarrow> bool"
  mfPut :: "rule_key \<Rightarrow> bool"
  mfDelete :: "rule_key \<Rightarrow> bool"
  mfStatsInit :: "u32 \<Rightarrow> bool"
  mfStatsDelete :: "u32 \<Rightarrow> bool"

datatype bpf_error =
    UnsupportedSourceInterface u8
  | RuleLookupFailed rule_key
  | RulePutFailed rule_key
  | RuleDeleteFailed rule_key
  | StatsInitFailed u32
  | StatsDeleteFailed u32

definition actionForward :: u8 where "actionForward = 1"
definition actionDrop :: u8 where "actionDrop = 2"
definition actionPunt :: u8 where "actionPunt = 3"

lemmas action_defs = actionForward_def actionDrop_def actionPunt_def

section \<open>Map operations\<close>

definition installRule :: "map_faults \<Rightarrow> rule_key \<Rightarrow> rule_value \<Rightarrow> dataplane \<Rightarrow> (bpf_error, dataplane) outcome" where
  "installRule mf k v d =
     (if mfPut mf k then Fail (RulePutFailed k) else Ok (d\<lparr>dpRules := mput k v (dpRules d)\<rparr>))"

definition lookupRule :: "map_faults \<Rightarrow> rule_key \<Rightarrow> dataplane \<Rightarrow> (bpf_error, rule_value option) outcome" where
  "lookupRule mf k d = (if mfLookup mf k then Fail (RuleLookupFailed k) else Ok (mget (dpRules d) k))"

definition removeRule :: "map_faults \<Rightarrow> rule_key \<Rightarrow> dataplane \<Rightarrow> (bpf_error, dataplane) outcome" where
  "removeRule mf k d =
     (if mfDelete mf k then Fail (RuleDeleteFailed k) else Ok (d\<lparr>dpRules := mdel k (dpRules d)\<rparr>))"

definition initStats :: "map_faults \<Rightarrow> u32 \<Rightarrow> dataplane \<Rightarrow> (bpf_error, dataplane) outcome" where
  "initStats mf c d =
     (if mfStatsInit mf c then Fail (StatsInitFailed c)
      else Ok (if mget (dpStats d) c = None then d\<lparr>dpStats := mput c () (dpStats d)\<rparr> else d))"

definition removeStats :: "map_faults \<Rightarrow> u32 \<Rightarrow> dataplane \<Rightarrow> (bpf_error, dataplane) outcome" where
  "removeStats mf c d =
     (if mfStatsDelete mf c then Fail (StatsDeleteFailed c) else Ok (d\<lparr>dpStats := mdel c (dpStats d)\<rparr>))"

section \<open>The compiler\<close>

record qci_marking_config =
  qcEnabled :: bool
  qcOverrideDefaultGTPU :: bool
  qcDefaultGTPUDSCP :: u8
  qcQCIToDSCP :: "(u8, u8) gomap"

record compiler =
  cS1uLocalIP :: ip_addr
  cS5uLocalIP :: ip_addr
  cQos :: qci_marking_config

abbreviation (input) SourceInterfaceAccess :: u8 where "SourceInterfaceAccess \<equiv> 0"
abbreviation (input) SourceInterfaceCore :: u8 where "SourceInterfaceCore \<equiv> 1"
abbreviation (input) ApplyActionDROP :: u8 where "ApplyActionDROP \<equiv> 0x01"
abbreviation (input) ApplyActionFORW :: u8 where "ApplyActionFORW \<equiv> 0x02"

definition buildKey :: "dataplane \<Rightarrow> pdr \<Rightarrow> (bpf_error, rule_key) outcome" where
  "buildKey d p =
     (if pdrSourceInterface p = SourceInterfaceAccess then Ok \<lparr>rkTeid = pdrLocalTEID p, rkIfindex = dpS1uIfindex d\<rparr>
      else if pdrSourceInterface p = SourceInterfaceCore then Ok \<lparr>rkTeid = pdrLocalTEID p, rkIfindex = dpS5uIfindex d\<rparr>
      else Fail (UnsupportedSourceInterface (pdrSourceInterface p)))"

definition zero_value :: rule_value where
  "zero_value = \<lparr>rvAction = 0, rvEbi = 0, rvQci = 0, rvQosValid = 0, rvEgressIfindex = 0,
     rvOuterSrcIp = [0, 0, 0, 0], rvOuterDstIp = [0, 0, 0, 0], rvNewTeid = 0, rvCounterId = 0, rvOuterDscp = 0\<rparr>"

definition applyQoSMetadata :: "compiler \<Rightarrow> pdr \<Rightarrow> rule_value \<Rightarrow> rule_value" where
  "applyQoSMetadata c p v =
     (if \<not> qcEnabled (cQos c) \<or> \<not> qcOverrideDefaultGTPU (cQos c) \<or> \<not> pdrQoSValid p \<or> pdrQCI p = 0 then v
      else v\<lparr>rvEbi := pdrEBI p, rvQci := pdrQCI p, rvQosValid := 1,
             rvOuterDscp := (case mget (qcQCIToDSCP (cQos c)) (pdrQCI p) of
                Some dscp \<Rightarrow> dscp | None \<Rightarrow> qcDefaultGTPUDSCP (cQos c))\<rparr>)"

definition buildValue :: "compiler \<Rightarrow> dataplane \<Rightarrow> pdr \<Rightarrow> far \<Rightarrow> (bpf_error, rule_value) outcome" where
  "buildValue c d p x =
     (let val = zero_value\<lparr>rvCounterId := pdrLocalTEID p\<rparr> in
      if farApplyAction x AND ApplyActionFORW \<noteq> 0 then
        if \<not> isValid (farOuterIP x) then Ok (val\<lparr>rvAction := actionPunt\<rparr>)
        else
          obind (as4 (farOuterIP x)) (\<lambda>dstIP.
            let val1 = val\<lparr>rvAction := actionForward, rvOuterDstIp := dstIP, rvNewTeid := farOuterTEID x\<rparr> in
            obind
              (if pdrSourceInterface p = SourceInterfaceAccess then
                 obind (as4 (cS5uLocalIP c)) (\<lambda>srcIP.
                   Ok (val1\<lparr>rvOuterSrcIp := srcIP, rvEgressIfindex := dpS5uIfindex d\<rparr>))
               else if pdrSourceInterface p = SourceInterfaceCore then
                 obind (as4 (cS1uLocalIP c)) (\<lambda>srcIP.
                   Ok (val1\<lparr>rvOuterSrcIp := srcIP, rvEgressIfindex := dpS1uIfindex d\<rparr>))
               else Ok val1)
              (\<lambda>val2. Ok (applyQoSMetadata c p val2)))
      else if farApplyAction x AND ApplyActionDROP \<noteq> 0 then
        Ok (val\<lparr>rvAction :=
          (if pdrSourceInterface p = SourceInterfaceCore \<and> farDropReason x = DropReasonReleaseAccessBearers
           then actionPunt else actionDrop)\<rparr>)
      else Ok (val\<lparr>rvAction := actionPunt\<rparr>))"

record sync_state =
  ssDP :: dataplane
  ssFirstErr :: "bpf_error option"
  ssAdded :: nat
  ssUpdated :: nat
  ssRemoved :: nat
  ssUnchanged :: nat

definition note_err :: "bpf_error \<Rightarrow> sync_state \<Rightarrow> sync_state" where
  "note_err e st = (if ssFirstErr st = None then st\<lparr>ssFirstErr := Some e\<rparr> else st)"

text \<open>\<^verbatim>\<open>installRuleIfChanged\<close> with the counter updates its callers make.\<close>

definition installRuleIfChanged :: "map_faults \<Rightarrow> rule_key \<Rightarrow> rule_value \<Rightarrow> sync_state \<Rightarrow> sync_state" where
  "installRuleIfChanged mf k v st =
     (case lookupRule mf k (ssDP st) of
        Ok cur \<Rightarrow>
          if cur = Some v then st\<lparr>ssUnchanged := ssUnchanged st + 1\<rparr>
          else
            (case installRule mf k v (ssDP st) of
               Ok d \<Rightarrow>
                 if cur \<noteq> None then st\<lparr>ssDP := d, ssUpdated := ssUpdated st + 1\<rparr>
                 else st\<lparr>ssDP := d, ssAdded := ssAdded st + 1\<rparr>
             | Fail e \<Rightarrow> note_err e st
             | Panic \<Rightarrow> st)
      | Fail e \<Rightarrow> note_err e st
      | Panic \<Rightarrow> st)"

definition remove_one :: "map_faults \<Rightarrow> rule_key \<Rightarrow> pdr \<Rightarrow> sync_state \<Rightarrow> sync_state" where
  "remove_one mf k p st =
     (case lookupRule mf k (ssDP st) of
        Ok cur \<Rightarrow>
          let st1 = (case removeRule mf k (ssDP st) of
                Ok d \<Rightarrow> (if cur \<noteq> None then st\<lparr>ssDP := d, ssRemoved := ssRemoved st + 1\<rparr>
                        else st\<lparr>ssDP := d, ssUnchanged := ssUnchanged st + 1\<rparr>)
              | Fail e \<Rightarrow> note_err e st
              | Panic \<Rightarrow> st) in
          (case removeStats mf (pdrLocalTEID p) (ssDP st1) of Ok d \<Rightarrow> st1\<lparr>ssDP := d\<rparr> | _ \<Rightarrow> st1)
      | Fail e \<Rightarrow> note_err e st
      | Panic \<Rightarrow> st)"

definition sync_step ::
    "map_faults \<Rightarrow> compiler \<Rightarrow> (u32, far) gomap \<Rightarrow> bool \<Rightarrow> pdr \<Rightarrow> sync_state \<Rightarrow> (bpf_error, sync_state) outcome" where
  "sync_step mf c farByID remove p st =
     (if pdrLocalTEID p = 0 then Ok st
      else
        case buildKey (ssDP st) p of
          Panic \<Rightarrow> Panic
        | Fail e \<Rightarrow> Ok (note_err e st)
        | Ok k \<Rightarrow>
            if remove then Ok (remove_one mf k p st)
            else
              (case mget farByID (pdrFARID p) of
                 None \<Rightarrow> Ok (installRuleIfChanged mf k
                     (zero_value\<lparr>rvAction := actionDrop, rvCounterId := pdrLocalTEID p\<rparr>) st)
               | Some x \<Rightarrow>
                   (case buildValue c (ssDP st) p x of
                      Panic \<Rightarrow> Panic
                    | Fail e \<Rightarrow> Ok (note_err e st)
                    | Ok v \<Rightarrow>
                        let st1 = (if rvAction v = actionForward
                              then (case initStats mf (rvCounterId v) (ssDP st) of
                                      Ok d \<Rightarrow> st\<lparr>ssDP := d\<rparr> | _ \<Rightarrow> st)
                              else st) in
                        Ok (installRuleIfChanged mf k v st1))))"

fun sync_loop ::
    "map_faults \<Rightarrow> compiler \<Rightarrow> (u32, far) gomap \<Rightarrow> bool \<Rightarrow> pdr list \<Rightarrow> sync_state \<Rightarrow> (bpf_error, sync_state) outcome" where
  "sync_loop mf c farByID remove [] st = Ok st"
| "sync_loop mf c farByID remove (p # ps) st =
     obind (sync_step mf c farByID remove p st) (\<lambda>st1. sync_loop mf c farByID remove ps st1)"

definition far_map :: "far list \<Rightarrow> (u32, far) gomap" where
  "far_map fars = fold (\<lambda>x. mput (farID x) x) fars []"

definition syncRules :: "map_faults \<Rightarrow> compiler \<Rightarrow> usession \<Rightarrow> bool \<Rightarrow> dataplane \<Rightarrow> (bpf_error, sync_state) outcome" where
  "syncRules mf c sess remove d =
     sync_loop mf c (far_map (uFARs sess)) remove (uPDRs sess)
       \<lparr>ssDP = d, ssFirstErr = None, ssAdded = 0, ssUpdated = 0, ssRemoved = 0, ssUnchanged = 0\<rparr>"

definition installSession :: "map_faults \<Rightarrow> compiler \<Rightarrow> usession \<Rightarrow> dataplane \<Rightarrow> (bpf_error, sync_state) outcome" where
  "installSession mf c sess d = syncRules mf c sess False d"

definition updateSession :: "map_faults \<Rightarrow> compiler \<Rightarrow> usession \<Rightarrow> dataplane \<Rightarrow> (bpf_error, sync_state) outcome" where
  "updateSession mf c sess d = syncRules mf c sess False d"

definition removeSession :: "map_faults \<Rightarrow> compiler \<Rightarrow> usession \<Rightarrow> dataplane \<Rightarrow> (bpf_error, sync_state) outcome" where
  "removeSession mf c sess d = syncRules mf c sess True d"


section \<open>The rule map after a synchronisation\<close>

definition no_faults :: "map_faults \<Rightarrow> bool" where
  "no_faults mf \<longleftrightarrow> (\<forall>k. \<not> mfLookup mf k \<and> \<not> mfPut mf k \<and> \<not> mfDelete mf k) \<and>
     (\<forall>t. \<not> mfStatsInit mf t \<and> \<not> mfStatsDelete mf t)"

text \<open>A session the compiler can express: access or core PDRs and IPv4 addresses.\<close>

definition compilable :: "compiler \<Rightarrow> usession \<Rightarrow> bool" where
  "compilable c sess \<longleftrightarrow> is4 (cS1uLocalIP c) \<and> is4 (cS5uLocalIP c) \<and>
     (\<forall>p \<in> set (uPDRs sess). pdrLocalTEID p \<noteq> 0 \<longrightarrow> pdrSourceInterface p = 0 \<or> pdrSourceInterface p = 1) \<and>
     (\<forall>x \<in> set (uFARs sess). farOuterIP x = NoAddr \<or> is4 (farOuterIP x))"

definition key_of :: "dataplane \<Rightarrow> pdr \<Rightarrow> rule_key" where
  "key_of d p = \<lparr>rkTeid = pdrLocalTEID p, rkIfindex = (if pdrSourceInterface p = 0 then dpS1uIfindex d else dpS5uIfindex d)\<rparr>"

definition value_of :: "compiler \<Rightarrow> dataplane \<Rightarrow> (u32, far) gomap \<Rightarrow> pdr \<Rightarrow> rule_value" where
  "value_of c d fm p = (case mget fm (pdrFARID p) of
     None \<Rightarrow> zero_value\<lparr>rvAction := actionDrop, rvCounterId := pdrLocalTEID p\<rparr>
   | Some x \<Rightarrow> (case buildValue c d p x of Ok v \<Rightarrow> v | _ \<Rightarrow> zero_value))"

definition same_ports :: "dataplane \<Rightarrow> dataplane \<Rightarrow> bool" where
  "same_ports d d' \<longleftrightarrow> dpS1uIfindex d' = dpS1uIfindex d \<and> dpS5uIfindex d' = dpS5uIfindex d"

lemma is4_as4: "is4 a \<Longrightarrow> \<exists>b. as4 a = (Ok b :: ('e, bytes) outcome)"
  by (cases a) auto

lemma as4_total:
  assumes "farOuterIP x = NoAddr \<or> is4 (farOuterIP x)" "is4 (cS1uLocalIP c)" "is4 (cS5uLocalIP c)"
  shows "\<exists>v. buildValue c d p x = Ok v"
proof -
  obtain a b where "as4 (cS1uLocalIP c) = (Ok a :: (bpf_error, bytes) outcome)"
    "as4 (cS5uLocalIP c) = (Ok b :: (bpf_error, bytes) outcome)"
    using assms(2,3) is4_as4 by metis
  moreover have "isValid (farOuterIP x) \<longrightarrow> (\<exists>o4. as4 (farOuterIP x) = (Ok o4 :: (bpf_error, bytes) outcome))"
    using assms(1) is4_as4 by (auto simp: isValid_def)
  ultimately show ?thesis by (auto simp: buildValue_def Let_def)
qed

lemma buildValue_ports: "same_ports d d' \<Longrightarrow> buildValue c d' p x = buildValue c d p x"
proof -
  assume "same_ports d d'"
  then have p: "dpS1uIfindex d' = dpS1uIfindex d" "dpS5uIfindex d' = dpS5uIfindex d"
    by (simp_all add: same_ports_def)
  show ?thesis unfolding buildValue_def p ..
qed

lemma value_of_ports:
  assumes "same_ports d d'"
  shows "value_of c d' fm p = value_of c d fm p"
  unfolding value_of_def buildValue_ports [OF assms] ..

lemma key_of_ports: "same_ports d d' \<Longrightarrow> key_of d' p = key_of d p"
  by (simp add: key_of_def same_ports_def)

lemma install_if_changed:
  assumes "no_faults mf"
  shows "mget (dpRules (ssDP (installRuleIfChanged mf k v st))) k' =
      (if k' = k then Some v else mget (dpRules (ssDP st)) k')"
    and "same_ports (ssDP st) (ssDP (installRuleIfChanged mf k v st))"
    and "ssFirstErr (installRuleIfChanged mf k v st) = ssFirstErr st"
  using assms
  by (auto simp: installRuleIfChanged_def lookupRule_def installRule_def no_faults_def same_ports_def map_simps)

lemma remove_one_facts:
  assumes "no_faults mf"
  shows "mget (dpRules (ssDP (remove_one mf k p st))) k' = (if k' = k then None else mget (dpRules (ssDP st)) k')"
    and "same_ports (ssDP st) (ssDP (remove_one mf k p st))"
    and "ssFirstErr (remove_one mf k p st) = ssFirstErr st"
  using assms
  by (auto simp: remove_one_def lookupRule_def removeRule_def removeStats_def no_faults_def same_ports_def map_simps Let_def)

lemma sync_step_facts:
  assumes nf: "no_faults mf"
    and src: "pdrLocalTEID p \<noteq> 0 \<Longrightarrow> pdrSourceInterface p = 0 \<or> pdrSourceInterface p = 1"
    and val: "\<And>x d. mget fm (pdrFARID p) = Some x \<Longrightarrow> \<exists>v. buildValue c d p x = Ok v"
  shows "\<exists>st'. sync_step mf c fm rm p st = Ok st' \<and> same_ports (ssDP st) (ssDP st') \<and> ssFirstErr st' = ssFirstErr st \<and>
    (\<forall>k. mget (dpRules (ssDP st')) k =
      (if pdrLocalTEID p \<noteq> 0 \<and> k = key_of (ssDP st) p
       then (if rm then None else Some (value_of c (ssDP st) fm p)) else mget (dpRules (ssDP st)) k))"
proof (cases "pdrLocalTEID p = 0")
  case True
  then show ?thesis by (simp add: sync_step_def same_ports_def)
next
  case False
  have k: "buildKey (ssDP st) p = Ok (key_of (ssDP st) p)"
    using src [OF False] by (auto simp: buildKey_def key_of_def)
  show ?thesis
  proof (cases rm)
    case True
    then show ?thesis using False k remove_one_facts [OF nf] by (simp add: sync_step_def)
  next
    case inst: False
    show ?thesis
    proof (cases "mget fm (pdrFARID p)")
      case None
      then show ?thesis using False k inst install_if_changed [OF nf] by (simp add: sync_step_def value_of_def)
    next
      case (Some x)
      then obtain v where v: "buildValue c (ssDP st) p x = Ok v" using val by blast
      define st1 where "st1 = (if rvAction v = actionForward
          then (case initStats mf (rvCounterId v) (ssDP st) of Ok d \<Rightarrow> st\<lparr>ssDP := d\<rparr> | _ \<Rightarrow> st) else st)"
      have s1: "dpRules (ssDP st1) = dpRules (ssDP st)" "same_ports (ssDP st) (ssDP st1)" "ssFirstErr st1 = ssFirstErr st"
        using nf by (auto simp: st1_def initStats_def no_faults_def same_ports_def)
      have "sync_step mf c fm rm p st = Ok (installRuleIfChanged mf (key_of (ssDP st) p) v st1)"
        using False k inst Some v by (simp add: sync_step_def st1_def)
      then show ?thesis
        using install_if_changed [OF nf, where k = "key_of (ssDP st) p" and v = v and st = st1] s1 False inst Some v
        by (auto simp: value_of_def same_ports_def)
    qed
  qed
qed

definition pdr_for :: "dataplane \<Rightarrow> pdr list \<Rightarrow> rule_key \<Rightarrow> pdr option" where
  "pdr_for d ps k = find (\<lambda>p. pdrLocalTEID p \<noteq> 0 \<and> key_of d p = k) (rev ps)"

lemma pdr_for_Cons:
  "pdr_for d (p # ps) k = (case pdr_for d ps k of Some q \<Rightarrow> Some q
     | None \<Rightarrow> if pdrLocalTEID p \<noteq> 0 \<and> key_of d p = k then Some p else None)"
proof -
  have "find P (xs @ [p]) = (case find P xs of Some q \<Rightarrow> Some q | None \<Rightarrow> if P p then Some p else None)" for P xs
    by (induction xs) auto
  then show ?thesis by (simp add: pdr_for_def)
qed

lemma pdr_for_ports: "same_ports d d' \<Longrightarrow> pdr_for d' ps k = pdr_for d ps k"
  by (simp add: pdr_for_def key_of_ports)

lemma sync_loop_facts:
  assumes nf: "no_faults mf"
    and src: "\<forall>p \<in> set ps. pdrLocalTEID p \<noteq> 0 \<longrightarrow> pdrSourceInterface p = 0 \<or> pdrSourceInterface p = 1"
    and val: "\<And>p x d. mget fm (pdrFARID p) = Some x \<Longrightarrow> \<exists>v. buildValue c d p x = Ok v"
  shows "\<exists>st'. sync_loop mf c fm rm ps st = Ok st' \<and> same_ports (ssDP st) (ssDP st') \<and> ssFirstErr st' = ssFirstErr st \<and>
    (\<forall>k. mget (dpRules (ssDP st')) k = (case pdr_for (ssDP st) ps k of
       Some p \<Rightarrow> (if rm then None else Some (value_of c (ssDP st) fm p)) | None \<Rightarrow> mget (dpRules (ssDP st)) k))"
  using src
proof (induction ps arbitrary: st)
  case Nil
  then show ?case by (simp add: pdr_for_def same_ports_def)
next
  case (Cons p ps)
  have "\<exists>st1. sync_step mf c fm rm p st = Ok st1 \<and> same_ports (ssDP st) (ssDP st1) \<and> ssFirstErr st1 = ssFirstErr st \<and>
    (\<forall>k. mget (dpRules (ssDP st1)) k =
      (if pdrLocalTEID p \<noteq> 0 \<and> k = key_of (ssDP st) p
       then (if rm then None else Some (value_of c (ssDP st) fm p)) else mget (dpRules (ssDP st)) k))"
    using Cons.prems by (intro sync_step_facts nf val) auto
  then obtain st1 where s1: "sync_step mf c fm rm p st = Ok st1" "same_ports (ssDP st) (ssDP st1)"
      "ssFirstErr st1 = ssFirstErr st"
      "\<And>k. mget (dpRules (ssDP st1)) k = (if pdrLocalTEID p \<noteq> 0 \<and> k = key_of (ssDP st) p
       then (if rm then None else Some (value_of c (ssDP st) fm p)) else mget (dpRules (ssDP st)) k)"
    by blast
  obtain st' where s': "sync_loop mf c fm rm ps st1 = Ok st'" "same_ports (ssDP st1) (ssDP st')"
      "ssFirstErr st' = ssFirstErr st1"
      "\<And>k. mget (dpRules (ssDP st')) k = (case pdr_for (ssDP st1) ps k of
       Some p \<Rightarrow> (if rm then None else Some (value_of c (ssDP st1) fm p)) | None \<Rightarrow> mget (dpRules (ssDP st1)) k)"
    using Cons.IH [of st1] Cons.prems by auto
  have ports: "same_ports (ssDP st) (ssDP st')" using s1(2) s'(2) by (simp add: same_ports_def)
  have "mget (dpRules (ssDP st')) k = (case pdr_for (ssDP st) (p # ps) k of
       Some p \<Rightarrow> (if rm then None else Some (value_of c (ssDP st) fm p)) | None \<Rightarrow> mget (dpRules (ssDP st)) k)" for k
    unfolding s'(4) s1(4) pdr_for_ports [OF s1(2)] value_of_ports [OF s1(2)] pdr_for_Cons
    by (auto split: option.splits)
  note m = this
  show ?case
  proof (intro exI [of _ st'] conjI allI)
    show "sync_loop mf c fm rm (p # ps) st = Ok st'" using s1(1) s'(1) by simp
    show "ssFirstErr st' = ssFirstErr st" using s1(3) s'(3) by simp
  qed (rule ports, rule m)
qed

lemma far_map_mem: "mget (far_map xs) i = Some x \<Longrightarrow> x \<in> set xs \<and> farID x = i"
proof -
  have "mget (fold (\<lambda>x. mput (farID x) x) xs m) i = Some x \<Longrightarrow> x \<in> set xs \<and> farID x = i \<or> mget m i = Some x" for m
  proof (induction xs arbitrary: m)
    case (Cons y ys)
    then have "x \<in> set ys \<and> farID x = i \<or> mget (mput (farID y) y m) i = Some x" by simp
    then show ?case by (auto simp: map_simps split: if_splits)
  qed simp
  from this [of "[]"] show "mget (far_map xs) i = Some x \<Longrightarrow> x \<in> set xs \<and> farID x = i"
    by (simp add: far_map_def)
qed

lemma sync_rules_facts:
  assumes nf: "no_faults mf" and ok: "compilable c sess"
  shows "\<exists>st'. syncRules mf c sess rm d = Ok st' \<and> same_ports d (ssDP st') \<and> ssFirstErr st' = None \<and>
    (\<forall>k. mget (dpRules (ssDP st')) k = (case pdr_for d (uPDRs sess) k of
       Some p \<Rightarrow> (if rm then None else Some (value_of c d (far_map (uFARs sess)) p)) | None \<Rightarrow> mget (dpRules d) k))"
proof -
  have v: "\<exists>v. buildValue c d p x = Ok v" if "mget (far_map (uFARs sess)) (pdrFARID p) = Some x" for p x d
    using far_map_mem [OF that] ok by (intro as4_total) (auto simp: compilable_def)
  have src: "\<forall>p \<in> set (uPDRs sess). pdrLocalTEID p \<noteq> 0 \<longrightarrow> pdrSourceInterface p = 0 \<or> pdrSourceInterface p = 1"
    using ok by (simp add: compilable_def)
  show ?thesis
    unfolding syncRules_def
    using sync_loop_facts [OF nf src v, where rm = rm and st = "\<lparr>ssDP = d, ssFirstErr = None,
        ssAdded = 0, ssUpdated = 0, ssRemoved = 0, ssUnchanged = 0\<rparr>"]
    by (simp only: sync_state.simps)
qed

text \<open>
  C11: synchronising the kernel rules. When the kernel maps accept the operations and the
  session uses access and core PDRs with IPv4 addresses, installing or updating a session
  succeeds and afterwards the rule map holds, for every TEID and port of a PDR of the session,
  the rule compiled from the last such PDR and its FAR; every other rule is untouched. Removing
  the session deletes exactly the rules of its TEIDs and ports.
\<close>

theorem session_rules_synchronised:
  assumes "no_faults mf" and "compilable c sess"
  shows "(\<exists>st. installSession mf c sess d = Ok st \<and> ssFirstErr st = None \<and>
      (\<forall>k. mget (dpRules (ssDP st)) k = (case pdr_for d (uPDRs sess) k of
         Some p \<Rightarrow> Some (value_of c d (far_map (uFARs sess)) p) | None \<Rightarrow> mget (dpRules d) k))) \<and>
    (\<exists>st. removeSession mf c sess d = Ok st \<and> ssFirstErr st = None \<and>
      (\<forall>k. mget (dpRules (ssDP st)) k = (case pdr_for d (uPDRs sess) k of
         Some p \<Rightarrow> None | None \<Rightarrow> mget (dpRules d) k)))"
  unfolding installSession_def removeSession_def
  using sync_rules_facts [OF assms, where rm = False and d = d, unfolded if_False]
    sync_rules_facts [OF assms, where rm = True and d = d, unfolded if_True]
  by blast


abbreviation sample_compiler :: compiler where
  "sample_compiler \<equiv> \<lparr>cS1uLocalIP = IP4 0x0A000004, cS5uLocalIP = IP4 0x0A000005,
     cQos = \<lparr>qcEnabled = False, qcOverrideDefaultGTPU = False, qcDefaultGTPUDSCP = 0, qcQCIToDSCP = []\<rparr>\<rparr>"

abbreviation sample_faults :: map_faults where
  "sample_faults \<equiv> \<lparr>mfLookup = \<lambda>_. False, mfPut = \<lambda>_. False, mfDelete = \<lambda>_. False,
     mfStatsInit = \<lambda>_. False, mfStatsDelete = \<lambda>_. False\<rparr>"

abbreviation sample_dp :: dataplane where
  "sample_dp \<equiv> \<lparr>dpS1uIfindex = 3, dpS5uIfindex = 4, dpRules = [], dpStats = []\<rparr>"

theorem session_rules_synchronised_witness:
  "\<exists>st. installSession sample_faults sample_compiler (sample_uheap 2 DropReasonNone 0) sample_dp = Ok st \<and>
     mget (dpRules (ssDP st)) \<lparr>rkTeid = 9, rkIfindex = 4\<rparr> =
       Some (value_of sample_compiler sample_dp (far_map [sample_far 2 DropReasonNone]) sample_pdr)"
proof -
  have "no_faults sample_faults" "compilable sample_compiler (sample_uheap 2 DropReasonNone 0)"
    by (simp_all add: no_faults_def compilable_def)
  from session_rules_synchronised [OF this, of sample_dp, THEN conjunct1] obtain st where
    st: "installSession sample_faults sample_compiler (sample_uheap 2 DropReasonNone 0) sample_dp = Ok st"
    "\<forall>k. mget (dpRules (ssDP st)) k = (case pdr_for sample_dp (uPDRs (sample_uheap 2 DropReasonNone 0)) k of
       Some p \<Rightarrow> Some (value_of sample_compiler sample_dp (far_map (uFARs (sample_uheap 2 DropReasonNone 0))) p)
     | None \<Rightarrow> mget (dpRules sample_dp) k)"
    by blast
  have "pdr_for sample_dp (uPDRs (sample_uheap 2 DropReasonNone 0)) \<lparr>rkTeid = 9, rkIfindex = 4\<rparr> = Some sample_pdr"
    by (simp add: pdr_for_def key_of_def)
  with st(1) spec [OF st(2), of "\<lparr>rkTeid = 9, rkIfindex = 4\<rparr>"] show ?thesis by simp
qed

section \<open>Agreement with the userspace forwarder\<close>

lemma applyQoS_keeps [simp]:
  "rvAction (applyQoSMetadata c p v) = rvAction v" "rvOuterDstIp (applyQoSMetadata c p v) = rvOuterDstIp v"
  "rvNewTeid (applyQoSMetadata c p v) = rvNewTeid v"
  by (simp_all add: applyQoSMetadata_def)

lemma buildValue_forward:
  assumes "buildValue c d p x = Ok v"
  shows "rvAction v \<in> {actionForward, actionDrop, actionPunt}"
    and "rvAction v = actionForward \<Longrightarrow> farApplyAction x AND 2 \<noteq> 0 \<and> isValid (farOuterIP x) \<and>
      as4 (farOuterIP x) = (Ok (rvOuterDstIp v) :: (gtpu_error, bytes) outcome) \<and> rvNewTeid v = farOuterTEID x"
    and "rvAction v = actionDrop \<Longrightarrow> farApplyAction x AND 2 = 0 \<and>
      \<not> (pdrSourceInterface p = 1 \<and> farDropReason x = DropReasonReleaseAccessBearers)"
proof -
  have same: "as4 a = (Ok b :: (bpf_error, bytes) outcome) \<Longrightarrow> as4 a = (Ok b :: (gtpu_error, bytes) outcome)" for a b
    by (cases a) (auto split: if_splits)
  show "rvAction v \<in> {actionForward, actionDrop, actionPunt}"
    using assms by (auto simp: buildValue_def Let_def obind_Ok_iff split: if_splits)
  show "rvAction v = actionForward \<Longrightarrow> farApplyAction x AND 2 \<noteq> 0 \<and> isValid (farOuterIP x) \<and>
      as4 (farOuterIP x) = (Ok (rvOuterDstIp v) :: (gtpu_error, bytes) outcome) \<and> rvNewTeid v = farOuterTEID x"
    using assms same by (auto simp: buildValue_def Let_def obind_Ok_iff action_defs split: if_splits)
  show "rvAction v = actionDrop \<Longrightarrow> farApplyAction x AND 2 = 0 \<and>
      \<not> (pdrSourceInterface p = 1 \<and> farDropReason x = DropReasonReleaseAccessBearers)"
    using assms by (auto simp: buildValue_def Let_def obind_Ok_iff action_defs split: if_splits)
qed

text \<open>
  C10: the kernel path agrees with the userspace path. For the PDR and FAR a G-PDU resolves to,
  the compiled action is one of forward, drop and punt. Where the kernel drops, the userspace
  forwarder would drop without any report; where it forwards to an address with a non-zero
  TEID, userspace would send the same packet to the same address with the same TEID. They
  differ on one kind of rule: with an outer TEID of zero userspace drops while the kernel rule
  forwards.
\<close>

theorem kernel_agrees_with_userspace:
  assumes look: "findByLocalTEID h s (gTEID hdr) = Some (r, p)"
    and far: "find_far (pdrFARID p) (uFARs (h r)) = Some x" and val: "buildValue c d p x = Ok v"
    and wr: "\<And>b a. wr b a"
  shows "rvAction v \<in> {actionForward, actionDrop, actionPunt} \<and>
    (rvAction v = actionDrop \<longrightarrow> handleGPDU wr h s hdr tpdu src localIP f = Ok (drop1 f, [])) \<and>
    (rvAction v = actionForward \<and> farOuterTEID x \<noteq> 0 \<longrightarrow>
       (\<exists>f'. handleGPDU wr h s hdr tpdu src localIP f = Ok (f', [SendUDP
          (gtpu_marshal (relay_header (rvNewTeid v) hdr) (length tpdu) @ tpdu) (peer_udp (rvOuterDstIp v))]))) \<and>
    (rvAction v = actionForward \<and> farOuterTEID x = 0 \<longrightarrow> handleGPDU wr h s hdr tpdu src localIP f = Ok (drop1 f, []))"
proof -
  note b = buildValue_forward [OF val]
  have "handleGPDU wr h s hdr tpdu src localIP f = Ok (drop1 f, [])" if "rvAction v = actionDrop"
    using b(3) [OF that] look far by (auto simp: handleGPDU_def applyActionFORW_def)
  moreover have g: "handleGPDU wr h s hdr tpdu src localIP f = forwardGPDU wr hdr x tpdu f" if "rvAction v = actionForward"
    using b(2) [OF that] look far by (simp add: handleGPDU_def applyActionFORW_def)
  moreover have "\<exists>f'. forwardGPDU wr hdr x tpdu f = Ok (f', [SendUDP
      (gtpu_marshal (relay_header (rvNewTeid v) hdr) (length tpdu) @ tpdu) (peer_udp (rvOuterDstIp v))])"
    if "rvAction v = actionForward" "farOuterTEID x \<noteq> 0"
    using b(2) [OF that(1)] that(2) wr by (simp add: forwardGPDU_def write_udp_def Let_def)
  moreover have "forwardGPDU wr hdr x tpdu f = Ok (drop1 f, [])" if "farOuterTEID x = 0"
    using that by (simp add: forwardGPDU_def)
  ultimately show ?thesis using b(1) by auto
qed

theorem kernel_agrees_with_userspace_witness:
  "handleGPDU (\<lambda>_ _. True) (sample_uheap 1 DropReasonPolicy) sample_ustore
      (zero_gtpu_header\<lparr>gTEID := 9\<rparr>) [] sample_src NoAddr sample_forwarder = Ok (drop1 sample_forwarder, [])"
proof -
  have v: "buildValue sample_compiler sample_dp sample_pdr (sample_far 1 DropReasonPolicy) =
      Ok (zero_value\<lparr>rvCounterId := 9, rvAction := actionDrop\<rparr>)"
    by (simp add: buildValue_def)
  show ?thesis
    using kernel_agrees_with_userspace [OF _ _ v, where h = "sample_uheap 1 DropReasonPolicy" and s = sample_ustore
        and hdr = "zero_gtpu_header\<lparr>gTEID := 9\<rparr>" and wr = "\<lambda>_ _. True" and r = 0 and tpdu = "[]" and src = sample_src
        and localIP = NoAddr and f = sample_forwarder]
    by (simp add: findByLocalTEID_def zero_gtpu_header_def zero_value_def)
qed

end
