(* ===== verification/Go_Net.thy ===== *)
theory Go_Net
  imports SGW_Prelude
begin

text \<open>
  The parts of Go's \<^verbatim>\<open>strconv\<close>, \<^verbatim>\<open>net/netip\<close> and \<^verbatim>\<open>net\<close> packages that the SGW-C
  uses to write addresses as text and to read them back: \<^verbatim>\<open>Itoa\<close>, \<^verbatim>\<open>Addr.String\<close>,
  \<^verbatim>\<open>ParseAddr\<close>, \<^verbatim>\<open>SplitHostPort\<close> and \<^verbatim>\<open>JoinHostPort\<close>. Addresses with a zone
  do not occur in the program and are not represented: a text with a zone is refused.
  The lemmas show that a printed IPv4 address is parsed back, and when a host and port
  are split as they were joined.
\<close>

section \<open>Decimal and hexadecimal digits\<close>

definition chr :: "nat \<Rightarrow> char" where
  "chr n = char_of n"

definition code :: "char \<Rightarrow> nat" where
  "code c = of_char c"

definition is_digit :: "char \<Rightarrow> bool" where
  "is_digit c \<longleftrightarrow> 48 \<le> code c \<and> code c \<le> 57"

definition digit :: "nat \<Rightarrow> char" where
  "digit n = chr (48 + n)"

fun itoa :: "nat \<Rightarrow> string" where
  "itoa n = (if n < 10 then [digit n] else itoa (n div 10) @ [digit (n mod 10)])"

declare itoa.simps [simp del]

lemma code_chr [simp]: "n < 256 \<Longrightarrow> code (chr n) = n"
  by (simp add: code_def chr_def)

lemma code_digit [simp]: "n < 10 \<Longrightarrow> code (digit n) = 48 + n"
  by (simp add: digit_def)

lemma is_digit_digit [simp]: "n < 10 \<Longrightarrow> is_digit (digit n)"
  by (simp add: is_digit_def)

lemma itoa_digits: "c \<in> set (itoa n) \<Longrightarrow> is_digit c"
  by (induction n rule: itoa.induct) (subst (asm) itoa.simps, auto split: if_splits)

lemma itoa_not_Nil [simp]: "itoa n \<noteq> []"
  by (subst itoa.simps) simp

definition hex_val :: "char \<Rightarrow> nat option" where
  "hex_val c =
     (if is_digit c then Some (code c - 48)
      else if 97 \<le> code c \<and> code c \<le> 102 then Some (code c - 97 + 10)
      else if 65 \<le> code c \<and> code c \<le> 70 then Some (code c - 65 + 10)
      else None)"

definition hex_digit :: "nat \<Rightarrow> char" where
  "hex_digit n = (if n < 10 then digit n else chr (87 + n))"

text \<open>\<open>appendHex\<close>: a 16-bit group without leading zeros.\<close>

fun hex_text :: "nat \<Rightarrow> string" where
  "hex_text n = (if n < 16 then [hex_digit n] else hex_text (n div 16) @ [hex_digit (n mod 16)])"

declare hex_text.simps [simp del]

section \<open>Addresses as text (net/netip)\<close>

definition octets :: "u32 \<Rightarrow> nat list" where
  "octets w = map unat (be32 w)"

definition dotted :: "nat \<Rightarrow> nat \<Rightarrow> nat \<Rightarrow> nat \<Rightarrow> string" where
  "dotted a b c d = itoa a @ ''.'' @ itoa b @ ''.'' @ itoa c @ ''.'' @ itoa d"

definition string4 :: "u32 \<Rightarrow> string" where
  "string4 w = (case octets w of [a, b, c, d] \<Rightarrow> dotted a b c d | _ \<Rightarrow> [])"

text \<open>The eight 16-bit groups of an IPv6 address, and the longest first run of at least
  two zero groups.\<close>

definition groups :: "128 word \<Rightarrow> nat list" where
  "groups w = map (\<lambda>i. unat (ucast (drop_bit (16 * (7 - i)) w) :: u16)) [0..<8]"

definition zero_run :: "nat list \<Rightarrow> nat \<Rightarrow> nat" where
  "zero_run gs i = length (takeWhile (\<lambda>g. g = 0) (drop i gs))"

definition best_run :: "nat list \<Rightarrow> nat \<times> nat" where
  "best_run gs = fold (\<lambda>i (st, len). if 2 \<le> zero_run gs i \<and> len < zero_run gs i
     then (i, zero_run gs i) else (st, len)) [0..<8] (255, 0)"

fun join_groups :: "nat list \<Rightarrow> string" where
  "join_groups [] = []"
| "join_groups [g] = hex_text g"
| "join_groups (g # gs) = hex_text g @ '':'' @ join_groups gs"

definition string6 :: "128 word \<Rightarrow> string" where
  "string6 w = (let gs = groups w; (st, len) = best_run gs in
     if len = 0 then join_groups gs
     else join_groups (take st gs) @ ''::'' @ join_groups (drop (st + len) gs))"

fun addr_String :: "ip_addr \<Rightarrow> string" where
  "addr_String NoAddr = ''invalid IP''"
| "addr_String (IP4 w) = string4 w"
| "addr_String (IP6 w) =
     (if drop_bit 32 w = 0xFFFF then ''::ffff:'' @ string4 (ucast w) else string6 w)"

text \<open>
  \<open>parseIPv4Fields\<close>: \<open>fs\<close> are the fields stored so far, \<open>val\<close> and \<open>dl\<close> the value and the
  number of digits of the current one.
\<close>

fun parse4_fields :: "nat list \<Rightarrow> nat \<Rightarrow> nat \<Rightarrow> string \<Rightarrow> nat list option" where
  "parse4_fields fs val dl [] = (if length fs < 3 then None else Some (fs @ [val]))"
| "parse4_fields fs val dl (c # s) =
     (if is_digit c then
        if dl = 1 \<and> val = 0 then None
        else if 255 < val * 10 + (code c - 48) then None
        else parse4_fields fs (val * 10 + (code c - 48)) (dl + 1) s
      else if c = CHR ''.'' then
        if dl = 0 \<or> s = [] then None
        else if length fs = 3 then None
        else parse4_fields (fs @ [val]) 0 0 s
      else None)"

definition parse4 :: "string \<Rightarrow> ip_addr option" where
  "parse4 s = (case parse4_fields [] 0 0 s of
     Some [a, b, c, d] \<Rightarrow> Some (addrFrom4 (of_nat a) (of_nat b) (of_nat c) (of_nat d))
   | _ \<Rightarrow> None)"

text \<open>A group of hexadecimal digits: its value, its length and the rest; at most four.\<close>

fun hex_group :: "nat \<Rightarrow> nat \<Rightarrow> string \<Rightarrow> (nat \<times> nat \<times> string) option" where
  "hex_group acc off [] = Some (acc, off, [])"
| "hex_group acc off (c # s) = (case hex_val c of
     None \<Rightarrow> Some (acc, off, c # s)
   | Some v \<Rightarrow> if 3 < off then None else hex_group (acc * 16 + v) (off + 1) s)"

text \<open>
  The loop of \<open>parseIPv6\<close>: \<open>ip\<close> are the bytes stored so far, \<open>el\<close> the position of the
  ellipsis. It stores two bytes or more in each round and stops at sixteen, so eight
  rounds are enough. The result is the bytes, the ellipsis and the unread text.
\<close>

fun parse6_loop :: "nat \<Rightarrow> nat list \<Rightarrow> nat option \<Rightarrow> string \<Rightarrow>
    (nat list \<times> nat option \<times> string) option" where
  "parse6_loop 0 ip el s = Some (ip, el, s)"
| "parse6_loop (Suc k) ip el s =
     (if 16 \<le> length ip then Some (ip, el, s) else
      case hex_group 0 0 s of
        None \<Rightarrow> None
      | Some (acc, off, r) \<Rightarrow>
          if off = 0 then None
          else if r \<noteq> [] \<and> hd r = CHR ''.'' then
            if el = None \<and> length ip \<noteq> 12 then None
            else if 16 < length ip + 4 then None
            else (case parse4_fields [] 0 0 s of
                None \<Rightarrow> None | Some fs \<Rightarrow> Some (ip @ fs, el, []))
          else
            let ip' = ip @ [acc div 256, acc mod 256] in
            if r = [] then Some (ip', el, [])
            else if hd r \<noteq> CHR '':'' then None
            else if tl r = [] then None
            else if hd (tl r) = CHR '':'' then
              if el \<noteq> None then None
              else if tl (tl r) = [] then Some (ip', Some (length ip'), [])
              else parse6_loop k ip' (Some (length ip')) (tl (tl r))
            else parse6_loop k ip' el (tl r))"

definition word_of_bytes :: "nat list \<Rightarrow> 128 word" where
  "word_of_bytes bs = fold (\<lambda>b w. push_bit 8 w OR of_nat b) bs 0"

definition parse6 :: "string \<Rightarrow> ip_addr option" where
  "parse6 s0 =
     (let lead = take 2 s0 = ''::''; s = (if lead then drop 2 s0 else s0) in
      if CHR ''%'' \<in> set s0 then None
      else if lead \<and> s = [] then Some (IP6 0)
      else case parse6_loop 8 [] (if lead then Some 0 else None) s of
        None \<Rightarrow> None
      | Some (ip, el, r) \<Rightarrow>
          if r \<noteq> [] then None
          else if length ip < 16 then
            (case el of None \<Rightarrow> None
             | Some e \<Rightarrow> Some (IP6 (word_of_bytes
                  (take e ip @ replicate (16 - length ip) 0 @ drop e ip))))
          else if el \<noteq> None then None
          else Some (IP6 (word_of_bytes ip)))"

fun parseAddr_scan :: "string \<Rightarrow> string \<Rightarrow> ip_addr option" where
  "parseAddr_scan s [] = None"
| "parseAddr_scan s (c # r) =
     (if c = CHR ''.'' then parse4 s
      else if c = CHR '':'' then parse6 s
      else if c = CHR ''%'' then None
      else parseAddr_scan s r)"

definition parseAddr :: "string \<Rightarrow> ip_addr option" where
  "parseAddr s = parseAddr_scan s s"

text \<open>A printed IPv4 address is parsed back.\<close>

lemma is_digit_dot [simp]: "\<not> is_digit (CHR ''.'')" "\<not> is_digit (CHR '':'')" "\<not> is_digit (CHR ''%'')"
    "\<not> is_digit (CHR ''['')" "\<not> is_digit (CHR '']'')"
  by (simp_all add: is_digit_def code_def)

lemma parse4_fields_itoa:
  assumes "n < 256"
  shows "parse4_fields fs 0 0 (itoa n @ s) =
    parse4_fields fs n (length (itoa n)) s"
proof -
  consider "n < 10" | "10 \<le> n" "n < 100" | "100 \<le> n" by linarith
  then show ?thesis
  proof cases
    case 1
    then show ?thesis by (simp add: itoa.simps [of n])
  next
    case 2
    then have "n div 10 < 10" "n div 10 \<noteq> 0" by auto
    with 2 show ?thesis by (simp add: itoa.simps [of n] itoa.simps [of "n div 10"])
  next
    case 3
    have d: "n div 10 div 10 < 10" "n div 10 div 10 \<noteq> 0" "\<not> n div 10 < 10" using 3 assms by auto
    have "n div 10 div 10 * 10 + n div 10 mod 10 = n div 10" "n div 10 * 10 + n mod 10 = n"
      by simp_all
    moreover have "n div 10 \<le> 25" using assms by auto
    ultimately show ?thesis
      using d 3 assms by (simp add: itoa.simps [of n] itoa.simps [of "n div 10"]
        itoa.simps [of "n div 10 div 10"])
  qed
qed

lemma parse4_fields_dotted:
  "a < 256 \<Longrightarrow> b < 256 \<Longrightarrow> c < 256 \<Longrightarrow> d < 256 \<Longrightarrow>
     parse4_fields [] 0 0 (dotted a b c d) = Some [a, b, c, d]"
  using parse4_fields_itoa [of d "[a, b, c]" "[]"]
  by (simp add: dotted_def parse4_fields_itoa)

lemma string4_dotted:
  "string4 w = dotted (unat (be32 w ! 0)) (unat (be32 w ! 1)) (unat (be32 w ! 2)) (unat (be32 w ! 3))"
  by (simp add: string4_def octets_def be32_def)

lemma unat_u8_lt [simp]: "unat (b :: u8) < 256"
  using unsigned_less [of b, where ?'a = nat] by simp

lemma parse4_string4 [simp]: "parse4 (string4 w) = Some (IP4 w)"
  by (simp add: parse4_def string4_dotted parse4_fields_dotted addrFrom4_def) (simp add: be32_def)

lemma parseAddr_scan_digits:
  "(\<And>c. c \<in> set p \<Longrightarrow> is_digit c) \<Longrightarrow> parseAddr_scan s (p @ r) = parseAddr_scan s r"
proof (induction p)
  case (Cons c p)
  have "is_digit c" by (rule Cons.prems) simp
  then have "c \<noteq> CHR ''.''" "c \<noteq> CHR '':''" "c \<noteq> CHR ''%''"
    by (metis is_digit_dot(1), metis is_digit_dot(2), metis is_digit_dot(3))
  moreover have "parseAddr_scan s (p @ r) = parseAddr_scan s r"
    by (rule Cons.IH) (use Cons.prems in simp)
  ultimately show ?case by simp
qed simp

lemma parseAddr_string4 [simp]: "parseAddr (string4 w) = Some (IP4 w)"
proof -
  have "parseAddr (string4 w) = parse4 (string4 w)"
    unfolding parseAddr_def
    by (subst (2) string4_dotted, unfold dotted_def, subst parseAddr_scan_digits)
       (auto dest: itoa_digits)
  then show ?thesis by simp
qed

lemma string4_not_Nil [simp]: "string4 w \<noteq> []"
  by (simp add: string4_dotted dotted_def)

section \<open>Host and port (net)\<close>

definition last_index :: "char \<Rightarrow> string \<Rightarrow> nat option" where
  "last_index c s = (if c \<in> set s then Some (length s - 1 - length (takeWhile (\<lambda>x. x \<noteq> c) (rev s)))
     else None)"

definition first_index :: "char \<Rightarrow> string \<Rightarrow> nat option" where
  "first_index c s = (if c \<in> set s then Some (length (takeWhile (\<lambda>x. x \<noteq> c) s)) else None)"

text \<open>\<open>SplitHostPort\<close>; the error is \<open>None\<close>. \<open>i\<close> is the last colon.\<close>

definition splitHostPort :: "string \<Rightarrow> (string \<times> string) option" where
  "splitHostPort hp = (case last_index CHR '':'' hp of
     None \<Rightarrow> None
   | Some i \<Rightarrow>
       if hd hp = CHR ''['' then
         (case first_index CHR '']'' hp of
            None \<Rightarrow> None
          | Some e \<Rightarrow>
              if e + 1 \<noteq> i then None
              else if CHR ''['' \<in> set (drop 1 hp) \<or> CHR '']'' \<in> set (drop (e + 1) hp) then None
              else Some (take (e - 1) (drop 1 hp), drop (i + 1) hp))
       else if CHR '':'' \<in> set (take i hp) then None
       else if CHR ''['' \<in> set hp \<or> CHR '']'' \<in> set hp then None
       else Some (take i hp, drop (i + 1) hp))"

definition joinHostPort :: "string \<Rightarrow> string \<Rightarrow> string" where
  "joinHostPort host port =
     (if CHR '':'' \<in> set host then ''['' @ host @ '']:'' @ port else host @ '':'' @ port)"

definition plain :: "string \<Rightarrow> bool" where
  "plain s \<longleftrightarrow> CHR ''['' \<notin> set s \<and> CHR '']'' \<notin> set s"

lemma last_index_split:
  "c \<notin> set q \<Longrightarrow> last_index c (p @ c # q) = Some (length p)"
  by (simp add: last_index_def takeWhile_append)

lemma first_index_split:
  "c \<notin> set p \<Longrightarrow> first_index c (p @ c # q) = Some (length p)"
  by (simp add: first_index_def takeWhile_append)

lemma split_join [simp]:
  assumes "plain host" "plain port" "CHR '':'' \<notin> set port"
  shows "splitHostPort (joinHostPort host port) = Some (host, port)"
proof (cases "CHR '':'' \<in> set host")
  case True
  have l: "last_index CHR '':'' (''['' @ host @ '']:'' @ port) = Some (length host + 2)"
    using last_index_split [of "CHR '':''" port "''['' @ host @ '']''"] assms(3) by simp
  have f: "first_index CHR '']'' (''['' @ host @ '']:'' @ port) = Some (length host + 1)"
    using first_index_split [of "CHR '']''" "''['' @ host" "'':'' @ port"] assms(1)
    by (simp add: plain_def)
  from True assms show ?thesis
    by (simp add: splitHostPort_def joinHostPort_def l [simplified] f [simplified] plain_def)
next
  case False
  have l: "last_index CHR '':'' (host @ '':'' @ port) = Some (length host)"
    using last_index_split [of "CHR '':''" port host] assms(3) by simp
  have "hd (host @ '':'' @ port) \<noteq> CHR ''[''"
    using assms(1) by (cases host) (auto simp: plain_def)
  with False assms show ?thesis
    by (simp add: splitHostPort_def joinHostPort_def l [simplified] plain_def)
qed

end
