(* ===== verification/Session_State.thy ===== *)
theory Session_State
  imports Go_Net Collision
begin

text \<open>
  The SGW-C session: the bearer model (\<^verbatim>\<open>internal/sgwc/bearer/bearer.go\<close>), the session
  with every method of \<^verbatim>\<open>internal/sgwc/session/session.go\<close>, the checkpoint notification
  (\<^verbatim>\<open>checkpoint.go\<close>), and the durable snapshot with its restoration
  (\<^verbatim>\<open>snapshot.go\<close>, \<^verbatim>\<open>restore.go\<close>; the snapshot types are those of
  \<^verbatim>\<open>internal/sgwc/sessioncheckpoint/store.go\<close>). A method takes the session, its
  arguments and the readings of \<^verbatim>\<open>time.Now\<close> it makes, and returns the session with the
  notifications handed to the checkpoint sink, in order. The Go string types keep their
  texts. A bearer belongs to one session, so the map holds bearers, not pointers.
  The lemmas show: the lifecycle state only moves along \<open>validTransition\<close> whatever method is
  called; rule identifiers of dedicated bearers are fresh up to the width of a PDR ID;
  every durable change is followed by a snapshot of the new state; invalidating a PFCP
  binding leaves no F-TEID of the lost SGW-U; and a restored snapshot is the session that
  was saved.
\<close>

named_theorems state_consts \<open>texts of the state constants\<close>

section \<open>Bearers\<close>

definition BearerStatePending :: string where "BearerStatePending = ''pending''"
definition BearerStateActive :: string where "BearerStateActive = ''active''"

text \<open>\<open>FTEID\<close>, of both packages.\<close>

record ep_fteid =
  ep_TEID :: u32
  ep_IPv4 :: ip_addr

definition noFTEID :: ep_fteid where
  "noFTEID = \<lparr>ep_TEID = 0, ep_IPv4 = NoAddr\<rparr>"

record arp =
  PriorityLevel :: u8
  PreemptionCapability :: bool
  PreemptionVulnerability :: bool

record bearer =
  b_EBI :: u8
  b_QCI :: u8
  b_ARP :: arp
  b_ENBS1U :: ep_fteid
  b_SGWS1U :: ep_fteid
  b_PGWS5U :: ep_fteid
  b_SGWS5U :: ep_fteid
  b_MBRUplink :: u64
  b_MBRDownlink :: u64
  b_GBRUplink :: u64
  b_GBRDownlink :: u64
  b_TFT :: "bytes option"
  b_State :: string
  b_PDRIDs :: "u32 \<times> u32"
  b_FARIDs :: "u32 \<times> u32"
  b_LastControlActivityAt :: gtime
  b_LastUserPlaneActivityAt :: gtime
  b_LastActivitySource :: string
  b_InactiveSince :: gtime
  b_CleanupEligible :: bool

section \<open>The session\<close>

definition StatePending :: string where [state_consts]: "StatePending = ''pending''"
definition StateActive :: string where [state_consts]: "StateActive = ''active''"
definition StateModifying :: string where [state_consts]: "StateModifying = ''modifying''"
definition StateRecovering :: string where [state_consts]: "StateRecovering = ''recovering''"
definition StateDeleting :: string where [state_consts]: "StateDeleting = ''deleting''"
definition StateDeleted :: string where [state_consts]: "StateDeleted = ''deleted''"

definition BearerActivitySourceCreateSession :: string where
  "BearerActivitySourceCreateSession = ''create_session''"
definition BearerActivitySourceSetBearer :: string where
  "BearerActivitySourceSetBearer = ''set_bearer''"
definition BearerActivitySourceDeleteBearer :: string where
  "BearerActivitySourceDeleteBearer = ''delete_bearer''"
definition BearerActivitySourceReleaseAccess :: string where
  "BearerActivitySourceReleaseAccess = ''release_access_bearers''"

record fseid =
  SEID :: u64
  fs_IPv4 :: ip_addr

record pfcp_binding =
  LocalFSEID :: fseid
  SGWUFSEID :: fseid
  SGWUName :: string
  SGWUAddr :: string
  Established :: bool

definition noFSEID :: fseid where
  "noFSEID = \<lparr>SEID = 0, fs_IPv4 = NoAddr\<rparr>"

definition noBinding :: pfcp_binding where
  "noBinding = \<lparr>LocalFSEID = noFSEID, SGWUFSEID = noFSEID, SGWUName = '''', SGWUAddr = '''',
     Established = False\<rparr>"

definition PFCPReconciliationUnknown :: string where [state_consts]:
  "PFCPReconciliationUnknown = ''unknown''"
definition PFCPReconciliationMatched :: string where [state_consts]:
  "PFCPReconciliationMatched = ''matched''"
definition PFCPReconciliationMissing :: string where [state_consts]:
  "PFCPReconciliationMissing = ''missing''"
definition PFCPReconciliationMismatched :: string where [state_consts]:
  "PFCPReconciliationMismatched = ''mismatched''"
definition PFCPReconciliationUnverifiable :: string where [state_consts]:
  "PFCPReconciliationUnverifiable = ''unverifiable''"
definition PFCPReconciliationNoBinding :: string where [state_consts]:
  "PFCPReconciliationNoBinding = ''no_binding''"

record pfcp_reconciliation =
  rec_State :: string
  rec_At :: gtime
  rec_Reason :: string

definition PGWPathStateUp :: string where "PGWPathStateUp = ''up''"
definition PGWPathStateDown :: string where "PGWPathStateDown = ''down''"
definition PGWPathStateRestarted :: string where "PGWPathStateRestarted = ''restarted''"

record pgw_failure =
  pf_PathState :: string
  pf_PGWAddr :: string
  pf_PathDownAt :: gtime
  pf_RestartDetectedAt :: gtime
  pf_RecoverySeen :: bool
  pf_RecoveryCounter :: u8

definition MMERestorationStateUp :: string where "MMERestorationStateUp = ''up''"
definition MMERestorationStateDown :: string where "MMERestorationStateDown = ''down''"
definition MMERestorationStateRestorationPending :: string where
  "MMERestorationStateRestorationPending = ''restoration_pending''"

record mme_restoration =
  mr_State :: string
  mr_MMEAddr :: string
  mr_PathDownAt :: gtime
  mr_RestartDetectedAt :: gtime
  mr_RecoverySeen :: bool
  mr_RecoveryCounter :: u8
  mr_RestorationPending :: bool
  mr_PolicyAction :: string
  mr_PolicyReason :: string
  mr_DDNTriggered :: bool
  mr_DDNTriggeredAt :: gtime
  mr_DDNSequence :: u32
  mr_DDNAcked :: bool
  mr_DDNAckedAt :: gtime
  mr_DDNAckCause :: u8
  mr_DDNFailureAt :: gtime
  mr_DDNFailureCause :: u8
  mr_DDNFailureReason :: string
  mr_DDNControlAction :: string
  mr_DDNControlPriority :: string
  mr_DDNControlReason :: string
  mr_DDNControlRetryAt :: gtime
  mr_DDNControlDecidedAt :: gtime
  mr_StopPagingSent :: bool
  mr_StopPagingSentAt :: gtime
  mr_StopPagingSequence :: u32
  mr_UserPlaneRestored :: bool
  mr_UserPlaneRestoredAt :: gtime
  mr_RestoredEBI :: u8

record secondary_rat_report =
  sr_ReceivedAt :: gtime
  sr_SourceProcedure :: string
  sr_MMEPeer :: string
  sr_SGWS11TEID :: u32
  sr_SequenceNumber :: u32
  sr_Payload :: bytes

record sgw_session =
  s_SessionID :: string
  s_IMSI :: string
  s_APN :: string
  s_RATType :: u8
  s_ServingNetwork :: string
  s_MMEControl :: ep_fteid
  s_SGWS11 :: ep_fteid
  s_PGWControl :: ep_fteid
  s_SGWS5C :: ep_fteid
  s_UEIPv4 :: ip_addr
  s_DefaultBearerID :: u8
  s_Bearers :: "(u8, bearer) gomap"
  s_PFCP :: pfcp_binding
  s_PFCPReconciliation :: pfcp_reconciliation
  s_Procedures :: "tracker option"
  s_SecondaryRAT :: "secondary_rat_report list"
  s_PGWFailure :: pgw_failure
  s_MMERestoration :: mme_restoration
  s_checkpointSink :: bool
  s_State :: string
  s_CreatedAt :: gtime
  s_UpdatedAt :: gtime
  s_nextRuleID :: u32

section \<open>Snapshots\<close>

record fteid_snapshot =
  fts_TEID :: u32
  fts_IPv4 :: string

record fseid_snapshot =
  fss_SEID :: u64
  fss_IPv4 :: string

record pfcp_binding_snapshot =
  pbs_LocalFSEID :: fseid_snapshot
  pbs_SGWUFSEID :: fseid_snapshot
  pbs_SGWUName :: string
  pbs_SGWUAddr :: string
  pbs_Established :: bool

text \<open>The snapshots of the three status structs have the fields of the structs, with the
  string types as plain strings.\<close>

type_synonym pfcp_reconciliation_snapshot = pfcp_reconciliation
type_synonym pgw_failure_snapshot = pgw_failure
type_synonym mme_restoration_snapshot = mme_restoration

record bearer_snapshot =
  bs_EBI :: u8
  bs_QCI :: u8
  bs_ARP :: arp
  bs_ENBS1U :: fteid_snapshot
  bs_SGWS1U :: fteid_snapshot
  bs_PGWS5U :: fteid_snapshot
  bs_SGWS5U :: fteid_snapshot
  bs_MBRUplink :: u64
  bs_MBRDownlink :: u64
  bs_GBRUplink :: u64
  bs_GBRDownlink :: u64
  bs_TFTRaw :: bytes
  bs_State :: string
  bs_PDRIDs :: "u32 \<times> u32"
  bs_FARIDs :: "u32 \<times> u32"
  bs_LastControlActivityAt :: gtime
  bs_LastUserPlaneActivityAt :: gtime
  bs_LastActivitySource :: string
  bs_InactiveSince :: gtime
  bs_CleanupEligible :: bool

record session_snapshot =
  sn_SchemaVersion :: int
  sn_SessionID :: string
  sn_IMSI :: string
  sn_APN :: string
  sn_RATType :: u8
  sn_ServingNetwork :: string
  sn_MMEControl :: fteid_snapshot
  sn_SGWS11 :: fteid_snapshot
  sn_PGWControl :: fteid_snapshot
  sn_SGWS5C :: fteid_snapshot
  sn_UEIPv4 :: string
  sn_DefaultBearerID :: u8
  sn_Bearers :: "bearer_snapshot list"
  sn_PFCP :: pfcp_binding_snapshot
  sn_PFCPReconciliation :: pfcp_reconciliation_snapshot
  sn_PGWFailure :: pgw_failure_snapshot
  sn_MMERestoration :: mme_restoration_snapshot
  sn_State :: string
  sn_CreatedAt :: gtime
  sn_UpdatedAt :: gtime
  sn_NextRuleID :: u32

definition CurrentSchemaVersion :: int where "CurrentSchemaVersion = 1"

definition addrString :: "ip_addr \<Rightarrow> string" where
  "addrString a = (if \<not> isValid a then '''' else addr_String a)"

definition fteidSnapshot :: "ep_fteid \<Rightarrow> fteid_snapshot" where
  "fteidSnapshot f = \<lparr>fts_TEID = ep_TEID f, fts_IPv4 = addrString (ep_IPv4 f)\<rparr>"

definition fseidSnapshot :: "fseid \<Rightarrow> fseid_snapshot" where
  "fseidSnapshot f = \<lparr>fss_SEID = SEID f, fss_IPv4 = addrString (fs_IPv4 f)\<rparr>"

definition pfcpReconciliationSnapshot :: "pfcp_reconciliation \<Rightarrow> pfcp_reconciliation_snapshot" where
  "pfcpReconciliationSnapshot r =
     \<lparr>rec_State = rec_State r, rec_At = rec_At r, rec_Reason = rec_Reason r\<rparr>"

definition pgwFailureSnapshot :: "pgw_failure \<Rightarrow> pgw_failure_snapshot" where
  "pgwFailureSnapshot p =
     \<lparr>pf_PathState = pf_PathState p, pf_PGWAddr = pf_PGWAddr p, pf_PathDownAt = pf_PathDownAt p,
      pf_RestartDetectedAt = pf_RestartDetectedAt p, pf_RecoverySeen = pf_RecoverySeen p,
      pf_RecoveryCounter = pf_RecoveryCounter p\<rparr>"

definition mmeRestorationSnapshot :: "mme_restoration \<Rightarrow> mme_restoration_snapshot" where
  "mmeRestorationSnapshot r =
     \<lparr>mr_State = mr_State r, mr_MMEAddr = mr_MMEAddr r, mr_PathDownAt = mr_PathDownAt r,
      mr_RestartDetectedAt = mr_RestartDetectedAt r, mr_RecoverySeen = mr_RecoverySeen r,
      mr_RecoveryCounter = mr_RecoveryCounter r,
      mr_RestorationPending = mr_RestorationPending r, mr_PolicyAction = mr_PolicyAction r,
      mr_PolicyReason = mr_PolicyReason r, mr_DDNTriggered = mr_DDNTriggered r,
      mr_DDNTriggeredAt = mr_DDNTriggeredAt r, mr_DDNSequence = mr_DDNSequence r,
      mr_DDNAcked = mr_DDNAcked r, mr_DDNAckedAt = mr_DDNAckedAt r,
      mr_DDNAckCause = mr_DDNAckCause r, mr_DDNFailureAt = mr_DDNFailureAt r,
      mr_DDNFailureCause = mr_DDNFailureCause r, mr_DDNFailureReason = mr_DDNFailureReason r,
      mr_DDNControlAction = mr_DDNControlAction r,
      mr_DDNControlPriority = mr_DDNControlPriority r,
      mr_DDNControlReason = mr_DDNControlReason r,
      mr_DDNControlRetryAt = mr_DDNControlRetryAt r,
      mr_DDNControlDecidedAt = mr_DDNControlDecidedAt r,
      mr_StopPagingSent = mr_StopPagingSent r, mr_StopPagingSentAt = mr_StopPagingSentAt r,
      mr_StopPagingSequence = mr_StopPagingSequence r,
      mr_UserPlaneRestored = mr_UserPlaneRestored r,
      mr_UserPlaneRestoredAt = mr_UserPlaneRestoredAt r, mr_RestoredEBI = mr_RestoredEBI r\<rparr>"

definition bearerSnapshot :: "bearer \<Rightarrow> bearer_snapshot" where
  "bearerSnapshot b =
     \<lparr>bs_EBI = b_EBI b, bs_QCI = b_QCI b, bs_ARP = b_ARP b,
      bs_ENBS1U = fteidSnapshot (b_ENBS1U b), bs_SGWS1U = fteidSnapshot (b_SGWS1U b),
      bs_PGWS5U = fteidSnapshot (b_PGWS5U b), bs_SGWS5U = fteidSnapshot (b_SGWS5U b),
      bs_MBRUplink = b_MBRUplink b, bs_MBRDownlink = b_MBRDownlink b,
      bs_GBRUplink = b_GBRUplink b, bs_GBRDownlink = b_GBRDownlink b,
      bs_TFTRaw = (case b_TFT b of None \<Rightarrow> [] | Some raw \<Rightarrow> raw),
      bs_State = b_State b, bs_PDRIDs = b_PDRIDs b, bs_FARIDs = b_FARIDs b,
      bs_LastControlActivityAt = b_LastControlActivityAt b,
      bs_LastUserPlaneActivityAt = b_LastUserPlaneActivityAt b,
      bs_LastActivitySource = b_LastActivitySource b, bs_InactiveSince = b_InactiveSince b,
      bs_CleanupEligible = b_CleanupEligible b\<rparr>"

text \<open>The bearers in the order of their EBIs.\<close>

definition bearer_snapshots :: "(u8, bearer) gomap \<Rightarrow> bearer_snapshot list" where
  "bearer_snapshots bs = concat (map (\<lambda>ebi. case mget bs ebi of
     None \<Rightarrow> [] | Some b \<Rightarrow> [bearerSnapshot b]) (sort (map fst bs)))"

definition Snapshot :: "sgw_session \<Rightarrow> session_snapshot" where
  "Snapshot s =
     \<lparr>sn_SchemaVersion = CurrentSchemaVersion, sn_SessionID = s_SessionID s, sn_IMSI = s_IMSI s,
      sn_APN = s_APN s, sn_RATType = s_RATType s, sn_ServingNetwork = s_ServingNetwork s,
      sn_MMEControl = fteidSnapshot (s_MMEControl s), sn_SGWS11 = fteidSnapshot (s_SGWS11 s),
      sn_PGWControl = fteidSnapshot (s_PGWControl s), sn_SGWS5C = fteidSnapshot (s_SGWS5C s),
      sn_UEIPv4 = addrString (s_UEIPv4 s), sn_DefaultBearerID = s_DefaultBearerID s,
      sn_Bearers = bearer_snapshots (s_Bearers s),
      sn_PFCP = \<lparr>pbs_LocalFSEID = fseidSnapshot (LocalFSEID (s_PFCP s)),
         pbs_SGWUFSEID = fseidSnapshot (SGWUFSEID (s_PFCP s)), pbs_SGWUName = SGWUName (s_PFCP s),
         pbs_SGWUAddr = SGWUAddr (s_PFCP s), pbs_Established = Established (s_PFCP s)\<rparr>,
      sn_PFCPReconciliation = pfcpReconciliationSnapshot (s_PFCPReconciliation s),
      sn_PGWFailure = pgwFailureSnapshot (s_PGWFailure s),
      sn_MMERestoration = mmeRestorationSnapshot (s_MMERestoration s),
      sn_State = s_State s, sn_CreatedAt = s_CreatedAt s, sn_UpdatedAt = s_UpdatedAt s,
      sn_NextRuleID = s_nextRuleID s\<rparr>"

section \<open>Checkpoints\<close>

text \<open>What the sink (\<open>CheckpointSink\<close>) is told. A session without a sink tells nothing.\<close>

datatype checkpoint_note = SaveSessionSnapshot session_snapshot | DeleteSessionSnapshot string

definition setCheckpointSink :: "bool \<Rightarrow> sgw_session \<Rightarrow> sgw_session" where
  "setCheckpointSink sink s = s\<lparr>s_checkpointSink := sink\<rparr>"

definition checkpoint :: "sgw_session \<Rightarrow> checkpoint_note list" where
  "checkpoint s = (if \<not> s_checkpointSink s then [] else [SaveSessionSnapshot (Snapshot s)])"

definition saved :: "sgw_session \<Rightarrow> sgw_session \<times> checkpoint_note list" where
  "saved s = (s, checkpoint s)"

section \<open>Methods of the session\<close>

definition AllocBearerRuleIDs :: "sgw_session \<Rightarrow> (u16 \<times> u16 \<times> u32 \<times> u32) \<times> sgw_session" where
  "AllocBearerRuleIDs s =
     (let base = (if s_nextRuleID s = 0 then 3 else s_nextRuleID s) in
      ((ucast base, ucast (base + 1), base, base + 1), s\<lparr>s_nextRuleID := base + 2\<rparr>))"

definition validTransition :: "string \<Rightarrow> string \<Rightarrow> bool" where
  "validTransition from to =
     (if from = StatePending then
        to = StateActive \<or> to = StateRecovering \<or> to = StateDeleting \<or> to = StateDeleted
      else if from = StateActive then
        to = StateModifying \<or> to = StateRecovering \<or> to = StateDeleting
      else if from = StateModifying then
        to = StateActive \<or> to = StateRecovering \<or> to = StateDeleting
      else if from = StateRecovering then
        to = StateActive \<or> to = StateDeleting \<or> to = StateDeleted
      else if from = StateDeleting then to = StateDeleted
      else False)"

definition Transition ::
    "gtime \<Rightarrow> string \<Rightarrow> sgw_session \<Rightarrow> bool \<times> sgw_session \<times> checkpoint_note list" where
  "Transition now nxt s =
     (if \<not> validTransition (s_State s) nxt then (False, s, [])
      else (True, saved (s\<lparr>s_State := nxt, s_UpdatedAt := now\<rparr>)))"

definition ProcedureTracker :: "sgw_session \<Rightarrow> tracker \<times> sgw_session" where
  "ProcedureTracker s = (case s_Procedures s of
     Some t \<Rightarrow> (t, s)
   | None \<Rightarrow> (newTracker, s\<lparr>s_Procedures := Some newTracker\<rparr>))"

definition SetSGWS5CFTEID ::
    "gtime \<Rightarrow> ep_fteid \<Rightarrow> sgw_session \<Rightarrow> sgw_session \<times> checkpoint_note list" where
  "SetSGWS5CFTEID now f s = saved (s\<lparr>s_SGWS5C := f, s_UpdatedAt := now\<rparr>)"

definition SetPGWControlFTEID ::
    "gtime \<Rightarrow> ep_fteid \<Rightarrow> sgw_session \<Rightarrow> sgw_session \<times> checkpoint_note list" where
  "SetPGWControlFTEID now f s = saved (s\<lparr>s_PGWControl := f, s_UpdatedAt := now\<rparr>)"

definition SetUEIPv4 ::
    "gtime \<Rightarrow> ip_addr \<Rightarrow> sgw_session \<Rightarrow> sgw_session \<times> checkpoint_note list" where
  "SetUEIPv4 now a s = saved (s\<lparr>s_UEIPv4 := a, s_UpdatedAt := now\<rparr>)"

definition noReconciliation :: pfcp_reconciliation where
  "noReconciliation = \<lparr>rec_State = '''', rec_At = 0, rec_Reason = ''''\<rparr>"

definition SetPFCPBinding ::
    "gtime \<Rightarrow> pfcp_binding \<Rightarrow> sgw_session \<Rightarrow> sgw_session \<times> checkpoint_note list" where
  "SetPFCPBinding now binding s =
     saved (s\<lparr>s_PFCP := binding, s_PFCPReconciliation := noReconciliation, s_UpdatedAt := now\<rparr>)"

text \<open>The move to \<open>StateRecovering\<close> that several methods make unless the session is going away.\<close>

definition to_recovering :: "sgw_session \<Rightarrow> sgw_session" where
  "to_recovering s = (if s_State s \<noteq> StateDeleting \<and> s_State s \<noteq> StateDeleted
     then s\<lparr>s_State := StateRecovering\<rparr> else s)"

definition to_active :: "sgw_session \<Rightarrow> sgw_session" where
  "to_active s = (if s_State s = StateRecovering then s\<lparr>s_State := StateActive\<rparr> else s)"

definition MarkPFCPReconciliation ::
    "gtime \<Rightarrow> string \<Rightarrow> string \<Rightarrow> gtime \<Rightarrow> sgw_session \<Rightarrow> sgw_session \<times> checkpoint_note list" where
  "MarkPFCPReconciliation now state reason at s =
     (let at = or_now now at;
          s1 = s\<lparr>s_PFCPReconciliation := \<lparr>rec_State = state, rec_At = at, rec_Reason = reason\<rparr>\<rparr>;
          s2 = (if state = PFCPReconciliationMatched then
                  (to_active s1)\<lparr>s_PFCP := (s_PFCP s1)\<lparr>Established := True\<rparr>\<rparr>
                else if state \<in> {PFCPReconciliationMissing, PFCPReconciliationMismatched,
                    PFCPReconciliationUnverifiable, PFCPReconciliationNoBinding} then to_recovering s1
                else s1)
      in saved (s2\<lparr>s_UpdatedAt := at\<rparr>))"

definition GetBearer :: "u8 \<Rightarrow> sgw_session \<Rightarrow> bearer option" where
  "GetBearer ebi s = mget (s_Bearers s) ebi"

definition BearerList :: "sgw_session \<Rightarrow> bearer list" where
  "BearerList s = map snd (s_Bearers s)"

definition BearerCount :: "sgw_session \<Rightarrow> nat" where
  "BearerCount s = length (s_Bearers s)"

definition markBearerControlActivityLocked :: "gtime \<Rightarrow> string \<Rightarrow> gtime \<Rightarrow> bearer \<Rightarrow> bearer" where
  "markBearerControlActivityLocked now source at b =
     b\<lparr>b_LastControlActivityAt := or_now now at,
       b_LastActivitySource := (if source \<noteq> '''' then source else b_LastActivitySource b),
       b_InactiveSince := 0, b_CleanupEligible := False\<rparr>"

text \<open>\<open>SetBearer\<close> dereferences its argument: a nil bearer is a panic.\<close>

definition SetBearer :: "gtime \<Rightarrow> gtime \<Rightarrow> bearer option \<Rightarrow> sgw_session \<Rightarrow>
    (unit, sgw_session \<times> checkpoint_note list) outcome" where
  "SetBearer now now' b s = (case b of
     None \<Rightarrow> Panic
   | Some b \<Rightarrow>
       Ok (saved (s\<lparr>s_Bearers := mput (b_EBI b)
             (markBearerControlActivityLocked now' BearerActivitySourceSetBearer now b) (s_Bearers s),
           s_UpdatedAt := now\<rparr>)))"

definition MarkBearerControlActivity :: "gtime \<Rightarrow> gtime \<Rightarrow> u8 \<Rightarrow> string \<Rightarrow> gtime \<Rightarrow> sgw_session \<Rightarrow>
    bool \<times> sgw_session \<times> checkpoint_note list" where
  "MarkBearerControlActivity now now' ebi source at s = (case mget (s_Bearers s) ebi of
     None \<Rightarrow> (False, s, [])
   | Some b \<Rightarrow>
       let at = or_now now at in
       (True, saved (s\<lparr>s_Bearers := mput ebi (markBearerControlActivityLocked now' source at b)
           (s_Bearers s), s_UpdatedAt := at\<rparr>)))"

definition MarkBearerUserPlaneActivity :: "gtime \<Rightarrow> u8 \<Rightarrow> string \<Rightarrow> gtime \<Rightarrow> sgw_session \<Rightarrow>
    bool \<times> sgw_session \<times> checkpoint_note list" where
  "MarkBearerUserPlaneActivity now ebi source at s = (case mget (s_Bearers s) ebi of
     None \<Rightarrow> (False, s, [])
   | Some b \<Rightarrow>
       let at = or_now now at;
           b' = b\<lparr>b_LastUserPlaneActivityAt := at,
                  b_LastActivitySource := (if source \<noteq> '''' then source else b_LastActivitySource b),
                  b_InactiveSince := 0, b_CleanupEligible := False\<rparr>
       in (True, saved (s\<lparr>s_Bearers := mput ebi b' (s_Bearers s), s_UpdatedAt := at\<rparr>)))"

definition ClearENBFTEIDs :: "gtime \<Rightarrow> gtime \<Rightarrow> sgw_session \<Rightarrow> sgw_session \<times> checkpoint_note list" where
  "ClearENBFTEIDs now now' s =
     saved (s\<lparr>s_Bearers := map (\<lambda>(ebi, b). (ebi,
           markBearerControlActivityLocked now' BearerActivitySourceReleaseAccess now
             (b\<lparr>b_ENBS1U := noFTEID\<rparr>))) (s_Bearers s),
         s_UpdatedAt := now\<rparr>)"

definition InvalidatePFCPBinding ::
    "gtime \<Rightarrow> gtime \<Rightarrow> sgw_session \<Rightarrow> bool \<times> sgw_session \<times> checkpoint_note list" where
  "InvalidatePFCPBinding now now' s =
     (if \<not> (Established (s_PFCP s) \<or> SEID (LocalFSEID (s_PFCP s)) \<noteq> 0 \<or>
             SEID (SGWUFSEID (s_PFCP s)) \<noteq> 0) then (False, s, [])
      else (True, saved ((to_recovering (s\<lparr>s_PFCP := noBinding,
          s_PFCPReconciliation := \<lparr>rec_State = PFCPReconciliationMissing, rec_At = now,
            rec_Reason = ''pfcp-binding-invalidated''\<rparr>,
          s_Bearers := map (\<lambda>(ebi, b). (ebi, b\<lparr>b_SGWS1U := noFTEID, b_SGWS5U := noFTEID\<rparr>))
            (s_Bearers s)\<rparr>))\<lparr>s_UpdatedAt := now'\<rparr>)))"

definition InvalidatePFCPBindingForPeer :: "gtime \<Rightarrow> gtime \<Rightarrow> string \<Rightarrow> string \<Rightarrow> sgw_session \<Rightarrow>
    bool \<times> sgw_session \<times> checkpoint_note list" where
  "InvalidatePFCPBindingForPeer now now' peerName peerAddr s =
     (if SGWUName (s_PFCP s) = peerName \<and> SGWUAddr (s_PFCP s) = peerAddr
      then InvalidatePFCPBinding now now' s else (False, s, []))"

text \<open>The deleted bearer is marked too; only a caller that still holds it sees that, so the
  marked bearer is part of the result.\<close>

definition DeleteBearer :: "gtime \<Rightarrow> gtime \<Rightarrow> gtime \<Rightarrow> u8 \<Rightarrow> sgw_session \<Rightarrow>
    bearer option \<times> sgw_session \<times> checkpoint_note list" where
  "DeleteBearer now now' now2 ebi s =
     (map_option (markBearerControlActivityLocked now' BearerActivitySourceDeleteBearer now)
        (mget (s_Bearers s) ebi),
      saved (s\<lparr>s_Bearers := mdel ebi (s_Bearers s), s_UpdatedAt := now2\<rparr>))"

definition RecordSecondaryRATUsageDataReports :: "(nat \<Rightarrow> gtime) \<Rightarrow> secondary_rat_report list \<Rightarrow>
    sgw_session \<Rightarrow> sgw_session \<times> checkpoint_note list" where
  "RecordSecondaryRATUsageDataReports clock reports s =
     (if reports = [] then (s, [])
      else saved (s\<lparr>s_SecondaryRAT := s_SecondaryRAT s @
          map (\<lambda>(i, r). r\<lparr>sr_ReceivedAt := or_now (clock i) (sr_ReceivedAt r)\<rparr>)
            (enumerate 0 reports),
        s_UpdatedAt := clock (length reports)\<rparr>))"

definition SecondaryRATUsageReports :: "sgw_session \<Rightarrow> secondary_rat_report list" where
  "SecondaryRATUsageReports s = s_SecondaryRAT s"

definition SetPGWPathState ::
    "gtime \<Rightarrow> string \<Rightarrow> string \<Rightarrow> gtime \<Rightarrow> sgw_session \<Rightarrow> sgw_session \<times> checkpoint_note list" where
  "SetPGWPathState now state pgwAddr at s =
     (let at = or_now now at;
          p1 = (s_PGWFailure s)\<lparr>pf_PathState := state\<rparr>;
          p2 = (if pgwAddr \<noteq> '''' then p1\<lparr>pf_PGWAddr := pgwAddr\<rparr> else p1);
          p3 = (if state = PGWPathStateDown \<and> pf_PathDownAt p2 = 0
                then p2\<lparr>pf_PathDownAt := at\<rparr> else p2);
          p4 = (if state = PGWPathStateUp then p3\<lparr>pf_PathDownAt := 0\<rparr> else p3)
      in saved (s\<lparr>s_PGWFailure := p4, s_UpdatedAt := at\<rparr>))"

definition MarkPGWRestart ::
    "gtime \<Rightarrow> string \<Rightarrow> u8 \<Rightarrow> gtime \<Rightarrow> sgw_session \<Rightarrow> sgw_session \<times> checkpoint_note list" where
  "MarkPGWRestart now pgwAddr recovery at s =
     (let at = or_now now at in
      saved (s\<lparr>s_PGWFailure := (s_PGWFailure s)\<lparr>pf_PathState := PGWPathStateRestarted,
          pf_PGWAddr := pgwAddr, pf_RestartDetectedAt := at, pf_RecoverySeen := True,
          pf_RecoveryCounter := recovery\<rparr>, s_UpdatedAt := at\<rparr>))"

definition SetMMEPathState ::
    "gtime \<Rightarrow> string \<Rightarrow> string \<Rightarrow> gtime \<Rightarrow> sgw_session \<Rightarrow> sgw_session \<times> checkpoint_note list" where
  "SetMMEPathState now state mmeAddr at s =
     (let at = or_now now at;
          r1 = (s_MMERestoration s)\<lparr>mr_State := state\<rparr>;
          r2 = (if mmeAddr \<noteq> '''' then r1\<lparr>mr_MMEAddr := mmeAddr\<rparr> else r1);
          r3 = (if state = MMERestorationStateDown \<and> mr_PathDownAt r2 = 0
                then r2\<lparr>mr_PathDownAt := at\<rparr> else r2);
          r4 = (if state = MMERestorationStateUp then r3\<lparr>mr_PathDownAt := 0\<rparr> else r3)
      in saved (s\<lparr>s_MMERestoration := r4, s_UpdatedAt := at\<rparr>))"

text \<open>The methods that only record a fact about the MME's restoration.\<close>

definition record_mme :: "gtime \<Rightarrow> (mme_restoration \<Rightarrow> mme_restoration) \<Rightarrow> sgw_session \<Rightarrow> sgw_session" where
  "record_mme at f s = s\<lparr>s_MMERestoration := f (s_MMERestoration s), s_UpdatedAt := at\<rparr>"

definition MarkMMERestart ::
    "gtime \<Rightarrow> string \<Rightarrow> u8 \<Rightarrow> gtime \<Rightarrow> sgw_session \<Rightarrow> sgw_session \<times> checkpoint_note list" where
  "MarkMMERestart now mmeAddr recovery at s =
     (let at = or_now now at in
      saved (record_mme at (\<lambda>r. r\<lparr>mr_State := MMERestorationStateRestorationPending,
        mr_MMEAddr := mmeAddr, mr_RestartDetectedAt := at, mr_RecoverySeen := True,
        mr_RecoveryCounter := recovery, mr_RestorationPending := True\<rparr>) s))"

definition SetMMERestorationPolicy ::
    "gtime \<Rightarrow> string \<Rightarrow> string \<Rightarrow> gtime \<Rightarrow> sgw_session \<Rightarrow> sgw_session \<times> checkpoint_note list" where
  "SetMMERestorationPolicy now act reason at s =
     saved (record_mme (or_now now at)
       (\<lambda>r. r\<lparr>mr_PolicyAction := act, mr_PolicyReason := reason\<rparr>) s)"

definition MarkMMERestorationDDNTriggered ::
    "gtime \<Rightarrow> u32 \<Rightarrow> gtime \<Rightarrow> sgw_session \<Rightarrow> sgw_session \<times> checkpoint_note list" where
  "MarkMMERestorationDDNTriggered now seq at s =
     (let at = or_now now at in
      saved (record_mme at (\<lambda>r. r\<lparr>mr_DDNTriggered := True, mr_DDNTriggeredAt := at,
        mr_DDNSequence := seq, mr_DDNFailureReason := ''''\<rparr>) s))"

definition MarkMMERestorationDDNFailed ::
    "gtime \<Rightarrow> string \<Rightarrow> gtime \<Rightarrow> sgw_session \<Rightarrow> sgw_session \<times> checkpoint_note list" where
  "MarkMMERestorationDDNFailed now reason at s =
     saved (record_mme (or_now now at) (\<lambda>r. r\<lparr>mr_DDNFailureReason := reason\<rparr>) s)"

definition MarkMMERestorationDDNControlDecision ::
    "gtime \<Rightarrow> string \<Rightarrow> string \<Rightarrow> string \<Rightarrow> duration \<Rightarrow> gtime \<Rightarrow> sgw_session \<Rightarrow>
     sgw_session \<times> checkpoint_note list" where
  "MarkMMERestorationDDNControlDecision now act priority reason retryAfter at s =
     (let at = or_now now at in
      saved (record_mme at (\<lambda>r. r\<lparr>mr_DDNControlAction := act, mr_DDNControlPriority := priority,
        mr_DDNControlReason := reason, mr_DDNControlDecidedAt := at,
        mr_DDNControlRetryAt := (if retryAfter > 0 then at + retryAfter else 0)\<rparr>) s))"

definition MarkMMERestorationDDNAck ::
    "gtime \<Rightarrow> u8 \<Rightarrow> gtime \<Rightarrow> sgw_session \<Rightarrow> sgw_session \<times> checkpoint_note list" where
  "MarkMMERestorationDDNAck now cause at s =
     (let at = or_now now at;
          s1 = record_mme at (\<lambda>r. r\<lparr>mr_DDNAcked := True, mr_DDNAckedAt := at,
                 mr_DDNAckCause := cause, mr_DDNFailureReason := ''''\<rparr>) s
      in saved (if cause = 16 then to_recovering s1 else s1))"

definition MarkMMERestorationDDNFailureIndication ::
    "gtime \<Rightarrow> u8 \<Rightarrow> gtime \<Rightarrow> sgw_session \<Rightarrow> sgw_session \<times> checkpoint_note list" where
  "MarkMMERestorationDDNFailureIndication now cause at s =
     (let at = or_now now at in
      saved (record_mme at (\<lambda>r. r\<lparr>mr_DDNFailureAt := at, mr_DDNFailureCause := cause,
        mr_DDNFailureReason := ''ddn-failure-indication''\<rparr>) s))"

definition MarkMMERestorationStopPagingSent ::
    "gtime \<Rightarrow> u32 \<Rightarrow> gtime \<Rightarrow> sgw_session \<Rightarrow> sgw_session \<times> checkpoint_note list" where
  "MarkMMERestorationStopPagingSent now seq at s =
     (let at = or_now now at in
      saved (record_mme at (\<lambda>r. r\<lparr>mr_StopPagingSent := True, mr_StopPagingSentAt := at,
        mr_StopPagingSequence := seq\<rparr>) s))"

definition MarkMMERestorationUserPlaneRestored ::
    "gtime \<Rightarrow> u8 \<Rightarrow> gtime \<Rightarrow> sgw_session \<Rightarrow> sgw_session \<times> checkpoint_note list" where
  "MarkMMERestorationUserPlaneRestored now ebi at s =
     (let at = or_now now at in
      saved (to_active (record_mme at (\<lambda>r. r\<lparr>mr_UserPlaneRestored := True,
        mr_UserPlaneRestoredAt := at, mr_RestoredEBI := ebi, mr_RestorationPending := False,
        mr_State := MMERestorationStateUp\<rparr>) s)))"


section \<open>Restoring a session\<close>

definition addrFromString :: "string \<Rightarrow> ip_addr" where
  "addrFromString v = (if v = [] then NoAddr else
     case parseAddr v of None \<Rightarrow> NoAddr | Some a \<Rightarrow> a)"

definition fteidFromSnapshot :: "fteid_snapshot \<Rightarrow> ep_fteid" where
  "fteidFromSnapshot f = \<lparr>ep_TEID = fts_TEID f, ep_IPv4 = addrFromString (fts_IPv4 f)\<rparr>"

definition fseidFromSnapshot :: "fseid_snapshot \<Rightarrow> fseid" where
  "fseidFromSnapshot f = \<lparr>SEID = fss_SEID f, fs_IPv4 = addrFromString (fss_IPv4 f)\<rparr>"

definition pfcpReconciliationFromSnapshot :: "pfcp_reconciliation_snapshot \<Rightarrow> pfcp_reconciliation" where
  "pfcpReconciliationFromSnapshot r =
     \<lparr>rec_State = rec_State r, rec_At = rec_At r, rec_Reason = rec_Reason r\<rparr>"

definition pgwFailureFromSnapshot :: "pgw_failure_snapshot \<Rightarrow> pgw_failure" where
  "pgwFailureFromSnapshot p =
     \<lparr>pf_PathState = pf_PathState p, pf_PGWAddr = pf_PGWAddr p, pf_PathDownAt = pf_PathDownAt p,
      pf_RestartDetectedAt = pf_RestartDetectedAt p, pf_RecoverySeen = pf_RecoverySeen p,
      pf_RecoveryCounter = pf_RecoveryCounter p\<rparr>"

definition mmeRestorationFromSnapshot :: "mme_restoration_snapshot \<Rightarrow> mme_restoration" where
  "mmeRestorationFromSnapshot r =
     \<lparr>mr_State = mr_State r, mr_MMEAddr = mr_MMEAddr r, mr_PathDownAt = mr_PathDownAt r,
      mr_RestartDetectedAt = mr_RestartDetectedAt r, mr_RecoverySeen = mr_RecoverySeen r,
      mr_RecoveryCounter = mr_RecoveryCounter r,
      mr_RestorationPending = mr_RestorationPending r, mr_PolicyAction = mr_PolicyAction r,
      mr_PolicyReason = mr_PolicyReason r, mr_DDNTriggered = mr_DDNTriggered r,
      mr_DDNTriggeredAt = mr_DDNTriggeredAt r, mr_DDNSequence = mr_DDNSequence r,
      mr_DDNAcked = mr_DDNAcked r, mr_DDNAckedAt = mr_DDNAckedAt r,
      mr_DDNAckCause = mr_DDNAckCause r, mr_DDNFailureAt = mr_DDNFailureAt r,
      mr_DDNFailureCause = mr_DDNFailureCause r, mr_DDNFailureReason = mr_DDNFailureReason r,
      mr_DDNControlAction = mr_DDNControlAction r,
      mr_DDNControlPriority = mr_DDNControlPriority r,
      mr_DDNControlReason = mr_DDNControlReason r,
      mr_DDNControlRetryAt = mr_DDNControlRetryAt r,
      mr_DDNControlDecidedAt = mr_DDNControlDecidedAt r,
      mr_StopPagingSent = mr_StopPagingSent r, mr_StopPagingSentAt = mr_StopPagingSentAt r,
      mr_StopPagingSequence = mr_StopPagingSequence r,
      mr_UserPlaneRestored = mr_UserPlaneRestored r,
      mr_UserPlaneRestoredAt = mr_UserPlaneRestoredAt r, mr_RestoredEBI = mr_RestoredEBI r\<rparr>"

definition bearerFromSnapshot :: "bearer_snapshot \<Rightarrow> bearer" where
  "bearerFromSnapshot b =
     \<lparr>b_EBI = bs_EBI b, b_QCI = bs_QCI b, b_ARP = bs_ARP b,
      b_ENBS1U = fteidFromSnapshot (bs_ENBS1U b), b_SGWS1U = fteidFromSnapshot (bs_SGWS1U b),
      b_PGWS5U = fteidFromSnapshot (bs_PGWS5U b), b_SGWS5U = fteidFromSnapshot (bs_SGWS5U b),
      b_MBRUplink = bs_MBRUplink b, b_MBRDownlink = bs_MBRDownlink b,
      b_GBRUplink = bs_GBRUplink b, b_GBRDownlink = bs_GBRDownlink b,
      b_TFT = (if bs_TFTRaw b \<noteq> [] then Some (bs_TFTRaw b) else None),
      b_State = bs_State b, b_PDRIDs = bs_PDRIDs b, b_FARIDs = bs_FARIDs b,
      b_LastControlActivityAt = bs_LastControlActivityAt b,
      b_LastUserPlaneActivityAt = bs_LastUserPlaneActivityAt b,
      b_LastActivitySource = bs_LastActivitySource b, b_InactiveSince = bs_InactiveSince b,
      b_CleanupEligible = bs_CleanupEligible b\<rparr>"

fun max_rule :: "u32 \<Rightarrow> u32 list \<Rightarrow> u32" where
  "max_rule m [] = m"
| "max_rule m (i # is) = max_rule (if i > m then i else m) is"

definition rule_ids :: "bearer_snapshot \<Rightarrow> u32 list" where
  "rule_ids b = [fst (bs_PDRIDs b), snd (bs_PDRIDs b), fst (bs_FARIDs b), snd (bs_FARIDs b)]"

definition nextRuleIDFromSnapshot :: "session_snapshot \<Rightarrow> u32" where
  "nextRuleIDFromSnapshot sn =
     (if sn_NextRuleID sn \<noteq> 0 then sn_NextRuleID sn
      else max_rule 2 (concat (map rule_ids (sn_Bearers sn))) + 1)"

datatype restore_error = BearerMissingEBI | DuplicateBearerEBI u8 | DefaultBearerMissing u8
  | DuplicateSessionID string | DuplicatePDN string u8 | DuplicateS5CTEID u32

fun restore_bearers :: "bearer_snapshot list \<Rightarrow> (u8, bearer) gomap \<Rightarrow>
    (restore_error, (u8, bearer) gomap) outcome" where
  "restore_bearers [] m = Ok m"
| "restore_bearers (b # bs) m =
     (if bs_EBI b = 0 then Fail BearerMissingEBI
      else if mget m (bs_EBI b) \<noteq> None then Fail (DuplicateBearerEBI (bs_EBI b))
      else restore_bearers bs (mput (bs_EBI b) (bearerFromSnapshot b) m))"

definition sessionFromSnapshot ::
    "gtime \<Rightarrow> session_snapshot \<Rightarrow> bool \<Rightarrow> (restore_error, sgw_session) outcome" where
  "sessionFromSnapshot now sn sink =
     obind (restore_bearers (sn_Bearers sn) []) (\<lambda>bearers.
     if mget bearers (sn_DefaultBearerID sn) = None
     then Fail (DefaultBearerMissing (sn_DefaultBearerID sn))
     else
       let createdAt = or_now now (sn_CreatedAt sn);
           updatedAt = (if sn_UpdatedAt sn = 0 then createdAt else sn_UpdatedAt sn)
       in Ok \<lparr>s_SessionID = sn_SessionID sn, s_IMSI = sn_IMSI sn, s_APN = sn_APN sn,
          s_RATType = sn_RATType sn, s_ServingNetwork = sn_ServingNetwork sn,
          s_MMEControl = fteidFromSnapshot (sn_MMEControl sn),
          s_SGWS11 = fteidFromSnapshot (sn_SGWS11 sn),
          s_PGWControl = fteidFromSnapshot (sn_PGWControl sn),
          s_SGWS5C = fteidFromSnapshot (sn_SGWS5C sn), s_UEIPv4 = addrFromString (sn_UEIPv4 sn),
          s_DefaultBearerID = sn_DefaultBearerID sn, s_Bearers = bearers,
          s_PFCP = \<lparr>LocalFSEID = fseidFromSnapshot (pbs_LocalFSEID (sn_PFCP sn)),
            SGWUFSEID = fseidFromSnapshot (pbs_SGWUFSEID (sn_PFCP sn)),
            SGWUName = pbs_SGWUName (sn_PFCP sn), SGWUAddr = pbs_SGWUAddr (sn_PFCP sn),
            Established = pbs_Established (sn_PFCP sn)\<rparr>,
          s_PFCPReconciliation = pfcpReconciliationFromSnapshot (sn_PFCPReconciliation sn),
          s_Procedures = Some newTracker, s_SecondaryRAT = [],
          s_PGWFailure = pgwFailureFromSnapshot (sn_PGWFailure sn),
          s_MMERestoration = mmeRestorationFromSnapshot (sn_MMERestoration sn),
          s_checkpointSink = sink, s_State = StateRecovering, s_CreatedAt = createdAt,
          s_UpdatedAt = updatedAt, s_nextRuleID = nextRuleIDFromSnapshot sn\<rparr>)"

section \<open>A new session\<close>

record create_params =
  cp_IMSI :: string
  cp_APN :: string
  cp_RATType :: u8
  cp_ServingNetwork :: string
  cp_MMEControl :: ep_fteid
  cp_ReuseSGWS11 :: ep_fteid
  cp_DefaultEBI :: u8
  cp_QCI :: u8
  cp_ARP :: arp
  cp_MBRUplink :: u64
  cp_MBRDownlink :: u64

definition defaultBearer :: "gtime \<Rightarrow> create_params \<Rightarrow> bearer" where
  "defaultBearer now p =
     \<lparr>b_EBI = cp_DefaultEBI p, b_QCI = cp_QCI p, b_ARP = cp_ARP p, b_ENBS1U = noFTEID,
      b_SGWS1U = noFTEID, b_PGWS5U = noFTEID, b_SGWS5U = noFTEID, b_MBRUplink = cp_MBRUplink p,
      b_MBRDownlink = cp_MBRDownlink p, b_GBRUplink = 0, b_GBRDownlink = 0, b_TFT = None,
      b_State = BearerStatePending, b_PDRIDs = (0, 0), b_FARIDs = (0, 0),
      b_LastControlActivityAt = now, b_LastUserPlaneActivityAt = 0,
      b_LastActivitySource = BearerActivitySourceCreateSession, b_InactiveSince = 0,
      b_CleanupEligible = False\<rparr>"

definition noPGWFailure :: pgw_failure where
  "noPGWFailure = \<lparr>pf_PathState = '''', pf_PGWAddr = '''', pf_PathDownAt = 0,
     pf_RestartDetectedAt = 0, pf_RecoverySeen = False, pf_RecoveryCounter = 0\<rparr>"

definition noMMERestoration :: mme_restoration where
  "noMMERestoration = \<lparr>mr_State = '''', mr_MMEAddr = '''', mr_PathDownAt = 0, mr_RestartDetectedAt = 0,
     mr_RecoverySeen = False, mr_RecoveryCounter = 0, mr_RestorationPending = False,
     mr_PolicyAction = '''', mr_PolicyReason = '''', mr_DDNTriggered = False,
     mr_DDNTriggeredAt = 0, mr_DDNSequence = 0, mr_DDNAcked = False, mr_DDNAckedAt = 0,
     mr_DDNAckCause = 0, mr_DDNFailureAt = 0, mr_DDNFailureCause = 0,
     mr_DDNFailureReason = '''', mr_DDNControlAction = '''', mr_DDNControlPriority = '''',
     mr_DDNControlReason = '''', mr_DDNControlRetryAt = 0, mr_DDNControlDecidedAt = 0,
     mr_StopPagingSent = False, mr_StopPagingSentAt = 0, mr_StopPagingSequence = 0,
     mr_UserPlaneRestored = False, mr_UserPlaneRestoredAt = 0, mr_RestoredEBI = 0\<rparr>"

definition newSession :: "gtime \<Rightarrow> string \<Rightarrow> ep_fteid \<Rightarrow> bool \<Rightarrow> create_params \<Rightarrow> sgw_session" where
  "newSession now sid sgwFTEID sink p =
     \<lparr>s_SessionID = sid, s_IMSI = cp_IMSI p, s_APN = cp_APN p, s_RATType = cp_RATType p,
      s_ServingNetwork = cp_ServingNetwork p, s_MMEControl = cp_MMEControl p, s_SGWS11 = sgwFTEID,
      s_PGWControl = noFTEID, s_SGWS5C = noFTEID, s_UEIPv4 = NoAddr,
      s_DefaultBearerID = cp_DefaultEBI p, s_Bearers = [(cp_DefaultEBI p, defaultBearer now p)],
      s_PFCP = noBinding, s_PFCPReconciliation = noReconciliation,
      s_Procedures = Some newTracker, s_SecondaryRAT = [], s_PGWFailure = noPGWFailure,
      s_MMERestoration = noMMERestoration, s_checkpointSink = sink, s_State = StatePending,
      s_CreatedAt = now, s_UpdatedAt = now, s_nextRuleID = 0\<rparr>"

text \<open>A session for the witnesses: EBI 5, one MME, created with the sink attached.\<close>

definition sample_params :: create_params where
  "sample_params = \<lparr>cp_IMSI = ''001010123456789'', cp_APN = ''internet'', cp_RATType = 6,
     cp_ServingNetwork = ''001-01'', cp_MMEControl = \<lparr>ep_TEID = 7, ep_IPv4 = IP4 0x0A000001\<rparr>,
     cp_ReuseSGWS11 = noFTEID, cp_DefaultEBI = 5, cp_QCI = 9,
     cp_ARP = \<lparr>PriorityLevel = 8, PreemptionCapability = False, PreemptionVulnerability = False\<rparr>,
     cp_MBRUplink = 0, cp_MBRDownlink = 0\<rparr>"

definition sample_session :: sgw_session where
  "sample_session = newSession 100 ''a1'' \<lparr>ep_TEID = 9, ep_IPv4 = NoAddr\<rparr> True sample_params"

section \<open>Histories of a session\<close>

text \<open>A call of a method, with the clock readings it makes.\<close>

datatype sess_call =
    C_AllocBearerRuleIDs | C_Transition gtime string | C_ProcedureTracker
  | C_SetSGWS5CFTEID gtime ep_fteid | C_SetPGWControlFTEID gtime ep_fteid
  | C_SetUEIPv4 gtime ip_addr | C_SetPFCPBinding gtime pfcp_binding
  | C_MarkPFCPReconciliation gtime string string gtime
  | C_SetBearer gtime gtime bearer
  | C_MarkBearerControlActivity gtime gtime u8 string gtime
  | C_MarkBearerUserPlaneActivity gtime u8 string gtime
  | C_ClearENBFTEIDs gtime gtime | C_InvalidatePFCPBinding gtime gtime
  | C_InvalidatePFCPBindingForPeer gtime gtime string string
  | C_DeleteBearer gtime gtime gtime u8
  | C_RecordSecondaryRAT "nat \<Rightarrow> gtime" "secondary_rat_report list"
  | C_SetPGWPathState gtime string string gtime | C_MarkPGWRestart gtime string u8 gtime
  | C_SetMMEPathState gtime string string gtime | C_MarkMMERestart gtime string u8 gtime
  | C_SetMMERestorationPolicy gtime string string gtime
  | C_DDNTriggered gtime u32 gtime | C_DDNFailed gtime string gtime
  | C_DDNControlDecision gtime string string string duration gtime
  | C_DDNAck gtime u8 gtime | C_DDNFailureIndication gtime u8 gtime
  | C_StopPagingSent gtime u32 gtime | C_UserPlaneRestored gtime u8 gtime

fun run_call :: "sess_call \<Rightarrow> sgw_session \<Rightarrow> sgw_session \<times> checkpoint_note list" where
  "run_call C_AllocBearerRuleIDs s = (snd (AllocBearerRuleIDs s), [])"
| "run_call (C_Transition now nxt) s = snd (Transition now nxt s)"
| "run_call C_ProcedureTracker s = (snd (ProcedureTracker s), [])"
| "run_call (C_SetSGWS5CFTEID now f) s = SetSGWS5CFTEID now f s"
| "run_call (C_SetPGWControlFTEID now f) s = SetPGWControlFTEID now f s"
| "run_call (C_SetUEIPv4 now a) s = SetUEIPv4 now a s"
| "run_call (C_SetPFCPBinding now b) s = SetPFCPBinding now b s"
| "run_call (C_MarkPFCPReconciliation now st rs at) s = MarkPFCPReconciliation now st rs at s"
| "run_call (C_SetBearer now now' b) s = (case SetBearer now now' (Some b) s of Ok r \<Rightarrow> r | _ \<Rightarrow> (s, []))"
| "run_call (C_MarkBearerControlActivity now now' ebi src at) s =
     snd (MarkBearerControlActivity now now' ebi src at s)"
| "run_call (C_MarkBearerUserPlaneActivity now ebi src at) s =
     snd (MarkBearerUserPlaneActivity now ebi src at s)"
| "run_call (C_ClearENBFTEIDs now now') s = ClearENBFTEIDs now now' s"
| "run_call (C_InvalidatePFCPBinding now now') s = snd (InvalidatePFCPBinding now now' s)"
| "run_call (C_InvalidatePFCPBindingForPeer now now' nm ad) s =
     snd (InvalidatePFCPBindingForPeer now now' nm ad s)"
| "run_call (C_DeleteBearer now now' now2 ebi) s = snd (DeleteBearer now now' now2 ebi s)"
| "run_call (C_RecordSecondaryRAT clock rs) s = RecordSecondaryRATUsageDataReports clock rs s"
| "run_call (C_SetPGWPathState now st ad at) s = SetPGWPathState now st ad at s"
| "run_call (C_MarkPGWRestart now ad rc at) s = MarkPGWRestart now ad rc at s"
| "run_call (C_SetMMEPathState now st ad at) s = SetMMEPathState now st ad at s"
| "run_call (C_MarkMMERestart now ad rc at) s = MarkMMERestart now ad rc at s"
| "run_call (C_SetMMERestorationPolicy now ac rs at) s = SetMMERestorationPolicy now ac rs at s"
| "run_call (C_DDNTriggered now seq at) s = MarkMMERestorationDDNTriggered now seq at s"
| "run_call (C_DDNFailed now rs at) s = MarkMMERestorationDDNFailed now rs at s"
| "run_call (C_DDNControlDecision now ac pr rs ra at) s =
     MarkMMERestorationDDNControlDecision now ac pr rs ra at s"
| "run_call (C_DDNAck now cause at) s = MarkMMERestorationDDNAck now cause at s"
| "run_call (C_DDNFailureIndication now cause at) s =
     MarkMMERestorationDDNFailureIndication now cause at s"
| "run_call (C_StopPagingSent now seq at) s = MarkMMERestorationStopPagingSent now seq at s"
| "run_call (C_UserPlaneRestored now ebi at) s = MarkMMERestorationUserPlaneRestored now ebi at s"

definition sess_step :: "sess_call \<Rightarrow> sgw_session \<Rightarrow> sgw_session" where
  "sess_step c s = fst (run_call c s)"

lemmas sess_defs = AllocBearerRuleIDs_def Transition_def ProcedureTracker_def SetSGWS5CFTEID_def
  SetPGWControlFTEID_def SetUEIPv4_def SetPFCPBinding_def MarkPFCPReconciliation_def SetBearer_def
  MarkBearerControlActivity_def MarkBearerUserPlaneActivity_def ClearENBFTEIDs_def
  InvalidatePFCPBinding_def InvalidatePFCPBindingForPeer_def DeleteBearer_def
  RecordSecondaryRATUsageDataReports_def SetPGWPathState_def MarkPGWRestart_def SetMMEPathState_def
  MarkMMERestart_def SetMMERestorationPolicy_def MarkMMERestorationDDNTriggered_def
  MarkMMERestorationDDNFailed_def MarkMMERestorationDDNControlDecision_def
  MarkMMERestorationDDNAck_def MarkMMERestorationDDNFailureIndication_def
  MarkMMERestorationStopPagingSent_def MarkMMERestorationUserPlaneRestored_def

lemma saved_simps [simp]: "fst (saved s) = s" "snd (saved s) = checkpoint s"
  by (simp_all add: saved_def)

lemma to_simps [simp]:
  "s_checkpointSink (to_recovering s) = s_checkpointSink s" "s_checkpointSink (to_active s) = s_checkpointSink s"
  "s_nextRuleID (to_recovering s) = s_nextRuleID s" "s_nextRuleID (to_active s) = s_nextRuleID s"
  "s_Bearers (to_recovering s) = s_Bearers s" "s_Bearers (to_active s) = s_Bearers s"
  "s_PFCP (to_recovering s) = s_PFCP s" "s_PFCP (to_active s) = s_PFCP s"
  by (simp_all add: to_recovering_def to_active_def)

lemma record_mme_simps [simp]:
  "s_checkpointSink (record_mme at f s) = s_checkpointSink s"
  "s_nextRuleID (record_mme at f s) = s_nextRuleID s"
  "s_State (record_mme at f s) = s_State s" "s_Bearers (record_mme at f s) = s_Bearers s"
  "s_PFCP (record_mme at f s) = s_PFCP s"
  by (simp_all add: record_mme_def)

text \<open>What a call tells the sink: nothing, or the snapshot of the session it leaves.\<close>

lemma run_call_notes:
  "snd (run_call c s) = checkpoint (sess_step c s) \<or>
   snd (run_call c s) = [] \<and> (sess_step c s = s\<lparr>s_nextRuleID := s_nextRuleID (sess_step c s)\<rparr> \<or>
     sess_step c s = s\<lparr>s_Procedures := s_Procedures (sess_step c s)\<rparr>)"
  by (cases c) (simp_all add: sess_step_def sess_defs Let_def split: option.splits)

lemma sess_step_sink [simp]: "s_checkpointSink (sess_step c s) = s_checkpointSink s"
  by (cases c) (simp_all add: sess_step_def sess_defs Let_def split: option.splits)

lemma sess_step_next [simp]:
  "c \<noteq> C_AllocBearerRuleIDs \<Longrightarrow> s_nextRuleID (sess_step c s) = s_nextRuleID s"
  by (cases c) (simp_all add: sess_step_def sess_defs Let_def split: option.splits)

subsection \<open>Lifecycle\<close>

definition session_states :: "string set" where
  "session_states = {StatePending, StateActive, StateModifying, StateRecovering, StateDeleting, StateDeleted}"

lemma validTransition_known: "validTransition a b \<Longrightarrow> b \<in> session_states"
  by (auto simp: validTransition_def session_states_def split: if_splits)

lemma s_State_to:
  "s_State (to_recovering s) = (if s_State s = StateDeleting \<or> s_State s = StateDeleted
     then s_State s else StateRecovering)"
  "s_State (to_active s) = (if s_State s = StateRecovering then StateActive else s_State s)"
  by (simp_all add: to_recovering_def to_active_def)

lemma recovering_moves:
  "st \<in> session_states \<Longrightarrow> st \<noteq> StateDeleting \<Longrightarrow> st \<noteq> StateDeleted \<Longrightarrow>
     st = StateRecovering \<or> validTransition st StateRecovering"
  by (auto simp: session_states_def validTransition_def)

lemma active_moves: "validTransition StateRecovering StateActive"
  by (simp add: validTransition_def state_consts)

lemma sess_step_moves:
  assumes "s_State s \<in> session_states"
  shows "s_State (sess_step c s) = s_State s \<or> validTransition (s_State s) (s_State (sess_step c s))"
  using recovering_moves [OF assms] active_moves
  by (cases c) (auto simp: sess_step_def sess_defs Let_def s_State_to split: option.splits)

inductive leads_to :: "string \<Rightarrow> string \<Rightarrow> bool" where
  stay: "leads_to a a"
| move: "leads_to a b \<Longrightarrow> validTransition b c \<Longrightarrow> leads_to a c"

lemma validTransition_from_end [simp]:
  "\<not> validTransition StateDeleted b" "validTransition StateDeleting b \<longleftrightarrow> b = StateDeleted"
  by (simp_all add: validTransition_def state_consts)

lemma leads_to_end:
  "leads_to a b \<Longrightarrow> a = StateDeleted \<Longrightarrow> b = StateDeleted"
  "leads_to a b \<Longrightarrow> a = StateDeleting \<Longrightarrow> b = StateDeleting \<or> b = StateDeleted"
  by (induction rule: leads_to.induct) auto

definition at_state :: "string \<Rightarrow> sgw_session \<Rightarrow> bool" where
  "at_state st s \<longleftrightarrow> s_State s \<in> session_states \<and> leads_to st (s_State s)"

interpretation lifecycle: event_system sess_step "at_state st"
proof
  fix s c
  assume "at_state st s"
  then show "at_state st (sess_step c s)"
    using sess_step_moves [of s c] by (auto simp: at_state_def intro: leads_to.intros dest: validTransition_known)
qed

subsection \<open>Rule identifiers\<close>

definition next_base :: "sgw_session \<Rightarrow> u32" where
  "next_base s = (if s_nextRuleID s = 0 then 3 else s_nextRuleID s)"

definition ids_at :: "nat \<Rightarrow> u16 \<times> u16 \<times> u32 \<times> u32" where
  "ids_at b = (of_nat b, of_nat (b + 1), of_nat b, of_nat (b + 1))"

fun allocated :: "sess_call list \<Rightarrow> sgw_session \<Rightarrow> (u16 \<times> u16 \<times> u32 \<times> u32) list" where
  "allocated [] s = []"
| "allocated (c # cs) s =
     (if c = C_AllocBearerRuleIDs then [fst (AllocBearerRuleIDs s)] else []) @
     allocated cs (sess_step c s)"

lemma ucast_u16_of_nat: "(ucast (of_nat b :: u32) :: u16) = of_nat b"
  by (simp add: unsigned_of_nat word_of_nat_eq_iff)

lemma of_nat_u32_eq_0: "n < 2 ^ 32 \<Longrightarrow> (of_nat n :: u32) = 0 \<longleftrightarrow> n = 0"
  by (simp add: word_of_nat_eq_0_iff nat_dvd_not_less) (metis dvd_imp_le not_le dvd_0_right gr0I)

lemma alloc_next_base:
  "AllocBearerRuleIDs s = ((ucast (next_base s), ucast (next_base s + 1), next_base s, next_base s + 1),
     s\<lparr>s_nextRuleID := next_base s + 2\<rparr>)"
  by (simp add: AllocBearerRuleIDs_def next_base_def Let_def)

lemma alloc_ids_at:
  assumes "next_base s = of_nat b"
  shows "fst (AllocBearerRuleIDs s) = ids_at b"
proof -
  have "next_base s + 1 = of_nat (b + 1)" by (simp add: assms)
  then show ?thesis by (simp only: alloc_next_base assms ids_at_def ucast_u16_of_nat fst_conv)
qed

lemma next_base_step:
  assumes "next_base s = of_nat b" "b + 2 < 2 ^ 32"
  shows "next_base (sess_step c s) = of_nat (if c = C_AllocBearerRuleIDs then b + 2 else b)"
proof (cases "c = C_AllocBearerRuleIDs")
  case True
  have "next_base s + 2 = of_nat (b + 2)" by (simp add: assms)
  moreover have "(of_nat (b + 2) :: u32) \<noteq> 0"
    using assms(2) of_nat_u32_eq_0 [of "b + 2"] by linarith
  moreover have "x \<noteq> 0 \<Longrightarrow> next_base (s\<lparr>s_nextRuleID := x\<rparr>) = x" for x
    by (simp add: next_base_def)
  ultimately have "next_base (s\<lparr>s_nextRuleID := next_base s + 2\<rparr>) = of_nat (b + 2)"
    by metis
  then show ?thesis by (simp add: True sess_step_def alloc_next_base)
next
  case False
  then show ?thesis using assms(1) by (auto simp: next_base_def split: if_splits)
qed

lemma allocated_from:
  "next_base s = of_nat b \<Longrightarrow> b + 2 * length (allocated cs s) + 2 < 2 ^ 32 \<Longrightarrow>
     allocated cs s = map (\<lambda>i. ids_at (b + 2 * i)) [0..<length (allocated cs s)]"
proof (induction cs arbitrary: s b)
  case (Cons c cs)
  let ?n = "length (allocated cs (sess_step c s))"
  show ?case
  proof (cases "c = C_AllocBearerRuleIDs")
    case True
    have b: "next_base (sess_step c s) = of_nat (b + 2)"
      using Cons.prems by (subst next_base_step [where b = b]) (simp_all add: True)
    have "allocated cs (sess_step c s) = map (\<lambda>i. ids_at (b + 2 + 2 * i)) [0..<?n]"
      by (rule Cons.IH [OF b]) (use Cons.prems(2) in \<open>simp add: True\<close>)
    moreover have "[0..<Suc ?n] = 0 # map Suc [0..<?n]"
      by (subst upt_conv_Cons) (simp_all add: map_Suc_upt)
    ultimately show ?thesis
      using alloc_ids_at [OF Cons.prems(1)] by (simp add: True o_def)
  next
    case False
    have b: "next_base (sess_step c s) = of_nat b"
      using Cons.prems by (subst next_base_step [where b = b]) (simp_all add: False)
    show ?thesis using Cons.IH [OF b] Cons.prems(2) by (simp add: False)
  qed
qed simp

definition pdr_ids :: "u16 \<times> u16 \<times> u32 \<times> u32 \<Rightarrow> u16 list" where
  "pdr_ids r = (case r of (ul, dl, _) \<Rightarrow> [ul, dl])"

lemma pdr_ids_upt:
  "concat (map (\<lambda>i. pdr_ids (ids_at (b + 2 * i))) [0..<n]) = map of_nat [b..<b + 2 * n]"
  by (induction n) (simp_all add: pdr_ids_def ids_at_def)

lemma distinct_of_nat_u16: "m \<le> 65536 \<Longrightarrow> distinct (map (of_nat :: nat \<Rightarrow> u16) [b..<m])"
proof -
  assume "m \<le> 65536"
  then have "inj_on (of_nat :: nat \<Rightarrow> u16) {b..<m}"
    by (intro inj_onI) (metis atLeastLessThan_iff order_less_le_trans unat_of_nat_u16)
  then show ?thesis by (simp add: distinct_map)
qed

lemma rule_ids_wrap:
  "s_nextRuleID s = 65537 \<Longrightarrow> fst (AllocBearerRuleIDs s) = (1, 2, 65537, 65538)"
  by (simp add: AllocBearerRuleIDs_def)

subsection \<open>Checkpoints\<close>

text \<open>The durable store behind the sink: the last snapshot saved under each session ID.\<close>

fun apply_note :: "checkpoint_note \<Rightarrow> (string, session_snapshot) gomap \<Rightarrow>
    (string, session_snapshot) gomap" where
  "apply_note (SaveSessionSnapshot sn) m = mput (sn_SessionID sn) sn m"
| "apply_note (DeleteSessionSnapshot i) m = mdel i m"

fun history :: "sess_call list \<Rightarrow> sgw_session \<Rightarrow> sgw_session \<times> checkpoint_note list" where
  "history [] s = (s, [])"
| "history (c # cs) s =
     (let (s', ns) = run_call c s; (t, ms) = history cs s' in (t, ns @ ms))"

lemma sess_step_id [simp]: "s_SessionID (sess_step c s) = s_SessionID s"
  by (cases c) (simp_all add: sess_step_def sess_defs Let_def to_recovering_def to_active_def
    record_mme_def split: option.splits)

lemma Snapshot_id [simp]: "sn_SessionID (Snapshot s) = s_SessionID s"
  by (simp add: Snapshot_def)

lemma Snapshot_quiet [simp]:
  "Snapshot (s\<lparr>s_Procedures := p\<rparr>) = Snapshot s"
  "Snapshot (s\<lparr>s_nextRuleID := n\<rparr>) = (Snapshot s)\<lparr>sn_NextRuleID := n\<rparr>"
  by (simp_all add: Snapshot_def)

definition lags :: "session_snapshot \<Rightarrow> sgw_session \<Rightarrow> bool" where
  "lags sn s \<longleftrightarrow> sn\<lparr>sn_NextRuleID := s_nextRuleID s\<rparr> = Snapshot s"

lemma lags_Snapshot [simp]: "lags (Snapshot s) s"
  by (simp add: lags_def Snapshot_def)

lemma lags_quiet:
  "lags sn s \<Longrightarrow> lags sn (s\<lparr>s_Procedures := p\<rparr>)"
  "lags sn s \<Longrightarrow> lags sn (s\<lparr>s_nextRuleID := n\<rparr>)"
  by (auto simp: lags_def) (metis session_snapshot.surjective session_snapshot.update_convs(21))

lemma run_call_durable:
  assumes "s_checkpointSink s" "mget st (s_SessionID s) = Some sn" "lags sn s"
  shows "\<exists>sn'. mget (fold apply_note (snd (run_call c s)) st) (s_SessionID s) = Some sn' \<and>
    lags sn' (sess_step c s)"
  using run_call_notes [of c s]
proof (elim disjE conjE)
  assume n: "snd (run_call c s) = checkpoint (sess_step c s)"
  show ?thesis
    by (simp add: n checkpoint_def assms(1) map_simps)
next
  assume n: "snd (run_call c s) = []" and "sess_step c s = s\<lparr>s_nextRuleID := s_nextRuleID (sess_step c s)\<rparr>"
  then have "lags sn (sess_step c s)" using lags_quiet(2) [OF assms(3)] by metis
  then show ?thesis using assms(2) by (simp add: n)
next
  assume n: "snd (run_call c s) = []" and "sess_step c s = s\<lparr>s_Procedures := s_Procedures (sess_step c s)\<rparr>"
  then have "lags sn (sess_step c s)" using lags_quiet(1) [OF assms(3)] by metis
  then show ?thesis using assms(2) by (simp add: n)
qed

lemma history_durable:
  "s_checkpointSink s \<Longrightarrow> mget st (s_SessionID s) = Some sn \<Longrightarrow> lags sn s \<Longrightarrow>
     history cs s = (t, ns) \<Longrightarrow>
     \<exists>sn'. mget (fold apply_note ns st) (s_SessionID s) = Some sn' \<and> lags sn' t"
proof (induction cs arbitrary: s st sn ns)
  case (Cons c cs)
  obtain ms where ms: "history cs (sess_step c s) = (t, ms)" "ns = snd (run_call c s) @ ms"
    using Cons.prems(4) by (auto simp: sess_step_def Let_def split: prod.splits)
  obtain sn' where "mget (fold apply_note (snd (run_call c s)) st) (s_SessionID s) = Some sn'"
    "lags sn' (sess_step c s)"
    using run_call_durable [OF Cons.prems(1-3)] by blast
  then show ?case
    using Cons.IH [of "sess_step c s" _ sn' ms] Cons.prems(1) ms by simp
qed auto

subsection \<open>Losing the SGW-U\<close>

definition no_sgwu :: "bearer \<Rightarrow> bool" where
  "no_sgwu b \<longleftrightarrow> b_SGWS1U b = noFTEID \<and> b_SGWS5U b = noFTEID"

lemma mget_map_val: "mget (map (\<lambda>(k, v). (k, f v)) m) k = map_option f (mget m k)"
  by (simp add: mget_def map_of_map)

lemma invalidate_pfcp_binding:
  assumes "InvalidatePFCPBinding now now' s = (ok, s', ns)" "ok"
  shows "s_PFCP s' = noBinding"
    and "\<forall>(ebi, b) \<in> set (s_Bearers s'). no_sgwu b"
    and "mget (s_Bearers s') e =
       map_option (\<lambda>b. b\<lparr>b_SGWS1U := noFTEID, b_SGWS5U := noFTEID\<rparr>) (mget (s_Bearers s) e)"
    and "s_State s \<noteq> StateDeleting \<Longrightarrow> s_State s \<noteq> StateDeleted \<Longrightarrow> s_State s' = StateRecovering"
    and "s_checkpointSink s \<Longrightarrow> ns = [SaveSessionSnapshot (Snapshot s')]"
proof -
  define t where "t = (to_recovering (s\<lparr>s_PFCP := noBinding,
          s_PFCPReconciliation := \<lparr>rec_State = PFCPReconciliationMissing, rec_At = now,
            rec_Reason = ''pfcp-binding-invalidated''\<rparr>,
          s_Bearers := map (\<lambda>(ebi, b). (ebi, b\<lparr>b_SGWS1U := noFTEID, b_SGWS5U := noFTEID\<rparr>))
            (s_Bearers s)\<rparr>))\<lparr>s_UpdatedAt := now'\<rparr>"
  have s': "s' = t" "ns = checkpoint t"
    using assms by (auto simp: InvalidatePFCPBinding_def t_def saved_def split: if_splits)
  show "s_PFCP s' = noBinding" by (simp add: s' t_def)
  show "\<forall>(ebi, b) \<in> set (s_Bearers s'). no_sgwu b" by (auto simp: s' t_def no_sgwu_def)
  show "mget (s_Bearers s') e =
       map_option (\<lambda>b. b\<lparr>b_SGWS1U := noFTEID, b_SGWS5U := noFTEID\<rparr>) (mget (s_Bearers s) e)"
    by (simp add: s' t_def mget_map_val)
  show "s_State s \<noteq> StateDeleting \<Longrightarrow> s_State s \<noteq> StateDeleted \<Longrightarrow> s_State s' = StateRecovering"
    by (simp add: s' t_def to_recovering_def)
  show "s_checkpointSink s \<Longrightarrow> ns = [SaveSessionSnapshot (Snapshot s')]"
    by (simp add: s' t_def checkpoint_def)
qed

subsection \<open>Restoring what was saved\<close>

text \<open>What the text form of a snapshot can hold: IPv4 addresses or none, and no empty TFT.\<close>

fun addr_ok :: "ip_addr \<Rightarrow> bool" where
  "addr_ok (IP6 _) = False"
| "addr_ok _ = True"

definition ep_ok :: "ep_fteid \<Rightarrow> bool" where
  "ep_ok f = addr_ok (ep_IPv4 f)"

definition bearer_ok :: "bearer \<Rightarrow> bool" where
  "bearer_ok b \<longleftrightarrow> b_EBI b \<noteq> 0 \<and> ep_ok (b_ENBS1U b) \<and> ep_ok (b_SGWS1U b) \<and> ep_ok (b_PGWS5U b) \<and>
     ep_ok (b_SGWS5U b) \<and> b_TFT b \<noteq> Some []"

definition bearers_ok :: "(u8, bearer) gomap \<Rightarrow> bool" where
  "bearers_ok bs \<longleftrightarrow> mok bs \<and> (\<forall>(ebi, b) \<in> set bs. b_EBI b = ebi \<and> bearer_ok b)"

definition durable :: "sgw_session \<Rightarrow> bool" where
  "durable s \<longleftrightarrow> bearers_ok (s_Bearers s) \<and> mget (s_Bearers s) (s_DefaultBearerID s) \<noteq> None \<and>
     ep_ok (s_MMEControl s) \<and> ep_ok (s_SGWS11 s) \<and> ep_ok (s_PGWControl s) \<and> ep_ok (s_SGWS5C s) \<and>
     addr_ok (s_UEIPv4 s) \<and> addr_ok (fs_IPv4 (LocalFSEID (s_PFCP s))) \<and>
     addr_ok (fs_IPv4 (SGWUFSEID (s_PFCP s))) \<and> s_CreatedAt s \<noteq> 0 \<and> s_UpdatedAt s \<noteq> 0"

lemma addr_back [simp]: "addr_ok a \<Longrightarrow> addrFromString (addrString a) = a"
  by (cases a) (simp_all add: addrFromString_def addrString_def isValid_def)

lemma fteid_back [simp]: "ep_ok f \<Longrightarrow> fteidFromSnapshot (fteidSnapshot f) = f"
  by (simp add: fteidFromSnapshot_def fteidSnapshot_def ep_ok_def)

lemma fseid_back [simp]: "addr_ok (fs_IPv4 f) \<Longrightarrow> fseidFromSnapshot (fseidSnapshot f) = f"
  by (simp add: fseidFromSnapshot_def fseidSnapshot_def)

lemma status_back [simp]:
  "pfcpReconciliationFromSnapshot (pfcpReconciliationSnapshot r) = r"
  "pgwFailureFromSnapshot (pgwFailureSnapshot p) = p"
  "mmeRestorationFromSnapshot (mmeRestorationSnapshot q) = q"
  by (simp_all add: pfcpReconciliationFromSnapshot_def pfcpReconciliationSnapshot_def
    pgwFailureFromSnapshot_def pgwFailureSnapshot_def mmeRestorationFromSnapshot_def
    mmeRestorationSnapshot_def)

lemma bearer_back [simp]: "bearer_ok b \<Longrightarrow> bearerFromSnapshot (bearerSnapshot b) = b"
  by (cases "b_TFT b") (auto simp: bearerFromSnapshot_def bearerSnapshot_def bearer_ok_def)

lemma bs_EBI_snapshot [simp]: "bs_EBI (bearerSnapshot b) = b_EBI b"
  by (simp add: bearerSnapshot_def)

lemma restore_bearers_fresh:
  "distinct (map bs_EBI bs) \<Longrightarrow> 0 \<notin> bs_EBI ` set bs \<Longrightarrow> mkeys m \<inter> bs_EBI ` set bs = {} \<Longrightarrow>
     restore_bearers bs m = Ok (m @ map (\<lambda>b. (bs_EBI b, bearerFromSnapshot b)) bs)"
proof (induction bs arbitrary: m)
  case (Cons b bs)
  have k: "bs_EBI b \<notin> mkeys m" using Cons.prems(3) by auto
  then have "mget m (bs_EBI b) = None" by (simp add: mkeys_iff)
  moreover have "restore_bearers bs (m @ [(bs_EBI b, bearerFromSnapshot b)]) =
      Ok ((m @ [(bs_EBI b, bearerFromSnapshot b)]) @ map (\<lambda>b. (bs_EBI b, bearerFromSnapshot b)) bs)"
    by (rule Cons.IH) (use Cons.prems in \<open>auto simp: mkeys_def\<close>)
  ultimately show ?case using Cons.prems by (auto simp: mput_fresh k)
qed simp

definition sorted_bearers :: "(u8, bearer) gomap \<Rightarrow> (u8, bearer) gomap" where
  "sorted_bearers bs = map (\<lambda>ebi. (ebi, the (mget bs ebi))) (sort (map fst bs))"

lemma mget_sorted_bearers: "mget (sorted_bearers bs) ebi = mget bs ebi"
proof (cases "ebi \<in> mkeys bs")
  case True
  then obtain b where "mget bs ebi = Some b" by (auto simp: mkeys_iff)
  with True show ?thesis
    by (simp add: sorted_bearers_def mget_def map_of_map_restrict mkeys_def)
next
  case False
  then have "mget bs ebi = None" by (simp add: mkeys_iff)
  with False show ?thesis
    by (simp add: sorted_bearers_def mget_def map_of_map_restrict mkeys_def)
qed

lemma bearer_snapshots_eq:
  assumes "bearers_ok bs"
  shows "bearer_snapshots bs = map (\<lambda>(ebi, b). bearerSnapshot b) (sorted_bearers bs)"
    and "\<forall>(ebi, b) \<in> set (sorted_bearers bs). b_EBI b = ebi \<and> bearer_ok b"
    and "distinct (map fst (sorted_bearers bs))"
proof -
  have get: "(ebi, the (mget bs ebi)) \<in> set bs \<and> mget bs ebi \<noteq> None" if "ebi \<in> fst ` set bs" for ebi
    using that assms by (auto simp: bearers_ok_def mem_mget)
  have "bearer_snapshots bs = concat (map (\<lambda>ebi. [bearerSnapshot (the (mget bs ebi))]) (sort (map fst bs)))"
    unfolding bearer_snapshots_def
    by (rule arg_cong [where f = concat], rule map_cong) (use get in \<open>auto split: option.splits\<close>)
  then show "bearer_snapshots bs = map (\<lambda>(ebi, b). bearerSnapshot b) (sorted_bearers bs)"
    by (simp add: sorted_bearers_def o_def)
  show "\<forall>(ebi, b) \<in> set (sorted_bearers bs). b_EBI b = ebi \<and> bearer_ok b"
    using get assms by (fastforce simp: sorted_bearers_def bearers_ok_def)
  show "distinct (map fst (sorted_bearers bs))"
    using assms by (simp add: sorted_bearers_def bearers_ok_def mok_def o_def)
qed

lemma restore_bearers_back:
  assumes "bearers_ok bs"
  shows "restore_bearers (bearer_snapshots bs) [] = Ok (sorted_bearers bs)"
proof -
  note sb = bearer_snapshots_eq [OF assms]
  have ebis: "map bs_EBI (bearer_snapshots bs) = map fst (sorted_bearers bs)"
    unfolding sb(1) map_map by (rule map_cong) (use sb(2) in auto)
  have "0 \<notin> set (map fst (sorted_bearers bs))"
    using sb(2) by (auto simp: bearer_ok_def)
  then have "restore_bearers (bearer_snapshots bs) [] =
      Ok (map (\<lambda>b. (bs_EBI b, bearerFromSnapshot b)) (bearer_snapshots bs))"
    using restore_bearers_fresh [of "bearer_snapshots bs" "[]"] sb(3) ebis
    by (metis (no_types, lifting) append_Nil inf_bot_left list.set_map mkeys_def list.set(1) image_empty)
  also have "map (\<lambda>b. (bs_EBI b, bearerFromSnapshot b)) (bearer_snapshots bs) = sorted_bearers bs"
    unfolding sb(1) map_map by (rule map_idI) (use sb(2) in auto)
  finally show ?thesis .
qed

lemma max_rule_ge: "m \<le> max_rule m is" "i \<in> set is \<Longrightarrow> i \<le> max_rule m is"
proof -
  have "m \<le> max_rule m is \<and> (\<forall>i \<in> set is. i \<le> max_rule m is)"
  proof (induction "is" arbitrary: m)
    case (Cons j js)
    have "(if j > m then j else m) \<le> max_rule (if j > m then j else m) js"
      and "\<forall>i \<in> set js. i \<le> max_rule (if j > m then j else m) js"
      using Cons.IH by blast+
    then show ?case by (auto split: if_splits)
  qed simp
  then show "m \<le> max_rule m is" "i \<in> set is \<Longrightarrow> i \<le> max_rule m is" by auto
qed

lemma next_rule_above:
  "max_rule 2 is + 1 = 0 \<or> 2 < max_rule 2 is + 1 \<and> (\<forall>i \<in> set is. i < max_rule 2 is + 1)"
proof (cases "max_rule 2 is + 1 = 0")
  case False
  then have "i \<le> max_rule 2 is \<Longrightarrow> i < max_rule 2 is + 1" for i
    by (simp add: word_le_nat_alt word_less_nat_alt unatSuc add.commute [of _ 1])
  then show ?thesis using max_rule_ge(1) [of 2 "is"] max_rule_ge(2) [of _ "is" 2] by blast
qed simp

lemma restore_snapshot:
  assumes "durable s"
  shows "sessionFromSnapshot now (Snapshot s) sink =
    Ok (s\<lparr>s_Bearers := sorted_bearers (s_Bearers s), s_State := StateRecovering,
       s_Procedures := Some newTracker, s_SecondaryRAT := [], s_checkpointSink := sink,
       s_nextRuleID := nextRuleIDFromSnapshot (Snapshot s)\<rparr>)"
proof -
  have "mget (sorted_bearers (s_Bearers s)) (s_DefaultBearerID s) \<noteq> None"
    using assms by (simp add: durable_def mget_sorted_bearers)
  with assms show ?thesis
    by (auto simp: sessionFromSnapshot_def Snapshot_def restore_bearers_back durable_def Let_def
      or_now_def)
qed

section \<open>Properties\<close>

text \<open>
  C23: whatever sequence of methods is called on a session, its lifecycle state stays one of the
  six states and is reached from the initial one by steps of \<open>validTransition\<close> only; a
  deleted session stays deleted, and a session in deletion can only become deleted. No
  path-failure, reconciliation or restoration event revives it.
\<close>

theorem session_lifecycle:
  assumes "s_State s \<in> session_states"
  shows "s_State (fold sess_step cs s) \<in> session_states \<and>
    leads_to (s_State s) (s_State (fold sess_step cs s)) \<and>
    (s_State s = StateDeleted \<longrightarrow> s_State (fold sess_step cs s) = StateDeleted) \<and>
    (s_State s = StateDeleting \<longrightarrow>
       s_State (fold sess_step cs s) = StateDeleting \<or> s_State (fold sess_step cs s) = StateDeleted)"
proof -
  have "at_state (s_State s) (fold sess_step cs s)"
    by (rule lifecycle.run_inv) (simp add: at_state_def assms leads_to.stay)
  then show ?thesis
    using leads_to_end [of "s_State s" "s_State (fold sess_step cs s)"] by (auto simp: at_state_def)
qed

theorem session_lifecycle_witness:
  "s_State (fold sess_step [C_Transition 1 StateDeleting, C_UserPlaneRestored 3 5 0] sample_session)
     \<in> session_states"
  using session_lifecycle [of sample_session "[C_Transition 1 StateDeleting, C_UserPlaneRestored 3 5 0]"]
  by (simp add: sample_session_def newSession_def session_states_def)

text \<open>
  the rule identifiers that \<open>AllocBearerRuleIDs\<close> hands out to the dedicated bearers of a
  new session, with any other methods called in between, are pairwise different 16-bit PDR
  IDs, none of them 0 or one of the default bearer's 1 and 2, and equal to the FAR IDs, as
  long as no more than 32766 pairs are allocated in the life of the session.
\<close>

theorem rule_ids_fresh:
  assumes "s_nextRuleID s = 0" "length (allocated cs s) \<le> 32766"
  shows "distinct (concat (map pdr_ids (allocated cs s))) \<and>
    (\<forall>(ul, dl, ful, fdl) \<in> set (allocated cs s).
       ul \<notin> {0, 1, 2} \<and> dl \<notin> {0, 1, 2} \<and> ful = ucast ul \<and> fdl = ucast dl)"
proof -
  define n where "n = length (allocated cs s)"
  have n: "n \<le> 32766" using assms(2) by (simp add: n_def)
  have a: "allocated cs s = map (\<lambda>i. ids_at (3 + 2 * i)) [0..<n]"
    unfolding n_def by (rule allocated_from) (use assms in \<open>simp_all add: next_base_def\<close>)
  have "concat (map pdr_ids (allocated cs s)) = map of_nat [3..<3 + 2 * n]"
    by (simp add: a) (use pdr_ids_upt [of 3 n] in \<open>simp add: o_def\<close>)
  then have "distinct (concat (map pdr_ids (allocated cs s)))"
    using distinct_of_nat_u16 [of "3 + 2 * n" 3] n by simp
  moreover have "ul \<notin> {0, 1, 2} \<and> dl \<notin> {0, 1, 2} \<and> ful = ucast ul \<and> fdl = ucast dl"
    if m: "(ul, dl, ful, fdl) \<in> set (allocated cs s)" for ul dl ful fdl
  proof -
    obtain i where i: "i < n" "(ul, dl, ful, fdl) = ids_at (3 + 2 * i)"
      using m by (auto simp: a)
    have u: "unat ul = 3 + 2 * i" "unat dl = 4 + 2 * i"
      using i n unat_of_nat_u16 [of "3 + 2 * i"] unat_of_nat_u16 [of "4 + 2 * i"]
      by (auto simp: ids_at_def simp del: of_nat_add of_nat_mult)
    have "ful = ucast ul" "fdl = ucast dl"
      using i n by (auto simp: ids_at_def unsigned_of_nat take_bit_nat_eq_self
          simp del: of_nat_add of_nat_mult)
    moreover have "ul \<notin> {0, 1, 2}" "dl \<notin> {0, 1, 2}" using u by auto
    ultimately show ?thesis by blast
  qed
  ultimately show ?thesis by blast
qed

theorem rule_ids_fresh_witness:
  "distinct (concat (map pdr_ids
     (allocated [C_AllocBearerRuleIDs, C_ClearENBFTEIDs 1 1, C_AllocBearerRuleIDs] sample_session)))"
  using rule_ids_fresh [of sample_session
      "[C_AllocBearerRuleIDs, C_ClearENBFTEIDs 1 1, C_AllocBearerRuleIDs]"]
  by (simp add: sample_session_def newSession_def)

text \<open>
  with a checkpoint sink attached, the durable store follows the session: if it holds the
  session's snapshot, then after any sequence of method calls, with their notifications
  applied in order, it holds the snapshot of the session as it then is, except that the
  next rule identifier may lag (\<open>AllocBearerRuleIDs\<close> does not notify the sink).
\<close>

theorem changes_are_checkpointed:
  assumes "s_checkpointSink s" "mget st (s_SessionID s) = Some (Snapshot s)"
    "history cs s = (t, ns)"
  shows "\<exists>sn. mget (fold apply_note ns st) (s_SessionID s) = Some sn \<and>
    sn\<lparr>sn_NextRuleID := s_nextRuleID t\<rparr> = Snapshot t"
  using history_durable [OF assms(1,2) lags_Snapshot assms(3)] by (simp add: lags_def)

theorem changes_are_checkpointed_witness:
  "\<exists>sn. mget (fold apply_note (snd (history [C_SetUEIPv4 5 (IP4 1), C_AllocBearerRuleIDs] sample_session))
       [(''a1'', Snapshot sample_session)]) ''a1'' = Some sn \<and>
     sn\<lparr>sn_NextRuleID := 5\<rparr> = Snapshot (fst (history [C_SetUEIPv4 5 (IP4 1), C_AllocBearerRuleIDs] sample_session))"
proof -
  let ?h = "history [C_SetUEIPv4 5 (IP4 1), C_AllocBearerRuleIDs] sample_session"
  have n: "s_nextRuleID (fst ?h) = 5"
    by (simp add: SetUEIPv4_def AllocBearerRuleIDs_def saved_def Let_def sample_session_def newSession_def)
  have i: "s_SessionID sample_session = ''a1''" "s_checkpointSink sample_session"
    by (simp_all add: sample_session_def newSession_def)
  show ?thesis
    using changes_are_checkpointed [of sample_session "[(''a1'', Snapshot sample_session)]"
        "[C_SetUEIPv4 5 (IP4 1), C_AllocBearerRuleIDs]" "fst ?h" "snd ?h"]
    unfolding n i by (simp add: mget_def i del: history.simps)
qed

text \<open>
  C25: \<open>InvalidatePFCPBinding\<close> forgets everything learned from the lost SGW-U and nothing else of
  the bearers: the binding is empty, no bearer keeps an SGW-U F-TEID, every other field of
  every bearer is unchanged, a session that is not being deleted is recovering, and the sink
  is told. A session bound to another peer is left alone by the per-peer variant.
\<close>

theorem lost_sgwu_forgotten:
  assumes "InvalidatePFCPBinding now now' s = (True, s', ns)"
  shows "s_PFCP s' = noBinding \<and>
    (\<forall>e. mget (s_Bearers s') e =
       map_option (\<lambda>b. b\<lparr>b_SGWS1U := noFTEID, b_SGWS5U := noFTEID\<rparr>) (mget (s_Bearers s) e)) \<and>
    (s_State s = StateDeleting \<or> s_State s = StateDeleted \<or> s_State s' = StateRecovering) \<and>
    (s_checkpointSink s \<longrightarrow> ns = [SaveSessionSnapshot (Snapshot s')]) \<and>
    (SGWUName (s_PFCP s) \<noteq> nm \<longrightarrow> InvalidatePFCPBindingForPeer now now' nm ad s = (False, s, []))"
  using invalidate_pfcp_binding [OF assms] by (auto simp: InvalidatePFCPBindingForPeer_def)

theorem lost_sgwu_forgotten_witness:
  "s_State (fst (snd (InvalidatePFCPBinding 7 8
     (sample_session\<lparr>s_PFCP := noBinding\<lparr>Established := True\<rparr>\<rparr>)))) = StateRecovering"
proof -
  let ?s = "sample_session\<lparr>s_PFCP := noBinding\<lparr>Established := True\<rparr>\<rparr>"
  have "fst (InvalidatePFCPBinding 7 8 ?s)" by (simp add: InvalidatePFCPBinding_def)
  then have "InvalidatePFCPBinding 7 8 ?s = (True, fst (snd (InvalidatePFCPBinding 7 8 ?s)),
      snd (snd (InvalidatePFCPBinding 7 8 ?s)))"
    by (metis prod.collapse)
  from lost_sgwu_forgotten [OF this] show ?thesis
    by (simp add: sample_session_def newSession_def state_consts)
qed

text \<open>
  C24: a session restored from its snapshot is the session that was saved: every identity,
  F-TEID, address, binding, status and bearer is the same (addresses being IPv4), the state is
  recovering, procedure tracking starts anew, and the next rule identifier is the saved one
  or, when none had been allocated, larger than every rule identifier the bearers use.
\<close>

theorem snapshot_restore_roundtrip:
  assumes "durable s"
  shows "\<exists>m n. sessionFromSnapshot now (Snapshot s) sink =
      Ok (s\<lparr>s_Bearers := m, s_State := StateRecovering, s_Procedures := Some newTracker,
        s_SecondaryRAT := [], s_checkpointSink := sink, s_nextRuleID := n\<rparr>) \<and>
    (\<forall>ebi. mget m ebi = mget (s_Bearers s) ebi) \<and>
    (s_nextRuleID s \<noteq> 0 \<longrightarrow> n = s_nextRuleID s) \<and>
    (s_nextRuleID s = 0 \<longrightarrow> n = 0 \<or> 2 < n \<and>
       (\<forall>b \<in> set (bearer_snapshots (s_Bearers s)). \<forall>i \<in> set (rule_ids b). i < n))"
proof (intro exI conjI)
  let ?n = "nextRuleIDFromSnapshot (Snapshot s)"
  show "sessionFromSnapshot now (Snapshot s) sink =
      Ok (s\<lparr>s_Bearers := sorted_bearers (s_Bearers s), s_State := StateRecovering,
        s_Procedures := Some newTracker, s_SecondaryRAT := [], s_checkpointSink := sink,
        s_nextRuleID := ?n\<rparr>)"
    by (rule restore_snapshot [OF assms])
  show "\<forall>ebi. mget (sorted_bearers (s_Bearers s)) ebi = mget (s_Bearers s) ebi"
    by (simp add: mget_sorted_bearers)
  show "s_nextRuleID s \<noteq> 0 \<longrightarrow> ?n = s_nextRuleID s"
    by (simp add: nextRuleIDFromSnapshot_def Snapshot_def)
  show "s_nextRuleID s = 0 \<longrightarrow> ?n = 0 \<or> 2 < ?n \<and>
       (\<forall>b \<in> set (bearer_snapshots (s_Bearers s)). \<forall>i \<in> set (rule_ids b). i < ?n)"
    using next_rule_above [of "concat (map rule_ids (bearer_snapshots (s_Bearers s)))"]
    by (simp add: nextRuleIDFromSnapshot_def Snapshot_def)
qed

lemma durable_sample: "durable sample_session"
  by (simp add: durable_def bearers_ok_def bearer_ok_def ep_ok_def sample_session_def
    sample_params_def newSession_def defaultBearer_def noFTEID_def noBinding_def noFSEID_def
    mget_def mok_def)

theorem snapshot_restore_roundtrip_witness:
  "\<exists>m n. sessionFromSnapshot 1 (Snapshot sample_session) True =
      Ok (sample_session\<lparr>s_Bearers := m, s_State := StateRecovering, s_Procedures := Some newTracker,
        s_SecondaryRAT := [], s_checkpointSink := True, s_nextRuleID := n\<rparr>)"
  using snapshot_restore_roundtrip [OF durable_sample, of 1 True] by blast

end
