(* ===== verification/Session_Manager.thy ===== *)
theory Session_Manager
  imports Session_State TEID_Allocator
begin

text \<open>
  The SGW-C session manager (\<^verbatim>\<open>internal/sgwc/session/manager.go\<close>): every method over the
  session indexes. Sessions are shared objects: the indexes hold references into a heap of
  sessions, a new session takes the next free reference, and pointer equality is equality
  of references. \<^verbatim>\<open>crypto/rand\<close> and the clock are arguments; the manager's lock makes each
  method one step. Notifications to the checkpoint sink are collected in order.
  The lemmas show: canonical endpoints are stable under canonicalisation; the indexes by
  ID, S11 TEID, PDN connection and IMSI describe the same sessions along every history;
  and an S11 TEID stays allocated exactly as long as a session of the manager has it.
\<close>

section \<open>Endpoints and identifiers\<close>

definition CanonicalGTPCEndpoint :: "string \<Rightarrow> string" where
  "CanonicalGTPCEndpoint addr =
     (if addr = [] then []
      else let host = (case splitHostPort addr of None \<Rightarrow> addr | Some (h, _) \<Rightarrow> h)
           in if host = [] then [] else joinHostPort host (itoa 2123))"

text \<open>\<^verbatim>\<open>hex.EncodeToString\<close> of eight random bytes; \<open>None\<close> is a failed read.\<close>

definition hex_byte :: "u8 \<Rightarrow> string" where
  "hex_byte b = [hex_digit (unat b div 16), hex_digit (unat b mod 16)]"

datatype mgr_error = CreateTEID teid_error | CreateRand

definition newSessionID :: "bytes option \<Rightarrow> (mgr_error, string) outcome" where
  "newSessionID rnd = (case rnd of None \<Rightarrow> Fail CreateRand | Some b \<Rightarrow> Ok (concat (map hex_byte b)))"

section \<open>State\<close>

type_synonym sref = nat
type_synonym pdn_key = "string \<times> u8"

record manager =
  heap :: "sgw_session list"
  byID :: "(string, sref) gomap"
  byS11 :: "(u32, sref list) gomap"
  byS5C :: "(u32, sref) gomap"
  byPGW :: "(string, (string, sref) gomap) gomap"
  byIMSI :: "(string, sref) gomap"
  byPDN :: "(pdn_key, sref) gomap"
  teidAlloc :: allocator
  checkpointSink :: bool

definition NewManager :: manager where
  "NewManager = \<lparr>heap = [], byID = [], byS11 = [], byS5C = [], byPGW = [], byIMSI = [],
     byPDN = [], teidAlloc = newAllocator, checkpointSink = False\<rparr>"

definition deref :: "manager \<Rightarrow> sref \<Rightarrow> sgw_session" where
  "deref m r = heap m ! r"

definition pdnKey :: "sgw_session \<Rightarrow> pdn_key" where
  "pdnKey s = (s_IMSI s, s_DefaultBearerID s)"

text \<open>A missing slice or inner map reads as empty.\<close>

definition s11_list :: "manager \<Rightarrow> u32 \<Rightarrow> sref list" where
  "s11_list m t = (case mget (byS11 m) t of None \<Rightarrow> [] | Some rs \<Rightarrow> rs)"

definition pgw_map :: "manager \<Rightarrow> string \<Rightarrow> (string, sref) gomap" where
  "pgw_map m c = (case mget (byPGW m) c of None \<Rightarrow> [] | Some ss \<Rightarrow> ss)"

text \<open>A method of the session behind a reference, and of each session of a list in order.\<close>

definition on_session :: "sref \<Rightarrow> (sgw_session \<Rightarrow> sgw_session \<times> checkpoint_note list) \<Rightarrow>
    manager \<Rightarrow> manager \<times> checkpoint_note list" where
  "on_session r f m = (let (s, ns) = f (deref m r) in (m\<lparr>heap := (heap m)[r := s]\<rparr>, ns))"

fun each_session :: "(nat \<Rightarrow> sgw_session \<Rightarrow> sgw_session \<times> checkpoint_note list) \<Rightarrow> nat \<Rightarrow>
    sref list \<Rightarrow> manager \<Rightarrow> manager \<times> checkpoint_note list" where
  "each_session f i [] m = (m, [])"
| "each_session f i (r # rs) m =
     (let (m1, ns) = on_session r (f i) m; (m2, ms) = each_session f (i + 1) rs m1 in (m2, ns @ ms))"

section \<open>Removal\<close>

definition removePGWLocked :: "string \<Rightarrow> string \<Rightarrow> manager \<Rightarrow> manager" where
  "removePGWLocked pgwAddr sid m =
     (let canonical = CanonicalGTPCEndpoint pgwAddr; ss = pgw_map m canonical; ss' = mdel sid ss in
      if canonical = [] then m
      else if ss = [] then m
      else if ss' = [] then m\<lparr>byPGW := mdel canonical (byPGW m)\<rparr>
      else m\<lparr>byPGW := mput canonical ss' (byPGW m)\<rparr>)"

definition newest_of :: "manager \<Rightarrow> string \<Rightarrow> sref option" where
  "newest_of m imsi = fold (\<lambda>(sid, r) best.
     if s_IMSI (deref m r) = imsi then
       (case best of None \<Rightarrow> Some r
        | Some n \<Rightarrow> if s_CreatedAt (deref m n) < s_CreatedAt (deref m r) then Some r else best)
     else best) (byID m) None"

definition remove_s11 :: "sref \<Rightarrow> manager \<Rightarrow> manager" where
  "remove_s11 r m =
     (let t = ep_TEID (s_SGWS11 (deref m r)); rs = s11_list m t; filtered = filter (\<lambda>c. c \<noteq> r) rs in
      if rs = [] then m
      else if filtered = [] then m\<lparr>byS11 := mdel t (byS11 m)\<rparr>
      else m\<lparr>byS11 := mput t filtered (byS11 m)\<rparr>)"

definition remove_pgw :: "sref \<Rightarrow> manager \<Rightarrow> manager" where
  "remove_pgw r m = (let s = deref m r in
     if pf_PGWAddr (s_PGWFailure s) \<noteq> [] then
       removePGWLocked (pf_PGWAddr (s_PGWFailure s)) (s_SessionID s) m
     else if isValid (ep_IPv4 (s_PGWControl s)) then
       removePGWLocked (CanonicalGTPCEndpoint (addr_String (ep_IPv4 (s_PGWControl s)))) (s_SessionID s) m
     else m)"

definition remove_imsi :: "sref \<Rightarrow> manager \<Rightarrow> manager" where
  "remove_imsi r m = (let imsi = s_IMSI (deref m r) in
     if mget (byIMSI m) imsi = Some r then
       (case newest_of m imsi of
          None \<Rightarrow> m\<lparr>byIMSI := mdel imsi (byIMSI m)\<rparr>
        | Some n \<Rightarrow> m\<lparr>byIMSI := mput imsi n (mdel imsi (byIMSI m))\<rparr>)
     else m)"

definition removeLocked :: "sref \<Rightarrow> manager \<Rightarrow> manager" where
  "removeLocked r m =
     (let s = deref m r;
          m1 = m\<lparr>byID := mdel (s_SessionID s) (byID m)\<rparr>;
          m2 = remove_s11 r m1;
          m3 = (if ep_TEID (s_SGWS5C s) \<noteq> 0
                then m2\<lparr>byS5C := mdel (ep_TEID (s_SGWS5C s)) (byS5C m2)\<rparr> else m2);
          m4 = remove_pgw r m3;
          m5 = (if mget (byPDN m4) (pdnKey s) = Some r
                then m4\<lparr>byPDN := mdel (pdnKey s) (byPDN m4)\<rparr> else m4)
      in remove_imsi r m5)"

definition free_s11 :: "u32 \<Rightarrow> manager \<Rightarrow> manager" where
  "free_s11 t m = (if s11_list m t = [] then m\<lparr>teidAlloc := free t (teidAlloc m)\<rparr> else m)"

definition mgr_Delete :: "string \<Rightarrow> manager \<Rightarrow> manager \<times> checkpoint_note list" where
  "mgr_Delete sid m = (case mget (byID m) sid of
     None \<Rightarrow> (m, [])
   | Some r \<Rightarrow>
       (free_s11 (ep_TEID (s_SGWS11 (deref m r))) (removeLocked r m),
        if checkpointSink m then [DeleteSessionSnapshot sid] else []))"

section \<open>Creation\<close>

text \<open>The S11 TEID of a new session: the one to reuse, or a fresh one (with whether it is fresh).\<close>

definition s11_for :: "(nat \<Rightarrow> rand4) \<Rightarrow> create_params \<Rightarrow> manager \<Rightarrow>
    (mgr_error, ep_fteid \<times> bool) outcome \<times> manager" where
  "s11_for rnd p m =
     (if ep_TEID (cp_ReuseSGWS11 p) \<noteq> 0 then (Ok (cp_ReuseSGWS11 p, False), m)
      else case alloc rnd (teidAlloc m) of
          (Ok t, a) \<Rightarrow> (Ok (\<lparr>ep_TEID = t, ep_IPv4 = NoAddr\<rparr>, True), m\<lparr>teidAlloc := a\<rparr>)
        | (Fail e, a) \<Rightarrow> (Fail (CreateTEID e), m\<lparr>teidAlloc := a\<rparr>)
        | (Panic, a) \<Rightarrow> (Panic, m\<lparr>teidAlloc := a\<rparr>))"

text \<open>The eviction of an older connection of the same PDN, and the indexing of the new session.\<close>

definition evict :: "sref \<Rightarrow> u32 \<Rightarrow> manager \<Rightarrow> manager" where
  "evict old t m =
     (let told = ep_TEID (s_SGWS11 (deref m old)); m1 = removeLocked old m in
      if told \<noteq> t then free_s11 told m1 else m1)"

definition index_session :: "sgw_session \<Rightarrow> manager \<Rightarrow> manager" where
  "index_session s m =
     (let r = length (heap m); t = ep_TEID (s_SGWS11 s) in
      m\<lparr>heap := heap m @ [s],
        byID := mput (s_SessionID s) r (byID m),
        byS11 := mput t (s11_list m t @ [r]) (byS11 m),
        byPDN := mput (pdnKey s) r (byPDN m),
        byIMSI := mput (s_IMSI s) r (byIMSI m)\<rparr>)"

definition install_session :: "sgw_session \<Rightarrow> manager \<Rightarrow>
    (sref \<times> sref option) \<times> manager \<times> checkpoint_note list" where
  "install_session s m =
     (let old = mget (byPDN m) (pdnKey s);
          m1 = (case old of None \<Rightarrow> m | Some o' \<Rightarrow> evict o' (ep_TEID (s_SGWS11 s)) m);
          evictedID = (case old of None \<Rightarrow> [] | Some o' \<Rightarrow> s_SessionID (deref m o'))
      in ((length (heap m1), old), index_session s m1,
          checkpoint s @
          (if evictedID \<noteq> [] \<and> checkpointSink m then [DeleteSessionSnapshot evictedID] else [])))"

definition mgr_Create :: "(nat \<Rightarrow> rand4) \<Rightarrow> bytes option \<Rightarrow> gtime \<Rightarrow> create_params \<Rightarrow> manager \<Rightarrow>
    (mgr_error, sref \<times> sref option) outcome \<times> manager \<times> checkpoint_note list" where
  "mgr_Create rnd rnd8 now p m = (case s11_for rnd p m of
     (Ok (sgwFTEID, fresh), m1) \<Rightarrow>
       (case newSessionID rnd8 of
          Ok sid \<Rightarrow>
            (case install_session (newSession now sid sgwFTEID (checkpointSink m1) p) m1 of
               (res, m2, ns) \<Rightarrow> (Ok res, m2, ns))
        | Fail e \<Rightarrow>
            (Fail e, if fresh then m1\<lparr>teidAlloc := free (ep_TEID sgwFTEID) (teidAlloc m1)\<rparr> else m1, [])
        | Panic \<Rightarrow> (Panic, m1, []))
   | (Fail e, m1) \<Rightarrow> (Fail e, m1, [])
   | (Panic, m1) \<Rightarrow> (Panic, m1, []))"

definition SetCheckpointSink :: "bool \<Rightarrow> manager \<Rightarrow> manager" where
  "SetCheckpointSink sink m =
     fst (each_session (\<lambda>i s. (setCheckpointSink sink s, [])) 0 (map snd (byID m))
       (m\<lparr>checkpointSink := sink\<rparr>))"

section \<open>Lookups\<close>

definition mgr_Find :: "string \<Rightarrow> manager \<Rightarrow> sref option" where
  "mgr_Find sid m = mget (byID m) sid"

definition FindByS11TEID :: "u32 \<Rightarrow> manager \<Rightarrow> sref option" where
  "FindByS11TEID t m = (let rs = s11_list m t in if rs = [] then None else Some (last rs))"

definition FindByS11TEIDAndBearer :: "u32 \<Rightarrow> u8 \<Rightarrow> manager \<Rightarrow> sref option" where
  "FindByS11TEIDAndBearer t ebi m =
     List.find (\<lambda>r. GetBearer ebi (deref m r) \<noteq> None) (rev (s11_list m t))"

definition FindByS11TEIDAndDefaultBearer :: "u32 \<Rightarrow> u8 \<Rightarrow> manager \<Rightarrow> sref option" where
  "FindByS11TEIDAndDefaultBearer t ebi m =
     List.find (\<lambda>r. s_DefaultBearerID (deref m r) = ebi) (rev (s11_list m t))"

definition FindAllByS11TEID :: "u32 \<Rightarrow> manager \<Rightarrow> sref list" where
  "FindAllByS11TEID t m = s11_list m t"

definition FindByIMSI :: "string \<Rightarrow> manager \<Rightarrow> sref option" where
  "FindByIMSI imsi m = mget (byIMSI m) imsi"

definition FindByPFCPSEID :: "u64 \<Rightarrow> u64 \<Rightarrow> manager \<Rightarrow> sref option" where
  "FindByPFCPSEID cpSEID upSEID m = List.find (\<lambda>r. let b = s_PFCP (deref m r) in
     Established b \<and> \<not> (cpSEID \<noteq> 0 \<and> SEID (LocalFSEID b) \<noteq> cpSEID) \<and>
     \<not> (upSEID \<noteq> 0 \<and> SEID (SGWUFSEID b) \<noteq> upSEID)) (map snd (byID m))"

definition FindByS5CTEID :: "u32 \<Rightarrow> manager \<Rightarrow> sref option" where
  "FindByS5CTEID t m = mget (byS5C m) t"

definition FindByPGW :: "string \<Rightarrow> manager \<Rightarrow> sref list" where
  "FindByPGW pgwAddr m = (let canonical = CanonicalGTPCEndpoint pgwAddr in
     if canonical = [] then [] else map snd (pgw_map m canonical))"

definition at_mme :: "string \<Rightarrow> sgw_session \<Rightarrow> bool" where
  "at_mme canonical s \<longleftrightarrow> isValid (ep_IPv4 (s_MMEControl s)) \<and>
     CanonicalGTPCEndpoint (addr_String (ep_IPv4 (s_MMEControl s))) = canonical"

definition FindByMME :: "string \<Rightarrow> manager \<Rightarrow> sref list" where
  "FindByMME mmeAddr m = (let canonical = CanonicalGTPCEndpoint mmeAddr in
     if canonical = [] then []
     else filter (\<lambda>r. at_mme canonical (deref m r)) (map snd (byID m)))"

definition FindMMERestorationByDDN :: "string \<Rightarrow> u32 \<Rightarrow> u32 \<Rightarrow> manager \<Rightarrow> sref option" where
  "FindMMERestorationByDDN mmeAddr sgwS11TEID seq m =
     (let canonical = CanonicalGTPCEndpoint mmeAddr in
      if canonical = [] \<or> seq = 0 then None
      else List.find (\<lambda>r. let s = deref m r in
        \<not> (sgwS11TEID \<noteq> 0 \<and> ep_TEID (s_SGWS11 s) \<noteq> sgwS11TEID) \<and> at_mme canonical s \<and>
        mr_DDNTriggered (s_MMERestoration s) \<and> mr_DDNSequence (s_MMERestoration s) = seq)
        (map snd (byID m)))"

definition FindMMERestorationByIMSI :: "string \<Rightarrow> string \<Rightarrow> manager \<Rightarrow> sref option" where
  "FindMMERestorationByIMSI mmeAddr imsi m =
     (let canonical = CanonicalGTPCEndpoint mmeAddr in
      if canonical = [] \<or> imsi = [] then None
      else List.find (\<lambda>r. let s = deref m r in
        s_IMSI s = imsi \<and> at_mme canonical s \<and> mr_DDNTriggered (s_MMERestoration s))
        (map snd (byID m)))"

definition mgr_List :: "manager \<Rightarrow> sref list" where
  "mgr_List m = map snd (byID m)"

definition mgr_Count :: "manager \<Rightarrow> nat" where
  "mgr_Count m = length (byID m)"

section \<open>Registrations and bulk updates\<close>

definition RegisterS5CTEID :: "string \<Rightarrow> u32 \<Rightarrow> manager \<Rightarrow> manager \<times> checkpoint_note list" where
  "RegisterS5CTEID sid t m = (case mget (byID m) sid of
     None \<Rightarrow> (m, [])
   | Some r \<Rightarrow> (m\<lparr>byS5C := mput t r (byS5C m)\<rparr>, checkpoint (deref m r)))"

definition RegisterPGW :: "gtime \<Rightarrow> gtime \<Rightarrow> string \<Rightarrow> string \<Rightarrow> manager \<Rightarrow> manager \<times> checkpoint_note list" where
  "RegisterPGW now now' sid pgwAddr m =
     (let canonical = CanonicalGTPCEndpoint pgwAddr in
      if canonical = [] then (m, [])
      else case mget (byID m) sid of
        None \<Rightarrow> (m, [])
      | Some r \<Rightarrow>
          let old = pf_PGWAddr (s_PGWFailure (deref m r));
              m1 = (if old \<noteq> [] \<and> old \<noteq> canonical then removePGWLocked old sid m else m);
              m2 = m1\<lparr>byPGW := mput canonical (mput sid r (pgw_map m1 canonical)) (byPGW m1)\<rparr>
          in on_session r (SetPGWPathState now' PGWPathStateUp canonical now) m2)"

definition MarkPGWPathState :: "(nat \<Rightarrow> gtime) \<Rightarrow> string \<Rightarrow> string \<Rightarrow> gtime \<Rightarrow> manager \<Rightarrow>
    nat \<times> manager \<times> checkpoint_note list" where
  "MarkPGWPathState clock pgwAddr state at m =
     (let rs = FindByPGW pgwAddr m in (length rs,
      each_session (\<lambda>i. SetPGWPathState (clock i) state (CanonicalGTPCEndpoint pgwAddr) at) 0 rs m))"

definition mgr_MarkPGWRestart :: "(nat \<Rightarrow> gtime) \<Rightarrow> string \<Rightarrow> u8 \<Rightarrow> gtime \<Rightarrow> manager \<Rightarrow>
    nat \<times> manager \<times> checkpoint_note list" where
  "mgr_MarkPGWRestart clock pgwAddr recovery at m =
     (let rs = FindByPGW pgwAddr m in (length rs,
      each_session (\<lambda>i. MarkPGWRestart (clock i) (CanonicalGTPCEndpoint pgwAddr) recovery at) 0 rs m))"

definition MarkMMEPathState :: "(nat \<Rightarrow> gtime) \<Rightarrow> string \<Rightarrow> string \<Rightarrow> gtime \<Rightarrow> manager \<Rightarrow>
    nat \<times> manager \<times> checkpoint_note list" where
  "MarkMMEPathState clock mmeAddr state at m =
     (let rs = FindByMME mmeAddr m in (length rs,
      each_session (\<lambda>i. SetMMEPathState (clock i) state (CanonicalGTPCEndpoint mmeAddr) at) 0 rs m))"

definition mgr_MarkMMERestart :: "(nat \<Rightarrow> gtime) \<Rightarrow> string \<Rightarrow> u8 \<Rightarrow> gtime \<Rightarrow> manager \<Rightarrow>
    nat \<times> manager \<times> checkpoint_note list" where
  "mgr_MarkMMERestart clock mmeAddr recovery at m =
     (let rs = FindByMME mmeAddr m in (length rs,
      each_session (\<lambda>i. MarkMMERestart (clock i) (CanonicalGTPCEndpoint mmeAddr) recovery at) 0 rs m))"

fun invalidate_each :: "(sgw_session \<Rightarrow> bool \<times> sgw_session \<times> checkpoint_note list) list \<Rightarrow>
    sref list \<Rightarrow> nat \<times> manager \<times> checkpoint_note list \<Rightarrow> nat \<times> manager \<times> checkpoint_note list" where
  "invalidate_each (f # fs) (r # rs) (n, m, ns) =
     (let (ok, s, ms) = f (deref m r) in
      invalidate_each fs rs (if ok then n + 1 else n, m\<lparr>heap := (heap m)[r := s]\<rparr>, ns @ ms))"
| "invalidate_each _ _ acc = acc"

definition InvalidatePFCPBindings :: "(nat \<Rightarrow> gtime \<times> gtime) \<Rightarrow> manager \<Rightarrow>
    nat \<times> manager \<times> checkpoint_note list" where
  "InvalidatePFCPBindings clock m = (let rs = mgr_List m in
     invalidate_each (map (\<lambda>i. InvalidatePFCPBinding (fst (clock i)) (snd (clock i))) [0..<length rs])
       rs (0, m, []))"

definition InvalidatePFCPBindingsForPeer :: "(nat \<Rightarrow> gtime \<times> gtime) \<Rightarrow> string \<Rightarrow> string \<Rightarrow> manager \<Rightarrow>
    nat \<times> manager \<times> checkpoint_note list" where
  "InvalidatePFCPBindingsForPeer clock nm ad m = (let rs = mgr_List m in
     invalidate_each (map (\<lambda>i. InvalidatePFCPBindingForPeer (fst (clock i)) (snd (clock i)) nm ad)
       [0..<length rs]) rs (0, m, []))"

section \<open>Canonical endpoints\<close>

lemma itoa_2123: "itoa 2123 = ''2123''"
  by code_simp

lemma plain_itoa [simp]: "plain (itoa n)" "CHR '':'' \<notin> set (itoa n)"
  using itoa_digits is_digit_dot unfolding plain_def by blast+

lemma canonical_not_Nil: "CanonicalGTPCEndpoint a \<noteq> [] \<Longrightarrow>
    \<exists>host. host \<noteq> [] \<and> CanonicalGTPCEndpoint a = joinHostPort host (itoa 2123)"
  by (auto simp: CanonicalGTPCEndpoint_def Let_def split: if_splits option.splits)

lemma joinHostPort_not_Nil [simp]: "joinHostPort h p \<noteq> []"
  by (simp add: joinHostPort_def)

lemma canonical_join:
  "plain host \<Longrightarrow> plain port \<Longrightarrow> CHR '':'' \<notin> set port \<Longrightarrow> host \<noteq> [] \<Longrightarrow>
     CanonicalGTPCEndpoint (joinHostPort host port) = joinHostPort host (itoa 2123)"
  by (simp add: CanonicalGTPCEndpoint_def Let_def)

lemma split_plain:
  "splitHostPort a = Some (h, p) \<Longrightarrow> plain a \<Longrightarrow> plain h"
  by (auto simp: splitHostPort_def plain_def split: option.splits if_splits dest: in_set_takeD in_set_dropD)

lemma canonical_idem:
  assumes "plain a"
  shows "CanonicalGTPCEndpoint (CanonicalGTPCEndpoint a) = CanonicalGTPCEndpoint a"
proof -
  have "plain (case splitHostPort a of None \<Rightarrow> a | Some (h, p) \<Rightarrow> h)"
    using assms split_plain by (auto split: option.splits)
  then show ?thesis
    using canonical_join [of _ "itoa 2123"] CanonicalGTPCEndpoint_def [of "[]"]
    by (auto simp: CanonicalGTPCEndpoint_def [of a] Let_def)
qed

lemma bracketed_not_idem:
  "CanonicalGTPCEndpoint (CanonicalGTPCEndpoint ''[::1]'') \<noteq> CanonicalGTPCEndpoint ''[::1]''"
  by (simp add: CanonicalGTPCEndpoint_def splitHostPort_def joinHostPort_def last_index_def
    first_index_def Let_def itoa_2123)

section \<open>Frames\<close>

definition indexed :: "manager \<Rightarrow> sref \<Rightarrow> bool" where
  "indexed m r \<longleftrightarrow> r < length (heap m) \<and> mget (byID m) (s_SessionID (deref m r)) = Some r"

definition s11_teid :: "sgw_session \<Rightarrow> u32" where
  "s11_teid s = ep_TEID (s_SGWS11 s)"

lemma deref_update [simp]:
  "deref (m\<lparr>byID := x\<rparr>) = deref m" "deref (m\<lparr>byS11 := y\<rparr>) = deref m" "deref (m\<lparr>byS5C := z\<rparr>) = deref m"
  "deref (m\<lparr>byPGW := u\<rparr>) = deref m" "deref (m\<lparr>byIMSI := v\<rparr>) = deref m" "deref (m\<lparr>byPDN := w\<rparr>) = deref m"
  "deref (m\<lparr>teidAlloc := a\<rparr>) = deref m"
  by (auto simp: deref_def fun_eq_iff)

lemma s11_list_update [simp]:
  "s11_list (m\<lparr>byID := x\<rparr>) = s11_list m" "s11_list (m\<lparr>byS5C := z\<rparr>) = s11_list m"
  "s11_list (m\<lparr>byPGW := u\<rparr>) = s11_list m" "s11_list (m\<lparr>byIMSI := v\<rparr>) = s11_list m"
  "s11_list (m\<lparr>byPDN := w\<rparr>) = s11_list m" "s11_list (m\<lparr>teidAlloc := a\<rparr>) = s11_list m"
  "s11_list (m\<lparr>heap := h\<rparr>) = s11_list m"
  by (auto simp: s11_list_def fun_eq_iff)

lemma s11_list_put: "s11_list (m\<lparr>byS11 := mput t rs (byS11 m)\<rparr>) t' = (if t' = t then rs else s11_list m t')"
  and s11_list_del: "s11_list (m\<lparr>byS11 := mdel t (byS11 m)\<rparr>) t' = (if t' = t then [] else s11_list m t')"
  by (simp_all add: s11_list_def map_simps)

lemma pgw_map_put: "pgw_map (m\<lparr>byPGW := mput c x (byPGW m)\<rparr>) c' = (if c' = c then x else pgw_map m c')"
  and pgw_map_del: "pgw_map (m\<lparr>byPGW := mdel c (byPGW m)\<rparr>) c' = (if c' = c then [] else pgw_map m c')"
  by (simp_all add: pgw_map_def map_simps)

lemma pgw_map_update [simp]:
  "pgw_map (m\<lparr>byID := x\<rparr>) = pgw_map m" "pgw_map (m\<lparr>byS5C := z\<rparr>) = pgw_map m"
  "pgw_map (m\<lparr>byS11 := u\<rparr>) = pgw_map m" "pgw_map (m\<lparr>byIMSI := v\<rparr>) = pgw_map m"
  "pgw_map (m\<lparr>byPDN := w\<rparr>) = pgw_map m" "pgw_map (m\<lparr>teidAlloc := a\<rparr>) = pgw_map m"
  "pgw_map (m\<lparr>heap := h\<rparr>) = pgw_map m"
  by (auto simp: pgw_map_def fun_eq_iff)

lemma remove_s11_frame [simp]:
  "heap (remove_s11 r m) = heap m" "byID (remove_s11 r m) = byID m" "byS5C (remove_s11 r m) = byS5C m"
  "byPGW (remove_s11 r m) = byPGW m" "byIMSI (remove_s11 r m) = byIMSI m" "byPDN (remove_s11 r m) = byPDN m"
  "teidAlloc (remove_s11 r m) = teidAlloc m" "deref (remove_s11 r m) = deref m"
  "checkpointSink (remove_s11 r m) = checkpointSink m"
  by (simp_all add: remove_s11_def Let_def)

lemma removePGW_frame [simp]:
  "heap (removePGWLocked a i m) = heap m" "byID (removePGWLocked a i m) = byID m"
  "byS5C (removePGWLocked a i m) = byS5C m" "byS11 (removePGWLocked a i m) = byS11 m"
  "byIMSI (removePGWLocked a i m) = byIMSI m" "byPDN (removePGWLocked a i m) = byPDN m"
  "teidAlloc (removePGWLocked a i m) = teidAlloc m" "deref (removePGWLocked a i m) = deref m"
  "s11_list (removePGWLocked a i m) = s11_list m" "checkpointSink (removePGWLocked a i m) = checkpointSink m"
  by (simp_all add: removePGWLocked_def Let_def)

lemma remove_pgw_frame [simp]:
  "heap (remove_pgw r m) = heap m" "byID (remove_pgw r m) = byID m" "byS5C (remove_pgw r m) = byS5C m"
  "byS11 (remove_pgw r m) = byS11 m" "byIMSI (remove_pgw r m) = byIMSI m" "byPDN (remove_pgw r m) = byPDN m"
  "teidAlloc (remove_pgw r m) = teidAlloc m" "deref (remove_pgw r m) = deref m"
  "s11_list (remove_pgw r m) = s11_list m" "checkpointSink (remove_pgw r m) = checkpointSink m"
  by (simp_all add: remove_pgw_def Let_def)

lemma remove_imsi_frame [simp]:
  "heap (remove_imsi r m) = heap m" "byID (remove_imsi r m) = byID m" "byS5C (remove_imsi r m) = byS5C m"
  "byS11 (remove_imsi r m) = byS11 m" "byPGW (remove_imsi r m) = byPGW m" "byPDN (remove_imsi r m) = byPDN m"
  "teidAlloc (remove_imsi r m) = teidAlloc m" "deref (remove_imsi r m) = deref m"
  "s11_list (remove_imsi r m) = s11_list m" "pgw_map (remove_imsi r m) = pgw_map m"
  "checkpointSink (remove_imsi r m) = checkpointSink m"
  by (simp_all add: remove_imsi_def Let_def split: option.splits)

lemma pgw_map_remove_s11 [simp]: "pgw_map (remove_s11 r m) = pgw_map m"
  by (simp add: pgw_map_def fun_eq_iff)

text \<open>What the removal of a session does to each index.\<close>

lemma s11_list_remove_s11:
  "s11_list (remove_s11 r m) t =
     (if t = s11_teid (deref m r) then filter (\<lambda>c. c \<noteq> r) (s11_list m t) else s11_list m t)"
  by (auto simp: remove_s11_def Let_def s11_list_put s11_list_del s11_teid_def)

lemma removeLocked_frame [simp]:
  "heap (removeLocked r m) = heap m" "teidAlloc (removeLocked r m) = teidAlloc m"
  "deref (removeLocked r m) = deref m" "checkpointSink (removeLocked r m) = checkpointSink m"
  by (simp_all add: removeLocked_def Let_def)

lemma byID_removeLocked [simp]: "byID (removeLocked r m) = mdel (s_SessionID (deref m r)) (byID m)"
  by (simp add: removeLocked_def Let_def)

lemma s11_list_removeLocked:
  "s11_list (removeLocked r m) t =
     (if t = s11_teid (deref m r) then filter (\<lambda>c. c \<noteq> r) (s11_list m t) else s11_list m t)"
  by (simp add: removeLocked_def Let_def s11_list_remove_s11)

lemma byPDN_removeLocked:
  "byPDN (removeLocked r m) =
     (if mget (byPDN m) (pdnKey (deref m r)) = Some r then mdel (pdnKey (deref m r)) (byPDN m) else byPDN m)"
  by (simp add: removeLocked_def Let_def)

lemma byS5C_removeLocked:
  "byS5C (removeLocked r m) =
     (if ep_TEID (s_SGWS5C (deref m r)) \<noteq> 0 then mdel (ep_TEID (s_SGWS5C (deref m r))) (byS5C m) else byS5C m)"
  by (simp add: removeLocked_def Let_def)

lemma newest_of_eq: "byID m = byID m' \<Longrightarrow> deref m = deref m' \<Longrightarrow> newest_of m i = newest_of m' i"
  unfolding newest_of_def by (simp only:)

lemma byIMSI_removeLocked:
  "mget (byIMSI (removeLocked r m)) i =
     (if mget (byIMSI m) (s_IMSI (deref m r)) = Some r \<and> i = s_IMSI (deref m r)
      then newest_of (m\<lparr>byID := mdel (s_SessionID (deref m r)) (byID m)\<rparr>) i
      else mget (byIMSI m) i)"
proof -
  define m5 where "m5 = (let s = deref m r;
          m1 = m\<lparr>byID := mdel (s_SessionID s) (byID m)\<rparr>;
          m2 = remove_s11 r m1;
          m3 = (if ep_TEID (s_SGWS5C s) \<noteq> 0
                then m2\<lparr>byS5C := mdel (ep_TEID (s_SGWS5C s)) (byS5C m2)\<rparr> else m2);
          m4 = remove_pgw r m3
      in (if mget (byPDN m4) (pdnKey s) = Some r
                then m4\<lparr>byPDN := mdel (pdnKey s) (byPDN m4)\<rparr> else m4))"
  have r: "removeLocked r m = remove_imsi r m5" by (simp add: removeLocked_def m5_def Let_def)
  have "byIMSI m5 = byIMSI m" "deref m5 = deref m" "byID m5 = mdel (s_SessionID (deref m r)) (byID m)"
    by (simp_all add: m5_def Let_def)
  then have n: "newest_of m5 j = newest_of (m\<lparr>byID := mdel (s_SessionID (deref m r)) (byID m)\<rparr>) j" for j
    by (intro newest_of_eq) simp_all
  show ?thesis
    using \<open>byIMSI m5 = _\<close> \<open>deref m5 = _\<close> n
    by (auto simp: r remove_imsi_def Let_def map_simps split: option.splits)
qed

section \<open>The invariant\<close>

definition ids_ok :: "manager \<Rightarrow> bool" where
  "ids_ok m \<longleftrightarrow> mok (byID m) \<and>
     (\<forall>sid r. mget (byID m) sid = Some r \<longrightarrow> r < length (heap m) \<and> s_SessionID (deref m r) = sid)"

definition s11_ok :: "manager \<Rightarrow> bool" where
  "s11_ok m \<longleftrightarrow> (\<forall>t. distinct (s11_list m t)) \<and>
     (\<forall>t r. r \<in> set (s11_list m t) \<longleftrightarrow> indexed m r \<and> s11_teid (deref m r) = t)"

definition pdn_ok :: "manager \<Rightarrow> bool" where
  "pdn_ok m \<longleftrightarrow> (\<forall>k r. mget (byPDN m) k = Some r \<longleftrightarrow> indexed m r \<and> pdnKey (deref m r) = k)"

definition imsi_ok :: "manager \<Rightarrow> bool" where
  "imsi_ok m \<longleftrightarrow> (\<forall>i r. mget (byIMSI m) i = Some r \<longrightarrow> indexed m r \<and> s_IMSI (deref m r) = i) \<and>
     (\<forall>r. indexed m r \<longrightarrow> mget (byIMSI m) (s_IMSI (deref m r)) \<noteq> None)"

definition s5c_ok :: "manager \<Rightarrow> bool" where
  "s5c_ok m \<longleftrightarrow> (\<forall>t r. mget (byS5C m) t = Some r \<longrightarrow>
     t \<noteq> 0 \<and> indexed m r \<and> ep_TEID (s_SGWS5C (deref m r)) = t)"

definition pgw_ok :: "manager \<Rightarrow> bool" where
  "pgw_ok m \<longleftrightarrow> (\<forall>c sid r. mget (pgw_map m c) sid = Some r \<longrightarrow>
     indexed m r \<and> s_SessionID (deref m r) = sid \<and> pf_PGWAddr (s_PGWFailure (deref m r)) = c \<and>
     c \<noteq> [] \<and> CanonicalGTPCEndpoint c = c)"

definition held :: "manager \<Rightarrow> u32 set" where
  "held m = {t. \<exists>r. indexed m r \<and> s11_teid (deref m r) = t}"

definition indexes_ok :: "manager \<Rightarrow> bool" where
  "indexes_ok m \<longleftrightarrow> ids_ok m \<and> s11_ok m \<and> pdn_ok m \<and> imsi_ok m \<and> s5c_ok m \<and> pgw_ok m"

lemma live_iff: "ids_ok m \<Longrightarrow> indexed m r \<longleftrightarrow> (\<exists>sid. mget (byID m) sid = Some r)"
  by (auto simp: indexed_def ids_ok_def)

lemma live_eq: "indexed m r \<Longrightarrow> indexed m r' \<Longrightarrow> s_SessionID (deref m r) = s_SessionID (deref m r') \<Longrightarrow> r = r'"
  by (simp add: indexed_def)

subsection \<open>Removal\<close>

lemma live_removeLocked:
  "ids_ok m \<Longrightarrow> indexed m r \<Longrightarrow> indexed (removeLocked r m) r' \<longleftrightarrow> indexed m r' \<and> r' \<noteq> r"
  by (auto simp: indexed_def map_simps)

lemma newest_fold:
  assumes "(\<forall>n. best = Some n \<longrightarrow> P n)"
  shows "case fold (\<lambda>(sid, r) best. if P r then
       (case best of None \<Rightarrow> Some r | Some n \<Rightarrow> if f n < (f r :: int) then Some r else best)
     else best) xs best of
     None \<Rightarrow> best = None \<and> (\<forall>(sid, r) \<in> set xs. \<not> P r)
   | Some n \<Rightarrow> P n \<and> (best = Some n \<or> n \<in> snd ` set xs)"
  using assms
proof (induction xs arbitrary: best)
  case (Cons x xs)
  obtain sid r where x: "x = (sid, r)" by (cases x)
  let ?b = "if P r then (case best of None \<Rightarrow> Some r | Some n \<Rightarrow> if f n < f r then Some r else best) else best"
  have "\<forall>n. ?b = Some n \<longrightarrow> P n" using Cons.prems by (auto split: option.splits if_splits)
  note IH = Cons.IH [OF this]
  show ?case
  proof (cases "P r")
    case True
    then show ?thesis using IH Cons.prems
      by (cases best; cases "f (the best) < f r") (auto simp: x split: option.splits)
  next
    case False
    then show ?thesis using IH by (auto simp: x split: option.splits)
  qed
qed (auto split: option.splits)

lemma newest_of_cases:
  "case newest_of m i of
     None \<Rightarrow> (\<forall>(sid, r) \<in> set (byID m). s_IMSI (deref m r) \<noteq> i)
   | Some n \<Rightarrow> s_IMSI (deref m n) = i \<and> n \<in> snd ` set (byID m)"
  using newest_fold [of None "\<lambda>r. s_IMSI (deref m r) = i" "byID m" "\<lambda>r. s_CreatedAt (deref m r)"]
  by (simp add: newest_of_def split: option.splits)

lemma mem_byID: "ids_ok m \<Longrightarrow> r \<in> snd ` set (byID m) \<longleftrightarrow> indexed m r"
  using mem_mget [of "byID m" _ r] by (auto simp: live_iff ids_ok_def) (metis image_eqI snd_conv)

lemma ids_removeLocked: "ids_ok m \<Longrightarrow> ids_ok (removeLocked r m)"
  by (auto simp: ids_ok_def map_simps)

lemma s11_removeLocked: "ids_ok m \<Longrightarrow> indexed m r \<Longrightarrow> s11_ok m \<Longrightarrow> s11_ok (removeLocked r m)"
  by (auto simp: s11_ok_def s11_list_removeLocked live_removeLocked)

lemma pdn_removeLocked: "ids_ok m \<Longrightarrow> indexed m r \<Longrightarrow> pdn_ok m \<Longrightarrow> pdn_ok (removeLocked r m)"
  by (simp add: pdn_ok_def byPDN_removeLocked live_removeLocked map_simps del: split_paired_All)
    (metis option.inject)

lemma newest_of_live:
  assumes "ids_ok m" "indexed m r"
  shows "newest_of (m\<lparr>byID := mdel (s_SessionID (deref m r)) (byID m)\<rparr>) i = Some n \<Longrightarrow>
      indexed m n \<and> n \<noteq> r \<and> s_IMSI (deref m n) = i"
    and "newest_of (m\<lparr>byID := mdel (s_SessionID (deref m r)) (byID m)\<rparr>) i = None \<Longrightarrow>
      indexed m r' \<Longrightarrow> r' \<noteq> r \<Longrightarrow> s_IMSI (deref m r') \<noteq> i"
proof -
  let ?m = "removeLocked r m"
  have c: "case newest_of (m\<lparr>byID := mdel (s_SessionID (deref m r)) (byID m)\<rparr>) i of
     None \<Rightarrow> (\<forall>(sid, r) \<in> set (byID ?m). s_IMSI (deref m r) \<noteq> i)
   | Some n \<Rightarrow> s_IMSI (deref m n) = i \<and> n \<in> snd ` set (byID ?m)"
    using newest_of_cases [of "m\<lparr>byID := mdel (s_SessionID (deref m r)) (byID m)\<rparr>" i]
    by (auto split: option.splits)
  have l: "q \<in> snd ` set (byID ?m) \<longleftrightarrow> indexed m q \<and> q \<noteq> r" for q
    using mem_byID [OF ids_removeLocked [OF assms(1)]] live_removeLocked [OF assms] by metis
  show "newest_of (m\<lparr>byID := mdel (s_SessionID (deref m r)) (byID m)\<rparr>) i = Some n \<Longrightarrow>
      indexed m n \<and> n \<noteq> r \<and> s_IMSI (deref m n) = i"
    using c l by simp
  show "newest_of (m\<lparr>byID := mdel (s_SessionID (deref m r)) (byID m)\<rparr>) i = None \<Longrightarrow>
      indexed m r' \<Longrightarrow> r' \<noteq> r \<Longrightarrow> s_IMSI (deref m r') \<noteq> i"
    using c l [of r'] by fastforce
qed

lemma imsi_removeLocked:
  assumes "ids_ok m" "indexed m r" "imsi_ok m"
  shows "imsi_ok (removeLocked r m)"
  unfolding imsi_ok_def
proof (intro conjI allI impI)
  fix i q
  assume q: "mget (byIMSI (removeLocked r m)) i = Some q"
  have "indexed m q \<and> q \<noteq> r \<and> s_IMSI (deref m q) = i"
  proof (cases "mget (byIMSI m) (s_IMSI (deref m r)) = Some r \<and> i = s_IMSI (deref m r)")
    case True
    then show ?thesis
      using q newest_of_live(1) [OF assms(1,2), of i q] by (simp add: byIMSI_removeLocked)
  next
    case False
    then have "mget (byIMSI m) i = Some q" using q by (simp add: byIMSI_removeLocked split: if_splits)
    with False assms(3) show ?thesis unfolding imsi_ok_def by metis
  qed
  then show "indexed (removeLocked r m) q" "s_IMSI (deref (removeLocked r m) q) = i"
    by (simp_all add: live_removeLocked [OF assms(1,2)])
next
  fix q
  assume "indexed (removeLocked r m) q"
  then have q: "indexed m q" "q \<noteq> r" by (simp_all add: live_removeLocked [OF assms(1,2)])
  then have "mget (byIMSI m) (s_IMSI (deref m q)) \<noteq> None" using assms(3) unfolding imsi_ok_def by blast
  then show "mget (byIMSI (removeLocked r m)) (s_IMSI (deref (removeLocked r m) q)) \<noteq> None"
    using newest_of_live(2) [OF assms(1,2) _ q] by (auto simp: byIMSI_removeLocked)
qed

lemma s5c_removeLocked: "ids_ok m \<Longrightarrow> indexed m r \<Longrightarrow> s5c_ok m \<Longrightarrow> s5c_ok (removeLocked r m)"
  by (auto simp: s5c_ok_def byS5C_removeLocked live_removeLocked map_simps split: if_splits)

lemma mdel_Nil: "mdel k m = [] \<Longrightarrow> k' \<noteq> k \<Longrightarrow> mget m k' = None"
  by (metis gm.get_del_other mget_Nil)

lemma mget_removePGW:
  "mget (pgw_map (removePGWLocked a i m) c) sid =
     (if CanonicalGTPCEndpoint a \<noteq> [] \<and> c = CanonicalGTPCEndpoint a \<and> sid = i then None
      else mget (pgw_map m c) sid)"
  using mdel_Nil [of i "pgw_map m (CanonicalGTPCEndpoint a)" sid]
  by (auto simp: removePGWLocked_def Let_def pgw_map_put pgw_map_del map_simps)

lemma remove_pgw_cong:
  "deref m' = deref m \<Longrightarrow> pgw_map m' = pgw_map m \<Longrightarrow>
     mget (pgw_map (remove_pgw r m') c) sid = mget (pgw_map (remove_pgw r m) c) sid"
  by (cases "pf_PGWAddr (s_PGWFailure (deref m r)) = []"; cases "isValid (ep_IPv4 (s_PGWControl (deref m r)))")
    (simp_all add: remove_pgw_def Let_def mget_removePGW)

lemma pgw_map_removeLocked:
  "mget (pgw_map (removeLocked r m) c) sid = mget (pgw_map (remove_pgw r m) c) sid"
proof -
  define m2 where "m2 = remove_s11 r (m\<lparr>byID := mdel (s_SessionID (deref m r)) (byID m)\<rparr>)"
  define m3 where "m3 = (if ep_TEID (s_SGWS5C (deref m r)) \<noteq> 0
     then m2\<lparr>byS5C := mdel (ep_TEID (s_SGWS5C (deref m r))) (byS5C m2)\<rparr> else m2)"
  have "pgw_map (removeLocked r m) = pgw_map (remove_pgw r m3)"
    by (simp add: removeLocked_def Let_def flip: m2_def) (simp add: m3_def)
  moreover have "deref m3 = deref m" "pgw_map m3 = pgw_map m"
    by (simp_all add: m3_def m2_def)
  ultimately show ?thesis using remove_pgw_cong by metis
qed

lemma pgw_removeLocked:
  assumes "ids_ok m" "indexed m r" "pgw_ok m"
  shows "pgw_ok (removeLocked r m)"
  unfolding pgw_ok_def
proof (intro allI impI)
  fix c sid q
  assume q: "mget (pgw_map (removeLocked r m) c) sid = Some q"
  have old: "mget (pgw_map m c) sid = Some q"
    using q by (auto simp: pgw_map_removeLocked remove_pgw_def Let_def mget_removePGW split: if_splits)
  have o': "indexed m q" "s_SessionID (deref m q) = sid" "pf_PGWAddr (s_PGWFailure (deref m q)) = c"
    "c \<noteq> []" "CanonicalGTPCEndpoint c = c"
    using old assms(3) unfolding pgw_ok_def by blast+
  have "q \<noteq> r"
    using q o' by (auto simp: pgw_map_removeLocked remove_pgw_def Let_def mget_removePGW split: if_splits)
  with o' assms show "indexed (removeLocked r m) q \<and> s_SessionID (deref (removeLocked r m) q) = sid \<and>
     pf_PGWAddr (s_PGWFailure (deref (removeLocked r m) q)) = c \<and> c \<noteq> [] \<and> CanonicalGTPCEndpoint c = c"
    by (simp add: live_removeLocked)
qed

lemma indexes_removeLocked: "indexes_ok m \<Longrightarrow> indexed m r \<Longrightarrow> indexes_ok (removeLocked r m)"
  by (simp add: indexes_ok_def ids_removeLocked s11_removeLocked pdn_removeLocked imsi_removeLocked
    s5c_removeLocked pgw_removeLocked)

subsection \<open>TEIDs\<close>

lemma in_use_free: "in_use (free t a) = (if t = 0 then in_use a else in_use a - {t})"
  by (auto simp: in_use_def free_def mkeys_iff map_simps split: if_splits)

lemma free_s11_frame [simp]:
  "heap (free_s11 t m) = heap m" "byID (free_s11 t m) = byID m" "byS11 (free_s11 t m) = byS11 m"
  "byS5C (free_s11 t m) = byS5C m" "byPGW (free_s11 t m) = byPGW m" "byIMSI (free_s11 t m) = byIMSI m"
  "byPDN (free_s11 t m) = byPDN m" "deref (free_s11 t m) = deref m" "s11_list (free_s11 t m) = s11_list m"
  "checkpointSink (free_s11 t m) = checkpointSink m"
  by (simp_all add: free_s11_def)

lemma same_indexes:
  assumes "heap m' = heap m" "byID m' = byID m" "byS11 m' = byS11 m" "byS5C m' = byS5C m"
    "byPGW m' = byPGW m" "byIMSI m' = byIMSI m" "byPDN m' = byPDN m"
  shows "indexes_ok m' \<longleftrightarrow> indexes_ok m" "indexed m' = indexed m" "held m' = held m"
proof -
  have d: "deref m' = deref m" using assms(1) by (simp add: deref_def fun_eq_iff)
  show l: "indexed m' = indexed m" using assms d by (simp add: indexed_def fun_eq_iff)
  have e: "s11_list m' = s11_list m" "pgw_map m' = pgw_map m"
    using assms by (simp_all add: s11_list_def pgw_map_def fun_eq_iff)
  show "indexes_ok m' \<longleftrightarrow> indexes_ok m" "held m' = held m"
    unfolding indexes_ok_def ids_ok_def s11_ok_def pdn_ok_def imsi_ok_def s5c_ok_def pgw_ok_def
      held_def l d e assms by (rule refl)+
qed

lemma held_removeLocked:
  "ids_ok m \<Longrightarrow> indexed m r \<Longrightarrow> held m = insert (s11_teid (deref m r)) (held (removeLocked r m))"
  unfolding held_def using live_removeLocked [of m r] by auto

lemma s11_list_Nil_iff: "s11_ok m \<Longrightarrow> s11_list m t = [] \<longleftrightarrow> t \<notin> held m"
proof -
  assume "s11_ok m"
  then have "set (s11_list m t) = {r. indexed m r \<and> s11_teid (deref m r) = t}"
    unfolding s11_ok_def by blast
  moreover have "s11_list m t = [] \<longleftrightarrow> set (s11_list m t) = {}" by simp
  ultimately show ?thesis by (auto simp: held_def)
qed

lemma free_after_remove:
  assumes "indexes_ok m" "indexed m r" "in_use (teidAlloc m) = held m \<union> T" "0 \<notin> in_use (teidAlloc m)"
    "s11_teid (deref m r) \<notin> T"
  shows "in_use (teidAlloc (free_s11 (s11_teid (deref m r)) (removeLocked r m))) = held (removeLocked r m) \<union> T"
proof -
  let ?t = "s11_teid (deref m r)" and ?m = "removeLocked r m"
  have ids: "ids_ok m" "s11_ok ?m"
    using assms(1,2) indexes_removeLocked by (auto simp: indexes_ok_def)
  note h = held_removeLocked [OF ids(1) assms(2)]
  have "?t \<noteq> 0" using assms(3,4) h by auto
  then have "in_use (teidAlloc (free_s11 ?t ?m)) =
      (if ?t \<in> held ?m then in_use (teidAlloc m) else in_use (teidAlloc m) - {?t})"
    by (simp add: free_s11_def s11_list_Nil_iff [OF ids(2)] in_use_free)
  then show ?thesis using assms(3,5) h by auto
qed

lemma held_after_remove:
  assumes "indexes_ok m" "indexed m r" "in_use (teidAlloc m) = held m \<union> T" "s11_teid (deref m r) \<in> T"
  shows "in_use (teidAlloc (removeLocked r m)) = held (removeLocked r m) \<union> T"
proof -
  have "ids_ok m" using assms(1) by (simp add: indexes_ok_def)
  from held_removeLocked [OF this assms(2)] show ?thesis using assms(3,4) by auto
qed

subsection \<open>Methods of sessions\<close>

text \<open>No method changes the fields the indexes depend on, apart from the S5/S8-C TEID and the
  PGW address.\<close>

definition same_keys :: "sgw_session \<Rightarrow> sgw_session \<Rightarrow> bool" where
  "same_keys s s' \<longleftrightarrow> s_SessionID s' = s_SessionID s \<and> s_IMSI s' = s_IMSI s \<and>
     s_DefaultBearerID s' = s_DefaultBearerID s \<and> s_SGWS11 s' = s_SGWS11 s \<and>
     s_CreatedAt s' = s_CreatedAt s"

definition kept :: "sgw_session \<Rightarrow> sgw_session \<Rightarrow> bool" where
  "kept s s' \<longleftrightarrow> same_keys s s' \<and> ep_TEID (s_SGWS5C s') = ep_TEID (s_SGWS5C s) \<and>
     pf_PGWAddr (s_PGWFailure s') = pf_PGWAddr (s_PGWFailure s)"

lemma stable_to [simp]:
  "same_keys s (to_recovering s') \<longleftrightarrow> same_keys s s'" "same_keys s (to_active s') \<longleftrightarrow> same_keys s s'"
  "same_keys s (record_mme at f s') \<longleftrightarrow> same_keys s s'"
  by (simp_all add: same_keys_def to_recovering_def to_active_def record_mme_def)

lemma kept_to [simp]:
  "kept s (to_recovering s') \<longleftrightarrow> kept s s'" "kept s (to_active s') \<longleftrightarrow> kept s s'"
  "kept s (record_mme at f s') \<longleftrightarrow> kept s s'"
  by (simp_all add: kept_def to_recovering_def to_active_def record_mme_def same_keys_def)

lemma kept_refl [simp]: "kept s s" "same_keys s s"
  by (simp_all add: kept_def same_keys_def)

lemma kept_trans: "kept s t \<Longrightarrow> kept t u \<Longrightarrow> kept s u"
  by (simp add: kept_def same_keys_def)

lemma to_frame [simp]:
  "s_SGWS5C (to_recovering s) = s_SGWS5C s" "s_SGWS5C (to_active s) = s_SGWS5C s"
  "s_PGWFailure (to_recovering s) = s_PGWFailure s" "s_PGWFailure (to_active s) = s_PGWFailure s"
  "s_SessionID (to_recovering s) = s_SessionID s" "s_SessionID (to_active s) = s_SessionID s"
  "s_IMSI (to_recovering s) = s_IMSI s" "s_IMSI (to_active s) = s_IMSI s"
  "s_DefaultBearerID (to_recovering s) = s_DefaultBearerID s" "s_DefaultBearerID (to_active s) = s_DefaultBearerID s"
  "s_SGWS11 (to_recovering s) = s_SGWS11 s" "s_SGWS11 (to_active s) = s_SGWS11 s"
  "s_CreatedAt (to_recovering s) = s_CreatedAt s" "s_CreatedAt (to_active s) = s_CreatedAt s"
  by (simp_all add: to_recovering_def to_active_def)

lemma sess_step_stable: "same_keys s (sess_step c s)"
  by (cases c) (simp_all add: sess_step_def sess_defs Let_def same_keys_def record_mme_def split: option.splits)

fun reindexing :: "sess_call \<Rightarrow> bool" where
  "reindexing (C_SetSGWS5CFTEID _ _) = True"
| "reindexing (C_SetPGWPathState _ _ _ _) = True"
| "reindexing (C_MarkPGWRestart _ _ _ _) = True"
| "reindexing _ = False"

lemma sess_step_kept: "\<not> reindexing c \<Longrightarrow> kept s (sess_step c s)"
  by (cases c) (simp_all add: sess_step_def sess_defs Let_def same_keys_def kept_def record_mme_def split: option.splits)

lemma sess_step_s5c: "kept s ((sess_step (C_SetSGWS5CFTEID now f) s)\<lparr>s_SGWS5C := s_SGWS5C s\<rparr>)"
  by (simp add: sess_step_def SetSGWS5CFTEID_def kept_def same_keys_def)

lemma pgw_path_kept:
  "pf_PGWAddr (s_PGWFailure s) = c \<Longrightarrow> kept s (fst (SetPGWPathState now st c at s))"
  "pf_PGWAddr (s_PGWFailure s) = c \<Longrightarrow> kept s (fst (MarkPGWRestart now c rec at s))"
  by (simp_all add: SetPGWPathState_def MarkPGWRestart_def Let_def kept_def same_keys_def)

lemma mme_kept:
  "kept s (fst (SetMMEPathState now st a at s))" "kept s (fst (MarkMMERestart now a rec at s))"
  by (simp_all add: SetMMEPathState_def MarkMMERestart_def Let_def) (simp_all add: kept_def same_keys_def)

lemma invalidate_kept:
  "kept s (fst (snd (InvalidatePFCPBinding now now' s)))"
  "kept s (fst (snd (InvalidatePFCPBindingForPeer now now' nm ad s)))"
  by (simp_all add: InvalidatePFCPBinding_def InvalidatePFCPBindingForPeer_def kept_def same_keys_def)

text \<open>Managers whose sessions differ only in such ways.\<close>

definition heap_kept :: "manager \<Rightarrow> manager \<Rightarrow> bool" where
  "heap_kept m m' \<longleftrightarrow> byID m' = byID m \<and> byS11 m' = byS11 m \<and> byS5C m' = byS5C m \<and>
     byPGW m' = byPGW m \<and> byIMSI m' = byIMSI m \<and> byPDN m' = byPDN m \<and> teidAlloc m' = teidAlloc m \<and>
     length (heap m') = length (heap m) \<and> (\<forall>q < length (heap m). kept (deref m q) (deref m' q))"

lemma heap_kept_refl [simp]: "heap_kept m m"
  by (simp add: heap_kept_def)

lemma heap_kept_trans: "heap_kept m m' \<Longrightarrow> heap_kept m' m'' \<Longrightarrow> heap_kept m m''"
  by (auto simp: heap_kept_def intro: kept_trans)

lemma heap_kept_update:
  assumes "r < length (heap m) \<Longrightarrow> kept (deref m r) s"
  shows "heap_kept m (m\<lparr>heap := (heap m)[r := s]\<rparr>)"
  unfolding heap_kept_def
proof (intro conjI allI impI)
  fix q assume "q < length (heap m)"
  then show "kept (deref m q) (deref (m\<lparr>heap := (heap m)[r := s]\<rparr>) q)"
    using assms by (cases "q = r") (simp_all add: deref_def)
qed simp_all

text \<open>The indexes by ID, S11 TEID, PDN and IMSI do not notice stable changes of sessions.\<close>

definition heap_stable :: "manager \<Rightarrow> manager \<Rightarrow> bool" where
  "heap_stable m m' \<longleftrightarrow> byID m' = byID m \<and> byS11 m' = byS11 m \<and> byIMSI m' = byIMSI m \<and>
     byPDN m' = byPDN m \<and> length (heap m') = length (heap m) \<and>
     (\<forall>q < length (heap m). same_keys (deref m q) (deref m' q))"

lemma heap_stable_indexed:
  assumes "heap_stable m m'"
  shows "indexed m' = indexed m"
proof
  fix q
  show "indexed m' q = indexed m q"
    using assms by (cases "q < length (heap m)") (auto simp: heap_stable_def indexed_def same_keys_def)
qed

lemma heap_stable_ok:
  assumes "heap_stable m m'" "ids_ok m" "s11_ok m" "pdn_ok m" "imsi_ok m"
  shows "ids_ok m'" "s11_ok m'" "pdn_ok m'" "imsi_ok m'" "held m' = held m"
proof -
  note l = heap_stable_indexed [OF assms(1)]
  have k: "s_SessionID (deref m' q) = s_SessionID (deref m q)" "s_IMSI (deref m' q) = s_IMSI (deref m q)"
    "pdnKey (deref m' q) = pdnKey (deref m q)" "s11_teid (deref m' q) = s11_teid (deref m q)"
    if "indexed m q" for q
    using assms(1) that by (auto simp: heap_stable_def indexed_def same_keys_def pdnKey_def s11_teid_def)
  have e: "s11_list m' = s11_list m"
    using assms(1) by (simp add: s11_list_def fun_eq_iff heap_stable_def)
  have f: "byID m' = byID m" "byPDN m' = byPDN m" "byIMSI m' = byIMSI m"
    "length (heap m') = length (heap m)"
    using assms(1) by (simp_all add: heap_stable_def)
  show "ids_ok m'"
    using assms(2) k(1) live_iff [OF assms(2)] unfolding ids_ok_def f by metis
  show "s11_ok m'" using assms(3) k(4) unfolding s11_ok_def e l by metis
  show "pdn_ok m'" using assms(4) k(3) unfolding pdn_ok_def f l by metis
  show "imsi_ok m'" using assms(5) k(2) unfolding imsi_ok_def f l by metis
  show "held m' = held m" using k(4) unfolding held_def l by auto
qed

lemma heap_kept_stable: "heap_kept m m' \<Longrightarrow> heap_stable m m'"
  by (simp add: heap_kept_def heap_stable_def kept_def)

lemma heap_kept_ok:
  assumes "heap_kept m m'" "indexes_ok m"
  shows "indexes_ok m'" and "held m' = held m"
proof -
  note st = heap_kept_stable [OF assms(1)]
  note l = heap_stable_indexed [OF st]
  have k: "s_SessionID (deref m' q) = s_SessionID (deref m q)"
    "ep_TEID (s_SGWS5C (deref m' q)) = ep_TEID (s_SGWS5C (deref m q))"
    "pf_PGWAddr (s_PGWFailure (deref m' q)) = pf_PGWAddr (s_PGWFailure (deref m q))"
    if "indexed m q" for q
    using assms(1) that by (auto simp: heap_kept_def indexed_def kept_def same_keys_def)
  have e: "pgw_map m' = pgw_map m" "byS5C m' = byS5C m"
    using assms(1) by (simp_all add: pgw_map_def fun_eq_iff heap_kept_def)
  have ok: "ids_ok m" "s11_ok m" "pdn_ok m" "imsi_ok m" "s5c_ok m" "pgw_ok m"
    using assms(2) by (simp_all add: indexes_ok_def)
  have "s5c_ok m'" using ok(5) k(2) unfolding s5c_ok_def e l by metis
  moreover have "pgw_ok m'" using ok(6) k(1,3) unfolding pgw_ok_def e l by metis
  ultimately show "indexes_ok m'"
    using heap_stable_ok [OF st ok(1-4)] by (simp add: indexes_ok_def)
  show "held m' = held m" by (rule heap_stable_ok(5) [OF st ok(1-4)])
qed

lemma heap_kept_each:
  assumes "\<And>i s. P s \<Longrightarrow> kept s (fst (f i s))" "\<And>s s'. P s \<Longrightarrow> kept s s' \<Longrightarrow> P s'"
  shows "\<forall>r \<in> set rs. r < length (heap m) \<and> P (deref m r) \<Longrightarrow> heap_kept m (fst (each_session f i rs m))"
proof (induction rs arbitrary: i m)
  case (Cons r rs)
  define m1 where "m1 = m\<lparr>heap := (heap m)[r := fst (f i (deref m r))]\<rparr>"
  have k: "heap_kept m m1"
    unfolding m1_def by (rule heap_kept_update) (use Cons.prems assms(1) in simp)
  have "\<forall>r \<in> set rs. r < length (heap m1) \<and> P (deref m1 r)"
    using Cons.prems k assms(2) unfolding heap_kept_def by auto
  then have "heap_kept m1 (fst (each_session f (i + 1) rs m1))" by (rule Cons.IH)
  with k have "heap_kept m (fst (each_session f (i + 1) rs m1))" by (rule heap_kept_trans)
  then show ?case by (simp add: on_session_def m1_def Let_def case_prod_beta)
qed simp

lemma heap_kept_invalidate:
  assumes "\<forall>f \<in> set fs. \<forall>s. kept s (fst (snd (f s)))"
  shows "heap_kept m (fst (snd (invalidate_each fs rs (n, m, ns))))"
  using assms
proof (induction fs rs "(n, m, ns)" arbitrary: n m ns rule: invalidate_each.induct)
  case (1 f fs r rs n m ns)
  obtain b s ms where f: "f (deref m r) = (b, s, ms)" by (cases "f (deref m r)")
  have "kept (deref m r) s" using "1.prems" f by (metis fst_conv snd_conv list.set_intros(1))
  then have k: "heap_kept m (m\<lparr>heap := (heap m)[r := s]\<rparr>)" by (intro heap_kept_update)
  have "heap_kept (m\<lparr>heap := (heap m)[r := s]\<rparr>)
      (fst (snd (invalidate_each fs rs (if b then n + 1 else n, m\<lparr>heap := (heap m)[r := s]\<rparr>, ns @ ms))))"
    by (rule "1.hyps" [OF f [symmetric] refl refl]) (use "1.prems" in auto)
  from heap_kept_trans [OF k this] show ?case by (simp add: f)
qed auto

subsection \<open>Insertion\<close>

lemma deref_index:
  "q < length (heap m) \<Longrightarrow> deref (index_session s m) q = deref m q"
  "deref (index_session s m) (length (heap m)) = s"
  by (simp_all add: deref_def index_session_def Let_def nth_append)

lemma index_frame [simp]:
  "teidAlloc (index_session s m) = teidAlloc m" "byS5C (index_session s m) = byS5C m"
  "pgw_map (index_session s m) = pgw_map m" "checkpointSink (index_session s m) = checkpointSink m"
  "length (heap (index_session s m)) = Suc (length (heap m))"
  by (simp_all add: index_session_def Let_def pgw_map_def fun_eq_iff)

lemma mget_index:
  "mget (byID (index_session s m)) sid = (if sid = s_SessionID s then Some (length (heap m)) else mget (byID m) sid)"
  "mget (byPDN (index_session s m)) k = (if k = pdnKey s then Some (length (heap m)) else mget (byPDN m) k)"
  "mget (byIMSI (index_session s m)) i = (if i = s_IMSI s then Some (length (heap m)) else mget (byIMSI m) i)"
  "s11_list (index_session s m) t = (if t = s11_teid s then s11_list m t @ [length (heap m)] else s11_list m t)"
  by (simp_all add: index_session_def Let_def map_simps s11_list_def s11_teid_def)

lemma live_index:
  assumes "ids_ok m" "mget (byID m) (s_SessionID s) = None"
  shows "indexed (index_session s m) q \<longleftrightarrow> indexed m q \<or> q = length (heap m)"
proof -
  consider "q < length (heap m)" | "q = length (heap m)" | "q > length (heap m)" by linarith
  then show ?thesis
  proof cases
    case 1
    then show ?thesis
      using assms(2) by (auto simp: indexed_def deref_index(1) mget_index)
  next
    case 2
    then show ?thesis by (simp add: indexed_def deref_index(2) mget_index)
  next
    case 3
    then show ?thesis by (simp add: indexed_def)
  qed
qed

lemma index_cases:
  assumes "ids_ok m" "mget (byID m) (s_SessionID s) = None" "indexed (index_session s m) q"
  obtains "indexed m q" "q \<noteq> length (heap m)" "deref (index_session s m) q = deref m q"
  | "\<not> indexed m q" "q = length (heap m)" "deref (index_session s m) q = s"
  using assms(3) live_index [OF assms(1,2), of q] deref_index(1) [of q m s] deref_index(2) [of s m]
  by (auto simp: indexed_def)

lemma deref_index_live: "indexed m q \<Longrightarrow> deref (index_session s m) q = deref m q"
  using deref_index(1) by (simp add: indexed_def)

lemma not_indexed_length: "\<not> indexed m (length (heap m))"
  by (simp add: indexed_def)

lemma ids_index: "ids_ok m \<Longrightarrow> ids_ok (index_session s m)"
  unfolding ids_ok_def
proof (intro conjI allI impI; elim conjE)
  show "mok (byID m) \<Longrightarrow> mok (byID (index_session s m))"
    by (simp add: index_session_def Let_def)
next
  fix sid r
  assume "mget (byID (index_session s m)) sid = Some r"
    and "\<forall>sid r. mget (byID m) sid = Some r \<longrightarrow> r < length (heap m) \<and> s_SessionID (deref m r) = sid"
  then show "r < length (heap (index_session s m))" "s_SessionID (deref (index_session s m) r) = sid"
    by (auto simp: mget_index deref_index less_SucI split: if_splits)
qed

lemma s11_index:
  assumes "ids_ok m" "s11_ok m" "mget (byID m) (s_SessionID s) = None"
  shows "s11_ok (index_session s m)"
  unfolding s11_ok_def
proof (intro conjI allI)
  fix t r
  let ?n = "length (heap m)"
  have m: "distinct (s11_list m t)" "q \<in> set (s11_list m t) \<longleftrightarrow> indexed m q \<and> s11_teid (deref m q) = t" for q
    using assms(2) unfolding s11_ok_def by blast+
  have "?n \<notin> set (s11_list m t)" using m(2) not_indexed_length by blast
  then show "distinct (s11_list (index_session s m) t)"
    using m(1) by (cases "t = s11_teid s") (simp_all add: mget_index)
  show "r \<in> set (s11_list (index_session s m) t) \<longleftrightarrow>
      indexed (index_session s m) r \<and> s11_teid (deref (index_session s m) r) = t"
    using m(2) [of r] not_indexed_length deref_index_live [of m r s] deref_index(2) [of s m]
    by (auto simp: mget_index live_index [OF assms(1,3)])
qed

lemma pdn_index:
  assumes "ids_ok m" "pdn_ok m" "mget (byID m) (s_SessionID s) = None" "mget (byPDN m) (pdnKey s) = None"
  shows "pdn_ok (index_session s m)"
  unfolding pdn_ok_def
proof (intro allI)
  fix k r
  have m: "mget (byPDN m) k' = Some r' \<longleftrightarrow> indexed m r' \<and> pdnKey (deref m r') = k'" for k' r'
    using assms(2) unfolding pdn_ok_def by blast
  note facts = not_indexed_length deref_index_live [of m r s] deref_index(2) [of s m]
  show "mget (byPDN (index_session s m)) k = Some r \<longleftrightarrow>
      indexed (index_session s m) r \<and> pdnKey (deref (index_session s m) r) = k"
  proof (cases "k = pdnKey s")
    case True
    have "\<not> (indexed m r \<and> pdnKey (deref m r) = k)" using m [of k r] assms(4) True by simp
    then show ?thesis using True facts by (auto simp: mget_index live_index [OF assms(1,3)])
  next
    case False
    then show ?thesis using m [of k r] facts by (auto simp: mget_index live_index [OF assms(1,3)])
  qed
qed

lemma imsi_index:
  assumes "ids_ok m" "imsi_ok m" "mget (byID m) (s_SessionID s) = None"
  shows "imsi_ok (index_session s m)"
  unfolding imsi_ok_def
proof (intro conjI allI impI)
  note l = live_index [OF assms(1,3)] and dn = deref_index(2) [of s m]
  fix i r assume r: "mget (byIMSI (index_session s m)) i = Some r"
  have "indexed (index_session s m) r \<and> s_IMSI (deref (index_session s m) r) = i"
  proof (cases "i = s_IMSI s")
    case True
    then show ?thesis using r dn by (auto simp: mget_index l)
  next
    case False
    then have "indexed m r \<and> s_IMSI (deref m r) = i"
      using r assms(2) unfolding imsi_ok_def by (simp add: mget_index)
    then show ?thesis by (simp add: l deref_index_live)
  qed
  then show "indexed (index_session s m) r" "s_IMSI (deref (index_session s m) r) = i" by blast+
next
  fix r assume "indexed (index_session s m) r"
  then show "mget (byIMSI (index_session s m)) (s_IMSI (deref (index_session s m) r)) \<noteq> None"
    using assms(2) deref_index_live [of m r s] deref_index(2) [of s m]
    by (auto simp: mget_index live_index [OF assms(1,3)] imsi_ok_def)
qed

lemma indexes_index:
  assumes ok: "indexes_ok m" and fresh: "mget (byID m) (s_SessionID s) = None"
    and pdn: "mget (byPDN m) (pdnKey s) = None"
  shows "indexes_ok (index_session s m)"
proof -
  have o: "ids_ok m" "s11_ok m" "pdn_ok m" "imsi_ok m" "s5c_ok m" "pgw_ok m"
    using ok by (simp_all add: indexes_ok_def)
  note l = live_index [OF o(1) fresh]
  have "s5c_ok (index_session s m)"
    using o(5) deref_index_live unfolding s5c_ok_def index_frame l by metis
  moreover have "pgw_ok (index_session s m)"
    using o(6) deref_index_live unfolding pgw_ok_def index_frame l by metis
  ultimately show ?thesis
    using ids_index s11_index pdn_index imsi_index o fresh pdn by (simp add: indexes_ok_def)
qed

lemma held_index:
  assumes "ids_ok m" "mget (byID m) (s_SessionID s) = None"
  shows "held (index_session s m) = insert (s11_teid s) (held m)"
proof -
  have d: "deref (index_session s m) q = deref m q" if "indexed m q" for q
    using that deref_index(1) by (simp add: indexed_def)
  show ?thesis
    using d deref_index(2) [of s m] unfolding held_def live_index [OF assms] by auto
qed

subsection \<open>Creation and deletion\<close>

lemma evict_frame [simp]:
  "heap (evict r t m) = heap m" "deref (evict r t m) = deref m" "checkpointSink (evict r t m) = checkpointSink m"
  "byID (evict r t m) = mdel (s_SessionID (deref m r)) (byID m)"
  "byPDN (evict r t m) = byPDN (removeLocked r m)"
  by (simp_all add: evict_def Let_def)

lemma evict_ok:
  assumes "indexes_ok m" "indexed m r" "in_use (teidAlloc m) = held m \<union> {t}" "0 \<notin> in_use (teidAlloc m)"
  shows "indexes_ok (evict r t m)" "in_use (teidAlloc (evict r t m)) = held (evict r t m) \<union> {t}"
    "indexed (evict r t m) q \<longleftrightarrow> indexed m q \<and> q \<noteq> r"
proof -
  have r: "indexes_ok (removeLocked r m)" by (rule indexes_removeLocked [OF assms(1,2)])
  have s: "indexes_ok (free_s11 u (removeLocked r m))" "held (free_s11 u (removeLocked r m)) = held (removeLocked r m)"
    "indexed (free_s11 u (removeLocked r m)) = indexed (removeLocked r m)" for u
    using same_indexes [of "free_s11 u (removeLocked r m)" "removeLocked r m"] r by simp_all
  show "indexes_ok (evict r t m)" using r s by (simp add: evict_def Let_def)
  have "ids_ok m" using assms(1) by (simp add: indexes_ok_def)
  then show "indexed (evict r t m) q \<longleftrightarrow> indexed m q \<and> q \<noteq> r"
    using live_removeLocked [OF _ assms(2)] s(3) by (simp add: evict_def Let_def)
  show "in_use (teidAlloc (evict r t m)) = held (evict r t m) \<union> {t}"
    using free_after_remove [OF assms] held_after_remove [OF assms(1-3)] s(2)
    by (auto simp: evict_def Let_def s11_teid_def)
qed

definition mgr_inv :: "manager \<Rightarrow> bool" where
  "mgr_inv m \<longleftrightarrow> indexes_ok m \<and> in_use (teidAlloc m) = held m \<and> 0 \<notin> held m \<and>
     (\<forall>c. mok (pgw_map m c))"

lemma mok_removePGW: "\<forall>c. mok (pgw_map m c) \<Longrightarrow> mok (pgw_map (removePGWLocked a i m) c)"
  by (auto simp: removePGWLocked_def Let_def pgw_map_put pgw_map_del)

lemma mok_remove_pgw: "\<forall>c. mok (pgw_map m c) \<Longrightarrow> mok (pgw_map (remove_pgw r m) c)"
  by (simp add: remove_pgw_def Let_def mok_removePGW)

lemma pgw_map_removeLocked_as:
  obtains m3 where "pgw_map (removeLocked r m) = pgw_map (remove_pgw r m3)" "pgw_map m3 = pgw_map m"
    "deref m3 = deref m"
proof -
  define m2 where "m2 = remove_s11 r (m\<lparr>byID := mdel (s_SessionID (deref m r)) (byID m)\<rparr>)"
  define m3 where "m3 = (if ep_TEID (s_SGWS5C (deref m r)) \<noteq> 0
     then m2\<lparr>byS5C := mdel (ep_TEID (s_SGWS5C (deref m r))) (byS5C m2)\<rparr> else m2)"
  have "pgw_map (removeLocked r m) = pgw_map (remove_pgw r m3)"
    by (simp add: removeLocked_def Let_def flip: m2_def) (simp add: m3_def)
  moreover have "pgw_map m3 = pgw_map m" "deref m3 = deref m"
    by (simp_all add: m3_def m2_def)
  ultimately show thesis by (rule that)
qed

lemma mok_removeLocked: "\<forall>c. mok (pgw_map m c) \<Longrightarrow> mok (pgw_map (removeLocked r m) c)"
  by (metis pgw_map_removeLocked_as mok_remove_pgw)

lemma pgw_map_free_s11 [simp]: "pgw_map (free_s11 t m) = pgw_map m"
  by (simp add: free_s11_def)

lemma install_ok:
  assumes "indexes_ok m" "in_use (teidAlloc m) = held m \<union> {s11_teid s}" "0 \<notin> in_use (teidAlloc m)"
    and "mget (byID m) (s_SessionID s) = None" and mok: "\<forall>c. mok (pgw_map m c)"
  shows "mgr_inv (fst (snd (install_session s m)))"
proof -
  have pd: "pdn_ok m" using assms(1) by (simp add: indexes_ok_def)
  define m1 where "m1 = (case mget (byPDN m) (pdnKey s) of None \<Rightarrow> m | Some r \<Rightarrow> evict r (ep_TEID (s_SGWS11 s)) m)"
  have all: "indexes_ok m1 \<and> in_use (teidAlloc m1) = held m1 \<union> {s11_teid s} \<and>
    mget (byID m1) (s_SessionID s) = None \<and> mget (byPDN m1) (pdnKey s) = None"
  proof (cases "mget (byPDN m) (pdnKey s)")
    case None
    then show ?thesis using assms by (simp add: m1_def)
  next
    case (Some r)
    then have r: "indexed m r" "pdnKey (deref m r) = pdnKey s" using pd unfolding pdn_ok_def by blast+
    then have "mget (byPDN m1) (pdnKey s) = None"
      using Some by (simp add: m1_def byPDN_removeLocked map_simps)
    with Some r evict_ok [OF assms(1) r(1) assms(2,3)] assms(4)
    show ?thesis by (simp add: m1_def map_simps flip: s11_teid_def)
  qed
  then have 1: "indexes_ok m1" "in_use (teidAlloc m1) = held m1 \<union> {s11_teid s}"
    "mget (byID m1) (s_SessionID s) = None" "mget (byPDN m1) (pdnKey s) = None"
    by blast+
  have "ids_ok m1" using 1(1) by (simp add: indexes_ok_def)
  have z: "0 \<notin> in_use (teidAlloc m1)"
  proof -
    have "in_use (teidAlloc m1) \<subseteq> in_use (teidAlloc m)"
      by (auto simp: m1_def evict_def Let_def free_s11_def in_use_free split: option.splits if_splits)
    then show ?thesis using assms(3) by blast
  qed
  have "fst (snd (install_session s m)) = index_session s m1"
    by (simp add: install_session_def Let_def m1_def)
  moreover have "mok (pgw_map m1 c)" for c
    using mok by (simp add: m1_def evict_def Let_def mok_removeLocked split: option.splits)
  ultimately show ?thesis
    using indexes_index [OF 1(1,3,4)] held_index [OF \<open>ids_ok m1\<close> 1(3)] 1(2) z
    by (auto simp: mgr_inv_def)
qed

lemma delete_ok:
  assumes "mgr_inv m"
  shows "mgr_inv (fst (mgr_Delete sid m))"
proof (cases "mget (byID m) sid")
  case None
  then show ?thesis using assms by (simp add: mgr_Delete_def)
next
  case (Some r)
  let ?m = "removeLocked r m" and ?t = "s11_teid (deref m r)"
  have ix: "indexes_ok m" "in_use (teidAlloc m) = held m \<union> {}" "0 \<notin> in_use (teidAlloc m)"
    using assms by (auto simp: mgr_inv_def)
  then have r: "indexed m r" using Some live_iff by (auto simp: indexes_ok_def)
  have s: "indexes_ok (free_s11 ?t ?m)" "held (free_s11 ?t ?m) = held ?m"
    using same_indexes [of "free_s11 ?t ?m" ?m] indexes_removeLocked [OF ix(1) r] by simp_all
  have "held ?m \<subseteq> held m"
    using held_removeLocked [OF _ r] ix(1) by (auto simp: indexes_ok_def)
  moreover have "in_use (teidAlloc (free_s11 ?t ?m)) = held ?m"
    using free_after_remove [OF ix(1) r ix(2,3)] by simp
  ultimately show ?thesis
    using Some s assms by (auto simp: mgr_Delete_def mgr_inv_def s11_teid_def mok_removeLocked)
qed

text \<open>Where a new session gets its TEID: one that sessions hold, or a fresh one.\<close>

lemma s11_for_frame:
  assumes "s11_for rnd p m = (res, m1)"
  shows "heap m1 = heap m" "byID m1 = byID m" "byS11 m1 = byS11 m" "byS5C m1 = byS5C m"
    "byPGW m1 = byPGW m" "byIMSI m1 = byIMSI m" "byPDN m1 = byPDN m" "checkpointSink m1 = checkpointSink m"
  using assms by (auto simp: s11_for_def split: if_splits prod.splits outcome.splits)

lemma s11_for_cases:
  assumes "s11_for rnd p m = (res, m1)" "mgr_inv m"
    and "ep_TEID (cp_ReuseSGWS11 p) \<noteq> 0 \<longrightarrow> ep_TEID (cp_ReuseSGWS11 p) \<in> held m"
  shows "case res of
      Ok (f, fresh) \<Rightarrow> in_use (teidAlloc m1) = held m1 \<union> {ep_TEID f} \<and> ep_TEID f \<noteq> 0 \<and>
        (fresh \<longleftrightarrow> ep_TEID f \<notin> held m1)
    | _ \<Rightarrow> m1 = m"
proof -
  have h: "held m1 = held m"
    using s11_for_frame [OF assms(1)] by (intro same_indexes) simp_all
  show ?thesis
  proof (cases "ep_TEID (cp_ReuseSGWS11 p) = 0")
    case True
    obtain r a where a: "alloc rnd (teidAlloc m) = (r, a)" by force
    then show ?thesis
    proof (cases rule: alloc_cases)
      case (ok t)
      have "res = Ok (\<lparr>ep_TEID = t, ep_IPv4 = NoAddr\<rparr>, True)" "teidAlloc m1 = a"
        using assms(1) True a ok(1) by (auto simp: s11_for_def)
      moreover have "in_use a = held m \<union> {t}" "t \<notin> held m"
        using ok assms(2) by (simp_all add: in_use_put mgr_inv_def)
      ultimately show ?thesis using ok(2) h by simp
    next
      case (failed e)
      then have "res = Fail (CreateTEID e)" "m1 = m"
        using assms(1) True a by (auto simp: s11_for_def)
      then show ?thesis by simp
    qed
  next
    case False
    then have "res = Ok (cp_ReuseSGWS11 p, False)" "m1 = m"
      using assms(1) by (simp_all add: s11_for_def)
    moreover have "in_use (teidAlloc m) = held m" "ep_TEID (cp_ReuseSGWS11 p) \<in> held m"
      using assms(2,3) False by (simp_all add: mgr_inv_def)
    ultimately show ?thesis using False by auto
  qed
qed

lemma newSession_keys [simp]:
  "s_SessionID (newSession now sid f sink p) = sid" "s_SGWS11 (newSession now sid f sink p) = f"
  "s_IMSI (newSession now sid f sink p) = cp_IMSI p"
  "s_DefaultBearerID (newSession now sid f sink p) = cp_DefaultEBI p"
  by (simp_all add: newSession_def)

lemma create_ok:
  assumes "mgr_inv m"
    and "ep_TEID (cp_ReuseSGWS11 p) \<noteq> 0 \<longrightarrow> ep_TEID (cp_ReuseSGWS11 p) \<in> held m"
    and "\<forall>sid. newSessionID rnd8 = Ok sid \<longrightarrow> mget (byID m) sid = None"
  shows "mgr_inv (fst (snd (mgr_Create rnd rnd8 now p m)))"
proof -
  obtain res m1 where r: "s11_for rnd p m = (res, m1)" by force
  note c = s11_for_cases [OF r assms(1,2)]
  have ix: "indexes_ok m1" "held m1 = held m" "byID m1 = byID m"
    using same_indexes [of m1 m] s11_for_frame [OF r] assms(1) by (simp_all add: mgr_inv_def)
  have "pgw_map m1 = pgw_map m"
    using s11_for_frame(5) [OF r] by (simp add: pgw_map_def fun_eq_iff)
  then have pm: "\<forall>c. mok (pgw_map m1 c)" using assms(1) by (simp add: mgr_inv_def)
  show ?thesis
  proof (cases res)
    case (Ok x)
    obtain f fresh where x: "x = (f, fresh)" by (cases x)
    have t: "in_use (teidAlloc m1) = held m1 \<union> {ep_TEID f}" "ep_TEID f \<noteq> 0"
      "fresh \<longleftrightarrow> ep_TEID f \<notin> held m1" using c by (simp_all add: Ok x)
    have z: "0 \<notin> in_use (teidAlloc m1)" using t ix(2) assms(1) by (auto simp: mgr_inv_def)
    show ?thesis
    proof (cases "newSessionID rnd8")
      case (Ok sid)
      let ?s = "newSession now sid f (checkpointSink m1) p"
      have "mgr_inv (fst (snd (install_session ?s m1)))"
        by (rule install_ok) (use ix t z assms(3) Ok pm in \<open>simp_all add: s11_teid_def\<close>)
      then show ?thesis
        by (simp add: mgr_Create_def r \<open>res = _\<close> x Ok case_prod_beta)
    next
      case (Fail e)
      let ?m = "m1\<lparr>teidAlloc := free (ep_TEID f) (teidAlloc m1)\<rparr>"
      have "0 \<notin> held m1" using z t(1) by blast
      moreover have "in_use (free (ep_TEID f) (teidAlloc m1)) = held m1" if fresh
        using t that by (auto simp: in_use_free)
      moreover have "in_use (teidAlloc m1) = held m1" if "\<not> fresh"
        using t that by auto
      moreover have "indexes_ok ?m" "held ?m = held m1"
        using same_indexes [of ?m m1] ix(1) by simp_all
      ultimately have "mgr_inv (if fresh then ?m else m1)"
        using ix(1) pm by (simp add: mgr_inv_def)
      then show ?thesis by (simp add: mgr_Create_def r \<open>res = _\<close> x Fail)
    next
      case Panic
      then show ?thesis by (simp add: newSessionID_def split: option.splits)
    qed
  qed (use c assms(1) r in \<open>simp_all add: mgr_Create_def\<close>)
qed

subsection \<open>Other operations\<close>

lemma inv_heap_kept:
  assumes "mgr_inv m" "heap_kept m m'"
  shows "mgr_inv m'"
proof -
  have "pgw_map m' = pgw_map m" using assms(2) by (simp add: pgw_map_def fun_eq_iff heap_kept_def)
  then show ?thesis using assms heap_kept_ok [of m m'] by (auto simp: mgr_inv_def heap_kept_def)
qed

lemma registerS5C_ok:
  assumes "mgr_inv m" "t \<noteq> 0"
    and "\<forall>r. mget (byID m) sid = Some r \<longrightarrow> ep_TEID (s_SGWS5C (deref m r)) = t"
  shows "mgr_inv (fst (RegisterS5CTEID sid t m))"
proof (cases "mget (byID m) sid")
  case None
  then show ?thesis using assms by (simp add: RegisterS5CTEID_def)
next
  case (Some r)
  let ?m = "m\<lparr>byS5C := mput t r (byS5C m)\<rparr>"
  have o: "ids_ok m" "s11_ok m" "pdn_ok m" "imsi_ok m" "s5c_ok m" "pgw_ok m"
    using assms(1) by (simp_all add: mgr_inv_def indexes_ok_def)
  have l: "indexed ?m = indexed m" by (simp add: indexed_def fun_eq_iff)
  have "indexed m r" using Some o(1) live_iff by blast
  then have "s5c_ok ?m"
    using o(5) assms(2,3) Some unfolding s5c_ok_def l by (simp add: map_simps)
  moreover have "ids_ok ?m" "s11_ok ?m" "pdn_ok ?m" "imsi_ok ?m" "pgw_ok ?m"
    using o unfolding ids_ok_def s11_ok_def pdn_ok_def imsi_ok_def pgw_ok_def l by simp_all
  moreover have "held ?m = held m" unfolding held_def l by simp
  ultimately show ?thesis
    using assms(1) Some by (simp add: RegisterS5CTEID_def mgr_inv_def indexes_ok_def)
qed

lemma pgw_find_live:
  assumes "mgr_inv m" "r \<in> set (FindByPGW a m)"
  shows "indexed m r" "pf_PGWAddr (s_PGWFailure (deref m r)) = CanonicalGTPCEndpoint a"
proof -
  obtain sid where "(sid, r) \<in> set (pgw_map m (CanonicalGTPCEndpoint a))"
    using assms(2) by (auto simp: FindByPGW_def Let_def split: if_splits)
  then have "mget (pgw_map m (CanonicalGTPCEndpoint a)) sid = Some r"
    using assms(1) mem_mget unfolding mgr_inv_def by metis
  then show "indexed m r" "pf_PGWAddr (s_PGWFailure (deref m r)) = CanonicalGTPCEndpoint a"
    using assms(1) unfolding mgr_inv_def indexes_ok_def pgw_ok_def by blast+
qed

lemma mark_pgw_ok:
  assumes "mgr_inv m"
  shows "mgr_inv (fst (snd (MarkPGWPathState clock a st at m)))"
    and "mgr_inv (fst (snd (mgr_MarkPGWRestart clock a rec at m)))"
proof -
  let ?c = "CanonicalGTPCEndpoint a"
  have P: "\<forall>r \<in> set (FindByPGW a m). r < length (heap m) \<and> pf_PGWAddr (s_PGWFailure (deref m r)) = ?c"
    using pgw_find_live [OF assms] by (auto simp: indexed_def)
  have K: "pf_PGWAddr (s_PGWFailure s) = ?c \<Longrightarrow> kept s s' \<Longrightarrow> pf_PGWAddr (s_PGWFailure s') = ?c" for s s'
    by (simp add: kept_def)
  have "heap_kept m (fst (each_session (\<lambda>i. SetPGWPathState (clock i) st ?c at) 0 (FindByPGW a m) m))"
    by (rule heap_kept_each [where P = "\<lambda>s. pf_PGWAddr (s_PGWFailure s) = ?c", OF _ K P])
      (simp add: pgw_path_kept)
  then show "mgr_inv (fst (snd (MarkPGWPathState clock a st at m)))"
    using inv_heap_kept [OF assms] by (simp add: MarkPGWPathState_def Let_def)
  have "heap_kept m (fst (each_session (\<lambda>i. MarkPGWRestart (clock i) ?c rec at) 0 (FindByPGW a m) m))"
    by (rule heap_kept_each [where P = "\<lambda>s. pf_PGWAddr (s_PGWFailure s) = ?c", OF _ K P])
      (simp add: pgw_path_kept)
  then show "mgr_inv (fst (snd (mgr_MarkPGWRestart clock a rec at m)))"
    using inv_heap_kept [OF assms] by (simp add: mgr_MarkPGWRestart_def Let_def)
qed

lemma List_live: "mgr_inv m \<Longrightarrow> r \<in> set (mgr_List m) \<longleftrightarrow> indexed m r"
  using mem_byID [of m r] by (simp add: mgr_List_def mgr_inv_def indexes_ok_def)

lemma mark_mme_ok:
  assumes "mgr_inv m"
  shows "mgr_inv (fst (snd (MarkMMEPathState clock a st at m)))"
    and "mgr_inv (fst (snd (mgr_MarkMMERestart clock a rec at m)))"
proof -
  have P: "\<forall>r \<in> set (FindByMME a m). r < length (heap m) \<and> True"
    using List_live [OF assms] by (auto simp: FindByMME_def Let_def mgr_List_def indexed_def)
  have "heap_kept m (fst (each_session (\<lambda>i. SetMMEPathState (clock i) st (CanonicalGTPCEndpoint a) at) 0 (FindByMME a m) m))"
    by (rule heap_kept_each [where P = "\<lambda>s. True", OF _ _ P]) (simp_all add: mme_kept)
  then show "mgr_inv (fst (snd (MarkMMEPathState clock a st at m)))"
    using inv_heap_kept [OF assms] by (simp add: MarkMMEPathState_def Let_def)
  have "heap_kept m (fst (each_session (\<lambda>i. MarkMMERestart (clock i) (CanonicalGTPCEndpoint a) rec at) 0 (FindByMME a m) m))"
    by (rule heap_kept_each [where P = "\<lambda>s. True", OF _ _ P]) (simp_all add: mme_kept)
  then show "mgr_inv (fst (snd (mgr_MarkMMERestart clock a rec at m)))"
    using inv_heap_kept [OF assms] by (simp add: mgr_MarkMMERestart_def Let_def)
qed

lemma invalidate_ok:
  assumes "mgr_inv m"
  shows "mgr_inv (fst (snd (InvalidatePFCPBindings ck m)))"
    and "mgr_inv (fst (snd (InvalidatePFCPBindingsForPeer ck nm ad m)))"
  unfolding InvalidatePFCPBindings_def InvalidatePFCPBindingsForPeer_def Let_def
  by (rule inv_heap_kept [OF assms], rule heap_kept_invalidate, auto simp: invalidate_kept)+

lemma set_sink_ok:
  assumes "mgr_inv m"
  shows "mgr_inv (SetCheckpointSink sink m)"
proof -
  let ?m = "m\<lparr>checkpointSink := sink\<rparr>"
  have "pgw_map ?m = pgw_map m" by (simp add: pgw_map_def fun_eq_iff)
  then have i: "mgr_inv ?m"
    using assms same_indexes [of ?m m] by (simp add: mgr_inv_def)
  have "heap_kept ?m (SetCheckpointSink sink m)"
    unfolding SetCheckpointSink_def
    by (rule heap_kept_each [where P = "\<lambda>s. True"])
       (use List_live [OF i] in \<open>auto simp: setCheckpointSink_def kept_def same_keys_def mgr_List_def indexed_def\<close>)
  then show ?thesis by (rule inv_heap_kept [OF i])
qed

lemma session_ok:
  assumes "mgr_inv m" "\<not> reindexing c"
  shows "mgr_inv (fst (on_session r (run_call c) m))"
  by (rule inv_heap_kept [OF assms(1)])
     (use heap_kept_update sess_step_kept [OF assms(2)] in
       \<open>simp add: on_session_def Let_def case_prod_beta sess_step_def\<close>)

text \<open>Setting the S5/S8-C TEID of a session that is not registered under one yet.\<close>

lemma heap_stable_update:
  "(r < length (heap m) \<Longrightarrow> same_keys (deref m r) s) \<Longrightarrow> heap_stable m (m\<lparr>heap := (heap m)[r := s]\<rparr>)"
proof -
  assume "r < length (heap m) \<Longrightarrow> same_keys (deref m r) s"
  then have "same_keys (deref m q) (deref (m\<lparr>heap := (heap m)[r := s]\<rparr>) q)" if "q < length (heap m)" for q
    using that by (cases "q = r") (simp_all add: deref_def)
  then show ?thesis by (simp add: heap_stable_def)
qed

lemma deref_list_update:
  "q < length (heap m) \<Longrightarrow> deref (m\<lparr>heap := (heap m)[r := s]\<rparr>) q = (if q = r then s else deref m q)"
  by (simp add: deref_def nth_list_update)

lemma indexed_length: "indexed m q \<Longrightarrow> q < length (heap m)"
  by (simp add: indexed_def)

lemma set_s5c_ok:
  assumes "mgr_inv m" "\<forall>t. mget (byS5C m) t \<noteq> Some r"
  shows "mgr_inv (fst (on_session r (run_call (C_SetSGWS5CFTEID now f)) m))"
proof -
  let ?s = "sess_step (C_SetSGWS5CFTEID now f) (deref m r)"
  let ?m = "m\<lparr>heap := (heap m)[r := ?s]\<rparr>"
  have st: "heap_stable m ?m" by (rule heap_stable_update) (rule sess_step_stable)
  have ok: "ids_ok m" "s11_ok m" "pdn_ok m" "imsi_ok m" "s5c_ok m" "pgw_ok m"
    using assms(1) by (simp_all add: mgr_inv_def indexes_ok_def)
  note ok' = heap_stable_ok [OF st ok(1-4)] and l = heap_stable_indexed [OF st]
  have d: "deref ?m q = (if q = r then ?s else deref m q)" if "indexed m q" for q
    by (rule deref_list_update) (rule indexed_length [OF that])
  have p: "s_PGWFailure ?s = s_PGWFailure (deref m r)" "s_SessionID ?s = s_SessionID (deref m r)"
    by (simp_all add: sess_step_def SetSGWS5CFTEID_def)
  have "s5c_ok ?m"
    unfolding s5c_ok_def
  proof (intro allI impI)
    fix t q
    assume "mget (byS5C ?m) t = Some q"
    then have q: "mget (byS5C m) t = Some q" by simp
    then have "t \<noteq> 0 \<and> indexed m q \<and> ep_TEID (s_SGWS5C (deref m q)) = t" "q \<noteq> r"
      using ok(5) assms(2) unfolding s5c_ok_def by blast+
    then show "t \<noteq> 0 \<and> indexed ?m q \<and> ep_TEID (s_SGWS5C (deref ?m q)) = t"
      using d [of q] by (simp add: l)
  qed
  moreover have "pgw_ok ?m"
    unfolding pgw_ok_def l
  proof (intro allI impI)
    fix c sid q
    assume "mget (pgw_map ?m c) sid = Some q"
    then have "indexed m q \<and> s_SessionID (deref m q) = sid \<and> pf_PGWAddr (s_PGWFailure (deref m q)) = c \<and>
        c \<noteq> [] \<and> CanonicalGTPCEndpoint c = c"
      using ok(6) unfolding pgw_ok_def by simp
    then show "indexed m q \<and> s_SessionID (deref ?m q) = sid \<and>
        pf_PGWAddr (s_PGWFailure (deref ?m q)) = c \<and> c \<noteq> [] \<and> CanonicalGTPCEndpoint c = c"
      using d [of q] p by (cases "q = r") simp_all
  qed
  ultimately have "mgr_inv ?m" using ok' assms(1) by (simp add: mgr_inv_def indexes_ok_def)
  then show ?thesis by (simp add: on_session_def Let_def case_prod_beta sess_step_def)
qed

lemma SetPGWPathState_fields:
  "same_keys s (fst (SetPGWPathState now st c at s))"
  "s_SGWS5C (fst (SetPGWPathState now st c at s)) = s_SGWS5C s"
  "c \<noteq> [] \<Longrightarrow> pf_PGWAddr (s_PGWFailure (fst (SetPGWPathState now st c at s))) = c"
  by (simp_all add: SetPGWPathState_def Let_def same_keys_def)

lemma registerPGW_ok:
  assumes "mgr_inv m" "CanonicalGTPCEndpoint (CanonicalGTPCEndpoint a) = CanonicalGTPCEndpoint a"
  shows "mgr_inv (fst (RegisterPGW now now' sid a m))"
proof (cases "CanonicalGTPCEndpoint a = [] \<or> mget (byID m) sid = None")
  case True
  then show ?thesis using assms(1) by (auto simp: RegisterPGW_def Let_def)
next
  case False
  define c where "c = CanonicalGTPCEndpoint a"
  obtain r where r: "mget (byID m) sid = Some r" and c: "c \<noteq> []" "CanonicalGTPCEndpoint c = c"
    using False assms(2) by (auto simp: c_def)
  define old where "old = pf_PGWAddr (s_PGWFailure (deref m r))"
  define m1 where "m1 = (if old \<noteq> [] \<and> old \<noteq> c then removePGWLocked old sid m else m)"
  define s where "s = fst (SetPGWPathState now' PGWPathStateUp c now (deref m r))"
  define m2 where "m2 = m1\<lparr>byPGW := mput c (mput sid r (pgw_map m1 c)) (byPGW m1)\<rparr>"
  define m3 where "m3 = m2\<lparr>heap := (heap m2)[r := s]\<rparr>"
  have m3: "fst (RegisterPGW now now' sid a m) = m3"
    using r False by (simp add: RegisterPGW_def Let_def on_session_def case_prod_beta m3_def m2_def m1_def
      s_def old_def deref_def flip: c_def)
  have f1: "heap m1 = heap m" "byID m1 = byID m" "byS11 m1 = byS11 m" "byIMSI m1 = byIMSI m"
    "byPDN m1 = byPDN m" "byS5C m1 = byS5C m" "teidAlloc m1 = teidAlloc m"
    by (simp_all add: m1_def)
  have ok: "ids_ok m" "s11_ok m" "pdn_ok m" "imsi_ok m" "s5c_ok m" "pgw_ok m"
    using assms(1) by (simp_all add: mgr_inv_def indexes_ok_def)
  have rl: "indexed m r" "s_SessionID (deref m r) = sid"
    using r ok(1) live_iff unfolding ids_ok_def by blast+
  note s = SetPGWPathState_fields [where s = "deref m r" and now = now' and st = PGWPathStateUp
      and c = c and at = now, folded s_def]
  have d: "deref m3 q = (if q = r then s else deref m q)" if "indexed m q" for q
    using deref_list_update [OF indexed_length [OF that], of r s] f1 by (simp add: m3_def m2_def deref_def)
  have st: "heap_stable m m3"
    unfolding heap_stable_def
  proof (intro conjI allI impI)
    fix q assume "q < length (heap m)"
    then show "same_keys (deref m q) (deref m3 q)"
      using s(1) f1 by (cases "q = r") (simp_all add: m3_def m2_def deref_def)
  qed (simp_all add: m3_def m2_def f1)
  note ok' = heap_stable_ok [OF st ok(1-4)] and l = heap_stable_indexed [OF st]
  have "s5c_ok m3"
    unfolding s5c_ok_def l
  proof (intro allI impI)
    fix t q
    assume "mget (byS5C m3) t = Some q"
    then have "t \<noteq> 0 \<and> indexed m q \<and> ep_TEID (s_SGWS5C (deref m q)) = t"
      using ok(5) unfolding s5c_ok_def by (simp add: m3_def m2_def f1)
    then show "t \<noteq> 0 \<and> indexed m q \<and> ep_TEID (s_SGWS5C (deref m3 q)) = t"
      using d [of q] s(2) by (cases "q = r") simp_all
  qed
  moreover have "pgw_ok m3"
    unfolding pgw_ok_def l
  proof (intro allI impI)
    fix c' sid' q
    assume q: "mget (pgw_map m3 c') sid' = Some q"
    show "indexed m q \<and> s_SessionID (deref m3 q) = sid' \<and>
        pf_PGWAddr (s_PGWFailure (deref m3 q)) = c' \<and> c' \<noteq> [] \<and> CanonicalGTPCEndpoint c' = c'"
    proof (cases "c' = c \<and> sid' = sid")
      case True
      then have "q = r" using q by (simp add: m3_def m2_def pgw_map_put map_simps)
      then show ?thesis using True rl c s d [of r] by (simp add: same_keys_def)
    next
      case False
      then have q1: "mget (pgw_map m1 c') sid' = Some q"
        using q by (auto simp: m3_def m2_def pgw_map_put map_simps split: if_splits)
      then have qm: "mget (pgw_map m c') sid' = Some q"
        by (auto simp: m1_def mget_removePGW split: if_splits)
      then have e: "indexed m q \<and> s_SessionID (deref m q) = sid' \<and>
          pf_PGWAddr (s_PGWFailure (deref m q)) = c' \<and> c' \<noteq> [] \<and> CanonicalGTPCEndpoint c' = c'"
        using ok(6) unfolding pgw_ok_def by blast
      have "q \<noteq> r"
      proof
        assume "q = r"
        then have "sid' = sid" "c' = old" using e rl by (auto simp: old_def)
        then show False using q1 e False by (auto simp: m1_def mget_removePGW)
      qed
      then show ?thesis using e d [of q] by simp
    qed
  qed
  moreover have "mok (pgw_map m3 c')" for c'
    using assms(1) by (simp add: m3_def m2_def m1_def pgw_map_put mgr_inv_def mok_removePGW)
  moreover have "teidAlloc m3 = teidAlloc m" by (simp add: m3_def m2_def f1)
  ultimately show ?thesis
    using ok' assms(1) m3 by (simp add: mgr_inv_def indexes_ok_def)
qed

section \<open>Histories of the manager\<close>

datatype mgr_op =
    M_Create "nat \<Rightarrow> rand4" "bytes option" gtime create_params
  | M_Delete string
  | M_Session sref sess_call
  | M_SetCheckpointSink bool
  | M_RegisterS5C string u32
  | M_RegisterPGW gtime gtime string string
  | M_MarkPGWPathState "nat \<Rightarrow> gtime" string string gtime
  | M_MarkPGWRestart "nat \<Rightarrow> gtime" string u8 gtime
  | M_MarkMMEPathState "nat \<Rightarrow> gtime" string string gtime
  | M_MarkMMERestart "nat \<Rightarrow> gtime" string u8 gtime
  | M_InvalidatePFCP "nat \<Rightarrow> gtime \<times> gtime"
  | M_InvalidatePFCPForPeer "nat \<Rightarrow> gtime \<times> gtime" string string

fun mgr_step :: "mgr_op \<Rightarrow> manager \<Rightarrow> manager" where
  "mgr_step (M_Create rnd rnd8 now p) m = fst (snd (mgr_Create rnd rnd8 now p m))"
| "mgr_step (M_Delete sid) m = fst (mgr_Delete sid m)"
| "mgr_step (M_Session r c) m = fst (on_session r (run_call c) m)"
| "mgr_step (M_SetCheckpointSink b) m = SetCheckpointSink b m"
| "mgr_step (M_RegisterS5C sid t) m = fst (RegisterS5CTEID sid t m)"
| "mgr_step (M_RegisterPGW now now' sid a) m = fst (RegisterPGW now now' sid a m)"
| "mgr_step (M_MarkPGWPathState ck a st at) m = fst (snd (MarkPGWPathState ck a st at m))"
| "mgr_step (M_MarkPGWRestart ck a rc at) m = fst (snd (mgr_MarkPGWRestart ck a rc at m))"
| "mgr_step (M_MarkMMEPathState ck a st at) m = fst (snd (MarkMMEPathState ck a st at m))"
| "mgr_step (M_MarkMMERestart ck a rc at) m = fst (snd (mgr_MarkMMERestart ck a rc at m))"
| "mgr_step (M_InvalidatePFCP ck) m = fst (snd (InvalidatePFCPBindings ck m))"
| "mgr_step (M_InvalidatePFCPForPeer ck nm ad) m = fst (snd (InvalidatePFCPBindingsForPeer ck nm ad m))"

text \<open>
  How the SGW-C uses the manager: a reused S11 TEID is one that a session of the manager holds
  at that moment, a random session ID does not repeat one in use, the PGW address of a session
  is only set through the manager, the S5/S8-C TEID is set before it is registered and not
  changed afterwards, and PGW addresses have no brackets outside an IPv6 host.
\<close>

fun mgr_guard :: "mgr_op \<Rightarrow> manager \<Rightarrow> bool" where
  "mgr_guard (M_Create rnd rnd8 now p) m \<longleftrightarrow>
     (ep_TEID (cp_ReuseSGWS11 p) = 0 \<or> FindByS11TEID (ep_TEID (cp_ReuseSGWS11 p)) m \<noteq> None) \<and>
     (case newSessionID rnd8 of Ok sid \<Rightarrow> mgr_Find sid m = None | _ \<Rightarrow> True)"
| "mgr_guard (M_Session r c) m \<longleftrightarrow> (case c of
     C_SetSGWS5CFTEID now f \<Rightarrow> r \<notin> snd ` set (byS5C m)
   | C_SetPGWPathState now st a at \<Rightarrow> False
   | C_MarkPGWRestart now a rc at \<Rightarrow> False
   | _ \<Rightarrow> True)"
| "mgr_guard (M_RegisterS5C sid t) m \<longleftrightarrow> t \<noteq> 0 \<and> (case mgr_Find sid m of None \<Rightarrow> True
     | Some r \<Rightarrow> ep_TEID (s_SGWS5C (deref m r)) = t)"
| "mgr_guard (M_RegisterPGW now now' sid a) m \<longleftrightarrow>
     CanonicalGTPCEndpoint (CanonicalGTPCEndpoint a) = CanonicalGTPCEndpoint a"
| "mgr_guard _ m \<longleftrightarrow> True"

definition mgr_reachable :: "manager \<Rightarrow> bool" where
  "mgr_reachable m \<longleftrightarrow> reaches mgr_step mgr_guard NewManager m"

lemma held_iff_find: "s11_ok m \<Longrightarrow> t \<in> held m \<longleftrightarrow> FindByS11TEID t m \<noteq> None"
  using s11_list_Nil_iff [of m t] by (auto simp: FindByS11TEID_def Let_def)

lemma mgr_step_inv:
  assumes "mgr_inv m" "mgr_guard op m"
  shows "mgr_inv (mgr_step op m)"
proof (cases op)
  case (M_Create rnd rnd8 now p)
  have "s11_ok m" using assms(1) by (simp add: mgr_inv_def indexes_ok_def)
  then have "ep_TEID (cp_ReuseSGWS11 p) \<noteq> 0 \<longrightarrow> ep_TEID (cp_ReuseSGWS11 p) \<in> held m"
    using assms(2) held_iff_find [of m "ep_TEID (cp_ReuseSGWS11 p)"] by (auto simp: M_Create)
  moreover have "\<forall>sid. newSessionID rnd8 = Ok sid \<longrightarrow> mget (byID m) sid = None"
    using assms(2) by (auto simp: M_Create mgr_Find_def)
  ultimately show ?thesis using create_ok [OF assms(1)] by (simp add: M_Create)
next
  case (M_Session r c)
  show ?thesis
  proof (cases "reindexing c")
    case True
    then obtain now f where c: "c = C_SetSGWS5CFTEID now f" "r \<notin> snd ` set (byS5C m)"
      using assms(2) M_Session by (cases c) auto
    have "\<forall>t. mget (byS5C m) t \<noteq> Some r"
      using c(2) mget_mem by (metis image_eqI snd_conv)
    from set_s5c_ok [OF assms(1) this] show ?thesis by (simp add: M_Session c(1) del: run_call.simps)
  next
    case False
    then show ?thesis using session_ok [OF assms(1)] by (simp add: M_Session)
  qed
next
  case (M_RegisterS5C sid t)
  then show ?thesis
    using registerS5C_ok [OF assms(1), of t sid] assms(2) by (auto simp: mgr_Find_def split: option.splits)
qed (use assms delete_ok set_sink_ok registerPGW_ok mark_pgw_ok mark_mme_ok invalidate_ok in auto)

interpretation mgr_sys: guarded_system mgr_step mgr_guard mgr_inv
  by unfold_locales (rule mgr_step_inv)

lemma NewManager_inv: "mgr_inv NewManager"
  by (simp add: mgr_inv_def indexes_ok_def ids_ok_def s11_ok_def pdn_ok_def imsi_ok_def s5c_ok_def
    pgw_ok_def NewManager_def indexed_def held_def s11_list_def pgw_map_def)

lemma reachable_inv: "mgr_reachable m \<Longrightarrow> mgr_inv m"
  using mgr_sys.reaches_inv NewManager_inv by (simp add: mgr_reachable_def)

subsection \<open>The abstract store of connections\<close>

text \<open>What the manager promises to its clients: a map from session IDs to the PDN connection and the
  S11 TEID of the session.\<close>

type_synonym connections = "string \<Rightarrow> (pdn_key \<times> u32) option"

definition conns :: "manager \<Rightarrow> connections" where
  "conns m sid = map_option (\<lambda>r. (pdnKey (deref m r), s11_teid (deref m r))) (mget (byID m) sid)"

definition connect :: "string \<Rightarrow> pdn_key \<Rightarrow> u32 \<Rightarrow> connections \<Rightarrow> connections" where
  "connect sid k t A = (\<lambda>i. if i = sid then Some (k, t)
     else case A i of None \<Rightarrow> None | Some (k', t') \<Rightarrow> if k' = k then None else Some (k', t'))"

lemma conns_stable:
  assumes "heap_stable m m'" "ids_ok m"
  shows "conns m' = conns m"
proof
  fix sid
  show "conns m' sid = conns m sid"
  proof (cases "mget (byID m) sid")
    case None
    then show ?thesis using assms(1) by (simp add: conns_def heap_stable_def)
  next
    case (Some r)
    then have "r < length (heap m)" using assms(2) by (simp add: ids_ok_def)
    then have "same_keys (deref m r) (deref m' r)" using assms(1) by (simp add: heap_stable_def)
    then show ?thesis
      using Some assms(1) by (simp add: conns_def heap_stable_def same_keys_def pdnKey_def s11_teid_def)
  qed
qed

lemma heap_stable_same:
  "heap m' = heap m \<Longrightarrow> byID m' = byID m \<Longrightarrow> byS11 m' = byS11 m \<Longrightarrow> byIMSI m' = byIMSI m \<Longrightarrow>
     byPDN m' = byPDN m \<Longrightarrow> heap_stable m m'"
  by (simp add: heap_stable_def deref_def)

lemma heap_stable_trans: "heap_stable m m' \<Longrightarrow> heap_stable m' m'' \<Longrightarrow> heap_stable m m''"
  by (auto simp: heap_stable_def same_keys_def)

lemma each_stable:
  "(\<And>i s. same_keys s (fst (f i s))) \<Longrightarrow> heap_stable m (fst (each_session f i rs m))"
proof (induction rs arbitrary: i m)
  case (Cons r rs)
  have "heap_stable m (m\<lparr>heap := (heap m)[r := fst (f i (deref m r))]\<rparr>)"
    by (rule heap_stable_update) (rule Cons.prems)
  from heap_stable_trans [OF this Cons.IH [OF Cons.prems]] show ?case
    by (simp add: on_session_def Let_def case_prod_beta)
qed (simp add: heap_stable_def)

lemma step_stable:
  assumes "\<And>rnd rnd8 now p. op \<noteq> M_Create rnd rnd8 now p" "\<And>sid. op \<noteq> M_Delete sid"
  shows "heap_stable m (mgr_step op m)"
proof (cases op)
  case (M_Session r c)
  show ?thesis
    using heap_stable_update [of r m "sess_step c (deref m r)"] sess_step_stable
    by (simp add: M_Session on_session_def Let_def case_prod_beta sess_step_def)
next
  case (M_RegisterPGW now now' sid a)
  let ?c = "CanonicalGTPCEndpoint a"
  have upd: "heap_stable m (fst (on_session r (SetPGWPathState now' PGWPathStateUp ?c now) m2))"
    if "heap_stable m m2" for m2 r
    using heap_stable_trans [OF that heap_stable_update [of r m2]] SetPGWPathState_fields(1)
    by (simp add: on_session_def Let_def case_prod_beta)
  have "heap_stable m (m1\<lparr>byPGW := x\<rparr>)" if "m1 = m \<or> (\<exists>old. m1 = removePGWLocked old sid m)" for m1 x
    using that by (intro heap_stable_same) auto
  then show ?thesis
    by (auto simp: M_RegisterPGW RegisterPGW_def Let_def heap_stable_same intro!: upd split: option.splits)
next
  case (M_SetCheckpointSink b)
  have "heap_stable m (m\<lparr>checkpointSink := b\<rparr>)" by (rule heap_stable_same) simp_all
  from heap_stable_trans [OF this each_stable] show ?thesis
    by (simp add: M_SetCheckpointSink SetCheckpointSink_def setCheckpointSink_def same_keys_def)
next
  case (M_RegisterS5C sid t)
  then show ?thesis
    by (auto simp: RegisterS5CTEID_def split: option.splits intro!: heap_stable_same)
next
  case (M_MarkPGWPathState ck a st at)
  show ?thesis
    by (simp add: M_MarkPGWPathState MarkPGWPathState_def Let_def each_stable SetPGWPathState_fields)
next
  case (M_MarkPGWRestart ck a rc at)
  show ?thesis
    by (simp add: M_MarkPGWRestart mgr_MarkPGWRestart_def Let_def)
      (rule each_stable, simp add: MarkPGWRestart_def Let_def same_keys_def)
next
  case (M_MarkMMEPathState ck a st at)
  show ?thesis
    using mme_kept by (simp add: M_MarkMMEPathState MarkMMEPathState_def Let_def each_stable kept_def)
next
  case (M_MarkMMERestart ck a rc at)
  show ?thesis
    using mme_kept by (simp add: M_MarkMMERestart mgr_MarkMMERestart_def Let_def each_stable kept_def)
next
  case (M_InvalidatePFCP ck)
  show ?thesis
    unfolding M_InvalidatePFCP mgr_step.simps InvalidatePFCPBindings_def Let_def
    by (rule heap_kept_stable, rule heap_kept_invalidate) (auto simp: invalidate_kept)
next
  case (M_InvalidatePFCPForPeer ck nm ad)
  show ?thesis
    unfolding M_InvalidatePFCPForPeer mgr_step.simps InvalidatePFCPBindingsForPeer_def Let_def
    by (rule heap_kept_stable, rule heap_kept_invalidate) (auto simp: invalidate_kept)
qed (use assms in auto)

lemma conns_delete: "mgr_inv m \<Longrightarrow> conns (fst (mgr_Delete sid m)) = (conns m)(sid := None)"
  by (rule ext) (auto simp: conns_def mgr_Delete_def map_simps mgr_inv_def indexes_ok_def ids_ok_def split: option.splits)

lemma conns_index:
  assumes "ids_ok m"
  shows "conns (index_session s m) = (conns m)(s_SessionID s := Some (pdnKey s, s11_teid s))"
proof
  fix sid
  show "conns (index_session s m) sid = ((conns m)(s_SessionID s := Some (pdnKey s, s11_teid s))) sid"
    using assms deref_index(1) [of _ m s] deref_index(2) [of s m]
    by (cases "mget (byID m) sid") (auto simp: conns_def mget_index ids_ok_def)
qed

lemma conns_install:
  assumes "indexes_ok m" "mget (byID m) (s_SessionID s) = None"
  shows "conns (fst (snd (install_session s m))) = connect (s_SessionID s) (pdnKey s) (s11_teid s) (conns m)"
proof -
  have ok: "ids_ok m" "pdn_ok m" using assms(1) by (simp_all add: indexes_ok_def)
  have other: "conns m i = Some (pdnKey s, t) \<longleftrightarrow>
      (\<exists>r. mget (byPDN m) (pdnKey s) = Some r \<and> i = s_SessionID (deref m r) \<and> t = s11_teid (deref m r))" for i t
  proof -
    have a: "mget (byID m) i = Some r \<longleftrightarrow> indexed m r \<and> s_SessionID (deref m r) = i" for r
      using ok(1) unfolding indexed_def ids_ok_def by blast
    have b: "mget (byPDN m) (pdnKey s) = Some r \<longleftrightarrow> indexed m r \<and> pdnKey (deref m r) = pdnKey s" for r
      using ok(2) unfolding pdn_ok_def by blast
    show ?thesis by (auto simp: conns_def a b)
  qed
  show ?thesis
  proof (cases "mget (byPDN m) (pdnKey s)")
    case None
    then have "conns m i \<noteq> Some (pdnKey s, t)" for i t using other by simp
    then show ?thesis
      using None conns_index [OF ok(1)]
      by (auto simp: install_session_def Let_def connect_def fun_eq_iff split: option.splits)
  next
    case (Some r)
    let ?e = "evict r (ep_TEID (s_SGWS11 s)) m"
    have "indexed m r" using Some ok(2) unfolding pdn_ok_def by blast
    then have r: "mget (byID m) (s_SessionID (deref m r)) = Some r" by (simp add: indexed_def)
    have "ids_ok ?e" using ids_removeLocked [OF ok(1), of r]
      unfolding ids_ok_def evict_frame byID_removeLocked removeLocked_frame .
    then have "conns (index_session s ?e) = (conns ?e)(s_SessionID s := Some (pdnKey s, s11_teid s))"
      by (rule conns_index)
    moreover have "conns ?e i = (case conns m i of None \<Rightarrow> None
        | Some (k', t') \<Rightarrow> if k' = pdnKey s then None else Some (k', t'))" for i
    proof -
      have e: "conns ?e i = (if i = s_SessionID (deref m r) then None else conns m i)"
        by (simp add: conns_def map_simps)
      have o': "conns m i = Some (pdnKey s, t) \<longleftrightarrow> i = s_SessionID (deref m r) \<and> t = s11_teid (deref m r)" for t
        using other [of i t] Some by auto
      have "conns m (s_SessionID (deref m r)) = Some (pdnKey s, s11_teid (deref m r))"
        using other Some by auto
      then show ?thesis using o' by (auto simp: e split: option.splits)
    qed
    ultimately show ?thesis
      using Some by (simp add: install_session_def Let_def connect_def fun_eq_iff)
  qed
qed

definition create_refines :: "(nat \<Rightarrow> rand4) \<Rightarrow> bytes option \<Rightarrow> gtime \<Rightarrow> create_params \<Rightarrow> manager \<Rightarrow> bool" where
  "create_refines rnd rnd8 now p m \<longleftrightarrow> (case mgr_Create rnd rnd8 now p m of
      (Ok (r, old), m', ns) \<Rightarrow> \<exists>sid t. newSessionID rnd8 = Ok sid \<and>
        mgr_Find sid m' = Some r \<and> old = mget (byPDN m) (cp_IMSI p, cp_DefaultEBI p) \<and>
        conns m' = connect sid (cp_IMSI p, cp_DefaultEBI p) t (conns m) \<and>
        (if ep_TEID (cp_ReuseSGWS11 p) \<noteq> 0 then t = ep_TEID (cp_ReuseSGWS11 p)
         else t \<noteq> 0 \<and> (\<forall>i k. conns m i \<noteq> Some (k, t)))
    | (_, m', ns) \<Rightarrow> conns m' = conns m)"

lemma conns_held: "ids_ok m \<Longrightarrow> t \<notin> held m \<Longrightarrow> conns m i \<noteq> Some (k, t)"
  using live_iff [of m] by (auto simp: conns_def held_def)

lemma conns_same: "heap m' = heap m \<Longrightarrow> byID m' = byID m \<Longrightarrow> conns m' = conns m"
  by (simp add: conns_def fun_eq_iff deref_def)

lemma install_result:
  "fst (install_session s m) = (length (heap m), mget (byPDN m) (pdnKey s))"
  "mgr_Find (s_SessionID s) (fst (snd (install_session s m))) = Some (length (heap m))"
proof -
  define m1 where "m1 = (case mget (byPDN m) (pdnKey s) of None \<Rightarrow> m | Some o' \<Rightarrow> evict o' (ep_TEID (s_SGWS11 s)) m)"
  have h: "heap m1 = heap m" by (cases "mget (byPDN m) (pdnKey s)") (simp_all add: m1_def)
  have "fst (install_session s m) = (length (heap m1), mget (byPDN m) (pdnKey s))"
    "fst (snd (install_session s m)) = index_session s m1"
    by (simp_all only: install_session_def Let_def m1_def fst_conv snd_conv)
  then show "fst (install_session s m) = (length (heap m), mget (byPDN m) (pdnKey s))"
    "mgr_Find (s_SessionID s) (fst (snd (install_session s m))) = Some (length (heap m))"
    unfolding h mgr_Find_def by (simp_all only: mget_index h if_True refl)
qed

lemma create_refines:
  assumes "mgr_inv m"
    and "ep_TEID (cp_ReuseSGWS11 p) \<noteq> 0 \<longrightarrow> ep_TEID (cp_ReuseSGWS11 p) \<in> held m"
    and "\<forall>sid. newSessionID rnd8 = Ok sid \<longrightarrow> mget (byID m) sid = None"
  shows "create_refines rnd rnd8 now p m"
proof -
  obtain res m1 where r: "s11_for rnd p m = (res, m1)" by force
  note c = s11_for_cases [OF r assms(1,2)] and fr = s11_for_frame [OF r]
  have ix: "indexes_ok m1" "held m1 = held m"
    using same_indexes [of m1 m] fr assms(1) by (simp_all add: mgr_inv_def)
  have cs: "conns m1 = conns m" by (rule conns_same) (simp_all add: fr)
  have ids: "ids_ok m" using assms(1) by (simp add: mgr_inv_def indexes_ok_def)
  show ?thesis
  proof (cases res)
    case (Ok x)
    obtain f fresh where x: "x = (f, fresh)" by (cases x)
    show ?thesis
    proof (cases "newSessionID rnd8")
      case (Ok sid)
      let ?s = "newSession now sid f (checkpointSink m1) p"
      have "conns (fst (snd (install_session ?s m1))) = connect sid (pdnKey ?s) (s11_teid ?s) (conns m1)"
        using conns_install [OF ix(1), of ?s] assms(3) Ok fr(2) by simp
      moreover have "pdnKey ?s = (cp_IMSI p, cp_DefaultEBI p)" "s11_teid ?s = ep_TEID f"
        by (simp_all add: pdnKey_def s11_teid_def)
      moreover have "if ep_TEID (cp_ReuseSGWS11 p) \<noteq> 0 then ep_TEID f = ep_TEID (cp_ReuseSGWS11 p)
          else ep_TEID f \<noteq> 0 \<and> (\<forall>i k. conns m i \<noteq> Some (k, ep_TEID f))"
      proof (cases "ep_TEID (cp_ReuseSGWS11 p) = 0")
        case True
        then have "fresh" using r by (auto simp: s11_for_def \<open>res = _\<close> x split: outcome.splits prod.splits)
        with c have "ep_TEID f \<noteq> 0" "ep_TEID f \<notin> held m" by (simp_all add: \<open>res = _\<close> x ix(2))
        with conns_held [OF ids] True show ?thesis by simp
      next
        case False
        then show ?thesis using r by (auto simp: s11_for_def \<open>res = _\<close> x)
      qed
      moreover obtain m2 ns where i: "install_session ?s m1 =
          ((length (heap m1), mget (byPDN m) (pdnKey ?s)), m2, ns)"
        using install_result(1) [of ?s m1] fr(7) by (metis prod.collapse)
      moreover have "mgr_Create rnd rnd8 now p m =
          (Ok (length (heap m1), mget (byPDN m) (pdnKey ?s)), m2, ns)"
        by (simp add: mgr_Create_def r \<open>res = _\<close> x Ok i)
      moreover have "mgr_Find sid m2 = Some (length (heap m1))"
        using install_result(2) [of ?s m1] by (simp add: i)
      ultimately show ?thesis
        using Ok cs unfolding create_refines_def
        by (simp only: prod.case outcome.case fst_conv snd_conv) (intro exI conjI, simp_all)
    next
      case (Fail e)
      then show ?thesis
        using cs conns_same [of "m1\<lparr>teidAlloc := _\<rparr>" m1] by (simp add: create_refines_def mgr_Create_def r \<open>res = _\<close> x)
    next
      case Panic
      then show ?thesis by (simp add: newSessionID_def split: option.splits)
    qed
  qed (use c cs r in \<open>simp_all add: create_refines_def mgr_Create_def\<close>)
qed

section \<open>Properties\<close>

text \<open>A manager for the witnesses: one session was created in a new manager.\<close>

definition sample_create :: mgr_op where
  "sample_create = M_Create (\<lambda>i. Some (0, 0, 0, 5)) (Some [1, 2, 3, 4, 5, 6, 7, 8]) 100 sample_params"

lemma sample_guard: "mgr_guard sample_create NewManager"
  by (simp add: sample_create_def sample_params_def noFTEID_def mgr_Find_def NewManager_def
    newSessionID_def)

lemma sample_reachable: "mgr_reachable (mgr_step sample_create NewManager)"
  unfolding mgr_reachable_def by (intro reaches.intros sample_guard)

text \<open>The agreement of the indexes, as the clients of the manager see it.\<close>

definition indexes_agree :: "manager \<Rightarrow> bool" where
  "indexes_agree m \<longleftrightarrow> (\<forall>sid r. mgr_Find sid m = Some r \<longrightarrow> s_SessionID (deref m r) = sid) \<and>
     (\<forall>t. distinct (FindAllByS11TEID t m)) \<and>
     (\<forall>t r. r \<in> set (FindAllByS11TEID t m) \<longleftrightarrow> r \<in> set (mgr_List m) \<and> ep_TEID (s_SGWS11 (deref m r)) = t) \<and>
     (\<forall>k r. mget (byPDN m) k = Some r \<longleftrightarrow> r \<in> set (mgr_List m) \<and> pdnKey (deref m r) = k) \<and>
     (\<forall>i r. FindByIMSI i m = Some r \<longrightarrow> r \<in> set (mgr_List m) \<and> s_IMSI (deref m r) = i) \<and>
     (\<forall>r \<in> set (mgr_List m). FindByIMSI (s_IMSI (deref m r)) m \<noteq> None) \<and>
     (\<forall>t r. FindByS5CTEID t m = Some r \<longrightarrow> r \<in> set (mgr_List m) \<and> ep_TEID (s_SGWS5C (deref m r)) = t) \<and>
     (\<forall>a r. r \<in> set (FindByPGW a m) \<longrightarrow>
        r \<in> set (mgr_List m) \<and> pf_PGWAddr (s_PGWFailure (deref m r)) = CanonicalGTPCEndpoint a)"

lemma inv_indexes_agree:
  assumes inv: "mgr_inv m"
  shows "indexes_agree m"
proof -
  have ok: "ids_ok m" "s11_ok m" "pdn_ok m" "imsi_ok m" "s5c_ok m"
    using inv by (simp_all add: mgr_inv_def indexes_ok_def)
  note L = List_live [OF inv]
  show ?thesis
    unfolding indexes_agree_def L FindAllByS11TEID_def FindByIMSI_def FindByS5CTEID_def mgr_Find_def s11_teid_def [symmetric]
  proof (intro conjI)
    show "\<forall>sid r. mget (byID m) sid = Some r \<longrightarrow> s_SessionID (deref m r) = sid"
      using ok(1) unfolding ids_ok_def by blast
    show "\<forall>t. distinct (s11_list m t)"
      "\<forall>t r. (r \<in> set (s11_list m t)) = (indexed m r \<and> s11_teid (deref m r) = t)"
      using ok(2) unfolding s11_ok_def by blast+
    show "\<forall>k r. (mget (byPDN m) k = Some r) = (indexed m r \<and> pdnKey (deref m r) = k)"
      using ok(3) unfolding pdn_ok_def by blast
    show "\<forall>i r. mget (byIMSI m) i = Some r \<longrightarrow> indexed m r \<and> s_IMSI (deref m r) = i"
      using ok(4) unfolding imsi_ok_def by blast
    show "\<forall>r \<in> set (mgr_List m). mget (byIMSI m) (s_IMSI (deref m r)) \<noteq> None"
      using ok(4) L unfolding imsi_ok_def by blast
    show "\<forall>t r. mget (byS5C m) t = Some r \<longrightarrow> indexed m r \<and> ep_TEID (s_SGWS5C (deref m r)) = t"
      using ok(5) unfolding s5c_ok_def by blast
    show "\<forall>a r. r \<in> set (FindByPGW a m) \<longrightarrow>
        indexed m r \<and> pf_PGWAddr (s_PGWFailure (deref m r)) = CanonicalGTPCEndpoint a"
      using pgw_find_live [OF inv] by blast
  qed
qed



text \<open>
  C18: the S11 TEIDs marked used in the allocator are exactly those of the listed sessions, in
  every state the SGW-C can bring the manager to: none is freed while a session still has
  it, none leaks after the last such session is removed or evicted, and a newly allocated
  TEID is never one that resolves to a session.
\<close>

theorem s11_teids_exact:
  assumes "mgr_reachable m"
  shows "in_use (teidAlloc m) = (\<lambda>r. ep_TEID (s_SGWS11 (deref m r))) ` set (mgr_List m) \<and>
    (\<forall>rnd t a. alloc rnd (teidAlloc m) = (Ok t, a) \<longrightarrow> FindByS11TEID t m = None)"
proof (intro conjI allI impI)
  have inv: "mgr_inv m" by (rule reachable_inv [OF assms])
  have "held m = (\<lambda>r. ep_TEID (s_SGWS11 (deref m r))) ` set (mgr_List m)"
    using List_live [OF inv] unfolding held_def s11_teid_def by auto
  then show "in_use (teidAlloc m) = (\<lambda>r. ep_TEID (s_SGWS11 (deref m r))) ` set (mgr_List m)"
    using inv by (simp add: mgr_inv_def)
  fix rnd t a
  assume "alloc rnd (teidAlloc m) = (Ok t, a)"
  then have "t \<notin> held m" using inv by (cases rule: alloc_cases) (auto simp: mgr_inv_def)
  then show "FindByS11TEID t m = None"
    using held_iff_find [of m t] inv by (simp add: mgr_inv_def indexes_ok_def)
qed

theorem s11_teids_exact_witness:
  "in_use (teidAlloc (mgr_step sample_create NewManager)) =
     (\<lambda>r. ep_TEID (s_SGWS11 (deref (mgr_step sample_create NewManager) r))) `
       set (mgr_List (mgr_step sample_create NewManager))"
  using s11_teids_exact [OF sample_reachable] by blast

text \<open>
  C2: the manager refines a map from session IDs to PDN connections and S11 TEIDs. A successful
  \<open>Create\<close> adds the new connection under its ID and replaces the one connection with the same
  IMSI and default EBI, which it returns as evicted; its TEID is the one to reuse or one no
  connection has. A failed \<open>Create\<close> changes nothing, \<open>Delete\<close> removes the one entry, and no
  other operation changes the map.
\<close>

theorem manager_refines_connections:
  assumes "mgr_reachable m" "mgr_guard op m"
  shows "case op of
      M_Create rnd rnd8 now p \<Rightarrow> (case mgr_Create rnd rnd8 now p m of
          (Ok (r, old), m', ns) \<Rightarrow> \<exists>sid t. newSessionID rnd8 = Ok sid \<and>
            mgr_Find sid m' = Some r \<and> old = mget (byPDN m) (cp_IMSI p, cp_DefaultEBI p) \<and>
            conns m' = connect sid (cp_IMSI p, cp_DefaultEBI p) t (conns m) \<and>
            (if ep_TEID (cp_ReuseSGWS11 p) \<noteq> 0 then t = ep_TEID (cp_ReuseSGWS11 p)
             else t \<noteq> 0 \<and> (\<forall>i k. conns m i \<noteq> Some (k, t)))
        | (_, m', ns) \<Rightarrow> conns m' = conns m)
    | M_Delete sid \<Rightarrow> conns (mgr_step op m) = (conns m)(sid := None)
    | _ \<Rightarrow> conns (mgr_step op m) = conns m"
proof -
  have inv: "mgr_inv m" by (rule reachable_inv [OF assms(1)])
  have ids: "ids_ok m" using inv by (simp add: mgr_inv_def indexes_ok_def)
  have other: "conns (mgr_step op m) = conns m"
    if "\<And>rnd rnd8 now p. op \<noteq> M_Create rnd rnd8 now p" "\<And>sid. op \<noteq> M_Delete sid"
    by (rule conns_stable [OF step_stable [OF that] ids])
  show ?thesis
  proof (cases op)
    case (M_Create rnd rnd8 now p)
    have "s11_ok m" using inv by (simp add: mgr_inv_def indexes_ok_def)
    then have reuse: "ep_TEID (cp_ReuseSGWS11 p) \<noteq> 0 \<longrightarrow> ep_TEID (cp_ReuseSGWS11 p) \<in> held m"
      using assms(2) held_iff_find [of m "ep_TEID (cp_ReuseSGWS11 p)"] by (auto simp: M_Create)
    have fresh: "\<forall>sid. newSessionID rnd8 = Ok sid \<longrightarrow> mget (byID m) sid = None"
      using assms(2) by (auto simp: M_Create mgr_Find_def)
    have "create_refines rnd rnd8 now p m"
      by (rule create_refines [OF inv reuse fresh])
    then show ?thesis unfolding M_Create create_refines_def mgr_op.case .
  next
    case (M_Delete sid)
    then show ?thesis using conns_delete [OF inv] by simp
  qed (use other in \<open>simp_all del: mgr_step.simps\<close>)
qed

theorem manager_refines_connections_witness:
  "conns (mgr_step (M_Delete ''x'') (mgr_step sample_create NewManager)) =
     (conns (mgr_step sample_create NewManager))(''x'' := None)"
  using manager_refines_connections [OF sample_reachable, of "M_Delete ''x''"] by simp

end
