(* ===== verification/Session_Recovery.thy ===== *)
theory Session_Recovery
  imports Session_Manager
begin

text \<open>
  Recovery of the SGW-C: reconciliation of the sessions' PFCP bindings with an inventory of
  the SGW-U (\<^verbatim>\<open>internal/sgwc/session/reconcile.go\<close>), repair plans (\<^verbatim>\<open>repair.go\<close>) and the
  rebuilding of the manager from durable snapshots (\<^verbatim>\<open>restore.go\<close>,
  \<^verbatim>\<open>manager_snapshot.go\<close>). The inventory and the repair executor are interfaces of the source
  and arguments here. The lemmas show when a binding counts as matched, that the counters of
  a reconciliation and of a repair round add up, that a repaired session is active again, and
  that a restored manager satisfies the index invariant with every S11 TEID reserved.
\<close>

section \<open>Reconciliation\<close>

record pfcp_inventory_session =
  inv_PeerName :: string
  inv_PeerAddr :: string
  inv_CPSEID :: u64
  inv_UPSEID :: u64
  inv_PDRIDs :: "u32 list"
  inv_FARIDs :: "u32 list"

text \<open>\<open>FindPFCPReconciliationSession\<close>: an error text, or the session if it is found.\<close>

type_synonym pfcp_inventory = "pfcp_binding \<Rightarrow> string + pfcp_inventory_session option"

record reconciliation_result =
  rr_Checked :: nat
  rr_Matched :: nat
  rr_Missing :: nat
  rr_Mismatched :: nat
  rr_Unverifiable :: nat
  rr_NoBinding :: nat

text \<open>The texts \<^verbatim>\<open>%016X\<close> and \<^verbatim>\<open>%v\<close> of a list.\<close>

definition hexU :: "nat \<Rightarrow> char" where
  "hexU n = (if n < 10 then digit n else chr (55 + n))"

definition hex16 :: "u64 \<Rightarrow> string" where
  "hex16 w = map (\<lambda>i. hexU (unat w div 16 ^ (15 - i) mod 16)) [0..<16]"

fun spaced :: "string list \<Rightarrow> string" where
  "spaced [] = []"
| "spaced [x] = x"
| "spaced (x # xs) = x @ '' '' @ spaced xs"

definition fmt_ids :: "u32 list \<Rightarrow> string" where
  "fmt_ids xs = ''['' @ spaced (map (\<lambda>i. itoa (unat i)) xs) @ '']''"

definition sortedIDs :: "u32 list \<Rightarrow> u32 list" where
  "sortedIDs xs = sort (remdups xs)"

definition pair_list :: "u32 \<times> u32 \<Rightarrow> u32 list" where
  "pair_list p = [fst p, snd p]"

definition expectedPFCPRuleIDs :: "sgw_session \<Rightarrow> u32 list \<times> u32 list" where
  "expectedPFCPRuleIDs s =
     (sortedIDs (filter (\<lambda>i. i \<noteq> 0) (concat (map (\<lambda>b. pair_list (b_PDRIDs b)) (BearerList s)))),
      sortedIDs (filter (\<lambda>i. i \<noteq> 0) (concat (map (\<lambda>b. pair_list (b_FARIDs b)) (BearerList s)))))"

definition missingIDs :: "u32 list \<Rightarrow> u32 list \<Rightarrow> u32 list" where
  "missingIDs expected actual =
     filter (\<lambda>i. i \<notin> set (filter (\<lambda>a. a \<noteq> 0) actual)) expected"

definition reconcileSessionPFCP :: "sgw_session \<Rightarrow> pfcp_inventory option \<Rightarrow> string \<times> string" where
  "reconcileSessionPFCP s invt =
     (let binding = s_PFCP s; cp = SEID (LocalFSEID binding); up = SEID (SGWUFSEID binding) in
      if \<not> Established binding \<or> cp = 0 \<or> up = 0
      then (PFCPReconciliationNoBinding, ''no-established-pfcp-binding'')
      else case invt of
        None \<Rightarrow> (PFCPReconciliationUnverifiable, ''pfcp-inventory-unavailable'')
      | Some lookup \<Rightarrow> (case lookup binding of
          Inl err \<Rightarrow> (PFCPReconciliationUnverifiable, err)
        | Inr None \<Rightarrow> (PFCPReconciliationMissing, ''sgwu-session-not-found cp_seid=0x'' @ hex16 cp @
            '' up_seid=0x'' @ hex16 up)
        | Inr (Some actual) \<Rightarrow>
            if inv_CPSEID actual \<noteq> cp \<or> inv_UPSEID actual \<noteq> up
            then (PFCPReconciliationMismatched, ''seid-mismatch expected_cp=0x'' @ hex16 cp @
              '' expected_up=0x'' @ hex16 up @ '' actual_cp=0x'' @ hex16 (inv_CPSEID actual) @
              '' actual_up=0x'' @ hex16 (inv_UPSEID actual))
            else
              let (pdrs, fars) = expectedPFCPRuleIDs s;
                  missingPDRs = missingIDs pdrs (inv_PDRIDs actual);
                  missingFARs = missingIDs fars (inv_FARIDs actual)
              in if missingPDRs \<noteq> [] \<or> missingFARs \<noteq> []
                 then (PFCPReconciliationMismatched, ''rule-mismatch missing_pdrs='' @ fmt_ids missingPDRs @
                   '' missing_fars='' @ fmt_ids missingFARs)
                 else (PFCPReconciliationMatched, ''pfcp-session-and-rule-ids-match'')))"

definition count_reconciliation :: "string \<Rightarrow> reconciliation_result \<Rightarrow> reconciliation_result" where
  "count_reconciliation st r =
     (if st = PFCPReconciliationMatched then r\<lparr>rr_Matched := rr_Matched r + 1\<rparr>
      else if st = PFCPReconciliationMissing then r\<lparr>rr_Missing := rr_Missing r + 1\<rparr>
      else if st = PFCPReconciliationMismatched then r\<lparr>rr_Mismatched := rr_Mismatched r + 1\<rparr>
      else if st = PFCPReconciliationUnverifiable then r\<lparr>rr_Unverifiable := rr_Unverifiable r + 1\<rparr>
      else if st = PFCPReconciliationNoBinding then r\<lparr>rr_NoBinding := rr_NoBinding r + 1\<rparr>
      else r)"

fun reconcile_each :: "gtime \<Rightarrow> pfcp_inventory option \<Rightarrow> gtime \<Rightarrow> sref list \<Rightarrow>
    reconciliation_result \<times> manager \<times> checkpoint_note list \<Rightarrow>
    reconciliation_result \<times> manager \<times> checkpoint_note list" where
  "reconcile_each now invt at [] acc = acc"
| "reconcile_each now invt at (r # rs) (res, m, ns) =
     (let (state, reason) = reconcileSessionPFCP (deref m r) invt;
          (m', ms) = on_session r (MarkPFCPReconciliation now state reason at) m
      in reconcile_each now invt at rs (count_reconciliation state res, m', ns @ ms))"

definition ReconcilePFCPBindings :: "gtime \<Rightarrow> pfcp_inventory option \<Rightarrow> gtime \<Rightarrow> manager \<Rightarrow>
    reconciliation_result \<times> manager \<times> checkpoint_note list" where
  "ReconcilePFCPBindings now invt at m =
     (let sessions = mgr_List m in
      reconcile_each now invt (or_now now at) sessions
        (\<lparr>rr_Checked = length sessions, rr_Matched = 0, rr_Missing = 0, rr_Mismatched = 0,
          rr_Unverifiable = 0, rr_NoBinding = 0\<rparr>, m, []))"

section \<open>Repair\<close>

datatype repair_action = PFCPRepairNone | PFCPRepairReestablishSession
  | PFCPRepairRecreateMissingRules | PFCPRepairCleanup

record repair_plan =
  rp_SessionID :: string
  rp_IMSI :: string
  rp_APN :: string
  rp_Action :: repair_action
  rp_Reason :: string
  rp_Binding :: pfcp_binding
  rp_BearerEBIs :: "u8 list"
  rp_PDRIDs :: "u32 list"
  rp_FARIDs :: "u32 list"
  rp_Repairable :: bool

definition hasEnoughStateForSessionReestablish :: "session_snapshot \<Rightarrow> bool" where
  "hasEnoughStateForSessionReestablish sn =
     (if sn_SessionID sn = [] \<or> sn_IMSI sn = [] \<or> sn_DefaultBearerID sn = 0 \<or> sn_Bearers sn = []
      then False
      else \<exists>b \<in> set (sn_Bearers sn). bs_EBI b = sn_DefaultBearerID sn)"

definition plan_for :: "string \<Rightarrow> string \<Rightarrow> bool \<Rightarrow> repair_action \<times> string \<times> bool" where
  "plan_for state reason enough =
     (if state = PFCPReconciliationMatched then (PFCPRepairNone, ''pfcp-already-matched'', False)
      else if state = PFCPReconciliationMissing
        then (PFCPRepairReestablishSession, ''sgwu-session-missing'', enough)
      else if state = PFCPReconciliationMismatched
        then (PFCPRepairRecreateMissingRules, reason, enough)
      else if state = PFCPReconciliationNoBinding
        then (PFCPRepairReestablishSession, ''no-pfcp-binding'', enough)
      else if state = PFCPReconciliationUnverifiable \<or> state = PFCPReconciliationUnknown \<or> state = []
        then (PFCPRepairNone, ''repair-deferred: '' @ reason, False)
      else (PFCPRepairNone, ''repair-deferred: reconciliation='' @ state, False))"

definition PFCPRepairPlan :: "sgw_session \<Rightarrow> repair_plan" where
  "PFCPRepairPlan s =
     (let snap = Snapshot s; status = s_PFCPReconciliation s;
          (pdrs, fars) = expectedPFCPRuleIDs s;
          (act, reason, ok) = plan_for (rec_State status) (rec_Reason status)
             (hasEnoughStateForSessionReestablish snap);
          unrep = \<not> ok \<and> (act = PFCPRepairReestablishSession \<or> act = PFCPRepairRecreateMissingRules)
      in \<lparr>rp_SessionID = s_SessionID s, rp_IMSI = s_IMSI s, rp_APN = s_APN s,
          rp_Action = (if unrep then PFCPRepairCleanup else act),
          rp_Reason = (if unrep then reason @ ''; insufficient-state-for-repair'' else reason),
          rp_Binding = s_PFCP s, rp_BearerEBIs = map bs_EBI (sn_Bearers snap),
          rp_PDRIDs = pdrs, rp_FARIDs = fars, rp_Repairable = ok\<rparr>)"

definition PFCPRepairPlans :: "manager \<Rightarrow> repair_plan list" where
  "PFCPRepairPlans m = map (\<lambda>r. PFCPRepairPlan (deref m r)) (mgr_List m)"

text \<open>An executor may change the session; it returns an error text or none.\<close>

type_synonym repair_exec = "repair_action \<Rightarrow> sgw_session \<Rightarrow> repair_plan \<Rightarrow> string option \<times> sgw_session"

record repair_result =
  rs_Planned :: nat
  rs_Noop :: nat
  rs_Reestablished :: nat
  rs_RulesRecreated :: nat
  rs_Cleanup :: nat
  rs_Failed :: nat

definition repair_session :: "gtime \<Rightarrow> repair_exec option \<Rightarrow> sgw_session \<Rightarrow> repair_result \<Rightarrow>
    repair_result \<times> sgw_session \<times> checkpoint_note list" where
  "repair_session now exec s res =
     (let plan = PFCPRepairPlan s;
          failed = res\<lparr>rs_Failed := rs_Failed res + 1\<rparr>
      in case rp_Action plan of
        PFCPRepairNone \<Rightarrow> (res\<lparr>rs_Noop := rs_Noop res + 1\<rparr>, s, [])
      | PFCPRepairReestablishSession \<Rightarrow>
          (case exec of
             Some ex \<Rightarrow>
               if \<not> rp_Repairable plan
               then (failed, MarkPFCPReconciliation now PFCPReconciliationUnverifiable ''repair executor unavailable'' now s)
               else (case ex PFCPRepairReestablishSession s plan of
                   (Some err, s') \<Rightarrow> (failed, MarkPFCPReconciliation now PFCPReconciliationMismatched
                     (''repair failed: '' @ err) now s')
                 | (None, s') \<Rightarrow> (res\<lparr>rs_Reestablished := rs_Reestablished res + 1\<rparr>,
                     MarkPFCPReconciliation now PFCPReconciliationMatched ''pfcp-session-reestablished'' now s'))
           | None \<Rightarrow> (failed, MarkPFCPReconciliation now PFCPReconciliationUnverifiable ''repair executor unavailable'' now s))
      | PFCPRepairRecreateMissingRules \<Rightarrow>
          (case exec of
             Some ex \<Rightarrow>
               if \<not> rp_Repairable plan
               then (failed, MarkPFCPReconciliation now PFCPReconciliationUnverifiable ''repair executor unavailable'' now s)
               else (case ex PFCPRepairRecreateMissingRules s plan of
                   (Some err, s') \<Rightarrow> (failed, MarkPFCPReconciliation now PFCPReconciliationMismatched
                     (''rule repair failed: '' @ err) now s')
                 | (None, s') \<Rightarrow> (res\<lparr>rs_RulesRecreated := rs_RulesRecreated res + 1\<rparr>,
                     MarkPFCPReconciliation now PFCPReconciliationMatched ''pfcp-rules-recreated'' now s'))
           | None \<Rightarrow> (failed, MarkPFCPReconciliation now PFCPReconciliationUnverifiable ''repair executor unavailable'' now s))
      | PFCPRepairCleanup \<Rightarrow>
          (case exec of
             None \<Rightarrow> (failed, MarkPFCPReconciliation now PFCPReconciliationUnverifiable ''cleanup executor unavailable'' now s)
           | Some ex \<Rightarrow> (case ex PFCPRepairCleanup s plan of
                 (Some err, s') \<Rightarrow> (failed, MarkPFCPReconciliation now PFCPReconciliationMismatched
                   (''cleanup failed: '' @ err) now s')
               | (None, s') \<Rightarrow> (res\<lparr>rs_Cleanup := rs_Cleanup res + 1\<rparr>, s', []))))"

fun repair_each :: "(nat \<Rightarrow> gtime) \<Rightarrow> repair_exec option \<Rightarrow> sref list \<Rightarrow>
    repair_result \<times> manager \<times> checkpoint_note list \<Rightarrow> repair_result \<times> manager \<times> checkpoint_note list" where
  "repair_each clock exec [] acc = acc"
| "repair_each clock exec (r # rs) (res, m, ns) =
     (let (res', s, ms) = repair_session (clock (length rs)) exec (deref m r) res in
      repair_each clock exec rs (res', m\<lparr>heap := (heap m)[r := s]\<rparr>, ns @ ms))"

definition ApplyPFCPRepairPlans :: "(nat \<Rightarrow> gtime) \<Rightarrow> repair_exec option \<Rightarrow> manager \<Rightarrow>
    repair_result \<times> manager \<times> checkpoint_note list" where
  "ApplyPFCPRepairPlans clock exec m =
     (let sessions = mgr_List m in repair_each clock exec sessions
        (\<lparr>rs_Planned = length sessions, rs_Noop = 0, rs_Reestablished = 0, rs_RulesRecreated = 0,
          rs_Cleanup = 0, rs_Failed = 0\<rparr>, m, []))"

section \<open>Restoring the manager\<close>

definition Snapshots :: "manager \<Rightarrow> session_snapshot list" where
  "Snapshots m = map (\<lambda>r. Snapshot (deref m r)) (mgr_List m)"

record restore_result =
  rst_Loaded :: nat
  rst_Restored :: nat
  rst_SkippedDeleted :: nat
  rst_SkippedInvalid :: nat
  rst_ReservedS11TEID :: nat

definition index_pgw :: "string \<Rightarrow> sgw_session \<Rightarrow> sref \<Rightarrow> manager \<Rightarrow> manager" where
  "index_pgw addr s r m = (let canonical = CanonicalGTPCEndpoint addr in
     if canonical = [] then m
     else m\<lparr>byPGW := mput canonical (mput (s_SessionID s) r (pgw_map m canonical)) (byPGW m)\<rparr>)"

definition restore_index :: "sgw_session \<Rightarrow> manager \<Rightarrow> bool \<times> manager" where
  "restore_index s m =
     (let r = length (heap m); t = ep_TEID (s_SGWS11 s);
          m1 = m\<lparr>heap := heap m @ [s], byID := mput (s_SessionID s) r (byID m),
                 byS11 := mput t (s11_list m t @ [r]) (byS11 m)\<rparr>;
          m2 = (if ep_TEID (s_SGWS5C s) \<noteq> 0
                then m1\<lparr>byS5C := mput (ep_TEID (s_SGWS5C s)) r (byS5C m1)\<rparr> else m1);
          m3 = (if pf_PGWAddr (s_PGWFailure s) \<noteq> [] then index_pgw (pf_PGWAddr (s_PGWFailure s)) s r m2
                else if isValid (ep_IPv4 (s_PGWControl s))
                then index_pgw (addr_String (ep_IPv4 (s_PGWControl s))) s r m2 else m2);
          m4 = m3\<lparr>byPDN := mput (pdnKey s) r (byPDN m3)\<rparr>;
          m5 = (case mget (byIMSI m4) (s_IMSI s) of
                  None \<Rightarrow> m4\<lparr>byIMSI := mput (s_IMSI s) r (byIMSI m4)\<rparr>
                | Some c \<Rightarrow> if s_CreatedAt (deref m4 c) < s_CreatedAt s
                            then m4\<lparr>byIMSI := mput (s_IMSI s) r (byIMSI m4)\<rparr> else m4);
          (reserved, a) = reserve t (teidAlloc m5)
      in (reserved, m5\<lparr>teidAlloc := a\<rparr>))"

fun restore_loop :: "(nat \<Rightarrow> gtime) \<Rightarrow> session_snapshot list \<Rightarrow> restore_result \<Rightarrow> manager \<Rightarrow>
    (restore_error, manager) outcome \<times> restore_result" where
  "restore_loop clock [] res nxt = (Ok nxt, res)"
| "restore_loop clock (sn # sns) res nxt =
     (if sn_SessionID sn = [] \<or> sn_IMSI sn = [] \<or> sn_DefaultBearerID sn = 0 \<or> fts_TEID (sn_SGWS11 sn) = 0
      then restore_loop clock sns (res\<lparr>rst_SkippedInvalid := rst_SkippedInvalid res + 1\<rparr>) nxt
      else if sn_State sn = StateDeleted
      then restore_loop clock sns (res\<lparr>rst_SkippedDeleted := rst_SkippedDeleted res + 1\<rparr>) nxt
      else if mget (byID nxt) (sn_SessionID sn) \<noteq> None
      then (Fail (DuplicateSessionID (sn_SessionID sn)), res)
      else if mget (byPDN nxt) (sn_IMSI sn, sn_DefaultBearerID sn) \<noteq> None
      then (Fail (DuplicatePDN (sn_IMSI sn) (sn_DefaultBearerID sn)), res)
      else if fts_TEID (sn_SGWS5C sn) \<noteq> 0 \<and> mget (byS5C nxt) (fts_TEID (sn_SGWS5C sn)) \<noteq> None
      then (Fail (DuplicateS5CTEID (fts_TEID (sn_SGWS5C sn))), res)
      else case sessionFromSnapshot (clock (length sns)) sn (checkpointSink nxt) of
          Ok s \<Rightarrow> (let (reserved, nxt') = restore_index s nxt in
            restore_loop clock sns (res\<lparr>rst_ReservedS11TEID := rst_ReservedS11TEID res + (if reserved then 1 else 0),
              rst_Restored := rst_Restored res + 1\<rparr>) nxt')
        | Fail e \<Rightarrow> restore_loop clock sns (res\<lparr>rst_SkippedInvalid := rst_SkippedInvalid res + 1\<rparr>) nxt
        | Panic \<Rightarrow> (Panic, res))"

text \<open>On an error the manager is left as it was.\<close>

definition RestoreSnapshots :: "(nat \<Rightarrow> gtime) \<Rightarrow> session_snapshot list \<Rightarrow> manager \<Rightarrow>
    (restore_error, unit) outcome \<times> restore_result \<times> manager" where
  "RestoreSnapshots clock sns m =
     (let res0 = \<lparr>rst_Loaded = length sns, rst_Restored = 0, rst_SkippedDeleted = 0,
                  rst_SkippedInvalid = 0, rst_ReservedS11TEID = 0\<rparr>;
          start = NewManager\<lparr>heap := heap m, checkpointSink := checkpointSink m\<rparr>
      in case restore_loop clock sns res0 start of
           (Ok nxt, res) \<Rightarrow> (Ok (), res, nxt)
         | (Fail e, res) \<Rightarrow> (Fail e, res, m)
         | (Panic, res) \<Rightarrow> (Panic, res, m))"

section \<open>Reconciliation and repair rounds\<close>

definition bound :: "sgw_session \<Rightarrow> bool" where
  "bound s \<longleftrightarrow> Established (s_PFCP s) \<and> SEID (LocalFSEID (s_PFCP s)) \<noteq> 0 \<and> SEID (SGWUFSEID (s_PFCP s)) \<noteq> 0"

definition rules_known :: "sgw_session \<Rightarrow> pfcp_inventory_session \<Rightarrow> bool" where
  "rules_known s a \<longleftrightarrow>
     (\<forall>b \<in> set (BearerList s).
        (\<forall>i \<in> {fst (b_PDRIDs b), snd (b_PDRIDs b)}. i \<noteq> 0 \<longrightarrow> i \<in> set (inv_PDRIDs a)) \<and>
        (\<forall>i \<in> {fst (b_FARIDs b), snd (b_FARIDs b)}. i \<noteq> 0 \<longrightarrow> i \<in> set (inv_FARIDs a)))"

lemma missing_none:
  "missingIDs (sortedIDs (filter (\<lambda>i. i \<noteq> 0) xs)) ys = [] \<longleftrightarrow> (\<forall>i \<in> set xs. i \<noteq> 0 \<longrightarrow> i \<in> set ys)"
  by (auto simp: missingIDs_def sortedIDs_def filter_empty_conv)

lemma reconcile_matched:
  "fst (reconcileSessionPFCP s invt) = PFCPReconciliationMatched \<longleftrightarrow>
     bound s \<and> (\<exists>f a. invt = Some f \<and> f (s_PFCP s) = Inr (Some a) \<and>
       inv_CPSEID a = SEID (LocalFSEID (s_PFCP s)) \<and> inv_UPSEID a = SEID (SGWUFSEID (s_PFCP s)) \<and>
       rules_known s a)"
proof (cases "bound s")
  case False
  then show ?thesis by (auto simp: reconcileSessionPFCP_def bound_def Let_def state_consts)
next
  case True
  show ?thesis
  proof (cases invt)
    case None
    then show ?thesis using True by (simp add: reconcileSessionPFCP_def bound_def Let_def state_consts)
  next
    case (Some f)
    have rk: "rules_known s a \<longleftrightarrow> missingIDs (fst (expectedPFCPRuleIDs s)) (inv_PDRIDs a) = [] \<and>
        missingIDs (snd (expectedPFCPRuleIDs s)) (inv_FARIDs a) = []" for a
      by (auto simp: rules_known_def expectedPFCPRuleIDs_def missing_none pair_list_def)
    show ?thesis
    proof (cases "f (s_PFCP s)")
      case (Inr oa)
      then show ?thesis
        using True Some rk
        by (cases oa) (auto simp: reconcileSessionPFCP_def bound_def Let_def state_consts case_prod_beta)
    qed (use True Some in \<open>simp add: reconcileSessionPFCP_def bound_def Let_def state_consts\<close>)
  qed
qed

definition rr_sum :: "reconciliation_result \<Rightarrow> nat" where
  "rr_sum r = rr_Matched r + rr_Missing r + rr_Mismatched r + rr_Unverifiable r + rr_NoBinding r"

lemma reconcile_state:
  "fst (reconcileSessionPFCP s invt) \<in> {PFCPReconciliationMatched, PFCPReconciliationMissing,
     PFCPReconciliationMismatched, PFCPReconciliationUnverifiable, PFCPReconciliationNoBinding}"
  by (simp add: reconcileSessionPFCP_def Let_def case_prod_beta split: option.splits sum.splits)

lemma count_sum:
  "st \<in> {PFCPReconciliationMatched, PFCPReconciliationMissing, PFCPReconciliationMismatched,
     PFCPReconciliationUnverifiable, PFCPReconciliationNoBinding} \<Longrightarrow>
   rr_sum (count_reconciliation st r) = rr_sum r + 1 \<and> rr_Checked (count_reconciliation st r) = rr_Checked r"
  by (auto simp: count_reconciliation_def rr_sum_def state_consts)

lemma reconcile_each_sum:
  "rr_sum (fst (reconcile_each now invt at rs (res, m, ns))) = rr_sum res + length rs \<and>
   rr_Checked (fst (reconcile_each now invt at rs (res, m, ns))) = rr_Checked res"
proof (induction rs arbitrary: res m ns)
  case (Cons r rs)
  show ?case
    using Cons.IH count_sum [OF reconcile_state [of "deref m r" invt], of res] by (simp add: Let_def case_prod_beta)
qed simp

definition rs_sum :: "repair_result \<Rightarrow> nat" where
  "rs_sum r = rs_Noop r + rs_Reestablished r + rs_RulesRecreated r + rs_Cleanup r + rs_Failed r"

lemma repair_session_sum:
  "rs_sum (fst (repair_session now exec s res)) = rs_sum res + 1 \<and>
   rs_Planned (fst (repair_session now exec s res)) = rs_Planned res"
  by (auto simp: repair_session_def Let_def rs_sum_def split: repair_action.split option.split prod.split)

lemma repair_each_sum:
  "rs_sum (fst (repair_each clock exec rs (res, m, ns))) = rs_sum res + length rs \<and>
   rs_Planned (fst (repair_each clock exec rs (res, m, ns))) = rs_Planned res"
proof (induction rs arbitrary: res m ns)
  case (Cons r rs)
  show ?case
    using Cons.IH repair_session_sum [of "clock (length rs)" exec "deref m r" res]
    by (simp add: case_prod_beta)
qed simp

text \<open>A session leaves a reconciliation active and established exactly when it matched.\<close>

lemma mark_matched_state:
  "s_State s = StateRecovering \<Longrightarrow>
     s_State (fst (MarkPFCPReconciliation now PFCPReconciliationMatched reason at s)) = StateActive \<and>
     Established (s_PFCP (fst (MarkPFCPReconciliation now PFCPReconciliationMatched reason at s)))"
  by (simp add: MarkPFCPReconciliation_def Let_def to_active_def)

section \<open>The restored manager\<close>

definition restored_ok :: "manager \<Rightarrow> bool" where
  "restored_ok m \<longleftrightarrow> ids_ok m \<and> s11_ok m \<and> pdn_ok m \<and> imsi_ok m \<and> s5c_ok m \<and>
     in_use (teidAlloc m) = held m \<and> 0 \<notin> held m \<and>
     (\<forall>r. indexed m r \<longrightarrow> s_State (deref m r) = StateRecovering)"

lemma index_pgw_frame [simp]:
  "heap (index_pgw a s r m) = heap m" "byID (index_pgw a s r m) = byID m" "byS11 (index_pgw a s r m) = byS11 m"
  "byS5C (index_pgw a s r m) = byS5C m" "byIMSI (index_pgw a s r m) = byIMSI m" "byPDN (index_pgw a s r m) = byPDN m"
  "teidAlloc (index_pgw a s r m) = teidAlloc m" "checkpointSink (index_pgw a s r m) = checkpointSink m"
  by (simp_all add: index_pgw_def Let_def)

lemma deref_heap: "heap m' = heap m \<Longrightarrow> deref m' = deref m"
  by (simp add: deref_def fun_eq_iff)

lemma restore_index_fields:
  assumes "restore_index s m = (b, m')"
  shows "heap m' = heap (index_session s m)" "byID m' = byID (index_session s m)"
    "byS11 m' = byS11 (index_session s m)" "byPDN m' = byPDN (index_session s m)"
    "byS5C m' = (if ep_TEID (s_SGWS5C s) \<noteq> 0 then mput (ep_TEID (s_SGWS5C s)) (length (heap m)) (byS5C m) else byS5C m)"
    "teidAlloc m' = snd (reserve (s11_teid s) (teidAlloc m))" "b = fst (reserve (s11_teid s) (teidAlloc m))"
    "checkpointSink m' = checkpointSink m"
    "byIMSI m' = byIMSI (index_session s m) \<or> byIMSI m' = byIMSI m \<and> mget (byIMSI m) (s_IMSI s) \<noteq> None"
proof -
  have e: "m' = snd (restore_index s m)" "b = fst (restore_index s m)" using assms by simp_all
  show "heap m' = heap (index_session s m)" "byID m' = byID (index_session s m)"
    "byS11 m' = byS11 (index_session s m)" "byPDN m' = byPDN (index_session s m)"
    "byS5C m' = (if ep_TEID (s_SGWS5C s) \<noteq> 0 then mput (ep_TEID (s_SGWS5C s)) (length (heap m)) (byS5C m) else byS5C m)"
    "teidAlloc m' = snd (reserve (s11_teid s) (teidAlloc m))" "b = fst (reserve (s11_teid s) (teidAlloc m))"
    "checkpointSink m' = checkpointSink m"
    by (simp_all add: e restore_index_def index_session_def Let_def s11_teid_def case_prod_beta split: option.split)
  show "byIMSI m' = byIMSI (index_session s m) \<or> byIMSI m' = byIMSI m \<and> mget (byIMSI m) (s_IMSI s) \<noteq> None"
    by (simp add: e restore_index_def index_session_def Let_def case_prod_beta split: option.split)
qed

lemma in_use_reserve: "t \<noteq> 0 \<Longrightarrow> in_use (snd (reserve t a)) = insert t (in_use a)"
  by (auto simp: reserve_def in_use_put mget_used_None [symmetric]) (auto simp: in_use_def mkeys_iff)

lemma restore_index_ok:
  assumes "restored_ok m" "restore_index s m = (b, m')"
    and "mget (byID m) (s_SessionID s) = None" "mget (byPDN m) (pdnKey s) = None"
    and "ep_TEID (s_SGWS5C s) \<noteq> 0 \<Longrightarrow> mget (byS5C m) (ep_TEID (s_SGWS5C s)) = None"
    and "s11_teid s \<noteq> 0" "s_State s = StateRecovering"
  shows "restored_ok m'"
proof -
  let ?m = "index_session s m"
  note f = restore_index_fields [OF assms(2)]
  have o: "ids_ok m" "s11_ok m" "pdn_ok m" "imsi_ok m" "s5c_ok m" using assms(1) by (simp_all add: restored_ok_def)
  note l = live_index [OF o(1) assms(3)] and dn = deref_index(2) [of s m]
  have d: "deref m' = deref ?m" by (rule deref_heap [OF f(1)])
  have i: "indexed m' = indexed ?m" by (simp add: indexed_def fun_eq_iff d f)
  have sl: "s11_list m' = s11_list ?m" by (simp add: s11_list_def fun_eq_iff f)
  have "ids_ok m'" using ids_index [OF o(1)] unfolding ids_ok_def d f .
  moreover have "s11_ok m'" using s11_index [OF o(1,2) assms(3)] unfolding s11_ok_def d i sl .
  moreover have "pdn_ok m'" using pdn_index [OF o(1,3) assms(3,4)] unfolding pdn_ok_def d i f .
  moreover have "imsi_ok m'"
    using f(9)
  proof
    assume "byIMSI m' = byIMSI ?m"
    then show ?thesis using imsi_index [OF o(1,4) assms(3)] unfolding imsi_ok_def d i by simp
  next
    assume b: "byIMSI m' = byIMSI m \<and> mget (byIMSI m) (s_IMSI s) \<noteq> None"
    show ?thesis
      unfolding imsi_ok_def d i
    proof (intro conjI allI impI)
      fix j r assume "mget (byIMSI m') j = Some r"
      then have "indexed m r \<and> s_IMSI (deref m r) = j" using b o(4) unfolding imsi_ok_def by simp
      then show "indexed ?m r" "s_IMSI (deref ?m r) = j" by (simp_all add: l deref_index_live)
    next
      fix r assume "indexed ?m r"
      then consider "indexed m r" | "r = length (heap m)" using l by blast
      then show "mget (byIMSI m') (s_IMSI (deref ?m r)) \<noteq> None"
        using b o(4) dn deref_index_live unfolding imsi_ok_def by cases auto
    qed
  qed
  moreover have "s5c_ok m'"
    unfolding s5c_ok_def d i
  proof (intro allI impI)
    fix t r assume g: "mget (byS5C m') t = Some r"
    show "t \<noteq> 0 \<and> indexed ?m r \<and> ep_TEID (s_SGWS5C (deref ?m r)) = t"
    proof (cases "ep_TEID (s_SGWS5C s) \<noteq> 0 \<and> t = ep_TEID (s_SGWS5C s)")
      case True
      then show ?thesis using g f(5) dn l by (simp add: map_simps)
    next
      case False
      then have "mget (byS5C m) t = Some r" using g f(5) by (auto simp: map_simps split: if_splits)
      then have "t \<noteq> 0 \<and> indexed m r \<and> ep_TEID (s_SGWS5C (deref m r)) = t" using o(5) unfolding s5c_ok_def by blast
      then show ?thesis by (simp add: l deref_index_live)
    qed
  qed
  moreover have "held m' = insert (s11_teid s) (held m)"
    using held_index [OF o(1) assms(3)] unfolding held_def d i .
  moreover have "in_use (teidAlloc m') = insert (s11_teid s) (in_use (teidAlloc m))"
    using assms(6) by (simp add: f in_use_reserve)
  moreover have "s_State (deref m' r) = StateRecovering" if "indexed m' r" for r
    using that assms(1,7) dn l deref_index_live [of m r s] by (auto simp: d i restored_ok_def)
  ultimately show ?thesis using assms(1,6) by (auto simp: restored_ok_def)
qed

lemma sessionFromSnapshot_fields:
  assumes "sessionFromSnapshot now sn sink = Ok s"
  shows "s_SessionID s = sn_SessionID sn" "pdnKey s = (sn_IMSI sn, sn_DefaultBearerID sn)"
    "s11_teid s = fts_TEID (sn_SGWS11 sn)" "ep_TEID (s_SGWS5C s) = fts_TEID (sn_SGWS5C sn)"
    "s_State s = StateRecovering"
  using assms by (auto simp: sessionFromSnapshot_def obind_Ok_iff Let_def pdnKey_def s11_teid_def
    fteidFromSnapshot_def split: if_splits)

lemma restore_loop_ok:
  "restored_ok m \<Longrightarrow> restore_loop clock sns res m = (Ok m', res') \<Longrightarrow> restored_ok m'"
proof (induction sns arbitrary: res m)
  case (Cons sn sns)
  show ?case
  proof (cases "sessionFromSnapshot (clock (length sns)) sn (checkpointSink m)")
    case (Ok s)
    note k = sessionFromSnapshot_fields [OF Ok]
    obtain b m1 where m1: "restore_index s m = (b, m1)" by force
    consider (skip) "\<exists>res1. restore_loop clock sns res1 m = (Ok m', res')"
      | (add) res1 where "restore_loop clock sns res1 m1 = (Ok m', res')" "fts_TEID (sn_SGWS11 sn) \<noteq> 0"
          "mget (byID m) (sn_SessionID sn) = None" "mget (byPDN m) (sn_IMSI sn, sn_DefaultBearerID sn) = None"
          "fts_TEID (sn_SGWS5C sn) \<noteq> 0 \<longrightarrow> mget (byS5C m) (fts_TEID (sn_SGWS5C sn)) = None"
      using Cons.prems(2) Ok m1 by (auto split: if_splits)
    then show ?thesis
    proof cases
      case skip
      then show ?thesis using Cons.IH Cons.prems(1) by blast
    next
      case add
      have "restored_ok m1"
        by (rule restore_index_ok [OF Cons.prems(1) m1]) (use add k in auto)
      with add(1) Cons.IH show ?thesis by blast
    qed
  qed (use Cons in \<open>auto split: if_splits\<close>)
qed simp

lemma restored_ok_start: "restored_ok (NewManager\<lparr>heap := h, checkpointSink := b\<rparr>)"
  by (simp add: restored_ok_def ids_ok_def s11_ok_def pdn_ok_def imsi_ok_def s5c_ok_def
    NewManager_def indexed_def held_def s11_list_def)

definition rst_sum :: "restore_result \<Rightarrow> nat" where
  "rst_sum r = rst_Restored r + rst_SkippedDeleted r + rst_SkippedInvalid r"

lemma restore_loop_count:
  "restore_loop clock sns res m = (Ok m', res') \<Longrightarrow> rst_sum res' = rst_sum res + length sns \<and>
     rst_Loaded res' = rst_Loaded res \<and> length (byID m') + rst_Restored res = length (byID m) + rst_Restored res'"
proof (induction sns arbitrary: res m)
  case (Cons sn sns)
  show ?case
  proof (cases "sessionFromSnapshot (clock (length sns)) sn (checkpointSink m)")
    case (Ok s)
    obtain b m1 where m1: "restore_index s m = (b, m1)" by force
    have n: "mget (byID m) (sn_SessionID sn) = None \<Longrightarrow> length (byID m1) = length (byID m) + 1"
      using sessionFromSnapshot_fields(1) [OF Ok] restore_index_fields(2) [OF m1]
      by (simp add: index_session_def Let_def length_mput_fresh mkeys_iff)
    show ?thesis
      using Cons.prems Cons.IH n by (fastforce simp: Ok m1 rst_sum_def split: if_splits)
  qed (use Cons in \<open>fastforce simp: rst_sum_def split: if_splits\<close>)+
qed simp

section \<open>Properties\<close>

text \<open>
  reconciliation declares a session's PFCP binding matched exactly when the binding is
  established with both SEIDs, the inventory answers with a session of the same two SEIDs, and
  that session has every non-zero PDR and FAR ID of every bearer; a recovering session so
  matched becomes active.
\<close>

theorem reconcile_matched_iff:
  "fst (reconcileSessionPFCP s invt) = PFCPReconciliationMatched \<longleftrightarrow>
     bound s \<and> (\<exists>f a. invt = Some f \<and> f (s_PFCP s) = Inr (Some a) \<and>
       inv_CPSEID a = SEID (LocalFSEID (s_PFCP s)) \<and> inv_UPSEID a = SEID (SGWUFSEID (s_PFCP s)) \<and>
       (\<forall>b \<in> set (BearerList s).
          {fst (b_PDRIDs b), snd (b_PDRIDs b)} \<subseteq> insert 0 (set (inv_PDRIDs a)) \<and>
          {fst (b_FARIDs b), snd (b_FARIDs b)} \<subseteq> insert 0 (set (inv_FARIDs a))))"
proof -
  have "rules_known s a \<longleftrightarrow> (\<forall>b \<in> set (BearerList s).
          {fst (b_PDRIDs b), snd (b_PDRIDs b)} \<subseteq> insert 0 (set (inv_PDRIDs a)) \<and>
          {fst (b_FARIDs b), snd (b_FARIDs b)} \<subseteq> insert 0 (set (inv_FARIDs a)))" for a
    by (auto simp: rules_known_def)
  then show ?thesis by (simp only: reconcile_matched)
qed

theorem reconcile_matched_iff_witness:
  "fst (reconcileSessionPFCP sample_session None) \<noteq> PFCPReconciliationMatched"
  using reconcile_matched_iff [of sample_session None] by simp



text \<open>Every session of a reconciliation or repair round is counted under exactly one verdict.\<close>

lemma recovery_rounds_account:
  "rr_sum (fst (ReconcilePFCPBindings now invt at m)) = rr_Checked (fst (ReconcilePFCPBindings now invt at m))"
  "rs_sum (fst (ApplyPFCPRepairPlans clock exec m)) = rs_Planned (fst (ApplyPFCPRepairPlans clock exec m))"
  unfolding ReconcilePFCPBindings_def ApplyPFCPRepairPlans_def Let_def
  using reconcile_each_sum repair_each_sum by (simp_all add: rr_sum_def rs_sum_def)

end
