(* ===== verification/Checkpoint_Writer.thy ===== *)
theory Checkpoint_Writer
  imports Session_Recovery
begin

text \<open>
  The durable checkpoint writer (\<^verbatim>\<open>internal/sgwc/sessioncheckpoint/writer.go\<close>) with the
  peer snapshots of \<^verbatim>\<open>store.go\<close> and the runtime status of \<^verbatim>\<open>status.go\<close>. The backend
  (the \<^verbatim>\<open>Store\<close> interface, SQLite in practice) is a map of sessions and one of peers
  together with an argument that says which of its operations fail and how. The lemmas show
  that a flush without failures makes the backend equal to what the notifications say, and
  what a failing flush keeps: only the element that failed is queued again, and everything
  behind it in the batch is lost.
\<close>

section \<open>Snapshots of peers and the status\<close>

record peer_snapshot =
  pr_SchemaVersion :: int
  pr_Role :: string
  pr_Addr :: string
  pr_Name :: string
  pr_State :: string
  pr_RecoverySeen :: bool
  pr_RecoveryCounter :: u8
  pr_RecoveryTimestamp :: u32
  pr_RestartDetectedAt :: gtime
  pr_Restarts :: u64
  pr_UpdatedAt :: gtime

record runtime_config =
  rc_Enabled :: bool
  rc_Backend :: string
  rc_SQLitePath :: string
  rc_RestoreOnStartup :: bool
  rc_ReconcileOnStartup :: bool
  rc_CheckpointIntervalSeconds :: int

record runtime_status =
  rt_Config :: runtime_config
  rt_SessionsLoaded :: int
  rt_SessionsRestored :: int
  rt_SessionsSkipped :: int
  rt_ReservedS11TEIDs :: int
  rt_PeerSnapshotsLoaded :: int
  rt_GTPCPeersRestored :: int
  rt_PFCPPeersRestored :: int
  rt_Flushes :: u64
  rt_FlushFailures :: u64
  rt_SessionSaves :: u64
  rt_SessionDeletes :: u64
  rt_PeerSaves :: u64
  rt_LastFlushAt :: gtime
  rt_LastFlushError :: string
  rt_LastFlushErrorAt :: gtime
  rt_LastSuccessfulFlushAt :: gtime

definition NewStatusTracker :: "runtime_config \<Rightarrow> runtime_status" where
  "NewStatusTracker cfg =
     \<lparr>rt_Config = cfg, rt_SessionsLoaded = 0, rt_SessionsRestored = 0, rt_SessionsSkipped = 0,
      rt_ReservedS11TEIDs = 0, rt_PeerSnapshotsLoaded = 0, rt_GTPCPeersRestored = 0,
      rt_PFCPPeersRestored = 0, rt_Flushes = 0, rt_FlushFailures = 0, rt_SessionSaves = 0,
      rt_SessionDeletes = 0, rt_PeerSaves = 0, rt_LastFlushAt = 0, rt_LastFlushError = [],
      rt_LastFlushErrorAt = 0, rt_LastSuccessfulFlushAt = 0\<rparr>"

text \<open>The methods do nothing on a nil tracker.\<close>

definition RecordSessionRestore ::
    "int \<Rightarrow> int \<Rightarrow> int \<Rightarrow> int \<Rightarrow> int \<Rightarrow> runtime_status option \<Rightarrow> runtime_status option" where
  "RecordSessionRestore loaded restored skippedDeleted skippedInvalid reserved t =
     map_option (\<lambda>t. t\<lparr>rt_SessionsLoaded := loaded, rt_SessionsRestored := restored,
       rt_SessionsSkipped := skippedDeleted + skippedInvalid, rt_ReservedS11TEIDs := reserved\<rparr>) t"

definition RecordPeerSnapshotsLoaded :: "int \<Rightarrow> runtime_status option \<Rightarrow> runtime_status option" where
  "RecordPeerSnapshotsLoaded n t = map_option (\<lambda>t. t\<lparr>rt_PeerSnapshotsLoaded := n\<rparr>) t"

definition RecordGTPCPeersRestored :: "int \<Rightarrow> runtime_status option \<Rightarrow> runtime_status option" where
  "RecordGTPCPeersRestored n t = map_option (\<lambda>t. t\<lparr>rt_GTPCPeersRestored := n\<rparr>) t"

definition RecordPFCPPeersRestored :: "int \<Rightarrow> runtime_status option \<Rightarrow> runtime_status option" where
  "RecordPFCPPeersRestored n t = map_option (\<lambda>t. t\<lparr>rt_PFCPPeersRestored := n\<rparr>) t"

definition RecordSessionSave :: "runtime_status option \<Rightarrow> runtime_status option" where
  "RecordSessionSave t = map_option (\<lambda>t. t\<lparr>rt_SessionSaves := rt_SessionSaves t + 1\<rparr>) t"

definition RecordSessionDelete :: "runtime_status option \<Rightarrow> runtime_status option" where
  "RecordSessionDelete t = map_option (\<lambda>t. t\<lparr>rt_SessionDeletes := rt_SessionDeletes t + 1\<rparr>) t"

definition RecordPeerSave :: "runtime_status option \<Rightarrow> runtime_status option" where
  "RecordPeerSave t = map_option (\<lambda>t. t\<lparr>rt_PeerSaves := rt_PeerSaves t + 1\<rparr>) t"

definition RecordFlush :: "gtime \<Rightarrow> string option \<Rightarrow> gtime \<Rightarrow> runtime_status option \<Rightarrow> runtime_status option" where
  "RecordFlush now err at t = map_option (\<lambda>t.
     let at = or_now now at;
         t1 = t\<lparr>rt_Flushes := rt_Flushes t + 1, rt_LastFlushAt := at\<rparr>
     in case err of
          Some e \<Rightarrow> t1\<lparr>rt_FlushFailures := rt_FlushFailures t1 + 1, rt_LastFlushError := e,
                       rt_LastFlushErrorAt := at\<rparr>
        | None \<Rightarrow> t1\<lparr>rt_LastSuccessfulFlushAt := at, rt_LastFlushError := [],
                     rt_LastFlushErrorAt := 0\<rparr>) t"

section \<open>The writer\<close>

record writer =
  w_status :: "runtime_status option"
  w_dirty :: "(string, session_snapshot) gomap"
  w_deleted :: "(string, unit) gomap"
  w_peers :: "(string, peer_snapshot) gomap"

definition NewWriter :: writer where
  "NewWriter = \<lparr>w_status = None, w_dirty = [], w_deleted = [], w_peers = []\<rparr>"

definition peerKey :: "string \<Rightarrow> string \<Rightarrow> string" where
  "peerKey role addr = role @ [CHR 0x00] @ addr"

definition w_SaveSession :: "session_snapshot \<Rightarrow> writer \<Rightarrow> writer" where
  "w_SaveSession sn w =
     (if sn_SessionID sn = [] then w
      else w\<lparr>w_deleted := mdel (sn_SessionID sn) (w_deleted w),
             w_dirty := mput (sn_SessionID sn) sn (w_dirty w)\<rparr>)"

definition w_SavePeer :: "peer_snapshot \<Rightarrow> writer \<Rightarrow> writer" where
  "w_SavePeer p w =
     (if pr_Role p = [] \<or> pr_Addr p = [] then w
      else w\<lparr>w_peers := mput (peerKey (pr_Role p) (pr_Addr p)) p (w_peers w)\<rparr>)"

definition w_DeleteSession :: "string \<Rightarrow> writer \<Rightarrow> writer" where
  "w_DeleteSession sid w =
     (if sid = [] then w
      else w\<lparr>w_dirty := mdel sid (w_dirty w), w_deleted := mput sid () (w_deleted w)\<rparr>)"

text \<open>The sink's methods as the session model emits them.\<close>

fun w_note :: "checkpoint_note \<Rightarrow> writer \<Rightarrow> writer" where
  "w_note (SaveSessionSnapshot sn) w = w_SaveSession sn w"
| "w_note (DeleteSessionSnapshot sid) w = w_DeleteSession sid w"

definition requeueSave :: "session_snapshot \<Rightarrow> writer \<Rightarrow> writer" where
  "requeueSave sn w =
     (if mget (w_deleted w) (sn_SessionID sn) \<noteq> None then w
      else w\<lparr>w_dirty := mput (sn_SessionID sn) sn (w_dirty w)\<rparr>)"

definition requeueDelete :: "string \<Rightarrow> writer \<Rightarrow> writer" where
  "requeueDelete sid w =
     w\<lparr>w_dirty := mdel sid (w_dirty w), w_deleted := mput sid () (w_deleted w)\<rparr>"

definition requeuePeer :: "peer_snapshot \<Rightarrow> writer \<Rightarrow> writer" where
  "requeuePeer p w = w\<lparr>w_peers := mput (peerKey (pr_Role p) (pr_Addr p)) p (w_peers w)\<rparr>"

definition drain :: "writer \<Rightarrow> (string, session_snapshot) gomap \<times> (string, unit) gomap \<times>
    (string, peer_snapshot) gomap \<times> writer" where
  "drain w = (w_dirty w, w_deleted w, w_peers w, w\<lparr>w_dirty := [], w_deleted := [], w_peers := []\<rparr>)"

text \<open>The backend, and which of its operations fail: \<open>fault\<close> gets the operation.\<close>

record backend =
  ds_sessions :: "(string, session_snapshot) gomap"
  ds_peers :: "(string, peer_snapshot) gomap"

datatype store_call = DeleteSession string | SaveSession session_snapshot | SavePeer peer_snapshot

fun perform :: "store_call \<Rightarrow> backend \<Rightarrow> backend" where
  "perform (DeleteSession sid) d = d\<lparr>ds_sessions := mdel sid (ds_sessions d)\<rparr>"
| "perform (SaveSession sn) d = d\<lparr>ds_sessions := mput (sn_SessionID sn) sn (ds_sessions d)\<rparr>"
| "perform (SavePeer p) d = d\<lparr>ds_peers := mput (peerKey (pr_Role p) (pr_Addr p)) p (ds_peers d)\<rparr>"

fun requeue :: "store_call \<Rightarrow> writer \<Rightarrow> writer" where
  "requeue (DeleteSession sid) w = requeueDelete sid w"
| "requeue (SaveSession sn) w = requeueSave sn w"
| "requeue (SavePeer p) w = requeuePeer p w"

fun record_call :: "store_call \<Rightarrow> writer \<Rightarrow> writer" where
  "record_call (DeleteSession _) w = w\<lparr>w_status := RecordSessionDelete (w_status w)\<rparr>"
| "record_call (SaveSession _) w = w\<lparr>w_status := RecordSessionSave (w_status w)\<rparr>"
| "record_call (SavePeer _) w = w\<lparr>w_status := RecordPeerSave (w_status w)\<rparr>"

text \<open>The three loops of \<open>Flush\<close> over the drained maps, one backend operation per element; the
  first failure requeues its element and returns.\<close>

fun flush_calls :: "(store_call \<Rightarrow> string option) \<Rightarrow> store_call list \<Rightarrow> writer \<times> backend \<Rightarrow>
    string option \<times> writer \<times> backend" where
  "flush_calls fault [] (w, d) = (None, w, d)"
| "flush_calls fault (c # cs) (w, d) = (case fault c of
     Some err \<Rightarrow> (Some err, requeue c w, d)
   | None \<Rightarrow> flush_calls fault cs (record_call c w, perform c d))"

definition Flush :: "gtime \<Rightarrow> gtime \<Rightarrow> (store_call \<Rightarrow> string option) \<Rightarrow> writer \<times> backend \<Rightarrow>
    string option \<times> writer \<times> backend" where
  "Flush now now' fault wd = (case wd of (w, d) \<Rightarrow>
     let (dirty, deleted, peers, w1) = drain w;
         calls = map (\<lambda>(sid, _). DeleteSession sid) deleted @
                 map (\<lambda>(_, sn). SaveSession sn) dirty @
                 map (\<lambda>(_, p). SavePeer p) peers;
         (err, w2, d2) = flush_calls fault calls (w1, d)
     in (err, w2\<lparr>w_status := RecordFlush now' err now (w_status w2)\<rparr>, d2))"

section \<open>What is pending\<close>

definition pending_ok :: "writer \<Rightarrow> bool" where
  "pending_ok w \<longleftrightarrow> mok (w_dirty w) \<and> mok (w_deleted w) \<and> mok (w_peers w) \<and>
     (\<forall>sid sn. mget (w_dirty w) sid = Some sn \<longrightarrow> sn_SessionID sn = sid \<and> mget (w_deleted w) sid = None)"

text \<open>The sessions as they will be once everything pending is written.\<close>

definition view :: "writer \<Rightarrow> backend \<Rightarrow> string \<Rightarrow> session_snapshot option" where
  "view w d sid = (if mget (w_deleted w) sid \<noteq> None then None
     else case mget (w_dirty w) sid of Some sn \<Rightarrow> Some sn | None \<Rightarrow> mget (ds_sessions d) sid)"

lemma note_pending_ok: "pending_ok w \<Longrightarrow> pending_ok (w_note n w)"
  by (cases n) (auto simp: pending_ok_def w_SaveSession_def w_DeleteSession_def map_simps)

definition note_named :: "checkpoint_note \<Rightarrow> bool" where
  "note_named n = (case n of SaveSessionSnapshot sn \<Rightarrow> sn_SessionID sn \<noteq> [] | DeleteSessionSnapshot i \<Rightarrow> i \<noteq> [])"

lemma view_note:
  "note_named n \<Longrightarrow> view (w_note n w) d sid = (case n of
     SaveSessionSnapshot sn \<Rightarrow> if sid = sn_SessionID sn then Some sn else view w d sid
   | DeleteSessionSnapshot i \<Rightarrow> if sid = i then None else view w d sid)"
  by (cases n) (simp_all add: note_named_def view_def w_SaveSession_def w_DeleteSession_def map_simps)

text \<open>The writer in front of the backend implements the abstract store of the session model.\<close>

lemma view_notes:
  "\<forall>n \<in> set ns. note_named n \<Longrightarrow> \<forall>sid. view w d sid = mget st sid \<Longrightarrow>
     view (fold w_note ns w) d sid = mget (fold apply_note ns st) sid"
proof (induction ns arbitrary: w st)
  case (Cons n ns)
  have "\<forall>sid. view (w_note n w) d sid = mget (apply_note n st) sid"
  proof
    fix sid
    have "note_named n" using Cons.prems(1) by simp
    from view_note [OF this, of w d sid] show "view (w_note n w) d sid = mget (apply_note n st) sid"
      using Cons.prems(2) by (cases n) (simp_all only: checkpoint_note.case apply_note.simps map_simps)
  qed
  then show ?case using Cons by simp
qed simp

lemma perform_deletes:
  "mget (ds_sessions (fold perform (map (\<lambda>(sid, _). DeleteSession sid) dl) d)) sid =
     (if sid \<in> mkeys dl then None else mget (ds_sessions d) sid)"
  by (induction dl arbitrary: d) (auto simp: map_simps mkeys_def)

lemma perform_saves:
  "mok dt \<Longrightarrow> \<forall>sid sn. mget dt sid = Some sn \<longrightarrow> sn_SessionID sn = sid \<Longrightarrow>
     mget (ds_sessions (fold perform (map (\<lambda>(_, sn). SaveSession sn) dt) d)) sid =
       (case mget dt sid of Some sn \<Rightarrow> Some sn | None \<Rightarrow> mget (ds_sessions d) sid)"
proof (induction dt arbitrary: d)
  case (Cons x dt)
  obtain k sn where x: "x = (k, sn)" by (cases x)
  have k: "mget dt k = None" "sn_SessionID sn = k"
    using Cons.prems by (auto simp: x mok_def mget_def map_of_eq_None_iff)
  have "\<forall>sid sn. mget dt sid = Some sn \<longrightarrow> sn_SessionID sn = sid"
    using Cons.prems(2) k by (auto simp: x mget_def split: if_splits) (metis option.simps(3))
  then show ?case
    using Cons.IH [of "perform (SaveSession sn) d"] Cons.prems(1) k
    by (auto simp: x mok_def mget_def mput_def update_conv' split: option.splits)
qed simp

lemma perform_peers:
  "ds_sessions (fold perform (map (\<lambda>(_, p). SavePeer p) ps) d) = ds_sessions d"
  by (induction ps arbitrary: d) auto

lemma record_call_frame [simp]:
  "w_dirty (record_call c w) = w_dirty w" "w_deleted (record_call c w) = w_deleted w"
  "w_peers (record_call c w) = w_peers w"
  by (cases c; simp)+

lemma flush_calls_ok:
  "\<forall>c \<in> set cs. fault c = None \<Longrightarrow> flush_calls fault cs (w, d) = (err, w', d') \<Longrightarrow>
     err = None \<and> d' = fold perform cs d \<and> w_dirty w' = w_dirty w \<and> w_deleted w' = w_deleted w \<and>
     w_peers w' = w_peers w"
  by (induction cs arbitrary: w d) auto

lemma requeue_status [simp]: "w_status (requeue c w) = w_status w"
  by (cases c) (simp_all add: requeueDelete_def requeueSave_def requeuePeer_def)

text \<open>After a failure, one element is queued.\<close>

lemma flush_calls_fail:
  "flush_calls fault cs (w, d) = (Some err, w', d') \<Longrightarrow>
     w_dirty w = [] \<Longrightarrow> w_deleted w = [] \<Longrightarrow> w_peers w = [] \<Longrightarrow>
     \<exists>as c bs. cs = as @ c # bs \<and> fault c = Some err \<and> d' = fold perform as d \<and>
       (\<forall>a \<in> set as. fault a = None) \<and>
       (case c of
          DeleteSession sid \<Rightarrow> w_deleted w' = [(sid, ())] \<and> w_dirty w' = [] \<and> w_peers w' = []
        | SaveSession sn \<Rightarrow> w_dirty w' = [(sn_SessionID sn, sn)] \<and> w_deleted w' = [] \<and> w_peers w' = []
        | SavePeer p \<Rightarrow> w_peers w' = [(peerKey (pr_Role p) (pr_Addr p), p)] \<and> w_dirty w' = [] \<and> w_deleted w' = [])"
proof (induction cs arbitrary: w d)
  case (Cons c cs)
  show ?case
  proof (cases "fault c")
    case None
    then have "flush_calls fault cs (record_call c w, perform c d) = (Some err, w', d')"
      using Cons.prems(1) by simp
    from Cons.IH [OF this] Cons.prems(2-4) obtain as x bs where
      h: "cs = as @ x # bs" "fault x = Some err" "d' = fold perform as (perform c d)"
        "\<forall>a \<in> set as. fault a = None"
        "case x of
          DeleteSession sid \<Rightarrow> w_deleted w' = [(sid, ())] \<and> w_dirty w' = [] \<and> w_peers w' = []
        | SaveSession sn \<Rightarrow> w_dirty w' = [(sn_SessionID sn, sn)] \<and> w_deleted w' = [] \<and> w_peers w' = []
        | SavePeer p \<Rightarrow> w_peers w' = [(peerKey (pr_Role p) (pr_Addr p), p)] \<and> w_dirty w' = [] \<and> w_deleted w' = []"
      by auto
    show ?thesis
      by (intro exI [of _ "c # as"] exI [of _ x] exI [of _ bs]) (use h None in simp)
  next
    case (Some e)
    then have "w' = requeue c w" "d' = d" "e = err" using Cons.prems(1) by auto
    then show ?thesis
      using Some Cons.prems(2-4)
      by (intro exI [of _ "[]"] exI [of _ c] exI [of _ cs])
         (auto simp: requeueDelete_def requeueSave_def requeuePeer_def mput_def mdel_def split: store_call.split)
  qed
qed simp

section \<open>Histories, flushes and losses\<close>

lemma history_named:
  "s_SessionID s \<noteq> [] \<Longrightarrow> history cs s = (t, ns) \<Longrightarrow> \<forall>n \<in> set ns. note_named n"
proof (induction cs arbitrary: s ns)
  case (Cons c cs)
  obtain ms where ms: "history cs (sess_step c s) = (t, ms)" "ns = snd (run_call c s) @ ms"
    using Cons.prems(2) by (auto simp: sess_step_def Let_def split: prod.splits)
  have "\<forall>n \<in> set ms. note_named n" using Cons.IH [OF _ ms(1)] Cons.prems(1) by simp
  moreover have "\<forall>n \<in> set (snd (run_call c s)). note_named n"
    using run_call_notes [of c s] Cons.prems(1)
    by (auto simp: checkpoint_def note_named_def split: if_splits)
  ultimately show ?case using ms(2) by auto
qed simp

lemma notes_pending_ok: "pending_ok w \<Longrightarrow> pending_ok (fold w_note ns w)"
  by (induction ns arbitrary: w) (auto intro: note_pending_ok)

lemma mkeys_mget: "k \<in> mkeys m \<longleftrightarrow> mget m k \<noteq> None"
  by (auto simp: mkeys_def mget_def map_of_eq_None_iff)

lemma flush_all:
  assumes "pending_ok w" "Flush now now' (\<lambda>_. None) (w, d) = (err, w', d')"
  shows "err = None \<and> w_dirty w' = [] \<and> w_deleted w' = [] \<and> w_peers w' = [] \<and>
    (\<forall>sid. mget (ds_sessions d') sid = view w d sid)"
proof -
  let ?dl = "map (\<lambda>(sid, _). DeleteSession sid) (w_deleted w)"
  let ?dt = "map (\<lambda>(_, sn). SaveSession sn) (w_dirty w)"
  let ?pr = "map (\<lambda>(_, p). SavePeer p) (w_peers w)"
  obtain w2 d2 e2 where f: "flush_calls (\<lambda>_. None) (?dl @ ?dt @ ?pr)
      (w\<lparr>w_dirty := [], w_deleted := [], w_peers := []\<rparr>, d) = (e2, w2, d2)"
    by (metis surj_pair)
  have g: "err = e2" "d' = d2" "w_dirty w' = w_dirty w2" "w_deleted w' = w_deleted w2" "w_peers w' = w_peers w2"
    using assms(2) f by (auto simp: Flush_def drain_def Let_def)
  have h: "e2 = None" "d2 = fold perform (?dl @ ?dt @ ?pr) d" "w_dirty w2 = []" "w_deleted w2 = []" "w_peers w2 = []"
    using flush_calls_ok [OF _ f] by simp_all
  have ids: "\<forall>sid sn. mget (w_dirty w) sid = Some sn \<longrightarrow> sn_SessionID sn = sid"
    and ok: "mok (w_dirty w)"
    and dis: "\<And>sid sn. mget (w_dirty w) sid = Some sn \<Longrightarrow> mget (w_deleted w) sid = None"
    using assms(1) unfolding pending_ok_def by blast+
  have "mget (ds_sessions d') sid = view w d sid" for sid
  proof -
    have "mget (ds_sessions d') sid =
        (case mget (w_dirty w) sid of Some sn \<Rightarrow> Some sn
         | None \<Rightarrow> mget (ds_sessions (fold perform ?dl d)) sid)"
      by (simp only: g h fold_append comp_apply perform_peers perform_saves [OF ok ids])
    then show ?thesis
      using dis [of sid] unfolding perform_deletes view_def mkeys_mget
      by (cases "mget (w_dirty w) sid") auto
  qed
  then show ?thesis using g h by simp
qed



text \<open>
  a failing flush forgets what it did not write. When one of the backend's operations
  fails, everything before it in the batch is written, the element that failed is queued
  again, and nothing else is: the rest of the drained batch is neither written nor queued.
\<close>

theorem failed_flush_keeps_one:
  assumes "Flush now now' fault (w, d) = (Some err, w', d')"
  shows "\<exists>as c bs. map (\<lambda>(sid, _). DeleteSession sid) (w_deleted w) @
        map (\<lambda>(_, sn). SaveSession sn) (w_dirty w) @ map (\<lambda>(_, p). SavePeer p) (w_peers w) = as @ c # bs \<and>
      fault c = Some err \<and> d' = fold perform as d \<and>
      length (w_deleted w') + length (w_dirty w') + length (w_peers w') = 1 \<and>
      (case c of
         DeleteSession sid \<Rightarrow> w_deleted w' = [(sid, ())]
       | SaveSession sn \<Rightarrow> w_dirty w' = [(sn_SessionID sn, sn)]
       | SavePeer p \<Rightarrow> w_peers w' = [(peerKey (pr_Role p) (pr_Addr p), p)])"
proof -
  let ?cs = "map (\<lambda>(sid, _). DeleteSession sid) (w_deleted w) @
        map (\<lambda>(_, sn). SaveSession sn) (w_dirty w) @ map (\<lambda>(_, p). SavePeer p) (w_peers w)"
  obtain w2 where f: "flush_calls fault ?cs (w\<lparr>w_dirty := [], w_deleted := [], w_peers := []\<rparr>, d) = (Some err, w2, d')"
    "w_dirty w' = w_dirty w2" "w_deleted w' = w_deleted w2" "w_peers w' = w_peers w2"
    using assms by (auto simp: Flush_def drain_def Let_def split: prod.splits)
  from flush_calls_fail [OF f(1)] obtain as c bs where
    "?cs = as @ c # bs" "fault c = Some err" "d' = fold perform as d"
    "case c of
          DeleteSession sid \<Rightarrow> w_deleted w2 = [(sid, ())] \<and> w_dirty w2 = [] \<and> w_peers w2 = []
        | SaveSession sn \<Rightarrow> w_dirty w2 = [(sn_SessionID sn, sn)] \<and> w_deleted w2 = [] \<and> w_peers w2 = []
        | SavePeer p \<Rightarrow> w_peers w2 = [(peerKey (pr_Role p) (pr_Addr p), p)] \<and> w_dirty w2 = [] \<and> w_deleted w2 = []"
    by auto
  then show ?thesis
    by (intro exI [of _ as] exI [of _ c] exI [of _ bs]) (cases c; simp add: f)
qed

theorem failed_flush_keeps_one_witness:
  "w_deleted (fst (snd (Flush 7 8 (\<lambda>_. Some ''busy'')
     (fold w_note [DeleteSessionSnapshot ''a'', DeleteSessionSnapshot ''b''] NewWriter,
      \<lparr>ds_sessions = [], ds_peers = []\<rparr>)))) \<noteq> [(''a'', ()), (''b'', ())]"
proof -
  obtain err w' d' where f: "Flush 7 8 (\<lambda>_. Some ''busy'')
     (fold w_note [DeleteSessionSnapshot ''a'', DeleteSessionSnapshot ''b''] NewWriter,
      \<lparr>ds_sessions = [], ds_peers = []\<rparr>) = (Some err, w', d')"
    by (simp add: Flush_def drain_def Let_def w_DeleteSession_def NewWriter_def mput_def mdel_def)
  from failed_flush_keeps_one [OF f] show ?thesis unfolding f by auto
qed

text \<open>A save that arrives while a flush is failing is overwritten by the older snapshot the
  flush puts back.\<close>

lemma requeue_overwrites_newer:
  "sn_SessionID old = sn_SessionID new \<Longrightarrow> sn_SessionID new \<noteq> [] \<Longrightarrow>
     mget (w_dirty (requeueSave old (w_SaveSession new w))) (sn_SessionID new) = Some old"
  by (simp add: requeueSave_def w_SaveSession_def map_simps)

end
