(* ===== verification/PFCP_IE.thy ===== *)
theory PFCP_IE
  imports SGW_Prelude
begin

text \<open>
  PFCP information elements, \<^verbatim>\<open>internal/pfcp/ie/ie.go\<close>: the element and its wire format
  (a 16-bit type, a 16-bit length, the value), the search functions, grouped elements, and one
  constructor and one decoder per element type. A \<^verbatim>\<open>net.IP\<close> is its byte slice. Names
  that GTPv2-C uses for its own elements carry the prefix \<open>pfcp_\<close>. The lemmas give the
  round trip of every element and of lists of elements, and show that no decoder panics.
\<close>

named_theorems pfcp_defs \<open>constructors and decoders of the PFCP elements\<close>

section \<open>64-bit integers and addresses in a value\<close>

definition be64 :: "u64 \<Rightarrow> bytes" where
  "be64 w = be32 (ucast (drop_bit 32 w)) @ be32 (ucast w)"

definition get64 :: "bytes \<Rightarrow> nat \<Rightarrow> ('e, u64) outcome" where
  "get64 b i = obind (get32 b i) (\<lambda>hi. obind (get32 b (i + 4)) (\<lambda>lo.
     Ok (push_bit 32 (ucast hi) OR ucast lo)))"

definition addr_at :: "bytes \<Rightarrow> nat \<Rightarrow> ('e, ip_addr) outcome" where
  "addr_at b i = obind (get32 b i) (\<lambda>w. Ok (IP4 w))"

text \<open>\<^verbatim>\<open>net.IP.To4\<close>.\<close>

definition to4 :: "bytes \<Rightarrow> bytes option" where
  "to4 ip = (if length ip = 4 then Some ip
     else if length ip = 16 \<and> take 12 ip = replicate 10 0 @ [0xFF, 0xFF] then Some (drop 12 ip)
     else None)"

definition IPv4zero :: bytes where "IPv4zero = [0, 0, 0, 0]"

lemma length_be64 [simp]: "length (be64 w) = 8"
  by (simp add: be64_def)

lemma u64_halves: "push_bit 32 (ucast (ucast (drop_bit 32 (w :: u64)) :: u32)) OR ucast (ucast w :: u32) = w"
  by (rule bit_word_eqI) (auto simp: bit_simps not_less)

lemma get64_Cons [byte_simps]:
  "get64 (x # b) (Suc i) = get64 b i" "get64 (x # b) 1 = get64 b 0"
  "get64 (x # b) (numeral k) = get64 b (pred_numeral k)"
  by (simp_all add: get64_def numeral_eq_Suc get32_Cons)

lemma get64_behind [byte_simps]: "length p \<le> i \<Longrightarrow> get64 (p @ b) i = get64 b (i - length p)"
  by (simp add: get64_def read_behind)

lemma get64_be64 [byte_simps]: "get64 (be64 w @ b) 0 = Ok w" "get64 (be64 w) 0 = Ok w"
  by (simp_all add: get64_def be64_def read_behind get_be u64_halves del: get32_Ok)

lemma get64_Panic_iff: "get64 b i = Panic \<longleftrightarrow> length b < i + 8"
  by (auto simp: get64_def get32_def)

lemma addr_at_Panic_iff: "addr_at b i = Panic \<longleftrightarrow> length b < i + 4"
  by (auto simp: addr_at_def get32_def)

section \<open>Type codes and flags\<close>

abbreviation (input) pfcp_TypeCreatePDR :: u16 where "pfcp_TypeCreatePDR \<equiv> 1"
abbreviation (input) pfcp_TypePDI :: u16 where "pfcp_TypePDI \<equiv> 2"
abbreviation (input) pfcp_TypeCreateFAR :: u16 where "pfcp_TypeCreateFAR \<equiv> 3"
abbreviation (input) pfcp_TypeForwardingParameters :: u16 where "pfcp_TypeForwardingParameters \<equiv> 4"
abbreviation (input) pfcp_TypeCreateQER :: u16 where "pfcp_TypeCreateQER \<equiv> 7"
abbreviation (input) pfcp_TypeCreatedPDR :: u16 where "pfcp_TypeCreatedPDR \<equiv> 8"
abbreviation (input) pfcp_TypeUpdatePDR :: u16 where "pfcp_TypeUpdatePDR \<equiv> 9"
abbreviation (input) pfcp_TypeUpdateFAR :: u16 where "pfcp_TypeUpdateFAR \<equiv> 10"
abbreviation (input) pfcp_TypeUpdateForwardingParameters :: u16 where "pfcp_TypeUpdateForwardingParameters \<equiv> 11"
abbreviation (input) pfcp_TypeRemovePDR :: u16 where "pfcp_TypeRemovePDR \<equiv> 15"
abbreviation (input) pfcp_TypeRemoveFAR :: u16 where "pfcp_TypeRemoveFAR \<equiv> 16"
abbreviation (input) pfcp_TypeCause :: u16 where "pfcp_TypeCause \<equiv> 19"
abbreviation (input) pfcp_TypeSourceInterface :: u16 where "pfcp_TypeSourceInterface \<equiv> 20"
abbreviation (input) pfcp_TypeFTEID :: u16 where "pfcp_TypeFTEID \<equiv> 21"
abbreviation (input) pfcp_TypePrecedence :: u16 where "pfcp_TypePrecedence \<equiv> 29"
abbreviation (input) pfcp_TypeDestinationInterface :: u16 where "pfcp_TypeDestinationInterface \<equiv> 42"
abbreviation (input) pfcp_TypeUPFunctionFeatures :: u16 where "pfcp_TypeUPFunctionFeatures \<equiv> 43"
abbreviation (input) pfcp_TypeApplyAction :: u16 where "pfcp_TypeApplyAction \<equiv> 44"
abbreviation (input) pfcp_TypePDRID :: u16 where "pfcp_TypePDRID \<equiv> 56"
abbreviation (input) pfcp_TypeFSEID :: u16 where "pfcp_TypeFSEID \<equiv> 57"
abbreviation (input) pfcp_TypeNodeID :: u16 where "pfcp_TypeNodeID \<equiv> 60"
abbreviation (input) pfcp_TypeOuterHeaderCreation :: u16 where "pfcp_TypeOuterHeaderCreation \<equiv> 84"
abbreviation (input) pfcp_TypeCPFunctionFeatures :: u16 where "pfcp_TypeCPFunctionFeatures \<equiv> 89"
abbreviation (input) pfcp_TypeOuterHeaderRemoval :: u16 where "pfcp_TypeOuterHeaderRemoval \<equiv> 95"
abbreviation (input) pfcp_TypeRecoveryTimeStamp :: u16 where "pfcp_TypeRecoveryTimeStamp \<equiv> 96"
abbreviation (input) pfcp_TypeNodeReportType :: u16 where "pfcp_TypeNodeReportType \<equiv> 101"
abbreviation (input) pfcp_TypeUserPlanPathFailureReport :: u16 where "pfcp_TypeUserPlanPathFailureReport \<equiv> 102"
abbreviation (input) pfcp_TypeRemoteGTPUPeer :: u16 where "pfcp_TypeRemoteGTPUPeer \<equiv> 103"
abbreviation (input) pfcp_TypeFARID :: u16 where "pfcp_TypeFARID \<equiv> 108"
abbreviation (input) pfcp_TypeQERID :: u16 where "pfcp_TypeQERID \<equiv> 109"
abbreviation (input) pfcp_TypePFCPAssocReleaseRequest :: u16 where "pfcp_TypePFCPAssocReleaseRequest \<equiv> 111"
abbreviation (input) pfcp_TypeVectorCoreQoSMarking :: u16 where "pfcp_TypeVectorCoreQoSMarking \<equiv> 32768"
abbreviation (input) pfcp_TypeVectorCoreIdleDownlinkReport :: u16 where "pfcp_TypeVectorCoreIdleDownlinkReport \<equiv> 32769"

abbreviation (input) CauseRequestAccepted :: u8 where "CauseRequestAccepted \<equiv> 1"
abbreviation (input) CauseRequestRejected :: u8 where "CauseRequestRejected \<equiv> 64"
abbreviation (input) CauseSessionContextNotFound :: u8 where "CauseSessionContextNotFound \<equiv> 65"
abbreviation (input) CauseNoEstablishedAssociation :: u8 where "CauseNoEstablishedAssociation \<equiv> 72"
abbreviation (input) CauseRuleCreationFailure :: u8 where "CauseRuleCreationFailure \<equiv> 73"
abbreviation (input) OHCDescGTPUUDPIPv4 :: u16 where "OHCDescGTPUUDPIPv4 \<equiv> 0x0100"

section \<open>The element and its wire format\<close>

record pfcp_ie =
  pType :: u16
  pValue :: bytes

datatype pfcp_ie_error =
    PIE_Length u16 nat nat
  | PIE_Trailing nat
  | PIE_WrongType u16
  | PIE_TooShort nat
  | PIE_Version u8
  | PIE_ChooseWithoutFamily

type_synonym 'a pie_result = "(pfcp_ie_error, 'a) outcome"

abbreviation mkP :: "u16 \<Rightarrow> bytes \<Rightarrow> pfcp_ie" where
  "mkP t v \<equiv> \<lparr>pType = t, pValue = v\<rparr>"

definition pfcp_IE_Marshal :: "pfcp_ie \<Rightarrow> bytes" where
  "pfcp_IE_Marshal i = be16 (pType i) @ be16 (of_nat (length (pValue i))) @ pValue i"

function pfcp_ParseIEs :: "bytes \<Rightarrow> pfcp_ie list pie_result" where
  "pfcp_ParseIEs b =
     (if length b < 4 then (if b = [] then Ok [] else Fail (PIE_Trailing (length b)))
      else
        obind (get16 b 0) (\<lambda>t.
        obind (get16 b 2) (\<lambda>l16. let l = unat l16 in
          if 4 + l > length b then Fail (PIE_Length t l (length b - 4))
          else
            obind (slc b 4 (4 + l)) (\<lambda>val.
            obind (pfcp_ParseIEs (drop (4 + l) b)) (\<lambda>ies. Ok (mkP t val # ies))))))"
  by pat_completeness auto
termination by (relation "measure length") auto

declare pfcp_ParseIEs.simps [simp del]

fun pfcp_Find :: "pfcp_ie list \<Rightarrow> u16 \<Rightarrow> pfcp_ie option" where
  "pfcp_Find [] t = None"
| "pfcp_Find (i # ies) t = (if pType i = t then Some i else pfcp_Find ies t)"

definition pfcp_FindAll :: "pfcp_ie list \<Rightarrow> u16 \<Rightarrow> pfcp_ie list" where
  "pfcp_FindAll ies t = filter (\<lambda>i. pType i = t) ies"

definition Children :: "pfcp_ie \<Rightarrow> pfcp_ie list pie_result" where
  "Children i = pfcp_ParseIEs (pValue i)"

definition newGrouped :: "u16 \<Rightarrow> pfcp_ie list \<Rightarrow> pfcp_ie" where
  "newGrouped t children = mkP t (concat (map pfcp_IE_Marshal children))"

text \<open>The decoders of a one-octet value, and the typed access to a value of at least \<open>n\<close> octets.\<close>

definition typed :: "u16 \<Rightarrow> nat \<Rightarrow> pfcp_ie \<Rightarrow> (bytes \<Rightarrow> 'a pie_result) \<Rightarrow> 'a pie_result" where
  "typed t n i f =
     (if pType i \<noteq> t then Fail (PIE_WrongType (pType i))
      else if length (pValue i) < n then Fail (PIE_TooShort (length (pValue i)))
      else f (pValue i))"

section \<open>Node-level elements\<close>

definition pfcp_NewCause :: "u8 \<Rightarrow> pfcp_ie" where [pfcp_defs]:
  "pfcp_NewCause cause = mkP pfcp_TypeCause [cause]"

definition pfcp_CauseValue :: "pfcp_ie \<Rightarrow> u8 pie_result" where [pfcp_defs]:
  "pfcp_CauseValue i = typed pfcp_TypeCause 1 i (\<lambda>v. idx v 0)"

definition NewNodeIDIPv4 :: "bytes \<Rightarrow> pfcp_ie" where
  "NewNodeIDIPv4 ip =
     mkP pfcp_TypeNodeID (0 # (case to4 ip of Some v4 \<Rightarrow> v4 | None \<Rightarrow> IPv4zero))"

definition NodeIDIPv4 :: "pfcp_ie \<Rightarrow> bytes option" where
  "NodeIDIPv4 i =
     (if pType i \<noteq> pfcp_TypeNodeID \<or> length (pValue i) < 5 \<or> hd (pValue i) \<noteq> 0 then None
      else Some (take 4 (drop 1 (pValue i))))"

definition NewRecoveryTimeStamp :: "u32 \<Rightarrow> pfcp_ie" where [pfcp_defs]:
  "NewRecoveryTimeStamp ntpSec = mkP pfcp_TypeRecoveryTimeStamp (be32 ntpSec)"

definition RecoveryTimeStampValue :: "pfcp_ie \<Rightarrow> u32 pie_result" where [pfcp_defs]:
  "RecoveryTimeStampValue i = typed pfcp_TypeRecoveryTimeStamp 4 i (\<lambda>v. get32 v 0)"

definition NewUPFunctionFeatures :: "u8 \<Rightarrow> pfcp_ie" where [pfcp_defs]:
  "NewUPFunctionFeatures flags = mkP pfcp_TypeUPFunctionFeatures [flags]"

definition UPFunctionFeaturesValue :: "pfcp_ie \<Rightarrow> u8 pie_result" where [pfcp_defs]:
  "UPFunctionFeaturesValue i = typed pfcp_TypeUPFunctionFeatures 1 i (\<lambda>v. idx v 0)"

definition NewNodeReportType :: "u8 \<Rightarrow> pfcp_ie" where [pfcp_defs]:
  "NewNodeReportType flags = mkP pfcp_TypeNodeReportType [flags]"

definition NodeReportTypeFlags :: "pfcp_ie \<Rightarrow> u8 pie_result" where [pfcp_defs]:
  "NodeReportTypeFlags i = typed pfcp_TypeNodeReportType 1 i (\<lambda>v. idx v 0)"

definition NewRemoteGTPUPeerIPv4 :: "bytes \<Rightarrow> pfcp_ie" where
  "NewRemoteGTPUPeerIPv4 ip =
     mkP pfcp_TypeRemoteGTPUPeer (0x02 # (case to4 ip of Some v4 \<Rightarrow> v4 | None \<Rightarrow> IPv4zero))"

definition RemoteGTPUPeerIPv4 :: "pfcp_ie \<Rightarrow> bytes option" where
  "RemoteGTPUPeerIPv4 i =
     (if pType i \<noteq> pfcp_TypeRemoteGTPUPeer \<or> length (pValue i) < 1 then None
      else if hd (pValue i) AND 0x02 = 0 then None
      else if length (pValue i) < 5 then None
      else Some (take 4 (drop 1 (pValue i))))"

definition NewPFCPAssocReleaseRequest :: "u8 \<Rightarrow> pfcp_ie" where [pfcp_defs]:
  "NewPFCPAssocReleaseRequest flags = mkP pfcp_TypePFCPAssocReleaseRequest [flags]"

definition PFCPAssocReleaseRequestFlags :: "pfcp_ie \<Rightarrow> u8 pie_result" where [pfcp_defs]:
  "PFCPAssocReleaseRequestFlags i = typed pfcp_TypePFCPAssocReleaseRequest 1 i (\<lambda>v. idx v 0)"

section \<open>Session-level elements\<close>

record pfcp_fseid =
  pfs_SEID :: u64
  pfs_IPv4 :: ip_addr

definition NewFSEID :: "u64 \<Rightarrow> ip_addr \<Rightarrow> pfcp_ie pie_result" where
  "NewFSEID seid v4 = (let val = 0x02 # be64 seid in
     if isValid v4 then obind (as4 v4) (\<lambda>ip4. Ok (mkP pfcp_TypeFSEID (val @ ip4)))
     else Ok (mkP pfcp_TypeFSEID val))"

definition FSEIDValue :: "pfcp_ie \<Rightarrow> pfcp_fseid pie_result" where
  "FSEIDValue i = typed pfcp_TypeFSEID 9 i (\<lambda>v.
     obind (idx v 0) (\<lambda>flags. obind (get64 v 1) (\<lambda>seid.
       if flags AND 0x02 \<noteq> 0 then
         if length v < 13 then Fail (PIE_TooShort (length v))
         else obind (addr_at v 9) (\<lambda>a. Ok \<lparr>pfs_SEID = seid, pfs_IPv4 = a\<rparr>)
       else Ok \<lparr>pfs_SEID = seid, pfs_IPv4 = NoAddr\<rparr>)))"

record fteid_pfcp =
  pft_TEID :: u32
  pft_IPv4 :: ip_addr

definition noFTEIDPFCP :: fteid_pfcp where
  "noFTEIDPFCP = \<lparr>pft_TEID = 0, pft_IPv4 = NoAddr\<rparr>"

definition NewFTEIDChoose :: pfcp_ie where
  "NewFTEIDChoose = mkP pfcp_TypeFTEID [0x04 OR 0x01]"

definition NewFTEIDv4 :: "u32 \<Rightarrow> ip_addr \<Rightarrow> pfcp_ie pie_result" where
  "NewFTEIDv4 teid v4 = (let val = 0x01 # be32 teid in
     if isValid v4 then obind (as4 v4) (\<lambda>ip4. Ok (mkP pfcp_TypeFTEID (val @ ip4)))
     else Ok (mkP pfcp_TypeFTEID (val @ [0, 0, 0, 0])))"

definition FTEIDPFCPValue :: "pfcp_ie \<Rightarrow> (fteid_pfcp \<times> bool) pie_result" where
  "FTEIDPFCPValue i = typed pfcp_TypeFTEID 1 i (\<lambda>v.
     obind (idx v 0) (\<lambda>flags.
       if flags AND 0x04 \<noteq> 0 then
         if flags AND (0x01 OR 0x02) = 0 then Fail PIE_ChooseWithoutFamily
         else Ok (noFTEIDPFCP, True)
       else if length v < 5 then Fail (PIE_TooShort (length v))
       else obind (get32 v 1) (\<lambda>teid.
         if flags AND 0x01 \<noteq> 0 then
           if length v < 9 then Fail (PIE_TooShort (length v))
           else obind (addr_at v 5) (\<lambda>a. Ok (\<lparr>pft_TEID = teid, pft_IPv4 = a\<rparr>, False))
         else Ok (\<lparr>pft_TEID = teid, pft_IPv4 = NoAddr\<rparr>, False))))"

definition NewPDRID :: "u16 \<Rightarrow> pfcp_ie" where [pfcp_defs]:
  "NewPDRID i = mkP pfcp_TypePDRID (be16 i)"

definition PDRIDValue :: "pfcp_ie \<Rightarrow> u16 pie_result" where [pfcp_defs]:
  "PDRIDValue i = typed pfcp_TypePDRID 2 i (\<lambda>v. get16 v 0)"

definition NewFARID :: "u32 \<Rightarrow> pfcp_ie" where [pfcp_defs]:
  "NewFARID i = mkP pfcp_TypeFARID (be32 i)"

definition FARIDValue :: "pfcp_ie \<Rightarrow> u32 pie_result" where [pfcp_defs]:
  "FARIDValue i = typed pfcp_TypeFARID 4 i (\<lambda>v. get32 v 0)"

definition NewQERID :: "u32 \<Rightarrow> pfcp_ie" where [pfcp_defs]:
  "NewQERID i = mkP pfcp_TypeQERID (be32 i)"

definition QERIDValue :: "pfcp_ie \<Rightarrow> u32 pie_result" where [pfcp_defs]:
  "QERIDValue i = typed pfcp_TypeQERID 4 i (\<lambda>v. get32 v 0)"

definition NewVectorCoreQoSMarking :: "u8 \<Rightarrow> u8 \<Rightarrow> bool \<Rightarrow> pfcp_ie" where
  "NewVectorCoreQoSMarking ebi qci valid =
     mkP pfcp_TypeVectorCoreQoSMarking [1, if valid then 0x01 else 0, ebi, qci]"

definition VectorCoreQoSMarkingValue :: "pfcp_ie \<Rightarrow> (u8 \<times> u8 \<times> bool) pie_result" where
  "VectorCoreQoSMarkingValue i = typed pfcp_TypeVectorCoreQoSMarking 4 i (\<lambda>v.
     obind (idx v 0) (\<lambda>ver. if ver \<noteq> 1 then Fail (PIE_Version ver)
       else obind (idx v 1) (\<lambda>flags. obind (idx v 2) (\<lambda>ebi. obind (idx v 3) (\<lambda>qci.
         Ok (ebi, qci, flags AND 0x01 \<noteq> 0))))))"

record vc_idle_report =
  ir_CPSEID :: u64
  ir_UPSEID :: u64
  ir_PDRID :: u16
  ir_FARID :: u32
  ir_LocalTEID :: u32
  ir_EBI :: u8
  ir_QCI :: u8
  ir_SourceInterface :: u8
  ir_QoSValid :: bool
  ir_DropReason :: u8

definition NewVectorCoreIdleDownlinkReport :: "vc_idle_report \<Rightarrow> pfcp_ie" where
  "NewVectorCoreIdleDownlinkReport r =
     mkP pfcp_TypeVectorCoreIdleDownlinkReport
       ([1, if ir_QoSValid r then 0x01 else 0, ir_DropReason r, ir_SourceInterface r] @
        be16 (ir_PDRID r) @ be32 (ir_FARID r) @ be32 (ir_LocalTEID r) @ be64 (ir_CPSEID r) @
        be64 (ir_UPSEID r) @ [ir_EBI r, ir_QCI r])"

definition VectorCoreIdleDownlinkReportValue :: "pfcp_ie \<Rightarrow> vc_idle_report pie_result" where
  "VectorCoreIdleDownlinkReportValue i = typed pfcp_TypeVectorCoreIdleDownlinkReport 32 i (\<lambda>v.
     obind (idx v 0) (\<lambda>ver. if ver \<noteq> 1 then Fail (PIE_Version ver)
       else obind (idx v 1) (\<lambda>flags. obind (idx v 2) (\<lambda>reason. obind (idx v 3) (\<lambda>src.
         obind (get16 v 4) (\<lambda>pdr. obind (get32 v 6) (\<lambda>far. obind (get32 v 10) (\<lambda>teid.
         obind (get64 v 14) (\<lambda>cp. obind (get64 v 22) (\<lambda>up. obind (idx v 30) (\<lambda>ebi. obind (idx v 31) (\<lambda>qci.
           Ok \<lparr>ir_CPSEID = cp, ir_UPSEID = up, ir_PDRID = pdr, ir_FARID = far, ir_LocalTEID = teid,
               ir_EBI = ebi, ir_QCI = qci, ir_SourceInterface = src,
               ir_QoSValid = (flags AND 0x01 \<noteq> 0), ir_DropReason = reason\<rparr>))))))))))))"

definition NewPrecedence :: "u32 \<Rightarrow> pfcp_ie" where [pfcp_defs]:
  "NewPrecedence p = mkP pfcp_TypePrecedence (be32 p)"

definition NewSourceInterface :: "u8 \<Rightarrow> pfcp_ie" where [pfcp_defs]:
  "NewSourceInterface iface = mkP pfcp_TypeSourceInterface [iface AND 0x0F]"

definition SourceInterfaceValue :: "pfcp_ie \<Rightarrow> u8 pie_result" where [pfcp_defs]:
  "SourceInterfaceValue i = typed pfcp_TypeSourceInterface 1 i (\<lambda>v. obind (idx v 0) (\<lambda>b. Ok (b AND 0x0F)))"

definition NewDestinationInterface :: "u8 \<Rightarrow> pfcp_ie" where [pfcp_defs]:
  "NewDestinationInterface iface = mkP pfcp_TypeDestinationInterface [iface AND 0x0F]"

definition DestinationInterfaceValue :: "pfcp_ie \<Rightarrow> u8 pie_result" where [pfcp_defs]:
  "DestinationInterfaceValue i = typed pfcp_TypeDestinationInterface 1 i (\<lambda>v. obind (idx v 0) (\<lambda>b. Ok (b AND 0x0F)))"

definition NewApplyAction :: "u8 \<Rightarrow> pfcp_ie" where [pfcp_defs]:
  "NewApplyAction flags = mkP pfcp_TypeApplyAction [flags]"

definition ApplyActionValue :: "pfcp_ie \<Rightarrow> u8 pie_result" where [pfcp_defs]:
  "ApplyActionValue i = typed pfcp_TypeApplyAction 1 i (\<lambda>v. idx v 0)"

record outer_header_creation =
  ohc_Description :: u16
  ohc_TEID :: u32
  ohc_IPv4 :: ip_addr

definition NewOuterHeaderCreation :: "u16 \<Rightarrow> u32 \<Rightarrow> ip_addr \<Rightarrow> pfcp_ie pie_result" where
  "NewOuterHeaderCreation desc teid v4 = (let val = be16 desc @ be32 teid in
     if isValid v4 then obind (as4 v4) (\<lambda>ip4. Ok (mkP pfcp_TypeOuterHeaderCreation (val @ ip4)))
     else Ok (mkP pfcp_TypeOuterHeaderCreation val))"

definition OuterHeaderCreationValue :: "pfcp_ie \<Rightarrow> outer_header_creation pie_result" where
  "OuterHeaderCreationValue i = typed pfcp_TypeOuterHeaderCreation 6 i (\<lambda>v.
     obind (get16 v 0) (\<lambda>desc. obind (get32 v 2) (\<lambda>teid.
       if desc = OHCDescGTPUUDPIPv4 then
         if length v < 10 then Fail (PIE_TooShort (length v))
         else obind (addr_at v 6) (\<lambda>a. Ok \<lparr>ohc_Description = desc, ohc_TEID = teid, ohc_IPv4 = a\<rparr>)
       else Ok \<lparr>ohc_Description = desc, ohc_TEID = teid, ohc_IPv4 = NoAddr\<rparr>)))"

definition NewOuterHeaderRemoval :: "u8 \<Rightarrow> pfcp_ie" where [pfcp_defs]:
  "NewOuterHeaderRemoval desc = mkP pfcp_TypeOuterHeaderRemoval [desc]"

section \<open>Grouped elements\<close>

definition NewPDI :: "pfcp_ie list \<Rightarrow> pfcp_ie" where "NewPDI cs = newGrouped pfcp_TypePDI cs"
definition NewForwardingParameters :: "pfcp_ie list \<Rightarrow> pfcp_ie" where
  "NewForwardingParameters cs = newGrouped pfcp_TypeForwardingParameters cs"
definition NewUpdateForwardingParameters :: "pfcp_ie list \<Rightarrow> pfcp_ie" where
  "NewUpdateForwardingParameters cs = newGrouped pfcp_TypeUpdateForwardingParameters cs"
definition NewCreatePDR :: "pfcp_ie list \<Rightarrow> pfcp_ie" where "NewCreatePDR cs = newGrouped pfcp_TypeCreatePDR cs"
definition NewCreateFAR :: "pfcp_ie list \<Rightarrow> pfcp_ie" where "NewCreateFAR cs = newGrouped pfcp_TypeCreateFAR cs"
definition NewCreateQER :: "pfcp_ie list \<Rightarrow> pfcp_ie" where "NewCreateQER cs = newGrouped pfcp_TypeCreateQER cs"
definition NewCreatedPDR :: "pfcp_ie list \<Rightarrow> pfcp_ie" where "NewCreatedPDR cs = newGrouped pfcp_TypeCreatedPDR cs"
definition NewUpdateFAR :: "pfcp_ie list \<Rightarrow> pfcp_ie" where "NewUpdateFAR cs = newGrouped pfcp_TypeUpdateFAR cs"
definition NewUpdatePDR :: "pfcp_ie list \<Rightarrow> pfcp_ie" where "NewUpdatePDR cs = newGrouped pfcp_TypeUpdatePDR cs"
definition NewRemovePDR :: "pfcp_ie list \<Rightarrow> pfcp_ie" where "NewRemovePDR cs = newGrouped pfcp_TypeRemovePDR cs"
definition NewRemoveFAR :: "pfcp_ie list \<Rightarrow> pfcp_ie" where "NewRemoveFAR cs = newGrouped pfcp_TypeRemoveFAR cs"
definition NewUserPlanPathFailureReport :: "pfcp_ie list \<Rightarrow> pfcp_ie" where
  "NewUserPlanPathFailureReport cs = newGrouped pfcp_TypeUserPlanPathFailureReport cs"

lemmas grouped_defs = NewPDI_def NewForwardingParameters_def NewUpdateForwardingParameters_def
  NewCreatePDR_def NewCreateFAR_def NewCreateQER_def NewCreatedPDR_def NewUpdateFAR_def
  NewUpdatePDR_def NewRemovePDR_def NewRemoveFAR_def NewUserPlanPathFailureReport_def

section \<open>Lists of elements\<close>

definition wf_pie :: "pfcp_ie \<Rightarrow> bool" where
  "wf_pie i \<longleftrightarrow> length (pValue i) < 65536"

lemma pfcp_parse_step:
  assumes "wf_pie i"
  shows "pfcp_ParseIEs (pfcp_IE_Marshal i @ r) = obind (pfcp_ParseIEs r) (\<lambda>ies. Ok (i # ies))"
proof -
  have l: "unat (of_nat (length (pValue i)) :: u16) = length (pValue i)"
    using assms by (simp add: wf_pie_def)
  have g: "get16 (pfcp_IE_Marshal i @ r) 0 = Ok (pType i)"
    "get16 (pfcp_IE_Marshal i @ r) 2 = Ok (of_nat (length (pValue i)))"
    by (simp_all add: pfcp_IE_Marshal_def read_behind get_be del: get16_Ok)
  have s: "slc (pfcp_IE_Marshal i @ r) 4 (4 + length (pValue i)) = Ok (pValue i)"
    "drop (4 + length (pValue i)) (pfcp_IE_Marshal i @ r) = r"
    by (simp_all add: pfcp_IE_Marshal_def)
  have n: "length (pfcp_IE_Marshal i @ r) = 4 + length (pValue i) + length r"
    by (simp add: pfcp_IE_Marshal_def)
  show ?thesis
    by (subst pfcp_ParseIEs.simps) (simp only: g l obind.simps n s Let_def, cases i, simp)
qed

interpretation pie_stream: tlv_stream pfcp_IE_Marshal pfcp_ParseIEs wf_pie
  by unfold_locales (simp add: pfcp_ParseIEs.simps, rule pfcp_parse_step)

lemma Children_newGrouped [simp]: "\<forall>c \<in> set cs. wf_pie c \<Longrightarrow> Children (newGrouped t cs) = Ok cs"
  by (simp add: Children_def newGrouped_def pie_stream.parse_concat)

lemma pType_newGrouped [simp]: "pType (newGrouped t cs) = t"
  by (simp add: newGrouped_def)

lemma pfcp_parse_no_panic: "pfcp_ParseIEs b \<noteq> Panic"
  by (induction b rule: pfcp_ParseIEs.induct)
     (subst pfcp_ParseIEs.simps, auto simp: Let_def obind_Panic_iff get16_def)

lemma Children_no_panic [simp]: "Children i \<noteq> Panic"
  by (simp add: Children_def pfcp_parse_no_panic)

lemma pfcp_parse_length:
  "pfcp_ParseIEs b = Ok ies \<Longrightarrow> length b = (\<Sum>i \<leftarrow> ies. 4 + length (pValue i)) \<and> (\<forall>i \<in> set ies. wf_pie i)"
proof (induction b arbitrary: ies rule: measure_induct_rule [of length])
  case (less b)
  show ?case
  proof (cases "length b < 4")
    case True
    then show ?thesis using less.prems by (simp add: pfcp_ParseIEs.simps split: if_splits)
  next
    case False
    define l where "l = unat (rd16 (b ! 2) (b ! 3))"
    have l: "4 + l \<le> length b" and "\<exists>js. pfcp_ParseIEs (drop (4 + l) b) = Ok js \<and>
        ies = mkP (rd16 (b ! 0) (b ! 1)) (take l (drop 4 b)) # js"
      using less.prems False
      by (subst (asm) pfcp_ParseIEs.simps;
          auto simp: Let_def obind_Ok_iff l_def get16_def slc_def numeral_eq_Suc split: if_splits)+
    then obtain js where js: "pfcp_ParseIEs (drop (4 + l) b) = Ok js"
      "ies = mkP (rd16 (b ! 0) (b ! 1)) (take l (drop 4 b)) # js" by blast
    have "l < 65536" unfolding l_def using unsigned_less [of "rd16 (b ! 2) (b ! 3)", where 'a = nat] by simp
    moreover have "length (drop (4 + l) b) < length b" using False by simp
    from less.IH [OF this js(1)]
    have "length (drop (4 + l) b) = (\<Sum>i \<leftarrow> js. 4 + length (pValue i)) \<and> (\<forall>i \<in> set js. wf_pie i)" .
    ultimately show ?thesis using js(2) l by (auto simp: wf_pie_def)
  qed
qed

section \<open>Round trips of the elements\<close>

lemma typed_mkP [simp]: "n \<le> length v \<Longrightarrow> typed t n (mkP t v) f = f v"
  by (simp add: typed_def)

lemma typed_no_panic: "(n \<le> length (pValue i) \<Longrightarrow> f (pValue i) \<noteq> Panic) \<Longrightarrow> typed t n i f \<noteq> Panic"
  by (simp add: typed_def)

lemma pfcp_octets_back [simp]:
  "pfcp_CauseValue (pfcp_NewCause c) = Ok c"
  "UPFunctionFeaturesValue (NewUPFunctionFeatures c) = Ok c"
  "NodeReportTypeFlags (NewNodeReportType c) = Ok c"
  "PFCPAssocReleaseRequestFlags (NewPFCPAssocReleaseRequest c) = Ok c"
  "ApplyActionValue (NewApplyAction c) = Ok c"
  "SourceInterfaceValue (NewSourceInterface c) = Ok (c AND 0x0F)"
  "DestinationInterfaceValue (NewDestinationInterface c) = Ok (c AND 0x0F)"
  by (simp_all add: pfcp_defs and.assoc)

lemma pfcp_ids_back [simp]:
  "PDRIDValue (NewPDRID p) = Ok p" "FARIDValue (NewFARID f) = Ok f" "QERIDValue (NewQERID q) = Ok q"
  "RecoveryTimeStampValue (NewRecoveryTimeStamp t) = Ok t"
  by (simp_all add: pfcp_defs get_be del: get16_Ok get32_Ok)

lemma addr_at_be32: "addr_at (be32 a @ b) 0 = Ok (IP4 a)" "addr_at (be32 a) 0 = Ok (IP4 a)"
  by (simp_all add: addr_at_def get_be del: get32_Ok)

lemma addr_at_Cons:
  "addr_at (x # b) (Suc i) = addr_at b i" "addr_at (x # b) 1 = addr_at b 0"
  "addr_at (x # b) (numeral k) = addr_at b (pred_numeral k)"
  by (simp_all add: addr_at_def byte_simps)

lemma addr_at_behind: "length p \<le> i \<Longrightarrow> addr_at (p @ b) i = addr_at b (i - length p)"
  by (simp add: addr_at_def read_behind)

lemmas addr_at_simps = addr_at_be32 addr_at_Cons addr_at_behind

lemma pfcp_fseid_back [simp]:
  "NewFSEID seid (IP4 a) = Ok (mkP pfcp_TypeFSEID (0x02 # be64 seid @ be32 a))"
  "FSEIDValue (mkP pfcp_TypeFSEID (0x02 # be64 seid @ be32 a)) = Ok \<lparr>pfs_SEID = seid, pfs_IPv4 = IP4 a\<rparr>"
  by (simp_all add: NewFSEID_def FSEIDValue_def isValid_def byte_simps addr_at_simps del: get32_Ok)

text \<open>Without a valid address the constructor still sets V4, and nobody can decode the element.\<close>

lemma fseid_without_address:
  "NewFSEID seid NoAddr = Ok (mkP pfcp_TypeFSEID (0x02 # be64 seid))"
  "FSEIDValue (mkP pfcp_TypeFSEID (0x02 # be64 seid)) = Fail (PIE_TooShort 9)"
  by (simp_all add: NewFSEID_def FSEIDValue_def isValid_def byte_simps del: get32_Ok)

lemma fteid_pfcp_back [simp]:
  "FTEIDPFCPValue NewFTEIDChoose = Ok (noFTEIDPFCP, True)"
  "NewFTEIDv4 t (IP4 a) = Ok (mkP pfcp_TypeFTEID (0x01 # be32 t @ be32 a))"
  "FTEIDPFCPValue (mkP pfcp_TypeFTEID (0x01 # be32 t @ be32 a)) = Ok (\<lparr>pft_TEID = t, pft_IPv4 = IP4 a\<rparr>, False)"
  by (simp_all add: NewFTEIDv4_def NewFTEIDChoose_def FTEIDPFCPValue_def isValid_def byte_simps
    addr_at_simps del: get32_Ok)

lemma ohc_back [simp]:
  "NewOuterHeaderCreation d t (IP4 a) = Ok (mkP pfcp_TypeOuterHeaderCreation (be16 d @ be32 t @ be32 a))"
  "OuterHeaderCreationValue (mkP pfcp_TypeOuterHeaderCreation (be16 OHCDescGTPUUDPIPv4 @ be32 t @ be32 a)) =
     Ok \<lparr>ohc_Description = OHCDescGTPUUDPIPv4, ohc_TEID = t, ohc_IPv4 = IP4 a\<rparr>"
  by (simp_all add: NewOuterHeaderCreation_def OuterHeaderCreationValue_def isValid_def byte_simps
    addr_at_simps del: get16_Ok get32_Ok)

lemma qos_marking_back [simp]:
  "VectorCoreQoSMarkingValue (NewVectorCoreQoSMarking ebi qci valid) = Ok (ebi, qci, valid)"
  by (simp add: NewVectorCoreQoSMarking_def VectorCoreQoSMarkingValue_def byte_simps)

lemma idle_report_back [simp]:
  "VectorCoreIdleDownlinkReportValue (NewVectorCoreIdleDownlinkReport r) = Ok r"
  by (simp add: NewVectorCoreIdleDownlinkReport_def VectorCoreIdleDownlinkReportValue_def byte_simps
    del: get16_Ok get32_Ok idx_Ok)

lemma node_id_back:
  "to4 ip = Some v4 \<Longrightarrow> NodeIDIPv4 (NewNodeIDIPv4 ip) = Some v4"
  "to4 ip = Some v4 \<Longrightarrow> RemoteGTPUPeerIPv4 (NewRemoteGTPUPeerIPv4 ip) = Some v4"
  by (auto simp: NodeIDIPv4_def NewNodeIDIPv4_def RemoteGTPUPeerIPv4_def NewRemoteGTPUPeerIPv4_def
    to4_def split: if_splits)

text \<open>
  the PFCP elements that the control plane and the user plane exchange mean the same on both
  sides. Every element the constructors build is decoded to the values it was built from, the
  elements of a grouped one (at most 65535 octets each) come back in order, and the bytes of a
  list of elements are parsed back to that list.
\<close>

theorem pfcp_elements_back:
  assumes "\<forall>i \<in> set ies. wf_pie i"
  shows "pfcp_ParseIEs (concat (map pfcp_IE_Marshal ies)) = Ok ies \<and>
    Children (NewCreatePDR ies) = Ok ies \<and> Children (NewUpdateForwardingParameters ies) = Ok ies \<and>
    PDRIDValue (NewPDRID p) = Ok p \<and> FARIDValue (NewFARID f) = Ok f \<and>
    obind (NewFSEID seid (IP4 a)) FSEIDValue = Ok \<lparr>pfs_SEID = seid, pfs_IPv4 = IP4 a\<rparr> \<and>
    FTEIDPFCPValue NewFTEIDChoose = Ok (noFTEIDPFCP, True) \<and>
    obind (NewFTEIDv4 t (IP4 a)) FTEIDPFCPValue = Ok (\<lparr>pft_TEID = t, pft_IPv4 = IP4 a\<rparr>, False) \<and>
    obind (NewOuterHeaderCreation OHCDescGTPUUDPIPv4 t (IP4 a)) OuterHeaderCreationValue =
      Ok \<lparr>ohc_Description = OHCDescGTPUUDPIPv4, ohc_TEID = t, ohc_IPv4 = IP4 a\<rparr> \<and>
    VectorCoreQoSMarkingValue (NewVectorCoreQoSMarking ebi qci valid) = Ok (ebi, qci, valid) \<and>
    VectorCoreIdleDownlinkReportValue (NewVectorCoreIdleDownlinkReport r) = Ok r"
  using assms by (simp add: grouped_defs pie_stream.parse_concat)

theorem pfcp_elements_back_witness:
  "pfcp_ParseIEs [0, 19, 0, 1, 1, 0, 108, 0, 4, 0, 0, 0, 7] = Ok [pfcp_NewCause 1, NewFARID 7]"
proof -
  have "pfcp_ParseIEs (concat (map pfcp_IE_Marshal [pfcp_NewCause 1, NewFARID 7])) =
      Ok [pfcp_NewCause 1, NewFARID 7]"
    by (rule pfcp_elements_back [THEN conjunct1]) (simp add: wf_pie_def pfcp_defs)
  then show ?thesis by (simp add: pfcp_IE_Marshal_def pfcp_defs be16_def be32_def)
qed

lemma pfcp_decoders_no_panic [simp]:
  "pfcp_CauseValue i \<noteq> Panic" "RecoveryTimeStampValue i \<noteq> Panic" "UPFunctionFeaturesValue i \<noteq> Panic"
  "NodeReportTypeFlags i \<noteq> Panic" "PFCPAssocReleaseRequestFlags i \<noteq> Panic" "PDRIDValue i \<noteq> Panic"
  "FARIDValue i \<noteq> Panic" "QERIDValue i \<noteq> Panic" "SourceInterfaceValue i \<noteq> Panic"
  "DestinationInterfaceValue i \<noteq> Panic" "ApplyActionValue i \<noteq> Panic"
  by (auto simp: pfcp_defs obind_Panic_iff idx_def intro!: typed_no_panic split: if_splits)

lemma pfcp_structs_no_panic [simp]:
  "FSEIDValue i \<noteq> Panic" "FTEIDPFCPValue i \<noteq> Panic" "OuterHeaderCreationValue i \<noteq> Panic"
  "VectorCoreQoSMarkingValue i \<noteq> Panic" "VectorCoreIdleDownlinkReportValue i \<noteq> Panic"
  by (auto simp: FSEIDValue_def FTEIDPFCPValue_def OuterHeaderCreationValue_def
    VectorCoreQoSMarkingValue_def VectorCoreIdleDownlinkReportValue_def obind_Panic_iff
    get64_Panic_iff addr_at_Panic_iff idx_def get32_def intro!: typed_no_panic split: if_splits)

end
