(* ===== verification/PFCP_Message.thy ===== *)
theory PFCP_Message
  imports PFCP_IE
begin

text \<open>
  PFCP messages, \<^verbatim>\<open>internal/pfcp/message/message.go\<close>: the two header formats (node level
  without, session level with a SEID), whole messages, and one parser per message type. A
  parser collects the elements it knows (a repeated element overwrites an earlier one or is
  appended to a list) and checks the mandatory ones. The lemmas give the round trip of whole
  messages, when each request is accepted, and that no input makes a parser panic.
\<close>

abbreviation (input) MsgTypeHeartbeatRequest :: u8 where "MsgTypeHeartbeatRequest \<equiv> 1"
abbreviation (input) MsgTypeHeartbeatResponse :: u8 where "MsgTypeHeartbeatResponse \<equiv> 2"
abbreviation (input) MsgTypeAssociationSetupRequest :: u8 where "MsgTypeAssociationSetupRequest \<equiv> 5"
abbreviation (input) MsgTypeAssociationSetupResponse :: u8 where "MsgTypeAssociationSetupResponse \<equiv> 6"
abbreviation (input) MsgTypeAssociationReleaseRequest :: u8 where "MsgTypeAssociationReleaseRequest \<equiv> 9"
abbreviation (input) MsgTypeAssociationReleaseResponse :: u8 where "MsgTypeAssociationReleaseResponse \<equiv> 10"
abbreviation (input) MsgTypeNodeReportRequest :: u8 where "MsgTypeNodeReportRequest \<equiv> 12"
abbreviation (input) MsgTypeNodeReportResponse :: u8 where "MsgTypeNodeReportResponse \<equiv> 13"
abbreviation (input) MsgTypeSessionEstablishmentRequest :: u8 where "MsgTypeSessionEstablishmentRequest \<equiv> 50"
abbreviation (input) MsgTypeSessionEstablishmentResponse :: u8 where "MsgTypeSessionEstablishmentResponse \<equiv> 51"
abbreviation (input) MsgTypeSessionModificationRequest :: u8 where "MsgTypeSessionModificationRequest \<equiv> 52"
abbreviation (input) MsgTypeSessionModificationResponse :: u8 where "MsgTypeSessionModificationResponse \<equiv> 53"
abbreviation (input) MsgTypeSessionDeletionRequest :: u8 where "MsgTypeSessionDeletionRequest \<equiv> 54"
abbreviation (input) MsgTypeSessionDeletionResponse :: u8 where "MsgTypeSessionDeletionResponse \<equiv> 55"
abbreviation (input) MsgTypeSessionReportRequest :: u8 where "MsgTypeSessionReportRequest \<equiv> 56"
abbreviation (input) MsgTypeSessionReportResponse :: u8 where "MsgTypeSessionReportResponse \<equiv> 57"

section \<open>Headers and whole messages\<close>

record pfcp_header =
  ph_Version :: u8
  ph_HasSEID :: bool
  ph_MessageType :: u8
  ph_Length :: u16
  ph_SEID :: u64
  ph_SequenceNumber :: u32

datatype pfcp_error =
    PfcpTooShort nat
  | PfcpVersion u8
  | PfcpSessionHeaderTooShort nat
  | PfcpLengthTooSmall u16
  | PfcpTruncated nat nat
  | PfcpIE pfcp_ie_error
  | PfcpSFlag bool
  | PfcpWrongType u8 u8
  | PfcpInitialSEID u64
  | PfcpMissingIE u16

type_synonym 'a pfcp_result = "(pfcp_error, 'a) outcome"

definition pfcp_ParseHeader :: "bytes \<Rightarrow> (pfcp_header \<times> bytes) pfcp_result" where
  "pfcp_ParseHeader b =
     (if length b < 8 then Fail (PfcpTooShort (length b))
      else
        obind (idx b 0) (\<lambda>o1.
        let version = drop_bit 5 o1 AND 0x07 in
        if version \<noteq> 1 then Fail (PfcpVersion version)
        else
          obind (idx b 1) (\<lambda>typ. obind (get16 b 2) (\<lambda>len.
            let hasSEID = (o1 AND 0x01 \<noteq> 0);
                h = \<lparr>ph_Version = version, ph_HasSEID = hasSEID, ph_MessageType = typ, ph_Length = len,
                     ph_SEID = 0, ph_SequenceNumber = 0\<rparr> in
            if hasSEID \<and> length b < 16 then Fail (PfcpSessionHeaderTooShort (length b))
            else
              obind (if hasSEID
                then obind (get64 b 4) (\<lambda>seid. obind (idx b 12) (\<lambda>s0. obind (idx b 13) (\<lambda>s1. obind (idx b 14) (\<lambda>s2.
                       Ok (h\<lparr>ph_SEID := seid, ph_SequenceNumber := seq24 s0 s1 s2\<rparr>, 16)))))
                else obind (idx b 4) (\<lambda>s0. obind (idx b 5) (\<lambda>s1. obind (idx b 6) (\<lambda>s2.
                       Ok (h\<lparr>ph_SequenceNumber := seq24 s0 s1 s2\<rparr>, 8)))))
                (\<lambda>(h, bodyStart).
                  let declaredTotal = 4 + unat len in
                  if declaredTotal < bodyStart then Fail (PfcpLengthTooSmall len)
                  else if declaredTotal > length b then Fail (PfcpTruncated declaredTotal (length b))
                  else obind (slc b bodyStart declaredTotal) (\<lambda>body. Ok (h, body)))))))"

definition seq_bytes :: "u32 \<Rightarrow> bytes" where
  "seq_bytes s = [ucast (drop_bit 16 s), ucast (drop_bit 8 s), ucast s]"

definition pfcp_MarshalHeader :: "pfcp_header \<Rightarrow> nat \<Rightarrow> bytes" where
  "pfcp_MarshalHeader h bodyLen =
     [push_bit 5 1, ph_MessageType h] @ be16 (of_nat (8 - 4 + bodyLen)) @ seq_bytes (ph_SequenceNumber h) @ [0]"

definition MarshalSessionHeader :: "pfcp_header \<Rightarrow> nat \<Rightarrow> bytes" where
  "MarshalSessionHeader h bodyLen =
     [push_bit 5 1 OR 0x01, ph_MessageType h] @ be16 (of_nat (16 - 4 + bodyLen)) @ be64 (ph_SEID h) @
     seq_bytes (ph_SequenceNumber h) @ [0]"

definition pfcp_Marshal :: "pfcp_header \<Rightarrow> pfcp_ie list \<Rightarrow> bytes" where
  "pfcp_Marshal h ies = (let body = concat (map pfcp_IE_Marshal ies) in
     (if ph_HasSEID h then MarshalSessionHeader h (length body) else pfcp_MarshalHeader h (length body)) @ body)"

definition pfcp_Parse :: "bytes \<Rightarrow> (pfcp_header \<times> pfcp_ie list) pfcp_result" where
  "pfcp_Parse b = obind (pfcp_ParseHeader b) (\<lambda>(h, body).
     obind (wrap_err PfcpIE (pfcp_ParseIEs body)) (\<lambda>ies. Ok (h, ies)))"

section \<open>The parser of each message\<close>

text \<open>The element a field ends up with: the last one of its type.\<close>

definition pfcp_last :: "u16 \<Rightarrow> pfcp_ie list \<Rightarrow> pfcp_ie option" where
  "pfcp_last t ies = fold (\<lambda>i acc. if pType i = t then Some i else acc) ies None"

text \<open>What every parser starts with: parse, check the S flag, check the type.\<close>

definition parse_pfcp :: "bool \<Rightarrow> u8 \<Rightarrow> bytes \<Rightarrow> (pfcp_header \<times> pfcp_ie list) pfcp_result" where
  "parse_pfcp seid want b = obind (pfcp_Parse b) (\<lambda>(h, ies).
     if ph_HasSEID h \<noteq> seid then Fail (PfcpSFlag (ph_HasSEID h))
     else if ph_MessageType h \<noteq> want then Fail (PfcpWrongType (ph_MessageType h) want)
     else Ok (h, ies))"

definition require :: "u16 \<Rightarrow> pfcp_ie option \<Rightarrow> (pfcp_ie \<Rightarrow> 'a pfcp_result) \<Rightarrow> 'a pfcp_result" where
  "require t field f = (case field of None \<Rightarrow> Fail (PfcpMissingIE t) | Some i \<Rightarrow> f i)"

record assoc_setup_request =
  asq_Header :: pfcp_header
  asq_NodeID :: pfcp_ie
  asq_RecoveryTimeStamp :: pfcp_ie
  asq_CPFeatures :: "pfcp_ie option"

definition ParseAssociationSetupRequest :: "bytes \<Rightarrow> assoc_setup_request pfcp_result" where
  "ParseAssociationSetupRequest b = obind (parse_pfcp False MsgTypeAssociationSetupRequest b) (\<lambda>(h, ies).
     require pfcp_TypeNodeID (pfcp_last pfcp_TypeNodeID ies) (\<lambda>n.
     require pfcp_TypeRecoveryTimeStamp (pfcp_last pfcp_TypeRecoveryTimeStamp ies) (\<lambda>r.
       Ok \<lparr>asq_Header = h, asq_NodeID = n, asq_RecoveryTimeStamp = r,
           asq_CPFeatures = pfcp_last pfcp_TypeCPFunctionFeatures ies\<rparr>)))"

record assoc_setup_response =
  asp_Header :: pfcp_header
  asp_NodeID :: pfcp_ie
  asp_Cause :: pfcp_ie
  asp_RecoveryTimeStamp :: pfcp_ie
  asp_UPFeatures :: "pfcp_ie option"
  asp_CPFeatures :: "pfcp_ie option"

definition ParseAssociationSetupResponse :: "bytes \<Rightarrow> assoc_setup_response pfcp_result" where
  "ParseAssociationSetupResponse b = obind (parse_pfcp False MsgTypeAssociationSetupResponse b) (\<lambda>(h, ies).
     require pfcp_TypeNodeID (pfcp_last pfcp_TypeNodeID ies) (\<lambda>n.
     require pfcp_TypeCause (pfcp_last pfcp_TypeCause ies) (\<lambda>c.
     require pfcp_TypeRecoveryTimeStamp (pfcp_last pfcp_TypeRecoveryTimeStamp ies) (\<lambda>r.
       Ok \<lparr>asp_Header = h, asp_NodeID = n, asp_Cause = c, asp_RecoveryTimeStamp = r,
           asp_UPFeatures = pfcp_last pfcp_TypeUPFunctionFeatures ies,
           asp_CPFeatures = pfcp_last pfcp_TypeCPFunctionFeatures ies\<rparr>))))"

record heartbeat =
  hb_Header :: pfcp_header
  hb_RecoveryTimeStamp :: pfcp_ie

definition parse_heartbeat :: "u8 \<Rightarrow> bytes \<Rightarrow> heartbeat pfcp_result" where
  "parse_heartbeat want b = obind (parse_pfcp False want b) (\<lambda>(h, ies).
     require pfcp_TypeRecoveryTimeStamp (pfcp_last pfcp_TypeRecoveryTimeStamp ies) (\<lambda>r.
       Ok \<lparr>hb_Header = h, hb_RecoveryTimeStamp = r\<rparr>))"

definition ParseHeartbeatRequest :: "bytes \<Rightarrow> heartbeat pfcp_result" where
  "ParseHeartbeatRequest b = parse_heartbeat MsgTypeHeartbeatRequest b"

definition ParseHeartbeatResponse :: "bytes \<Rightarrow> heartbeat pfcp_result" where
  "ParseHeartbeatResponse b = parse_heartbeat MsgTypeHeartbeatResponse b"

record session_est_request =
  seq_Header :: pfcp_header
  seq_NodeID :: pfcp_ie
  seq_CPSEID :: pfcp_ie
  seq_CreatePDRs :: "pfcp_ie list"
  seq_CreateFARs :: "pfcp_ie list"

definition ParseSessionEstablishmentRequest :: "bytes \<Rightarrow> session_est_request pfcp_result" where
  "ParseSessionEstablishmentRequest b = obind (parse_pfcp True MsgTypeSessionEstablishmentRequest b) (\<lambda>(h, ies).
     if ph_SEID h \<noteq> 0 then Fail (PfcpInitialSEID (ph_SEID h))
     else
       require pfcp_TypeNodeID (pfcp_last pfcp_TypeNodeID ies) (\<lambda>n.
       require pfcp_TypeFSEID (pfcp_last pfcp_TypeFSEID ies) (\<lambda>c.
         let pdrs = filter (\<lambda>i. pType i = pfcp_TypeCreatePDR) ies;
             fars = filter (\<lambda>i. pType i = pfcp_TypeCreateFAR) ies in
         if pdrs = [] then Fail (PfcpMissingIE pfcp_TypeCreatePDR)
         else if fars = [] then Fail (PfcpMissingIE pfcp_TypeCreateFAR)
         else Ok \<lparr>seq_Header = h, seq_NodeID = n, seq_CPSEID = c, seq_CreatePDRs = pdrs, seq_CreateFARs = fars\<rparr>)))"

record session_est_response =
  sep_Header :: pfcp_header
  sep_NodeID :: pfcp_ie
  sep_Cause :: pfcp_ie
  sep_UPSEID :: "pfcp_ie option"
  sep_CreatedPDRs :: "pfcp_ie list"

definition ParseSessionEstablishmentResponse :: "bytes \<Rightarrow> session_est_response pfcp_result" where
  "ParseSessionEstablishmentResponse b = obind (parse_pfcp True MsgTypeSessionEstablishmentResponse b) (\<lambda>(h, ies).
     require pfcp_TypeNodeID (pfcp_last pfcp_TypeNodeID ies) (\<lambda>n.
     require pfcp_TypeCause (pfcp_last pfcp_TypeCause ies) (\<lambda>c.
       let up = pfcp_last pfcp_TypeFSEID ies in
       if pfcp_CauseValue c = Ok CauseRequestAccepted \<and> up = None then Fail (PfcpMissingIE pfcp_TypeFSEID)
       else Ok \<lparr>sep_Header = h, sep_NodeID = n, sep_Cause = c, sep_UPSEID = up,
                sep_CreatedPDRs = filter (\<lambda>i. pType i = pfcp_TypeCreatedPDR) ies\<rparr>)))"

record session_mod_request =
  smq_Header :: pfcp_header
  smq_CPSEID :: "pfcp_ie option"
  smq_UpdateFARs :: "pfcp_ie list"
  smq_UpdatePDRs :: "pfcp_ie list"
  smq_CreatePDRs :: "pfcp_ie list"
  smq_CreateFARs :: "pfcp_ie list"
  smq_RemovePDRs :: "pfcp_ie list"
  smq_RemoveFARs :: "pfcp_ie list"

definition ParseSessionModificationRequest :: "bytes \<Rightarrow> session_mod_request pfcp_result" where
  "ParseSessionModificationRequest b = obind (parse_pfcp True MsgTypeSessionModificationRequest b) (\<lambda>(h, ies).
     Ok \<lparr>smq_Header = h, smq_CPSEID = pfcp_last pfcp_TypeFSEID ies,
         smq_UpdateFARs = filter (\<lambda>i. pType i = pfcp_TypeUpdateFAR) ies,
         smq_UpdatePDRs = filter (\<lambda>i. pType i = pfcp_TypeUpdatePDR) ies,
         smq_CreatePDRs = filter (\<lambda>i. pType i = pfcp_TypeCreatePDR) ies,
         smq_CreateFARs = filter (\<lambda>i. pType i = pfcp_TypeCreateFAR) ies,
         smq_RemovePDRs = filter (\<lambda>i. pType i = pfcp_TypeRemovePDR) ies,
         smq_RemoveFARs = filter (\<lambda>i. pType i = pfcp_TypeRemoveFAR) ies\<rparr>)"

record session_mod_response =
  smp_Header :: pfcp_header
  smp_Cause :: pfcp_ie
  smp_CreatedPDRs :: "pfcp_ie list"

definition ParseSessionModificationResponse :: "bytes \<Rightarrow> session_mod_response pfcp_result" where
  "ParseSessionModificationResponse b = obind (parse_pfcp True MsgTypeSessionModificationResponse b) (\<lambda>(h, ies).
     require pfcp_TypeCause (pfcp_last pfcp_TypeCause ies) (\<lambda>c.
       Ok \<lparr>smp_Header = h, smp_Cause = c, smp_CreatedPDRs = filter (\<lambda>i. pType i = pfcp_TypeCreatedPDR) ies\<rparr>))"

definition ParseSessionDeletionRequest :: "bytes \<Rightarrow> pfcp_header pfcp_result" where
  "ParseSessionDeletionRequest b = obind (parse_pfcp True MsgTypeSessionDeletionRequest b) (\<lambda>(h, _). Ok h)"

record pfcp_caused =
  pc_Header :: pfcp_header
  pc_Cause :: pfcp_ie

definition parse_caused :: "u8 \<Rightarrow> bytes \<Rightarrow> pfcp_caused pfcp_result" where
  "parse_caused want b = obind (parse_pfcp True want b) (\<lambda>(h, ies).
     require pfcp_TypeCause (pfcp_last pfcp_TypeCause ies) (\<lambda>c. Ok \<lparr>pc_Header = h, pc_Cause = c\<rparr>))"

definition ParseSessionDeletionResponse :: "bytes \<Rightarrow> pfcp_caused pfcp_result" where
  "ParseSessionDeletionResponse b = parse_caused MsgTypeSessionDeletionResponse b"

definition ParseSessionReportResponse :: "bytes \<Rightarrow> pfcp_caused pfcp_result" where
  "ParseSessionReportResponse b = parse_caused MsgTypeSessionReportResponse b"

record assoc_release_request =
  arq_Header :: pfcp_header
  arq_NodeID :: pfcp_ie

definition ParseAssociationReleaseRequest :: "bytes \<Rightarrow> assoc_release_request pfcp_result" where
  "ParseAssociationReleaseRequest b = obind (parse_pfcp False MsgTypeAssociationReleaseRequest b) (\<lambda>(h, ies).
     require pfcp_TypeNodeID (pfcp_last pfcp_TypeNodeID ies) (\<lambda>n. Ok \<lparr>arq_Header = h, arq_NodeID = n\<rparr>))"

record node_caused =
  nc_Header :: pfcp_header
  nc_NodeID :: pfcp_ie
  nc_Cause :: pfcp_ie

definition parse_node_caused :: "u8 \<Rightarrow> bytes \<Rightarrow> node_caused pfcp_result" where
  "parse_node_caused want b = obind (parse_pfcp False want b) (\<lambda>(h, ies).
     require pfcp_TypeNodeID (pfcp_last pfcp_TypeNodeID ies) (\<lambda>n.
     require pfcp_TypeCause (pfcp_last pfcp_TypeCause ies) (\<lambda>c.
       Ok \<lparr>nc_Header = h, nc_NodeID = n, nc_Cause = c\<rparr>)))"

definition ParseAssociationReleaseResponse :: "bytes \<Rightarrow> node_caused pfcp_result" where
  "ParseAssociationReleaseResponse b = parse_node_caused MsgTypeAssociationReleaseResponse b"

definition ParseNodeReportResponse :: "bytes \<Rightarrow> node_caused pfcp_result" where
  "ParseNodeReportResponse b = parse_node_caused MsgTypeNodeReportResponse b"

record node_report_request =
  nrq_Header :: pfcp_header
  nrq_NodeID :: pfcp_ie
  nrq_NodeReportType :: pfcp_ie
  nrq_PathFailure :: "pfcp_ie option"

text \<open>The flags are read with the error ignored; a failed decoder reads as zero.\<close>

definition value_or0 :: "('e, 'a::zero) outcome \<Rightarrow> 'a" where
  "value_or0 r = (case r of Ok v \<Rightarrow> v | _ \<Rightarrow> 0)"

definition ParseNodeReportRequest :: "bytes \<Rightarrow> node_report_request pfcp_result" where
  "ParseNodeReportRequest b = obind (parse_pfcp False MsgTypeNodeReportRequest b) (\<lambda>(h, ies).
     require pfcp_TypeNodeID (pfcp_last pfcp_TypeNodeID ies) (\<lambda>n.
     require pfcp_TypeNodeReportType (pfcp_last pfcp_TypeNodeReportType ies) (\<lambda>t.
       let fail = pfcp_last pfcp_TypeUserPlanPathFailureReport ies in
       if value_or0 (NodeReportTypeFlags t) AND 0x01 \<noteq> 0 \<and> fail = None
       then Fail (PfcpMissingIE pfcp_TypeUserPlanPathFailureReport)
       else Ok \<lparr>nrq_Header = h, nrq_NodeID = n, nrq_NodeReportType = t, nrq_PathFailure = fail\<rparr>)))"

record session_report_request =
  srq_Header :: pfcp_header
  srq_IdleDownlink :: pfcp_ie

definition ParseSessionReportRequest :: "bytes \<Rightarrow> session_report_request pfcp_result" where
  "ParseSessionReportRequest b = obind (parse_pfcp True MsgTypeSessionReportRequest b) (\<lambda>(h, ies).
     require pfcp_TypeVectorCoreIdleDownlinkReport (pfcp_last pfcp_TypeVectorCoreIdleDownlinkReport ies) (\<lambda>r.
       Ok \<lparr>srq_Header = h, srq_IdleDownlink = r\<rparr>))"

lemmas pfcp_parser_defs = ParseAssociationSetupRequest_def ParseAssociationSetupResponse_def
  ParseHeartbeatRequest_def ParseHeartbeatResponse_def parse_heartbeat_def
  ParseSessionEstablishmentRequest_def ParseSessionEstablishmentResponse_def
  ParseSessionModificationRequest_def ParseSessionModificationResponse_def
  ParseSessionDeletionRequest_def ParseSessionDeletionResponse_def parse_caused_def
  ParseAssociationReleaseRequest_def ParseAssociationReleaseResponse_def parse_node_caused_def
  ParseNodeReportRequest_def ParseNodeReportResponse_def ParseSessionReportRequest_def
  ParseSessionReportResponse_def

section \<open>Round trip of messages\<close>

text \<open>A header of a message that fits: a 24-bit sequence number, no SEID at node level.\<close>

definition wf_pfcp :: "pfcp_header \<Rightarrow> pfcp_ie list \<Rightarrow> bool" where
  "wf_pfcp h ies \<longleftrightarrow> ph_Version h = 1 \<and> ph_SequenceNumber h < 0x1000000 \<and>
     (\<not> ph_HasSEID h \<longrightarrow> ph_SEID h = 0) \<and>
     length (concat (map pfcp_IE_Marshal ies)) \<le> 65523"

definition sent_header :: "pfcp_header \<Rightarrow> pfcp_ie list \<Rightarrow> pfcp_header" where
  "sent_header h ies = h\<lparr>ph_Length := of_nat ((if ph_HasSEID h then 12 else 4) +
     length (concat (map pfcp_IE_Marshal ies)))\<rparr>"

lemma wf_pfcp_ies: "wf_pfcp h ies \<Longrightarrow> \<forall>i \<in> set ies. wf_pie i"
proof
  fix i assume "wf_pfcp h ies" "i \<in> set ies"
  then have "length (pfcp_IE_Marshal i) \<le> sum_list (map length (map pfcp_IE_Marshal ies))"
    by (auto intro: member_le_sum_list)
  then have "length (pfcp_IE_Marshal i) \<le> 65523"
    using \<open>wf_pfcp h ies\<close> by (simp add: wf_pfcp_def length_concat)
  then show "wf_pie i" by (simp add: pfcp_IE_Marshal_def wf_pie_def)
qed

lemma pfcp_header_back:
  assumes h: "ph_Version h = 1" "ph_SequenceNumber h < 0x1000000" "\<not> ph_HasSEID h \<longrightarrow> ph_SEID h = 0"
    and n: "length body \<le> 65523"
  shows "pfcp_ParseHeader ((if ph_HasSEID h then MarshalSessionHeader h (length body)
      else pfcp_MarshalHeader h (length body)) @ body @ r) =
    Ok (h\<lparr>ph_Length := of_nat ((if ph_HasSEID h then 12 else 4) + length body)\<rparr>, body)"
proof -
  have s: "seq24 (ucast (drop_bit 16 (ph_SequenceNumber h))) (ucast (drop_bit 8 (ph_SequenceNumber h)))
      (ucast (ph_SequenceNumber h)) = ph_SequenceNumber h"
    using h(2) by (rule seq24_bytes)
  have u: "unat (of_nat (12 + length body) :: u16) = 12 + length body"
    "unat (of_nat (4 + length body) :: u16) = 4 + length body"
    using n by (intro unat_of_nat_u16; simp)+
  show ?thesis
  proof (cases "ph_HasSEID h")
    case True
    then show ?thesis using s h u(1)
      by (cases h) (simp add: pfcp_ParseHeader_def MarshalSessionHeader_def seq_bytes_def byte_simps Let_def
        del: get16_Ok get32_Ok idx_Ok)
  next
    case False
    then show ?thesis using s h u(2)
      by (cases h) (simp add: pfcp_ParseHeader_def pfcp_MarshalHeader_def seq_bytes_def byte_simps Let_def
        del: get16_Ok get32_Ok idx_Ok)
  qed
qed

lemma pfcp_parse_marshal:
  assumes "wf_pfcp h ies"
  shows "pfcp_Parse (pfcp_Marshal h ies) = Ok (sent_header h ies, ies)"
proof -
  let ?b = "concat (map pfcp_IE_Marshal ies)"
  have "pfcp_ParseHeader (pfcp_Marshal h ies) = Ok (sent_header h ies, ?b)"
    using pfcp_header_back [of h ?b "[]"] assms
    by (simp add: pfcp_Marshal_def Let_def sent_header_def wf_pfcp_def)
  then show ?thesis
    using pie_stream.parse_concat [OF wf_pfcp_ies [OF assms]] by (simp add: pfcp_Parse_def wrap_err_def)
qed

lemma sent_header_simps [simp]:
  "ph_HasSEID (sent_header h ies) = ph_HasSEID h" "ph_MessageType (sent_header h ies) = ph_MessageType h"
  "ph_SEID (sent_header h ies) = ph_SEID h" "ph_SequenceNumber (sent_header h ies) = ph_SequenceNumber h"
  by (simp_all add: sent_header_def)

lemma parse_pfcp_sent:
  "wf_pfcp h ies \<Longrightarrow> ph_HasSEID h = seid \<Longrightarrow> ph_MessageType h = want \<Longrightarrow>
     parse_pfcp seid want (pfcp_Marshal h ies) = Ok (sent_header h ies, ies)"
  by (simp add: parse_pfcp_def pfcp_parse_marshal)

section \<open>No input makes a parser panic\<close>

lemma pfcp_ParseHeader_no_panic: "pfcp_ParseHeader b \<noteq> Panic"
  by (auto simp: pfcp_ParseHeader_def Let_def obind_Panic_iff idx_def get16_def get64_Panic_iff slc_def
    split: if_splits prod.splits)

lemma parse_pfcp_no_panic [simp]: "parse_pfcp seid want b \<noteq> Panic"
  by (auto simp: parse_pfcp_def pfcp_Parse_def wrap_err_def obind_Panic_iff pfcp_ParseHeader_no_panic
    pfcp_parse_no_panic split: outcome.splits prod.splits if_splits)

lemma require_Panic: "require t x f = Panic \<longleftrightarrow> (\<exists>i. x = Some i \<and> f i = Panic)"
  by (auto simp: require_def split: option.splits)

lemma pfcp_parsers_total:
  "ParseAssociationSetupRequest b \<noteq> Panic" "ParseAssociationSetupResponse b \<noteq> Panic"
  "ParseHeartbeatRequest b \<noteq> Panic" "ParseHeartbeatResponse b \<noteq> Panic"
  "ParseSessionEstablishmentRequest b \<noteq> Panic" "ParseSessionEstablishmentResponse b \<noteq> Panic"
  "ParseSessionModificationRequest b \<noteq> Panic" "ParseSessionModificationResponse b \<noteq> Panic"
  "ParseSessionDeletionRequest b \<noteq> Panic" "ParseSessionDeletionResponse b \<noteq> Panic"
  "ParseAssociationReleaseRequest b \<noteq> Panic" "ParseAssociationReleaseResponse b \<noteq> Panic"
  "ParseNodeReportRequest b \<noteq> Panic" "ParseNodeReportResponse b \<noteq> Panic"
  "ParseSessionReportRequest b \<noteq> Panic" "ParseSessionReportResponse b \<noteq> Panic"
  by (auto simp: pfcp_parser_defs obind_Panic_iff require_Panic Let_def split: prod.splits if_splits)

section \<open>Properties\<close>

lemma pfcp_last_snoc: "pfcp_last t (ies @ [i]) = (if pType i = t then Some i else pfcp_last t ies)"
  by (simp add: pfcp_last_def)

lemma pfcp_last_Nil [simp]: "pfcp_last t [] = None"
  by (simp add: pfcp_last_def)

lemma pfcp_last_None_iff: "pfcp_last t ies = None \<longleftrightarrow> (\<forall>i \<in> set ies. pType i \<noteq> t)"
  by (induction ies rule: rev_induct) (auto simp: pfcp_last_snoc)

lemma pfcp_last_SomeD: "pfcp_last t ies = Some i \<Longrightarrow> i \<in> set ies \<and> pType i = t"
  by (induction ies rule: rev_induct) (auto simp: pfcp_last_snoc split: if_splits)

lemma pfcp_last_Cons:
  "pfcp_last t (i # ies) = (case pfcp_last t ies of Some j \<Rightarrow> Some j | None \<Rightarrow> if pType i = t then Some i else None)"
proof (induction ies rule: rev_induct)
  case Nil
  show ?case by (simp add: pfcp_last_def)
next
  case (snoc j ies)
  then show ?case by (simp add: pfcp_last_snoc append_Cons [symmetric] del: append_Cons)
qed

lemma filter_type_Nil: "filter (\<lambda>i. pType i = t) ies = [] \<longleftrightarrow> (\<forall>i \<in> set ies. pType i \<noteq> t)"
  by (simp add: filter_empty_conv)

text \<open>
  C38: a PFCP message survives the wire: a message with a 24-bit sequence number and a body
  that fits the 16-bit length is parsed back to its header, with the length filled in, and its
  elements. A Session Establishment Request sent this way is accepted exactly if its SEID is zero
  and it has a Node ID, a CP F-SEID, a Create PDR and a Create FAR; what the parser returns is the
  last Node ID and F-SEID and all Create PDRs and Create FARs in order.
\<close>

theorem pfcp_message_roundtrip:
  assumes "wf_pfcp h ies"
  shows "pfcp_Parse (pfcp_Marshal h ies) = Ok (sent_header h ies, ies) \<and>
    (\<forall>req. ph_HasSEID h \<and> ph_MessageType h = MsgTypeSessionEstablishmentRequest \<longrightarrow>
      (ParseSessionEstablishmentRequest (pfcp_Marshal h ies) = Ok req \<longleftrightarrow>
        ph_SEID h = 0 \<and> seq_Header req = sent_header h ies \<and>
        pfcp_last pfcp_TypeNodeID ies = Some (seq_NodeID req) \<and>
        pfcp_last pfcp_TypeFSEID ies = Some (seq_CPSEID req) \<and>
        filter (\<lambda>i. pType i = pfcp_TypeCreatePDR) ies = seq_CreatePDRs req \<and> seq_CreatePDRs req \<noteq> [] \<and>
        filter (\<lambda>i. pType i = pfcp_TypeCreateFAR) ies = seq_CreateFARs req \<and> seq_CreateFARs req \<noteq> []))"
proof (intro conjI allI impI)
  show "pfcp_Parse (pfcp_Marshal h ies) = Ok (sent_header h ies, ies)"
    using assms by (rule pfcp_parse_marshal)
  fix req assume h: "ph_HasSEID h \<and> ph_MessageType h = MsgTypeSessionEstablishmentRequest"
  then have p: "parse_pfcp True MsgTypeSessionEstablishmentRequest (pfcp_Marshal h ies) = Ok (sent_header h ies, ies)"
    using assms parse_pfcp_sent by simp
  show "(ParseSessionEstablishmentRequest (pfcp_Marshal h ies) = Ok req) \<longleftrightarrow>
      ph_SEID h = 0 \<and> seq_Header req = sent_header h ies \<and>
      pfcp_last pfcp_TypeNodeID ies = Some (seq_NodeID req) \<and>
      pfcp_last pfcp_TypeFSEID ies = Some (seq_CPSEID req) \<and>
      filter (\<lambda>i. pType i = pfcp_TypeCreatePDR) ies = seq_CreatePDRs req \<and> seq_CreatePDRs req \<noteq> [] \<and>
      filter (\<lambda>i. pType i = pfcp_TypeCreateFAR) ies = seq_CreateFARs req \<and> seq_CreateFARs req \<noteq> []"
    by (cases req) (auto simp: ParseSessionEstablishmentRequest_def p require_def Let_def split: option.splits)
qed

definition sample_ser_header :: pfcp_header where
  "sample_ser_header = \<lparr>ph_Version = 1, ph_HasSEID = True, ph_MessageType = 50, ph_Length = 0, ph_SEID = 0,
     ph_SequenceNumber = 7\<rparr>"

theorem pfcp_message_roundtrip_witness:
  "pfcp_Parse (pfcp_Marshal sample_ser_header [NewFARID 5]) =
     Ok (sample_ser_header\<lparr>ph_Length := 20\<rparr>, [NewFARID 5])"
  using pfcp_message_roundtrip [of sample_ser_header "[NewFARID 5]"]
  by (simp add: wf_pfcp_def sample_ser_header_def sent_header_def pfcp_IE_Marshal_def pfcp_defs)

text \<open>
  no datagram makes one of the PFCP message parsers or element decoders panic; every
  malformed input is an error value.
\<close>

theorem pfcp_parsing_no_panic:
  "pfcp_Parse b \<noteq> Panic \<and> ParseAssociationSetupRequest b \<noteq> Panic \<and> ParseAssociationSetupResponse b \<noteq> Panic \<and>
   ParseHeartbeatRequest b \<noteq> Panic \<and> ParseHeartbeatResponse b \<noteq> Panic \<and>
   ParseSessionEstablishmentRequest b \<noteq> Panic \<and> ParseSessionEstablishmentResponse b \<noteq> Panic \<and>
   ParseSessionModificationRequest b \<noteq> Panic \<and> ParseSessionModificationResponse b \<noteq> Panic \<and>
   ParseSessionDeletionRequest b \<noteq> Panic \<and> ParseSessionDeletionResponse b \<noteq> Panic \<and>
   ParseAssociationReleaseRequest b \<noteq> Panic \<and> ParseAssociationReleaseResponse b \<noteq> Panic \<and>
   ParseNodeReportRequest b \<noteq> Panic \<and> ParseNodeReportResponse b \<noteq> Panic \<and>
   ParseSessionReportRequest b \<noteq> Panic \<and> ParseSessionReportResponse b \<noteq> Panic \<and>
   Children i \<noteq> Panic \<and> FSEIDValue i \<noteq> Panic \<and> FTEIDPFCPValue i \<noteq> Panic \<and>
   OuterHeaderCreationValue i \<noteq> Panic \<and> PDRIDValue i \<noteq> Panic \<and> FARIDValue i \<noteq> Panic \<and>
   VectorCoreQoSMarkingValue i \<noteq> Panic \<and> VectorCoreIdleDownlinkReportValue i \<noteq> Panic"
  by (auto simp: pfcp_parsers_total pfcp_Parse_def wrap_err_def obind_Panic_iff pfcp_ParseHeader_no_panic
    pfcp_parse_no_panic split: outcome.splits prod.splits)

end
