(* ===== verification/PFCP_Server.thy ===== *)
theory PFCP_Server
  imports PFCP_Message BPF_Compiler Go_Net
begin

text \<open>
  The PFCP server of the SGW-U, \<^verbatim>\<open>internal/sgwu/pfcpserver/server.go\<close>: associations with
  SGW-C peers, and the establishment, modification and deletion of PFCP sessions in the session
  store and in the kernel rules. A handler takes the server and one datagram and returns the
  server with the effects it had (replies, End Markers, peers to probe). The random readings of
  \<^verbatim>\<open>AllocTEID\<close>, the clock and the faults of the kernel maps are arguments. A handler
  that is still looking for a usable TEID after all its readings is \<open>Fail StillAllocating\<close>;
  no other failure leaves a handler.
\<close>

section \<open>State\<close>

record peer_record =
  pe_NodeIDKey :: string
  pe_RecoveryTS :: u32
  pe_LastSeen :: gtime
  pe_LastAddr :: "udp_addr option"

datatype ip_net = Net4 u32 u32 | Net6 "128 word" "128 word"

text \<open>The peers map holds pointers: two keys may name the same record of the heap.\<close>

record pfcp_server =
  sv_NodeID :: bytes
  sv_LocalIP :: ip_addr
  sv_AccessIP :: ip_addr
  sv_CoreIP :: ip_addr
  sv_TS :: u32
  sv_Allowed :: "ip_net list"
  sv_PeerHeap :: "peer_record list"
  sv_Peers :: "(string, nat) gomap"
  sv_Sessions :: ustate
  sv_HasEndMarkers :: bool
  sv_HasPathPeers :: bool
  sv_BPF :: "compiler option"
  sv_DP :: dataplane

record peer_view =
  pv_NodeIDKey :: string
  pv_State :: string
  pv_RecoveryTimestamp :: u32
  pv_LastSeen :: gtime
  pv_LastAddr :: string
  pv_SessionCount :: nat

datatype server_effect =
    PFCPReply udp_addr bytes
  | PFCPRequest udp_addr bytes
  | SendEndMarkerTo u32 ip_addr
  | PathPeerAdd ip_addr

datatype rule_error =
    RejectCause u8
  | BadElement pfcp_ie_error
  | MissingElement u16
  | RuleExists nat
  | RuleUnknown nat
  | NoLocalAddress u8
  | BPFError bpf_error
  | StillAllocating

type_synonym 'a rule_result = "(rule_error, 'a) outcome"
type_synonym handled = "(pfcp_server \<times> server_effect list) rule_result"

text \<open>What a handler reads from outside: the clock, the readings of its \<open>k\<close>-th call of
  \<^verbatim>\<open>AllocTEID\<close>, the faults of the kernel maps.\<close>

record server_env =
  ev_now :: gtime
  ev_rand :: "nat \<Rightarrow> u32 option list"
  ev_faults :: map_faults

record far_update =
  fu_FARID :: u32
  fu_ApplyAction :: "pfcp_ie option"
  fu_Forwarding :: "pfcp_ie option"

type_synonym end_marker = "u32 \<times> u32 \<times> ip_addr"

section \<open>Keys and addresses\<close>

fun net_Contains :: "ip_net \<Rightarrow> ip_addr \<Rightarrow> bool" where
  "net_Contains (Net4 n m) (IP4 a) = (n AND m = a AND m)"
| "net_Contains (Net6 n m) (IP6 a) = (n AND m = a AND m)"
| "net_Contains _ _ = False"

definition isAllowed :: "pfcp_server \<Rightarrow> ip_addr \<Rightarrow> bool" where
  "isAllowed sv ip = (if sv_Allowed sv = [] then True else \<exists>n \<in> set (sv_Allowed sv). net_Contains n ip)"

definition ip_of_bytes :: "bytes \<Rightarrow> ip_addr" where
  "ip_of_bytes b = (case b of [p, q, r, s] \<Rightarrow> IP4 (rd32 p q r s) | _ \<Rightarrow> NoAddr)"

definition nodeIDKey :: "pfcp_ie \<Rightarrow> string" where
  "nodeIDKey i = (case NodeIDIPv4 i of Some ip \<Rightarrow> ''ipv4:'' @ addr_String (ip_of_bytes ip) | None \<Rightarrow> [])"

definition sourceKey :: "udp_addr \<Rightarrow> string" where
  "sourceKey a = ''ipv4:'' @ addr_String (uaIP a)"

definition cpNodeKey :: "pfcp_ie \<Rightarrow> udp_addr \<Rightarrow> string" where
  "cpNodeKey i a = (let key = nodeIDKey i in if key \<noteq> [] then key else sourceKey a)"

definition udp_String :: "udp_addr \<Rightarrow> string" where
  "udp_String a = joinHostPort (addr_String (uaIP a)) (itoa (uaPort a))"

definition hasAssociation :: "pfcp_server \<Rightarrow> udp_addr \<Rightarrow> bool" where
  "hasAssociation sv a \<longleftrightarrow> mget (sv_Peers sv) (sourceKey a) \<noteq> None"

definition Peers :: "pfcp_server \<Rightarrow> peer_view list" where
  "Peers sv = map (\<lambda>r. let pr = sv_PeerHeap sv ! r in
     \<lparr>pv_NodeIDKey = pe_NodeIDKey pr, pv_State = ''Established'', pv_RecoveryTimestamp = pe_RecoveryTS pr,
      pv_LastSeen = pe_LastSeen pr,
      pv_LastAddr = (case pe_LastAddr pr of Some a \<Rightarrow> udp_String a | None \<Rightarrow> []),
      pv_SessionCount = countByCPNodeKey (stHeap (sv_Sessions sv)) (pe_NodeIDKey pr) (stStore (sv_Sessions sv))\<rparr>)
     (rev (remdups (rev (map snd (sv_Peers sv)))))"

section \<open>Replies\<close>

definition node_header :: "u8 \<Rightarrow> u32 \<Rightarrow> pfcp_header" where
  "node_header t s = \<lparr>ph_Version = 1, ph_HasSEID = False, ph_MessageType = t, ph_Length = 0, ph_SEID = 0,
     ph_SequenceNumber = s\<rparr>"

definition session_header :: "u8 \<Rightarrow> u64 \<Rightarrow> u32 \<Rightarrow> pfcp_header" where
  "session_header t seid s = \<lparr>ph_Version = 1, ph_HasSEID = True, ph_MessageType = t, ph_Length = 0,
     ph_SEID = seid, ph_SequenceNumber = s\<rparr>"

definition replySessionEst :: "pfcp_server \<Rightarrow> udp_addr \<Rightarrow> pfcp_header \<Rightarrow> u8 \<Rightarrow> server_effect" where
  "replySessionEst sv a hdr cause = PFCPReply a (pfcp_Marshal
     (session_header MsgTypeSessionEstablishmentResponse 0 (ph_SequenceNumber hdr))
     [NewNodeIDIPv4 (sv_NodeID sv), pfcp_NewCause cause])"

definition replySessionMod :: "udp_addr \<Rightarrow> pfcp_header \<Rightarrow> u8 \<Rightarrow> server_effect" where
  "replySessionMod a hdr cause = PFCPReply a (pfcp_Marshal
     (session_header MsgTypeSessionModificationResponse 0 (ph_SequenceNumber hdr)) [pfcp_NewCause cause])"

definition replySessionDel :: "udp_addr \<Rightarrow> pfcp_header \<Rightarrow> u8 \<Rightarrow> server_effect" where
  "replySessionDel a hdr cause = PFCPReply a (pfcp_Marshal
     (session_header MsgTypeSessionDeletionResponse 0 (ph_SequenceNumber hdr)) [pfcp_NewCause cause])"

section \<open>The kernel rules\<close>

definition bpf_apply ::
    "(map_faults \<Rightarrow> compiler \<Rightarrow> usession \<Rightarrow> dataplane \<Rightarrow> (bpf_error, sync_state) outcome) \<Rightarrow>
     server_env \<Rightarrow> usession \<Rightarrow> pfcp_server \<Rightarrow> (bpf_error option \<times> pfcp_server) rule_result" where
  "bpf_apply f env sess sv = (case sv_BPF sv of
     None \<Rightarrow> Ok (None, sv)
   | Some c \<Rightarrow> (case f (ev_faults env) c sess (sv_DP sv) of
         Ok st \<Rightarrow> Ok (ssFirstErr st, sv\<lparr>sv_DP := ssDP st\<rparr>)
       | Fail e \<Rightarrow> Ok (Some e, sv)
       | Panic \<Rightarrow> Panic))"

fun bpf_remove_all :: "server_env \<Rightarrow> usession list \<Rightarrow> pfcp_server \<Rightarrow> pfcp_server rule_result" where
  "bpf_remove_all env [] sv = Ok sv"
| "bpf_remove_all env (s # ss) sv =
     obind (bpf_apply removeSession env s sv) (\<lambda>(_, sv'). bpf_remove_all env ss sv')"

definition deletePeerSessions :: "server_env \<Rightarrow> string \<Rightarrow> pfcp_server \<Rightarrow> pfcp_server rule_result" where
  "deletePeerSessions env peerKey sv =
     (let st = sv_Sessions sv; (s', deleted) = deleteByCPNodeKey (stHeap st) peerKey (stStore st) in
      bpf_remove_all env (map (stHeap st) deleted) (sv\<lparr>sv_Sessions := st\<lparr>stStore := s'\<rparr>\<rparr>))"

section \<open>Associations\<close>

definition note_peer :: "gtime \<Rightarrow> string \<Rightarrow> u32 \<Rightarrow> udp_addr \<Rightarrow> pfcp_server \<Rightarrow> pfcp_server" where
  "note_peer now peerKey peerTS a sv =
     (let (r, sv1) = (case mget (sv_Peers sv) peerKey of
            Some r \<Rightarrow> (r, sv\<lparr>sv_PeerHeap := (sv_PeerHeap sv)[r := (sv_PeerHeap sv ! r)
                \<lparr>pe_RecoveryTS := peerTS, pe_LastSeen := now, pe_LastAddr := Some a\<rparr>]\<rparr>)
          | None \<Rightarrow> (length (sv_PeerHeap sv), sv\<lparr>
              sv_PeerHeap := sv_PeerHeap sv @ [\<lparr>pe_NodeIDKey = peerKey, pe_RecoveryTS = peerTS,
                pe_LastSeen = now, pe_LastAddr = Some a\<rparr>],
              sv_Peers := mput peerKey (length (sv_PeerHeap sv)) (sv_Peers sv)\<rparr>))
      in if sourceKey a \<noteq> peerKey then sv1\<lparr>sv_Peers := mput (sourceKey a) r (sv_Peers sv1)\<rparr> else sv1)"

definition handleAssocSetup :: "server_env \<Rightarrow> udp_addr \<Rightarrow> pfcp_header \<Rightarrow> bytes \<Rightarrow> pfcp_server \<Rightarrow> handled" where
  "handleAssocSetup env a hdr raw sv = (case ParseAssociationSetupRequest raw of
     Panic \<Rightarrow> Panic
   | Fail _ \<Rightarrow> Ok (sv, [PFCPReply a (pfcp_Marshal
        (node_header MsgTypeAssociationSetupResponse (ph_SequenceNumber hdr))
        [NewNodeIDIPv4 (sv_NodeID sv), pfcp_NewCause CauseRequestRejected, NewRecoveryTimeStamp (sv_TS sv)])])
   | Ok req \<Rightarrow>
       let peerTS = value_or0 (RecoveryTimeStampValue (asq_RecoveryTimeStamp req));
           key = nodeIDKey (asq_NodeID req);
           peerKey = (if key = [] then ''addr:'' @ udp_String a else key)
       in Ok (note_peer (ev_now env) peerKey peerTS a sv, [PFCPReply a (pfcp_Marshal
            (node_header MsgTypeAssociationSetupResponse (ph_SequenceNumber (asq_Header req)))
            [NewNodeIDIPv4 (sv_NodeID sv), pfcp_NewCause CauseRequestAccepted,
             NewRecoveryTimeStamp (sv_TS sv), NewUPFunctionFeatures 0x10])]))"

definition handleHeartbeat :: "server_env \<Rightarrow> udp_addr \<Rightarrow> bytes \<Rightarrow> pfcp_server \<Rightarrow> handled" where
  "handleHeartbeat env a raw sv = (case ParseHeartbeatRequest raw of
     Panic \<Rightarrow> Panic
   | Fail _ \<Rightarrow> Ok (sv, [])
   | Ok req \<Rightarrow>
       let peerTS = value_or0 (RecoveryTimeStampValue (hb_RecoveryTimeStamp req));
           reply = PFCPReply a (pfcp_Marshal
             (node_header MsgTypeHeartbeatResponse (ph_SequenceNumber (hb_Header req)))
             [NewRecoveryTimeStamp (sv_TS sv)])
       in case mget (sv_Peers sv) (sourceKey a) of
            None \<Rightarrow> Ok (sv, [reply])
          | Some r \<Rightarrow>
              let pr = sv_PeerHeap sv ! r in
              obind (if pe_RecoveryTS pr \<noteq> 0 \<and> peerTS \<noteq> pe_RecoveryTS pr
                then deletePeerSessions env (sourceKey a) sv else Ok sv) (\<lambda>sv1.
              Ok (sv1\<lparr>sv_PeerHeap := (sv_PeerHeap sv1)[r := (sv_PeerHeap sv1 ! r)
                    \<lparr>pe_RecoveryTS := peerTS, pe_LastSeen := ev_now env\<rparr>]\<rparr>, [reply])))"

definition handleAssociationRelease :: "server_env \<Rightarrow> udp_addr \<Rightarrow> bytes \<Rightarrow> pfcp_server \<Rightarrow> handled" where
  "handleAssociationRelease env a raw sv = (case ParseAssociationReleaseRequest raw of
     Panic \<Rightarrow> Panic
   | Fail _ \<Rightarrow> Ok (sv, [])
   | Ok req \<Rightarrow>
       let peerKey = cpNodeKey (arq_NodeID req) a in
       obind (deletePeerSessions env peerKey sv) (\<lambda>sv1.
         Ok (sv1\<lparr>sv_Peers := mdel peerKey (sv_Peers sv1)\<rparr>, [PFCPReply a (pfcp_Marshal
           (node_header MsgTypeAssociationReleaseResponse (ph_SequenceNumber (arq_Header req)))
           [NewNodeIDIPv4 (sv_NodeID sv), pfcp_NewCause CauseRequestAccepted])])))"

section \<open>Rules of an establishment\<close>

text \<open>A method call on the result of \<^verbatim>\<open>Find\<close>: nil panics.\<close>

definition with_ie :: "pfcp_ie option \<Rightarrow> (pfcp_ie \<Rightarrow> 'a rule_result) \<Rightarrow> 'a rule_result" where
  "with_ie x f = (case x of None \<Rightarrow> Panic | Some i \<Rightarrow> f i)"

abbreviation (input) pfcp_TypeActivatePredefinedRules :: u16 where "pfcp_TypeActivatePredefinedRules \<equiv> 106"

definition validate_create_pdr :: "pfcp_ie \<Rightarrow> unit rule_result" where
  "validate_create_pdr i = (case Children i of
     Panic \<Rightarrow> Panic
   | Fail _ \<Rightarrow> Fail (RejectCause CauseRequestRejected)
   | Ok children \<Rightarrow>
       if pfcp_Find children pfcp_TypePDRID = None \<or> pfcp_Find children pfcp_TypePrecedence = None \<or>
          pfcp_Find children pfcp_TypePDI = None
       then Fail (RejectCause CauseRuleCreationFailure)
       else if pfcp_Find children pfcp_TypeFARID = None \<and>
          pfcp_Find children pfcp_TypeActivatePredefinedRules = None
       then Fail (RejectCause CauseRuleCreationFailure)
       else with_ie (pfcp_Find children pfcp_TypePDI) (\<lambda>pdi. case Children pdi of
           Panic \<Rightarrow> Panic
         | Fail _ \<Rightarrow> Fail (RejectCause CauseRuleCreationFailure)
         | Ok pcs \<Rightarrow> if pfcp_Find pcs pfcp_TypeSourceInterface = None
             then Fail (RejectCause CauseRuleCreationFailure) else Ok ()))"

definition validate_create_far :: "pfcp_ie \<Rightarrow> unit rule_result" where
  "validate_create_far i = (case Children i of
     Panic \<Rightarrow> Panic
   | Fail _ \<Rightarrow> Fail (RejectCause CauseRequestRejected)
   | Ok children \<Rightarrow>
       if pfcp_Find children pfcp_TypeFARID = None \<or> pfcp_Find children pfcp_TypeApplyAction = None
       then Fail (RejectCause CauseRuleCreationFailure)
       else with_ie (pfcp_Find children pfcp_TypeApplyAction) (\<lambda>aa.
         if value_or0 (ApplyActionValue aa) AND ApplyActionFORW \<noteq> 0 then
           (case pfcp_Find children pfcp_TypeForwardingParameters of
              None \<Rightarrow> Fail (RejectCause CauseRuleCreationFailure)
            | Some fp \<Rightarrow> (case Children fp of
                  Panic \<Rightarrow> Panic
                | Fail _ \<Rightarrow> Fail (RejectCause CauseRuleCreationFailure)
                | Ok fcs \<Rightarrow> if pfcp_Find fcs pfcp_TypeDestinationInterface = None
                    then Fail (RejectCause CauseRuleCreationFailure) else Ok ()))
         else Ok ()))"

fun each_ok :: "('a \<Rightarrow> unit rule_result) \<Rightarrow> 'a list \<Rightarrow> unit rule_result" where
  "each_ok f [] = Ok ()"
| "each_ok f (x # xs) = obind (f x) (\<lambda>_. each_ok f xs)"

definition localGTPUIPForSource :: "pfcp_server \<Rightarrow> u8 \<Rightarrow> ip_addr rule_result" where
  "localGTPUIPForSource sv src =
     (if src = SourceInterfaceAccess then Ok (sv_AccessIP sv)
      else if src = SourceInterfaceCore then Ok (sv_CoreIP sv)
      else Fail (NoLocalAddress src))"

definition newCreatedPDRForSource :: "pfcp_server \<Rightarrow> u16 \<Rightarrow> u32 \<Rightarrow> u8 \<Rightarrow> (ip_addr \<times> pfcp_ie) rule_result" where
  "newCreatedPDRForSource sv pid teid src =
     obind (localGTPUIPForSource sv src) (\<lambda>ip.
     obind (wrap_err BadElement (NewFTEIDv4 teid ip)) (\<lambda>f. Ok (ip, NewCreatedPDR [NewPDRID pid, f])))"

definition alloc_local_teid :: "server_env \<Rightarrow> nat \<Rightarrow> pfcp_server \<Rightarrow> u32 rule_result" where
  "alloc_local_teid env k sv =
     (case allocTEID (stHeap (sv_Sessions sv)) (stStore (sv_Sessions sv)) (ev_rand env k) of
        None \<Rightarrow> Fail StillAllocating
      | Some (Ok t) \<Rightarrow> Ok t
      | Some _ \<Rightarrow> Panic)"

definition zero_pdr :: pdr where
  "zero_pdr = \<lparr>pdrID = 0, pdrPrecedence = 0, pdrSourceInterface = 0, pdrLocalTEID = 0, pdrLocalIP = NoAddr,
     pdrFARID = 0, pdrEBI = 0, pdrQCI = 0, pdrQoSValid = False\<rparr>"

definition set_qos :: "rule_error \<Rightarrow> pfcp_ie list \<Rightarrow> pdr \<Rightarrow> pdr rule_result" where
  "set_qos e children p = (case pfcp_Find children pfcp_TypeVectorCoreQoSMarking of
     None \<Rightarrow> Ok p
   | Some q \<Rightarrow> (case VectorCoreQoSMarkingValue q of
       Ok (ebi, qci, valid) \<Rightarrow> Ok (p\<lparr>pdrEBI := ebi, pdrQCI := qci, pdrQoSValid := valid\<rparr>)
     | Fail _ \<Rightarrow> Fail e
     | Panic \<Rightarrow> Panic))"

definition set_precedence :: "pfcp_ie option \<Rightarrow> pdr \<Rightarrow> pdr" where
  "set_precedence prec p = (case prec of
     Some i \<Rightarrow> (let v = pValue i in
       if 4 \<le> length v then p\<lparr>pdrPrecedence := rd32 (v ! 0) (v ! 1) (v ! 2) (v ! 3)\<rparr> else p)
   | None \<Rightarrow> p)"

text \<open>The F-TEID of a Create PDR in the second pass: a TEID is allocated if the request asks for
  one (\<open>k\<close> counts those allocated so far); a TEID the request gives is not stored.\<close>

definition ser_choose :: "server_env \<Rightarrow> pfcp_server \<Rightarrow> nat \<Rightarrow> pdr \<Rightarrow> (pdr \<times> pfcp_ie option) rule_result" where
  "ser_choose env sv k p =
     obind (alloc_local_teid env k sv) (\<lambda>teid.
       (case newCreatedPDRForSource sv (pdrID p) teid (pdrSourceInterface p) of
          Panic \<Rightarrow> Panic
        | Fail _ \<Rightarrow> Fail (RejectCause CauseRuleCreationFailure)
        | Ok (ip, created) \<Rightarrow> Ok (p\<lparr>pdrLocalTEID := teid, pdrLocalIP := ip\<rparr>, Some created)))"

definition ser_fteid :: "server_env \<Rightarrow> pfcp_server \<Rightarrow> nat \<Rightarrow> pfcp_ie list \<Rightarrow> pdr \<Rightarrow> (pdr \<times> pfcp_ie option) rule_result" where
  "ser_fteid env sv k pcs p = (case pfcp_Find pcs pfcp_TypeFTEID of
     None \<Rightarrow> Ok (p, None)
   | Some fIE \<Rightarrow> (case FTEIDPFCPValue fIE of
         Panic \<Rightarrow> Panic
       | Fail _ \<Rightarrow> Fail (RejectCause CauseRuleCreationFailure)
       | Ok (_, isCH) \<Rightarrow> if isCH then ser_choose env sv k p else Ok (p, None)))"

text \<open>The second pass over a Create PDR: the PDR and, if the F-TEID is chosen here, the Created PDR
  of the response. Methods are called on the results of \<^verbatim>\<open>Find\<close> without a check; what the
  first pass did not require may be nil.\<close>

definition ser_create_pdr :: "server_env \<Rightarrow> pfcp_server \<Rightarrow> nat \<Rightarrow> pfcp_ie \<Rightarrow> (pdr \<times> pfcp_ie option) rule_result" where
  "ser_create_pdr env sv k i =
     (let children = (case Children i of Ok cs \<Rightarrow> cs | _ \<Rightarrow> []) in
      with_ie (pfcp_Find children pfcp_TypePDRID) (\<lambda>idIE.
      with_ie (pfcp_Find children pfcp_TypeFARID) (\<lambda>farIE.
      with_ie (pfcp_Find children pfcp_TypePDI) (\<lambda>pdi.
        let pcs = (case Children pdi of Ok cs \<Rightarrow> cs | _ \<Rightarrow> []) in
        with_ie (pfcp_Find pcs pfcp_TypeSourceInterface) (\<lambda>srcIE.
          obind (set_qos (RejectCause CauseRuleCreationFailure) children
            (zero_pdr\<lparr>pdrID := value_or0 (PDRIDValue idIE), pdrFARID := value_or0 (FARIDValue farIE),
                      pdrSourceInterface := value_or0 (SourceInterfaceValue srcIE)\<rparr>)) (\<lambda>p.
            ser_fteid env sv k pcs (set_precedence (pfcp_Find children pfcp_TypePrecedence) p)))))))"

fun ser_create_pdrs :: "server_env \<Rightarrow> pfcp_server \<Rightarrow> pfcp_ie list \<Rightarrow> pdr list \<times> pfcp_ie list \<Rightarrow>
    (pdr list \<times> pfcp_ie list) rule_result" where
  "ser_create_pdrs env sv [] acc = Ok acc"
| "ser_create_pdrs env sv (i # is) (pdrs, created) =
     obind (ser_create_pdr env sv (length created) i) (\<lambda>(p, c).
       ser_create_pdrs env sv is (pdrs @ [p], created @ (case c of Some x \<Rightarrow> [x] | None \<Rightarrow> [])))"

definition zero_pfcp_far :: far where
  "zero_pfcp_far = \<lparr>farID = 0, farApplyAction = 0, farDestInterface = 0, farOuterTEID = 0,
     farOuterIP = NoAddr, farDropReason = DropReasonNone\<rparr>"

definition ser_create_far :: "pfcp_ie \<Rightarrow> far rule_result" where
  "ser_create_far i =
     (let children = (case Children i of Ok cs \<Rightarrow> cs | _ \<Rightarrow> []) in
      with_ie (pfcp_Find children pfcp_TypeFARID) (\<lambda>idIE.
      with_ie (pfcp_Find children pfcp_TypeApplyAction) (\<lambda>aaIE.
        let act = value_or0 (ApplyActionValue aaIE);
            x = zero_pfcp_far\<lparr>farID := value_or0 (FARIDValue idIE), farApplyAction := act\<rparr> in
        case pfcp_Find children pfcp_TypeForwardingParameters of
          Some fp \<Rightarrow>
            if act AND ApplyActionFORW = 0 then Ok x
            else (case Children fp of
                Ok fcs \<Rightarrow>
                  let x1 = (case pfcp_Find fcs pfcp_TypeDestinationInterface of
                        Some d \<Rightarrow> x\<lparr>farDestInterface := value_or0 (DestinationInterfaceValue d)\<rparr> | None \<Rightarrow> x)
                  in Ok (case pfcp_Find fcs pfcp_TypeOuterHeaderCreation of
                        Some oIE \<Rightarrow> (case OuterHeaderCreationValue oIE of
                            Ok ohc \<Rightarrow> x1\<lparr>farOuterTEID := ohc_TEID ohc, farOuterIP := ohc_IPv4 ohc\<rparr>
                          | _ \<Rightarrow> x1)
                      | None \<Rightarrow> x1)
              | _ \<Rightarrow> Ok x)
        | None \<Rightarrow> Ok x)))"

fun ser_create_fars :: "pfcp_ie list \<Rightarrow> far list rule_result" where
  "ser_create_fars [] = Ok []"
| "ser_create_fars (i # is) = obind (ser_create_far i) (\<lambda>x. obind (ser_create_fars is) (\<lambda>xs. Ok (x # xs)))"

section \<open>Session establishment\<close>

definition trackSessionPathPeers :: "pfcp_server \<Rightarrow> far list \<Rightarrow> server_effect list" where
  "trackSessionPathPeers sv fars =
     (if \<not> sv_HasPathPeers sv then []
      else map PathPeerAdd (rev (remdups (rev (filter is4 (map farOuterIP fars))))))"

text \<open>The UP-SEID is allocated before the rules are looked at, so a rejected request still
  uses one up.\<close>

definition ser_alloc_seid :: "ustate \<Rightarrow> ustate" where
  "ser_alloc_seid st = st\<lparr>stStore := snd (allocSEID (stStore st)), stNext := stNext st + 1\<rparr>"

definition ser_rules :: "server_env \<Rightarrow> pfcp_server \<Rightarrow> session_est_request \<Rightarrow>
    (pdr list \<times> pfcp_ie list \<times> far list) rule_result" where
  "ser_rules env sv req =
     obind (each_ok validate_create_pdr (seq_CreatePDRs req)) (\<lambda>_.
     obind (each_ok validate_create_far (seq_CreateFARs req)) (\<lambda>_.
     obind (ser_create_pdrs env sv (seq_CreatePDRs req) ([], [])) (\<lambda>(pdrs, created).
     obind (ser_create_fars (seq_CreateFARs req)) (\<lambda>fars. Ok (pdrs, created, fars)))))"

text \<open>From the store on: the session object gets the next reference.\<close>

definition ser_commit :: "server_env \<Rightarrow> udp_addr \<Rightarrow> pfcp_header \<Rightarrow> u64 \<Rightarrow> pdr list \<times> pfcp_ie list \<times> far list \<Rightarrow>
    session_est_request \<Rightarrow> pfcp_server \<Rightarrow> handled" where
  "ser_commit env a hdr cp rules req sv =
     (let (pdrs, created, fars) = rules;
          st = sv_Sessions sv;
          up = fst (allocSEID (stStore st));
          r = stNext st;
          sess = \<lparr>uCPSEID = cp, uUPSEID = up, uCPNodeKey = sourceKey a, uPDRs = pdrs, uFARs = fars\<rparr>;
          st1 = establish cp (sourceKey a) pdrs fars st;
          sv1 = sv\<lparr>sv_Sessions := st1\<rparr>
      in if mget (byCPSEID (stStore st)) cp \<noteq> None
         then Ok (sv1, [replySessionEst sv a hdr CauseRequestRejected])
         else obind (bpf_apply installSession env sess sv1) (\<lambda>(err, sv2).
           case err of
             Some _ \<Rightarrow> Ok (sv2\<lparr>sv_Sessions := st1\<lparr>stStore := deleteByCPSEID (stHeap st1) cp (stStore st1)\<rparr>\<rparr>,
                 [replySessionEst sv a hdr CauseRuleCreationFailure])
           | None \<Rightarrow> obind (wrap_err BadElement (NewFSEID up (sv_LocalIP sv))) (\<lambda>upFSEID.
                 Ok (sv2, trackSessionPathPeers sv fars @ [PFCPReply a (pfcp_Marshal
                   (session_header MsgTypeSessionEstablishmentResponse cp (ph_SequenceNumber (seq_Header req)))
                   ([NewNodeIDIPv4 (sv_NodeID sv), pfcp_NewCause CauseRequestAccepted, upFSEID] @ created))]))))"

definition handleSessionEstablishment :: "server_env \<Rightarrow> udp_addr \<Rightarrow> pfcp_header \<Rightarrow> bytes \<Rightarrow> pfcp_server \<Rightarrow> handled" where
  "handleSessionEstablishment env a hdr raw sv =
     (if \<not> hasAssociation sv a then Ok (sv, [replySessionEst sv a hdr CauseNoEstablishedAssociation])
      else case ParseSessionEstablishmentRequest raw of
        Panic \<Rightarrow> Panic
      | Fail _ \<Rightarrow> Ok (sv, [replySessionEst sv a hdr CauseRequestRejected])
      | Ok req \<Rightarrow> (case FSEIDValue (seq_CPSEID req) of
            Panic \<Rightarrow> Panic
          | Fail _ \<Rightarrow> Ok (sv, [replySessionEst sv a hdr CauseRequestRejected])
          | Ok cpFSEID \<Rightarrow> (case ser_rules env sv req of
                Panic \<Rightarrow> Panic
              | Fail (RejectCause c) \<Rightarrow>
                  Ok (sv\<lparr>sv_Sessions := ser_alloc_seid (sv_Sessions sv)\<rparr>, [replySessionEst sv a hdr c])
              | Fail e \<Rightarrow> Fail e
              | Ok rules \<Rightarrow> ser_commit env a hdr (pfs_SEID cpFSEID) rules req sv)))"

section \<open>Session modification\<close>

definition find_required :: "pfcp_ie list \<Rightarrow> u16 \<Rightarrow> (pfcp_ie \<Rightarrow> 'a rule_result) \<Rightarrow> 'a rule_result" where
  "find_required cs t f = (case pfcp_Find cs t of None \<Rightarrow> Fail (MissingElement t) | Some i \<Rightarrow> f i)"

definition children_of :: "pfcp_ie \<Rightarrow> pfcp_ie list rule_result" where
  "children_of i = wrap_err BadElement (Children i)"

definition parseCreatePDR :: "pfcp_ie \<Rightarrow> (pdr \<times> bool) rule_result" where
  "parseCreatePDR i =
     obind (children_of i) (\<lambda>children.
     find_required children pfcp_TypePDRID (\<lambda>idIE.
     find_required children pfcp_TypePrecedence (\<lambda>precIE.
     find_required children pfcp_TypeFARID (\<lambda>farIE.
     find_required children pfcp_TypePDI (\<lambda>pdi.
     obind (children_of pdi) (\<lambda>pcs.
     find_required pcs pfcp_TypeSourceInterface (\<lambda>srcIE.
       let p0 = zero_pdr\<lparr>pdrID := value_or0 (PDRIDValue idIE), pdrFARID := value_or0 (FARIDValue farIE),
                         pdrSourceInterface := value_or0 (SourceInterfaceValue srcIE)\<rparr> in
       obind (set_qos (MissingElement pfcp_TypeVectorCoreQoSMarking) children p0) (\<lambda>p1.
         let p2 = set_precedence (Some precIE) p1 in
         case pfcp_Find pcs pfcp_TypeFTEID of
           None \<Rightarrow> Ok (p2, False)
         | Some fIE \<Rightarrow> obind (wrap_err BadElement (FTEIDPFCPValue fIE)) (\<lambda>(f, isCH).
             Ok (if isCH then p2 else p2\<lparr>pdrLocalTEID := pft_TEID f, pdrLocalIP := pft_IPv4 f\<rparr>, isCH))))))))))"

definition parseCreateFAR :: "pfcp_ie \<Rightarrow> far rule_result" where
  "parseCreateFAR i =
     obind (children_of i) (\<lambda>children.
     find_required children pfcp_TypeFARID (\<lambda>idIE.
     find_required children pfcp_TypeApplyAction (\<lambda>aaIE.
       let act = value_or0 (ApplyActionValue aaIE);
           x = zero_pfcp_far\<lparr>farID := value_or0 (FARIDValue idIE), farApplyAction := act\<rparr> in
       if act AND ApplyActionFORW = 0 then Ok x
       else
         find_required children pfcp_TypeForwardingParameters (\<lambda>fp.
         obind (children_of fp) (\<lambda>fcs.
         find_required fcs pfcp_TypeDestinationInterface (\<lambda>d.
           let x1 = x\<lparr>farDestInterface := value_or0 (DestinationInterfaceValue d)\<rparr> in
           case pfcp_Find fcs pfcp_TypeOuterHeaderCreation of
             None \<Rightarrow> Ok x1
           | Some oIE \<Rightarrow> obind (wrap_err BadElement (OuterHeaderCreationValue oIE)) (\<lambda>ohc.
               Ok (x1\<lparr>farOuterTEID := ohc_TEID ohc, farOuterIP := ohc_IPv4 ohc\<rparr>))))))))"

fun smr_create_fars :: "pfcp_ie list \<Rightarrow> far list \<Rightarrow> far list rule_result" where
  "smr_create_fars [] fars = Ok fars"
| "smr_create_fars (i # is) fars = obind (parseCreateFAR i) (\<lambda>x.
     if \<exists>e \<in> set fars. farID e = farID x then Fail (RuleExists (unat (farID x)))
     else smr_create_fars is (fars @ [x]))"

fun smr_create_pdrs :: "server_env \<Rightarrow> pfcp_server \<Rightarrow> pfcp_ie list \<Rightarrow> pdr list \<times> pfcp_ie list \<Rightarrow>
    (pdr list \<times> pfcp_ie list) rule_result" where
  "smr_create_pdrs env sv [] acc = Ok acc"
| "smr_create_pdrs env sv (i # is) (pdrs, created) = obind (parseCreatePDR i) (\<lambda>(p, isCH).
     if \<exists>e \<in> set pdrs. pdrID e = pdrID p then Fail (RuleExists (unat (pdrID p)))
     else if isCH then
       obind (alloc_local_teid env (length created) sv) (\<lambda>teid.
       obind (newCreatedPDRForSource sv (pdrID p) teid (pdrSourceInterface p)) (\<lambda>(ip, c).
         smr_create_pdrs env sv is (pdrs @ [p\<lparr>pdrLocalTEID := teid, pdrLocalIP := ip\<rparr>], created @ [c])))
     else smr_create_pdrs env sv is (pdrs @ [p], created))"

fun smr_remove_pdrs :: "pfcp_ie list \<Rightarrow> pdr list \<Rightarrow> pdr list rule_result" where
  "smr_remove_pdrs [] pdrs = Ok pdrs"
| "smr_remove_pdrs (i # is) pdrs = obind (children_of i) (\<lambda>children.
     find_required children pfcp_TypePDRID (\<lambda>idIE.
       let pid = value_or0 (PDRIDValue idIE) in
       if \<forall>p \<in> set pdrs. pdrID p \<noteq> pid then Fail (RuleUnknown (unat pid))
       else smr_remove_pdrs is (filter (\<lambda>p. pdrID p \<noteq> pid) pdrs)))"

fun smr_remove_fars :: "pfcp_ie list \<Rightarrow> far list \<Rightarrow> far list rule_result" where
  "smr_remove_fars [] fars = Ok fars"
| "smr_remove_fars (i # is) fars = obind (children_of i) (\<lambda>children.
     find_required children pfcp_TypeFARID (\<lambda>idIE.
       let fid = value_or0 (FARIDValue idIE) in
       if \<forall>x \<in> set fars. farID x \<noteq> fid then Fail (RuleUnknown (unat fid))
       else smr_remove_fars is (filter (\<lambda>x. farID x \<noteq> fid) fars)))"

fun parseUpdateFARs :: "pfcp_ie list \<Rightarrow> far list \<Rightarrow> far_update list rule_result" where
  "parseUpdateFARs [] fars = Ok []"
| "parseUpdateFARs (i # is) fars = obind (children_of i) (\<lambda>children.
     find_required children pfcp_TypeFARID (\<lambda>idIE.
       let fid = value_or0 (FARIDValue idIE) in
       if \<forall>x \<in> set fars. farID x \<noteq> fid then Fail (RuleUnknown (unat fid))
       else obind (parseUpdateFARs is fars) (\<lambda>us.
         Ok (\<lparr>fu_FARID = fid, fu_ApplyAction = pfcp_Find children pfcp_TypeApplyAction,
              fu_Forwarding = pfcp_Find children pfcp_TypeUpdateForwardingParameters\<rparr> # us))))"

definition apply_action :: "u8 \<Rightarrow> far \<Rightarrow> far" where
  "apply_action act x =
     x\<lparr>farApplyAction := act,
       farDropReason :=
         (if act AND ApplyActionFORW \<noteq> 0 then DropReasonNone
          else if act AND ApplyActionDROP \<noteq> 0 \<and> farApplyAction x AND ApplyActionFORW \<noteq> 0 \<and> farDestInterface x = 0
            then DropReasonReleaseAccessBearers
          else if act AND ApplyActionDROP \<noteq> 0 \<and> farDropReason x = DropReasonNone then DropReasonPolicy
          else farDropReason x)\<rparr>"

definition apply_forwarding :: "pfcp_ie list \<Rightarrow> far \<Rightarrow> far rule_result" where
  "apply_forwarding fcs x =
     obind (case pfcp_Find fcs pfcp_TypeDestinationInterface of
              None \<Rightarrow> Ok x
            | Some d \<Rightarrow> obind (wrap_err BadElement (DestinationInterfaceValue d)) (\<lambda>v.
                Ok (x\<lparr>farDestInterface := v\<rparr>))) (\<lambda>x1.
     case pfcp_Find fcs pfcp_TypeOuterHeaderCreation of
       None \<Rightarrow> Ok x1
     | Some oIE \<Rightarrow> obind (wrap_err BadElement (OuterHeaderCreationValue oIE)) (\<lambda>ohc.
         Ok (x1\<lparr>farOuterTEID := ohc_TEID ohc, farOuterIP := ohc_IPv4 ohc\<rparr>)))"

definition update_far :: "far_update \<Rightarrow> far \<Rightarrow> far rule_result" where
  "update_far u x =
     obind (case fu_ApplyAction u of
              None \<Rightarrow> Ok x
            | Some aa \<Rightarrow> obind (wrap_err BadElement (ApplyActionValue aa)) (\<lambda>act. Ok (apply_action act x))) (\<lambda>x1.
     case fu_Forwarding u of
       None \<Rightarrow> Ok x1
     | Some ufp \<Rightarrow> obind (children_of ufp) (\<lambda>fcs. apply_forwarding fcs x1))"

definition end_marker_for :: "far \<Rightarrow> far \<Rightarrow> end_marker list" where
  "end_marker_for old new =
     (if farOuterTEID old \<noteq> 0 \<and> isValid (farOuterIP old) \<and>
         (farOuterTEID old \<noteq> farOuterTEID new \<or> farOuterIP old \<noteq> farOuterIP new)
      then [(farID old, farOuterTEID old, farOuterIP old)] else [])"

text \<open>One update changes the first FAR with its identifier.\<close>

fun update_first :: "far_update \<Rightarrow> far list \<Rightarrow> (far list \<times> end_marker list) rule_result" where
  "update_first u [] = Fail (RuleUnknown (unat (fu_FARID u)))"
| "update_first u (x # xs) =
     (if farID x \<noteq> fu_FARID u then obind (update_first u xs) (\<lambda>(ys, ems). Ok (x # ys, ems))
      else obind (update_far u x) (\<lambda>y. Ok (y # xs, end_marker_for x y)))"

fun applyFARUpdatesToCandidate :: "far_update list \<Rightarrow> far list \<Rightarrow> (far list \<times> end_marker list) rule_result" where
  "applyFARUpdatesToCandidate [] fars = Ok (fars, [])"
| "applyFARUpdatesToCandidate (u # us) fars =
     obind (update_first u fars) (\<lambda>(fars1, e1).
     obind (applyFARUpdatesToCandidate us fars1) (\<lambda>(fars2, e2). Ok (fars2, e1 @ e2)))"

definition smr_candidate :: "server_env \<Rightarrow> pfcp_server \<Rightarrow> usession \<Rightarrow> session_mod_request \<Rightarrow>
    (usession \<times> pfcp_ie list \<times> end_marker list) rule_result" where
  "smr_candidate env sv sess req =
     obind (smr_create_fars (smq_CreateFARs req) (uFARs sess)) (\<lambda>fars1.
     obind (smr_create_pdrs env sv (smq_CreatePDRs req) (uPDRs sess, [])) (\<lambda>(pdrs1, created).
     obind (smr_remove_pdrs (smq_RemovePDRs req) pdrs1) (\<lambda>pdrs2.
     obind (smr_remove_fars (smq_RemoveFARs req) fars1) (\<lambda>fars2.
     obind (parseUpdateFARs (smq_UpdateFARs req) fars2) (\<lambda>us.
     obind (applyFARUpdatesToCandidate us fars2) (\<lambda>(fars3, ems).
       Ok (sess\<lparr>uPDRs := pdrs2, uFARs := fars3\<rparr>, created, ems)))))))"

text \<open>The kernel is updated from the candidate before the session is changed; an error leaves
  the session as it was.\<close>

definition applySessionModification :: "server_env \<Rightarrow> sref \<Rightarrow> session_mod_request \<Rightarrow> pfcp_server \<Rightarrow>
    ((rule_error + pfcp_ie list \<times> end_marker list) \<times> pfcp_server) rule_result" where
  "applySessionModification env r req sv =
     (let st = sv_Sessions sv; sess = stHeap st r in
      case smr_candidate env sv sess req of
        Panic \<Rightarrow> Panic
      | Fail StillAllocating \<Rightarrow> Fail StillAllocating
      | Fail e \<Rightarrow> Ok (Inl e, sv)
      | Ok (cand, created, ems) \<Rightarrow> obind (bpf_apply updateSession env cand sv) (\<lambda>(err, sv1).
          case err of
            Some e \<Rightarrow> Ok (Inl (BPFError e), sv1)
          | None \<Rightarrow> Ok (Inr (created, ems), sv1\<lparr>sv_Sessions := store_step (OpModify r (uPDRs cand) (uFARs cand)) st\<rparr>)))"

definition handleSessionModification :: "server_env \<Rightarrow> udp_addr \<Rightarrow> pfcp_header \<Rightarrow> bytes \<Rightarrow> pfcp_server \<Rightarrow> handled" where
  "handleSessionModification env a hdr raw sv =
     (if \<not> hasAssociation sv a then Ok (sv, [replySessionMod a hdr CauseNoEstablishedAssociation])
      else case ParseSessionModificationRequest raw of
        Panic \<Rightarrow> Panic
      | Fail _ \<Rightarrow> Ok (sv, [])
      | Ok req \<Rightarrow> (let h = smq_Header req in
          case findByUPSEID (stStore (sv_Sessions sv)) (ph_SEID h) of
            None \<Rightarrow> Ok (sv, [replySessionMod a h CauseRequestRejected])
          | Some r \<Rightarrow> obind (applySessionModification env r req sv) (\<lambda>(res, sv1).
              case res of
                Inl _ \<Rightarrow> Ok (sv1, [replySessionMod a h CauseRuleCreationFailure])
              | Inr (created, ems) \<Rightarrow>
                  let sess = stHeap (sv_Sessions sv1) r in
                  Ok (sv1, trackSessionPathPeers sv1 (uFARs sess) @
                    (if sv_HasEndMarkers sv1 then map (\<lambda>(_, t, ip). SendEndMarkerTo t ip) ems else []) @
                    [PFCPReply a (pfcp_Marshal
                      (session_header MsgTypeSessionModificationResponse (uCPSEID sess) (ph_SequenceNumber h))
                      (pfcp_NewCause CauseRequestAccepted # created))]))))"

section \<open>Session deletion, reports and dispatch\<close>

definition handleSessionDeletion :: "server_env \<Rightarrow> udp_addr \<Rightarrow> pfcp_header \<Rightarrow> bytes \<Rightarrow> pfcp_server \<Rightarrow> handled" where
  "handleSessionDeletion env a hdr raw sv =
     (if \<not> hasAssociation sv a then Ok (sv, [replySessionDel a hdr CauseNoEstablishedAssociation])
      else case ParseSessionDeletionRequest raw of
        Panic \<Rightarrow> Panic
      | Fail _ \<Rightarrow> Ok (sv, [])
      | Ok h \<Rightarrow> (let st = sv_Sessions sv in
          case findByUPSEID (stStore st) (ph_SEID h) of
            None \<Rightarrow> Ok (sv, [replySessionDel a h CauseRequestRejected])
          | Some r \<Rightarrow> obind (bpf_apply removeSession env (stHeap st r) sv) (\<lambda>(_, sv1).
              Ok (sv1\<lparr>sv_Sessions := store_step (OpDeleteUP (ph_SEID h)) (sv_Sessions sv1)\<rparr>,
                [PFCPReply a (pfcp_Marshal
                  (session_header MsgTypeSessionDeletionResponse (uCPSEID (stHeap st r)) (ph_SequenceNumber h))
                  [pfcp_NewCause CauseRequestAccepted])]))))"

definition server_handle :: "server_env \<Rightarrow> udp_addr \<Rightarrow> pfcp_header \<Rightarrow> bytes \<Rightarrow> pfcp_server \<Rightarrow> handled" where
  "server_handle env a hdr raw sv =
     (let t = ph_MessageType hdr in
      if \<not> isAllowed sv (uaIP a) then Ok (sv, [])
      else if t = MsgTypeAssociationSetupRequest then handleAssocSetup env a hdr raw sv
      else if t = MsgTypeHeartbeatRequest then handleHeartbeat env a raw sv
      else if t = MsgTypeSessionEstablishmentRequest then handleSessionEstablishment env a hdr raw sv
      else if t = MsgTypeSessionModificationRequest then handleSessionModification env a hdr raw sv
      else if t = MsgTypeSessionDeletionRequest then handleSessionDeletion env a hdr raw sv
      else if t = MsgTypeAssociationReleaseRequest then handleAssociationRelease env a raw sv
      else Ok (sv, []))"

text \<open>The two reports to every known peer; \<open>seq\<close> gives the sequence numbers of the transport.\<close>

fun report_peers :: "(nat \<Rightarrow> u32 \<Rightarrow> bytes) \<Rightarrow> (nat \<Rightarrow> u32) \<Rightarrow> nat \<Rightarrow> peer_record list \<Rightarrow> server_effect list" where
  "report_peers msg seq k [] = []"
| "report_peers msg seq k (pr # prs) = (case pe_LastAddr pr of
     None \<Rightarrow> report_peers msg seq k prs
   | Some a \<Rightarrow> PFCPRequest a (msg k (seq k)) # report_peers msg seq (k + 1) prs)"

definition HandlePathFailure :: "(nat \<Rightarrow> u32) \<Rightarrow> ip_addr \<Rightarrow> pfcp_server \<Rightarrow> server_effect list rule_result" where
  "HandlePathFailure seq failedPeer sv = obind (as4 failedPeer) (\<lambda>ip4.
     Ok (report_peers (\<lambda>_ s. pfcp_Marshal (node_header MsgTypeNodeReportRequest s)
         [NewNodeIDIPv4 (sv_NodeID sv), NewNodeReportType 0x01,
          NewUserPlanPathFailureReport [NewRemoteGTPUPeerIPv4 ip4]])
       seq 0 (map (\<lambda>(_, r). sv_PeerHeap sv ! r) (sv_Peers sv))))"

definition idleDownlinkDropReasonCode :: "drop_reason \<Rightarrow> u8" where
  "idleDownlinkDropReasonCode d = (case d of DropReasonReleaseAccessBearers \<Rightarrow> 1 | _ \<Rightarrow> 0)"

definition reportIdleDownlink :: "(nat \<Rightarrow> u32) \<Rightarrow> idle_downlink_event \<Rightarrow> pfcp_server \<Rightarrow> server_effect list" where
  "reportIdleDownlink seq e sv =
     (let report = \<lparr>ir_CPSEID = idCPSEID e, ir_UPSEID = idUPSEID e, ir_PDRID = idPDRID e, ir_FARID = idFARID e,
          ir_LocalTEID = idLocalTEID e, ir_EBI = idEBI e, ir_QCI = idQCI e,
          ir_SourceInterface = idSourceInterface e, ir_QoSValid = idQoSValid e,
          ir_DropReason = idleDownlinkDropReasonCode (idDropReason e)\<rparr>
      in report_peers (\<lambda>_ s. pfcp_Marshal (session_header MsgTypeSessionReportRequest (idCPSEID e) s)
           [NewVectorCoreIdleDownlinkReport report])
         seq 0 (map (\<lambda>(_, r). sv_PeerHeap sv ! r) (sv_Peers sv)))"

section \<open>Frames\<close>

definition only_rules :: "pfcp_server \<Rightarrow> pfcp_server \<Rightarrow> bool" where
  "only_rules sv sv' \<longleftrightarrow> (\<exists>d. sv' = sv\<lparr>sv_DP := d\<rparr>)"

lemma only_rules_refl [simp]: "only_rules sv sv"
  unfolding only_rules_def by (rule exI [of _ "sv_DP sv"]) simp

lemma only_rules_trans: "only_rules sv sv' \<Longrightarrow> only_rules sv' sv'' \<Longrightarrow> only_rules sv sv''"
  by (auto simp: only_rules_def)

lemma only_rules_same:
  assumes "only_rules sv sv'"
  shows "sv_Sessions sv' = sv_Sessions sv" "sv_Peers sv' = sv_Peers sv" "sv_PeerHeap sv' = sv_PeerHeap sv"
    "sv_NodeID sv' = sv_NodeID sv" "sv_LocalIP sv' = sv_LocalIP sv"
  using assms by (auto simp: only_rules_def)

lemma bpf_apply_frame: "bpf_apply f env s sv = Ok (e, sv') \<Longrightarrow> only_rules sv sv'"
  by (auto simp: bpf_apply_def only_rules_def split: option.splits outcome.splits)
     (metis pfcp_server.surjective pfcp_server.update_convs(13))+

lemma bpf_apply_none: "sv_BPF sv = None \<Longrightarrow> bpf_apply f env s sv = Ok (None, sv)"
  by (simp add: bpf_apply_def)

lemma bpf_apply_no_fail: "bpf_apply f env s sv \<noteq> Fail e"
  by (auto simp: bpf_apply_def split: option.splits outcome.splits)

lemma bpf_remove_all_frame: "bpf_remove_all env ss sv = Ok sv' \<Longrightarrow> only_rules sv sv'"
proof (induction ss arbitrary: sv)
  case (Cons s ss)
  then obtain e sv1 where "bpf_apply removeSession env s sv = Ok (e, sv1)" "bpf_remove_all env ss sv1 = Ok sv'"
    by (auto simp: obind_Ok_iff)
  then show ?case using Cons.IH bpf_apply_frame only_rules_trans by blast
qed simp

lemma deletePeerSessions_frame:
  assumes "deletePeerSessions env key sv = Ok sv'"
  shows "only_rules (sv\<lparr>sv_Sessions := store_step (OpDeleteNode key) (sv_Sessions sv)\<rparr>) sv'"
proof -
  obtain s' ds where d: "deleteByCPNodeKey (stHeap (sv_Sessions sv)) key (stStore (sv_Sessions sv)) = (s', ds)"
    by (metis surj_pair)
  with assms show ?thesis by (auto simp: deletePeerSessions_def Let_def dest: bpf_remove_all_frame)
qed

section \<open>The invariant of the server\<close>

text \<open>The session store agrees with itself, and every key of the peers map names a record.\<close>

definition server_ok :: "pfcp_server \<Rightarrow> bool" where
  "server_ok sv \<longleftrightarrow> state_ok (sv_Sessions sv) \<and> mok (sv_Peers sv) \<and>
     (\<forall>k r. mget (sv_Peers sv) k = Some r \<longrightarrow> r < length (sv_PeerHeap sv))"

lemma server_okI:
  "server_ok sv \<Longrightarrow> state_ok (sv_Sessions sv') \<Longrightarrow> sv_Peers sv' = sv_Peers sv \<Longrightarrow>
     length (sv_PeerHeap sv') = length (sv_PeerHeap sv) \<Longrightarrow> server_ok sv'"
  by (simp add: server_ok_def)

lemma server_ok_rules: "server_ok sv \<Longrightarrow> only_rules sv sv' \<Longrightarrow> server_ok sv'"
  by (auto simp: only_rules_def server_ok_def)

lemma server_ok_sessions: "server_ok sv \<Longrightarrow> state_ok st \<Longrightarrow> server_ok (sv\<lparr>sv_Sessions := st\<rparr>)"
  by (simp add: server_ok_def)

lemma server_ok_state: "server_ok sv \<Longrightarrow> state_ok (sv_Sessions sv)"
  by (simp add: server_ok_def)

lemma state_ok_alloc_seid: "state_ok st \<Longrightarrow> state_ok (ser_alloc_seid st)"
proof -
  assume ok: "state_ok st"
  have "unat (seidCounter (stStore st) + 1) = Suc (stNext st)"
    if "stNext st + 1 < 2 ^ 64" "unat (seidCounter (stStore st)) = stNext st"
    using that by (simp add: unat_word_ariths(1))
  then show ?thesis using ok
    by (auto simp: state_ok_def ser_alloc_seid_def allocSEID_def Let_def store_ok_def) (fastforce intro: less_SucI le_SucI)+
qed

lemma server_ok_note_peer:
  assumes "server_ok sv"
  shows "server_ok (note_peer now key ts a sv)"
proof (cases "mget (sv_Peers sv) key")
  case None
  have *: "r < Suc (length (sv_PeerHeap sv))" if "mget (sv_Peers sv) k = Some r" for k r
    using assms that unfolding server_ok_def by (meson less_SucI)
  show ?thesis
    using assms None * by (auto simp: server_ok_def note_peer_def Let_def map_simps)
next
  case (Some r)
  then have "r < length (sv_PeerHeap sv)" using assms unfolding server_ok_def by blast
  then show ?thesis
    using assms Some by (auto simp: server_ok_def note_peer_def Let_def map_simps)
qed

lemma handleAssocSetup_ok: "server_ok sv \<Longrightarrow> handleAssocSetup env a hdr raw sv = Ok (sv', es) \<Longrightarrow> server_ok sv'"
  by (auto simp: handleAssocSetup_def Let_def server_ok_note_peer split: outcome.splits)

lemma deletePeerSessions_ok: "server_ok sv \<Longrightarrow> deletePeerSessions env key sv = Ok sv' \<Longrightarrow> server_ok sv'"
  using deletePeerSessions_frame server_ok_rules server_ok_sessions server_ok_state state_ok_step by metis

lemma handleHeartbeat_ok:
  assumes "server_ok sv" "handleHeartbeat env a raw sv = Ok (sv', es)"
  shows "server_ok sv'"
proof -
  have "sv' = sv \<or> (\<exists>sv1 r x. (sv1 = sv \<or> deletePeerSessions env (sourceKey a) sv = Ok sv1) \<and>
      sv' = sv1\<lparr>sv_PeerHeap := (sv_PeerHeap sv1)[r := x]\<rparr>)"
    using assms(2) by (auto simp: handleHeartbeat_def Let_def obind_Ok_iff split: outcome.splits option.splits if_splits)
  moreover have "server_ok (s\<lparr>sv_PeerHeap := (sv_PeerHeap s)[r := x]\<rparr>)" if "server_ok s" for s r x
    using that by (simp add: server_ok_def)
  ultimately show ?thesis using assms(1) deletePeerSessions_ok by metis
qed

lemma handleAssociationRelease_ok:
  assumes "server_ok sv" "handleAssociationRelease env a raw sv = Ok (sv', es)"
  shows "server_ok sv'"
proof -
  have "sv' = sv \<or> (\<exists>sv1 k. deletePeerSessions env k sv = Ok sv1 \<and> sv' = sv1\<lparr>sv_Peers := mdel k (sv_Peers sv1)\<rparr>)"
    using assms(2) by (auto simp: handleAssociationRelease_def Let_def obind_Ok_iff split: outcome.splits)
  moreover have "server_ok (s\<lparr>sv_Peers := mdel k (sv_Peers s)\<rparr>)" if "server_ok s" for s k
    using that by (auto simp: server_ok_def map_simps split: if_splits)
  ultimately show ?thesis using assms(1) deletePeerSessions_ok by metis
qed

text \<open>What an establishment does to the sessions.\<close>

lemma ser_commit_sessions:
  assumes "ser_commit env a hdr cp (pdrs, created, fars) req sv = Ok (sv', es)"
  shows "sv_Peers sv' = sv_Peers sv \<and> sv_PeerHeap sv' = sv_PeerHeap sv \<and>
    (let st1 = establish cp (sourceKey a) pdrs fars (sv_Sessions sv) in
     if mget (byCPSEID (stStore (sv_Sessions sv))) cp \<noteq> None
     then sv_Sessions sv' = st1 \<and> es = [replySessionEst sv a hdr CauseRequestRejected]
     else sv_Sessions sv' = store_step (OpDeleteCP cp) st1 \<and> es = [replySessionEst sv a hdr CauseRuleCreationFailure] \<or>
       sv_Sessions sv' = st1 \<and> (\<exists>up. NewFSEID (fst (allocSEID (stStore (sv_Sessions sv)))) (sv_LocalIP sv) = Ok up \<and>
         es = trackSessionPathPeers sv fars @ [PFCPReply a (pfcp_Marshal
           (session_header MsgTypeSessionEstablishmentResponse cp (ph_SequenceNumber (seq_Header req)))
           ([NewNodeIDIPv4 (sv_NodeID sv), pfcp_NewCause CauseRequestAccepted, up] @ created))]))"
proof (cases "mget (byCPSEID (stStore (sv_Sessions sv))) cp")
  case None
  then show ?thesis using assms
    by (auto simp: ser_commit_def obind_Ok_iff wrap_err_def Let_def dest!: bpf_apply_frame dest: only_rules_same
      split: option.splits outcome.splits if_splits)
next
  case (Some r)
  then show ?thesis using assms by (auto simp: ser_commit_def Let_def)
qed

lemma establish_step: "establish cp k ps fs st = store_step (OpEstablish cp k ps fs) st"
  by simp

lemma handleSessionEstablishment_ok:
  assumes ok: "server_ok sv" and h: "handleSessionEstablishment env a hdr raw sv = Ok (sv', es)"
  shows "server_ok sv'"
proof -
  have "sv' = sv \<or> sv' = sv\<lparr>sv_Sessions := ser_alloc_seid (sv_Sessions sv)\<rparr> \<or>
      (\<exists>cp rules req. ser_commit env a hdr cp rules req sv = Ok (sv', es))"
    using h by (auto simp: handleSessionEstablishment_def split: if_splits outcome.splits rule_error.splits)
  moreover have "server_ok sv'" if c: "ser_commit env a hdr cp (pdrs, created, fars) req sv = Ok (sv', es)"
    for cp pdrs created fars req
  proof -
    have "state_ok (establish cp (sourceKey a) pdrs fars (sv_Sessions sv))"
      "state_ok (store_step (OpDeleteCP cp) (establish cp (sourceKey a) pdrs fars (sv_Sessions sv)))"
      unfolding establish_step using server_ok_state [OF ok] by (blast intro: state_ok_step)+
    then show ?thesis using ser_commit_sessions [OF c] ok
      by (auto simp: Let_def intro: server_okI split: if_splits)
  qed
  ultimately show ?thesis
    using ok server_ok_sessions state_ok_alloc_seid server_ok_state by (metis surj_pair)
qed

lemma applySessionModification_sessions:
  assumes "applySessionModification env r req sv = Ok (res, sv')"
  shows "sv_Peers sv' = sv_Peers sv \<and> sv_PeerHeap sv' = sv_PeerHeap sv \<and>
    (case res of
       Inl _ \<Rightarrow> sv_Sessions sv' = sv_Sessions sv
     | Inr (created, ems) \<Rightarrow> \<exists>cand. smr_candidate env sv (stHeap (sv_Sessions sv) r) req = Ok (cand, created, ems) \<and>
         sv_Sessions sv' = store_step (OpModify r (uPDRs cand) (uFARs cand)) (sv_Sessions sv))"
proof (cases "smr_candidate env sv (stHeap (sv_Sessions sv) r) req")
  case (Ok x)
  then obtain cand created ems where sc: "smr_candidate env sv (stHeap (sv_Sessions sv) r) req = Ok (cand, created, ems)"
    by (cases x) auto
  then obtain err sv1 where b: "bpf_apply updateSession env cand sv = Ok (err, sv1)"
    and c: "(case err of Some e \<Rightarrow> Ok (Inl (BPFError e), sv1)
          | None \<Rightarrow> Ok (Inr (created, ems), sv1\<lparr>sv_Sessions :=
              store_step (OpModify r (uPDRs cand) (uFARs cand)) (sv_Sessions sv)\<rparr>)) = (Ok (res, sv') :: _ rule_result)"
    using assms unfolding applySessionModification_def Let_def by (auto simp: obind_Ok_iff simp del: store_step.simps)
  show ?thesis
    using c only_rules_same [OF bpf_apply_frame [OF b]] sc
    by (cases err) (auto simp del: store_step.simps)
next
  case (Fail e)
  then show ?thesis using assms
    by (cases e) (auto simp: applySessionModification_def Let_def)
next
  case Panic
  then show ?thesis using assms by (simp add: applySessionModification_def Let_def)
qed

lemma handleSessionModification_cases:
  assumes "handleSessionModification env a hdr raw sv = Ok (sv', es)"
  obtains "sv' = sv" | r req res where "applySessionModification env r req sv = Ok (res, sv')"
proof (cases "hasAssociation sv a")
  case True
  show ?thesis
  proof (cases "ParseSessionModificationRequest raw")
    case (Ok req)
    show ?thesis
    proof (cases "findByUPSEID (stStore (sv_Sessions sv)) (ph_SEID (smq_Header req))")
      case (Some r)
      then obtain res sv1 where r: "applySessionModification env r req sv = Ok (res, sv1)"
        using assms Ok True by (auto simp: handleSessionModification_def Let_def obind_Ok_iff)
      then have "sv1 = sv'"
        using assms Ok True Some by (cases res) (auto simp: handleSessionModification_def Let_def)
      then show ?thesis using that(2) r by blast
    qed (use assms Ok True that in \<open>simp add: handleSessionModification_def Let_def\<close>)
  qed (use assms True that in \<open>simp_all add: handleSessionModification_def\<close>)
qed (use assms that in \<open>simp add: handleSessionModification_def\<close>)

lemma applySessionModification_ok:
  "server_ok sv \<Longrightarrow> applySessionModification env r req sv = Ok (res, sv') \<Longrightarrow> server_ok sv'"
  using applySessionModification_sessions [of env r req sv res sv'] server_ok_state state_ok_step
  by (intro server_okI [of sv sv']) (auto simp del: store_step.simps split: sum.splits)

lemma handleSessionModification_ok:
  assumes "server_ok sv" "handleSessionModification env a hdr raw sv = Ok (sv', es)"
  shows "server_ok sv'"
  using assms(2) by (rule handleSessionModification_cases) (use assms(1) applySessionModification_ok in blast)+

lemma handleSessionDeletion_ok:
  assumes "server_ok sv" "handleSessionDeletion env a hdr raw sv = Ok (sv', es)"
  shows "server_ok sv'"
proof -
  have "sv' = sv \<or> (\<exists>sv1 k. only_rules sv sv1 \<and>
      sv' = sv1\<lparr>sv_Sessions := store_step (OpDeleteUP k) (sv_Sessions sv1)\<rparr>)"
    using assms(2) by (auto simp: handleSessionDeletion_def obind_Ok_iff Let_def dest!: bpf_apply_frame
      split: if_splits outcome.splits option.splits)
  then show ?thesis
    using assms(1) server_ok_rules server_ok_sessions server_ok_state state_ok_step by metis
qed

text \<open>The server as an event system: one datagram is one event; a crashed or unfinished handler
  changes nothing that is observed.\<close>

definition server_next :: "server_env \<times> udp_addr \<times> pfcp_header \<times> bytes \<Rightarrow> pfcp_server \<Rightarrow> pfcp_server" where
  "server_next ev sv = (case ev of (env, a, hdr, raw) \<Rightarrow>
     (case server_handle env a hdr raw sv of Ok (sv', _) \<Rightarrow> sv' | _ \<Rightarrow> sv))"

interpretation pfcp_srv: event_system server_next server_ok
proof unfold_locales
  fix sv and e :: "server_env \<times> udp_addr \<times> pfcp_header \<times> bytes"
  assume ok: "server_ok sv"
  obtain env a hdr raw where e: "e = (env, a, hdr, raw)" by (metis surj_pair)
  show "server_ok (server_next e sv)"
  proof (cases "server_handle env a hdr raw sv")
    case (Ok x)
    obtain sv' es where x: "x = (sv', es)" by (cases x)
    have "server_ok sv'"
      using Ok ok unfolding x server_handle_def Let_def
      by (auto split: if_splits intro: handleAssocSetup_ok handleHeartbeat_ok handleSessionEstablishment_ok
        handleSessionModification_ok handleSessionDeletion_ok handleAssociationRelease_ok)
    then show ?thesis using Ok by (simp add: server_next_def e x)
  qed (simp_all add: server_next_def e ok)
qed

definition new_server :: "bytes \<Rightarrow> ip_addr \<Rightarrow> ip_addr \<Rightarrow> ip_addr \<Rightarrow> u32 \<Rightarrow> ip_net list \<Rightarrow> uheap \<Rightarrow>
    compiler option \<Rightarrow> dataplane \<Rightarrow> bool \<Rightarrow> bool \<Rightarrow> pfcp_server" where
  "new_server nid lip aip cip ts nets h bpf dp em pp =
     \<lparr>sv_NodeID = nid, sv_LocalIP = lip, sv_AccessIP = aip, sv_CoreIP = cip, sv_TS = ts, sv_Allowed = nets,
      sv_PeerHeap = [], sv_Peers = [], sv_Sessions = init_state h, sv_HasEndMarkers = em,
      sv_HasPathPeers = pp, sv_BPF = bpf, sv_DP = dp\<rparr>"

lemma new_server_ok: "server_ok (new_server nid lip aip cip ts nets h bpf dp em pp)"
  by (simp add: new_server_def server_ok_def init_ok)

section \<open>What an answer promises\<close>

lemma alloc_local_teid_Ok:
  "alloc_local_teid env k sv = Ok t \<Longrightarrow>
     t \<noteq> 0 \<and> \<not> localTEIDInUse (stHeap (sv_Sessions sv)) (stStore (sv_Sessions sv)) t"
  by (auto simp: alloc_local_teid_def dest!: allocTEID_fresh split: option.splits outcome.splits)

text \<open>The Created PDR that announces the F-TEID of a PDR.\<close>

definition announces :: "pfcp_ie \<Rightarrow> pdr \<Rightarrow> bool" where
  "announces c p \<longleftrightarrow> (\<exists>f. NewFTEIDv4 (pdrLocalTEID p) (pdrLocalIP p) = Ok f \<and>
     c = NewCreatedPDR [NewPDRID (pdrID p), f])"

definition rules_sound :: "pfcp_server \<Rightarrow> pdr list \<Rightarrow> pfcp_ie list \<Rightarrow> bool" where
  "rules_sound sv pdrs created \<longleftrightarrow>
     list_all2 announces created (filter (\<lambda>p. pdrLocalTEID p \<noteq> 0) pdrs) \<and>
     (\<forall>p \<in> set pdrs. pdrLocalTEID p \<noteq> 0 \<longrightarrow>
        \<not> localTEIDInUse (stHeap (sv_Sessions sv)) (stStore (sv_Sessions sv)) (pdrLocalTEID p) \<and>
        localGTPUIPForSource sv (pdrSourceInterface p) = Ok (pdrLocalIP p))"

lemma set_qos_keeps:
  "set_qos e cs p = Ok q \<Longrightarrow> pdrLocalTEID q = pdrLocalTEID p \<and> pdrID q = pdrID p \<and> pdrSourceInterface q = pdrSourceInterface p"
  by (auto simp: set_qos_def split: option.splits outcome.splits)

lemma set_precedence_keeps [simp]:
  "pdrLocalTEID (set_precedence x p) = pdrLocalTEID p" "pdrID (set_precedence x p) = pdrID p"
  "pdrSourceInterface (set_precedence x p) = pdrSourceInterface p"
  by (simp_all add: set_precedence_def Let_def split: option.splits)

lemma with_ie_Ok_iff: "with_ie x f = Ok y \<longleftrightarrow> (\<exists>i. x = Some i \<and> f i = Ok y)"
  by (cases x) (simp_all add: with_ie_def)

lemma newCreated_Ok:
  "newCreatedPDRForSource sv pid t src = Ok (ip, c) \<Longrightarrow>
     localGTPUIPForSource sv src = Ok ip \<and> (\<exists>f. NewFTEIDv4 t ip = Ok f \<and> c = NewCreatedPDR [NewPDRID pid, f])"
  by (auto simp: newCreatedPDRForSource_def obind_Ok_iff wrap_err_Ok_iff)

definition pdr_sound :: "pfcp_server \<Rightarrow> pdr \<Rightarrow> pfcp_ie option \<Rightarrow> bool" where
  "pdr_sound sv p c \<longleftrightarrow> (case c of
      None \<Rightarrow> pdrLocalTEID p = 0
    | Some x \<Rightarrow> pdrLocalTEID p \<noteq> 0 \<and> announces x p \<and>
        \<not> localTEIDInUse (stHeap (sv_Sessions sv)) (stStore (sv_Sessions sv)) (pdrLocalTEID p) \<and>
        localGTPUIPForSource sv (pdrSourceInterface p) = Ok (pdrLocalIP p))"

lemma ser_choose_sound:
  assumes "ser_choose env sv k p = Ok (p', c)"
  shows "pdr_sound sv p' c"
proof -
  obtain t where t: "alloc_local_teid env k sv = Ok t"
    using assms by (auto simp: ser_choose_def obind_Ok_iff)
  then obtain ip cr where n: "newCreatedPDRForSource sv (pdrID p) t (pdrSourceInterface p) = Ok (ip, cr)"
    and p': "p' = p\<lparr>pdrLocalTEID := t, pdrLocalIP := ip\<rparr>" "c = Some cr"
    using assms by (cases "newCreatedPDRForSource sv (pdrID p) t (pdrSourceInterface p)") (auto simp: ser_choose_def)
  show ?thesis
    using alloc_local_teid_Ok [OF t] newCreated_Ok [OF n] by (simp add: p' pdr_sound_def announces_def)
qed

lemma ser_fteid_sound: "ser_fteid env sv k pcs p = Ok (p', c) \<Longrightarrow> pdrLocalTEID p = 0 \<Longrightarrow> pdr_sound sv p' c"
  by (auto simp: ser_fteid_def pdr_sound_def [of _ _ None] split: option.splits outcome.splits if_splits
    intro: ser_choose_sound)

lemma ser_create_pdr_sound: "ser_create_pdr env sv k i = Ok (p, c) \<Longrightarrow> pdr_sound sv p c"
  unfolding ser_create_pdr_def Let_def
  by (auto simp: with_ie_Ok_iff obind_Ok_iff zero_pdr_def elim!: ser_fteid_sound dest!: set_qos_keeps)

lemma ser_create_pdrs_sound:
  "ser_create_pdrs env sv is (pdrs, created) = Ok (pdrs', created') \<Longrightarrow> rules_sound sv pdrs created \<Longrightarrow>
     rules_sound sv pdrs' created'"
proof (induction "is" arbitrary: pdrs created)
  case (Cons i "is")
  obtain p c where pc: "ser_create_pdr env sv (length created) i = Ok (p, c)"
    "ser_create_pdrs env sv is (pdrs @ [p], created @ (case c of Some x \<Rightarrow> [x] | None \<Rightarrow> [])) = Ok (pdrs', created')"
    using Cons.prems(1) by (auto simp: obind_Ok_iff)
  have "rules_sound sv (pdrs @ [p]) (created @ (case c of Some x \<Rightarrow> [x] | None \<Rightarrow> []))"
    using Cons.prems(2) ser_create_pdr_sound [OF pc(1)]
    by (auto simp: rules_sound_def pdr_sound_def intro!: list_all2_appendI split: option.splits)
  then show ?case by (rule Cons.IH [OF pc(2)])
qed simp

end
