(* ===== verification/PFCP_Sessions.thy ===== *)
theory PFCP_Sessions
  imports PFCP_Server
begin

text \<open>
  What the PFCP server of the SGW-U (\<^verbatim>\<open>internal/sgwu/pfcpserver/server.go\<close>) promises its
  control plane: the properties of \<^verbatim>\<open>PFCP_Server\<close> seen from outside. The sessions of a
  server are read through the map from CP-SEIDs to session objects.
\<close>

section \<open>The sessions a server holds\<close>

definition sv_lookup :: "pfcp_server \<Rightarrow> u64 \<rightharpoonup> usession" where
  "sv_lookup sv cp = map_option (stHeap (sv_Sessions sv)) (mget (byCPSEID (stStore (sv_Sessions sv))) cp)"

definition room :: "pfcp_server \<Rightarrow> bool" where
  "room sv \<longleftrightarrow> stNext (sv_Sessions sv) + 1 < 2 ^ 64"

lemma sv_lookup_cong: "sv_Sessions sv' = sv_Sessions sv \<Longrightarrow> sv_lookup sv' = sv_lookup sv"
  by (simp add: sv_lookup_def fun_eq_iff)

lemma ser_alloc_seid_lookup: "sv_lookup (sv\<lparr>sv_Sessions := ser_alloc_seid (sv_Sessions sv)\<rparr>) = sv_lookup sv"
  by (simp add: sv_lookup_def fun_eq_iff ser_alloc_seid_def allocSEID_def Let_def)

lemma server_store_ok:
  assumes "server_ok sv" "room sv"
  shows "store_ok (stHeap (sv_Sessions sv)) (stStore (sv_Sessions sv))"
    and "unat (seidCounter (stStore (sv_Sessions sv))) = stNext (sv_Sessions sv)"
    and "mget (byCPSEID (stStore (sv_Sessions sv))) k = Some r \<Longrightarrow> r < stNext (sv_Sessions sv)"
  using assms store_ok_cp_up unfolding server_ok_def state_ok_def room_def by (blast dest: add_lessD1)+

lemma establish_store:
  "stHeap (establish cp key ps fs st) = (stHeap st)(stNext st := \<lparr>uCPSEID = cp, uUPSEID = seidCounter (stStore st) + 1,
      uCPNodeKey = key, uPDRs = ps, uFARs = fs\<rparr>)"
  "byCPSEID (stStore (establish cp key ps fs st)) = (case mget (byCPSEID (stStore st)) cp of
      Some _ \<Rightarrow> byCPSEID (stStore st) | None \<Rightarrow> mput cp (stNext st) (byCPSEID (stStore st)))"
  by (simp_all add: establish_def allocSEID_def store_create_def Let_def split: option.splits)

lemma map_option_upd: "(\<And>r. x = Some r \<Longrightarrow> r \<noteq> n) \<Longrightarrow> map_option (h(n := s)) x = map_option h x"
  by (cases x) auto

lemma establish_lookup:
  assumes ok: "server_ok sv" "room sv" and st: "sv_Sessions sv' = establish cp key ps fs (sv_Sessions sv)"
  shows "sv_lookup sv' k = (if sv_lookup sv cp = None \<and> k = cp
    then Some \<lparr>uCPSEID = cp, uUPSEID = seidCounter (stStore (sv_Sessions sv)) + 1, uCPNodeKey = key, uPDRs = ps, uFARs = fs\<rparr>
    else sv_lookup sv k)"
proof -
  have "map_option ((stHeap (sv_Sessions sv))(stNext (sv_Sessions sv) := s)) (mget (byCPSEID (stStore (sv_Sessions sv))) k)
      = sv_lookup sv k" for s k
    unfolding sv_lookup_def using server_store_ok(3) [OF ok] by (intro map_option_upd) fastforce
  then show ?thesis
    by (auto simp: sv_lookup_def [of sv'] sv_lookup_def [of sv cp] st establish_store map_simps split: option.splits)
qed

lemma establish_undone_lookup:
  assumes ok: "server_ok sv" "room sv" and new: "sv_lookup sv cp = None"
    and st: "sv_Sessions sv' = store_step (OpDeleteCP cp) (establish cp key ps fs (sv_Sessions sv))"
  shows "sv_lookup sv' = sv_lookup sv"
proof -
  have n: "mget (byCPSEID (stStore (sv_Sessions sv))) cp = None" using new by (simp add: sv_lookup_def)
  have "map_option ((stHeap (sv_Sessions sv))(stNext (sv_Sessions sv) := s)) (mget (byCPSEID (stStore (sv_Sessions sv))) k)
      = sv_lookup sv k" for s k
    unfolding sv_lookup_def using server_store_ok(3) [OF ok] by (intro map_option_upd) fastforce
  then show ?thesis
    using new by (auto simp: sv_lookup_def [of sv'] st establish_store deleteByCPSEID_def map_simps n fun_eq_iff
      split: option.splits)
qed

section \<open>Invariant\<close>

text \<open>
  C6: Whatever datagrams arrive, from whom, in which order and with which readings of the
  clock, of the random source and of the kernel maps: the server's two session indexes describe
  the same sessions, its association table names existing peer records, and its SEID counter is
  ahead of every SEID in use.
\<close>

theorem pfcp_server_invariant:
  "server_ok (fold server_next datagrams (new_server nid lip aip cip ts nets h bpf dp em pp))"
  by (rule pfcp_srv.run_inv, rule new_server_ok)

section \<open>Without an association\<close>

text \<open>
  C19: A session request from a source without an association changes nothing: it is either
  dropped, if the source is not allowed, or answered with cause 72, No established PFCP association.
\<close>

theorem no_association_no_session:
  assumes "\<not> hasAssociation sv a"
    and "ph_MessageType hdr \<in> {MsgTypeSessionEstablishmentRequest, MsgTypeSessionModificationRequest, MsgTypeSessionDeletionRequest}"
  shows "server_handle env a hdr raw sv = Ok (sv, if isAllowed sv (uaIP a)
    then [PFCPReply a (pfcp_Marshal (session_header (ph_MessageType hdr + 1) 0 (ph_SequenceNumber hdr))
      ((if ph_MessageType hdr = MsgTypeSessionEstablishmentRequest then [NewNodeIDIPv4 (sv_NodeID sv)] else []) @
       [pfcp_NewCause CauseNoEstablishedAssociation]))]
    else [])"
  using assms by (auto simp: server_handle_def handleSessionEstablishment_def handleSessionModification_def
    handleSessionDeletion_def replySessionEst_def replySessionMod_def replySessionDel_def)

definition sample_peer :: udp_addr where
  "sample_peer = \<lparr>uaIP = IP4 0x0A000001, uaPort = 8805\<rparr>"

definition sample_server :: pfcp_server where
  "sample_server = new_server [10, 0, 0, 2] (IP4 0x0A000002) (IP4 0x0A000003) (IP4 0x0A000004) 7 []
     (\<lambda>_. \<lparr>uCPSEID = 0, uUPSEID = 0, uCPNodeKey = [], uPDRs = [], uFARs = []\<rparr>) None
     \<lparr>dpS1uIfindex = 1, dpS5uIfindex = 2, dpRules = [], dpStats = []\<rparr> False False"

definition sample_env :: server_env where
  "sample_env = \<lparr>ev_now = 0, ev_rand = (\<lambda>_. [Some 77]), ev_faults = \<lparr>mfLookup = (\<lambda>_. False), mfPut = (\<lambda>_. False),
     mfDelete = (\<lambda>_. False), mfStatsInit = (\<lambda>_. False), mfStatsDelete = (\<lambda>_. False)\<rparr>\<rparr>"

lemma sample_hasAssociation: "\<not> hasAssociation sample_server sample_peer"
  by (simp add: hasAssociation_def sample_server_def new_server_def)

theorem no_association_no_session_witness:
  "server_handle sample_env sample_peer sample_ser_header [] sample_server = Ok (sample_server,
    [PFCPReply sample_peer (pfcp_Marshal (session_header 51 0 7) [NewNodeIDIPv4 [10, 0, 0, 2], pfcp_NewCause 72])])"
  using no_association_no_session [OF sample_hasAssociation, of sample_ser_header sample_env "[]"]
  by (simp add: sample_ser_header_def sample_server_def new_server_def isAllowed_def)

section \<open>Establishment\<close>

lemma ser_commit_lookup:
  assumes ok: "server_ok sv" "room sv" and c: "ser_commit env a hdr cp (pdrs, created, fars) req sv = Ok (sv', es)"
  shows "sv_lookup sv' = sv_lookup sv \<and> (\<exists>c. c \<noteq> CauseRequestAccepted \<and> es = [replySessionEst sv a hdr c]) \<or>
    sv_lookup sv cp = None \<and> (\<exists>up f. up = seidCounter (stStore (sv_Sessions sv)) + 1 \<and> NewFSEID up (sv_LocalIP sv) = Ok f \<and>
      sv_lookup sv' = (sv_lookup sv)(cp \<mapsto>
        \<lparr>uCPSEID = cp, uUPSEID = up, uCPNodeKey = sourceKey a, uPDRs = pdrs, uFARs = fars\<rparr>) \<and>
      es = trackSessionPathPeers sv fars @ [PFCPReply a (pfcp_Marshal
        (session_header MsgTypeSessionEstablishmentResponse cp (ph_SequenceNumber (seq_Header req)))
        ([NewNodeIDIPv4 (sv_NodeID sv), pfcp_NewCause CauseRequestAccepted, f] @ created))])"
proof (cases "mget (byCPSEID (stStore (sv_Sessions sv))) cp")
  case (Some r)
  then have "sv_lookup sv cp \<noteq> None" by (simp add: sv_lookup_def)
  moreover have st: "sv_Sessions sv' = establish cp (sourceKey a) pdrs fars (sv_Sessions sv)"
    and es: "es = [replySessionEst sv a hdr CauseRequestRejected]"
    using ser_commit_sessions [OF c] Some by (simp_all add: Let_def)
  ultimately have "sv_lookup sv' = sv_lookup sv" using establish_lookup [OF ok st] by (simp add: fun_eq_iff)
  then show ?thesis using es by (intro disjI1 conjI exI [of _ CauseRequestRejected]) simp_all
next
  case None
  then have new: "sv_lookup sv cp = None" by (simp add: sv_lookup_def)
  let ?st = "establish cp (sourceKey a) pdrs fars (sv_Sessions sv)"
  let ?up = "seidCounter (stStore (sv_Sessions sv)) + 1"
  consider "sv_Sessions sv' = store_step (OpDeleteCP cp) ?st" "es = [replySessionEst sv a hdr CauseRuleCreationFailure]"
    | f where "sv_Sessions sv' = ?st" "NewFSEID ?up (sv_LocalIP sv) = Ok f"
      "es = trackSessionPathPeers sv fars @ [PFCPReply a (pfcp_Marshal
        (session_header MsgTypeSessionEstablishmentResponse cp (ph_SequenceNumber (seq_Header req)))
        ([NewNodeIDIPv4 (sv_NodeID sv), pfcp_NewCause CauseRequestAccepted, f] @ created))]"
    using ser_commit_sessions [OF c] None by (auto simp: Let_def allocSEID_def simp del: store_step.simps)
  then show ?thesis
  proof cases
    case 1
    then show ?thesis using establish_undone_lookup [OF ok new 1(1)]
      by (intro disjI1 conjI exI [of _ CauseRuleCreationFailure]) simp_all
  next
    case 2
    then show ?thesis using establish_lookup [OF ok 2(1)] new by (auto simp: fun_eq_iff)
  qed
qed

lemma ser_create_pdrs_length: "ser_create_pdrs env sv is (pdrs, created) = Ok (pdrs', created') \<Longrightarrow>
    length pdrs' = length pdrs + length is"
  by (induction "is" arbitrary: pdrs created) (auto simp: obind_Ok_iff)

lemma ser_create_fars_length: "ser_create_fars is = Ok fars \<Longrightarrow> length fars = length is"
  by (induction "is" arbitrary: fars) (auto simp: obind_Ok_iff)

lemma ser_rules_sound:
  assumes "ser_rules env sv req = Ok (pdrs, created, fars)"
  shows "rules_sound sv pdrs created \<and> length pdrs = length (seq_CreatePDRs req) \<and> length fars = length (seq_CreateFARs req)"
proof -
  have "ser_create_pdrs env sv (seq_CreatePDRs req) ([], []) = Ok (pdrs, created)" "ser_create_fars (seq_CreateFARs req) = Ok fars"
    using assms by (auto simp: ser_rules_def obind_Ok_iff)
  then show ?thesis
    using ser_create_pdrs_sound ser_create_pdrs_length ser_create_fars_length by (fastforce simp: rules_sound_def)
qed

lemma each_ok_Fail: "each_ok f xs = Fail e \<Longrightarrow> \<exists>x \<in> set xs. f x = Fail e"
  by (induction xs) (auto simp: obind_Fail_iff)

lemma with_ie_Fail: "with_ie x f = Fail e \<Longrightarrow> \<exists>i. x = Some i \<and> f i = Fail e"
  by (cases x) (simp_all add: with_ie_def)

lemma validate_causes:
  "validate_create_pdr i = Fail e \<Longrightarrow> e \<noteq> RejectCause CauseRequestAccepted"
  "validate_create_far i = Fail e \<Longrightarrow> e \<noteq> RejectCause CauseRequestAccepted"
  by (auto simp: validate_create_pdr_def validate_create_far_def dest!: with_ie_Fail
    split: outcome.splits if_splits option.splits)

lemma ser_choose_causes:
  "ser_choose env sv k p \<noteq> Fail (RejectCause CauseRequestAccepted)"
proof (cases "alloc_local_teid env k sv")
  case (Ok t)
  then show ?thesis
    by (cases "newCreatedPDRForSource sv (pdrID p) t (pdrSourceInterface p)") (auto simp: ser_choose_def)
next
  case (Fail x)
  then have "x = StillAllocating" by (auto simp: alloc_local_teid_def split: option.splits outcome.splits)
  then show ?thesis using Fail by (auto simp: ser_choose_def)
qed (simp add: ser_choose_def)

lemma ser_create_pdr_causes: "ser_create_pdr env sv k i \<noteq> Fail (RejectCause CauseRequestAccepted)"
  unfolding ser_create_pdr_def Let_def
  by (auto simp: obind_Fail_iff ser_fteid_def set_qos_def ser_choose_causes dest!: with_ie_Fail
    split: option.splits outcome.splits if_splits)

lemma ser_create_pdrs_causes: "ser_create_pdrs env sv is acc \<noteq> Fail (RejectCause CauseRequestAccepted)"
  by (induction "is" arbitrary: acc) (auto simp: obind_Fail_iff ser_create_pdr_causes)

lemma ser_create_fars_causes: "ser_create_fars is \<noteq> Fail e"
proof (induction "is")
  case (Cons i "is")
  have "ser_create_far i \<noteq> Fail e" for e
    by (auto simp: ser_create_far_def Let_def dest!: with_ie_Fail split: option.splits outcome.splits if_splits)
  with Cons show ?case by (auto simp: obind_Fail_iff)
qed simp

lemma ser_rules_causes: "ser_rules env sv req \<noteq> Fail (RejectCause CauseRequestAccepted)"
  unfolding ser_rules_def
  by (auto simp: obind_Fail_iff ser_create_fars_causes ser_create_pdrs_causes dest!: each_ok_Fail validate_causes)

lemma establishment_spec:
  assumes ok: "server_ok sv" "room sv" and h: "handleSessionEstablishment env a hdr raw sv = Ok (sv', es)"
  shows "sv_lookup sv' = sv_lookup sv \<and> (\<exists>c. c \<noteq> CauseRequestAccepted \<and> es = [replySessionEst sv a hdr c]) \<or>
    (\<exists>req fs pdrs created fars up f.
      hasAssociation sv a \<and> ParseSessionEstablishmentRequest raw = Ok req \<and> FSEIDValue (seq_CPSEID req) = Ok fs \<and>
      length pdrs = length (seq_CreatePDRs req) \<and> length fars = length (seq_CreateFARs req) \<and>
      up = seidCounter (stStore (sv_Sessions sv)) + 1 \<and> NewFSEID up (sv_LocalIP sv) = Ok f \<and>
      sv_lookup sv (pfs_SEID fs) = None \<and>
      sv_lookup sv' = (sv_lookup sv)(pfs_SEID fs \<mapsto>
        \<lparr>uCPSEID = pfs_SEID fs, uUPSEID = up, uCPNodeKey = sourceKey a, uPDRs = pdrs, uFARs = fars\<rparr>) \<and>
      rules_sound sv pdrs created \<and>
      es = trackSessionPathPeers sv fars @ [PFCPReply a (pfcp_Marshal
        (session_header MsgTypeSessionEstablishmentResponse (pfs_SEID fs) (ph_SequenceNumber (seq_Header req)))
        ([NewNodeIDIPv4 (sv_NodeID sv), pfcp_NewCause CauseRequestAccepted, f] @ created))])"
proof -
  consider "sv_lookup sv' = sv_lookup sv" "\<exists>c. c \<noteq> CauseRequestAccepted \<and> es = [replySessionEst sv a hdr c]"
    | req fs rules where "hasAssociation sv a" "ParseSessionEstablishmentRequest raw = Ok req"
        "FSEIDValue (seq_CPSEID req) = Ok fs" "ser_rules env sv req = Ok rules"
        "ser_commit env a hdr (pfs_SEID fs) rules req sv = Ok (sv', es)"
  proof (cases "hasAssociation sv a")
    case False
    then have "sv' = sv" "es = [replySessionEst sv a hdr CauseNoEstablishedAssociation]"
      using h by (auto simp: handleSessionEstablishment_def)
    then show ?thesis using that(1) [OF _ exI [of _ CauseNoEstablishedAssociation]] by simp
  next
    case True
    note unfold = h [unfolded handleSessionEstablishment_def]
    have rejected: thesis if "sv' = sv" "es = [replySessionEst sv a hdr CauseRequestRejected]"
      using that(1,2) by (intro \<open>\<lbrakk>sv_lookup sv' = sv_lookup sv; \<exists>c. c \<noteq> CauseRequestAccepted \<and> es = [replySessionEst sv a hdr c]\<rbrakk> \<Longrightarrow> thesis\<close> exI [of _ CauseRequestRejected]) simp_all
    show ?thesis
    proof (cases "ParseSessionEstablishmentRequest raw")
      case p: (Ok req)
      show ?thesis
      proof (cases "FSEIDValue (seq_CPSEID req)")
        case f: (Ok fs)
        show ?thesis
        proof (cases "ser_rules env sv req")
          case r: (Ok rules)
          show ?thesis using that(2) [OF True p f r] unfold by (simp add: True p f r)
        next
          case r: (Fail e)
          then obtain c where "e = RejectCause c" "c \<noteq> CauseRequestAccepted"
            "sv' = sv\<lparr>sv_Sessions := ser_alloc_seid (sv_Sessions sv)\<rparr>" "es = [replySessionEst sv a hdr c]"
            using unfold ser_rules_causes by (auto simp: True p f split: rule_error.splits)
          then show ?thesis using that(1) ser_alloc_seid_lookup by blast
        qed (use unfold in \<open>simp add: True p f\<close>)
      qed (use unfold True p in \<open>auto intro!: rejected\<close>)
    qed (use unfold True in \<open>auto intro!: rejected\<close>)
  qed
  then show ?thesis
  proof cases
    case 2
    obtain pdrs created fars where r: "rules = (pdrs, created, fars)" by (metis surj_pair)
    show ?thesis
      using ser_rules_sound [OF 2(4) [unfolded r]] ser_commit_lookup [OF ok 2(5) [unfolded r]] 2(1-3) by blast
  qed blast
qed


definition sample_pdr_ies :: "pfcp_ie list" where
  "sample_pdr_ies = [NewPDRID 1, NewPrecedence 100, NewPDI [NewSourceInterface 0, NewFTEIDChoose], NewFARID 1]"

definition sample_ser :: bytes where
  "sample_ser = pfcp_Marshal sample_ser_header
     [NewNodeIDIPv4 [10, 0, 0, 1], mkP pfcp_TypeFSEID (0x02 # be64 9 @ [10, 0, 0, 1]), NewCreatePDR sample_pdr_ies,
      NewCreateFAR [NewFARID 1, NewApplyAction 4]]"

definition sample_associated :: pfcp_server where
  "sample_associated = note_peer 0 (sourceKey sample_peer) 5 sample_peer sample_server"

lemma sample_established:
  "(case handleSessionEstablishment sample_env sample_peer sample_ser_header sample_ser sample_associated of
      Ok (sv', es) \<Rightarrow> sv_lookup sv' 9 = Some \<lparr>uCPSEID = 9, uUPSEID = 1, uCPNodeKey = ''ipv4:10.0.0.1'',
        uPDRs = [\<lparr>pdrID = 1, pdrPrecedence = 100, pdrSourceInterface = 0, pdrLocalTEID = 77, pdrLocalIP = IP4 0x0A000003,
           pdrFARID = 1, pdrEBI = 0, pdrQCI = 0, pdrQoSValid = False\<rparr>],
        uFARs = [zero_pfcp_far\<lparr>farID := 1, farApplyAction := 4\<rparr>]\<rparr>
    | _ \<Rightarrow> False)"
  by code_simp

lemma sample_associated_ok: "server_ok sample_associated" "room sample_associated"
proof -
  show "server_ok sample_associated"
    unfolding sample_associated_def sample_server_def by (rule server_ok_note_peer, rule new_server_ok)
  show "room sample_associated"
    by (simp add: room_def sample_associated_def note_peer_def sample_server_def new_server_def init_state_def)
qed


section \<open>A request that brings the server down\<close>

text \<open>
  The first pass accepts a Create PDR that activates a predefined rule instead of naming a
  FAR; the second pass reads its FAR ID without asking whether it is there.
\<close>

lemma ser_create_pdr_needs_far:
  "Children i = Ok cs \<Longrightarrow> pfcp_Find cs pfcp_TypePDRID \<noteq> None \<Longrightarrow> pfcp_Find cs pfcp_TypeFARID = None \<Longrightarrow>
     ser_create_pdr env sv k i = Panic"
  by (auto simp: ser_create_pdr_def with_ie_def)

text \<open>
  A Create PDR with a PDR ID, a Precedence, a PDI with a Source Interface and an Activate
  Predefined Rules element but no FAR ID is valid to the first pass, and crashes the server in the
  second: an otherwise valid Session Establishment Request that starts with such a Create PDR
  makes the handler panic, from any associated source and in any state.
\<close>

theorem predefined_rule_crashes_server:
  assumes "hasAssociation sv a" "ParseSessionEstablishmentRequest raw = Ok req" "FSEIDValue (seq_CPSEID req) = Ok fs"
    and "each_ok validate_create_pdr (seq_CreatePDRs req) = Ok ()" "each_ok validate_create_far (seq_CreateFARs req) = Ok ()"
    and "seq_CreatePDRs req = i # is" "Children i = Ok cs" "pfcp_Find cs pfcp_TypeFARID = None"
  shows "handleSessionEstablishment env a hdr raw sv = Panic \<and> pfcp_Find cs pfcp_TypeActivatePredefinedRules \<noteq> None"
proof -
  have v: "validate_create_pdr i = Ok ()" using assms(4,6) by (auto simp: obind_Ok_iff)
  then have f: "pfcp_Find cs pfcp_TypePDRID \<noteq> None" "pfcp_Find cs pfcp_TypeActivatePredefinedRules \<noteq> None"
    using assms(7,8) by (auto simp: validate_create_pdr_def split: if_splits)
  have "ser_rules env sv req = Panic"
    using assms(4-6) ser_create_pdr_needs_far [OF assms(7) f(1) assms(8)] by (simp add: ser_rules_def)
  then show ?thesis using assms(1-3) f(2) by (simp add: handleSessionEstablishment_def)
qed

definition sample_predefined :: bytes where
  "sample_predefined = pfcp_Marshal sample_ser_header
     [NewNodeIDIPv4 [10, 0, 0, 1], mkP pfcp_TypeFSEID (0x02 # be64 9 @ [10, 0, 0, 1]),
      NewCreatePDR [NewPDRID 1, NewPrecedence 100, NewPDI [NewSourceInterface 0], mkP pfcp_TypeActivatePredefinedRules [0x41]],
      NewCreateFAR [NewFARID 1, NewApplyAction 4]]"

definition sample_predefined_parsed :: session_est_request where
  "sample_predefined_parsed = (case ParseSessionEstablishmentRequest sample_predefined of
     Ok r \<Rightarrow> r | _ \<Rightarrow> \<lparr>seq_Header = sample_ser_header, seq_NodeID = NewFARID 0, seq_CPSEID = NewFARID 0,
       seq_CreatePDRs = [], seq_CreateFARs = []\<rparr>)"

theorem predefined_rule_crashes_server_witness:
  "handleSessionEstablishment sample_env sample_peer sample_ser_header sample_predefined sample_associated = Panic"
proof -
  let ?i = "hd (seq_CreatePDRs sample_predefined_parsed)"
  have "hasAssociation sample_associated sample_peer" by code_simp
  moreover have "ParseSessionEstablishmentRequest sample_predefined = Ok sample_predefined_parsed" by code_simp
  moreover have "FSEIDValue (seq_CPSEID sample_predefined_parsed) = Ok \<lparr>pfs_SEID = 9, pfs_IPv4 = IP4 0x0A000001\<rparr>" by code_simp
  moreover have "each_ok validate_create_pdr (seq_CreatePDRs sample_predefined_parsed) = Ok ()"
    "each_ok validate_create_far (seq_CreateFARs sample_predefined_parsed) = Ok ()" by code_simp+
  moreover have "seq_CreatePDRs sample_predefined_parsed = [?i]" by code_simp
  moreover have "Children ?i = Ok [NewPDRID 1, NewPrecedence 100, NewPDI [NewSourceInterface 0], mkP pfcp_TypeActivatePredefinedRules [0x41]]"
    by code_simp
  moreover have "pfcp_Find [NewPDRID 1, NewPrecedence 100, NewPDI [NewSourceInterface 0],
      mkP pfcp_TypeActivatePredefinedRules [0x41]] pfcp_TypeFARID = None" by code_simp
  ultimately show ?thesis by (rule predefined_rule_crashes_server [THEN conjunct1])
qed

section \<open>Modification\<close>

lemma smr_create_fars_spec: "smr_create_fars is fars = Ok fars' \<Longrightarrow>
    \<exists>new. fars' = fars @ new \<and> length new = length is \<and> distinct (map farID new) \<and> farID ` set new \<inter> farID ` set fars = {}"
proof (induction "is" arbitrary: fars)
  case (Cons i "is")
  obtain x where x: "\<forall>e \<in> set fars. farID e \<noteq> farID x" "smr_create_fars is (fars @ [x]) = Ok fars'"
    using Cons.prems by (auto simp: obind_Ok_iff split: if_splits)
  from Cons.IH [OF x(2)] obtain new where "fars' = (fars @ [x]) @ new" "length new = length is" "distinct (map farID new)"
    "farID ` set new \<inter> farID ` set (fars @ [x]) = {}" by blast
  with x(1) show ?case by (intro exI [of _ "x # new"]) auto
qed simp

lemma smr_create_pdrs_spec: "smr_create_pdrs env sv is (pdrs, created) = Ok (pdrs', created') \<Longrightarrow>
    \<exists>new. pdrs' = pdrs @ new \<and> length new = length is \<and> distinct (map pdrID new) \<and> pdrID ` set new \<inter> pdrID ` set pdrs = {}"
proof (induction "is" arbitrary: pdrs created)
  case (Cons i "is")
  obtain p isCH where p: "parseCreatePDR i = Ok (p, isCH)" "\<forall>e \<in> set pdrs. pdrID e \<noteq> pdrID p"
    using Cons.prems by (auto simp: obind_Ok_iff split: if_splits)
  obtain q c where q: "pdrID q = pdrID p" "smr_create_pdrs env sv is (pdrs @ [q], created @ c) = Ok (pdrs', created')"
  proof (cases isCH)
    case True
    then obtain teid ip c where "smr_create_pdrs env sv is (pdrs @ [p\<lparr>pdrLocalTEID := teid, pdrLocalIP := ip\<rparr>], created @ [c]) = Ok (pdrs', created')"
      using Cons.prems p by (auto simp: obind_Ok_iff split: if_splits)
    then show ?thesis by (intro that [of "p\<lparr>pdrLocalTEID := teid, pdrLocalIP := ip\<rparr>" "[c]"]) simp_all
  next
    case False
    then show ?thesis using Cons.prems p by (intro that [of p "[]"]) (auto simp: obind_Ok_iff split: if_splits)
  qed
  from Cons.IH [OF q(2)] obtain new where "pdrs' = (pdrs @ [q]) @ new" "length new = length is" "distinct (map pdrID new)"
    "pdrID ` set new \<inter> pdrID ` set (pdrs @ [q]) = {}" by blast
  with p(2) q(1) show ?case by (intro exI [of _ "q # new"]) auto
qed simp

lemma find_required_Ok: "find_required cs t f = Ok y \<longleftrightarrow> (\<exists>i. pfcp_Find cs t = Some i \<and> f i = Ok y)"
  by (simp add: find_required_def split: option.splits)

lemma smr_remove_pdrs_spec: "smr_remove_pdrs is pdrs = Ok pdrs' \<Longrightarrow>
    \<exists>R. R \<subseteq> pdrID ` set pdrs \<and> card R = length is \<and> finite R \<and> pdrs' = filter (\<lambda>p. pdrID p \<notin> R) pdrs"
proof (induction "is" arbitrary: pdrs)
  case Nil
  then show ?case by (intro exI [of _ "{}"]) simp
next
  case (Cons i "is")
  obtain pid where p: "\<exists>p \<in> set pdrs. pdrID p = pid" "smr_remove_pdrs is (filter (\<lambda>p. pdrID p \<noteq> pid) pdrs) = Ok pdrs'"
    using Cons.prems by (auto simp: obind_Ok_iff find_required_Ok Let_def split: if_splits)
  from Cons.IH [OF p(2)] obtain R where R: "R \<subseteq> pdrID ` set (filter (\<lambda>p. pdrID p \<noteq> pid) pdrs)" "card R = length is"
    "finite R" "pdrs' = filter (\<lambda>p. pdrID p \<notin> R) (filter (\<lambda>p. pdrID p \<noteq> pid) pdrs)" by blast
  then have "pid \<notin> R" by auto
  with R p(1) show ?case by (intro exI [of _ "insert pid R"]) (auto intro!: filter_cong)
qed

lemma smr_remove_fars_spec: "smr_remove_fars is fars = Ok fars' \<Longrightarrow>
    \<exists>R. R \<subseteq> farID ` set fars \<and> card R = length is \<and> finite R \<and> fars' = filter (\<lambda>x. farID x \<notin> R) fars"
proof (induction "is" arbitrary: fars)
  case Nil
  then show ?case by (intro exI [of _ "{}"]) simp
next
  case (Cons i "is")
  obtain fid where p: "\<exists>x \<in> set fars. farID x = fid" "smr_remove_fars is (filter (\<lambda>p. farID p \<noteq> fid) fars) = Ok fars'"
    using Cons.prems by (auto simp: obind_Ok_iff find_required_Ok Let_def split: if_splits)
  from Cons.IH [OF p(2)] obtain R where R: "R \<subseteq> farID ` set (filter (\<lambda>p. farID p \<noteq> fid) fars)" "card R = length is"
    "finite R" "fars' = filter (\<lambda>p. farID p \<notin> R) (filter (\<lambda>p. farID p \<noteq> fid) fars)" by blast
  then have "fid \<notin> R" by auto
  with R p(1) show ?case by (intro exI [of _ "insert fid R"]) (auto intro!: filter_cong)
qed

lemma update_far_id: "update_far u x = Ok y \<Longrightarrow> farID y = farID x"
  by (auto simp: update_far_def apply_forwarding_def apply_action_def obind_Ok_iff Let_def split: option.splits)

lemma update_first_ids: "update_first u fars = Ok (fars', ems) \<Longrightarrow> map farID fars' = map farID fars"
  by (induction fars arbitrary: fars' ems) (auto simp: obind_Ok_iff update_far_id split: if_splits)

lemma FARUpdates_ids: "applyFARUpdatesToCandidate us fars = Ok (fars', ems) \<Longrightarrow> map farID fars' = map farID fars"
  by (induction us arbitrary: fars ems) (auto simp: obind_Ok_iff dest!: update_first_ids)

text \<open>
  What a modification may do to a session: append PDRs and FARs with new identifiers, one for each
  Create element, take those out that a Remove element names, each of them a different one, and
  change FARs in place.
\<close>

definition modified :: "session_mod_request \<Rightarrow> usession \<Rightarrow> usession \<Rightarrow> bool" where
  "modified req s u \<longleftrightarrow> u = s\<lparr>uPDRs := uPDRs u, uFARs := uFARs u\<rparr> \<and> (\<exists>newP newF remP remF.
    length newP = length (smq_CreatePDRs req) \<and> distinct (map pdrID newP) \<and> pdrID ` set newP \<inter> pdrID ` set (uPDRs s) = {} \<and>
    length newF = length (smq_CreateFARs req) \<and> distinct (map farID newF) \<and> farID ` set newF \<inter> farID ` set (uFARs s) = {} \<and>
    card remP = length (smq_RemovePDRs req) \<and> uPDRs u = filter (\<lambda>p. pdrID p \<notin> remP) (uPDRs s @ newP) \<and>
    card remF = length (smq_RemoveFARs req) \<and> map farID (uFARs u) = filter (\<lambda>i. i \<notin> remF) (map farID (uFARs s @ newF)))"

lemma smr_candidate_spec:
  assumes "smr_candidate env sv s req = Ok (cand, created, ems)"
  shows "modified req s cand"
proof -
  obtain fars1 pdrs1 pdrs2 fars2 us fars3 where c:
    "smr_create_fars (smq_CreateFARs req) (uFARs s) = Ok fars1"
    "smr_create_pdrs env sv (smq_CreatePDRs req) (uPDRs s, []) = Ok (pdrs1, created)"
    "smr_remove_pdrs (smq_RemovePDRs req) pdrs1 = Ok pdrs2" "smr_remove_fars (smq_RemoveFARs req) fars1 = Ok fars2"
    "applyFARUpdatesToCandidate us fars2 = Ok (fars3, ems)" "cand = s\<lparr>uPDRs := pdrs2, uFARs := fars3\<rparr>"
    using assms by (auto simp: smr_candidate_def obind_Ok_iff)
  obtain newF where F: "fars1 = uFARs s @ newF" "length newF = length (smq_CreateFARs req)" "distinct (map farID newF)"
    "farID ` set newF \<inter> farID ` set (uFARs s) = {}" using smr_create_fars_spec [OF c(1)] by blast
  obtain newP where P: "pdrs1 = uPDRs s @ newP" "length newP = length (smq_CreatePDRs req)" "distinct (map pdrID newP)"
    "pdrID ` set newP \<inter> pdrID ` set (uPDRs s) = {}" using smr_create_pdrs_spec [OF c(2)] by blast
  obtain remP where rP: "card remP = length (smq_RemovePDRs req)" "pdrs2 = filter (\<lambda>p. pdrID p \<notin> remP) pdrs1"
    using smr_remove_pdrs_spec [OF c(3)] by blast
  obtain remF where rF: "card remF = length (smq_RemoveFARs req)" "fars2 = filter (\<lambda>x. farID x \<notin> remF) fars1"
    using smr_remove_fars_spec [OF c(4)] by blast
  have "map farID fars3 = filter (\<lambda>i. i \<notin> remF) (map farID (uFARs s @ newF))"
    using FARUpdates_ids [OF c(5)] by (simp add: rF F filter_map o_def)
  then show ?thesis
    unfolding modified_def using F P rP rF c(6)
    by (intro conjI exI [of _ newP] exI [of _ newF] exI [of _ remP] exI [of _ remF]) simp_all
qed

lemma modify_lookup:
  assumes ok: "server_ok sv" "room sv" and r: "mget (byCPSEID (stStore (sv_Sessions sv))) cp = Some r"
    and st: "sv_Sessions sv' = store_step (OpModify r ps fs) (sv_Sessions sv)"
  shows "sv_lookup sv' = (sv_lookup sv)(cp \<mapsto> (stHeap (sv_Sessions sv) r)\<lparr>uPDRs := ps, uFARs := fs\<rparr>)"
proof
  fix k
  have "k = cp" if "mget (byCPSEID (stStore (sv_Sessions sv))) k = Some r"
    using store_ok_cp [OF server_store_ok(1) [OF ok]] r that by metis
  then show "sv_lookup sv' k = ((sv_lookup sv)(cp \<mapsto> (stHeap (sv_Sessions sv) r)\<lparr>uPDRs := ps, uFARs := fs\<rparr>)) k"
    using r by (cases "mget (byCPSEID (stStore (sv_Sessions sv))) k") (auto simp: sv_lookup_def st)
qed

lemma applySessionModification_lookup:
  assumes ok: "server_ok sv" "room sv" and r: "findByUPSEID (stStore (sv_Sessions sv)) seid = Some r"
    and m: "applySessionModification env r req sv = Ok (res, sv')"
  shows "case res of Inl _ \<Rightarrow> sv_lookup sv' = sv_lookup sv
    | Inr _ \<Rightarrow> \<exists>cp s u. sv_lookup sv cp = Some s \<and> uUPSEID s = seid \<and> uCPSEID s = cp \<and> modified req s u \<and>
        sv_lookup sv' = (sv_lookup sv)(cp \<mapsto> u) \<and> uCPSEID (stHeap (sv_Sessions sv') r) = cp"
proof (cases res)
  case (Inl e)
  then have "sv_Sessions sv' = sv_Sessions sv" using applySessionModification_sessions [OF m] by simp
  from sv_lookup_cong [OF this] show ?thesis by (simp only: Inl sum.case)
next
  case (Inr x)
  let ?s = "stHeap (sv_Sessions sv) r"
  note st = server_store_ok(1) [OF ok]
  have u: "mget (byUPSEID (stStore (sv_Sessions sv))) seid = Some r" using r by (simp add: findByUPSEID_def)
  obtain created ems where x: "x = (created, ems)" by (cases x)
  obtain cand where c: "smr_candidate env sv ?s req = Ok (cand, created, ems)"
    "sv_Sessions sv' = store_step (OpModify r (uPDRs cand) (uFARs cand)) (sv_Sessions sv)"
    using applySessionModification_sessions [OF m] unfolding Inr x by auto
  note cand = smr_candidate_spec [OF c(1)] c(2)
  have "cand = ?s\<lparr>uPDRs := uPDRs cand, uFARs := uFARs cand\<rparr>" using cand(1) by (simp add: modified_def)
  then have "sv_lookup sv' = (sv_lookup sv)(uCPSEID ?s \<mapsto> cand)"
    using modify_lookup [OF ok store_ok_up_cp [OF st u] cand(2)] by simp
  moreover have "sv_lookup sv (uCPSEID ?s) = Some ?s" using store_ok_up_cp [OF st u] by (simp add: sv_lookup_def)
  moreover have "uCPSEID (stHeap (sv_Sessions sv') r) = uCPSEID ?s" by (simp add: cand(2))
  ultimately show ?thesis
    unfolding Inr sum.case using cand(1) store_ok_up [OF st u] by blast
qed

lemma modification_spec:
  assumes ok: "server_ok sv" "room sv" and h: "handleSessionModification env a hdr raw sv = Ok (sv', es)"
  shows "sv_lookup sv' = sv_lookup sv \<and> (es = [] \<or> (\<exists>h c. c \<noteq> CauseRequestAccepted \<and> es = [replySessionMod a h c])) \<or>
    (\<exists>req s u created. hasAssociation sv a \<and> ParseSessionModificationRequest raw = Ok req \<and>
      sv_lookup sv (uCPSEID s) = Some s \<and> uUPSEID s = ph_SEID (smq_Header req) \<and>
      sv_lookup sv' = (sv_lookup sv)(uCPSEID s \<mapsto> u) \<and> modified req s u \<and> es \<noteq> [] \<and>
      last es = PFCPReply a (pfcp_Marshal
        (session_header MsgTypeSessionModificationResponse (uCPSEID s) (ph_SequenceNumber (smq_Header req)))
        (pfcp_NewCause CauseRequestAccepted # created)))"
proof -
  have rejected: ?thesis if "sv_lookup sv' = sv_lookup sv" "es = [replySessionMod a h' c]" "c \<noteq> CauseRequestAccepted" for h' c
    using that by blast
  show ?thesis
  proof (cases "hasAssociation sv a")
    case True
    show ?thesis
    proof (cases "ParseSessionModificationRequest raw")
      case p: (Ok req)
      show ?thesis
      proof (cases "findByUPSEID (stStore (sv_Sessions sv)) (ph_SEID (smq_Header req))")
        case f: (Some r)
        then obtain res sv1 where m: "applySessionModification env r req sv = Ok (res, sv1)"
          using h p True by (auto simp: handleSessionModification_def Let_def obind_Ok_iff)
        note lookup = applySessionModification_lookup [OF ok f m]
        show ?thesis
        proof (cases res)
          case (Inl e)
          then have "sv' = sv1" "es = [replySessionMod a (smq_Header req) CauseRuleCreationFailure]"
            using h p True f m by (auto simp: handleSessionModification_def Let_def)
          then show ?thesis using lookup Inl by (intro rejected [of "smq_Header req" CauseRuleCreationFailure]) simp_all
        next
          case (Inr x)
          obtain created ems where x: "x = (created, ems)" by (cases x)
          obtain s u where su: "sv_lookup sv (uCPSEID s) = Some s" "uUPSEID s = ph_SEID (smq_Header req)"
            "modified req s u" "sv_lookup sv1 = (sv_lookup sv)(uCPSEID s \<mapsto> u)"
            "uCPSEID (stHeap (sv_Sessions sv1) r) = uCPSEID s" using lookup Inr by auto
          then have "sv' = sv1 \<and> es \<noteq> [] \<and> last es = PFCPReply a (pfcp_Marshal
              (session_header MsgTypeSessionModificationResponse (uCPSEID s) (ph_SequenceNumber (smq_Header req)))
              (pfcp_NewCause CauseRequestAccepted # created))"
            using h p True f m Inr x by (auto simp: handleSessionModification_def Let_def)
          then show ?thesis using su p True by blast
        qed
      next
        case None
        then have "sv' = sv" "es = [replySessionMod a (smq_Header req) CauseRequestRejected]"
          using h p True by (auto simp: handleSessionModification_def Let_def)
        then show ?thesis by (intro rejected [of "smq_Header req" CauseRequestRejected]) simp_all
      qed
    qed (use h True in \<open>auto simp: handleSessionModification_def\<close>)
  next
    case False
    then have "sv' = sv" "es = [replySessionMod a hdr CauseNoEstablishedAssociation]"
      using h by (auto simp: handleSessionModification_def)
    then show ?thesis by (intro rejected [of hdr CauseNoEstablishedAssociation]) simp_all
  qed
qed


definition sample_usession :: usession where
  "sample_usession = \<lparr>uCPSEID = 9, uUPSEID = 1, uCPNodeKey = ''ipv4:10.0.0.1'',
     uPDRs = [\<lparr>pdrID = 1, pdrPrecedence = 100, pdrSourceInterface = 0, pdrLocalTEID = 77, pdrLocalIP = IP4 0x0A000003,
       pdrFARID = 1, pdrEBI = 0, pdrQCI = 0, pdrQoSValid = False\<rparr>],
     uFARs = [zero_pfcp_far\<lparr>farID := 1, farApplyAction := 4\<rparr>]\<rparr>"

definition sample_active :: pfcp_server where
  "sample_active =
     \<lparr>sv_NodeID = [10, 0, 0, 2], sv_LocalIP = IP4 0x0A000002, sv_AccessIP = IP4 0x0A000003, sv_CoreIP = IP4 0x0A000004,
      sv_TS = 7, sv_Allowed = [], sv_PeerHeap = [\<lparr>pe_NodeIDKey = ''ipv4:10.0.0.1'', pe_RecoveryTS = 5, pe_LastSeen = 0,
        pe_LastAddr = Some sample_peer\<rparr>], sv_Peers = [(''ipv4:10.0.0.1'', 0)],
      sv_Sessions = \<lparr>stHeap = (\<lambda>_. sample_usession),
        stStore = \<lparr>byCPSEID = [(9, 0)], byUPSEID = [(1, 0)], seidCounter = 1\<rparr>, stNext = 1\<rparr>,
      sv_HasEndMarkers = True, sv_HasPathPeers = False, sv_BPF = None,
      sv_DP = \<lparr>dpS1uIfindex = 1, dpS5uIfindex = 2, dpRules = [], dpStats = []\<rparr>\<rparr>"

definition sample_smr :: bytes where
  "sample_smr = pfcp_Marshal (session_header MsgTypeSessionModificationRequest 1 8)
     [NewUpdateFAR [NewFARID 1, NewApplyAction 2, NewUpdateForwardingParameters [NewDestinationInterface 0,
        mkP pfcp_TypeOuterHeaderCreation [1, 0, 0, 0, 0, 5, 10, 0, 0, 9]]],
      NewCreatePDR [NewPDRID 2, NewPrecedence 100, NewPDI [NewSourceInterface 1, NewFTEIDChoose], NewFARID 1],
      NewRemovePDR [NewPDRID 1]]"

lemma sample_modified:
  "(case handleSessionModification (sample_env\<lparr>ev_rand := \<lambda>_. [Some 77, Some 78]\<rparr>) sample_peer sample_ser_header sample_smr sample_active of
      Ok (sv', es) \<Rightarrow> map_option (\<lambda>u. (map pdrID (uPDRs u), map pdrLocalTEID (uPDRs u), map farOuterTEID (uFARs u))) (sv_lookup sv' 9) =
        Some ([2], [78], [5])
    | _ \<Rightarrow> False)"
  by code_simp

lemma sample_active_ok: "server_ok sample_active" "room sample_active"
  by (auto simp: server_ok_def room_def sample_active_def state_ok_def store_ok_def sample_usession_def mget_def mok_def)


end
