(* ===== verification/Transactions.thy ===== *)
theory Transactions
  imports SGW_Prelude
begin

text \<open>
  What the two UDP endpoints of the gateway, \<^verbatim>\<open>internal/pfcp/transport\<close> and
  \<^verbatim>\<open>internal/gtpv2/transport\<close>, have in common: the loop that sends a request until it is
  answered, and the contract of the table that keeps a retransmitted request from being handled
  twice. The table itself is defined for each endpoint in its own theory and interpreted here.
\<close>

section \<open>Sending until answered\<close>

text \<open>
  One attempt of a send: the datagram cannot be written, or one case of the \<^verbatim>\<open>select\<close> behind it
  is taken. \<open>Cancelled\<close> is the case of the transaction's context; its argument says
  whether the context of the caller has an error then.
\<close>

datatype 'r observation = WriteFails | Answered 'r | Cancelled bool | TimedOut

datatype send_error = SendFailed | ContextError | NoResponse nat | BadRequest | DuplicateTransaction

text \<open>The result is a nil response (\<open>None\<close>) with a nil error if the transaction's context
  is done and the caller's is not.\<close>

fun attempts :: "nat \<Rightarrow> nat \<Rightarrow> (nat \<Rightarrow> 'r observation) \<Rightarrow> nat \<times> (send_error, 'r option) outcome" where
  "attempts n1 0 obs = (0, Fail (NoResponse n1))"
| "attempts n1 (Suc n) obs =
     (let attempt = n1 - Suc n in
      case obs attempt of
        WriteFails \<Rightarrow> (0, Fail SendFailed)
      | Answered r \<Rightarrow> (1, Ok (Some r))
      | Cancelled e \<Rightarrow> (1, if e then Fail ContextError else Ok None)
      | TimedOut \<Rightarrow> (let (sent, res) = attempts n1 n obs in (Suc sent, res)))"

text \<open>
  The cases that are ready at a \<^verbatim>\<open>select\<close>: a response in the channel, a context that is done,
  the timer. Go takes any of them.
\<close>

definition ready :: "'r option \<Rightarrow> bool \<Rightarrow> bool \<Rightarrow> bool \<Rightarrow> 'r observation set" where
  "ready result tDone ctxDone timer =
     (case result of Some r \<Rightarrow> {Answered r} | None \<Rightarrow> {}) \<union>
     (if tDone \<or> ctxDone then {Cancelled ctxDone} else {}) \<union> (if timer then {TimedOut} else {})"

lemma attempts_sent: "fst (attempts n1 n obs) \<le> n"
  by (induction n) (auto simp: Let_def split: observation.splits prod.splits)

lemma attempts_first:
  assumes "n \<le> n1" "j < n" "\<forall>i < j. obs (n1 - n + i) = TimedOut" "obs (n1 - n + j) = Answered r"
  shows "attempts n1 n obs = (Suc j, Ok (Some r))"
  using assms
proof (induction n arbitrary: j)
  case (Suc n)
  show ?case
  proof (cases j)
    case 0
    then show ?thesis using Suc.prems(4) by simp
  next
    case j: (Suc j')
    have t: "obs (n1 - Suc n) = TimedOut" using Suc.prems(3) j by auto
    have shift: "n1 - n + i = n1 - Suc n + Suc i" for i using Suc.prems(1) by simp
    have "attempts n1 n obs = (Suc j', Ok (Some r))"
    proof (rule Suc.IH)
      show "\<forall>i < j'. obs (n1 - n + i) = TimedOut"
      proof (intro allI impI)
        fix i assume "i < j'"
        then show "obs (n1 - n + i) = TimedOut" unfolding shift using Suc.prems(3) j by blast
      qed
      show "obs (n1 - n + j') = Answered r" unfolding shift using Suc.prems(4) j by blast
    qed (use Suc.prems j in simp_all)
    with t j show ?thesis by simp
  qed
qed simp

lemma attempts_none:
  "n \<le> n1 \<Longrightarrow> \<forall>i < n. obs (n1 - n + i) = TimedOut \<Longrightarrow> attempts n1 n obs = (n, Fail (NoResponse n1))"
proof (induction n)
  case (Suc n)
  have t: "obs (n1 - Suc n) = TimedOut" using Suc.prems(2) by (metis add.right_neutral zero_less_Suc)
  have shift: "n1 - n + i = n1 - Suc n + Suc i" for i using Suc.prems(1) by simp
  have "\<forall>i < n. obs (n1 - n + i) = TimedOut" unfolding shift using Suc.prems(2) by blast
  then have "attempts n1 n obs = (n, Fail (NoResponse n1))" using Suc.IH Suc.prems(1) by simp
  with t show ?case by simp
qed simp

section \<open>Requests handled once\<close>

text \<open>
  The contract of the inbound table: \<open>check\<close> looks a request up and marks it in flight if it
  is new, \<open>clear\<close> takes the mark back when the handler returns, \<open>store\<close> keeps
  a response for \<open>ttl\<close> and sweeps what has expired. Whatever else the endpoint does
  (\<open>other\<close>) leaves the table alone.
\<close>

datatype ('k, 'o) guard_event = Arrive gtime 'k | Answer gtime 'k bytes | Finish 'k | Other 'o

fun event_by :: "gtime \<Rightarrow> ('k, 'o) guard_event \<Rightarrow> bool" where
  "event_by e (Arrive t k) = (t \<le> e)"
| "event_by e (Answer t k raw) = (t \<le> e)"
| "event_by e (Finish k) = True"
| "event_by e (Other x) = True"

definition answers :: "'k \<Rightarrow> ('k, 'o) guard_event \<Rightarrow> bool" where
  "answers k ev = (case ev of Answer _ k' _ \<Rightarrow> k' = k | _ \<Rightarrow> False)"

fun guard_next :: "(gtime \<Rightarrow> 'k \<Rightarrow> 'c \<Rightarrow> (bytes option \<times> bool) \<times> 'c) \<Rightarrow> (gtime \<Rightarrow> 'k \<Rightarrow> bytes \<Rightarrow> 'c \<Rightarrow> 'c) \<Rightarrow>
    ('k \<Rightarrow> 'c \<Rightarrow> 'c) \<Rightarrow> ('o \<Rightarrow> 'c \<Rightarrow> 'c) \<Rightarrow> ('k, 'o) guard_event \<Rightarrow> 'c \<Rightarrow> 'c" where
  "guard_next check store clear other (Arrive t k) c = snd (check t k c)"
| "guard_next check store clear other (Answer t k raw) c = store t k raw c"
| "guard_next check store clear other (Finish k) c = clear k c"
| "guard_next check store clear other (Other x) c = other x c"

locale replay_guard =
  fixes check :: "gtime \<Rightarrow> 'k \<Rightarrow> 'c \<Rightarrow> (bytes option \<times> bool) \<times> 'c"
    and store :: "gtime \<Rightarrow> 'k \<Rightarrow> bytes \<Rightarrow> 'c \<Rightarrow> 'c"
    and clear :: "'k \<Rightarrow> 'c \<Rightarrow> 'c"
    and other :: "'o \<Rightarrow> 'c \<Rightarrow> 'c"
    and cached :: "'c \<Rightarrow> 'k \<Rightarrow> (bytes \<times> gtime) option"
    and busy :: "'c \<Rightarrow> 'k \<Rightarrow> bool"
    and ok :: "'c \<Rightarrow> bool"
    and ttl :: duration
  assumes check_cached: "cached c k = Some (raw, e) \<Longrightarrow> now \<le> e \<Longrightarrow> check now k c = ((Some raw, False), c)"
    and check_busy: "(\<And>raw e. cached c k = Some (raw, e) \<Longrightarrow> e < now) \<Longrightarrow> fst (check now k c) = (None, busy c k)"
    and busy_check: "busy c k' \<Longrightarrow> busy (snd (check now k c)) k'"
    and marks: "fst (check now k c) = (None, False) \<Longrightarrow> busy (snd (check now k c)) k"
    and cached_check: "cached c k' = Some (raw, e) \<Longrightarrow> now \<le> e \<or> k' \<noteq> k \<Longrightarrow> cached (snd (check now k c)) k' = Some (raw, e)"
    and busy_clear: "busy (clear k c) k' = (busy c k' \<and> k' \<noteq> k)"
    and cached_clear: "cached (clear k c) = cached c"
    and busy_store: "busy (store now k raw c) = busy c"
    and cached_store: "cached (store now k raw c) k = Some (raw, now + ttl)"
    and cached_store_other: "ok c \<Longrightarrow> k' \<noteq> k \<Longrightarrow> cached c k' = Some (raw', e) \<Longrightarrow> now \<le> e \<Longrightarrow>
      cached (store now k raw c) k' = Some (raw', e)"
    and busy_other: "busy (other x c) = busy c"
    and cached_other: "cached (other x c) = cached c"
    and ok_check: "ok c \<Longrightarrow> ok (snd (check now k c))"
    and ok_store: "ok c \<Longrightarrow> ok (store now k raw c)"
    and ok_clear: "ok c \<Longrightarrow> ok (clear k c)"
    and ok_other: "ok c \<Longrightarrow> ok (other x c)"
begin

abbreviation advance :: "('k, 'o) guard_event \<Rightarrow> 'c \<Rightarrow> 'c" where
  "advance \<equiv> guard_next check store clear other"

lemma next_ok: "ok c \<Longrightarrow> ok (advance ev c)"
  by (cases ev) (simp_all add: ok_check ok_store ok_clear ok_other)

lemma run_ok: "ok c \<Longrightarrow> ok (fold advance es c)"
  by (induction es arbitrary: c) (simp_all add: next_ok)

lemma response_kept:
  assumes "ok c" "cached c k = Some (raw, e)" "\<forall>ev \<in> set es. event_by e ev \<and> \<not> answers k ev"
  shows "cached (fold advance es c) k = Some (raw, e)"
  using assms
proof (induction es arbitrary: c)
  case (Cons ev es)
  have "cached (advance ev c) k = Some (raw, e)"
    using Cons.prems by (cases ev) (auto simp: cached_check cached_clear cached_store_other cached_other answers_def)
  then show ?case using Cons.IH [OF next_ok] Cons.prems by simp
qed simp

lemma in_flight_kept: "busy c k \<Longrightarrow> Finish k \<notin> set es \<Longrightarrow> busy (fold advance es c) k"
proof (induction es arbitrary: c)
  case (Cons ev es)
  have "busy (advance ev c) k" using Cons.prems by (cases ev) (auto simp: busy_check busy_clear busy_store busy_other)
  then show ?case using Cons by simp
qed simp

text \<open>A request answered at time \<open>t\<close> is answered with the same octets for \<open>ttl\<close>.\<close>

lemma answered_once:
  assumes "ok c" "\<forall>ev \<in> set es. event_by (t + ttl) ev \<and> \<not> answers k ev" "now \<le> t + ttl"
  shows "check now k (fold advance es (store t k raw c)) = ((Some raw, False), fold advance es (store t k raw c))"
  using response_kept [OF ok_store [OF assms(1)] cached_store assms(2)] assms(3) by (rule check_cached)

text \<open>While its handler runs a request is not handled again.\<close>

lemma started_once:
  assumes "fst (check t k c) = (None, False)" "Finish k \<notin> set es"
  shows "fst (check now k (fold advance es (snd (check t k c)))) \<noteq> (None, False)"
proof -
  define d where "d = fold advance es (snd (check t k c))"
  have b: "busy d k" unfolding d_def using in_flight_kept [OF marks [OF assms(1)] assms(2)] .
  show ?thesis unfolding d_def [symmetric]
  proof (cases "\<exists>raw e. cached d k = Some (raw, e) \<and> now \<le> e")
    case True
    then show "fst (check now k d) \<noteq> (None, False)" using check_cached by fastforce
  next
    case False
    then have "fst (check now k d) = (None, busy d k)" by (intro check_busy) force
    with b show "fst (check now k d) \<noteq> (None, False)" by simp
  qed
qed

end

end
