(* ===== verification/PFCP_Transport.thy ===== *)
theory PFCP_Transport
  imports Transactions PFCP_Message Go_Net GTPU_Forwarder
begin

text \<open>
  The PFCP endpoint, \<^verbatim>\<open>internal/pfcp/transport/transport.go\<close>: the sequence counter,
  the pending requests, the table of answered and running requests, the dispatch of a received
  datagram, \<^verbatim>\<open>Send\<close> and \<^verbatim>\<open>Reply\<close>. A pending request is a reference to its channel and
  context; a goroutine's visible effects are steps on the connection.
\<close>

section \<open>State\<close>

type_synonym pfcp_key = "string \<times> u32"

record cached_response =
  cr_raw :: bytes
  cr_expires :: gtime

text \<open>The channel (capacity one) and the context of a pending request.\<close>

record 'r pending_request =
  px_result :: "'r option"
  px_done :: bool

record pfcp_conn =
  pc_n1 :: nat
  pc_seqVal :: u32
  pc_heap :: "bytes pending_request list"
  pc_pending :: "(pfcp_key, nat) gomap"
  pc_cache :: "(pfcp_key, cached_response) gomap"
  pc_inFlight :: "(pfcp_key, unit) gomap"
  pc_handler :: bool

definition inboundCacheTTL :: duration where "inboundCacheTTL = 30000000000"

definition hostport :: "udp_addr \<Rightarrow> string" where
  "hostport a = joinHostPort (addr_String (uaIP a)) (itoa (uaPort a))"

definition pfcp_Listen :: "nat \<Rightarrow> pfcp_conn" where
  "pfcp_Listen n1 = \<lparr>pc_n1 = n1, pc_seqVal = 0, pc_heap = [], pc_pending = [], pc_cache = [], pc_inFlight = [],
     pc_handler = False\<rparr>"

definition pfcp_SetHandler :: "pfcp_conn \<Rightarrow> pfcp_conn" where
  "pfcp_SetHandler c = c\<lparr>pc_handler := True\<rparr>"

definition pfcp_AllocSeq :: "pfcp_conn \<Rightarrow> u32 \<times> pfcp_conn" where
  "pfcp_AllocSeq c = (let v = (pc_seqVal c + 1) AND 0xFFFFFF in (v, c\<lparr>pc_seqVal := v\<rparr>))"

section \<open>The inbound table\<close>

definition pfcp_checkAndMarkInFlight :: "gtime \<Rightarrow> pfcp_key \<Rightarrow> pfcp_conn \<Rightarrow> (bytes option \<times> bool) \<times> pfcp_conn" where
  "pfcp_checkAndMarkInFlight now key c =
     (case mget (pc_cache c) key of
        Some entry \<Rightarrow>
          if \<not> cr_expires entry < now then ((Some (cr_raw entry), False), c)
          else let c1 = c\<lparr>pc_cache := mdel key (pc_cache c)\<rparr> in
            (if mget (pc_inFlight c1) key \<noteq> None then ((None, True), c1)
             else ((None, False), c1\<lparr>pc_inFlight := mput key () (pc_inFlight c1)\<rparr>))
      | None \<Rightarrow>
          if mget (pc_inFlight c) key \<noteq> None then ((None, True), c)
          else ((None, False), c\<lparr>pc_inFlight := mput key () (pc_inFlight c)\<rparr>))"

definition pfcp_clearInFlight :: "pfcp_key \<Rightarrow> pfcp_conn \<Rightarrow> pfcp_conn" where
  "pfcp_clearInFlight key c = c\<lparr>pc_inFlight := mdel key (pc_inFlight c)\<rparr>"

definition pfcp_storeInboundCache :: "gtime \<Rightarrow> pfcp_key \<Rightarrow> bytes \<Rightarrow> pfcp_conn \<Rightarrow> pfcp_conn" where
  "pfcp_storeInboundCache now key resp c =
     c\<lparr>pc_cache := mput key \<lparr>cr_raw = resp, cr_expires = now + inboundCacheTTL\<rparr>
         (filter (\<lambda>(k, v). \<not> cr_expires v < now) (pc_cache c))\<rparr>"

section \<open>Datagrams\<close>

definition pfcp_deliverResponse :: "udp_addr \<Rightarrow> u32 \<Rightarrow> bytes \<Rightarrow> pfcp_conn \<Rightarrow> bool \<times> pfcp_conn" where
  "pfcp_deliverResponse a s raw c =
     (case mget (pc_pending c) (hostport a, s) of
        None \<Rightarrow> (False, c)
      | Some r \<Rightarrow> (True, c\<lparr>pc_pending := mdel (hostport a, s) (pc_pending c),
          pc_heap := (pc_heap c)[r := (pc_heap c ! r)\<lparr>px_result := Some raw, px_done := True\<rparr>]\<rparr>))"

datatype 'h dispatched =
    InvalidHeader
  | Delivered
  | Resent bytes
  | DuplicateDropped
  | NoHandler
  | Handled 'h bytes

definition pfcp_dispatch :: "gtime \<Rightarrow> udp_addr \<Rightarrow> bytes \<Rightarrow> pfcp_conn \<Rightarrow> pfcp_header dispatched \<times> pfcp_conn" where
  "pfcp_dispatch now a raw c = (case pfcp_ParseHeader raw of
     Ok (h, _) \<Rightarrow>
       (let (delivered, c1) = pfcp_deliverResponse a (ph_SequenceNumber h) raw c in
        if delivered then (Delivered, c1)
        else
          (let key = (hostport a, ph_SequenceNumber h);
               ((cached, inFlight), c2) = pfcp_checkAndMarkInFlight now key c1 in
           case cached of
             Some resp \<Rightarrow> (Resent resp, c2)
           | None \<Rightarrow>
               if inFlight then (DuplicateDropped, c2)
               else if \<not> pc_handler c2 then (NoHandler, pfcp_clearInFlight key c2)
               else (Handled h raw, c2)))
   | _ \<Rightarrow> (InvalidHeader, c))"

text \<open>\<open>wrote\<close> says whether the socket took the datagram.\<close>

definition pfcp_Reply :: "gtime \<Rightarrow> bool \<Rightarrow> udp_addr \<Rightarrow> bytes \<Rightarrow> pfcp_conn \<Rightarrow> (send_error, unit) outcome \<times> pfcp_conn" where
  "pfcp_Reply now wrote a raw c =
     (if \<not> wrote then (Fail SendFailed, c)
      else (Ok (), case pfcp_ParseHeader raw of
          Ok (h, _) \<Rightarrow> pfcp_storeInboundCache now (hostport a, ph_SequenceNumber h) raw c
        | _ \<Rightarrow> c))"

section \<open>Sending a request\<close>

definition extractSeq :: "bytes \<Rightarrow> (send_error, u32) outcome" where
  "extractSeq raw = (case pfcp_ParseHeader raw of Ok (h, _) \<Rightarrow> Ok (ph_SequenceNumber h) | Fail _ \<Rightarrow> Fail BadRequest | Panic \<Rightarrow> Panic)"

text \<open>\<^verbatim>\<open>Send\<close> up to its loop registers the request; a second request with the same key
  replaces the first. The deferred function at its end takes the key out, whoever it belongs to.\<close>

definition pfcp_begin_send :: "udp_addr \<Rightarrow> bytes \<Rightarrow> pfcp_conn \<Rightarrow> (send_error, pfcp_key \<times> nat) outcome \<times> pfcp_conn" where
  "pfcp_begin_send a raw c = (case extractSeq raw of
     Ok s \<Rightarrow> (Ok ((hostport a, s), length (pc_heap c)),
        c\<lparr>pc_heap := pc_heap c @ [\<lparr>px_result = None, px_done = False\<rparr>],
          pc_pending := mput (hostport a, s) (length (pc_heap c)) (pc_pending c)\<rparr>)
   | Fail e \<Rightarrow> (Fail e, c)
   | Panic \<Rightarrow> (Panic, c))"

definition pfcp_end_send :: "pfcp_key \<Rightarrow> pfcp_conn \<Rightarrow> pfcp_conn" where
  "pfcp_end_send key c = c\<lparr>pc_pending := mdel key (pc_pending c)\<rparr>"

definition pfcp_Send_loop :: "pfcp_conn \<Rightarrow> (nat \<Rightarrow> bytes observation) \<Rightarrow> nat \<times> (send_error, bytes option) outcome" where
  "pfcp_Send_loop c obs = attempts (pc_n1 c) (pc_n1 c) obs"

section \<open>The table keeps its contract\<close>

datatype pfcp_other =
    POAllocSeq
  | POBeginSend udp_addr bytes
  | POEndSend pfcp_key
  | PODeliver udp_addr u32 bytes

fun pfcp_do_other :: "pfcp_other \<Rightarrow> pfcp_conn \<Rightarrow> pfcp_conn" where
  "pfcp_do_other POAllocSeq c = snd (pfcp_AllocSeq c)"
| "pfcp_do_other (POBeginSend a raw) c = snd (pfcp_begin_send a raw c)"
| "pfcp_do_other (POEndSend key) c = pfcp_end_send key c"
| "pfcp_do_other (PODeliver a s raw) c = snd (pfcp_deliverResponse a s raw c)"

definition pfcp_cached :: "pfcp_conn \<Rightarrow> pfcp_key \<Rightarrow> (bytes \<times> gtime) option" where
  "pfcp_cached c k = map_option (\<lambda>e. (cr_raw e, cr_expires e)) (mget (pc_cache c) k)"

definition pfcp_busy :: "pfcp_conn \<Rightarrow> pfcp_key \<Rightarrow> bool" where
  "pfcp_busy c k \<longleftrightarrow> mget (pc_inFlight c) k \<noteq> None"

definition pfcp_conn_ok :: "pfcp_conn \<Rightarrow> bool" where
  "pfcp_conn_ok c \<longleftrightarrow> mok (pc_cache c)"

lemmas pfcp_guard_defs = pfcp_checkAndMarkInFlight_def pfcp_clearInFlight_def pfcp_storeInboundCache_def
  pfcp_cached_def pfcp_busy_def pfcp_conn_ok_def

lemma pfcp_other_frame:
  "pc_cache (pfcp_do_other x c) = pc_cache c \<and> pc_inFlight (pfcp_do_other x c) = pc_inFlight c"
  by (cases x) (auto simp: pfcp_AllocSeq_def pfcp_begin_send_def pfcp_end_send_def pfcp_deliverResponse_def Let_def
    split: outcome.splits option.splits)

interpretation pfcp_guard: replay_guard pfcp_checkAndMarkInFlight pfcp_storeInboundCache pfcp_clearInFlight
    pfcp_do_other pfcp_cached pfcp_busy pfcp_conn_ok inboundCacheTTL
proof
  fix c :: pfcp_conn and k k' :: pfcp_key and raw raw' :: bytes and e now :: gtime and x :: pfcp_other
  show "pfcp_cached c k = Some (raw, e) \<Longrightarrow> now \<le> e \<Longrightarrow> pfcp_checkAndMarkInFlight now k c = ((Some raw, False), c)"
    by (auto simp: pfcp_guard_defs)
  show "(\<And>raw e. pfcp_cached c k = Some (raw, e) \<Longrightarrow> e < now) \<Longrightarrow>
      fst (pfcp_checkAndMarkInFlight now k c) = (None, pfcp_busy c k)"
    by (auto simp: pfcp_guard_defs Let_def split: option.splits)
  show "pfcp_busy c k' \<Longrightarrow> pfcp_busy (snd (pfcp_checkAndMarkInFlight now k c)) k'"
    by (auto simp: pfcp_guard_defs Let_def map_simps split: option.splits if_splits)
  show "fst (pfcp_checkAndMarkInFlight now k c) = (None, False) \<Longrightarrow> pfcp_busy (snd (pfcp_checkAndMarkInFlight now k c)) k"
    by (auto simp: pfcp_guard_defs Let_def map_simps split: option.splits if_splits)
  show "pfcp_cached c k' = Some (raw, e) \<Longrightarrow> now \<le> e \<or> k' \<noteq> k \<Longrightarrow>
      pfcp_cached (snd (pfcp_checkAndMarkInFlight now k c)) k' = Some (raw, e)"
    by (auto simp: pfcp_guard_defs Let_def map_simps split: option.splits if_splits)
  show "pfcp_busy (pfcp_clearInFlight k c) k' = (pfcp_busy c k' \<and> k' \<noteq> k)"
    by (auto simp: pfcp_guard_defs map_simps)
  show "pfcp_cached (pfcp_clearInFlight k c) = pfcp_cached c" by (simp add: pfcp_guard_defs fun_eq_iff)
  show "pfcp_busy (pfcp_storeInboundCache now k raw c) = pfcp_busy c" by (simp add: pfcp_guard_defs fun_eq_iff)
  show "pfcp_cached (pfcp_storeInboundCache now k raw c) k = Some (raw, now + inboundCacheTTL)"
    by (simp add: pfcp_guard_defs map_simps)
  show "pfcp_conn_ok c \<Longrightarrow> k' \<noteq> k \<Longrightarrow> pfcp_cached c k' = Some (raw', e) \<Longrightarrow> now \<le> e \<Longrightarrow>
      pfcp_cached (pfcp_storeInboundCache now k raw c) k' = Some (raw', e)"
    by (auto simp: pfcp_guard_defs map_simps mget_filter)
  show "pfcp_busy (pfcp_do_other x c) = pfcp_busy c" "pfcp_cached (pfcp_do_other x c) = pfcp_cached c"
    using pfcp_other_frame [of x c] by (simp_all add: pfcp_guard_defs fun_eq_iff)
  show "pfcp_conn_ok c \<Longrightarrow> pfcp_conn_ok (snd (pfcp_checkAndMarkInFlight now k c))"
    by (auto simp: pfcp_guard_defs Let_def split: option.splits)
  show "pfcp_conn_ok c \<Longrightarrow> pfcp_conn_ok (pfcp_storeInboundCache now k raw c)" by (simp add: pfcp_guard_defs)
  show "pfcp_conn_ok c \<Longrightarrow> pfcp_conn_ok (pfcp_clearInFlight k c)" by (simp add: pfcp_guard_defs)
  show "pfcp_conn_ok c \<Longrightarrow> pfcp_conn_ok (pfcp_do_other x c)"
    using pfcp_other_frame [of x c] by (simp add: pfcp_guard_defs)
qed

section \<open>Properties\<close>

abbreviation pfcp_advance :: "(pfcp_key, pfcp_other) guard_event \<Rightarrow> pfcp_conn \<Rightarrow> pfcp_conn" where
  "pfcp_advance \<equiv> guard_next pfcp_checkAndMarkInFlight pfcp_storeInboundCache pfcp_clearInFlight pfcp_do_other"

lemma pfcp_deliver_none: "mget (pc_pending c) (hostport a, s) = None \<Longrightarrow> pfcp_deliverResponse a s raw c = (False, c)"
  by (simp add: pfcp_deliverResponse_def)

lemma pfcp_dispatch_new:
  "pfcp_ParseHeader raw = Ok (h, body) \<Longrightarrow> mget (pc_pending c) (hostport a, ph_SequenceNumber h) = None \<Longrightarrow>
     pfcp_dispatch now a raw c =
       (let key = (hostport a, ph_SequenceNumber h); ((cached, inFlight), c2) = pfcp_checkAndMarkInFlight now key c in
        case cached of
          Some resp \<Rightarrow> (Resent resp, c2)
        | None \<Rightarrow> if inFlight then (DuplicateDropped, c2)
            else if \<not> pc_handler c2 then (NoHandler, pfcp_clearInFlight key c2) else (Handled h raw, c2))"
  by (simp add: pfcp_dispatch_def pfcp_deliver_none Let_def)

lemma pfcp_Handled_started:
  assumes "fst (pfcp_dispatch now a raw c) = Handled h raw'"
  shows "pfcp_checkAndMarkInFlight now (hostport a, ph_SequenceNumber h) c =
      ((None, False), snd (pfcp_dispatch now a raw c)) \<and> (\<exists>body. pfcp_ParseHeader raw = Ok (h, body))"
  using assms
  by (auto simp: pfcp_dispatch_def pfcp_deliverResponse_def Let_def split: outcome.splits option.splits prod.splits if_splits)


definition sample_hb :: bytes where "sample_hb = [0x20, 1, 0, 4, 0, 0, 3, 0]"
definition sample_hb_answer :: bytes where "sample_hb_answer = [0x20, 2, 0, 4, 0, 0, 3, 0]"

definition sample_addr :: udp_addr where "sample_addr = \<lparr>uaIP = IP4 0x0A000001, uaPort = 8805\<rparr>"


text \<open>
  Whatever arrives from the address of a pending request with its sequence number is taken
  as the answer, of whatever message type it is: a request of the peer that happens to carry that
  number is not handled and not answered. Both ends count from 1, so the first request one of them
  sends carries the number of the first request of the other.
\<close>

theorem pfcp_request_taken_as_answer:
  assumes "pfcp_ParseHeader raw = Ok (h, body)" "mget (pc_pending c) (hostport a, ph_SequenceNumber h) = Some r"
    and "r < length (pc_heap c)"
  shows "fst (pfcp_dispatch now a raw c) = Delivered \<and>
    px_result (pc_heap (snd (pfcp_dispatch now a raw c)) ! r) = Some raw \<and>
    pc_cache (snd (pfcp_dispatch now a raw c)) = pc_cache c \<and> pc_inFlight (snd (pfcp_dispatch now a raw c)) = pc_inFlight c \<and>
    fst (pfcp_AllocSeq (pfcp_Listen n)) = fst (pfcp_AllocSeq (pfcp_Listen m))"
  using assms by (simp add: pfcp_dispatch_def pfcp_deliverResponse_def Let_def pfcp_AllocSeq_def pfcp_Listen_def)

text \<open>A Session Report Request with sequence number 1 while a heartbeat with that number is pending.\<close>

definition sample_report :: bytes where
  "sample_report = pfcp_Marshal \<lparr>ph_Version = 1, ph_HasSEID = True, ph_MessageType = MsgTypeSessionReportRequest,
     ph_Length = 0, ph_SEID = 9, ph_SequenceNumber = 1\<rparr> []"

definition sample_waiting :: pfcp_conn where
  "sample_waiting = snd (pfcp_begin_send sample_addr [0x20, 1, 0, 4, 0, 0, 1, 0] (pfcp_SetHandler (pfcp_Listen 3)))"

lemma sample_report_header:
  "pfcp_ParseHeader sample_report = Ok (\<lparr>ph_Version = 1, ph_HasSEID = True, ph_MessageType = 56, ph_Length = 12,
     ph_SEID = 9, ph_SequenceNumber = 1\<rparr>, [])"
  by code_simp

lemma sample_heartbeat_seq: "extractSeq [0x20, 1, 0, 4, 0, 0, 1, 0] = Ok 1"
  by code_simp

lemma sample_waiting_facts:
  "mget (pc_pending sample_waiting) (hostport sample_addr, ph_SequenceNumber \<lparr>ph_Version = 1, ph_HasSEID = True,
     ph_MessageType = 56, ph_Length = 12, ph_SEID = 9, ph_SequenceNumber = 1\<rparr>) = Some 0"
  "0 < length (pc_heap sample_waiting)" "0 < pc_n1 sample_waiting"
  by (simp_all add: sample_waiting_def pfcp_begin_send_def sample_heartbeat_seq pfcp_Listen_def pfcp_SetHandler_def)

theorem pfcp_request_taken_as_answer_witness:
  "fst (pfcp_dispatch 0 sample_addr sample_report sample_waiting) = Delivered"
  by (rule pfcp_request_taken_as_answer [OF sample_report_header sample_waiting_facts(1,2), THEN conjunct1])

text \<open>
  A response can be lost on the way to the caller. Delivering it fills the channel of the
  request and cancels its context, so a sender that reaches its \<^verbatim>\<open>select\<close> after that finds both
  cases ready; if it takes the context's, and the caller's context has no error, \<^verbatim>\<open>Send\<close> returns
  a nil response and a nil error. The other case returns the response.
\<close>

theorem pfcp_response_can_be_lost:
  assumes "pfcp_ParseHeader raw = Ok (h, body)" "mget (pc_pending c) (hostport a, ph_SequenceNumber h) = Some r"
    and "r < length (pc_heap c)" "0 < pc_n1 c"
  shows "let d = snd (pfcp_dispatch now a raw c); x = pc_heap d ! r; cases = ready (px_result x) (px_done x) False False in
    cases = {Answered raw, Cancelled False} \<and>
    pfcp_Send_loop d (\<lambda>_. Cancelled False) = (1, Ok None) \<and> pfcp_Send_loop d (\<lambda>_. Answered raw) = (1, Ok (Some raw))"
proof -
  obtain n where "pc_n1 c = Suc n" using assms(4) by (cases "pc_n1 c") auto
  then show ?thesis
    using assms(1-3) by (simp add: pfcp_dispatch_def pfcp_deliverResponse_def pfcp_Send_loop_def ready_def Let_def insert_commute)
qed

theorem pfcp_response_can_be_lost_witness:
  "pfcp_Send_loop (snd (pfcp_dispatch 0 sample_addr sample_report sample_waiting)) (\<lambda>_. Cancelled False) = (1, Ok None)"
  using pfcp_response_can_be_lost [OF sample_report_header sample_waiting_facts, of 0] unfolding Let_def by blast



text \<open>Sequence numbers: the \<open>k\<close>-th number after a state.\<close>

definition pfcp_seq_after :: "pfcp_conn \<Rightarrow> nat \<Rightarrow> u32" where
  "pfcp_seq_after c k = pc_seqVal (((snd \<circ> pfcp_AllocSeq) ^^ k) c)"

lemma unat_mask24: "unat (x AND 0xFFFFFF :: u32) = unat x mod 2 ^ 24"
proof -
  have "(0xFFFFFF :: u32) = mask 24" by (simp add: mask_eq_exp_minus_1)
  then have "x AND 0xFFFFFF = take_bit 24 x" by (simp only: take_bit_eq_mask)
  then show ?thesis by (simp only: unsigned_take_bit_eq) (simp add: take_bit_eq_mod)
qed

lemma unat_succ_mod24: "unat (x + 1 :: u32) mod 2 ^ 24 = (unat x + 1) mod 2 ^ 24"
proof -
  have "unat (x + 1) = (unat x + 1) mod 2 ^ 32" by (simp add: unat_word_ariths)
  then show ?thesis using mod_mod_cancel [of "2 ^ 24" "2 ^ 32" "unat x + 1"] by simp
qed

lemma unat_seq_after: "unat (pc_seqVal c) < 2 ^ 24 \<Longrightarrow> unat (pfcp_seq_after c k) = (unat (pc_seqVal c) + k) mod 2 ^ 24"
proof (induction k)
  case (Suc k)
  have "unat (pfcp_seq_after c (Suc k)) = (unat (pfcp_seq_after c k) + 1) mod 2 ^ 24"
    unfolding pfcp_seq_after_def by (simp add: pfcp_AllocSeq_def Let_def unat_mask24 unat_succ_mod24 [simplified])
  also have "\<dots> = (unat (pc_seqVal c) + Suc k) mod 2 ^ 24" using Suc by (simp add: mod_simps)
  finally show ?case .
qed (simp add: pfcp_seq_after_def)

text \<open>
  Sequence numbers fit the 24 bits of the header, and any \<open>2 ^ 24\<close> numbers allocated in a
  row by an endpoint are different.
\<close>

theorem pfcp_sequence_numbers:
  assumes "0 < k"
  shows "unat (pfcp_seq_after (pfcp_Listen n1) k) < 2 ^ 24 \<and>
    fst (pfcp_AllocSeq (((snd \<circ> pfcp_AllocSeq) ^^ k) (pfcp_Listen n1))) = pfcp_seq_after (pfcp_Listen n1) (k + 1) \<and>
    (\<forall>j. j < k \<and> k < j + 2 ^ 24 \<longrightarrow> pfcp_seq_after (pfcp_Listen n1) j \<noteq> pfcp_seq_after (pfcp_Listen n1) k)"
proof (intro conjI allI impI)
  have s: "unat (pfcp_seq_after (pfcp_Listen n1) i) = i mod 2 ^ 24" for i
    using unat_seq_after [of "pfcp_Listen n1" i] by (simp add: pfcp_Listen_def)
  show "unat (pfcp_seq_after (pfcp_Listen n1) k) < 2 ^ 24" by (simp add: s)
  show "fst (pfcp_AllocSeq (((snd \<circ> pfcp_AllocSeq) ^^ k) (pfcp_Listen n1))) = pfcp_seq_after (pfcp_Listen n1) (k + 1)"
    by (simp add: pfcp_seq_after_def pfcp_AllocSeq_def Let_def)
  fix j assume j: "j < k \<and> k < j + 2 ^ 24"
  show "pfcp_seq_after (pfcp_Listen n1) j \<noteq> pfcp_seq_after (pfcp_Listen n1) k"
  proof
    assume "pfcp_seq_after (pfcp_Listen n1) j = pfcp_seq_after (pfcp_Listen n1) k"
    then have "j mod 2 ^ 24 = k mod 2 ^ 24" using s by metis
    then have "2 ^ 24 dvd k - j" using j mod_eq_dvd_iff_nat [of j k "2 ^ 24"] by simp
    then have "2 ^ 24 \<le> k - j" using j by (intro dvd_imp_le) simp_all
    with j show False by linarith
  qed
qed

theorem pfcp_sequence_numbers_witness:
  "pfcp_seq_after (pfcp_Listen 3) 1 \<noteq> pfcp_seq_after (pfcp_Listen 3) 16777216"
  using pfcp_sequence_numbers [of 16777216 3] by simp

end
