(* ===== verification/GTPv2_Transport.thy ===== *)
theory GTPv2_Transport
  imports PFCP_Transport GTPv2_Message
begin

text \<open>
  The GTPv2-C endpoint, \<^verbatim>\<open>internal/gtpv2/transport/transport.go\<close>: the sequence counter, the
  pending requests keyed by address, sequence number and type of the response, the table of
  answered and running requests, the dispatch of a datagram with its piggybacked messages,
  \<^verbatim>\<open>SendWithPiggybacks\<close> and \<^verbatim>\<open>Reply\<close>.
\<close>

section \<open>State\<close>

record gtp_key =
  gk_addr :: string
  gk_seq :: u32
  gk_msgType :: u8
  gk_teid :: u32

record gtp_transaction =
  gt_addr :: string
  gt_seq :: u32
  gt_responseType :: u8

type_synonym gtp_answer = "bytes \<times> frame list"

record gtp_conn =
  gc_n3 :: nat
  gc_seqVal :: u32
  gc_heap :: "gtp_answer pending_request list"
  gc_pending :: "(gtp_transaction, nat) gomap"
  gc_cache :: "(gtp_key, cached_response) gomap"
  gc_inFlight :: "(gtp_key, unit) gomap"
  gc_handler :: bool

definition gtp_inboundCacheTTL :: duration where "gtp_inboundCacheTTL = 30000000000"

definition gtp_Listen :: "nat \<Rightarrow> gtp_conn" where
  "gtp_Listen n3 = \<lparr>gc_n3 = n3, gc_seqVal = 0, gc_heap = [], gc_pending = [], gc_cache = [], gc_inFlight = [],
     gc_handler = False\<rparr>"

definition gtp_SetHandler :: "gtp_conn \<Rightarrow> gtp_conn" where
  "gtp_SetHandler c = c\<lparr>gc_handler := True\<rparr>"

definition gtp_AllocSeq :: "gtp_conn \<Rightarrow> u32 \<times> gtp_conn" where
  "gtp_AllocSeq c = (let v = (gc_seqVal c + 1) AND 0xFFFFFF in (v, c\<lparr>gc_seqVal := v\<rparr>))"

definition isResponseType :: "u8 \<Rightarrow> bool" where
  "isResponseType t \<longleftrightarrow> t \<in> {MsgTypeEchoResponse, MsgTypeVersionNotSupported, MsgTypeCreateSessionResponse,
     MsgTypeModifyBearerResponse, MsgTypeDeleteSessionResponse, MsgTypeCreateBearerResponse,
     MsgTypeUpdateBearerResponse, MsgTypeDeleteBearerResponse, MsgTypeReleaseAccessBearersResponse}"

section \<open>The inbound table\<close>

definition gtp_checkAndMarkInFlight :: "gtime \<Rightarrow> gtp_key \<Rightarrow> gtp_conn \<Rightarrow> (bytes option \<times> bool) \<times> gtp_conn" where
  "gtp_checkAndMarkInFlight now key c =
     (case mget (gc_cache c) key of
        Some entry \<Rightarrow>
          if \<not> cr_expires entry < now then ((Some (cr_raw entry), False), c)
          else let c1 = c\<lparr>gc_cache := mdel key (gc_cache c)\<rparr> in
            (if mget (gc_inFlight c1) key \<noteq> None then ((None, True), c1)
             else ((None, False), c1\<lparr>gc_inFlight := mput key () (gc_inFlight c1)\<rparr>))
      | None \<Rightarrow>
          if mget (gc_inFlight c) key \<noteq> None then ((None, True), c)
          else ((None, False), c\<lparr>gc_inFlight := mput key () (gc_inFlight c)\<rparr>))"

definition gtp_clearInFlight :: "gtp_key \<Rightarrow> gtp_conn \<Rightarrow> gtp_conn" where
  "gtp_clearInFlight key c = c\<lparr>gc_inFlight := mdel key (gc_inFlight c)\<rparr>"

definition gtp_storeInboundCache :: "gtime \<Rightarrow> gtp_key \<Rightarrow> bytes \<Rightarrow> gtp_conn \<Rightarrow> gtp_conn" where
  "gtp_storeInboundCache now key resp c =
     c\<lparr>gc_cache := mput key \<lparr>cr_raw = resp, cr_expires = now + gtp_inboundCacheTTL\<rparr>
         (filter (\<lambda>(k, v). \<not> cr_expires v < now) (gc_cache c))\<rparr>"

definition inFlightRetransmitKeyForResponse :: "udp_addr \<Rightarrow> header \<Rightarrow> gtp_conn \<Rightarrow> gtp_key" where
  "inFlightRetransmitKeyForResponse a h c = (case RequestTypeForResponse (hMessageType h) of
     None \<Rightarrow> \<lparr>gk_addr = hostport a, gk_seq = hSequenceNumber h, gk_msgType = hMessageType h, gk_teid = hTEID h\<rparr>
   | Some reqType \<Rightarrow>
       (case find (\<lambda>(k, _). gk_addr k = hostport a \<and> gk_seq k = hSequenceNumber h \<and> gk_msgType k = reqType) (gc_inFlight c) of
          Some (k, _) \<Rightarrow> k
        | None \<Rightarrow> \<lparr>gk_addr = hostport a, gk_seq = hSequenceNumber h, gk_msgType = reqType, gk_teid = 0\<rparr>))"

definition gtp_Reply :: "gtime \<Rightarrow> bool \<Rightarrow> udp_addr \<Rightarrow> bytes \<Rightarrow> gtp_conn \<Rightarrow> (send_error, unit) outcome \<times> gtp_conn" where
  "gtp_Reply now wrote a raw c =
     (if \<not> wrote then (Fail SendFailed, c)
      else (Ok (), case ParseHeader raw of
          Ok (h, _) \<Rightarrow> gtp_storeInboundCache now (inFlightRetransmitKeyForResponse a h c) raw c
        | _ \<Rightarrow> c))"

section \<open>Datagrams\<close>

definition gtp_deliverResponse :: "udp_addr \<Rightarrow> u8 \<Rightarrow> u32 \<Rightarrow> bytes \<Rightarrow> frame list \<Rightarrow> gtp_conn \<Rightarrow> bool \<times> gtp_conn" where
  "gtp_deliverResponse a t s raw piggybacks c =
     (let key = \<lparr>gt_addr = hostport a, gt_seq = s, gt_responseType = t\<rparr> in
      case mget (gc_pending c) key of
        None \<Rightarrow> (False, c)
      | Some r \<Rightarrow> (True, c\<lparr>gc_pending := mdel key (gc_pending c),
          gc_heap := (gc_heap c)[r := (gc_heap c ! r)\<lparr>px_result := Some (raw, piggybacks), px_done := True\<rparr>]\<rparr>))"

datatype gtp_out =
    WroteUDP bytes
  | TFlagViolation
  | ResponseDelivered
  | DuplicateFrame
  | NoHandlerSet
  | HandlerRuns header bytes

text \<open>A frame up to the call of the handler.\<close>

definition frame_key :: "udp_addr \<Rightarrow> header \<Rightarrow> gtp_key" where
  "frame_key a h = \<lparr>gk_addr = hostport a, gk_seq = hSequenceNumber h, gk_msgType = hMessageType h, gk_teid = hTEID h\<rparr>"

definition gtp_start_frame :: "gtime \<Rightarrow> udp_addr \<Rightarrow> frame \<Rightarrow> bool \<Rightarrow> gtp_conn \<Rightarrow> gtp_out \<times> gtp_conn" where
  "gtp_start_frame now a fr allowPendingResponse c =
     (let h = frHeader fr in
      if ValidateTFlag h \<noteq> Ok () then (TFlagViolation, c)
      else
        (let (delivered, c1) = (if allowPendingResponse \<and> isResponseType (hMessageType h)
               then gtp_deliverResponse a (hMessageType h) (hSequenceNumber h) (frRaw fr) [] c else (False, c)) in
         if delivered then (ResponseDelivered, c1)
         else
           (let ((cached, inFlight), c2) = gtp_checkAndMarkInFlight now (frame_key a h) c1 in
            case cached of
              Some resp \<Rightarrow> (WroteUDP resp, c2)
            | None \<Rightarrow>
                if inFlight then (DuplicateFrame, c2)
                else if \<not> gc_handler c2 then (NoHandlerSet, gtp_clearInFlight (frame_key a h) c2)
                else (HandlerRuns h (frRaw fr), c2))))"

text \<open>A frame with the handler, \<open>run\<close>, and the deferred removal of the mark.\<close>

definition processFrame :: "(header \<Rightarrow> bytes \<Rightarrow> gtp_conn \<Rightarrow> gtp_conn) \<Rightarrow> gtime \<Rightarrow> udp_addr \<Rightarrow> frame \<Rightarrow> bool \<Rightarrow>
    gtp_conn \<Rightarrow> gtp_out \<times> gtp_conn" where
  "processFrame run now a fr allowPendingResponse c = (case gtp_start_frame now a fr allowPendingResponse c of
     (HandlerRuns h raw, c1) \<Rightarrow> (HandlerRuns h raw, gtp_clearInFlight (frame_key a h) (run h raw c1))
   | r \<Rightarrow> r)"

fun DispatchFrames :: "(header \<Rightarrow> bytes \<Rightarrow> gtp_conn \<Rightarrow> gtp_conn) \<Rightarrow> gtime \<Rightarrow> udp_addr \<Rightarrow> frame list \<Rightarrow> gtp_conn \<Rightarrow>
    gtp_out list \<times> gtp_conn" where
  "DispatchFrames run now a [] c = ([], c)"
| "DispatchFrames run now a (fr # frs) c =
     (let (out1, c1) = processFrame run now a fr False c; (out2, c2) = DispatchFrames run now a frs c1 in (out1 # out2, c2))"

definition deliverPendingResponseFrame :: "udp_addr \<Rightarrow> frame \<Rightarrow> frame list \<Rightarrow> gtp_conn \<Rightarrow> bool \<times> gtp_conn" where
  "deliverPendingResponseFrame a fr piggybacks c =
     (let h = frHeader fr in
      if ValidateTFlag h \<noteq> Ok () then (True, c)
      else if \<not> isResponseType (hMessageType h) then (False, c)
      else gtp_deliverResponse a (hMessageType h) (hSequenceNumber h) (frRaw fr) piggybacks c)"

definition gtp_dispatch :: "(header \<Rightarrow> bytes \<Rightarrow> gtp_conn \<Rightarrow> gtp_conn) \<Rightarrow> gtime \<Rightarrow> udp_addr \<Rightarrow> bytes \<Rightarrow> gtp_conn \<Rightarrow>
    gtp_out list \<times> gtp_conn" where
  "gtp_dispatch run now a raw c = (case SplitFrames raw of
     Fail (ErrVersionNotSupported v) \<Rightarrow> ([WroteUDP (MarshalVersionNotSupportedIndication 0)], c)
   | Fail (ErrInvalidLength h) \<Rightarrow>
       ((case MarshalInvalidLengthResponse h 0 of Ok resp \<Rightarrow> [WroteUDP resp] | _ \<Rightarrow> []), c)
   | Ok (primary # piggybacks) \<Rightarrow>
       (let (delivered, c1) = deliverPendingResponseFrame a primary piggybacks c in
        if delivered then ([ResponseDelivered], c1) else DispatchFrames run now a (primary # piggybacks) c)
   | _ \<Rightarrow> ([], c))"

section \<open>Sending a request\<close>

definition gtp_begin_send :: "udp_addr \<Rightarrow> bytes \<Rightarrow> gtp_conn \<Rightarrow> (send_error, gtp_transaction \<times> nat) outcome \<times> gtp_conn" where
  "gtp_begin_send a raw c = (case ParseHeader raw of
     Ok (h, _) \<Rightarrow> (case ResponseTypeFor (hMessageType h) of
         None \<Rightarrow> (Fail BadRequest, c)
       | Some respType \<Rightarrow>
           (let key = \<lparr>gt_addr = hostport a, gt_seq = hSequenceNumber h, gt_responseType = respType\<rparr> in
            if mget (gc_pending c) key \<noteq> None then (Fail DuplicateTransaction, c)
            else (Ok (key, length (gc_heap c)),
              c\<lparr>gc_heap := gc_heap c @ [\<lparr>px_result = None, px_done = False\<rparr>],
                gc_pending := mput key (length (gc_heap c)) (gc_pending c)\<rparr>)))
   | Fail _ \<Rightarrow> (Fail BadRequest, c)
   | Panic \<Rightarrow> (Panic, c))"

definition gtp_end_send :: "gtp_transaction \<Rightarrow> gtp_conn \<Rightarrow> gtp_conn" where
  "gtp_end_send key c = c\<lparr>gc_pending := mdel key (gc_pending c)\<rparr>"

definition gtp_Send_loop :: "gtp_conn \<Rightarrow> (nat \<Rightarrow> gtp_answer observation) \<Rightarrow> nat \<times> (send_error, gtp_answer option) outcome" where
  "gtp_Send_loop c obs = attempts (gc_n3 c) (gc_n3 c) obs"

section \<open>The table keeps its contract\<close>

datatype gtp_other =
    GOAllocSeq
  | GOBeginSend udp_addr bytes
  | GOEndSend gtp_transaction
  | GODeliver udp_addr u8 u32 bytes "frame list"

fun gtp_do_other :: "gtp_other \<Rightarrow> gtp_conn \<Rightarrow> gtp_conn" where
  "gtp_do_other GOAllocSeq c = snd (gtp_AllocSeq c)"
| "gtp_do_other (GOBeginSend a raw) c = snd (gtp_begin_send a raw c)"
| "gtp_do_other (GOEndSend key) c = gtp_end_send key c"
| "gtp_do_other (GODeliver a t s raw ps) c = snd (gtp_deliverResponse a t s raw ps c)"

definition gtp_cached :: "gtp_conn \<Rightarrow> gtp_key \<Rightarrow> (bytes \<times> gtime) option" where
  "gtp_cached c k = map_option (\<lambda>e. (cr_raw e, cr_expires e)) (mget (gc_cache c) k)"

definition gtp_busy :: "gtp_conn \<Rightarrow> gtp_key \<Rightarrow> bool" where
  "gtp_busy c k \<longleftrightarrow> mget (gc_inFlight c) k \<noteq> None"

definition gtp_conn_ok :: "gtp_conn \<Rightarrow> bool" where
  "gtp_conn_ok c \<longleftrightarrow> mok (gc_cache c) \<and> mok (gc_inFlight c)"

lemmas gtp_guard_defs = gtp_checkAndMarkInFlight_def gtp_clearInFlight_def gtp_storeInboundCache_def
  gtp_cached_def gtp_busy_def gtp_conn_ok_def

lemma gtp_other_frame:
  "gc_cache (gtp_do_other x c) = gc_cache c \<and> gc_inFlight (gtp_do_other x c) = gc_inFlight c"
  by (cases x) (auto simp: gtp_AllocSeq_def gtp_begin_send_def gtp_end_send_def gtp_deliverResponse_def Let_def
    split: outcome.splits option.splits)

interpretation gtp_guard: replay_guard gtp_checkAndMarkInFlight gtp_storeInboundCache gtp_clearInFlight
    gtp_do_other gtp_cached gtp_busy gtp_conn_ok gtp_inboundCacheTTL
proof
  fix c :: gtp_conn and k k' :: gtp_key and raw raw' :: bytes and e now :: gtime and x :: gtp_other
  show "gtp_cached c k = Some (raw, e) \<Longrightarrow> now \<le> e \<Longrightarrow> gtp_checkAndMarkInFlight now k c = ((Some raw, False), c)"
    by (auto simp: gtp_guard_defs)
  show "(\<And>raw e. gtp_cached c k = Some (raw, e) \<Longrightarrow> e < now) \<Longrightarrow>
      fst (gtp_checkAndMarkInFlight now k c) = (None, gtp_busy c k)"
    by (auto simp: gtp_guard_defs Let_def split: option.splits)
  show "gtp_busy c k' \<Longrightarrow> gtp_busy (snd (gtp_checkAndMarkInFlight now k c)) k'"
    by (auto simp: gtp_guard_defs Let_def map_simps split: option.splits if_splits)
  show "fst (gtp_checkAndMarkInFlight now k c) = (None, False) \<Longrightarrow> gtp_busy (snd (gtp_checkAndMarkInFlight now k c)) k"
    by (auto simp: gtp_guard_defs Let_def map_simps split: option.splits if_splits)
  show "gtp_cached c k' = Some (raw, e) \<Longrightarrow> now \<le> e \<or> k' \<noteq> k \<Longrightarrow>
      gtp_cached (snd (gtp_checkAndMarkInFlight now k c)) k' = Some (raw, e)"
    by (auto simp: gtp_guard_defs Let_def map_simps split: option.splits if_splits)
  show "gtp_busy (gtp_clearInFlight k c) k' = (gtp_busy c k' \<and> k' \<noteq> k)"
    by (auto simp: gtp_guard_defs map_simps)
  show "gtp_cached (gtp_clearInFlight k c) = gtp_cached c" by (simp add: gtp_guard_defs fun_eq_iff)
  show "gtp_busy (gtp_storeInboundCache now k raw c) = gtp_busy c" by (simp add: gtp_guard_defs fun_eq_iff)
  show "gtp_cached (gtp_storeInboundCache now k raw c) k = Some (raw, now + gtp_inboundCacheTTL)"
    by (simp add: gtp_guard_defs map_simps)
  show "gtp_conn_ok c \<Longrightarrow> k' \<noteq> k \<Longrightarrow> gtp_cached c k' = Some (raw', e) \<Longrightarrow> now \<le> e \<Longrightarrow>
      gtp_cached (gtp_storeInboundCache now k raw c) k' = Some (raw', e)"
    by (auto simp: gtp_guard_defs map_simps mget_filter)
  show "gtp_busy (gtp_do_other x c) = gtp_busy c" "gtp_cached (gtp_do_other x c) = gtp_cached c"
    using gtp_other_frame [of x c] by (simp_all add: gtp_guard_defs fun_eq_iff)
  show "gtp_conn_ok c \<Longrightarrow> gtp_conn_ok (snd (gtp_checkAndMarkInFlight now k c))"
    by (auto simp: gtp_guard_defs Let_def split: option.splits)
  show "gtp_conn_ok c \<Longrightarrow> gtp_conn_ok (gtp_storeInboundCache now k raw c)" by (simp add: gtp_guard_defs)
  show "gtp_conn_ok c \<Longrightarrow> gtp_conn_ok (gtp_clearInFlight k c)" by (simp add: gtp_guard_defs)
  show "gtp_conn_ok c \<Longrightarrow> gtp_conn_ok (gtp_do_other x c)"
    using gtp_other_frame [of x c] by (simp add: gtp_guard_defs)
qed

section \<open>Properties\<close>

abbreviation gtp_advance :: "(gtp_key, gtp_other) guard_event \<Rightarrow> gtp_conn \<Rightarrow> gtp_conn" where
  "gtp_advance \<equiv> guard_next gtp_checkAndMarkInFlight gtp_storeInboundCache gtp_clearInFlight gtp_do_other"

lemma gtp_HandlerRuns_started:
  assumes "gtp_start_frame now a fr False c = (HandlerRuns h raw, d)"
  shows "h = frHeader fr \<and> ValidateTFlag h = Ok () \<and> gtp_checkAndMarkInFlight now (frame_key a h) c = ((None, False), d)"
  using assms by (auto simp: gtp_start_frame_def Let_def split: prod.splits option.splits if_splits)

lemma gtp_mark_inFlight:
  assumes "gtp_checkAndMarkInFlight now k c = ((None, False), d)"
  shows "gc_inFlight d = gc_inFlight c @ [(k, ())] \<and> mget (gc_inFlight c) k = None"
proof -
  have "mget (gc_inFlight c) k = None \<and> gc_inFlight d = mput k () (gc_inFlight c)"
    using assms by (cases "mget (gc_inFlight c) k") (auto simp: gtp_checkAndMarkInFlight_def Let_def split: option.splits if_splits)
  then show ?thesis using mput_fresh [of k "gc_inFlight c" "()"] by (simp add: mkeys_iff)
qed

lemma find_snoc: "find P xs = None \<Longrightarrow> find P (xs @ [y]) = (if P y then Some y else None)"
  by (induction xs) (auto split: if_splits)

lemma gtp_reply_key:
  assumes ok: "gtp_conn_ok c" and m: "gtp_checkAndMarkInFlight t (frame_key a h) c = ((None, False), d)"
    and r: "RequestTypeForResponse (hMessageType hr) = Some (hMessageType h)" "hSequenceNumber hr = hSequenceNumber h"
    and only: "\<forall>k. gtp_busy c k \<longrightarrow> \<not> (gk_addr k = hostport a \<and> gk_seq k = hSequenceNumber h \<and> gk_msgType k = hMessageType h)"
  shows "inFlightRetransmitKeyForResponse a hr d = frame_key a h"
proof -
  let ?P = "\<lambda>(k, _ :: unit). gk_addr k = hostport a \<and> gk_seq k = hSequenceNumber h \<and> gk_msgType k = hMessageType h"
  have "\<not> ?P e" if "e \<in> set (gc_inFlight c)" for e
  proof (cases e)
    case (Pair k u)
    then have "mget (gc_inFlight c) k = Some u" using that ok mem_mget [of "gc_inFlight c" k u] by (simp add: gtp_conn_ok_def)
    then show ?thesis using only by (auto simp: gtp_busy_def Pair)
  qed
  then have "find ?P (gc_inFlight c) = None" unfolding find_None_iff by blast
  then have "find ?P (gc_inFlight c @ [(frame_key a h, ())]) = Some (frame_key a h, ())"
    by (subst find_snoc) (simp_all add: frame_key_def)
  then show ?thesis using gtp_mark_inFlight [OF m] r by (simp add: inFlightRetransmitKeyForResponse_def)
qed

text \<open>
  C21: A retransmitted request is answered from the cache. Suppose a request starts its handler
  while no other request of the same address, sequence number and type runs, and the handler replies
  with the response of that type and number. Then, whatever the endpoint does in the next 30 seconds,
  short of answering that request again, a further copy of the request is answered with the same
  octets and starts no handler; the response's own TEID plays no part in this.
\<close>

theorem gtp_retransmission_resent:
  assumes "gtp_conn_ok c" "gtp_start_frame t a fr False c = (HandlerRuns h raw, d)"
    and "\<forall>k. gtp_busy c k \<longrightarrow> \<not> (gk_addr k = hostport a \<and> gk_seq k = hSequenceNumber h \<and> gk_msgType k = hMessageType h)"
    and "ParseHeader resp = Ok (hr, rest)" "RequestTypeForResponse (hMessageType hr) = Some (hMessageType h)"
    and "hSequenceNumber hr = hSequenceNumber h" "gtp_Reply t' True a resp d = (Ok (), e)"
    and "\<forall>ev \<in> set later. event_by (t' + gtp_inboundCacheTTL) ev \<and> \<not> answers (frame_key a h) ev"
    and "frHeader copy = h" "now \<le> t' + gtp_inboundCacheTTL"
  shows "gtp_start_frame now a copy False (fold gtp_advance later e) = (WroteUDP resp, fold gtp_advance later e)"
proof -
  have s: "ValidateTFlag h = Ok ()" "gtp_checkAndMarkInFlight t (frame_key a h) c = ((None, False), d)"
    using gtp_HandlerRuns_started [OF assms(2)] by auto
  have "gtp_conn_ok d" using gtp_guard.ok_check [OF assms(1), of t "frame_key a h"] s(2) by simp
  moreover have "e = gtp_storeInboundCache t' (frame_key a h) resp d"
    using assms(4,7) gtp_reply_key [OF assms(1) s(2) assms(5,6,3)] by (auto simp: gtp_Reply_def)
  ultimately have "gtp_checkAndMarkInFlight now (frame_key a h) (fold gtp_advance later e) =
      ((Some resp, False), fold gtp_advance later e)"
    using gtp_guard.answered_once assms(8,10) by metis
  then show ?thesis using s(1) assms(9) by (simp add: gtp_start_frame_def Let_def)
qed

definition sample_echo :: frame where
  "sample_echo = \<lparr>frHeader = zeroHeader\<lparr>hVersion := 2, hMessageType := 1, hLength := 4, hSequenceNumber := 1\<rparr>,
     frRaw = [0x40, 1, 0, 4, 0, 0, 1, 0], frStart = 0, frEnd = 8\<rparr>"

lemma sample_echo_facts:
  "ParseHeader [0x40, 2, 0, 4, 0, 0, 1, 0] =
     Ok (zeroHeader\<lparr>hVersion := 2, hMessageType := 2, hLength := 4, hSequenceNumber := 1\<rparr>, [])"
  "RequestTypeForResponse 2 = Some 1" "ValidateTFlag (frHeader sample_echo) = Ok ()"
  "SplitFrames [0x40, 1, 0, 4, 0, 0, 1, 0] = Ok [sample_echo]"
  by code_simp+

theorem gtp_retransmission_resent_witness:
  "\<exists>d. fst (gtp_start_frame 0 sample_addr sample_echo False (gtp_SetHandler (gtp_Listen 5))) =
      HandlerRuns (frHeader sample_echo) (frRaw sample_echo) \<and>
    fst (gtp_start_frame 7 sample_addr sample_echo False d) = WroteUDP [0x40, 2, 0, 4, 0, 0, 1, 0]"
proof -
  let ?c = "gtp_SetHandler (gtp_Listen 5)" and ?h = "frHeader sample_echo"
  let ?r = "zeroHeader\<lparr>hVersion := 2, hMessageType := 2, hLength := 4, hSequenceNumber := 1\<rparr>"
  obtain d where d: "gtp_start_frame 0 sample_addr sample_echo False ?c = (HandlerRuns ?h (frRaw sample_echo), d)"
    by (simp add: gtp_start_frame_def sample_echo_facts gtp_checkAndMarkInFlight_def gtp_SetHandler_def gtp_Listen_def Let_def)
  obtain e where e: "gtp_Reply 5 True sample_addr [0x40, 2, 0, 4, 0, 0, 1, 0] d = (Ok (), e)"
    by (simp add: gtp_Reply_def)
  have "gtp_start_frame 7 sample_addr sample_echo False (fold gtp_advance [Finish (frame_key sample_addr ?h)] e) =
      (WroteUDP [0x40, 2, 0, 4, 0, 0, 1, 0], fold gtp_advance [Finish (frame_key sample_addr ?h)] e)"
  proof (rule gtp_retransmission_resent [OF _ d _ sample_echo_facts(1) _ _ e])
    show "gtp_conn_ok ?c" by (simp add: gtp_conn_ok_def gtp_SetHandler_def gtp_Listen_def)
    show "RequestTypeForResponse (hMessageType ?r) = Some (hMessageType ?h)"
      using sample_echo_facts(2) by (simp add: sample_echo_def)
  qed (simp_all add: gtp_busy_def gtp_SetHandler_def gtp_Listen_def sample_echo_def answers_def gtp_inboundCacheTTL_def)
  then show ?thesis using d by (metis fst_conv)
qed

text \<open>
  Only a response can answer a pending request, and only its own: a datagram whose first
  message is not of a response type leaves the pending requests as they are up to its handler, and a
  response is delivered exactly if a request to that address with that sequence number and that
  response type is pending, together with the messages piggybacked on it.
\<close>

theorem gtp_answer_matched:
  assumes "SplitFrames raw = Ok (fr # ps)" "ValidateTFlag (frHeader fr) = Ok ()"
  shows "(\<not> isResponseType (hMessageType (frHeader fr)) \<longrightarrow>
      gtp_dispatch run now a raw c = DispatchFrames run now a (fr # ps) c \<and>
      gc_pending (snd (gtp_start_frame now a fr False c)) = gc_pending c \<and> gc_heap (snd (gtp_start_frame now a fr False c)) = gc_heap c) \<and>
    (isResponseType (hMessageType (frHeader fr)) \<longrightarrow>
      (fst (gtp_dispatch run now a raw c) = [ResponseDelivered] \<longleftrightarrow>
        mget (gc_pending c) \<lparr>gt_addr = hostport a, gt_seq = hSequenceNumber (frHeader fr),
          gt_responseType = hMessageType (frHeader fr)\<rparr> \<noteq> None) \<and>
      (\<forall>r < length (gc_heap c). mget (gc_pending c) \<lparr>gt_addr = hostport a, gt_seq = hSequenceNumber (frHeader fr),
          gt_responseType = hMessageType (frHeader fr)\<rparr> = Some r \<longrightarrow>
        px_result (gc_heap (snd (gtp_dispatch run now a raw c)) ! r) = Some (frRaw fr, ps)))"
proof -
  have nd: "fst (gtp_start_frame now a f False c) \<noteq> ResponseDelivered" for f c
    by (auto simp: gtp_start_frame_def Let_def split: prod.splits option.splits)
  have "fst (processFrame run now a f False c) \<noteq> ResponseDelivered" for f c
    using nd [of f c] by (auto simp: processFrame_def split: prod.splits gtp_out.splits)
  then have "fst (DispatchFrames run now a (fr # ps) c) = [ResponseDelivered] \<Longrightarrow> False"
    by (cases "processFrame run now a fr False c") (auto simp: Let_def split: prod.splits, metis fst_conv)
  then have np: "fst (DispatchFrames run now a (fr # ps) c) \<noteq> [ResponseDelivered]" by blast
  have "gc_pending (snd (gtp_start_frame now a fr False c)) = gc_pending c \<and>
      gc_heap (snd (gtp_start_frame now a fr False c)) = gc_heap c"
    by (auto simp: gtp_start_frame_def gtp_checkAndMarkInFlight_def gtp_clearInFlight_def Let_def split: option.splits)
  then show ?thesis
    using assms np by (auto simp: gtp_dispatch_def deliverPendingResponseFrame_def gtp_deliverResponse_def Let_def
      simp del: DispatchFrames.simps split: option.splits)
qed

theorem gtp_answer_matched_witness:
  "gtp_dispatch (\<lambda>_ _ c. c) 0 sample_addr [0x40, 1, 0, 4, 0, 0, 1, 0] (gtp_Listen 5) =
     DispatchFrames (\<lambda>_ _ c. c) 0 sample_addr [sample_echo] (gtp_Listen 5)"
proof -
  have "\<not> isResponseType (hMessageType (frHeader sample_echo))" by (simp add: sample_echo_def isResponseType_def)
  then show ?thesis
    using gtp_answer_matched [OF sample_echo_facts(4,3), of "\<lambda>_ _ c. c" 0 sample_addr "gtp_Listen 5"] by blast
qed

text \<open>The race of the PFCP endpoint is here too: a response that arrives before the \<^verbatim>\<open>select\<close>
  may be returned as a nil response with a nil error.\<close>

lemma gtp_response_can_be_lost:
  assumes "mget (gc_pending c) \<lparr>gt_addr = hostport a, gt_seq = s, gt_responseType = t\<rparr> = Some r" "r < length (gc_heap c)"
    and "0 < gc_n3 c"
  shows "let d = snd (gtp_deliverResponse a t s raw ps c); x = gc_heap d ! r in
    Cancelled False \<in> ready (px_result x) (px_done x) False False \<and> gtp_Send_loop d (\<lambda>_. Cancelled False) = (1, Ok None)"
proof -
  obtain n where "gc_n3 c = Suc n" using assms(3) by (cases "gc_n3 c") auto
  then show ?thesis using assms(1,2) by (simp add: gtp_deliverResponse_def gtp_Send_loop_def ready_def Let_def)
qed

text \<open>A Downlink Data Notification is a request with a response type that the dispatcher does
  not know: the acknowledgement never reaches a pending request.\<close>

lemma ddn_ack_not_delivered:
  "ResponseTypeFor MsgTypeDownlinkDataNotification = Some MsgTypeDownlinkDataNotificationAck"
  "\<not> isResponseType MsgTypeDownlinkDataNotificationAck"
  "ResponseTypeFor t = Some r \<Longrightarrow> t \<noteq> MsgTypeDownlinkDataNotification \<Longrightarrow> isResponseType r"
  by (auto simp: ResponseTypeFor_def isResponseType_def split: if_splits)

end
