(* ===== verification/PFCP_Client.thy ===== *)
theory PFCP_Client
  imports Checkpoint_Writer PFCP_Transport PFCP_IE
begin

text \<open>
  The PFCP client of the SGW-C, \<^verbatim>\<open>internal/sgwc/pfcpclient/client.go\<close>: the table of SGW-U
  peers with their association state, the association and heartbeat procedures, the selection of a
  peer, the session procedures and the handlers of the SGW-U's reports. What \<^verbatim>\<open>Send\<close> returns is
  an argument, \<open>xchg\<close>; a nil response without an error is \<open>Ok None\<close>.
\<close>

section \<open>State\<close>

abbreviation (input) PeerStatePending :: string where "PeerStatePending \<equiv> ''Pending''"
abbreviation (input) PeerStateEstablished :: string where "PeerStateEstablished \<equiv> ''Established''"
abbreviation (input) PeerStateDown :: string where "PeerStateDown \<equiv> ''Down''"

record sgwu_peer =
  gp_Name :: string
  gp_Addr :: string
  gp_UDP :: udp_addr
  gp_State :: string
  gp_NodeID :: "bytes option"
  gp_RecoveryTS :: u32
  gp_LastSeen :: gtime

record sgwu_peer_view =
  gv_Name :: string
  gv_Addr :: string
  gv_State :: string
  gv_PeerNodeID :: string
  gv_RecoveryTimestamp :: u32
  gv_LastSeen :: gtime

record session_params =
  sp_LocalIP :: ip_addr
  sp_CPFSEID :: u64
  sp_CreatePDRs :: "pfcp_ie list"
  sp_CreateFARs :: "pfcp_ie list"

record session_result =
  sr_PeerName :: string
  sr_PeerAddr :: string
  sr_UPSEID :: u64
  sr_CreatedPDRs :: "pfcp_ie list"

record far_change =
  fc_FARID :: u32
  fc_PDRID :: u16
  fc_ApplyAction :: u8
  fc_DestInterface :: u8
  fc_OuterTEID :: u32
  fc_OuterIP :: ip_addr
  fc_OuterHeaderRemoval :: bool

record pfcp_client =
  cl_NodeID :: bytes
  cl_TS :: u32
  cl_Peers :: "sgwu_peer list"
  cl_Conn :: pfcp_conn
  cl_SEID :: u64
  cl_Next :: u64
  cl_onState :: bool
  cl_onRestart :: bool
  cl_onIdle :: bool
  cl_Sink :: bool

datatype client_effect =
    PeerStateChange string string string
  | PeerRestart string string u32 u32
  | PeerCheckpoint peer_snapshot
  | IdleReport string vc_idle_report
  | ClientReply udp_addr bytes

datatype client_error =
    NoPeerConfigured
  | NoPeerEstablished
  | PeerNotEstablished string
  | PeerNotConfigured string
  | SendFault send_error
  | ParseFault pfcp_error
  | Rejected u8
  | BadUPFSEID pfcp_ie_error
  | ElementFault pfcp_ie_error
  | PeerRestarted u32 u32

type_synonym exchange = "udp_addr \<Rightarrow> bytes \<Rightarrow> (send_error, bytes option) outcome"

definition nil_bytes :: "bytes option \<Rightarrow> bytes" where
  "nil_bytes r = (case r of Some b \<Rightarrow> b | None \<Rightarrow> [])"

section \<open>Peers\<close>

definition isRecoveryRestart :: "u32 \<Rightarrow> u32 \<Rightarrow> bool" where
  "isRecoveryRestart old new \<longleftrightarrow> old \<noteq> 0 \<and> new \<noteq> old"

definition peerCheckpointSnapshot :: "gtime \<Rightarrow> sgwu_peer \<Rightarrow> peer_snapshot" where
  "peerCheckpointSnapshot now p =
     \<lparr>pr_SchemaVersion = 0, pr_Role = ''sgwu'', pr_Addr = gp_Addr p, pr_Name = gp_Name p, pr_State = gp_State p,
      pr_RecoverySeen = (gp_RecoveryTS p \<noteq> 0), pr_RecoveryCounter = 0, pr_RecoveryTimestamp = gp_RecoveryTS p,
      pr_RestartDetectedAt = 0, pr_Restarts = 0,
      pr_UpdatedAt = (if gp_LastSeen p = 0 then now else gp_LastSeen p)\<rparr>"

definition emitPeerCheckpoint :: "pfcp_client \<Rightarrow> peer_snapshot \<Rightarrow> client_effect list" where
  "emitPeerCheckpoint c s = (if \<not> cl_Sink c \<or> pr_Role s = [] \<or> pr_Addr s = [] then [] else [PeerCheckpoint s])"

definition notifyPeerRestart :: "pfcp_client \<Rightarrow> sgwu_peer \<Rightarrow> u32 \<Rightarrow> u32 \<Rightarrow> client_effect list" where
  "notifyPeerRestart c p old new = (if cl_onRestart c then [PeerRestart (gp_Name p) (gp_Addr p) old new] else [])"

definition notifyPeerState :: "pfcp_client \<Rightarrow> sgwu_peer \<Rightarrow> string \<Rightarrow> client_effect list" where
  "notifyPeerState c p st = (if cl_onState c then [PeerStateChange (gp_Name p) (gp_Addr p) st] else [])"

definition client_Peers :: "pfcp_client \<Rightarrow> sgwu_peer_view list" where
  "client_Peers c = map (\<lambda>p. \<lparr>gv_Name = gp_Name p, gv_Addr = gp_Addr p, gv_State = gp_State p,
     gv_PeerNodeID = (case gp_NodeID p of Some [a, b, x, y] \<Rightarrow> addr_String (IP4 (rd32 a b x y)) | _ \<Rightarrow> []),
     gv_RecoveryTimestamp = gp_RecoveryTS p, gv_LastSeen = gp_LastSeen p\<rparr>) (cl_Peers c)"

definition set_peer :: "nat \<Rightarrow> sgwu_peer \<Rightarrow> pfcp_client \<Rightarrow> pfcp_client" where
  "set_peer i p c = c\<lparr>cl_Peers := (cl_Peers c)[i := p]\<rparr>"

text \<open>A new client: the configured peers with their resolved addresses, all of them Pending. The
  Recovery Time Stamp counts seconds since 1900.\<close>

definition ntpEpochOffset :: u32 where "ntpEpochOffset = 2208988800"

definition pfcpclient_New :: "bytes \<Rightarrow> gtime \<Rightarrow> (string \<times> string \<times> udp_addr) list \<Rightarrow> pfcp_client" where
  "pfcpclient_New localIP startTime cfg =
     \<lparr>cl_NodeID = localIP, cl_TS = of_int (startTime div time_second) + ntpEpochOffset,
      cl_Peers = map (\<lambda>(name, addr, udp). \<lparr>gp_Name = name, gp_Addr = addr, gp_UDP = udp, gp_State = PeerStatePending,
        gp_NodeID = None, gp_RecoveryTS = 0, gp_LastSeen = 0\<rparr>) cfg,
      cl_Conn = pfcp_Listen 3, cl_SEID = 0, cl_Next = 0, cl_onState = False, cl_onRestart = False, cl_onIdle = False,
      cl_Sink = False\<rparr>"

text \<open>The next sequence number, and a request marshalled with it.\<close>

definition client_seq :: "pfcp_client \<Rightarrow> u32 \<times> pfcp_client" where
  "client_seq c = (let (s, conn) = pfcp_AllocSeq (cl_Conn c) in (s, c\<lparr>cl_Conn := conn\<rparr>))"

definition client_header :: "bool \<Rightarrow> u8 \<Rightarrow> u64 \<Rightarrow> u32 \<Rightarrow> pfcp_header" where
  "client_header hasSEID t seid s = \<lparr>ph_Version = 1, ph_HasSEID = hasSEID, ph_MessageType = t, ph_Length = 0,
     ph_SEID = seid, ph_SequenceNumber = s\<rparr>"

definition mark_down :: "gtime \<Rightarrow> nat \<Rightarrow> pfcp_client \<Rightarrow> pfcp_client \<times> client_effect list" where
  "mark_down now i c = (let p = (cl_Peers c ! i)\<lparr>gp_State := PeerStateDown\<rparr> in
     (set_peer i p c, emitPeerCheckpoint c (peerCheckpointSnapshot now p)))"

section \<open>Association and heartbeat\<close>

definition associate :: "gtime \<Rightarrow> exchange \<Rightarrow> nat \<Rightarrow> pfcp_client \<Rightarrow>
    (client_error, unit) outcome \<times> pfcp_client \<times> client_effect list" where
  "associate now xchg i c0 =
     (let (s, c) = client_seq c0; p = cl_Peers c ! i;
          raw = pfcp_Marshal (client_header False MsgTypeAssociationSetupRequest 0 s)
            [NewNodeIDIPv4 (cl_NodeID c), NewRecoveryTimeStamp (cl_TS c)]
      in case xchg (gp_UDP p) raw of
           Panic \<Rightarrow> (Panic, c, [])
         | Fail e \<Rightarrow> (let (c1, es) = mark_down now i c in (Fail (SendFault e), c1, es))
         | Ok resp \<Rightarrow> (case ParseAssociationSetupResponse (nil_bytes resp) of
               Panic \<Rightarrow> (Panic, c, [])
             | Fail e \<Rightarrow> (Fail (ParseFault e), c, [])
             | Ok r \<Rightarrow>
                 let cause = value_or0 (pfcp_CauseValue (asp_Cause r)) in
                 if cause \<noteq> CauseRequestAccepted then (Fail (Rejected cause), c, [])
                 else
                   let peerTS = value_or0 (RecoveryTimeStampValue (asp_RecoveryTimeStamp r));
                       restart = isRecoveryRestart (gp_RecoveryTS p) peerTS;
                       p1 = p\<lparr>gp_State := PeerStateEstablished, gp_NodeID := NodeIDIPv4 (asp_NodeID r),
                         gp_RecoveryTS := peerTS, gp_LastSeen := now\<rparr>
                   in (Ok (), set_peer i p1 c,
                       emitPeerCheckpoint c (peerCheckpointSnapshot now p1) @
                       (if restart then notifyPeerRestart c p (gp_RecoveryTS p) peerTS else []) @
                       notifyPeerState c p PeerStateEstablished)))"

definition heartbeat_once :: "gtime \<Rightarrow> exchange \<Rightarrow> nat \<Rightarrow> pfcp_client \<Rightarrow>
    (client_error, unit) outcome \<times> pfcp_client \<times> client_effect list" where
  "heartbeat_once now xchg i c0 =
     (let (s, c) = client_seq c0; p = cl_Peers c ! i;
          raw = pfcp_Marshal (client_header False MsgTypeHeartbeatRequest 0 s) [NewRecoveryTimeStamp (cl_TS c)]
      in case xchg (gp_UDP p) raw of
           Panic \<Rightarrow> (Panic, c, [])
         | Fail e \<Rightarrow> (Fail (SendFault e), c, [])
         | Ok resp \<Rightarrow> (case ParseHeartbeatResponse (nil_bytes resp) of
               Panic \<Rightarrow> (Panic, c, [])
             | Fail e \<Rightarrow> (Fail (ParseFault e), c, [])
             | Ok r \<Rightarrow>
                 let peerTS = value_or0 (RecoveryTimeStampValue (hb_RecoveryTimeStamp r));
                     p1 = p\<lparr>gp_RecoveryTS := peerTS, gp_LastSeen := now\<rparr>;
                     cp = emitPeerCheckpoint c (peerCheckpointSnapshot now p1)
                 in if isRecoveryRestart (gp_RecoveryTS p) peerTS
                    then (Fail (PeerRestarted (gp_RecoveryTS p) peerTS), set_peer i p1 c,
                          cp @ notifyPeerRestart c p (gp_RecoveryTS p) peerTS)
                    else (Ok (), set_peer i p1 c, cp)))"

text \<open>
  A peer's goroutine alternates between two loops: associating until it succeeds, and one heartbeat
  per tick until one fails. \<open>now'\<close> is the clock when the failure is recorded.
\<close>

datatype peer_phase = Associating | Beating

definition manage_step :: "gtime \<Rightarrow> gtime \<Rightarrow> exchange \<Rightarrow> nat \<Rightarrow> peer_phase \<times> pfcp_client \<Rightarrow>
    (peer_phase \<times> pfcp_client) \<times> client_effect list" where
  "manage_step now now' xchg i st = (case st of
     (Associating, c) \<Rightarrow> (case associate now xchg i c of
         (Ok _, c1, es) \<Rightarrow> ((Beating, c1), es)
       | (_, c1, es) \<Rightarrow> ((Associating, c1), es))
   | (Beating, c) \<Rightarrow> (case heartbeat_once now xchg i c of
         (Ok _, c1, es) \<Rightarrow> ((Beating, c1), es)
       | (_, c1, es) \<Rightarrow> (let (c2, es2) = mark_down now' i c1 in
           ((Associating, c2), es @ es2 @ notifyPeerState c2 (cl_Peers c2 ! i) PeerStateDown))))"

section \<open>Checkpoints\<close>

definition client_CheckpointSnapshots :: "gtime \<Rightarrow> pfcp_client option \<Rightarrow> peer_snapshot list" where
  "client_CheckpointSnapshots now oc = (case oc of None \<Rightarrow> [] | Some c \<Rightarrow> map (peerCheckpointSnapshot now) (cl_Peers c))"

definition restore_peer :: "peer_snapshot \<Rightarrow> sgwu_peer \<Rightarrow> sgwu_peer" where
  "restore_peer s p = (let p1 = p\<lparr>gp_RecoveryTS := pr_RecoveryTimestamp s\<rparr>;
       p2 = (if pr_State s \<noteq> [] then p1\<lparr>gp_State := pr_State s\<rparr> else p1)
     in if pr_UpdatedAt s \<noteq> 0 then p2\<lparr>gp_LastSeen := pr_UpdatedAt s\<rparr> else p2)"

fun restore_first :: "peer_snapshot \<Rightarrow> sgwu_peer list \<Rightarrow> nat \<times> sgwu_peer list" where
  "restore_first s [] = (0, [])"
| "restore_first s (p # ps) =
     (if gp_Addr p \<noteq> pr_Addr s \<and> gp_Name p \<noteq> pr_Name s
      then (let (n, ps') = restore_first s ps in (n, p # ps'))
      else (1, restore_peer s p # ps))"

fun client_RestoreCheckpointSnapshots :: "peer_snapshot list \<Rightarrow> sgwu_peer list \<Rightarrow> nat \<times> sgwu_peer list" where
  "client_RestoreCheckpointSnapshots [] ps = (0, ps)"
| "client_RestoreCheckpointSnapshots (s # ss) ps =
     (if pr_Role s \<noteq> ''sgwu'' \<or> pr_Addr s = [] then client_RestoreCheckpointSnapshots ss ps
      else (let (n, ps1) = restore_first s ps; (m, ps2) = client_RestoreCheckpointSnapshots ss ps1 in (n + m, ps2)))"

section \<open>Choosing a peer\<close>

definition AllocCPSEID :: "pfcp_client \<Rightarrow> u64 \<times> pfcp_client" where
  "AllocCPSEID c = (let v = cl_SEID c + 1 in (v, c\<lparr>cl_SEID := v\<rparr>))"

definition peerEstablished :: "sgwu_peer \<Rightarrow> bool" where
  "peerEstablished p \<longleftrightarrow> gp_State p = PeerStateEstablished"

text \<open>Go's remainder takes the sign of the dividend; a negative index panics.\<close>

definition go_rem :: "int \<Rightarrow> int \<Rightarrow> int" where
  "go_rem a b = (if a < 0 then - ((- a) mod b) else a mod b)"

fun select_from :: "sgwu_peer list \<Rightarrow> int \<Rightarrow> nat \<Rightarrow> nat \<Rightarrow> (client_error, nat) outcome" where
  "select_from ps start i 0 = Fail NoPeerEstablished"
| "select_from ps start i (Suc fuel) =
     (let k = go_rem (start + int i) (int (length ps)) in
      if k < 0 then Panic
      else if peerEstablished (ps ! nat k) then Ok (nat k)
      else select_from ps start (Suc i) fuel)"

definition SelectPeer :: "pfcp_client \<Rightarrow> (client_error, nat) outcome \<times> pfcp_client" where
  "SelectPeer c =
     (if cl_Peers c = [] then (Fail NoPeerConfigured, c)
      else (let v = cl_Next c; start = go_rem (sint v) (int (length (cl_Peers c))) in
        (select_from (cl_Peers c) start 0 (length (cl_Peers c)), c\<lparr>cl_Next := v + 1\<rparr>)))"

fun find_addr :: "string \<Rightarrow> nat \<Rightarrow> sgwu_peer list \<Rightarrow> (client_error, nat) outcome" where
  "find_addr a i [] = Fail (PeerNotConfigured a)"
| "find_addr a i (p # ps) =
     (if gp_Addr p \<noteq> a then find_addr a (i + 1) ps
      else if \<not> peerEstablished p then Fail (PeerNotEstablished a) else Ok i)"

definition selectPeerByAddr :: "string \<Rightarrow> pfcp_client \<Rightarrow> (client_error, nat) outcome \<times> pfcp_client" where
  "selectPeerByAddr a c = (if a = [] then SelectPeer c else (find_addr a 0 (cl_Peers c), c))"

section \<open>Session procedures\<close>

text \<open>The Session Establishment Request with sequence number \<open>s\<close>.\<close>

definition establishment_request :: "pfcp_client \<Rightarrow> session_params \<Rightarrow> u32 \<Rightarrow> (client_error, bytes) outcome" where
  "establishment_request c params s =
     obind (wrap_err ElementFault (NewFSEID (sp_CPFSEID params) (sp_LocalIP params))) (\<lambda>cpFSEID.
       Ok (pfcp_Marshal (client_header True MsgTypeSessionEstablishmentRequest 0 s)
         ([NewNodeIDIPv4 (cl_NodeID c), cpFSEID] @ sp_CreatePDRs params @ sp_CreateFARs params)))"

text \<open>Sending the request to the chosen peer and reading the answer.\<close>

definition establishment_result :: "sgwu_peer \<Rightarrow> exchange \<Rightarrow> bytes \<Rightarrow> (client_error, session_result) outcome" where
  "establishment_result p xchg raw =
     obind (wrap_err SendFault (xchg (gp_UDP p) raw)) (\<lambda>respRaw.
     obind (wrap_err ParseFault (ParseSessionEstablishmentResponse (nil_bytes respRaw))) (\<lambda>resp.
       let cause = value_or0 (pfcp_CauseValue (sep_Cause resp)) in
       if cause \<noteq> CauseRequestAccepted then Fail (Rejected cause)
       else (case sep_UPSEID resp of
           None \<Rightarrow> Panic
         | Some u \<Rightarrow> obind (wrap_err BadUPFSEID (FSEIDValue u)) (\<lambda>up.
             Ok \<lparr>sr_PeerName = gp_Name p, sr_PeerAddr = gp_Addr p, sr_UPSEID = pfs_SEID up,
                 sr_CreatedPDRs = sep_CreatedPDRs resp\<rparr>))))"

definition EstablishSession :: "exchange \<Rightarrow> session_params \<Rightarrow> pfcp_client \<Rightarrow> (client_error, session_result) outcome \<times> pfcp_client" where
  "EstablishSession xchg params c0 = (case SelectPeer c0 of
     (Ok i, c1) \<Rightarrow> (let (s, c) = client_seq c1 in
        (obind (establishment_request c params s) (establishment_result (cl_Peers c1 ! i) xchg), c))
   | (Fail e, c1) \<Rightarrow> (Fail e, c1)
   | (Panic, c1) \<Rightarrow> (Panic, c1))"

text \<open>The elements of one FAR update; the outer header is built from an IPv4 address.\<close>

definition far_change_ies :: "far_change \<Rightarrow> (client_error, pfcp_ie list) outcome" where
  "far_change_ies u =
     obind (if fc_OuterTEID u \<noteq> 0 \<and> isValid (fc_OuterIP u)
       then obind (wrap_err ElementFault (NewOuterHeaderCreation OHCDescGTPUUDPIPv4 (fc_OuterTEID u) (fc_OuterIP u))) (\<lambda>oie. Ok [oie])
       else Ok []) (\<lambda>ohc.
     Ok ((if fc_OuterHeaderRemoval u \<and> fc_PDRID u \<noteq> 0
          then [NewUpdatePDR [NewPDRID (fc_PDRID u), NewOuterHeaderRemoval 0]] else []) @
         [NewUpdateFAR [NewFARID (fc_FARID u), NewApplyAction (fc_ApplyAction u),
            NewUpdateForwardingParameters (NewDestinationInterface (fc_DestInterface u) # ohc)]]))"

fun far_changes_ies :: "far_change list \<Rightarrow> (client_error, pfcp_ie list) outcome" where
  "far_changes_ies [] = Ok []"
| "far_changes_ies (u # us) = obind (far_change_ies u) (\<lambda>x. obind (far_changes_ies us) (\<lambda>y. Ok (x @ y)))"

text \<open>What the three modifications and the deletion share: choose the peer, send, check the cause.\<close>

definition modify_exchange :: "exchange \<Rightarrow> string \<Rightarrow> u64 \<Rightarrow> pfcp_ie list \<Rightarrow> pfcp_client \<Rightarrow>
    (client_error, pfcp_ie list) outcome \<times> pfcp_client" where
  "modify_exchange xchg peerAddr upSEID ies c0 = (case selectPeerByAddr peerAddr c0 of
     (Ok i, c1) \<Rightarrow>
       (let p = cl_Peers c1 ! i; (s, c) = client_seq c1;
            raw = pfcp_Marshal (client_header True MsgTypeSessionModificationRequest upSEID s) ies in
        (obind (wrap_err SendFault (xchg (gp_UDP p) raw)) (\<lambda>respRaw.
         obind (wrap_err ParseFault (ParseSessionModificationResponse (nil_bytes respRaw))) (\<lambda>resp.
           let cause = value_or0 (pfcp_CauseValue (smp_Cause resp)) in
           if cause \<noteq> CauseRequestAccepted then Fail (Rejected cause) else Ok (smp_CreatedPDRs resp))), c))
   | (Fail e, c1) \<Rightarrow> (Fail e, c1)
   | (Panic, c1) \<Rightarrow> (Panic, c1))"

text \<open>The elements are built after the peer is chosen; building them may only panic.\<close>

definition ModifySessionOnPeer :: "exchange \<Rightarrow> string \<Rightarrow> u64 \<Rightarrow> far_change list \<Rightarrow> pfcp_client \<Rightarrow>
    (client_error, unit) outcome \<times> pfcp_client" where
  "ModifySessionOnPeer xchg peerAddr upSEID us c = (case selectPeerByAddr peerAddr c of
     (Ok _, c1) \<Rightarrow> (case far_changes_ies us of
         Ok ies \<Rightarrow> (let (r, c') = modify_exchange xchg peerAddr upSEID ies c in (omap (\<lambda>_. ()) r, c'))
       | Fail e \<Rightarrow> (Fail e, c1)
       | Panic \<Rightarrow> (Panic, c1))
   | (Fail e, c1) \<Rightarrow> (Fail e, c1)
   | (Panic, c1) \<Rightarrow> (Panic, c1))"

definition AddBearerRulesOnPeer :: "exchange \<Rightarrow> string \<Rightarrow> u64 \<Rightarrow> pfcp_ie list \<Rightarrow> pfcp_ie list \<Rightarrow> pfcp_client \<Rightarrow>
    (client_error, pfcp_ie list) outcome \<times> pfcp_client" where
  "AddBearerRulesOnPeer xchg peerAddr upSEID createPDRs createFARs c =
     modify_exchange xchg peerAddr upSEID (createPDRs @ createFARs) c"

definition RemoveBearerRulesOnPeer :: "exchange \<Rightarrow> string \<Rightarrow> u64 \<Rightarrow> u32 list \<Rightarrow> u32 list \<Rightarrow> pfcp_client \<Rightarrow>
    (client_error, unit) outcome \<times> pfcp_client" where
  "RemoveBearerRulesOnPeer xchg peerAddr upSEID pdrIDs farIDs c =
     (let (r, c') = modify_exchange xchg peerAddr upSEID
        (map (\<lambda>i. NewRemovePDR [NewPDRID (ucast i)]) pdrIDs @ map (\<lambda>i. NewRemoveFAR [NewFARID i]) farIDs) c
      in (omap (\<lambda>_. ()) r, c'))"

definition DeleteSessionOnPeer :: "exchange \<Rightarrow> string \<Rightarrow> u64 \<Rightarrow> pfcp_client \<Rightarrow> (client_error, unit) outcome \<times> pfcp_client" where
  "DeleteSessionOnPeer xchg peerAddr upSEID c0 = (case selectPeerByAddr peerAddr c0 of
     (Ok i, c1) \<Rightarrow>
       (let p = cl_Peers c1 ! i; (s, c) = client_seq c1;
            raw = pfcp_Marshal (client_header True MsgTypeSessionDeletionRequest upSEID s) [] in
        (obind (wrap_err SendFault (xchg (gp_UDP p) raw)) (\<lambda>respRaw.
         obind (wrap_err ParseFault (ParseSessionDeletionResponse (nil_bytes respRaw))) (\<lambda>resp.
           let cause = value_or0 (pfcp_CauseValue (pc_Cause resp)) in
           if cause \<noteq> CauseRequestAccepted then Fail (Rejected cause) else Ok ())), c))
   | (Fail e, c1) \<Rightarrow> (Fail e, c1)
   | (Panic, c1) \<Rightarrow> (Panic, c1))"

definition ModifySession :: "exchange \<Rightarrow> u64 \<Rightarrow> far_change list \<Rightarrow> pfcp_client \<Rightarrow> (client_error, unit) outcome \<times> pfcp_client" where
  "ModifySession xchg upSEID us c = ModifySessionOnPeer xchg [] upSEID us c"

definition AddBearerRules :: "exchange \<Rightarrow> u64 \<Rightarrow> pfcp_ie list \<Rightarrow> pfcp_ie list \<Rightarrow> pfcp_client \<Rightarrow>
    (client_error, pfcp_ie list) outcome \<times> pfcp_client" where
  "AddBearerRules xchg upSEID createPDRs createFARs c = AddBearerRulesOnPeer xchg [] upSEID createPDRs createFARs c"

definition RemoveBearerRules :: "exchange \<Rightarrow> u64 \<Rightarrow> u32 list \<Rightarrow> u32 list \<Rightarrow> pfcp_client \<Rightarrow> (client_error, unit) outcome \<times> pfcp_client" where
  "RemoveBearerRules xchg upSEID pdrIDs farIDs c = RemoveBearerRulesOnPeer xchg [] upSEID pdrIDs farIDs c"

definition DeleteSession :: "exchange \<Rightarrow> u64 \<Rightarrow> pfcp_client \<Rightarrow> (client_error, unit) outcome \<times> pfcp_client" where
  "DeleteSession xchg upSEID c = DeleteSessionOnPeer xchg [] upSEID c"

section \<open>Reports of the SGW-U\<close>

definition handleNodeReportRequest :: "udp_addr \<Rightarrow> bytes \<Rightarrow> pfcp_client \<Rightarrow> client_effect list" where
  "handleNodeReportRequest a raw c = (case ParseNodeReportRequest raw of
     Ok req \<Rightarrow> [ClientReply a (pfcp_Marshal
        (client_header False MsgTypeNodeReportResponse 0 (ph_SequenceNumber (nrq_Header req)))
        [NewNodeIDIPv4 (cl_NodeID c), pfcp_NewCause CauseRequestAccepted])]
   | _ \<Rightarrow> [])"

definition handleSessionReportRequest :: "udp_addr \<Rightarrow> pfcp_header \<Rightarrow> bytes \<Rightarrow> pfcp_client \<Rightarrow> client_effect list" where
  "handleSessionReportRequest a hdr raw c = (case ParseSessionReportRequest raw of
     Ok req \<Rightarrow> (case VectorCoreIdleDownlinkReportValue (srq_IdleDownlink req) of
         Ok report \<Rightarrow> (if cl_onIdle c then [IdleReport (hostport a) report] else []) @
           [ClientReply a (pfcp_Marshal
             (client_header True MsgTypeSessionReportResponse (ph_SEID hdr) (ph_SequenceNumber (srq_Header req)))
             [pfcp_NewCause CauseRequestAccepted])]
       | _ \<Rightarrow> [])
   | _ \<Rightarrow> [])"

definition client_handle :: "udp_addr \<Rightarrow> pfcp_header \<Rightarrow> bytes \<Rightarrow> pfcp_client \<Rightarrow> client_effect list" where
  "client_handle a hdr raw c =
     (if ph_MessageType hdr = MsgTypeNodeReportRequest then handleNodeReportRequest a raw c
      else if ph_MessageType hdr = MsgTypeSessionReportRequest then handleSessionReportRequest a hdr raw c
      else [])"

section \<open>What the procedures leave alone\<close>

lemma client_seq_frame [simp]:
  "cl_Peers (snd (client_seq c)) = cl_Peers c" "cl_NodeID (snd (client_seq c)) = cl_NodeID c"
  "cl_SEID (snd (client_seq c)) = cl_SEID c" "cl_Next (snd (client_seq c)) = cl_Next c"
  by (simp_all add: client_seq_def pfcp_AllocSeq_def Let_def)

lemma client_seq_bound: "fst (client_seq c) < 0x1000000"
proof -
  have "fst (client_seq c) \<le> 0xFFFFFF" by (simp add: client_seq_def pfcp_AllocSeq_def Let_def word_and_le1)
  then show ?thesis by unat_arith
qed

lemma SelectPeer_frame [simp]:
  "cl_Peers (snd (SelectPeer c)) = cl_Peers c" "cl_NodeID (snd (SelectPeer c)) = cl_NodeID c"
  "cl_Conn (snd (SelectPeer c)) = cl_Conn c"
  by (simp_all add: SelectPeer_def Let_def)

lemma client_seq_conn: "cl_Conn c = cl_Conn c' \<Longrightarrow> fst (client_seq c) = fst (client_seq c')"
  by (simp add: client_seq_def Let_def split: prod.splits)

lemma select_from_errors: "select_from ps st j k = Fail e \<Longrightarrow> e = NoPeerEstablished"
  by (induction k arbitrary: j) (auto simp: Let_def split: if_splits)

lemma EstablishSession_sent:
  assumes sel: "fst (SelectPeer c) = Ok i"
  shows "fst (EstablishSession xchg params c) =
    obind (establishment_request c params (fst (client_seq c))) (establishment_result (cl_Peers c ! i) xchg)"
proof -
  obtain c1 where c1: "SelectPeer c = (Ok i, c1)" using sel by (cases "SelectPeer c") simp
  have f: "cl_Peers c1 = cl_Peers c" "cl_NodeID c1 = cl_NodeID c" "cl_Conn c1 = cl_Conn c" using SelectPeer_frame [of c] by (simp_all add: c1)
  obtain s c2 where s: "client_seq c1 = (s, c2)" by (cases "client_seq c1")
  have c2: "cl_NodeID c2 = cl_NodeID c" "s = fst (client_seq c)"
    using client_seq_frame [of c1] client_seq_conn [OF f(3)] by (simp_all add: s f)
  have "establishment_request c2 params s = establishment_request c params (fst (client_seq c))"
    by (simp add: establishment_request_def c2)
  then show ?thesis
    by (simp add: EstablishSession_def c1 s f(1))
qed

lemma EstablishSession_unsent:
  "fst (SelectPeer c) = Fail e \<Longrightarrow> fst (EstablishSession xchg params c) = Fail e \<and> e \<in> {NoPeerConfigured, NoPeerEstablished}"
  "fst (SelectPeer c) = Panic \<Longrightarrow> fst (EstablishSession xchg params c) = Panic"
  by (cases "SelectPeer c"; auto simp: EstablishSession_def SelectPeer_def Let_def dest: select_from_errors split: if_splits)+

section \<open>Properties\<close>

subsection \<open>Choosing a peer\<close>

lemma go_rem_nonneg: "0 \<le> a \<Longrightarrow> go_rem a b = a mod b"
  by (simp add: go_rem_def)

definition cyc :: "sgwu_peer list \<Rightarrow> nat \<Rightarrow> nat \<Rightarrow> nat" where
  "cyc ps start j = (start + j) mod length ps"

lemma select_from_spec:
  assumes "ps \<noteq> []"
  shows "case select_from ps (int start) i fuel of
      Ok k \<Rightarrow> \<exists>j. i \<le> j \<and> j < i + fuel \<and> k = cyc ps start j \<and> peerEstablished (ps ! k) \<and>
        (\<forall>j'. i \<le> j' \<and> j' < j \<longrightarrow> \<not> peerEstablished (ps ! cyc ps start j'))
    | Fail e \<Rightarrow> e = NoPeerEstablished \<and> (\<forall>j. i \<le> j \<and> j < i + fuel \<longrightarrow> \<not> peerEstablished (ps ! cyc ps start j))
    | Panic \<Rightarrow> False"
proof (induction fuel arbitrary: i)
  case (Suc fuel)
  have k: "go_rem (int start + int i) (int (length ps)) = int (cyc ps start i)"
    by (simp add: go_rem_nonneg cyc_def of_nat_mod)
  show ?case
  proof (cases "peerEstablished (ps ! cyc ps start i)")
    case True
    then show ?thesis by (auto simp: k Let_def intro: exI [of _ i])
  next
    case False
    have step: "i \<le> j \<and> j < i + Suc fuel \<longleftrightarrow> j = i \<or> Suc i \<le> j \<and> j < Suc i + fuel" for j by auto
    have first: "(\<forall>j'. i \<le> j' \<and> j' < j \<longrightarrow> Q j') \<longleftrightarrow> Q i \<and> (\<forall>j'. Suc i \<le> j' \<and> j' < j \<longrightarrow> Q j')" if "Suc i \<le> j" for j Q
      using that by (metis Suc_le_eq le_neq_implies_less order_refl order.strict_implies_order)
    have s: "select_from ps (int start) i (Suc fuel) = select_from ps (int start) (Suc i) fuel"
      using False by (simp add: k Let_def)
    show ?thesis
    proof (cases "select_from ps (int start) (Suc i) fuel")
      case (Ok k)
      then obtain j where j: "Suc i \<le> j" "j < Suc i + fuel" "k = cyc ps start j" "peerEstablished (ps ! k)"
        "\<forall>j'. Suc i \<le> j' \<and> j' < j \<longrightarrow> \<not> peerEstablished (ps ! cyc ps start j')"
        using Suc.IH [of "Suc i"] by auto
      then show ?thesis unfolding s Ok outcome.case
        by (intro exI [of _ j]) (simp add: first [OF j(1)] False)
    next
      case (Fail e)
      show ?thesis unfolding s Fail using Suc.IH [of "Suc i", unfolded Fail] False
        by auto (metis Suc_leI le_neq_implies_less)
    next
      case Panic
      then show ?thesis using Suc.IH [of "Suc i"] by simp
    qed
  qed
qed auto

lemma all_cyc: "ps \<noteq> [] \<Longrightarrow> (\<forall>j < length ps. P (ps ! cyc ps start j)) \<longleftrightarrow> (\<forall>p \<in> set ps. P p)"
proof
  assume ps: "ps \<noteq> []" and a: "\<forall>j < length ps. P (ps ! cyc ps start j)"
  show "\<forall>p \<in> set ps. P p"
  proof
    fix p assume "p \<in> set ps"
    then obtain k where k: "k < length ps" "p = ps ! k" by (auto simp: in_set_conv_nth)
    let ?j = "(k + length ps - start mod length ps) mod length ps"
    have "start mod length ps < length ps" using ps by simp
    then have "(start + ?j) mod length ps = (start mod length ps + (k + length ps - start mod length ps)) mod length ps"
      by (metis mod_add_eq mod_mod_trivial)
    also have "\<dots> = k" using k \<open>start mod length ps < length ps\<close> by simp
    finally have "cyc ps start ?j = k" by (simp add: cyc_def)
    moreover have "?j < length ps" using ps by simp
    ultimately show "P p" using a k(2) by metis
  qed
qed (simp add: cyc_def)

text \<open>
  Sessions are spread over the SGW-U peers in turn: the peer chosen is the first
  established one counting cyclically from the cursor, which advances by one on every call whatever
  the result; no peer is chosen exactly if none is established.
\<close>

theorem select_peer_round_robin:
  assumes "cl_Peers c \<noteq> []" "unat (cl_Next c) < 2 ^ 63"
  shows "snd (SelectPeer c) = c\<lparr>cl_Next := cl_Next c + 1\<rparr> \<and>
    (case fst (SelectPeer c) of
       Ok k \<Rightarrow> \<exists>j < length (cl_Peers c). k = (unat (cl_Next c) + j) mod length (cl_Peers c) \<and>
         peerEstablished (cl_Peers c ! k) \<and>
         (\<forall>j' < j. \<not> peerEstablished (cl_Peers c ! ((unat (cl_Next c) + j') mod length (cl_Peers c))))
     | Fail e \<Rightarrow> e = NoPeerEstablished \<and> (\<forall>p \<in> set (cl_Peers c). \<not> peerEstablished p)
     | Panic \<Rightarrow> False)"
proof -
  let ?n = "length (cl_Peers c)" and ?s = "unat (cl_Next c) mod length (cl_Peers c)"
  have "int (unat (cl_Next c)) < 2 ^ 63" using assms(2) by (metis of_nat_less_iff of_nat_numeral of_nat_power)
  then have "uint (cl_Next c) < 2 ^ 63" by (simp only: uint_nat)
  then have "signed_take_bit (LENGTH(64) - Suc 0) (uint (cl_Next c)) = uint (cl_Next c)"
    by (intro signed_take_bit_int_eq_self) (simp_all, rule order_trans [OF _ uint_ge_0], simp)
  then have "sint (cl_Next c) = int (unat (cl_Next c))" by (simp only: sint_uint uint_nat)
  then have "go_rem (sint (cl_Next c)) (int ?n) = int ?s" by (simp add: go_rem_nonneg zmod_int)
  then have f: "fst (SelectPeer c) = select_from (cl_Peers c) (int ?s) 0 ?n" "snd (SelectPeer c) = c\<lparr>cl_Next := cl_Next c + 1\<rparr>"
    using assms(1) by (simp_all add: SelectPeer_def Let_def)
  have c: "cyc (cl_Peers c) ?s j = (unat (cl_Next c) + j) mod ?n" for j by (simp add: cyc_def mod_add_left_eq)
  note spec = select_from_spec [OF assms(1), where start = ?s and i = 0 and fuel = ?n, unfolded c]
  note all = all_cyc [OF assms(1), of "\<lambda>p. \<not> peerEstablished p" ?s, unfolded c]
  show ?thesis unfolding f
  proof (cases "select_from (cl_Peers c) (int ?s) 0 ?n")
    case (Fail e)
    then show "c\<lparr>cl_Next := cl_Next c + 1\<rparr> = c\<lparr>cl_Next := cl_Next c + 1\<rparr> \<and>
      (case select_from (cl_Peers c) (int ?s) 0 ?n of
         Ok k \<Rightarrow> \<exists>j < ?n. k = (unat (cl_Next c) + j) mod ?n \<and> peerEstablished (cl_Peers c ! k) \<and>
           (\<forall>j' < j. \<not> peerEstablished (cl_Peers c ! ((unat (cl_Next c) + j') mod ?n)))
       | Fail e \<Rightarrow> e = NoPeerEstablished \<and> (\<forall>p \<in> set (cl_Peers c). \<not> peerEstablished p)
       | Panic \<Rightarrow> False)"
      using spec all by simp
  qed (use spec in simp_all)
qed

definition sample_peers :: pfcp_client where
  "sample_peers = (let p = \<lparr>gp_Name = ''u1'', gp_Addr = ''10.0.0.2:8805'', gp_UDP = \<lparr>uaIP = IP4 0x0A000002, uaPort = 8805\<rparr>,
      gp_State = PeerStateDown, gp_NodeID = None, gp_RecoveryTS = 7, gp_LastSeen = 0\<rparr> in
     \<lparr>cl_NodeID = [10, 0, 0, 1], cl_TS = 5, cl_Peers = [p\<lparr>gp_State := PeerStateEstablished\<rparr>, p, p], cl_Conn = pfcp_Listen 3,
      cl_SEID = 0, cl_Next = 4, cl_onState = True, cl_onRestart = True, cl_onIdle = False, cl_Sink = False\<rparr>)"

theorem select_peer_round_robin_witness: "fst (SelectPeer sample_peers) = Ok 0"
proof -
  have "fst (SelectPeer sample_peers) \<noteq> Fail e" "fst (SelectPeer sample_peers) \<noteq> Panic" for e
    using select_peer_round_robin [of sample_peers] by (auto simp: sample_peers_def Let_def peerEstablished_def)
  moreover have "k = 0" if "fst (SelectPeer sample_peers) = Ok k" for k
  proof -
    have "k < 3 \<and> peerEstablished (cl_Peers sample_peers ! k)"
      using select_peer_round_robin [of sample_peers] that by (auto simp: sample_peers_def Let_def)
    then show ?thesis by (cases k; cases "k - 1") (auto simp: sample_peers_def peerEstablished_def Let_def nth_Cons split: nat.splits)
  qed
  ultimately show ?thesis by (cases "fst (SelectPeer sample_peers)") auto
qed

subsection \<open>The life of an association\<close>

definition manage_next :: "nat \<Rightarrow> gtime \<times> gtime \<times> exchange \<Rightarrow> peer_phase \<times> pfcp_client \<Rightarrow> peer_phase \<times> pfcp_client" where
  "manage_next i ev st = (case ev of (now, now', xchg) \<Rightarrow> fst (manage_step now now' xchg i st))"

text \<open>The state of a peer agrees with the loop its goroutine is in, and other peers keep theirs.\<close>

definition loop_ok :: "nat \<Rightarrow> sgwu_peer list \<Rightarrow> peer_phase \<times> pfcp_client \<Rightarrow> bool" where
  "loop_ok i ps st \<longleftrightarrow> length (cl_Peers (snd st)) = length ps \<and> i < length ps \<and>
     (peerEstablished (cl_Peers (snd st) ! i) \<longleftrightarrow> fst st = Beating) \<and>
     (\<forall>j < length ps. j \<noteq> i \<longrightarrow> cl_Peers (snd st) ! j = ps ! j)"

lemma set_peer_peers [simp]: "cl_Peers (set_peer i p c) = (cl_Peers c)[i := p]"
  by (simp add: set_peer_def)

lemma mark_down_peers [simp]: "cl_Peers (fst (mark_down now i c)) = (cl_Peers c)[i := (cl_Peers c ! i)\<lparr>gp_State := PeerStateDown\<rparr>]"
  by (simp add: mark_down_def Let_def)

lemma associate_peers:
  assumes "associate now xchg i c = (r, c', es)"
  shows "(\<exists>p. cl_Peers c' = (cl_Peers c)[i := p] \<and> gp_State p = (if r = Ok () then PeerStateEstablished else PeerStateDown)) \<or>
    r \<noteq> Ok () \<and> cl_Peers c' = cl_Peers c"
proof -
  obtain s c1 where s: "client_seq c = (s, c1)" by (cases "client_seq c")
  have c1: "cl_Peers c1 = cl_Peers c" using client_seq_frame(1) [of c] by (simp add: s)
  obtain c2 es2 where d: "mark_down now i c1 = (c2, es2)" by (cases "mark_down now i c1")
  have "cl_Peers c2 = (cl_Peers c1)[i := (cl_Peers c1 ! i)\<lparr>gp_State := PeerStateDown\<rparr>]"
    using mark_down_peers [of now i c1] by (simp add: d)
  then show ?thesis using assms c1
    by (cases "xchg (gp_UDP (cl_Peers c1 ! i)) (pfcp_Marshal (client_header False MsgTypeAssociationSetupRequest 0 s)
          [NewNodeIDIPv4 (cl_NodeID c1), NewRecoveryTimeStamp (cl_TS c1)])")
      (auto simp: associate_def s d Let_def split: outcome.splits if_splits)
qed

lemma heartbeat_peers:
  assumes "heartbeat_once now xchg i c = (r, c', es)"
  shows "cl_Peers c' = cl_Peers c \<or> (\<exists>p. cl_Peers c' = (cl_Peers c)[i := p] \<and> gp_State p = gp_State (cl_Peers c ! i))"
proof -
  obtain s c1 where s: "client_seq c = (s, c1)" by (cases "client_seq c")
  have c1: "cl_Peers c1 = cl_Peers c" using client_seq_frame(1) [of c] by (simp add: s)
  show ?thesis using assms c1
    by (cases "xchg (gp_UDP (cl_Peers c1 ! i)) (pfcp_Marshal (client_header False MsgTypeHeartbeatRequest 0 s) [NewRecoveryTimeStamp (cl_TS c1)])")
      (auto simp: heartbeat_once_def s Let_def split: outcome.splits if_splits)
qed

lemma update_established:
  assumes "loop_ok i ps (ph, c)" "cl_Peers c' = (cl_Peers c)[i := p]" "peerEstablished p \<longleftrightarrow> ph' = Beating"
  shows "loop_ok i ps (ph', c')"
  using assms by (auto simp: loop_ok_def nth_list_update)

lemma loop_ok_same: "loop_ok i ps (ph, c) \<Longrightarrow> cl_Peers c' = cl_Peers c \<Longrightarrow> loop_ok i ps (ph, c')"
  by (simp add: loop_ok_def)

interpretation peer_loop: event_system "manage_next i" "loop_ok i ps" for i ps
proof unfold_locales
  fix st and ev :: "gtime \<times> gtime \<times> exchange"
  assume ok: "loop_ok i ps st"
  obtain ph c where st: "st = (ph, c)" by (cases st)
  obtain now now' xchg where ev: "ev = (now, now', xchg)" by (metis surj_pair)
  note ok = ok [unfolded st]
  show "loop_ok i ps (manage_next i ev st)"
  proof (cases ph)
    case Associating
    obtain r c1 es where a: "associate now xchg i c = (r, c1, es)" by (metis surj_pair)
    have "manage_next i ev st = (if r = Ok () then Beating else Associating, c1)"
      by (cases r) (simp_all add: manage_next_def ev st Associating manage_step_def a)
    then show ?thesis
      using associate_peers [OF a] ok update_established [OF ok] loop_ok_same [OF ok] Associating
      by (auto simp: peerEstablished_def)
  next
    case Beating
    obtain r c1 es where a: "heartbeat_once now xchg i c = (r, c1, es)" by (metis surj_pair)
    have one: "loop_ok i ps (Beating, c1)"
      using heartbeat_peers [OF a] ok Beating update_established [OF ok] loop_ok_same [OF ok]
      by (auto simp: peerEstablished_def loop_ok_def)
    have n: "manage_next i ev st = (if r = Ok () then (Beating, c1) else (Associating, fst (mark_down now' i c1)))"
      by (cases r; cases "mark_down now' i c1") (simp_all add: manage_next_def ev st Beating manage_step_def a)
    have "loop_ok i ps (Associating, fst (mark_down now' i c1))"
      by (rule update_established [OF one mark_down_peers]) (simp add: peerEstablished_def)
    then show ?thesis using one by (simp add: n)
  qed
qed

text \<open>
  Whatever the SGW-U answers, and whenever: the goroutine of a peer that starts in a state
  other than Established keeps the peer Established exactly while its heartbeat loop runs, so
  that no session is placed on a peer whose association is not up; it never touches another peer.
\<close>

theorem established_while_beating:
  assumes "i < length (cl_Peers c)" "gp_State (cl_Peers c ! i) \<noteq> PeerStateEstablished"
    and "fold (manage_next i) events (Associating, c) = (ph, c')"
  shows "(gp_State (cl_Peers c' ! i) = PeerStateEstablished \<longleftrightarrow> ph = Beating) \<and>
    length (cl_Peers c') = length (cl_Peers c) \<and> (\<forall>j < length (cl_Peers c). j \<noteq> i \<longrightarrow> cl_Peers c' ! j = cl_Peers c ! j)"
proof -
  have "loop_ok i (cl_Peers c) (Associating, c)" using assms(1,2) by (simp add: loop_ok_def peerEstablished_def)
  then have "loop_ok i (cl_Peers c) (ph, c')" using peer_loop.run_inv [of i "cl_Peers c" "(Associating, c)" events] assms(3) by simp
  then show ?thesis by (simp add: loop_ok_def peerEstablished_def)
qed

theorem established_while_beating_witness:
  "gp_State (cl_Peers (snd (fold (manage_next 1) [(5, 6, \<lambda>_ _. Fail (NoResponse 3))] (Associating, sample_peers))) ! 1) \<noteq> PeerStateEstablished"
proof -
  let ?st = "fold (manage_next 1) [(5, 6, \<lambda>_ _. Fail (NoResponse 3))] (Associating, sample_peers)"
  have "fst ?st = Associating"
    by (auto simp: manage_next_def manage_step_def associate_def Let_def split: prod.splits)
  moreover have "?st = (fst ?st, snd ?st)" by simp
  ultimately show ?thesis
    using established_while_beating [of 1 sample_peers "[(5, 6, \<lambda>_ _. Fail (NoResponse 3))]" "fst ?st" "snd ?st"]
    by (simp add: sample_peers_def Let_def del: fold_simps)
qed

end
