(* ===== verification/Sxa_Sessions.thy ===== *)
theory Sxa_Sessions
  imports PFCP_Client PFCP_Sessions
begin

text \<open>
  The Sxa interface end to end: the PFCP client of the SGW-C (\<^verbatim>\<open>PFCP_Client\<close>) talking to the
  PFCP server of an SGW-U (\<^verbatim>\<open>PFCP_Sessions\<close>) over a network that loses nothing. The lemmas
  carry the client's request through the marshalling and the parser of the server, and the answer
  back, so that what the client is told can be compared with the sessions the server holds.
\<close>

section \<open>The server as the client's network\<close>

definition sgwu_handled :: "server_env \<Rightarrow> udp_addr \<Rightarrow> bytes \<Rightarrow> pfcp_server \<Rightarrow> pfcp_server \<times> server_effect list" where
  "sgwu_handled env src raw sv = (case pfcp_ParseHeader raw of
     Ok (hdr, _) \<Rightarrow> (case server_handle env src hdr raw sv of Ok r \<Rightarrow> r | _ \<Rightarrow> (sv, []))
   | _ \<Rightarrow> (sv, []))"

fun last_reply :: "server_effect list \<Rightarrow> bytes option" where
  "last_reply [] = None"
| "last_reply (e # es) = (case last_reply es of Some b \<Rightarrow> Some b
     | None \<Rightarrow> (case e of PFCPReply _ b \<Rightarrow> Some b | _ \<Rightarrow> None))"

definition sgwu_exchange :: "server_env \<Rightarrow> udp_addr \<Rightarrow> pfcp_server \<Rightarrow> exchange" where
  "sgwu_exchange env src sv = (\<lambda>_ raw. case last_reply (snd (sgwu_handled env src raw sv)) of
     Some b \<Rightarrow> Ok (Some b) | None \<Rightarrow> Fail (NoResponse 0))"

lemma last_reply_append: "last_reply (es @ [PFCPReply a b]) = Some b"
  by (induction es) simp_all

lemma last_reply_last: "es \<noteq> [] \<Longrightarrow> last es = PFCPReply a b \<Longrightarrow> last_reply es = Some b"
  by (metis append_butlast_last_id last_reply_append)

section \<open>Sizes\<close>

lemma length_to4: "to4 ip = Some v \<Longrightarrow> length v = 4"
  by (auto simp: to4_def split: if_splits)

lemma length_NodeID: "length (pfcp_IE_Marshal (NewNodeIDIPv4 ip)) = 9"
  by (auto simp: NewNodeIDIPv4_def pfcp_IE_Marshal_def IPv4zero_def dest: length_to4 split: option.splits)

lemma as4_length: "as4 a = Ok b \<Longrightarrow> length b = 4"
  by (cases a) (auto split: if_splits)

lemma length_FSEID: "NewFSEID s a = Ok f \<Longrightarrow> length (pfcp_IE_Marshal f) \<le> 17"
  by (auto simp: NewFSEID_def Let_def obind_Ok_iff pfcp_IE_Marshal_def dest: as4_length split: if_splits)

lemma length_FTEIDv4: "NewFTEIDv4 t a = Ok f \<Longrightarrow> length (pfcp_IE_Marshal f) = 13"
  by (auto simp: NewFTEIDv4_def Let_def obind_Ok_iff pfcp_IE_Marshal_def dest: as4_length split: if_splits)

lemma length_announces: "announces c p \<Longrightarrow> length (pfcp_IE_Marshal c) = 23 \<and> pType c = pfcp_TypeCreatedPDR"
  by (auto simp: announces_def NewCreatedPDR_def newGrouped_def pfcp_IE_Marshal_def NewPDRID_def
    dest!: length_FTEIDv4)

lemma length_created:
  "list_all2 announces cs ps \<Longrightarrow> length (concat (map pfcp_IE_Marshal cs)) = 23 * length ps \<and>
     (\<forall>c \<in> set cs. pType c = pfcp_TypeCreatedPDR)"
  by (induction rule: list_all2_induct) (auto simp: length_announces)

section \<open>The messages of an establishment\<close>

lemma parse_pfcp_header: "parse_pfcp seid want b = Ok (h, ies) \<Longrightarrow> \<exists>body. pfcp_ParseHeader b = Ok (h, body)"
  by (auto simp: parse_pfcp_def pfcp_Parse_def obind_Ok_iff wrap_err_Ok_iff split: if_splits)

lemma pType_constructed:
  "pType (NewNodeIDIPv4 ip) = pfcp_TypeNodeID" "pType (pfcp_NewCause c) = pfcp_TypeCause"
  "NewFSEID s a = Ok f \<Longrightarrow> pType f = pfcp_TypeFSEID"
  by (auto simp: NewNodeIDIPv4_def pfcp_NewCause_def NewFSEID_def Let_def obind_Ok_iff split: if_splits)

lemma FSEID_same: "NewFSEID s a = Ok f \<Longrightarrow> FSEIDValue f = Ok v \<Longrightarrow> pfs_SEID v = s"
proof (cases a)
  case NoAddr
  then show "NewFSEID s a = Ok f \<Longrightarrow> FSEIDValue f = Ok v \<Longrightarrow> pfs_SEID v = s"
    using fseid_without_address [of s] by simp
next
  case (IP4 w)
  then show "NewFSEID s a = Ok f \<Longrightarrow> FSEIDValue f = Ok v \<Longrightarrow> pfs_SEID v = s"
    by auto
next
  case (IP6 w)
  then show "NewFSEID s a = Ok f \<Longrightarrow> FSEIDValue f = Ok v \<Longrightarrow> pfs_SEID v = s"
    using pfcp_fseid_back(2) [of s "ucast w"] by (auto simp: NewFSEID_def Let_def isValid_def split: if_splits)
qed

text \<open>A request that fits: Create PDRs and Create FARs only, within the 16-bit length; and not more
  rules than an answer has room for.\<close>

definition params_fit :: "session_params \<Rightarrow> bool" where
  "params_fit p \<longleftrightarrow> (\<forall>i \<in> set (sp_CreatePDRs p). pType i = pfcp_TypeCreatePDR) \<and>
     (\<forall>i \<in> set (sp_CreateFARs p). pType i = pfcp_TypeCreateFAR) \<and>
     length (concat (map pfcp_IE_Marshal (sp_CreatePDRs p @ sp_CreateFARs p))) \<le> 65000 \<and>
     length (sp_CreatePDRs p) \<le> 2800"

lemma pfcp_last_append_None: "pfcp_last t ys = None \<Longrightarrow> pfcp_last t (xs @ ys) = pfcp_last t xs"
  by (induction ys rule: rev_induct) (auto simp: pfcp_last_snoc append_assoc [symmetric] simp del: append_assoc split: if_splits)

lemma establishment_request_parsed:
  assumes fit: "params_fit params" and s: "s < 0x1000000" and r: "establishment_request c params s = Ok raw"
  obtains f hdr body where "NewFSEID (sp_CPFSEID params) (sp_LocalIP params) = Ok f"
    "pfcp_ParseHeader raw = Ok (hdr, body)" "ph_MessageType hdr = MsgTypeSessionEstablishmentRequest" "ph_SequenceNumber hdr = s"
    "\<And>req. ParseSessionEstablishmentRequest raw = Ok req \<Longrightarrow>
       seq_Header req = hdr \<and> seq_CPSEID req = f \<and> seq_CreatePDRs req = sp_CreatePDRs params"
proof -
  obtain f where f: "NewFSEID (sp_CPFSEID params) (sp_LocalIP params) = Ok f" using r
    by (auto simp: establishment_request_def obind_Ok_iff wrap_err_Ok_iff)
  let ?h = "client_header True MsgTypeSessionEstablishmentRequest 0 s"
  let ?rules = "sp_CreatePDRs params @ sp_CreateFARs params"
  let ?ies = "[NewNodeIDIPv4 (cl_NodeID c), f] @ ?rules"
  have raw: "raw = pfcp_Marshal ?h ?ies" using r f by (simp add: establishment_request_def wrap_err_def)
  have "wf_pfcp ?h ?ies"
    using fit s length_FSEID [OF f] by (simp add: wf_pfcp_def client_header_def params_fit_def length_NodeID)
  then have p: "parse_pfcp True MsgTypeSessionEstablishmentRequest raw = Ok (sent_header ?h ?ies, ?ies)"
    unfolding raw by (intro parse_pfcp_sent) (simp_all add: client_header_def)
  have none: "pfcp_last pfcp_TypeFSEID ?rules = None"
    using fit by (auto simp: pfcp_last_None_iff params_fit_def)
  have "pfcp_last pfcp_TypeFSEID ?ies = Some f"
    unfolding pfcp_last_append_None [OF none] using pType_constructed(1) pType_constructed(3) [OF f] by (simp add: pfcp_last_Cons)
  moreover have "filter (\<lambda>i. pType i = pfcp_TypeCreatePDR) ?ies = sp_CreatePDRs params"
    using fit pType_constructed(1) pType_constructed(3) [OF f] by (simp add: params_fit_def filter_empty_conv filter_id_conv)
  ultimately have "ParseSessionEstablishmentRequest raw = Ok req \<Longrightarrow>
      seq_Header req = sent_header ?h ?ies \<and> seq_CPSEID req = f \<and> seq_CreatePDRs req = sp_CreatePDRs params" for req
    by (auto simp: ParseSessionEstablishmentRequest_def p require_def Let_def split: option.splits if_splits)
  moreover obtain body where "pfcp_ParseHeader raw = Ok (sent_header ?h ?ies, body)" using parse_pfcp_header [OF p] by blast
  ultimately show ?thesis using that [OF f] by (simp add: client_header_def)
qed

lemma est_response_fields:
  "parse_pfcp True MsgTypeSessionEstablishmentResponse b = Ok (h, ies) \<Longrightarrow> ParseSessionEstablishmentResponse b = Ok resp \<Longrightarrow>
     pfcp_last pfcp_TypeCause ies = Some (sep_Cause resp) \<and> sep_UPSEID resp = pfcp_last pfcp_TypeFSEID ies \<and>
     sep_CreatedPDRs resp = filter (\<lambda>i. pType i = pfcp_TypeCreatedPDR) ies"
  by (auto simp: ParseSessionEstablishmentResponse_def require_def Let_def split: option.splits if_splits)

lemma establishment_answer_parsed:
  assumes f: "NewFSEID up ip = Ok f" and cr: "list_all2 announces created ps" "length ps \<le> 2800" and s: "s < 0x1000000"
    and p: "ParseSessionEstablishmentResponse (pfcp_Marshal (session_header MsgTypeSessionEstablishmentResponse cp s)
      ([NewNodeIDIPv4 nid, pfcp_NewCause cause, f] @ created)) = Ok resp"
  shows "sep_Cause resp = pfcp_NewCause cause \<and> sep_UPSEID resp = Some f \<and> sep_CreatedPDRs resp = created"
proof -
  let ?h = "session_header MsgTypeSessionEstablishmentResponse cp s"
  let ?ies = "[NewNodeIDIPv4 nid, pfcp_NewCause cause, f] @ created"
  note created = length_created [OF cr(1)]
  have "length (pfcp_IE_Marshal (pfcp_NewCause cause)) = 5" by (simp add: pfcp_IE_Marshal_def pfcp_NewCause_def)
  then have "wf_pfcp ?h ?ies"
    using s length_FSEID [OF f] created cr(2) by (simp add: wf_pfcp_def session_header_def length_NodeID)
  then have p': "parse_pfcp True MsgTypeSessionEstablishmentResponse (pfcp_Marshal ?h ?ies) = Ok (sent_header ?h ?ies, ?ies)"
    by (intro parse_pfcp_sent) (simp_all add: session_header_def)
  note ty = pType_constructed(1,2) pType_constructed(3) [OF f]
  have "pfcp_last t created = None" if "t \<noteq> pfcp_TypeCreatedPDR" for t
    using created that by (auto simp: pfcp_last_None_iff)
  then have "pfcp_last pfcp_TypeFSEID ?ies = Some f" "pfcp_last pfcp_TypeCause ?ies = Some (pfcp_NewCause cause)"
    using ty by (simp_all add: pfcp_last_Cons)
  moreover have "filter (\<lambda>i. pType i = pfcp_TypeCreatedPDR) ?ies = created"
    using created ty by (simp add: filter_id_conv)
  ultimately show ?thesis using est_response_fields [OF p' p] by simp
qed

lemma rejection_parsed:
  assumes "s < 0x1000000"
    and "ParseSessionEstablishmentResponse (pfcp_Marshal (session_header MsgTypeSessionEstablishmentResponse 0 s)
      [NewNodeIDIPv4 nid, pfcp_NewCause cause]) = Ok resp"
  shows "sep_Cause resp = pfcp_NewCause cause"
proof -
  let ?h = "session_header MsgTypeSessionEstablishmentResponse 0 s" and ?ies = "[NewNodeIDIPv4 nid, pfcp_NewCause cause]"
  have "length (pfcp_IE_Marshal (pfcp_NewCause cause)) = 5" by (simp add: pfcp_IE_Marshal_def pfcp_NewCause_def)
  then have "parse_pfcp True MsgTypeSessionEstablishmentResponse (pfcp_Marshal ?h ?ies) = Ok (sent_header ?h ?ies, ?ies)"
    using assms(1) by (intro parse_pfcp_sent) (simp_all add: session_header_def wf_pfcp_def length_NodeID)
  from est_response_fields [OF this assms(2)] show ?thesis using pType_constructed(1,2) by (simp add: pfcp_last_Cons)
qed

section \<open>Establishment\<close>

lemma sgwu_establishment:
  assumes fit: "params_fit params" and s: "s < 0x1000000" and r: "establishment_request c params s = Ok raw"
    and b: "last_reply (snd (sgwu_handled env src raw sv)) = Some b"
  obtains hdr es where "handleSessionEstablishment env src hdr raw sv = Ok (fst (sgwu_handled env src raw sv), es)"
    "last_reply es = Some b" "ph_SequenceNumber hdr = s"
proof -
  obtain hdr body where p: "pfcp_ParseHeader raw = Ok (hdr, body)" "ph_MessageType hdr = MsgTypeSessionEstablishmentRequest"
    "ph_SequenceNumber hdr = s"
    using establishment_request_parsed [OF fit s r] by metis
  then obtain sv' es where h: "server_handle env src hdr raw sv = Ok (sv', es)" "last_reply es = Some b"
    using b by (cases "server_handle env src hdr raw sv") (auto simp: sgwu_handled_def)
  then have "handleSessionEstablishment env src hdr raw sv = Ok (sv', es)"
    using p(2) by (auto simp: server_handle_def split: if_splits)
  then show ?thesis using that h p by (simp add: sgwu_handled_def)
qed

lemma establishment_outcome:
  assumes ok: "server_ok sv" "room sv" and fit: "params_fit params" and s: "s < 0x1000000"
    and r: "establishment_request c params s = Ok raw"
    and b: "last_reply (snd (sgwu_handled env src raw sv)) = Some b"
    and p: "ParseSessionEstablishmentResponse b = Ok resp"
  shows "let sv' = fst (sgwu_handled env src raw sv); cp = sp_CPFSEID params in
    (\<exists>cause. cause \<noteq> CauseRequestAccepted \<and> sep_Cause resp = pfcp_NewCause cause \<and> sv_lookup sv' = sv_lookup sv) \<or>
    (\<exists>u f ip. sep_Cause resp = pfcp_NewCause CauseRequestAccepted \<and> sep_UPSEID resp = Some f \<and> NewFSEID (uUPSEID u) ip = Ok f \<and>
      sv_lookup sv cp = None \<and> sv_lookup sv' = (sv_lookup sv)(cp \<mapsto> u) \<and>
      length (uPDRs u) = length (sp_CreatePDRs params) \<and>
      list_all2 announces (sep_CreatedPDRs resp) (filter (\<lambda>p. pdrLocalTEID p \<noteq> 0) (uPDRs u)))"
proof -
  obtain hdr es where h: "handleSessionEstablishment env src hdr raw sv = Ok (fst (sgwu_handled env src raw sv), es)"
    and es: "last_reply es = Some b" and hs: "ph_SequenceNumber hdr = s"
    by (rule sgwu_establishment [OF fit s r b])
  from establishment_spec [OF ok h] consider
      cause where "sv_lookup (fst (sgwu_handled env src raw sv)) = sv_lookup sv" "cause \<noteq> CauseRequestAccepted"
        "es = [replySessionEst sv src hdr cause]"
    | req fs pdrs created fars up f where "ParseSessionEstablishmentRequest raw = Ok req"
        "FSEIDValue (seq_CPSEID req) = Ok fs" "length pdrs = length (seq_CreatePDRs req)"
        "NewFSEID up (sv_LocalIP sv) = Ok f" "sv_lookup sv (pfs_SEID fs) = None"
        "sv_lookup (fst (sgwu_handled env src raw sv)) = (sv_lookup sv)(pfs_SEID fs \<mapsto>
          \<lparr>uCPSEID = pfs_SEID fs, uUPSEID = up, uCPNodeKey = sourceKey src, uPDRs = pdrs, uFARs = fars\<rparr>)"
        "rules_sound sv pdrs created"
        "es = trackSessionPathPeers sv fars @ [PFCPReply src (pfcp_Marshal
          (session_header MsgTypeSessionEstablishmentResponse (pfs_SEID fs) (ph_SequenceNumber (seq_Header req)))
          ([NewNodeIDIPv4 (sv_NodeID sv), pfcp_NewCause CauseRequestAccepted, f] @ created))]"
    by metis
  then show ?thesis
  proof cases
    case 1
    then have "b = pfcp_Marshal (session_header MsgTypeSessionEstablishmentResponse 0 s) [NewNodeIDIPv4 (sv_NodeID sv), pfcp_NewCause cause]"
      using es hs by (simp add: replySessionEst_def)
    then have "sep_Cause resp = pfcp_NewCause cause" using rejection_parsed [OF s] p by blast
    then show ?thesis using 1 unfolding Let_def by blast
  next
    case 2
    obtain f' hdr' body where q: "NewFSEID (sp_CPFSEID params) (sp_LocalIP params) = Ok f'"
      "pfcp_ParseHeader raw = Ok (hdr', body)" "ph_SequenceNumber hdr' = s"
      "seq_Header req = hdr'" "seq_CPSEID req = f'" "seq_CreatePDRs req = sp_CreatePDRs params"
      using establishment_request_parsed [OF fit s r] 2(1) by metis
    have cp: "pfs_SEID fs = sp_CPFSEID params" using FSEID_same [OF q(1)] 2(2) q(5) by simp
    have b: "b = pfcp_Marshal (session_header MsgTypeSessionEstablishmentResponse (pfs_SEID fs) s)
          ([NewNodeIDIPv4 (sv_NodeID sv), pfcp_NewCause CauseRequestAccepted, f] @ created)"
      using es q(3,4) by (simp add: 2(8) last_reply_append)
    let ?ps = "filter (\<lambda>p. pdrLocalTEID p \<noteq> 0) pdrs"
    have a: "list_all2 announces created ?ps" using 2(7) by (simp add: rules_sound_def)
    have "length ?ps \<le> 2800"
      using fit 2(3) q(6) length_filter_le [of "\<lambda>p. pdrLocalTEID p \<noteq> 0" pdrs] by (simp add: params_fit_def)
    then have "sep_Cause resp = pfcp_NewCause CauseRequestAccepted \<and> sep_UPSEID resp = Some f \<and> sep_CreatedPDRs resp = created"
      using establishment_answer_parsed [OF 2(4) a _ s] p b by blast
    then show ?thesis using 2 q(6) cp a unfolding Let_def by (intro disjI2 exI conjI) auto
  qed
qed

section \<open>Properties\<close>

lemma exchange_reply: "sgwu_exchange env src sv a raw = Ok rb \<Longrightarrow>
    \<exists>b. rb = Some b \<and> last_reply (snd (sgwu_handled env src raw sv)) = Some b"
  by (cases "last_reply (snd (sgwu_handled env src raw sv))") (auto simp: sgwu_exchange_def)

lemma establishment_agreed:
  assumes ok: "server_ok sv" "room sv" and fit: "params_fit params"
    and e: "fst (EstablishSession (sgwu_exchange env src sv) params c) = res"
    and raw: "establishment_request c params (fst (client_seq c)) = Ok raw"
    and sv': "sv' = fst (sgwu_handled env src raw sv)"
  shows "case res of
      Ok r \<Rightarrow> \<exists>u. sv_lookup sv (sp_CPFSEID params) = None \<and> sv_lookup sv' = (sv_lookup sv)(sp_CPFSEID params \<mapsto> u) \<and>
        sr_UPSEID r = uUPSEID u \<and> length (uPDRs u) = length (sp_CreatePDRs params) \<and>
        list_all2 announces (sr_CreatedPDRs r) (filter (\<lambda>p. pdrLocalTEID p \<noteq> 0) (uPDRs u))
    | Fail (Rejected cause) \<Rightarrow> cause \<noteq> CauseRequestAccepted \<and> sv_lookup sv' = sv_lookup sv
    | _ \<Rightarrow> True"
proof (cases "fst (SelectPeer c)")
  case (Ok i)
  let ?x = "sgwu_exchange env src sv" and ?p = "cl_Peers c ! i"
  have res: "res = establishment_result ?p ?x raw" using e EstablishSession_sent [OF Ok] raw by simp
  show ?thesis
  proof (cases "\<exists>rb resp. ?x (gp_UDP ?p) raw = Ok rb \<and> ParseSessionEstablishmentResponse (nil_bytes rb) = Ok resp")
    case True
    then obtain b resp where x: "?x (gp_UDP ?p) raw = Ok (Some b)" "ParseSessionEstablishmentResponse b = Ok resp"
      "last_reply (snd (sgwu_handled env src raw sv)) = Some b"
      using exchange_reply by (metis nil_bytes_def option.simps(5))
    from establishment_outcome [OF ok fit client_seq_bound raw x(3,2)] consider
        cause where "cause \<noteq> CauseRequestAccepted" "sep_Cause resp = pfcp_NewCause cause" "sv_lookup sv' = sv_lookup sv"
      | u f ip where "sep_Cause resp = pfcp_NewCause CauseRequestAccepted" "sep_UPSEID resp = Some f"
          "NewFSEID (uUPSEID u) ip = Ok f" "sv_lookup sv (sp_CPFSEID params) = None"
          "sv_lookup sv' = (sv_lookup sv)(sp_CPFSEID params \<mapsto> u)" "length (uPDRs u) = length (sp_CreatePDRs params)"
          "list_all2 announces (sep_CreatedPDRs resp) (filter (\<lambda>p. pdrLocalTEID p \<noteq> 0) (uPDRs u))"
      unfolding Let_def sv' by blast
    then show ?thesis
    proof cases
      case 1
      then show ?thesis using res x(1,2) by (simp add: establishment_result_def wrap_err_def nil_bytes_def value_or0_def Let_def)
    next
      case 2
      have r: "res = obind (wrap_err BadUPFSEID (FSEIDValue f)) (\<lambda>up. Ok \<lparr>sr_PeerName = gp_Name ?p, sr_PeerAddr = gp_Addr ?p,
          sr_UPSEID = pfs_SEID up, sr_CreatedPDRs = sep_CreatedPDRs resp\<rparr>)"
        using res x(1,2) 2(1,2) by (simp add: establishment_result_def wrap_err_def nil_bytes_def value_or0_def Let_def)
      show ?thesis
      proof (cases "FSEIDValue f")
        case (Ok up)
        then show ?thesis using r 2(4-7) FSEID_same [OF 2(3) Ok] by (auto simp: wrap_err_def intro: exI [of _ u])
      qed (simp_all add: r wrap_err_def)
    qed
  next
    case False
    then show ?thesis using res
      by (auto simp: establishment_result_def wrap_err_def split: outcome.splits)
  qed
next
  case (Fail x)
  then show ?thesis using EstablishSession_unsent(1) [OF Fail] e by fastforce
next
  case Panic
  then show ?thesis using EstablishSession_unsent(2) [OF Panic] e by fastforce
qed


text \<open>A client that has just been associated, and a request for one rule each way.\<close>

definition sample_client :: pfcp_client where
  "sample_client = \<lparr>cl_NodeID = [10, 0, 0, 1], cl_TS = 5, cl_Peers = [\<lparr>gp_Name = ''u1'', gp_Addr = ''10.0.0.2:8805'',
      gp_UDP = \<lparr>uaIP = IP4 0x0A000002, uaPort = 8805\<rparr>, gp_State = PeerStateEstablished, gp_NodeID = Some [10, 0, 0, 2],
      gp_RecoveryTS = 7, gp_LastSeen = 0\<rparr>], cl_Conn = pfcp_Listen 3, cl_SEID = 0, cl_Next = 0, cl_onState = False,
      cl_onRestart = False, cl_onIdle = False, cl_Sink = False\<rparr>"

definition sample_session_params :: "u64 \<Rightarrow> session_params" where
  "sample_session_params cp = \<lparr>sp_LocalIP = IP4 0x0A000001, sp_CPFSEID = cp, sp_CreatePDRs = [NewCreatePDR sample_pdr_ies],
     sp_CreateFARs = [NewCreateFAR [NewFARID 1, NewApplyAction 4]]\<rparr>"

lemma sample_params_fit: "params_fit (sample_session_params cp)"
  by (simp add: params_fit_def sample_session_params_def grouped_defs newGrouped_def pfcp_IE_Marshal_def sample_pdr_ies_def pfcp_defs NewFTEIDChoose_def)

definition sample_sent :: bytes where
 "sample_sent = [33, 50, 0, 95, 0, 0, 0, 0, 0, 0, 0, 0, 0, 0, 1, 0, 0, 60, 0, 5, 0, 10, 0, 0, 1, 0, 57, 0, 13, 2, 0,
     0, 0, 0, 0, 0, 0, 9, 10, 0, 0, 1, 0, 1, 0, 36, 0, 56, 0, 2, 0, 1, 0, 29, 0, 4, 0, 0, 0, 100, 0, 2, 0, 10, 0, 20,
     0, 1, 0, 0, 21, 0, 1, 5, 0, 108, 0, 4, 0, 0, 0, 1, 0, 3, 0, 13, 0, 108, 0, 4, 0, 0, 0, 1, 0, 44, 0, 1, 4]"

lemma sample_selected: "fst (SelectPeer sample_client) = Ok 0"
  by (simp add: SelectPeer_def sample_client_def Let_def go_rem_def peerEstablished_def)

lemma sample_request:
  "establishment_request sample_client (sample_session_params 9) (fst (client_seq sample_client)) = Ok sample_sent"
  by code_simp

lemma sample_answer:
  "establishment_result (cl_Peers sample_client ! 0) (sgwu_exchange sample_env sample_peer sample_associated) sample_sent =
     Ok \<lparr>sr_PeerName = ''u1'', sr_PeerAddr = ''10.0.0.2:8805'', sr_UPSEID = 1, sr_CreatedPDRs =
       [mkP 8 [0, 56, 0, 2, 0, 1, 0, 21, 0, 9, 1, 0, 0, 0, 77, 10, 0, 0, 3]]\<rparr>"
  by code_simp


section \<open>After a restart of the SGW-C\<close>

text \<open>What a restarted SGW-C sends first leaves the sessions of the SGW-U alone: the association
  setup stores the new Recovery Time Stamp, so the heartbeats that carry it find nothing changed.\<close>

lemma assoc_setup_keeps_sessions:
  "handleAssocSetup env a hdr raw sv = Ok (sv', es) \<Longrightarrow> sv_Sessions sv' = sv_Sessions sv"
  by (auto simp: handleAssocSetup_def Let_def note_peer_def split: outcome.splits option.splits if_splits)

definition knows :: "pfcp_server \<Rightarrow> udp_addr \<Rightarrow> u32 \<Rightarrow> bool" where
  "knows sv a ts \<longleftrightarrow> (\<exists>r. mget (sv_Peers sv) (sourceKey a) = Some r \<and> r < length (sv_PeerHeap sv) \<and>
     pe_RecoveryTS (sv_PeerHeap sv ! r) = ts)"

lemma assoc_setup_knows:
  assumes ok: "server_ok sv" and p: "ParseAssociationSetupRequest raw = Ok req"
    and ts: "RecoveryTimeStampValue (asq_RecoveryTimeStamp req) = Ok ts"
    and h: "handleAssocSetup env a hdr raw sv = Ok (sv', es)"
  shows "knows sv' a ts"
proof -
  have n: "knows (note_peer now k ts a sv) a ts" for now k
    using ok by (auto simp: knows_def note_peer_def Let_def map_simps server_ok_def nth_list_update split: option.splits)
  show ?thesis using h n by (auto simp: handleAssocSetup_def p ts value_or0_def Let_def)
qed

lemma heartbeat_keeps_sessions:
  assumes k: "knows sv a ts" and p: "ParseHeartbeatRequest raw = Ok req" "RecoveryTimeStampValue (hb_RecoveryTimeStamp req) = Ok ts"
    and h: "handleHeartbeat env a raw sv = Ok (sv', es)"
  shows "sv_Sessions sv' = sv_Sessions sv"
  using k h by (auto simp: handleHeartbeat_def p value_or0_def Let_def knows_def obind_Ok_iff split: if_splits)

text \<open>
  A restarted SGW-C may be unable to attach anybody. Its CP-SEID counter starts at one
  again, while the SGW-U keeps the sessions of the time before: neither the association setup with
  the new Recovery Time Stamp nor a heartbeat with it removes them. As long as the SGW-U holds a
  session with CP-SEID one, the first establishment of the restarted SGW-C does not succeed.
\<close>

theorem cp_seid_reused_after_restart:
  assumes ok: "server_ok sv" "room sv" and held: "sv_lookup sv 1 \<noteq> None"
    and asr: "ParseAssociationSetupRequest raw1 = Ok req1" "RecoveryTimeStampValue (asq_RecoveryTimeStamp req1) = Ok ts"
      "handleAssocSetup env1 a hdr1 raw1 sv = Ok (sv1, es1)"
    and hb: "ParseHeartbeatRequest raw2 = Ok req2" "RecoveryTimeStampValue (hb_RecoveryTimeStamp req2) = Ok ts"
      "handleHeartbeat env2 a raw2 sv1 = Ok (sv2, es2)"
    and fresh: "cl_SEID c = 0" "AllocCPSEID c = (cp, c')" and params: "params_fit params" "sp_CPFSEID params = cp"
  shows "fst (EstablishSession (sgwu_exchange env a sv2) params c') \<noteq> Ok r"
proof
  assume est: "fst (EstablishSession (sgwu_exchange env a sv2) params c') = Ok r"
  have s: "sv_Sessions sv2 = sv_Sessions sv"
    using heartbeat_keeps_sessions [OF assoc_setup_knows [OF ok(1) asr] hb] assoc_setup_keeps_sessions [OF asr(3)] by simp
  have "server_ok sv2" using handleHeartbeat_ok [OF handleAssocSetup_ok [OF ok(1) asr(3)] hb(3)] .
  moreover have "room sv2" using ok(2) s by (simp add: room_def)
  moreover obtain raw where "establishment_request c' params (fst (client_seq c')) = Ok raw"
    using est EstablishSession_sent EstablishSession_unsent
    by (cases "fst (SelectPeer c')") (auto simp: obind_Ok_iff)
  ultimately have "sv_lookup sv2 (sp_CPFSEID params) = None"
    using establishment_agreed [OF _ _ params(1) est _ refl] by auto
  moreover have "sp_CPFSEID params = 1" using fresh params(2) by (auto simp: AllocCPSEID_def Let_def)
  ultimately show False using held sv_lookup_cong [OF s] by simp
qed

definition sample_held :: pfcp_server where
  "sample_held = sample_active\<lparr>sv_Sessions := \<lparr>stHeap = (\<lambda>_. sample_usession\<lparr>uCPSEID := 1\<rparr>),
     stStore = \<lparr>byCPSEID = [(1, 0)], byUPSEID = [(1, 0)], seidCounter = 1\<rparr>, stNext = 1\<rparr>\<rparr>"

lemma sample_held_ok: "server_ok sample_held" "room sample_held" "sv_lookup sample_held 1 \<noteq> None"
  by (auto simp: server_ok_def room_def sv_lookup_def sample_held_def sample_active_def state_ok_def store_ok_def
    sample_usession_def mget_def mok_def)

definition sample_setup :: bytes where
  "sample_setup = [32, 5, 0, 21, 0, 0, 1, 0, 0, 60, 0, 5, 0, 10, 0, 0, 1, 0, 96, 0, 4, 0, 0, 0, 9]"

definition sample_beat :: bytes where
  "sample_beat = [32, 1, 0, 12, 0, 0, 2, 0, 0, 96, 0, 4, 0, 0, 0, 9]"

lemma sample_restart_parsed:
  "\<exists>req. ParseAssociationSetupRequest sample_setup = Ok req \<and> RecoveryTimeStampValue (asq_RecoveryTimeStamp req) = Ok 9"
  "\<exists>req. ParseHeartbeatRequest sample_beat = Ok req \<and> RecoveryTimeStampValue (hb_RecoveryTimeStamp req) = Ok 9"
proof -
  have "(case ParseAssociationSetupRequest sample_setup of Ok req \<Rightarrow> RecoveryTimeStampValue (asq_RecoveryTimeStamp req) = Ok 9 | _ \<Rightarrow> False)"
    "(case ParseHeartbeatRequest sample_beat of Ok req \<Rightarrow> RecoveryTimeStampValue (hb_RecoveryTimeStamp req) = Ok 9 | _ \<Rightarrow> False)"
    by code_simp+
  then show "\<exists>req. ParseAssociationSetupRequest sample_setup = Ok req \<and> RecoveryTimeStampValue (asq_RecoveryTimeStamp req) = Ok 9"
    "\<exists>req. ParseHeartbeatRequest sample_beat = Ok req \<and> RecoveryTimeStampValue (hb_RecoveryTimeStamp req) = Ok 9"
    by (auto split: outcome.splits)
qed

theorem cp_seid_reused_after_restart_witness:
  "\<exists>sv1 es1 sv2 es2. handleAssocSetup sample_env sample_peer sample_ser_header sample_setup sample_held = Ok (sv1, es1) \<and>
     handleHeartbeat sample_env sample_peer sample_beat sv1 = Ok (sv2, es2) \<and>
     (\<forall>r. fst (EstablishSession (sgwu_exchange sample_env sample_peer sv2) (sample_session_params 1) (snd (AllocCPSEID sample_client))) \<noteq> Ok r)"
proof -
  obtain req1 req2 where p: "ParseAssociationSetupRequest sample_setup = Ok req1" "RecoveryTimeStampValue (asq_RecoveryTimeStamp req1) = Ok 9"
    "ParseHeartbeatRequest sample_beat = Ok req2" "RecoveryTimeStampValue (hb_RecoveryTimeStamp req2) = Ok 9"
    using sample_restart_parsed by blast
  obtain sv1 es1 where s: "handleAssocSetup sample_env sample_peer sample_ser_header sample_setup sample_held = Ok (sv1, es1)"
    by (simp add: handleAssocSetup_def p Let_def)
  obtain sv2 es2 where h: "handleHeartbeat sample_env sample_peer sample_beat sv1 = Ok (sv2, es2)"
    using assoc_setup_knows [OF sample_held_ok(1) p(1,2) s]
    by (auto simp: handleHeartbeat_def p value_or0_def Let_def knows_def)
  have "AllocCPSEID sample_client = (1, snd (AllocCPSEID sample_client))" "cl_SEID sample_client = 0"
    by (simp_all add: AllocCPSEID_def sample_client_def)
  then show ?thesis
    using cp_seid_reused_after_restart [OF sample_held_ok p(1,2) s p(3,4) h _ _ sample_params_fit] s h
    by (auto simp: sample_session_params_def)
qed

end
