(* ===== verification/Peer_Health.thy ===== *)
theory Peer_Health
  imports Checkpoint_Writer "HOL-Library.Char_ord" "HOL-Library.List_Lexorder" "HOL-Library.Product_Lexorder"
begin

text \<open>
  What the SGW-C knows of its GTP-C peers, \<^verbatim>\<open>internal/sgwc/peerhealth/\<close>: the table of
  MMEs and PGWs with their path state (\<^verbatim>\<open>peerhealth.go\<close>) and the Echo prober
  (\<^verbatim>\<open>prober.go\<close>); and the restart counter the SGW-C itself advertises
  (\<^verbatim>\<open>internal/sgwc/recovery/recovery.go\<close>). The clock and the answers to the Echo
  Requests are arguments; what a call hands to the event handler and to the checkpoint sink is
  returned in order. The lemmas relate a peer's record to the history of what was seen of it.
\<close>

section \<open>State\<close>

abbreviation (input) RoleMME :: string where "RoleMME \<equiv> ''mme''"
abbreviation (input) RolePGW :: string where "RolePGW \<equiv> ''pgw''"
abbreviation (input) HealthUnknown :: string where "HealthUnknown \<equiv> ''unknown''"
abbreviation (input) HealthUp :: string where "HealthUp \<equiv> ''up''"
abbreviation (input) HealthDegraded :: string where "HealthDegraded \<equiv> ''degraded''"
abbreviation (input) HealthSuspect :: string where "HealthSuspect \<equiv> ''suspect''"
abbreviation (input) HealthDown :: string where "HealthDown \<equiv> ''down''"

record health_peer =
  hp_Role :: string
  hp_Addr :: string
  hp_State :: string
  hp_LastStateChange :: gtime
  hp_LastSeenAt :: gtime
  hp_LastMsgType :: u8
  hp_LastSeq :: u32
  hp_LastEchoSentAt :: gtime
  hp_LastEchoResponseAt :: gtime
  hp_LastRTT :: duration
  hp_SmoothedRTT :: duration
  hp_MaxRTT :: duration
  hp_Misses :: int
  hp_EchoSent :: u64
  hp_EchoResponses :: u64
  hp_EchoTimeouts :: u64
  hp_RecoverySeen :: bool
  hp_RecoveryCounter :: u8
  hp_RestartDetectedAt :: gtime
  hp_Restarts :: u64

record health_table =
  ht_peers :: "(string \<times> string, health_peer) gomap"
  ht_handler :: bool
  ht_sink :: bool

record probe_config =
  pg_SuspectAfterMissed :: int
  pg_DownAfterMissed :: int
  pg_DegradedRTT :: duration

datatype health_effect =
    SavePeerSnapshot peer_snapshot
  | OnPeerStateChange string string string string string gtime
  | OnPeerRestart string string u8 u8 gtime

definition NewTable :: health_table where
  "NewTable = \<lparr>ht_peers = [], ht_handler = False, ht_sink = False\<rparr>"

definition NormalizeUDPAddr :: "ip_addr \<Rightarrow> string" where
  "NormalizeUDPAddr a = joinHostPort (addr_String a) (itoa 2123)"

definition NormalizeEndpoint :: "string \<Rightarrow> string" where
  "NormalizeEndpoint addr = (case splitHostPort addr of
     None \<Rightarrow> addr | Some (host, _) \<Rightarrow> if host = [] then addr else joinHostPort host (itoa 2123))"

definition new_health_peer :: "string \<Rightarrow> string \<Rightarrow> gtime \<Rightarrow> health_peer" where
  "new_health_peer role addr now =
     \<lparr>hp_Role = role, hp_Addr = addr, hp_State = HealthUnknown, hp_LastStateChange = now, hp_LastSeenAt = 0,
      hp_LastMsgType = 0, hp_LastSeq = 0, hp_LastEchoSentAt = 0, hp_LastEchoResponseAt = 0, hp_LastRTT = 0,
      hp_SmoothedRTT = 0, hp_MaxRTT = 0, hp_Misses = 0, hp_EchoSent = 0, hp_EchoResponses = 0, hp_EchoTimeouts = 0,
      hp_RecoverySeen = False, hp_RecoveryCounter = 0, hp_RestartDetectedAt = 0, hp_Restarts = 0\<rparr>"

text \<open>The peer is a pointer in the map: a later store writes through it.\<close>

definition getOrCreateLocked :: "string \<times> string \<Rightarrow> gtime \<Rightarrow> health_table \<Rightarrow> health_peer" where
  "getOrCreateLocked key now t = (case mget (ht_peers t) key of
     Some p \<Rightarrow> p | None \<Rightarrow> new_health_peer (fst key) (snd key) now)"

definition store_peer :: "string \<times> string \<Rightarrow> health_peer \<Rightarrow> health_table \<Rightarrow> health_table" where
  "store_peer key p t = t\<lparr>ht_peers := mput key p (ht_peers t)\<rparr>"

section \<open>Recovery and notifications\<close>

definition applyRecoveryLocked :: "u8 option \<Rightarrow> gtime \<Rightarrow> health_peer \<Rightarrow> (u8 \<times> u8) option \<times> health_peer" where
  "applyRecoveryLocked recovery now p = (case recovery of
     None \<Rightarrow> (None, p)
   | Some r \<Rightarrow>
       let restarted = hp_RecoverySeen p \<and> hp_RecoveryCounter p \<noteq> r;
           p1 = (if restarted then p\<lparr>hp_RestartDetectedAt := now, hp_Restarts := hp_Restarts p + 1\<rparr> else p)
       in (if restarted then Some (hp_RecoveryCounter p, r) else None,
           p1\<lparr>hp_RecoverySeen := True, hp_RecoveryCounter := r\<rparr>))"

definition stateChangeTime :: "gtime \<Rightarrow> string \<Rightarrow> string \<Rightarrow> gtime \<Rightarrow> gtime" where
  "stateChangeTime oldTime old new now = (if old \<noteq> new then now else oldTime)"

definition health_checkpoint :: "gtime \<Rightarrow> health_peer \<Rightarrow> peer_snapshot" where
  "health_checkpoint now p =
     \<lparr>pr_SchemaVersion = 0, pr_Role = hp_Role p, pr_Addr = hp_Addr p, pr_Name = [], pr_State = hp_State p,
      pr_RecoverySeen = hp_RecoverySeen p, pr_RecoveryCounter = hp_RecoveryCounter p, pr_RecoveryTimestamp = 0,
      pr_RestartDetectedAt = hp_RestartDetectedAt p, pr_Restarts = hp_Restarts p,
      pr_UpdatedAt = (if hp_LastSeenAt p = 0 then now else hp_LastSeenAt p)\<rparr>"

definition health_emit :: "health_table \<Rightarrow> gtime \<Rightarrow> health_peer \<Rightarrow> health_effect list" where
  "health_emit t now p = (if \<not> ht_sink t \<or> hp_Role p = [] \<or> hp_Addr p = [] then []
     else [SavePeerSnapshot (health_checkpoint now p)])"

definition notifyStateChange :: "health_table \<Rightarrow> string \<times> string \<Rightarrow> string \<Rightarrow> string \<Rightarrow> string \<Rightarrow> gtime \<Rightarrow> health_effect list" where
  "notifyStateChange t key old new reason at =
     (if \<not> ht_handler t \<or> old = new then [] else [OnPeerStateChange (fst key) (snd key) old new reason at])"

definition notifyRestart :: "health_table \<Rightarrow> string \<times> string \<Rightarrow> (u8 \<times> u8) option \<Rightarrow> gtime \<Rightarrow> health_effect list" where
  "notifyRestart t key change at = (case change of
     None \<Rightarrow> []
   | Some (old, new) \<Rightarrow> if \<not> ht_handler t then [] else [OnPeerRestart (fst key) (snd key) old new at])"

section \<open>What changes a peer\<close>

definition observe :: "gtime \<Rightarrow> string \<Rightarrow> string \<Rightarrow> u8 \<Rightarrow> u32 \<Rightarrow> u8 option \<Rightarrow> health_table \<Rightarrow>
    health_table \<times> health_effect list" where
  "observe now role addr msgType sq recovery t =
     (let key = (role, addr); p = getOrCreateLocked key now t;
          p1 = (if hp_State p \<noteq> HealthUp then p\<lparr>hp_State := HealthUp, hp_LastStateChange := now\<rparr> else p);
          (change, p2) = applyRecoveryLocked recovery now
            (p1\<lparr>hp_LastSeenAt := now, hp_LastMsgType := msgType, hp_LastSeq := sq\<rparr>)
      in (store_peer key p2 t,
          health_emit t now p2 @ notifyStateChange t key (hp_State p) HealthUp ''valid_gtpc_message'' now @
          notifyRestart t key change now))"

definition Observe :: "gtime \<Rightarrow> string \<Rightarrow> ip_addr option \<Rightarrow> u8 \<Rightarrow> u32 \<Rightarrow> u8 option \<Rightarrow> health_table option \<Rightarrow>
    health_table option \<times> health_effect list" where
  "Observe now role addr msgType sq recovery t = (case (t, addr) of
     (Some t, Some a) \<Rightarrow> (let (t', es) = observe now role (NormalizeUDPAddr a) msgType sq recovery t in (Some t', es))
   | _ \<Rightarrow> (t, []))"

definition ObserveAddr :: "gtime \<Rightarrow> string \<Rightarrow> string \<Rightarrow> u8 \<Rightarrow> u32 \<Rightarrow> u8 option \<Rightarrow> health_table \<Rightarrow>
    health_table \<times> health_effect list" where
  "ObserveAddr now role addr msgType sq recovery t =
     (if addr = [] then (t, []) else observe now role (NormalizeEndpoint addr) msgType sq recovery t)"

definition MarkEchoSent :: "gtime \<Rightarrow> string \<Rightarrow> string \<Rightarrow> u32 \<Rightarrow> health_table \<Rightarrow> health_table \<times> health_effect list" where
  "MarkEchoSent now role addr sq t =
     (if addr = [] then (t, [])
      else let key = (role, NormalizeEndpoint addr); p = getOrCreateLocked key now t;
               p1 = p\<lparr>hp_LastEchoSentAt := now, hp_LastSeq := sq, hp_EchoSent := hp_EchoSent p + 1\<rparr>
           in (store_peer key p1 t, health_emit t now p1))"

text \<open>Go's integer division truncates.\<close>

definition go_quot :: "int \<Rightarrow> int \<Rightarrow> int" where
  "go_quot a b = (if a < 0 then - ((- a) div b) else a div b)"

definition MarkEchoResponse :: "gtime \<Rightarrow> string \<Rightarrow> string \<Rightarrow> u32 \<Rightarrow> duration \<Rightarrow> u8 option \<Rightarrow> probe_config \<Rightarrow>
    health_table \<Rightarrow> health_table \<times> health_effect list" where
  "MarkEchoResponse now role addr sq rtt recovery cfg t =
     (if addr = [] then (t, [])
      else let key = (role, NormalizeEndpoint addr); p = getOrCreateLocked key now t; oldState = hp_State p;
               p1 = p\<lparr>hp_State := HealthUp,
                 hp_LastStateChange := stateChangeTime (hp_LastStateChange p) oldState HealthUp now,
                 hp_LastSeenAt := now, hp_LastEchoResponseAt := now, hp_LastSeq := sq, hp_LastRTT := rtt,
                 hp_SmoothedRTT := (if hp_SmoothedRTT p = 0 then rtt else go_quot (hp_SmoothedRTT p * 7 + rtt) 8),
                 hp_MaxRTT := (if rtt > hp_MaxRTT p then rtt else hp_MaxRTT p), hp_Misses := 0,
                 hp_EchoResponses := hp_EchoResponses p + 1\<rparr>;
               p2 = (if pg_DegradedRTT cfg > 0 \<and> rtt > pg_DegradedRTT cfg
                 then p1\<lparr>hp_State := HealthDegraded,
                   hp_LastStateChange := stateChangeTime (hp_LastStateChange p1) oldState HealthDegraded now\<rparr>
                 else p1);
               (change, p3) = applyRecoveryLocked recovery now p2
           in (store_peer key p3 t,
               health_emit t now p3 @ notifyStateChange t key oldState (hp_State p3) ''echo_response'' now @
               notifyRestart t key change now))"

definition timeout_state :: "probe_config \<Rightarrow> int \<Rightarrow> string" where
  "timeout_state cfg misses =
     (if pg_DownAfterMissed cfg > 0 \<and> misses \<ge> pg_DownAfterMissed cfg then HealthDown
      else if pg_SuspectAfterMissed cfg > 0 \<and> misses \<ge> pg_SuspectAfterMissed cfg then HealthSuspect
      else HealthDegraded)"

definition MarkEchoTimeout :: "gtime \<Rightarrow> string \<Rightarrow> string \<Rightarrow> u32 \<Rightarrow> probe_config \<Rightarrow> health_table \<Rightarrow>
    health_table \<times> health_effect list" where
  "MarkEchoTimeout now role addr sq cfg t =
     (if addr = [] then (t, [])
      else let key = (role, NormalizeEndpoint addr); p = getOrCreateLocked key now t; oldState = hp_State p;
               newState = timeout_state cfg (hp_Misses p + 1);
               p1 = p\<lparr>hp_LastSeq := sq, hp_Misses := hp_Misses p + 1, hp_EchoTimeouts := hp_EchoTimeouts p + 1,
                 hp_State := newState,
                 hp_LastStateChange := stateChangeTime (hp_LastStateChange p) oldState newState now\<rparr>
           in (store_peer key p1 t,
               health_emit t now p1 @ notifyStateChange t key oldState newState ''echo_timeout'' now))"

section \<open>Reading the table\<close>

definition health_State :: "string \<Rightarrow> string \<Rightarrow> health_table option \<Rightarrow> string \<times> bool" where
  "health_State role addr t = (case t of
     None \<Rightarrow> (HealthUnknown, False)
   | Some t \<Rightarrow>
       if addr = [] then (HealthUnknown, False)
       else (case mget (ht_peers t) (role, NormalizeEndpoint addr) of
           None \<Rightarrow> (HealthUnknown, False) | Some p \<Rightarrow> (hp_State p, True)))"

definition ProbeTargets :: "bool \<Rightarrow> bool \<Rightarrow> health_table \<Rightarrow> (string \<times> string) list" where
  "ProbeTargets probeMME probePGW t =
     sort (filter (\<lambda>(role, _). (role = RoleMME \<longrightarrow> probeMME) \<and> (role = RolePGW \<longrightarrow> probePGW)) (map fst (ht_peers t)))"

definition health_Snapshot :: "health_table \<Rightarrow> health_peer list" where
  "health_Snapshot t = sort_key (\<lambda>p. (hp_Role p, hp_Addr p)) (map snd (ht_peers t))"

definition health_CheckpointSnapshots :: "gtime \<Rightarrow> health_table \<Rightarrow> peer_snapshot list" where
  "health_CheckpointSnapshots now t =
     sort_key (\<lambda>s. (pr_Role s, pr_Addr s)) (map (health_checkpoint now \<circ> snd) (ht_peers t))"

fun health_RestoreCheckpointSnapshots :: "gtime \<Rightarrow> peer_snapshot list \<Rightarrow> health_table \<Rightarrow> nat \<times> health_table" where
  "health_RestoreCheckpointSnapshots now [] t = (0, t)"
| "health_RestoreCheckpointSnapshots now (s # ss) t =
     (if pr_Role s \<noteq> RoleMME \<and> pr_Role s \<noteq> RolePGW \<or> pr_Addr s = []
      then health_RestoreCheckpointSnapshots now ss t
      else let key = (pr_Role s, NormalizeEndpoint (pr_Addr s)); p = getOrCreateLocked key now t;
               p1 = p\<lparr>hp_State := (if pr_State s = [] then HealthUnknown else pr_State s),
                 hp_LastStateChange := (if pr_UpdatedAt s = 0 then now else pr_UpdatedAt s),
                 hp_RecoverySeen := pr_RecoverySeen s, hp_RecoveryCounter := pr_RecoveryCounter s,
                 hp_RestartDetectedAt := pr_RestartDetectedAt s, hp_Restarts := pr_Restarts s\<rparr>;
               (n, t') = health_RestoreCheckpointSnapshots now ss (store_peer key p1 t)
           in (n + 1, t'))"

section \<open>The prober\<close>

record prober_config =
  po_SuspectAfterMissed :: int
  po_DownAfterMissed :: int
  po_DegradedRTT :: duration
  po_ProbeMMEPeers :: bool
  po_ProbePGWPeers :: bool

definition prober_limits :: "prober_config \<Rightarrow> probe_config" where
  "prober_limits cfg = \<lparr>pg_SuspectAfterMissed = po_SuspectAfterMissed cfg, pg_DownAfterMissed = po_DownAfterMissed cfg,
     pg_DegradedRTT = po_DegradedRTT cfg\<rparr>"

text \<open>\<open>sent k\<close> and \<open>fin k\<close> are the clock around the \<open>k\<close>-th Echo, \<open>echo k\<close> its
  result: the round-trip time and the Recovery value, or an error.\<close>

fun probe_targets :: "prober_config \<Rightarrow> (nat \<Rightarrow> gtime) \<Rightarrow> (nat \<Rightarrow> gtime) \<Rightarrow> (nat \<Rightarrow> u32) \<Rightarrow>
    (nat \<Rightarrow> (duration \<times> u8 option) option) \<Rightarrow> nat \<Rightarrow> (string \<times> string) list \<Rightarrow> health_table \<Rightarrow>
    health_table \<times> health_effect list" where
  "probe_targets cfg sent fin nextSeq echo k [] t = (t, [])"
| "probe_targets cfg sent fin nextSeq echo k ((role, addr) # ts) t =
     (let (t1, es1) = MarkEchoSent (sent k) role addr (nextSeq k) t;
          (t2, es2) = (case echo k of
              None \<Rightarrow> MarkEchoTimeout (fin k) role addr (nextSeq k) (prober_limits cfg) t1
            | Some (rtt, recovery) \<Rightarrow> MarkEchoResponse (fin k) role addr (nextSeq k) rtt recovery (prober_limits cfg) t1);
          (t3, es3) = probe_targets cfg sent fin nextSeq echo (k + 1) ts t2
      in (t3, es1 @ es2 @ es3))"

definition probeOnce :: "prober_config \<Rightarrow> (nat \<Rightarrow> gtime) \<Rightarrow> (nat \<Rightarrow> gtime) \<Rightarrow> (nat \<Rightarrow> u32) \<Rightarrow>
    (nat \<Rightarrow> (duration \<times> u8 option) option) \<Rightarrow> health_table \<Rightarrow> health_table \<times> health_effect list" where
  "probeOnce cfg sent fin nextSeq echo t =
     probe_targets cfg sent fin nextSeq echo 0 (ProbeTargets (po_ProbeMMEPeers cfg) (po_ProbePGWPeers cfg) t) t"

section \<open>The restart counter of the SGW-C\<close>

type_synonym restart_counter = u32

definition recovery_New :: "u8 \<Rightarrow> restart_counter" where
  "recovery_New initial = ucast ((initial + 1) AND 0xFF)"

definition recovery_Value :: "restart_counter \<Rightarrow> u8" where
  "recovery_Value c = ucast (c AND 0xFF)"

definition recovery_Increment :: "restart_counter \<Rightarrow> u8 \<times> restart_counter" where
  "recovery_Increment old = (let nxt = (old + 1) AND 0xFF in (ucast nxt, nxt))"

datatype file_read = FileBytes bytes | FileNotExist | FileReadError
datatype recovery_error = RecoveryRead | RecoveryDir | RecoveryWrite

text \<open>The result and the octets written; \<open>dirOk\<close> and \<open>writeOk\<close> say whether the directory and
  the file could be made.\<close>

definition LoadOrInit :: "file_read \<Rightarrow> bool \<Rightarrow> bool \<Rightarrow> (recovery_error, restart_counter \<times> bytes) outcome" where
  "LoadOrInit file dirOk writeOk =
     (if file = FileReadError then Fail RecoveryRead
      else
        let prev = (case file of FileBytes data \<Rightarrow> if length data \<ge> 1 then hd data else 0 | _ \<Rightarrow> 0);
            c = recovery_New prev
        in if \<not> dirOk then Fail RecoveryDir
           else if \<not> writeOk then Fail RecoveryWrite
           else Ok (c, [recovery_Value c]))"

section \<open>A peer's record and its history\<close>

datatype health_event = EvSeen gtime u8 u32 "u8 option" | EvSent gtime u32 | EvAnswer gtime u32 duration "u8 option" | EvMissed gtime u32

fun health_next :: "probe_config \<Rightarrow> string \<Rightarrow> string \<Rightarrow> health_event \<Rightarrow> health_table \<Rightarrow> health_table" where
  "health_next cfg role addr (EvSeen now msg sq r) t = fst (ObserveAddr now role addr msg sq r t)"
| "health_next cfg role addr (EvSent now sq) t = fst (MarkEchoSent now role addr sq t)"
| "health_next cfg role addr (EvAnswer now sq rtt r) t = fst (MarkEchoResponse now role addr sq rtt r cfg t)"
| "health_next cfg role addr (EvMissed now sq) t = fst (MarkEchoTimeout now role addr sq cfg t)"

text \<open>The specification reads a history, the latest event first: the Echoes missed since the last
  answered one, the state, and the Recovery values seen.\<close>

fun missed_since :: "health_event list \<Rightarrow> int" where
  "missed_since [] = 0"
| "missed_since (e # h) = (case e of EvAnswer _ _ _ _ \<Rightarrow> 0 | EvMissed _ _ \<Rightarrow> missed_since h + 1 | _ \<Rightarrow> missed_since h)"

fun state_after :: "probe_config \<Rightarrow> health_event list \<Rightarrow> string" where
  "state_after cfg [] = HealthUnknown"
| "state_after cfg (e # h) = (case e of
     EvSeen _ _ _ _ \<Rightarrow> HealthUp
   | EvSent _ _ \<Rightarrow> state_after cfg h
   | EvAnswer _ _ rtt _ \<Rightarrow> if pg_DegradedRTT cfg > 0 \<and> rtt > pg_DegradedRTT cfg then HealthDegraded else HealthUp
   | EvMissed _ _ \<Rightarrow> timeout_state cfg (missed_since (e # h)))"

fun recovery_of :: "health_event \<Rightarrow> u8 option" where
  "recovery_of (EvSeen _ _ _ r) = r"
| "recovery_of (EvAnswer _ _ _ r) = r"
| "recovery_of _ = None"

fun recovery_after :: "health_event list \<Rightarrow> u8 option" where
  "recovery_after [] = None"
| "recovery_after (e # h) = (case recovery_of e of Some r \<Rightarrow> Some r | None \<Rightarrow> recovery_after h)"

fun restarts_in :: "health_event list \<Rightarrow> u64" where
  "restarts_in [] = 0"
| "restarts_in (e # h) = restarts_in h + (case (recovery_of e, recovery_after h) of
     (Some r, Some old) \<Rightarrow> if r \<noteq> old then 1 else 0 | _ \<Rightarrow> 0)"

definition record_matches :: "probe_config \<Rightarrow> health_event list \<Rightarrow> health_peer \<Rightarrow> bool" where
  "record_matches cfg h p \<longleftrightarrow> hp_Misses p = missed_since h \<and> hp_State p = state_after cfg h \<and>
     (if hp_RecoverySeen p then Some (hp_RecoveryCounter p) else None) = recovery_after h \<and> hp_Restarts p = restarts_in h"

lemma mget_store_peer [simp]: "mget (ht_peers (store_peer key p t)) key = Some p"
  by (simp add: store_peer_def map_simps)

lemma applyRecovery_fields:
  assumes "applyRecoveryLocked r now p = (change, q)"
  shows "hp_Misses q = hp_Misses p \<and> hp_State q = hp_State p \<and>
    (if hp_RecoverySeen q then Some (hp_RecoveryCounter q) else None) =
      (case r of Some v \<Rightarrow> Some v | None \<Rightarrow> if hp_RecoverySeen p then Some (hp_RecoveryCounter p) else None) \<and>
    hp_Restarts q = hp_Restarts p + (case (r, if hp_RecoverySeen p then Some (hp_RecoveryCounter p) else None) of
      (Some v, Some old) \<Rightarrow> if v \<noteq> old then 1 else 0 | _ \<Rightarrow> 0) \<and>
    change = (case r of Some v \<Rightarrow> if hp_RecoverySeen p \<and> hp_RecoveryCounter p \<noteq> v then Some (hp_RecoveryCounter p, v) else None | None \<Rightarrow> None)"
  using assms by (auto simp: applyRecoveryLocked_def Let_def split: option.splits if_splits)

lemma health_step_matches:
  assumes n: "NormalizeEndpoint addr = addr" "addr \<noteq> []"
    and p: "record_matches cfg h (getOrCreateLocked (role, addr) now' t)" "\<And>now. mget (ht_peers t) (role, addr) = None \<Longrightarrow> h = []"
  shows "\<exists>q. mget (ht_peers (health_next cfg role addr e t)) (role, addr) = Some q \<and> record_matches cfg (e # h) q"
proof -
  have p: "record_matches cfg h (getOrCreateLocked (role, addr) now t)" for now
    using p by (cases "mget (ht_peers t) (role, addr)") (auto simp: getOrCreateLocked_def record_matches_def new_health_peer_def)
  show ?thesis
  proof (cases e)
    case (EvSeen now msg sq r)
    define P where "P = (let p = getOrCreateLocked (role, addr) now t in
      (if hp_State p \<noteq> HealthUp then p\<lparr>hp_State := HealthUp, hp_LastStateChange := now\<rparr> else p)
        \<lparr>hp_LastSeenAt := now, hp_LastMsgType := msg, hp_LastSeq := sq\<rparr>)"
    obtain ch q where q: "applyRecoveryLocked r now P = (ch, q)" by force
    have "mget (ht_peers (health_next cfg role addr e t)) (role, addr) = Some q"
      using q by (simp add: EvSeen n ObserveAddr_def observe_def P_def Let_def)
    moreover have "hp_State P = HealthUp" by (simp add: P_def Let_def)
    moreover have "record_matches cfg h (P\<lparr>hp_State := hp_State (getOrCreateLocked (role, addr) now t)\<rparr>)"
      using p [of now] by (auto simp: P_def Let_def record_matches_def split: if_splits)
    ultimately show ?thesis
      using applyRecovery_fields [OF q] by (auto simp: EvSeen record_matches_def split: option.splits if_splits)
  next
    case (EvSent now sq)
    show ?thesis using p [of now] by (auto simp: EvSent n MarkEchoSent_def Let_def record_matches_def)
  next
    case (EvAnswer now sq rtt r)
    define P where "P = (let p = getOrCreateLocked (role, addr) now t; p1 = p\<lparr>hp_State := HealthUp,
                 hp_LastStateChange := stateChangeTime (hp_LastStateChange p) (hp_State p) HealthUp now,
                 hp_LastSeenAt := now, hp_LastEchoResponseAt := now, hp_LastSeq := sq, hp_LastRTT := rtt,
                 hp_SmoothedRTT := (if hp_SmoothedRTT p = 0 then rtt else go_quot (hp_SmoothedRTT p * 7 + rtt) 8),
                 hp_MaxRTT := (if rtt > hp_MaxRTT p then rtt else hp_MaxRTT p), hp_Misses := 0,
                 hp_EchoResponses := hp_EchoResponses p + 1\<rparr>
      in if pg_DegradedRTT cfg > 0 \<and> rtt > pg_DegradedRTT cfg
         then p1\<lparr>hp_State := HealthDegraded,
           hp_LastStateChange := stateChangeTime (hp_LastStateChange p1) (hp_State p) HealthDegraded now\<rparr>
         else p1)"
    obtain ch q where q: "applyRecoveryLocked r now P = (ch, q)" by force
    have "mget (ht_peers (health_next cfg role addr e t)) (role, addr) = Some q"
      using q by (simp add: EvAnswer n MarkEchoResponse_def P_def Let_def)
    moreover have "hp_State P = state_after cfg (e # h)" "hp_Misses P = 0" by (simp_all add: P_def Let_def EvAnswer)
    moreover have "record_matches cfg h (P\<lparr>hp_State := hp_State (getOrCreateLocked (role, addr) now t),
        hp_Misses := hp_Misses (getOrCreateLocked (role, addr) now t)\<rparr>)"
      using p [of now] by (auto simp: P_def Let_def record_matches_def split: if_splits)
    ultimately show ?thesis
      using applyRecovery_fields [OF q] by (auto simp: EvAnswer record_matches_def split: option.splits if_splits)
  next
    case (EvMissed now sq)
    show ?thesis using p [of now] by (auto simp: EvMissed n MarkEchoTimeout_def Let_def record_matches_def)
  qed
qed

text \<open>
  C39: The table's record of a peer is what its history says: the state follows from the last
  event, Down and Suspect from the number of Echoes missed since the last answered Echo; the
  Recovery value is the last one seen, and the restart count is the number of times it changed.
  Other GTP-C messages bring a peer up but do not reset the number of missed Echoes.
\<close>

theorem peer_record_matches_history:
  assumes "NormalizeEndpoint addr = addr" "addr \<noteq> []" "events \<noteq> []"
  shows "\<exists>p. mget (ht_peers (fold (health_next cfg role addr) events NewTable)) (role, addr) = Some p \<and>
    record_matches cfg (rev events) p"
  using assms(3)
proof (induction events rule: rev_induct)
  case (snoc e h)
  let ?t = "fold (health_next cfg role addr) h NewTable"
  show ?case
  proof (cases "h = []")
    case True
    have "record_matches cfg [] (getOrCreateLocked (role, addr) 0 NewTable)"
      by (simp add: record_matches_def getOrCreateLocked_def new_health_peer_def NewTable_def map_simps)
    then show ?thesis using health_step_matches [OF assms(1,2), of cfg "[]" role 0 NewTable e] True by simp
  next
    case False
    then obtain p where p: "mget (ht_peers ?t) (role, addr) = Some p" "record_matches cfg (rev h) p"
      using snoc.IH by blast
    then show ?thesis
      using health_step_matches [OF assms(1,2), of cfg "rev h" role 0 ?t e] by (simp add: getOrCreateLocked_def)
  qed
qed simp

text \<open>Three Echoes missed, with a message in between: the peer is Up and the next miss takes it Down.\<close>

definition sample_limits :: probe_config where
  "sample_limits = \<lparr>pg_SuspectAfterMissed = 2, pg_DownAfterMissed = 3, pg_DegradedRTT = 0\<rparr>"

definition sample_events :: "health_event list" where
  "sample_events = [EvAnswer 1 1 5 (Some 7), EvMissed 2 2, EvMissed 3 3, EvSeen 4 33 9 (Some 8), EvMissed 5 4]"

lemma sample_endpoint: "NormalizeEndpoint ''10.0.0.1:2123'' = ''10.0.0.1:2123''"
  by code_simp

theorem peer_record_matches_history_witness:
  "\<exists>p. mget (ht_peers (fold (health_next sample_limits RolePGW ''10.0.0.1:2123'') sample_events NewTable))
      (RolePGW, ''10.0.0.1:2123'') = Some p \<and>
    record_matches sample_limits (rev sample_events) p \<and> hp_State p = HealthDown \<and> hp_Restarts p = 1"
proof -
  have "sample_events \<noteq> []" by (simp add: sample_events_def)
  from peer_record_matches_history [OF sample_endpoint _ this, of sample_limits RolePGW]
  obtain p where p: "mget (ht_peers (fold (health_next sample_limits RolePGW ''10.0.0.1:2123'') sample_events NewTable))
      (RolePGW, ''10.0.0.1:2123'') = Some p" "record_matches sample_limits (rev sample_events) p" by auto
  have "state_after sample_limits (rev sample_events) = HealthDown" "restarts_in (rev sample_events) = 1"
    by (simp_all add: sample_events_def sample_limits_def timeout_state_def)
  then show ?thesis using p by (auto simp: record_matches_def)
qed

section \<open>Restarts of the SGW-C itself\<close>

lemma ucast_mask8: "(x :: u8) AND 0xFF = x"
proof -
  have "(0xFF :: u8) = - 1" by simp
  then show ?thesis by (simp only: and.right_neutral)
qed

lemma recovery_value_New: "recovery_Value (recovery_New v) = v + 1"
proof -
  have "ucast ((ucast w :: u32) AND mask 8) = w" for w :: u8
    by (rule bit_word_eqI) (auto simp: bit_simps)
  then have "ucast ((ucast (v + 1) :: u32) AND 0xFF) = v + 1" by (simp add: mask_eq_exp_minus_1)
  then show ?thesis by (simp add: recovery_Value_def recovery_New_def ucast_mask8)
qed

lemma recovery_Increment_value: "recovery_Value (snd (recovery_Increment c)) = fst (recovery_Increment c)"
proof -
  have "((c + 1) AND 0xFF) AND 0xFF = (c + 1) AND 0xFF" by (simp add: and.assoc)
  then show ?thesis by (simp add: recovery_Value_def recovery_Increment_def Let_def)
qed

text \<open>The file that holds the counter after a number of starts.\<close>

fun starts :: "nat \<Rightarrow> bytes \<Rightarrow> bytes" where
  "starts 0 f = f"
| "starts (Suc n) f = (case LoadOrInit (FileBytes (starts n f)) True True of Ok (_, f') \<Rightarrow> f' | _ \<Rightarrow> starts n f)"

lemma starts_value: "n > 0 \<Longrightarrow> starts n f = [(if f = [] then 0 else hd f) + of_nat n]"
proof (induction n)
  case (Suc n)
  show ?case
  proof (cases n)
    case 0
    show ?thesis by (cases f) (simp_all add: 0 LoadOrInit_def Let_def recovery_value_New)
  next
    case (Suc m)
    then show ?thesis using Suc.IH by (simp add: LoadOrInit_def Let_def recovery_value_New add_ac)
  qed
qed simp

text \<open>
  Each start of the SGW-C advertises a new restart counter: what start \<open>i\<close> advertises is what
  it stores, and two starts advertise the same value only if a multiple of 256 starts lies between
  them.
\<close>

theorem restart_counter_advances:
  assumes "0 < i" "0 < j"
  shows "starts i f = starts j f \<longleftrightarrow> i mod 256 = j mod 256"
proof -
  have "starts i f = starts j f \<longleftrightarrow> (of_nat i :: u8) = of_nat j" using assms by (simp add: starts_value)
  also have "\<dots> \<longleftrightarrow> i mod 256 = j mod 256" by (simp add: word_of_nat_eq_iff take_bit_eq_mod)
  finally show ?thesis .
qed

theorem restart_counter_advances_witness: "starts 1 [7] = [8] \<and> starts 1 [7] \<noteq> starts 2 [7]"
  using restart_counter_advances [of 1 2 "[7]"] by (simp add: starts_value del: starts.simps)

end
