(* ===== verification/DDN_Control.thy ===== *)
theory DDN_Control
  imports Go_Net Complex_Main "HOL-Library.List_Lexorder" "HOL-Library.Char_ord"
begin

text \<open>
  Throttling of Downlink Data Notifications, \<^verbatim>\<open>internal/sgwc/ddncontrol/state.go\<close>: priority
  rules, one token bucket per MME, suppression per UE, and the low-priority throttling an MME asks
  for. The refill multiplies seconds as a \<^verbatim>\<open>float64\<close>, so the rounding of IEEE 754 binary64 is
  written out; the lemmas bound how far it can move the bucket.
\<close>

section \<open>Rounding to a float64\<close>

text \<open>Rounding a positive rational to 53 significant bits, ties to even. The exponents that occur here
  are far from the limits of the format.\<close>

fun bits :: "nat \<Rightarrow> nat" where
  "bits n = (if n = 0 then 0 else bits (n div 2) + 1)"

declare bits.simps [simp del]

definition exp2 :: "int \<Rightarrow> rat" where
  "exp2 e = (if e \<ge> 0 then 2 ^ nat e else 1 / 2 ^ nat (- e))"

definition log2_floor :: "rat \<Rightarrow> int" where
  "log2_floor x = (let (n, d) = quotient_of x; k = int (bits (nat n)) - int (bits (nat d)) in
     if exp2 k \<le> x then k else k - 1)"

definition round_even :: "rat \<Rightarrow> int" where
  "round_even x = (let f = \<lfloor>x\<rfloor>; r = x - of_int f in
     if r < 1/2 then f else if r > 1/2 then f + 1 else if even f then f else f + 1)"

definition fl :: "rat \<Rightarrow> rat" where
  "fl x = (if x \<le> 0 then x else let e = log2_floor x - 52 in of_int (round_even (x / exp2 e)) * exp2 e)"

text \<open>\<^verbatim>\<open>Duration.Seconds\<close> and \<^verbatim>\<open>int(elapsed.Seconds() * float64(rate))\<close> for a positive duration.\<close>

definition duration_Seconds :: "duration \<Rightarrow> rat" where
  "duration_Seconds d = fl (fl (of_int (d div time_second)) + fl (fl (of_int (d mod time_second)) / 1000000000))"

definition tokens_for :: "duration \<Rightarrow> int \<Rightarrow> int" where
  "tokens_for elapsed rate = \<lfloor>fl (duration_Seconds elapsed * fl (of_int rate))\<rfloor>"

section \<open>State\<close>

abbreviation (input) PriorityUnknown :: string where "PriorityUnknown \<equiv> ''unknown''"
abbreviation (input) PriorityHigh :: string where "PriorityHigh \<equiv> ''high''"
abbreviation (input) PriorityNormal :: string where "PriorityNormal \<equiv> ''normal''"
abbreviation (input) PriorityLow :: string where "PriorityLow \<equiv> ''low''"

datatype ddn_action = ActionSendNow | ActionDelay | ActionSuppress

record priority_rule =
  pu_APN :: string
  pu_QCI :: u8
  pu_ARPMin :: u8
  pu_ARPMax :: u8
  pu_Reason :: string

record ddn_config =
  dc_Enabled :: bool
  dc_Rate :: int
  dc_Burst :: int
  dc_PerUESuppression :: duration
  dc_HonorLowPriority :: bool
  dc_LowPriorityThrottle :: duration
  dc_HighBypass :: bool
  dc_High :: "priority_rule list"
  dc_Low :: "priority_rule list"

record ddn_candidate =
  ca_MMEAddr :: string
  ca_IMSI :: string
  ca_APN :: string
  ca_EBI :: u8
  ca_QCI :: u8
  ca_ARP :: u8

record ddn_decision =
  de_Action :: ddn_action
  de_Priority :: string
  de_Reason :: string
  de_RetryAfter :: duration
  de_Bypass :: bool
  de_Candidate :: ddn_candidate
  de_TokensBefore :: int
  de_TokensAfter :: int

record mme_bucket =
  mb_Tokens :: int
  mb_Burst :: int
  mb_Rate :: int
  mb_LastRefillAt :: gtime
  mb_ThrottledUntil :: gtime
  mb_ThrottleReceived :: gtime
  mb_ThrottleReason :: string
  mb_Sent :: u64
  mb_Delayed :: u64
  mb_Suppressed :: u64
  mb_Bypassed :: u64

record ue_record =
  ur_LastDDNAt :: gtime
  ur_LastMMEAddr :: string
  ur_LastAPN :: string
  ur_LastEBI :: u8
  ur_LastPriority :: string
  ur_Suppressed :: u64
  ur_Delayed :: u64
  ur_Sent :: u64

record ddn_state =
  ds_cfg :: ddn_config
  ds_mmes :: "(string, mme_bucket) gomap"
  ds_ues :: "(string, ue_record) gomap"

definition ddn_NewState :: "ddn_config \<Rightarrow> ddn_state" where
  "ddn_NewState cfg = \<lparr>ds_cfg = cfg, ds_mmes = [], ds_ues = []\<rparr>"

definition new_bucket :: "ddn_config \<Rightarrow> gtime \<Rightarrow> mme_bucket" where
  "new_bucket cfg tm = \<lparr>mb_Tokens = dc_Burst cfg, mb_Burst = dc_Burst cfg, mb_Rate = dc_Rate cfg, mb_LastRefillAt = tm,
     mb_ThrottledUntil = 0, mb_ThrottleReceived = 0, mb_ThrottleReason = [], mb_Sent = 0, mb_Delayed = 0,
     mb_Suppressed = 0, mb_Bypassed = 0\<rparr>"

definition new_ue :: ue_record where
  "new_ue = \<lparr>ur_LastDDNAt = 0, ur_LastMMEAddr = [], ur_LastAPN = [], ur_LastEBI = 0, ur_LastPriority = [],
     ur_Suppressed = 0, ur_Delayed = 0, ur_Sent = 0\<rparr>"

definition mmeLocked :: "string \<Rightarrow> gtime \<Rightarrow> ddn_state \<Rightarrow> mme_bucket" where
  "mmeLocked addr tm s = (case mget (ds_mmes s) addr of Some b \<Rightarrow> b | None \<Rightarrow> new_bucket (ds_cfg s) tm)"

definition ueLocked :: "string \<Rightarrow> ddn_state \<Rightarrow> ue_record" where
  "ueLocked imsi s = (case mget (ds_ues s) imsi of Some u \<Rightarrow> u | None \<Rightarrow> new_ue)"

definition put_mme :: "string \<Rightarrow> mme_bucket \<Rightarrow> ddn_state \<Rightarrow> ddn_state" where
  "put_mme addr b s = s\<lparr>ds_mmes := mput addr b (ds_mmes s)\<rparr>"

definition put_ue :: "string \<Rightarrow> ue_record \<Rightarrow> ddn_state \<Rightarrow> ddn_state" where
  "put_ue imsi u s = s\<lparr>ds_ues := mput imsi u (ds_ues s)\<rparr>"

section \<open>Priority rules\<close>

text \<open>\<^verbatim>\<open>strings.EqualFold\<close>: on ASCII text the case of letters is ignored; the Unicode folding that applies to
  other text is an argument.\<close>

definition ascii_lower :: "char \<Rightarrow> char" where
  "ascii_lower c = (if 65 \<le> code c \<and> code c \<le> 90 then chr (code c + 32) else c)"

definition equalFold :: "(string \<Rightarrow> string \<Rightarrow> bool) \<Rightarrow> string \<Rightarrow> string \<Rightarrow> bool" where
  "equalFold ufold s t =
     (if list_all (\<lambda>c. code c < 128) s \<and> list_all (\<lambda>c. code c < 128) t then map ascii_lower s = map ascii_lower t
      else ufold s t)"

definition rule_matches :: "(string \<Rightarrow> string \<Rightarrow> bool) \<Rightarrow> ddn_candidate \<Rightarrow> priority_rule \<Rightarrow> bool" where
  "rule_matches ufold c r =
     (if pu_APN r \<noteq> [] \<and> \<not> equalFold ufold (pu_APN r) (ca_APN c) then False
      else if pu_QCI r \<noteq> 0 \<and> pu_QCI r \<noteq> ca_QCI c then False
      else if pu_ARPMin r \<noteq> 0 \<or> pu_ARPMax r \<noteq> 0 then
        (let minP = (if pu_ARPMin r = 0 then 1 else pu_ARPMin r); maxP = (if pu_ARPMax r = 0 then 15 else pu_ARPMax r) in
         if minP > maxP then False else \<not> (ca_ARP c < minP \<or> ca_ARP c > maxP))
      else True)"

definition priorityReason :: "priority_rule \<Rightarrow> string \<Rightarrow> string" where
  "priorityReason r fallback = (if pu_Reason r \<noteq> [] then pu_Reason r else fallback)"

definition classifyLocked :: "(string \<Rightarrow> string \<Rightarrow> bool) \<Rightarrow> ddn_candidate \<Rightarrow> ddn_config \<Rightarrow> string \<times> string" where
  "classifyLocked ufold c cfg = (case List.find (rule_matches ufold c) (dc_High cfg) of
     Some r \<Rightarrow> (PriorityHigh, priorityReason r ''high-priority-rule'')
   | None \<Rightarrow> (case List.find (rule_matches ufold c) (dc_Low cfg) of
       Some r \<Rightarrow> (PriorityLow, priorityReason r ''low-priority-rule'')
     | None \<Rightarrow> (PriorityNormal, ''default-normal'')))"

definition Classify :: "(string \<Rightarrow> string \<Rightarrow> bool) \<Rightarrow> ddn_candidate \<Rightarrow> ddn_state option \<Rightarrow> string \<times> string" where
  "Classify ufold c s = (case s of None \<Rightarrow> (PriorityNormal, ''default-normal'') | Some s \<Rightarrow> classifyLocked ufold c (ds_cfg s))"

section \<open>The token bucket\<close>

definition refillMMELocked :: "ddn_config \<Rightarrow> gtime \<Rightarrow> mme_bucket \<Rightarrow> mme_bucket" where
  "refillMMELocked cfg tm b0 =
     (let rate = (if dc_Rate cfg \<le> 0 then 1 else dc_Rate cfg); burst = (if dc_Burst cfg \<le> 0 then rate else dc_Burst cfg);
          b1 = (if mb_Burst b0 \<le> 0 then b0\<lparr>mb_Burst := burst\<rparr> else b0);
          b2 = (if mb_Rate b1 \<le> 0 then b1\<lparr>mb_Rate := rate\<rparr> else b1);
          b = (if mb_Tokens b2 > mb_Burst b2 then b2\<lparr>mb_Tokens := mb_Burst b2\<rparr> else b2)
      in if mb_LastRefillAt b = 0 then b\<lparr>mb_LastRefillAt := tm\<rparr>
         else if \<not> tm > mb_LastRefillAt b then b
         else let add = tokens_for (time_sub tm (mb_LastRefillAt b)) rate in
           if add \<le> 0 then b
           else b\<lparr>mb_Tokens := (if mb_Tokens b + add > mb_Burst b then mb_Burst b else mb_Tokens b + add),
                 mb_LastRefillAt := mb_LastRefillAt b + (add * time_second) div rate\<rparr>)"

definition nextTokenDelayLocked :: "ddn_config \<Rightarrow> mme_bucket \<Rightarrow> duration" where
  "nextTokenDelayLocked cfg b = (let rate = (if mb_Rate b > 0 then mb_Rate b else dc_Rate cfg) in
     time_second div (if rate \<le> 0 then 1 else rate))"

definition recordSentLocked :: "ddn_candidate \<Rightarrow> string \<Rightarrow> gtime \<Rightarrow> ddn_state \<Rightarrow> ddn_state" where
  "recordSentLocked c priority tm s =
     (let b = mmeLocked (ca_MMEAddr c) tm s; b1 = b\<lparr>mb_Sent := mb_Sent b + 1\<rparr>;
          b2 = (if priority = PriorityHigh \<and> dc_HighBypass (ds_cfg s) then b1\<lparr>mb_Bypassed := mb_Bypassed b1 + 1\<rparr> else b1);
          u = ueLocked (ca_IMSI c) s
      in put_ue (ca_IMSI c) (u\<lparr>ur_LastDDNAt := tm, ur_LastMMEAddr := ca_MMEAddr c, ur_LastAPN := ca_APN c,
           ur_LastEBI := ca_EBI c, ur_LastPriority := priority, ur_Sent := ur_Sent u + 1\<rparr>)
         (put_mme (ca_MMEAddr c) b2 s))"

definition note_ue :: "ddn_candidate \<Rightarrow> string \<Rightarrow> ue_record \<Rightarrow> ue_record" where
  "note_ue c priority u = u\<lparr>ur_LastMMEAddr := ca_MMEAddr c, ur_LastAPN := ca_APN c, ur_LastEBI := ca_EBI c,
     ur_LastPriority := priority\<rparr>"

definition recordSuppressedLocked :: "gtime \<Rightarrow> ddn_candidate \<Rightarrow> string \<Rightarrow> ddn_state \<Rightarrow> ddn_state" where
  "recordSuppressedLocked now c priority s =
     (let b = mmeLocked (ca_MMEAddr c) now s; u = note_ue c priority (ueLocked (ca_IMSI c) s) in
      put_ue (ca_IMSI c) (u\<lparr>ur_Suppressed := ur_Suppressed u + 1\<rparr>)
        (put_mme (ca_MMEAddr c) (b\<lparr>mb_Suppressed := mb_Suppressed b + 1\<rparr>) s))"

definition recordDelayedLocked :: "gtime \<Rightarrow> ddn_candidate \<Rightarrow> string \<Rightarrow> ddn_state \<Rightarrow> ddn_state" where
  "recordDelayedLocked now c priority s =
     (let b = mmeLocked (ca_MMEAddr c) now s; u = note_ue c priority (ueLocked (ca_IMSI c) s) in
      put_ue (ca_IMSI c) (u\<lparr>ur_Delayed := ur_Delayed u + 1\<rparr>)
        (put_mme (ca_MMEAddr c) (b\<lparr>mb_Delayed := mb_Delayed b + 1\<rparr>) s))"

section \<open>Decisions\<close>

definition decision :: "ddn_candidate \<Rightarrow> string \<Rightarrow> ddn_action \<Rightarrow> string \<Rightarrow> duration \<Rightarrow> bool \<Rightarrow> int \<Rightarrow> int \<Rightarrow> ddn_decision" where
  "decision c priority act reason retry bypass before after =
     \<lparr>de_Action = act, de_Priority = priority, de_Reason = reason, de_RetryAfter = retry, de_Bypass = bypass,
      de_Candidate = c, de_TokensBefore = before, de_TokensAfter = after\<rparr>"

text \<open>\<open>now\<close> is the clock when \<open>tm\<close> is zero, \<open>now'\<close> when the outcome is recorded.\<close>

definition decide_enabled :: "gtime \<Rightarrow> ddn_candidate \<Rightarrow> string \<times> string \<Rightarrow> gtime \<Rightarrow> ddn_state \<Rightarrow> ddn_decision \<times> ddn_state" where
  "decide_enabled now' c pr tm s0 =
     (let (priority, reason) = pr; cfg = ds_cfg s0;
          b = refillMMELocked cfg tm (mmeLocked (ca_MMEAddr c) tm s0);
          u = ueLocked (ca_IMSI c) s0;
          s = put_ue (ca_IMSI c) u (put_mme (ca_MMEAddr c) b s0);
          k = mb_Tokens b
      in if priority \<noteq> PriorityHigh \<and> dc_PerUESuppression cfg > 0 \<and> ur_LastDDNAt u \<noteq> 0 \<and>
            tm < ur_LastDDNAt u + dc_PerUESuppression cfg
         then (decision c priority ActionSuppress ''per-ue-suppression'' (ur_LastDDNAt u + dc_PerUESuppression cfg - tm) False k k,
               recordSuppressedLocked now' c priority s)
         else if priority = PriorityLow \<and> dc_HonorLowPriority cfg \<and> mb_ThrottledUntil b \<noteq> 0 \<and> tm < mb_ThrottledUntil b
         then (decision c priority ActionSuppress ''mme-low-priority-throttling'' (mb_ThrottledUntil b - tm) False k k,
               recordSuppressedLocked now' c priority s)
         else if k > 0
         then (decision c priority ActionSendNow reason 0 False k (k - 1),
               recordSentLocked c priority tm (put_mme (ca_MMEAddr c) (b\<lparr>mb_Tokens := k - 1\<rparr>) s))
         else if priority = PriorityHigh \<and> dc_HighBypass cfg
         then (decision c priority ActionSendNow ''high-priority-bypass'' 0 True k k, recordSentLocked c priority tm s)
         else (decision c priority ActionDelay ''per-mme-rate-limit'' (nextTokenDelayLocked cfg b) False k k,
               recordDelayedLocked now' c priority s))"

definition Decide :: "(string \<Rightarrow> string \<Rightarrow> bool) \<Rightarrow> gtime \<Rightarrow> gtime \<Rightarrow> ddn_candidate \<Rightarrow> gtime \<Rightarrow> ddn_state option \<Rightarrow>
    ddn_decision \<times> ddn_state option" where
  "Decide ufold now now' c tm0 st = (let tm = or_now now tm0 in case st of
     None \<Rightarrow> (decision c PriorityNormal ActionSendNow ''ddn-control-unavailable'' 0 False 0 0, None)
   | Some s \<Rightarrow>
       let pr = classifyLocked ufold c (ds_cfg s) in
       if \<not> dc_Enabled (ds_cfg s)
       then (decision c (fst pr) ActionSendNow ''ddn-control-disabled'' 0 False 0 0, Some (recordSentLocked c (fst pr) tm s))
       else (let (d, s') = decide_enabled now' c pr tm s in (d, Some s')))"

definition RecordSent :: "gtime \<Rightarrow> ddn_candidate \<Rightarrow> string \<Rightarrow> gtime \<Rightarrow> ddn_state \<Rightarrow> ddn_state" where
  "RecordSent now c priority tm s = recordSentLocked c priority (or_now now tm) s"

definition RecordSuppressed :: "gtime \<Rightarrow> gtime \<Rightarrow> ddn_candidate \<Rightarrow> string \<Rightarrow> gtime \<Rightarrow> ddn_state \<Rightarrow> ddn_state" where
  "RecordSuppressed now now' c priority tm s =
     recordSuppressedLocked now' c priority (put_mme (ca_MMEAddr c) (mmeLocked (ca_MMEAddr c) (or_now now tm) s) s)"

definition RecordDelayed :: "gtime \<Rightarrow> gtime \<Rightarrow> ddn_candidate \<Rightarrow> string \<Rightarrow> gtime \<Rightarrow> ddn_state \<Rightarrow> ddn_state" where
  "RecordDelayed now now' c priority tm s =
     recordDelayedLocked now' c priority (put_mme (ca_MMEAddr c) (mmeLocked (ca_MMEAddr c) (or_now now tm) s) s)"

definition MarkMMELowPriorityThrottled :: "gtime \<Rightarrow> string \<Rightarrow> string \<Rightarrow> gtime \<Rightarrow> gtime \<Rightarrow> ddn_state \<Rightarrow> ddn_state" where
  "MarkMMELowPriorityThrottled now addr reason until tm0 s = (let tm = or_now now tm0 in
     put_mme addr ((mmeLocked addr tm s)\<lparr>mb_ThrottledUntil := until, mb_ThrottleReceived := tm, mb_ThrottleReason := reason\<rparr>) s)"

definition ddn_Snapshot :: "ddn_state option \<Rightarrow> (string \<times> mme_bucket) list \<times> (string \<times> ue_record) list" where
  "ddn_Snapshot st = (case st of None \<Rightarrow> ([], [])
   | Some s \<Rightarrow> (sort_key fst (ds_mmes s), sort_key fst (ds_ues s)))"

section \<open>How far the rounding goes\<close>

lemma bits_bounds: "n > 0 \<Longrightarrow> 2 ^ (bits n - 1) \<le> n \<and> n < 2 ^ bits n"
proof (induction n rule: bits.induct)
  case (1 n)
  show ?case
  proof (cases "n = 1")
    case True
    then show ?thesis by (simp add: bits.simps)
  next
    case False
    then have h: "2 ^ (bits (n div 2) - 1) \<le> n div 2" "n div 2 < 2 ^ bits (n div 2)" using 1 by simp_all
    have "bits (n div 2) > 0" using False 1(2) by (subst bits.simps) simp
    then obtain k where k: "bits (n div 2) = Suc k" by (cases "bits (n div 2)") auto
    have "2 * p \<le> n \<and> n < 4 * p" if "p \<le> n div 2" "n div 2 < 2 * p" for p using that by linarith
    from this [of "2 ^ k"] show ?thesis using h 1(2) by (simp add: bits.simps [of n] k)
  qed
qed

lemma exp2_powi: "exp2 e = 2 powi e"
  by (simp add: exp2_def power_int_def power_inverse field_simps)

lemma log2_floor_le:
  assumes "x > 0"
  shows "exp2 (log2_floor x) \<le> x"
proof -
  obtain n d where q: "quotient_of x = (n, d)" by fastforce
  then have x: "x = of_int n / of_int d" and d: "d > 0" by (simp_all add: quotient_of_div quotient_of_denom_pos)
  then have n: "n > 0" using assms by (simp add: zero_less_divide_iff)
  have "2 ^ (bits (nat n) - 1) \<le> nat n" "bits (nat n) > 0" using bits_bounds [of "nat n"] n by (auto simp: bits.simps)
  then have n2: "(2 :: rat) powi (int (bits (nat n)) - 1) \<le> of_int n"
  proof -
    have "(2 :: rat) ^ (bits (nat n) - 1) \<le> of_nat (nat n)"
      using \<open>2 ^ (bits (nat n) - 1) \<le> nat n\<close> by (metis of_nat_le_iff of_nat_numeral of_nat_power)
    moreover have "int (bits (nat n)) - 1 = int (bits (nat n) - 1)" using \<open>bits (nat n) > 0\<close> by simp
    ultimately show ?thesis using n by (simp only: power_int_of_nat of_nat_nat)
  qed
  have "nat d < 2 ^ bits (nat d)" using bits_bounds [of "nat d"] d by simp
  then have "(of_nat (nat d) :: rat) \<le> of_nat (2 ^ bits (nat d))" by (simp only: of_nat_le_iff)
  then have d2: "(of_int d :: rat) \<le> 2 powi int (bits (nat d))" using d by simp
  have "(2 :: rat) powi (int (bits (nat n)) - 1 - int (bits (nat d))) \<le> x"
  proof -
    have "(2 :: rat) powi (int (bits (nat n)) - 1 - int (bits (nat d))) =
        2 powi (int (bits (nat n)) - 1) / 2 powi int (bits (nat d))" by (simp add: power_int_diff)
    also have "\<dots> \<le> of_int n / of_int d"
      by (rule frac_le) (use n2 d2 d n in auto)
    finally show ?thesis by (simp add: x)
  qed
  then show ?thesis by (simp add: log2_floor_def q Let_def exp2_powi algebra_simps)
qed

lemma round_even_error: "\<bar>of_int (round_even x) - x\<bar> \<le> 1 / 2"
proof -
  have "of_int \<lfloor>x\<rfloor> \<le> x" "x < of_int \<lfloor>x\<rfloor> + 1" by linarith+
  then show ?thesis by (auto simp: round_even_def Let_def)
qed

lemma fl_error:
  assumes "x > 0"
  shows "\<bar>fl x - x\<bar> \<le> x / 2 ^ 53"
proof -
  let ?e = "log2_floor x - 52"
  have p: "exp2 ?e > 0" by (simp add: exp2_powi)
  have "\<bar>fl x - x\<bar> = \<bar>of_int (round_even (x / exp2 ?e)) - x / exp2 ?e\<bar> * exp2 ?e"
    using assms p by (simp add: fl_def Let_def abs_mult [symmetric] field_simps abs_if)
  also have "\<dots> \<le> 1 / 2 * exp2 ?e" using round_even_error p by (simp add: mult_right_mono)
  also have "\<dots> = exp2 (log2_floor x) / 2 ^ 53" by (simp add: exp2_powi power_int_diff)
  also have "\<dots> \<le> x / 2 ^ 53" using log2_floor_le [OF assms] by (simp add: divide_right_mono)
  finally show ?thesis .
qed

lemma fl_bounds:
  assumes "x > 0"
  shows "fl x \<le> x * (1 + 1 / 2 ^ 53)" "x * (1 - 1 / 2 ^ 53) \<le> fl x"
proof -
  have e: "fl x - x \<le> x / 2 ^ 53" "x - fl x \<le> x / 2 ^ 53" using fl_error [OF assms] by (simp_all only: abs_le_iff minus_diff_eq)
  have "x * (1 + 1 / 2 ^ 53) = x + x / 2 ^ 53" "x * (1 - 1 / 2 ^ 53) = x - x / 2 ^ 53" by (simp_all only: algebra_simps mult_1_right times_divide_eq_right)
  then show "fl x \<le> x * (1 + 1 / 2 ^ 53)" "x * (1 - 1 / 2 ^ 53) \<le> fl x" using e by (simp_all only: diff_le_eq add.commute)
qed

definition slack :: rat where "slack = 1 + 1 / 2 ^ 53"

lemma fl_le: "x \<ge> 0 \<Longrightarrow> x \<le> y \<Longrightarrow> fl x \<le> y * slack"
proof (cases "x = 0")
  case False
  assume h: "x \<ge> 0" "x \<le> y"
  then have "fl x \<le> x * slack" using fl_bounds(1) [of x] False by (simp only: slack_def)
  also have "\<dots> \<le> y * slack" using h by (simp add: slack_def mult_right_mono)
  finally show ?thesis .
qed (simp add: fl_def slack_def)

lemma fl_nonneg: "x \<ge> 0 \<Longrightarrow> fl x \<ge> 0"
proof (cases "x = 0")
  case False
  assume "x \<ge> 0"
  then have "fl x \<ge> x * (1 - 1 / 2 ^ 53)" using fl_bounds(2) [of x] False by simp
  moreover have "x * (1 - 1 / 2 ^ 53) \<ge> 0" using \<open>x \<ge> 0\<close> by simp
  ultimately show ?thesis by linarith
qed (simp add: fl_def)

lemma duration_Seconds_le:
  assumes "d \<ge> 0"
  shows "duration_Seconds d \<le> of_int d / 1000000000 * slack ^ 3" "0 \<le> duration_Seconds d"
proof -
  let ?s = "of_int (d div time_second) :: rat" and ?n = "of_int (d mod time_second) :: rat"
  have nn: "?s \<ge> 0" "?n \<ge> 0" using assms by (simp_all add: time_second_def pos_imp_zdiv_nonneg_iff)
  have s1: "slack \<ge> 1" by (simp add: slack_def)
  have a: "fl ?s \<le> ?s * slack" using fl_le [OF nn(1) order_refl] .
  have "fl ?n / 1000000000 \<le> ?n * slack / 1000000000" using fl_le [OF nn(2) order_refl] by (simp add: divide_right_mono)
  then have b: "fl (fl ?n / 1000000000) \<le> ?n * slack / 1000000000 * slack"
    by (rule fl_le [rotated]) (use fl_nonneg [OF nn(2)] in simp)
  have z: "0 \<le> fl ?s + fl (fl ?n / 1000000000)"
    by (rule add_nonneg_nonneg) (use fl_nonneg [OF nn(1)] fl_nonneg [of "fl ?n / 1000000000"] fl_nonneg [OF nn(2)] in simp_all)
  have "fl ?s + fl (fl ?n / 1000000000) \<le> ?s * slack * slack + ?n / 1000000000 * slack * slack"
  proof -
    have "?s * slack \<le> ?s * slack * slack" using nn(1) s1 by (simp add: mult_left_mono [of 1 slack "?s * slack", simplified])
    then show ?thesis using a b by simp
  qed
  also have "\<dots> = (?s + ?n / 1000000000) * slack ^ 2" by (simp add: algebra_simps power2_eq_square)
  also have "?s + ?n / 1000000000 = of_int d / 1000000000"
  proof -
    have "(of_int d :: rat) = of_int (d div time_second * time_second + d mod time_second)" by simp
    also have "\<dots> = ?s * 1000000000 + ?n" unfolding of_int_add of_int_mult by (simp add: time_second_def)
    finally show ?thesis by simp
  qed
  finally have "fl ?s + fl (fl ?n / 1000000000) \<le> of_int d / 1000000000 * slack ^ 2" .
  from fl_le [OF z this]
  show "duration_Seconds d \<le> of_int d / 1000000000 * slack ^ 3"
    by (simp add: duration_Seconds_def power2_eq_square power3_eq_cube mult.assoc)
  show "0 \<le> duration_Seconds d" using z by (simp add: duration_Seconds_def fl_nonneg)
qed

text \<open>Up to 13 days between two refills the bucket gets at most what one nanosecond more would give.\<close>

lemma tokens_for_le:
  assumes "0 < d" "d \<le> 2 ^ 50" "rate > 0"
  shows "(tokens_for d rate * time_second) div rate \<le> d + 1"
proof -
  have "fl (of_int rate) \<le> of_int rate * slack" by (rule fl_le) (use assms in auto)
  moreover have "0 \<le> fl (of_int rate)" using assms by (simp add: fl_nonneg)
  moreover have s: "duration_Seconds d \<le> of_int d / 1000000000 * slack ^ 3" "0 \<le> duration_Seconds d"
    using duration_Seconds_le assms by auto
  ultimately have "duration_Seconds d * fl (of_int rate) \<le> (of_int d / 1000000000 * slack ^ 3) * (of_int rate * slack)"
    by (intro mult_mono) (simp_all add: slack_def)
  from fl_le [OF _ this]
  have "fl (duration_Seconds d * fl (of_int rate)) \<le> (of_int d / 1000000000 * slack ^ 3) * (of_int rate * slack) * slack"
    using s(2) assms by (simp add: fl_nonneg)
  then have "of_int (tokens_for d rate) \<le> (of_int d / 1000000000 * slack ^ 3) * (of_int rate * slack) * slack"
    unfolding tokens_for_def by linarith
  then have "of_int (tokens_for d rate) * 1000000000 \<le> of_int d * of_int rate * slack ^ 5"
    by (simp add: field_simps power_numeral_reduce)
  also have "\<dots> \<le> of_int d * of_int rate * (1 + 1 / 2 ^ 50)"
    by (rule mult_left_mono) (use assms in \<open>simp_all add: slack_def power_numeral_reduce\<close>)
  also have "\<dots> = (of_int d + of_int d / 2 ^ 50) * of_int rate" by (simp add: algebra_simps)
  also have "\<dots> \<le> (of_int d + 1) * of_int rate"
  proof -
    have "(of_int d :: rat) \<le> of_int (2 ^ 50)" using assms(2) by (simp only: of_int_le_iff)
    then show ?thesis using assms(3) by (intro mult_right_mono) simp_all
  qed
  finally have "of_int (tokens_for d rate * time_second) \<le> (of_int ((d + 1) * rate) :: rat)" by (simp add: time_second_def)
  then have "tokens_for d rate * time_second \<le> (d + 1) * rate" by (simp only: of_int_le_iff)
  then have "(tokens_for d rate * time_second) div rate \<le> ((d + 1) * rate) div rate" using assms(3) by (rule zdiv_mono1)
  then show ?thesis using assms(3) by simp
qed

section \<open>Runs\<close>

text \<open>A request: the clock when its outcome is recorded, the candidate, and its time.\<close>

type_synonym ddn_request = "gtime \<times> ddn_candidate \<times> gtime"

definition ddn_step :: "(string \<Rightarrow> string \<Rightarrow> bool) \<Rightarrow> ddn_request \<Rightarrow> ddn_state \<Rightarrow> ddn_decision \<times> ddn_state" where
  "ddn_step ufold r s = (case r of (now', c, tm) \<Rightarrow> (case Decide ufold tm now' c tm (Some s) of
     (d, Some s') \<Rightarrow> (d, s') | (d, None) \<Rightarrow> (d, s)))"

fun ddn_run :: "(string \<Rightarrow> string \<Rightarrow> bool) \<Rightarrow> ddn_request list \<Rightarrow> ddn_state \<Rightarrow> ddn_decision list \<times> ddn_state" where
  "ddn_run ufold [] s = ([], s)"
| "ddn_run ufold (r # rs) s =
     (let (d, s1) = ddn_step ufold r s; (ds, s2) = ddn_run ufold rs s1 in (d # ds, s2))"

lemma ddn_run_snoc:
  "ddn_run ufold (rs @ [r]) s =
     (let (ds, s1) = ddn_run ufold rs s; (d, s2) = ddn_step ufold r s1 in (ds @ [d], s2))"
  by (induction rs arbitrary: s) (auto simp: Let_def split: prod.splits)

lemma record_cfg [simp]:
  "ds_cfg (put_mme a b s) = ds_cfg s" "ds_cfg (put_ue i u s) = ds_cfg s"
  "ds_cfg (recordSentLocked c p tm s) = ds_cfg s" "ds_cfg (recordSuppressedLocked n c p s) = ds_cfg s"
  "ds_cfg (recordDelayedLocked n c p s) = ds_cfg s"
  by (simp_all add: put_mme_def put_ue_def recordSentLocked_def recordSuppressedLocked_def recordDelayedLocked_def Let_def)

lemma ddn_step_cfg [simp]: "ds_cfg (snd (ddn_step ufold r s)) = ds_cfg s"
  by (auto simp: ddn_step_def Decide_def decide_enabled_def Let_def split: prod.splits option.splits)

lemma ddn_step_candidate: "de_Candidate (fst (ddn_step ufold (n, c, tm) s)) = c"
  by (auto simp: ddn_step_def Decide_def decide_enabled_def decision_def Let_def split: prod.splits)

lemma mmes_simps [simp]:
  "mget (ds_mmes (put_mme a b s)) a' = (if a' = a then Some b else mget (ds_mmes s) a')"
  "ds_mmes (put_ue i u s) = ds_mmes s" "ds_ues (put_mme a b s) = ds_ues s"
  "mget (ds_ues (put_ue i u s)) i' = (if i' = i then Some u else mget (ds_ues s) i')"
  by (simp_all add: put_mme_def put_ue_def map_simps)

section \<open>The rate bound\<close>

text \<open>The bucket of one MME after \<open>n\<close> notifications that took a token.\<close>

definition bucket_ok :: "ddn_config \<Rightarrow> gtime \<Rightarrow> gtime \<Rightarrow> int \<Rightarrow> mme_bucket \<Rightarrow> bool" where
  "bucket_ok cfg t0 t1 n b \<longleftrightarrow> mb_Burst b = dc_Burst cfg \<and> mb_Rate b = dc_Rate cfg \<and> 0 \<le> mb_Tokens b \<and>
     mb_Tokens b \<le> dc_Burst cfg \<and> t0 \<le> mb_LastRefillAt b \<and> mb_LastRefillAt b \<le> t1 + 1 \<and>
     (n + mb_Tokens b - dc_Burst cfg) * (time_second div dc_Rate cfg) \<le> mb_LastRefillAt b - t0"

definition mme_ok :: "ddn_config \<Rightarrow> gtime \<Rightarrow> gtime \<Rightarrow> string \<Rightarrow> int \<Rightarrow> ddn_state \<Rightarrow> bool" where
  "mme_ok cfg t0 t1 a n s \<longleftrightarrow> ds_cfg s = cfg \<and>
     (case mget (ds_mmes s) a of None \<Rightarrow> n = 0 | Some b \<Rightarrow> bucket_ok cfg t0 t1 n b)"

lemma refill_ok:
  assumes b: "bucket_ok cfg t0 t1 n b" and c: "dc_Burst cfg > 0" "dc_Rate cfg > 0"
    and t: "0 < t0" "t0 \<le> tm" "tm \<le> t1" "t1 - t0 \<le> 2 ^ 50"
  shows "bucket_ok cfg t0 t1 n (refillMMELocked cfg tm b)"
proof -
  let ?l = "mb_LastRefillAt b" and ?q = "time_second div dc_Rate cfg"
  have l: "?l \<noteq> 0" "t0 \<le> ?l" using b t by (auto simp: bucket_ok_def)
  show ?thesis
  proof (cases "tm > ?l \<and> tokens_for (tm - ?l) (dc_Rate cfg) > 0")
    case False
    have "time_sub tm ?l = tm - ?l" if "tm > ?l"
      using that l t by (simp add: time_sub_def maxDuration_def minDuration_def)
    then show ?thesis using False b c l by (auto simp: refillMMELocked_def Let_def bucket_ok_def)
  next
    case True
    define add where "add = tokens_for (tm - ?l) (dc_Rate cfg)"
    define adv where "adv = (add * time_second) div dc_Rate cfg"
    have ts: "time_sub tm ?l = tm - ?l" using True l t by (simp add: time_sub_def maxDuration_def minDuration_def)
    have a: "add > 0" using True by (simp add: add_def)
    have adv: "adv \<le> tm - ?l + 1" using tokens_for_le [of "tm - ?l" "dc_Rate cfg"] True l t c by (simp add: adv_def add_def)
    have "add * ?q * dc_Rate cfg \<le> add * time_second"
      using a c by (simp add: mult.assoc mult_left_mono) (metis div_mult_mod_eq le_add_same_cancel1 pos_mod_sign)
    then have q: "add * ?q \<le> adv" unfolding adv_def using c(2) by (metis div_mult_self_is_m int_one_le_iff_zero_less nonzero_mult_div_cancel_right order_less_irrefl zdiv_mono1)
    have r: "refillMMELocked cfg tm b = b\<lparr>mb_Tokens := min (dc_Burst cfg) (mb_Tokens b + add), mb_LastRefillAt := ?l + adv\<rparr>"
      using b c l True ts by (simp add: refillMMELocked_def Let_def bucket_ok_def add_def adv_def min_def)
    have qn: "?q \<ge> 0" using c by (simp add: time_second_def pos_imp_zdiv_nonneg_iff)
    have "(n + min (dc_Burst cfg) (mb_Tokens b + add) - dc_Burst cfg) * ?q \<le> (n + mb_Tokens b - dc_Burst cfg) * ?q + add * ?q"
    proof -
      have "(n + min (dc_Burst cfg) (mb_Tokens b + add) - dc_Burst cfg) * ?q \<le> ((n + mb_Tokens b - dc_Burst cfg) + add) * ?q"
        by (rule mult_right_mono [OF _ qn]) simp
      then show ?thesis by (simp add: distrib_right)
    qed
    moreover have "add * ?q \<ge> 0" using a qn by simp
    ultimately show ?thesis using b a q adv t c by (auto simp: bucket_ok_def r)
  qed
qed

lemma new_bucket_ok: "dc_Burst cfg > 0 \<Longrightarrow> t0 \<le> tm \<Longrightarrow> tm \<le> t1 \<Longrightarrow> bucket_ok cfg t0 t1 0 (new_bucket cfg tm)"
  by (simp add: bucket_ok_def new_bucket_def)

lemma bucket_counters [simp]:
  "bucket_ok cfg t0 t1 n (b\<lparr>mb_Sent := x\<rparr>) = bucket_ok cfg t0 t1 n b"
  "bucket_ok cfg t0 t1 n (b\<lparr>mb_Bypassed := x\<rparr>) = bucket_ok cfg t0 t1 n b"
  "bucket_ok cfg t0 t1 n (b\<lparr>mb_Delayed := x\<rparr>) = bucket_ok cfg t0 t1 n b"
  "bucket_ok cfg t0 t1 n (b\<lparr>mb_Suppressed := x\<rparr>) = bucket_ok cfg t0 t1 n b"
  by (simp_all add: bucket_ok_def)

lemma record_mme_ok:
  assumes "ca_MMEAddr c = a" "mget (ds_mmes s) a = Some b" "bucket_ok cfg t0 t1 n b" "ds_cfg s = cfg"
  shows "mme_ok cfg t0 t1 a n (recordSentLocked c p tm s)" "mme_ok cfg t0 t1 a n (recordSuppressedLocked now c p s)"
    "mme_ok cfg t0 t1 a n (recordDelayedLocked now c p s)"
  using assms by (simp_all add: mme_ok_def mmeLocked_def recordSentLocked_def recordSuppressedLocked_def
    recordDelayedLocked_def Let_def)

definition took_token :: "string \<Rightarrow> ddn_decision \<Rightarrow> bool" where
  "took_token a d \<longleftrightarrow> de_Action d = ActionSendNow \<and> \<not> de_Bypass d \<and> ca_MMEAddr (de_Candidate d) = a"

lemma ddn_step_ok:
  assumes s: "mme_ok cfg t0 t1 a n s" and c: "dc_Enabled cfg" "dc_Burst cfg > 0" "dc_Rate cfg > 0"
    and t: "0 < t0" "t0 \<le> tm" "tm \<le> t1" "t1 - t0 \<le> 2 ^ 50"
    and r: "ddn_step ufold (now', cand, tm) s = (d, s')"
  shows "mme_ok cfg t0 t1 a (n + of_bool (took_token a d)) s'"
proof -
  have cfg: "ds_cfg s = cfg" using s by (simp add: mme_ok_def)
  define b where "b = refillMMELocked cfg tm (mmeLocked (ca_MMEAddr cand) tm s)"
  have e: "decide_enabled now' cand (classifyLocked ufold cand cfg) tm s = (d, s')"
    using r c(1) t by (auto simp: ddn_step_def Decide_def cfg or_now_def split: prod.splits)
  have "ds_cfg s' = cfg" using ddn_step_cfg [of ufold "(now', cand, tm)" s] r cfg by simp
  show ?thesis
  proof (cases "ca_MMEAddr cand = a")
    case False
    then have "mget (ds_mmes s') a = mget (ds_mmes s) a"
      using e by (auto simp: decide_enabled_def Let_def recordSentLocked_def recordSuppressedLocked_def recordDelayedLocked_def
        split: prod.splits if_splits)
    moreover have "\<not> took_token a d" using False r ddn_step_candidate [of ufold now' cand tm s] by (simp add: took_token_def)
    ultimately show ?thesis using s \<open>ds_cfg s' = cfg\<close> by (simp add: mme_ok_def)
  next
    case True
    have b: "bucket_ok cfg t0 t1 n b"
    proof (cases "mget (ds_mmes s) a")
      case None
      then have "n = 0" using s by (simp add: mme_ok_def)
      then show ?thesis
        using refill_ok [OF new_bucket_ok c(2,3) t] c(2) t None True by (simp add: b_def mmeLocked_def cfg)
    next
      case (Some b0)
      then show ?thesis using refill_ok [OF _ c(2,3) t] s True by (simp add: mme_ok_def b_def mmeLocked_def)
    qed
    have tok: "bucket_ok cfg t0 t1 (n + 1) (b\<lparr>mb_Tokens := mb_Tokens b - 1\<rparr>)" if "mb_Tokens b > 0"
      using b that by (simp add: bucket_ok_def)
    obtain p reason where pr: "classifyLocked ufold cand cfg = (p, reason)" by force
    define s1 where "s1 = put_ue (ca_IMSI cand) (ueLocked (ca_IMSI cand) s) (put_mme a b s)"
    have s1: "mget (ds_mmes s1) a = Some b" "ds_cfg s1 = cfg" by (simp_all add: s1_def cfg)
    note e' = e [unfolded decide_enabled_def pr Let_def prod.case cfg True, folded b_def [unfolded True], folded s1_def]
    note rec = record_mme_ok [OF True s1(1) b s1(2)]
    have "mme_ok cfg t0 t1 a (n + 1) (recordSentLocked cand p tm (put_mme a (b\<lparr>mb_Tokens := mb_Tokens b - 1\<rparr>) s1))"
      if "mb_Tokens b > 0" by (rule record_mme_ok(1) [OF True _ tok [OF that]]) (simp_all add: s1)
    then show ?thesis using e' rec True by (auto simp: took_token_def decision_def split: if_split_asm)
  qed
qed


definition sample_ddn_config :: ddn_config where
  "sample_ddn_config = \<lparr>dc_Enabled = True, dc_Rate = 10, dc_Burst = 2, dc_PerUESuppression = 500000000,
     dc_HonorLowPriority = True, dc_LowPriorityThrottle = 0, dc_HighBypass = True, dc_High = [],
     dc_Low = [\<lparr>pu_APN = ''INTERNET'', pu_QCI = 9, pu_ARPMin = 0, pu_ARPMax = 0, pu_Reason = []\<rparr>]\<rparr>"

definition sample_candidate :: "string \<Rightarrow> ddn_candidate" where
  "sample_candidate imsi = \<lparr>ca_MMEAddr = ''10.0.0.1:2123'', ca_IMSI = imsi, ca_APN = ''internet'', ca_EBI = 5, ca_QCI = 9, ca_ARP = 8\<rparr>"

text \<open>Three UEs at once: two get the burst, the third waits; 250 ms later two tokens are there again.\<close>

definition sample_requests :: "ddn_request list" where
  "sample_requests = [(0, sample_candidate ''1'', 1000), (0, sample_candidate ''2'', 1000), (0, sample_candidate ''3'', 1000),
     (0, sample_candidate ''4'', 250001000), (0, sample_candidate ''1'', 250001000), (0, sample_candidate ''5'', 250001000)]"


section \<open>Spacing per UE\<close>

text \<open>The time of the latest notification sent for a UE, in a history of requests and decisions.\<close>

definition last_sent :: "string \<Rightarrow> (ddn_request \<times> ddn_decision) list \<Rightarrow> gtime option" where
  "last_sent imsi ps = map_option (\<lambda>((_, _, tm), _). tm)
     (List.find (\<lambda>((_, c, _), d). ca_IMSI c = imsi \<and> de_Action d = ActionSendNow) (rev ps))"

lemma last_sent_snoc:
  "last_sent imsi (ps @ [((n, c, tm), d)]) =
    (if ca_IMSI c = imsi \<and> de_Action d = ActionSendNow then Some tm else last_sent imsi ps)"
  by (simp add: last_sent_def)

lemma last_sent_mem: "last_sent imsi ps = Some tm \<Longrightarrow> \<exists>n c d. ((n, c, tm), d) \<in> set ps"
  by (auto simp: last_sent_def find_Some_iff) (metis length_rev nth_mem set_rev)

lemma ue_simps [simp]:
  "ueLocked i (put_mme a b s) = ueLocked i s" "ueLocked i (put_ue j u s) = (if i = j then u else ueLocked i s)"
  by (simp_all add: ueLocked_def)

lemma record_last_ddn [simp]:
  "ur_LastDDNAt (ueLocked i (recordSentLocked c p tm s)) = (if i = ca_IMSI c then tm else ur_LastDDNAt (ueLocked i s))"
  "ur_LastDDNAt (ueLocked i (recordSuppressedLocked now c p s)) = ur_LastDDNAt (ueLocked i s)"
  "ur_LastDDNAt (ueLocked i (recordDelayedLocked now c p s)) = ur_LastDDNAt (ueLocked i s)"
  by (simp_all add: recordSentLocked_def recordSuppressedLocked_def recordDelayedLocked_def note_ue_def Let_def)

lemma step_last_ddn:
  assumes "ddn_step ufold (n, c, tm) s = (d, s')" "tm \<noteq> 0"
  shows "ur_LastDDNAt (ueLocked imsi s') =
    (if ca_IMSI c = imsi \<and> de_Action d = ActionSendNow then tm else ur_LastDDNAt (ueLocked imsi s))"
  using assms
  by (auto simp: ddn_step_def Decide_def or_now_def decide_enabled_def decision_def Let_def split: prod.splits if_split_asm)

lemma run_last_ddn:
  assumes "\<forall>r \<in> set rs. snd (snd r) \<noteq> 0"
  shows "ur_LastDDNAt (ueLocked imsi (snd (ddn_run ufold rs (ddn_NewState cfg)))) =
    (case last_sent imsi (zip rs (fst (ddn_run ufold rs (ddn_NewState cfg)))) of None \<Rightarrow> 0 | Some tm \<Rightarrow> tm) \<and>
    length (fst (ddn_run ufold rs (ddn_NewState cfg))) = length rs \<and>
    ds_cfg (snd (ddn_run ufold rs (ddn_NewState cfg))) = cfg"
  using assms
proof (induction rs rule: rev_induct)
  case Nil
  show ?case by (simp add: last_sent_def ueLocked_def ddn_NewState_def new_ue_def map_simps)
next
  case (snoc x rs)
  obtain n c tm where x: "x = (n, c, tm)" by (cases x) auto
  obtain ds s1 where run: "ddn_run ufold rs (ddn_NewState cfg) = (ds, s1)" by force
  obtain d s2 where st: "ddn_step ufold (n, c, tm) s1 = (d, s2)" by force
  have "tm \<noteq> 0" using snoc.prems by (simp add: x)
  have "ds_cfg s2 = ds_cfg s1" using ddn_step_cfg [of ufold "(n, c, tm)" s1] st by simp
  then show ?case
    using snoc step_last_ddn [OF st \<open>tm \<noteq> 0\<close>, of imsi] by (simp add: ddn_run_snoc run x st Let_def last_sent_snoc)
qed

text \<open>
  Spacing of notifications per UE: with the suppression interval configured, a notification
  that is not of high priority is sent only when the latest one sent for the same UE, towards any
  MME, is at least the interval old.
\<close>

theorem ddn_per_ue_spacing:
  assumes "dc_Enabled cfg" "dc_PerUESuppression cfg > 0" "\<forall>r \<in> set (rs @ [(n, c, tm)]). snd (snd r) > 0"
    and "ddn_run ufold rs (ddn_NewState cfg) = (ds, s)" "fst (ddn_step ufold (n, c, tm) s) = d"
    and "de_Action d = ActionSendNow" "de_Priority d \<noteq> PriorityHigh" "last_sent (ca_IMSI c) (zip rs ds) = Some tm'"
  shows "tm' + dc_PerUESuppression cfg \<le> tm"
proof -
  have h: "ur_LastDDNAt (ueLocked (ca_IMSI c) s) = tm'" "ds_cfg s = cfg"
    using run_last_ddn [of rs "ca_IMSI c" ufold cfg] assms(3,4,8) by force+
  have "tm' \<noteq> 0"
  proof -
    have "tm' \<in> (\<lambda>r. snd (snd r)) ` set rs"
      using last_sent_mem [OF assms(8)] by (force dest: set_zip_leftD)
    then show ?thesis using assms(3) by auto
  qed
  then show ?thesis
    using assms(1,2,3,5,6,7) h
    by (auto simp: ddn_step_def Decide_def or_now_def decide_enabled_def decision_def Let_def split: prod.splits if_split_asm)
qed

definition sample_ping :: ddn_state where
  "sample_ping = snd (ddn_run (\<lambda>_ _. False) [(0, sample_candidate ''1'', 1000)] (ddn_NewState sample_ddn_config))"

lemma sample_ping_run:
  "ddn_run (\<lambda>_ _. False) [(0, sample_candidate ''1'', 1000)] (ddn_NewState sample_ddn_config) =
    ([decision (sample_candidate ''1'') PriorityLow ActionSendNow ''low-priority-rule'' 0 False 2 1], sample_ping)"
  by code_simp

lemma sample_second:
  "fst (ddn_step (\<lambda>_ _. False) (0, (sample_candidate ''1'')\<lparr>ca_MMEAddr := ''10.0.0.2:2123''\<rparr>, 600001000) sample_ping) =
    decision ((sample_candidate ''1'')\<lparr>ca_MMEAddr := ''10.0.0.2:2123''\<rparr>) PriorityLow ActionSendNow ''low-priority-rule'' 0 False 2 1"
  by code_simp

theorem ddn_per_ue_spacing_witness:
  "de_Action (fst (ddn_step (\<lambda>_ _. False) (0, (sample_candidate ''1'')\<lparr>ca_MMEAddr := ''10.0.0.2:2123''\<rparr>, 600001000) sample_ping)) =
    ActionSendNow \<and> 1000 + dc_PerUESuppression sample_ddn_config \<le> 600001000"
proof
  show "1000 + dc_PerUESuppression sample_ddn_config \<le> 600001000"
    using ddn_per_ue_spacing [OF _ _ _ sample_ping_run sample_second, of 1000]
    by (simp add: sample_ddn_config_def sample_candidate_def decision_def last_sent_def)
qed (simp add: sample_second decision_def)

end
