(* ===== verification/SGWC_State.thy ===== *)
theory SGWC_State
  imports GTPv2_Procedures GTPv2_Transport PFCP_Client Peer_Health DDN_Control
begin

text \<open>
  The state the handlers of the SGW-C share and the actions they are built from. A handler is a
  function on that state, \<open>sgwc \<Rightarrow> 'a option \<times> sgwc\<close>; the result \<open>None\<close> is a Go panic,
  which nothing in the program recovers and which therefore ends the process. A handler is run without
  interference of other goroutines. What the environment decides, the clock, the random numbers, the
  answers of the PFCP and GTP-C peers and whether a datagram could be written, is read from
  \<open>sgwc_env\<close> by the number of the reading. Replies, requests, checkpoint notes and peer-health events
  are appended to \<open>g_out\<close>. Logs and metrics are not modelled.

  The tables of the bearer procedures (\<^verbatim>\<open>internal/sgwc/s11/bearer_handler.go\<close>) are part of
  the state; a \<^verbatim>\<open>*createBearerTxnState\<close> is an index into \<open>g_txns\<close>.
\<close>

section \<open>Values\<close>

abbreviation (input) GTP_Accepted :: u8 where "GTP_Accepted \<equiv> 16"
abbreviation (input) GTP_AcceptedPartially :: u8 where "GTP_AcceptedPartially \<equiv> 17"
abbreviation (input) GTP_ContextNotFound :: u8 where "GTP_ContextNotFound \<equiv> 64"
abbreviation (input) GTP_InvalidMessageFormat :: u8 where "GTP_InvalidMessageFormat \<equiv> 65"
abbreviation (input) GTP_MandatoryIEIncorrect :: u8 where "GTP_MandatoryIEIncorrect \<equiv> 69"
abbreviation (input) GTP_MandatoryIEMissing :: u8 where "GTP_MandatoryIEMissing \<equiv> 70"
abbreviation (input) GTP_SystemFailure :: u8 where "GTP_SystemFailure \<equiv> 72"
abbreviation (input) GTP_NoResources :: u8 where "GTP_NoResources \<equiv> 73"
abbreviation (input) GTP_RequestRejected :: u8 where "GTP_RequestRejected \<equiv> 94"
abbreviation (input) GTP_ConditionalIEMissing :: u8 where "GTP_ConditionalIEMissing \<equiv> 103"

abbreviation (input) IFTypeS1USGW :: u8 where "IFTypeS1USGW \<equiv> 1"
abbreviation (input) IFTypeS5S8USGW :: u8 where "IFTypeS5S8USGW \<equiv> 4"
abbreviation (input) IFTypeS5S8UPGW :: u8 where "IFTypeS5S8UPGW \<equiv> 5"
abbreviation (input) IFTypeS5S8CSGW :: u8 where "IFTypeS5S8CSGW \<equiv> 6"
abbreviation (input) IFTypeS5S8CPGW :: u8 where "IFTypeS5S8CPGW \<equiv> 7"
abbreviation (input) IFTypeS11S4SGW :: u8 where "IFTypeS11S4SGW \<equiv> 11"

text \<open>A Go string of the decoders is a list of octets, one of the session's fields a list of characters.\<close>

definition text_of :: "gostring \<Rightarrow> string" where
  "text_of b = map (\<lambda>c. Go_Net.chr (unat c)) b"

definition octets_of :: "string \<Rightarrow> gostring" where
  "octets_of s = map (\<lambda>c. of_nat (Go_Net.code c)) s"

definition gtp_port :: nat where "gtp_port = 2123"

section \<open>The tables of the bearer procedures\<close>

record cb_txn_key =
  ck_peerIP :: ip_addr
  ck_peerPort :: u16
  ck_localS5CTEID :: u32
  ck_msgType :: u8
  ck_sequence :: u32

record cb_fingerprint =
  cf_peerIP :: ip_addr
  cf_peerPort :: u16
  cf_localS5CTEID :: u32
  cf_lbi :: u8
  cf_bodyHash :: bytes

record cb_procedure_key =
  cq_sessionID :: string
  cq_imsi :: string
  cq_apn :: string
  cq_peerIP :: ip_addr
  cq_peerPort :: u16
  cq_localS5CTEID :: u32
  cq_linkedEBI :: u8
  cq_bearerCount :: nat
  cq_sigHash :: bytes

text \<open>The zero values the code compares keys with.\<close>

definition no_fingerprint :: cb_fingerprint where
  "no_fingerprint = \<lparr>cf_peerIP = NoAddr, cf_peerPort = 0, cf_localS5CTEID = 0, cf_lbi = 0, cf_bodyHash = replicate 32 0\<rparr>"

definition no_procedure_key :: cb_procedure_key where
  "no_procedure_key = \<lparr>cq_sessionID = [], cq_imsi = [], cq_apn = [], cq_peerIP = NoAddr, cq_peerPort = 0,
     cq_localS5CTEID = 0, cq_linkedEBI = 0, cq_bearerCount = 0, cq_sigHash = replicate 32 0\<rparr>"

record cb_rule_key =
  ru_pdrUL :: u16
  ru_pdrDL :: u16
  ru_farUL :: u32
  ru_farDL :: u32

record bearer_provisioning =
  pv_qosIE :: "ie option"
  pv_tftIE :: "ie option"
  pv_pgwUS5U :: ep_fteid
  pv_rule :: cb_rule_key
  pv_sgwUS1U :: ep_fteid
  pv_sgwUS5U :: ep_fteid

abbreviation (input) cbTxnPending :: string where "cbTxnPending \<equiv> ''pending''"
abbreviation (input) cbTxnCompleted :: string where "cbTxnCompleted \<equiv> ''completed''"
abbreviation (input) cbTxnFailed :: string where "cbTxnFailed \<equiv> ''failed''"

record cb_txn =
  tx_key :: cb_txn_key
  tx_fingerprint :: cb_fingerprint
  tx_procedureKey :: cb_procedure_key
  tx_sessionID :: string
  tx_status :: string
  tx_originalRequest :: bytes
  tx_provisionedBearers :: "bearer_provisioning list"
  tx_pfcpProvisionalDone :: bool
  tx_pfcpRolledBack :: "cb_rule_key list"
  tx_s5cResponse :: bytes
  tx_s5cCause :: u8
  tx_createdAt :: gtime
  tx_updatedAt :: gtime

record cause_description =
  cd_CauseText :: string
  cd_OffendingIEType :: u8
  cd_OffendingIEName :: string
  cd_OffendingIEInstance :: u8

record cb_failure =
  fl_key :: cb_procedure_key
  fl_state :: string
  fl_lastFailureCause :: u8
  fl_lastFailureText :: string
  fl_offendingIEType :: u8
  fl_offendingIEName :: string
  fl_firstSeen :: gtime
  fl_lastSeen :: gtime
  fl_lastSuppressLog :: gtime
  fl_suppressedCount :: u64
  fl_logSuppression :: bool

record cb_pending =
  pd_pgwAddr :: udp_addr
  pd_mmeAddr :: string
  pd_hdr :: header
  pd_cbReq :: create_bearer_request
  pd_sess :: sref
  pd_txn :: nat
  pd_activeProc :: active_procedure
  pd_bearerProvs :: "bearer_provisioning list"
  pd_csrspSeq :: u32
  pd_s11Seq :: u32
  pd_linkedEBI :: u8
  pd_createdAt :: gtime

record db_pending =
  dp_sessionID :: string
  dp_imsi :: string
  dp_apn :: string
  dp_defaultEBI :: u8
  dp_ebi :: u8
  dp_sgwS11TEID :: u32
  dp_mmeS11TEID :: u32
  dp_sgwS5CTEID :: u32
  dp_pgwS5CTEID :: u32
  dp_seq :: u32
  dp_createdAt :: gtime
  dp_expiresAt :: gtime

section \<open>Configuration, environment and state\<close>

record sgwc_config =
  cfg_T3ResponseSeconds :: int
  cfg_N3Requests :: int
  cfg_CollisionMode :: collision_mode
  cfg_ActiveProcedureTimeoutSeconds :: int
  cfg_WarnOnDownPeerProcedure :: bool
  cfg_PGWFailureEnabled :: bool
  cfg_BlockNewProceduresToDownPGW :: bool
  cfg_StopPagingEnabled :: bool
  cfg_StopPagingOnDDNAck :: bool
  cfg_LowPriorityThrottleSeconds :: int
  cfg_NSADCNREnabled :: bool
  cfg_ForwardSecondaryRATUsageReports :: bool
  cfg_CreateBearerRetryGuardEnabled :: bool

datatype leg = S11 | S5C

datatype pfcp_op =
    P_Establish u64
  | P_Modify string u64 "far_change list"
  | P_AddRules string u64 "pfcp_ie list" "pfcp_ie list"
  | P_RemoveRules string u64 "u32 list" "u32 list"
  | P_Delete string u64

datatype sgwc_effect =
    Requested leg udp_addr bytes
  | Replied leg udp_addr bytes
  | PFCPDone pfcp_op bool
  | Noted checkpoint_note
  | PeerEvent health_effect

text \<open>The pointers to the configuration and to the restart counter may be nil; the counter's value
  does not change while the process runs.\<close>

record sgwc_env =
  en_cfg :: "sgwc_config option"
  en_recovery :: "u8 option"
  en_s5cRecovery :: "u8 option"
  en_localIP :: ip_addr
  en_s5cIP :: ip_addr
  en_sha256 :: "bytes \<Rightarrow> bytes"
  en_now :: "nat \<Rightarrow> gtime"
  en_rand4 :: "nat \<Rightarrow> nat \<Rightarrow> rand4"
  en_rand8 :: "nat \<Rightarrow> bytes option"
  en_pfcp :: "nat \<Rightarrow> exchange"
  en_gtp :: "nat \<Rightarrow> nat \<Rightarrow> gtp_answer observation"
  en_wrote :: "nat \<Rightarrow> bool"
  en_ctxDone :: "nat \<Rightarrow> bool"

text \<open>With one shared control binding there is no second connection: \<open>g_s5c\<close> is \<open>None\<close>.\<close>

record sgwc =
  g_mgr :: manager
  g_pfcp :: pfcp_client
  g_s11 :: gtp_conn
  g_s5c :: "gtp_conn option"
  g_s5cTEIDs :: allocator
  g_s11Seen :: "(string, u8) gomap"
  g_s5cSeen :: "(string, u8) gomap"
  g_health :: "health_table option"
  g_ddn :: "ddn_state option"
  g_txns :: "cb_txn list"
  g_cbTxns :: "(cb_txn_key, nat) gomap"
  g_cbFPs :: "(cb_fingerprint, nat) gomap"
  g_cbS11 :: "(string \<times> u32, cb_pending) gomap"
  g_cbProcFailures :: "(cb_procedure_key, cb_failure) gomap"
  g_dbCmds :: "(string \<times> u8, db_pending) gomap"
  g_k :: nat
  g_out :: "sgwc_effect list"

section \<open>Actions\<close>

type_synonym 'a act = "sgwc \<Rightarrow> 'a option \<times> sgwc"

definition aret :: "'a \<Rightarrow> 'a act" where
  "aret x = (\<lambda>s. (Some x, s))"

definition crash :: "'a act" where
  "crash = (\<lambda>s. (None, s))"

definition abind :: "'a act \<Rightarrow> ('a \<Rightarrow> 'b act) \<Rightarrow> 'b act" where
  "abind m f = (\<lambda>s. case m s of (Some x, s') \<Rightarrow> f x s' | (None, s') \<Rightarrow> (None, s'))"

definition athen :: "'a act \<Rightarrow> 'b act \<Rightarrow> 'b act" where
  "athen m m' = abind m (\<lambda>_. m')"

definition aget :: "(sgwc \<Rightarrow> 'a) \<Rightarrow> 'a act" where
  "aget f = (\<lambda>s. (Some (f s), s))"

definition amod :: "(sgwc \<Rightarrow> sgwc) \<Rightarrow> unit act" where
  "amod f = (\<lambda>s. (Some (), f s))"

definition awhen :: "bool \<Rightarrow> unit act \<Rightarrow> unit act" where
  "awhen b m = (if b then m else aret ())"

text \<open>A \<^verbatim>\<open>range\<close> loop that carries its local variables, \<open>acc\<close>.\<close>

fun aloop :: "('x \<Rightarrow> 'b \<Rightarrow> 'b act) \<Rightarrow> 'x list \<Rightarrow> 'b \<Rightarrow> 'b act" where
  "aloop f [] acc = aret acc"
| "aloop f (x # xs) acc = abind (f x acc) (aloop f xs)"

text \<open>The value of a fallible call: the Go error and the result are a sum; a panic ends the process.\<close>

definition attempt :: "('e, 'a) outcome \<Rightarrow> ('e + 'a) act" where
  "attempt r = (case r of Ok x \<Rightarrow> aret (Inr x) | Fail e \<Rightarrow> aret (Inl e) | Panic \<Rightarrow> crash)"

text \<open>A call that can fail only by a panic.\<close>

definition must :: "('e, 'a) outcome \<Rightarrow> 'a act" where
  "must r = (case r of Ok x \<Rightarrow> aret x | _ \<Rightarrow> crash)"

text \<open>A value used without looking at the error: zero when there is one.\<close>

definition ignoring :: "'a \<Rightarrow> ('e, 'a) outcome \<Rightarrow> 'a act" where
  "ignoring z r = (case r of Ok x \<Rightarrow> aret x | Fail e \<Rightarrow> aret z | Panic \<Rightarrow> crash)"

definition deref_ptr :: "'a option \<Rightarrow> 'a act" where
  "deref_ptr p = (case p of Some x \<Rightarrow> aret x | None \<Rightarrow> crash)"

section \<open>The environment\<close>

definition tick :: "nat act" where
  "tick = (\<lambda>s. (Some (g_k s), s\<lparr>g_k := g_k s + 1\<rparr>))"

definition put_out :: "sgwc_effect list \<Rightarrow> unit act" where
  "put_out es = amod (\<lambda>s. s\<lparr>g_out := g_out s @ es\<rparr>)"

definition clock :: "sgwc_env \<Rightarrow> gtime act" where
  "clock E = abind tick (\<lambda>k. aret (en_now E k))"

definition conn_of :: "leg \<Rightarrow> sgwc \<Rightarrow> gtp_conn" where
  "conn_of l s = (case l of S11 \<Rightarrow> g_s11 s | S5C \<Rightarrow> (case g_s5c s of Some c \<Rightarrow> c | None \<Rightarrow> g_s11 s))"

definition set_conn :: "leg \<Rightarrow> gtp_conn \<Rightarrow> sgwc \<Rightarrow> sgwc" where
  "set_conn l c s = (if l = S5C \<and> g_s5c s \<noteq> None then s\<lparr>g_s5c := Some c\<rparr> else s\<lparr>g_s11 := c\<rparr>)"

definition alloc_seq :: "leg \<Rightarrow> u32 act" where
  "alloc_seq l = (\<lambda>s. let (v, c) = gtp_AllocSeq (conn_of l s) in (Some v, set_conn l c s))"

text \<open>\<^verbatim>\<open>SendWithPiggybacks\<close>: the pending entry lives for the duration of the call.\<close>

definition gtp_send :: "sgwc_env \<Rightarrow> leg \<Rightarrow> udp_addr \<Rightarrow> bytes \<Rightarrow> (send_error + gtp_answer option) act" where
  "gtp_send E l a raw = abind tick (\<lambda>k. \<lambda>s. case gtp_begin_send a raw (conn_of l s) of
     (Ok (key, _), c) \<Rightarrow> athen (athen (put_out [Requested l a raw]) (amod (set_conn l (gtp_end_send key c))))
         (attempt (snd (gtp_Send_loop c (en_gtp E k)))) s
   | (Fail e, c) \<Rightarrow> athen (amod (set_conn l c)) (aret (Inl e)) s
   | (Panic, c) \<Rightarrow> athen (amod (set_conn l c)) crash s)"

definition gtp_reply :: "sgwc_env \<Rightarrow> leg \<Rightarrow> udp_addr \<Rightarrow> bytes \<Rightarrow> (send_error + unit) act" where
  "gtp_reply E l a raw = abind (clock E) (\<lambda>now. abind tick (\<lambda>k. \<lambda>s.
     let (r, c) = gtp_Reply now (en_wrote E k) a raw (conn_of l s) in
     athen (athen (amod (set_conn l c)) (put_out (if en_wrote E k then [Replied l a raw] else []))) (attempt r) s))"

text \<open>A reply whose error is only logged.\<close>

definition reply :: "sgwc_env \<Rightarrow> leg \<Rightarrow> udp_addr \<Rightarrow> bytes \<Rightarrow> unit act" where
  "reply E l a raw = abind (gtp_reply E l a raw) (\<lambda>_. aret ())"

text \<open>The octets of a marshalled message, or nil after an error that is not looked at.\<close>

definition raw_of :: "bytes msg_result \<Rightarrow> bytes act" where
  "raw_of r = ignoring [] r"

section \<open>Sessions\<close>

definition sess_of :: "sref \<Rightarrow> sgw_session act" where
  "sess_of r = aget (\<lambda>s. deref (g_mgr s) r)"

definition put_mgr :: "manager \<times> checkpoint_note list \<Rightarrow> unit act" where
  "put_mgr r = athen (amod (\<lambda>s. s\<lparr>g_mgr := fst r\<rparr>)) (put_out (map Noted (snd r)))"

definition call_session :: "sref \<Rightarrow> sess_call \<Rightarrow> unit act" where
  "call_session r c = abind (aget (\<lambda>s. on_session r (run_call c) (g_mgr s))) put_mgr"

definition set_tracker :: "sref \<Rightarrow> tracker option \<Rightarrow> unit act" where
  "set_tracker r t = abind (aget (\<lambda>s. on_session r (\<lambda>x. (x\<lparr>s_Procedures := t\<rparr>, [])) (g_mgr s))) put_mgr"

definition delete_session :: "string \<Rightarrow> unit act" where
  "delete_session sid = abind (aget (\<lambda>s. mgr_Delete sid (g_mgr s))) put_mgr"

definition create_session :: "sgwc_env \<Rightarrow> create_params \<Rightarrow> (mgr_error + sref \<times> sref option) act" where
  "create_session E p = abind tick (\<lambda>k. abind (aget (\<lambda>s. mgr_Create (en_rand4 E k) (en_rand8 E k) (en_now E k) p (g_mgr s)))
     (\<lambda>(r, mn). athen (put_mgr mn) (attempt r)))"

definition register_s5c :: "string \<Rightarrow> u32 \<Rightarrow> unit act" where
  "register_s5c sid t = abind (aget (\<lambda>s. RegisterS5CTEID sid t (g_mgr s))) put_mgr"

definition register_pgw :: "sgwc_env \<Rightarrow> string \<Rightarrow> string \<Rightarrow> unit act" where
  "register_pgw E sid a = abind (clock E) (\<lambda>now. abind (clock E) (\<lambda>now'.
     abind (aget (\<lambda>s. RegisterPGW now now' sid a (g_mgr s))) put_mgr))"

text \<open>The methods of the session that read the clock.\<close>

definition set_bearer :: "sgwc_env \<Rightarrow> sref \<Rightarrow> bearer \<Rightarrow> unit act" where
  "set_bearer E r b = abind (clock E) (\<lambda>now. abind (clock E) (\<lambda>now'. call_session r (C_SetBearer now now' b)))"

definition delete_bearer :: "sgwc_env \<Rightarrow> sref \<Rightarrow> u8 \<Rightarrow> unit act" where
  "delete_bearer E r ebi = abind (clock E) (\<lambda>now. abind (clock E) (\<lambda>now'. abind (clock E) (\<lambda>now2.
     call_session r (C_DeleteBearer now now' now2 ebi))))"

definition clear_enb :: "sgwc_env \<Rightarrow> sref \<Rightarrow> unit act" where
  "clear_enb E r = abind (clock E) (\<lambda>now. abind (clock E) (\<lambda>now'. call_session r (C_ClearENBFTEIDs now now')))"

definition transition :: "sgwc_env \<Rightarrow> sref \<Rightarrow> string \<Rightarrow> unit act" where
  "transition E r st = abind (clock E) (\<lambda>now. call_session r (C_Transition now st))"

section \<open>The PFCP client\<close>

definition pfcp_call :: "sgwc_env \<Rightarrow> pfcp_op \<Rightarrow> (exchange \<Rightarrow> pfcp_client \<Rightarrow> (client_error, 'a) outcome \<times> pfcp_client) \<Rightarrow>
    (client_error + 'a) act" where
  "pfcp_call E p f = abind tick (\<lambda>k. abind (aget (\<lambda>s. f (en_pfcp E k) (g_pfcp s))) (\<lambda>(r, c).
     athen (athen (amod (\<lambda>s. s\<lparr>g_pfcp := c\<rparr>)) (put_out [PFCPDone p (case r of Ok _ \<Rightarrow> True | _ \<Rightarrow> False)])) (attempt r)))"

definition alloc_cpseid :: "u64 act" where
  "alloc_cpseid = (\<lambda>s. let (v, c) = AllocCPSEID (g_pfcp s) in (Some v, s\<lparr>g_pfcp := c\<rparr>))"

definition pfcp_establish :: "sgwc_env \<Rightarrow> session_params \<Rightarrow> (client_error + session_result) act" where
  "pfcp_establish E p = pfcp_call E (P_Establish (sp_CPFSEID p)) (\<lambda>x. EstablishSession x p)"

definition pfcp_modify :: "sgwc_env \<Rightarrow> string \<Rightarrow> u64 \<Rightarrow> far_change list \<Rightarrow> (client_error + unit) act" where
  "pfcp_modify E a up us = pfcp_call E (P_Modify a up us) (\<lambda>x. ModifySessionOnPeer x a up us)"

definition pfcp_add_rules :: "sgwc_env \<Rightarrow> string \<Rightarrow> u64 \<Rightarrow> pfcp_ie list \<Rightarrow> pfcp_ie list \<Rightarrow> (client_error + pfcp_ie list) act" where
  "pfcp_add_rules E a up pdrs fars = pfcp_call E (P_AddRules a up pdrs fars) (\<lambda>x. AddBearerRulesOnPeer x a up pdrs fars)"

definition pfcp_remove_rules :: "sgwc_env \<Rightarrow> string \<Rightarrow> u64 \<Rightarrow> u32 list \<Rightarrow> u32 list \<Rightarrow> (client_error + unit) act" where
  "pfcp_remove_rules E a up pdrs fars = pfcp_call E (P_RemoveRules a up pdrs fars) (\<lambda>x. RemoveBearerRulesOnPeer x a up pdrs fars)"

definition pfcp_delete :: "sgwc_env \<Rightarrow> string \<Rightarrow> u64 \<Rightarrow> (client_error + unit) act" where
  "pfcp_delete E a up = pfcp_call E (P_Delete a up) (\<lambda>x. DeleteSessionOnPeer x a up)"

end
