(* ===== verification/S5C_Client.thy ===== *)
theory S5C_Client
  imports SGWC_State
begin

text \<open>
  The client of the S5/S8-C interface, \<^verbatim>\<open>internal/sgwc/s5c/client.go\<close>: the address of the PGW
  in the MME's request, the three procedures towards the PGW with the messages they build and the
  answers they accept, the Recovery element each peer is sent once, the Echo, and the local TEIDs.
  The context of a call enters through the observations of \<open>gtp_send\<close>.
\<close>

datatype s5c_error =
    S5C_NoPGWAddr
  | S5C_Build msg_error
  | S5C_BearerContext ie_error
  | S5C_Send send_error
  | S5C_Parse msg_error
  | S5C_UnexpectedType u8
  | S5C_Decode msg_error
  | S5C_NoPGWFTEID
  | S5C_NoBearerContext

record create_session_result =
  cr_Cause :: u8
  cr_SGWS5CTEID :: u32
  cr_PGWControl :: ep_fteid
  cr_PGWS5U :: ep_fteid
  cr_DefaultEBI :: u8
  cr_UEIP :: ip_addr
  cr_AMBR :: "ie option"
  cr_PCO :: "ie option"
  cr_APNRestriction :: "ie option"
  cr_ChargingID :: "ie option"
  cr_BearerChargingID :: "ie option"
  cr_Piggybacks :: "frame list"

definition pgw_udp :: "bytes \<Rightarrow> udp_addr" where
  "pgw_udp a4 = \<lparr>uaIP = addrFrom4 (a4 ! 0) (a4 ! 1) (a4 ! 2) (a4 ! 3), uaPort = gtp_port\<rparr>"

definition fteid_ep :: "fteid \<Rightarrow> ep_fteid" where
  "fteid_ep f = \<lparr>ep_TEID = fTEID f, ep_IPv4 = fIPv4 f\<rparr>"

section \<open>Recovery\<close>

definition recoveryIEValuePtr :: "ie option \<Rightarrow> u8 option act" where
  "recoveryIEValuePtr i = (case i of None \<Rightarrow> aret None
     | Some i \<Rightarrow> abind (attempt (RecoveryValue i)) (\<lambda>r. aret (case r of Inr v \<Rightarrow> Some v | Inl _ \<Rightarrow> None)))"

definition recoveryValuePtr :: "ie list \<Rightarrow> u8 option act" where
  "recoveryValuePtr ies = recoveryIEValuePtr (FindFirst ies TypeRecovery)"

definition observe_peer :: "sgwc_env \<Rightarrow> string \<Rightarrow> udp_addr \<Rightarrow> header \<Rightarrow> ie list \<Rightarrow> unit act" where
  "observe_peer E role a h ies = abind (aget g_health) (\<lambda>t.
     if t = None then aret ()
     else abind (recoveryValuePtr ies) (\<lambda>rec. abind (clock E) (\<lambda>now.
       let (t', es) = Observe now role (Some (uaIP a)) (hMessageType h) (hSequenceNumber h) rec t in
       athen (amod (\<lambda>s. s\<lparr>g_health := t'\<rparr>)) (put_out (map PeerEvent es)))))"

definition s5c_maybeRecoveryIE :: "sgwc_env \<Rightarrow> udp_addr \<Rightarrow> ie option act" where
  "s5c_maybeRecoveryIE E a = (case en_s5cRecovery E of
     None \<Rightarrow> aret None
   | Some cur \<Rightarrow> abind (aget g_s5cSeen) (\<lambda>seen.
       if mget seen (hostport a) = Some cur then aret None
       else athen (amod (\<lambda>s. s\<lparr>g_s5cSeen := mput (hostport a) cur seen\<rparr>)) (aret (Some (NewRecovery cur)))))"

section \<open>Messages\<close>

definition opt_ie :: "ie option \<Rightarrow> ie list" where
  "opt_ie i = (case i of None \<Rightarrow> [] | Some i \<Rightarrow> [i])"

text \<open>\<^verbatim>\<open>Marshal\<close> of a list that may hold a nil pointer: it is dereferenced when its turn comes.\<close>

definition Marshal_ptrs :: "header \<Rightarrow> ie option list \<Rightarrow> bytes msg_result" where
  "Marshal_ptrs h ps =
     (if None \<in> set ps then obind (marshal_body (map the (takeWhile (\<lambda>p. p \<noteq> None) ps))) (\<lambda>_. Panic)
      else Marshal h (map the ps))"

text \<open>The bearer context of the request towards the PGW: the MME's EBI and QoS, and the F-TEID
  of the SGW-U on S5/S8-U.\<close>

definition csreq_context :: "ie list \<Rightarrow> ep_fteid \<Rightarrow> ie list ie_result" where
  "csreq_context children u =
     obind (if ep_TEID u \<noteq> 0 \<and> isValid (ep_IPv4 u)
       then omap (\<lambda>f. [f]) (NewFTEID 2 IFTypeS5S8USGW (ep_TEID u) (ep_IPv4 u)) else Ok []) (\<lambda>f.
     Ok (opt_ie (FindFirst children TypeEBI) @ opt_ie (FindFirst children TypeBearerQoS) @ f))"

definition buildCSReq :: "create_session_request \<Rightarrow> u32 \<Rightarrow> ip_addr \<Rightarrow> u32 \<Rightarrow> ie option \<Rightarrow> ep_fteid \<Rightarrow>
    (s5c_error, bytes) outcome" where
  "buildCSReq req sgwS5CTEID sgwIP sq recIE u =
     obind (wrap_err S5C_BearerContext (NewFTEID 0 IFTypeS5S8CSGW sgwS5CTEID sgwIP)) (\<lambda>sender.
     obind (case csqBearerContexts req of
         [] \<Rightarrow> Ok []
       | bc # _ \<Rightarrow> wrap_err S5C_BearerContext (obind (ChildIEs bc) (\<lambda>children.
           omap (\<lambda>cs. [NewBearerContext 0 cs]) (csreq_context children u)))) (\<lambda>bcs.
     wrap_err S5C_Build (Marshal_ptrs (mk_header True MsgTypeCreateSessionRequest 0 sq)
       (map Some (opt_ie (csqIMSI req) @ opt_ie (csqMSISDN req) @ opt_ie (csqMEI req)) @
        [csqRATType req] @
        map Some (opt_ie (csqServingNetwork req) @ opt_ie (csqULI req) @ [sender]) @
        [csqAPN req, csqPDNType req] @
        map Some (opt_ie (csqPAA req) @ opt_ie (csqAMBR req) @ opt_ie (csqPCO req) @ opt_ie (csqAPNRestriction req) @
          opt_ie (csqUETimeZone req) @ opt_ie (csqChargingChars req) @ opt_ie (csqSelectionMode req) @ bcs @
          opt_ie (csqIndication req) @ opt_ie recIE)))))"

definition buildMBReq :: "sgw_session \<Rightarrow> modify_bearer_request \<Rightarrow> u32 \<Rightarrow> ie option \<Rightarrow> (s5c_error, bytes) outcome" where
  "buildMBReq sess req sq recIE =
     wrap_err S5C_Build (Marshal (mk_header True MsgTypeModifyBearerRequest (ep_TEID (s_PGWControl sess)) sq)
       (mbqBearerContexts req @ mbqSecondaryRATUsageDataReports req @ opt_ie (mbqIndication req) @ opt_ie recIE))"

definition buildDSReq :: "sgw_session \<Rightarrow> delete_session_request option \<Rightarrow> u32 \<Rightarrow> ie option \<Rightarrow> (s5c_error, bytes) outcome" where
  "buildDSReq sess req sq recIE =
     wrap_err S5C_Build (Marshal (mk_header True MsgTypeDeleteSessionRequest (ep_TEID (s_PGWControl sess)) sq)
       ((case req of None \<Rightarrow> [] | Some q \<Rightarrow> opt_ie (dsqCause q)) @
        (case req of Some q \<Rightarrow> (case dsqEBI q of Some e \<Rightarrow> [e] | None \<Rightarrow> [NewEBI (s_DefaultBearerID sess)])
           | None \<Rightarrow> [NewEBI (s_DefaultBearerID sess)]) @
        (case req of None \<Rightarrow> [] | Some q \<Rightarrow> opt_ie (dsqIndication q)) @ opt_ie recIE))"

section \<open>The procedures\<close>

text \<open>The address of the PGW comes from the F-TEID of the MME's request, and must be an IPv4 one.\<close>

definition PGWAddr :: "create_session_request \<Rightarrow> (s5c_error, udp_addr) outcome" where
  "PGWAddr req = (case csqPGWFTEID req of
     None \<Rightarrow> Fail S5C_NoPGWAddr
   | Some i \<Rightarrow> (case FTEIDValue i of
       Ok f \<Rightarrow> if isValid (fIPv4 f) then obind (as4 (fIPv4 f)) (\<lambda>a4. Ok (pgw_udp a4)) else Fail S5C_NoPGWAddr
     | Fail _ \<Rightarrow> Fail S5C_NoPGWAddr
     | Panic \<Rightarrow> Panic))"

text \<open>What the procedures share: send, parse, note the peer, check the type of the answer.\<close>

definition s5c_ask :: "sgwc_env \<Rightarrow> udp_addr \<Rightarrow> bytes \<Rightarrow> u8 \<Rightarrow> (s5c_error + header \<times> ie list \<times> frame list) act" where
  "s5c_ask E a raw want = abind (gtp_send E S5C a raw) (\<lambda>r. case r of
     Inl e \<Rightarrow> aret (Inl (S5C_Send e))
   | Inr ans \<Rightarrow> abind (attempt (Parse (case ans of Some (b, _) \<Rightarrow> b | None \<Rightarrow> []))) (\<lambda>p. case p of
       Inl e \<Rightarrow> aret (Inl (S5C_Parse e))
     | Inr (h, ies) \<Rightarrow> athen (observe_peer E RolePGW a h ies)
         (if hMessageType h \<noteq> want then aret (Inl (S5C_UnexpectedType (hMessageType h)))
          else aret (Inr (h, ies, case ans of Some (_, ps) \<Rightarrow> ps | None \<Rightarrow> [])))))"

text \<open>The result of an accepted Create Session Response.\<close>

definition pgw_context :: "ie list \<Rightarrow> create_session_result \<Rightarrow> create_session_result act" where
  "pgw_context children res =
     abind (case FindFirst children TypeEBI of None \<Rightarrow> aret (cr_DefaultEBI res) | Some i \<Rightarrow> ignoring 0 (EBIValue i)) (\<lambda>ebi.
     abind (case FindInstance children TypeFTEID 2 of None \<Rightarrow> aret (cr_PGWS5U res)
       | Some i \<Rightarrow> abind (attempt (FTEIDValue i)) (\<lambda>f. aret (case f of Inr f \<Rightarrow> fteid_ep f | Inl _ \<Rightarrow> cr_PGWS5U res))) (\<lambda>u.
     aret (res\<lparr>cr_DefaultEBI := ebi, cr_PGWS5U := u, cr_BearerChargingID := FindFirst children TypeChargingID\<rparr>)))"

definition accepted_result :: "u32 \<Rightarrow> u8 \<Rightarrow> frame list \<Rightarrow> create_session_response \<Rightarrow> (s5c_error + create_session_result) act" where
  "accepted_result sgwS5CTEID cause ps resp = (case cspPGWFTEID resp of
     None \<Rightarrow> aret (Inl S5C_NoPGWFTEID)
   | Some pgwFTEID \<Rightarrow> (case cspBearerContexts resp of
       [] \<Rightarrow> aret (Inl S5C_NoBearerContext)
     | bc # _ \<Rightarrow>
         abind (attempt (FTEIDValue pgwFTEID)) (\<lambda>f.
         abind (case cspPAA resp of None \<Rightarrow> aret NoAddr
           | Some i \<Rightarrow> abind (attempt (PAAValue i)) (\<lambda>p. aret (case p of Inr p \<Rightarrow> paaIPv4 p | Inl _ \<Rightarrow> NoAddr))) (\<lambda>ue.
         let res = \<lparr>cr_Cause = cause, cr_SGWS5CTEID = sgwS5CTEID,
             cr_PGWControl = (case f of Inr f \<Rightarrow> fteid_ep f | Inl _ \<Rightarrow> noFTEID), cr_PGWS5U = noFTEID, cr_DefaultEBI = 0,
             cr_UEIP = ue, cr_AMBR = cspAMBR resp, cr_PCO = cspPCO resp, cr_APNRestriction = cspAPNRestriction resp,
             cr_ChargingID = cspChargingID resp, cr_BearerChargingID = None, cr_Piggybacks = ps\<rparr> in
         abind (attempt (ChildIEs bc)) (\<lambda>c. case c of
             Inl _ \<Rightarrow> aret (Inr res)
           | Inr children \<Rightarrow> abind (pgw_context children res) (\<lambda>res. aret (Inr res)))))))"

definition s5c_CreateSession :: "sgwc_env \<Rightarrow> udp_addr \<Rightarrow> create_session_request \<Rightarrow> u32 \<Rightarrow> ep_fteid \<Rightarrow>
    (s5c_error + create_session_result) act" where
  "s5c_CreateSession E a req sgwS5CTEID u =
     abind (alloc_seq S5C) (\<lambda>sq.
     abind (s5c_maybeRecoveryIE E a) (\<lambda>recIE.
     abind (attempt (buildCSReq req sgwS5CTEID (en_s5cIP E) sq recIE u)) (\<lambda>raw. case raw of
       Inl e \<Rightarrow> aret (Inl e)
     | Inr raw \<Rightarrow> abind (s5c_ask E a raw MsgTypeCreateSessionResponse) (\<lambda>r. case r of
         Inl e \<Rightarrow> aret (Inl e)
       | Inr (h, ies, ps) \<Rightarrow> abind (attempt (ParseCreateSessionResponse h ies)) (\<lambda>resp. case resp of
           Inl e \<Rightarrow> aret (Inl (S5C_Decode e))
         | Inr resp \<Rightarrow>
             abind (deref_ptr (cspCause resp)) (\<lambda>c. abind (ignoring 0 (CauseValue c)) (\<lambda>cause.
             if cause \<noteq> GTP_Accepted then
               aret (Inr \<lparr>cr_Cause = cause, cr_SGWS5CTEID = 0, cr_PGWControl = noFTEID, cr_PGWS5U = noFTEID,
                 cr_DefaultEBI = 0, cr_UEIP = NoAddr, cr_AMBR = None, cr_PCO = None, cr_APNRestriction = None,
                 cr_ChargingID = None, cr_BearerChargingID = None, cr_Piggybacks = ps\<rparr>)
             else accepted_result sgwS5CTEID cause ps resp)))))))"

text \<open>The address of the session's PGW: \<^verbatim>\<open>As4\<close> panics without an IPv4 address.\<close>

definition session_pgw :: "sgw_session \<Rightarrow> udp_addr act" where
  "session_pgw sess = abind (must (as4 (ep_IPv4 (s_PGWControl sess)) :: (unit, bytes) outcome)) (\<lambda>a4. aret (pgw_udp a4))"

definition s5c_ModifyBearerFromS11 :: "sgwc_env \<Rightarrow> sref \<Rightarrow> modify_bearer_request \<Rightarrow> (s5c_error + u8) act" where
  "s5c_ModifyBearerFromS11 E r req = abind (sess_of r) (\<lambda>sess.
     if ep_TEID (s_PGWControl sess) = 0 then aret (Inr GTP_Accepted)
     else abind (session_pgw sess) (\<lambda>a.
       abind (alloc_seq S5C) (\<lambda>sq.
       abind (s5c_maybeRecoveryIE E a) (\<lambda>recIE.
       abind (attempt (buildMBReq sess req sq recIE)) (\<lambda>raw. case raw of
         Inl e \<Rightarrow> aret (Inl e)
       | Inr raw \<Rightarrow> abind (s5c_ask E a raw MsgTypeModifyBearerResponse) (\<lambda>r. case r of
           Inl e \<Rightarrow> aret (Inl e)
         | Inr (h, ies, _) \<Rightarrow> abind (attempt (ParseModifyBearerResponse h ies)) (\<lambda>resp. case resp of
             Inl e \<Rightarrow> aret (Inl (S5C_Decode e))
           | Inr resp \<Rightarrow> abind (deref_ptr (mbpCause resp)) (\<lambda>c.
               abind (ignoring 0 (CauseValue c)) (\<lambda>cause. aret (Inr cause))))))))))"

definition free_s5c :: "u32 \<Rightarrow> unit act" where
  "free_s5c t = amod (\<lambda>s. s\<lparr>g_s5cTEIDs := free t (g_s5cTEIDs s)\<rparr>)"

text \<open>The local TEID is released only when the PGW accepted.\<close>

definition s5c_deleteSession :: "sgwc_env \<Rightarrow> sref \<Rightarrow> delete_session_request option \<Rightarrow> (s5c_error + u8) act" where
  "s5c_deleteSession E r req = abind (sess_of r) (\<lambda>sess.
     if ep_TEID (s_PGWControl sess) = 0 then aret (Inr GTP_Accepted)
     else abind (session_pgw sess) (\<lambda>a.
       abind (alloc_seq S5C) (\<lambda>sq.
       abind (s5c_maybeRecoveryIE E a) (\<lambda>recIE.
       abind (attempt (buildDSReq sess req sq recIE)) (\<lambda>raw. case raw of
         Inl e \<Rightarrow> aret (Inl e)
       | Inr raw \<Rightarrow> abind (s5c_ask E a raw MsgTypeDeleteSessionResponse) (\<lambda>r. case r of
           Inl e \<Rightarrow> aret (Inl e)
         | Inr (h, ies, _) \<Rightarrow> abind (attempt (ParseDeleteSessionResponse h ies)) (\<lambda>resp. case resp of
             Inl e \<Rightarrow> aret (Inl (S5C_Decode e))
           | Inr resp \<Rightarrow> abind (deref_ptr (dspCause resp)) (\<lambda>c.
               abind (ignoring 0 (CauseValue c)) (\<lambda>cause.
               athen (awhen (cause = GTP_Accepted \<and> ep_TEID (s_SGWS5C sess) \<noteq> 0) (free_s5c (ep_TEID (s_SGWS5C sess))))
                 (aret (Inr cause)))))))))))"

definition s5c_AllocTEID :: "sgwc_env \<Rightarrow> (teid_error + u32) act" where
  "s5c_AllocTEID E = abind tick (\<lambda>k. abind (aget (\<lambda>s. alloc (en_rand4 E k) (g_s5cTEIDs s))) (\<lambda>(r, a).
     athen (amod (\<lambda>s. s\<lparr>g_s5cTEIDs := a\<rparr>)) (attempt r)))"

definition ReplyToPGW :: "sgwc_env \<Rightarrow> udp_addr \<Rightarrow> bytes \<Rightarrow> (send_error + unit) act" where
  "ReplyToPGW E a raw = gtp_reply E S5C a raw"

section \<open>Echo\<close>

text \<open>The Echo of either leg, with the round trip time and the peer's restart counter. \<open>resolve\<close>
  is \<^verbatim>\<open>net.ResolveUDPAddr\<close> for IPv4.\<close>

datatype echo_error = Echo_Resolve | Echo_Marshal msg_error | Echo_Send send_error | Echo_Parse msg_error | Echo_Type u8

definition SendEcho :: "sgwc_env \<Rightarrow> leg \<Rightarrow> u8 option \<Rightarrow> (string \<Rightarrow> udp_addr option) \<Rightarrow> string \<Rightarrow> u32 \<Rightarrow>
    (echo_error + duration \<times> u8 option) act" where
  "SendEcho E l counter resolve addr sq = (case resolve addr of
     None \<Rightarrow> aret (Inl Echo_Resolve)
   | Some a \<Rightarrow> abind (attempt (MarshalEchoRequest sq counter)) (\<lambda>raw. case raw of
       Inl e \<Rightarrow> aret (Inl (Echo_Marshal e))
     | Inr raw \<Rightarrow>
         abind (clock E) (\<lambda>start.
         abind (gtp_send E l a raw) (\<lambda>r. case r of
           Inl e \<Rightarrow> aret (Inl (Echo_Send e))
         | Inr ans \<Rightarrow> abind (clock E) (\<lambda>now.
             abind (attempt (Parse (case ans of Some (b, _) \<Rightarrow> b | None \<Rightarrow> []))) (\<lambda>p. case p of
               Inl e \<Rightarrow> aret (Inl (Echo_Parse e))
             | Inr (h, ies) \<Rightarrow>
                 if hMessageType h \<noteq> MsgTypeEchoResponse then aret (Inl (Echo_Type (hMessageType h)))
                 else abind (recoveryIEValuePtr (erpRecovery (ParseEchoResponse h ies))) (\<lambda>rec.
                   aret (Inr (time_sub now start, rec)))))))))"

section \<open>Causes\<close>

definition cause_names :: "(u8 \<times> string) list" where
  "cause_names = [(16, ''Request accepted''), (17, ''Request accepted partially''), (64, ''Context not found''),
     (65, ''Invalid message format''), (66, ''Version not supported by next peer''), (67, ''Invalid length''),
     (69, ''Mandatory IE incorrect''), (70, ''Mandatory IE missing''), (72, ''System failure''),
     (73, ''No resources available''), (78, ''Missing or unknown APN''), (103, ''Conditional IE missing'')]"

definition causeText :: "u8 \<Rightarrow> string" where
  "causeText c = (case map_of cause_names c of Some t \<Rightarrow> t | None \<Rightarrow> ''Unknown cause'')"

definition ie_names :: "(u8 \<times> string) list" where
  "ie_names = [(TypeIMSI, ''IMSI''), (TypeCause, ''Cause''), (TypeRecovery, ''Recovery''), (TypeAPN, ''APN''),
     (TypeAMBR, ''AMBR''), (TypeEBI, ''EBI''), (TypeMEI, ''MEI''), (TypeMSISDN, ''MSISDN''), (TypeIndication, ''Indication''),
     (TypePCO, ''PCO''), (TypePAA, ''PAA''), (TypeBearerQoS, ''Bearer QoS''), (TypeRATType, ''RAT Type''),
     (TypeServingNetwork, ''Serving Network''), (TypeULI, ''ULI''), (TypeFTEID, ''F-TEID''),
     (TypeBearerContext, ''Bearer Context''), (TypeChargingID, ''Charging ID''),
     (TypeChargingChars, ''Charging Characteristics''), (TypePDNType, ''PDN Type''), (TypePTI, ''PTI''),
     (TypeUETimeZone, ''UE Time Zone''), (TypeAPNRestriction, ''APN Restriction''), (TypeSelectionMode, ''Selection Mode'')]"

definition ieName :: "u8 \<Rightarrow> string" where
  "ieName t = (case map_of ie_names t of Some n \<Rightarrow> n | None \<Rightarrow> ''Unknown IE'')"

definition no_description :: cause_description where
  "no_description = \<lparr>cd_CauseText = [], cd_OffendingIEType = 0, cd_OffendingIEName = [], cd_OffendingIEInstance = 0\<rparr>"

text \<open>\<open>name\<close> is the table of element names: the client and the bearer handler have one each.\<close>

definition describeCause :: "(u8 \<Rightarrow> string) \<Rightarrow> ie option \<Rightarrow> cause_description" where
  "describeCause name i = (case i of
     None \<Rightarrow> no_description
   | Some i \<Rightarrow> (case CauseValue i of
       Ok c \<Rightarrow> let d = no_description\<lparr>cd_CauseText := causeText c\<rparr>; v = ieValue i in
         if length v \<ge> 6 then d\<lparr>cd_OffendingIEType := v ! 2, cd_OffendingIEInstance := v ! 5 AND 0x0F,
           cd_OffendingIEName := name (v ! 2)\<rparr> else d
     | _ \<Rightarrow> no_description))"

end
