(* ===== verification/S11_Common.thy ===== *)
theory S11_Common
  imports S5C_Client
begin

text \<open>
  What the handlers of the S11 interface share: starting and finishing a procedure under the
  collision rules and the policy for peers that are down (\<^verbatim>\<open>internal/sgwc/s11/collision.go\<close>),
  reading bearer contexts, the PFCP exchanges of the default bearer, the Recovery element of a new peer
  and the error answers (\<^verbatim>\<open>internal/sgwc/s11/handler.go\<close>). A decoder that cannot panic is read
  with \<open>got\<close>, which is \<open>None\<close> after an error; lemma \<open>decoders_total\<close> says that nothing is
  hidden by that.
\<close>

section \<open>Decoding\<close>

definition got :: "('e, 'a) outcome \<Rightarrow> 'a option" where
  "got r = (case r of Ok x \<Rightarrow> Some x | _ \<Rightarrow> None)"

definition got_or :: "'a \<Rightarrow> ('e, 'a) outcome \<Rightarrow> 'a" where
  "got_or z r = (case r of Ok x \<Rightarrow> x | _ \<Rightarrow> z)"

lemma decoders_total:
  "ChildIEs i \<noteq> Panic" "EBIValue i \<noteq> Panic" "CauseValue i \<noteq> Panic" "FTEIDValue i \<noteq> Panic" "RATTypeValue i \<noteq> Panic"
  "ServingNetworkValue i \<noteq> Panic" "RecoveryValue i \<noteq> Panic" "PAAValue i \<noteq> Panic" "Children c \<noteq> Panic"
  by (simp_all add: ChildIEs_def parse_no_panic EBIValue_def CauseValue_def RATTypeValue_def RecoveryValue_def
    octet_value_no_panic FTEIDValue_no_panic PAAValue_no_panic ServingNetworkValue_no_panic Children_no_panic)

text \<open>The children of a bearer context, its EBI, and the F-TEID of an instance.\<close>

definition children_of :: "ie \<Rightarrow> ie list option" where
  "children_of bc = got (ChildIEs bc)"

definition context_ebi :: "ie \<Rightarrow> u8 option" where
  "context_ebi bc = Option.bind (children_of bc) (\<lambda>cs. Option.bind (FindFirst cs TypeEBI) (\<lambda>i. got (EBIValue i)))"

definition fteid_at :: "ie list \<Rightarrow> u8 \<Rightarrow> ep_fteid option" where
  "fteid_at cs inst = Option.bind (FindInstance cs TypeFTEID inst) (\<lambda>i. map_option fteid_ep (got (FTEIDValue i)))"

definition add_ebi :: "u8 \<Rightarrow> u8 list \<Rightarrow> u8 list" where
  "add_ebi e es = (if e \<in> set es then es else es @ [e])"

definition bearerContextEBIs :: "ie list \<Rightarrow> u8 list" where
  "bearerContextEBIs bcs = fold (\<lambda>bc es. case context_ebi bc of None \<Rightarrow> es | Some e \<Rightarrow> add_ebi e es) bcs []"

definition ebiIEsToValues :: "ie list \<Rightarrow> u8 list" where
  "ebiIEsToValues ies = fold (\<lambda>i es. case got (EBIValue i) of None \<Rightarrow> es | Some e \<Rightarrow> add_ebi e es) ies []"

definition peerTEIDFromIEs :: "ie list \<Rightarrow> u32" where
  "peerTEIDFromIEs ies = (case fteid_at ies 0 of Some f \<Rightarrow> ep_TEID f | None \<Rightarrow> 0)"

definition arp_of_qos :: "bytes \<Rightarrow> arp" where
  "arp_of_qos v = \<lparr>PriorityLevel = drop_bit 2 (v ! 0) AND 0x0F, PreemptionCapability = (v ! 0 AND 0x40 \<noteq> 0),
     PreemptionVulnerability = (v ! 0 AND 0x01 \<noteq> 0)\<rparr>"

definition no_arp :: arp where
  "no_arp = \<lparr>PriorityLevel = 0, PreemptionCapability = False, PreemptionVulnerability = False\<rparr>"

definition extractDefaultBearer :: "ie list \<Rightarrow> u8 \<times> u8 \<times> arp" where
  "extractDefaultBearer bcs = (case bcs of
     [] \<Rightarrow> (5, 9, no_arp\<lparr>PriorityLevel := 9\<rparr>)
   | bc # _ \<Rightarrow> (case children_of bc of
       None \<Rightarrow> (5, 9, no_arp\<lparr>PriorityLevel := 9\<rparr>)
     | Some cs \<Rightarrow>
         let ebi = (case FindFirst cs TypeEBI of None \<Rightarrow> 0 | Some i \<Rightarrow> got_or 0 (EBIValue i));
             (qci, a) = (case FindFirst cs TypeBearerQoS of
                Some q \<Rightarrow> if length (ieValue q) \<ge> 2 then (ieValue q ! 1, arp_of_qos (ieValue q)) else (0, no_arp)
              | None \<Rightarrow> (0, no_arp))
         in (if ebi = 0 then 5 else ebi, if qci = 0 then 9 else qci, a)))"

section \<open>Procedures\<close>

definition collisionModeFromConfig :: "sgwc_env \<Rightarrow> collision_mode" where
  "collisionModeFromConfig E = (case en_cfg E of None \<Rightarrow> ModeStrict
     | Some c \<Rightarrow> if cfg_CollisionMode c = ModeEmpty then ModeStrict else cfg_CollisionMode c)"

definition collisionTimeoutFromConfig :: "sgwc_env \<Rightarrow> duration" where
  "collisionTimeoutFromConfig E = (case en_cfg E of None \<Rightarrow> DefaultActiveProcedureTimeout
     | Some c \<Rightarrow> if cfg_ActiveProcedureTimeoutSeconds c \<le> 0 then DefaultActiveProcedureTimeout
         else cfg_ActiveProcedureTimeoutSeconds c * time_second)"

definition warnOnDownPeerProcedureFromConfig :: "sgwc_env \<Rightarrow> bool" where
  "warnOnDownPeerProcedureFromConfig E = (case en_cfg E of None \<Rightarrow> True | Some c \<Rightarrow> cfg_WarnOnDownPeerProcedure c)"

definition blockNewProceduresToDownPGWFromConfig :: "sgwc_env \<Rightarrow> bool" where
  "blockNewProceduresToDownPGWFromConfig E = (case en_cfg E of None \<Rightarrow> False
     | Some c \<Rightarrow> cfg_PGWFailureEnabled c \<and> cfg_BlockNewProceduresToDownPGW c)"

definition operationTimeout :: "sgwc_env \<Rightarrow> duration" where
  "operationTimeout E = (case en_cfg E of
     Some c \<Rightarrow> if cfg_T3ResponseSeconds c > 0 \<and> cfg_N3Requests c > 0
       then cfg_T3ResponseSeconds c * cfg_N3Requests c * time_second else 15 * time_second
   | None \<Rightarrow> 15 * time_second)"

fun peerRoleForProcedureOwner :: "owner \<Rightarrow> string option" where
  "peerRoleForProcedureOwner OwnerMME = Some RoleMME"
| "peerRoleForProcedureOwner OwnerPGW = Some RolePGW"
| "peerRoleForProcedureOwner _ = None"

definition down_peer_blocks :: "sgwc_env \<Rightarrow> request \<Rightarrow> health_table option \<Rightarrow> bool" where
  "down_peer_blocks E req t = (t \<noteq> None \<and> (case peerRoleForProcedureOwner (rOwner req) of
     None \<Rightarrow> False
   | Some role \<Rightarrow> health_State role (rPeer req) t = (HealthDown, True) \<and>
       blockNewProceduresToDownPGWFromConfig E \<and> rOwner req = OwnerPGW))"

definition allowPeerProcedure :: "sgwc_env \<Rightarrow> request \<Rightarrow> bool act" where
  "allowPeerProcedure E req = abind (aget g_health) (\<lambda>t. aret (\<not> down_peer_blocks E req t))"

definition finishProcedure :: "sref \<Rightarrow> active_procedure \<Rightarrow> unit act" where
  "finishProcedure r proc =
     (if apID proc = 0 then aret ()
      else athen (call_session r C_ProcedureTracker)
        (abind (sess_of r) (\<lambda>s. set_tracker r (finish proc (s_Procedures s)))))"

text \<open>The result is the procedure, or \<open>None\<close> when it may not start.\<close>

definition beginProcedure :: "sgwc_env \<Rightarrow> sref \<Rightarrow> request \<Rightarrow> active_procedure option act" where
  "beginProcedure E r req =
     athen (call_session r C_ProcedureTracker)
     (abind (sess_of r) (\<lambda>s.
      abind (clock E) (\<lambda>now.
      abind (clock E) (\<lambda>now'.
      let t1 = configure (collisionModeFromConfig E) (collisionTimeoutFromConfig E) (s_Procedures s);
          t2 = snd (sweepExpired now t1);
          (t3, proc, d) = begin_proc now' t2 req
      in athen (set_tracker r t3)
        (if dAction d \<noteq> ActionAllow then aret None
         else abind (allowPeerProcedure E req) (\<lambda>ok.
           if ok then aret (Some proc)
           else athen (set_tracker r (finish proc t3)) (aret None)))))))"

definition procedure_request :: "owner \<Rightarrow> procedure \<Rightarrow> string \<Rightarrow> u32 \<Rightarrow> u32 \<Rightarrow> u8 list \<Rightarrow> request" where
  "procedure_request ow p peer teid sq ebis = \<lparr>rProcedure = p, rOwner = ow, rPeer = peer, rTEID = teid, rSeq = sq,
     rEBIs = ebis, rReason = []\<rparr>"

definition mmeProcedureRequest :: "procedure \<Rightarrow> udp_addr \<Rightarrow> u32 \<Rightarrow> u32 \<Rightarrow> u8 list \<Rightarrow> request" where
  "mmeProcedureRequest p a = procedure_request OwnerMME p (hostport a)"

definition pgwProcedureRequest :: "procedure \<Rightarrow> udp_addr \<Rightarrow> u32 \<Rightarrow> u32 \<Rightarrow> u8 list \<Rightarrow> request" where
  "pgwProcedureRequest p a = procedure_request OwnerPGW p (hostport a)"

definition pgwAddrFromSession :: "sgw_session \<Rightarrow> string" where
  "pgwAddrFromSession s =
     (if pf_PGWAddr (s_PGWFailure s) \<noteq> [] then pf_PGWAddr (s_PGWFailure s)
      else if isValid (ep_IPv4 (s_PGWControl s)) then joinHostPort (addr_String (ep_IPv4 (s_PGWControl s))) ''2123''
      else [])"

section \<open>Answers\<close>

definition s11_maybeRecoveryIE :: "sgwc_env \<Rightarrow> udp_addr \<Rightarrow> ie option act" where
  "s11_maybeRecoveryIE E a = abind (deref_ptr (en_recovery E)) (\<lambda>cur. abind (aget g_s11Seen) (\<lambda>seen.
     if mget seen (hostport a) = Some cur then aret None
     else athen (amod (\<lambda>s. s\<lparr>g_s11Seen := mput (hostport a) cur seen\<rparr>)) (aret (Some (NewRecovery cur)))))"

text \<open>A message that cannot be marshalled is only logged.\<close>

definition reply_marshalled :: "sgwc_env \<Rightarrow> leg \<Rightarrow> udp_addr \<Rightarrow> bytes msg_result \<Rightarrow> unit act" where
  "reply_marshalled E l a m = abind (attempt m) (\<lambda>r. case r of Inl _ \<Rightarrow> aret () | Inr raw \<Rightarrow> reply E l a raw)"

definition reply_raw :: "sgwc_env \<Rightarrow> udp_addr \<Rightarrow> bytes msg_result \<Rightarrow> unit act" where
  "reply_raw E a m = abind (raw_of m) (reply E S11 a)"

definition sendCauseWithOffending :: "sgwc_env \<Rightarrow> udp_addr \<Rightarrow> header \<Rightarrow> u32 \<Rightarrow> u8 \<Rightarrow> ie option \<Rightarrow> unit act" where
  "sendCauseWithOffending E a h peerTEID cause offending = (case ResponseTypeFor (hMessageType h) of
     None \<Rightarrow> aret ()
   | Some t \<Rightarrow> reply_marshalled E S11 a (Marshal (mk_header (hHasTEID h) t peerTEID (hSequenceNumber h))
       [NewCause cause 0 0 0 offending]))"

definition sendCause :: "sgwc_env \<Rightarrow> udp_addr \<Rightarrow> header \<Rightarrow> u32 \<Rightarrow> u8 \<Rightarrow> unit act" where
  "sendCause E a h peerTEID cause = sendCauseWithOffending E a h peerTEID cause None"

definition sendMissingIECause :: "sgwc_env \<Rightarrow> udp_addr \<Rightarrow> header \<Rightarrow> u32 \<Rightarrow> msg_error \<Rightarrow> unit act" where
  "sendMissingIECause E a h peerTEID e = (case e of
     MissingIE t _ \<Rightarrow> sendCauseWithOffending E a h peerTEID GTP_MandatoryIEMissing (Some (mkIE t 0 []))
   | _ \<Rightarrow> sendCauseWithOffending E a h peerTEID GTP_InvalidMessageFormat None)"

section \<open>PFCP rules of the default bearer\<close>

abbreviation (input) pfcp_DROP :: u8 where "pfcp_DROP \<equiv> 0x01"
abbreviation (input) pfcp_FORW :: u8 where "pfcp_FORW \<equiv> 0x02"
abbreviation (input) pfcp_Access :: u8 where "pfcp_Access \<equiv> 0"
abbreviation (input) pfcp_Core :: u8 where "pfcp_Core \<equiv> 1"

definition downlinkPFCPRuleIDs :: "sgw_session \<Rightarrow> bearer \<Rightarrow> (u16 \<times> u32) option" where
  "downlinkPFCPRuleIDs s b =
     (let pdr = ucast (snd (b_PDRIDs b)) :: u16; far = snd (b_FARIDs b) in
      if pdr \<noteq> 0 \<and> far \<noteq> 0 then Some (pdr, far)
      else if b_EBI b = s_DefaultBearerID s then Some (2, 2) else None)"

definition drop_change :: "u16 \<times> u32 \<Rightarrow> far_change" where
  "drop_change ids = \<lparr>fc_FARID = snd ids, fc_PDRID = fst ids, fc_ApplyAction = pfcp_DROP, fc_DestInterface = 0,
     fc_OuterTEID = 0, fc_OuterIP = NoAddr, fc_OuterHeaderRemoval = False\<rparr>"

definition forward_change :: "u16 \<times> u32 \<Rightarrow> u8 \<Rightarrow> ep_fteid \<Rightarrow> far_change" where
  "forward_change ids dest f = \<lparr>fc_FARID = snd ids, fc_PDRID = fst ids, fc_ApplyAction = pfcp_FORW, fc_DestInterface = dest,
     fc_OuterTEID = ep_TEID f, fc_OuterIP = ep_IPv4 f, fc_OuterHeaderRemoval = True\<rparr>"

text \<open>Empty when a bearer has no downlink rule.\<close>

fun far_updates :: "sgw_session \<Rightarrow> bearer list \<Rightarrow> far_change list option" where
  "far_updates s [] = Some []"
| "far_updates s (b # bs) = Option.bind (downlinkPFCPRuleIDs s b) (\<lambda>ids. map_option ((#) (drop_change ids)) (far_updates s bs))"

definition releaseAccessBearerFARUpdates :: "sgw_session \<Rightarrow> far_change list option" where
  "releaseAccessBearerFARUpdates s = far_updates s (BearerList s)"

record pfcp_session_result =
  ps_peerName :: string
  ps_peerAddr :: string
  ps_cpSEID :: u64
  ps_upSEID :: u64
  ps_sgwUS1U :: ep_fteid
  ps_sgwUS5U :: ep_fteid

text \<open>The PDR ID and the F-TEID of a Created PDR.\<close>

definition created_fteid :: "pfcp_ie \<Rightarrow> (u16 \<times> ep_fteid) option" where
  "created_fteid c = (case Children c of
     Ok cs \<Rightarrow> (case (pfcp_Find cs pfcp_TypePDRID, pfcp_Find cs pfcp_TypeFTEID) of
         (Some p, Some f) \<Rightarrow> (case FTEIDPFCPValue f of
             Ok (v, _) \<Rightarrow> Some (value_or0 (PDRIDValue p), \<lparr>ep_TEID = pft_TEID v, ep_IPv4 = pft_IPv4 v\<rparr>)
           | _ \<Rightarrow> None)
       | _ \<Rightarrow> None)
   | _ \<Rightarrow> None)"

definition create_pdr :: "u16 \<Rightarrow> u32 \<Rightarrow> u8 \<Rightarrow> u32 \<Rightarrow> pfcp_ie \<Rightarrow> pfcp_ie" where
  "create_pdr pdr prec src far qos = NewCreatePDR [NewPDRID pdr, NewPrecedence prec,
     NewPDI [NewSourceInterface src, NewFTEIDChoose], NewFARID far, qos]"

definition create_far_drop :: "u32 \<Rightarrow> pfcp_ie" where
  "create_far_drop far = NewCreateFAR [NewFARID far, NewApplyAction pfcp_DROP]"

definition provisional_params :: "sgwc_env \<Rightarrow> u64 \<Rightarrow> sgw_session \<Rightarrow> session_params" where
  "provisional_params E cpSEID s =
     (let qos = (case GetBearer (s_DefaultBearerID s) s of
           Some b \<Rightarrow> if b_QCI b \<noteq> 0 then NewVectorCoreQoSMarking (b_EBI b) (b_QCI b) True
             else NewVectorCoreQoSMarking (s_DefaultBearerID s) 0 False
         | None \<Rightarrow> NewVectorCoreQoSMarking (s_DefaultBearerID s) 0 False)
      in \<lparr>sp_LocalIP = en_localIP E, sp_CPFSEID = cpSEID,
          sp_CreatePDRs = [create_pdr 1 100 pfcp_Access 1 qos, create_pdr 2 200 pfcp_Core 2 qos],
          sp_CreateFARs = [create_far_drop 1, create_far_drop 2]\<rparr>)"

definition note_created :: "pfcp_ie \<Rightarrow> pfcp_session_result \<Rightarrow> pfcp_session_result" where
  "note_created c res = (case created_fteid c of
     Some (i, f) \<Rightarrow> if i = 1 then res\<lparr>ps_sgwUS1U := f\<rparr> else if i = 2 then res\<lparr>ps_sgwUS5U := f\<rparr> else res
   | None \<Rightarrow> res)"

definition establishProvisionalPFCPSession :: "sgwc_env \<Rightarrow> sref \<Rightarrow> (client_error + pfcp_session_result) act" where
  "establishProvisionalPFCPSession E r =
     abind alloc_cpseid (\<lambda>cpSEID. abind (sess_of r) (\<lambda>s.
     abind (pfcp_establish E (provisional_params E cpSEID s)) (\<lambda>res. aret (case res of
         Inl e \<Rightarrow> Inl e
       | Inr res \<Rightarrow> Inr (fold note_created (sr_CreatedPDRs res)
           \<lparr>ps_peerName = sr_PeerName res, ps_peerAddr = sr_PeerAddr res, ps_cpSEID = cpSEID, ps_upSEID = sr_UPSEID res,
            ps_sgwUS1U = noFTEID, ps_sgwUS5U = noFTEID\<rparr>)))))"

definition modifyPFCPUplinkFAR :: "sgwc_env \<Rightarrow> string \<Rightarrow> u64 \<Rightarrow> ep_fteid \<Rightarrow> (client_error + unit) act" where
  "modifyPFCPUplinkFAR E a up f = pfcp_modify E a up [forward_change (1, 1) pfcp_Core f]"

text \<open>A session has a usable binding to an SGW-U.\<close>

definition bound :: "sgw_session \<Rightarrow> bool" where
  "bound s \<longleftrightarrow> Established (s_PFCP s) \<and> SEID (SGWUFSEID (s_PFCP s)) \<noteq> 0"

definition peer_addr :: "sgw_session \<Rightarrow> string" where
  "peer_addr s = SGWUAddr (s_PFCP s)"

definition up_seid :: "sgw_session \<Rightarrow> u64" where
  "up_seid s = SEID (SGWUFSEID (s_PFCP s))"

end
