(* ===== verification/S11_Transactions.thy ===== *)
theory S11_Transactions
  imports S11_Common
begin

text \<open>
  The bookkeeping of PGW-initiated Create Bearer procedures,
  \<^verbatim>\<open>internal/sgwc/s11/bearer_handler.go\<close>: the transactions, found by the request's key or by
  a fingerprint of its bearer contexts, whose answer is kept; the marks of what was rolled back on the
  SGW-U; and the guard that answers a procedure that failed before without running it again.
  SHA-256 is an argument.
\<close>

section \<open>Keys\<close>

text \<open>An IPv4 address may come in its mapped form.\<close>

definition peer_ip :: "udp_addr \<Rightarrow> ip_addr" where
  "peer_ip a = (case uaIP a of IP6 w \<Rightarrow> if drop_bit 32 w = 0xFFFF then IP4 (ucast w) else IP6 w | x \<Rightarrow> x)"

definition newCreateBearerTxnKey :: "udp_addr \<Rightarrow> header \<Rightarrow> cb_txn_key" where
  "newCreateBearerTxnKey a h = \<lparr>ck_peerIP = peer_ip a, ck_peerPort = of_nat (uaPort a), ck_localS5CTEID = hTEID h,
     ck_msgType = hMessageType h, ck_sequence = hSequenceNumber h\<rparr>"

definition newCreateBearerFingerprintKey :: "sgwc_env \<Rightarrow> udp_addr \<Rightarrow> header \<Rightarrow> u8 \<Rightarrow> ie list \<Rightarrow> cb_fingerprint" where
  "newCreateBearerFingerprintKey E a h lbi bcs =
     (let key = newCreateBearerTxnKey a h in
      \<lparr>cf_peerIP = ck_peerIP key, cf_peerPort = ck_peerPort key, cf_localS5CTEID = ck_localS5CTEID key, cf_lbi = lbi,
       cf_bodyHash = en_sha256 E (concat (map IE_Marshal bcs))\<rparr>)"

definition context_signature :: "ie \<Rightarrow> bytes" where
  "context_signature bc = (case children_of bc of
     None \<Rightarrow> IE_Marshal bc
   | Some cs \<Rightarrow>
       (case FindFirst cs TypeBearerTFT of Some i \<Rightarrow> [1, ieInstance i] @ ieValue i | None \<Rightarrow> [0, TypeBearerTFT]) @
       (case FindFirst cs TypeBearerQoS of Some i \<Rightarrow> [1, ieInstance i] @ ieValue i | None \<Rightarrow> [0, TypeBearerQoS]) @
       (case FindInstance cs TypeFTEID 1 of
          Some i \<Rightarrow> (case got (FTEIDValue i) of
              Some f \<Rightarrow> [1, fIntfType f] @ (case fIPv4 f of IP4 w \<Rightarrow> be32 w | _ \<Rightarrow> [])
            | None \<Rightarrow> [])
        | None \<Rightarrow> [0, TypeFTEID, 1]))"

definition newCreateBearerProcedureKey :: "sgwc_env \<Rightarrow> udp_addr \<Rightarrow> header \<Rightarrow> sgw_session \<Rightarrow> u8 \<Rightarrow> ie list \<Rightarrow> cb_procedure_key" where
  "newCreateBearerProcedureKey E a h s lbi bcs =
     (let key = newCreateBearerTxnKey a h in
      \<lparr>cq_sessionID = s_SessionID s, cq_imsi = s_IMSI s, cq_apn = s_APN s, cq_peerIP = ck_peerIP key,
       cq_peerPort = ck_peerPort key, cq_localS5CTEID = ck_localS5CTEID key, cq_linkedEBI = lbi,
       cq_bearerCount = length bcs, cq_sigHash = en_sha256 E (concat (map context_signature bcs))\<rparr>)"

section \<open>Transactions\<close>

datatype txn_action = TxnNew | TxnPending | TxnCached | TxnFingerprintPending | TxnFingerprintCached

definition update_txn :: "nat \<Rightarrow> (cb_txn \<Rightarrow> cb_txn) \<Rightarrow> unit act" where
  "update_txn i f = amod (\<lambda>s. s\<lparr>g_txns := (g_txns s)[i := f (g_txns s ! i)]\<rparr>)"

definition txn_of :: "nat \<Rightarrow> cb_txn act" where
  "txn_of i = aget (\<lambda>s. g_txns s ! i)"

definition touch_txn :: "sgwc_env \<Rightarrow> nat \<Rightarrow> unit act" where
  "touch_txn E i = abind (clock E) (\<lambda>now. update_txn i (\<lambda>t. t\<lparr>tx_updatedAt := now\<rparr>))"

definition answered :: "txn_action \<Rightarrow> txn_action \<Rightarrow> nat \<Rightarrow> (nat \<times> txn_action) act" where
  "answered cached pending i = abind (txn_of i) (\<lambda>t. aret (i, if tx_s5cResponse t \<noteq> [] then cached else pending))"

definition findCreateBearerTxn :: "sgwc_env \<Rightarrow> udp_addr \<Rightarrow> header \<Rightarrow> (nat \<times> txn_action) option act" where
  "findCreateBearerTxn E a h = abind (aget g_cbTxns) (\<lambda>m. case mget m (newCreateBearerTxnKey a h) of
     None \<Rightarrow> aret None
   | Some i \<Rightarrow> athen (touch_txn E i) (abind (answered TxnCached TxnPending i) (\<lambda>x. aret (Some x))))"

definition new_txn :: "cb_txn_key \<Rightarrow> cb_fingerprint \<Rightarrow> string \<Rightarrow> bytes \<Rightarrow> gtime \<Rightarrow> cb_txn" where
  "new_txn key fp sid raw now = \<lparr>tx_key = key, tx_fingerprint = fp, tx_procedureKey = no_procedure_key, tx_sessionID = sid,
     tx_status = cbTxnPending, tx_originalRequest = raw, tx_provisionedBearers = [], tx_pfcpProvisionalDone = False,
     tx_pfcpRolledBack = [], tx_s5cResponse = [], tx_s5cCause = 0, tx_createdAt = now, tx_updatedAt = now\<rparr>"

definition beginCreateBearerTxnWithFingerprint :: "sgwc_env \<Rightarrow> udp_addr \<Rightarrow> header \<Rightarrow> bytes \<Rightarrow> sgw_session \<Rightarrow> cb_fingerprint \<Rightarrow>
    (nat \<times> txn_action) act" where
  "beginCreateBearerTxnWithFingerprint E a h raw sess fp =
     (let key = newCreateBearerTxnKey a h in
      abind (aget g_cbTxns) (\<lambda>m. abind (aget g_cbFPs) (\<lambda>fps. case mget m key of
        Some i \<Rightarrow> athen (touch_txn E i) (answered TxnCached TxnPending i)
      | None \<Rightarrow> (case (if fp = no_fingerprint then None else mget fps fp) of
          Some i \<Rightarrow> athen (athen (touch_txn E i) (amod (\<lambda>s. s\<lparr>g_cbTxns := mput key i m\<rparr>)))
            (answered TxnFingerprintCached TxnFingerprintPending i)
        | None \<Rightarrow> abind (clock E) (\<lambda>now. abind (aget (\<lambda>s. length (g_txns s))) (\<lambda>i.
            athen (amod (\<lambda>s. s\<lparr>g_txns := g_txns s @ [new_txn key fp (s_SessionID sess) raw now],
                g_cbTxns := mput key i m, g_cbFPs := (if fp = no_fingerprint then fps else mput fp i fps)\<rparr>))
              (aret (i, TxnNew))))))))"

definition with_txn :: "cb_txn_key \<Rightarrow> 'a \<Rightarrow> (nat \<Rightarrow> 'a act) \<Rightarrow> 'a act" where
  "with_txn key z f = abind (aget g_cbTxns) (\<lambda>m. case mget m key of None \<Rightarrow> aret z | Some i \<Rightarrow> f i)"

definition markCreateBearerTxnProvisioned :: "sgwc_env \<Rightarrow> cb_txn_key \<Rightarrow> bearer_provisioning list \<Rightarrow> unit act" where
  "markCreateBearerTxnProvisioned E key provs = with_txn key () (\<lambda>i.
     athen (update_txn i (\<lambda>t. t\<lparr>tx_provisionedBearers := provs, tx_pfcpProvisionalDone := True\<rparr>)) (touch_txn E i))"

definition setCreateBearerTxnProcedureKey :: "sgwc_env \<Rightarrow> cb_txn_key \<Rightarrow> cb_procedure_key \<Rightarrow> unit act" where
  "setCreateBearerTxnProcedureKey E key pk = with_txn key () (\<lambda>i.
     athen (update_txn i (\<lambda>t. t\<lparr>tx_procedureKey := pk\<rparr>)) (touch_txn E i))"

text \<open>Whether the rules are still to be removed.\<close>

definition markCreateBearerTxnRolledBack :: "sgwc_env \<Rightarrow> cb_txn_key \<Rightarrow> bearer_provisioning \<Rightarrow> bool act" where
  "markCreateBearerTxnRolledBack E key p = with_txn key True (\<lambda>i. abind (txn_of i) (\<lambda>t.
     if pv_rule p \<in> set (tx_pfcpRolledBack t) then athen (touch_txn E i) (aret False)
     else athen (athen (update_txn i (\<lambda>t. t\<lparr>tx_pfcpRolledBack := pv_rule p # tx_pfcpRolledBack t\<rparr>)) (touch_txn E i)) (aret True)))"

definition completeCreateBearerTxn :: "sgwc_env \<Rightarrow> cb_txn_key \<Rightarrow> bytes \<Rightarrow> u8 \<Rightarrow> unit act" where
  "completeCreateBearerTxn E key resp cause = with_txn key () (\<lambda>i.
     athen (update_txn i (\<lambda>t. t\<lparr>tx_s5cResponse := resp, tx_s5cCause := cause,
         tx_status := (if cause = GTP_Accepted \<or> cause = GTP_AcceptedPartially then cbTxnCompleted else cbTxnFailed)\<rparr>))
       (touch_txn E i))"

definition cloneCreateBearerResponseForSequence :: "bytes \<Rightarrow> u32 \<Rightarrow> bytes msg_result" where
  "cloneCreateBearerResponseForSequence raw sq = obind (Parse raw) (\<lambda>(h, ies). Marshal (h\<lparr>hSequenceNumber := sq\<rparr>) ies)"

section \<open>The retry guard\<close>

definition createBearerRetryGuardEnabled :: "sgwc_env \<Rightarrow> bool" where
  "createBearerRetryGuardEnabled E = (case en_cfg E of None \<Rightarrow> True | Some c \<Rightarrow> cfg_CreateBearerRetryGuardEnabled c)"

definition findLatchedCreateBearerProcedureFailure :: "sgwc_env \<Rightarrow> cb_procedure_key \<Rightarrow> cb_failure option act" where
  "findLatchedCreateBearerProcedureFailure E key =
     (if \<not> createBearerRetryGuardEnabled E \<or> key = no_procedure_key then aret None
      else abind (clock E) (\<lambda>now. abind (aget g_cbProcFailures) (\<lambda>m. case mget m key of
        None \<Rightarrow> aret None
      | Some f \<Rightarrow>
          let n = fl_suppressedCount f + 1; lg = (n \<le> 3 \<or> time_sub now (fl_lastSuppressLog f) \<ge> 5 * time_second);
              f1 = f\<lparr>fl_lastSeen := now, fl_suppressedCount := n, fl_logSuppression := lg,
                fl_lastSuppressLog := (if lg then now else fl_lastSuppressLog f)\<rparr>
          in athen (amod (\<lambda>s. s\<lparr>g_cbProcFailures := mput key f1 m\<rparr>)) (aret (Some f1)))))"

definition rememberCreateBearerProcedureFailure :: "sgwc_env \<Rightarrow> cb_procedure_key \<Rightarrow> u8 \<Rightarrow> cause_description \<Rightarrow> unit act" where
  "rememberCreateBearerProcedureFailure E key cause d =
     (if \<not> createBearerRetryGuardEnabled E \<or> key = no_procedure_key then aret ()
      else abind (clock E) (\<lambda>now. amod (\<lambda>s.
        let m = g_cbProcFailures s in
        s\<lparr>g_cbProcFailures := mput key (case mget m key of
            Some f \<Rightarrow> f\<lparr>fl_state := ''failed_latched'', fl_lastFailureCause := cause, fl_lastFailureText := cd_CauseText d,
              fl_offendingIEType := cd_OffendingIEType d, fl_offendingIEName := cd_OffendingIEName d, fl_lastSeen := now\<rparr>
          | None \<Rightarrow> \<lparr>fl_key = key, fl_state = ''failed_latched'', fl_lastFailureCause = cause,
              fl_lastFailureText = cd_CauseText d, fl_offendingIEType = cd_OffendingIEType d,
              fl_offendingIEName = cd_OffendingIEName d, fl_firstSeen = now, fl_lastSeen = now, fl_lastSuppressLog = 0,
              fl_suppressedCount = 0, fl_logSuppression = False\<rparr>) m\<rparr>)))"

definition clearCreateBearerProcedureFailuresForSession :: "string \<Rightarrow> unit act" where
  "clearCreateBearerProcedureFailuresForSession sid =
     (if sid = [] then aret ()
      else amod (\<lambda>s. s\<lparr>g_cbProcFailures := filter (\<lambda>(k, _). cq_sessionID k \<noteq> sid) (g_cbProcFailures s)\<rparr>))"

definition gtpcIEName :: "u8 \<Rightarrow> string" where
  "gtpcIEName t = (if t = TypeEBI then ''EPS Bearer ID'' else if t = TypeBearerTFT then ''Bearer TFT'' else ieName t)"

definition gtpc_describe :: "ie option \<Rightarrow> cause_description" where
  "gtpc_describe i = describeCause gtpcIEName i"

definition cause_only :: "u8 \<Rightarrow> cause_description" where
  "cause_only c = no_description\<lparr>cd_CauseText := causeText c\<rparr>"

section \<open>Removing what was provisioned\<close>

definition rule_pdrs :: "cb_rule_key \<Rightarrow> u32 list" where
  "rule_pdrs r = [ucast (ru_pdrUL r), ucast (ru_pdrDL r)]"

definition rule_fars :: "cb_rule_key \<Rightarrow> u32 list" where
  "rule_fars r = [ru_farUL r, ru_farDL r]"

definition remove_rules :: "sgwc_env \<Rightarrow> sref \<Rightarrow> u32 list \<Rightarrow> u32 list \<Rightarrow> unit act" where
  "remove_rules E r pdrs fars = abind (sess_of r) (\<lambda>s.
     abind (pfcp_remove_rules E (peer_addr s) (up_seid s) pdrs fars) (\<lambda>_. aret ()))"

definition removeProvisionedBearerRules :: "sgwc_env \<Rightarrow> sref \<Rightarrow> cb_rule_key \<Rightarrow> unit act" where
  "removeProvisionedBearerRules E r ru = abind (sess_of r) (\<lambda>s.
     if \<not> Established (s_PFCP s) then aret () else remove_rules E r (rule_pdrs ru) (rule_fars ru))"

definition removeAllCreateBearerTxnProvisioning :: "sgwc_env \<Rightarrow> cb_txn_key \<Rightarrow> sref \<Rightarrow> bearer_provisioning list \<Rightarrow> unit act" where
  "removeAllCreateBearerTxnProvisioning E key r provs =
     abind (aloop (\<lambda>p ids. abind (markCreateBearerTxnRolledBack E key p) (\<lambda>todo.
         aret (if todo then (fst ids @ rule_pdrs (pv_rule p), snd ids @ rule_fars (pv_rule p)) else ids))) provs ([], []))
       (\<lambda>(pdrs, fars). abind (sess_of r) (\<lambda>s.
         if pdrs = [] \<or> \<not> Established (s_PFCP s) then aret () else remove_rules E r pdrs fars))"

definition removeCreateBearerTxnProvisioning :: "sgwc_env \<Rightarrow> cb_txn_key \<Rightarrow> sref \<Rightarrow> bearer_provisioning \<Rightarrow> unit act" where
  "removeCreateBearerTxnProvisioning E key r p = abind (markCreateBearerTxnRolledBack E key p) (\<lambda>todo.
     if todo then removeProvisionedBearerRules E r (pv_rule p) else aret ())"

section \<open>Error answers\<close>

definition marshalBearerError :: "header \<Rightarrow> u8 \<Rightarrow> u32 \<Rightarrow> u8 \<Rightarrow> bytes msg_result" where
  "marshalBearerError h t peerTEID cause = Marshal (mk_header True t peerTEID (hSequenceNumber h)) [NewCause cause 0 0 0 None]"

definition marshalCreateBearerErrorResponse :: "header \<Rightarrow> u32 \<Rightarrow> u8 \<Rightarrow> create_bearer_request \<Rightarrow> bytes msg_result" where
  "marshalCreateBearerErrorResponse h peerTEID cause req =
     (if cbqBearerContexts req = [] then marshalBearerError h MsgTypeCreateBearerResponse peerTEID cause
      else MarshalCreateBearerResponse peerTEID (hSequenceNumber h)
        (NewCause cause 0 0 0 None # map (\<lambda>bc. NewBearerContext 0
          [NewEBI (case context_ebi bc of Some e \<Rightarrow> e | None \<Rightarrow> 0), NewCause cause 0 0 0 None]) (cbqBearerContexts req)))"

definition replyBearerError :: "sgwc_env \<Rightarrow> udp_addr \<Rightarrow> header \<Rightarrow> u8 \<Rightarrow> u32 \<Rightarrow> u8 \<Rightarrow> unit act" where
  "replyBearerError E a h t peerTEID cause = reply_marshalled E S5C a (marshalBearerError h t peerTEID cause)"

definition replyCreateBearerTxnError :: "sgwc_env \<Rightarrow> cb_txn_key \<Rightarrow> udp_addr \<Rightarrow> header \<Rightarrow> create_bearer_request \<Rightarrow> u32 \<Rightarrow> u8 \<Rightarrow> unit act" where
  "replyCreateBearerTxnError E key a h req peerTEID cause =
     abind (attempt (marshalCreateBearerErrorResponse h peerTEID cause req)) (\<lambda>r. case r of
       Inl _ \<Rightarrow> aret ()
     | Inr raw \<Rightarrow> athen (reply E S5C a raw) (completeCreateBearerTxn E key raw cause))"

definition replyCreateBearerRetryGuardFailure :: "sgwc_env \<Rightarrow> udp_addr \<Rightarrow> header \<Rightarrow> create_bearer_request \<Rightarrow> sgw_session \<Rightarrow>
    cb_failure \<Rightarrow> unit act" where
  "replyCreateBearerRetryGuardFailure E a h req s f =
     (let cause = (if fl_lastFailureCause f = 0 then GTP_RequestRejected else fl_lastFailureCause f) in
      reply_marshalled E S5C a (marshalCreateBearerErrorResponse h (ep_TEID (s_PGWControl s)) cause req))"

end
