(* ===== verification/S11_Bearer.thy ===== *)
theory S11_Bearer
  imports S11_Transactions
begin

text \<open>
  Create Bearer, \<^verbatim>\<open>internal/sgwc/s11/bearer_handler.go\<close>. A request of the PGW is admitted,
  its rules are provisioned on the SGW-U and a request for the MME is built; the code has this twice,
  in \<^verbatim>\<open>prepareCreateBearerRelay\<close> (the request was piggybacked on a Create Session Response)
  and in \<^verbatim>\<open>handleCreateBearer\<close> (it came on its own). The answer of the MME is then processed
  per bearer context, again twice, and relayed.
\<close>

section \<open>Admission\<close>

text \<open>What a request needs before anything is provisioned: its session, the linked bearer, the
  transaction and the active procedure.\<close>

record cb_admitted =
  ca_req :: create_bearer_request
  ca_sess :: sref
  ca_lbi :: u8
  ca_txn :: nat
  ca_key :: cb_txn_key
  ca_proc :: active_procedure

definition peer_teid :: "sref \<Rightarrow> u32 act" where
  "peer_teid r = abind (sess_of r) (\<lambda>s. aret (ep_TEID (s_PGWControl s)))"

definition txn_response :: "sgwc_env \<Rightarrow> udp_addr \<Rightarrow> nat \<Rightarrow> unit act" where
  "txn_response E a i = abind (txn_of i) (\<lambda>t. reply E S5C a (tx_s5cResponse t))"

text \<open>The transaction begins once the procedure may start; \<open>None\<close> when the request was answered
  or is dropped.\<close>

definition cb_begin_txn :: "sgwc_env \<Rightarrow> udp_addr \<Rightarrow> header \<Rightarrow> bytes \<Rightarrow> sref \<Rightarrow> cb_fingerprint \<Rightarrow> cb_procedure_key \<Rightarrow>
    (nat \<times> cb_txn_key) option act" where
  "cb_begin_txn E a h raw r fp pk = abind (sess_of r) (\<lambda>s.
     abind (beginCreateBearerTxnWithFingerprint E a h raw s fp) (\<lambda>(i, action). case action of
       TxnCached \<Rightarrow> athen (txn_response E a i) (aret None)
     | TxnFingerprintCached \<Rightarrow> abind (txn_of i) (\<lambda>t.
         athen (reply_marshalled E S5C a (cloneCreateBearerResponseForSequence (tx_s5cResponse t) (hSequenceNumber h))) (aret None))
     | TxnPending \<Rightarrow> aret None
     | TxnFingerprintPending \<Rightarrow> aret None
     | TxnNew \<Rightarrow> abind (txn_of i) (\<lambda>t. athen (setCreateBearerTxnProcedureKey E (tx_key t) pk) (aret (Some (i, tx_key t))))))"

definition cb_admit :: "sgwc_env \<Rightarrow> udp_addr \<Rightarrow> header \<Rightarrow> bytes \<Rightarrow> cb_admitted option act" where
  "cb_admit E a h raw = abind (attempt (ParseCreateBearerRequest raw)) (\<lambda>p. case p of
     Inl _ \<Rightarrow> athen (replyBearerError E a h MsgTypeCreateBearerResponse 0 GTP_InvalidMessageFormat) (aret None)
   | Inr req \<Rightarrow> abind (aget (\<lambda>s. FindByS5CTEID (hTEID h) (g_mgr s))) (\<lambda>found. case found of
       None \<Rightarrow> athen (replyBearerError E a h MsgTypeCreateBearerResponse 0 GTP_ContextNotFound) (aret None)
     | Some r \<Rightarrow>
         abind (deref_ptr (cbqLBI req)) (\<lambda>lbiIE. abind (sess_of r) (\<lambda>sess.
         let lbi = got_or 0 (EBIValue lbiIE); bcs = cbqBearerContexts req;
             fp = newCreateBearerFingerprintKey E a h lbi bcs;
             pk = newCreateBearerProcedureKey E a h sess lbi bcs in
         abind (findCreateBearerTxn E a h) (\<lambda>hit. case hit of
           Some (i, TxnCached) \<Rightarrow> athen (txn_response E a i) (aret None)
         | Some _ \<Rightarrow> aret None
         | None \<Rightarrow>
             abind (findLatchedCreateBearerProcedureFailure E pk) (\<lambda>latched. case latched of
               Some f \<Rightarrow> athen (replyCreateBearerRetryGuardFailure E a h req sess f) (aret None)
             | None \<Rightarrow>
                 abind (beginProcedure E r (pgwProcedureRequest ProcedureCreateBearer a (hTEID h) (hSequenceNumber h) [lbi])) (\<lambda>pr. case pr of
                   None \<Rightarrow> athen (replyBearerError E a h MsgTypeCreateBearerResponse (ep_TEID (s_PGWControl sess)) GTP_RequestRejected)
                     (aret None)
                 | Some proc \<Rightarrow>
                     abind (cb_begin_txn E a h raw r fp pk) (\<lambda>t. case t of
                       None \<Rightarrow> athen (finishProcedure r proc) (aret None)
                     | Some (i, key) \<Rightarrow> aret (Some \<lparr>ca_req = req, ca_sess = r, ca_lbi = lbi, ca_txn = i, ca_key = key,
                         ca_proc = proc\<rparr>)))))))))"

section \<open>Provisioning\<close>

text \<open>One bearer context of the request: its QoS, its TFT and the F-TEID of the PGW-U, or the cause
  of the rejection. \<^verbatim>\<open>handleCreateBearer\<close> looks at the QoS before the TFT,
  \<^verbatim>\<open>prepareCreateBearerRelay\<close> at both.\<close>

definition new_provisioning :: "ie option \<Rightarrow> ie option \<Rightarrow> ep_fteid \<Rightarrow> u16 \<times> u16 \<times> u32 \<times> u32 \<Rightarrow> bearer_provisioning" where
  "new_provisioning qos tft f ids = (case ids of (p1, p2, f1, f2) \<Rightarrow>
     \<lparr>pv_qosIE = qos, pv_tftIE = tft, pv_pgwUS5U = f,
      pv_rule = \<lparr>ru_pdrUL = p1, ru_pdrDL = p2, ru_farUL = f1, ru_farDL = f2\<rparr>, pv_sgwUS1U = noFTEID, pv_sgwUS5U = noFTEID\<rparr>)"

definition usable_fteid :: "ep_fteid option \<Rightarrow> ep_fteid option" where
  "usable_fteid f = (case f of Some f \<Rightarrow> if ep_TEID f = 0 \<or> \<not> isValid (ep_IPv4 f) then None else Some f | None \<Rightarrow> None)"

definition prepare_context :: "ie \<Rightarrow> u8 + ie option \<times> ie option \<times> ep_fteid" where
  "prepare_context bc = (case children_of bc of
     None \<Rightarrow> Inl GTP_InvalidMessageFormat
   | Some cs \<Rightarrow> (case FindFirst cs TypeEBI of
       None \<Rightarrow> Inl GTP_MandatoryIEMissing
     | Some e \<Rightarrow>
         if got (EBIValue e) \<noteq> Some 0 then Inl GTP_MandatoryIEIncorrect
         else if FindFirst cs TypeBearerQoS = None \<or> FindFirst cs TypeBearerTFT = None then Inl GTP_MandatoryIEMissing
         else (case usable_fteid (fteid_at cs 1) of
             None \<Rightarrow> Inl GTP_MandatoryIEMissing
           | Some f \<Rightarrow> Inr (FindFirst cs TypeBearerQoS, FindFirst cs TypeBearerTFT, f))))"

definition direct_context :: "ie \<Rightarrow> u8 + ie option \<times> ie option \<times> ep_fteid" where
  "direct_context bc = (case children_of bc of
     None \<Rightarrow> Inl GTP_InvalidMessageFormat
   | Some cs \<Rightarrow> (case FindFirst cs TypeEBI of
       None \<Rightarrow> Inl GTP_MandatoryIEMissing
     | Some e \<Rightarrow>
         if got (EBIValue e) \<noteq> Some 0 then Inl GTP_MandatoryIEIncorrect
         else (case FindFirst cs TypeBearerQoS of
           None \<Rightarrow> Inl GTP_MandatoryIEMissing
         | Some q \<Rightarrow> (case FindFirst cs TypeBearerTFT of
             None \<Rightarrow> Inl GTP_MandatoryIEMissing
           | Some t \<Rightarrow> (case usable_fteid (fteid_at cs 1) of
               None \<Rightarrow> Inl GTP_MandatoryIEMissing
             | Some f \<Rightarrow> Inr (Some q, Some t, f))))))"

text \<open>The loop over the contexts; each accepted one takes four rule IDs of the session, which are
  not given back when a later context is rejected.\<close>

fun cb_contexts :: "(ie \<Rightarrow> u8 + ie option \<times> ie option \<times> ep_fteid) \<Rightarrow> sref \<Rightarrow> ie list \<Rightarrow> bearer_provisioning list \<Rightarrow>
    (u8 + bearer_provisioning list) act" where
  "cb_contexts parse r [] provs = aret (Inr provs)"
| "cb_contexts parse r (bc # bcs) provs = (case parse bc of
     Inl cause \<Rightarrow> aret (Inl cause)
   | Inr (q, t, f) \<Rightarrow> abind (sess_of r) (\<lambda>s. athen (call_session r C_AllocBearerRuleIDs)
       (cb_contexts parse r bcs (provs @ [new_provisioning q t f (fst (AllocBearerRuleIDs s))]))))"

definition qciFromBearerQoSIE :: "ie option \<Rightarrow> u8" where
  "qciFromBearerQoSIE q = (case q of None \<Rightarrow> 0 | Some i \<Rightarrow> if length (ieValue i) < 2 then 0 else ieValue i ! 1)"

definition prov_pdrs :: "bearer_provisioning \<Rightarrow> pfcp_ie list" where
  "prov_pdrs p = (let qci = qciFromBearerQoSIE (pv_qosIE p); qos = NewVectorCoreQoSMarking 0 qci (qci \<noteq> 0); u = pv_rule p in
     [create_pdr (ru_pdrUL u) 100 pfcp_Access (ru_farUL u) qos, create_pdr (ru_pdrDL u) 200 pfcp_Core (ru_farDL u) qos])"

definition create_far_forward :: "u32 \<Rightarrow> ep_fteid \<Rightarrow> pfcp_ie pie_result" where
  "create_far_forward far f = omap (\<lambda>ohc. NewCreateFAR [NewFARID far, NewApplyAction pfcp_FORW,
       NewForwardingParameters [NewDestinationInterface pfcp_Core, ohc]])
     (NewOuterHeaderCreation OHCDescGTPUUDPIPv4 (ep_TEID f) (ep_IPv4 f))"

definition prepare_fars :: "bearer_provisioning \<Rightarrow> pfcp_ie list pie_result" where
  "prepare_fars p = omap (\<lambda>far. [far, create_far_drop (ru_farDL (pv_rule p))])
     (create_far_forward (ru_farUL (pv_rule p)) (pv_pgwUS5U p))"

definition direct_fars :: "bearer_provisioning \<Rightarrow> pfcp_ie list pie_result" where
  "direct_fars p = omap (\<lambda>far. [far, create_far_drop (ru_farDL (pv_rule p))])
     (if ep_TEID (pv_pgwUS5U p) \<noteq> 0 \<and> isValid (ep_IPv4 (pv_pgwUS5U p))
      then create_far_forward (ru_farUL (pv_rule p)) (pv_pgwUS5U p)
      else Ok (create_far_drop (ru_farUL (pv_rule p))))"

fun collect_ies :: "('a \<Rightarrow> ('e, 'b list) outcome) \<Rightarrow> 'a list \<Rightarrow> ('e, 'b list) outcome" where
  "collect_ies f [] = Ok []"
| "collect_ies f (x # xs) = obind (f x) (\<lambda>ys. omap (\<lambda>zs. ys @ zs) (collect_ies f xs))"

text \<open>The F-TEIDs the SGW-U chose, by PDR ID.\<close>

definition assign_created :: "pfcp_ie \<Rightarrow> bearer_provisioning list \<Rightarrow> bearer_provisioning list" where
  "assign_created c provs = (case created_fteid c of
     None \<Rightarrow> provs
   | Some (i, f) \<Rightarrow> map (\<lambda>p. if i = ru_pdrUL (pv_rule p) then p\<lparr>pv_sgwUS1U := f\<rparr>
       else if i = ru_pdrDL (pv_rule p) then p\<lparr>pv_sgwUS5U := f\<rparr> else p) provs)"

text \<open>A bearer context of the request to the MME.\<close>

definition opt_fteid :: "u8 \<Rightarrow> u8 \<Rightarrow> ep_fteid \<Rightarrow> ie list ie_result" where
  "opt_fteid inst ift f = (if ep_TEID f \<noteq> 0 \<and> isValid (ep_IPv4 f)
     then omap (\<lambda>i. [i]) (NewFTEID inst ift (ep_TEID f) (ep_IPv4 f)) else Ok [])"

definition prepare_s11_context :: "bearer_provisioning \<Rightarrow> ie list ie_result" where
  "prepare_s11_context p =
     obind (opt_fteid 0 IFTypeS1USGW (pv_sgwUS1U p)) (\<lambda>s1u.
     obind (NewFTEID 1 IFTypeS5S8UPGW (ep_TEID (pv_pgwUS5U p)) (ep_IPv4 (pv_pgwUS5U p))) (\<lambda>pgw.
     Ok [NewBearerContext 0 ([NewEBI 0] @ opt_ie (pv_tftIE p) @ s1u @ [pgw] @ opt_ie (pv_qosIE p))]))"

definition direct_s11_context :: "bearer_provisioning \<Rightarrow> ie list ie_result" where
  "direct_s11_context p =
     obind (opt_fteid 0 IFTypeS1USGW (pv_sgwUS1U p)) (\<lambda>s1u.
     obind (opt_fteid 1 IFTypeS5S8UPGW (pv_pgwUS5U p)) (\<lambda>pgw.
     Ok [NewBearerContext 0 ([NewEBI 0] @ opt_ie (pv_tftIE p) @ s1u @ pgw @ opt_ie (pv_qosIE p))]))"

record cb_prepared =
  cp_admitted :: cb_admitted
  cp_provs :: "bearer_provisioning list"
  cp_s11Raw :: bytes
  cp_s11Seq :: u32

definition cb_reject :: "sgwc_env \<Rightarrow> udp_addr \<Rightarrow> header \<Rightarrow> cb_admitted \<Rightarrow> u8 \<Rightarrow> unit act" where
  "cb_reject E a h ad cause = abind (peer_teid (ca_sess ad)) (\<lambda>t. replyCreateBearerTxnError E (ca_key ad) a h (ca_req ad) t cause)"

text \<open>Rules on the SGW-U and the request for the MME; \<open>None\<close> after a rejection. The three functions
  are the variants of the two copies.\<close>

definition cb_request_mme :: "sgwc_env \<Rightarrow> udp_addr \<Rightarrow> header \<Rightarrow> (bearer_provisioning \<Rightarrow> ie list ie_result) \<Rightarrow> cb_admitted \<Rightarrow>
    bearer_provisioning list \<Rightarrow> cb_prepared option act" where
  "cb_request_mme E a h s11ctx ad provs =
     abind (must (collect_ies s11ctx provs)) (\<lambda>bcs.
     abind (alloc_seq S11) (\<lambda>sq.
     abind (sess_of (ca_sess ad)) (\<lambda>s.
     abind (attempt (MarshalCreateBearerRequest (ep_TEID (s_MMEControl s)) sq (NewEBI (ca_lbi ad) # bcs))) (\<lambda>raw. case raw of
       Inl _ \<Rightarrow> athen (athen (removeAllCreateBearerTxnProvisioning E (ca_key ad) (ca_sess ad) provs)
           (cb_reject E a h ad GTP_SystemFailure)) (aret None)
     | Inr raw \<Rightarrow> aret (Some \<lparr>cp_admitted = ad, cp_provs = provs, cp_s11Raw = raw, cp_s11Seq = sq\<rparr>)))))"

definition cb_provision :: "sgwc_env \<Rightarrow> udp_addr \<Rightarrow> header \<Rightarrow> (ie \<Rightarrow> u8 + ie option \<times> ie option \<times> ep_fteid) \<Rightarrow>
    (bearer_provisioning \<Rightarrow> pfcp_ie list pie_result) \<Rightarrow> (bearer_provisioning \<Rightarrow> ie list ie_result) \<Rightarrow> cb_admitted \<Rightarrow>
    cb_prepared option act" where
  "cb_provision E a h parse fars s11ctx ad =
     abind (cb_contexts parse (ca_sess ad) (cbqBearerContexts (ca_req ad)) []) (\<lambda>r. case r of
       Inl cause \<Rightarrow> athen (cb_reject E a h ad cause) (aret None)
     | Inr provs \<Rightarrow>
         if provs = [] then athen (cb_reject E a h ad GTP_InvalidMessageFormat) (aret None)
         else abind (must (collect_ies fars provs)) (\<lambda>createFARs.
           abind (sess_of (ca_sess ad)) (\<lambda>s.
           abind (pfcp_add_rules E (peer_addr s) (up_seid s) (concat (map prov_pdrs provs)) createFARs) (\<lambda>res. case res of
             Inl _ \<Rightarrow> athen (cb_reject E a h ad GTP_SystemFailure) (aret None)
           | Inr created \<Rightarrow>
               let provs1 = fold assign_created created provs in
               athen (markCreateBearerTxnProvisioned E (ca_key ad) provs1) (cb_request_mme E a h s11ctx ad provs1)))))"

definition prepareCreateBearerRelay :: "sgwc_env \<Rightarrow> udp_addr \<Rightarrow> header \<Rightarrow> bytes \<Rightarrow> cb_prepared option act" where
  "prepareCreateBearerRelay E a h raw = abind (cb_admit E a h raw) (\<lambda>ad. case ad of
     None \<Rightarrow> aret None
   | Some ad \<Rightarrow> abind (cb_provision E a h prepare_context prepare_fars prepare_s11_context ad) (\<lambda>p. case p of
       None \<Rightarrow> athen (finishProcedure (ca_sess ad) (ca_proc ad)) (aret None)
     | Some p \<Rightarrow> aret (Some p)))"

section \<open>The answer of the MME\<close>

definition buildCreateBearerS5CResponseContext :: "u8 \<Rightarrow> u8 \<Rightarrow> bearer_provisioning option \<Rightarrow> ie ie_result" where
  "buildCreateBearerS5CResponseContext ebi cause prov = (case prov of
     None \<Rightarrow> Ok (NewBearerContext 0 [NewEBI ebi, NewCause cause 0 0 0 None])
   | Some p \<Rightarrow>
       obind (opt_fteid 2 IFTypeS5S8USGW (pv_sgwUS5U p)) (\<lambda>sgw.
       obind (opt_fteid 3 IFTypeS5S8UPGW (pv_pgwUS5U p)) (\<lambda>pgw.
       Ok (NewBearerContext 0 ([NewEBI ebi, NewCause cause 0 0 0 None] @ sgw @ pgw)))))"

definition validateCreateBearerResponseResults :: "bearer_response \<Rightarrow> nat \<Rightarrow> bool" where
  "validateCreateBearerResponseResults resp expected \<longleftrightarrow> length (brBearerContexts resp) = expected \<and>
     (\<forall>bc \<in> set (brBearerContexts resp). case children_of bc of None \<Rightarrow> False
        | Some cs \<Rightarrow> FindFirst cs TypeEBI \<noteq> None \<and> FindFirst cs TypeCause \<noteq> None)"

text \<open>The provisioning a context answers: by the SGW-U's S1-U TEID, else by position.\<close>

definition match_by_teid :: "bearer_provisioning list \<Rightarrow> ie list \<Rightarrow> bearer_provisioning option" where
  "match_by_teid provs cs = Option.bind (fteid_at cs 1) (\<lambda>f. find (\<lambda>p. ep_TEID (pv_sgwUS1U p) = ep_TEID f) provs)"

definition piggyback_match :: "bearer_provisioning list \<Rightarrow> nat \<Rightarrow> ie list \<Rightarrow> bearer_provisioning option" where
  "piggyback_match provs i cs = (case match_by_teid provs cs of Some p \<Rightarrow> Some p
     | None \<Rightarrow> if i < length provs then Some (provs ! i) else None)"

definition direct_match :: "bearer_provisioning list \<Rightarrow> nat \<Rightarrow> ie list \<Rightarrow> bearer_provisioning option" where
  "direct_match provs i cs = (case match_by_teid provs cs of Some p \<Rightarrow> Some p
     | None \<Rightarrow> if length provs = 1 then Some (provs ! 0)
         else if i < length provs then Some (provs ! i) else None)"

definition dedicated_bearer :: "u8 \<Rightarrow> ep_fteid \<Rightarrow> bearer_provisioning \<Rightarrow> bearer" where
  "dedicated_bearer ebi enb p =
     (let q = (case pv_qosIE p of Some i \<Rightarrow> if length (ieValue i) \<ge> 2 then Some (ieValue i) else None | None \<Rightarrow> None);
          u = pv_rule p in
      \<lparr>b_EBI = ebi, b_QCI = (case q of Some v \<Rightarrow> v ! 1 | None \<Rightarrow> 0),
       b_ARP = (case q of Some v \<Rightarrow> arp_of_qos v | None \<Rightarrow> no_arp), b_ENBS1U = enb, b_SGWS1U = pv_sgwUS1U p,
       b_PGWS5U = pv_pgwUS5U p, b_SGWS5U = pv_sgwUS5U p, b_MBRUplink = 0, b_MBRDownlink = 0, b_GBRUplink = 0,
       b_GBRDownlink = 0, b_TFT = map_option (\<lambda>i. got_or [] (BearerTFTValue i)) (pv_tftIE p), b_State = BearerStateActive,
       b_PDRIDs = (ucast (ru_pdrUL u), ucast (ru_pdrDL u)), b_FARIDs = (ru_farUL u, ru_farDL u),
       b_LastControlActivityAt = 0, b_LastUserPlaneActivityAt = 0, b_LastActivitySource = [], b_InactiveSince = 0,
       b_CleanupEligible = False\<rparr>)"

record cb_results =
  cs_accepted :: nat
  cs_failed :: nat
  cs_firstFailure :: u8
  cs_contexts :: "ie list"

definition count_result :: "u8 \<Rightarrow> cb_results \<Rightarrow> cb_results" where
  "count_result cause acc =
     (if cause = GTP_Accepted then acc\<lparr>cs_accepted := cs_accepted acc + 1\<rparr>
      else acc\<lparr>cs_failed := cs_failed acc + 1, cs_firstFailure := (if cs_firstFailure acc = 0 then cause else cs_firstFailure acc)\<rparr>)"

text \<open>What becomes of one accepted or rejected bearer: its cause after the SGW-U was told, and whether
  its rules were removed on the way.\<close>

definition install_bearer :: "sgwc_env \<Rightarrow> sref \<Rightarrow> cb_txn_key \<Rightarrow> u8 \<Rightarrow> ep_fteid \<Rightarrow> bearer_provisioning \<Rightarrow> (u8 \<times> bool) act" where
  "install_bearer E r key ebi enb p = abind (sess_of r) (\<lambda>s.
     if ep_TEID enb \<noteq> 0 \<and> Established (s_PFCP s) then
       abind (pfcp_modify E (peer_addr s) (up_seid s) [forward_change (ru_pdrDL (pv_rule p), ru_farDL (pv_rule p)) pfcp_Access enb])
         (\<lambda>res. case res of
            Inl _ \<Rightarrow> athen (removeCreateBearerTxnProvisioning E key r p) (aret (GTP_SystemFailure, True))
          | Inr _ \<Rightarrow> athen (set_bearer E r (dedicated_bearer ebi enb p)) (aret (GTP_Accepted, False)))
     else athen (removeCreateBearerTxnProvisioning E key r p) (aret (GTP_SystemFailure, True)))"

definition complete_context :: "sgwc_env \<Rightarrow> sref \<Rightarrow> cb_txn_key \<Rightarrow> bool \<Rightarrow> (nat \<Rightarrow> ie list \<Rightarrow> bearer_provisioning option) \<Rightarrow>
    nat \<times> ie \<Rightarrow> cb_results \<Rightarrow> cb_results act" where
  "complete_context E r key rejected matching ibc acc = (case children_of (snd ibc) of
     None \<Rightarrow> aret acc
   | Some cs \<Rightarrow> (case (FindFirst cs TypeEBI, FindFirst cs TypeCause) of
       (Some ebiIE, Some causeIE) \<Rightarrow>
         let ebi = got_or 0 (EBIValue ebiIE); bcCause = got_or 0 (CauseValue causeIE);
             enb = (case fteid_at cs 0 of Some f \<Rightarrow> f | None \<Rightarrow> noFTEID); prov = matching (fst ibc) cs in
         abind (case prov of
             Some p \<Rightarrow> if bcCause = GTP_Accepted then install_bearer E r key ebi enb p else aret (bcCause, False)
           | None \<Rightarrow> aret (bcCause, False)) (\<lambda>(cause, cleaned).
         athen (case prov of
             Some p \<Rightarrow> awhen (cause \<noteq> GTP_Accepted \<and> \<not> cleaned \<and> \<not> rejected) (removeCreateBearerTxnProvisioning E key r p)
           | None \<Rightarrow> aret ())
         (abind (must (buildCreateBearerS5CResponseContext ebi cause prov)) (\<lambda>bc.
           aret ((count_result cause acc)\<lparr>cs_contexts := cs_contexts acc @ [bc]\<rparr>))))
     | _ \<Rightarrow> aret acc))"

definition out_cause :: "u8 \<Rightarrow> cb_results \<Rightarrow> u8" where
  "out_cause msgCause acc =
     (if cs_failed acc > 0 then
        if cs_accepted acc > 0 then GTP_AcceptedPartially
        else if cs_firstFailure acc \<noteq> 0 then cs_firstFailure acc else msgCause
      else msgCause)"

definition accepting :: "u8 \<Rightarrow> bool" where
  "accepting c \<longleftrightarrow> c = GTP_Accepted \<or> c = GTP_AcceptedPartially"

text \<open>Everything after the MME's answer has arrived; \<open>early\<close> is whether a failure is remembered
  before the answer to the PGW is marshalled, as in the piggybacked case, or after it was sent.\<close>

definition complete_valid :: "sgwc_env \<Rightarrow> bool \<Rightarrow> (nat \<Rightarrow> ie list \<Rightarrow> bearer_provisioning option) \<Rightarrow> udp_addr \<Rightarrow> header \<Rightarrow>
    sref \<Rightarrow> cb_txn \<Rightarrow> bearer_provisioning list \<Rightarrow> bearer_response \<Rightarrow> unit act" where
  "complete_valid E early matching a h r t provs resp =
     abind (deref_ptr (brCause resp)) (\<lambda>causeIE.
     let msgCause = got_or 0 (CauseValue causeIE); d = gtpc_describe (Some causeIE); rejected = \<not> accepting msgCause in
     athen (awhen rejected (removeAllCreateBearerTxnProvisioning E (tx_key t) r provs))
     (abind (aloop (complete_context E r (tx_key t) rejected matching) (enumerate 0 (brBearerContexts resp))
        \<lparr>cs_accepted = 0, cs_failed = 0, cs_firstFailure = 0, cs_contexts = []\<rparr>) (\<lambda>acc.
      let out = out_cause msgCause acc;
          remember = awhen (\<not> accepting out) (rememberCreateBearerProcedureFailure E (tx_procedureKey t) out d) in
      athen (awhen early remember)
      (abind (peer_teid r) (\<lambda>teid.
       abind (attempt (MarshalCreateBearerResponse teid (hSequenceNumber h) (NewCause out 0 0 0 None # cs_contexts acc))) (\<lambda>raw. case raw of
         Inl _ \<Rightarrow> aret ()
       | Inr raw \<Rightarrow> athen (reply E S5C a raw) (athen (awhen (\<not> early) remember) (completeCreateBearerTxn E (tx_key t) raw out))))))))"

definition complete_create_bearer :: "sgwc_env \<Rightarrow> bool \<Rightarrow> (nat \<Rightarrow> ie list \<Rightarrow> bearer_provisioning option) \<Rightarrow> udp_addr \<Rightarrow> header \<Rightarrow>
    create_bearer_request \<Rightarrow> sref \<Rightarrow> nat \<Rightarrow> bearer_provisioning list \<Rightarrow> bytes \<Rightarrow> unit act" where
  "complete_create_bearer E early matching a h req r i provs raw =
     abind (txn_of i) (\<lambda>t. abind (peer_teid r) (\<lambda>teid.
     abind (attempt (ParseCreateBearerResponse raw)) (\<lambda>p. case p of
       Inl _ \<Rightarrow> athen (removeAllCreateBearerTxnProvisioning E (tx_key t) r provs)
           (replyCreateBearerTxnError E (tx_key t) a h req teid GTP_SystemFailure)
     | Inr resp \<Rightarrow>
         if \<not> validateCreateBearerResponseResults resp (length provs) then
           athen (removeAllCreateBearerTxnProvisioning E (tx_key t) r provs)
           (athen (replyCreateBearerTxnError E (tx_key t) a h req teid GTP_InvalidMessageFormat)
            (rememberCreateBearerProcedureFailure E (tx_procedureKey t) GTP_InvalidMessageFormat (cause_only GTP_InvalidMessageFormat)))
         else complete_valid E early matching a h r t provs resp)))"

section \<open>A request piggybacked on a Create Session Response\<close>

definition registerPendingS11CreateBearer :: "sgwc_env \<Rightarrow> udp_addr \<Rightarrow> udp_addr \<Rightarrow> header \<Rightarrow> u32 \<Rightarrow> cb_prepared \<Rightarrow> unit act" where
  "registerPendingS11CreateBearer E mme pgw h csrspSeq p = abind (clock E) (\<lambda>now. amod (\<lambda>s.
     s\<lparr>g_cbS11 := mput (hostport mme, cp_s11Seq p)
       \<lparr>pd_pgwAddr = pgw, pd_mmeAddr = hostport mme, pd_hdr = h, pd_cbReq = ca_req (cp_admitted p),
        pd_sess = ca_sess (cp_admitted p), pd_txn = ca_txn (cp_admitted p), pd_activeProc = ca_proc (cp_admitted p),
        pd_bearerProvs = cp_provs p, pd_csrspSeq = csrspSeq, pd_s11Seq = cp_s11Seq p, pd_linkedEBI = ca_lbi (cp_admitted p),
        pd_createdAt = now\<rparr> (g_cbS11 s)\<rparr>))"

definition popPendingS11CreateBearer :: "string \<times> u32 \<Rightarrow> cb_pending option act" where
  "popPendingS11CreateBearer key = abind (aget (\<lambda>s. mget (g_cbS11 s) key)) (\<lambda>p.
     athen (amod (\<lambda>s. s\<lparr>g_cbS11 := mdel key (g_cbS11 s)\<rparr>)) (aret p))"

definition s11CreateBearerTimeout :: "sgwc_env \<Rightarrow> duration" where
  "s11CreateBearerTimeout E = (case en_cfg E of None \<Rightarrow> 10 * time_second
     | Some c \<Rightarrow> if cfg_T3ResponseSeconds c \<le> 0 \<or> cfg_N3Requests c \<le> 0 then 10 * time_second
         else cfg_T3ResponseSeconds c * cfg_N3Requests c * time_second)"

text \<open>The timer: the MME did not answer.\<close>

definition expirePendingS11CreateBearer :: "sgwc_env \<Rightarrow> string \<times> u32 \<Rightarrow> unit act" where
  "expirePendingS11CreateBearer E key = abind (popPendingS11CreateBearer key) (\<lambda>p. case p of
     None \<Rightarrow> aret ()
   | Some p \<Rightarrow>
       athen (finishProcedure (pd_sess p) (pd_activeProc p))
       (abind (txn_of (pd_txn p)) (\<lambda>t. abind (sess_of (pd_sess p)) (\<lambda>s.
        athen (removeAllCreateBearerTxnProvisioning E (tx_key t) (pd_sess p) (pd_bearerProvs p))
        (athen (rememberCreateBearerProcedureFailure E (if tx_procedureKey t \<noteq> no_procedure_key then tx_procedureKey t
            else newCreateBearerProcedureKey E (pd_pgwAddr p) (pd_hdr p) s (pd_linkedEBI p) (cbqBearerContexts (pd_cbReq p)))
            GTP_RequestRejected (cause_only GTP_RequestRejected))
         (replyCreateBearerTxnError E (tx_key t) (pd_pgwAddr p) (pd_hdr p) (pd_cbReq p) (ep_TEID (s_PGWControl s))
            GTP_RequestRejected))))))"

definition completeCreateBearerFromS11Response :: "sgwc_env \<Rightarrow> cb_pending \<Rightarrow> bytes \<Rightarrow> unit act" where
  "completeCreateBearerFromS11Response E p raw =
     athen (complete_create_bearer E True (piggyback_match (pd_bearerProvs p)) (pd_pgwAddr p) (pd_hdr p) (pd_cbReq p) (pd_sess p)
       (pd_txn p) (pd_bearerProvs p) raw)
     (finishProcedure (pd_sess p) (pd_activeProc p))"

definition handlePiggybackCreateBearerResponse :: "sgwc_env \<Rightarrow> udp_addr \<Rightarrow> header \<Rightarrow> bytes \<Rightarrow> unit act" where
  "handlePiggybackCreateBearerResponse E mme h raw = abind (popPendingS11CreateBearer (hostport mme, hSequenceNumber h)) (\<lambda>p. case p of
     None \<Rightarrow> aret () | Some p \<Rightarrow> completeCreateBearerFromS11Response E p raw)"

section \<open>A request of its own\<close>

text \<open>The address of the session's MME.\<close>

definition session_mme :: "sgw_session \<Rightarrow> udp_addr act" where
  "session_mme s = abind (must (as4 (ep_IPv4 (s_MMEControl s)) :: (unit, bytes) outcome)) (\<lambda>a4. aret (pgw_udp a4))"

definition ask_mme :: "sgwc_env \<Rightarrow> sref \<Rightarrow> bytes \<Rightarrow> (send_error + bytes) act" where
  "ask_mme E r raw = abind (sess_of r) (\<lambda>s. abind (session_mme s) (\<lambda>mme. abind (gtp_send E S11 mme raw) (\<lambda>res.
     aret (case res of Inl e \<Rightarrow> Inl e | Inr ans \<Rightarrow> Inr (case ans of Some (b, _) \<Rightarrow> b | None \<Rightarrow> [])))))"

definition handleCreateBearer :: "sgwc_env \<Rightarrow> udp_addr \<Rightarrow> header \<Rightarrow> bytes \<Rightarrow> unit act" where
  "handleCreateBearer E a h raw = abind (cb_admit E a h raw) (\<lambda>ad. case ad of
     None \<Rightarrow> aret ()
   | Some ad \<Rightarrow>
       athen (abind (cb_provision E a h direct_context direct_fars direct_s11_context ad) (\<lambda>p. case p of
         None \<Rightarrow> aret ()
       | Some p \<Rightarrow> abind (ask_mme E (ca_sess ad) (cp_s11Raw p)) (\<lambda>ans. case ans of
           Inl _ \<Rightarrow> athen (removeAllCreateBearerTxnProvisioning E (ca_key ad) (ca_sess ad) (cp_provs p))
             (cb_reject E a h ad GTP_SystemFailure)
         | Inr resp \<Rightarrow> complete_create_bearer E False (direct_match (cp_provs p)) a h (ca_req ad) (ca_sess ad) (ca_txn ad)
             (cp_provs p) resp)))
       (finishProcedure (ca_sess ad) (ca_proc ad)))"

end
