(* ===== verification/S11_Bearer_Procs.thy ===== *)
theory S11_Bearer_Procs
  imports S11_Bearer
begin

text \<open>
  Update Bearer, Delete Bearer, the Delete Bearer Command of the MME and its failure indication, and
  the dispatch of what a PGW sends, \<^verbatim>\<open>internal/sgwc/s11/bearer_handler.go\<close>.
\<close>

section \<open>What the relayed procedures share\<close>

text \<open>The session of a request from the PGW and its collision check; \<open>None\<close> after an error answer.\<close>

definition pgw_procedure :: "sgwc_env \<Rightarrow> udp_addr \<Rightarrow> header \<Rightarrow> u8 \<Rightarrow> procedure \<Rightarrow> u8 list \<Rightarrow> (sref \<times> active_procedure) option act" where
  "pgw_procedure E a h respType proc ebis = abind (aget (\<lambda>s. FindByS5CTEID (hTEID h) (g_mgr s))) (\<lambda>found. case found of
     None \<Rightarrow> athen (replyBearerError E a h respType 0 GTP_ContextNotFound) (aret None)
   | Some r \<Rightarrow>
       abind (beginProcedure E r (pgwProcedureRequest proc a (hTEID h) (hSequenceNumber h) ebis)) (\<lambda>pr. case pr of
         None \<Rightarrow> abind (peer_teid r) (\<lambda>t. athen (replyBearerError E a h respType t GTP_RequestRejected) (aret None))
       | Some p \<Rightarrow> aret (Some (r, p))))"

definition fail_to_pgw :: "sgwc_env \<Rightarrow> udp_addr \<Rightarrow> header \<Rightarrow> u8 \<Rightarrow> sref \<Rightarrow> unit act" where
  "fail_to_pgw E a h respType r = abind (peer_teid r) (\<lambda>t. replyBearerError E a h respType t GTP_SystemFailure)"

text \<open>A request relayed to the MME and its answer parsed, or a System Failure to the PGW.\<close>

definition relay_to_mme :: "sgwc_env \<Rightarrow> udp_addr \<Rightarrow> header \<Rightarrow> u8 \<Rightarrow> sref \<Rightarrow> (u32 \<Rightarrow> u32 \<Rightarrow> bytes msg_result) \<Rightarrow>
    (bytes \<Rightarrow> bearer_response msg_result) \<Rightarrow> bearer_response option act" where
  "relay_to_mme E a h respType r build parse =
     abind (alloc_seq S11) (\<lambda>sq. abind (sess_of r) (\<lambda>s.
     abind (attempt (build (ep_TEID (s_MMEControl s)) sq)) (\<lambda>raw. case raw of
       Inl _ \<Rightarrow> athen (fail_to_pgw E a h respType r) (aret None)
     | Inr raw \<Rightarrow> abind (ask_mme E r raw) (\<lambda>ans. case ans of
         Inl _ \<Rightarrow> athen (fail_to_pgw E a h respType r) (aret None)
       | Inr resp \<Rightarrow> abind (attempt (parse resp)) (\<lambda>p. case p of
           Inl _ \<Rightarrow> athen (fail_to_pgw E a h respType r) (aret None)
         | Inr p \<Rightarrow> aret (Some p))))))"

text \<open>The EBI of a context that carries a Cause, with that cause.\<close>

definition context_result :: "ie \<Rightarrow> (u8 \<times> u8) option" where
  "context_result bc = Option.bind (children_of bc) (\<lambda>cs. case (FindFirst cs TypeEBI, FindFirst cs TypeCause) of
     (Some e, Some c) \<Rightarrow> Some (got_or 0 (EBIValue e), got_or 0 (CauseValue c)) | _ \<Rightarrow> None)"

section \<open>Update Bearer\<close>

definition acceptedUpdateBearerContextsFromRequest :: "ie list \<Rightarrow> ie list" where
  "acceptedUpdateBearerContextsFromRequest bcs =
     concat (map (\<lambda>bc. case context_ebi bc of None \<Rightarrow> []
       | Some e \<Rightarrow> [NewBearerContext 0 [NewEBI e, NewCause GTP_Accepted 0 0 0 None]]) bcs)"

text \<open>The first context of the request for that EBI; its EBI is read without looking at the error.\<close>

fun request_context :: "u8 \<Rightarrow> ie list \<Rightarrow> ie list option" where
  "request_context ebi [] = None"
| "request_context ebi (bc # bcs) = (case children_of bc of
     None \<Rightarrow> request_context ebi bcs
   | Some cs \<Rightarrow> (case FindFirst cs TypeEBI of
       None \<Rightarrow> request_context ebi bcs
     | Some e \<Rightarrow> if got_or 0 (EBIValue e) = ebi then Some cs else request_context ebi bcs))"

definition updated_bearer :: "ie list \<Rightarrow> bearer \<Rightarrow> bearer" where
  "updated_bearer cs b =
     (let b1 = (case Option.bind (FindFirst cs TypeBearerTFT) (\<lambda>i. got (BearerTFTValue i)) of
           Some raw \<Rightarrow> b\<lparr>b_TFT := Some raw\<rparr> | None \<Rightarrow> b)
      in case FindFirst cs TypeBearerQoS of
           Some q \<Rightarrow> if length (ieValue q) \<ge> 2 then b1\<lparr>b_ARP := arp_of_qos (ieValue q), b_QCI := ieValue q ! 1\<rparr> else b1
         | None \<Rightarrow> b1)"

definition update_context :: "sgwc_env \<Rightarrow> sref \<Rightarrow> ie list \<Rightarrow> ie \<Rightarrow> unit \<Rightarrow> unit act" where
  "update_context E r reqBCs bc _ = (case context_result bc of
     Some (ebi, cause) \<Rightarrow>
       if cause \<noteq> GTP_Accepted then aret ()
       else abind (sess_of r) (\<lambda>s. case (GetBearer ebi s, request_context ebi reqBCs) of
         (Some b, Some cs) \<Rightarrow> set_bearer E r (updated_bearer cs b)
       | _ \<Rightarrow> aret ())
   | None \<Rightarrow> aret ())"

definition handleUpdateBearer :: "sgwc_env \<Rightarrow> udp_addr \<Rightarrow> header \<Rightarrow> bytes \<Rightarrow> unit act" where
  "handleUpdateBearer E a h raw = abind (attempt (ParseUpdateBearerRequest raw)) (\<lambda>p. case p of
     Inl _ \<Rightarrow> replyBearerError E a h MsgTypeUpdateBearerResponse 0 GTP_InvalidMessageFormat
   | Inr req \<Rightarrow>
       abind (pgw_procedure E a h MsgTypeUpdateBearerResponse ProcedureUpdateBearer (bearerContextEBIs (ubqBearerContexts req))) (\<lambda>pr. case pr of
         None \<Rightarrow> aret ()
       | Some (r, proc) \<Rightarrow>
           athen (abind (relay_to_mme E a h MsgTypeUpdateBearerResponse r
               (\<lambda>t sq. MarshalUpdateBearerRequest t sq (ubqBearerContexts req @ opt_ie (ubqAMBR req))) ParseUpdateBearerResponse) (\<lambda>resp. case resp of
             None \<Rightarrow> aret ()
           | Some resp \<Rightarrow> abind (deref_ptr (brCause resp)) (\<lambda>c.
               let cause = got_or 0 (CauseValue c);
                   bcs = (if brBearerContexts resp = [] \<and> cause = GTP_Accepted
                     then acceptedUpdateBearerContextsFromRequest (ubqBearerContexts req) else brBearerContexts resp) in
               athen (aloop (update_context E r (ubqBearerContexts req)) bcs ())
               (abind (peer_teid r) (\<lambda>t. reply_marshalled E S5C a
                 (MarshalUpdateBearerResponse t (hSequenceNumber h) (NewCause cause 0 0 0 None # bcs)))))))
           (finishProcedure r proc)))"

section \<open>Delete Bearer\<close>

text \<open>Removing the rules of an accepted context; a failure of the SGW-U is only logged.\<close>

definition delete_context :: "sgwc_env \<Rightarrow> sref \<Rightarrow> ie \<Rightarrow> unit \<Rightarrow> unit act" where
  "delete_context E r bc _ = (case context_result bc of
     Some (ebi, cause) \<Rightarrow>
       if cause \<noteq> GTP_Accepted then aret ()
       else abind (sess_of r) (\<lambda>s.
         athen (case GetBearer ebi s of
             Some b \<Rightarrow> awhen (fst (b_PDRIDs b) \<noteq> 0 \<or> snd (b_PDRIDs b) \<noteq> 0)
               (remove_rules E r [fst (b_PDRIDs b), snd (b_PDRIDs b)] [fst (b_FARIDs b), snd (b_FARIDs b)])
           | None \<Rightarrow> aret ())
         (delete_bearer E r ebi))
   | None \<Rightarrow> aret ())"

definition handleDeleteBearer :: "sgwc_env \<Rightarrow> udp_addr \<Rightarrow> header \<Rightarrow> bytes \<Rightarrow> unit act" where
  "handleDeleteBearer E a h raw = abind (attempt (ParseDeleteBearerRequest raw)) (\<lambda>p. case p of
     Inl _ \<Rightarrow> replyBearerError E a h MsgTypeDeleteBearerResponse 0 GTP_InvalidMessageFormat
   | Inr req \<Rightarrow>
       let ebis = ebiIEsToValues (dbqEBIs req) @ (case Option.bind (dbqLBI req) (\<lambda>i. got (EBIValue i)) of Some e \<Rightarrow> [e] | None \<Rightarrow> []) in
       abind (pgw_procedure E a h MsgTypeDeleteBearerResponse ProcedureDeleteBearer ebis) (\<lambda>pr. case pr of
         None \<Rightarrow> aret ()
       | Some (r, proc) \<Rightarrow>
           athen (abind (relay_to_mme E a h MsgTypeDeleteBearerResponse r
               (\<lambda>t sq. MarshalDeleteBearerRequest t sq (opt_ie (dbqLBI req) @ dbqEBIs req)) ParseDeleteBearerResponse) (\<lambda>resp. case resp of
             None \<Rightarrow> aret ()
           | Some resp \<Rightarrow> abind (deref_ptr (brCause resp)) (\<lambda>c.
               let cause = got_or 0 (CauseValue c) in
               athen (awhen (accepting cause) (aloop (delete_context E r) (brBearerContexts resp) ()))
               (abind (peer_teid r) (\<lambda>t. reply_marshalled E S5C a (MarshalDeleteBearerResponse t (hSequenceNumber h)
                 ([NewCause cause 0 0 0 None] @ opt_ie (brLBI resp) @ brBearerContexts resp)))))))
           (finishProcedure r proc)))"

section \<open>The Delete Bearer Command\<close>

definition deleteBearerCommandEBIs :: "ie list \<Rightarrow> u8 list \<times> ie list" where
  "deleteBearerCommandEBIs bcs =
     (bearerContextEBIs bcs, concat (map (\<lambda>bc. case context_ebi bc of None \<Rightarrow> [] | Some e \<Rightarrow> [NewBearerContext 0 [NewEBI e]]) bcs))"

definition bearerContextsForEBIs :: "u8 list \<Rightarrow> u8 \<Rightarrow> ie list" where
  "bearerContextsForEBIs ebis cause = map (\<lambda>e. NewBearerContext 0 [NewEBI e, NewCause cause 0 0 0 None]) ebis"

definition deleteBearerCommandIEsForEBIs :: "ie list \<Rightarrow> u8 list \<Rightarrow> ie list" where
  "deleteBearerCommandIEsForEBIs ies ebis =
     filter (\<lambda>i. ieType i \<noteq> TypeBearerContext \<or> ieInstance i \<noteq> 0 \<or> (case context_ebi i of Some e \<Rightarrow> e \<in> set ebis | None \<Rightarrow> False)) ies"

definition mmePeerTEIDForLocalS11 :: "u32 \<Rightarrow> manager \<Rightarrow> u32" where
  "mmePeerTEIDForLocalS11 t m = (if t = 0 then 0 else case FindByS11TEID t m of Some r \<Rightarrow> ep_TEID (s_MMEControl (deref m r)) | None \<Rightarrow> 0)"

definition replyDeleteBearerFailureIndication :: "sgwc_env \<Rightarrow> udp_addr \<Rightarrow> header \<Rightarrow> u32 \<Rightarrow> u8 \<Rightarrow> ie list \<Rightarrow> unit act" where
  "replyDeleteBearerFailureIndication E a h peerTEID cause failedBCs =
     abind (aget (\<lambda>s. if peerTEID = 0 then mmePeerTEIDForLocalS11 (hTEID h) (g_mgr s) else peerTEID)) (\<lambda>t.
     if t = 0 then aret ()
     else reply_marshalled E S11 a (MarshalDeleteBearerFailureIndication t (hSequenceNumber h)
       (NewCause cause 0 0 0 None #
        (if failedBCs = [] then [NewBearerContext 0 [NewCause cause 0 0 0 None]] else failedBCs))))"

definition sweepExpiredDeleteBearerCommandPending :: "gtime \<Rightarrow> (string \<times> u8, db_pending) gomap \<Rightarrow> (string \<times> u8, db_pending) gomap" where
  "sweepExpiredDeleteBearerCommandPending now m = filter (\<lambda>(_, p). \<not> (dp_expiresAt p \<noteq> 0 \<and> dp_expiresAt p < now)) m"

definition markDeleteBearerCommandPending :: "sgwc_env \<Rightarrow> sref \<Rightarrow> header \<Rightarrow> u8 list \<Rightarrow> unit act" where
  "markDeleteBearerCommandPending E r h ebis =
     (if ebis = [] then aret ()
      else abind (clock E) (\<lambda>now. abind (sess_of r) (\<lambda>x. amod (\<lambda>s.
        s\<lparr>g_dbCmds := fold (\<lambda>e. mput (s_SessionID x, e)
            \<lparr>dp_sessionID = s_SessionID x, dp_imsi = s_IMSI x, dp_apn = s_APN x, dp_defaultEBI = s_DefaultBearerID x, dp_ebi = e,
             dp_sgwS11TEID = hTEID h, dp_mmeS11TEID = ep_TEID (s_MMEControl x), dp_sgwS5CTEID = ep_TEID (s_SGWS5C x),
             dp_pgwS5CTEID = ep_TEID (s_PGWControl x), dp_seq = hSequenceNumber h, dp_createdAt = now,
             dp_expiresAt = now + operationTimeout E\<rparr>) ebis
          (sweepExpiredDeleteBearerCommandPending now (g_dbCmds s))\<rparr>))))"

definition clearDeleteBearerCommandPending :: "sgwc_env \<Rightarrow> sref \<Rightarrow> u8 list \<Rightarrow> unit act" where
  "clearDeleteBearerCommandPending E r ebis =
     (if ebis = [] then aret ()
      else abind (clock E) (\<lambda>now. abind (sess_of r) (\<lambda>x. amod (\<lambda>s.
        s\<lparr>g_dbCmds := fold (\<lambda>e. mdel (s_SessionID x, e)) ebis (sweepExpiredDeleteBearerCommandPending now (g_dbCmds s))\<rparr>))))"

text \<open>The EBIs grouped by the session that owns them, or the failure: the MME's TEID and the cause.\<close>

fun command_groups :: "u32 \<Rightarrow> manager \<Rightarrow> u8 list \<Rightarrow> u32 \<Rightarrow> (string, sref \<times> u8 list) gomap \<Rightarrow>
    (u32 \<times> u8) + (string, sref \<times> u8 list) gomap" where
  "command_groups t m [] peerTEID gs = Inr gs"
| "command_groups t m (e # es) peerTEID gs = (case FindByS11TEIDAndBearer t e m of
     None \<Rightarrow> Inl (peerTEID, GTP_ContextNotFound)
   | Some r \<Rightarrow>
       let s = deref m r; peer = (if peerTEID = 0 then ep_TEID (s_MMEControl s) else peerTEID) in
       if e = s_DefaultBearerID s then Inl (ep_TEID (s_MMEControl s), GTP_RequestRejected)
       else command_groups t m es peer (case mget gs (s_SessionID s) of
           None \<Rightarrow> mput (s_SessionID s) (r, [e]) gs
         | Some (q, old) \<Rightarrow> mput (s_SessionID s) (q, old @ [e]) gs))"

text \<open>One group; the result is the procedure to finish later, and whether to go on.\<close>

definition command_group :: "sgwc_env \<Rightarrow> udp_addr \<Rightarrow> header \<Rightarrow> delete_bearer_command \<Rightarrow> sref \<times> u8 list \<Rightarrow>
    (active_procedure option \<times> bool) act" where
  "command_group E mme h cmd g = (case g of (r, ebis) \<Rightarrow>
     abind (sess_of r) (\<lambda>s.
     let failed = (\<lambda>cause. replyDeleteBearerFailureIndication E mme h (ep_TEID (s_MMEControl s)) cause (bearerContextsForEBIs ebis cause)) in
     abind (beginProcedure E r (mmeProcedureRequest ProcedureDeleteBearer mme (hTEID h) (hSequenceNumber h) ebis)) (\<lambda>pr. case pr of
       None \<Rightarrow> athen (failed GTP_RequestRejected) (aret (None, False))
     | Some proc \<Rightarrow>
         if \<not> isValid (ep_IPv4 (s_PGWControl s)) then athen (failed GTP_ContextNotFound) (aret (Some proc, False))
         else abind (session_pgw s) (\<lambda>pgw.
           let ies = deleteBearerCommandIEsForEBIs (dbcIEs cmd) ebis in
           abind (if FindInstance ies TypeFTEID 0 = None \<and> ep_TEID (s_SGWS5C s) \<noteq> 0 \<and> isValid (en_localIP E)
             then abind (must (NewFTEID 0 IFTypeS5S8CSGW (ep_TEID (s_SGWS5C s)) (en_localIP E))) (\<lambda>i. aret (ies @ [i]))
             else aret ies) (\<lambda>ies.
           abind (alloc_seq S11) (\<lambda>sq.
           abind (attempt (MarshalDeleteBearerCommand (ep_TEID (s_PGWControl s)) sq ies)) (\<lambda>raw. case raw of
             Inl _ \<Rightarrow> athen (failed GTP_SystemFailure) (aret (Some proc, False))
           | Inr raw \<Rightarrow> abind (ReplyToPGW E pgw raw) (\<lambda>sent. case sent of
               Inl _ \<Rightarrow> athen (failed GTP_SystemFailure) (aret (Some proc, False))
             | Inr _ \<Rightarrow> athen (markDeleteBearerCommandPending E r h ebis) (aret (Some proc, True))))))))))"

text \<open>The procedures of all groups are finished when the handler returns, the last one first.\<close>

fun command_loop :: "sgwc_env \<Rightarrow> udp_addr \<Rightarrow> header \<Rightarrow> delete_bearer_command \<Rightarrow> (sref \<times> u8 list) list \<Rightarrow> unit act" where
  "command_loop E mme h cmd [] = aret ()"
| "command_loop E mme h cmd (g # gs) = abind (command_group E mme h cmd g) (\<lambda>(proc, continue).
     athen (if continue then command_loop E mme h cmd gs else aret ())
       (case proc of Some p \<Rightarrow> finishProcedure (fst g) p | None \<Rightarrow> aret ()))"

definition handleDeleteBearerCommand :: "sgwc_env \<Rightarrow> udp_addr \<Rightarrow> header \<Rightarrow> bytes \<Rightarrow> unit act" where
  "handleDeleteBearerCommand E mme h raw = abind (attempt (ParseDeleteBearerCommand raw)) (\<lambda>p. abind (aget g_mgr) (\<lambda>m. case p of
     Inl _ \<Rightarrow> replyDeleteBearerFailureIndication E mme h (mmePeerTEIDForLocalS11 (hTEID h) m) GTP_InvalidMessageFormat []
   | Inr cmd \<Rightarrow>
       let (ebis, failedBCs) = deleteBearerCommandEBIs (dbcBearerContexts cmd) in
       if ebis = [] then replyDeleteBearerFailureIndication E mme h (mmePeerTEIDForLocalS11 (hTEID h) m) GTP_MandatoryIEMissing failedBCs
       else (case command_groups (hTEID h) m ebis 0 [] of
           Inl (peer, cause) \<Rightarrow> replyDeleteBearerFailureIndication E mme h peer cause failedBCs
         | Inr gs \<Rightarrow> command_loop E mme h cmd (map snd gs))))"

definition handleS5CDeleteBearerFailureIndication :: "sgwc_env \<Rightarrow> udp_addr \<Rightarrow> header \<Rightarrow> bytes \<Rightarrow> unit act" where
  "handleS5CDeleteBearerFailureIndication E a h raw = abind (attempt (ParseDeleteBearerFailureIndication raw)) (\<lambda>p. case p of
     Inl _ \<Rightarrow> aret ()
   | Inr ind \<Rightarrow> abind (aget (\<lambda>s. FindByS5CTEID (hTEID h) (g_mgr s))) (\<lambda>found. case found of
       None \<Rightarrow> aret ()
     | Some r \<Rightarrow>
         athen (clearDeleteBearerCommandPending E r (bearerContextEBIs (brBearerContexts ind)))
         (abind (sess_of r) (\<lambda>s.
          if \<not> isValid (ep_IPv4 (s_MMEControl s)) then aret ()
          else abind (session_mme s) (\<lambda>mme.
            abind (alloc_seq S11) (\<lambda>sq.
            abind (deref_ptr (brCause ind)) (\<lambda>c. reply_marshalled E S11 mme
              (MarshalDeleteBearerFailureIndication (ep_TEID (s_MMEControl s)) sq (c # brBearerContexts ind)))))))))"

definition removeBearerRulesAndState :: "sgwc_env \<Rightarrow> sref \<Rightarrow> u8 \<Rightarrow> unit act" where
  "removeBearerRulesAndState E r ebi = abind (sess_of r) (\<lambda>s. case GetBearer ebi s of
     None \<Rightarrow> aret ()
   | Some b \<Rightarrow> athen (awhen (fst (b_PDRIDs b) \<noteq> 0 \<or> snd (b_PDRIDs b) \<noteq> 0)
         (remove_rules E r [fst (b_PDRIDs b), snd (b_PDRIDs b)] [fst (b_FARIDs b), snd (b_FARIDs b)]))
       (delete_bearer E r ebi))"

section \<open>Dispatch\<close>

definition HandleS5CInbound :: "sgwc_env \<Rightarrow> udp_addr \<Rightarrow> header \<Rightarrow> bytes \<Rightarrow> unit act" where
  "HandleS5CInbound E a h raw = abind (attempt (Parse raw)) (\<lambda>p.
     athen (case p of Inr (_, ies) \<Rightarrow> observe_peer E RolePGW a h ies | Inl _ \<Rightarrow> aret ())
     (if hMessageType h = MsgTypeCreateBearerRequest then handleCreateBearer E a h raw
      else if hMessageType h = MsgTypeUpdateBearerRequest then handleUpdateBearer E a h raw
      else if hMessageType h = MsgTypeDeleteBearerRequest then handleDeleteBearer E a h raw
      else if hMessageType h = MsgTypeDeleteBearerFailureIndication then handleS5CDeleteBearerFailureIndication E a h raw
      else aret ()))"

end
