(* ===== verification/S11_Session.thy ===== *)
theory S11_Session
  imports S11_Bearer_Procs
begin

text \<open>
  Create Session, \<^verbatim>\<open>handleCreateSessionRequest\<close> of
  \<^verbatim>\<open>internal/sgwc/s11/handler.go\<close>, in the stages the handler has: the session and the
  cleanup of the one it replaces; the provisional rules on the SGW-U and the local S5/S8-C TEID; the
  request to the PGW; the commit; and the answer, with the bearer requests that were piggybacked on the
  PGW's answer. A stage that fails undoes what was done before it and answers the MME.
\<close>

section \<open>The session\<close>

definition csr_imsi :: "create_session_request \<Rightarrow> string" where
  "csr_imsi req = (case csqIMSI req of
     Some i \<Rightarrow> text_of (got_or [] (IE_IMSI i))
   | None \<Rightarrow> (case csqMEI req of Some i \<Rightarrow> ''mei:'' @ text_of (got_or [] (MEIValue i)) | None \<Rightarrow> []))"

definition csr_network :: "create_session_request \<Rightarrow> string" where
  "csr_network req = (case csqServingNetwork req of
     None \<Rightarrow> []
   | Some i \<Rightarrow> (let (mcc, mnc) = got_or ([], []) (ServingNetworkValue i) in text_of mcc @ ''-'' @ text_of mnc))"

definition ie_fteid :: "ie \<Rightarrow> ep_fteid" where
  "ie_fteid i = (case got (FTEIDValue i) of Some f \<Rightarrow> fteid_ep f | None \<Rightarrow> noFTEID)"

text \<open>The header's TEID, when it is that of a UE that is known, is kept.\<close>

definition csr_params :: "header \<Rightarrow> create_session_request \<Rightarrow> create_params act" where
  "csr_params h req =
     abind (deref_ptr (csqAPN req)) (\<lambda>apn. abind (deref_ptr (csqRATType req)) (\<lambda>rat. abind (deref_ptr (csqFTEID req)) (\<lambda>f.
     abind (aget g_mgr) (\<lambda>m.
     let (ebi, qci, a) = extractDefaultBearer (csqBearerContexts req) in
     aret \<lparr>cp_IMSI = csr_imsi req, cp_APN = text_of (got_or [] (APNValue apn)), cp_RATType = got_or 0 (RATTypeValue rat),
       cp_ServingNetwork = csr_network req, cp_MMEControl = ie_fteid f,
       cp_ReuseSGWS11 = (if hTEID h = 0 then noFTEID
         else case FindByS11TEID (hTEID h) m of Some r \<Rightarrow> s_SGWS11 (deref m r) | None \<Rightarrow> noFTEID),
       cp_DefaultEBI = ebi, cp_QCI = qci, cp_ARP = a, cp_MBRUplink = 0, cp_MBRDownlink = 0\<rparr>))))"

text \<open>The session that was replaced is released at the PGW and on its SGW-U; failures are only logged.\<close>

definition release_evicted :: "sgwc_env \<Rightarrow> sref option \<Rightarrow> unit act" where
  "release_evicted E old = (case old of
     None \<Rightarrow> aret ()
   | Some r \<Rightarrow> abind (sess_of r) (\<lambda>x.
       athen (awhen (ep_TEID (s_PGWControl x) \<noteq> 0)
           (athen (clearCreateBearerProcedureFailuresForSession (s_SessionID x))
             (abind (s5c_deleteSession E r None) (\<lambda>_. aret ()))))
         (awhen (bound x) (abind (pfcp_delete E (peer_addr x) (up_seid x)) (\<lambda>_. aret ())))))"

definition release_s5c :: "u32 \<Rightarrow> unit act" where
  "release_s5c t = awhen (t \<noteq> 0) (free_s5c t)"

definition abort_create :: "sgwc_env \<Rightarrow> udp_addr \<Rightarrow> header \<Rightarrow> sref \<Rightarrow> u32 \<Rightarrow> u32 \<Rightarrow> u8 \<Rightarrow> unit act" where
  "abort_create E a h r mmeTEID s5c cause = abind (sess_of r) (\<lambda>x.
     athen (clearCreateBearerProcedureFailuresForSession (s_SessionID x))
     (athen (delete_session (s_SessionID x))
     (athen (release_s5c s5c) (sendCause E a h mmeTEID cause))))"

definition rollback_pfcp :: "sgwc_env \<Rightarrow> pfcp_session_result \<Rightarrow> unit act" where
  "rollback_pfcp E p = abind (pfcp_delete E (ps_peerAddr p) (ps_upSEID p)) (\<lambda>_. aret ())"

section \<open>The SGW-U and the PGW\<close>

text \<open>A method of the session that reads the clock once.\<close>

definition timed_call :: "sgwc_env \<Rightarrow> sref \<Rightarrow> (gtime \<Rightarrow> sess_call) \<Rightarrow> unit act" where
  "timed_call E r c = abind (clock E) (\<lambda>now. call_session r (c now))"

text \<open>The address of the PGW, the provisional session on the SGW-U and the local TEID.\<close>

definition csr_prepare :: "sgwc_env \<Rightarrow> udp_addr \<Rightarrow> header \<Rightarrow> create_session_request \<Rightarrow> sref \<Rightarrow> u32 \<Rightarrow> u8 \<Rightarrow>
    (udp_addr \<times> pfcp_session_result \<times> u32) option act" where
  "csr_prepare E a h req r mmeTEID ebi =
     abind (attempt (PGWAddr req)) (\<lambda>pgw. case pgw of
       Inl _ \<Rightarrow> athen (abort_create E a h r mmeTEID 0 GTP_ConditionalIEMissing) (aret None)
     | Inr pgw \<Rightarrow> abind (allowPeerProcedure E (procedure_request OwnerPGW ProcedureCreateSession (hostport pgw) 0 (hSequenceNumber h) [ebi])) (\<lambda>ok.
         if \<not> ok then athen (abort_create E a h r mmeTEID 0 GTP_SystemFailure) (aret None)
         else abind (establishProvisionalPFCPSession E r) (\<lambda>p. case p of
           Inl _ \<Rightarrow> athen (abort_create E a h r mmeTEID 0 GTP_SystemFailure) (aret None)
         | Inr p \<Rightarrow> abind (s5c_AllocTEID E) (\<lambda>t. case t of
             Inl _ \<Rightarrow> athen (rollback_pfcp E p) (athen (abort_create E a h r mmeTEID 0 GTP_NoResources) (aret None))
           | Inr t \<Rightarrow>
               athen (timed_call E r (\<lambda>now. C_SetSGWS5CFTEID now \<lparr>ep_TEID = t, ep_IPv4 = en_localIP E\<rparr>))
               (abind (sess_of r) (\<lambda>x. athen (register_s5c (s_SessionID x) t) (aret (Some (pgw, p, t)))))))))"

text \<open>A rejection of the PGW is relayed with CS set, as a cause of the remote node.\<close>

definition relay_rejection :: "sgwc_env \<Rightarrow> udp_addr \<Rightarrow> u8 \<Rightarrow> u32 \<Rightarrow> u32 \<Rightarrow> u8 \<Rightarrow> unit act" where
  "relay_rejection E a t teid sq cause = reply_raw E a (Marshal (mk_header True t teid sq) [NewCause cause 0 0 1 None])"

definition csr_ask_pgw :: "sgwc_env \<Rightarrow> udp_addr \<Rightarrow> header \<Rightarrow> create_session_request \<Rightarrow> sref \<Rightarrow> u32 \<Rightarrow> udp_addr \<Rightarrow>
    pfcp_session_result \<Rightarrow> u32 \<Rightarrow> create_session_result option act" where
  "csr_ask_pgw E a h req r mmeTEID pgw p s5c =
     abind (s5c_CreateSession E pgw req s5c (ps_sgwUS5U p)) (\<lambda>res. case res of
       Inl _ \<Rightarrow> athen (rollback_pfcp E p) (athen (abort_create E a h r mmeTEID s5c GTP_SystemFailure) (aret None))
     | Inr res \<Rightarrow>
         if cr_Cause res = GTP_Accepted then aret (Some res)
         else athen (rollback_pfcp E p)
           (abind (sess_of r) (\<lambda>x.
            athen (clearCreateBearerProcedureFailuresForSession (s_SessionID x))
            (athen (delete_session (s_SessionID x))
            (athen (release_s5c s5c)
            (athen (relay_rejection E a MsgTypeCreateSessionResponse mmeTEID (hSequenceNumber (csqHeader req)) (cr_Cause res))
              (aret None)))))))"

section \<open>Commit\<close>

definition edit_bearer :: "sgwc_env \<Rightarrow> sref \<Rightarrow> u8 \<Rightarrow> (bearer \<Rightarrow> bearer) \<Rightarrow> unit act" where
  "edit_bearer E r ebi f = abind (sess_of r) (\<lambda>x. case GetBearer ebi x of None \<Rightarrow> aret () | Some b \<Rightarrow> set_bearer E r (f b))"

definition binding_of :: "sgwc_env \<Rightarrow> pfcp_session_result \<Rightarrow> pfcp_binding" where
  "binding_of E p = \<lparr>LocalFSEID = \<lparr>SEID = ps_cpSEID p, fs_IPv4 = en_localIP E\<rparr>,
     SGWUFSEID = \<lparr>SEID = ps_upSEID p, fs_IPv4 = NoAddr\<rparr>, SGWUName = ps_peerName p, SGWUAddr = ps_peerAddr p, Established = True\<rparr>"

text \<open>The PGW's side is recorded, the uplink opened, then the session becomes active. \<open>False\<close>
  when the SGW-U refused: the PGW's session is deleted again, which frees the local TEID a first time.\<close>

definition csr_open_uplink :: "sgwc_env \<Rightarrow> udp_addr \<Rightarrow> header \<Rightarrow> sref \<Rightarrow> u32 \<Rightarrow> pfcp_session_result \<Rightarrow> u32 \<Rightarrow> ep_fteid \<Rightarrow> bool act" where
  "csr_open_uplink E a h r mmeTEID p s5c u =
     (if ep_TEID u = 0 then aret True
      else abind (modifyPFCPUplinkFAR E (ps_peerAddr p) (ps_upSEID p) u) (\<lambda>res. case res of
        Inr _ \<Rightarrow> aret True
      | Inl _ \<Rightarrow> abind (s5c_deleteSession E r None) (\<lambda>_.
          athen (rollback_pfcp E p) (athen (abort_create E a h r mmeTEID s5c GTP_SystemFailure) (aret False)))))"

definition csr_commit :: "sgwc_env \<Rightarrow> udp_addr \<Rightarrow> header \<Rightarrow> sref \<Rightarrow> u32 \<Rightarrow> u8 \<Rightarrow> udp_addr \<Rightarrow> pfcp_session_result \<Rightarrow> u32 \<Rightarrow>
    create_session_result \<Rightarrow> bool act" where
  "csr_commit E a h r mmeTEID ebi pgw p s5c res =
     athen (timed_call E r (\<lambda>now. C_SetPGWControlFTEID now (cr_PGWControl res)))
     (abind (sess_of r) (\<lambda>x.
      athen (register_pgw E (s_SessionID x) (hostport pgw))
      (athen (timed_call E r (\<lambda>now. C_SetUEIPv4 now (cr_UEIP res)))
      (athen (edit_bearer E r ebi (\<lambda>b. b\<lparr>b_PGWS5U := cr_PGWS5U res\<rparr>))
      (abind (csr_open_uplink E a h r mmeTEID p s5c (cr_PGWS5U res)) (\<lambda>opened.
       if \<not> opened then aret False
       else athen (timed_call E r (\<lambda>now. C_SetPFCPBinding now (binding_of E p)))
         (athen (edit_bearer E r ebi (\<lambda>b. b\<lparr>b_SGWS1U := ps_sgwUS1U p, b_SGWS5U := ps_sgwUS5U p\<rparr>))
         (athen (transition E r StateActive) (aret True)))))))))"

section \<open>Answer\<close>

text \<open>The elements of the answer. The PAA is a pointer that may be nil: the PGW sent no address and
  the MME no PAA.\<close>

definition buildS11CreateSessionResponseIEs :: "sgwc_env \<Rightarrow> udp_addr \<Rightarrow> u8 \<Rightarrow> ie \<Rightarrow> ie \<Rightarrow> ie option \<Rightarrow> ie option \<Rightarrow>
    create_session_result \<Rightarrow> pfcp_session_result \<Rightarrow> ie option list act" where
  "buildS11CreateSessionResponseIEs E a ebi sgwS11 pgwS5C paa ambr res p =
     abind (must (opt_fteid 0 IFTypeS1USGW (ps_sgwUS1U p))) (\<lambda>s1u.
     abind (if ep_TEID (cr_PGWS5U res) \<noteq> 0
       then abind (must (NewFTEID 2 IFTypeS5S8UPGW (ep_TEID (cr_PGWS5U res)) (ep_IPv4 (cr_PGWS5U res)))) (\<lambda>i. aret [i])
       else aret []) (\<lambda>s5u.
     abind (if en_recovery E = None then aret None else s11_maybeRecoveryIE E a) (\<lambda>rec.
     aret ([Some sgwS11, Some pgwS5C, paa] @
       map Some (opt_ie (cr_APNRestriction res) @ opt_ie ambr @ opt_ie (cr_PCO res) @
         [NewBearerContext 0 ([NewEBI ebi, NewCause GTP_Accepted 0 0 0 None] @ s1u @ s5u)] @
         opt_ie (cr_ChargingID res) @ opt_ie rec)))))"

text \<open>\<^verbatim>\<open>FindFirst\<close> over pointers, in the log entry before the answer is built.\<close>

fun FindFirst_ptrs :: "ie option list \<Rightarrow> u8 \<Rightarrow> ie option act" where
  "FindFirst_ptrs [] t = aret None"
| "FindFirst_ptrs (None # ps) t = crash"
| "FindFirst_ptrs (Some i # ps) t = (if ieType i = t then aret (Some i) else FindFirst_ptrs ps t)"

text \<open>The first Create Bearer Request of the PGW goes along with the answer, when its preparation and
  the framing succeed; everything else is dispatched afterwards.\<close>

definition relay_piggyback :: "sgwc_env \<Rightarrow> udp_addr \<Rightarrow> udp_addr \<Rightarrow> u32 \<Rightarrow> frame \<Rightarrow> bytes \<times> bool \<times> frame list \<Rightarrow>
    (bytes \<times> bool \<times> frame list) act" where
  "relay_piggyback E a pgw csrspSeq fr acc = (case acc of (resp, sent, rest) \<Rightarrow>
     if hMessageType (frHeader fr) \<noteq> MsgTypeCreateBearerRequest \<or> sent then aret (resp, sent, rest @ [fr])
     else abind (prepareCreateBearerRelay E pgw (frHeader fr) (frRaw fr)) (\<lambda>p. case p of
       None \<Rightarrow> aret acc
     | Some p \<Rightarrow> abind (attempt (MarshalPiggybacked resp (cp_s11Raw p))) (\<lambda>both. case both of
         Inl _ \<Rightarrow>
           athen (removeAllCreateBearerTxnProvisioning E (ca_key (cp_admitted p)) (ca_sess (cp_admitted p)) (cp_provs p))
           (athen (cb_reject E pgw (frHeader fr) (cp_admitted p) GTP_SystemFailure) (aret acc))
       | Inr both \<Rightarrow> athen (registerPendingS11CreateBearer E a pgw (frHeader fr) csrspSeq p) (aret (both, True, rest)))))"

text \<open>A remaining frame goes through the connection to the PGW, to its handler \<open>run\<close>.\<close>

definition dispatch_frame :: "sgwc_env \<Rightarrow> (udp_addr \<Rightarrow> header \<Rightarrow> bytes \<Rightarrow> unit act) \<Rightarrow> udp_addr \<Rightarrow> frame \<Rightarrow> unit \<Rightarrow> unit act" where
  "dispatch_frame E run a fr _ = abind (clock E) (\<lambda>now. abind (aget (conn_of S5C)) (\<lambda>c.
     let (out, c1) = gtp_start_frame now a fr False c in
     athen (amod (set_conn S5C c1)) (case out of
       WroteUDP b \<Rightarrow> abind tick (\<lambda>k. put_out (if en_wrote E k then [Replied S5C a b] else []))
     | HandlerRuns h raw \<Rightarrow> athen (run a h raw) (amod (\<lambda>s. set_conn S5C (gtp_clearInFlight (frame_key a h) (conn_of S5C s)) s))
     | _ \<Rightarrow> aret ())))"

definition csr_answer :: "sgwc_env \<Rightarrow> (udp_addr \<Rightarrow> header \<Rightarrow> bytes \<Rightarrow> unit act) \<Rightarrow> udp_addr \<Rightarrow> create_session_request \<Rightarrow> sref \<Rightarrow> u8 \<Rightarrow>
    udp_addr \<Rightarrow> pfcp_session_result \<Rightarrow> create_session_result \<Rightarrow> unit act" where
  "csr_answer E run a req r ebi pgw p res = abind (sess_of r) (\<lambda>x.
     abind (must (NewFTEID 0 IFTypeS11S4SGW (ep_TEID (s_SGWS11 x)) (en_localIP E))) (\<lambda>sgwS11.
     abind (must (NewFTEID 1 IFTypeS5S8CPGW (ep_TEID (cr_PGWControl res)) (ep_IPv4 (cr_PGWControl res)))) (\<lambda>pgwS5C.
     abind (if isValid (cr_UEIP res) then abind (must (NewPAA PDNTypeIPv4 (cr_UEIP res))) (\<lambda>i. aret (Some i)) else aret (csqPAA req)) (\<lambda>paa.
     abind (buildS11CreateSessionResponseIEs E a ebi sgwS11 pgwS5C paa (case cr_AMBR res of None \<Rightarrow> csqAMBR req | x \<Rightarrow> x) res p) (\<lambda>ptrs.
     abind (FindFirst_ptrs ptrs TypeRecovery) (\<lambda>_.
     if None \<in> set ptrs then crash
     else abind (attempt (MarshalCreateSessionResponse req GTP_Accepted (map the ptrs))) (\<lambda>resp. case resp of
       Inl _ \<Rightarrow> aret ()
     | Inr resp \<Rightarrow>
         abind (aloop (relay_piggyback E a pgw (hSequenceNumber (csqHeader req))) (cr_Piggybacks res) (resp, False, [])) (\<lambda>(out, _, rest).
         athen (reply E S11 a out) (aloop (dispatch_frame E run pgw) rest ())))))))))"

section \<open>The handler\<close>

text \<open>The stages before the PGW is asked; the result is the session with the MME's TEID, the default
  bearer, the PGW, the session on the SGW-U and the local S5/S8-C TEID, or \<open>None\<close> after an answer.\<close>

definition csr_open :: "sgwc_env \<Rightarrow> udp_addr \<Rightarrow> header \<Rightarrow> create_session_request \<Rightarrow>
    (sref \<times> u32 \<times> u8 \<times> udp_addr \<times> pfcp_session_result \<times> u32) option act" where
  "csr_open E a h req = abind (csr_params h req) (\<lambda>params.
     let mmeTEID = ep_TEID (cp_MMEControl params); ebi = cp_DefaultEBI params in
     abind (create_session E params) (\<lambda>created. case created of
       Inl _ \<Rightarrow> athen (sendCause E a h mmeTEID GTP_SystemFailure) (aret None)
     | Inr (r, old) \<Rightarrow> athen (release_evicted E old) (abind (csr_prepare E a h req r mmeTEID ebi) (\<lambda>prep.
         aret (case prep of None \<Rightarrow> None | Some (pgw, p, s5c) \<Rightarrow> Some (r, mmeTEID, ebi, pgw, p, s5c))))))"

definition handleCreateSessionRequest :: "sgwc_env \<Rightarrow> (udp_addr \<Rightarrow> header \<Rightarrow> bytes \<Rightarrow> unit act) \<Rightarrow> udp_addr \<Rightarrow> header \<Rightarrow> ie list \<Rightarrow>
    unit act" where
  "handleCreateSessionRequest E run a h ies = abind (attempt (ParseCreateSessionRequest h ies)) (\<lambda>p. case p of
     Inl e \<Rightarrow> sendMissingIECause E a h (peerTEIDFromIEs ies) e
   | Inr req \<Rightarrow> abind (csr_open E a h req) (\<lambda>opened. case opened of
       None \<Rightarrow> aret ()
     | Some (r, mmeTEID, ebi, pgw, p, s5c) \<Rightarrow> abind (csr_ask_pgw E a h req r mmeTEID pgw p s5c) (\<lambda>res. case res of
         None \<Rightarrow> aret ()
       | Some res \<Rightarrow> abind (csr_commit E a h r mmeTEID ebi pgw p s5c res) (\<lambda>ok.
           if ok then csr_answer E run a req r ebi pgw p res else aret ()))))"

end
