(* ===== verification/S11_Notify.thy ===== *)
theory S11_Notify
  imports S11_Session
begin

text \<open>
  Downlink Data Notification and Stop Paging towards the MME,
  \<^verbatim>\<open>internal/sgwc/s11/handler.go\<close>: the notification for a session whose MME restarted, its
  acknowledgement (with the throttling of low-priority traffic it may ask for, and the indication to
  stop paging it may cause) and the failure indication.
\<close>

section \<open>Notifications\<close>

datatype notify_error =
    Notify_NoMME
  | Notify_NoBearer u8
  | Notify_Marshal msg_error
  | Notify_Context
  | Notify_Send send_error

definition newARPFromBearer :: "arp \<Rightarrow> ie" where
  "newARPFromBearer a = mkIE TypeARP 0
     [(push_bit 6 (if PreemptionCapability a then 1 else 0)) OR (push_bit 2 (PriorityLevel a AND 0x0F)) OR
      (if PreemptionVulnerability a then 1 else 0)]"

text \<open>What both messages share: the context is looked at once, then the message is written.\<close>

definition send_to_mme :: "sgwc_env \<Rightarrow> sgw_session \<Rightarrow> bytes msg_result \<Rightarrow> (notify_error + unit) act" where
  "send_to_mme E x m = abind (attempt m) (\<lambda>raw. case raw of
     Inl e \<Rightarrow> aret (Inl (Notify_Marshal e))
   | Inr raw \<Rightarrow> abind (session_mme x) (\<lambda>mme. abind tick (\<lambda>k.
       if en_ctxDone E k then aret (Inl Notify_Context)
       else abind (gtp_reply E S11 mme raw) (\<lambda>sent. aret (case sent of Inl e \<Rightarrow> Inl (Notify_Send e) | Inr _ \<Rightarrow> Inr ())))))"

definition SendDownlinkDataNotification :: "sgwc_env \<Rightarrow> sref \<Rightarrow> (notify_error + u32) act" where
  "SendDownlinkDataNotification E r = abind (sess_of r) (\<lambda>x.
     if ep_TEID (s_MMEControl x) = 0 \<or> \<not> isValid (ep_IPv4 (s_MMEControl x)) then aret (Inl Notify_NoMME)
     else (case GetBearer (s_DefaultBearerID x) x of
       None \<Rightarrow> aret (Inl (Notify_NoBearer (s_DefaultBearerID x)))
     | Some b \<Rightarrow>
         abind (alloc_seq S11) (\<lambda>sq.
         abind (must (NewFTEID 0 IFTypeS11S4SGW (ep_TEID (s_SGWS11 x)) (en_localIP E))) (\<lambda>f.
         abind (send_to_mme E x (MarshalDownlinkDataNotification (ep_TEID (s_MMEControl x)) sq
           [NewIMSI (octets_of (s_IMSI x)), NewEBI (s_DefaultBearerID x), newARPFromBearer (b_ARP b), f])) (\<lambda>res.
         aret (case res of Inl e \<Rightarrow> Inl e | Inr _ \<Rightarrow> Inr sq))))))"

definition SendStopPagingIndication :: "sgwc_env \<Rightarrow> sref \<Rightarrow> (notify_error + u32) act" where
  "SendStopPagingIndication E r = abind (sess_of r) (\<lambda>x.
     if ep_TEID (s_MMEControl x) = 0 \<or> \<not> isValid (ep_IPv4 (s_MMEControl x)) then aret (Inl Notify_NoMME)
     else
       abind (alloc_seq S11) (\<lambda>sq.
       abind (send_to_mme E x (MarshalStopPagingIndication (ep_TEID (s_MMEControl x)) sq [NewIMSI (octets_of (s_IMSI x))])) (\<lambda>res.
       case res of
         Inl e \<Rightarrow> aret (Inl e)
       | Inr _ \<Rightarrow> athen (abind (clock E) (\<lambda>t. timed_call E r (\<lambda>now. C_StopPagingSent now sq t))) (aret (Inr sq)))))"

section \<open>Acknowledgement and failure\<close>

text \<open>By address, TEID and sequence number, then without the TEID, then by the IMSI.\<close>

definition findDDNRestorationSession :: "manager \<Rightarrow> udp_addr \<Rightarrow> header \<Rightarrow> ie option \<Rightarrow> sref option" where
  "findDDNRestorationSession m a h imsiIE =
     (case FindMMERestorationByDDN (hostport a) (hTEID h) (hSequenceNumber h) m of
        Some r \<Rightarrow> Some r
      | None \<Rightarrow> (case (if hTEID h \<noteq> 0 then FindMMERestorationByDDN (hostport a) 0 (hSequenceNumber h) m else None) of
          Some r \<Rightarrow> Some r
        | None \<Rightarrow> (case Option.bind imsiIE (\<lambda>i. got (IE_IMSI i)) of
            Some imsi \<Rightarrow> FindMMERestorationByIMSI (hostport a) (text_of imsi) m
          | None \<Rightarrow> None)))"

definition ddnLowPriorityThrottleDuration :: "sgwc_env \<Rightarrow> ie \<Rightarrow> duration" where
  "ddnLowPriorityThrottleDuration E i =
     (if ieValue i \<noteq> [] \<and> ieValue i ! 0 \<noteq> 0 then int (unat (ieValue i ! 0)) * time_second
      else case en_cfg E of
        Some c \<Rightarrow> if cfg_LowPriorityThrottleSeconds c > 0 then cfg_LowPriorityThrottleSeconds c * time_second else 0
      | None \<Rightarrow> 0)"

definition markDDNLowPriorityThrottle :: "sgwc_env \<Rightarrow> udp_addr \<Rightarrow> ddn_ack \<Rightarrow> gtime \<Rightarrow> unit act" where
  "markDDNLowPriorityThrottle E a ack tm = abind (aget g_ddn) (\<lambda>d. case (d, daLowPriorityTrafficThrottling ack) of
     (Some st, Some i) \<Rightarrow>
       let dur = ddnLowPriorityThrottleDuration E i; mme = CanonicalGTPCEndpoint (hostport a) in
       if dur \<le> 0 \<or> mme = [] then aret ()
       else abind (clock E) (\<lambda>now. amod (\<lambda>s. s\<lparr>g_ddn := Some (MarkMMELowPriorityThrottled now mme
           ''ddn-ack-low-priority-throttling'' (tm + dur) tm st)\<rparr>))
   | _ \<Rightarrow> aret ())"

definition maybeSendStopPagingAfterDDNAck :: "sgwc_env \<Rightarrow> sref \<Rightarrow> u8 \<Rightarrow> unit act" where
  "maybeSendStopPagingAfterDDNAck E r cause = (case en_cfg E of
     None \<Rightarrow> aret ()
   | Some c \<Rightarrow>
       if \<not> cfg_StopPagingEnabled c \<or> \<not> cfg_StopPagingOnDDNAck c \<or> cause \<noteq> GTP_Accepted then aret ()
       else abind (sess_of r) (\<lambda>x. let st = s_MMERestoration x in
         if \<not> mr_RestorationPending st \<or> \<not> mr_DDNTriggered st \<or> mr_StopPagingSent st \<or> mr_UserPlaneRestored st then aret ()
         else abind (SendStopPagingIndication E r) (\<lambda>_. aret ())))"

definition handleDownlinkDataNotificationAck :: "sgwc_env \<Rightarrow> udp_addr \<Rightarrow> bytes \<Rightarrow> unit act" where
  "handleDownlinkDataNotificationAck E a raw = abind (attempt (ParseDownlinkDataNotificationAck raw)) (\<lambda>p. case p of
     Inl _ \<Rightarrow> aret ()
   | Inr ack \<Rightarrow> abind (deref_ptr (daCause ack)) (\<lambda>c. let cause = got_or 0 (CauseValue c) in
       abind (aget (\<lambda>s. findDDNRestorationSession (g_mgr s) a (daHeader ack) (daIMSI ack))) (\<lambda>found. case found of
         None \<Rightarrow> aret ()
       | Some r \<Rightarrow> abind (clock E) (\<lambda>t.
           athen (timed_call E r (\<lambda>now. C_DDNAck now cause t))
           (athen (markDDNLowPriorityThrottle E a ack t)
            (maybeSendStopPagingAfterDDNAck E r cause))))))"

definition handleDownlinkDataNotificationFailureIndication :: "sgwc_env \<Rightarrow> udp_addr \<Rightarrow> bytes \<Rightarrow> unit act" where
  "handleDownlinkDataNotificationFailureIndication E a raw =
     abind (attempt (ParseDownlinkDataNotificationFailureIndication raw)) (\<lambda>p. case p of
       Inl _ \<Rightarrow> aret ()
     | Inr ind \<Rightarrow> abind (deref_ptr (dfCause ind)) (\<lambda>c.
         abind (aget (\<lambda>s. findDDNRestorationSession (g_mgr s) a (dfHeader ind) (dfIMSI ind))) (\<lambda>found. case found of
           None \<Rightarrow> aret ()
         | Some r \<Rightarrow> abind (clock E) (\<lambda>t. timed_call E r (\<lambda>now. C_DDNFailureIndication now (got_or 0 (CauseValue c)) t)))))"

end
