(* ===== verification/S11_Handler.thy ===== *)
theory S11_Handler
  imports S11_Notify
begin

text \<open>
  Modify Bearer, Delete Session, Release Access Bearers and the dispatch of what an MME sends,
  \<^verbatim>\<open>internal/sgwc/s11/handler.go\<close>.
\<close>

section \<open>Modify Bearer: usage reports\<close>

definition nsaDCNREnabled :: "sgwc_env \<Rightarrow> bool" where
  "nsaDCNREnabled E = (case en_cfg E of None \<Rightarrow> True | Some c \<Rightarrow> cfg_NSADCNREnabled c)"

definition nsaDCNRForwardSecondaryRATUsageReports :: "sgwc_env \<Rightarrow> modify_bearer_request \<Rightarrow> bool" where
  "nsaDCNRForwardSecondaryRATUsageReports E req \<longleftrightarrow> mbqSecondaryRATUsageDataReports req \<noteq> [] \<and> nsaDCNREnabled E \<and>
     (case en_cfg E of None \<Rightarrow> True | Some c \<Rightarrow> cfg_ForwardSecondaryRATUsageReports c)"

text \<open>The sessions that own one of the bearers, each once; the order, that of a Go map, is that of the
  bearers here.\<close>

definition secondaryRATReportTargetSessions :: "u32 \<Rightarrow> u8 list \<Rightarrow> sref \<Rightarrow> bool \<Rightarrow> manager \<Rightarrow> sref list" where
  "secondaryRATReportTargetSessions t ebis dflt hasReports m =
     (if \<not> hasReports then []
      else let owners = remdups (concat (map (\<lambda>e. case FindByS11TEIDAndBearer t e m of Some r \<Rightarrow> [r] | None \<Rightarrow> []) ebis)) in
        if owners = [] then [dflt] else owners)"

fun secondary_rat_reports :: "sgwc_env \<Rightarrow> udp_addr \<Rightarrow> header \<Rightarrow> ie list \<Rightarrow> secondary_rat_report list act" where
  "secondary_rat_reports E a h [] = aret []"
| "secondary_rat_reports E a h (i # ies) = (case got (SecondaryRATUsageDataReportValue i) of
     None \<Rightarrow> secondary_rat_reports E a h ies
   | Some payload \<Rightarrow> abind (clock E) (\<lambda>now. abind (secondary_rat_reports E a h ies) (\<lambda>rs. aret (
       \<lparr>sr_ReceivedAt = now, sr_SourceProcedure = ''s11_modify_bearer_request'', sr_MMEPeer = hostport a,
        sr_SGWS11TEID = hTEID h, sr_SequenceNumber = hSequenceNumber h, sr_Payload = payload\<rparr> # rs))))"

definition captureSecondaryRATUsageReports :: "sgwc_env \<Rightarrow> udp_addr \<Rightarrow> header \<Rightarrow> modify_bearer_request \<Rightarrow> sref \<Rightarrow> unit act" where
  "captureSecondaryRATUsageReports E a h req dflt =
     (if \<not> nsaDCNREnabled E \<or> mbqSecondaryRATUsageDataReports req = [] then aret ()
      else abind (aget (\<lambda>s. secondaryRATReportTargetSessions (hTEID h) (bearerContextEBIs (mbqBearerContexts req)) dflt True (g_mgr s))) (\<lambda>targets.
        abind (secondary_rat_reports E a h (mbqSecondaryRATUsageDataReports req)) (\<lambda>reports.
        if reports = [] then aret ()
        else aloop (\<lambda>r _. abind (clock E) (\<lambda>now. call_session r (C_RecordSecondaryRAT (\<lambda>_. now) reports))) targets ())))"

text \<open>The reports go on to the PGW of each session; the result is the first failure, and whether any
  session has a PGW.\<close>

definition forward_report :: "sgwc_env \<Rightarrow> header \<Rightarrow> modify_bearer_request \<Rightarrow> u8 list \<Rightarrow> sref \<Rightarrow> u8 \<times> bool \<Rightarrow> (u8 \<times> bool) act" where
  "forward_report E h req ebis r acc = abind (sess_of r) (\<lambda>x.
     if ep_TEID (s_PGWControl x) = 0 then aret acc
     else abind (allowPeerProcedure E (procedure_request OwnerPGW ProcedureModifyBearer (pgwAddrFromSession x)
         (ep_TEID (s_PGWControl x)) (hSequenceNumber h) ebis)) (\<lambda>ok.
       let worse = (\<lambda>c. if fst acc = GTP_Accepted then c else fst acc) in
       if \<not> ok then aret (worse GTP_SystemFailure, True)
       else abind (s5c_ModifyBearerFromS11 E r req) (\<lambda>res. aret (case res of
           Inl _ \<Rightarrow> (worse GTP_SystemFailure, True)
         | Inr cause \<Rightarrow> (worse cause, True)))))"

section \<open>Modify Bearer: the eNodeB's endpoint\<close>

definition set_enb :: "sgwc_env \<Rightarrow> sref \<Rightarrow> u8 \<Rightarrow> ep_fteid \<Rightarrow> unit act" where
  "set_enb E r ebi f = edit_bearer E r ebi (\<lambda>b. b\<lparr>b_ENBS1U := f\<rparr>)"

definition shouldCompleteMMERestorationOnModifyBearer :: "sgw_session \<Rightarrow> bool" where
  "shouldCompleteMMERestorationOnModifyBearer x = (let st = s_MMERestoration x in
     mr_RestorationPending st \<and> mr_PolicyAction st = ''preserve'' \<and> mr_DDNAcked st \<and>
     mr_DDNAckCause st = GTP_Accepted \<and> \<not> mr_UserPlaneRestored st)"

text \<open>The endpoint is stored, then the SGW-U is told; what was stored is put back when it refuses.\<close>

definition switch_downlink :: "sgwc_env \<Rightarrow> sref \<Rightarrow> u8 \<Rightarrow> ep_fteid \<Rightarrow> ep_fteid \<Rightarrow> u16 \<times> u32 \<Rightarrow> bool act" where
  "switch_downlink E r ebi old f ids = abind (sess_of r) (\<lambda>x.
     abind (pfcp_modify E (peer_addr x) (up_seid x) [forward_change ids pfcp_Access f]) (\<lambda>res. case res of
       Inl _ \<Rightarrow> athen (set_enb E r ebi old) (aret False)
     | Inr _ \<Rightarrow> aret True))"

definition restore_sibling :: "sgwc_env \<Rightarrow> sref \<Rightarrow> u8 list \<Rightarrow> ep_fteid \<Rightarrow> bearer \<Rightarrow> unit \<Rightarrow> unit act" where
  "restore_sibling E r requested f b _ = abind (sess_of r) (\<lambda>x.
     if b_EBI b = s_DefaultBearerID x \<or> b_EBI b \<in> set requested \<or> b_State b = ''deleting'' \<or> b_State b = ''deleted''
     then aret ()
     else (case downlinkPFCPRuleIDs x b of
       None \<Rightarrow> aret ()
     | Some ids \<Rightarrow> athen (set_enb E r (b_EBI b) f)
         (abind (switch_downlink E r (b_EBI b) (b_ENBS1U b) f ids) (\<lambda>_. aret ()))))"

definition restoreSiblingBearersAfterModifyBearer :: "sgwc_env \<Rightarrow> sref \<Rightarrow> u8 list \<Rightarrow> ep_fteid \<Rightarrow> unit act" where
  "restoreSiblingBearersAfterModifyBearer E r requested f =
     (if \<not> isValid (ep_IPv4 f) \<or> ep_TEID f = 0 then aret ()
      else abind (sess_of r) (\<lambda>x. aloop (restore_sibling E r requested f) (BearerList x) ()))"

text \<open>A bearer's EBI, cause and S1-U endpoint of the SGW-U.\<close>

type_synonym mb_result = "u8 \<times> u8 \<times> ep_fteid"

definition modify_bearer :: "sgwc_env \<Rightarrow> u8 list \<Rightarrow> sref \<Rightarrow> u8 \<Rightarrow> bearer \<Rightarrow> ep_fteid \<Rightarrow> mb_result act" where
  "modify_bearer E requested r ebi b f = abind (sess_of r) (\<lambda>x.
     let failed = (ebi, GTP_SystemFailure, noFTEID) in
     if \<not> bound x then aret failed
     else athen (set_enb E r ebi f) (case downlinkPFCPRuleIDs x b of
       None \<Rightarrow> athen (set_enb E r ebi (b_ENBS1U b)) (aret failed)
     | Some ids \<Rightarrow> abind (switch_downlink E r ebi (b_ENBS1U b) f ids) (\<lambda>ok.
         if \<not> ok then aret failed
         else abind (sess_of r) (\<lambda>x1.
           athen (awhen (shouldCompleteMMERestorationOnModifyBearer x1)
               (abind (clock E) (\<lambda>t. timed_call E r (\<lambda>now. C_UserPlaneRestored now ebi t))))
           (athen (awhen (ebi = s_DefaultBearerID x1) (restoreSiblingBearersAfterModifyBearer E r requested f))
             (aret (ebi, GTP_Accepted, case GetBearer ebi x1 of Some b1 \<Rightarrow> b_SGWS1U b1 | None \<Rightarrow> noFTEID)))))))"

definition modify_context :: "sgwc_env \<Rightarrow> header \<Rightarrow> u8 list \<Rightarrow> ie \<Rightarrow> mb_result list \<Rightarrow> mb_result list act" where
  "modify_context E h requested bc acc = (case children_of bc of
     None \<Rightarrow> aret acc
   | Some cs \<Rightarrow> (case FindFirst cs TypeEBI of
       None \<Rightarrow> aret acc
     | Some e \<Rightarrow> let ebi = got_or 0 (EBIValue e) in (case FindFirst cs TypeFTEID of
         None \<Rightarrow> aret (acc @ [(ebi, GTP_MandatoryIEMissing, noFTEID)])
       | Some i \<Rightarrow> abind (aget g_mgr) (\<lambda>m. case FindByS11TEIDAndBearer (hTEID h) ebi m of
           None \<Rightarrow> aret (acc @ [(ebi, GTP_ContextNotFound, noFTEID)])
         | Some r \<Rightarrow> (case GetBearer ebi (deref m r) of
             None \<Rightarrow> aret (acc @ [(ebi, GTP_ContextNotFound, noFTEID)])
           | Some b \<Rightarrow> abind (modify_bearer E requested r ebi b (ie_fteid i)) (\<lambda>res. aret (acc @ [res])))))))"

definition modified_context :: "mb_result \<Rightarrow> ie list ie_result" where
  "modified_context res = (case res of (ebi, cause, f) \<Rightarrow>
     omap (\<lambda>s1u. [NewBearerContext 0 ([NewEBI ebi, NewCause cause 0 0 0 None] @ s1u)])
       (if cause = GTP_Accepted then opt_fteid 0 IFTypeS1USGW f else Ok []))"

definition mb_cause :: "mb_result list \<Rightarrow> u8 \<times> bool \<Rightarrow> u8" where
  "mb_cause results fwd = (case results of
     (_, c, _) # _ \<Rightarrow> if \<exists>res \<in> set results. fst (snd res) = GTP_Accepted then GTP_Accepted else c
   | [] \<Rightarrow> if snd fwd then fst fwd else GTP_Accepted)"

definition mb_run :: "sgwc_env \<Rightarrow> udp_addr \<Rightarrow> header \<Rightarrow> modify_bearer_request \<Rightarrow> sref \<Rightarrow> u32 \<Rightarrow> u8 list \<Rightarrow> unit act" where
  "mb_run E a h req dflt mmeTEID ebis =
     athen (captureSecondaryRATUsageReports E a h req dflt)
     (abind (aget (\<lambda>s. secondaryRATReportTargetSessions (hTEID h) ebis dflt (nsaDCNRForwardSecondaryRATUsageReports E req) (g_mgr s))) (\<lambda>targets.
      abind (aloop (modify_context E h ebis) (mbqBearerContexts req) []) (\<lambda>results.
      abind (aloop (forward_report E h req ebis) targets (GTP_Accepted, False)) (\<lambda>fwd.
      abind (must (collect_ies modified_context results)) (\<lambda>bcs.
      abind (s11_maybeRecoveryIE E a) (\<lambda>rec.
      reply_marshalled E S11 a (MarshalModifyBearerResponse req mmeTEID (mb_cause results fwd) (bcs @ opt_ie rec))))))))"

definition handleModifyBearerRequest :: "sgwc_env \<Rightarrow> udp_addr \<Rightarrow> header \<Rightarrow> ie list \<Rightarrow> unit act" where
  "handleModifyBearerRequest E a h ies = abind (attempt (ParseModifyBearerRequest h ies)) (\<lambda>p. case p of
     Inl e \<Rightarrow> sendMissingIECause E a h (peerTEIDFromIEs ies) e
   | Inr req \<Rightarrow> abind (aget (\<lambda>s. FindByS11TEID (hTEID h) (g_mgr s))) (\<lambda>found. case found of
       None \<Rightarrow> reply_raw E a (MarshalModifyBearerResponse req
           (case mbqFTEID req of Some i \<Rightarrow> ep_TEID (ie_fteid i) | None \<Rightarrow> 0) GTP_ContextNotFound [])
     | Some r \<Rightarrow> abind (sess_of r) (\<lambda>x.
         let mmeTEID = ep_TEID (s_MMEControl x); ebis = bearerContextEBIs (mbqBearerContexts req) in
         abind (beginProcedure E r (mmeProcedureRequest ProcedureModifyBearer a (hTEID h) (hSequenceNumber h) ebis)) (\<lambda>proc. case proc of
           None \<Rightarrow> reply_raw E a (MarshalModifyBearerResponse req mmeTEID GTP_RequestRejected [])
         | Some proc \<Rightarrow> athen (mb_run E a h req r mmeTEID ebis) (finishProcedure r proc)))))"

section \<open>Delete Session\<close>

text \<open>The session that is meant: by the EBI, as default bearer first, or the latest under the TEID;
  with the cause and the TEID of the answer when there is none.\<close>

definition ds_session :: "header \<Rightarrow> delete_session_request \<Rightarrow> manager \<Rightarrow> u32 + sref" where
  "ds_session h req m = (case FindByS11TEID (hTEID h) m of
     None \<Rightarrow> Inl 0
   | Some r \<Rightarrow> (case Option.bind (dsqEBI req) (\<lambda>i. got (EBIValue i)) of
       None \<Rightarrow> Inr r
     | Some e \<Rightarrow> (case FindByS11TEIDAndDefaultBearer (hTEID h) e m of
         Some q \<Rightarrow> Inr q
       | None \<Rightarrow> (case FindByS11TEIDAndBearer (hTEID h) e m of
           Some q \<Rightarrow> Inr q
         | None \<Rightarrow> Inl (ep_TEID (s_MMEControl (deref m r)))))))"

text \<open>Whether the PGW has released its session; otherwise the MME has been answered.\<close>

definition ds_ask_pgw :: "sgwc_env \<Rightarrow> udp_addr \<Rightarrow> header \<Rightarrow> delete_session_request \<Rightarrow> sref \<Rightarrow> u32 \<Rightarrow> u8 list \<Rightarrow> bool act" where
  "ds_ask_pgw E a h req r mmeTEID ebis = abind (sess_of r) (\<lambda>x.
     if ep_TEID (s_PGWControl x) = 0 then aret True
     else abind (allowPeerProcedure E (procedure_request OwnerPGW ProcedureDeleteSession (pgwAddrFromSession x)
         (ep_TEID (s_PGWControl x)) (hSequenceNumber h) ebis)) (\<lambda>ok.
       let failed = athen (reply_raw E a (MarshalDeleteSessionResponse req mmeTEID GTP_SystemFailure)) (aret False) in
       if \<not> ok then failed
       else abind (s5c_deleteSession E r (Some req)) (\<lambda>res. case res of
         Inl _ \<Rightarrow> failed
       | Inr cause \<Rightarrow>
           if cause = GTP_Accepted then aret True
           else athen (relay_rejection E a MsgTypeDeleteSessionResponse mmeTEID (hSequenceNumber (dsqHeader req)) cause) (aret False))))"

definition buildAndReplyDeleteSessionResponse :: "sgwc_env \<Rightarrow> udp_addr \<Rightarrow> delete_session_request \<Rightarrow> u32 \<Rightarrow> unit act" where
  "buildAndReplyDeleteSessionResponse E a req mmeTEID = abind (s11_maybeRecoveryIE E a) (\<lambda>rec.
     reply_marshalled E S11 a (Marshal (mk_header True MsgTypeDeleteSessionResponse mmeTEID (hSequenceNumber (dsqHeader req)))
       ([NewCause GTP_Accepted 0 0 0 None] @ opt_ie rec)))"

definition ds_run :: "sgwc_env \<Rightarrow> udp_addr \<Rightarrow> header \<Rightarrow> delete_session_request \<Rightarrow> sref \<Rightarrow> u32 \<Rightarrow> u8 list \<Rightarrow> unit act" where
  "ds_run E a h req r mmeTEID ebis =
     athen (transition E r StateDeleting)
     (abind (ds_ask_pgw E a h req r mmeTEID ebis) (\<lambda>released.
      if \<not> released then aret ()
      else abind (sess_of r) (\<lambda>x.
        athen (awhen (bound x) (abind (pfcp_delete E (peer_addr x) (up_seid x)) (\<lambda>_. aret ())))
        (athen (clearCreateBearerProcedureFailuresForSession (s_SessionID x))
        (athen (delete_session (s_SessionID x)) (buildAndReplyDeleteSessionResponse E a req mmeTEID))))))"

definition handleDeleteSessionRequest :: "sgwc_env \<Rightarrow> udp_addr \<Rightarrow> header \<Rightarrow> ie list \<Rightarrow> unit act" where
  "handleDeleteSessionRequest E a h ies = abind (attempt (ParseDeleteSessionRequest h ies)) (\<lambda>p. case p of
     Inl e \<Rightarrow> sendMissingIECause E a h (peerTEIDFromIEs ies) e
   | Inr req \<Rightarrow> abind (aget g_mgr) (\<lambda>m. case ds_session h req m of
       Inl t \<Rightarrow> reply_raw E a (MarshalDeleteSessionResponse req t GTP_ContextNotFound)
     | Inr r \<Rightarrow>
         let mmeTEID = ep_TEID (s_MMEControl (deref m r));
             ebis = (case Option.bind (dsqEBI req) (\<lambda>i. got (EBIValue i)) of Some e \<Rightarrow> [e] | None \<Rightarrow> []) in
         abind (beginProcedure E r (mmeProcedureRequest ProcedureDeleteSession a (hTEID h) (hSequenceNumber h) ebis)) (\<lambda>proc. case proc of
           None \<Rightarrow> reply_raw E a (MarshalDeleteSessionResponse req mmeTEID GTP_RequestRejected)
         | Some proc \<Rightarrow> athen (ds_run E a h req r mmeTEID ebis) (finishProcedure r proc))))"

section \<open>Release Access Bearers\<close>

text \<open>The SGW-U of each session is told to drop; the sessions before the first failure stay changed.\<close>

fun drop_downlinks :: "sgwc_env \<Rightarrow> sref list \<Rightarrow> bool act" where
  "drop_downlinks E [] = aret True"
| "drop_downlinks E (r # rs) = abind (sess_of r) (\<lambda>x.
     if \<not> bound x then drop_downlinks E rs
     else (case releaseAccessBearerFARUpdates x of
       None \<Rightarrow> aret False
     | Some us \<Rightarrow>
         if us = [] then drop_downlinks E rs
         else abind (pfcp_modify E (peer_addr x) (up_seid x) us) (\<lambda>res. case res of
           Inl _ \<Rightarrow> aret False
         | Inr _ \<Rightarrow> drop_downlinks E rs)))"

definition handleReleaseAccessBearersRequest :: "sgwc_env \<Rightarrow> udp_addr \<Rightarrow> header \<Rightarrow> ie list \<Rightarrow> unit act" where
  "handleReleaseAccessBearersRequest E a h ies =
     (let req = ParseReleaseAccessBearersRequest h ies in
      abind (aget (\<lambda>s. FindAllByS11TEID (hTEID h) (g_mgr s))) (\<lambda>rs.
      if rs = [] then reply_raw E a (MarshalReleaseAccessBearersResponse req 0 GTP_ContextNotFound)
      else let ctl = last rs in abind (sess_of ctl) (\<lambda>x. let mmeTEID = ep_TEID (s_MMEControl x) in
        abind (beginProcedure E ctl (mmeProcedureRequest ProcedureReleaseAccessBearers a (hTEID h) (hSequenceNumber h) [])) (\<lambda>proc. case proc of
          None \<Rightarrow> reply_raw E a (MarshalReleaseAccessBearersResponse req mmeTEID GTP_RequestRejected)
        | Some proc \<Rightarrow>
            athen (abind (drop_downlinks E rs) (\<lambda>ok.
              if \<not> ok then reply_raw E a (MarshalReleaseAccessBearersResponse req mmeTEID GTP_SystemFailure)
              else athen (aloop (\<lambda>r _. clear_enb E r) rs ())
                (abind (s11_maybeRecoveryIE E a) (\<lambda>rec.
                 reply_marshalled E S11 a (Marshal (mk_header True MsgTypeReleaseAccessBearersResponse mmeTEID (hSequenceNumber (rabHeader req)))
                   ([NewCause GTP_Accepted 0 0 0 None] @ opt_ie rec))))))
            (finishProcedure ctl proc)))))"

section \<open>Dispatch\<close>

definition handleEchoRequest :: "sgwc_env \<Rightarrow> udp_addr \<Rightarrow> header \<Rightarrow> ie list \<Rightarrow> unit act" where
  "handleEchoRequest E a h ies = abind (deref_ptr (en_recovery E)) (\<lambda>v.
     reply_marshalled E S11 a (MarshalEchoResponse (ParseEchoRequest h ies) v))"

text \<open>\<open>run\<close> is the handler of the connection to the PGW, for the frames that came with an answer of the PGW.\<close>

definition s11_handle :: "sgwc_env \<Rightarrow> (udp_addr \<Rightarrow> header \<Rightarrow> bytes \<Rightarrow> unit act) \<Rightarrow> udp_addr \<Rightarrow> header \<Rightarrow> bytes \<Rightarrow> unit act" where
  "s11_handle E run a h raw = abind (attempt (Parse raw)) (\<lambda>p. case p of
     Inl _ \<Rightarrow> sendCause E a h 0 GTP_InvalidMessageFormat
   | Inr (_, ies) \<Rightarrow>
       let t = hMessageType h; observed = (\<lambda>m. athen (observe_peer E RoleMME a h ies) m) in
       if t = MsgTypeEchoRequest then handleEchoRequest E a h ies
       else if t = MsgTypeCreateSessionRequest then observed (handleCreateSessionRequest E run a h ies)
       else if t = MsgTypeModifyBearerRequest then observed (handleModifyBearerRequest E a h ies)
       else if t = MsgTypeCreateBearerResponse then observed (handlePiggybackCreateBearerResponse E a h raw)
       else if t = MsgTypeDeleteSessionRequest then observed (handleDeleteSessionRequest E a h ies)
       else if t = MsgTypeReleaseAccessBearersRequest then observed (handleReleaseAccessBearersRequest E a h ies)
       else if t = MsgTypeDeleteBearerCommand then observed (handleDeleteBearerCommand E a h raw)
       else if t = MsgTypeDownlinkDataNotificationAck then observed (handleDownlinkDataNotificationAck E a raw)
       else if t = MsgTypeDownlinkDataNotificationFailureIndication then observed (handleDownlinkDataNotificationFailureIndication E a raw)
       else if t = MsgTypeUpdateBearerResponse \<or> t = MsgTypeDeleteBearerResponse then observed (aret ())
       else aret ())"

definition isPGWInitiatedBearerRequest :: "u8 \<Rightarrow> bool" where
  "isPGWInitiatedBearerRequest t \<longleftrightarrow>
     t = MsgTypeCreateBearerRequest \<or> t = MsgTypeUpdateBearerRequest \<or> t = MsgTypeDeleteBearerRequest"

text \<open>The handler of the connection to the PGW. With one shared socket it is also that of the MMEs, and a
  frame piggybacked on a PGW's answer may start a Create Session, whose answer may carry frames again:
  \<open>n\<close> bounds that nesting. With separate sockets only the bearer requests are handled.\<close>

fun pgw_frames :: "sgwc_env \<Rightarrow> nat \<Rightarrow> udp_addr \<Rightarrow> header \<Rightarrow> bytes \<Rightarrow> unit act" where
  "pgw_frames E 0 a h raw = crash"
| "pgw_frames E (Suc n) a h raw = abind (aget g_s5c) (\<lambda>own.
     if own \<noteq> None \<or> isPGWInitiatedBearerRequest (hMessageType h) then HandleS5CInbound E a h raw
     else s11_handle E (pgw_frames E n) a h raw)"

text \<open>One message of an MME on its connection.\<close>

definition Handle :: "sgwc_env \<Rightarrow> nat \<Rightarrow> udp_addr \<Rightarrow> header \<Rightarrow> bytes \<Rightarrow> unit act" where
  "Handle E n a h raw = s11_handle E (pgw_frames E n) a h raw"

end
