(* ===== verification/SGWC_Runtime.thy ===== *)
theory SGWC_Runtime
  imports S11_Handler
begin

text \<open>
  What every handler of the SGW-C keeps. The locales \<open>exchanges\<close>, \<open>runtime\<close> and \<open>create_runtime\<close> are the
  interface between the handlers and the state they share: an assertion on the state that each primitive step keeps. Inside it, every
  handler is shown to keep the assertion, whether it returns or panics; an assertion is then proved for
  the whole control plane by an interpretation that looks at the primitives alone.
\<close>

section \<open>Assertions that actions keep\<close>

named_theorems keeps

definition keeps :: "(sgwc \<Rightarrow> bool) \<Rightarrow> 'a act \<Rightarrow> bool" where
  "keeps I m \<longleftrightarrow> (\<forall>s. I s \<longrightarrow> I (snd (m s)))"

definition yields :: "('a \<Rightarrow> bool) \<Rightarrow> 'a act \<Rightarrow> bool" where
  "yields P m \<longleftrightarrow> (\<forall>s x s'. m s = (Some x, s') \<longrightarrow> P x)"

lemma keepsI: "(\<And>s. I s \<Longrightarrow> I (snd (m s))) \<Longrightarrow> keeps I m"
  by (simp add: keeps_def)

lemma keepsD: "keeps I m \<Longrightarrow> I s \<Longrightarrow> I (snd (m s))"
  by (simp add: keeps_def)

lemma keeps_basic [keeps]:
  "keeps I (aret x)" "keeps I crash" "keeps I (aget f)" "keeps I (attempt r)" "keeps I (must r)"
  "keeps I (ignoring z r)" "keeps I (deref_ptr p)"
  by (auto simp: keeps_def aret_def crash_def aget_def attempt_def must_def ignoring_def deref_ptr_def
      split: outcome.splits option.splits)

lemma keeps_abind [keeps]: "keeps I m \<Longrightarrow> (\<And>x. keeps I (f x)) \<Longrightarrow> keeps I (abind m f)"
  by (simp add: keeps_def abind_def split: prod.splits option.splits) (metis snd_conv)

lemma keeps_abind_yields: "keeps I m \<Longrightarrow> yields P m \<Longrightarrow> (\<And>x. P x \<Longrightarrow> keeps I (f x)) \<Longrightarrow> keeps I (abind m f)"
  by (simp add: keeps_def yields_def abind_def split: prod.splits option.splits) (metis snd_conv)

lemma keeps_athen [keeps]: "keeps I m \<Longrightarrow> keeps I m' \<Longrightarrow> keeps I (athen m m')"
  unfolding athen_def by (rule keeps_abind)

lemma keeps_awhen [keeps]: "keeps I m \<Longrightarrow> keeps I (awhen b m)"
  by (simp add: awhen_def keeps_basic)

lemma keeps_aloop [keeps]: "(\<And>x acc. keeps I (f x acc)) \<Longrightarrow> keeps I (aloop f xs acc)"
  by (induction xs arbitrary: acc) (simp_all add: keeps_basic keeps_abind)

lemma keeps_branch [keeps]:
  "keeps I m \<Longrightarrow> keeps I m' \<Longrightarrow> keeps I (if b then m else m')"
  "(\<And>x. keeps I (f x)) \<Longrightarrow> keeps I (Let v f)"
  "keeps I m \<Longrightarrow> (\<And>x. keeps I (f x)) \<Longrightarrow> keeps I (case p of None \<Rightarrow> m | Some x \<Rightarrow> f x)"
  "(\<And>x. keeps I (f1 x)) \<Longrightarrow> (\<And>y. keeps I (f2 y)) \<Longrightarrow> keeps I (case q of Inl x \<Rightarrow> f1 x | Inr y \<Rightarrow> f2 y)"
  "(\<And>x y. keeps I (g x y)) \<Longrightarrow> keeps I (case w of (x, y) \<Rightarrow> g x y)"
  "keeps I m \<Longrightarrow> (\<And>z zs. keeps I (k z zs)) \<Longrightarrow> keeps I (case xs of [] \<Rightarrow> m | z # zs \<Rightarrow> k z zs)"
  by (simp_all split: option.splits sum.splits prod.splits list.splits)

text \<open>An action that starts under \<open>P\<close> and ends with \<open>Q\<close> if it returns, and under \<open>I\<close> in any case.\<close>

definition leads :: "(sgwc \<Rightarrow> bool) \<Rightarrow> (sgwc \<Rightarrow> bool) \<Rightarrow> 'a act \<Rightarrow> ('a \<Rightarrow> sgwc \<Rightarrow> bool) \<Rightarrow> bool" where
  "leads I P m Q \<longleftrightarrow> (\<forall>s. P s \<longrightarrow> I (snd (m s)) \<and> (\<forall>x s'. m s = (Some x, s') \<longrightarrow> Q x s'))"

lemma leadsI: "(\<And>s. P s \<Longrightarrow> I (snd (m s)) \<and> (\<forall>x s'. m s = (Some x, s') \<longrightarrow> Q x s')) \<Longrightarrow> leads I P m Q"
  by (simp add: leads_def)

lemma leads_abind: "leads I P m Q \<Longrightarrow> (\<And>x. leads I (Q x) (f x) R) \<Longrightarrow> leads I P (abind m f) R"
  unfolding leads_def abind_def by (auto split: prod.splits option.splits)

lemma leads_athen: "leads I P m (\<lambda>_. Q) \<Longrightarrow> leads I Q m' R \<Longrightarrow> leads I P (athen m m') R"
  unfolding athen_def by (rule leads_abind)

lemma leads_keeps: "keeps P m \<Longrightarrow> (\<And>s. P s \<Longrightarrow> I s) \<Longrightarrow> leads I P m (\<lambda>_. P)"
  by (simp add: leads_def keeps_def) (metis snd_conv)

lemma keeps_leads: "keeps I m \<Longrightarrow> (\<And>s. P s \<Longrightarrow> I s) \<Longrightarrow> leads I P m (\<lambda>_ _. True)"
  by (simp add: leads_def keeps_def)

lemma leads_imp: "leads I P m Q \<Longrightarrow> (\<And>s. P' s \<Longrightarrow> P s) \<Longrightarrow> (\<And>x s. Q x s \<Longrightarrow> Q' x s) \<Longrightarrow> leads I P' m Q'"
  by (simp add: leads_def) blast

lemma leads_aret: "(\<And>s. P s \<Longrightarrow> I s) \<Longrightarrow> leads I P (aret x) (\<lambda>y s. y = x \<and> P s)"
  by (simp add: leads_def aret_def)

lemma leads_keepsD: "leads I I m Q \<Longrightarrow> keeps I m"
  by (simp add: leads_def keeps_def)

text \<open>The results of actions.\<close>

lemma yieldsI: "(\<And>s x s'. m s = (Some x, s') \<Longrightarrow> P x) \<Longrightarrow> yields P m"
  by (simp add: yields_def)

lemma yields_aret: "P x \<Longrightarrow> yields P (aret x)"
  by (simp add: yields_def aret_def)

lemma yields_crash: "yields P crash"
  by (simp add: yields_def crash_def)

lemma yields_abind: "(\<And>x. yields P (f x)) \<Longrightarrow> yields P (abind m f)"
  by (auto simp: yields_def abind_def split: prod.splits option.splits)

lemma yields_abind_yields: "yields Q m \<Longrightarrow> (\<And>x. Q x \<Longrightarrow> yields P (f x)) \<Longrightarrow> yields P (abind m f)"
  unfolding yields_def abind_def by (auto split: prod.splits option.splits) blast

lemma yields_athen: "yields P m' \<Longrightarrow> yields P (athen m m')"
  unfolding athen_def by (rule yields_abind)

lemma yields_attempt: "(\<And>x. r = Ok x \<Longrightarrow> P (Inr x)) \<Longrightarrow> (\<And>e. P (Inl e)) \<Longrightarrow> yields P (attempt r)"
  by (auto simp: yields_def attempt_def aret_def crash_def split: outcome.splits)

section \<open>The interface\<close>

text \<open>Exchanges with the peers, which touch no session.\<close>

locale exchanges =
  fixes E :: sgwc_env and I :: "sgwc \<Rightarrow> bool"
  assumes tick [keeps]: "keeps I tick"
    and put_out [keeps]: "keeps I (put_out es)"
    and alloc_seq [keeps]: "keeps I (alloc_seq l)"
    and gtp_send [keeps]: "keeps I (gtp_send E l a raw)"
    and gtp_reply [keeps]: "keeps I (gtp_reply E l a raw)"
    and s5c_AllocTEID [keeps]: "keeps I (s5c_AllocTEID E)"
    and free_s5c [keeps]: "keeps I (free_s5c t)"
    and alloc_cpseid [keeps]: "keeps I alloc_cpseid"
    and pfcp_call [keeps]: "keeps I (pfcp_establish E sp)" "keeps I (pfcp_modify E ad up us)"
      "keeps I (pfcp_add_rules E ad up pdrs fars)" "keeps I (pfcp_remove_rules E ad up rpdrs rfars)"
      "keeps I (pfcp_delete E ad up)"
    and observe_peer [keeps]: "keeps I (observe_peer E role a h ies)"
    and s5c_maybeRecoveryIE [keeps]: "keeps I (s5c_maybeRecoveryIE E a)"
    and s11_maybeRecoveryIE [keeps]: "keeps I (s11_maybeRecoveryIE E a)"
    and clear_failures [keeps]: "keeps I (clearCreateBearerProcedureFailuresForSession sid)"
begin

lemma keeps_clock [keeps]: "keeps I (clock E)" "keeps I (sess_of r)"
  unfolding clock_def sess_of_def by (intro keeps)+

lemma keeps_raw [keeps]: "keeps I (raw_of m)" "keeps I (reply E l a raw)"
  unfolding raw_of_def reply_def by (intro keeps)+

lemma keeps_s5c_ask [keeps]: "keeps I (s5c_ask E a raw want)"
  unfolding s5c_ask_def by (intro keeps)

lemma keeps_session_pgw [keeps]: "keeps I (session_pgw x)" "keeps I (session_mme x)"
  unfolding session_pgw_def session_mme_def by (intro keeps)+

lemma keeps_s5c [keeps]:
  "keeps I (pgw_context cs res)" "keeps I (accepted_result t c ps resp)"
  "keeps I (s5c_ModifyBearerFromS11 E r req)" "keeps I (s5c_deleteSession E r q)" "keeps I (ReplyToPGW E a raw)"
  unfolding pgw_context_def accepted_result_def s5c_ModifyBearerFromS11_def s5c_deleteSession_def ReplyToPGW_def
  by (intro keeps)+

lemma keeps_s5c_CreateSession [keeps]: "keeps I (s5c_CreateSession E a req t u)"
  unfolding s5c_CreateSession_def by (intro keeps)

lemma keeps_answers [keeps]:
  "keeps I (reply_marshalled E l a m)" "keeps I (reply_raw E a m)" "keeps I (sendCauseWithOffending E a h t c i)"
  "keeps I (sendCause E a h t c)" "keeps I (sendMissingIECause E a h t e)"
  unfolding reply_marshalled_def reply_raw_def sendCauseWithOffending_def sendCause_def sendMissingIECause_def
  by (intro keeps | (cases e; simp; intro keeps))+

lemma keeps_pfcp [keeps]:
  "keeps I (establishProvisionalPFCPSession E r)" "keeps I (modifyPFCPUplinkFAR E ad up f)" "keeps I (rollback_pfcp E p)"
  unfolding establishProvisionalPFCPSession_def modifyPFCPUplinkFAR_def rollback_pfcp_def by (intro keeps)+

lemma keeps_release_evicted [keeps]: "keeps I (release_s5c t)" "keeps I (release_evicted E old)"
  "keeps I (allowPeerProcedure E req)"
  unfolding release_s5c_def release_evicted_def allowPeerProcedure_def by (intro keeps)+

end

text \<open>The sessions, the tables of the bearer procedures and the frames handed to a handler.\<close>

locale runtime = exchanges +
  assumes dispatch_frame [keeps]: "(\<And>h raw. keeps I (run a h raw)) \<Longrightarrow> keeps I (dispatch_frame E run a fr u)"
    and call_session [keeps]: "\<not> reindexing call \<Longrightarrow> keeps I (call_session r call)"
    and set_tracker [keeps]: "keeps I (set_tracker r tk)"
    and delete_session [keeps]: "keeps I (delete_session sid)"
    and markDDNLowPriorityThrottle [keeps]: "keeps I (markDDNLowPriorityThrottle E a ack tm)"
    and update_txn [keeps]: "keeps I (update_txn i upd)"
    and begin_txn [keeps]: "keeps I (beginCreateBearerTxnWithFingerprint E a h raw sess fp)"
    and find_failure [keeps]: "keeps I (findLatchedCreateBearerProcedureFailure E pk)"
    and remember_failure [keeps]: "keeps I (rememberCreateBearerProcedureFailure E pk cause desc)"
    and register_pending [keeps]: "keeps I (registerPendingS11CreateBearer E a pgw h n prep)"
    and pop_pending [keeps]: "keeps I (popPendingS11CreateBearer key)"
    and mark_command [keeps]: "keeps I (markDeleteBearerCommandPending E r h ebis)"
    and clear_command [keeps]: "keeps I (clearDeleteBearerCommandPending E r ebis)"
begin

lemma keeps_session [keeps]:
  "keeps I (set_bearer E r b)" "keeps I (delete_bearer E r ebi)" "keeps I (clear_enb E r)"
  "keeps I (transition E r st)" "keeps I (edit_bearer E r ebi g)"
  unfolding set_bearer_def delete_bearer_def clear_enb_def transition_def edit_bearer_def
  by (intro keeps; simp)+

lemma keeps_timed [keeps]: "(\<And>now. \<not> reindexing (c now)) \<Longrightarrow> keeps I (timed_call E r c)"
  unfolding timed_call_def by (intro keeps)

lemma keeps_procedure [keeps]:
  "keeps I (finishProcedure r proc)" "keeps I (beginProcedure E r req)"
  unfolding finishProcedure_def beginProcedure_def by (intro keeps; simp)+

lemma keeps_abort [keeps]: "keeps I (abort_create E a h r t1 t2 c)"
  unfolding abort_create_def by (intro keeps)

end

section \<open>Bearer procedures\<close>

context runtime
begin

lemma keeps_txns [keeps]:
  "keeps I (txn_of i)" "keeps I (touch_txn E i)" "keeps I (answered c1 c2 i)"
  "(\<And>j. keeps I (f j)) \<Longrightarrow> keeps I (with_txn key z f)"
  unfolding txn_of_def touch_txn_def answered_def with_txn_def by (intro keeps; assumption)+

lemma keeps_txn_steps [keeps]:
  "keeps I (findCreateBearerTxn E a h)" "keeps I (markCreateBearerTxnProvisioned E key provs)"
  "keeps I (setCreateBearerTxnProcedureKey E key pk)" "keeps I (markCreateBearerTxnRolledBack E key p)"
  "keeps I (completeCreateBearerTxn E key resp c)"
  unfolding findCreateBearerTxn_def markCreateBearerTxnProvisioned_def setCreateBearerTxnProcedureKey_def
    markCreateBearerTxnRolledBack_def completeCreateBearerTxn_def by (intro keeps)+

lemma keeps_remove [keeps]:
  "keeps I (remove_rules E r pdrs fars)" "keeps I (removeProvisionedBearerRules E r ru)"
  "keeps I (removeAllCreateBearerTxnProvisioning E key r provs)" "keeps I (removeCreateBearerTxnProvisioning E key r p)"
  unfolding remove_rules_def removeProvisionedBearerRules_def removeAllCreateBearerTxnProvisioning_def
    removeCreateBearerTxnProvisioning_def by (intro keeps)+

lemma keeps_bearer_errors [keeps]:
  "keeps I (replyBearerError E a h ty t c)" "keeps I (replyCreateBearerTxnError E key a h req t c)"
  "keeps I (replyCreateBearerRetryGuardFailure E a h req x failure)" "keeps I (peer_teid r)" "keeps I (txn_response E a i)"
  "keeps I (cb_reject E a h ad c)"
  unfolding replyBearerError_def replyCreateBearerTxnError_def replyCreateBearerRetryGuardFailure_def peer_teid_def
    txn_response_def cb_reject_def by (intro keeps)+

lemma keeps_txn_action [keeps]:
  "keeps I m1 \<Longrightarrow> keeps I m2 \<Longrightarrow> keeps I m3 \<Longrightarrow> keeps I m4 \<Longrightarrow> keeps I m5 \<Longrightarrow>
   keeps I (case act of TxnNew \<Rightarrow> m1 | TxnPending \<Rightarrow> m2 | TxnCached \<Rightarrow> m3 | TxnFingerprintPending \<Rightarrow> m4 | TxnFingerprintCached \<Rightarrow> m5)"
  by (cases act) simp_all

lemma keeps_cb_admit [keeps]: "keeps I (cb_begin_txn E a h raw r fp pk)" "keeps I (cb_admit E a h raw)"
  unfolding cb_begin_txn_def cb_admit_def by (intro keeps)+

lemma keeps_cb_contexts [keeps]: "keeps I (cb_contexts parse r bcs provs)"
  by (induction bcs arbitrary: provs) (simp_all, (intro keeps; simp)+)

lemma keeps_cb_provision [keeps]:
  "keeps I (cb_request_mme E a h ctx ad provs)" "keeps I (cb_provision E a h parse fars ctx ad)"
  "keeps I (prepareCreateBearerRelay E a h raw)"
  unfolding cb_request_mme_def cb_provision_def prepareCreateBearerRelay_def by (intro keeps)+

lemma keeps_complete [keeps]:
  "keeps I (install_bearer E r key ebi enb p)" "keeps I (complete_context E r key rej mt ibc acc)"
  "keeps I (complete_valid E early mt a h r tx provs resp)" "keeps I (complete_create_bearer E early mt a h req r i provs raw)"
  unfolding install_bearer_def complete_context_def complete_valid_def complete_create_bearer_def Let_def by (intro keeps)+

lemma keeps_create_bearer [keeps]:
  "keeps I (expirePendingS11CreateBearer E key)" "keeps I (completeCreateBearerFromS11Response E pd raw)"
  "keeps I (handlePiggybackCreateBearerResponse E a h raw)" "keeps I (ask_mme E r raw)" "keeps I (handleCreateBearer E a h raw)"
  unfolding expirePendingS11CreateBearer_def completeCreateBearerFromS11Response_def
    handlePiggybackCreateBearerResponse_def ask_mme_def handleCreateBearer_def by (intro keeps)+

lemma keeps_relayed [keeps]:
  "keeps I (pgw_procedure E a h ty pr ebis)" "keeps I (fail_to_pgw E a h ty r)" "keeps I (relay_to_mme E a h ty r build parse)"
  "keeps I (update_context E r bcs bc u)" "keeps I (delete_context E r bc u)"
  unfolding pgw_procedure_def fail_to_pgw_def relay_to_mme_def update_context_def delete_context_def by (intro keeps)+

lemma keeps_update_delete [keeps]:
  "keeps I (handleUpdateBearer E a h raw)" "keeps I (handleDeleteBearer E a h raw)"
  "keeps I (replyDeleteBearerFailureIndication E a h t c bcs)" "keeps I (command_group E a h cmd g)"
  unfolding handleUpdateBearer_def handleDeleteBearer_def replyDeleteBearerFailureIndication_def command_group_def Let_def
  by (intro keeps)+

lemma keeps_command_loop [keeps]: "keeps I (command_loop E a h cmd gs)"
  by (induction gs) (simp_all, (intro keeps | assumption)+)

lemma keeps_HandleS5CInbound [keeps]:
  "keeps I (handleDeleteBearerCommand E a h raw)" "keeps I (handleS5CDeleteBearerFailureIndication E a h raw)"
  "keeps I (removeBearerRulesAndState E r ebi)" "keeps I (HandleS5CInbound E a h raw)"
  unfolding handleDeleteBearerCommand_def handleS5CDeleteBearerFailureIndication_def removeBearerRulesAndState_def
    HandleS5CInbound_def by (intro keeps)+

end

section \<open>The other procedures of an MME\<close>

context runtime
begin

lemma keeps_notify [keeps]:
  "keeps I (send_to_mme E x m)" "keeps I (SendDownlinkDataNotification E r)" "keeps I (SendStopPagingIndication E r)"
  "keeps I (maybeSendStopPagingAfterDDNAck E r c)" "keeps I (handleDownlinkDataNotificationAck E a raw)"
  "keeps I (handleDownlinkDataNotificationFailureIndication E a raw)"
  unfolding send_to_mme_def SendDownlinkDataNotification_def SendStopPagingIndication_def
    maybeSendStopPagingAfterDDNAck_def handleDownlinkDataNotificationAck_def
    handleDownlinkDataNotificationFailureIndication_def by (intro keeps; simp)+

lemma keeps_reports [keeps]: "keeps I (secondary_rat_reports E a h ies)"
  by (induction ies) (simp_all, (intro keeps | assumption)+)

lemma keeps_modify_parts [keeps]:
  "keeps I (captureSecondaryRATUsageReports E a h req r)" "keeps I (forward_report E h req ebis r acc)"
  "keeps I (set_enb E r ebi f)" "keeps I (switch_downlink E r ebi old f ids)"
  unfolding captureSecondaryRATUsageReports_def forward_report_def set_enb_def switch_downlink_def by (intro keeps; simp)+

lemma keeps_modify [keeps]:
  "keeps I (restore_sibling E r rq f b u)" "keeps I (restoreSiblingBearersAfterModifyBearer E r rq f)"
  "keeps I (modify_bearer E rq r ebi b f)" "keeps I (modify_context E h rq bc results)" "keeps I (mb_run E a h req r t ebis)"
  "keeps I (handleModifyBearerRequest E a h ies)"
  unfolding restore_sibling_def restoreSiblingBearersAfterModifyBearer_def modify_bearer_def modify_context_def mb_run_def
    handleModifyBearerRequest_def by (intro keeps; simp)+

lemma keeps_delete [keeps]:
  "keeps I (relay_rejection E a ty t n c)" "keeps I (ds_ask_pgw E a h req r t ebis)"
  "keeps I (buildAndReplyDeleteSessionResponse E a req t)" "keeps I (ds_run E a h req r t ebis)"
  "keeps I (handleDeleteSessionRequest E a h ies)"
  unfolding relay_rejection_def ds_ask_pgw_def buildAndReplyDeleteSessionResponse_def ds_run_def
    handleDeleteSessionRequest_def Let_def by (intro keeps)+

lemma keeps_drop_downlinks [keeps]: "keeps I (drop_downlinks E rs)"
  by (induction rs) (simp_all, (intro keeps | assumption)+)

lemma keeps_release [keeps]: "keeps I (handleReleaseAccessBearersRequest E a h ies)" "keeps I (handleEchoRequest E a h ies)"
  unfolding handleReleaseAccessBearersRequest_def handleEchoRequest_def by (intro keeps)+

end

section \<open>Create Session\<close>

text \<open>Opening a session is the one step that adds to the manager's indexes; that it keeps the assertion is a
  law of its own. The PGW's address is always made of four octets.\<close>

lemma yields_PGWAddr: "PGWAddr req = Ok a \<Longrightarrow> \<exists>a4. a = pgw_udp a4"
  by (auto simp: PGWAddr_def obind_Ok_iff split: option.splits outcome.splits if_splits)

definition opened_pgw :: "(sref \<times> u32 \<times> u8 \<times> udp_addr \<times> pfcp_session_result \<times> u32) option \<Rightarrow> bool" where
  "opened_pgw opened \<longleftrightarrow> (\<forall>r t ebi pgw p s5c. opened = Some (r, t, ebi, pgw, p, s5c) \<longrightarrow> (\<exists>a4. pgw = pgw_udp a4))"

definition prepared_pgw :: "(udp_addr \<times> pfcp_session_result \<times> u32) option \<Rightarrow> bool" where
  "prepared_pgw prep \<longleftrightarrow> (\<forall>pgw p s5c. prep = Some (pgw, p, s5c) \<longrightarrow> (\<exists>a4. pgw = pgw_udp a4))"

lemma yields_if: "yields P m \<Longrightarrow> yields P m' \<Longrightarrow> yields P (if b then m else m')"
  "(\<And>x. yields P (f1 x)) \<Longrightarrow> (\<And>y. yields P (f2 y)) \<Longrightarrow> yields P (case q of Inl x \<Rightarrow> f1 x | Inr y \<Rightarrow> f2 y)"
  by (simp_all split: sum.splits)

lemma yields_csr_prepare: "yields prepared_pgw (csr_prepare E a h req r t ebi)"
proof -
  have 1: "yields (\<lambda>x. \<forall>pgw. x = Inr pgw \<longrightarrow> (\<exists>a4. pgw = pgw_udp a4)) (attempt (PGWAddr req))"
    by (rule yields_attempt) (simp_all add: yields_PGWAddr)
  show ?thesis
    unfolding csr_prepare_def
    by (rule yields_abind_yields [OF 1])
      (auto simp: prepared_pgw_def intro!: yields_if yields_abind yields_athen yields_aret split: sum.splits)
qed

lemma yields_csr_open: "yields opened_pgw (csr_open E a h req)"
proof -
  have 1: "yields opened_pgw (aret (case prep of None \<Rightarrow> None | Some (pgw, p, s5c) \<Rightarrow> Some (r, t, ebi, pgw, p, s5c)))"
    if "prepared_pgw prep" for prep r t ebi
    using that by (auto simp: opened_pgw_def prepared_pgw_def intro!: yields_aret split: option.splits)
  have 2: "yields opened_pgw (aret None)" by (rule yields_aret) (simp add: opened_pgw_def)
  show ?thesis
    unfolding csr_open_def Let_def
    by (intro yields_abind)
      (auto intro!: yields_athen yields_abind_yields [OF yields_csr_prepare] 1 2 split: sum.splits)
qed

locale create_runtime = runtime +
  assumes csr_open [keeps]: "keeps I (csr_open E a h req)"
    and register_pgw [keeps]: "keeps I (register_pgw E sid (hostport (pgw_udp a4)))"
begin

lemma keeps_csr_ask_pgw [keeps]: "keeps I (csr_ask_pgw E a h req r t1 pgw p t2)"
  unfolding csr_ask_pgw_def by (intro keeps)

lemma keeps_csr_commit [keeps]:
  "keeps I (csr_open_uplink E a h r t1 p t2 u)" "keeps I (csr_commit E a h r t1 ebi (pgw_udp a4) p t2 res)"
  unfolding csr_open_uplink_def csr_commit_def by (intro keeps; simp)+

lemma keeps_FindFirst_ptrs [keeps]: "keeps I (FindFirst_ptrs ps ty)"
  by (induction ps ty rule: FindFirst_ptrs.induct) (simp_all add: keeps_basic)

lemma keeps_csr_answer:
  assumes "\<And>b h raw. keeps I (run b h raw)"
  shows "keeps I (csr_answer E run a req r ebi pgw p res)"
  unfolding csr_answer_def buildS11CreateSessionResponseIEs_def relay_piggyback_def
  by (intro keeps assms)

lemma keeps_create:
  assumes "\<And>b h raw. keeps I (run b h raw)"
  shows "keeps I (handleCreateSessionRequest E run a h ies)"
  unfolding handleCreateSessionRequest_def
proof (rule keeps_abind [OF keeps_basic(4)], rule keeps_branch(4))
  fix req
  show "keeps I (abind (csr_open E a h req) (\<lambda>opened. case opened of None \<Rightarrow> aret ()
     | Some (r, t, ebi, pgw, p, s5c) \<Rightarrow> abind (csr_ask_pgw E a h req r t pgw p s5c) (\<lambda>res. case res of
         None \<Rightarrow> aret ()
       | Some res \<Rightarrow> abind (csr_commit E a h r t ebi pgw p s5c res) (\<lambda>ok.
           if ok then csr_answer E run a req r ebi pgw p res else aret ()))))"
    by (rule keeps_abind_yields [OF csr_open yields_csr_open])
      (auto simp: opened_pgw_def split: option.splits intro!: keeps keeps_csr_answer assms)
qed (intro keeps)

lemma keeps_s11_handle:
  assumes "\<And>b h raw. keeps I (run b h raw)"
  shows "keeps I (s11_handle E run a h raw)"
  unfolding s11_handle_def Let_def by (intro keeps keeps_create assms)

lemma keeps_pgw_frames: "keeps I (pgw_frames E n a h raw)"
proof (induction n arbitrary: a h raw)
  case (Suc n)
  then show ?case by (simp, intro keeps keeps_s11_handle)
qed (simp add: keeps_basic)

lemma keeps_Handle: "keeps I (Handle E n a h raw)"
  unfolding Handle_def by (intro keeps_s11_handle keeps_pgw_frames)

end

end
