(* ===== verification/SGWC_Sessions.thy ===== *)
theory SGWC_Sessions
  imports SGWC_Runtime
begin

text \<open>
  The handlers and the session manager: whatever messages, timers and notifications the control plane
  processes, the manager's indexes agree with its sessions. The manager's invariant is kept by every
  primitive, and by opening a session, whose new reference is in no index of S5/S8-C TEIDs until
  its TEID is registered.
\<close>

section \<open>Actions that leave the sessions alone\<close>

text \<open>Reading the environment only moves the number of the reading.\<close>

definition quiet :: "'a act \<Rightarrow> bool" where
  "quiet m \<longleftrightarrow> (\<forall>s. g_mgr (snd (m s)) = g_mgr s \<and> g_k s \<le> g_k (snd (m s)))"

lemma quiet_basic: "quiet (aret x)" "quiet crash" "quiet (aget f)" "quiet (attempt r)" "quiet (must r)"
    "quiet (ignoring z r)" "quiet (deref_ptr p)" "quiet tick" "quiet (put_out es)"
  by (auto simp: quiet_def aret_def crash_def aget_def attempt_def must_def ignoring_def deref_ptr_def tick_def put_out_def
      amod_def split: outcome.splits option.splits)

lemma quiet_abind: "quiet m \<Longrightarrow> (\<And>x. quiet (f x)) \<Longrightarrow> quiet (abind m f)"
  unfolding quiet_def abind_def by (auto split: prod.splits option.splits) (metis snd_conv le_trans)+

lemma quiet_athen: "quiet m \<Longrightarrow> quiet m' \<Longrightarrow> quiet (athen m m')"
  unfolding athen_def by (rule quiet_abind)

lemma quiet_amod: "(\<And>s. g_mgr (f s) = g_mgr s \<and> g_k s \<le> g_k (f s)) \<Longrightarrow> quiet (amod f)"
  by (simp add: quiet_def amod_def)

lemma quiet_branch:
  "quiet m \<Longrightarrow> quiet m' \<Longrightarrow> quiet (if b then m else m')"
  "(\<And>x. quiet (f x)) \<Longrightarrow> quiet (Let v f)"
  "quiet m \<Longrightarrow> (\<And>x. quiet (f x)) \<Longrightarrow> quiet (case p of None \<Rightarrow> m | Some x \<Rightarrow> f x)"
  "(\<And>x. quiet (f1 x)) \<Longrightarrow> (\<And>y. quiet (f2 y)) \<Longrightarrow> quiet (case q of Inl x \<Rightarrow> f1 x | Inr y \<Rightarrow> f2 y)"
  "(\<And>x y. quiet (g x y)) \<Longrightarrow> quiet (case w of (x, y) \<Rightarrow> g x y)"
  by (simp_all split: option.splits sum.splits prod.splits)

lemma set_conn_frame [simp]: "g_mgr (set_conn l c s) = g_mgr s" "g_k (set_conn l c s) = g_k s"
  by (simp_all add: set_conn_def)

lemmas quiet_intros = quiet_basic quiet_abind quiet_athen quiet_branch quiet_amod

lemma quiet_gtp:
  "quiet (alloc_seq l)" "quiet (gtp_send E l a raw)" "quiet (gtp_reply E l a raw)"
proof -
  show "quiet (alloc_seq l)" by (simp add: quiet_def alloc_seq_def split: prod.splits)
  show "quiet (gtp_send E l a raw)"
    by (auto simp: quiet_def gtp_send_def abind_def tick_def athen_def put_out_def amod_def attempt_def aret_def crash_def
        split: prod.splits outcome.splits option.splits)
  show "quiet (gtp_reply E l a raw)"
    by (auto simp: quiet_def gtp_reply_def clock_def Let_def abind_def tick_def athen_def put_out_def amod_def attempt_def
        aret_def crash_def split: prod.splits outcome.splits option.splits)
qed

lemma quiet_pfcp_call: "quiet (pfcp_call E p f)"
  unfolding pfcp_call_def by (intro quiet_intros) simp_all

lemma quiet_exchanges:
  "quiet (s5c_AllocTEID E)" "quiet (free_s5c t)" "quiet alloc_cpseid" "quiet (pfcp_establish E sp)" "quiet (pfcp_modify E ad up us)"
  "quiet (pfcp_add_rules E ad up pdrs fars)" "quiet (pfcp_remove_rules E ad up ps fs)" "quiet (pfcp_delete E ad up)"
  "quiet (observe_peer E role a h ies)" "quiet (s5c_maybeRecoveryIE E a)" "quiet (s11_maybeRecoveryIE E a)"
  "quiet (clearCreateBearerProcedureFailuresForSession sid)"
proof -
  show "quiet alloc_cpseid" by (simp add: quiet_def alloc_cpseid_def split: prod.splits)
qed (unfold s5c_AllocTEID_def free_s5c_def pfcp_establish_def pfcp_modify_def pfcp_add_rules_def
  pfcp_remove_rules_def pfcp_delete_def observe_peer_def recoveryValuePtr_def recoveryIEValuePtr_def clock_def
  s5c_maybeRecoveryIE_def s11_maybeRecoveryIE_def clearCreateBearerProcedureFailuresForSession_def,
  (intro quiet_intros quiet_pfcp_call; simp)+)

lemma quiet_tables:
  "quiet (markDDNLowPriorityThrottle E a ack tm)" "quiet (update_txn i upd)"
  "quiet (beginCreateBearerTxnWithFingerprint E a h raw sess fp)" "quiet (findLatchedCreateBearerProcedureFailure E pk)"
  "quiet (rememberCreateBearerProcedureFailure E pk cause desc)" "quiet (registerPendingS11CreateBearer E a pgw h n prep)"
  "quiet (popPendingS11CreateBearer key)" "quiet (markDeleteBearerCommandPending E r h ebis)"
  "quiet (clearDeleteBearerCommandPending E r ebis)"
  unfolding markDDNLowPriorityThrottle_def update_txn_def beginCreateBearerTxnWithFingerprint_def touch_txn_def answered_def
    txn_of_def findLatchedCreateBearerProcedureFailure_def rememberCreateBearerProcedureFailure_def
    registerPendingS11CreateBearer_def popPendingS11CreateBearer_def markDeleteBearerCommandPending_def
    clearDeleteBearerCommandPending_def clock_def sess_of_def
  by (intro quiet_intros; simp add: Let_def)+

section \<open>The manager's invariant\<close>

text \<open>Session IDs are random: no reading gives one that an earlier reading gave.\<close>

definition fresh_ids :: "sgwc_env \<Rightarrow> sgwc \<Rightarrow> bool" where
  "fresh_ids E s \<longleftrightarrow>
     (\<forall>k sid. g_k s \<le> k \<and> newSessionID (en_rand8 E k) = Ok sid \<longrightarrow> mget (byID (g_mgr s)) sid = None) \<and>
     (\<forall>k k' sid. newSessionID (en_rand8 E k) = Ok sid \<and> newSessionID (en_rand8 E k') = Ok sid \<longrightarrow> k = k')"

definition at_mgr :: "sgwc_env \<Rightarrow> (manager \<Rightarrow> bool) \<Rightarrow> sgwc \<Rightarrow> bool" where
  "at_mgr E P s \<longleftrightarrow> P (g_mgr s) \<and> fresh_ids E s"

lemma quiet_keeps: "quiet m \<Longrightarrow> keeps (at_mgr E P) m"
  by (rule keepsI) (auto simp: quiet_def at_mgr_def fresh_ids_def intro: le_trans)

interpretation quietly: exchanges E "at_mgr E P" for E P
  by unfold_locales (intro quiet_keeps quiet_basic quiet_gtp quiet_exchanges)+

lemma keeps_mgr_change:
  assumes "\<And>m. P m \<Longrightarrow> Q (fst (F m)) \<and> (\<forall>sid. mget (byID m) sid = None \<longrightarrow> mget (byID (fst (F m))) sid = None)"
    and "\<And>m. Q m \<Longrightarrow> J m"
  shows "leads (at_mgr E J) (at_mgr E P) (abind (aget (\<lambda>s. F (g_mgr s))) put_mgr) (\<lambda>_. at_mgr E Q)"
proof (rule leadsI)
  fix s assume s: "at_mgr E P s"
  let ?m = "abind (aget (\<lambda>s. F (g_mgr s))) put_mgr"
  have e: "g_mgr (snd (?m s)) = fst (F (g_mgr s))" "g_k (snd (?m s)) = g_k s"
    by (simp_all add: abind_def aget_def put_mgr_def athen_def amod_def put_out_def split: prod.splits)
  have "Q (fst (F (g_mgr s)))" "\<forall>sid. mget (byID (g_mgr s)) sid = None \<longrightarrow> mget (byID (fst (F (g_mgr s)))) sid = None"
    using assms(1) s by (auto simp: at_mgr_def)
  then have "at_mgr E Q (snd (?m s))"
    using s unfolding at_mgr_def fresh_ids_def e by blast
  then show "at_mgr E J (snd (?m s)) \<and> (\<forall>x s'. ?m s = (Some x, s') \<longrightarrow> at_mgr E Q s')"
    using assms(2) by (auto simp: at_mgr_def)
qed

lemma byID_on_session [simp]: "byID (fst (on_session r f m)) = byID m"
  by (simp add: on_session_def Let_def case_prod_beta)

lemma managed_call:
  assumes "\<not> reindexing c"
  shows "keeps (at_mgr E mgr_inv) (call_session r c)"
  unfolding call_session_def
  by (rule leads_keepsD, rule keeps_mgr_change) (simp_all add: session_ok [OF _ assms])

lemma managed_tracker: "keeps (at_mgr E mgr_inv) (set_tracker r t)"
proof -
  have 1: "mgr_inv (fst (on_session r (\<lambda>x. (x\<lparr>s_Procedures := t\<rparr>, [])) m))" if "mgr_inv m" for m
    by (rule inv_heap_kept [OF that])
      (auto simp: on_session_def Let_def kept_def same_keys_def intro!: heap_kept_update)
  show ?thesis
    unfolding set_tracker_def by (rule leads_keepsD, rule keeps_mgr_change) (simp_all add: 1)
qed

lemma byID_delete: "mget (byID m) i = None \<Longrightarrow> mget (byID (fst (mgr_Delete sid m))) i = None"
  by (simp add: mgr_Delete_def map_simps split: option.splits)

lemma managed_delete: "keeps (at_mgr E mgr_inv) (delete_session sid)"
  unfolding delete_session_def
  by (rule leads_keepsD, rule keeps_mgr_change) (simp_all add: delete_ok byID_delete)

lemma keeps_dispatch:
  assumes "\<And>h raw. keeps (at_mgr E P) (run a h raw)"
  shows "keeps (at_mgr E P) (dispatch_frame E run a fr u)"
proof -
  have 1: "keeps (at_mgr E P) (amod (set_conn l c))" "keeps (at_mgr E P) (amod (\<lambda>s. set_conn S5C (f s) s))" for l c f
    by (intro quiet_keeps quiet_amod; simp)+
  have 2: "keeps (at_mgr E P) (case out of WroteUDP b \<Rightarrow> m b | HandlerRuns h raw \<Rightarrow> w h raw | _ \<Rightarrow> aret ())"
    if "\<And>b. keeps (at_mgr E P) (m b)" "\<And>h raw. keeps (at_mgr E P) (w h raw)" for out m w
    using that by (cases out) (simp_all add: keeps_basic)
  show ?thesis
    unfolding dispatch_frame_def Let_def
    by (intro quietly.keeps_clock keeps 1 2 assms quietly.tick quietly.put_out)
qed

interpretation managed: runtime E "at_mgr E mgr_inv" for E
  by unfold_locales (rule keeps_dispatch managed_call, assumption | rule managed_tracker managed_delete |
    rule quiet_keeps, rule quiet_tables)+

section \<open>Opening a session\<close>

definition new_ref :: "sref \<Rightarrow> manager \<Rightarrow> bool" where
  "new_ref r m \<longleftrightarrow> mgr_inv m \<and> indexed m r \<and> (\<forall>t. mget (byS5C m) t \<noteq> Some r)"

definition reuse_ok :: "create_params \<Rightarrow> manager \<Rightarrow> bool" where
  "reuse_ok p m \<longleftrightarrow> mgr_inv m \<and> (ep_TEID (cp_ReuseSGWS11 p) \<noteq> 0 \<longrightarrow> ep_TEID (cp_ReuseSGWS11 p) \<in> held m)"

lemma find_s11_held:
  assumes "mgr_inv m" "FindByS11TEID t m = Some r"
  shows "indexed m r" "ep_TEID (s_SGWS11 (deref m r)) = t" "t \<in> held m"
proof -
  have "s11_ok m" using assms(1) by (simp add: mgr_inv_def indexes_ok_def)
  moreover have "r \<in> set (s11_list m t)"
    using assms(2) by (auto simp: FindByS11TEID_def Let_def split: if_splits)
  ultimately have 1: "indexed m r \<and> s11_teid (deref m r) = t" unfolding s11_ok_def by blast
  then show "indexed m r" "ep_TEID (s_SGWS11 (deref m r)) = t" by (simp_all add: s11_teid_def)
  show "t \<in> held m" using 1 by (auto simp: held_def)
qed

lemma csr_params_leads: "leads (at_mgr E mgr_inv) (at_mgr E mgr_inv) (csr_params h req) (\<lambda>p. at_mgr E (reuse_ok p))"
proof (rule leadsI)
  fix s assume s: "at_mgr E mgr_inv s"
  show "at_mgr E mgr_inv (snd (csr_params h req s)) \<and>
      (\<forall>p s'. csr_params h req s = (Some p, s') \<longrightarrow> at_mgr E (reuse_ok p) s')"
    using s find_s11_held [of "g_mgr s" "hTEID h"]
    by (auto simp: csr_params_def deref_ptr_def abind_def aget_def aret_def crash_def at_mgr_def reuse_ok_def Let_def noFTEID_def
        split: option.splits prod.splits)
qed

lemma create_teid:
  assumes "mgr_Create rnd rnd8 now p m = (Ok (r, old), m', ns)"
  shows "ep_TEID (s_SGWS5C (deref m' r)) = 0"
proof -
  obtain f fresh m1 sid where 1: "s11_for rnd p m = (Ok (f, fresh), m1)"
    "install_session (newSession now sid f (checkpointSink m1) p) m1 = ((r, old), m', ns)"
    using assms by (auto simp: mgr_Create_def split: prod.splits outcome.splits)
  then have "\<exists>m2. r = length (heap m2) \<and> m' = index_session (newSession now sid f (checkpointSink m1) p) m2"
    by (auto simp: install_session_def Let_def)
  then show ?thesis
    by (auto simp: index_session_def Let_def deref_def newSession_def noFTEID_def)
qed

lemma create_byID:
  assumes "mgr_inv m" "reuse_ok p m" "\<forall>sid. newSessionID rnd8 = Ok sid \<longrightarrow> mget (byID m) sid = None"
    and "mgr_Create rnd rnd8 now p m = (res, m', ns)" "mget (byID m) i = None" "newSessionID rnd8 \<noteq> Ok i"
  shows "mget (byID m') i = None"
proof -
  have "ep_TEID (cp_ReuseSGWS11 p) \<noteq> 0 \<longrightarrow> ep_TEID (cp_ReuseSGWS11 p) \<in> held m"
    using assms(2) by (simp add: reuse_ok_def)
  from create_refines [OF assms(1) this assms(3)] have r: "create_refines rnd rnd8 now p m" .
  have "conns m i = None" using assms(5) by (simp add: conns_def)
  with r assms(4,6) have "conns m' i = None"
    by (auto simp: create_refines_def connect_def split: outcome.splits)
  then show ?thesis by (simp add: conns_def)
qed

lemma create_leads:
  "leads (at_mgr E mgr_inv) (at_mgr E (reuse_ok p)) (create_session E p)
     (\<lambda>res. at_mgr E (\<lambda>m. mgr_inv m \<and> (\<forall>r old. res = Inr (r, old) \<longrightarrow> new_ref r m)))"
proof (rule leadsI)
  fix s assume "at_mgr E (reuse_ok p) s"
  then have s: "mgr_inv (g_mgr s)" "reuse_ok p (g_mgr s)" "fresh_ids E s"
    by (simp_all add: at_mgr_def reuse_ok_def)
  let ?k = "g_k s" and ?m = "g_mgr s"
  obtain res m' ns where c: "mgr_Create (en_rand4 E ?k) (en_rand8 E ?k) (en_now E ?k) p ?m = (res, m', ns)"
    by (metis prod_cases3)
  have fr: "\<forall>sid. newSessionID (en_rand8 E ?k) = Ok sid \<longrightarrow> mget (byID ?m) sid = None"
    using s(3) order_refl unfolding fresh_ids_def by blast
  have inv: "mgr_inv m'"
    using create_ok [OF s(1) _ fr, of p "en_rand4 E ?k" "en_now E ?k"] s(2) c by (simp add: reuse_ok_def)
  have ids: "mget (byID m') i = None" if "newSessionID (en_rand8 E k') = Ok i" "?k + 1 \<le> k'" for i k'
  proof (rule create_byID [OF s(1,2) fr c])
    show "mget (byID ?m) i = None" using s(3) that unfolding fresh_ids_def by (meson add_leD1)
    show "newSessionID (en_rand8 E ?k) \<noteq> Ok i"
      using s(3) that unfolding fresh_ids_def by (metis Suc_eq_plus1 not_less_eq_eq order_refl)
  qed
  have new: "new_ref r m'" if "res = Ok (r, old)" for r old
  proof -
    have "ep_TEID (cp_ReuseSGWS11 p) \<noteq> 0 \<longrightarrow> ep_TEID (cp_ReuseSGWS11 p) \<in> held ?m"
      using s(2) by (simp add: reuse_ok_def)
    from create_refines [OF s(1) this fr, of "en_rand4 E ?k" "en_now E ?k"]
    have "\<exists>sid. mgr_Find sid m' = Some r" by (auto simp: create_refines_def c that)
    then obtain sid where "mgr_Find sid m' = Some r" by blast
    moreover have ok: "ids_ok m'" "s5c_ok m'" using inv by (simp_all add: mgr_inv_def indexes_ok_def)
    ultimately have "indexed m' r" using live_iff by (auto simp: mgr_Find_def)
    moreover have "mget (byS5C m') t \<noteq> Some r" for t
      using ok(2) create_teid [OF c [unfolded that]] by (auto simp: s5c_ok_def)
    ultimately show ?thesis using inv by (simp add: new_ref_def)
  qed
  let ?s' = "s\<lparr>g_k := ?k + 1, g_mgr := m', g_out := g_out s @ map Noted ns\<rparr>"
  have run: "create_session E p s = attempt res ?s'"
    by (simp add: create_session_def abind_def tick_def aget_def c put_mgr_def athen_def amod_def put_out_def)
  have at: "at_mgr E mgr_inv ?s'"
    using inv ids s(3) by (auto simp: at_mgr_def fresh_ids_def)
  then show "at_mgr E mgr_inv (snd (create_session E p s)) \<and> (\<forall>x s'. create_session E p s = (Some x, s') \<longrightarrow>
      at_mgr E (\<lambda>m. mgr_inv m \<and> (\<forall>r old. x = Inr (r, old) \<longrightarrow> new_ref r m)) s')"
    unfolding run using new
    by (auto simp: attempt_def aret_def crash_def at_mgr_def split: outcome.splits)
qed

text \<open>The local TEID is set on a session that is in no index yet, and registered under its ID.\<close>

lemma leads_if: "(b \<Longrightarrow> leads I P m Q) \<Longrightarrow> (\<not> b \<Longrightarrow> leads I P m' Q) \<Longrightarrow> leads I P (if b then m else m') Q"
  by simp

lemma leads_yields: "keeps P m \<Longrightarrow> yields R m \<Longrightarrow> (\<And>s. P s \<Longrightarrow> I s) \<Longrightarrow> leads I P m (\<lambda>x s. R x \<and> P s)"
  by (auto simp: leads_def keeps_def yields_def dest: spec)

lemma leads_fact: "(R \<Longrightarrow> leads I P m Q) \<Longrightarrow> leads I (\<lambda>s. R \<and> P s) m Q"
  by (auto simp: leads_def)

lemma yields_AllocTEID: "yields (\<lambda>res. \<forall>t. res = Inr t \<longrightarrow> t \<noteq> 0) (s5c_AllocTEID E)"
proof (rule yieldsI)
  fix s x s' assume "s5c_AllocTEID E s = (Some x, s')"
  then obtain r a where "alloc (en_rand4 E (g_k s)) (g_s5cTEIDs s) = (r, a)" "attempt r (s\<lparr>g_k := g_k s + 1, g_s5cTEIDs := a\<rparr>) = (Some x, s')"
    by (auto simp: s5c_AllocTEID_def abind_def tick_def aget_def athen_def amod_def split: prod.splits)
  then show "\<forall>t. x = Inr t \<longrightarrow> t \<noteq> 0"
    by (cases rule: alloc_cases) (auto simp: attempt_def aret_def)
qed

lemma set_teid_leads:
  "leads (at_mgr E mgr_inv) (at_mgr E (new_ref r)) (timed_call E r (\<lambda>now. C_SetSGWS5CFTEID now f))
     (\<lambda>_. at_mgr E (\<lambda>m. mgr_inv m \<and> indexed m r \<and> s_SGWS5C (deref m r) = f))"
proof -
  have 1: "mgr_inv (fst (on_session r (run_call (C_SetSGWS5CFTEID now f)) m)) \<and>
      indexed (fst (on_session r (run_call (C_SetSGWS5CFTEID now f)) m)) r \<and>
      s_SGWS5C (deref (fst (on_session r (run_call (C_SetSGWS5CFTEID now f)) m)) r) = f" if "new_ref r m" for m now
  proof -
    have n: "mgr_inv m" "indexed m r" "\<forall>t. mget (byS5C m) t \<noteq> Some r" using that by (simp_all add: new_ref_def)
    have "r < length (heap m)" using n(2) by (simp add: indexed_def)
    then show ?thesis
      using set_s5c_ok [OF n(1,3), of now f] n(2)
      by (simp add: on_session_def Let_def SetSGWS5CFTEID_def case_prod_beta indexed_def deref_def)
  qed
  show ?thesis
    unfolding timed_call_def call_session_def
    by (rule leads_abind [OF leads_keeps [OF quietly.keeps_clock(1)]], simp add: at_mgr_def new_ref_def,
        rule keeps_mgr_change) (use 1 in \<open>auto simp del: run_call.simps\<close>)
qed

lemma register_leads:
  assumes "t \<noteq> 0"
  shows "leads (at_mgr E mgr_inv) (at_mgr E (\<lambda>m. mgr_inv m \<and> indexed m r \<and> ep_TEID (s_SGWS5C (deref m r)) = t))
     (abind (sess_of r) (\<lambda>x. register_s5c (s_SessionID x) t)) (\<lambda>_. at_mgr E mgr_inv)"
proof -
  let ?P = "\<lambda>x m. mgr_inv m \<and> indexed m r \<and> ep_TEID (s_SGWS5C (deref m r)) = t \<and> s_SessionID x = s_SessionID (deref m r)"
  have 1: "leads (at_mgr E mgr_inv) (at_mgr E (\<lambda>m. mgr_inv m \<and> indexed m r \<and> ep_TEID (s_SGWS5C (deref m r)) = t))
      (sess_of r) (\<lambda>x. at_mgr E (?P x))"
    by (rule leadsI) (auto simp: sess_of_def aget_def at_mgr_def)
  have 2: "mgr_inv (fst (RegisterS5CTEID (s_SessionID x) t m)) \<and>
      (\<forall>sid. mget (byID m) sid = None \<longrightarrow> mget (byID (fst (RegisterS5CTEID (s_SessionID x) t m))) sid = None)" if "?P x m" for x m
  proof -
    have "\<forall>q. mget (byID m) (s_SessionID x) = Some q \<longrightarrow> ep_TEID (s_SGWS5C (deref m q)) = t"
      using that by (auto simp: indexed_def)
    with registerS5C_ok [OF _ assms this] that show ?thesis
      by (auto simp: RegisterS5CTEID_def split: option.splits)
  qed
  show ?thesis
    unfolding register_s5c_def
    by (rule leads_abind [OF 1], rule keeps_mgr_change) (use 2 in auto)
qed

lemma csr_prepare_leads:
  "leads (at_mgr E mgr_inv) (at_mgr E (new_ref r)) (csr_prepare E a h req r mt ebi) (\<lambda>_ _. True)"
proof -
  have sub: "at_mgr E (new_ref r) s \<Longrightarrow> at_mgr E mgr_inv s" for s by (simp add: at_mgr_def new_ref_def)
  have stop: "leads (at_mgr E mgr_inv) (at_mgr E (new_ref r)) (athen m (aret None)) (\<lambda>_ _. True)"
    if "keeps (at_mgr E mgr_inv) m" for m and x :: "'x option"
    using sub that by (intro keeps_leads keeps keeps_athen keeps_basic)
  have stop2: "leads (at_mgr E mgr_inv) (at_mgr E (new_ref r)) (athen m (athen m' (aret None))) (\<lambda>_ _. True)"
    if "keeps (at_mgr E mgr_inv) m" "keeps (at_mgr E mgr_inv) m'" for m :: "unit act" and m' :: "unit act"
    using sub that by (intro keeps_leads keeps_athen keeps_basic)
  have go: "leads (at_mgr E mgr_inv) (at_mgr E (new_ref r))
      (athen (timed_call E r (\<lambda>now. C_SetSGWS5CFTEID now \<lparr>ep_TEID = t, ep_IPv4 = en_localIP E\<rparr>))
        (abind (sess_of r) (\<lambda>x. athen (register_s5c (s_SessionID x) t) (aret z)))) (\<lambda>_ _. True)"
    if "t \<noteq> 0" for t and z
  proof -
    have e: "abind (sess_of r) (\<lambda>x. athen (register_s5c (s_SessionID x) t) (aret z)) =
        athen (abind (sess_of r) (\<lambda>x. register_s5c (s_SessionID x) t)) (aret z)"
      by (auto simp: athen_def abind_def fun_eq_iff split: prod.splits option.splits)
    show ?thesis
      unfolding e
      by (rule leads_athen [OF set_teid_leads],
          rule leads_athen [where Q = "at_mgr E mgr_inv", OF leads_imp [OF register_leads [OF that]]])
        (auto simp: at_mgr_def intro!: keeps_leads keeps_basic)
  qed
  show ?thesis
    unfolding csr_prepare_def
    apply (rule leads_abind [OF leads_keeps [OF keeps_basic(4)]], erule sub)
    subgoal for pgw
      apply (cases pgw; simp)
      apply (intro stop managed.keeps_abort)
      apply (rule leads_abind [OF leads_keeps [OF quietly.keeps_release_evicted(3)]], erule sub)
      apply (rule leads_if)
      apply (intro stop managed.keeps_abort)
      apply (rule leads_abind [OF leads_keeps [OF quietly.keeps_pfcp(1)]], erule sub)
      subgoal for pgw' _ p
        apply (cases p; simp)
        apply (intro stop managed.keeps_abort)
        apply (rule leads_abind [OF leads_yields [OF quietly.s5c_AllocTEID yields_AllocTEID]], erule sub)
        subgoal for p' t
          apply (rule leads_fact)
          apply (cases t; simp)
          apply (intro stop2 managed.keeps_abort quietly.keeps_pfcp)
          apply (rule go)
          apply assumption
          done
        done
      done
    done
qed


lemma leads_prepared:
  "leads (at_mgr E mgr_inv) (at_mgr E (new_ref r)) (abind (csr_prepare E a h req r t ebi) (\<lambda>prep. aret (f prep))) (\<lambda>_ _. True)"
  using csr_prepare_leads [of E r a h req t ebi]
  by (auto simp: leads_def abind_def aret_def split: prod.splits option.splits)

lemma managed_open: "keeps (at_mgr E mgr_inv) (csr_open E a h req)"
proof -
  have new: "leads (at_mgr E mgr_inv) (at_mgr E (new_ref r)) (athen (release_evicted E old)
      (abind (csr_prepare E a h req r t ebi) (\<lambda>prep. aret (f prep)))) (\<lambda>_ _. True)" for r old t ebi f
  proof (rule leads_athen [where Q = "at_mgr E (new_ref r)"])
    show "leads (at_mgr E mgr_inv) (at_mgr E (new_ref r)) (release_evicted E old) (\<lambda>_. at_mgr E (new_ref r))"
      by (rule leads_keeps [OF quietly.keeps_release_evicted(2)]) (simp add: at_mgr_def new_ref_def)
    show "leads (at_mgr E mgr_inv) (at_mgr E (new_ref r)) (abind (csr_prepare E a h req r t ebi) (\<lambda>prep. aret (f prep)))
        (\<lambda>_ _. True)"
      by (rule leads_prepared)
  qed
  have failed: "leads (at_mgr E mgr_inv) (at_mgr E mgr_inv) (athen (sendCause E a h t c) (aret None)) (\<lambda>_ _. True)" for t c
    by (intro keeps_leads quietly.keeps_answers keeps_athen keeps_basic)
  show ?thesis
    unfolding csr_open_def Let_def
  proof (rule leads_keepsD, rule leads_abind [OF csr_params_leads], rule leads_abind [OF create_leads])
    fix p x
    show "leads (at_mgr E mgr_inv) (at_mgr E (\<lambda>m. mgr_inv m \<and> (\<forall>r old. x = Inr (r, old) \<longrightarrow> new_ref r m)))
        (case x of Inl _ \<Rightarrow> athen (sendCause E a h (ep_TEID (cp_MMEControl p)) GTP_SystemFailure) (aret None)
         | Inr (r, old) \<Rightarrow> athen (release_evicted E old)
            (abind (csr_prepare E a h req r (ep_TEID (cp_MMEControl p)) (cp_DefaultEBI p)) (\<lambda>prep.
             aret (case prep of None \<Rightarrow> None | Some (pgw, pr, s5c) \<Rightarrow>
               Some (r, ep_TEID (cp_MMEControl p), cp_DefaultEBI p, pgw, pr, s5c))))) (\<lambda>_ _. True)"
    proof (cases x)
      case (Inl e)
      then show ?thesis by (simp, intro leads_imp [OF failed]) (simp_all add: at_mgr_def)
    next
      case (Inr y)
      obtain r old where "y = (r, old)" by (cases y)
      then show ?thesis using Inr by (simp, intro leads_imp [OF new]) (simp_all add: at_mgr_def)
    qed
  qed
qed

text \<open>The PGW's address is always four octets and a port, which has one canonical form.\<close>

lemma plain_hostport4: "plain (hostport (pgw_udp a4))"
proof -
  have d: "c \<noteq> CHR ''['' \<and> c \<noteq> CHR '']''" if "c \<in> set (itoa n)" for c n
    using itoa_digits [OF that] by (auto simp: is_digit_def code_def)
  show ?thesis
    by (auto simp: plain_def hostport_def pgw_udp_def addrFrom4_def joinHostPort_def string4_dotted dotted_def dest: d)
qed

lemma managed_register: "keeps (at_mgr E mgr_inv) (register_pgw E sid (hostport (pgw_udp a4)))"
proof -
  have "mgr_inv (fst (RegisterPGW now now' sid (hostport (pgw_udp a4)) m)) \<and>
      (\<forall>i. mget (byID m) i = None \<longrightarrow> mget (byID (fst (RegisterPGW now now' sid (hostport (pgw_udp a4)) m))) i = None)"
    if "mgr_inv m" for now now' m
    using registerPGW_ok [OF that canonical_idem [OF plain_hostport4]]
    by (simp add: RegisterPGW_def removePGWLocked_def Let_def split: option.splits)
  then have "keeps (at_mgr E mgr_inv) (abind (aget (\<lambda>s. RegisterPGW now now' sid (hostport (pgw_udp a4)) (g_mgr s))) put_mgr)"
    for now now'
    by (intro leads_keepsD [OF keeps_mgr_change [where Q = mgr_inv]]) blast+
  then show ?thesis
    unfolding register_pgw_def by (intro keeps_abind [OF quietly.keeps_clock(1)])
qed

interpretation managed_create: create_runtime E "at_mgr E mgr_inv" for E
  by unfold_locales (rule managed_open managed_register)+

end
