(* ===== verification/Path_Failure.thy ===== *)
theory Path_Failure
  imports S11_Notify
begin

text \<open>
  What the SGW-C does when a peer-health event tells that a PGW or an MME changed its state or restarted:
  \<^verbatim>\<open>internal/sgwc/pgwfailure\<close> and \<^verbatim>\<open>internal/sgwc/mmerestoration\<close>. Both handlers mark the
  sessions and keep a record per peer; the second one applies the operator's policy to the sessions of a
  restarted MME, deletes those the policy gives up, and notifies the MME for the others, at once or from the
  queue of delayed notifications. The own state of a handler is passed explicitly; the sessions and
  peers are those of \<open>sgwc\<close>.
\<close>

section \<open>The record of a peer\<close>

record path_peer =
  pa_addr :: string
  pa_state :: string
  pa_lastStateChange :: gtime
  pa_recoverySeen :: bool
  pa_recoveryCounter :: u8
  pa_restartDetectedAt :: gtime
  pa_affectedSessions :: nat
  pa_restarts :: u64
  pa_pathDownEvents :: u64

type_synonym path_peers = "(string, path_peer) gomap"

definition path_getOrCreateLocked :: "string \<Rightarrow> path_peers \<Rightarrow> path_peer" where
  "path_getOrCreateLocked a ps = (case mget ps a of Some p \<Rightarrow> p
   | None \<Rightarrow> \<lparr>pa_addr = a, pa_state = ''unknown'', pa_lastStateChange = 0, pa_recoverySeen = False, pa_recoveryCounter = 0,
       pa_restartDetectedAt = 0, pa_affectedSessions = 0, pa_restarts = 0, pa_pathDownEvents = 0\<rparr>)"

text \<open>The time of an event, the clock's when it has none.\<close>

definition event_time :: "sgwc_env \<Rightarrow> gtime \<Rightarrow> gtime act" where
  "event_time E tm = (if tm = 0 then clock E else aret tm)"

definition path_changed :: "string \<Rightarrow> nat \<Rightarrow> gtime \<Rightarrow> path_peer \<Rightarrow> path_peer" where
  "path_changed st affected tm p =
     (let p1 = (if pa_state p \<noteq> st
        then (if st = ''down'' then p\<lparr>pa_pathDownEvents := pa_pathDownEvents p + 1\<rparr> else p)\<lparr>pa_lastStateChange := tm\<rparr>
        else p)
      in p1\<lparr>pa_state := st, pa_affectedSessions := affected\<rparr>)"

definition path_restarted :: "string \<Rightarrow> u8 \<Rightarrow> nat \<Rightarrow> gtime \<Rightarrow> path_peer \<Rightarrow> path_peer" where
  "path_restarted st recovery affected tm p = p\<lparr>pa_state := st, pa_recoverySeen := True, pa_recoveryCounter := recovery,
     pa_restartDetectedAt := tm, pa_lastStateChange := tm, pa_affectedSessions := affected, pa_restarts := pa_restarts p + 1\<rparr>"

definition record_path :: "sgwc_env \<Rightarrow> string \<Rightarrow> gtime \<Rightarrow> (gtime \<Rightarrow> path_peer \<Rightarrow> path_peer) \<Rightarrow> path_peers \<Rightarrow> path_peers act" where
  "record_path E addr tm f ps = (let c = CanonicalGTPCEndpoint addr in
     if c = [] then aret ps
     else abind (event_time E tm) (\<lambda>tm. aret (mput c (f tm (path_getOrCreateLocked c ps)) ps)))"

definition path_Snapshot :: "path_peers \<Rightarrow> path_peer list" where
  "path_Snapshot ps = sort_key pa_addr (map snd ps)"

text \<open>The clock is read once for every session that is marked.\<close>

definition clock_reads :: "sgwc_env \<Rightarrow> nat \<Rightarrow> (nat \<Rightarrow> gtime) act" where
  "clock_reads E n = (\<lambda>s. (Some (\<lambda>i. en_now E (g_k s + i)), s\<lparr>g_k := g_k s + n\<rparr>))"

definition mark_sessions :: "sgwc_env \<Rightarrow> (manager \<Rightarrow> sref list) \<Rightarrow>
    ((nat \<Rightarrow> gtime) \<Rightarrow> manager \<Rightarrow> nat \<times> manager \<times> checkpoint_note list) \<Rightarrow> nat act" where
  "mark_sessions E found mark = abind (aget (\<lambda>s. length (found (g_mgr s)))) (\<lambda>n. abind (clock_reads E n) (\<lambda>clk.
     abind (aget (\<lambda>s. mark clk (g_mgr s))) (\<lambda>(affected, mn). athen (put_mgr mn) (aret affected))))"

section \<open>PGW failure\<close>

record pgwfailure_config =
  pw_Enabled :: bool
  pw_MarkSessionsOnPathDown :: bool
  pw_MarkSessionsOnRestart :: bool

definition pgwPathState :: "string \<Rightarrow> string" where
  "pgwPathState st = (if st \<in> set [''up'', ''degraded'', ''suspect'', ''down''] then st else ''unknown'')"

definition pgw_recordStateChange :: "sgwc_env \<Rightarrow> string \<Rightarrow> gtime \<Rightarrow> string \<Rightarrow> nat \<Rightarrow> path_peers \<Rightarrow> path_peers act" where
  "pgw_recordStateChange E addr tm st affected ps = record_path E addr tm (path_changed st affected) ps"

definition pgw_recordRestart :: "sgwc_env \<Rightarrow> string \<Rightarrow> gtime \<Rightarrow> u8 \<Rightarrow> nat \<Rightarrow> path_peers \<Rightarrow> path_peers act" where
  "pgw_recordRestart E addr tm recovery affected ps =
     record_path E addr tm (path_restarted PGWPathStateRestarted recovery affected) ps"

definition pgw_OnPeerStateChange :: "sgwc_env \<Rightarrow> pgwfailure_config \<Rightarrow> string \<Rightarrow> string \<Rightarrow> string \<Rightarrow> gtime \<Rightarrow> path_peers \<Rightarrow>
    path_peers act" where
  "pgw_OnPeerStateChange E cfg role addr new tm ps =
     (if \<not> pw_Enabled cfg \<or> \<not> pw_MarkSessionsOnPathDown cfg then aret ps
      else if role \<noteq> RolePGW then aret ps
      else let st = pgwPathState new in
        abind (mark_sessions E (FindByPGW addr) (\<lambda>clk. MarkPGWPathState clk addr st tm)) (\<lambda>affected.
        pgw_recordStateChange E addr tm st affected ps))"

definition pgw_OnPeerRestart :: "sgwc_env \<Rightarrow> pgwfailure_config \<Rightarrow> string \<Rightarrow> string \<Rightarrow> u8 \<Rightarrow> gtime \<Rightarrow> path_peers \<Rightarrow>
    path_peers act" where
  "pgw_OnPeerRestart E cfg role addr recovery tm ps =
     (if \<not> pw_Enabled cfg \<or> \<not> pw_MarkSessionsOnRestart cfg then aret ps
      else if role \<noteq> RolePGW then aret ps
      else abind (mark_sessions E (FindByPGW addr) (\<lambda>clk. mgr_MarkPGWRestart clk addr recovery tm)) (\<lambda>affected.
        pgw_recordRestart E addr tm recovery affected ps))"

section \<open>The policy of MME restoration\<close>

record policy_rule =
  po_APN :: string
  po_QCI :: u8
  po_ARPPriorityMin :: u8
  po_ARPPriorityMax :: u8
  po_Reason :: string

text \<open>\<open>rc_DDN\<close>, \<open>rc_S5C\<close> and \<open>rc_PFCP\<close> tell whether the interfaces are set.\<close>

record restoration_config =
  rc_Enabled :: bool
  rc_MarkSessionsOnPathDown :: bool
  rc_MarkSessionsOnRestart :: bool
  rc_EnforceDeletePolicy :: bool
  rc_TriggerDDN :: bool
  rc_DelayedQueueMax :: int
  rc_DelayedQueuePerMME :: int
  rc_DelayedMaxAge :: duration
  rc_Preserve :: "policy_rule list"
  rc_Delete :: "policy_rule list"
  rc_DefaultAction :: string
  rc_DDN :: bool
  rc_S5C :: bool
  rc_PFCP :: bool

definition MMERestorationPolicyPreserve :: string where "MMERestorationPolicyPreserve = ''preserve''"
definition MMERestorationPolicyDelete :: string where "MMERestorationPolicyDelete = ''delete''"

definition mmePathState :: "string \<Rightarrow> string" where
  "mmePathState st = (if st \<in> set [''up'', ''degraded'', ''suspect'', ''down''] then st else ''unknown'')"

definition defaultPolicyAction :: "string \<Rightarrow> string" where
  "defaultPolicyAction a = (if a = MMERestorationPolicyDelete then MMERestorationPolicyDelete else MMERestorationPolicyPreserve)"

definition restoration_policyReason :: "policy_rule \<Rightarrow> string \<Rightarrow> string" where
  "restoration_policyReason r fallback = (if po_Reason r \<noteq> [] then po_Reason r else fallback)"

definition policy_matches :: "(string \<Rightarrow> string \<Rightarrow> bool) \<Rightarrow> sgw_session \<Rightarrow> policy_rule \<Rightarrow> bool" where
  "policy_matches ufold x r =
     (if po_APN r \<noteq> [] \<and> \<not> equalFold ufold (po_APN r) (s_APN x) then False
      else if po_QCI r \<noteq> 0 \<and> (case GetBearer (s_DefaultBearerID x) x of None \<Rightarrow> True | Some b \<Rightarrow> b_QCI b \<noteq> po_QCI r) then False
      else if po_ARPPriorityMin r \<noteq> 0 \<or> po_ARPPriorityMax r \<noteq> 0 then
        (case GetBearer (s_DefaultBearerID x) x of
           None \<Rightarrow> False
         | Some b \<Rightarrow>
             let minP = (if po_ARPPriorityMin r = 0 then 1 else po_ARPPriorityMin r);
                 maxP = (if po_ARPPriorityMax r = 0 then 15 else po_ARPPriorityMax r)
             in if minP > maxP then False
                else \<not> (PriorityLevel (b_ARP b) < minP \<or> PriorityLevel (b_ARP b) > maxP))
      else True)"

definition evaluatePolicy :: "(string \<Rightarrow> string \<Rightarrow> bool) \<Rightarrow> restoration_config \<Rightarrow> sgw_session \<Rightarrow> string \<times> string" where
  "evaluatePolicy ufold cfg x = (case List.find (policy_matches ufold x) (rc_Preserve cfg) of
     Some r \<Rightarrow> (MMERestorationPolicyPreserve, restoration_policyReason r ''preserve-rule'')
   | None \<Rightarrow> (case List.find (policy_matches ufold x) (rc_Delete cfg) of
       Some r \<Rightarrow> (MMERestorationPolicyDelete, restoration_policyReason r ''delete-rule'')
     | None \<Rightarrow> (let a = defaultPolicyAction (rc_DefaultAction cfg) in (a, ''default-'' @ a))))"

definition set_policy :: "sgwc_env \<Rightarrow> sref \<Rightarrow> string \<Rightarrow> string \<Rightarrow> gtime \<Rightarrow> unit act" where
  "set_policy E r act reason tm = timed_call E r (\<lambda>now. C_SetMMERestorationPolicy now act reason tm)"

text \<open>The numbers of sessions to preserve and to delete.\<close>

definition applyPolicy :: "sgwc_env \<Rightarrow> (string \<Rightarrow> string \<Rightarrow> bool) \<Rightarrow> restoration_config \<Rightarrow> string \<Rightarrow> gtime \<Rightarrow> (nat \<times> nat) act" where
  "applyPolicy E ufold cfg addr tm = abind (aget (\<lambda>s. FindByMME addr (g_mgr s))) (\<lambda>rs. abind (event_time E tm) (\<lambda>tm.
     aloop (\<lambda>r (keep, del). abind (sess_of r) (\<lambda>x.
       let (act, reason) = evaluatePolicy ufold cfg x in
       athen (set_policy E r act reason tm)
         (aret (if act = MMERestorationPolicyDelete then (keep, del + 1) else (keep + 1, del))))) rs (0, 0)))"

section \<open>Giving sessions up\<close>

datatype restoration_error =
    R_NoS5C
  | R_S5C s5c_error
  | R_Rejected u8
  | R_NoPFCP

definition restoration_error_text :: "(s5c_error \<Rightarrow> string) \<Rightarrow> restoration_error \<Rightarrow> string" where
  "restoration_error_text text e = (case e of
     R_NoS5C \<Rightarrow> ''S5/S8-C deleter unavailable''
   | R_S5C e \<Rightarrow> ''S5/S8-C Delete Session failed: '' @ text e
   | R_Rejected c \<Rightarrow> ''PGW rejected Delete Session: cause='' @ itoa (unat c)
   | R_NoPFCP \<Rightarrow> ''PFCP deleter unavailable for established PFCP session'')"

text \<open>The PGW first; then the SGW-U, whose failure is only logged.\<close>

definition deleteSessionForRestoration :: "sgwc_env \<Rightarrow> restoration_config \<Rightarrow> sref \<Rightarrow> (restoration_error + unit) act" where
  "deleteSessionForRestoration E cfg r =
     (if \<not> rc_S5C cfg then aret (Inl R_NoS5C)
      else abind (s5c_deleteSession E r None) (\<lambda>res. case res of
        Inl e \<Rightarrow> aret (Inl (R_S5C e))
      | Inr cause \<Rightarrow>
          if cause \<noteq> GTP_Accepted then aret (Inl (R_Rejected cause))
          else abind (sess_of r) (\<lambda>x.
            if Established (s_PFCP x) \<and> SEID (SGWUFSEID (s_PFCP x)) \<noteq> 0 \<and> \<not> rc_PFCP cfg then aret (Inl R_NoPFCP)
            else athen (awhen (Established (s_PFCP x) \<and> SEID (SGWUFSEID (s_PFCP x)) \<noteq> 0)
                (abind (pfcp_delete E (SGWUAddr (s_PFCP x)) (SEID (SGWUFSEID (s_PFCP x)))) (\<lambda>_. aret ())))
              (athen (delete_session (s_SessionID x)) (aret (Inr ()))))))"

text \<open>The numbers of sessions deleted and of failures, whose reason is put on the session.\<close>

definition enforceDeletePolicy :: "sgwc_env \<Rightarrow> (s5c_error \<Rightarrow> string) \<Rightarrow> restoration_config \<Rightarrow> string \<Rightarrow> gtime \<Rightarrow> (nat \<times> nat) act" where
  "enforceDeletePolicy E text cfg addr tm =
     (if \<not> rc_EnforceDeletePolicy cfg then aret (0, 0)
      else abind (aget (\<lambda>s. FindByMME addr (g_mgr s))) (\<lambda>rs.
        aloop (\<lambda>r (done_n, failed). abind (sess_of r) (\<lambda>x.
          if mr_PolicyAction (s_MMERestoration x) \<noteq> MMERestorationPolicyDelete then aret (done_n, failed)
          else abind (deleteSessionForRestoration E cfg r) (\<lambda>res. case res of
            Inr _ \<Rightarrow> aret (done_n + 1, failed)
          | Inl e \<Rightarrow> athen (set_policy E r MMERestorationPolicyDelete
                (mr_PolicyReason (s_MMERestoration x) @ ''; enforcement failed: '' @ restoration_error_text text e) tm)
              (aret (done_n, failed + 1))))) rs (0, 0)))"

section \<open>Notifications\<close>

record delayed_ddn =
  dd_sessionID :: string
  dd_mmeAddr :: string
  dd_enqueuedAt :: gtime
  dd_fireAt :: gtime

text \<open>The own state of the handler: what it knows of the MMEs, and the queue with its size per MME.\<close>

record restoration =
  re_mmes :: path_peers
  re_queue :: "(string, delayed_ddn) gomap"
  re_queueMME :: "(string, int) gomap"

definition queued_for :: "string \<Rightarrow> restoration \<Rightarrow> int" where
  "queued_for a h = (case mget (re_queueMME h) a of Some n \<Rightarrow> n | None \<Rightarrow> 0)"

definition drop_queued :: "string \<Rightarrow> restoration \<Rightarrow> restoration" where
  "drop_queued a h = (if queued_for a h > 0 then h\<lparr>re_queueMME := mput a (queued_for a h - 1) (re_queueMME h)\<rparr> else h)"

definition or_positive :: "int \<Rightarrow> int \<Rightarrow> int" where
  "or_positive dflt n = (if n \<le> 0 then dflt else n)"

definition rc_maxAge :: "restoration_config \<Rightarrow> duration" where
  "rc_maxAge cfg = or_positive (30 * time_second) (rc_DelayedMaxAge cfg)"

definition ddn_failed :: "sgwc_env \<Rightarrow> sref \<Rightarrow> string \<Rightarrow> gtime \<Rightarrow> unit act" where
  "ddn_failed E r reason tm = timed_call E r (\<lambda>now. C_DDNFailed now reason tm)"

text \<open>The zero decision, without an action, when there is no control state.\<close>

definition decideDDN :: "sgwc_env \<Rightarrow> (string \<Rightarrow> string \<Rightarrow> bool) \<Rightarrow> string \<Rightarrow> sref \<Rightarrow> gtime \<Rightarrow> ddn_decision option act" where
  "decideDDN E ufold addr r tm = abind (aget g_ddn) (\<lambda>ctl. case ctl of
     None \<Rightarrow> aret None
   | Some st \<Rightarrow> abind (sess_of r) (\<lambda>x.
       let b = GetBearer (s_DefaultBearerID x) x;
           c = \<lparr>ca_MMEAddr = addr, ca_IMSI = s_IMSI x, ca_APN = s_APN x, ca_EBI = s_DefaultBearerID x,
             ca_QCI = (case b of Some b \<Rightarrow> b_QCI b | None \<Rightarrow> 0), ca_ARP = (case b of Some b \<Rightarrow> PriorityLevel (b_ARP b) | None \<Rightarrow> 0)\<rparr>
       in abind (clock E) (\<lambda>now. abind (clock E) (\<lambda>now'.
          let (d, st') = Decide ufold now now' c tm (Some st) in athen (amod (\<lambda>s. s\<lparr>g_ddn := st'\<rparr>)) (aret (Some d))))))"

definition action_text :: "ddn_action \<Rightarrow> string" where
  "action_text a = (case a of ActionSendNow \<Rightarrow> ''send_now'' | ActionDelay \<Rightarrow> ''delay'' | ActionSuppress \<Rightarrow> ''suppress'')"

definition note_decision :: "sgwc_env \<Rightarrow> sref \<Rightarrow> ddn_decision \<Rightarrow> gtime \<Rightarrow> unit act" where
  "note_decision E r d tm = timed_call E r (\<lambda>now.
     C_DDNControlDecision now (action_text (de_Action d)) (de_Priority d) (de_Reason d) (de_RetryAfter d) tm)"

definition enqueueDelayedDDN :: "sgwc_env \<Rightarrow> restoration_config \<Rightarrow> string \<Rightarrow> sref \<Rightarrow> duration \<Rightarrow> gtime \<Rightarrow> restoration \<Rightarrow>
    (bool \<times> restoration) act" where
  "enqueueDelayedDDN E cfg addr r retry tm h =
     (if retry \<le> 0 then aret (False, h)
      else abind (event_time E tm) (\<lambda>tm.
        if retry > rc_maxAge cfg then athen (ddn_failed E r ''DDN delayed retry exceeds max age'' tm) (aret (False, h))
        else abind (sess_of r) (\<lambda>x.
          let sid = s_SessionID x;
              e = \<lparr>dd_sessionID = sid, dd_mmeAddr = addr, dd_enqueuedAt = tm, dd_fireAt = tm + retry\<rparr>;
              put = (\<lambda>h. h\<lparr>re_queue := mput sid e (re_queue h), re_queueMME := mput addr (queued_for addr h + 1) (re_queueMME h)\<rparr>)
          in case mget (re_queue h) sid of
               Some old \<Rightarrow> aret (True, put (drop_queued (dd_mmeAddr old) h))
             | None \<Rightarrow>
                 if int (length (re_queue h)) \<ge> or_positive 1000 (rc_DelayedQueueMax cfg) \<or>
                    queued_for addr h \<ge> or_positive 200 (rc_DelayedQueuePerMME cfg)
                 then athen (ddn_failed E r ''DDN delayed queue full'' tm) (aret (False, h))
                 else aret (True, put h))))"

datatype ddn_error = DDN_NoSender | DDN_Notify notify_error

definition sendDDNNow :: "sgwc_env \<Rightarrow> restoration_config \<Rightarrow> sref \<Rightarrow> gtime \<Rightarrow> (ddn_error + unit) act" where
  "sendDDNNow E cfg r tm =
     (if \<not> rc_DDN cfg then aret (Inl DDN_NoSender)
      else abind (SendDownlinkDataNotification E r) (\<lambda>res. case res of
        Inl e \<Rightarrow> aret (Inl (DDN_Notify e))
      | Inr sq \<Rightarrow> athen (timed_call E r (\<lambda>now. C_DDNTriggered now sq tm)) (aret (Inr ()))))"

definition ddn_error_text :: "(notify_error \<Rightarrow> string) \<Rightarrow> ddn_error \<Rightarrow> string" where
  "ddn_error_text text e = (case e of DDN_NoSender \<Rightarrow> ''DDN sender unavailable'' | DDN_Notify e \<Rightarrow> text e)"


text \<open>One preserved session of a restarted MME; the numbers of messages sent and of failures.\<close>

definition restoration_ddn :: "sgwc_env \<Rightarrow> (string \<Rightarrow> string \<Rightarrow> bool) \<Rightarrow> (notify_error \<Rightarrow> string) \<Rightarrow> restoration_config \<Rightarrow> string \<Rightarrow>
    gtime \<Rightarrow> sref \<Rightarrow> nat \<times> nat \<times> restoration \<Rightarrow> (nat \<times> nat \<times> restoration) act" where
  "restoration_ddn E ufold text cfg addr tm r acc = (case acc of (sent, failed, h) \<Rightarrow>
     abind (sess_of r) (\<lambda>x.
     if mr_PolicyAction (s_MMERestoration x) \<noteq> MMERestorationPolicyPreserve \<or> mr_DDNTriggered (s_MMERestoration x)
     then aret (sent, failed, h)
     else abind (decideDDN E ufold addr r tm) (\<lambda>d.
       let send = abind (sendDDNNow E cfg r tm) (\<lambda>res. case res of
             Inl e \<Rightarrow> athen (ddn_failed E r (ddn_error_text text e) tm) (aret (sent, failed + 1, h))
           | Inr _ \<Rightarrow> aret (sent + 1, failed, h))
       in case d of
         None \<Rightarrow> send
       | Some d \<Rightarrow> athen (note_decision E r d tm)
           (if de_Action d = ActionSendNow then send
            else if de_Action d = ActionDelay then abind (enqueueDelayedDDN E cfg addr r (de_RetryAfter d) tm h) (\<lambda>(queued, h).
              aret (if queued then (sent, failed, h) else (sent, failed + 1, h)))
            else aret (sent, failed + 1, h)))))"

definition triggerDDNForPreservedSessions :: "sgwc_env \<Rightarrow> (string \<Rightarrow> string \<Rightarrow> bool) \<Rightarrow> (notify_error \<Rightarrow> string) \<Rightarrow>
    restoration_config \<Rightarrow> string \<Rightarrow> gtime \<Rightarrow> restoration \<Rightarrow> (nat \<times> nat \<times> restoration) act" where
  "triggerDDNForPreservedSessions E ufold text cfg addr tm h =
     (if \<not> rc_TriggerDDN cfg then aret (0, 0, h)
      else abind (aget (\<lambda>s. FindByMME addr (g_mgr s))) (\<lambda>rs.
        if \<not> rc_DDN cfg then aloop (\<lambda>r (sent, failed, h). abind (sess_of r) (\<lambda>x.
          if mr_PolicyAction (s_MMERestoration x) \<noteq> MMERestorationPolicyPreserve then aret (sent, failed, h)
          else athen (ddn_failed E r ''DDN sender unavailable'' tm) (aret (sent, failed + 1, h)))) rs (0, 0, h)
        else aloop (restoration_ddn E ufold text cfg addr tm) rs (0, 0, h)))"

text \<open>The timer of a delayed notification.\<close>

definition fireDelayedDDN :: "sgwc_env \<Rightarrow> (string \<Rightarrow> string \<Rightarrow> bool) \<Rightarrow> (notify_error \<Rightarrow> string) \<Rightarrow> restoration_config \<Rightarrow> string \<Rightarrow>
    restoration \<Rightarrow> restoration act" where
  "fireDelayedDDN E ufold text cfg sid h0 = (case mget (re_queue h0) sid of
     None \<Rightarrow> aret h0
   | Some e \<Rightarrow>
       let h = drop_queued (dd_mmeAddr e) (h0\<lparr>re_queue := mdel sid (re_queue h0)\<rparr>) in
       abind (aget (\<lambda>s. mgr_Find sid (g_mgr s))) (\<lambda>found. case found of
         None \<Rightarrow> aret h
       | Some r \<Rightarrow> abind (sess_of r) (\<lambda>x.
           if mr_PolicyAction (s_MMERestoration x) \<noteq> MMERestorationPolicyPreserve \<or> mr_DDNTriggered (s_MMERestoration x) then aret h
           else abind (clock E) (\<lambda>now.
             if now - dd_enqueuedAt e > rc_maxAge cfg
             then athen (ddn_failed E r ''DDN delayed queue entry expired'' now) (aret h)
             else abind (decideDDN E ufold (dd_mmeAddr e) r now) (\<lambda>d.
               let send = abind (sendDDNNow E cfg r now) (\<lambda>res. case res of
                     Inl err \<Rightarrow> athen (ddn_failed E r (ddn_error_text text err) now) (aret h)
                   | Inr _ \<Rightarrow> aret h)
               in case d of
                 None \<Rightarrow> athen (timed_call E r (\<lambda>n. C_DDNControlDecision n [] [] [] 0 now)) send
               | Some d \<Rightarrow> athen (note_decision E r d now)
                   (if de_Action d = ActionDelay \<and> de_RetryAfter d > 0 \<and> now + de_RetryAfter d - dd_enqueuedAt e \<le> rc_maxAge cfg
                    then abind (enqueueDelayedDDN E cfg (dd_mmeAddr e) r (de_RetryAfter d) now h) (\<lambda>(_, h). aret h)
                    else if de_Action d \<noteq> ActionSendNow
                    then athen (ddn_failed E r (''DDN delayed send suppressed: '' @ de_Reason d) now) (aret h)
                    else send))))))"

section \<open>MME restoration\<close>

definition mme_recordStateChange :: "sgwc_env \<Rightarrow> string \<Rightarrow> gtime \<Rightarrow> string \<Rightarrow> nat \<Rightarrow> restoration \<Rightarrow> restoration act" where
  "mme_recordStateChange E addr tm st affected h =
     abind (record_path E addr tm (path_changed st affected) (re_mmes h)) (\<lambda>ps. aret (h\<lparr>re_mmes := ps\<rparr>))"

definition mme_recordRestart :: "sgwc_env \<Rightarrow> string \<Rightarrow> gtime \<Rightarrow> u8 \<Rightarrow> nat \<Rightarrow> restoration \<Rightarrow> restoration act" where
  "mme_recordRestart E addr tm recovery affected h =
     abind (record_path E addr tm (path_restarted MMERestorationStateRestorationPending recovery affected) (re_mmes h)) (\<lambda>ps.
     aret (h\<lparr>re_mmes := ps\<rparr>))"

definition mme_OnPeerStateChange :: "sgwc_env \<Rightarrow> restoration_config \<Rightarrow> string \<Rightarrow> string \<Rightarrow> string \<Rightarrow> gtime \<Rightarrow> restoration \<Rightarrow>
    restoration act" where
  "mme_OnPeerStateChange E cfg role addr new tm h =
     (if \<not> rc_Enabled cfg \<or> \<not> rc_MarkSessionsOnPathDown cfg then aret h
      else if role \<noteq> RoleMME then aret h
      else let st = mmePathState new in
        abind (mark_sessions E (FindByMME addr) (\<lambda>clk. MarkMMEPathState clk addr st tm)) (\<lambda>affected.
        mme_recordStateChange E addr tm st affected h))"

definition mme_OnPeerRestart :: "sgwc_env \<Rightarrow> (string \<Rightarrow> string \<Rightarrow> bool) \<Rightarrow> (s5c_error \<Rightarrow> string) \<Rightarrow> (notify_error \<Rightarrow> string) \<Rightarrow>
    restoration_config \<Rightarrow> string \<Rightarrow> string \<Rightarrow> u8 \<Rightarrow> gtime \<Rightarrow> restoration \<Rightarrow> restoration act" where
  "mme_OnPeerRestart E ufold s5cText text cfg role addr recovery tm h =
     (if \<not> rc_Enabled cfg \<or> \<not> rc_MarkSessionsOnRestart cfg then aret h
      else if role \<noteq> RoleMME then aret h
      else abind (mark_sessions E (FindByMME addr) (\<lambda>clk. mgr_MarkMMERestart clk addr recovery tm)) (\<lambda>affected.
        abind (applyPolicy E ufold cfg addr tm) (\<lambda>_.
        abind (enforceDeletePolicy E s5cText cfg addr tm) (\<lambda>_.
        abind (triggerDDNForPreservedSessions E ufold text cfg addr tm h) (\<lambda>(_, _, h).
        mme_recordRestart E addr tm recovery affected h)))))"

end
