(* ===== verification/Idle_Downlink.thy ===== *)
theory Idle_Downlink
  imports S11_Notify
begin

text \<open>
  Reports of the SGW-U about downlink packets for an idle UE, \<^verbatim>\<open>internal/sgwc/idledownlink\<close>: a report
  is dropped, throttled, or answered by a Downlink Data Notification to the MME, by the operator's rules and
  the throttling of notifications.
\<close>

section \<open>Configuration and state\<close>

record idle_config =
  id_Enabled :: bool
  id_TriggerDDN :: bool
  id_ReportThrottle :: duration
  id_RequireReleaseAccessDrop :: bool
  id_HighPriority :: "priority_rule list"
  id_Suppress :: "priority_rule list"

text \<open>\<open>is_DDN\<close> tells whether a sender is set; the other fields are the counters and the time of the last report that
  was let through, by session and bearer.\<close>

record idle_state =
  is_DDN :: bool
  is_lastReport :: "(string, gtime) gomap"
  is_reports :: u64
  is_suppressed :: u64
  is_throttled :: u64
  is_ddnSent :: u64
  is_ddnFailed :: u64

record idle_snapshot =
  ik_Enabled :: bool
  ik_TriggerDDN :: bool
  ik_Reports :: u64
  ik_Suppressed :: u64
  ik_Throttled :: u64
  ik_DDNSent :: u64
  ik_DDNFailed :: u64
  ik_TrackedBearers :: nat

definition idle_New :: idle_state where
  "idle_New = \<lparr>is_DDN = False, is_lastReport = [], is_reports = 0, is_suppressed = 0, is_throttled = 0,
     is_ddnSent = 0, is_ddnFailed = 0\<rparr>"

definition idle_Snapshot :: "(idle_config \<times> idle_state) option \<Rightarrow> idle_snapshot" where
  "idle_Snapshot h = (case h of
     None \<Rightarrow> \<lparr>ik_Enabled = False, ik_TriggerDDN = False, ik_Reports = 0, ik_Suppressed = 0, ik_Throttled = 0,
       ik_DDNSent = 0, ik_DDNFailed = 0, ik_TrackedBearers = 0\<rparr>
   | Some (cfg, h) \<Rightarrow> \<lparr>ik_Enabled = id_Enabled cfg, ik_TriggerDDN = id_TriggerDDN cfg, ik_Reports = is_reports h,
       ik_Suppressed = is_suppressed h, ik_Throttled = is_throttled h, ik_DDNSent = is_ddnSent h,
       ik_DDNFailed = is_ddnFailed h, ik_TrackedBearers = length (is_lastReport h)\<rparr>)"

section \<open>Rules\<close>

text \<open>\<^verbatim>\<open>strings.ToLower\<close>, \<open>Contains\<close> and \<open>TrimSpace\<close>; for text that is not ASCII the first and the last are
  arguments.\<close>

definition toLower :: "(string \<Rightarrow> string) \<Rightarrow> string \<Rightarrow> string" where
  "toLower ulow s = (if list_all (\<lambda>c. code c < 128) s then map ascii_lower s else ulow s)"

fun contains :: "string \<Rightarrow> string \<Rightarrow> bool" where
  "contains [] p = (p = [])"
| "contains (c # s) p = (take (length p) (c # s) = p \<or> contains s p)"

definition is_blank :: "(string \<Rightarrow> bool) \<Rightarrow> string \<Rightarrow> bool" where
  "is_blank ublank s = (if list_all (\<lambda>c. code c < 128) s then list_all (\<lambda>c. code c = 32 \<or> 9 \<le> code c \<and> code c \<le> 13) s
     else ublank s)"

record text_lib =
  tl_fold :: "string \<Rightarrow> string \<Rightarrow> bool"
  tl_lower :: "string \<Rightarrow> string"
  tl_blank :: "string \<Rightarrow> bool"

definition ruleMatches :: "text_lib \<Rightarrow> ddn_candidate \<Rightarrow> priority_rule \<Rightarrow> bool" where
  "ruleMatches L c r =
     (if pu_APN r \<noteq> [] \<and> \<not> contains (toLower (tl_lower L) (ca_APN c)) (toLower (tl_lower L) (pu_APN r)) then False
      else if pu_QCI r \<noteq> 0 \<and> pu_QCI r \<noteq> ca_QCI c then False
      else if pu_ARPMin r \<noteq> 0 \<and> (ca_ARP c = 0 \<or> ca_ARP c < pu_ARPMin r) then False
      else if pu_ARPMax r \<noteq> 0 \<and> (ca_ARP c = 0 \<or> ca_ARP c > pu_ARPMax r) then False
      else True)"

fun matchesAny :: "text_lib \<Rightarrow> priority_rule list \<Rightarrow> ddn_candidate \<Rightarrow> bool \<times> string" where
  "matchesAny L [] c = (False, ''idle-downlink-policy-no-match'')"
| "matchesAny L (r # rs) c =
     (if ruleMatches L c r
      then (True, if \<not> is_blank (tl_blank L) (pu_Reason r) then pu_Reason r else ''idle-downlink-policy-match'')
      else matchesAny L rs c)"

section \<open>Reports\<close>

definition idle_candidate :: "sgw_session \<Rightarrow> vc_idle_report \<Rightarrow> ddn_candidate" where
  "idle_candidate x rep =
     (let ebi = (if ir_EBI rep = 0 then s_DefaultBearerID x else ir_EBI rep); b = GetBearer ebi x in
      \<lparr>ca_MMEAddr = addr_String (ep_IPv4 (s_MMEControl x)) @ '':2123'', ca_IMSI = s_IMSI x, ca_APN = s_APN x, ca_EBI = ebi,
       ca_QCI = (case b of Some b \<Rightarrow> if ir_QCI rep = 0 then b_QCI b else ir_QCI rep | None \<Rightarrow> ir_QCI rep),
       ca_ARP = (case b of Some b \<Rightarrow> PriorityLevel (b_ARP b) | None \<Rightarrow> 0)\<rparr>)"

definition idle_key :: "string \<Rightarrow> u8 \<Rightarrow> string" where
  "idle_key sid ebi = sid @ ''/'' @ itoa (unat ebi)"

definition throttle :: "idle_config \<Rightarrow> string \<Rightarrow> u8 \<Rightarrow> gtime \<Rightarrow> idle_state \<Rightarrow> (bool \<times> duration) \<times> idle_state" where
  "throttle cfg sid ebi tm h =
     (if id_ReportThrottle cfg \<le> 0 then ((False, 0), h)
      else let key = idle_key sid ebi in
        case mget (is_lastReport h) key of
          Some prev \<Rightarrow>
            let until = prev + id_ReportThrottle cfg in
            if tm < until then ((True, until - tm), h) else ((False, 0), h\<lparr>is_lastReport := mput key tm (is_lastReport h)\<rparr>)
        | None \<Rightarrow> ((False, 0), h\<lparr>is_lastReport := mput key tm (is_lastReport h)\<rparr>))"

definition idle_decide :: "sgwc_env \<Rightarrow> text_lib \<Rightarrow> ddn_candidate \<Rightarrow> gtime \<Rightarrow> ddn_decision act" where
  "idle_decide E L c tm = abind (aget g_ddn) (\<lambda>ctl. case ctl of
     None \<Rightarrow> aret (decision c PriorityHigh ActionSendNow ''idle-downlink-ddn-control-unavailable'' 0 False 0 0)
   | Some st \<Rightarrow> abind (clock E) (\<lambda>now. abind (clock E) (\<lambda>now'.
       let (d, st') = Decide (tl_fold L) now now' c tm (Some st) in athen (amod (\<lambda>s. s\<lparr>g_ddn := st'\<rparr>)) (aret d))))"

definition suppressed_one :: "idle_state \<Rightarrow> idle_state" where
  "suppressed_one h = h\<lparr>is_suppressed := is_suppressed h + 1\<rparr>"

definition idle_DropReleaseAccess :: u8 where "idle_DropReleaseAccess = 1"

text \<open>The report has passed the rules of the operator.\<close>

definition idle_notify :: "sgwc_env \<Rightarrow> text_lib \<Rightarrow> sref \<Rightarrow> ddn_candidate \<Rightarrow> gtime \<Rightarrow> idle_state \<Rightarrow> idle_state act" where
  "idle_notify E L r c tm h = abind (idle_decide E L c tm) (\<lambda>d.
     if de_Action d \<noteq> ActionSendNow then aret (suppressed_one h)
     else if \<not> is_DDN h then aret (h\<lparr>is_ddnFailed := is_ddnFailed h + 1\<rparr>)
     else abind (SendDownlinkDataNotification E r) (\<lambda>res. case res of
         Inl _ \<Rightarrow> aret (h\<lparr>is_ddnFailed := is_ddnFailed h + 1\<rparr>)
       | Inr sq \<Rightarrow> athen (timed_call E r (\<lambda>now. C_DDNTriggered now sq tm)) (aret (h\<lparr>is_ddnSent := is_ddnSent h + 1\<rparr>))))"

definition HandleReport :: "sgwc_env \<Rightarrow> text_lib \<Rightarrow> idle_config \<Rightarrow> vc_idle_report \<Rightarrow> idle_state \<Rightarrow> idle_state act" where
  "HandleReport E L cfg rep h0 =
     (if \<not> id_Enabled cfg then aret h0
      else let h = h0\<lparr>is_reports := is_reports h0 + 1\<rparr> in
        if id_RequireReleaseAccessDrop cfg \<and> ir_DropReason rep \<noteq> idle_DropReleaseAccess then aret (suppressed_one h)
        else abind (aget (\<lambda>s. FindByPFCPSEID (ir_CPSEID rep) (ir_UPSEID rep) (g_mgr s))) (\<lambda>found. case found of
          None \<Rightarrow> aret (suppressed_one h)
        | Some r \<Rightarrow> abind (sess_of r) (\<lambda>x.
            let c = idle_candidate x rep in
            if fst (matchesAny L (id_Suppress cfg) c) then aret (suppressed_one h)
            else if \<not> fst (matchesAny L (id_HighPriority cfg) c) then aret (suppressed_one h)
            else abind (clock E) (\<lambda>tm.
              let ((throttled, _), h1) = throttle cfg (s_SessionID x) (ca_EBI c) tm h in
              if throttled then aret (h1\<lparr>is_throttled := is_throttled h1 + 1\<rparr>)
              else if \<not> id_TriggerDDN cfg then aret (suppressed_one h1)
              else idle_notify E L r c tm h1))))"

end
