(* ===== verification/SGWC_Config.thy ===== *)
theory SGWC_Config
  imports DDN_Control
begin

text \<open>
  The configuration of the SGW-C, \<^verbatim>\<open>internal/config/sgwc\<close>: the structures the YAML file is decoded into,
  the defaults, the runtime fields that repeat the nested ones (\<^verbatim>\<open>linkRuntimeAliases\<close>) and the validation. The
  decoder and the file system are an argument of \<open>Load\<close>. A \<^verbatim>\<open>zero_\<close> constant is the zero value of its Go structure.
\<close>

section \<open>Structures\<close>

record conf_plmn =
  yp_MCC :: string
  yp_MNC :: string

record conf_sgwc =
  ys_NodeID :: string
  ys_PLMN :: conf_plmn
  ys_StateDir :: string
  ys_ControlPlaneIP :: string

record conf_control_interface =
  yci_Listen :: string

record conf_interface =
  yi_Control :: "(string, conf_control_interface) gomap"

record conf_s11 =
  yss_T3ResponseSeconds :: int
  yss_N3Requests :: int

record conf_s11_logical =
  ysl_Bind :: string
  ysl_Timers :: conf_s11

record conf_gtpc_logical =
  ygl_Bind :: string

record conf_create_bearer_retry_guard =
  ycbrg_Enabled :: bool

record conf_transaction_collision =
  ytc_Mode :: string
  ytc_ActiveProcedureTimeoutSeconds :: int

record conf_transactions =
  yt_CreateBearerRetryGuard :: conf_create_bearer_retry_guard
  yt_CollisionHandling :: conf_transaction_collision

record conf_peer_health_timers =
  ypht_EchoIntervalSeconds :: int
  ypht_EchoTimeoutSeconds :: int

record conf_peer_health_thresholds =
  yphth_SuspectAfterMissed :: int
  yphth_DownAfterMissed :: int
  yphth_DegradedRTTMS :: int

record conf_peer_health_probe =
  yphp_MME :: bool
  yphp_PGW :: bool

record conf_peer_health =
  yph_Enabled :: bool
  yph_Timers :: conf_peer_health_timers
  yph_Thresholds :: conf_peer_health_thresholds
  yph_Probe :: conf_peer_health_probe
  yph_WarnOnDownPeerProcedure :: bool
  yph_EchoIntervalSeconds :: int
  yph_EchoTimeoutSeconds :: int
  yph_SuspectAfterMissed :: int
  yph_DownAfterMissed :: int
  yph_DegradedRTTMS :: int
  yph_ProbeMMEPeers :: bool
  yph_ProbePGWPeers :: bool

record conf_nsa_dcnr =
  yn_Enabled :: bool
  yn_ForwardSecondaryRATUsageReports :: bool

record conf_pgw_failure_detection =
  ypfd_MarkSessionsOnPathDown :: bool
  ypfd_MarkSessionsOnRestart :: bool

record conf_pgw_failure_actions =
  ypfa_BlockNewProceduresToDownPGW :: bool
  ypfa_NotifyMMEOnPGWRestart :: bool

record conf_pgw_failure =
  ypf_Enabled :: bool
  ypf_Detection :: conf_pgw_failure_detection
  ypf_Actions :: conf_pgw_failure_actions
  ypf_MarkSessionsOnPathDown :: bool
  ypf_MarkSessionsOnRestart :: bool
  ypf_BlockNewProceduresToDownPGW :: bool
  ypf_NotifyMMEOnPGWRestart :: bool

record conf_mme_restoration_detection =
  ymrd_MarkSessionsOnPathDown :: bool
  ymrd_MarkSessionsOnRestart :: bool

record conf_mme_restoration_actions =
  ymra_EnforceDeletePolicy :: bool
  ymra_TriggerDDN :: bool
  ymra_CleanupTimeoutSeconds :: int
  ymra_DefaultAction :: string

record conf_arp =
  ya_PriorityMin :: u8
  ya_PriorityMax :: u8

record conf_mme_restoration_policy_rule =
  ymrpr_APN :: string
  ymrpr_QCI :: u8
  ymrpr_ARP :: conf_arp
  ymrpr_ARPPriorityMin :: u8
  ymrpr_ARPPriorityMax :: u8

record conf_mme_restoration_policy =
  ymrp_Preserve :: "conf_mme_restoration_policy_rule list"
  ymrp_Delete :: "conf_mme_restoration_policy_rule list"

record conf_mme_restoration =
  ymr_Enabled :: bool
  ymr_Detection :: conf_mme_restoration_detection
  ymr_Actions :: conf_mme_restoration_actions
  ymr_Policy :: conf_mme_restoration_policy
  ymr_MarkSessionsOnPathDown :: bool
  ymr_MarkSessionsOnRestart :: bool
  ymr_EnforceDeletePolicy :: bool
  ymr_TriggerDDN :: bool
  ymr_CleanupTimeoutSeconds :: int
  ymr_DefaultAction :: string
  ymr_Preserve :: "conf_mme_restoration_policy_rule list"
  ymr_Delete :: "conf_mme_restoration_policy_rule list"

record conf_ddn_rate_limit =
  ydrl_PerMMEPerSecond :: int
  ydrl_PerMMEBurst :: int
  ydrl_PerUESuppressionSeconds :: int

record conf_ddn_low_priority =
  ydlp_HonorMMEThrottling :: bool
  ydlp_ThrottleSeconds :: int
  ydlp_HighPriorityBypass :: bool

record conf_ddn_delayed_queue =
  yddq_MaxEntries :: int
  yddq_MaxEntriesPerMME :: int
  yddq_MaxAgeSeconds :: int

record conf_ddn_stop_paging =
  ydsp_Enabled :: bool
  ydsp_OnDDNAck :: bool

record conf_ddn_control_priority_rule =
  ydcpr_APN :: string
  ydcpr_QCI :: u8
  ydcpr_ARP :: conf_arp
  ydcpr_ARPPriorityMin :: u8
  ydcpr_ARPPriorityMax :: u8

record conf_ddn_policy =
  ydp_HighPriority :: "conf_ddn_control_priority_rule list"
  ydp_LowPriority :: "conf_ddn_control_priority_rule list"

record conf_ddn_control =
  ydc_Enabled :: bool
  ydc_RateLimit :: conf_ddn_rate_limit
  ydc_LowPriorityThrottling :: conf_ddn_low_priority
  ydc_DelayedQueue :: conf_ddn_delayed_queue
  ydc_StopPaging :: conf_ddn_stop_paging
  ydc_Policy :: conf_ddn_policy
  ydc_PerMMERateLimitPerSecond :: int
  ydc_PerMMEBurst :: int
  ydc_PerUESuppressionSeconds :: int
  ydc_HonorMMELowPriorityThrottling :: bool
  ydc_LowPriorityThrottleSeconds :: int
  ydc_HighPriorityBypass :: bool
  ydc_DelayedQueueMax :: int
  ydc_DelayedQueuePerMME :: int
  ydc_DelayedMaxAgeSeconds :: int
  ydc_StopPagingEnabled :: bool
  ydc_StopPagingOnDDNAck :: bool
  ydc_HighPriority :: "conf_ddn_control_priority_rule list"
  ydc_LowPriority :: "conf_ddn_control_priority_rule list"

record conf_idle_downlink_actions =
  yida_TriggerDDN :: bool

record conf_idle_downlink_conditions =
  yidc_RequireReleaseAccessDrop :: bool

record conf_idle_downlink_throttling =
  yidt_ReportThrottleSeconds :: int

record conf_idle_downlink_policy =
  yidp_HighPriority :: "conf_ddn_control_priority_rule list"
  yidp_Suppress :: "conf_ddn_control_priority_rule list"

record conf_idle_downlink =
  yid_Enabled :: bool
  yid_Actions :: conf_idle_downlink_actions
  yid_Conditions :: conf_idle_downlink_conditions
  yid_Throttling :: conf_idle_downlink_throttling
  yid_Policy :: conf_idle_downlink_policy
  yid_TriggerDDN :: bool
  yid_ReportThrottleSeconds :: int
  yid_RequireReleaseAccessDrop :: bool
  yid_HighPriority :: "conf_ddn_control_priority_rule list"
  yid_Suppress :: "conf_ddn_control_priority_rule list"

record conf_session_recovery_storage =
  ysrs_Backend :: string
  ysrs_SQLitePath :: string

record conf_session_recovery_startup =
  ysrst_Restore :: bool
  ysrst_Reconcile :: bool

record conf_session_recovery =
  ysr_Enabled :: bool
  ysr_Storage :: conf_session_recovery_storage
  ysr_Startup :: conf_session_recovery_startup
  ysr_CheckpointIntervalSeconds :: int
  ysr_Backend :: string
  ysr_SQLitePath :: string
  ysr_RestoreOnStartup :: bool
  ysr_ReconcileOnStartup :: bool

record conf_bearer_inactivity_timers =
  ybit_CheckIntervalSeconds :: int
  ybit_DedicatedBearerIdleSeconds :: int
  ybit_PendingBearerTimeoutSeconds :: int
  ybit_DefaultBearerIdleSeconds :: int

record conf_bearer_inactivity_conditions =
  ybic_RequireNoRecentControlActivity :: bool

record conf_bearer_inactivity_actions =
  ybia_DeleteDefaultBearers :: bool

record conf_bearer_inactivity_rule =
  ybir_APN :: string
  ybir_QCI :: u8
  ybir_BearerType :: string
  ybir_IdleSeconds :: int
  ybir_ARP :: conf_arp
  ybir_ARPPriorityMin :: u8
  ybir_ARPPriorityMax :: u8

record conf_bearer_inactivity_policy =
  ybip_Preserve :: "conf_bearer_inactivity_rule list"
  ybip_Cleanup :: "conf_bearer_inactivity_rule list"

record conf_bearer_inactivity =
  ybi_Enabled :: bool
  ybi_Timers :: conf_bearer_inactivity_timers
  ybi_Conditions :: conf_bearer_inactivity_conditions
  ybi_Actions :: conf_bearer_inactivity_actions
  ybi_Policy :: conf_bearer_inactivity_policy
  ybi_CheckIntervalSeconds :: int
  ybi_DedicatedBearerIdleSeconds :: int
  ybi_PendingBearerTimeoutSeconds :: int
  ybi_DefaultBearerIdleSeconds :: int
  ybi_DeleteDefaultBearers :: bool
  ybi_RequireNoRecentControlActivity :: bool
  ybi_Preserve :: "conf_bearer_inactivity_rule list"
  ybi_Cleanup :: "conf_bearer_inactivity_rule list"

record conf_gtpc =
  yg_S11 :: conf_s11_logical
  yg_S5C :: conf_gtpc_logical
  yg_Transactions :: conf_transactions
  yg_PeerHealth :: conf_peer_health
  yg_CreateBearerRetryGuard :: conf_create_bearer_retry_guard
  yg_TransactionCollision :: conf_transaction_collision
  yg_NSADCNR :: conf_nsa_dcnr
  yg_PGWFailure :: conf_pgw_failure
  yg_MMERestoration :: conf_mme_restoration
  yg_DDNControl :: conf_ddn_control
  yg_IdleDownlink :: conf_idle_downlink
  yg_SessionRecovery :: conf_session_recovery
  yg_BearerInactivity :: conf_bearer_inactivity

record conf_sgwu_peer =
  ysp_Name :: string
  ysp_NodeID :: string
  ysp_Addr :: string

record conf_pfcp_heartbeat =
  yphe_HeartbeatIntervalSeconds :: int
  yphe_HeartbeatTimeoutSeconds :: int

record conf_pfcp =
  ypfc_LocalAddr :: string
  ypfc_SGWU :: "conf_sgwu_peer list"
  ypfc_Heartbeat :: conf_pfcp_heartbeat

record conf_features =
  yf_NSADCNR :: conf_nsa_dcnr
  yf_PGWFailure :: conf_pgw_failure
  yf_MMERestoration :: conf_mme_restoration
  yf_DDN :: conf_ddn_control
  yf_IdleDownlink :: conf_idle_downlink
  yf_SessionRecovery :: conf_session_recovery
  yf_BearerInactivity :: conf_bearer_inactivity

record conf_protocol_marking =
  ypm_Enabled :: bool
  ypm_DSCP :: int

record conf_outer_marking =
  yom_Enabled :: bool
  yom_GTPC :: conf_protocol_marking
  yom_PFCP :: conf_protocol_marking

record conf_qos =
  yq_OuterMarking :: conf_outer_marking

record conf_logging =
  yl_Level :: string
  yl_File :: string

record conf_api =
  yap_Listen :: string

record conf_metrics =
  ym_Listen :: string

record conf_shutdown =
  ysh_TimeoutSeconds :: int

record sgwc_yaml =
  y_SGWC :: conf_sgwc
  y_Interfaces :: conf_interface
  y_GTPC :: conf_gtpc
  y_PFCP :: conf_pfcp
  y_Features :: conf_features
  y_QoS :: conf_qos
  y_Logging :: conf_logging
  y_API :: conf_api
  y_Metrics :: conf_metrics
  y_Shutdown :: conf_shutdown
  y_S11 :: conf_s11

section \<open>Defaults\<close>

definition zero_conf_plmn :: conf_plmn where
  "zero_conf_plmn =
     \<lparr>yp_MCC = [], yp_MNC = []\<rparr>"

definition zero_conf_sgwc :: conf_sgwc where
  "zero_conf_sgwc =
     \<lparr>ys_NodeID = [], ys_PLMN = zero_conf_plmn, ys_StateDir = [], ys_ControlPlaneIP = []\<rparr>"

definition zero_conf_interface :: conf_interface where
  "zero_conf_interface =
     \<lparr>yi_Control = []\<rparr>"

definition zero_conf_s11 :: conf_s11 where
  "zero_conf_s11 =
     \<lparr>yss_T3ResponseSeconds = 0, yss_N3Requests = 0\<rparr>"

definition zero_conf_s11_logical :: conf_s11_logical where
  "zero_conf_s11_logical =
     \<lparr>ysl_Bind = [], ysl_Timers = zero_conf_s11\<rparr>"

definition zero_conf_gtpc_logical :: conf_gtpc_logical where
  "zero_conf_gtpc_logical =
     \<lparr>ygl_Bind = []\<rparr>"

definition zero_conf_create_bearer_retry_guard :: conf_create_bearer_retry_guard where
  "zero_conf_create_bearer_retry_guard =
     \<lparr>ycbrg_Enabled = False\<rparr>"

definition zero_conf_transaction_collision :: conf_transaction_collision where
  "zero_conf_transaction_collision =
     \<lparr>ytc_Mode = [], ytc_ActiveProcedureTimeoutSeconds = 0\<rparr>"

definition zero_conf_transactions :: conf_transactions where
  "zero_conf_transactions =
     \<lparr>yt_CreateBearerRetryGuard = zero_conf_create_bearer_retry_guard, yt_CollisionHandling =
     zero_conf_transaction_collision\<rparr>"

definition zero_conf_peer_health_timers :: conf_peer_health_timers where
  "zero_conf_peer_health_timers =
     \<lparr>ypht_EchoIntervalSeconds = 0, ypht_EchoTimeoutSeconds = 0\<rparr>"

definition zero_conf_peer_health_thresholds :: conf_peer_health_thresholds where
  "zero_conf_peer_health_thresholds =
     \<lparr>yphth_SuspectAfterMissed = 0, yphth_DownAfterMissed = 0, yphth_DegradedRTTMS = 0\<rparr>"

definition zero_conf_peer_health_probe :: conf_peer_health_probe where
  "zero_conf_peer_health_probe =
     \<lparr>yphp_MME = False, yphp_PGW = False\<rparr>"

definition zero_conf_peer_health :: conf_peer_health where
  "zero_conf_peer_health =
     \<lparr>yph_Enabled = False, yph_Timers = zero_conf_peer_health_timers, yph_Thresholds =
     zero_conf_peer_health_thresholds, yph_Probe = zero_conf_peer_health_probe, yph_WarnOnDownPeerProcedure = False,
     yph_EchoIntervalSeconds = 0, yph_EchoTimeoutSeconds = 0, yph_SuspectAfterMissed = 0, yph_DownAfterMissed = 0,
     yph_DegradedRTTMS = 0, yph_ProbeMMEPeers = False, yph_ProbePGWPeers = False\<rparr>"

definition zero_conf_nsa_dcnr :: conf_nsa_dcnr where
  "zero_conf_nsa_dcnr =
     \<lparr>yn_Enabled = False, yn_ForwardSecondaryRATUsageReports = False\<rparr>"

definition zero_conf_pgw_failure_detection :: conf_pgw_failure_detection where
  "zero_conf_pgw_failure_detection =
     \<lparr>ypfd_MarkSessionsOnPathDown = False, ypfd_MarkSessionsOnRestart = False\<rparr>"

definition zero_conf_pgw_failure_actions :: conf_pgw_failure_actions where
  "zero_conf_pgw_failure_actions =
     \<lparr>ypfa_BlockNewProceduresToDownPGW = False, ypfa_NotifyMMEOnPGWRestart = False\<rparr>"

definition zero_conf_pgw_failure :: conf_pgw_failure where
  "zero_conf_pgw_failure =
     \<lparr>ypf_Enabled = False, ypf_Detection = zero_conf_pgw_failure_detection, ypf_Actions =
     zero_conf_pgw_failure_actions, ypf_MarkSessionsOnPathDown = False, ypf_MarkSessionsOnRestart = False,
     ypf_BlockNewProceduresToDownPGW = False, ypf_NotifyMMEOnPGWRestart = False\<rparr>"

definition zero_conf_mme_restoration_detection :: conf_mme_restoration_detection where
  "zero_conf_mme_restoration_detection =
     \<lparr>ymrd_MarkSessionsOnPathDown = False, ymrd_MarkSessionsOnRestart = False\<rparr>"

definition zero_conf_mme_restoration_actions :: conf_mme_restoration_actions where
  "zero_conf_mme_restoration_actions =
     \<lparr>ymra_EnforceDeletePolicy = False, ymra_TriggerDDN = False, ymra_CleanupTimeoutSeconds = 0, ymra_DefaultAction
     = []\<rparr>"

definition zero_conf_arp :: conf_arp where
  "zero_conf_arp =
     \<lparr>ya_PriorityMin = 0, ya_PriorityMax = 0\<rparr>"

definition zero_conf_mme_restoration_policy_rule :: conf_mme_restoration_policy_rule where
  "zero_conf_mme_restoration_policy_rule =
     \<lparr>ymrpr_APN = [], ymrpr_QCI = 0, ymrpr_ARP = zero_conf_arp, ymrpr_ARPPriorityMin = 0, ymrpr_ARPPriorityMax =
     0\<rparr>"

definition zero_conf_mme_restoration_policy :: conf_mme_restoration_policy where
  "zero_conf_mme_restoration_policy =
     \<lparr>ymrp_Preserve = [], ymrp_Delete = []\<rparr>"

definition zero_conf_mme_restoration :: conf_mme_restoration where
  "zero_conf_mme_restoration =
     \<lparr>ymr_Enabled = False, ymr_Detection = zero_conf_mme_restoration_detection, ymr_Actions =
     zero_conf_mme_restoration_actions, ymr_Policy = zero_conf_mme_restoration_policy, ymr_MarkSessionsOnPathDown = False,
     ymr_MarkSessionsOnRestart = False, ymr_EnforceDeletePolicy = False, ymr_TriggerDDN = False, ymr_CleanupTimeoutSeconds
     = 0, ymr_DefaultAction = [], ymr_Preserve = [], ymr_Delete = []\<rparr>"

definition zero_conf_ddn_rate_limit :: conf_ddn_rate_limit where
  "zero_conf_ddn_rate_limit =
     \<lparr>ydrl_PerMMEPerSecond = 0, ydrl_PerMMEBurst = 0, ydrl_PerUESuppressionSeconds = 0\<rparr>"

definition zero_conf_ddn_low_priority :: conf_ddn_low_priority where
  "zero_conf_ddn_low_priority =
     \<lparr>ydlp_HonorMMEThrottling = False, ydlp_ThrottleSeconds = 0, ydlp_HighPriorityBypass = False\<rparr>"

definition zero_conf_ddn_delayed_queue :: conf_ddn_delayed_queue where
  "zero_conf_ddn_delayed_queue =
     \<lparr>yddq_MaxEntries = 0, yddq_MaxEntriesPerMME = 0, yddq_MaxAgeSeconds = 0\<rparr>"

definition zero_conf_ddn_stop_paging :: conf_ddn_stop_paging where
  "zero_conf_ddn_stop_paging =
     \<lparr>ydsp_Enabled = False, ydsp_OnDDNAck = False\<rparr>"

definition zero_conf_ddn_control_priority_rule :: conf_ddn_control_priority_rule where
  "zero_conf_ddn_control_priority_rule =
     \<lparr>ydcpr_APN = [], ydcpr_QCI = 0, ydcpr_ARP = zero_conf_arp, ydcpr_ARPPriorityMin = 0, ydcpr_ARPPriorityMax =
     0\<rparr>"

definition zero_conf_ddn_policy :: conf_ddn_policy where
  "zero_conf_ddn_policy =
     \<lparr>ydp_HighPriority = [], ydp_LowPriority = []\<rparr>"

definition zero_conf_ddn_control :: conf_ddn_control where
  "zero_conf_ddn_control =
     \<lparr>ydc_Enabled = False, ydc_RateLimit = zero_conf_ddn_rate_limit, ydc_LowPriorityThrottling =
     zero_conf_ddn_low_priority, ydc_DelayedQueue = zero_conf_ddn_delayed_queue, ydc_StopPaging =
     zero_conf_ddn_stop_paging, ydc_Policy = zero_conf_ddn_policy, ydc_PerMMERateLimitPerSecond = 0, ydc_PerMMEBurst = 0,
     ydc_PerUESuppressionSeconds = 0, ydc_HonorMMELowPriorityThrottling = False, ydc_LowPriorityThrottleSeconds = 0,
     ydc_HighPriorityBypass = False, ydc_DelayedQueueMax = 0, ydc_DelayedQueuePerMME = 0, ydc_DelayedMaxAgeSeconds = 0,
     ydc_StopPagingEnabled = False, ydc_StopPagingOnDDNAck = False, ydc_HighPriority = [], ydc_LowPriority = []\<rparr>"

definition zero_conf_idle_downlink_actions :: conf_idle_downlink_actions where
  "zero_conf_idle_downlink_actions =
     \<lparr>yida_TriggerDDN = False\<rparr>"

definition zero_conf_idle_downlink_conditions :: conf_idle_downlink_conditions where
  "zero_conf_idle_downlink_conditions =
     \<lparr>yidc_RequireReleaseAccessDrop = False\<rparr>"

definition zero_conf_idle_downlink_throttling :: conf_idle_downlink_throttling where
  "zero_conf_idle_downlink_throttling =
     \<lparr>yidt_ReportThrottleSeconds = 0\<rparr>"

definition zero_conf_idle_downlink_policy :: conf_idle_downlink_policy where
  "zero_conf_idle_downlink_policy =
     \<lparr>yidp_HighPriority = [], yidp_Suppress = []\<rparr>"

definition zero_conf_idle_downlink :: conf_idle_downlink where
  "zero_conf_idle_downlink =
     \<lparr>yid_Enabled = False, yid_Actions = zero_conf_idle_downlink_actions, yid_Conditions =
     zero_conf_idle_downlink_conditions, yid_Throttling = zero_conf_idle_downlink_throttling, yid_Policy =
     zero_conf_idle_downlink_policy, yid_TriggerDDN = False, yid_ReportThrottleSeconds = 0, yid_RequireReleaseAccessDrop =
     False, yid_HighPriority = [], yid_Suppress = []\<rparr>"

definition zero_conf_session_recovery_storage :: conf_session_recovery_storage where
  "zero_conf_session_recovery_storage =
     \<lparr>ysrs_Backend = [], ysrs_SQLitePath = []\<rparr>"

definition zero_conf_session_recovery_startup :: conf_session_recovery_startup where
  "zero_conf_session_recovery_startup =
     \<lparr>ysrst_Restore = False, ysrst_Reconcile = False\<rparr>"

definition zero_conf_session_recovery :: conf_session_recovery where
  "zero_conf_session_recovery =
     \<lparr>ysr_Enabled = False, ysr_Storage = zero_conf_session_recovery_storage, ysr_Startup =
     zero_conf_session_recovery_startup, ysr_CheckpointIntervalSeconds = 0, ysr_Backend = [], ysr_SQLitePath = [],
     ysr_RestoreOnStartup = False, ysr_ReconcileOnStartup = False\<rparr>"

definition zero_conf_bearer_inactivity_timers :: conf_bearer_inactivity_timers where
  "zero_conf_bearer_inactivity_timers =
     \<lparr>ybit_CheckIntervalSeconds = 0, ybit_DedicatedBearerIdleSeconds = 0, ybit_PendingBearerTimeoutSeconds = 0,
     ybit_DefaultBearerIdleSeconds = 0\<rparr>"

definition zero_conf_bearer_inactivity_conditions :: conf_bearer_inactivity_conditions where
  "zero_conf_bearer_inactivity_conditions =
     \<lparr>ybic_RequireNoRecentControlActivity = False\<rparr>"

definition zero_conf_bearer_inactivity_actions :: conf_bearer_inactivity_actions where
  "zero_conf_bearer_inactivity_actions =
     \<lparr>ybia_DeleteDefaultBearers = False\<rparr>"

definition zero_conf_bearer_inactivity_rule :: conf_bearer_inactivity_rule where
  "zero_conf_bearer_inactivity_rule =
     \<lparr>ybir_APN = [], ybir_QCI = 0, ybir_BearerType = [], ybir_IdleSeconds = 0, ybir_ARP = zero_conf_arp,
     ybir_ARPPriorityMin = 0, ybir_ARPPriorityMax = 0\<rparr>"

definition zero_conf_bearer_inactivity_policy :: conf_bearer_inactivity_policy where
  "zero_conf_bearer_inactivity_policy =
     \<lparr>ybip_Preserve = [], ybip_Cleanup = []\<rparr>"

definition zero_conf_bearer_inactivity :: conf_bearer_inactivity where
  "zero_conf_bearer_inactivity =
     \<lparr>ybi_Enabled = False, ybi_Timers = zero_conf_bearer_inactivity_timers, ybi_Conditions =
     zero_conf_bearer_inactivity_conditions, ybi_Actions = zero_conf_bearer_inactivity_actions, ybi_Policy =
     zero_conf_bearer_inactivity_policy, ybi_CheckIntervalSeconds = 0, ybi_DedicatedBearerIdleSeconds = 0,
     ybi_PendingBearerTimeoutSeconds = 0, ybi_DefaultBearerIdleSeconds = 0, ybi_DeleteDefaultBearers = False,
     ybi_RequireNoRecentControlActivity = False, ybi_Preserve = [], ybi_Cleanup = []\<rparr>"

definition zero_conf_gtpc :: conf_gtpc where
  "zero_conf_gtpc =
     \<lparr>yg_S11 = zero_conf_s11_logical, yg_S5C = zero_conf_gtpc_logical, yg_Transactions = zero_conf_transactions,
     yg_PeerHealth = zero_conf_peer_health, yg_CreateBearerRetryGuard = zero_conf_create_bearer_retry_guard,
     yg_TransactionCollision = zero_conf_transaction_collision, yg_NSADCNR = zero_conf_nsa_dcnr, yg_PGWFailure =
     zero_conf_pgw_failure, yg_MMERestoration = zero_conf_mme_restoration, yg_DDNControl = zero_conf_ddn_control,
     yg_IdleDownlink = zero_conf_idle_downlink, yg_SessionRecovery = zero_conf_session_recovery, yg_BearerInactivity =
     zero_conf_bearer_inactivity\<rparr>"

definition zero_conf_pfcp_heartbeat :: conf_pfcp_heartbeat where
  "zero_conf_pfcp_heartbeat =
     \<lparr>yphe_HeartbeatIntervalSeconds = 0, yphe_HeartbeatTimeoutSeconds = 0\<rparr>"

definition zero_conf_pfcp :: conf_pfcp where
  "zero_conf_pfcp =
     \<lparr>ypfc_LocalAddr = [], ypfc_SGWU = [], ypfc_Heartbeat = zero_conf_pfcp_heartbeat\<rparr>"

definition zero_conf_features :: conf_features where
  "zero_conf_features =
     \<lparr>yf_NSADCNR = zero_conf_nsa_dcnr, yf_PGWFailure = zero_conf_pgw_failure, yf_MMERestoration =
     zero_conf_mme_restoration, yf_DDN = zero_conf_ddn_control, yf_IdleDownlink = zero_conf_idle_downlink,
     yf_SessionRecovery = zero_conf_session_recovery, yf_BearerInactivity = zero_conf_bearer_inactivity\<rparr>"

definition zero_conf_protocol_marking :: conf_protocol_marking where
  "zero_conf_protocol_marking =
     \<lparr>ypm_Enabled = False, ypm_DSCP = 0\<rparr>"

definition zero_conf_outer_marking :: conf_outer_marking where
  "zero_conf_outer_marking =
     \<lparr>yom_Enabled = False, yom_GTPC = zero_conf_protocol_marking, yom_PFCP = zero_conf_protocol_marking\<rparr>"

definition zero_conf_qos :: conf_qos where
  "zero_conf_qos =
     \<lparr>yq_OuterMarking = zero_conf_outer_marking\<rparr>"

definition zero_conf_logging :: conf_logging where
  "zero_conf_logging =
     \<lparr>yl_Level = [], yl_File = []\<rparr>"

definition zero_conf_api :: conf_api where
  "zero_conf_api =
     \<lparr>yap_Listen = []\<rparr>"

definition zero_conf_metrics :: conf_metrics where
  "zero_conf_metrics =
     \<lparr>ym_Listen = []\<rparr>"

definition zero_conf_shutdown :: conf_shutdown where
  "zero_conf_shutdown =
     \<lparr>ysh_TimeoutSeconds = 0\<rparr>"

definition zero_sgwc_yaml :: sgwc_yaml where
  "zero_sgwc_yaml =
     \<lparr>y_SGWC = zero_conf_sgwc, y_Interfaces = zero_conf_interface, y_GTPC = zero_conf_gtpc, y_PFCP = zero_conf_pfcp,
     y_Features = zero_conf_features, y_QoS = zero_conf_qos, y_Logging = zero_conf_logging, y_API = zero_conf_api,
     y_Metrics = zero_conf_metrics, y_Shutdown = zero_conf_shutdown, y_S11 = zero_conf_s11\<rparr>"

definition default_peer_health :: conf_peer_health where
  "default_peer_health =
     zero_conf_peer_health\<lparr>yph_Enabled := True, yph_Timers := \<lparr>ypht_EchoIntervalSeconds = 30,
     ypht_EchoTimeoutSeconds = 3\<rparr>, yph_Thresholds := \<lparr>yphth_SuspectAfterMissed = 2, yphth_DownAfterMissed =
     3, yphth_DegradedRTTMS = 500\<rparr>, yph_Probe := \<lparr>yphp_MME = True, yphp_PGW = True\<rparr>,
     yph_WarnOnDownPeerProcedure := True\<rparr>"

definition default_gtpc :: conf_gtpc where
  "default_gtpc =
     zero_conf_gtpc\<lparr>yg_S11 := zero_conf_s11_logical\<lparr>ysl_Timers := \<lparr>yss_T3ResponseSeconds = 3,
     yss_N3Requests = 5\<rparr>\<rparr>, yg_Transactions := \<lparr>yt_CreateBearerRetryGuard = \<lparr>ycbrg_Enabled =
     True\<rparr>, yt_CollisionHandling = \<lparr>ytc_Mode = ''strict'', ytc_ActiveProcedureTimeoutSeconds =
     120\<rparr>\<rparr>, yg_PeerHealth := default_peer_health\<rparr>"

definition default_mme_restoration :: conf_mme_restoration where
  "default_mme_restoration =
     zero_conf_mme_restoration\<lparr>ymr_Enabled := True, ymr_Detection := \<lparr>ymrd_MarkSessionsOnPathDown = True,
     ymrd_MarkSessionsOnRestart = True\<rparr>, ymr_Actions := \<lparr>ymra_EnforceDeletePolicy = True, ymra_TriggerDDN =
     True, ymra_CleanupTimeoutSeconds = 30, ymra_DefaultAction = ''preserve''\<rparr>, ymr_Policy :=
     zero_conf_mme_restoration_policy\<lparr>ymrp_Preserve := [zero_conf_mme_restoration_policy_rule\<lparr>ymrpr_APN :=
     ''ims''\<rparr>, zero_conf_mme_restoration_policy_rule\<lparr>ymrpr_QCI := 1\<rparr>,
     zero_conf_mme_restoration_policy_rule\<lparr>ymrpr_ARP := \<lparr>ya_PriorityMin = 1, ya_PriorityMax =
     3\<rparr>\<rparr>]\<rparr>\<rparr>"

definition default_ddn :: conf_ddn_control where
  "default_ddn =
     zero_conf_ddn_control\<lparr>ydc_Enabled := True, ydc_RateLimit := \<lparr>ydrl_PerMMEPerSecond = 50, ydrl_PerMMEBurst
     = 100, ydrl_PerUESuppressionSeconds = 10\<rparr>, ydc_LowPriorityThrottling := \<lparr>ydlp_HonorMMEThrottling = True,
     ydlp_ThrottleSeconds = 30, ydlp_HighPriorityBypass = True\<rparr>, ydc_DelayedQueue := \<lparr>yddq_MaxEntries = 1000,
     yddq_MaxEntriesPerMME = 200, yddq_MaxAgeSeconds = 30\<rparr>, ydc_Policy := \<lparr>ydp_HighPriority =
     [zero_conf_ddn_control_priority_rule\<lparr>ydcpr_APN := ''ims''\<rparr>,
     zero_conf_ddn_control_priority_rule\<lparr>ydcpr_QCI := 1\<rparr>,
     zero_conf_ddn_control_priority_rule\<lparr>ydcpr_ARP := \<lparr>ya_PriorityMin = 1, ya_PriorityMax =
     3\<rparr>\<rparr>], ydp_LowPriority = [zero_conf_ddn_control_priority_rule\<lparr>ydcpr_APN := ''internet'', ydcpr_QCI
     := 9\<rparr>]\<rparr>\<rparr>"

definition default_idle_downlink :: conf_idle_downlink where
  "default_idle_downlink =
     zero_conf_idle_downlink\<lparr>yid_Actions := \<lparr>yida_TriggerDDN = True\<rparr>, yid_Conditions :=
     \<lparr>yidc_RequireReleaseAccessDrop = True\<rparr>, yid_Throttling := \<lparr>yidt_ReportThrottleSeconds =
     10\<rparr>, yid_Policy := \<lparr>yidp_HighPriority = [zero_conf_ddn_control_priority_rule\<lparr>ydcpr_APN :=
     ''ims''\<rparr>, zero_conf_ddn_control_priority_rule\<lparr>ydcpr_QCI := 1\<rparr>,
     zero_conf_ddn_control_priority_rule\<lparr>ydcpr_ARP := \<lparr>ya_PriorityMin = 1, ya_PriorityMax =
     3\<rparr>\<rparr>], yidp_Suppress = [zero_conf_ddn_control_priority_rule\<lparr>ydcpr_APN := ''internet'', ydcpr_QCI
     := 9\<rparr>]\<rparr>\<rparr>"

definition default_bearer_inactivity :: conf_bearer_inactivity where
  "default_bearer_inactivity =
     zero_conf_bearer_inactivity\<lparr>ybi_Timers := zero_conf_bearer_inactivity_timers\<lparr>ybit_CheckIntervalSeconds
     := 30, ybit_DedicatedBearerIdleSeconds := 300, ybit_PendingBearerTimeoutSeconds := 60\<rparr>, ybi_Conditions :=
     \<lparr>ybic_RequireNoRecentControlActivity = True\<rparr>, ybi_Policy := \<lparr>ybip_Preserve =
     [zero_conf_bearer_inactivity_rule\<lparr>ybir_APN := ''ims'', ybir_QCI := 5, ybir_BearerType := ''default''\<rparr>,
     zero_conf_bearer_inactivity_rule\<lparr>ybir_QCI := 1\<rparr>], ybip_Cleanup =
     [zero_conf_bearer_inactivity_rule\<lparr>ybir_BearerType := ''dedicated'', ybir_IdleSeconds :=
     300\<rparr>]\<rparr>\<rparr>"

definition default_features :: conf_features where
  "default_features =
     \<lparr>yf_NSADCNR = \<lparr>yn_Enabled = True, yn_ForwardSecondaryRATUsageReports = True\<rparr>, yf_PGWFailure =
     zero_conf_pgw_failure\<lparr>ypf_Enabled := True, ypf_Detection := \<lparr>ypfd_MarkSessionsOnPathDown = True,
     ypfd_MarkSessionsOnRestart = True\<rparr>\<rparr>, yf_MMERestoration = default_mme_restoration, yf_DDN = default_ddn,
     yf_IdleDownlink = default_idle_downlink, yf_SessionRecovery = zero_conf_session_recovery\<lparr>ysr_Enabled := False,
     ysr_Storage := zero_conf_session_recovery_storage\<lparr>ysrs_Backend := ''sqlite''\<rparr>, ysr_Startup :=
     \<lparr>ysrst_Restore = True, ysrst_Reconcile = True\<rparr>, ysr_CheckpointIntervalSeconds := 5\<rparr>,
     yf_BearerInactivity = default_bearer_inactivity\<rparr>"

definition Default_sgwc_yaml :: sgwc_yaml where
  "Default_sgwc_yaml =
     zero_sgwc_yaml\<lparr>y_GTPC := default_gtpc, y_PFCP := zero_conf_pfcp\<lparr>ypfc_Heartbeat :=
     \<lparr>yphe_HeartbeatIntervalSeconds = 10, yphe_HeartbeatTimeoutSeconds = 30\<rparr>\<rparr>, y_Features :=
     default_features, y_QoS := \<lparr>yq_OuterMarking = \<lparr>yom_Enabled = True, yom_GTPC = \<lparr>ypm_Enabled =
     True, ypm_DSCP = 40\<rparr>, yom_PFCP = \<lparr>ypm_Enabled = True, ypm_DSCP = 40\<rparr>\<rparr>\<rparr>, y_Logging
     := zero_conf_logging\<lparr>yl_Level := ''info''\<rparr>, y_API := \<lparr>yap_Listen = ''127.0.0.1:8080''\<rparr>,
     y_Metrics := \<lparr>ym_Listen = ''127.0.0.1:9090''\<rparr>, y_Shutdown := \<lparr>ysh_TimeoutSeconds =
     5\<rparr>\<rparr>"

section \<open>Runtime fields\<close>

definition linkMMERule :: "conf_mme_restoration_policy_rule \<Rightarrow> conf_mme_restoration_policy_rule" where
  "linkMMERule r = r\<lparr>ymrpr_ARPPriorityMin := ya_PriorityMin (ymrpr_ARP r), ymrpr_ARPPriorityMax := ya_PriorityMax (ymrpr_ARP r)\<rparr>"

definition linkDDNRule :: "conf_ddn_control_priority_rule \<Rightarrow> conf_ddn_control_priority_rule" where
  "linkDDNRule r = r\<lparr>ydcpr_ARPPriorityMin := ya_PriorityMin (ydcpr_ARP r), ydcpr_ARPPriorityMax := ya_PriorityMax (ydcpr_ARP r)\<rparr>"

definition linkBearerRule :: "conf_bearer_inactivity_rule \<Rightarrow> conf_bearer_inactivity_rule" where
  "linkBearerRule r = r\<lparr>ybir_ARPPriorityMin := ya_PriorityMin (ybir_ARP r), ybir_ARPPriorityMax := ya_PriorityMax (ybir_ARP r)\<rparr>"

text \<open>The rules of a policy and its runtime field are one array: linking the rules of one changes the other.\<close>

definition link_peer_health :: "conf_peer_health \<Rightarrow> conf_peer_health" where
  "link_peer_health p = p\<lparr>yph_EchoIntervalSeconds := ypht_EchoIntervalSeconds (yph_Timers p),
     yph_EchoTimeoutSeconds := ypht_EchoTimeoutSeconds (yph_Timers p),
     yph_SuspectAfterMissed := yphth_SuspectAfterMissed (yph_Thresholds p),
     yph_DownAfterMissed := yphth_DownAfterMissed (yph_Thresholds p),
     yph_DegradedRTTMS := yphth_DegradedRTTMS (yph_Thresholds p),
     yph_ProbeMMEPeers := yphp_MME (yph_Probe p), yph_ProbePGWPeers := yphp_PGW (yph_Probe p)\<rparr>"

definition link_pgw_failure :: "conf_pgw_failure \<Rightarrow> conf_pgw_failure" where
  "link_pgw_failure f = f\<lparr>ypf_MarkSessionsOnPathDown := ypfd_MarkSessionsOnPathDown (ypf_Detection f),
     ypf_MarkSessionsOnRestart := ypfd_MarkSessionsOnRestart (ypf_Detection f),
     ypf_BlockNewProceduresToDownPGW := ypfa_BlockNewProceduresToDownPGW (ypf_Actions f),
     ypf_NotifyMMEOnPGWRestart := ypfa_NotifyMMEOnPGWRestart (ypf_Actions f)\<rparr>"

definition link_mme_restoration :: "conf_mme_restoration \<Rightarrow> conf_mme_restoration" where
  "link_mme_restoration m =
     (let keep = map linkMMERule (ymrp_Preserve (ymr_Policy m)); del = map linkMMERule (ymrp_Delete (ymr_Policy m)) in
      m\<lparr>ymr_MarkSessionsOnPathDown := ymrd_MarkSessionsOnPathDown (ymr_Detection m),
        ymr_MarkSessionsOnRestart := ymrd_MarkSessionsOnRestart (ymr_Detection m),
        ymr_EnforceDeletePolicy := ymra_EnforceDeletePolicy (ymr_Actions m), ymr_TriggerDDN := ymra_TriggerDDN (ymr_Actions m),
        ymr_CleanupTimeoutSeconds := ymra_CleanupTimeoutSeconds (ymr_Actions m),
        ymr_DefaultAction := ymra_DefaultAction (ymr_Actions m),
        ymr_Policy := \<lparr>ymrp_Preserve = keep, ymrp_Delete = del\<rparr>, ymr_Preserve := keep, ymr_Delete := del\<rparr>)"

definition link_ddn :: "conf_ddn_control \<Rightarrow> conf_ddn_control" where
  "link_ddn d =
     (let high = map linkDDNRule (ydp_HighPriority (ydc_Policy d)); low = map linkDDNRule (ydp_LowPriority (ydc_Policy d)) in
      d\<lparr>ydc_PerMMERateLimitPerSecond := ydrl_PerMMEPerSecond (ydc_RateLimit d),
        ydc_PerMMEBurst := ydrl_PerMMEBurst (ydc_RateLimit d),
        ydc_PerUESuppressionSeconds := ydrl_PerUESuppressionSeconds (ydc_RateLimit d),
        ydc_HonorMMELowPriorityThrottling := ydlp_HonorMMEThrottling (ydc_LowPriorityThrottling d),
        ydc_LowPriorityThrottleSeconds := ydlp_ThrottleSeconds (ydc_LowPriorityThrottling d),
        ydc_HighPriorityBypass := ydlp_HighPriorityBypass (ydc_LowPriorityThrottling d),
        ydc_DelayedQueueMax := yddq_MaxEntries (ydc_DelayedQueue d),
        ydc_DelayedQueuePerMME := yddq_MaxEntriesPerMME (ydc_DelayedQueue d),
        ydc_DelayedMaxAgeSeconds := yddq_MaxAgeSeconds (ydc_DelayedQueue d),
        ydc_StopPagingEnabled := ydsp_Enabled (ydc_StopPaging d), ydc_StopPagingOnDDNAck := ydsp_OnDDNAck (ydc_StopPaging d),
        ydc_Policy := \<lparr>ydp_HighPriority = high, ydp_LowPriority = low\<rparr>, ydc_HighPriority := high, ydc_LowPriority := low\<rparr>)"

definition link_idle_downlink :: "conf_idle_downlink \<Rightarrow> conf_idle_downlink" where
  "link_idle_downlink i =
     (let high = map linkDDNRule (yidp_HighPriority (yid_Policy i)); sup = map linkDDNRule (yidp_Suppress (yid_Policy i)) in
      i\<lparr>yid_TriggerDDN := yida_TriggerDDN (yid_Actions i),
        yid_ReportThrottleSeconds := yidt_ReportThrottleSeconds (yid_Throttling i),
        yid_RequireReleaseAccessDrop := yidc_RequireReleaseAccessDrop (yid_Conditions i),
        yid_Policy := \<lparr>yidp_HighPriority = high, yidp_Suppress = sup\<rparr>, yid_HighPriority := high, yid_Suppress := sup\<rparr>)"

definition link_session_recovery :: "conf_session_recovery \<Rightarrow> conf_session_recovery" where
  "link_session_recovery s = s\<lparr>ysr_Backend := ysrs_Backend (ysr_Storage s), ysr_SQLitePath := ysrs_SQLitePath (ysr_Storage s),
     ysr_RestoreOnStartup := ysrst_Restore (ysr_Startup s), ysr_ReconcileOnStartup := ysrst_Reconcile (ysr_Startup s)\<rparr>"

definition link_bearer_inactivity :: "conf_bearer_inactivity \<Rightarrow> conf_bearer_inactivity" where
  "link_bearer_inactivity b =
     (let keep = map linkBearerRule (ybip_Preserve (ybi_Policy b)); clean = map linkBearerRule (ybip_Cleanup (ybi_Policy b)) in
      b\<lparr>ybi_CheckIntervalSeconds := ybit_CheckIntervalSeconds (ybi_Timers b),
        ybi_DedicatedBearerIdleSeconds := ybit_DedicatedBearerIdleSeconds (ybi_Timers b),
        ybi_PendingBearerTimeoutSeconds := ybit_PendingBearerTimeoutSeconds (ybi_Timers b),
        ybi_DefaultBearerIdleSeconds := ybit_DefaultBearerIdleSeconds (ybi_Timers b),
        ybi_DeleteDefaultBearers := ybia_DeleteDefaultBearers (ybi_Actions b),
        ybi_RequireNoRecentControlActivity := ybic_RequireNoRecentControlActivity (ybi_Conditions b),
        ybi_Policy := \<lparr>ybip_Preserve = keep, ybip_Cleanup = clean\<rparr>, ybi_Preserve := keep, ybi_Cleanup := clean\<rparr>)"

definition linkRuntimeAliases :: "sgwc_yaml \<Rightarrow> sgwc_yaml" where
  "linkRuntimeAliases c =
     (let g = y_GTPC c; f = y_Features c;
          f' = f\<lparr>yf_PGWFailure := link_pgw_failure (yf_PGWFailure f), yf_MMERestoration := link_mme_restoration (yf_MMERestoration f),
            yf_DDN := link_ddn (yf_DDN f), yf_IdleDownlink := link_idle_downlink (yf_IdleDownlink f),
            yf_SessionRecovery := link_session_recovery (yf_SessionRecovery f),
            yf_BearerInactivity := link_bearer_inactivity (yf_BearerInactivity f)\<rparr>
      in c\<lparr>y_S11 := ysl_Timers (yg_S11 g), y_Features := f',
        y_GTPC := g\<lparr>yg_CreateBearerRetryGuard := yt_CreateBearerRetryGuard (yg_Transactions g),
          yg_TransactionCollision := yt_CollisionHandling (yg_Transactions g), yg_NSADCNR := yf_NSADCNR f,
          yg_PeerHealth := link_peer_health (yg_PeerHealth g), yg_PGWFailure := yf_PGWFailure f',
          yg_MMERestoration := yf_MMERestoration f', yg_DDNControl := yf_DDN f', yg_IdleDownlink := yf_IdleDownlink f',
          yg_SessionRecovery := yf_SessionRecovery f', yg_BearerInactivity := yf_BearerInactivity f'\<rparr>\<rparr>)"

section \<open>Validation\<close>

text \<open>An error with the message, or with the message and the value it quotes.\<close>

datatype config_error = Conf string | ConfGot string string

fun first_error :: "(config_error, unit) outcome list \<Rightarrow> (config_error, unit) outcome" where
  "first_error [] = Ok ()"
| "first_error (r # rs) = (case r of Ok _ \<Rightarrow> first_error rs | _ \<Rightarrow> r)"

definition reject_if :: "bool \<Rightarrow> string \<Rightarrow> (config_error, unit) outcome" where
  "reject_if b msg = (if b then Fail (Conf msg) else Ok ())"

definition conf_int :: "int \<Rightarrow> string" where
  "conf_int n = (if n < 0 then ''-'' @ itoa (nat (- n)) else itoa (nat n))"

definition validateBind :: "sgwc_yaml \<Rightarrow> string \<Rightarrow> string \<Rightarrow> (config_error, unit) outcome" where
  "validateBind c path bnd =
     (if bnd = [] then Fail (Conf (path @ '' is required''))
      else if mget (yi_Control (y_Interfaces c)) bnd = None
      then Fail (ConfGot (path @ '' does not reference interfaces.control'') bnd) else Ok ())"

definition validatePeerHealth :: "sgwc_yaml \<Rightarrow> (config_error, unit) outcome" where
  "validatePeerHealth c = (let p = yg_PeerHealth (y_GTPC c) in first_error [
     reject_if (yph_EchoIntervalSeconds p \<le> 0 \<or> yph_EchoTimeoutSeconds p \<le> 0) ''gtpc.peer_health timers must be positive'',
     reject_if (yph_EchoTimeoutSeconds p \<ge> yph_EchoIntervalSeconds p)
       ''gtpc.peer_health.timers.echo_timeout_seconds must be less than echo_interval_seconds'',
     reject_if (yph_SuspectAfterMissed p \<le> 0) ''gtpc.peer_health.thresholds.suspect_after_missed must be positive'',
     reject_if (yph_DownAfterMissed p < yph_SuspectAfterMissed p)
       ''gtpc.peer_health.thresholds.down_after_missed must be greater than or equal to suspect_after_missed'',
     reject_if (yph_DegradedRTTMS p \<le> 0) ''gtpc.peer_health.thresholds.degraded_rtt_ms must be positive''])"

definition validatePolicyRule :: "string \<Rightarrow> string \<Rightarrow> u8 \<Rightarrow> conf_arp \<Rightarrow> string \<Rightarrow> int \<Rightarrow> (config_error, unit) outcome" where
  "validatePolicyRule path apn qci a bearerType idle = first_error [
     reject_if (apn = [] \<and> qci = 0 \<and> ya_PriorityMin a = 0 \<and> ya_PriorityMax a = 0 \<and> bearerType = [] \<and> idle = 0)
       (path @ '' must contain at least one matcher''),
     reject_if (qci > 9) (path @ ''.qci must be in range 1-9, got '' @ itoa (unat qci)),
     reject_if (ya_PriorityMin a > 15 \<or> ya_PriorityMax a > 15) (path @ '' ARP priorities must be in range 0-15''),
     reject_if (ya_PriorityMin a \<noteq> 0 \<and> ya_PriorityMax a \<noteq> 0 \<and> ya_PriorityMin a > ya_PriorityMax a)
       (path @ '' ARP priority min must be less than or equal to max''),
     (if bearerType \<noteq> [] \<and> bearerType \<noteq> ''default'' \<and> bearerType \<noteq> ''dedicated''
      then Fail (ConfGot (path @ ''.bearer_type must be default or dedicated'') bearerType) else Ok ()),
     reject_if (idle < 0) (path @ ''.idle_seconds must be nonnegative'')]"

definition rule_path :: "string \<Rightarrow> string \<Rightarrow> nat \<Rightarrow> string" where
  "rule_path feature cls i = feature @ ''.policy.'' @ cls @ ''['' @ itoa i @ '']''"

definition each_rule :: "string \<Rightarrow> (string \<Rightarrow> 'r \<Rightarrow> (config_error, unit) outcome) \<Rightarrow> string \<Rightarrow> 'r list \<Rightarrow> (config_error, unit) outcome" where
  "each_rule feature check cls rs = first_error (map (\<lambda>(i, r). check (rule_path feature cls i) r) (enumerate 0 rs))"

definition mme_rule_ok :: "string \<Rightarrow> conf_mme_restoration_policy_rule \<Rightarrow> (config_error, unit) outcome" where
  "mme_rule_ok path r = validatePolicyRule path (ymrpr_APN r) (ymrpr_QCI r) (ymrpr_ARP r) [] 0"

definition ddn_rule_ok :: "string \<Rightarrow> conf_ddn_control_priority_rule \<Rightarrow> (config_error, unit) outcome" where
  "ddn_rule_ok path r = validatePolicyRule path (ydcpr_APN r) (ydcpr_QCI r) (ydcpr_ARP r) [] 0"

definition validateMMERestoration :: "sgwc_yaml \<Rightarrow> (config_error, unit) outcome" where
  "validateMMERestoration c = (let m = yg_MMERestoration (y_GTPC c) in first_error [
     reject_if (ymr_CleanupTimeoutSeconds m \<le> 0) ''features.mme_restoration.actions.cleanup_timeout_seconds must be positive'',
     (if ymr_DefaultAction m \<noteq> [] \<and> ymr_DefaultAction m \<noteq> ''preserve'' \<and> ymr_DefaultAction m \<noteq> ''delete''
      then Fail (ConfGot ''features.mme_restoration.actions.default_action must be preserve or delete'' (ymr_DefaultAction m)) else Ok ()),
     each_rule ''features.mme_restoration'' mme_rule_ok ''preserve'' (ymr_Preserve m),
     each_rule ''features.mme_restoration'' mme_rule_ok ''delete'' (ymr_Delete m)])"

definition validateDDN :: "sgwc_yaml \<Rightarrow> (config_error, unit) outcome" where
  "validateDDN c = (let d = yg_DDNControl (y_GTPC c) in first_error [
     reject_if (ydc_PerMMERateLimitPerSecond d \<le> 0 \<or> ydc_PerMMEBurst d \<le> 0 \<or> ydc_PerUESuppressionSeconds d < 0)
       ''features.ddn.rate_limit values must be nonnegative'',
     reject_if (ydc_LowPriorityThrottleSeconds d < 0) ''features.ddn.low_priority_throttling.throttle_seconds must be nonnegative'',
     reject_if (ydc_DelayedQueueMax d \<le> 0 \<or> ydc_DelayedQueuePerMME d \<le> 0 \<or> ydc_DelayedMaxAgeSeconds d \<le> 0)
       ''features.ddn.delayed_queue values must be nonnegative'',
     reject_if (ydc_StopPagingOnDDNAck d \<and> \<not> ydc_StopPagingEnabled d) ''features.ddn.stop_paging.on_ddn_ack requires enabled'',
     each_rule ''features.ddn'' ddn_rule_ok ''high_priority'' (ydc_HighPriority d),
     each_rule ''features.ddn'' ddn_rule_ok ''low_priority'' (ydc_LowPriority d)])"

definition validateIdleDownlink :: "sgwc_yaml \<Rightarrow> (config_error, unit) outcome" where
  "validateIdleDownlink c = (let i = yg_IdleDownlink (y_GTPC c) in first_error [
     reject_if (yid_ReportThrottleSeconds i \<le> 0)
       ''features.idle_downlink_notification.throttling.report_throttle_seconds must be nonnegative'',
     each_rule ''features.idle_downlink_notification'' ddn_rule_ok ''high_priority'' (yid_HighPriority i),
     each_rule ''features.idle_downlink_notification'' ddn_rule_ok ''suppress'' (yid_Suppress i),
     reject_if (yid_Enabled i \<and> yid_TriggerDDN i \<and> yid_HighPriority i = [])
       ''features.idle_downlink_notification.policy.high_priority must not be empty when trigger_ddn is enabled''])"

definition validateSessionRecovery :: "sgwc_yaml \<Rightarrow> (config_error, unit) outcome" where
  "validateSessionRecovery c = (let s = yg_SessionRecovery (y_GTPC c) in first_error [
     (if ysr_Backend s \<noteq> [] \<and> ysr_Backend s \<noteq> ''sqlite''
      then Fail (ConfGot ''features.session_recovery.storage.backend must be sqlite'' (ysr_Backend s)) else Ok ()),
     reject_if (ysr_CheckpointIntervalSeconds s \<le> 0) ''features.session_recovery.checkpoint_interval_seconds must be positive'',
     reject_if (ysr_ReconcileOnStartup s \<and> \<not> ysr_RestoreOnStartup s) ''features.session_recovery.startup.reconcile requires restore''])"

definition inactivity_rule_ok :: "conf_bearer_inactivity \<Rightarrow> bool \<Rightarrow> string \<Rightarrow> conf_bearer_inactivity_rule \<Rightarrow> (config_error, unit) outcome" where
  "inactivity_rule_ok b cleanup path r = first_error [
     validatePolicyRule path (ybir_APN r) (ybir_QCI r) (ybir_ARP r) (ybir_BearerType r) (ybir_IdleSeconds r),
     reject_if (cleanup \<and> ybir_IdleSeconds r \<le> 0) (path @ ''.idle_seconds must be positive''),
     reject_if (ybir_BearerType r = ''default'' \<and> cleanup \<and> \<not> ybi_DeleteDefaultBearers b)
       (path @ '' targets default bearers but delete_default_bearers is false'')]"

definition validateBearerInactivity :: "sgwc_yaml \<Rightarrow> (config_error, unit) outcome" where
  "validateBearerInactivity c = (let b = yg_BearerInactivity (y_GTPC c) in first_error [
     reject_if (ybi_CheckIntervalSeconds b \<le> 0 \<or> ybi_DedicatedBearerIdleSeconds b \<le> 0 \<or> ybi_PendingBearerTimeoutSeconds b \<le> 0 \<or>
       ybi_DefaultBearerIdleSeconds b < 0) ''features.bearer_inactivity timers are invalid'',
     reject_if (ybi_DeleteDefaultBearers b \<and> ybi_DefaultBearerIdleSeconds b = 0)
       ''features.bearer_inactivity.actions.delete_default_bearers requires default_bearer_idle_seconds > 0'',
     each_rule ''features.bearer_inactivity'' (inactivity_rule_ok b False) ''preserve'' (ybi_Preserve b),
     each_rule ''features.bearer_inactivity'' (inactivity_rule_ok b True) ''cleanup'' (ybi_Cleanup b)])"

definition sgwc_validateDSCP :: "string \<Rightarrow> int \<Rightarrow> (config_error, unit) outcome" where
  "sgwc_validateDSCP path dscp = reject_if (dscp < 0 \<or> dscp > 63) (path @ '' must be in range 0-63, got '' @ conf_int dscp)"

definition sgwu_peer_ok :: "nat \<times> conf_sgwu_peer \<Rightarrow> (config_error, unit) outcome" where
  "sgwu_peer_ok ip = (case ip of (i, p) \<Rightarrow> first_error [
     reject_if (ysp_Name p = []) (''pfcp.sgwu['' @ itoa i @ ''].name is required''),
     reject_if (ysp_Addr p = []) (''pfcp.sgwu['' @ itoa i @ ''].addr is required'')])"

definition sgwc_Validate :: "sgwc_yaml \<Rightarrow> (config_error, unit) outcome" where
  "sgwc_Validate c = (let coll = yg_TransactionCollision (y_GTPC c) in first_error [
     reject_if (ys_NodeID (y_SGWC c) = []) ''sgwc.node_id is required'',
     reject_if (yp_MCC (ys_PLMN (y_SGWC c)) = []) ''sgwc.plmn.mcc is required'',
     reject_if (yp_MNC (ys_PLMN (y_SGWC c)) = []) ''sgwc.plmn.mnc is required'',
     first_error (map (\<lambda>(name, i). reject_if (yci_Listen i = []) (''interfaces.control.'' @ name @ ''.listen is required''))
       (yi_Control (y_Interfaces c))),
     validateBind c ''gtpc.s11.bind'' (ysl_Bind (yg_S11 (y_GTPC c))),
     validateBind c ''gtpc.s5c.bind'' (ygl_Bind (yg_S5C (y_GTPC c))),
     reject_if (ypfc_LocalAddr (y_PFCP c) = []) ''pfcp.local_addr is required'',
     reject_if (ypfc_SGWU (y_PFCP c) = []) ''pfcp.sgwu must have at least one entry'',
     first_error (map sgwu_peer_ok (enumerate 0 (ypfc_SGWU (y_PFCP c)))),
     reject_if (yss_T3ResponseSeconds (y_S11 c) \<le> 0) ''gtpc.s11.timers.t3_response_seconds must be positive'',
     reject_if (yss_N3Requests (y_S11 c) \<le> 0) ''gtpc.s11.timers.n3_requests must be positive'',
     (if ytc_Mode coll \<noteq> ''strict'' \<and> ytc_Mode coll \<noteq> ''permissive''
      then Fail (ConfGot ''gtpc.transactions.collision_handling.mode must be strict or permissive'' (ytc_Mode coll)) else Ok ()),
     reject_if (ytc_ActiveProcedureTimeoutSeconds coll \<le> 0)
       ''gtpc.transactions.collision_handling.active_procedure_timeout_seconds must be positive'',
     validatePeerHealth c,
     reject_if (ypf_NotifyMMEOnPGWRestart (yg_PGWFailure (y_GTPC c)))
       ''features.pgw_failure_handling.actions.notify_mme_on_pgw_restart is not supported yet'',
     validateMMERestoration c, validateDDN c, validateIdleDownlink c, validateSessionRecovery c, validateBearerInactivity c,
     sgwc_validateDSCP ''qos.outer_marking.gtpc.dscp'' (ypm_DSCP (yom_GTPC (yq_OuterMarking (y_QoS c)))),
     sgwc_validateDSCP ''qos.outer_marking.pfcp.dscp'' (ypm_DSCP (yom_PFCP (yq_OuterMarking (y_QoS c))))])"

section \<open>Loading\<close>

definition sgwc_Default :: sgwc_yaml where
  "sgwc_Default = linkRuntimeAliases Default_sgwc_yaml"

datatype 'e load_error = LoadFile 'e | LoadInvalid config_error

text \<open>\<open>dec\<close> opens the file of that name and decodes it over the given values.\<close>

definition sgwc_Load :: "(string \<Rightarrow> sgwc_yaml \<Rightarrow> ('e, sgwc_yaml) outcome) \<Rightarrow> string \<Rightarrow> ('e load_error, sgwc_yaml) outcome" where
  "sgwc_Load dec path =
     (case dec (if path = [] then ''/etc/vectorcore/sgw/sgw-c.yaml'' else path) sgwc_Default of
        Ok c \<Rightarrow> (case sgwc_Validate (linkRuntimeAliases c) of
          Ok _ \<Rightarrow> Ok (linkRuntimeAliases c) | Fail e \<Rightarrow> Fail (LoadInvalid e) | Panic \<Rightarrow> Panic)
      | Fail e \<Rightarrow> Fail (LoadFile e) | Panic \<Rightarrow> Panic)"

definition listen_of :: "sgwc_yaml \<Rightarrow> string \<Rightarrow> string" where
  "listen_of c bnd = (case mget (yi_Control (y_Interfaces c)) bnd of Some i \<Rightarrow> yci_Listen i | None \<Rightarrow> [])"

definition S11Listen :: "sgwc_yaml \<Rightarrow> string" where "S11Listen c = listen_of c (ysl_Bind (yg_S11 (y_GTPC c)))"

definition S5CListen :: "sgwc_yaml \<Rightarrow> string" where "S5CListen c = listen_of c (ygl_Bind (yg_S5C (y_GTPC c)))"

section \<open>The reasons generated for rules (\<^verbatim>\<open>internal/sgwc/policyreason\<close>)\<close>

text \<open>\<open>usan\<close> is the function for text that is not ASCII, where the Unicode tables decide.\<close>

record reason_rule =
  rr_APN :: string
  rr_QCI :: u8
  rr_ARPPriorityMin :: u8
  rr_ARPPriorityMax :: u8
  rr_BearerType :: string
  rr_IdleSeconds :: int

definition is_word_char :: "char \<Rightarrow> bool" where
  "is_word_char c \<longleftrightarrow> 97 \<le> code c \<and> code c \<le> 122 \<or> 48 \<le> code c \<and> code c \<le> 57"

fun sanitize_loop :: "string \<Rightarrow> bool \<Rightarrow> string \<Rightarrow> string" where
  "sanitize_loop b separator [] = b"
| "sanitize_loop b separator (c # cs) =
     (if is_word_char c then sanitize_loop (b @ [c]) False cs
      else if b \<noteq> [] \<and> \<not> separator then sanitize_loop (b @ ''-'') True cs
      else sanitize_loop b separator cs)"

definition trim_dashes :: "string \<Rightarrow> string" where
  "trim_dashes s = rev (dropWhile (\<lambda>c. c = CHR ''-'') (rev (dropWhile (\<lambda>c. c = CHR ''-'') s)))"

definition sanitize :: "(string \<Rightarrow> string) \<Rightarrow> string \<Rightarrow> string" where
  "sanitize usan v = (if list_all (\<lambda>c. code c < 128) v then trim_dashes (sanitize_loop [] False (map ascii_lower v)) else usan v)"

fun join_dash :: "string list \<Rightarrow> string" where
  "join_dash [] = []"
| "join_dash [p] = p"
| "join_dash (p # ps) = p @ ''-'' @ join_dash ps"

definition reason_Build :: "(string \<Rightarrow> string) \<Rightarrow> string \<Rightarrow> string \<Rightarrow> reason_rule \<Rightarrow> string" where
  "reason_Build usan feature action r = join_dash (filter (\<lambda>p. p \<noteq> [])
     ([sanitize usan feature, sanitize usan action] @
      (let v = sanitize usan (rr_APN r) in if v \<noteq> [] then [''apn'', v] else []) @
      (if rr_QCI r \<noteq> 0 then [''qci'', itoa (unat (rr_QCI r))] else []) @
      (if rr_ARPPriorityMin r \<noteq> 0 \<or> rr_ARPPriorityMax r \<noteq> 0
       then [''arp''] @ (if rr_ARPPriorityMin r \<noteq> 0 then [itoa (unat (rr_ARPPriorityMin r))] else []) @
         (if rr_ARPPriorityMax r \<noteq> 0 then [itoa (unat (rr_ARPPriorityMax r))] else [])
       else []) @
      (let v = sanitize usan (rr_BearerType r) in if v \<noteq> [] then [v] else []) @
      (if rr_IdleSeconds r \<noteq> 0 then [''idle'', conf_int (rr_IdleSeconds r)] else [])))"

end
