(* ===== verification/Bearer_Inactivity.thy ===== *)
theory Bearer_Inactivity
  imports SGWC_Config SGWC_State
begin

text \<open>
  The cleanup of inactive dedicated bearers, \<^verbatim>\<open>internal/sgwc/bearerinactivity\<close>: the evaluation of every
  bearer against the operator's rules, the executor that removes the rules of a bearer at the SGW-U and then the
  bearer, and the counters of the scans. Sorting puts decisions that compare equal in the order of the manager's list;
  Go leaves that order open.
\<close>

section \<open>Decisions\<close>

datatype inactivity_action =
    DecisionPreserve
  | DecisionCleanupDedicatedBearer
  | DecisionCleanupDefaultBearer
  | DecisionDeferNoActivityEvidence
  | DecisionDeferNotIdle
  | DecisionDeferRecentControl
  | DecisionDeferNoPolicy
  | DecisionDenyDefaultBearer
  | DecisionDisabled

record inactivity_decision =
  bd_SessionID :: string
  bd_IMSI :: string
  bd_APN :: string
  bd_EBI :: u8
  bd_BearerType :: string
  bd_QCI :: u8
  bd_ARPPriority :: u8
  bd_BearerState :: string
  bd_Action :: inactivity_action
  bd_Reason :: string
  bd_IdleThreshold :: duration
  bd_IdleFor :: duration
  bd_LastControlActivityAt :: gtime
  bd_LastUserPlaneActivityAt :: gtime
  bd_LastActivityAt :: gtime
  bd_LastActivitySource :: string
  bd_RequireNoRecentControl :: bool
  bd_MatchedPreserveRule :: string
  bd_MatchedCleanupRule :: string

definition latestTime :: "gtime \<Rightarrow> gtime \<Rightarrow> gtime" where
  "latestTime a b = (if a = 0 then b else if b = 0 \<or> a > b then a else b)"

definition idle_since :: "gtime \<Rightarrow> gtime \<Rightarrow> duration" where
  "idle_since now t = (if now - t < 0 then 0 else now - t)"

text \<open>Two of Go's zero values: the action of a decision that is not yet made is never seen.\<close>

definition baseDecision :: "sgw_session \<Rightarrow> bearer \<Rightarrow> gtime \<Rightarrow> conf_bearer_inactivity \<Rightarrow> inactivity_decision" where
  "baseDecision x b now cfg =
     (let latest = latestTime (b_LastControlActivityAt b) (b_LastUserPlaneActivityAt b) in
      \<lparr>bd_SessionID = s_SessionID x, bd_IMSI = s_IMSI x, bd_APN = s_APN x, bd_EBI = b_EBI b,
       bd_BearerType = (if b_EBI b = s_DefaultBearerID x then ''default'' else ''dedicated''), bd_QCI = b_QCI b,
       bd_ARPPriority = PriorityLevel (b_ARP b), bd_BearerState = b_State b, bd_Action = DecisionDisabled, bd_Reason = [],
       bd_IdleThreshold = 0, bd_IdleFor = (if latest = 0 then 0 else idle_since now latest),
       bd_LastControlActivityAt = b_LastControlActivityAt b, bd_LastUserPlaneActivityAt = b_LastUserPlaneActivityAt b,
       bd_LastActivityAt = latest, bd_LastActivitySource = b_LastActivitySource b,
       bd_RequireNoRecentControl = ybi_RequireNoRecentControlActivity cfg, bd_MatchedPreserveRule = [], bd_MatchedCleanupRule = []\<rparr>)"

definition bearerRuleMatches :: "(string \<Rightarrow> string \<Rightarrow> bool) \<Rightarrow> string \<Rightarrow> string \<Rightarrow> bearer \<Rightarrow> conf_bearer_inactivity_rule \<Rightarrow> bool" where
  "bearerRuleMatches ufold apn bearerType b r =
     (if ybir_APN r \<noteq> [] \<and> \<not> equalFold ufold (ybir_APN r) apn then False
      else if ybir_BearerType r \<noteq> [] \<and> \<not> equalFold ufold (ybir_BearerType r) bearerType then False
      else if ybir_QCI r \<noteq> 0 \<and> ybir_QCI r \<noteq> b_QCI b then False
      else if ybir_ARPPriorityMin r \<noteq> 0 \<or> ybir_ARPPriorityMax r \<noteq> 0 then
        (let minP = (if ybir_ARPPriorityMin r = 0 then 1 else ybir_ARPPriorityMin r);
             maxP = (if ybir_ARPPriorityMax r = 0 then 15 else ybir_ARPPriorityMax r)
         in \<not> (PriorityLevel (b_ARP b) < minP \<or> PriorityLevel (b_ARP b) > maxP))
      else True)"

definition firstMatchingRule :: "(string \<Rightarrow> string \<Rightarrow> bool) \<Rightarrow> conf_bearer_inactivity_rule list \<Rightarrow> string \<Rightarrow> string \<Rightarrow> bearer \<Rightarrow>
    conf_bearer_inactivity_rule option" where
  "firstMatchingRule ufold rs apn bearerType b = List.find (bearerRuleMatches ufold apn bearerType b) rs"

definition inactivity_reason :: "(string \<Rightarrow> string) \<Rightarrow> conf_bearer_inactivity_rule \<Rightarrow> string \<Rightarrow> string" where
  "inactivity_reason usan r act = reason_Build usan ''bearer-inactivity'' act
     \<lparr>rr_APN = ybir_APN r, rr_QCI = ybir_QCI r, rr_ARPPriorityMin = ybir_ARPPriorityMin r,
      rr_ARPPriorityMax = ybir_ARPPriorityMax r, rr_BearerType = ybir_BearerType r, rr_IdleSeconds = ybir_IdleSeconds r\<rparr>"

definition idleThreshold :: "conf_bearer_inactivity \<Rightarrow> string \<Rightarrow> string \<Rightarrow> conf_bearer_inactivity_rule \<Rightarrow> duration" where
  "idleThreshold cfg bearerType st r =
     (if st = BearerStatePending then ybi_PendingBearerTimeoutSeconds cfg * time_second
      else if ybir_IdleSeconds r > 0 then ybir_IdleSeconds r * time_second
      else if bearerType = ''default'' then ybi_DefaultBearerIdleSeconds cfg * time_second
      else ybi_DedicatedBearerIdleSeconds cfg * time_second)"

text \<open>The functions on text that is not ASCII.\<close>

record inactivity_text =
  it_fold :: "string \<Rightarrow> string \<Rightarrow> bool"
  it_sanitize :: "string \<Rightarrow> string"

definition decide_idle :: "conf_bearer_inactivity \<Rightarrow> bearer \<Rightarrow> gtime \<Rightarrow> conf_bearer_inactivity_rule \<Rightarrow> inactivity_decision \<Rightarrow> inactivity_decision" where
  "decide_idle cfg b now rule d0 =
     (let threshold = idleThreshold cfg (bd_BearerType d0) (b_State b) rule; d = d0\<lparr>bd_IdleThreshold := threshold\<rparr> in
      if threshold \<le> 0 then d\<lparr>bd_Action := DecisionDenyDefaultBearer, bd_Reason := ''default-bearer-idle-timeout-disabled''\<rparr>
      else if bd_LastActivityAt d = 0
      then d\<lparr>bd_Action := DecisionDeferNoActivityEvidence, bd_Reason := ''no-control-or-user-plane-activity''\<rparr>
      else let d = d\<lparr>bd_IdleFor := idle_since now (bd_LastActivityAt d)\<rparr> in
        if ybi_RequireNoRecentControlActivity cfg \<and> bd_LastControlActivityAt d \<noteq> 0 \<and> now - bd_LastControlActivityAt d < threshold
        then d\<lparr>bd_Action := DecisionDeferRecentControl, bd_Reason := ''recent-control-plane-activity''\<rparr>
        else if bd_IdleFor d < threshold then d\<lparr>bd_Action := DecisionDeferNotIdle, bd_Reason := ''bearer-not-idle''\<rparr>
        else d\<lparr>bd_Action := (if bd_BearerType d = ''default'' then DecisionCleanupDefaultBearer else DecisionCleanupDedicatedBearer),
               bd_Reason := bd_MatchedCleanupRule d\<rparr>)"

definition EvaluateBearer :: "inactivity_text \<Rightarrow> conf_bearer_inactivity \<Rightarrow> sgw_session \<Rightarrow> gtime \<Rightarrow> bearer \<Rightarrow> inactivity_decision" where
  "EvaluateBearer L cfg x now b = (let d = baseDecision x b now cfg in
     if \<not> ybi_Enabled cfg then d\<lparr>bd_Action := DecisionDisabled, bd_Reason := ''bearer-inactivity-disabled''\<rparr>
     else case firstMatchingRule (it_fold L) (ybi_Preserve cfg) (s_APN x) (bd_BearerType d) b of
       Some r \<Rightarrow> (let reason = inactivity_reason (it_sanitize L) r ''preserve'' in
         d\<lparr>bd_Action := DecisionPreserve, bd_Reason := reason, bd_MatchedPreserveRule := reason\<rparr>)
     | None \<Rightarrow> (case firstMatchingRule (it_fold L) (ybi_Cleanup cfg) (s_APN x) (bd_BearerType d) b of
         None \<Rightarrow> d\<lparr>bd_Action := DecisionDeferNoPolicy, bd_Reason := ''no-matching-cleanup-policy''\<rparr>
       | Some rule \<Rightarrow>
           let d = d\<lparr>bd_MatchedCleanupRule := inactivity_reason (it_sanitize L) rule ''cleanup''\<rparr> in
           if bd_BearerType d = ''default'' \<and> \<not> ybi_DeleteDefaultBearers cfg
           then d\<lparr>bd_Action := DecisionDenyDefaultBearer, bd_Reason := ''default-bearer-cleanup-disabled''\<rparr>
           else decide_idle cfg b now rule d))"

definition EvaluateSession :: "inactivity_text \<Rightarrow> conf_bearer_inactivity \<Rightarrow> gtime \<Rightarrow> sgw_session \<Rightarrow> inactivity_decision list" where
  "EvaluateSession L cfg now x = map (EvaluateBearer L cfg x now) (sort_key b_EBI (BearerList x))"

definition EvaluateManager :: "inactivity_text \<Rightarrow> conf_bearer_inactivity \<Rightarrow> manager \<Rightarrow> gtime \<Rightarrow> inactivity_decision list" where
  "EvaluateManager L cfg m now =
     sort_key (\<lambda>d. (bd_IMSI d, bd_APN d, bd_EBI d)) (concat (map (\<lambda>r. EvaluateSession L cfg now (deref m r)) (mgr_List m)))"

section \<open>The executor\<close>

record cleanup_result =
  cu_Planned :: nat
  cu_Skipped :: nat
  cu_Cleaned :: nat
  cu_Failed :: nat
  cu_DeniedDefault :: nat
  cu_MissingRules :: nat

definition no_cleanup :: cleanup_result where
  "no_cleanup = \<lparr>cu_Planned = 0, cu_Skipped = 0, cu_Cleaned = 0, cu_Failed = 0, cu_DeniedDefault = 0, cu_MissingRules = 0\<rparr>"

datatype cleanup_error =
    CL_Default u8
  | CL_NoSession
  | CL_NoBearer u8
  | CL_NoBinding
  | CL_MissingRules u8 "u32 list" "u32 list"
  | CL_PFCP client_error

definition isMissingRuleError :: "cleanup_error \<Rightarrow> bool" where
  "isMissingRuleError e = (case e of CL_MissingRules _ _ _ \<Rightarrow> True | _ \<Rightarrow> False)"

definition completeRuleIDs :: "u32 list \<Rightarrow> u32 list \<Rightarrow> bool" where
  "completeRuleIDs pdrs fars \<longleftrightarrow> length pdrs = 2 \<and> length fars = 2 \<and> 0 \<notin> set pdrs \<and> 0 \<notin> set fars"

definition pair_list :: "'a \<times> 'a \<Rightarrow> 'a list" where "pair_list p = [fst p, snd p]"

definition cleanupDedicatedBearer :: "sgwc_env \<Rightarrow> inactivity_decision \<Rightarrow> (cleanup_error + unit) act" where
  "cleanupDedicatedBearer E d =
     (if bd_BearerType d = ''default'' then aret (Inl (CL_Default (bd_EBI d)))
      else abind (aget (\<lambda>s. mgr_Find (bd_SessionID d) (g_mgr s))) (\<lambda>found. case found of
        None \<Rightarrow> aret (Inl CL_NoSession)
      | Some r \<Rightarrow> abind (sess_of r) (\<lambda>x.
          if bd_EBI d = s_DefaultBearerID x then aret (Inl (CL_Default (bd_EBI d)))
          else case GetBearer (bd_EBI d) x of
            None \<Rightarrow> aret (Inl (CL_NoBearer (bd_EBI d)))
          | Some b \<Rightarrow>
              let bnd = s_PFCP x; pdrs = pair_list (b_PDRIDs b); fars = pair_list (b_FARIDs b) in
              if \<not> Established bnd \<or> SEID (LocalFSEID bnd) = 0 \<or> SEID (SGWUFSEID bnd) = 0 \<or> SGWUAddr bnd = []
              then aret (Inl CL_NoBinding)
              else if \<not> completeRuleIDs pdrs fars then aret (Inl (CL_MissingRules (bd_EBI d) pdrs fars))
              else abind (pfcp_remove_rules E (SGWUAddr bnd) (SEID (SGWUFSEID bnd)) pdrs fars) (\<lambda>res. case res of
                Inl e \<Rightarrow> aret (Inl (CL_PFCP e))
              | Inr _ \<Rightarrow> athen (delete_bearer E r (bd_EBI d)) (aret (Inr ()))))))"

definition apply_decision :: "sgwc_env \<Rightarrow> inactivity_decision \<Rightarrow> cleanup_result \<Rightarrow> cleanup_result act" where
  "apply_decision E d res0 = (let res = res0\<lparr>cu_Planned := cu_Planned res0 + 1\<rparr> in
     if bd_Action d = DecisionCleanupDedicatedBearer then
       abind (cleanupDedicatedBearer E d) (\<lambda>out. aret (case out of
         Inl e \<Rightarrow> (let res = res\<lparr>cu_Failed := cu_Failed res + 1\<rparr> in
           if isMissingRuleError e then res\<lparr>cu_MissingRules := cu_MissingRules res + 1\<rparr> else res)
       | Inr _ \<Rightarrow> res\<lparr>cu_Cleaned := cu_Cleaned res + 1\<rparr>))
     else if bd_Action d = DecisionCleanupDefaultBearer \<or> bd_Action d = DecisionDenyDefaultBearer
     then aret (res\<lparr>cu_DeniedDefault := cu_DeniedDefault res + 1\<rparr>)
     else aret (res\<lparr>cu_Skipped := cu_Skipped res + 1\<rparr>))"

section \<open>The counters\<close>

record scan_status =
  sk_lastScanAt :: gtime
  sk_lastResult :: cleanup_result
  sk_scans :: u64
  sk_planned :: u64
  sk_skipped :: u64
  sk_cleaned :: u64
  sk_failed :: u64
  sk_deniedDefault :: u64
  sk_missingRules :: u64
  sk_lastActionCounts :: "(inactivity_action, nat) gomap"

definition NewStatus :: scan_status where
  "NewStatus = \<lparr>sk_lastScanAt = 0, sk_lastResult = no_cleanup, sk_scans = 0, sk_planned = 0, sk_skipped = 0, sk_cleaned = 0,
     sk_failed = 0, sk_deniedDefault = 0, sk_missingRules = 0, sk_lastActionCounts = []\<rparr>"

fun countActions :: "inactivity_decision list \<Rightarrow> (inactivity_action, nat) gomap" where
  "countActions [] = []"
| "countActions (d # ds) = (let m = countActions ds in
     mput (bd_Action d) ((case mget m (bd_Action d) of Some n \<Rightarrow> n | None \<Rightarrow> 0) + 1) m)"

definition RecordScan :: "gtime \<Rightarrow> cleanup_result \<Rightarrow> inactivity_decision list \<Rightarrow> scan_status \<Rightarrow> scan_status" where
  "RecordScan tm res ds s = s\<lparr>sk_lastScanAt := tm, sk_lastResult := res, sk_scans := sk_scans s + 1,
     sk_planned := sk_planned s + of_nat (cu_Planned res), sk_skipped := sk_skipped s + of_nat (cu_Skipped res),
     sk_cleaned := sk_cleaned s + of_nat (cu_Cleaned res), sk_failed := sk_failed s + of_nat (cu_Failed res),
     sk_deniedDefault := sk_deniedDefault s + of_nat (cu_DeniedDefault res),
     sk_missingRules := sk_missingRules s + of_nat (cu_MissingRules res), sk_lastActionCounts := countActions ds\<rparr>"

text \<open>One scan, at a time that is not zero.\<close>

definition Apply :: "sgwc_env \<Rightarrow> inactivity_text \<Rightarrow> conf_bearer_inactivity \<Rightarrow> gtime \<Rightarrow> scan_status \<Rightarrow>
    (cleanup_result \<times> scan_status) act" where
  "Apply E L cfg now st = abind (aget (\<lambda>s. EvaluateManager L cfg (g_mgr s) now)) (\<lambda>ds.
     abind (aloop (apply_decision E) ds no_cleanup) (\<lambda>res. aret (res, RecordScan now res ds st)))"

text \<open>A tick of the runner.\<close>

definition inactivity_tick :: "sgwc_env \<Rightarrow> inactivity_text \<Rightarrow> conf_bearer_inactivity \<Rightarrow> scan_status \<Rightarrow> scan_status act" where
  "inactivity_tick E L cfg st = abind (clock E) (\<lambda>now. abind (Apply E L cfg now st) (\<lambda>(_, st). aret st))"

record inactivity_snapshot =
  in_Runtime :: scan_status
  in_Decisions :: "inactivity_decision list"
  in_ActionCounts :: "(inactivity_action, nat) gomap"

definition Reporter_Snapshot :: "sgwc_env \<Rightarrow> inactivity_text \<Rightarrow> conf_bearer_inactivity \<Rightarrow> scan_status \<Rightarrow> inactivity_snapshot act" where
  "Reporter_Snapshot E L cfg st = abind (clock E) (\<lambda>now. abind (aget (\<lambda>s. EvaluateManager L cfg (g_mgr s) now)) (\<lambda>ds.
     aret \<lparr>in_Runtime = st, in_Decisions = ds, in_ActionCounts = countActions ds\<rparr>))"

end
