(* ===== verification/SGWC_System.thy ===== *)
theory SGWC_System
  imports SGWC_Sessions Path_Failure Idle_Downlink Bearer_Inactivity
begin

text \<open>
  The SGW-C as \<^verbatim>\<open>cmd/vectorcore-sgw-c/main.go\<close> wires it: the messages of the two legs, the timers of pending bearer
  procedures and delayed notifications, the events of peer health and of the PFCP peers, the SGW-U's reports and the scans
  for inactive bearers, one after the other, on the sessions they share.
\<close>

section \<open>Events\<close>

datatype sgwc_event =
    FromMME nat udp_addr header bytes
  | FromPGW nat udp_addr header bytes
  | CreateBearerExpires "string \<times> u32"
  | PeerChanges string string string gtime
  | PeerRestarts string string u8 gtime
  | DelayedDDNFires string
  | SGWUReports vc_idle_report
  | SGWULost string string
  | InactivityScan

text \<open>What main passes to the handlers, and their own state.\<close>

record sgwc_wiring =
  sw_pgw :: pgwfailure_config
  sw_mme :: restoration_config
  sw_idle :: idle_config
  sw_inactivity :: conf_bearer_inactivity
  sw_text :: text_lib
  sw_inactivity_text :: inactivity_text
  sw_s5c_text :: "s5c_error \<Rightarrow> string"
  sw_notify_text :: "notify_error \<Rightarrow> string"

record sgwc_handlers =
  sh_pgws :: path_peers
  sh_restoration :: restoration
  sh_idle :: idle_state
  sh_scans :: scan_status

text \<open>The SGW-U is lost or restarted: its bindings are forgotten. The clock is read twice for a session.\<close>

definition forget_sgwu :: "sgwc_env \<Rightarrow> string \<Rightarrow> string \<Rightarrow> nat act" where
  "forget_sgwu E nm ad = mark_sessions E (\<lambda>m. mgr_List m @ mgr_List m)
     (\<lambda>clk. InvalidatePFCPBindingsForPeer (\<lambda>i. (clk (2 * i), clk (2 * i + 1))) nm ad)"

text \<open>An event of peer health goes to the handler of PGW failures, then to that of MME restoration.\<close>

definition sgwc_do :: "sgwc_env \<Rightarrow> sgwc_wiring \<Rightarrow> sgwc_event \<Rightarrow> sgwc_handlers \<Rightarrow> sgwc_handlers act" where
  "sgwc_do E W ev x = (case ev of
     FromMME n a h raw \<Rightarrow> athen (Handle E n a h raw) (aret x)
   | FromPGW n a h raw \<Rightarrow> athen (pgw_frames E n a h raw) (aret x)
   | CreateBearerExpires key \<Rightarrow> athen (expirePendingS11CreateBearer E key) (aret x)
   | PeerChanges role addr new tm \<Rightarrow>
       abind (pgw_OnPeerStateChange E (sw_pgw W) role addr new tm (sh_pgws x)) (\<lambda>ps.
       abind (mme_OnPeerStateChange E (sw_mme W) role addr new tm (sh_restoration x)) (\<lambda>h.
       aret (x\<lparr>sh_pgws := ps, sh_restoration := h\<rparr>)))
   | PeerRestarts role addr rec tm \<Rightarrow>
       abind (pgw_OnPeerRestart E (sw_pgw W) role addr rec tm (sh_pgws x)) (\<lambda>ps.
       abind (mme_OnPeerRestart E (tl_fold (sw_text W)) (sw_s5c_text W) (sw_notify_text W) (sw_mme W) role addr rec tm (sh_restoration x)) (\<lambda>h.
       aret (x\<lparr>sh_pgws := ps, sh_restoration := h\<rparr>)))
   | DelayedDDNFires sid \<Rightarrow>
       abind (fireDelayedDDN E (tl_fold (sw_text W)) (sw_notify_text W) (sw_mme W) sid (sh_restoration x)) (\<lambda>h.
       aret (x\<lparr>sh_restoration := h\<rparr>))
   | SGWUReports rep \<Rightarrow> abind (HandleReport E (sw_text W) (sw_idle W) rep (sh_idle x)) (\<lambda>h. aret (x\<lparr>sh_idle := h\<rparr>))
   | SGWULost nm ad \<Rightarrow> athen (forget_sgwu E nm ad) (aret x)
   | InactivityScan \<Rightarrow> abind (inactivity_tick E (sw_inactivity_text W) (sw_inactivity W) (sh_scans x)) (\<lambda>st. aret (x\<lparr>sh_scans := st\<rparr>)))"

text \<open>A panic ends the process.\<close>

fun sgwc_run :: "sgwc_env \<Rightarrow> sgwc_wiring \<Rightarrow> sgwc_event list \<Rightarrow> sgwc_handlers \<Rightarrow> sgwc_handlers act" where
  "sgwc_run E W [] x = aret x"
| "sgwc_run E W (ev # evs) x = abind (sgwc_do E W ev x) (sgwc_run E W evs)"

section \<open>What every event keeps\<close>

text \<open>The last laws: the throttling of notifications is no part of the assertion, and the marks on sessions keep it.\<close>

locale system_runtime = create_runtime +
  assumes ddn_state [keeps]: "keeps I (amod (\<lambda>s. s\<lparr>g_ddn := d\<rparr>))"
    and mark_pgw [keeps]: "keeps I (mark_sessions E found (\<lambda>clk. MarkPGWPathState clk a st tm))"
      "keeps I (mark_sessions E found (\<lambda>clk. mgr_MarkPGWRestart clk a rc tm))"
    and mark_mme [keeps]: "keeps I (mark_sessions E found (\<lambda>clk. MarkMMEPathState clk a st tm))"
      "keeps I (mark_sessions E found (\<lambda>clk. mgr_MarkMMERestart clk a rc tm))"
    and forget [keeps]: "keeps I (forget_sgwu E nm ad)"
begin

lemma keeps_record_path [keeps]: "keeps I (event_time E tm)" "keeps I (record_path E a tm f ps)"
  unfolding event_time_def record_path_def by (intro keeps)+

lemma keeps_pgw_failure [keeps]:
  "keeps I (pgw_OnPeerStateChange E cfg role a new tm ps)" "keeps I (pgw_OnPeerRestart E cfg role a rc tm ps)"
  unfolding pgw_OnPeerStateChange_def pgw_OnPeerRestart_def pgw_recordStateChange_def pgw_recordRestart_def by (intro keeps)+

lemma keeps_policy [keeps]:
  "keeps I (set_policy E r act reason tm)" "keeps I (applyPolicy E uf cfg a tm)" "keeps I (deleteSessionForRestoration E cfg r)"
  "keeps I (enforceDeletePolicy E text cfg a tm)"
  unfolding set_policy_def applyPolicy_def deleteSessionForRestoration_def enforceDeletePolicy_def by (intro keeps; simp)+

lemma keeps_ddn [keeps]:
  "keeps I (ddn_failed E r reason tm)" "keeps I (decideDDN E uf a r tm)" "keeps I (note_decision E r d tm)"
  "keeps I (enqueueDelayedDDN E cfg a r rt tm h)" "keeps I (sendDDNNow E cfg r tm)"
  unfolding ddn_failed_def decideDDN_def note_decision_def enqueueDelayedDDN_def sendDDNNow_def Let_def by (intro keeps; simp)+

lemma keeps_restoration [keeps]:
  "keeps I (restoration_ddn E uf text cfg a tm r acc)" "keeps I (triggerDDNForPreservedSessions E uf text cfg a tm h)"
  "keeps I (fireDelayedDDN E uf text cfg sid h)"
  unfolding restoration_ddn_def triggerDDNForPreservedSessions_def fireDelayedDDN_def Let_def by (intro keeps; simp)+

lemma keeps_mme_restoration [keeps]:
  "keeps I (mme_OnPeerStateChange E cfg role a new tm h)" "keeps I (mme_OnPeerRestart E uf t1 t2 cfg role a rc tm h)"
  unfolding mme_OnPeerStateChange_def mme_OnPeerRestart_def mme_recordStateChange_def mme_recordRestart_def by (intro keeps)+

lemma keeps_idle_notify [keeps]: "keeps I (idle_notify E L r c tm h)"
  unfolding idle_notify_def idle_decide_def by (intro keeps; simp)

lemma keeps_HandleReport [keeps]: "keeps I (HandleReport E L cfg rep h)"
proof -
  have 1: "keeps I (let ((throttled, _ :: duration), h1) = t in if throttled then aret (f h1) else if b then aret (g h1) else m h1)"
    if "\<And>h. keeps I (m h)" for t b f g m
    using that by (auto simp: keeps_basic split: prod.splits)
  show ?thesis
    unfolding HandleReport_def Let_def [of "idle_candidate _ _"] Let_def [of "h\<lparr>is_reports := _\<rparr>"] by (intro keeps 1)
qed

lemma keeps_inactivity [keeps]: "keeps I (inactivity_tick E L cfg st)"
  unfolding inactivity_tick_def Apply_def apply_decision_def cleanupDedicatedBearer_def Let_def by (intro keeps)

lemma keeps_sgwc_do [keeps]: "keeps I (sgwc_do E W ev x)"
  unfolding sgwc_do_def by (cases ev; simp) (intro keeps keeps_Handle keeps_pgw_frames)+

lemma keeps_sgwc_run: "keeps I (sgwc_run E W evs x)"
  by (induction evs arbitrary: x) (simp_all, (intro keeps | assumption)+)

end

section \<open>The indexes of the manager\<close>

lemma keeps_marks:
  assumes "\<And>clk m. mgr_inv m \<Longrightarrow> mgr_inv (fst (snd (mark clk m))) \<and> byID (fst (snd (mark clk m))) = byID m"
  shows "keeps (at_mgr E mgr_inv) (mark_sessions E found mark)"
proof -
  have 1: "leads (at_mgr E mgr_inv) (at_mgr E mgr_inv)
      (abind (aget (\<lambda>s. mark clk (g_mgr s))) (\<lambda>(affected, mn). athen (put_mgr mn) (aret affected))) (\<lambda>_ _. True)" for clk
  proof -
    have e: "abind (aget (\<lambda>s. mark clk (g_mgr s))) (\<lambda>(affected, mn). athen (put_mgr mn) (aret affected)) =
        abind (aget (\<lambda>s. fst (mark clk (g_mgr s)))) (\<lambda>n. athen (abind (aget (\<lambda>s. snd (mark clk (g_mgr s)))) put_mgr) (aret n))"
      by (auto simp: abind_def aget_def athen_def fun_eq_iff split: prod.splits option.splits)
    have "keeps (at_mgr E mgr_inv) (abind (aget (\<lambda>s. snd (mark clk (g_mgr s)))) put_mgr)"
      by (rule leads_keepsD [OF keeps_mgr_change [where Q = mgr_inv and F = "\<lambda>m. snd (mark clk m)"]]) (simp_all add: assms)
    then have "keeps (at_mgr E mgr_inv) (abind (aget (\<lambda>s. fst (mark clk (g_mgr s)))) (\<lambda>n.
        athen (abind (aget (\<lambda>s. snd (mark clk (g_mgr s)))) put_mgr) (aret n)))"
      by (rule keeps_abind [OF keeps_basic(3) keeps_athen [OF _ keeps_basic(1)]])
    then show ?thesis unfolding e by (rule keeps_leads)
  qed
  have 2: "keeps (at_mgr E mgr_inv) (clock_reads E n)" for n
    by (rule quiet_keeps) (simp add: quiet_def clock_reads_def)
  show ?thesis
    unfolding mark_sessions_def using 1 by (intro keeps 2 leads_keepsD)
qed


lemma byID_each: "byID (fst (each_session f i rs m)) = byID m"
  by (induction rs arbitrary: i m) (simp_all add: case_prod_beta Let_def)

lemma byID_invalidate: "byID (fst (snd (invalidate_each fs rs acc))) = byID (fst (snd acc))"
proof (induction fs rs acc rule: invalidate_each.induct)
  case (1 f fs r rs n m ns)
  obtain ok x ms where "f (deref m r) = (ok, x, ms)" by (metis prod_cases3)
  then show ?case using "1.IH" [OF _ _ _] by simp
qed simp_all

lemma managed_ddn: "keeps (at_mgr E mgr_inv) (amod (\<lambda>s. s\<lparr>g_ddn := d\<rparr>))"
  by (rule quiet_keeps) (simp add: quiet_amod)

lemma byID_marks:
  "byID (fst (snd (MarkPGWPathState clk a st tm m))) = byID m" "byID (fst (snd (mgr_MarkPGWRestart clk a rc tm m))) = byID m"
  "byID (fst (snd (MarkMMEPathState clk a st tm m))) = byID m" "byID (fst (snd (mgr_MarkMMERestart clk a rc tm m))) = byID m"
  "byID (fst (snd (InvalidatePFCPBindingsForPeer clk2 nm ad m))) = byID m"
  by (simp_all add: MarkPGWPathState_def mgr_MarkPGWRestart_def MarkMMEPathState_def mgr_MarkMMERestart_def
    InvalidatePFCPBindingsForPeer_def Let_def byID_each byID_invalidate)

interpretation managed_system: system_runtime E "at_mgr E mgr_inv" for E
  by unfold_locales
    (rule managed_ddn | (unfold forget_sgwu_def)?, rule keeps_marks, simp add: byID_marks mark_pgw_ok mark_mme_ok invalidate_ok)+

end
