(* ===== verification/Bearer_Copies.thy ===== *)
theory Bearer_Copies
  imports SGWC_Runtime
begin

text \<open>
  \<^verbatim>\<open>internal/sgwc/s11/bearer_handler.go\<close> has two copies of the Create Bearer procedure: one for a request that
  the PGW sends on its own, one for a request piggybacked on a Create Session Response. Here the copies are
  shown to do the same with the SGW-U, with the MME's request and with the MME's answer.
\<close>

section \<open>Equal actions\<close>

lemma abind_cong_yields: "yields P m \<Longrightarrow> (\<And>x. P x \<Longrightarrow> f x = g x) \<Longrightarrow> abind m f = abind m g"
  by (auto simp: yields_def abind_def fun_eq_iff split: prod.splits option.splits)

section \<open>Preparation\<close>

lemma contexts_agree: "prepare_context = direct_context"
  by (auto simp: prepare_context_def direct_context_def fun_eq_iff split: option.splits)

definition provs_usable :: "bearer_provisioning list \<Rightarrow> bool" where
  "provs_usable ps \<longleftrightarrow> (\<forall>p \<in> set ps. ep_TEID (pv_pgwUS5U p) \<noteq> 0 \<and> isValid (ep_IPv4 (pv_pgwUS5U p)))"

lemma direct_context_usable: "direct_context bc = Inr (q, t, f) \<Longrightarrow> ep_TEID f \<noteq> 0 \<and> isValid (ep_IPv4 f)"
  by (auto simp: direct_context_def usable_fteid_def split: option.splits if_splits)

lemma yields_cb_contexts:
  "provs_usable ps \<Longrightarrow> yields (\<lambda>x. \<forall>qs. x = Inr qs \<longrightarrow> provs_usable qs) (cb_contexts direct_context r bcs ps)"
proof (induction bcs arbitrary: ps)
  case Nil
  then show ?case by (simp add: yields_aret)
next
  case (Cons bc bcs)
  show ?case
  proof (cases "direct_context bc")
    case (Inl c)
    then show ?thesis by (simp add: yields_aret)
  next
    case (Inr x)
    obtain q t f where x: "x = (q, t, f)" by (metis prod_cases3)
    have u: "provs_usable (ps @ [new_provisioning q t f ids])" for ids
      using Cons.prems direct_context_usable [of bc q t f] Inr x
      by (auto simp: provs_usable_def new_provisioning_def split: prod.splits)
    then show ?thesis
      using Inr x by (simp, intro yields_abind yields_athen Cons.IH u)
  qed
qed

lemma assign_created_usable: "provs_usable ps \<Longrightarrow> provs_usable (assign_created c ps)"
  by (auto simp: provs_usable_def assign_created_def split: option.splits)

lemma fold_created_usable: "provs_usable ps \<Longrightarrow> provs_usable (fold assign_created cs ps)"
  by (induction cs arbitrary: ps) (simp_all add: assign_created_usable)

lemma collect_ies_cong: "(\<And>x. x \<in> set xs \<Longrightarrow> f x = g x) \<Longrightarrow> collect_ies f xs = collect_ies g xs"
  by (induction xs) simp_all

lemma fars_agree: "provs_usable ps \<Longrightarrow> collect_ies prepare_fars ps = collect_ies direct_fars ps"
  by (rule collect_ies_cong) (simp add: provs_usable_def prepare_fars_def direct_fars_def)

lemma obind_one: "obind m (\<lambda>x. obind (omap (\<lambda>i. [i]) n) (f x)) = obind m (\<lambda>x. obind n (\<lambda>i. f x [i]))"
  by (cases m; cases n) simp_all

lemma s11_contexts_agree: "provs_usable ps \<Longrightarrow> collect_ies prepare_s11_context ps = collect_ies direct_s11_context ps"
  by (rule collect_ies_cong)
    (simp add: provs_usable_def prepare_s11_context_def direct_s11_context_def opt_fteid_def obind_one)

lemma requests_agree:
  "provs_usable ps \<Longrightarrow> cb_request_mme E a h prepare_s11_context ad (fold assign_created cs ps) =
     cb_request_mme E a h direct_s11_context ad (fold assign_created cs ps)"
  by (simp add: cb_request_mme_def s11_contexts_agree fold_created_usable)

lemma provisions_agree:
  "cb_provision E a h prepare_context prepare_fars prepare_s11_context ad =
   cb_provision E a h direct_context direct_fars direct_s11_context ad"
  unfolding cb_provision_def contexts_agree Let_def
proof (rule abind_cong_yields [OF yields_cb_contexts], goal_cases)
  case 1
  show ?case by (simp add: provs_usable_def)
next
  case (2 x)
  then show ?case by (cases x) (simp_all add: fars_agree requests_agree)
qed

section \<open>Completion\<close>

lemma matches_agree: "i < length provs \<Longrightarrow> direct_match provs i cs = piggyback_match provs i cs"
  by (auto simp: direct_match_def piggyback_match_def split: option.splits)

lemma aloop_cong: "(\<And>x acc. x \<in> set xs \<Longrightarrow> f x acc = g x acc) \<Longrightarrow> aloop f xs acc = aloop g xs acc"
proof (induction xs arbitrary: acc)
  case (Cons x xs)
  have "aloop f xs = aloop g xs" by (rule ext) (rule Cons.IH, rule Cons.prems, simp)
  then show ?case using Cons.prems by simp
qed simp

lemma complete_context_agree:
  "fst ibc < length provs \<Longrightarrow>
   complete_context E r key rej (direct_match provs) ibc acc = complete_context E r key rej (piggyback_match provs) ibc acc"
  by (simp add: complete_context_def matches_agree cong: option.case_cong)

lemma complete_valid_agree:
  assumes "length (brBearerContexts resp) = length provs"
  shows "complete_valid E early (direct_match provs) a h r t provs resp = complete_valid E early (piggyback_match provs) a h r t provs resp"
proof -
  have "aloop (complete_context E r (tx_key t) rej (direct_match provs)) (enumerate 0 (brBearerContexts resp)) acc =
      aloop (complete_context E r (tx_key t) rej (piggyback_match provs)) (enumerate 0 (brBearerContexts resp)) acc" for rej acc
    by (rule aloop_cong, rule complete_context_agree) (use assms in \<open>auto simp: in_set_enumerate_eq\<close>)
  then show ?thesis by (simp add: complete_valid_def)
qed

lemma completions_agree:
  "complete_create_bearer E early (direct_match provs) a h req r i provs raw =
   complete_create_bearer E early (piggyback_match provs) a h req r i provs raw"
  unfolding complete_create_bearer_def
  by (intro arg_cong2 [where f = abind] ext refl)
    (auto simp: validateCreateBearerResponseResults_def complete_valid_agree split: sum.splits)


end
