(* ===== verification/SGWC_Samples.thy ===== *)
theory SGWC_Samples
  imports S11_Handler
begin

text \<open>
  A small network for concrete runs of the SGW-C: one SGW-U whose association stands, which accepts what it is asked; one PGW
  which accepts a session; one MME. The sockets to the MME and the PGW are separate ones.
\<close>

definition sample_mme :: udp_addr where "sample_mme = \<lparr>uaIP = IP4 0x0A010101, uaPort = 2123\<rparr>"

text \<open>The SGW-U: a Session Establishment Request is answered with the SEID and the two F-TEIDs of the SGW-U.\<close>

definition sample_accepted :: "u8 \<Rightarrow> pfcp_ie list \<Rightarrow> bytes" where
  "sample_accepted t ies = pfcp_Marshal (client_header True t 1 1) ([NewNodeIDIPv4 [10, 0, 0, 2], pfcp_NewCause CauseRequestAccepted] @ ies)"

definition sample_created :: "u16 \<Rightarrow> u32 \<Rightarrow> pfcp_ie" where
  "sample_created i t = NewCreatedPDR [NewPDRID i, got_or (mkP 0 []) (NewFTEIDv4 t (IP4 0x0A000002) :: pfcp_ie pie_result)]"

definition sample_sgwu :: exchange where
  "sample_sgwu a raw = Ok (Some (
     if raw ! 1 = MsgTypeSessionEstablishmentRequest
     then sample_accepted MsgTypeSessionEstablishmentResponse
       [got_or (mkP 0 []) (NewFSEID 77 (IP4 0x0A000002) :: pfcp_ie pie_result), sample_created 1 0x100, sample_created 2 0x101]
     else sample_accepted (raw ! 1 + 1) []))"

text \<open>The PGW: a Create Session Response with its F-TEIDs and the UE's address.\<close>

definition sample_pgw_answer :: bytes where
  "sample_pgw_answer = got_or [] (Marshal (mk_header True MsgTypeCreateSessionResponse 1 1)
     [NewCause GTP_Accepted 0 0 0 None, mkIE TypeFTEID 1 [0x87, 0, 0, 2, 0, 10, 2, 2, 2], mkIE TypePAA 0 [1, 10, 45, 0, 2],
      NewBearerContext 0 [NewEBI 5, NewCause GTP_Accepted 0 0 0 None, mkIE TypeFTEID 2 [0x85, 0, 0, 2, 1, 10, 2, 2, 3]]])"

definition sample_env :: sgwc_env where
  "sample_env = \<lparr>en_cfg = None, en_recovery = Some 3, en_s5cRecovery = Some 3, en_localIP = IP4 0x0A000001,
     en_s5cIP = IP4 0x0A000001, en_sha256 = \<lambda>b. replicate 32 0, en_now = \<lambda>k. 1000 + int k,
     en_rand4 = \<lambda>k i. Some (0, 0, of_nat k, of_nat i), en_rand8 = \<lambda>k. if k = 0 then Some [1, 2, 3, 4, 5, 6, 7, 8] else None,
     en_pfcp = \<lambda>k. sample_sgwu, en_gtp = \<lambda>k i. Answered (sample_pgw_answer, []), en_wrote = \<lambda>k. True, en_ctxDone = \<lambda>k. False\<rparr>"

definition sample_sgwc :: sgwc where
  "sample_sgwc = \<lparr>g_mgr = NewManager,
     g_pfcp = \<lparr>cl_NodeID = [10, 0, 0, 1], cl_TS = 5,
       cl_Peers = [\<lparr>gp_Name = ''u1'', gp_Addr = ''10.0.0.2:8805'', gp_UDP = \<lparr>uaIP = IP4 0x0A000002, uaPort = 8805\<rparr>,
         gp_State = PeerStateEstablished, gp_NodeID = None, gp_RecoveryTS = 7, gp_LastSeen = 0\<rparr>],
       cl_Conn = pfcp_Listen 3, cl_SEID = 0, cl_Next = 0, cl_onState = False, cl_onRestart = False, cl_onIdle = False,
       cl_Sink = False\<rparr>,
     g_s11 = gtp_Listen 5, g_s5c = Some (gtp_Listen 5), g_s5cTEIDs = newAllocator, g_s11Seen = [], g_s5cSeen = [],
     g_health = None, g_ddn = None, g_txns = [], g_cbTxns = [], g_cbFPs = [], g_cbS11 = [], g_cbProcFailures = [],
     g_dbCmds = [], g_k = 0, g_out = []\<rparr>"

text \<open>A Create Session Request of the MME: a subscriber, an APN, the F-TEIDs of the MME and of the PGW.\<close>

definition sample_request :: "ie list" where
  "sample_request = [mkIE TypeIMSI 0 [0x13, 0x41, 0x53, 0x00, 0x00, 0x00, 0x00, 0xF1], mkIE TypeRATType 0 [6],
     mkIE TypeFTEID 0 [0x8A, 0, 0, 0, 7, 10, 1, 1, 1], mkIE TypeFTEID 1 [0x87, 0, 0, 0, 0, 10, 2, 2, 2],
     mkIE TypeAPN 0 [8, 0x69, 0x6E, 0x74, 0x65, 0x72, 0x6E, 0x65, 0x74], mkIE TypePDNType 0 [1], mkIE TypePAA 0 [1, 0, 0, 0, 0],
     NewBearerContext 0 [NewEBI 5, mkIE TypeBearerQoS 0 ([0x64, 9] @ replicate 20 0)]]"

definition sample_header :: header where
  "sample_header = (mk_header True MsgTypeCreateSessionRequest 0 9)"

definition sample_message :: bytes where
  "sample_message = got_or [] (Marshal sample_header sample_request)"

end
