(* ===== verification/Handler_Depth.thy ===== *)
theory Handler_Depth
  imports SGWC_Runtime SGWC_Samples
begin

text \<open>
  A Create Session may find further frames behind the PGW's answer, which go to the handler of the connection to the PGW; with one
  shared socket that handler starts Create Sessions too. The bound on this nesting that the model of the handlers
  carries is shown not to matter: a handler that returns within a bound returns the same within every larger bound, and
  with separate sockets the bound one is enough.
\<close>

section \<open>Handlers that return more often\<close>

definition extends :: "'a act \<Rightarrow> 'a act \<Rightarrow> bool" where
  "extends m m' \<longleftrightarrow> (\<forall>s x s'. m s = (Some x, s') \<longrightarrow> m' s = (Some x, s'))"

named_theorems extending

lemma extends_refl: "extends m m"
  by (simp add: extends_def)

lemma extends_trans: "extends m m' \<Longrightarrow> extends m' m'' \<Longrightarrow> extends m m''"
  by (simp add: extends_def)

lemma extends_crash: "extends crash m"
  by (simp add: extends_def crash_def)

lemma extends_abind [extending]: "extends m m' \<Longrightarrow> (\<And>x. extends (f x) (g x)) \<Longrightarrow> extends (abind m f) (abind m' g)"
  by (fastforce simp: extends_def abind_def split: prod.splits option.splits)

lemma extends_athen [extending]: "extends m m' \<Longrightarrow> extends n n' \<Longrightarrow> extends (athen m n) (athen m' n')"
  unfolding athen_def by (intro extending)

lemma extends_aloop [extending]: "(\<And>x acc. extends (f x acc) (g x acc)) \<Longrightarrow> extends (aloop f xs acc) (aloop g xs acc)"
  by (induction xs arbitrary: acc) (simp_all add: extends_refl extends_abind)

lemma extends_branch [extending]:
  "extends m m' \<Longrightarrow> extends n n' \<Longrightarrow> extends (if b then m else n) (if b then m' else n')"
  "extends m m' \<Longrightarrow> (\<And>x. extends (f x) (g x)) \<Longrightarrow> extends (case p of None \<Rightarrow> m | Some x \<Rightarrow> f x) (case p of None \<Rightarrow> m' | Some x \<Rightarrow> g x)"
  "(\<And>x. extends (f1 x) (g1 x)) \<Longrightarrow> (\<And>y. extends (f2 y) (g2 y)) \<Longrightarrow>
     extends (case q of Inl x \<Rightarrow> f1 x | Inr y \<Rightarrow> f2 y) (case q of Inl x \<Rightarrow> g1 x | Inr y \<Rightarrow> g2 y)"
  "(\<And>x y. extends (f3 x y) (g3 x y)) \<Longrightarrow> extends (case w of (x, y) \<Rightarrow> f3 x y) (case w of (x, y) \<Rightarrow> g3 x y)"
  by (simp_all split: option.splits sum.splits prod.splits)

section \<open>Larger bounds\<close>

text \<open>What a handler makes of the frames behind an answer is extended with the handler of those frames.\<close>

definition frames_extend :: "(udp_addr \<Rightarrow> header \<Rightarrow> bytes \<Rightarrow> unit act) \<Rightarrow> (udp_addr \<Rightarrow> header \<Rightarrow> bytes \<Rightarrow> unit act) \<Rightarrow> bool" where
  "frames_extend run run' \<longleftrightarrow> (\<forall>a h raw. extends (run a h raw) (run' a h raw))"

lemma extends_dispatch:
  assumes "frames_extend run run'"
  shows "extends (dispatch_frame E run a fr u) (dispatch_frame E run' a fr u)"
proof -
  have 1: "extends (case out of WroteUDP b \<Rightarrow> m b | HandlerRuns h raw \<Rightarrow> athen (run a h raw) (w h) | _ \<Rightarrow> aret ())
      (case out of WroteUDP b \<Rightarrow> m b | HandlerRuns h raw \<Rightarrow> athen (run' a h raw) (w h :: unit act) | _ \<Rightarrow> aret ())" for out m w
    using assms by (cases out) (simp_all add: extends_refl extends_athen frames_extend_def)
  show ?thesis
    unfolding dispatch_frame_def Let_def by (intro extending extends_refl 1)
qed

lemma extends_handle:
  assumes "frames_extend run run'"
  shows "extends (s11_handle E run a h raw) (s11_handle E run' a h raw)"
proof -
  have 1: "extends (csr_answer E run a req r ebi pgw p res) (csr_answer E run' a req r ebi pgw p res)" for req r ebi pgw p res
    unfolding csr_answer_def by (intro extending extends_refl extends_dispatch assms)
  have 2: "extends (handleCreateSessionRequest E run a h ies) (handleCreateSessionRequest E run' a h ies)" for ies
    unfolding handleCreateSessionRequest_def by (intro extending extends_refl 1)
  show ?thesis
    unfolding s11_handle_def Let_def by (intro extending extends_refl 2)
qed

lemma frames_extend_Suc: "frames_extend (pgw_frames E n) (pgw_frames E (Suc n))"
proof (induction n)
  case 0
  show ?case by (simp add: frames_extend_def extends_crash)
next
  case (Suc n)
  show ?case
    unfolding frames_extend_def pgw_frames.simps(2)
    by (intro allI extending extends_refl extends_handle Suc.IH [unfolded pgw_frames.simps])
qed

lemma extends_Handle: "n \<le> m \<Longrightarrow> extends (Handle E n a h raw) (Handle E m a h raw)"
proof (induction rule: dec_induct)
  case (step k)
  have "extends (Handle E k a h raw) (Handle E (Suc k) a h raw)"
    unfolding Handle_def by (rule extends_handle [OF frames_extend_Suc])
  with step.IH show ?case by (rule extends_trans)
qed (simp add: extends_refl)

section \<open>Separate sockets\<close>

text \<open>Actions that agree in the states of an assertion; the states are those with a connection of its own to the PGW.\<close>

definition agrees :: "(sgwc \<Rightarrow> bool) \<Rightarrow> 'a act \<Rightarrow> 'a act \<Rightarrow> bool" where
  "agrees I m m' \<longleftrightarrow> (\<forall>s. I s \<longrightarrow> m s = m' s)"

lemma agrees_refl: "agrees I m m"
  by (simp add: agrees_def)

definition split_sockets :: "sgwc \<Rightarrow> bool" where
  "split_sockets s \<longleftrightarrow> g_s5c s \<noteq> None"


lemma split_set_conn [simp]: "split_sockets (set_conn l c s) = split_sockets s"
  by (simp add: split_sockets_def set_conn_def)

lemma split_frame [simp]:
  "split_sockets (s\<lparr>g_mgr := m\<rparr>) = split_sockets s" "split_sockets (s\<lparr>g_pfcp := c\<rparr>) = split_sockets s"
  "split_sockets (s\<lparr>g_s5cTEIDs := t\<rparr>) = split_sockets s" "split_sockets (s\<lparr>g_s11Seen := sn\<rparr>) = split_sockets s"
  "split_sockets (s\<lparr>g_s5cSeen := sn\<rparr>) = split_sockets s" "split_sockets (s\<lparr>g_health := ht\<rparr>) = split_sockets s"
  "split_sockets (s\<lparr>g_ddn := d\<rparr>) = split_sockets s" "split_sockets (s\<lparr>g_txns := x\<rparr>) = split_sockets s"
  "split_sockets (s\<lparr>g_cbTxns := ct\<rparr>) = split_sockets s" "split_sockets (s\<lparr>g_cbFPs := cf\<rparr>) = split_sockets s"
  "split_sockets (s\<lparr>g_cbS11 := cs\<rparr>) = split_sockets s" "split_sockets (s\<lparr>g_cbProcFailures := cp\<rparr>) = split_sockets s"
  "split_sockets (s\<lparr>g_dbCmds := db\<rparr>) = split_sockets s" "split_sockets (s\<lparr>g_k := k\<rparr>) = split_sockets s"
  "split_sockets (s\<lparr>g_out := es\<rparr>) = split_sockets s"
  by (simp_all add: split_sockets_def)

lemma split_amod: "(\<And>s. split_sockets (f s) = split_sockets s) \<Longrightarrow> keeps split_sockets (amod f)"
  by (simp add: keeps_def amod_def)

lemma split_basic [keeps]: "keeps split_sockets tick" "keeps split_sockets (put_out es)" "keeps split_sockets (put_mgr r)"
proof -
  show "keeps split_sockets tick" by (simp add: keeps_def tick_def)
  show "keeps split_sockets (put_out es)" for es unfolding put_out_def by (rule split_amod) simp
  then show "keeps split_sockets (put_mgr r)" unfolding put_mgr_def by (intro keeps_athen split_amod) simp
qed

lemma split_clock [keeps]: "keeps split_sockets (clock E)" "keeps split_sockets (sess_of r)"
  unfolding clock_def sess_of_def by (intro keeps)+

lemma split_gtp:
  "keeps split_sockets (alloc_seq l)" "keeps split_sockets (gtp_send E l a raw)" "keeps split_sockets (gtp_reply E l a raw)"
proof -
  show "keeps split_sockets (alloc_seq l)" by (rule keepsI) (simp add: alloc_seq_def split: prod.splits)
  show "keeps split_sockets (gtp_send E l a raw)"
    by (auto simp: keeps_def gtp_send_def abind_def tick_def athen_def put_out_def amod_def attempt_def aret_def crash_def
        split: prod.splits outcome.splits option.splits)
  show "keeps split_sockets (gtp_reply E l a raw)"
    by (auto simp: keeps_def gtp_reply_def clock_def Let_def abind_def tick_def athen_def put_out_def amod_def attempt_def
        aret_def crash_def split: prod.splits outcome.splits option.splits)
qed

lemma split_pfcp_call: "keeps split_sockets (pfcp_call E p f)"
  unfolding pfcp_call_def by (intro keeps split_amod) simp_all

lemma split_exchanges:
  "keeps split_sockets (s5c_AllocTEID E)" "keeps split_sockets (free_s5c t)" "keeps split_sockets alloc_cpseid"
  "keeps split_sockets (pfcp_establish E sp)" "keeps split_sockets (pfcp_modify E ad up us)"
  "keeps split_sockets (pfcp_add_rules E ad up pdrs fars)" "keeps split_sockets (pfcp_remove_rules E ad up ps fs)"
  "keeps split_sockets (pfcp_delete E ad up)"
  "keeps split_sockets (observe_peer E role a h ies)" "keeps split_sockets (s5c_maybeRecoveryIE E a)"
  "keeps split_sockets (s11_maybeRecoveryIE E a)" "keeps split_sockets (clearCreateBearerProcedureFailuresForSession sid)"
proof -
  show "keeps split_sockets alloc_cpseid" by (rule keepsI) (simp add: alloc_cpseid_def split: prod.splits)
qed (unfold s5c_AllocTEID_def free_s5c_def pfcp_establish_def pfcp_modify_def pfcp_add_rules_def
  pfcp_remove_rules_def pfcp_delete_def observe_peer_def recoveryValuePtr_def recoveryIEValuePtr_def
  s5c_maybeRecoveryIE_def s11_maybeRecoveryIE_def clearCreateBearerProcedureFailuresForSession_def,
  (intro keeps split_pfcp_call split_amod; simp)+)

lemma split_tables:
  "keeps split_sockets (markDDNLowPriorityThrottle E a ack tm)" "keeps split_sockets (update_txn i upd)"
  "keeps split_sockets (beginCreateBearerTxnWithFingerprint E a h raw sess fp)"
  "keeps split_sockets (findLatchedCreateBearerProcedureFailure E pk)"
  "keeps split_sockets (rememberCreateBearerProcedureFailure E pk cause desc)"
  "keeps split_sockets (registerPendingS11CreateBearer E a pgw h n prep)" "keeps split_sockets (popPendingS11CreateBearer key)"
  "keeps split_sockets (markDeleteBearerCommandPending E r h ebis)" "keeps split_sockets (clearDeleteBearerCommandPending E r ebis)"
  unfolding markDDNLowPriorityThrottle_def update_txn_def beginCreateBearerTxnWithFingerprint_def touch_txn_def answered_def
    txn_of_def findLatchedCreateBearerProcedureFailure_def rememberCreateBearerProcedureFailure_def
    registerPendingS11CreateBearer_def popPendingS11CreateBearer_def markDeleteBearerCommandPending_def
    clearDeleteBearerCommandPending_def
  by (intro keeps split_amod; simp add: Let_def)+

lemma split_sessions [keeps]:
  "keeps split_sockets (call_session r c)" "keeps split_sockets (set_tracker r tk)" "keeps split_sockets (delete_session sid)"
  "keeps split_sockets (create_session E p)" "keeps split_sockets (register_s5c sid t)" "keeps split_sockets (register_pgw E sid ad)"
  unfolding call_session_def set_tracker_def delete_session_def create_session_def register_s5c_def register_pgw_def
  by (intro keeps)+

lemma split_dispatch:
  assumes "\<And>h raw. keeps split_sockets (run a h raw)"
  shows "keeps split_sockets (dispatch_frame E run a fr u)"
proof -
  have 1: "keeps split_sockets (case out of WroteUDP b \<Rightarrow> m b | HandlerRuns h raw \<Rightarrow> w h raw | _ \<Rightarrow> aret ())"
    if "\<And>b. keeps split_sockets (m b)" "\<And>h raw. keeps split_sockets (w h raw)" for out m w
    using that by (cases out) (simp_all add: keeps_basic)
  have 2: "keeps split_sockets (amod (set_conn l c))" "keeps split_sockets (amod (\<lambda>s. set_conn S5C (f s) s))" for l c f
    by (intro split_amod; simp)+
  show ?thesis
    unfolding dispatch_frame_def Let_def by (intro keeps 1 2 assms)
qed

interpretation splitting: runtime E split_sockets for E
  by unfold_locales
    (rule split_basic split_gtp split_exchanges split_sessions split_tables split_dispatch, assumption?)+


lemma split_timed: "keeps split_sockets (timed_call E r c)"
  unfolding timed_call_def by (intro keeps)

lemma split_prepare [keeps]: "keeps split_sockets (csr_params h req)" "keeps split_sockets (csr_prepare E a h req r t ebi)"
proof -
  show "keeps split_sockets (csr_params h req)" unfolding csr_params_def by (intro keeps)
  show "keeps split_sockets (csr_prepare E a h req r t ebi)" unfolding csr_prepare_def by (intro split_timed keeps)
qed

lemma split_open: "keeps split_sockets (csr_open E a h req)"
  unfolding csr_open_def Let_def by (intro keeps)

interpretation splitting_create: create_runtime E split_sockets for E
  by unfold_locales (rule split_open split_sessions)+

lemma split_commit: "keeps split_sockets (csr_commit E a h r t ebi pgw p s5c res)"
  unfolding csr_commit_def by (intro keeps; simp)

lemma agrees_abind: "keeps I m \<Longrightarrow> (\<And>x. agrees I (f x) (g x)) \<Longrightarrow> agrees I (abind m f) (abind m g)"
  by (simp add: agrees_def keeps_def abind_def split: prod.splits option.splits) (metis snd_conv)

lemma agrees_athen: "keeps I m \<Longrightarrow> agrees I n n' \<Longrightarrow> agrees I (athen m n) (athen m n')"
  unfolding athen_def by (rule agrees_abind)

lemma agrees_athen_first: "agrees I m m' \<Longrightarrow> agrees I (athen m n) (athen m' n)"
  by (simp add: agrees_def athen_def abind_def)

lemma agrees_branch:
  "agrees I m m' \<Longrightarrow> agrees I n n' \<Longrightarrow> agrees I (if b then m else n) (if b then m' else n')"
  "agrees I m m' \<Longrightarrow> (\<And>x. agrees I (f x) (g x)) \<Longrightarrow> agrees I (case p of None \<Rightarrow> m | Some x \<Rightarrow> f x) (case p of None \<Rightarrow> m' | Some x \<Rightarrow> g x)"
  "(\<And>x. agrees I (f1 x) (g1 x)) \<Longrightarrow> (\<And>y. agrees I (f2 y) (g2 y)) \<Longrightarrow>
     agrees I (case q of Inl x \<Rightarrow> f1 x | Inr y \<Rightarrow> f2 y) (case q of Inl x \<Rightarrow> g1 x | Inr y \<Rightarrow> g2 y)"
  "(\<And>x y. agrees I (f3 x y) (g3 x y)) \<Longrightarrow> agrees I (case w of (x, y) \<Rightarrow> f3 x y) (case w of (x, y) \<Rightarrow> g3 x y)"
  by (simp_all split: option.splits sum.splits prod.splits)

lemma agrees_aloop:
  assumes "\<And>x acc. agrees I (f x acc) (g x acc)" "\<And>x acc. keeps I (f x acc)"
  shows "agrees I (aloop f xs acc) (aloop g xs acc)"
proof (induction xs arbitrary: acc)
  case (Cons x xs)
  have "aloop f (x # xs) acc s = aloop g (x # xs) acc s" if "I s" for s
  proof -
    have "f x acc s = g x acc s" "I (snd (f x acc s))" using that assms unfolding agrees_def keeps_def by blast+
    then show ?thesis using Cons.IH by (auto simp: abind_def agrees_def split: prod.splits option.splits)
  qed
  then show ?case by (simp add: agrees_def)
qed (simp add: agrees_refl)

lemma agrees_dispatch:
  assumes "\<And>a h raw. agrees split_sockets (run a h raw) (run' a h raw)"
  shows "agrees split_sockets (dispatch_frame E run a fr u) (dispatch_frame E run' a fr u)"
proof -
  have 1: "agrees split_sockets (case out of WroteUDP b \<Rightarrow> m b | HandlerRuns h raw \<Rightarrow> athen (run a h raw) (w h) | _ \<Rightarrow> aret ())
      (case out of WroteUDP b \<Rightarrow> m b | HandlerRuns h raw \<Rightarrow> athen (run' a h raw) (w h :: unit act) | _ \<Rightarrow> aret ())" for out m w
    using assms by (cases out) (simp_all add: agrees_refl agrees_athen_first)
  have 2: "keeps split_sockets (amod (set_conn l c))" for l c by (rule split_amod) simp
  show ?thesis
    unfolding dispatch_frame_def Let_def by (intro agrees_abind agrees_athen agrees_branch keeps 1 2)
qed

lemma agrees_handle:
  assumes "\<And>a h raw. agrees split_sockets (run a h raw) (run' a h raw)" "\<And>a h raw. keeps split_sockets (run a h raw)"
  shows "agrees split_sockets (s11_handle E run a h raw) (s11_handle E run' a h raw)"
proof -
  have 1: "agrees split_sockets (csr_answer E run a req r ebi pgw p res) (csr_answer E run' a req r ebi pgw p res)" for req r ebi pgw p res
    unfolding csr_answer_def buildS11CreateSessionResponseIEs_def relay_piggyback_def
    by (intro agrees_abind agrees_athen agrees_branch agrees_refl agrees_aloop agrees_dispatch assms keeps)
  have 2: "agrees split_sockets (handleCreateSessionRequest E run a h ies) (handleCreateSessionRequest E run' a h ies)" for ies
    unfolding handleCreateSessionRequest_def
    by (intro agrees_abind agrees_branch agrees_refl split_commit split_open keeps 1)
  show ?thesis
    unfolding s11_handle_def Let_def by (intro agrees_abind agrees_athen agrees_branch agrees_refl keeps 2)
qed

lemma agrees_frames: "agrees split_sockets (pgw_frames E (Suc n) a h raw) (pgw_frames E 1 a h raw)"
  by (simp add: agrees_def split_sockets_def abind_def aget_def)

lemma split_frames: "keeps split_sockets (pgw_frames E n a h raw)"
  by (rule splitting_create.keeps_pgw_frames)

lemma agrees_Handle: "agrees split_sockets (Handle E (Suc n) a h raw) (Handle E 1 a h raw)"
  unfolding Handle_def
proof (rule agrees_handle [OF _ split_frames])
  show "agrees split_sockets (pgw_frames E (Suc n) b g rw) (pgw_frames E 1 b g rw)" for b g rw
    by (rule agrees_frames)
qed



text \<open>An answer that nobody waits for.\<close>

definition sample_answer :: bytes where "sample_answer = [0x40, 1, 0, 4, 0, 0, 9, 0]"

lemma sample_answer_parses: "\<exists>p. Parse sample_answer = Ok p"
proof -
  have "(case Parse sample_answer of Ok _ \<Rightarrow> True | _ \<Rightarrow> False)" by code_simp
  then show ?thesis by (auto split: outcome.splits)
qed


end
