(* ===== verification/Path_Prober.thy ===== *)
theory Path_Prober
  imports GTPU_Forwarder Session_State
begin

text \<open>
  The supervision of GTP-U paths, \<^verbatim>\<open>internal/sgwu/gtpu/path_prober.go\<close>, and the group of the
  sockets of an SGW-U, \<^verbatim>\<open>group.go\<close>. A tick moves every path on: a round sends up to
  N3-REQUESTS Echo Requests of one sequence number, T3-RESPONSE apart, until one is answered; a round that was not
  answered declares the path failed. The ticker and the socket are outside: a step takes the time of the tick, and an
  Echo Request is an effect, whose write error the code only logs.
\<close>

section \<open>State\<close>

definition N3RequestsDefault :: int where "N3RequestsDefault = 5"
definition EchoMinInterval :: duration where "EchoMinInterval = 60 * time_second"
definition T3ResponseDefault :: duration where "T3ResponseDefault = 5 * time_second"

record path_entry =
  pe_roundSeq :: u16
  pe_roundSent :: int
  pe_roundResponded :: bool
  pe_failed :: bool
  pe_nextAction :: gtime

text \<open>\<open>pp_onFailed\<close> and \<open>pp_onRecovered\<close> tell whether the callbacks are set.\<close>

record path_prober =
  pp_probeInterval :: duration
  pp_t3Response :: duration
  pp_n3Requests :: int
  pp_paths :: "(ip_addr, path_entry) gomap"
  pp_seqGen :: u32
  pp_port :: nat
  pp_onFailed :: bool
  pp_onRecovered :: bool

datatype prober_effect =
    EchoSent ip_addr u16 bytes udp_addr
  | PathFailed ip_addr
  | PathRecovered ip_addr

definition NewPathProber :: "duration \<Rightarrow> duration \<Rightarrow> int \<Rightarrow> path_prober" where
  "NewPathProber probeInterval t3Response n3Requests =
     \<lparr>pp_probeInterval = (if probeInterval < EchoMinInterval then EchoMinInterval else probeInterval),
      pp_t3Response = (if t3Response \<le> 0 then T3ResponseDefault else t3Response),
      pp_n3Requests = (if n3Requests \<le> 0 then N3RequestsDefault else n3Requests),
      pp_paths = [], pp_seqGen = 0, pp_port = gtpuPort, pp_onFailed = False, pp_onRecovered = False\<rparr>"

definition new_path :: path_entry where
  "new_path = \<lparr>pe_roundSeq = 0, pe_roundSent = 0, pe_roundResponded = False, pe_failed = False, pe_nextAction = 0\<rparr>"

section \<open>Operations\<close>

definition prober_Add :: "ip_addr \<Rightarrow> path_prober \<Rightarrow> path_prober" where
  "prober_Add peer p = (case mget (pp_paths p) peer of
     None \<Rightarrow> p\<lparr>pp_paths := mput peer new_path (pp_paths p)\<rparr> | Some _ \<Rightarrow> p)"

definition prober_Remove :: "ip_addr \<Rightarrow> path_prober \<Rightarrow> path_prober" where
  "prober_Remove peer p = p\<lparr>pp_paths := mdel peer (pp_paths p)\<rparr>"

definition prober_RecordEchoResponse :: "ip_addr \<Rightarrow> u16 \<Rightarrow> path_prober \<Rightarrow> path_prober \<times> prober_effect list" where
  "prober_RecordEchoResponse peer sq p = (case mget (pp_paths p) peer of
     None \<Rightarrow> (p, [])
   | Some e \<Rightarrow>
       if pe_roundSent e = 0 \<or> pe_roundSeq e \<noteq> sq then (p, [])
       else (p\<lparr>pp_paths := mput peer (e\<lparr>pe_roundResponded := True, pe_failed := False\<rparr>) (pp_paths p)\<rparr>,
             if pe_failed e \<and> pp_onRecovered p then [PathRecovered peer] else []))"

definition nextSeqLocked :: "u32 \<Rightarrow> u32 \<times> u16" where
  "nextSeqLocked gen = (gen + 1, ucast ((gen + 1) AND 0xFFFF))"

definition sendEchoLocked :: "nat \<Rightarrow> ip_addr \<Rightarrow> u16 \<Rightarrow> (gtpu_error, prober_effect list) outcome" where
  "sendEchoLocked port peer sq =
     (let hdr = zero_gtpu_header\<lparr>gVersion := 1, gPT := True, gS := True, gMsgType := MsgTypeEchoRequest,
          gTEID := 0, gSeqNum := sq\<rparr>
      in obind (as4 peer) (\<lambda>a4. Ok [EchoSent peer sq (gtpu_marshal hdr 0)
           ((peer_udp a4)\<lparr>uaPort := port\<rparr>)]))"

text \<open>One path at a tick, with the sequence counter the paths share.\<close>

definition tick_path :: "path_prober \<Rightarrow> gtime \<Rightarrow> ip_addr \<Rightarrow> path_entry \<Rightarrow> u32 \<Rightarrow>
    (gtpu_error, path_entry \<times> u32 \<times> prober_effect list) outcome" where
  "tick_path p now peer e gen =
     (if now < pe_nextAction e then Ok (e, gen, [])
      else if pe_roundSent e = 0 then
        (let (gen', sq) = nextSeqLocked gen in
         obind (sendEchoLocked (pp_port p) peer sq) (\<lambda>es.
           Ok (e\<lparr>pe_roundSeq := sq, pe_roundSent := 1, pe_roundResponded := False, pe_nextAction := now + pp_t3Response p\<rparr>, gen', es)))
      else if pe_roundResponded e then Ok (e\<lparr>pe_roundSent := 0, pe_nextAction := now + pp_probeInterval p\<rparr>, gen, [])
      else if pe_roundSent e < pp_n3Requests p then
        obind (sendEchoLocked (pp_port p) peer (pe_roundSeq e)) (\<lambda>es.
          Ok (e\<lparr>pe_roundSent := pe_roundSent e + 1, pe_nextAction := now + pp_t3Response p\<rparr>, gen, es))
      else Ok (e\<lparr>pe_failed := True, pe_roundSent := 0, pe_nextAction := now + pp_probeInterval p\<rparr>, gen,
             if \<not> pe_failed e \<and> pp_onFailed p then [PathFailed peer] else []))"

text \<open>Go's order of iteration is the order of the list.\<close>

fun tick_paths :: "path_prober \<Rightarrow> gtime \<Rightarrow> u32 \<Rightarrow> (ip_addr, path_entry) gomap \<Rightarrow>
    (gtpu_error, (ip_addr, path_entry) gomap \<times> u32 \<times> prober_effect list) outcome" where
  "tick_paths p now gen [] = Ok ([], gen, [])"
| "tick_paths p now gen ((peer, e) # ps) =
     obind (tick_path p now peer e gen) (\<lambda>(e', gen', es).
     obind (tick_paths p now gen' ps) (\<lambda>(ps', gen'', es').
     Ok ((peer, e') # ps', gen'', es @ es')))"

definition prober_tick :: "gtime \<Rightarrow> path_prober \<Rightarrow> (gtpu_error, path_prober \<times> prober_effect list) outcome" where
  "prober_tick now p = obind (tick_paths p now (pp_seqGen p) (pp_paths p)) (\<lambda>(ps, gen, es).
     Ok (p\<lparr>pp_paths := ps, pp_seqGen := gen\<rparr>, es))"

text \<open>\<^verbatim>\<open>PathProberGroup.Add\<close>: only IPv4 peers reach the probers.\<close>

definition prober_group_Add :: "ip_addr \<Rightarrow> path_prober list \<Rightarrow> path_prober list" where
  "prober_group_Add peer ps = (if \<not> isValid peer \<or> \<not> is4 peer then ps else map (prober_Add peer) ps)"

section \<open>Forwarder groups\<close>

text \<open>\<open>listen\<close> is \<^verbatim>\<open>New\<close>, which opens a socket; the forwarders opened before a failure are closed.\<close>

record gtpu_endpoint =
  ge_Listen :: string
  ge_LocalIP :: ip_addr

fun open_endpoints :: "(gtpu_endpoint \<Rightarrow> 'e + 'f) \<Rightarrow> string list \<Rightarrow> gtpu_endpoint list \<Rightarrow> 'f list \<Rightarrow> ('e + 'f list) \<times> 'f list" where
  "open_endpoints listen seen [] fs = (Inr fs, [])"
| "open_endpoints listen seen (ep # eps) fs =
     (if ge_Listen ep = [] \<or> ge_Listen ep \<in> set seen then open_endpoints listen seen eps fs
      else case listen ep of
        Inl e \<Rightarrow> (Inl e, fs)
      | Inr f \<Rightarrow> open_endpoints listen (ge_Listen ep # seen) eps (fs @ [f]))"

datatype 'e group_error = GroupListen 'e | GroupNoEndpoints

text \<open>The second component are the forwarders that were closed.\<close>

definition NewGroup :: "(gtpu_endpoint \<Rightarrow> 'e + 'f) \<Rightarrow> gtpu_endpoint list \<Rightarrow> ('e group_error + 'f list) \<times> 'f list" where
  "NewGroup listen eps = (case open_endpoints listen [] eps [] of
     (Inl e, closed) \<Rightarrow> (Inl (GroupListen e), closed)
   | (Inr fs, closed) \<Rightarrow> (if fs = [] then Inl GroupNoEndpoints else Inr fs, closed))"

definition add_counters :: "gtpu_counters \<Rightarrow> gtpu_counters \<Rightarrow> gtpu_counters" where
  "add_counters a b = \<lparr>cRxPackets = cRxPackets a + cRxPackets b, cTxPackets = cTxPackets a + cTxPackets b,
     cRxBytes = cRxBytes a + cRxBytes b, cTxBytes = cTxBytes a + cTxBytes b, cUnknownTEID = cUnknownTEID a + cUnknownTEID b,
     cDropped = cDropped a + cDropped b, cIdleDownlink = cIdleDownlink a + cIdleDownlink b\<rparr>"

definition group_Counters :: "forwarder list \<Rightarrow> gtpu_counters" where
  "group_Counters fs = foldl (\<lambda>out f. add_counters out (fw_counters f))
     \<lparr>cRxPackets = 0, cTxPackets = 0, cRxBytes = 0, cTxBytes = 0, cUnknownTEID = 0, cDropped = 0, cIdleDownlink = 0\<rparr> fs"

text \<open>The first socket sends an End Marker.\<close>

definition group_SendEndMarker :: "socket \<Rightarrow> u32 \<Rightarrow> ip_addr \<Rightarrow> forwarder list \<Rightarrow> (gtpu_error, forwarder list \<times> gtpu_effect list) outcome" where
  "group_SendEndMarker wr teid dstIP fs = (case fs of
     [] \<Rightarrow> Ok ([], [])
   | f # rest \<Rightarrow> obind (sendEndMarker wr teid dstIP f) (\<lambda>(f', es). Ok (f' # rest, es)))"

text \<open>\<^verbatim>\<open>Close\<close> closes every socket and keeps the first error.\<close>

definition group_Close :: "'e option list \<Rightarrow> 'e option" where
  "group_Close results = (case filter (\<lambda>r. r \<noteq> None) results of [] \<Rightarrow> None | r # _ \<Rightarrow> r)"


section \<open>The history of the paths\<close>

datatype prober_event = ProbeTick gtime | EchoAnswer ip_addr u16 | TrackPeer ip_addr | ForgetPeer ip_addr

datatype path_log = LSent ip_addr u16 | LAnswer ip_addr u16 | LFailed ip_addr

definition prober_do :: "prober_event \<Rightarrow> path_prober \<Rightarrow> (gtpu_error, path_prober \<times> prober_effect list) outcome" where
  "prober_do ev p = (case ev of
     ProbeTick now \<Rightarrow> prober_tick now p
   | EchoAnswer a q \<Rightarrow> Ok (prober_RecordEchoResponse a q p)
   | TrackPeer a \<Rightarrow> Ok (prober_Add a p, [])
   | ForgetPeer a \<Rightarrow> Ok (prober_Remove a p, []))"

definition log_effects :: "prober_effect list \<Rightarrow> path_log list" where
  "log_effects es = concat (map (\<lambda>x. case x of EchoSent a q _ _ \<Rightarrow> [LSent a q] | PathFailed a \<Rightarrow> [LFailed a] | PathRecovered _ \<Rightarrow> []) es)"

definition log_event :: "prober_event \<Rightarrow> path_log list" where
  "log_event ev = (case ev of EchoAnswer a q \<Rightarrow> [LAnswer a q] | _ \<Rightarrow> [])"

fun prober_run :: "prober_event list \<Rightarrow> path_prober \<Rightarrow> (gtpu_error, path_prober \<times> path_log list) outcome" where
  "prober_run [] p = Ok (p, [])"
| "prober_run (ev # evs) p = obind (prober_do ev p) (\<lambda>(p', es). obind (prober_run evs p') (\<lambda>(p'', l).
     Ok (p'', log_event ev @ log_effects es @ l)))"

fun concerns :: "ip_addr \<Rightarrow> path_log \<Rightarrow> bool" where
  "concerns a (LSent b q) \<longleftrightarrow> a = b"
| "concerns a (LAnswer b q) \<longleftrightarrow> a = b"
| "concerns a (LFailed b) \<longleftrightarrow> False"

fun is_sent :: "path_log \<Rightarrow> bool" where
  "is_sent (LSent b q) \<longleftrightarrow> True" | "is_sent _ \<longleftrightarrow> False"

text \<open>
  The last \<open>k\<close> Echo Requests to the peer carry one sequence number; when \<open>quiet\<close> is true, no answer with that number
  came after the first of them.
\<close>

definition round_of :: "bool \<Rightarrow> ip_addr \<Rightarrow> u16 \<Rightarrow> int \<Rightarrow> path_log list \<Rightarrow> bool" where
  "round_of silent a q k l \<longleftrightarrow> (\<exists>pre rest. filter (concerns a) l = pre @ LSent a q # rest \<and>
     (\<forall>q'. LSent a q' \<in> set rest \<longrightarrow> q' = q) \<and> int (length (filter is_sent rest)) + 1 = k \<and>
     (silent \<longrightarrow> LAnswer a q \<notin> set rest))"

lemma round_new: "round_of silent a q 1 (l @ [LSent a q])"
  unfolding round_of_def by (rule exI [of _ "filter (concerns a) l"], rule exI [of _ "[]"]) simp

lemma round_again: "round_of silent a q k l \<Longrightarrow> round_of silent a q (k + 1) (l @ [LSent a q])"
  unfolding round_of_def
  by (elim exE conjE, rule_tac x = pre in exI, rule_tac x = "rest @ [LSent a q]" in exI) auto

lemma round_other: "list_all (\<lambda>x. \<not> concerns a x) l' \<Longrightarrow> round_of silent a q k l \<Longrightarrow> round_of silent a q k (l @ l')"
  unfolding round_of_def by (simp add: list_all_iff filter_empty_conv [THEN iffD2])

lemma round_answer: "round_of silent a q k l \<Longrightarrow> b \<noteq> a \<or> q' \<noteq> q \<or> \<not> silent \<Longrightarrow> round_of silent a q k (l @ [LAnswer b q'])"
  unfolding round_of_def
  by (elim exE conjE, rule_tac x = pre in exI,
      rule_tac x = "if b = a then rest @ [LAnswer a q'] else rest" in exI) auto

lemma round_weaken: "round_of True a q k l \<Longrightarrow> round_of silent a q k l"
  unfolding round_of_def by blast

definition entry_ok :: "int \<Rightarrow> path_log list \<Rightarrow> ip_addr \<Rightarrow> path_entry \<Rightarrow> bool" where
  "entry_ok n l a e \<longleftrightarrow> 0 \<le> pe_roundSent e \<and> pe_roundSent e \<le> n \<and>
     (pe_roundSent e \<noteq> 0 \<longrightarrow> round_of (\<not> pe_roundResponded e) a (pe_roundSeq e) (pe_roundSent e) l)"

definition failures_ok :: "int \<Rightarrow> path_log list \<Rightarrow> bool" where
  "failures_ok n l \<longleftrightarrow> (\<forall>l1 a l2. l = l1 @ LFailed a # l2 \<longrightarrow> (\<exists>q. round_of True a q n l1))"

lemma failures_append:
  assumes "failures_ok n l" and "\<And>l1 a l2. l' = l1 @ LFailed a # l2 \<Longrightarrow> \<exists>q. round_of True a q n (l @ l1)"
  shows "failures_ok n (l @ l')"
  unfolding failures_ok_def
proof (intro allI impI)
  fix l1 a l2 assume "l @ l' = l1 @ LFailed a # l2"
  then consider us where "l = l1 @ us" "us @ l' = LFailed a # l2" | us where "l @ us = l1" "l' = us @ LFailed a # l2"
    by (auto simp: append_eq_append_conv2)
  then show "\<exists>q. round_of True a q n l1"
  proof cases
    case (1 us)
    then show ?thesis
    proof (cases us)
      case Nil with 1 assms(2) [of "[]" a l2] show ?thesis by simp
    next
      case (Cons u us') with 1 assms(1) show ?thesis unfolding failures_ok_def by auto
    qed
  next
    case (2 us) with assms(2) [of us a l2] show ?thesis by simp
  qed
qed

lemma failures_silent: "failures_ok n l \<Longrightarrow> (\<And>a. LFailed a \<notin> set l') \<Longrightarrow> failures_ok n (l @ l')"
  by (rule failures_append) auto


lemma log_effects_simps [simp]: "log_effects [] = []" "log_effects (es @ es') = log_effects es @ log_effects es'"
  "log_effects (EchoSent a q b d # es) = LSent a q # log_effects es" "log_effects (PathFailed a # es) = LFailed a # log_effects es"
  "log_effects (PathRecovered a # es) = log_effects es"
  by (simp_all add: log_effects_def)

lemma sendEcho_Ok: "sendEchoLocked port a q = Ok es \<Longrightarrow> log_effects es = [LSent a q]"
  by (auto simp: sendEchoLocked_def obind_Ok_iff)

text \<open>A step of one path keeps its entry in agreement with the history.\<close>

lemma tick_path_log:
  assumes "tick_path p now a e gen = Ok (e', gen', es)" and "entry_ok (pp_n3Requests p) l a e" and "1 \<le> pp_n3Requests p"
  shows "entry_ok (pp_n3Requests p) (l @ log_effects es) a e' \<and>
    (log_effects es = [] \<or> (\<exists>q. log_effects es = [LSent a q]) \<or>
     log_effects es = [LFailed a] \<and> (\<exists>q. round_of True a q (pp_n3Requests p) l))"
proof -
  note d = assms(1) [unfolded tick_path_def Let_def]
  consider "now < pe_nextAction e" | "\<not> now < pe_nextAction e" "pe_roundSent e = 0"
    | "\<not> now < pe_nextAction e" "pe_roundSent e \<noteq> 0" "pe_roundResponded e"
    | "\<not> now < pe_nextAction e" "pe_roundSent e \<noteq> 0" "\<not> pe_roundResponded e" "pe_roundSent e < pp_n3Requests p"
    | "\<not> now < pe_nextAction e" "pe_roundSent e \<noteq> 0" "\<not> pe_roundResponded e" "pe_roundSent e \<ge> pp_n3Requests p"
    by linarith
  then show ?thesis
  proof cases
    case 1 with d assms(2) show ?thesis by auto
  next
    case 2
    with d assms(2,3) show ?thesis
      by (auto simp: entry_ok_def obind_Ok_iff sendEcho_Ok round_new nextSeqLocked_def)
  next
    case 3 with d assms(2,3) show ?thesis by (auto simp: entry_ok_def)
  next
    case 4
    with d assms(2) show ?thesis
      by (auto simp: entry_ok_def obind_Ok_iff sendEcho_Ok round_again)
  next
    case 5
    then have "pe_roundSent e = pp_n3Requests p" "round_of True a (pe_roundSeq e) (pe_roundSent e) l"
      using assms(2) by (auto simp: entry_ok_def)
    with 5 d assms(3) show ?thesis by (auto simp: entry_ok_def split: if_splits)
  qed
qed

lemma entry_other:
  "list_all (\<lambda>x. \<not> concerns a x) l' \<Longrightarrow> entry_ok n l a e \<Longrightarrow> entry_ok n (l @ l') a e"
  by (auto simp: entry_ok_def round_other)

definition paths_ok :: "int \<Rightarrow> path_log list \<Rightarrow> (ip_addr, path_entry) gomap \<Rightarrow> bool" where
  "paths_ok n l ps \<longleftrightarrow> (\<forall>(a, e) \<in> set ps. entry_ok n l a e)"

lemma tick_paths_log:
  assumes "tick_paths p now gen ps = Ok (ps', gen', es)" "mok ps" "paths_ok (pp_n3Requests p) l ps"
    "failures_ok (pp_n3Requests p) l" "1 \<le> pp_n3Requests p"
  shows "map fst ps' = map fst ps \<and> paths_ok (pp_n3Requests p) (l @ log_effects es) ps' \<and>
    failures_ok (pp_n3Requests p) (l @ log_effects es) \<and> (\<forall>x \<in> set (log_effects es). \<forall>a. concerns a x \<longrightarrow> a \<in> mkeys ps)"
  using assms(1-4)
proof (induction ps arbitrary: gen ps' gen' es l)
  case Nil then show ?case by (auto simp: paths_ok_def)
next
  case (Cons x ps)
  obtain a e where x: "x = (a, e)" by force
  from Cons.prems(1) obtain e1 g1 es1 ps2 es2 where
    s: "tick_path p now a e gen = Ok (e1, g1, es1)" "tick_paths p now g1 ps = Ok (ps2, gen', es2)"
    and r: "ps' = (a, e1) # ps2" "es = es1 @ es2"
    by (auto simp: x obind_Ok_iff)
  have na: "a \<notin> mkeys ps" and mo: "mok ps" using Cons.prems(2) by (auto simp: x mok_def mkeys_def)
  have t: "entry_ok (pp_n3Requests p) (l @ log_effects es1) a e1" and
    k: "log_effects es1 = [] \<or> (\<exists>q. log_effects es1 = [LSent a q]) \<or>
     log_effects es1 = [LFailed a] \<and> (\<exists>q. round_of True a q (pp_n3Requests p) l)"
    using tick_path_log [OF s(1) _ assms(5), of l] Cons.prems(3) by (auto simp: x paths_ok_def)
  have f: "failures_ok (pp_n3Requests p) (l @ log_effects es1)"
    by (rule failures_append [OF Cons.prems(4)]) (use k in \<open>auto simp: append_eq_Cons_conv\<close>)
  have "b \<noteq> a \<Longrightarrow> list_all (\<lambda>x. \<not> concerns b x) (log_effects es1)" for b using k by auto
  then have "paths_ok (pp_n3Requests p) (l @ log_effects es1) ps"
    using Cons.prems(3) na by (force simp: paths_ok_def x mkeys_def intro: entry_other)
  note h = Cons.IH [OF s(2) mo this f]
  then have "list_all (\<lambda>x. \<not> concerns a x) (log_effects es2)" using na by (auto simp: list_all_iff)
  from entry_other [OF this t] h k show ?case by (auto simp: r x paths_ok_def mkeys_def)
qed

text \<open>Every event keeps the prober in agreement with the history.\<close>

definition prober_ok :: "path_log list \<Rightarrow> path_prober \<Rightarrow> bool" where
  "prober_ok l p \<longleftrightarrow> 1 \<le> pp_n3Requests p \<and> mok (pp_paths p) \<and> paths_ok (pp_n3Requests p) l (pp_paths p) \<and>
     failures_ok (pp_n3Requests p) l"

lemma paths_ok_get: "mok ps \<Longrightarrow> paths_ok n l ps \<longleftrightarrow> (\<forall>a e. mget ps a = Some e \<longrightarrow> entry_ok n l a e)"
  by (auto simp: paths_ok_def mem_mget)

lemma prober_do_ok:
  assumes "prober_do ev p = Ok (p', es)" "prober_ok l p"
  shows "prober_ok (l @ log_event ev @ log_effects es) p' \<and> pp_n3Requests p' = pp_n3Requests p"
proof (cases ev)
  case (ProbeTick now)
  with assms obtain ps gen where "tick_paths p now (pp_seqGen p) (pp_paths p) = Ok (ps, gen, es)"
    and p': "p' = p\<lparr>pp_paths := ps, pp_seqGen := gen\<rparr>"
    by (auto simp: prober_do_def prober_tick_def obind_Ok_iff)
  from tick_paths_log [OF this(1)] assms(2) show ?thesis
    by (auto simp: prober_ok_def p' ProbeTick log_event_def mok_def)
next
  case (EchoAnswer a q)
  let ?n = "pp_n3Requests p"
  have p: "mok (pp_paths p)" "failures_ok ?n l" and g: "\<And>b e. mget (pp_paths p) b = Some e \<Longrightarrow> entry_ok ?n l b e"
    using assms(2) by (auto simp: prober_ok_def paths_ok_get)
  have le: "log_effects es = []" and pp: "pp_n3Requests p' = ?n" "mok (pp_paths p')"
    using assms(1) p(1) by (auto simp: prober_do_def EchoAnswer prober_RecordEchoResponse_def split: option.splits if_splits)
  have "failures_ok ?n (l @ [LAnswer a q])" by (rule failures_silent [OF p(2)]) simp
  moreover have "entry_ok ?n (l @ [LAnswer a q]) b e'" if "mget (pp_paths p') b = Some e'" for b e'
  proof (cases "b = a \<and> (\<exists>e. mget (pp_paths p) a = Some e \<and> pe_roundSent e \<noteq> 0 \<and> pe_roundSeq e = q)")
    case True
    then obtain e where e: "mget (pp_paths p) a = Some e" "pe_roundSent e \<noteq> 0" "pe_roundSeq e = q" "b = a" by auto
    then have "e' = e\<lparr>pe_roundResponded := True, pe_failed := False\<rparr>"
      using that assms(1) by (auto simp: prober_do_def EchoAnswer prober_RecordEchoResponse_def map_simps split: if_splits)
    with g [OF e(1)] e show ?thesis
      by (auto simp: entry_ok_def intro!: round_answer intro: round_weaken)
        (metis (full_types) round_weaken)
  next
    case False
    then have e: "mget (pp_paths p) b = Some e'"
      using that assms(1) by (auto simp: prober_do_def EchoAnswer prober_RecordEchoResponse_def map_simps split: if_splits option.splits)
    with False g [OF e] show ?thesis by (auto simp: entry_ok_def intro!: round_answer)
  qed
  ultimately show ?thesis
    using pp assms(2) le by (simp add: prober_ok_def paths_ok_get log_event_def EchoAnswer)
next
  case (TrackPeer a)
  with assms show ?thesis
    by (auto simp: prober_do_def prober_Add_def prober_ok_def paths_ok_get log_event_def map_simps entry_ok_def new_path_def
        split: option.splits if_splits)
next
  case (ForgetPeer a)
  with assms show ?thesis
    by (auto simp: prober_do_def prober_Remove_def prober_ok_def paths_ok_get log_event_def map_simps split: if_splits)
qed

lemma prober_run_ok:
  "prober_run evs p = Ok (p', l') \<Longrightarrow> prober_ok l p \<Longrightarrow> prober_ok (l @ l') p' \<and> pp_n3Requests p' = pp_n3Requests p"
proof (induction evs arbitrary: p l l')
  case (Cons ev evs)
  from Cons.prems(1) obtain p1 es l1 where s: "prober_do ev p = Ok (p1, es)" "prober_run evs p1 = Ok (p', l1)"
    "l' = log_event ev @ log_effects es @ l1"
    by (auto simp: obind_Ok_iff)
  from prober_do_ok [OF s(1) Cons.prems(2)] Cons.IH [OF s(2), of "l @ log_event ev @ log_effects es"] show ?case
    by (simp add: s(3))
qed simp

text \<open>
  C12: a path is declared failed only after a whole round without an answer: in the history of any prober, a failure of a peer is
  preceded by exactly N3-REQUESTS Echo Requests to it that carry one sequence number, and no Echo Response of the peer with
  that number came after the first of them.
\<close>

theorem path_failure_after_silent_round:
  assumes "prober_run evs ((NewPathProber i t n)\<lparr>pp_onFailed := cf, pp_onRecovered := cr\<rparr>) = Ok (p, l1 @ LFailed a # l2)"
  shows "\<exists>q pre rest. filter (concerns a) l1 = pre @ LSent a q # rest \<and> (\<forall>q'. LSent a q' \<in> set rest \<longrightarrow> q' = q) \<and>
    int (length (filter is_sent rest)) + 1 = (if n \<le> 0 then 5 else n) \<and> LAnswer a q \<notin> set rest"
proof -
  let ?p = "(NewPathProber i t n)\<lparr>pp_onFailed := cf, pp_onRecovered := cr\<rparr>"
  have "failures_ok (pp_n3Requests ?p) []" by (simp add: failures_ok_def)
  then have "prober_ok [] ?p" by (auto simp: prober_ok_def NewPathProber_def paths_ok_def N3RequestsDefault_def mok_def)
  from prober_run_ok [OF assms this] have "failures_ok (pp_n3Requests ?p) (l1 @ LFailed a # l2)"
    unfolding prober_ok_def by (metis append_Nil)
  then show ?thesis unfolding failures_ok_def round_of_def by (fastforce simp: NewPathProber_def N3RequestsDefault_def)
qed


text \<open>A prober that supervises one path, which never answers.\<close>

definition sample_peer :: ip_addr where "sample_peer = IP4 0x0A000003"

definition sample_prober :: path_prober where
  "sample_prober = (NewPathProber 0 3000000000 3)\<lparr>pp_onFailed := True, pp_onRecovered := False\<rparr>"

definition sample_ticks :: "prober_event list" where
  "sample_ticks = [TrackPeer sample_peer, ProbeTick 1, ProbeTick 3000000001, EchoAnswer sample_peer 7, ProbeTick 6000000001, ProbeTick 9000000001]"

lemma sample_history: "omap snd (prober_run sample_ticks sample_prober) = Ok
    ([LSent sample_peer 1, LSent sample_peer 1, LAnswer sample_peer 7, LSent sample_peer 1] @ LFailed sample_peer # [])"
  by code_simp

theorem path_failure_after_silent_round_witness:
  "\<exists>q pre rest. filter (concerns sample_peer) [LSent sample_peer 1, LSent sample_peer 1, LAnswer sample_peer 7, LSent sample_peer 1] =
    pre @ LSent sample_peer q # rest \<and> LAnswer sample_peer q \<notin> set rest"
proof -
  obtain p where "prober_run sample_ticks ((NewPathProber 0 3000000000 3)\<lparr>pp_onFailed := True, pp_onRecovered := False\<rparr>) =
    Ok (p, [LSent sample_peer 1, LSent sample_peer 1, LAnswer sample_peer 7, LSent sample_peer 1] @ LFailed sample_peer # [])"
    using sample_history unfolding sample_prober_def by (auto simp: omap_Ok_iff)
  from path_failure_after_silent_round [OF this] show ?thesis by blast
qed

section \<open>Detection\<close>

fun about :: "path_log \<Rightarrow> ip_addr" where
  "about (LSent a q) = a" | "about (LAnswer a q) = a" | "about (LFailed a) = a"

definition of_path :: "ip_addr \<Rightarrow> path_log list \<Rightarrow> path_log list" where
  "of_path a l = filter (\<lambda>x. about x = a) l"

lemma of_path_simps [simp]: "of_path a [] = []" "of_path a (l @ l') = of_path a l @ of_path a l'"
  "of_path a (x # l) = (if about x = a then x # of_path a l else of_path a l)"
  by (simp_all add: of_path_def)

lemma tick_path_is4:
  assumes "is4 a"
  obtains e' gen' es where "tick_path p now a e gen = Ok (e', gen', es)" "\<forall>x \<in> set (log_effects es). about x = a"
proof -
  have s: "\<exists>es. sendEchoLocked (pp_port p) a q = Ok es" for q using assms by (cases a) (simp_all add: sendEchoLocked_def)
  obtain es1 es2 where "sendEchoLocked (pp_port p) a (ucast ((gen + 1) AND 0xFFFF)) = Ok es1"
    "sendEchoLocked (pp_port p) a (pe_roundSeq e) = Ok es2" using s by blast
  then have "\<exists>r. tick_path p now a e gen = Ok r \<and> (\<forall>x \<in> set (log_effects (snd (snd r))). about x = a)"
    by (auto simp: tick_path_def nextSeqLocked_def sendEcho_Ok)
  then show thesis using that by auto
qed

text \<open>What a tick does to one path, whatever the others do.\<close>

lemma tick_paths_total:
  assumes "\<forall>a \<in> mkeys ps. is4 a"
  obtains ps' gen' es where "tick_paths p now gen ps = Ok (ps', gen', es)" "map fst ps' = map fst ps"
    "\<forall>x \<in> set (log_effects es). about x \<in> mkeys ps"
  using assms
proof (induction ps arbitrary: gen thesis)
  case (Cons x ps)
  obtain a e where x: "x = (a, e)" by force
  obtain e1 g1 es1 where 1: "tick_path p now a e gen = Ok (e1, g1, es1)" "\<forall>x \<in> set (log_effects es1). about x = a"
    by (rule tick_path_is4 [of a p now e gen]) (use Cons.prems(2) in \<open>auto simp: x mkeys_def\<close>)
  obtain ps2 g2 es2 where 2: "tick_paths p now g1 ps = Ok (ps2, g2, es2)" "map fst ps2 = map fst ps"
    "\<forall>x \<in> set (log_effects es2). about x \<in> mkeys ps"
    by (rule Cons.IH) (use Cons.prems(2) in \<open>auto simp: mkeys_def\<close>)
  from 1 2 show ?case by (intro Cons.prems(1)) (auto simp: x mkeys_def)
qed simp

lemma tick_paths_at:
  assumes "mok ps" "\<forall>a \<in> mkeys ps. is4 a" "mget ps a = Some e" "tick_paths p now gen ps = Ok (ps', gen', es)"
  shows "\<exists>e' g g' es1. tick_path p now a e g = Ok (e', g', es1) \<and> mget ps' a = Some e' \<and>
    of_path a (log_effects es) = of_path a (log_effects es1)"
  using assms
proof (induction ps arbitrary: gen ps' gen' es)
  case (Cons x ps)
  obtain b f where x: "x = (b, f)" by force
  from Cons.prems(4) obtain e1 g1 es1 ps2 es2 where
    s: "tick_path p now b f gen = Ok (e1, g1, es1)" "tick_paths p now g1 ps = Ok (ps2, gen', es2)"
    and r: "ps' = (b, e1) # ps2" "es = es1 @ es2"
    by (auto simp: x obind_Ok_iff)
  have k: "b \<notin> mkeys ps" "mok ps" "\<forall>a \<in> mkeys ps. is4 a" "is4 b"
    using Cons.prems(1,2) by (auto simp: x mok_def mkeys_def)
  obtain ps3 g3 es3 where "tick_paths p now g1 ps = Ok (ps3, g3, es3)" "\<forall>x \<in> set (log_effects es3). about x \<in> mkeys ps"
    by (rule tick_paths_total [OF k(3), of p now g1])
  then have k2: "\<forall>x \<in> set (log_effects es2). about x \<in> mkeys ps" using s(2) by simp
  obtain e4 g4 es4 where "tick_path p now b f gen = Ok (e4, g4, es4)" "\<forall>x \<in> set (log_effects es4). about x = b"
    by (rule tick_path_is4 [OF k(4)])
  then have k1: "\<forall>x \<in> set (log_effects es1). about x = b" using s(1) by simp
  show ?case
  proof (cases "a = b")
    case True
    then have "of_path a (log_effects es2) = []" "e = f" using k k2 Cons.prems(3) by (auto simp: of_path_def x mget_def filter_empty_conv)
    with True s(1) r show ?thesis by (auto simp: mget_def)
  next
    case False
    then have "of_path a (log_effects es1) = []" using k1 by (auto simp: of_path_def filter_empty_conv)
    with Cons.IH [OF k(2,3) _ s(2)] Cons.prems(3) False r show ?thesis by (auto simp: x mget_def)
  qed
qed simp

definition ipv4_paths :: "path_prober \<Rightarrow> bool" where
  "ipv4_paths p \<longleftrightarrow> mok (pp_paths p) \<and> (\<forall>a \<in> mkeys (pp_paths p). is4 a)"

definition same_settings :: "path_prober \<Rightarrow> path_prober \<Rightarrow> bool" where
  "same_settings p p' \<longleftrightarrow> p' = p\<lparr>pp_paths := pp_paths p', pp_seqGen := pp_seqGen p'\<rparr>"

lemma prober_tick_at:
  assumes "ipv4_paths p" "mget (pp_paths p) a = Some e"
  obtains p' es e' g g' es1 where "prober_tick now p = Ok (p', es)" "tick_path p now a e g = Ok (e', g', es1)"
    "mget (pp_paths p') a = Some e'" "of_path a (log_effects es) = of_path a (log_effects es1)" "ipv4_paths p'" "same_settings p p'"
proof -
  have i: "mok (pp_paths p)" "\<forall>a \<in> mkeys (pp_paths p). is4 a" using assms(1) by (auto simp: ipv4_paths_def)
  obtain ps' gen' es where t: "tick_paths p now (pp_seqGen p) (pp_paths p) = Ok (ps', gen', es)" "map fst ps' = map fst (pp_paths p)"
    by (rule tick_paths_total [OF i(2), of p now "pp_seqGen p"])
  obtain e' g g' es1 where "tick_path p now a e g = Ok (e', g', es1)" "mget ps' a = Some e'"
    "of_path a (log_effects es) = of_path a (log_effects es1)"
    using tick_paths_at [OF i assms(2) t(1)] by blast
  moreover have "mkeys ps' = mkeys (pp_paths p)" using t(2) by (simp only: mkeys_def set_map [symmetric])
  then have "ipv4_paths (p\<lparr>pp_paths := ps', pp_seqGen := gen'\<rparr>)" using i t(2) by (simp add: ipv4_paths_def mok_def)
  ultimately show thesis using t(1)
    by (intro that [of "p\<lparr>pp_paths := ps', pp_seqGen := gen'\<rparr>" es]) (auto simp: prober_tick_def same_settings_def)
qed

lemma tick_path_settings: "same_settings p p' \<Longrightarrow> tick_path p' now a e g = tick_path p now a e g"
  unfolding same_settings_def by (erule ssubst) (simp add: tick_path_def)

lemma same_settings_fields:
  "same_settings p p' \<Longrightarrow> pp_n3Requests p' = pp_n3Requests p \<and> pp_t3Response p' = pp_t3Response p \<and>
     pp_probeInterval p' = pp_probeInterval p \<and> pp_onFailed p' = pp_onFailed p"
  unfolding same_settings_def by (erule ssubst) simp

lemma tick_retransmits:
  assumes "tick_path p now a e g = Ok (e', g', es)" "pe_nextAction e \<le> now" "0 < pe_roundSent e" "\<not> pe_roundResponded e"
    "pe_roundSent e < pp_n3Requests p"
  shows "e' = e\<lparr>pe_roundSent := pe_roundSent e + 1, pe_nextAction := now + pp_t3Response p\<rparr> \<and> log_effects es = [LSent a (pe_roundSeq e)]"
  using assms by (auto simp: tick_path_def obind_Ok_iff sendEcho_Ok)

lemma tick_gives_up:
  assumes "tick_path p now a e g = Ok (e', g', es)" "pe_nextAction e \<le> now" "0 < pe_roundSent e" "\<not> pe_roundResponded e"
    "pe_roundSent e = pp_n3Requests p"
  shows "e' = e\<lparr>pe_failed := True, pe_roundSent := 0, pe_nextAction := now + pp_probeInterval p\<rparr> \<and>
    log_effects es = (if pe_failed e \<or> \<not> pp_onFailed p then [] else [LFailed a])"
  using assms by (auto simp: tick_path_def)

abbreviation (input) ticks_of :: "path_prober \<Rightarrow> gtime \<Rightarrow> nat \<Rightarrow> nat \<Rightarrow> prober_event list" where
  "ticks_of p now k n \<equiv> map (\<lambda>j. ProbeTick (now + int j * pp_t3Response p)) [k..<Suc n]"

lemma silent_ticks:
  assumes "k \<le> n" "0 < k" "ipv4_paths p" "mget (pp_paths p) a = Some e" "pe_roundSent e = int k" "\<not> pe_roundResponded e"
    "pe_nextAction e = now + int k * pp_t3Response p" "pp_n3Requests p = int n"
  shows "\<exists>p' l e'. prober_run (ticks_of p now k n) p = Ok (p', l) \<and>
    of_path a l = replicate (n - k) (LSent a (pe_roundSeq e)) @ (if pe_failed e \<or> \<not> pp_onFailed p then [] else [LFailed a]) \<and>
    mget (pp_paths p') a = Some e' \<and> pe_failed e' \<and> pe_nextAction e' = now + int n * pp_t3Response p + pp_probeInterval p"
  using assms
proof (induction "n - k" arbitrary: k p e)
  case 0
  then have k: "k = n" by simp
  obtain p' es e' g g' es1 where t: "prober_tick (now + int n * pp_t3Response p) p = Ok (p', es)"
    "tick_path p (now + int n * pp_t3Response p) a e g = Ok (e', g', es1)" "mget (pp_paths p') a = Some e'"
    "of_path a (log_effects es) = of_path a (log_effects es1)"
    by (rule prober_tick_at [OF 0(4,5)])
  from tick_gives_up [OF t(2)] 0(3-) t(1,3,4) show ?case
    by (auto simp: k prober_do_def log_event_def)
next
  case (Suc m)
  then have kn: "k < n" by simp
  obtain p1 es e1 g g' es1 where t: "prober_tick (now + int k * pp_t3Response p) p = Ok (p1, es)"
    "tick_path p (now + int k * pp_t3Response p) a e g = Ok (e1, g', es1)" "mget (pp_paths p1) a = Some e1"
    "of_path a (log_effects es) = of_path a (log_effects es1)" "ipv4_paths p1" "same_settings p p1"
    by (rule prober_tick_at [OF Suc.prems(3,4)])
  from tick_retransmits [OF t(2)] kn Suc.prems
  have e1: "e1 = e\<lparr>pe_roundSent := int k + 1, pe_nextAction := now + int k * pp_t3Response p + pp_t3Response p\<rparr>"
    "log_effects es1 = [LSent a (pe_roundSeq e)]" by auto
  note f = same_settings_fields [OF t(6)]
  have "\<exists>p' l e'. prober_run (ticks_of p1 now (Suc k) n) p1 = Ok (p', l) \<and>
    of_path a l = replicate (n - Suc k) (LSent a (pe_roundSeq e1)) @ (if pe_failed e1 \<or> \<not> pp_onFailed p1 then [] else [LFailed a]) \<and>
    mget (pp_paths p') a = Some e' \<and> pe_failed e' \<and> pe_nextAction e' = now + int n * pp_t3Response p1 + pp_probeInterval p1"
    by (rule Suc.hyps(1)) (use Suc kn t f e1 in \<open>auto simp: algebra_simps\<close>)
  moreover have "ticks_of p now k n = ProbeTick (now + int k * pp_t3Response p) # ticks_of p now (Suc k) n"
    using kn by (simp add: upt_conv_Cons)
  moreover have "n - k = Suc (n - Suc k)" using kn by simp
  ultimately show ?case using t(1,4) e1 f by (auto simp: prober_do_def log_event_def)
qed

lemma round_starts:
  assumes "tick_path p now a e g = Ok (e', g', es)" "pe_nextAction e \<le> now" "pe_roundSent e = 0"
  shows "e' = e\<lparr>pe_roundSeq := pe_roundSeq e', pe_roundSent := 1, pe_roundResponded := False, pe_nextAction := now + pp_t3Response p\<rparr> \<and>
    log_effects es = [LSent a (pe_roundSeq e')]"
  using assms by (auto simp: tick_path_def obind_Ok_iff sendEcho_Ok nextSeqLocked_def)

text \<open>
  C13: a peer that does not answer is detected: from the start of a round, N3-REQUESTS + 1 ticks that are T3-RESPONSE apart send it
  exactly N3-REQUESTS Echo Requests of one sequence number and then declare the path failed (once, if it was not already),
  whatever the other paths do; the next round starts no sooner than the probe interval later.
\<close>

theorem unanswered_path_detected:
  assumes "ipv4_paths p" "mget (pp_paths p) a = Some e" "pe_roundSent e = 0" "pe_nextAction e \<le> now" "1 \<le> pp_n3Requests p"
  shows "\<exists>p' l q e'. prober_run (map (\<lambda>j. ProbeTick (now + int j * pp_t3Response p)) [0..<Suc (nat (pp_n3Requests p))]) p = Ok (p', l) \<and>
    of_path a l = replicate (nat (pp_n3Requests p)) (LSent a q) @ (if pe_failed e \<or> \<not> pp_onFailed p then [] else [LFailed a]) \<and>
    mget (pp_paths p') a = Some e' \<and> pe_failed e' \<and>
    pe_nextAction e' = now + pp_n3Requests p * pp_t3Response p + pp_probeInterval p"
proof -
  obtain p1 es e1 g g' es1 where t: "prober_tick now p = Ok (p1, es)" "tick_path p now a e g = Ok (e1, g', es1)"
    "mget (pp_paths p1) a = Some e1" "of_path a (log_effects es) = of_path a (log_effects es1)" "ipv4_paths p1" "same_settings p p1"
    by (rule prober_tick_at [OF assms(1,2)])
  note e1 = round_starts [OF t(2) assms(4,3)] and f = same_settings_fields [OF t(6)]
  let ?n = "nat (pp_n3Requests p)"
  have "pe_roundSent e1 = int 1" "\<not> pe_roundResponded e1" "pe_nextAction e1 = now + int 1 * pp_t3Response p1" "pe_failed e1 = pe_failed e"
    using e1 f by (cases e1; cases e; simp)+
  with silent_ticks [of 1 ?n p1 a e1 now] t f assms(5) obtain p' l e' where
    "prober_run (ticks_of p now 1 ?n) p1 = Ok (p', l)"
    "of_path a l = replicate (?n - 1) (LSent a (pe_roundSeq e1)) @ (if pe_failed e \<or> \<not> pp_onFailed p then [] else [LFailed a])"
    "mget (pp_paths p') a = Some e'" "pe_failed e'" "pe_nextAction e' = now + int ?n * pp_t3Response p + pp_probeInterval p"
    by auto
  moreover have "ticks_of p now 0 ?n = ProbeTick now # ticks_of p now 1 ?n" by (simp add: upt_conv_Cons del: upt_Suc)
  moreover have "?n = Suc (?n - 1)" using assms(5) by simp
  then have "replicate ?n (LSent a (pe_roundSeq e1)) = LSent a (pe_roundSeq e1) # replicate (?n - 1) (LSent a (pe_roundSeq e1))"
    by (metis replicate_Suc)
  ultimately have "prober_run (ticks_of p now 0 ?n) p = Ok (p', log_effects es @ l)"
    "of_path a (log_effects es @ l) = replicate ?n (LSent a (pe_roundSeq e1)) @ (if pe_failed e \<or> \<not> pp_onFailed p then [] else [LFailed a])"
    "mget (pp_paths p') a = Some e'" "pe_failed e'" "pe_nextAction e' = now + pp_n3Requests p * pp_t3Response p + pp_probeInterval p"
    using t(1,4) e1 assms(5) by (simp_all add: prober_do_def log_event_def del: upt_Suc)
  then show ?thesis by blast
qed

theorem unanswered_path_detected_witness:
  "let p = prober_Add sample_peer sample_prober in
   \<exists>p' l q. prober_run (map (\<lambda>j. ProbeTick (1 + int j * pp_t3Response p)) [0..<Suc (nat (pp_n3Requests p))]) p = Ok (p', l) \<and>
     of_path sample_peer l = replicate (nat (pp_n3Requests p)) (LSent sample_peer q) @ [LFailed sample_peer]"
proof -
  let ?p = "prober_Add sample_peer sample_prober"
  have "ipv4_paths ?p" "mget (pp_paths ?p) sample_peer = Some new_path" "pe_roundSent new_path = 0" "pe_nextAction new_path \<le> 1"
    "1 \<le> pp_n3Requests ?p" "\<not> pe_failed new_path" "pp_onFailed ?p"
    by (simp_all add: ipv4_paths_def prober_Add_def sample_prober_def NewPathProber_def map_simps new_path_def mok_keeps mkeys_def
        mput_def sample_peer_def mok_def mget_def)
  then show ?thesis using unanswered_path_detected [of ?p sample_peer new_path 1] by (auto simp: Let_def)
qed

end
