(* ===== verification/SGWU_Config.thy ===== *)
theory SGWU_Config
  imports SGWC_Config GTPU_Forwarder
begin

text \<open>
  The configuration of the SGW-U, \<^verbatim>\<open>internal/config/sgwu\<close>: the structures of the YAML file, the
  defaults, the validation and the addresses derived from the listen addresses. The decoder and the file system are an argument of
  \<open>Load\<close>. A \<^verbatim>\<open>zero_\<close> constant is the zero value of its Go structure; the order of a
  map is the order of the list.
\<close>

section \<open>Structures\<close>

record uconf_sgwu =
  ws_NodeID :: string

record uconf_pfcp =
  wp_Listen :: string
  wp_AllowedSGWC :: "string list"

record uconf_user_interface =
  wui_Ifname :: string
  wui_Listen :: string

record uconf_interface =
  wi_User :: "(string, uconf_user_interface) gomap"

record uconf_gtpu_logical =
  wgl_Bind :: string

record uconf_gtpu =
  wg_S1U :: uconf_gtpu_logical
  wg_S5U :: uconf_gtpu_logical

record uconf_dataplane =
  wd_DriverMode :: string
  wd_UnknownTEID :: string
  wd_AttachOnStart :: bool
  wd_CleanupOnExit :: bool
  wd_MapMaxEntries :: int

record uconf_protocol_marking =
  wpm_Enabled :: bool
  wpm_DSCP :: int

record uconf_outer_marking =
  wom_Enabled :: bool
  wom_GTPU :: uconf_protocol_marking
  wom_PFCP :: uconf_protocol_marking

record uconf_qci_marking =
  wqm_Enabled :: bool
  wqm_OverrideDefaultGTPU :: bool
  wqm_DefaultGTPUDSCP :: int
  wqm_UnknownTEIDDSCP :: int
  wqm_TrustInnerDSCP :: bool
  wqm_QCIToDSCP :: "(int, int) gomap"

record uconf_qos =
  wq_OuterMarking :: uconf_outer_marking
  wq_QCIMarking :: uconf_qci_marking

record uconf_logging =
  wl_Level :: string
  wl_File :: string

record uconf_api =
  wa_Listen :: string

record uconf_metrics =
  wm_Listen :: string

record uconf_shutdown =
  wsh_TimeoutSeconds :: int

record sgwu_yaml =
  w_SGWU :: uconf_sgwu
  w_PFCP :: uconf_pfcp
  w_Interfaces :: uconf_interface
  w_GTPU :: uconf_gtpu
  w_Dataplane :: uconf_dataplane
  w_QoS :: uconf_qos
  w_Logging :: uconf_logging
  w_API :: uconf_api
  w_Metrics :: uconf_metrics
  w_Shutdown :: uconf_shutdown

section \<open>Defaults\<close>

definition zero_uconf_sgwu :: uconf_sgwu where
  "zero_uconf_sgwu =
     \<lparr>ws_NodeID = []\<rparr>"

definition zero_uconf_pfcp :: uconf_pfcp where
  "zero_uconf_pfcp =
     \<lparr>wp_Listen = [], wp_AllowedSGWC = []\<rparr>"

definition zero_uconf_interface :: uconf_interface where
  "zero_uconf_interface =
     \<lparr>wi_User = []\<rparr>"

definition zero_uconf_gtpu_logical :: uconf_gtpu_logical where
  "zero_uconf_gtpu_logical =
     \<lparr>wgl_Bind = []\<rparr>"

definition zero_uconf_gtpu :: uconf_gtpu where
  "zero_uconf_gtpu =
     \<lparr>wg_S1U = zero_uconf_gtpu_logical, wg_S5U = zero_uconf_gtpu_logical\<rparr>"

definition zero_uconf_dataplane :: uconf_dataplane where
  "zero_uconf_dataplane =
     \<lparr>wd_DriverMode = [], wd_UnknownTEID = [], wd_AttachOnStart = False, wd_CleanupOnExit = False, wd_MapMaxEntries
     = 0\<rparr>"

definition zero_uconf_protocol_marking :: uconf_protocol_marking where
  "zero_uconf_protocol_marking =
     \<lparr>wpm_Enabled = False, wpm_DSCP = 0\<rparr>"

definition zero_uconf_outer_marking :: uconf_outer_marking where
  "zero_uconf_outer_marking =
     \<lparr>wom_Enabled = False, wom_GTPU = zero_uconf_protocol_marking, wom_PFCP = zero_uconf_protocol_marking\<rparr>"

definition zero_uconf_qci_marking :: uconf_qci_marking where
  "zero_uconf_qci_marking =
     \<lparr>wqm_Enabled = False, wqm_OverrideDefaultGTPU = False, wqm_DefaultGTPUDSCP = 0, wqm_UnknownTEIDDSCP = 0,
     wqm_TrustInnerDSCP = False, wqm_QCIToDSCP = []\<rparr>"

definition zero_uconf_qos :: uconf_qos where
  "zero_uconf_qos =
     \<lparr>wq_OuterMarking = zero_uconf_outer_marking, wq_QCIMarking = zero_uconf_qci_marking\<rparr>"

definition zero_uconf_logging :: uconf_logging where
  "zero_uconf_logging =
     \<lparr>wl_Level = [], wl_File = []\<rparr>"

definition zero_uconf_api :: uconf_api where
  "zero_uconf_api =
     \<lparr>wa_Listen = []\<rparr>"

definition zero_uconf_metrics :: uconf_metrics where
  "zero_uconf_metrics =
     \<lparr>wm_Listen = []\<rparr>"

definition zero_uconf_shutdown :: uconf_shutdown where
  "zero_uconf_shutdown =
     \<lparr>wsh_TimeoutSeconds = 0\<rparr>"

definition zero_sgwu_yaml :: sgwu_yaml where
  "zero_sgwu_yaml =
     \<lparr>w_SGWU = zero_uconf_sgwu, w_PFCP = zero_uconf_pfcp, w_Interfaces = zero_uconf_interface, w_GTPU =
     zero_uconf_gtpu, w_Dataplane = zero_uconf_dataplane, w_QoS = zero_uconf_qos, w_Logging = zero_uconf_logging, w_API =
     zero_uconf_api, w_Metrics = zero_uconf_metrics, w_Shutdown = zero_uconf_shutdown\<rparr>"

definition sgwu_default_dataplane :: uconf_dataplane where
  "sgwu_default_dataplane =
     \<lparr>wd_DriverMode = ''xdp-generic'', wd_UnknownTEID = ''punt'', wd_AttachOnStart = True, wd_CleanupOnExit = True,
     wd_MapMaxEntries = 65536\<rparr>"

definition sgwu_default_qci_marking :: uconf_qci_marking where
  "sgwu_default_qci_marking =
     \<lparr>wqm_Enabled = True, wqm_OverrideDefaultGTPU = True, wqm_DefaultGTPUDSCP = 0, wqm_UnknownTEIDDSCP = 0,
     wqm_TrustInnerDSCP = False, wqm_QCIToDSCP = [(1, 46), (2, 34), (3, 26), (4, 26), (5, 40), (6, 18), (7, 26), (8, 0),
     (9, 0)]\<rparr>"

definition Default_sgwu_yaml :: sgwu_yaml where
  "Default_sgwu_yaml =
     zero_sgwu_yaml\<lparr>w_Dataplane := sgwu_default_dataplane, w_QoS := \<lparr>wq_OuterMarking = \<lparr>wom_Enabled =
     True, wom_GTPU = \<lparr>wpm_Enabled = True, wpm_DSCP = 0\<rparr>, wom_PFCP = \<lparr>wpm_Enabled = True, wpm_DSCP =
     40\<rparr>\<rparr>, wq_QCIMarking = sgwu_default_qci_marking\<rparr>, w_Logging := zero_uconf_logging\<lparr>wl_Level
     := ''info''\<rparr>, w_API := \<lparr>wa_Listen = ''127.0.0.1:8081''\<rparr>, w_Metrics := \<lparr>wm_Listen =
     ''127.0.0.1:9091''\<rparr>, w_Shutdown := \<lparr>wsh_TimeoutSeconds = 5\<rparr>\<rparr>"

section \<open>Addresses\<close>

datatype listen_error = SplitListen string | ParseListen string

definition listenHostAddr :: "string \<Rightarrow> (listen_error, ip_addr) outcome" where
  "listenHostAddr listen = (case splitHostPort listen of
     None \<Rightarrow> Fail (SplitListen listen)
   | Some (host, _) \<Rightarrow> (case parseAddr host of None \<Rightarrow> Fail (ParseListen host) | Some a \<Rightarrow> Ok (unmap_ip a)))"

definition user_interface :: "sgwu_yaml \<Rightarrow> string \<Rightarrow> uconf_user_interface" where
  "user_interface c bnd = (case mget (wi_User (w_Interfaces c)) bnd of Some i \<Rightarrow> i | None \<Rightarrow> \<lparr>wui_Ifname = [], wui_Listen = []\<rparr>)"

definition S1UInterface :: "sgwu_yaml \<Rightarrow> uconf_user_interface" where
  "S1UInterface c = user_interface c (wgl_Bind (wg_S1U (w_GTPU c)))"

definition S5UInterface :: "sgwu_yaml \<Rightarrow> uconf_user_interface" where
  "S5UInterface c = user_interface c (wgl_Bind (wg_S5U (w_GTPU c)))"

definition GTPUListen :: "sgwu_yaml \<Rightarrow> string" where "GTPUListen c = wui_Listen (S1UInterface c)"

definition S1ULocalAddr :: "sgwu_yaml \<Rightarrow> (listen_error, ip_addr) outcome" where
  "S1ULocalAddr c = listenHostAddr (wui_Listen (S1UInterface c))"

definition S5ULocalAddr :: "sgwu_yaml \<Rightarrow> (listen_error, ip_addr) outcome" where
  "S5ULocalAddr c = listenHostAddr (wui_Listen (S5UInterface c))"

definition is_unspecified :: "ip_addr \<Rightarrow> bool" where
  "is_unspecified a \<longleftrightarrow> a = IP4 0 \<or> a = IP6 0"

section \<open>Validation\<close>

definition sgwu_validateDSCP :: "string \<Rightarrow> int \<Rightarrow> (config_error, unit) outcome" where
  "sgwu_validateDSCP path dscp = reject_if (dscp < 0 \<or> dscp > 63) (path @ '' must be in range 0-63, got '' @ conf_int dscp)"

definition validateQCIMarking :: "sgwu_yaml \<Rightarrow> (config_error, unit) outcome" where
  "validateQCIMarking c = (let qci = wq_QCIMarking (w_QoS c) in first_error ([
     reject_if (wqm_TrustInnerDSCP qci) ''qos.qci_marking.trust_inner_dscp is not supported in Phase 2'',
     sgwu_validateDSCP ''qos.qci_marking.default_gtpu_dscp'' (wqm_DefaultGTPUDSCP qci),
     sgwu_validateDSCP ''qos.qci_marking.unknown_teid_dscp'' (wqm_UnknownTEIDDSCP qci)] @
     map (\<lambda>(q, dscp). first_error [
       reject_if (q < 1 \<or> q > 255) (''qos.qci_marking.qci_to_dscp QCI must be in range 1-255, got '' @ conf_int q),
       sgwu_validateDSCP (''qos.qci_marking.qci_to_dscp['' @ conf_int q @ '']'') dscp]) (wqm_QCIToDSCP qci)))"

definition user_interface_ok :: "string \<times> uconf_user_interface \<Rightarrow> (config_error, unit) outcome" where
  "user_interface_ok e = (case e of (name, i) \<Rightarrow> first_error [
     reject_if (wui_Ifname i = []) (''interfaces.user.'' @ name @ ''.ifname is required''),
     reject_if (wui_Listen i = []) (''interfaces.user.'' @ name @ ''.listen is required''),
     (case listenHostAddr (wui_Listen i) of Ok _ \<Rightarrow> Ok () | Panic \<Rightarrow> Panic
      | Fail _ \<Rightarrow> Fail (ConfGot (''interfaces.user.'' @ name @ ''.listen is invalid'') (wui_Listen i)))])"

text \<open>One of the two bindings, with the address it resolves to.\<close>

definition gtpu_bind_ok :: "sgwu_yaml \<Rightarrow> string \<Rightarrow> string \<Rightarrow> (listen_error, ip_addr) outcome \<Rightarrow> (config_error, unit) outcome" where
  "gtpu_bind_ok c path bnd la =
     (if bnd = [] then Fail (Conf (path @ '' is required''))
      else if mget (wi_User (w_Interfaces c)) bnd = None then Fail (ConfGot (path @ '' does not reference interfaces.user'') bnd)
      else case la of
        Ok a \<Rightarrow> (if is_unspecified a then Fail (ConfGot (path @ '' must not use an unspecified listen IP'') bnd)
                else if \<not> is4 a then Fail (ConfGot (path @ '' must use an IPv4 listen IP'') bnd) else Ok ())
      | Fail _ \<Rightarrow> Fail (ConfGot (path @ '' has invalid listen address'') bnd)
      | Panic \<Rightarrow> Panic)"

definition sgwu_Validate :: "sgwu_yaml \<Rightarrow> (config_error, unit) outcome" where
  "sgwu_Validate c = first_error ([
     reject_if (ws_NodeID (w_SGWU c) = []) ''sgwu.node_id is required'',
     reject_if (wp_Listen (w_PFCP c) = []) ''pfcp.listen is required'',
     reject_if (wp_AllowedSGWC (w_PFCP c) = []) ''pfcp.allowed_sgwc must list at least one SGW-C address''] @
     map user_interface_ok (wi_User (w_Interfaces c)) @ [
     gtpu_bind_ok c ''gtpu.s1u.bind'' (wgl_Bind (wg_S1U (w_GTPU c))) (S1ULocalAddr c),
     gtpu_bind_ok c ''gtpu.s5u.bind'' (wgl_Bind (wg_S5U (w_GTPU c))) (S5ULocalAddr c),
     (if wd_DriverMode (w_Dataplane c) \<in> set [[], ''generic'', ''native'', ''xdp-generic'', ''xdp-native'', ''xdp-offload''] then Ok ()
      else Fail (ConfGot ''dataplane.driver_mode must be xdp-generic, xdp-native, or xdp-offload'' (wd_DriverMode (w_Dataplane c)))),
     (if wd_UnknownTEID (w_Dataplane c) \<in> set [''punt'', ''drop''] then Ok ()
      else Fail (ConfGot ''dataplane.unknown_teid must be punt or drop'' (wd_UnknownTEID (w_Dataplane c)))),
     reject_if (wd_MapMaxEntries (w_Dataplane c) \<le> 0) ''dataplane.map_max_entries must be positive'',
     sgwu_validateDSCP ''qos.outer_marking.gtpu.dscp'' (wpm_DSCP (wom_GTPU (wq_OuterMarking (w_QoS c)))),
     sgwu_validateDSCP ''qos.outer_marking.pfcp.dscp'' (wpm_DSCP (wom_PFCP (wq_OuterMarking (w_QoS c)))),
     validateQCIMarking c])"

section \<open>Loading\<close>

definition sgwu_Load :: "(string \<Rightarrow> sgwu_yaml \<Rightarrow> ('e, sgwu_yaml) outcome) \<Rightarrow> string \<Rightarrow> ('e load_error, sgwu_yaml) outcome" where
  "sgwu_Load dec path =
     (case dec (if path = [] then ''/etc/vectorcore/sgw/sgw-u.yaml'' else path) Default_sgwu_yaml of
        Ok c \<Rightarrow> (case sgwu_Validate c of Ok _ \<Rightarrow> Ok c | Fail e \<Rightarrow> Fail (LoadInvalid e) | Panic \<Rightarrow> Panic)
      | Fail e \<Rightarrow> Fail (LoadFile e) | Panic \<Rightarrow> Panic)"

text \<open>What \<^verbatim>\<open>main\<close> makes of the QCI marking: the keys and values of the map become bytes.\<close>

definition qciToDSCPMap :: "(int, int) gomap \<Rightarrow> (u8, u8) gomap" where
  "qciToDSCPMap m = foldl (\<lambda>out (q, d). mput (of_int q) (of_int d) out) [] m"


section \<open>A loaded configuration\<close>

lemma first_error_Ok: "first_error rs = Ok u \<longleftrightarrow> (\<forall>r \<in> set rs. r = Ok ())"
  by (induction rs) (auto split: outcome.splits)

lemma reject_if_Ok [simp]: "reject_if b msg = Ok u \<longleftrightarrow> \<not> b"
  by (simp add: reject_if_def)

lemma sgwu_Load_Ok: "sgwu_Load dec path = Ok c \<Longrightarrow> sgwu_Validate c = Ok ()"
  by (auto simp: sgwu_Load_def split: outcome.splits)

lemma gtpu_bind_Ok:
  "gtpu_bind_ok c path bnd la = Ok u \<longleftrightarrow> bnd \<noteq> [] \<and> mget (wi_User (w_Interfaces c)) bnd \<noteq> None \<and> (\<exists>w. la = Ok (IP4 w) \<and> w \<noteq> 0)"
proof -
  have "is4 a \<and> \<not> is_unspecified a \<longleftrightarrow> (\<exists>w. a = IP4 w \<and> w \<noteq> 0)" for a by (cases a) (auto simp: is_unspecified_def)
  then show ?thesis by (auto simp: gtpu_bind_ok_def split: outcome.splits)
qed

lemma byte_range: "0 \<le> i \<Longrightarrow> i \<le> 255 \<Longrightarrow> uint (of_int i :: u8) = i"
  by (simp add: uint_word_of_int take_bit_int_eq_self)

lemma qci_map_foldl:
  assumes "\<forall>(q, d) \<in> set m. 1 \<le> q \<and> q \<le> 255" "mok m"
  shows "mget (foldl (\<lambda>out (q, d). mput (of_int q) (of_int d) out) acc m) (k :: u8) =
    (case mget m (uint k) of Some d \<Rightarrow> Some (of_int d :: u8) | None \<Rightarrow> mget acc k)"
  using assms
proof (induction m arbitrary: acc)
  case (Cons x m)
  obtain q d where x: "x = (q, d)" by force
  have q: "uint (of_int q :: u8) = q" using Cons.prems(1) byte_range [of q] by (simp add: x)
  then have eq: "k = of_int q \<longleftrightarrow> uint k = q" using of_int_uint [of k] by auto
  have "mget m q = None" using Cons.prems(2) by (simp add: x mok_def mget_def map_of_eq_None_iff)
  moreover have "mget ((q, d) # m) i = (if i = q then Some d else mget m i)" for i by (simp add: mget_def)
  ultimately show ?case using Cons.IH [of "mput (of_int q) (of_int d) acc"] Cons.prems eq
    by (auto simp: x map_simps mok_def split: option.splits)
qed simp

lemma qci_map_exact:
  assumes "\<forall>(q, d) \<in> set m. 1 \<le> q \<and> q \<le> 255" "mok m"
  shows "mget (qciToDSCPMap m) k = map_option of_int (mget m (uint k))"
  using qci_map_foldl [OF assms, of "[]" k] by (simp add: qciToDSCPMap_def option.case_eq_if map_option_case)

text \<open>
  C15: a configuration of the SGW-U that is loaded gives two specific IPv4 addresses for the GTP-U sockets, a positive map capacity
  and DSCP values of six bits, and the QCI marking survives its conversion to bytes: the compiler sees for every QCI
  exactly the DSCP that was configured.
\<close>

theorem sgwu_loaded_configuration_sound:
  assumes "sgwu_Load dec path = Ok c" "mok (wqm_QCIToDSCP (wq_QCIMarking (w_QoS c)))"
  shows "(\<exists>a. S1ULocalAddr c = Ok (IP4 a) \<and> a \<noteq> 0) \<and> (\<exists>a. S5ULocalAddr c = Ok (IP4 a) \<and> a \<noteq> 0) \<and>
    wd_MapMaxEntries (w_Dataplane c) > 0 \<and>
    (\<forall>d \<in> {wpm_DSCP (wom_GTPU (wq_OuterMarking (w_QoS c))), wpm_DSCP (wom_PFCP (wq_OuterMarking (w_QoS c))),
        wqm_DefaultGTPUDSCP (wq_QCIMarking (w_QoS c)), wqm_UnknownTEIDDSCP (wq_QCIMarking (w_QoS c))}. 0 \<le> d \<and> d \<le> 63) \<and>
    (\<forall>k. mget (qciToDSCPMap (wqm_QCIToDSCP (wq_QCIMarking (w_QoS c)))) k =
       map_option of_int (mget (wqm_QCIToDSCP (wq_QCIMarking (w_QoS c))) (uint k))) \<and>
    (\<forall>k d. mget (qciToDSCPMap (wqm_QCIToDSCP (wq_QCIMarking (w_QoS c)))) k = Some d \<longrightarrow> d \<le> 63)"
proof -
  let ?m = "wqm_QCIToDSCP (wq_QCIMarking (w_QoS c))"
  have v: "sgwu_Validate c = Ok ()" by (rule sgwu_Load_Ok [OF assms(1)])
  have q: "validateQCIMarking c = Ok ()" using v by (simp add: sgwu_Validate_def first_error_Ok del: first_error.simps)
  have r: "\<forall>(q, d) \<in> set ?m. 1 \<le> q \<and> q \<le> 255 \<and> 0 \<le> d \<and> d \<le> 63"
  proof (rule ballI)
    fix x assume x: "x \<in> set ?m"
    obtain q d where "x = (q, d)" by force
    with x q show "case x of (q, d) \<Rightarrow> 1 \<le> q \<and> q \<le> 255 \<and> 0 \<le> d \<and> d \<le> 63"
      unfolding validateQCIMarking_def Let_def first_error_Ok
      by (auto dest!: bspec [OF _ image_eqI [OF _ x]] simp: first_error_Ok sgwu_validateDSCP_def simp del: first_error.simps)
  qed
  then have e: "mget (qciToDSCPMap ?m) k = map_option of_int (mget ?m (uint k))" for k
    by (intro qci_map_exact assms(2)) auto
  have "d \<le> 63" if "mget (qciToDSCPMap ?m) k = Some d" for k d
  proof -
    have "map_option (of_int :: int \<Rightarrow> u8) (mget ?m (uint k)) = Some d" by (rule trans [OF e [symmetric] that])
    then obtain i where i: "mget ?m (uint k) = Some i" "d = of_int i" by (cases "mget ?m (uint k)") auto
    then have "0 \<le> i" "i \<le> 63" using r mget_mem by fastforce+
    then show ?thesis using i(2) byte_range [of i] by (simp add: word_le_def)
  qed
  moreover have "0 \<le> wqm_DefaultGTPUDSCP (wq_QCIMarking (w_QoS c)) \<and> wqm_DefaultGTPUDSCP (wq_QCIMarking (w_QoS c)) \<le> 63 \<and>
      0 \<le> wqm_UnknownTEIDDSCP (wq_QCIMarking (w_QoS c)) \<and> wqm_UnknownTEIDDSCP (wq_QCIMarking (w_QoS c)) \<le> 63"
    using q by (simp add: validateQCIMarking_def Let_def first_error_Ok sgwu_validateDSCP_def del: first_error.simps)
  moreover have "(\<exists>a. S1ULocalAddr c = Ok (IP4 a) \<and> a \<noteq> 0) \<and> (\<exists>a. S5ULocalAddr c = Ok (IP4 a) \<and> a \<noteq> 0) \<and>
      wd_MapMaxEntries (w_Dataplane c) > 0 \<and>
      0 \<le> wpm_DSCP (wom_GTPU (wq_OuterMarking (w_QoS c))) \<and> wpm_DSCP (wom_GTPU (wq_OuterMarking (w_QoS c))) \<le> 63 \<and>
      0 \<le> wpm_DSCP (wom_PFCP (wq_OuterMarking (w_QoS c))) \<and> wpm_DSCP (wom_PFCP (wq_OuterMarking (w_QoS c))) \<le> 63"
    using v by (simp add: sgwu_Validate_def first_error_Ok gtpu_bind_Ok sgwu_validateDSCP_def del: first_error.simps)
  ultimately show ?thesis using e by blast
qed

text \<open>The file of a node with one interface for S1-U and another for S5/S8-U.\<close>

definition sample_sgwu_yaml :: "sgwu_yaml \<Rightarrow> sgwu_yaml" where
  "sample_sgwu_yaml c = c\<lparr>w_SGWU := \<lparr>ws_NodeID = ''u1''\<rparr>, w_PFCP := \<lparr>wp_Listen = ''10.0.0.2:8805'', wp_AllowedSGWC = [''10.0.0.1'']\<rparr>,
     w_Interfaces := \<lparr>wi_User = [(''access'', \<lparr>wui_Ifname = ''eth1'', wui_Listen = ''10.1.0.2:2152''\<rparr>),
       (''core'', \<lparr>wui_Ifname = ''eth2'', wui_Listen = ''10.2.0.2:2152''\<rparr>)]\<rparr>,
     w_GTPU := \<lparr>wg_S1U = \<lparr>wgl_Bind = ''access''\<rparr>, wg_S5U = \<lparr>wgl_Bind = ''core''\<rparr>\<rparr>\<rparr>"

lemma sample_sgwu_loads: "sgwu_Load (\<lambda>_ c. Ok (sample_sgwu_yaml c) :: (unit, sgwu_yaml) outcome) [] = Ok (sample_sgwu_yaml Default_sgwu_yaml)"
  by code_simp

theorem sgwu_loaded_configuration_sound_witness:
  "mget (qciToDSCPMap (wqm_QCIToDSCP (wq_QCIMarking (w_QoS (sample_sgwu_yaml Default_sgwu_yaml))))) 1 = Some 46"
proof -
  let ?c = "sample_sgwu_yaml Default_sgwu_yaml"
  have m: "wqm_QCIToDSCP (wq_QCIMarking (w_QoS ?c)) = [(1, 46), (2, 34), (3, 26), (4, 26), (5, 40), (6, 18), (7, 26), (8, 0), (9, 0)]"
    by (simp add: sample_sgwu_yaml_def Default_sgwu_yaml_def sgwu_default_qci_marking_def)
  then have "mok (wqm_QCIToDSCP (wq_QCIMarking (w_QoS ?c)))" by (simp add: mok_def)
  from sgwu_loaded_configuration_sound [OF sample_sgwu_loads this] show ?thesis by (simp add: m mget_def)
qed

end
