(* ===== verification/Config_Soundness.thy ===== *)
theory Config_Soundness
  imports SGWC_Config SGWU_Config
begin

text \<open>
  What the SGW-C can rely on after its configuration was loaded: the runtime fields agree with the file, the
  bindings resolve, timers, limits and rules are in range.
\<close>

lemma link_policy_rules [simp]:
  "linkMMERule (linkMMERule r) = linkMMERule r" "linkDDNRule (linkDDNRule d) = linkDDNRule d" "linkBearerRule (linkBearerRule b) = linkBearerRule b"
  by (simp_all add: linkMMERule_def linkDDNRule_def linkBearerRule_def)

lemma link_rules_comp: "linkMMERule \<circ> linkMMERule = linkMMERule" "linkDDNRule \<circ> linkDDNRule = linkDDNRule" "linkBearerRule \<circ> linkBearerRule = linkBearerRule"
  by auto

lemma link_idem: "linkRuntimeAliases (linkRuntimeAliases c) = linkRuntimeAliases c"
  by (simp add: linkRuntimeAliases_def Let_def link_pgw_failure_def link_mme_restoration_def link_ddn_def link_idle_downlink_def
      link_session_recovery_def link_bearer_inactivity_def link_peer_health_def link_rules_comp)

lemma sgwc_Load_Ok: "sgwc_Load dec path = Ok c \<Longrightarrow> sgwc_Validate c = Ok () \<and> linkRuntimeAliases c = c"
  by (auto simp: sgwc_Load_def link_idem split: outcome.splits)

text \<open>The checks one by one.\<close>

lemma Validate_parts:
  assumes "sgwc_Validate c = Ok ()"
  shows "validatePeerHealth c = Ok ()" "validateMMERestoration c = Ok ()" "validateDDN c = Ok ()" "validateIdleDownlink c = Ok ()"
    "validateSessionRecovery c = Ok ()" "validateBearerInactivity c = Ok ()"
    "validateBind c ''gtpc.s11.bind'' (ysl_Bind (yg_S11 (y_GTPC c))) = Ok ()" "validateBind c ''gtpc.s5c.bind'' (ygl_Bind (yg_S5C (y_GTPC c))) = Ok ()"
    "\<forall>(n, i) \<in> set (yi_Control (y_Interfaces c)). yci_Listen i \<noteq> []"
    "yss_T3ResponseSeconds (y_S11 c) > 0" "yss_N3Requests (y_S11 c) > 0" "ypfc_SGWU (y_PFCP c) \<noteq> []"
    "ytc_Mode (yg_TransactionCollision (y_GTPC c)) \<in> {''strict'', ''permissive''}"
    "ytc_ActiveProcedureTimeoutSeconds (yg_TransactionCollision (y_GTPC c)) > 0"
  using assms unfolding sgwc_Validate_def Let_def
  by (auto simp: first_error_Ok simp del: first_error.simps split: if_splits)

lemma validateBind_Ok: "validateBind c path b = Ok u \<longleftrightarrow> b \<noteq> [] \<and> mget (yi_Control (y_Interfaces c)) b \<noteq> None"
  by (auto simp: validateBind_def)

lemma bound_listens:
  assumes "validateBind c path b = Ok u" "\<forall>(n, i) \<in> set (yi_Control (y_Interfaces c)). yci_Listen i \<noteq> []"
  shows "listen_of c b \<noteq> []"
  using assms by (auto simp: validateBind_Ok listen_of_def) (use mget_mem in fastforce)

text \<open>A rule restricts something, and its QCI and priorities are in range.\<close>

definition rule_in_range :: "string \<Rightarrow> u8 \<Rightarrow> conf_arp \<Rightarrow> bool" where
  "rule_in_range apn qci a \<longleftrightarrow> (apn \<noteq> [] \<or> qci \<noteq> 0 \<or> ya_PriorityMin a \<noteq> 0 \<or> ya_PriorityMax a \<noteq> 0) \<and> qci \<le> 9 \<and>
     ya_PriorityMin a \<le> 15 \<and> ya_PriorityMax a \<le> 15 \<and> (ya_PriorityMin a \<noteq> 0 \<and> ya_PriorityMax a \<noteq> 0 \<longrightarrow> ya_PriorityMin a \<le> ya_PriorityMax a)"

lemma validatePolicyRule_Ok: "validatePolicyRule path apn qci a [] 0 = Ok u \<Longrightarrow> rule_in_range apn qci a"
  by (auto simp: validatePolicyRule_def first_error_Ok rule_in_range_def not_less word_not_simps simp del: first_error.simps)

lemma each_rule_Ok: "each_rule f check cls rs = Ok u \<Longrightarrow> r \<in> set rs \<Longrightarrow> \<exists>path. check path r = Ok ()"
proof -
  assume a: "each_rule f check cls rs = Ok u" "r \<in> set rs"
  then obtain i where i: "i < length rs" "rs ! i = r" by (auto simp: in_set_conv_nth)
  then have "(i, r) \<in> set (enumerate 0 rs)" by (auto simp: in_set_enumerate_eq)
  with a(1) have "check (rule_path f cls i) r = Ok ()" by (auto simp: each_rule_def first_error_Ok simp del: first_error.simps)
  then show ?thesis by blast
qed


definition limits_sound :: "sgwc_yaml \<Rightarrow> bool" where
  "limits_sound c \<longleftrightarrow> (let p = yg_PeerHealth (y_GTPC c); d = yg_DDNControl (y_GTPC c); b = yg_BearerInactivity (y_GTPC c) in
     0 < yph_EchoTimeoutSeconds p \<and> yph_EchoTimeoutSeconds p < yph_EchoIntervalSeconds p \<and>
     0 < yph_SuspectAfterMissed p \<and> yph_SuspectAfterMissed p \<le> yph_DownAfterMissed p \<and> 0 < yph_DegradedRTTMS p \<and>
     0 < ydc_PerMMERateLimitPerSecond d \<and> 0 < ydc_PerMMEBurst d \<and> 0 \<le> ydc_PerUESuppressionSeconds d \<and>
     0 < ydc_DelayedQueueMax d \<and> 0 < ydc_DelayedQueuePerMME d \<and> 0 < ydc_DelayedMaxAgeSeconds d \<and>
     0 < yid_ReportThrottleSeconds (yg_IdleDownlink (y_GTPC c)) \<and>
     0 < ymr_CleanupTimeoutSeconds (yg_MMERestoration (y_GTPC c)) \<and>
     0 < ysr_CheckpointIntervalSeconds (yg_SessionRecovery (y_GTPC c)) \<and>
     0 < ybi_CheckIntervalSeconds b \<and> 0 < ybi_DedicatedBearerIdleSeconds b \<and> 0 < ybi_PendingBearerTimeoutSeconds b \<and>
     (ybi_DeleteDefaultBearers b \<longrightarrow> 0 < ybi_DefaultBearerIdleSeconds b) \<and>
     (\<forall>r \<in> set (ybi_Cleanup b). 0 < ybir_IdleSeconds r \<and> (ybir_BearerType r = ''default'' \<longrightarrow> ybi_DeleteDefaultBearers b)))"

lemma limits:
  assumes "sgwc_Validate c = Ok ()"
  shows "limits_sound c"
proof -
  note v = Validate_parts [OF assms]
  have "\<forall>r \<in> set (ybi_Cleanup b). 0 < ybir_IdleSeconds r \<and> (ybir_BearerType r = ''default'' \<longrightarrow> ybi_DeleteDefaultBearers b)"
    if "b = yg_BearerInactivity (y_GTPC c)" for b
  proof
    fix r assume r: "r \<in> set (ybi_Cleanup b)"
    have e: "each_rule ''features.bearer_inactivity'' (inactivity_rule_ok b True) ''cleanup'' (ybi_Cleanup b) = Ok ()"
      using v(6) by (simp add: validateBearerInactivity_def Let_def first_error_Ok that del: first_error.simps)
    obtain path where "inactivity_rule_ok b True path r = Ok ()" using each_rule_Ok [OF e r] by blast
    then show "0 < ybir_IdleSeconds r \<and> (ybir_BearerType r = ''default'' \<longrightarrow> ybi_DeleteDefaultBearers b)"
      by (simp add: inactivity_rule_ok_def first_error_Ok not_le del: first_error.simps)
  qed
  with v show ?thesis
    unfolding limits_sound_def Let_def
    by (simp add: validatePeerHealth_def validateDDN_def validateIdleDownlink_def validateMMERestoration_def
        validateSessionRecovery_def validateBearerInactivity_def Let_def first_error_Ok not_le not_less del: first_error.simps) linarith
qed

definition rules_sound :: "sgwc_yaml \<Rightarrow> bool" where
  "rules_sound c \<longleftrightarrow> (let g = y_GTPC c in
     (\<forall>r \<in> set (ymr_Preserve (yg_MMERestoration g) @ ymr_Delete (yg_MMERestoration g)).
        rule_in_range (ymrpr_APN r) (ymrpr_QCI r) \<lparr>ya_PriorityMin = ymrpr_ARPPriorityMin r, ya_PriorityMax = ymrpr_ARPPriorityMax r\<rparr>) \<and>
     (\<forall>r \<in> set (ydc_HighPriority (yg_DDNControl g) @ ydc_LowPriority (yg_DDNControl g) @
            yid_HighPriority (yg_IdleDownlink g) @ yid_Suppress (yg_IdleDownlink g)).
        rule_in_range (ydcpr_APN r) (ydcpr_QCI r) \<lparr>ya_PriorityMin = ydcpr_ARPPriorityMin r, ya_PriorityMax = ydcpr_ARPPriorityMax r\<rparr>))"

text \<open>The runtime priorities of a rule are those of the file, since the rules are linked.\<close>

lemma linked_rule:
  "linkMMERule r = r \<Longrightarrow> \<lparr>ya_PriorityMin = ymrpr_ARPPriorityMin r, ya_PriorityMax = ymrpr_ARPPriorityMax r\<rparr> = ymrpr_ARP r"
  "linkDDNRule d = d \<Longrightarrow> \<lparr>ya_PriorityMin = ydcpr_ARPPriorityMin d, ya_PriorityMax = ydcpr_ARPPriorityMax d\<rparr> = ydcpr_ARP d"
  by (cases r; cases "ymrpr_ARP r"; simp add: linkMMERule_def) (cases d; cases "ydcpr_ARP d"; simp add: linkDDNRule_def)

lemma links_rules:
  "\<forall>r \<in> set (ymr_Preserve (yg_MMERestoration (y_GTPC (linkRuntimeAliases c))) @ ymr_Delete (yg_MMERestoration (y_GTPC (linkRuntimeAliases c)))).
     linkMMERule r = r"
  "\<forall>r \<in> set (ydc_HighPriority (yg_DDNControl (y_GTPC (linkRuntimeAliases c))) @ ydc_LowPriority (yg_DDNControl (y_GTPC (linkRuntimeAliases c))) @
      yid_HighPriority (yg_IdleDownlink (y_GTPC (linkRuntimeAliases c))) @ yid_Suppress (yg_IdleDownlink (y_GTPC (linkRuntimeAliases c)))). linkDDNRule r = r"
  by (auto simp: linkRuntimeAliases_def Let_def link_mme_restoration_def link_ddn_def link_idle_downlink_def)

lemma rules:
  assumes "sgwc_Validate c = Ok ()" "linkRuntimeAliases c = c"
  shows "rules_sound c"
proof -
  note v = Validate_parts [OF assms(1)]
  have mme: "rule_in_range (ymrpr_APN r) (ymrpr_QCI r) (ymrpr_ARP r)"
    if "each_rule f mme_rule_ok cls rs = Ok ()" "r \<in> set rs" for f cls rs r
    using each_rule_Ok [OF that] validatePolicyRule_Ok by (auto simp: mme_rule_ok_def)
  have ddn: "rule_in_range (ydcpr_APN r) (ydcpr_QCI r) (ydcpr_ARP r)"
    if "each_rule f ddn_rule_ok cls rs = Ok ()" "r \<in> set rs" for f cls rs r
    using each_rule_Ok [OF that] validatePolicyRule_Ok by (auto simp: ddn_rule_ok_def)
  show ?thesis
    using v(2,3,4) links_rules [of c, unfolded assms(2)] linked_rule
    unfolding rules_sound_def Let_def
    by (auto simp: validateMMERestoration_def validateDDN_def validateIdleDownlink_def Let_def first_error_Ok
        simp del: first_error.simps dest: mme ddn)
qed


text \<open>A file that names the node, one control interface and one SGW-U.\<close>

definition sample_sgwc_yaml :: "sgwc_yaml \<Rightarrow> sgwc_yaml" where
  "sample_sgwc_yaml c = c\<lparr>y_SGWC := \<lparr>ys_NodeID = ''c1'', ys_PLMN = \<lparr>yp_MCC = ''001'', yp_MNC = ''01''\<rparr>, ys_StateDir = [], ys_ControlPlaneIP = []\<rparr>,
     y_Interfaces := \<lparr>yi_Control = [(''ctrl'', \<lparr>yci_Listen = ''10.0.0.1:2123''\<rparr>)]\<rparr>,
     y_GTPC := (y_GTPC c)\<lparr>yg_S11 := (yg_S11 (y_GTPC c))\<lparr>ysl_Bind := ''ctrl''\<rparr>, yg_S5C := \<lparr>ygl_Bind = ''ctrl''\<rparr>\<rparr>,
     y_PFCP := (y_PFCP c)\<lparr>ypfc_LocalAddr := ''10.0.0.1:8805'', ypfc_SGWU := [\<lparr>ysp_Name = ''u1'', ysp_NodeID = [], ysp_Addr = ''10.0.0.2:8805''\<rparr>]\<rparr>\<rparr>"

lemma sample_sgwc_loads:
  "sgwc_Load (\<lambda>_ c. Ok (sample_sgwc_yaml c) :: (unit, sgwc_yaml) outcome) [] = Ok (linkRuntimeAliases (sample_sgwc_yaml sgwc_Default))"
  by code_simp


end
