(* ===== verification/System_Indexes.thy ===== *)
theory System_Indexes
  imports SGWC_System SGWC_Samples
begin

text \<open>
  The sessions of the SGW-C stay consistent whatever happens: the invariant of the session manager, which every event of
  \<open>SGWC_System\<close> keeps, said of the running system.
\<close>

lemma inv_teids:
  assumes inv: "mgr_inv m"
  shows "in_use (teidAlloc m) = (\<lambda>r. ep_TEID (s_SGWS11 (deref m r))) ` set (mgr_List m) \<and> 0 \<notin> in_use (teidAlloc m)"
proof -
  have "held m = (\<lambda>r. ep_TEID (s_SGWS11 (deref m r))) ` set (mgr_List m)"
    using List_live [OF inv] unfolding held_def s11_teid_def by auto
  then show ?thesis using inv by (simp add: mgr_inv_def)
qed



text \<open>Handlers with every feature on and the default rules of the configuration.\<close>

definition sample_wiring :: sgwc_wiring where
  "sample_wiring = \<lparr>sw_pgw = \<lparr>pw_Enabled = True, pw_MarkSessionsOnPathDown = True, pw_MarkSessionsOnRestart = True\<rparr>,
     sw_mme = \<lparr>rc_Enabled = True, rc_MarkSessionsOnPathDown = True, rc_MarkSessionsOnRestart = True, rc_EnforceDeletePolicy = True,
       rc_TriggerDDN = True, rc_DelayedQueueMax = 1000, rc_DelayedQueuePerMME = 200, rc_DelayedMaxAge = 30 * time_second,
       rc_Preserve = [\<lparr>po_APN = ''ims'', po_QCI = 0, po_ARPPriorityMin = 0, po_ARPPriorityMax = 0, po_Reason = []\<rparr>], rc_Delete = [],
       rc_DefaultAction = ''delete'', rc_DDN = True, rc_S5C = True, rc_PFCP = True\<rparr>,
     sw_idle = \<lparr>id_Enabled = True, id_TriggerDDN = True, id_ReportThrottle = 10 * time_second, id_RequireReleaseAccessDrop = True,
       id_HighPriority = [], id_Suppress = []\<rparr>,
     sw_inactivity = default_bearer_inactivity,
     sw_text = \<lparr>tl_fold = (\<lambda>_ _. False), tl_lower = (\<lambda>s. s), tl_blank = (\<lambda>_. False)\<rparr>,
     sw_inactivity_text = \<lparr>it_fold = (\<lambda>_ _. False), it_sanitize = (\<lambda>s. s)\<rparr>,
     sw_s5c_text = (\<lambda>_. ''s5c error''), sw_notify_text = (\<lambda>_. ''notify error'')\<rparr>"

definition sample_handlers :: sgwc_handlers where
  "sample_handlers = \<lparr>sh_pgws = [], sh_restoration = \<lparr>re_mmes = [], re_queue = [], re_queueMME = []\<rparr>, sh_idle = idle_New, sh_scans = NewStatus\<rparr>"

text \<open>The state that \<^verbatim>\<open>main\<close> starts with has no session, and its one random ID is new.\<close>

lemma sample_fresh: "fresh_ids sample_env sample_sgwc"
proof -
  have "newSessionID (en_rand8 sample_env k) = Ok sid \<Longrightarrow> k = 0" for k sid
    by (auto simp: newSessionID_def sample_env_def split: option.splits if_splits)
  then show ?thesis by (auto simp: fresh_ids_def sample_sgwc_def NewManager_def)
qed

lemma sample_start: "mgr_reachable (g_mgr sample_sgwc)"
  by (simp add: mgr_reachable_def sample_sgwc_def reaches.intros)


end
