(* ===== verification/Delayed_Queue.thy ===== *)
theory Delayed_Queue
  imports System_Indexes
begin

text \<open>
  The queue of delayed notifications of MME restoration: its counters, its size and the times of its entries, through every
  history of the SGW-C.
\<close>

section \<open>Counting\<close>

definition entries_for :: "string \<Rightarrow> (string, delayed_ddn) gomap \<Rightarrow> nat" where
  "entries_for a q = length (filter (\<lambda>(k, e). dd_mmeAddr e = a) q)"

lemma entries_put:
  "mok q \<Longrightarrow> int (entries_for a (mput k e q)) = int (entries_for a q) + (if dd_mmeAddr e = a then 1 else 0) -
     (case mget q k of Some old \<Rightarrow> if dd_mmeAddr old = a then 1 else 0 | None \<Rightarrow> 0)"
  by (induction q) (auto simp: entries_for_def mput_def mget_def mok_def split: option.splits)

lemma entries_del:
  "mok q \<Longrightarrow> int (entries_for a (mdel k q)) = int (entries_for a q) -
     (case mget q k of Some old \<Rightarrow> if dd_mmeAddr old = a then 1 else 0 | None \<Rightarrow> 0)"
proof (induction q)
  case (Cons x q)
  obtain k' e where x: "x = (k', e)" by force
  have "mdel k q = q" if "mget q k = None" using that by (simp add: mdel_def mget_def map_of_eq_None_iff delete_id)
  with Cons show ?case by (auto simp: x entries_for_def mdel_def mget_def mok_def map_of_eq_None_iff split: option.splits)
qed (simp add: entries_for_def mdel_def mget_def)

lemma length_put: "mok q \<Longrightarrow> length (mput k e q) = (if mget q k = None then length q + 1 else length q)"
  by (induction q) (auto simp: mput_def mget_def mok_def)

section \<open>The invariant\<close>

text \<open>Every entry is counted for its MME, the queue is not longer than its limit, and no entry waits for longer than the
  maximal age.\<close>

definition queue_ok :: "restoration_config \<Rightarrow> restoration \<Rightarrow> bool" where
  "queue_ok cfg h \<longleftrightarrow> mok (re_queue h) \<and> (\<forall>a. queued_for a h = int (entries_for a (re_queue h))) \<and>
     int (length (re_queue h)) \<le> or_positive 1000 (rc_DelayedQueueMax cfg) \<and>
     (\<forall>k e. mget (re_queue h) k = Some e \<longrightarrow>
        dd_sessionID e = k \<and> dd_enqueuedAt e < dd_fireAt e \<and> dd_fireAt e - dd_enqueuedAt e \<le> rc_maxAge cfg)"

lemma queued_for_mput: "queued_for b (h\<lparr>re_queueMME := mput a n (re_queueMME h)\<rparr>) = (if b = a then n else queued_for b h)"
  by (simp add: queued_for_def map_simps)

lemma queued_for_queue [simp]: "queued_for b (h\<lparr>re_queue := q\<rparr>) = queued_for b h" "queued_for b (h\<lparr>re_mmes := ps\<rparr>) = queued_for b h"
  by (simp_all add: queued_for_def)

lemma drop_queued_fields [simp]: "re_queue (drop_queued a h) = re_queue h"
  by (simp add: drop_queued_def)

lemma queued_for_drop: "0 < queued_for a h \<Longrightarrow> queued_for b (drop_queued a h) = queued_for b h - (if b = a then 1 else 0)"
  by (simp add: drop_queued_def queued_for_mput)

lemma entry_counted:
  assumes "queue_ok cfg h" "mget (re_queue h) k = Some e"
  shows "0 < queued_for (dd_mmeAddr e) h"
proof -
  have "(k, e) \<in> set (re_queue h)" using assms by (auto simp: queue_ok_def mem_mget)
  then have "(k, e) \<in> set (filter (\<lambda>(k, e'). dd_mmeAddr e' = dd_mmeAddr e) (re_queue h))" by simp
  then have "0 < entries_for (dd_mmeAddr e) (re_queue h)" unfolding entries_for_def by (metis length_pos_if_in_set)
  then show ?thesis using assms(1) by (simp add: queue_ok_def)
qed

lemma queue_ok_replace:
  assumes "queue_ok cfg h" "mget (re_queue h) sid = Some old" "dd_sessionID e = sid" "dd_enqueuedAt e < dd_fireAt e"
    "dd_fireAt e - dd_enqueuedAt e \<le> rc_maxAge cfg"
  shows "queue_ok cfg ((drop_queued (dd_mmeAddr old) h)\<lparr>re_queue := mput sid e (re_queue h),
      re_queueMME := mput (dd_mmeAddr e) (queued_for (dd_mmeAddr e) (drop_queued (dd_mmeAddr old) h) + 1) (re_queueMME (drop_queued (dd_mmeAddr old) h))\<rparr>)"
proof -
  have m: "mok (re_queue h)" and q: "queued_for a h = int (entries_for a (re_queue h))" for a using assms(1) by (auto simp: queue_ok_def)
  note p = entry_counted [OF assms(1,2)]
  have "queued_for a ((drop_queued (dd_mmeAddr old) h)\<lparr>re_queue := mput sid e (re_queue h),
      re_queueMME := mput (dd_mmeAddr e) (queued_for (dd_mmeAddr e) (drop_queued (dd_mmeAddr old) h) + 1) (re_queueMME (drop_queued (dd_mmeAddr old) h))\<rparr>) =
     int (entries_for a (mput sid e (re_queue h)))" for a
    using queued_for_mput [where b = a and a = "dd_mmeAddr e" and h = "(drop_queued (dd_mmeAddr old) h)\<lparr>re_queue := mput sid e (re_queue h)\<rparr>"]
      queued_for_drop [OF p] entries_put [OF m, of a sid e] q assms(2)
    by (simp add: if_splits) (auto split: if_splits)
  with assms show ?thesis by (auto simp: queue_ok_def length_put map_simps split: if_splits)
qed

lemma queue_ok_insert:
  assumes "queue_ok cfg h" "mget (re_queue h) sid = None" "dd_sessionID e = sid" "dd_enqueuedAt e < dd_fireAt e"
    "dd_fireAt e - dd_enqueuedAt e \<le> rc_maxAge cfg" "int (length (re_queue h)) < or_positive 1000 (rc_DelayedQueueMax cfg)"
  shows "queue_ok cfg (h\<lparr>re_queue := mput sid e (re_queue h),
      re_queueMME := mput (dd_mmeAddr e) (queued_for (dd_mmeAddr e) h + 1) (re_queueMME h)\<rparr>)"
proof -
  have m: "mok (re_queue h)" and q: "queued_for a h = int (entries_for a (re_queue h))" for a using assms(1) by (auto simp: queue_ok_def)
  have "queued_for a (h\<lparr>re_queue := mput sid e (re_queue h),
      re_queueMME := mput (dd_mmeAddr e) (queued_for (dd_mmeAddr e) h + 1) (re_queueMME h)\<rparr>) = int (entries_for a (mput sid e (re_queue h)))" for a
    using queued_for_mput [where b = a and a = "dd_mmeAddr e" and h = "h\<lparr>re_queue := mput sid e (re_queue h)\<rparr>"] entries_put [OF m, of a sid e] q assms(2)
    by simp
  with assms show ?thesis by (auto simp: queue_ok_def length_put map_simps split: if_splits)
qed

lemma queue_ok_remove:
  assumes "queue_ok cfg h" "mget (re_queue h) sid = Some e"
  shows "queue_ok cfg (drop_queued (dd_mmeAddr e) (h\<lparr>re_queue := mdel sid (re_queue h)\<rparr>))"
proof -
  have m: "mok (re_queue h)" and q: "queued_for a h = int (entries_for a (re_queue h))" for a using assms(1) by (auto simp: queue_ok_def)
  have p: "0 < queued_for (dd_mmeAddr e) (h\<lparr>re_queue := mdel sid (re_queue h)\<rparr>)" using entry_counted [OF assms] by simp
  have "length (mdel sid (re_queue h)) \<le> length (re_queue h)" by (simp add: mdel_filter)
  moreover have "queued_for a (drop_queued (dd_mmeAddr e) (h\<lparr>re_queue := mdel sid (re_queue h)\<rparr>)) = int (entries_for a (mdel sid (re_queue h)))" for a
    using queued_for_drop [OF p, of a] entries_del [OF m, of a sid] q assms(2) by simp
  ultimately show ?thesis using assms by (auto simp: queue_ok_def map_simps split: if_splits)
qed


section \<open>Every event keeps it\<close>

lemma yields_aloop:
  assumes "\<And>x acc. P acc \<Longrightarrow> yields P (f x acc)" "P acc"
  shows "yields P (aloop f xs acc)"
  using assms(2)
proof (induction xs arbitrary: acc)
  case (Cons x xs)
  then show ?case by (auto intro: yields_abind_yields [OF assms(1)])
qed (simp add: yields_aret)

lemma yields_cases:
  "(b \<Longrightarrow> yields P m) \<Longrightarrow> (\<not> b \<Longrightarrow> yields P m') \<Longrightarrow> yields P (if b then m else m')"
  "(p = None \<Longrightarrow> yields P m) \<Longrightarrow> (\<And>x. p = Some x \<Longrightarrow> yields P (f x)) \<Longrightarrow> yields P (case p of None \<Rightarrow> m | Some x \<Rightarrow> f x)"
  "(\<And>x. yields P (f1 x)) \<Longrightarrow> (\<And>y. yields P (f2 y)) \<Longrightarrow> yields P (case q of Inl x \<Rightarrow> f1 x | Inr y \<Rightarrow> f2 y)"
  "(\<And>x y. w = (x, y) \<Longrightarrow> yields P (g x y)) \<Longrightarrow> yields P (case w of (x, y) \<Rightarrow> g x y)"
  by (simp_all split: option.splits sum.splits prod.splits)

lemmas yields_rules = yields_cases yields_abind yields_athen yields_aret yields_crash

abbreviation (input) queue_result :: "restoration_config \<Rightarrow> 'a \<times> restoration \<Rightarrow> bool" where
  "queue_result cfg r \<equiv> queue_ok cfg (snd r)"

lemma enqueue_ok:
  assumes "queue_ok cfg h"
  shows "yields (queue_result cfg) (enqueueDelayedDDN E cfg a r retry tm h)"
  unfolding enqueueDelayedDDN_def Let_def
  using assms by (intro yields_rules) (auto intro!: queue_ok_replace [where e = "\<lparr>dd_sessionID = _, dd_mmeAddr = a, dd_enqueuedAt = _, dd_fireAt = _\<rparr>", simplified]
      queue_ok_insert [where e = "\<lparr>dd_sessionID = _, dd_mmeAddr = a, dd_enqueuedAt = _, dd_fireAt = _\<rparr>", simplified])

definition counted_ok :: "restoration_config \<Rightarrow> nat \<times> nat \<times> restoration \<Rightarrow> bool" where
  "counted_ok cfg acc \<longleftrightarrow> queue_ok cfg (snd (snd acc))"

lemma restoration_ddn_ok:
  assumes "counted_ok cfg acc"
  shows "yields (counted_ok cfg) (restoration_ddn E uf text cfg a tm r acc)"
proof -
  obtain sent failed h where acc: "acc = (sent, failed, h)" by (metis prod_cases3)
  then have h: "queue_ok cfg h" using assms by (simp add: counted_ok_def)
  have send: "yields (counted_ok cfg) (abind (sendDDNNow E cfg r tm) (\<lambda>res. case res of
      Inl e \<Rightarrow> athen (ddn_failed E r (ddn_error_text text e) tm) (aret (sent, failed + 1, h))
    | Inr _ \<Rightarrow> aret (sent + 1, failed, h)))"
    using h by (intro yields_rules) (simp_all add: counted_ok_def)
  have delay: "yields (counted_ok cfg) (abind (enqueueDelayedDDN E cfg a r rt tm h) (\<lambda>(queued, h).
      aret (if queued then (sent, failed, h) else (sent, failed + 1, h))))" for rt
    by (rule yields_abind_yields [OF enqueue_ok [OF h]]) (auto simp: counted_ok_def intro!: yields_aret)
  show ?thesis
    unfolding restoration_ddn_def acc prod.case Let_def
    by (intro yields_rules send delay) (use h in \<open>simp_all add: counted_ok_def\<close>)
qed

lemma trigger_ok:
  assumes "queue_ok cfg h"
  shows "yields (counted_ok cfg) (triggerDDNForPreservedSessions E uf text cfg a tm h)"
  unfolding triggerDDNForPreservedSessions_def
  using assms by (intro yields_rules yields_aloop restoration_ddn_ok) (auto simp: counted_ok_def intro!: yields_rules)

lemma fire_ok:
  assumes "queue_ok cfg h"
  shows "yields (queue_ok cfg) (fireDelayedDDN E uf text cfg sid h)"
proof -
  let ?h = "\<lambda>e. drop_queued (dd_mmeAddr e) (h\<lparr>re_queue := mdel sid (re_queue h)\<rparr>)"
  have q: "queue_ok cfg (?h e)" if "mget (re_queue h) sid = Some e" for e by (rule queue_ok_remove [OF assms that])
  have enq: "yields (queue_ok cfg) (abind (enqueueDelayedDDN E cfg a r rt tm (?h e)) (\<lambda>(_, h). aret h))"
    if "mget (re_queue h) sid = Some e" for e a r rt tm
    by (rule yields_abind_yields [OF enqueue_ok [OF q [OF that]]]) (auto intro!: yields_aret)
  show ?thesis
    unfolding fireDelayedDDN_def Let_def by (intro enq yields_rules) (auto simp: q assms)
qed

lemma record_ok:
  "queue_ok cfg h \<Longrightarrow> yields (queue_ok cfg) (mme_recordStateChange E a tm st n h)"
  "queue_ok cfg h \<Longrightarrow> yields (queue_ok cfg) (mme_recordRestart E a tm rc n h)"
  unfolding mme_recordStateChange_def mme_recordRestart_def by (intro yields_rules; simp add: queue_ok_def)+

lemma state_change_ok: "queue_ok cfg h \<Longrightarrow> yields (queue_ok cfg) (mme_OnPeerStateChange E cfg role a new tm h)"
  unfolding mme_OnPeerStateChange_def Let_def by (intro yields_rules record_ok)

lemma restart_ok:
  assumes "queue_ok cfg h"
  shows "yields (queue_ok cfg) (mme_OnPeerRestart E uf t1 t2 cfg role a rc tm h)"
proof -
  have trig: "yields (queue_ok cfg) (abind (triggerDDNForPreservedSessions E uf t2 cfg a tm h) (\<lambda>(_, _, h). mme_recordRestart E a tm rc n h))" for n
    by (rule yields_abind_yields [OF trigger_ok [OF assms]]) (auto simp: counted_ok_def intro!: record_ok)
  then show ?thesis unfolding mme_OnPeerRestart_def by (intro trig yields_rules) (simp_all add: assms)
qed

lemma do_queue_ok:
  assumes "queue_ok (sw_mme W) (sh_restoration x)"
  shows "yields (\<lambda>x. queue_ok (sw_mme W) (sh_restoration x)) (sgwc_do E W ev x)"
proof -
  have 1: "yields (\<lambda>x. queue_ok (sw_mme W) (sh_restoration x)) (abind m (\<lambda>h. aret (f h)))"
    if "yields (queue_ok (sw_mme W)) m" "\<And>h. sh_restoration (f h) = h" for m and f :: "restoration \<Rightarrow> sgwc_handlers"
    by (rule yields_abind_yields [OF that(1)]) (simp add: yields_aret that(2))
  show ?thesis
    unfolding sgwc_do_def using assms
    by (cases ev) (simp_all, (intro yields_abind 1 state_change_ok restart_ok fire_ok; simp
        | intro yields_athen yields_abind yields_aret; simp)+)
qed

lemma run_queue_ok:
  "queue_ok (sw_mme W) (sh_restoration x) \<Longrightarrow> yields (\<lambda>x. queue_ok (sw_mme W) (sh_restoration x)) (sgwc_run E W evs x)"
  by (induction evs arbitrary: x) (simp_all add: yields_aret yields_abind_yields [OF do_queue_ok])

text \<open>
  C14: the delayed notifications stay within bounds through every history: starting without any, the number counted for each MME
  is that of its entries in the queue, the queue is never longer than its limit (1000 when none is configured), every entry is
  filed under its session, and waits for a time that is positive and at most the maximal age.
\<close>

theorem delayed_notifications_bounded:
  assumes "re_queue (sh_restoration x) = []" "re_queueMME (sh_restoration x) = []"
    and "sgwc_run E W evs x s = (Some x', s')"
  shows "(\<forall>a. queued_for a (sh_restoration x') = int (length (filter (\<lambda>(k, e). dd_mmeAddr e = a) (re_queue (sh_restoration x'))))) \<and>
    int (length (re_queue (sh_restoration x'))) \<le> (if rc_DelayedQueueMax (sw_mme W) \<le> 0 then 1000 else rc_DelayedQueueMax (sw_mme W)) \<and>
    (\<forall>k e. mget (re_queue (sh_restoration x')) k = Some e \<longrightarrow> dd_sessionID e = k \<and> dd_enqueuedAt e < dd_fireAt e \<and>
       dd_fireAt e - dd_enqueuedAt e \<le> (if rc_DelayedMaxAge (sw_mme W) \<le> 0 then 30 * time_second else rc_DelayedMaxAge (sw_mme W)))"
proof -
  have "queue_ok (sw_mme W) (sh_restoration x)"
    using assms(1,2) by (simp add: queue_ok_def queued_for_def entries_for_def or_positive_def)
  from run_queue_ok [OF this, of E evs] assms(3) have "queue_ok (sw_mme W) (sh_restoration x')"
    unfolding yields_def by blast
  then show ?thesis by (simp add: queue_ok_def entries_for_def or_positive_def rc_maxAge_def)
qed


text \<open>An MME goes down, and a timer fires whose entry is gone.\<close>

definition sample_peer_events :: "sgwc_event list" where
  "sample_peer_events = [PeerChanges RoleMME ''10.1.1.1:2123'' ''down'' 78, DelayedDDNFires ''s1'']"

lemma sample_peer_run:
  "\<exists>x' s'. sgwc_run sample_env sample_wiring sample_peer_events sample_handlers sample_sgwc = (Some x', s')"
  by (simp add: sample_peer_events_def sgwc_do_def sample_wiring_def sample_handlers_def pgw_OnPeerStateChange_def
      mme_OnPeerStateChange_def mark_sessions_def clock_reads_def FindByMME_def MarkMMEPathState_def mme_recordStateChange_def
      record_path_def event_time_def fireDelayedDDN_def sample_sgwc_def NewManager_def mgr_List_def put_mgr_def put_out_def amod_def
      abind_def athen_def aget_def aret_def Let_def split: if_splits)

theorem delayed_notifications_bounded_witness:
  "\<exists>x' s'. sgwc_run sample_env sample_wiring sample_peer_events sample_handlers sample_sgwc = (Some x', s') \<and>
     length (re_queue (sh_restoration x')) \<le> 1000"
proof -
  obtain x' s' where r: "sgwc_run sample_env sample_wiring sample_peer_events sample_handlers sample_sgwc = (Some x', s')"
    using sample_peer_run by blast
  have "re_queue (sh_restoration sample_handlers) = []" "re_queueMME (sh_restoration sample_handlers) = []"
    by (simp_all add: sample_handlers_def)
  from delayed_notifications_bounded [OF this r] r show ?thesis by (auto simp: sample_wiring_def)
qed


text \<open>The limit per MME has no such law: an entry that moves to another MME is counted there without looking at its limit.\<close>

lemma replacement_exceeds_mme_limit:
  assumes "mget (re_queue h) (s_SessionID (deref (g_mgr s) r)) = Some old" "dd_mmeAddr old \<noteq> a" "0 < retry" "retry \<le> rc_maxAge cfg" "tm \<noteq> 0"
  shows "\<exists>h'. enqueueDelayedDDN E cfg a r retry tm h s = (Some (True, h'), s) \<and> queued_for a h' = queued_for a h + 1"
proof -
  have "queued_for a (drop_queued (dd_mmeAddr old) h) = queued_for a h"
    using assms(2) by (simp add: drop_queued_def queued_for_mput)
  then show ?thesis
    using assms by (simp add: enqueueDelayedDDN_def event_time_def sess_of_def abind_def aget_def aret_def Let_def queued_for_def map_simps)
qed

end
