(* ===== verification/Inactivity_Safety.thy ===== *)
theory Inactivity_Safety
  imports SGWC_System SGWC_Samples
begin

text \<open>
  What a scan for inactive bearers can do to the sessions: a bearer goes only when the rules of the operator say so, it
  was idle for long enough, it is not the default bearer, and the SGW-U confirmed that its rules are gone.
\<close>

section \<open>Primitive steps\<close>

lemma on_session_frame:
  "byID (fst (on_session r f m)) = byID m" "length (heap (fst (on_session r f m))) = length (heap m)"
  by (simp_all add: on_session_def case_prod_beta Let_def)

lemma deref_on_session:
  "q < length (heap m) \<Longrightarrow> deref (fst (on_session r f m)) q = (if q = r then fst (f (deref m r)) else deref m q)"
  using deref_list_update [of q m r] by (simp add: on_session_def case_prod_beta Let_def)

lemma removed_rules:
  assumes "pfcp_remove_rules E ad up pdrs fars s = (out, s')"
  shows "g_mgr s' = g_mgr s" "set (g_out s) \<subseteq> set (g_out s')"
    "out = Some (Inr u) \<Longrightarrow> PFCPDone (P_RemoveRules ad up pdrs fars) True \<in> set (g_out s')"
proof -
  obtain r c where r: "RemoveBearerRulesOnPeer (en_pfcp E (g_k s)) ad up pdrs fars (g_pfcp s) = (r, c)" by force
  with assms show "g_mgr s' = g_mgr s" "set (g_out s) \<subseteq> set (g_out s')"
    "out = Some (Inr u) \<Longrightarrow> PFCPDone (P_RemoveRules ad up pdrs fars) True \<in> set (g_out s')"
    by (auto simp: pfcp_remove_rules_def pfcp_call_def abind_def athen_def aget_def amod_def tick_def put_out_def attempt_def aret_def crash_def
        split: outcome.splits)
qed

lemma deleted_bearer:
  assumes "delete_bearer E r ebi s = (out, s')"
  obtains t1 t2 t3 where "g_mgr s' = fst (on_session r (run_call (C_DeleteBearer t1 t2 t3 ebi)) (g_mgr s))" "set (g_out s) \<subseteq> set (g_out s')"
  using assms
  by (auto simp: delete_bearer_def clock_def call_session_def abind_def athen_def aget_def amod_def tick_def put_out_def put_mgr_def aret_def
      simp del: run_call.simps)

section \<open>The invariant of a scan\<close>

text \<open>The bearer of a session was dropped for one of the decisions, after the SGW-U removed its rules.\<close>

definition dropped :: "inactivity_decision list \<Rightarrow> manager \<Rightarrow> sref \<Rightarrow> u8 \<Rightarrow> sgwc_effect set \<Rightarrow> bool" where
  "dropped ds m r ebi out \<longleftrightarrow> ebi \<noteq> s_DefaultBearerID (deref m r) \<and>
     (\<exists>d \<in> set ds. bd_Action d = DecisionCleanupDedicatedBearer \<and> bd_EBI d = ebi \<and> mgr_Find (bd_SessionID d) m = Some r) \<and>
     (\<exists>b ad up. GetBearer ebi (deref m r) = Some b \<and>
        PFCPDone (P_RemoveRules ad up (pair_list (b_PDRIDs b)) (pair_list (b_FARIDs b))) True \<in> out)"

definition scanned :: "inactivity_decision list \<Rightarrow> manager \<Rightarrow> sgwc \<Rightarrow> bool" where
  "scanned ds m s \<longleftrightarrow> byID (g_mgr s) = byID m \<and> length (heap (g_mgr s)) = length (heap m) \<and>
     (\<forall>r < length (heap m). s_DefaultBearerID (deref (g_mgr s) r) = s_DefaultBearerID (deref m r) \<and>
        (\<forall>ebi. GetBearer ebi (deref (g_mgr s) r) = GetBearer ebi (deref m r) \<or>
           GetBearer ebi (deref (g_mgr s) r) = None \<and> dropped ds m r ebi (set (g_out s))))"

lemma dropped_mono: "dropped ds m r ebi out \<Longrightarrow> out \<subseteq> out' \<Longrightarrow> dropped ds m r ebi out'"
  by (auto simp: dropped_def)

lemma scanned_same: "scanned ds m s \<Longrightarrow> g_mgr s' = g_mgr s \<Longrightarrow> set (g_out s) \<subseteq> set (g_out s') \<Longrightarrow> scanned ds m s'"
  unfolding scanned_def using dropped_mono by metis

lemma run_delete: "fst (run_call (C_DeleteBearer t1 t2 t3 ebi) x) = x\<lparr>s_Bearers := mdel ebi (s_Bearers x), s_UpdatedAt := t3\<rparr>"
  by (simp add: DeleteBearer_def saved_def)

lemma scanned_delete:
  assumes "scanned ds m s" "delete_bearer E r ebi s = (out, s')" "dropped ds m r ebi (set (g_out s))"
  shows "scanned ds m s'"
proof -
  obtain t1 t2 t3 where g: "g_mgr s' = fst (on_session r (run_call (C_DeleteBearer t1 t2 t3 ebi)) (g_mgr s))"
    and o: "set (g_out s) \<subseteq> set (g_out s')"
    by (rule deleted_bearer [OF assms(2)])
  have l: "length (heap (g_mgr s)) = length (heap m)" using assms(1) by (simp add: scanned_def)
  have d: "deref (g_mgr s') q = (if q = r then (deref (g_mgr s) r)\<lparr>s_Bearers := mdel ebi (s_Bearers (deref (g_mgr s) r)), s_UpdatedAt := t3\<rparr>
      else deref (g_mgr s) q)" if "q < length (heap m)" for q
    using that unfolding g by (simp add: deref_on_session l run_delete del: run_call.simps)
  show ?thesis
    unfolding scanned_def
  proof (intro conjI allI impI)
    show "byID (g_mgr s') = byID m" "length (heap (g_mgr s')) = length (heap m)"
      using assms(1) by (simp_all add: scanned_def g on_session_frame)
    fix q e assume q: "q < length (heap m)"
    then show "s_DefaultBearerID (deref (g_mgr s') q) = s_DefaultBearerID (deref m q)"
      using assms(1) by (simp add: d scanned_def)
    show "GetBearer e (deref (g_mgr s') q) = GetBearer e (deref m q) \<or>
        GetBearer e (deref (g_mgr s') q) = None \<and> dropped ds m q e (set (g_out s'))"
    proof (cases "q = r \<and> e = ebi")
      case True
      then show ?thesis using q dropped_mono [OF assms(3) o] by (simp add: d GetBearer_def map_simps)
    next
      case False
      then have "GetBearer e (deref (g_mgr s') q) = GetBearer e (deref (g_mgr s) q)" using q by (simp add: d GetBearer_def map_simps)
      moreover have "GetBearer e (deref (g_mgr s) q) = GetBearer e (deref m q) \<or>
          GetBearer e (deref (g_mgr s) q) = None \<and> dropped ds m q e (set (g_out s))"
        using assms(1) q by (simp add: scanned_def)
      ultimately show ?thesis using dropped_mono [OF _ o] by auto
    qed
  qed
qed

text \<open>The states an action can lead to are computed by running it.\<close>

lemma cleanup_scanned:
  assumes J: "scanned ds m s" and d: "d \<in> set ds" "bd_Action d = DecisionCleanupDedicatedBearer" and i: "ids_ok m"
  shows "scanned ds m (snd (cleanupDedicatedBearer E d s))"
proof -
  have f: "mgr_Find (bd_SessionID d) (g_mgr s) = mgr_Find (bd_SessionID d) m" using J by (simp add: scanned_def mgr_Find_def)
  show ?thesis
  proof (cases "mgr_Find (bd_SessionID d) m")
    case None
    then show ?thesis using J f by (simp add: cleanupDedicatedBearer_def abind_def aget_def aret_def)
  next
    case (Some r)
    define x where "x = deref (g_mgr s) r"
    have r: "r < length (heap m)" using Some i by (auto simp: ids_ok_def mgr_Find_def)
    have x: "s_DefaultBearerID x = s_DefaultBearerID (deref m r)"
      "\<And>b. GetBearer (bd_EBI d) x = Some b \<Longrightarrow> GetBearer (bd_EBI d) (deref m r) = Some b"
      using J r by (auto simp: scanned_def x_def) (metis option.distinct(1))
    consider "snd (cleanupDedicatedBearer E d s) = s" | b ad up out s1 where
        "bd_EBI d \<noteq> s_DefaultBearerID x" "GetBearer (bd_EBI d) x = Some b"
        "pfcp_remove_rules E ad up (pair_list (b_PDRIDs b)) (pair_list (b_FARIDs b)) s = (out, s1)"
        "snd (cleanupDedicatedBearer E d s) = (if out = Some (Inr ()) then snd (delete_bearer E r (bd_EBI d) s1) else s1)"
    proof (cases "GetBearer (bd_EBI d) x")
      case None
      then have "snd (cleanupDedicatedBearer E d s) = s"
        by (simp add: cleanupDedicatedBearer_def abind_def aget_def aret_def sess_of_def f Some x_def [symmetric])
      then show thesis by (rule that(1))
    next
      case b: (Some b)
      obtain out s1 where p: "pfcp_remove_rules E (SGWUAddr (s_PFCP x)) (SEID (SGWUFSEID (s_PFCP x))) (pair_list (b_PDRIDs b)) (pair_list (b_FARIDs b)) s = (out, s1)"
        by force
      show thesis
      proof (cases "snd (cleanupDedicatedBearer E d s) = s \<or> bd_EBI d = s_DefaultBearerID x")
        case True
        then have "snd (cleanupDedicatedBearer E d s) = s"
          by (auto simp: cleanupDedicatedBearer_def abind_def aget_def aret_def sess_of_def f Some x_def [symmetric])
        then show thesis by (rule that(1))
      next
        case False
        then have "snd (cleanupDedicatedBearer E d s) = (if out = Some (Inr ()) then snd (delete_bearer E r (bd_EBI d) s1) else s1)"
          using b p
          by (simp add: cleanupDedicatedBearer_def abind_def athen_def aget_def aret_def sess_of_def f Some x_def [symmetric] Let_def
              split: if_splits option.splits prod.splits sum.splits)
        with that(2) False b p show thesis by blast
      qed
    qed
    then show ?thesis
    proof cases
      case 1 with J show ?thesis by simp
    next
      case (2 b ad up out s1)
      have s1: "scanned ds m s1" using scanned_same [OF J] removed_rules(1,2) [OF 2(3)] by blast
      show ?thesis
      proof (cases "out = Some (Inr ())")
        case True
        then have "dropped ds m r (bd_EBI d) (set (g_out s1))"
          using 2 x d Some removed_rules(3) [OF 2(3)] unfolding dropped_def by auto
        from scanned_delete [OF s1 _ this] show ?thesis using 2(4) True by (metis prod.collapse)
      qed (use 2(4) s1 in simp)
    qed
  qed
qed


lemma keeps_aloop_mem:
  "(\<And>x acc. x \<in> set xs \<Longrightarrow> keeps I (f x acc)) \<Longrightarrow> keeps I (aloop f xs acc)"
  by (induction xs arbitrary: acc) (auto intro!: keeps_basic keeps_abind)

lemma scan_keeps:
  assumes "ids_ok m" "ds = EvaluateManager L cfg m now"
  shows "keeps (scanned ds m) (aloop (apply_decision E) ds no_cleanup)"
proof (rule keeps_aloop_mem)
  fix d acc assume "d \<in> set ds"
  then have "bd_Action d = DecisionCleanupDedicatedBearer \<Longrightarrow> keeps (scanned ds m) (cleanupDedicatedBearer E d)"
    using cleanup_scanned [OF _ _ _ assms(1)] by (simp add: keeps_def)
  then show "keeps (scanned ds m) (apply_decision E d acc)"
    unfolding apply_decision_def Let_def by (auto intro!: keeps_abind keeps_basic)
qed

section \<open>Why a bearer went\<close>

lemma cleanup_conditions:
  assumes "bd_Action (EvaluateBearer L cfg x now b) = DecisionCleanupDedicatedBearer"
  shows "ybi_Enabled cfg \<and> firstMatchingRule (it_fold L) (ybi_Preserve cfg) (s_APN x) ''dedicated'' b = None \<and>
    (\<exists>rule. firstMatchingRule (it_fold L) (ybi_Cleanup cfg) (s_APN x) ''dedicated'' b = Some rule \<and>
      0 < idleThreshold cfg ''dedicated'' (b_State b) rule \<and>
      latestTime (b_LastControlActivityAt b) (b_LastUserPlaneActivityAt b) \<noteq> 0 \<and>
      idleThreshold cfg ''dedicated'' (b_State b) rule \<le> now - latestTime (b_LastControlActivityAt b) (b_LastUserPlaneActivityAt b))"
proof -
  have t: "b_EBI b \<noteq> s_DefaultBearerID x"
    using assms by (auto simp: EvaluateBearer_def baseDecision_def decide_idle_def Let_def split: option.splits if_splits)
  with assms show ?thesis
    by (auto simp: EvaluateBearer_def baseDecision_def decide_idle_def idle_since_def Let_def split: option.splits if_splits)
qed

lemma evaluated:
  assumes "d \<in> set (EvaluateManager L cfg m now)"
  obtains q b where "q \<in> set (mgr_List m)" "b \<in> set (BearerList (deref m q))" "d = EvaluateBearer L cfg (deref m q) now b"
    "bd_SessionID d = s_SessionID (deref m q)" "bd_EBI d = b_EBI b"
proof -
  have f: "bd_SessionID (EvaluateBearer L cfg x now b) = s_SessionID x \<and> bd_EBI (EvaluateBearer L cfg x now b) = b_EBI b" for x b
    by (auto simp: EvaluateBearer_def baseDecision_def decide_idle_def Let_def split: option.splits)
  with assms that show thesis by (auto simp: EvaluateManager_def EvaluateSession_def)
qed

text \<open>
  C5: the cleanup of inactive bearers takes nothing it should not. After a scan, also one that panicked, a bearer of a session is
  as it was, unless it was a dedicated bearer that no rule preserves and a cleanup rule covers, had been idle for the
  rule's time since its last control or user plane activity, and the SGW-U confirmed that exactly its rules were removed.
\<close>

theorem inactivity_takes_only_idle_bearers:
  assumes "mgr_reachable (g_mgr s)" "r \<in> set (mgr_List (g_mgr s))" "GetBearer ebi (deref (g_mgr s) r) = Some b"
    and "inactivity_tick E L cfg st s = (out, s')"
  shows "GetBearer ebi (deref (g_mgr s') r) = Some b \<or>
    GetBearer ebi (deref (g_mgr s') r) = None \<and> ebi \<noteq> s_DefaultBearerID (deref (g_mgr s) r) \<and> ybi_Enabled cfg \<and>
    (\<exists>ad up. PFCPDone (P_RemoveRules ad up (pair_list (b_PDRIDs b)) (pair_list (b_FARIDs b))) True \<in> set (g_out s')) \<and>
    (\<exists>b' \<in> set (BearerList (deref (g_mgr s) r)). b_EBI b' = ebi \<and>
       firstMatchingRule (it_fold L) (ybi_Preserve cfg) (s_APN (deref (g_mgr s) r)) ''dedicated'' b' = None \<and>
       (\<exists>rule. firstMatchingRule (it_fold L) (ybi_Cleanup cfg) (s_APN (deref (g_mgr s) r)) ''dedicated'' b' = Some rule \<and>
          0 < idleThreshold cfg ''dedicated'' (b_State b') rule \<and>
          idleThreshold cfg ''dedicated'' (b_State b') rule \<le>
            en_now E (g_k s) - latestTime (b_LastControlActivityAt b') (b_LastUserPlaneActivityAt b')))"
proof -
  let ?m = "g_mgr s"
  define ds where "ds = EvaluateManager L cfg ?m (en_now E (g_k s))"
  have i: "ids_ok ?m" using reachable_inv [OF assms(1)] by (simp add: mgr_inv_def indexes_ok_def)
  have lst: "r < length (heap ?m)" using i assms(2) by (auto simp: ids_ok_def mgr_List_def mem_mget)
  have "scanned ds ?m (s\<lparr>g_k := g_k s + 1\<rparr>)" by (auto simp: scanned_def)
  then have "scanned ds ?m (snd (aloop (apply_decision E) ds no_cleanup (s\<lparr>g_k := g_k s + 1\<rparr>)))"
    by (rule keepsD [OF scan_keeps [OF i ds_def]])
  moreover have "snd (aloop (apply_decision E) ds no_cleanup (s\<lparr>g_k := g_k s + 1\<rparr>)) = s'"
    using assms(4) by (auto simp: inactivity_tick_def Apply_def clock_def tick_def abind_def aget_def aret_def ds_def split: prod.splits option.splits)
  ultimately have "GetBearer ebi (deref (g_mgr s') r) = Some b \<or>
      GetBearer ebi (deref (g_mgr s') r) = None \<and> dropped ds ?m r ebi (set (g_out s'))"
    using lst assms(3) unfolding scanned_def by metis
  moreover have "ybi_Enabled cfg \<and> (\<exists>b' \<in> set (BearerList (deref ?m r)). b_EBI b' = ebi \<and>
       firstMatchingRule (it_fold L) (ybi_Preserve cfg) (s_APN (deref ?m r)) ''dedicated'' b' = None \<and>
       (\<exists>rule. firstMatchingRule (it_fold L) (ybi_Cleanup cfg) (s_APN (deref ?m r)) ''dedicated'' b' = Some rule \<and>
          0 < idleThreshold cfg ''dedicated'' (b_State b') rule \<and>
          idleThreshold cfg ''dedicated'' (b_State b') rule \<le>
            en_now E (g_k s) - latestTime (b_LastControlActivityAt b') (b_LastUserPlaneActivityAt b')))"
    if dr: "dropped ds ?m r ebi (set (g_out s'))"
  proof -
    obtain d where d: "d \<in> set ds" "bd_Action d = DecisionCleanupDedicatedBearer" "bd_EBI d = ebi" "mgr_Find (bd_SessionID d) ?m = Some r"
      using dr unfolding dropped_def by blast
    obtain q b' where q: "q \<in> set (mgr_List ?m)" "b' \<in> set (BearerList (deref ?m q))" "d = EvaluateBearer L cfg (deref ?m q) (en_now E (g_k s)) b'"
      "bd_SessionID d = s_SessionID (deref ?m q)" "bd_EBI d = b_EBI b'"
      using evaluated [of d L cfg ?m] d(1) unfolding ds_def by blast
    have "q = r" using i d(4) q(1,4) by (auto simp: ids_ok_def mgr_List_def mgr_Find_def mem_mget)
    then have "bd_Action (EvaluateBearer L cfg (deref ?m r) (en_now E (g_k s)) b') = DecisionCleanupDedicatedBearer"
      using d(2) q(3) by simp
    from cleanup_conditions [OF this] q(2,5) d(3) \<open>q = r\<close> show ?thesis by auto
  qed
  ultimately show ?thesis using assms(3) unfolding dropped_def by fastforce
qed


text \<open>One session with a dedicated bearer.\<close>

definition sample_bearer :: bearer where
  "sample_bearer = \<lparr>b_EBI = 6, b_QCI = 9, b_ARP = \<lparr>PriorityLevel = 8, PreemptionCapability = False, PreemptionVulnerability = False\<rparr>,
     b_ENBS1U = noFTEID, b_SGWS1U = noFTEID, b_PGWS5U = noFTEID, b_SGWS5U = noFTEID, b_MBRUplink = 0, b_MBRDownlink = 0,
     b_GBRUplink = 0, b_GBRDownlink = 0, b_TFT = None, b_State = ''active'', b_PDRIDs = (3, 4), b_FARIDs = (3, 4),
     b_LastControlActivityAt = 0, b_LastUserPlaneActivityAt = 0, b_LastActivitySource = [], b_InactiveSince = 0, b_CleanupEligible = False\<rparr>"

definition sample_dedicated :: sgwc where
  "sample_dedicated = sample_sgwc\<lparr>g_mgr := mgr_step (M_Session 0 (C_SetBearer 5 5 sample_bearer)) (mgr_step sample_create NewManager)\<rparr>"

lemma sample_dedicated_reachable: "mgr_reachable (g_mgr sample_dedicated)"
  using sample_reachable unfolding mgr_reachable_def sample_dedicated_def by (simp add: reaches.intros del: mgr_step.simps)

lemma sample_dedicated_bearer: "0 \<in> set (mgr_List (g_mgr sample_dedicated)) \<and> GetBearer 6 (deref (g_mgr sample_dedicated) 0) \<noteq> None"
  by code_simp

theorem inactivity_takes_only_idle_bearers_witness:
  "\<exists>b. GetBearer 6 (deref (g_mgr sample_dedicated) 0) = Some b \<and>
    (let s' = snd (inactivity_tick sample_env \<lparr>it_fold = (\<lambda>_ _. False), it_sanitize = (\<lambda>s. s)\<rparr> default_bearer_inactivity NewStatus sample_dedicated) in
     GetBearer 6 (deref (g_mgr s') 0) = Some b \<or> GetBearer 6 (deref (g_mgr s') 0) = None)"
proof -
  obtain b where b: "GetBearer 6 (deref (g_mgr sample_dedicated) 0) = Some b" using sample_dedicated_bearer by auto
  obtain out s' where r: "inactivity_tick sample_env \<lparr>it_fold = (\<lambda>_ _. False), it_sanitize = (\<lambda>s. s)\<rparr> default_bearer_inactivity NewStatus sample_dedicated = (out, s')"
    by force
  show ?thesis
    using inactivity_takes_only_idle_bearers [OF sample_dedicated_reachable _ b r] sample_dedicated_bearer b r by auto
qed

end
