(* ===== verification/Spec2Isabelle.thy ===== *)
theory Spec2Isabelle
  imports SGW_Prelude TEID_Allocator GTPU_Header Collision GTPv2_IE GTPv2_Message
    GTPv2_Procedures SGWU_Store GTPU_Forwarder BPF_Compiler Go_Net Session_State Session_Manager
    Session_Recovery Checkpoint_Writer PFCP_IE PFCP_Message PFCP_Server PFCP_Sessions
    Transactions PFCP_Transport GTPv2_Transport PFCP_Client Sxa_Sessions Peer_Health DDN_Control
    SGWC_State S5C_Client S11_Common S11_Transactions S11_Bearer S11_Bearer_Procs S11_Session
    S11_Notify S11_Handler SGWC_Runtime SGWC_Sessions Path_Failure Idle_Downlink SGWC_Config
    Bearer_Inactivity SGWC_System Bearer_Copies Handler_Depth SGWC_Samples Path_Prober
    SGWU_Config Config_Soundness System_Indexes Delayed_Queue Inactivity_Safety
begin

text \<open>
  A verification development for VectorCore SGW, an LTE Serving Gateway split into a control
  plane (SGW-C) and a user plane (SGW-U).
\<close>

end
